(* ===== verification/JS_Number.thy ===== *)
theory JS_Number
  imports Complex_Main "HOL-Library.Log_Nat"
begin

text \<open>
  The \<open>number\<close> type of the source language: an IEEE 754 double. Every amount, quantity,
  tolerance and delay of the program is one. A value is \<open>NaN\<close>, an infinity or
  \<open>Fin r\<close> with \<open>r\<close> the rational the double stands for; the two zeros are one
  value (the program never divides by a variable and never asks for the sign of a zero).
  Each arithmetic operation computes the exact rational result and rounds it to the nearest
  double, ties to even, with gradual underflow and overflow to an infinity, as the language
  does. The lemmas state what the program relies on: integers up to \<open>2^53\<close> are exact
  (so sums and products of quantities and minor units are the integer ones in that range),
  and one rounding moves a value by at most the relative error \<open>2^(-53)\<close>.
\<close>

section \<open>Doubles\<close>

datatype number = NaN | PInf | NInf | Fin rat

text \<open>\<open>N i\<close> is the double that an integer literal \<open>i\<close> of the source denotes.\<close>

abbreviation N :: "int \<Rightarrow> number" where
  "N i \<equiv> Fin (of_int i)"

definition pow2 :: "int \<Rightarrow> rat" where
  "pow2 e = 2 powi e"

text \<open>\<open>ilog2 x\<close> is the exponent of the leading bit of a positive rational.\<close>

definition ilog2 :: "rat \<Rightarrow> int" where
  "ilog2 x =
     (let (n, d) = quotient_of x; k = bitlen n - bitlen d
      in if pow2 k \<le> x then k else k - 1)"

definition round_half_even :: "rat \<Rightarrow> int" where
  "round_half_even x =
     (let f = \<lfloor>x\<rfloor>; r = x - of_int f
      in if r < 1 / 2 then f else if 1 / 2 < r then f + 1 else if even f then f else f + 1)"

text \<open>The spacing of the doubles around \<open>x\<close>: 53 significant bits, at least \<open>2^(-1074)\<close>.\<close>

definition quantum :: "rat \<Rightarrow> int" where
  "quantum x = max (ilog2 \<bar>x\<bar> - 52) (- 1074)"

definition round_rat :: "rat \<Rightarrow> rat" where
  "round_rat x =
     (if x = 0 then 0
      else of_int (round_half_even (x / pow2 (quantum x))) * pow2 (quantum x))"

definition max_bound :: rat where
  "max_bound = 2 ^ 1024"

definition round_double :: "rat \<Rightarrow> number" where
  "round_double x =
     (let r = round_rat x
      in if max_bound \<le> r then PInf else if r \<le> - max_bound then NInf else Fin r)"

section \<open>The operations of the language\<close>

fun js_neg :: "number \<Rightarrow> number" where
  "js_neg NaN = NaN"
| "js_neg PInf = NInf"
| "js_neg NInf = PInf"
| "js_neg (Fin x) = Fin (- x)"

fun js_add :: "number \<Rightarrow> number \<Rightarrow> number" where
  "js_add (Fin x) (Fin y) = round_double (x + y)"
| "js_add NaN _ = NaN"
| "js_add _ NaN = NaN"
| "js_add PInf NInf = NaN"
| "js_add NInf PInf = NaN"
| "js_add PInf _ = PInf"
| "js_add NInf _ = NInf"
| "js_add _ PInf = PInf"
| "js_add _ NInf = NInf"

definition js_sub :: "number \<Rightarrow> number \<Rightarrow> number" where
  "js_sub x y = js_add x (js_neg y)"

definition inf_times :: "rat \<Rightarrow> number" where
  "inf_times x = (if 0 < x then PInf else if x < 0 then NInf else NaN)"

fun js_mul :: "number \<Rightarrow> number \<Rightarrow> number" where
  "js_mul (Fin x) (Fin y) = round_double (x * y)"
| "js_mul NaN _ = NaN"
| "js_mul _ NaN = NaN"
| "js_mul PInf (Fin y) = inf_times y"
| "js_mul NInf (Fin y) = inf_times (- y)"
| "js_mul (Fin x) PInf = inf_times x"
| "js_mul (Fin x) NInf = inf_times (- x)"
| "js_mul PInf PInf = PInf"
| "js_mul PInf NInf = NInf"
| "js_mul NInf PInf = NInf"
| "js_mul NInf NInf = PInf"

text \<open>Division occurs with a literal, non-zero divisor only.\<close>

fun js_div_lit :: "number \<Rightarrow> int \<Rightarrow> number" where
  "js_div_lit (Fin x) d = round_double (x / of_int d)"
| "js_div_lit NaN _ = NaN"
| "js_div_lit PInf d = inf_times (of_int d)"
| "js_div_lit NInf d = inf_times (- of_int d)"

text \<open>Relational operators: every comparison with \<open>NaN\<close> is false.\<close>

fun js_lt :: "number \<Rightarrow> number \<Rightarrow> bool" where
  "js_lt (Fin x) (Fin y) = (x < y)"
| "js_lt NaN _ = False"
| "js_lt _ NaN = False"
| "js_lt NInf y = (y \<noteq> NInf)"
| "js_lt x PInf = (x \<noteq> PInf)"
| "js_lt _ _ = False"

abbreviation js_gt :: "number \<Rightarrow> number \<Rightarrow> bool" where
  "js_gt x y \<equiv> js_lt y x"

definition js_eq :: "number \<Rightarrow> number \<Rightarrow> bool" where
  "js_eq x y \<longleftrightarrow> x = y \<and> x \<noteq> NaN"

definition js_le :: "number \<Rightarrow> number \<Rightarrow> bool" where
  "js_le x y \<longleftrightarrow> js_lt x y \<or> js_eq x y"

abbreviation js_ge :: "number \<Rightarrow> number \<Rightarrow> bool" where
  "js_ge x y \<equiv> js_le y x"

fun is_finite :: "number \<Rightarrow> bool" where
  "is_finite (Fin _) = True"
| "is_finite _ = False"

fun is_integer :: "number \<Rightarrow> bool" where
  "is_integer (Fin x) = (of_int \<lfloor>x\<rfloor> = x)"
| "is_integer _ = False"

text \<open>\<open>Math.round\<close> rounds to the nearest integer, ties towards plus infinity.\<close>

fun math_round :: "number \<Rightarrow> number" where
  "math_round (Fin x) = N \<lfloor>x + 1 / 2\<rfloor>"
| "math_round y = y"

definition math_max :: "number \<Rightarrow> number \<Rightarrow> number" where
  "math_max x y = (if x = NaN \<or> y = NaN then NaN else if js_lt x y then y else x)"

definition math_min :: "number \<Rightarrow> number \<Rightarrow> number" where
  "math_min x y = (if x = NaN \<or> y = NaN then NaN else if js_lt y x then y else x)"

section \<open>Powers of two and the leading bit\<close>

lemma pow2_pos [simp]: "0 < pow2 e"
  by (simp add: pow2_def)

lemma pow2_nonzero [simp]: "pow2 e \<noteq> 0"
  using pow2_pos [of e] by (metis less_irrefl)

lemma pow2_add: "pow2 (a + b) = pow2 a * pow2 b"
  by (simp add: pow2_def power_int_add)

lemma pow2_Suc: "pow2 (e + 1) = 2 * pow2 e"
  by (simp add: pow2_def power_int_add)

lemma pow2_nat: "0 \<le> e \<Longrightarrow> pow2 e = 2 ^ nat e"
  by (simp add: pow2_def power_int_def)

lemma pow2_diff: "pow2 (a - b) = pow2 a / pow2 b"
  by (simp add: pow2_def power_int_diff)

lemma pow2_mono: "a \<le> b \<Longrightarrow> pow2 a \<le> pow2 b"
  by (simp add: pow2_def power_int_increasing)

lemma pow2_less_imp: "pow2 a < pow2 b \<Longrightarrow> a < b"
  using pow2_mono [of b a] by force

lemma bitlen_rat_bounds:
  assumes "0 < (n :: int)"
  shows "pow2 (bitlen n - 1) \<le> of_int n" and "of_int n < pow2 (bitlen n)"
proof -
  have b: "2 ^ nat (bitlen n - 1) \<le> n" "n < 2 ^ nat (bitlen n)"
    using bitlen_bounds [OF assms] by auto
  have "1 \<le> bitlen n" using assms by (simp add: bitlen_def floorlog_def)
  then have e: "pow2 (bitlen n - 1) = of_int (2 ^ nat (bitlen n - 1))"
    "pow2 (bitlen n) = of_int (2 ^ nat (bitlen n))"
    by (simp_all add: pow2_nat)
  show "pow2 (bitlen n - 1) \<le> of_int n" using b(1) by (simp only: e of_int_le_iff)
  show "of_int n < pow2 (bitlen n)" using b(2) by (simp only: e of_int_less_iff)
qed

lemma ilog2_bounds:
  assumes "0 < x"
  shows "pow2 (ilog2 x) \<le> x" and "x < pow2 (ilog2 x + 1)"
proof -
  obtain n d where q: "quotient_of x = (n, d)" by fastforce
  have d: "0 < d" using q by (rule quotient_of_denom_pos)
  have x: "x = of_int n / of_int d" using q by (rule quotient_of_div)
  have n: "0 < n" using assms d by (simp add: x zero_less_divide_iff)
  define k where "k = bitlen n - bitlen d"
  have "x < pow2 (bitlen n) / pow2 (bitlen d - 1)"
    unfolding x using bitlen_rat_bounds [OF n] bitlen_rat_bounds [OF d] d n
    by (intro frac_less) auto
  then have hi: "x < pow2 (k + 1)"
    by (simp add: k_def flip: pow2_diff) (simp add: algebra_simps)
  have "pow2 (bitlen n - 1) / pow2 (bitlen d) \<le> x"
    unfolding x using bitlen_rat_bounds [OF n] bitlen_rat_bounds [OF d] d n
    by (intro frac_le) auto
  then have lo: "pow2 (k - 1) \<le> x"
    by (simp add: k_def flip: pow2_diff) (simp add: algebra_simps)
  have il: "ilog2 x = (if pow2 k \<le> x then k else k - 1)"
    by (simp add: ilog2_def q k_def Let_def)
  show "pow2 (ilog2 x) \<le> x" using lo by (simp add: il)
  show "x < pow2 (ilog2 x + 1)" using hi by (simp add: il)
qed

section \<open>Rounding\<close>

lemma round_half_even_of_int [simp]: "round_half_even (of_int i) = i"
  by (simp add: round_half_even_def)

lemma round_half_even_error: "\<bar>of_int (round_half_even x) - x\<bar> \<le> 1 / 2"
proof -
  have "of_int \<lfloor>x\<rfloor> \<le> x" "x < of_int \<lfloor>x\<rfloor> + 1" by linarith+
  then show ?thesis by (auto simp: round_half_even_def Let_def abs_le_iff)
qed

lemma round_rat_0 [simp]: "round_rat 0 = 0"
  by (simp add: round_rat_def)

lemma round_rat_error: "\<bar>round_rat x - x\<bar> \<le> pow2 (quantum x) / 2"
proof (cases "x = 0")
  case False
  let ?q = "pow2 (quantum x)" and ?m = "of_int (round_half_even (x / pow2 (quantum x)))"
  have "round_rat x - x = (?m - x / ?q) * ?q"
    using False by (simp add: round_rat_def field_simps)
  then have "\<bar>round_rat x - x\<bar> = \<bar>?m - x / ?q\<bar> * ?q"
    using pow2_pos [of "quantum x"] by (simp add: abs_mult less_imp_le)
  also have "\<dots> \<le> 1 / 2 * ?q"
    using round_half_even_error [of "x / ?q"] by (intro mult_right_mono) (auto simp: less_imp_le)
  finally show ?thesis by simp
qed (simp add: less_imp_le)

text \<open>One rounding of a value that is not tiny has relative error at most \<open>2^(-53)\<close>.\<close>

lemma round_rat_relative_error:
  assumes "1 \<le> \<bar>x\<bar>"
  shows "\<bar>round_rat x - x\<bar> \<le> \<bar>x\<bar> / 2 ^ 53"
proof -
  have p: "0 < \<bar>x\<bar>" using assms by linarith
  have "pow2 0 < pow2 (ilog2 \<bar>x\<bar> + 1)"
    using ilog2_bounds(2) [OF p] assms by (simp add: pow2_def)
  then have "0 \<le> ilog2 \<bar>x\<bar>" using pow2_less_imp by fastforce
  then have "quantum x = ilog2 \<bar>x\<bar> - 52" by (simp add: quantum_def)
  then have "pow2 (quantum x) / 2 = pow2 (ilog2 \<bar>x\<bar>) / 2 ^ 53"
    by (simp add: pow2_diff pow2_nat)
  also have "\<dots> \<le> \<bar>x\<bar> / 2 ^ 53"
    using ilog2_bounds(1) [OF p] by (intro divide_right_mono) auto
  finally show ?thesis using round_rat_error [of x] by linarith
qed

text \<open>Integers of at most 53 bits are doubles.\<close>

lemma round_rat_of_int:
  assumes "\<bar>i\<bar> \<le> 2 ^ 53"
  shows "round_rat (of_int i) = of_int i"
proof (cases "i = 0")
  case False
  let ?x = "of_int i :: rat"
  have p: "0 < \<bar>?x\<bar>" using False by simp
  have "\<bar>?x\<bar> \<le> of_int (2 ^ 53)" using assms by (metis of_int_abs of_int_le_iff)
  then have "pow2 (ilog2 \<bar>?x\<bar>) < pow2 54"
    using ilog2_bounds(1) [OF p] by (simp add: pow2_nat)
  then have l: "ilog2 \<bar>?x\<bar> \<le> 53" using pow2_less_imp by fastforce
  have "pow2 0 < pow2 (ilog2 \<bar>?x\<bar> + 1)"
    using ilog2_bounds(2) [OF p] False by (simp add: pow2_def)
  then have l0: "0 \<le> ilog2 \<bar>?x\<bar>" using pow2_less_imp by fastforce
  then have q: "quantum ?x = ilog2 \<bar>?x\<bar> - 52" by (simp add: quantum_def)
  obtain m where m: "?x / pow2 (quantum ?x) = of_int m"
  proof (cases "ilog2 \<bar>?x\<bar> = 53")
    case True
    then have "of_int (2 ^ 53) \<le> \<bar>?x\<bar>" using ilog2_bounds(1) [OF p] by (simp add: pow2_nat)
    then have "2 ^ 53 \<le> \<bar>i\<bar>" by (metis of_int_abs of_int_le_iff)
    then have "i = 2 ^ 53 \<or> i = - (2 ^ 53)" using assms by linarith
    then have "?x / pow2 (quantum ?x) = of_int (i div 2)"
      by (auto simp: q True pow2_def)
    then show ?thesis using that by blast
  next
    case False
    then have "0 \<le> - quantum ?x" using l q by linarith
    moreover have "?x / pow2 (quantum ?x) = ?x * pow2 (- quantum ?x)"
      by (simp add: pow2_def power_int_minus field_simps)
    ultimately have "?x / pow2 (quantum ?x) = of_int (i * 2 ^ nat (- quantum ?x))"
      by (simp add: pow2_nat)
    then show ?thesis using that by blast
  qed
  have "round_rat ?x = of_int m * pow2 (quantum ?x)"
    using False by (simp add: round_rat_def m)
  also have "\<dots> = ?x" by (simp add: field_simps flip: m)
  finally show ?thesis .
qed simp

section \<open>Integers in the exact range\<close>

text \<open>\<open>Number.MAX_SAFE_INTEGER + 1\<close>: up to here integer arithmetic on doubles is exact.\<close>

abbreviation exact_int :: "int \<Rightarrow> bool" where
  "exact_int i \<equiv> \<bar>i\<bar> \<le> 9007199254740992"

lemma round_double_of_int [simp]: "exact_int i \<Longrightarrow> round_double (of_int i) = N i"
proof -
  assume i: "exact_int i"
  then have "round_rat (of_int i) = of_int i" by (intro round_rat_of_int) simp
  moreover have "\<bar>of_int i :: rat\<bar> \<le> of_int 9007199254740992"
    using i by (metis of_int_abs of_int_le_iff)
  ultimately show ?thesis by (auto simp: round_double_def max_bound_def Let_def abs_le_iff)
qed

named_theorems js_arith \<open>arithmetic of the language on integers in the exact range\<close>

lemma js_add_N [js_arith]: "exact_int (a + b) \<Longrightarrow> js_add (N a) (N b) = N (a + b)"
  using round_double_of_int [of "a + b"] by simp

lemma js_sub_N [js_arith]: "exact_int (a - b) \<Longrightarrow> js_sub (N a) (N b) = N (a - b)"
  using round_double_of_int [of "a - b"] by (simp add: js_sub_def)

lemma js_mul_N [js_arith]: "exact_int (a * b) \<Longrightarrow> js_mul (N a) (N b) = N (a * b)"
  using round_double_of_int [of "a * b"] by simp

lemma js_neg_N [js_arith]: "js_neg (N a) = N (- a)"
  by simp

lemma js_lt_N [js_arith, simp]: "js_lt (N a) (N b) \<longleftrightarrow> a < b"
  by simp

lemma js_eq_N [js_arith, simp]: "js_eq (N a) (N b) \<longleftrightarrow> a = b"
  by (simp add: js_eq_def)

lemma js_le_N [js_arith, simp]: "js_le (N a) (N b) \<longleftrightarrow> a \<le> b"
  by (auto simp: js_le_def)

lemma js_eq_refl [simp]: "js_eq x x \<longleftrightarrow> x \<noteq> NaN"
  by (simp add: js_eq_def)

lemma is_integer_N [js_arith]: "is_integer (N a)"
  by simp

lemma is_integer_iff: "is_integer x \<longleftrightarrow> (\<exists>i. x = N i)"
proof
  assume "is_integer x"
  then obtain r where "x = Fin r" "of_int \<lfloor>r\<rfloor> = r" by (cases x) auto
  then show "\<exists>i. x = N i" by metis
qed auto

lemma is_integerE:
  assumes "is_integer x"
  obtains i where "x = N i"
  using assms is_integer_iff by blast

lemma math_round_N [simp]: "math_round (N a) = N a"
  by (simp add: floor_unique)

lemma math_max_N [js_arith]: "math_max (N a) (N b) = N (max a b)"
  by (simp add: math_max_def max_def)

lemma math_min_N [js_arith]: "math_min (N a) (N b) = N (min a b)"
  by (simp add: math_min_def min_def)

text \<open>The literals \<open>0\<close> and \<open>1\<close> and sums with them, in the form the simplifier meets them.\<close>

lemma js_lt_Fin_num [simp]:
  "js_lt (Fin 0) (N b) \<longleftrightarrow> 0 < b" "js_lt (N b) (Fin 0) \<longleftrightarrow> b < 0"
  by simp_all

lemma js_le_Fin_num [simp]:
  "js_le (Fin 0) (N b) \<longleftrightarrow> 0 \<le> b" "js_le (N b) (Fin 0) \<longleftrightarrow> b \<le> 0"
  by (auto simp: js_le_def js_eq_def)

lemma js_add_commute: "js_add x y = js_add y x"
  by (cases x; cases y) (simp_all add: add.commute)

lemma js_mul_commute: "js_mul x y = js_mul y x"
  by (cases x; cases y) (simp_all add: mult.commute)

text \<open>Comparison of finite values is the order of the rationals, so it is total.\<close>

lemma js_le_Fin [simp]: "js_le (Fin x) (Fin y) \<longleftrightarrow> x \<le> y"
  by (auto simp: js_le_def js_eq_def)

lemma js_not_lt: "is_finite x \<Longrightarrow> is_finite y \<Longrightarrow> \<not> js_lt x y \<longleftrightarrow> js_le y x"
  by (cases x; cases y) auto

lemma js_le_trans: "js_le x y \<Longrightarrow> js_le y z \<Longrightarrow> js_le x z"
  by (cases x; cases y; cases z) (auto simp: js_le_def js_eq_def)

lemma round_double_pos:
  assumes "1 \<le> x"
  shows "js_lt (N 0) (round_double x)"
proof -
  have "\<bar>round_rat x - x\<bar> \<le> \<bar>x\<bar> / 2 ^ 53" using assms by (intro round_rat_relative_error) simp
  moreover have "x - round_rat x \<le> \<bar>round_rat x - x\<bar>" by linarith
  ultimately have "x - round_rat x \<le> x / 2 ^ 53" using assms by simp
  moreover have "x / 2 ^ 53 < x" using assms by (simp add: divide_less_eq)
  ultimately have "0 < round_rat x" by linarith
  then show ?thesis by (auto simp: round_double_def max_bound_def Let_def)
qed

lemma js_add_pos:
  assumes "js_lt (N 0) a" "js_lt (N 0) b" "is_integer b"
  shows "js_lt (N 0) (js_add a b)"
proof -
  obtain i where b: "b = N i" using assms(3) by (rule is_integerE)
  then have i: "1 \<le> (of_int i :: rat)" using assms(2) by simp
  show ?thesis
  proof (cases a)
    case (Fin x)
    then have "1 \<le> x + of_int i" using assms(1) i by (simp add: add_increasing)
    then show ?thesis using Fin b round_double_pos by simp
  qed (use assms(1) b in auto)
qed

end
