(* ===== verification/Prelude.thy ===== *)
theory Prelude
  imports JS_Number "HOL-Library.Char_ord"
begin

text \<open>
  What all components share: thrown errors and the two loop shapes that may throw, the
  operations on strings and optional values the source uses, the relational table a
  repository works on, and the request context. The collection \<open>res_simps\<close> carries the
  rewrite rules for programs that may throw; \<open>table_simps\<close> those for table operations.
\<close>

section \<open>Thrown errors\<close>

text \<open>
  Every error of the source is an \<open>Error\<close> object, usually with a \<open>statusCode\<close> property (the
  domain throws \<open>Object.assign(new Error(msg), \<dots>)\<close>, the application the framework's HTTP
  exceptions). The message is the literal part of the source's text; values that are
  interpolated into it are appended where they are strings and omitted where they are not.
\<close>

datatype exn = Exn (status_code: "nat option") (message: string)

type_synonym 'a result = "exn + 'a"

abbreviation throw :: "nat \<Rightarrow> string \<Rightarrow> 'a result" where
  "throw c m \<equiv> Inl (Exn (Some c) m)"

abbreviation throw_plain :: "string \<Rightarrow> 'a result" where
  "throw_plain m \<equiv> Inl (Exn None m)"

text \<open>The framework's HTTP exceptions.\<close>

abbreviation not_found :: "string \<Rightarrow> 'a result" where "not_found m \<equiv> throw 404 m"
abbreviation conflict :: "string \<Rightarrow> 'a result" where "conflict m \<equiv> throw 409 m"
abbreviation forbidden :: "string \<Rightarrow> 'a result" where "forbidden m \<equiv> throw 403 m"

definition and_then :: "'a result \<Rightarrow> ('a \<Rightarrow> 'b result) \<Rightarrow> 'b result" where
  "and_then m f = (case m of Inl e \<Rightarrow> Inl e | Inr x \<Rightarrow> f x)"

text \<open>\<open>check b r\<close> goes on when \<open>b\<close> holds and otherwise fails like \<open>r\<close>.\<close>

definition check :: "bool \<Rightarrow> unit result \<Rightarrow> unit result" where
  "check b r = (if b then Inr () else r)"

definition is_ok :: "'a result \<Rightarrow> bool" where
  "is_ok r = (case r of Inl _ \<Rightarrow> False | Inr _ \<Rightarrow> True)"

named_theorems res_simps \<open>rewriting programs that may throw\<close>

lemma and_then_simps [simp, res_simps]:
  "and_then (Inl e) f = Inl e" "and_then (Inr x) f = f x"
  by (simp_all add: and_then_def)

lemma and_then_Inr_iff [res_simps]:
  "and_then m f = Inr y \<longleftrightarrow> (\<exists>x. m = Inr x \<and> f x = Inr y)"
  by (cases m) auto

lemma and_then_Inl_iff [res_simps]:
  "and_then m f = Inl e \<longleftrightarrow> m = Inl e \<or> (\<exists>x. m = Inr x \<and> f x = Inl e)"
  by (cases m) auto

lemma and_then_assoc: "and_then (and_then m f) g = and_then m (\<lambda>x. and_then (f x) g)"
  by (cases m) auto

lemma check_simps [simp, res_simps]: "check True r = Inr ()" "check False r = r"
  by (simp_all add: check_def)

lemma check_throw_Inr [simp, res_simps]: "check b (Inl e) = Inr u \<longleftrightarrow> b"
  by (simp add: check_def)

lemma check_throw_Inl [simp, res_simps]: "check b (Inl e) = Inl e' \<longleftrightarrow> \<not> b \<and> e' = e"
  by (auto simp: check_def)

lemma is_ok_simps [simp]: "is_ok (Inr x)" "\<not> is_ok (Inl e)"
  by (simp_all add: is_ok_def)

lemma is_ok_iff: "is_ok r \<longleftrightarrow> (\<exists>x. r = Inr x)"
  by (cases r) auto

section \<open>Loops that may throw\<close>

text \<open>\<open>for (const x of xs) s = f(s, x)\<close>: an error leaves the loop.\<close>

fun for_each :: "('s \<Rightarrow> 'x \<Rightarrow> 's result) \<Rightarrow> 's \<Rightarrow> 'x list \<Rightarrow> 's result" where
  "for_each f s [] = Inr s"
| "for_each f s (x # xs) = and_then (f s x) (\<lambda>s'. for_each f s' xs)"

text \<open>\<open>xs.map(f)\<close> where \<open>f\<close> may throw.\<close>

fun map_result :: "('x \<Rightarrow> 'y result) \<Rightarrow> 'x list \<Rightarrow> 'y list result" where
  "map_result f [] = Inr []"
| "map_result f (x # xs) = and_then (f x) (\<lambda>y. and_then (map_result f xs) (\<lambda>ys. Inr (y # ys)))"

lemma for_each_append:
  "for_each f s (xs @ ys) = and_then (for_each f s xs) (\<lambda>s'. for_each f s' ys)"
  by (induction xs arbitrary: s) (simp_all add: and_then_assoc)

lemma for_each_invariant:
  assumes "for_each f s xs = Inr s'" "P s"
    and "\<And>a x b. x \<in> set xs \<Longrightarrow> P a \<Longrightarrow> f a x = Inr b \<Longrightarrow> P b"
  shows "P s'"
  using assms
proof (induction xs arbitrary: s)
  case (Cons x xs)
  then obtain a where a: "f s x = Inr a" "for_each f a xs = Inr s'"
    by (auto simp: and_then_Inr_iff)
  have "P a" using Cons.prems(2,3) a(1) by (meson list.set_intros(1))
  with Cons.IH a(2) Cons.prems(3) show ?case by (meson list.set_intros(2))
qed simp

lemma map_result_Inr_iff:
  "map_result f xs = Inr ys \<longleftrightarrow> list_all2 (\<lambda>x y. f x = Inr y) xs ys"
proof (induction xs arbitrary: ys)
  case (Cons x xs)
  then show ?case by (cases ys) (auto simp: and_then_Inr_iff)
qed auto

lemma map_result_map_Inr: "map_result (\<lambda>x. Inr (g x)) xs = Inr (map g xs)"
  by (induction xs) simp_all

section \<open>Optional values and strings\<close>

text \<open>\<open>a ?? b\<close> for an optional \<open>a\<close>; \<open>null\<close> and \<open>undefined\<close> are both \<open>None\<close>.\<close>

definition coalesce :: "'a option \<Rightarrow> 'a \<Rightarrow> 'a" where
  "coalesce a b = (case a of None \<Rightarrow> b | Some x \<Rightarrow> x)"

text \<open>\<open>a ?? b\<close> for an optional \<open>b\<close> too.\<close>

definition coalesce_opt :: "'a option \<Rightarrow> 'a option \<Rightarrow> 'a option" where
  "coalesce_opt a b = (case a of None \<Rightarrow> b | Some x \<Rightarrow> Some x)"

lemma coalesce_simps [simp]:
  "coalesce None b = b" "coalesce (Some x) b = x"
  "coalesce_opt None c = c" "coalesce_opt (Some x) c = Some x"
  by (simp_all add: coalesce_def coalesce_opt_def)

text \<open>The truth value of an optional string: neither missing nor empty.\<close>

definition truthy :: "string option \<Rightarrow> bool" where
  "truthy s = (case s of None \<Rightarrow> False | Some x \<Rightarrow> x \<noteq> [])"

lemma truthy_simps [simp]: "\<not> truthy None" "truthy (Some x) \<longleftrightarrow> x \<noteq> []"
  by (simp_all add: truthy_def)

text \<open>White space and case mapping on the ASCII range, which is all the program's keys use.\<close>

definition is_space :: "char \<Rightarrow> bool" where
  "is_space c \<longleftrightarrow> c \<in> set [CHR '' '', CHR 0x09, CHR 0x0A, CHR 0x0B, CHR 0x0C, CHR 0x0D]"

definition trim :: "string \<Rightarrow> string" where
  "trim s = rev (dropWhile is_space (rev (dropWhile is_space s)))"

definition upper_char :: "char \<Rightarrow> char" where
  "upper_char c =
     (if CHR ''a'' \<le> c \<and> c \<le> CHR ''z'' then char_of (of_char c - 32 :: nat) else c)"

definition to_upper :: "string \<Rightarrow> string" where
  "to_upper s = map upper_char s"

fun digit :: "nat \<Rightarrow> char" where
  "digit n = char_of (48 + n mod 10)"

fun nat_to_string :: "nat \<Rightarrow> string" where
  "nat_to_string n = (if n < 10 then [digit n] else nat_to_string (n div 10) @ [digit n])"

declare nat_to_string.simps [simp del]

definition pad_start :: "nat \<Rightarrow> char \<Rightarrow> string \<Rightarrow> string" where
  "pad_start n c s = replicate (n - length s) c @ s"

lemma trim_Nil [simp]: "trim [] = []"
  by (simp add: trim_def)

lemma to_upper_Nil_iff [simp]: "to_upper s = [] \<longleftrightarrow> s = []"
  by (simp add: to_upper_def)

lemma trim_eq_Nil_iff: "trim s = [] \<longleftrightarrow> (\<forall>c \<in> set s. is_space c)"
proof -
  have "trim s = [] \<longleftrightarrow> (\<forall>c \<in> set (dropWhile is_space s). is_space c)"
    by (auto simp: trim_def)
  also have "\<dots> \<longleftrightarrow> (\<forall>c \<in> set s. is_space c)"
    by (induction s) auto
  finally show ?thesis .
qed

lemma nat_to_string_not_Nil [simp]: "nat_to_string n \<noteq> []"
  by (subst nat_to_string.simps) simp

section \<open>Lists updated by key\<close>

text \<open>\<open>xs.map(x => key(x) === k ? f(x) : x)\<close>\<close>

definition map_where :: "('a \<Rightarrow> bool) \<Rightarrow> ('a \<Rightarrow> 'a) \<Rightarrow> 'a list \<Rightarrow> 'a list" where
  "map_where p f xs = map (\<lambda>x. if p x then f x else x) xs"

lemma length_map_where [simp]: "length (map_where p f xs) = length xs"
  by (simp add: map_where_def)

lemma map_where_Nil_iff [simp]: "map_where p f xs = [] \<longleftrightarrow> xs = []"
  by (simp add: map_where_def)

lemma map_where_simps [simp]:
  "map_where p f [] = []"
  "map_where p f (x # xs) = (if p x then f x else x) # map_where p f xs"
  by (simp_all add: map_where_def)

lemma map_map_where: "(\<And>x. p x \<Longrightarrow> g (f x) = g x) \<Longrightarrow> map g (map_where p f xs) = map g xs"
  by (simp add: map_where_def)

lemma set_map_where: "set (map_where p f xs) = f ` {x \<in> set xs. p x} \<union> {x \<in> set xs. \<not> p x}"
  by (auto simp: map_where_def image_iff)

lemma set_map_where_origin:
  "y \<in> set (map_where p f xs) \<Longrightarrow> \<exists>x \<in> set xs. (p x \<and> y = f x) \<or> (\<not> p x \<and> y = x)"
  by (auto simp: set_map_where)

lemma map_where_none: "(\<And>x. x \<in> set xs \<Longrightarrow> \<not> p x) \<Longrightarrow> map_where p f xs = xs"
  by (induction xs) auto

lemma find_Some_iff2: "List.find p xs = Some x \<Longrightarrow> x \<in> set xs \<and> p x"
  by (induction xs) (auto split: if_splits)

lemma find_None_iff2: "List.find p xs = None \<longleftrightarrow> (\<forall>x \<in> set xs. \<not> p x)"
  by (induction xs) auto

lemma find_map_where:
  assumes "\<And>x. p x \<Longrightarrow> p (f x)"
  shows "List.find p (map_where p f xs) = map_option f (List.find p xs)"
  by (induction xs) (simp_all add: assms)

lemma find_map_where_other:
  assumes "\<And>x. p x \<Longrightarrow> \<not> q x" "\<And>x. p x \<Longrightarrow> \<not> q (f x)"
  shows "List.find q (map_where p f xs) = List.find q xs"
  by (induction xs) (auto simp: assms)

lemma distinct_key_unique:
  "distinct (map k xs) \<Longrightarrow> x \<in> set xs \<Longrightarrow> y \<in> set xs \<Longrightarrow> k x = k y \<Longrightarrow> x = y"
  by (simp add: distinct_map inj_on_def)

lemma find_distinct_key:
  "distinct (map k xs) \<Longrightarrow> x \<in> set xs \<Longrightarrow> List.find (\<lambda>y. k y = k x) xs = Some x"
  by (induction xs) auto

text \<open>Mutation of the object that \<open>xs.find(p)\<close> returned: only the first match changes.\<close>

fun update_first :: "('a \<Rightarrow> bool) \<Rightarrow> ('a \<Rightarrow> 'a) \<Rightarrow> 'a list \<Rightarrow> 'a list" where
  "update_first p f [] = []"
| "update_first p f (x # xs) = (if p x then f x # xs else x # update_first p f xs)"

lemma length_update_first [simp]: "length (update_first p f xs) = length xs"
  by (induction xs) auto

lemma update_first_Nil_iff [simp]: "update_first p f xs = [] \<longleftrightarrow> xs = []"
  by (cases xs) auto

lemma map_update_first: "(\<And>x. p x \<Longrightarrow> g (f x) = g x) \<Longrightarrow> map g (update_first p f xs) = map g xs"
  by (induction xs) auto

lemma set_update_first:
  "y \<in> set (update_first p f xs) \<Longrightarrow> y \<in> set xs \<or> (\<exists>x. List.find p xs = Some x \<and> y = f x)"
  by (induction xs) (auto split: if_splits)

lemma update_first_distinct:
  "distinct (map k xs) \<Longrightarrow> update_first (\<lambda>x. k x = a) f xs = map_where (\<lambda>x. k x = a) f xs"
proof (induction xs)
  case (Cons x xs)
  then show ?case
    by (cases "k x = a") (auto intro!: map_where_none [symmetric] simp: image_iff)
qed simp

section \<open>Status machines\<close>

text \<open>
  Several aggregates guard their status by a table of allowed transitions in which a
  transition to the present status passes without a look at the table. The interface
  of such a guard, and what follows from it alone.
\<close>

locale transition_guard =
  fixes allowed :: "'s \<Rightarrow> 's list"
    and guard :: "'s \<Rightarrow> 's \<Rightarrow> unit result"
  assumes guard_ok_iff: "guard s t = Inr () \<longleftrightarrow> s = t \<or> t \<in> set (allowed s)"
begin

lemma guard_cases:
  assumes "guard s t = Inr u"
  obtains "t = s" | "t \<noteq> s" "t \<in> set (allowed s)"
  using assms guard_ok_iff [of s t] by auto

lemma terminal: "allowed s = [] \<Longrightarrow> guard s t = Inr u \<Longrightarrow> t = s"
  using guard_ok_iff [of s t] by auto

lemma closed:
  assumes "guard s t = Inr u" "s \<in> S" "\<And>a. a \<in> S \<Longrightarrow> set (allowed a) \<inter> T \<subseteq> S" "t \<in> T"
  shows "t \<in> S"
  using assms guard_ok_iff [of s t] by auto

lemma self_passes: "guard s s = Inr ()"
  by (simp add: guard_ok_iff)

end

end
