(* ===== verification/Money.thy ===== *)
theory Money
  imports Prelude
begin

text \<open>
  The value objects shared by all business modules
  (\<open>business/shared-business/domain/common/value-objects\<close>): \<open>Money\<close>, an amount in minor
  units with its currency, and \<open>Quantity\<close>, an amount of a unit of measure. A decimal of the
  database (two places) is the integer number of its hundredths. The lemmas show when the
  arithmetic on doubles is the integer arithmetic it means, that amounts survive the trip
  through their decimal representation, and how the operations combine.
\<close>

section \<open>Money\<close>

datatype money = Money (minorUnits: number) (currencyCode: string)

definition money_ZERO :: "string \<Rightarrow> money" where
  "money_ZERO currency = Money (N 0) currency"

definition money_fromMinorUnits :: "number \<Rightarrow> string \<Rightarrow> money result" where
  "money_fromMinorUnits n currency =
     (if \<not> is_integer n then throw 422 ''Money minor units must be an integer''
      else if js_lt n (N 0) then throw 422 ''Money cannot be negative''
      else Inr (Money n currency))"

definition money_fromDecimal :: "number \<Rightarrow> string \<Rightarrow> money result" where
  "money_fromDecimal asNumber currency =
     (if asNumber = NaN then throw 422 ''Invalid money value''
      else money_fromMinorUnits (math_round (js_mul asNumber (N 100))) currency)"

definition money_amount :: "money \<Rightarrow> number" where
  "money_amount m = js_div_lit (minorUnits m) 100"

definition assertSameCurrency :: "money \<Rightarrow> money \<Rightarrow> unit result" where
  "assertSameCurrency m other =
     check (currencyCode m = currencyCode other)
       (throw 422 (''Currency mismatch: cannot combine '' @ currencyCode m @ '' with '' @ currencyCode other))"

definition money_add :: "money \<Rightarrow> money \<Rightarrow> money result" where
  "money_add m other = and_then (assertSameCurrency m other) (\<lambda>_.
     Inr (Money (js_add (minorUnits m) (minorUnits other)) (currencyCode m)))"

definition money_subtract :: "money \<Rightarrow> money \<Rightarrow> money result" where
  "money_subtract m other = and_then (assertSameCurrency m other) (\<lambda>_.
     Inr (Money (js_sub (minorUnits m) (minorUnits other)) (currencyCode m)))"

definition money_multiply :: "money \<Rightarrow> number \<Rightarrow> money" where
  "money_multiply m factor = Money (math_round (js_mul (minorUnits m) factor)) (currencyCode m)"

definition money_isZero :: "money \<Rightarrow> bool" where
  "money_isZero m \<longleftrightarrow> js_eq (minorUnits m) (N 0)"

definition money_equals :: "money \<Rightarrow> money \<Rightarrow> bool" where
  "money_equals m other \<longleftrightarrow>
     currencyCode m = currencyCode other \<and> js_eq (minorUnits m) (minorUnits other)"

text \<open>
  \<open>toFixed(2)\<close> picks the integer \<open>n\<close> for which \<open>n / 100\<close> is nearest to the value, the larger
  of two; the result is that \<open>n\<close>, with the decimal point as the representation. Amounts are
  finite, so the textual results for \<open>NaN\<close> and the infinities are not told apart.
\<close>

fun toFixed2 :: "number \<Rightarrow> int" where
  "toFixed2 (Fin x) = \<lfloor>x * 100 + 1 / 2\<rfloor>"
| "toFixed2 _ = 0"

definition money_toDecimal :: "money \<Rightarrow> int" where
  "money_toDecimal m = toFixed2 (js_div_lit (minorUnits m) 100)"

text \<open>\<open>Number(d)\<close> for a decimal with two places: the nearest double.\<close>

definition number_of_decimal :: "int \<Rightarrow> number" where
  "number_of_decimal h = round_double (of_int h / 100)"

section \<open>Quantity\<close>

datatype quantity = Quantity (qty_value: number) (uomId: string)

definition quantity_of :: "number \<Rightarrow> string \<Rightarrow> quantity result" where
  "quantity_of v uom =
     (if \<not> is_finite v \<or> js_lt v (N 0)
      then throw_plain ''Quantity must be a non-negative finite number''
      else Inr (Quantity v uom))"

definition quantity_add :: "quantity \<Rightarrow> quantity \<Rightarrow> quantity result" where
  "quantity_add q other =
     (if uomId other \<noteq> uomId q then throw_plain ''UOM mismatch''
      else Inr (Quantity (js_add (qty_value q) (qty_value other)) (uomId q)))"

definition quantity_subtract :: "quantity \<Rightarrow> quantity \<Rightarrow> quantity result" where
  "quantity_subtract q other =
     (if uomId other \<noteq> uomId q then throw_plain ''UOM mismatch''
      else let r = js_sub (qty_value q) (qty_value other)
           in if js_lt r (N 0) then throw_plain ''Quantity cannot be negative''
              else Inr (Quantity r (uomId q)))"

definition quantity_multiply :: "quantity \<Rightarrow> number \<Rightarrow> quantity" where
  "quantity_multiply q factor = Quantity (js_mul (qty_value q) factor) (uomId q)"

definition quantity_isGreaterThan :: "quantity \<Rightarrow> quantity \<Rightarrow> bool" where
  "quantity_isGreaterThan q other \<longleftrightarrow> js_gt (qty_value q) (qty_value other)"

definition quantity_equals :: "quantity \<Rightarrow> quantity \<Rightarrow> bool" where
  "quantity_equals q other \<longleftrightarrow> uomId q = uomId other \<and> js_eq (qty_value q) (qty_value other)"

section \<open>Well-formed amounts\<close>

text \<open>Every amount that enters the system has a non-negative integer number of minor units.\<close>

definition money_ok :: "money \<Rightarrow> bool" where
  "money_ok m \<longleftrightarrow> is_integer (minorUnits m) \<and> js_le (N 0) (minorUnits m)"

lemma money_fromMinorUnits_Inr_iff:
  "money_fromMinorUnits n c = Inr m \<longleftrightarrow> money_ok m \<and> m = Money n c"
  by (auto simp: money_fromMinorUnits_def money_ok_def elim!: is_integerE split: if_splits)

lemma money_fromDecimal_ok: "money_fromDecimal d c = Inr m \<Longrightarrow> money_ok m \<and> currencyCode m = c"
  by (auto simp: money_fromDecimal_def money_fromMinorUnits_Inr_iff split: if_splits)

lemma money_ok_N [simp]: "money_ok (Money (N n) c) \<longleftrightarrow> 0 \<le> n"
  by (simp add: money_ok_def)

lemma money_okE:
  assumes "money_ok m"
  obtains n where "m = Money (N n) (currencyCode m)" "0 \<le> n"
proof -
  obtain n where n: "minorUnits m = N n" using assms by (auto simp: money_ok_def elim: is_integerE)
  have "m = Money (N n) (currencyCode m)" by (cases m) (use n in simp)
  moreover have "0 \<le> n" using assms n by (simp add: money_ok_def)
  ultimately show ?thesis using that by blast
qed

lemma money_currency_simps [simp]:
  "currencyCode (money_ZERO c) = c" "currencyCode (money_multiply m f) = currencyCode m"
  by (simp_all add: money_ZERO_def money_multiply_def)

lemma money_add_Inr_iff:
  "money_add m o' = Inr r \<longleftrightarrow> currencyCode m = currencyCode o' \<and>
     r = Money (js_add (minorUnits m) (minorUnits o')) (currencyCode m)"
  by (auto simp: money_add_def assertSameCurrency_def res_simps)

lemma money_multiply_N:
  "exact_int (n * k) \<Longrightarrow> money_multiply (Money (N n) c) (N k) = Money (N (n * k)) c"
  unfolding money_multiply_def money.sel by (subst js_mul_N, assumption, subst math_round_N) (rule refl)

section \<open>The decimal representation\<close>

text \<open>An absolute error bound for a value below a power of two.\<close>

lemma round_rat_absolute_error:
  assumes "\<bar>x\<bar> < pow2 k" "- 1021 \<le> k"
  shows "\<bar>round_rat x - x\<bar> \<le> pow2 (k - 54)"
proof (cases "x = 0")
  case False
  then have p: "0 < \<bar>x\<bar>" by simp
  have "pow2 (ilog2 \<bar>x\<bar>) < pow2 k" using ilog2_bounds(1) [OF p] assms(1) by linarith
  then have "ilog2 \<bar>x\<bar> < k" by (rule pow2_less_imp)
  then have "quantum x \<le> k - 53" using assms(2) by (simp add: quantum_def)
  then have "pow2 (quantum x) / 2 \<le> pow2 (k - 53) / 2" using pow2_mono by simp
  also have "\<dots> = pow2 (k - 54)" using pow2_Suc [of "k - 54"] by simp
  finally show ?thesis using round_rat_error [of x] by linarith
qed (simp add: less_imp_le)

lemma round_double_small:
  assumes "\<bar>x\<bar> < 2 ^ 60"
  shows "round_double x = Fin (round_rat x)"
proof -
  have "\<bar>round_rat x - x\<bar> \<le> pow2 6"
    using round_rat_absolute_error [of x 60] assms by (simp add: pow2_def)
  then have "\<bar>round_rat x\<bar> < 2 ^ 61"
    using assms abs_triangle_ineq2 [of "round_rat x" x] by (simp add: pow2_def)
  then show ?thesis by (auto simp: round_double_def max_bound_def Let_def)
qed

text \<open>Amounts of up to \<open>2^50\<close> minor units survive division by \<open>100\<close> and the way back.\<close>

lemma decimal_error:
  assumes "\<bar>h\<bar> \<le> 2 ^ 50"
  obtains x where "round_double (of_int h / 100) = Fin x" "\<bar>x * 100 - of_int h\<bar> \<le> 1 / 8"
proof -
  have h: "\<bar>of_int h :: rat\<bar> \<le> 2 ^ 50"
    using assms by (metis of_int_abs of_int_le_iff of_int_numeral of_int_power)
  let ?y = "of_int h / 100 :: rat"
  have y: "\<bar>?y\<bar> < 2 ^ 44" using h by (simp add: abs_le_iff abs_less_iff)
  then have e: "\<bar>round_rat ?y - ?y\<bar> \<le> pow2 (- 10)"
    using round_rat_absolute_error [of ?y 44] by (simp add: pow2_def)
  have "round_rat ?y * 100 - of_int h = 100 * (round_rat ?y - ?y)"
    by (simp add: right_diff_distrib)
  then have "\<bar>round_rat ?y * 100 - of_int h\<bar> = 100 * \<bar>round_rat ?y - ?y\<bar>"
    by (simp only: abs_mult abs_numeral)
  also have "\<dots> \<le> 100 * pow2 (- 10)" using e by simp
  also have "\<dots> \<le> 1 / 8" by (simp add: pow2_def power_int_def power_one_over)
  finally have "\<bar>round_rat ?y * 100 - of_int h\<bar> \<le> 1 / 8" .
  moreover have "round_double ?y = Fin (round_rat ?y)"
    using y by (intro round_double_small) simp
  ultimately show ?thesis using that by blast
qed

lemma toFixed2_decimal:
  assumes "\<bar>h\<bar> \<le> 2 ^ 50"
  shows "toFixed2 (round_double (of_int h / 100)) = h"
proof -
  obtain x where x: "round_double (of_int h / 100) = Fin x" "\<bar>x * 100 - of_int h\<bar> \<le> 1 / 8"
    using decimal_error [OF assms] by blast
  then have "x * 100 - of_int h \<le> 1 / 8 \<and> of_int h - x * 100 \<le> 1 / 8"
    unfolding abs_le_iff minus_diff_eq by blast
  then have "\<lfloor>x * 100 + 1 / 2\<rfloor> = h" by (intro floor_unique) linarith+
  then show ?thesis by (simp add: x(1))
qed

lemma money_toDecimal_N:
  assumes "\<bar>h\<bar> \<le> 2 ^ 50"
  shows "money_toDecimal (Money (N h) c) = h"
  using toFixed2_decimal [OF assms] by (simp add: money_toDecimal_def)

lemma money_fromDecimal_number:
  assumes "0 \<le> h" "h \<le> 2 ^ 50"
  shows "money_fromDecimal (number_of_decimal h) c = Inr (Money (N h) c)"
proof -
  obtain x where x: "round_double (of_int h / 100) = Fin x" "\<bar>x * 100 - of_int h\<bar> \<le> 1 / 8"
    using decimal_error [of h] assms by auto
  let ?y = "x * 100"
  have h: "of_int h \<le> (2 ^ 50 :: rat)" "0 \<le> (of_int h :: rat)"
    using assms by (metis of_int_le_iff of_int_numeral of_int_power) (use assms in simp)
  have x8: "?y - of_int h \<le> 1 / 8 \<and> of_int h - ?y \<le> 1 / 8"
    using x(2) unfolding abs_le_iff minus_diff_eq .
  have y: "\<bar>?y\<bar> < 2 ^ 51" unfolding abs_less_iff using x8 h by simp
  then have e: "\<bar>round_rat ?y - ?y\<bar> \<le> 1 / 8"
    using round_rat_absolute_error [of ?y 51] by (simp add: pow2_def power_int_def power_one_over)
  have "round_double ?y = Fin (round_rat ?y)" using y by (intro round_double_small) simp
  moreover have "round_rat ?y - ?y \<le> 1 / 8 \<and> ?y - round_rat ?y \<le> 1 / 8"
    using e unfolding abs_le_iff minus_diff_eq .
  then have "\<lfloor>round_rat ?y + 1 / 2\<rfloor> = h"
    using x8 by (intro floor_unique) linarith+
  ultimately show ?thesis
    using assms by (simp add: money_fromDecimal_def number_of_decimal_def x(1) money_fromMinorUnits_Inr_iff)
qed

text \<open>
  An amount of up to \<open>2^50\<close> minor units that is written to the database as a decimal with
  two places and read back is the same amount: none of the two roundings to doubles
  on the way loses a minor unit.
\<close>

theorem money_decimal_roundtrip:
  assumes "money_ok m" "js_le (minorUnits m) (N (2 ^ 50))"
  shows "money_fromDecimal (number_of_decimal (money_toDecimal m)) (currencyCode m) = Inr m"
proof -
  obtain n where n: "m = Money (N n) (currencyCode m)" "0 \<le> n"
    using assms(1) by (rule money_okE)
  then have "n \<le> 2 ^ 50" using assms(2) by (metis js_le_N money.sel(1))
  then show ?thesis
    using n money_toDecimal_N [of n] money_fromDecimal_number [of n] by (metis abs_of_nonneg)
qed

theorem money_decimal_roundtrip_witness:
  "money_fromDecimal (number_of_decimal (money_toDecimal (Money (N 1005) ''USD''))) ''USD''
   = Inr (Money (N 1005) ''USD'')"
proof -
  have "money_ok (Money (N 1005) ''USD'')" by (simp only: money_ok_N)
  moreover have "js_le (minorUnits (Money (N 1005) ''USD'')) (N (2 ^ 50))"
    unfolding money.sel js_le_N by simp
  ultimately show ?thesis using money_decimal_roundtrip [of "Money (N 1005) ''USD''"] by simp
qed

end
