(* ===== verification/Context.thy ===== *)
theory Context
  imports Money
begin

text \<open>
  The request context (\<open>platform-common/context\<close>), how an HTTP request fills it
  (\<open>CompanyConfigContextMiddleware\<close>, \<open>TenancyAuthGuard\<close>, \<open>RequestIdInterceptor\<close>), the tenant
  scope of every read and write (\<open>TenantScope\<close>, \<open>resolveCompanyId\<close>), and the access-control
  ports. The CLS store holds at most one context, so it is an optional value that is passed
  on; the JWT library is the parameter \<open>verify\<close> (\<open>None\<close>: the token is rejected).
\<close>

section \<open>The context record\<close>

record request_context =
  requestId :: string
  correlationId :: string
  ctx_tenantId :: "string option"
  ctx_companyId :: "string option"
  ctx_userId :: "string option"
  roles :: "string list"
  locale_tag :: string
  ip :: "string option"
  userAgent :: "string option"
  defaultCurrency :: "string option"
  autoApproveThreshold :: "number option"
  overReceiptTolerance :: "number option"

text \<open>
  \<open>Partial<RequestContextData>\<close>: each key is present (\<open>Some\<close>) or absent (\<open>None\<close>); a present
  optional key may carry \<open>undefined\<close>, the inner \<open>None\<close>.
\<close>

record context_patch =
  p_requestId :: "string option"
  p_correlationId :: "string option"
  p_tenantId :: "string option option"
  p_companyId :: "string option option"
  p_userId :: "string option option"
  p_roles :: "string list option"
  p_locale :: "string option"
  p_ip :: "string option option"
  p_userAgent :: "string option option"
  p_defaultCurrency :: "string option option"
  p_autoApproveThreshold :: "number option option"
  p_overReceiptTolerance :: "number option option"

definition empty_patch :: context_patch where
  "empty_patch = \<lparr>p_requestId = None, p_correlationId = None, p_tenantId = None,
     p_companyId = None, p_userId = None, p_roles = None, p_locale = None, p_ip = None,
     p_userAgent = None, p_defaultCurrency = None, p_autoApproveThreshold = None,
     p_overReceiptTolerance = None\<rparr>"

definition emptyContext :: request_context where
  "emptyContext = \<lparr>requestId = [], correlationId = [], ctx_tenantId = None,
     ctx_companyId = None, ctx_userId = None, roles = [], locale_tag = ''en'', ip = None,
     userAgent = None, defaultCurrency = None, autoApproveThreshold = None,
     overReceiptTolerance = None\<rparr>"

text \<open>\<open>toData\<close> copies nine of the twelve fields, exactly as written in the source.\<close>

definition toData :: "request_context \<Rightarrow> request_context" where
  "toData c = \<lparr>requestId = requestId c, correlationId = correlationId c,
     ctx_tenantId = ctx_tenantId c, ctx_companyId = ctx_companyId c,
     ctx_userId = ctx_userId c, roles = roles c, locale_tag = locale_tag c, ip = ip c,
     userAgent = userAgent c, defaultCurrency = None, autoApproveThreshold = None,
     overReceiptTolerance = None\<rparr>"

text \<open>\<open>{ ...data, ...patch }\<close>\<close>

definition spread :: "request_context \<Rightarrow> context_patch \<Rightarrow> request_context" where
  "spread d p = \<lparr>requestId = coalesce (p_requestId p) (requestId d),
     correlationId = coalesce (p_correlationId p) (correlationId d),
     ctx_tenantId = coalesce (p_tenantId p) (ctx_tenantId d),
     ctx_companyId = coalesce (p_companyId p) (ctx_companyId d),
     ctx_userId = coalesce (p_userId p) (ctx_userId d),
     roles = coalesce (p_roles p) (roles d),
     locale_tag = coalesce (p_locale p) (locale_tag d),
     ip = coalesce (p_ip p) (ip d),
     userAgent = coalesce (p_userAgent p) (userAgent d),
     defaultCurrency = coalesce (p_defaultCurrency p) (defaultCurrency d),
     autoApproveThreshold = coalesce (p_autoApproveThreshold p) (autoApproveThreshold d),
     overReceiptTolerance = coalesce (p_overReceiptTolerance p) (overReceiptTolerance d)\<rparr>"

definition context_with :: "request_context \<Rightarrow> context_patch \<Rightarrow> request_context" where
  "context_with c p = spread (toData c) p"

section \<open>The CLS-backed port\<close>

definition ctx_set :: "request_context option \<Rightarrow> context_patch \<Rightarrow> request_context option" where
  "ctx_set existing p =
     (case existing of
        Some c \<Rightarrow> Some (context_with c p)
      | None \<Rightarrow> Some (spread emptyContext p))"

text \<open>\<open>run\<close> installs the merged context for the callback and restores the previous one.\<close>

definition ctx_run_context :: "request_context option \<Rightarrow> context_patch \<Rightarrow> request_context" where
  "ctx_run_context previous p =
     context_with (case previous of Some c \<Rightarrow> c | None \<Rightarrow> emptyContext) p"

definition ctx_run ::
  "request_context option \<Rightarrow> context_patch \<Rightarrow> (request_context \<Rightarrow> 'a) \<Rightarrow> 'a \<times> request_context option"
where
  "ctx_run previous p fn = (fn (ctx_run_context previous p), previous)"

definition ctx_require :: "request_context option \<Rightarrow> request_context result" where
  "ctx_require c =
     (case c of
        None \<Rightarrow> throw_plain ''Request context is not available. Is RequestIdInterceptor registered and CLS middleware mounted?''
      | Some x \<Rightarrow> Inr x)"

section \<open>An HTTP request\<close>

record http_headers =
  h_authorization :: "string option"
  h_tenant :: "string option"
  h_company :: "string option"
  h_user :: "string option"
  h_roles :: "string option"
  h_correlation :: "string option"
  h_language :: "string option"
  h_userAgent :: "string option"
  h_ip :: "string option"

record company_config =
  cfg_defaultCurrency :: string
  cfg_autoApproveThreshold :: number
  cfg_overReceiptTolerance :: number

datatype tenancy_mode = Single | Multi

text \<open>The middleware: \<open>lookup\<close> is \<open>CompanyConfigPort\<close>, \<open>None\<close> when it rejects.\<close>

definition company_config_middleware ::
  "(string \<Rightarrow> company_config option) \<Rightarrow> http_headers \<Rightarrow> request_context option \<Rightarrow> request_context option"
where
  "company_config_middleware lookup h ctx =
     (if \<not> truthy (h_company h) then ctx
      else case lookup (the (h_company h)) of
             None \<Rightarrow> ctx
           | Some company \<Rightarrow> ctx_set ctx (empty_patch\<lparr>
               p_defaultCurrency := Some (Some (cfg_defaultCurrency company)),
               p_autoApproveThreshold := Some (Some (cfg_autoApproveThreshold company)),
               p_overReceiptTolerance := Some (Some (cfg_overReceiptTolerance company))\<rparr>))"

record identity =
  id_tenantId :: "string option"
  id_companyId :: "string option"
  id_userId :: "string option"
  id_roles :: "string list"

datatype claim_roles = RoleList "string list" | RoleText "string option"

record claims =
  cl_sub :: "string option"
  cl_tenantId :: "string option"
  cl_companyId :: "string option"
  cl_roles :: claim_roles

fun split_on :: "char \<Rightarrow> string \<Rightarrow> string list" where
  "split_on c [] = [[]]"
| "split_on c (x # xs) =
     (if x = c then [] # split_on c xs
      else case split_on c xs of [] \<Rightarrow> [[x]] | w # ws \<Rightarrow> (x # w) # ws)"

definition parse_roles :: "string \<Rightarrow> string list" where
  "parse_roles s = filter (\<lambda>r. r \<noteq> []) (map trim (split_on CHR '','' s))"

text \<open>
  The guard: passes (\<open>Inr\<close>, with the identity it stashes on the request, if any) or throws.
\<close>

definition tenancy_guard ::
  "tenancy_mode \<Rightarrow> bool \<Rightarrow> bool \<Rightarrow> (string \<Rightarrow> claims option) \<Rightarrow> http_headers \<Rightarrow> identity option result"
where
  "tenancy_guard mode skip is_http verify h =
     (if mode \<noteq> Multi then Inr None
      else if skip then Inr None
      else if \<not> is_http then Inr None
      else case h_authorization h of
        None \<Rightarrow> throw 401 ''Missing bearer token''
      | Some header \<Rightarrow>
          if take 7 header \<noteq> ''Bearer '' then throw 401 ''Missing bearer token''
          else case verify (drop 7 header) of
            None \<Rightarrow> throw 401 ''Invalid or expired token''
          | Some cl \<Rightarrow>
              if \<not> truthy (cl_tenantId cl) then throw 403 ''Token is missing the tenantId claim''
              else Inr (Some \<lparr>id_tenantId = cl_tenantId cl, id_companyId = cl_companyId cl,
                id_userId = cl_sub cl,
                id_roles = (case cl_roles cl of
                   RoleList rs \<Rightarrow> rs
                 | RoleText t \<Rightarrow> parse_roles (coalesce t []))\<rparr>))"

definition resolve_identity ::
  "tenancy_mode \<Rightarrow> identity option \<Rightarrow> http_headers \<Rightarrow> identity" where
  "resolve_identity mode stored h =
     (case stored of
        Some i \<Rightarrow> i
      | None \<Rightarrow>
          if mode = Multi
          then \<lparr>id_tenantId = None, id_companyId = None, id_userId = None, id_roles = []\<rparr>
          else \<lparr>id_tenantId = h_tenant h, id_companyId = h_company h, id_userId = h_user h,
                id_roles = (case h_roles h of None \<Rightarrow> [] | Some r \<Rightarrow> parse_roles r)\<rparr>)"

definition request_id_interceptor ::
  "tenancy_mode \<Rightarrow> string \<Rightarrow> identity option \<Rightarrow> http_headers \<Rightarrow> request_context option \<Rightarrow> request_context option"
where
  "request_id_interceptor mode uuid stored h ctx =
     (let identity = resolve_identity mode stored h
      in ctx_set ctx (empty_patch\<lparr>p_requestId := Some uuid,
           p_correlationId := Some (coalesce (h_correlation h) uuid),
           p_tenantId := Some (id_tenantId identity),
           p_companyId := Some (id_companyId identity),
           p_userId := Some (id_userId identity),
           p_roles := Some (id_roles identity),
           p_locale := Some (coalesce (h_language h) ''en''),
           p_ip := Some (h_ip h),
           p_userAgent := Some (h_userAgent h)\<rparr>))"

text \<open>The order of the framework: middleware, then guards, then interceptors.\<close>

definition http_context ::
  "tenancy_mode \<Rightarrow> bool \<Rightarrow> (string \<Rightarrow> claims option) \<Rightarrow> (string \<Rightarrow> company_config option)
   \<Rightarrow> string \<Rightarrow> http_headers \<Rightarrow> request_context result"
where
  "http_context mode skip verify lookup uuid h =
     and_then (tenancy_guard mode skip True verify h) (\<lambda>stored.
       ctx_require (request_id_interceptor mode uuid stored h
         (company_config_middleware lookup h None)))"

section \<open>Tenant scope\<close>

definition assertVisible :: "string option \<Rightarrow> string option \<Rightarrow> unit result" where
  "assertVisible resourceTenantId requestTenantId =
     check (\<not> (truthy requestTenantId \<and> truthy resourceTenantId \<and> resourceTenantId \<noteq> requestTenantId))
       (not_found ''Not Found'')"

text \<open>\<open>TenantScope.where\<close> as the predicate on a row's tenant that the fragment selects.\<close>

definition tenant_where :: "string option \<Rightarrow> bool \<Rightarrow> string option \<Rightarrow> bool" where
  "tenant_where requestTenantId includeUnscoped rowTenant \<longleftrightarrow>
     (if \<not> truthy requestTenantId then True
      else if includeUnscoped then rowTenant = requestTenantId \<or> rowTenant = None
      else rowTenant = requestTenantId)"

abbreviation owned_scope :: "request_context \<Rightarrow> string option \<Rightarrow> bool" where
  "owned_scope c \<equiv> tenant_where (ctx_tenantId c) False"

definition DEFAULT_COMPANY_ID :: string where
  "DEFAULT_COMPANY_ID = ''00000000-0000-0000-0000-000000000000''"

definition resolveCompanyId :: "request_context \<Rightarrow> string" where
  "resolveCompanyId c = coalesce (ctx_companyId c) (coalesce (ctx_tenantId c) DEFAULT_COMPANY_ID)"

section \<open>Attribute-based access control\<close>

record abac_check =
  ac_tenantId :: string
  ac_companyId :: string
  ac_userId :: string
  ac_roles :: "string list"
  ac_defaultCurrency :: string
  ac_autoApproveThreshold :: number
  ac_overReceiptTolerance :: number
  ac_resource :: string
  ac_action :: string

datatype abac_result = ALLOW | DENY (deny_reason: "string option")

type_synonym abac = "abac_check \<Rightarrow> abac_result"

text \<open>The adapter the application binds today.\<close>

definition noop_abac :: abac where
  "noop_abac c = ALLOW"

definition abac_context :: "request_context \<Rightarrow> string \<Rightarrow> string \<Rightarrow> string \<Rightarrow> abac_check" where
  "abac_context ctx companyId resource action =
     \<lparr>ac_tenantId = coalesce (ctx_tenantId ctx) [], ac_companyId = companyId,
      ac_userId = coalesce (ctx_userId ctx) [], ac_roles = roles ctx,
      ac_defaultCurrency = coalesce (defaultCurrency ctx) ''USD'',
      ac_autoApproveThreshold = coalesce (autoApproveThreshold ctx) (N 0),
      ac_overReceiptTolerance = coalesce (overReceiptTolerance ctx) (N 0),
      ac_resource = resource, ac_action = action\<rparr>"

text \<open>
  The prologue the guarded use cases share, written out at the head of each \<open>execute\<close>: a
  company is required, then the access-control port decides.
\<close>

definition require_company_and_access ::
  "abac \<Rightarrow> request_context \<Rightarrow> unit result \<Rightarrow> string \<Rightarrow> string \<Rightarrow> unit result" where
  "require_company_and_access ac ctx no_company resource action =
     (if \<not> truthy (ctx_companyId ctx) then no_company
      else case ac (abac_context ctx (the (ctx_companyId ctx)) resource action) of
             DENY reason \<Rightarrow> forbidden (coalesce reason ''ABAC denied'')
           | ALLOW \<Rightarrow> Inr ())"

section \<open>Facts\<close>

lemma tenant_where_owned_None [simp]: "tenant_where None b t"
  by (simp add: tenant_where_def)

lemma tenant_where_owned:
  "truthy t \<Longrightarrow> tenant_where t False r \<longleftrightarrow> r = t"
  by (simp add: tenant_where_def)

text \<open>Two tenants never see the same owned row.\<close>

lemma tenant_where_disjoint:
  "truthy a \<Longrightarrow> truthy b \<Longrightarrow> a \<noteq> b \<Longrightarrow> \<not> (tenant_where a False r \<and> tenant_where b False r)"
  by (auto simp: tenant_where_def)

lemma tenant_where_mono: "tenant_where t False r \<Longrightarrow> tenant_where t True r"
  by (auto simp: tenant_where_def)

lemma context_with_config:
  "defaultCurrency (context_with c p) = coalesce (p_defaultCurrency p) None"
  "autoApproveThreshold (context_with c p) = coalesce (p_autoApproveThreshold p) None"
  "overReceiptTolerance (context_with c p) = coalesce (p_overReceiptTolerance p) None"
  by (simp_all add: context_with_def spread_def toData_def)

lemma context_with_tenant:
  "ctx_tenantId (context_with c p) = coalesce (p_tenantId p) (ctx_tenantId c)"
  "ctx_companyId (context_with c p) = coalesce (p_companyId p) (ctx_companyId c)"
  "ctx_userId (context_with c p) = coalesce (p_userId p) (ctx_userId c)"
  by (simp_all add: context_with_def spread_def toData_def)

lemma interceptor_config:
  assumes "request_id_interceptor mode uuid stored h ctx = Some c"
  shows "defaultCurrency c = None \<and> autoApproveThreshold c = None \<and> overReceiptTolerance c = None"
  using assms
  by (cases ctx) (auto simp: request_id_interceptor_def ctx_set_def Let_def context_with_config
        spread_def emptyContext_def empty_patch_def)

text \<open>
  C26. In multi-tenant mode the identity of a request comes from its verified token only: if a
  request passes, its token was accepted by the verifier and carries a tenant, and the
  context carries that tenant, company and user whatever the identity headers say.
\<close>
theorem multi_tenant_identity_from_token:
  assumes "http_context Multi False verify lookup uuid h = Inr c"
  shows "\<exists>token cl. h_authorization h = Some (''Bearer '' @ token) \<and> verify token = Some cl \<and>
    truthy (cl_tenantId cl) \<and> ctx_tenantId c = cl_tenantId cl \<and>
    ctx_companyId c = cl_companyId cl \<and> ctx_userId c = cl_sub cl"
proof -
  obtain stored where g: "tenancy_guard Multi False True verify h = Inr stored"
    and r: "ctx_require (request_id_interceptor Multi uuid stored h
              (company_config_middleware lookup h None)) = Inr c"
    using assms by (auto simp: http_context_def and_then_Inr_iff)
  from g obtain header cl where header: "h_authorization h = Some header"
    and bearer: "take 7 header = ''Bearer ''" and v: "verify (drop 7 header) = Some cl"
    and t: "truthy (cl_tenantId cl)"
    and s: "stored = Some \<lparr>id_tenantId = cl_tenantId cl, id_companyId = cl_companyId cl,
        id_userId = cl_sub cl, id_roles = (case cl_roles cl of
           RoleList rs \<Rightarrow> rs | RoleText t \<Rightarrow> parse_roles (coalesce t []))\<rparr>"
    by (auto simp: tenancy_guard_def split: option.splits if_splits)
  from r s have "ctx_tenantId c = cl_tenantId cl \<and> ctx_companyId c = cl_companyId cl \<and> ctx_userId c = cl_sub cl"
    by (auto simp: ctx_require_def request_id_interceptor_def resolve_identity_def ctx_set_def
          context_with_tenant spread_def empty_patch_def Let_def split: option.splits)
  moreover have "header = ''Bearer '' @ drop 7 header" using bearer by (metis append_take_drop_id)
  ultimately show ?thesis using header v t by metis
qed


definition sample_claims :: claims where
  "sample_claims = \<lparr>cl_sub = Some ''u1'', cl_tenantId = Some ''T1'', cl_companyId = Some ''C1'',
     cl_roles = RoleText (Some ''buyer, approver'')\<rparr>"

text \<open>A request of user \<open>u1\<close> of tenant \<open>T1\<close> whose headers claim to be of tenant \<open>T2\<close>.\<close>

definition sample_headers :: http_headers where
  "sample_headers = \<lparr>h_authorization = Some ''Bearer abc'', h_tenant = Some ''T2'',
     h_company = Some ''C2'', h_user = None, h_roles = None, h_correlation = None,
     h_language = None, h_userAgent = None, h_ip = None\<rparr>"

definition sample_verify :: "string \<Rightarrow> claims option" where
  "sample_verify t = (if t = ''abc'' then Some sample_claims else None)"

theorem multi_tenant_identity_from_token_witness:
  "\<exists>c. http_context Multi False sample_verify (\<lambda>_. None) ''r1'' sample_headers = Inr c \<and>
     ctx_tenantId c = Some ''T1''"
proof -
  let ?r = "http_context Multi False sample_verify (\<lambda>_. None) ''r1'' sample_headers"
  obtain c where c: "?r = Inr c"
    by (simp add: http_context_def tenancy_guard_def sample_headers_def sample_verify_def sample_claims_def
        request_id_interceptor_def ctx_set_def ctx_require_def Let_def company_config_middleware_def)
  from multi_tenant_identity_from_token [OF c] have "ctx_tenantId c = cl_tenantId sample_claims"
    by (auto simp: sample_verify_def split: if_splits)
  then show ?thesis using c by (simp add: sample_claims_def)
qed

end
