(* ===== verification/Purchase_Order.thy ===== *)
theory Purchase_Order
  imports Context
begin

text \<open>
  The PurchaseOrder aggregate (\<open>business/procurement/purchase-order/domain\<close>): its status
  enumeration, line entity, invariants and policies, one definition per method of the
  aggregate and of the factory. A method takes the clock reading \<open>now\<close> (all \<open>new Date()\<close>
  calls of one method read the same value) and returns the updated aggregate or the error
  it throws; an error leaves the caller with the old aggregate, as no caller keeps a
  half-updated one. The fields of \<open>PurchaseOrderProps\<close> are prefixed \<open>po_\<close>; \<open>po_version\<close> and
  \<open>po_events\<close> are the fields of \<open>AggregateRoot\<close>.
\<close>

section \<open>Types\<close>

datatype po_status = DRAFT | SUBMITTED | PENDINGAPPROVAL | APPROVED | ISSUED | HOLD | REVISION
  | PARTIALLYRECEIVED | FULLYRECEIVED | REJECTED | CANCELLED | COMPLETED | CLOSED | ARCHIVED

fun po_status_name :: "po_status \<Rightarrow> string" where
  "po_status_name DRAFT = ''DRAFT''"
| "po_status_name SUBMITTED = ''SUBMITTED''"
| "po_status_name PENDINGAPPROVAL = ''PENDINGAPPROVAL''"
| "po_status_name APPROVED = ''APPROVED''"
| "po_status_name ISSUED = ''ISSUED''"
| "po_status_name HOLD = ''HOLD''"
| "po_status_name REVISION = ''REVISION''"
| "po_status_name PARTIALLYRECEIVED = ''PARTIALLYRECEIVED''"
| "po_status_name FULLYRECEIVED = ''FULLYRECEIVED''"
| "po_status_name REJECTED = ''REJECTED''"
| "po_status_name CANCELLED = ''CANCELLED''"
| "po_status_name COMPLETED = ''COMPLETED''"
| "po_status_name CLOSED = ''CLOSED''"
| "po_status_name ARCHIVED = ''ARCHIVED''"

type_synonym time = int

record po_line =
  pol_productId :: string
  pol_quantity :: number
  pol_unitPrice :: money
  pol_total :: money
  pol_receivedQuantity :: number
  pol_descriptionSnapshot :: "string option"

datatype amended = AmendedDate "time option" | AmendedPrices "(string \<times> int) list"

datatype po_event =
    PurchaseOrderCreated string string string
  | PurchaseOrderLineAdded string string
  | PurchaseOrderLineRemoved string string
  | PurchaseOrderSubmitted string string string
  | PurchaseOrderApproved string
  | PurchaseOrderRejected string string
  | PurchaseOrderCancelled string
  | PurchaseOrderIssued string
  | PurchaseOrderCompleted string
  | PurchaseOrderAmended string "amended list" string "string option"

record purchase_order =
  po_id :: string
  po_version :: int
  po_events :: "po_event list"
  po_orderNumber :: string
  po_vendorId :: string
  po_externalReference :: "string option"
  po_status :: po_status
  po_currency :: string
  po_lines :: "po_line list"
  po_orderDate :: "time option"
  po_expectedDeliveryDate :: "time option"
  po_createdBy :: "string option"
  po_approvedBy :: "string option"
  po_approvedAt :: "time option"
  po_rejectedBy :: "string option"
  po_rejectedAt :: "time option"
  po_rejectionReason :: "string option"
  po_issuedBy :: "string option"
  po_cancelledBy :: "string option"
  po_amendedBy :: "string option"
  po_amendedAt :: "time option"
  po_amendmentReason :: "string option"
  po_lastReceiptBy :: "string option"
  po_lastReceiptAt :: "time option"
  po_createdAt :: time
  po_updatedAt :: time

definition po_addEvent :: "po_event \<Rightarrow> purchase_order \<Rightarrow> purchase_order" where
  "po_addEvent e po = po\<lparr>po_events := po_events po @ [e]\<rparr>"

definition po_pullEvents :: "purchase_order \<Rightarrow> po_event list \<times> purchase_order" where
  "po_pullEvents po = (po_events po, po\<lparr>po_events := []\<rparr>)"

section \<open>Lines\<close>

definition line_withUpdatedQuantity :: "number \<Rightarrow> money \<Rightarrow> money \<Rightarrow> po_line \<Rightarrow> po_line" where
  "line_withUpdatedQuantity q u t l = l\<lparr>pol_quantity := q, pol_unitPrice := u, pol_total := t\<rparr>"

definition line_withAmendedUnitPrice :: "money \<Rightarrow> money \<Rightarrow> po_line \<Rightarrow> po_line" where
  "line_withAmendedUnitPrice u t l = l\<lparr>pol_unitPrice := u, pol_total := t\<rparr>"

definition line_withReceivedQuantity :: "number \<Rightarrow> po_line \<Rightarrow> po_line" where
  "line_withReceivedQuantity q l = l\<lparr>pol_receivedQuantity := q\<rparr>"

definition line_receive :: "number \<Rightarrow> po_line \<Rightarrow> po_line result" where
  "line_receive delta l =
     (if \<not> is_integer delta then throw 422 ''Received quantity delta must be an integer''
      else Inr (l\<lparr>pol_receivedQuantity := js_add (pol_receivedQuantity l) delta\<rparr>))"

definition lineTotal :: "money \<Rightarrow> number \<Rightarrow> money" where
  "lineTotal unitPrice q = money_multiply unitPrice q"

section \<open>Invariants\<close>

definition inv_amendable :: "po_status \<Rightarrow> unit result" where
  "inv_amendable s = check (s = ISSUED)
     (throw 422 ''Only an issued purchase order can be amended - amend before issuing'')"

definition inv_create :: "string \<Rightarrow> string \<Rightarrow> unit result" where
  "inv_create orderNumber vendorId =
     (if trim orderNumber = [] then throw 422 ''Purchase order number is required''
      else if trim vendorId = [] then throw 422 ''Purchase order vendor is required''
      else Inr ())"

definition inv_has_lines :: "nat \<Rightarrow> unit result" where
  "inv_has_lines lineCount =
     (if lineCount < 1 then throw 422 ''Purchase order must contain at least one line'' else Inr ())"

fun po_allowed :: "po_status \<Rightarrow> po_status list" where
  "po_allowed DRAFT = [SUBMITTED, PENDINGAPPROVAL, CANCELLED]"
| "po_allowed SUBMITTED = [PENDINGAPPROVAL, APPROVED, REJECTED, CANCELLED]"
| "po_allowed PENDINGAPPROVAL = [APPROVED, REJECTED, DRAFT]"
| "po_allowed APPROVED = [ISSUED, HOLD, REVISION, CANCELLED]"
| "po_allowed HOLD = [APPROVED]"
| "po_allowed REVISION = [APPROVED]"
| "po_allowed ISSUED = [PARTIALLYRECEIVED, FULLYRECEIVED, COMPLETED, CLOSED]"
| "po_allowed PARTIALLYRECEIVED =
     [PARTIALLYRECEIVED, FULLYRECEIVED, COMPLETED, CLOSED, CANCELLED]"
| "po_allowed FULLYRECEIVED = [COMPLETED, CLOSED]"
| "po_allowed REJECTED = []"
| "po_allowed CANCELLED = []"
| "po_allowed COMPLETED = []"
| "po_allowed CLOSED = []"
| "po_allowed ARCHIVED = []"

definition inv_status_transition :: "po_status \<Rightarrow> po_status \<Rightarrow> unit result" where
  "inv_status_transition status to =
     (if status = to then Inr ()
      else if to \<notin> set (po_allowed status)
      then throw 422 (''Invalid purchase order transition: '' @ po_status_name status @ '' -> '' @ po_status_name to)
      else Inr ())"

definition inv_editable :: "po_status \<Rightarrow> unit result" where
  "inv_editable status =
     (if status \<noteq> DRAFT
      then throw 422 (''Cannot modify a purchase order in status '' @ po_status_name status @
        ''; only DRAFT orders are editable'')
      else Inr ())"

definition inv_line_quantity :: "number \<Rightarrow> unit result" where
  "inv_line_quantity q =
     (if \<not> is_integer q \<or> js_le q (N 0) then throw 422 ''Line quantity must be a positive integer''
      else Inr ())"

definition inv_order_number :: "string \<Rightarrow> unit result" where
  "inv_order_number orderNumber =
     (if trim orderNumber = [] then throw 422 ''Order number cannot be empty'' else Inr ())"

section \<open>Policies\<close>

definition policy_enforce :: "string \<Rightarrow> bool \<Rightarrow> unit result" where
  "policy_enforce name ok = check ok (throw 422 (''Policy '' @ name @ '' failed''))"

definition policy_approval :: "po_status \<Rightarrow> number \<Rightarrow> number \<Rightarrow> bool" where
  "policy_approval status totalAmount threshold =
     (if status \<noteq> SUBMITTED then False else js_gt totalAmount threshold)"

definition policy_can_approve :: "po_status \<Rightarrow> number \<Rightarrow> number \<Rightarrow> bool" where
  "policy_can_approve status totalAmount threshold =
     (if status \<noteq> SUBMITTED then True else js_le totalAmount threshold)"

definition policy_cancellation :: "bool \<Rightarrow> bool" where
  "policy_cancellation hasReceipts = (\<not> hasReceipts)"

definition receipt_limit :: "number \<Rightarrow> number \<Rightarrow> number" where
  "receipt_limit orderedQuantity tolerance = js_mul orderedQuantity (js_add (N 1) tolerance)"

definition policy_over_receipt :: "number \<Rightarrow> number \<Rightarrow> number \<Rightarrow> number \<Rightarrow> unit result" where
  "policy_over_receipt orderedQuantity alreadyReceived proposedQuantity tolerance =
     (let limit = receipt_limit orderedQuantity tolerance
      in if js_gt (js_add alreadyReceived proposedQuantity) limit
         then throw 422 ''Over-receipt''
         else Inr ())"

definition requiresManualApproval :: "po_status \<Rightarrow> number \<Rightarrow> number \<Rightarrow> bool" where
  "requiresManualApproval status totalAmount threshold = policy_approval status totalAmount threshold"

section \<open>Derived values\<close>

definition po_subtotal :: "purchase_order \<Rightarrow> money result" where
  "po_subtotal po = for_each (\<lambda>acc l. money_add acc (pol_total l)) (money_ZERO (po_currency po)) (po_lines po)"

definition po_total :: "purchase_order \<Rightarrow> money result" where
  "po_total po = po_subtotal po"

definition openQuantity :: "number \<Rightarrow> number \<Rightarrow> number" where
  "openQuantity ordered received = math_max (N 0) (js_sub ordered received)"

definition maxReceivableQuantity :: "number \<Rightarrow> number \<Rightarrow> number \<Rightarrow> number" where
  "maxReceivableQuantity ordered received tolerance = js_sub (receipt_limit ordered tolerance) received"

datatype receipt_status = NONE | PARTIAL | FULL

definition deriveReceiptStatus :: "(number \<times> number) list \<Rightarrow> receipt_status" where
  "deriveReceiptStatus ls =
     (if ls = [] then NONE
      else if list_all (\<lambda>(q, r). js_ge r q) ls then FULL
      else if list_ex (\<lambda>(q, r). js_gt r (N 0)) ls then PARTIAL
      else NONE)"

section \<open>The methods of the aggregate\<close>

definition assertEditable :: "purchase_order \<Rightarrow> unit result" where
  "assertEditable po = inv_editable (po_status po)"

abbreviation is_product :: "string \<Rightarrow> po_line \<Rightarrow> bool" where
  "is_product p l \<equiv> pol_productId l = p"

definition recordReceipt :: "time \<Rightarrow> string option \<Rightarrow> purchase_order \<Rightarrow> purchase_order" where
  "recordReceipt now actorId po =
     po\<lparr>po_updatedAt := now, po_lastReceiptBy := actorId, po_lastReceiptAt := Some now\<rparr>"

definition updateHeader ::
  "time \<Rightarrow> time option \<Rightarrow> time option \<Rightarrow> string option \<Rightarrow> purchase_order \<Rightarrow> purchase_order result" where
  "updateHeader now orderDate expectedDeliveryDate externalReference po =
     and_then (assertEditable po) (\<lambda>_.
       Inr (po\<lparr>po_orderDate := coalesce_opt orderDate (po_orderDate po),
               po_expectedDeliveryDate := coalesce_opt expectedDeliveryDate (po_expectedDeliveryDate po),
               po_externalReference := coalesce_opt externalReference (po_externalReference po),
               po_updatedAt := now\<rparr>))"

definition new_line :: "string \<Rightarrow> number \<Rightarrow> money \<Rightarrow> money \<Rightarrow> string option \<Rightarrow> po_line" where
  "new_line productId q u t d = \<lparr>pol_productId = productId, pol_quantity = q, pol_unitPrice = u,
     pol_total = t, pol_receivedQuantity = N 0, pol_descriptionSnapshot = d\<rparr>"

definition addLine ::
  "time \<Rightarrow> string \<Rightarrow> number \<Rightarrow> money \<Rightarrow> string option \<Rightarrow> purchase_order \<Rightarrow> purchase_order result" where
  "addLine now productId quantity unitPrice descriptionSnapshot po =
     and_then (assertEditable po) (\<lambda>_.
     and_then (inv_line_quantity quantity) (\<lambda>_.
       let lines' =
         (case List.find (is_product productId) (po_lines po) of
            Some existing \<Rightarrow>
              let newQty = js_add (pol_quantity existing) quantity;
                  newTotal = lineTotal unitPrice newQty
              in map_where (is_product productId)
                   (line_withUpdatedQuantity newQty unitPrice newTotal) (po_lines po)
          | None \<Rightarrow> po_lines po @
              [new_line productId quantity unitPrice (lineTotal unitPrice quantity) descriptionSnapshot])
       in Inr (po_addEvent (PurchaseOrderLineAdded (po_id po) productId)
                 (po\<lparr>po_lines := lines', po_updatedAt := now\<rparr>))))"

definition setLine ::
  "time \<Rightarrow> string \<Rightarrow> number \<Rightarrow> money \<Rightarrow> string option \<Rightarrow> purchase_order \<Rightarrow> (bool \<times> purchase_order) result" where
  "setLine now productId quantity unitPrice descriptionSnapshot po =
     and_then (assertEditable po) (\<lambda>_.
     and_then (inv_line_quantity quantity) (\<lambda>_.
       let total = money_multiply unitPrice quantity;
           written = (\<lambda>lines'. Inr (True, po_addEvent (PurchaseOrderLineAdded (po_id po) productId)
                        (po\<lparr>po_lines := lines', po_updatedAt := now\<rparr>)))
       in case List.find (is_product productId) (po_lines po) of
            Some existing \<Rightarrow>
              if js_eq (pol_quantity existing) quantity \<and> money_equals (pol_unitPrice existing) unitPrice
              then Inr (False, po)
              else written (update_first (is_product productId)
                     (line_withUpdatedQuantity quantity unitPrice total) (po_lines po))
          | None \<Rightarrow> written (po_lines po @
              [new_line productId quantity unitPrice total descriptionSnapshot])))"

definition removeLine :: "time \<Rightarrow> string \<Rightarrow> purchase_order \<Rightarrow> purchase_order result" where
  "removeLine now productId po =
     and_then (assertEditable po) (\<lambda>_.
       Inr (po_addEvent (PurchaseOrderLineRemoved (po_id po) productId)
         (po\<lparr>po_lines := filter (\<lambda>l. \<not> is_product productId l) (po_lines po),
             po_updatedAt := now\<rparr>)))"

definition submit :: "time \<Rightarrow> purchase_order \<Rightarrow> purchase_order result" where
  "submit now po =
     and_then (inv_has_lines (length (po_lines po))) (\<lambda>_.
     and_then (inv_status_transition (po_status po) SUBMITTED) (\<lambda>_.
       Inr (po_addEvent (PurchaseOrderSubmitted (po_id po) (po_orderNumber po) (po_vendorId po))
         (po\<lparr>po_status := SUBMITTED, po_updatedAt := now\<rparr>))))"

definition approve :: "time \<Rightarrow> string option \<Rightarrow> purchase_order \<Rightarrow> purchase_order result" where
  "approve now actorId po =
     and_then (inv_status_transition (po_status po) APPROVED) (\<lambda>_.
       Inr (po_addEvent (PurchaseOrderApproved (po_id po))
         (po\<lparr>po_status := APPROVED, po_approvedBy := actorId, po_approvedAt := Some now,
             po_updatedAt := now\<rparr>)))"

definition reject :: "time \<Rightarrow> string \<Rightarrow> string option \<Rightarrow> purchase_order \<Rightarrow> purchase_order result" where
  "reject now reason actorId po =
     and_then (inv_status_transition (po_status po) REJECTED) (\<lambda>_.
       Inr (po_addEvent (PurchaseOrderRejected (po_id po) reason)
         (po\<lparr>po_status := REJECTED, po_rejectedBy := actorId, po_rejectedAt := Some now,
             po_rejectionReason := Some reason, po_updatedAt := now\<rparr>)))"

definition cancel :: "time \<Rightarrow> string option \<Rightarrow> bool \<Rightarrow> purchase_order \<Rightarrow> purchase_order result" where
  "cancel now actorId hasReceipts po =
     and_then (inv_status_transition (po_status po) CANCELLED) (\<lambda>_.
     and_then (policy_enforce ''purchase-order-cancellation-no-posted-receipts''
                 (policy_cancellation hasReceipts)) (\<lambda>_.
       Inr (po_addEvent (PurchaseOrderCancelled (po_id po))
         (po\<lparr>po_status := CANCELLED, po_cancelledBy := actorId, po_updatedAt := now\<rparr>))))"

definition issue :: "time \<Rightarrow> string option \<Rightarrow> purchase_order \<Rightarrow> purchase_order result" where
  "issue now actorId po =
     and_then (inv_has_lines (length (po_lines po))) (\<lambda>_.
     and_then (inv_status_transition (po_status po) ISSUED) (\<lambda>_.
       Inr (po_addEvent (PurchaseOrderIssued (po_id po))
         (po\<lparr>po_status := ISSUED, po_issuedBy := actorId, po_updatedAt := now\<rparr>))))"

definition close :: "time \<Rightarrow> purchase_order \<Rightarrow> purchase_order result" where
  "close now po =
     and_then (inv_status_transition (po_status po) COMPLETED) (\<lambda>_.
       Inr (po_addEvent (PurchaseOrderCompleted (po_id po))
         (po\<lparr>po_status := COMPLETED, po_updatedAt := now\<rparr>)))"

definition complete :: "time \<Rightarrow> purchase_order \<Rightarrow> purchase_order result" where
  "complete now po = close now po"

text \<open>
  Amendment of an issued order. The new prices come as \<open>Object.entries\<close> of the request's
  record (minor units per product), the applied changes as the list of amended fields.
\<close>

record amend_changes =
  am_expectedDeliveryDate :: "time option option"
  am_lineUnitPrices :: "(string \<times> number) list option"
  am_reason :: string
  am_actorId :: "string option"

definition amend_price ::
  "string \<Rightarrow> po_line list \<times> (string \<times> int) list \<Rightarrow> string \<times> number
   \<Rightarrow> (po_line list \<times> (string \<times> int) list) result" where
  "amend_price currency st entry =
     (let (lines, prices) = st; (productId, units) = entry
      in case List.find (is_product productId) lines of
           None \<Rightarrow> throw 404 (''Purchase order has no line for product '' @ productId)
         | Some line \<Rightarrow>
             if js_gt (pol_receivedQuantity line) (N 0)
             then throw 422 (''Line '' @ productId @ '' already has a receipt and cannot be re-priced'')
             else and_then (money_fromMinorUnits units currency) (\<lambda>unitPrice.
               let total = money_multiply unitPrice (pol_quantity line)
               in Inr (map_where (is_product productId)
                         (line_withAmendedUnitPrice unitPrice total) lines,
                       prices @ [(productId, money_toDecimal unitPrice)])))"

definition amend_prices ::
  "string \<Rightarrow> po_line list \<Rightarrow> (string \<times> number) list option \<Rightarrow> (po_line list \<times> amended list) result" where
  "amend_prices currency lines lineUnitPrices =
     (case lineUnitPrices of
        None \<Rightarrow> Inr (lines, [])
      | Some prices \<Rightarrow>
          if prices = [] then Inr (lines, [])
          else and_then (for_each (amend_price currency) (lines, []) prices)
                 (\<lambda>(lines', done). Inr (lines', [AmendedPrices done])))"

definition amend :: "time \<Rightarrow> amend_changes \<Rightarrow> purchase_order \<Rightarrow> (amended list \<times> purchase_order) result" where
  "amend now ch po =
     and_then (inv_amendable (po_status po)) (\<lambda>_.
       let reason = trim (am_reason ch)
       in if reason = [] then throw 422 ''An amendment requires a reason''
          else
            let date = am_expectedDeliveryDate ch;
                dated = (case date of None \<Rightarrow> [] | Some d \<Rightarrow> [AmendedDate d])
            in and_then (amend_prices (po_currency po) (po_lines po) (am_lineUnitPrices ch))
                 (\<lambda>(lines', priced).
                    let applied = dated @ priced
                    in if applied = [] then throw 422 ''An amendment must change something''
                       else Inr (applied,
                         po_addEvent (PurchaseOrderAmended (po_id po) applied reason (am_actorId ch))
                           (po\<lparr>po_expectedDeliveryDate := coalesce date (po_expectedDeliveryDate po),
                               po_lines := lines',
                               po_amendedBy := coalesce_opt (am_actorId ch) (po_amendedBy po),
                               po_amendedAt := Some now, po_amendmentReason := Some reason,
                               po_updatedAt := now\<rparr>))))"

section \<open>The factory\<close>

record create_po_input =
  ci_orderNumber :: string
  ci_vendorId :: string
  ci_currency :: "string option"
  ci_externalReference :: "string option"
  ci_orderDate :: "time option"
  ci_expectedDeliveryDate :: "time option"
  ci_createdBy :: "string option"

definition orderNumber_create :: "string \<Rightarrow> string result" where
  "orderNumber_create s = and_then (inv_order_number s) (\<lambda>_. Inr (to_upper (trim s)))"

definition orderNumber_generate :: "nat \<Rightarrow> string" where
  "orderNumber_generate n = ''PO-'' @ pad_start 8 (CHR ''0'') (nat_to_string n)"

definition po_create :: "time \<Rightarrow> string \<Rightarrow> create_po_input \<Rightarrow> purchase_order result" where
  "po_create now uuid input =
     and_then (inv_create (ci_orderNumber input) (ci_vendorId input)) (\<lambda>_.
     and_then (inv_order_number (ci_orderNumber input)) (\<lambda>_.
     and_then (orderNumber_create (ci_orderNumber input)) (\<lambda>num.
       Inr (po_addEvent (PurchaseOrderCreated uuid num (ci_vendorId input))
        \<lparr>po_id = uuid, po_version = 1, po_events = [], po_orderNumber = num,
         po_vendorId = ci_vendorId input, po_externalReference = ci_externalReference input,
         po_status = DRAFT, po_currency = coalesce (ci_currency input) ''USD'', po_lines = [],
         po_orderDate = Some (coalesce (ci_orderDate input) now),
         po_expectedDeliveryDate = ci_expectedDeliveryDate input,
         po_createdBy = ci_createdBy input, po_approvedBy = None, po_approvedAt = None,
         po_rejectedBy = None, po_rejectedAt = None, po_rejectionReason = None,
         po_issuedBy = None, po_cancelledBy = None, po_amendedBy = None, po_amendedAt = None,
         po_amendmentReason = None, po_lastReceiptBy = None, po_lastReceiptAt = None,
         po_createdAt = now, po_updatedAt = now\<rparr>))))"

text \<open>
  Receipt registration: positive quantities receive, negative ones compensate. The line
  objects are mutated in place, so a later entry for the same product sees the earlier one.
\<close>

type_synonym receipt_line = "string option \<times> number"

definition receive_line :: "number \<Rightarrow> po_line list \<Rightarrow> receipt_line \<Rightarrow> po_line list result" where
  "receive_line tolerance lines entry =
     (case fst entry of
        None \<Rightarrow> throw 422 ''Product ID is required on each receipt line''
      | Some productId \<Rightarrow>
          (case List.find (is_product productId) lines of
             None \<Rightarrow> throw 404 (''Product '' @ productId @ '' is not on the purchase order'')
           | Some poLine \<Rightarrow>
               and_then (policy_over_receipt (pol_quantity poLine) (pol_receivedQuantity poLine)
                           (snd entry) tolerance) (\<lambda>_.
               and_then (line_receive (snd entry) poLine) (\<lambda>poLine'.
                 Inr (update_first (is_product productId) (\<lambda>_. poLine') lines)))))"

definition receiving_eligible :: "po_status \<Rightarrow> bool" where
  "receiving_eligible s \<longleftrightarrow> s = ISSUED \<or> s = APPROVED"

definition openPoForReceipt ::
  "time \<Rightarrow> receipt_line list \<Rightarrow> number \<Rightarrow> string option \<Rightarrow> purchase_order \<Rightarrow> purchase_order result" where
  "openPoForReceipt now entries tolerance actorId po =
     (if \<not> receiving_eligible (po_status po)
      then throw 422 ''Purchase order is not receiving-eligible''
      else and_then (for_each (receive_line tolerance) (po_lines po) entries) (\<lambda>lines'.
             Inr (recordReceipt now actorId (po\<lparr>po_lines := lines'\<rparr>))))"

end
