(* ===== verification/PO_Lifecycle.thy ===== *)
theory PO_Lifecycle
  imports Purchase_Order
begin

text \<open>
  The life of a purchase order as a state machine over the methods of the aggregate: the
  operations as a datatype, one run step \<open>po_apply\<close>, the orders reachable from the factory,
  and the facts that hold of all of them: the status table, terminal states, the line
  invariant, frozen quantities, and the receiving balance.
\<close>

section \<open>Operations and reachable orders\<close>

datatype po_op =
    UpdateHeader "time option" "time option" "string option"
  | AddLine string number money "string option"
  | SetLine string number money "string option"
  | RemoveLine string
  | Submit
  | Approve "string option"
  | Reject string "string option"
  | Cancel "string option" bool
  | Issue "string option"
  | Complete
  | Amend amend_changes
  | Receive "receipt_line list" number "string option"
  | PullEvents

fun po_apply :: "time \<Rightarrow> po_op \<Rightarrow> purchase_order \<Rightarrow> purchase_order result" where
  "po_apply now (UpdateHeader d e x) po = updateHeader now d e x po"
| "po_apply now (AddLine p q u s) po = addLine now p q u s po"
| "po_apply now (SetLine p q u s) po = and_then (setLine now p q u s po) (\<lambda>(_, po'). Inr po')"
| "po_apply now (RemoveLine p) po = removeLine now p po"
| "po_apply now Submit po = submit now po"
| "po_apply now (Approve a) po = approve now a po"
| "po_apply now (Reject r a) po = reject now r a po"
| "po_apply now (Cancel a h) po = cancel now a h po"
| "po_apply now (Issue a) po = issue now a po"
| "po_apply now Complete po = complete now po"
| "po_apply now (Amend ch) po = and_then (amend now ch po) (\<lambda>(_, po'). Inr po')"
| "po_apply now (Receive ls tol a) po = openPoForReceipt now ls tol a po"
| "po_apply now PullEvents po = Inr (snd (po_pullEvents po))"

text \<open>Unit prices reach the aggregate through \<open>Money.fromDecimal\<close> only.\<close>

fun op_ok :: "po_op \<Rightarrow> bool" where
  "op_ok (AddLine p q u s) = money_ok u"
| "op_ok (SetLine p q u s) = money_ok u"
| "op_ok _ = True"

inductive po_reachable :: "purchase_order \<Rightarrow> bool" where
  created: "po_create now uuid input = Inr po \<Longrightarrow> po_reachable po"
| step: "po_reachable po \<Longrightarrow> op_ok op \<Longrightarrow> po_apply now op po = Inr po' \<Longrightarrow> po_reachable po'"

section \<open>The status table\<close>

interpretation po_fsm: transition_guard po_allowed inv_status_transition
  by unfold_locales (auto simp: inv_status_transition_def)

lemma inv_has_lines_Inr [simp]: "inv_has_lines n = Inr u \<longleftrightarrow> 0 < n"
  by (auto simp: inv_has_lines_def)

lemma inv_editable_Inr [simp]: "inv_editable s = Inr u \<longleftrightarrow> s = DRAFT"
  by (simp add: inv_editable_def)

lemma inv_line_quantity_Inr [simp]:
  "inv_line_quantity q = Inr u \<longleftrightarrow> is_integer q \<and> js_lt (N 0) q"
  by (auto simp: inv_line_quantity_def elim!: is_integerE)

lemma inv_line_quantity_ok:
  "is_integer q \<Longrightarrow> js_lt (Fin 0) q \<Longrightarrow> inv_line_quantity q = Inr ()"
  by simp

lemma po_addEvent_fields [simp]:
  "po_status (po_addEvent e po) = po_status po" "po_lines (po_addEvent e po) = po_lines po"
  "po_version (po_addEvent e po) = po_version po" "po_id (po_addEvent e po) = po_id po"
  "po_currency (po_addEvent e po) = po_currency po"
  "po_vendorId (po_addEvent e po) = po_vendorId po"
  "po_orderNumber (po_addEvent e po) = po_orderNumber po"
  "po_externalReference (po_addEvent e po) = po_externalReference po"
  "po_events (po_addEvent e po) = po_events po @ [e]"
  by (simp_all add: po_addEvent_def)

lemma recordReceipt_fields [simp]:
  "po_status (recordReceipt now a po) = po_status po"
  "po_lines (recordReceipt now a po) = po_lines po"
  "po_id (recordReceipt now a po) = po_id po"
  "po_events (recordReceipt now a po) = po_events po"
  "po_currency (recordReceipt now a po) = po_currency po"
  "po_version (recordReceipt now a po) = po_version po"
  by (simp_all add: recordReceipt_def)

text \<open>What each method requires and writes, in the form the proofs below use.\<close>

lemmas po_method_defs = updateHeader_def addLine_def setLine_def removeLine_def submit_def
  approve_def reject_def cancel_def issue_def close_def complete_def assertEditable_def
  inv_amendable_def policy_enforce_def policy_cancellation_def po_pullEvents_def

lemma amend_InrD:
  assumes "amend now ch po = Inr (applied, po')"
  shows "po_status po = ISSUED \<and> trim (am_reason ch) \<noteq> [] \<and> applied \<noteq> [] \<and>
    (\<exists>lines' priced.
      amend_prices (po_currency po) (po_lines po) (am_lineUnitPrices ch) = Inr (lines', priced) \<and>
      applied = (case am_expectedDeliveryDate ch of None \<Rightarrow> [] | Some d \<Rightarrow> [AmendedDate d]) @ priced \<and>
      po' = po_addEvent (PurchaseOrderAmended (po_id po) applied (trim (am_reason ch)) (am_actorId ch))
        (po\<lparr>po_expectedDeliveryDate := coalesce (am_expectedDeliveryDate ch) (po_expectedDeliveryDate po),
           po_lines := lines', po_amendedBy := coalesce_opt (am_actorId ch) (po_amendedBy po),
           po_amendedAt := Some now, po_amendmentReason := Some (trim (am_reason ch)),
           po_updatedAt := now\<rparr>))"
  using assms
  by (auto simp: amend_def inv_amendable_def and_then_Inr_iff Let_def split: prod.splits if_splits)

lemma amend_frame:
  assumes "amend now ch po = Inr (applied, po')"
  shows "po_status po = ISSUED" "po_status po' = ISSUED" "po_id po' = po_id po"
    "po_currency po' = po_currency po" "po_version po' = po_version po"
  using amend_InrD [OF assms] by auto

lemma amend_statusD:
  "amend now ch po = Inr (applied, po') \<Longrightarrow> po_status po = ISSUED \<and> po_status po' = ISSUED"
  by (auto dest: amend_frame(1,2))

lemma openPoForReceipt_Inr_iff:
  "openPoForReceipt now es tol a po = Inr po' \<longleftrightarrow>
     receiving_eligible (po_status po) \<and>
     (\<exists>ls. for_each (receive_line tol) (po_lines po) es = Inr ls \<and>
        po' = recordReceipt now a (po\<lparr>po_lines := ls\<rparr>))"
  by (auto simp: openPoForReceipt_def res_simps)

text \<open>
  C2. A successful operation moves an order along the status table or leaves its
  status as it is; no operation can take any other edge.
\<close>
theorem po_status_moves_along_table:
  assumes "po_apply now op po = Inr po'"
  shows "po_status po' = po_status po \<or> po_status po' \<in> set (po_allowed (po_status po))"
  using assms
  by (cases op)
    (auto simp: po_method_defs res_simps Let_def split: option.splits if_splits prod.splits
      dest: amend_statusD simp: openPoForReceipt_Inr_iff elim!: po_fsm.guard_cases)

text \<open>
  Rejected, cancelled and completed orders are final: whatever operation succeeds on one,
  its status and its ordered lines stay what they are.
\<close>

theorem po_final_states:
  assumes "po_status po \<in> {REJECTED, CANCELLED, COMPLETED}" "po_apply now op po = Inr po'"
  shows "po_status po' = po_status po \<and> po_lines po' = po_lines po"
  using assms
  by (cases op)
    (auto simp: po_method_defs res_simps Let_def openPoForReceipt_Inr_iff receiving_eligible_def
      split: option.splits if_splits prod.splits
      dest: amend_statusD elim!: po_fsm.guard_cases)

section \<open>The order invariant\<close>

definition line_ok :: "po_line \<Rightarrow> bool" where
  "line_ok l \<longleftrightarrow> js_lt (N 0) (pol_quantity l) \<and> money_ok (pol_unitPrice l) \<and>
     pol_total l = lineTotal (pol_unitPrice l) (pol_quantity l)"

definition lines_ok :: "po_line list \<Rightarrow> bool" where
  "lines_ok ls \<longleftrightarrow> distinct (map pol_productId ls) \<and> (\<forall>l \<in> set ls. line_ok l)"

definition unreceived :: "po_line list \<Rightarrow> bool" where
  "unreceived ls \<longleftrightarrow> (\<forall>l \<in> set ls. pol_receivedQuantity l = N 0)"

text \<open>The statuses an order can really be in.\<close>

definition live_statuses :: "po_status set" where
  "live_statuses = {DRAFT, SUBMITTED, APPROVED, ISSUED, REJECTED, CANCELLED, COMPLETED}"

definition po_inv :: "purchase_order \<Rightarrow> bool" where
  "po_inv po \<longleftrightarrow> lines_ok (po_lines po) \<and> po_status po \<in> live_statuses \<and>
     (po_status po \<notin> {DRAFT, CANCELLED} \<longrightarrow> po_lines po \<noteq> []) \<and>
     (po_status po \<in> {DRAFT, SUBMITTED, REJECTED} \<longrightarrow> unreceived (po_lines po))"

lemma line_ok_new [simp]:
  "line_ok (new_line p q u t d) \<longleftrightarrow> js_lt (N 0) q \<and> money_ok u \<and> t = lineTotal u q"
  by (auto simp: line_ok_def new_line_def)

lemma line_ok_updated [simp]:
  "line_ok (line_withUpdatedQuantity q u t l) \<longleftrightarrow> js_lt (N 0) q \<and> money_ok u \<and> t = lineTotal u q"
  by (auto simp: line_ok_def line_withUpdatedQuantity_def)

lemma line_ok_amended [simp]:
  "line_ok (line_withAmendedUnitPrice u t l) \<longleftrightarrow>
     js_lt (N 0) (pol_quantity l) \<and> money_ok u \<and> t = lineTotal u (pol_quantity l)"
  by (auto simp: line_ok_def line_withAmendedUnitPrice_def)

lemma line_update_fields [simp]:
  "pol_productId (line_withUpdatedQuantity q u t l) = pol_productId l"
  "pol_receivedQuantity (line_withUpdatedQuantity q u t l) = pol_receivedQuantity l"
  "pol_productId (line_withAmendedUnitPrice u t l) = pol_productId l"
  "pol_quantity (line_withAmendedUnitPrice u t l) = pol_quantity l"
  "pol_receivedQuantity (line_withAmendedUnitPrice u t l) = pol_receivedQuantity l"
  "pol_unitPrice (line_withAmendedUnitPrice u t l) = u"
  "pol_total (line_withAmendedUnitPrice u t l) = t"
  "pol_productId (new_line p q u t d) = p"
  "pol_quantity (new_line p q u t d) = q"
  "pol_receivedQuantity (new_line p q u t d) = N 0"
  by (simp_all add: line_withUpdatedQuantity_def line_withAmendedUnitPrice_def new_line_def)

lemma lines_ok_Nil [simp]: "lines_ok []" and unreceived_Nil [simp]: "unreceived []"
  by (simp_all add: lines_ok_def unreceived_def)

lemma lines_ok_append_new:
  "lines_ok ls \<Longrightarrow> line_ok (new_line p q u t d) \<Longrightarrow> List.find (is_product p) ls = None
   \<Longrightarrow> lines_ok (ls @ [new_line p q u t d])"
  by (auto simp: lines_ok_def find_None_iff2)

lemma lines_ok_filter: "lines_ok ls \<Longrightarrow> lines_ok (filter P ls)"
  by (auto simp: lines_ok_def distinct_map_filter)

lemma lines_ok_map_where:
  assumes "lines_ok ls" "\<And>l. pol_productId (f l) = pol_productId l"
    "\<And>l. l \<in> set ls \<Longrightarrow> P l \<Longrightarrow> line_ok (f l)"
  shows "lines_ok (map_where P f ls)"
proof -
  have "map pol_productId (map_where P f ls) = map pol_productId ls"
    by (rule map_map_where) (rule assms(2))
  then show ?thesis using assms(1,3) by (auto simp: lines_ok_def set_map_where)
qed

lemma update_first_lines_ok:
  "lines_ok ls \<Longrightarrow> update_first (is_product p) f ls = map_where (is_product p) f ls"
  by (simp add: lines_ok_def update_first_distinct)

lemma unreceived_map_where:
  "unreceived ls \<Longrightarrow> (\<And>l. pol_receivedQuantity (f l) = pol_receivedQuantity l)
   \<Longrightarrow> unreceived (map_where P f ls)"
  by (auto simp: unreceived_def set_map_where)

text \<open>The two loops.\<close>

lemma amend_price_InrD:
  assumes "amend_price currency (ls, ps) (p, units) = Inr (ls', ps')"
  shows "\<exists>l u. List.find (is_product p) ls = Some l \<and> \<not> js_gt (pol_receivedQuantity l) (N 0) \<and>
    money_ok u \<and> u = Money units currency \<and>
    ls' = map_where (is_product p) (line_withAmendedUnitPrice u (money_multiply u (pol_quantity l))) ls \<and>
    ps' = ps @ [(p, money_toDecimal u)]"
  using assms
  by (auto simp: amend_price_def res_simps Let_def money_fromMinorUnits_Inr_iff
      split: option.splits if_splits)

lemma amend_price_lines_ok:
  assumes "amend_price currency st e = Inr st'" "lines_ok (fst st)"
  shows "lines_ok (fst st')"
proof -
  obtain ls ps p units ls' ps' where st: "st = (ls, ps)" "e = (p, units)" "st' = (ls', ps')"
    by (metis prod.exhaust)
  with assms(1) obtain l u where l: "List.find (is_product p) ls = Some l" "money_ok u"
    "ls' = map_where (is_product p) (line_withAmendedUnitPrice u (money_multiply u (pol_quantity l))) ls"
    using amend_price_InrD by blast
  have ok: "lines_ok ls" using assms(2) st by simp
  have "k = l" if "k \<in> set ls" "is_product p k" for k
    using that ok find_Some_iff2 [OF l(1)] by (auto simp: lines_ok_def dest: distinct_key_unique)
  then have "lines_ok ls'"
    unfolding l(3) using ok l(2)
    by (intro lines_ok_map_where) (auto simp: lineTotal_def lines_ok_def line_ok_def)
  then show ?thesis by (simp add: st)
qed

lemma amend_prices_lines_ok:
  assumes "amend_prices currency ls ps = Inr (ls', priced)" "lines_ok ls"
  shows "lines_ok ls'"
  using assms
  by (auto simp: amend_prices_def res_simps split: option.splits if_splits prod.splits
      dest!: for_each_invariant [where P = "\<lambda>st. lines_ok (fst st)"] intro: amend_price_lines_ok)

lemma receive_line_InrD:
  assumes "receive_line tol ls e = Inr ls'"
  shows "\<exists>p l d. e = (Some p, d) \<and> List.find (is_product p) ls = Some l \<and> is_integer d \<and>
    \<not> js_gt (js_add (pol_receivedQuantity l) d) (receipt_limit (pol_quantity l) tol) \<and>
    ls' = update_first (is_product p)
            (\<lambda>_. l\<lparr>pol_receivedQuantity := js_add (pol_receivedQuantity l) d\<rparr>) ls"
  using assms
  by (cases e)
    (auto simp: receive_line_def policy_over_receipt_def line_receive_def res_simps Let_def
      split: option.splits if_splits)

lemma receive_line_lines_ok:
  assumes "receive_line tol ls e = Inr ls'" "lines_ok ls"
  shows "lines_ok ls'"
proof -
  obtain p l d where l: "List.find (is_product p) ls = Some l"
    and ls': "ls' = update_first (is_product p)
            (\<lambda>_. l\<lparr>pol_receivedQuantity := js_add (pol_receivedQuantity l) d\<rparr>) ls"
    using receive_line_InrD [OF assms(1)] by blast
  have "l \<in> set ls" "pol_productId l = p" using find_Some_iff2 [OF l] by auto
  then have "map pol_productId ls' = map pol_productId ls"
    unfolding ls' by (intro map_update_first) simp
  moreover have "line_ok k" if "k \<in> set ls'" for k
    using set_update_first [OF that [unfolded ls']] assms(2) \<open>l \<in> set ls\<close>
    by (auto simp: lines_ok_def line_ok_def)
  ultimately show ?thesis using assms(2) by (simp add: lines_ok_def)
qed

lemma receive_lines_ok:
  "for_each (receive_line tol) ls es = Inr ls' \<Longrightarrow> lines_ok ls \<Longrightarrow> lines_ok ls'"
  by (erule for_each_invariant) (auto intro: receive_line_lines_ok)

lemma receive_lines_length:
  "for_each (receive_line tol) ls es = Inr ls' \<Longrightarrow> length ls' = length ls"
  by (erule for_each_invariant [where P = "\<lambda>x. length x = length ls"])
    (auto dest!: receive_line_InrD)

lemma amend_prices_length:
  assumes "amend_prices currency ls ps = Inr (ls', priced)"
  shows "length ls' = length ls"
  using assms
  by (auto simp: amend_prices_def res_simps split: option.splits if_splits prod.splits
      dest!: for_each_invariant [where P = "\<lambda>st. length (fst st) = length ls"] amend_price_InrD)

subsection \<open>Every method keeps it\<close>

lemma po_invI:
  assumes "lines_ok (po_lines po)" "po_status po \<in> live_statuses"
    and "po_status po \<notin> {DRAFT, CANCELLED} \<Longrightarrow> po_lines po \<noteq> []"
    and "po_status po \<in> {DRAFT, SUBMITTED, REJECTED} \<Longrightarrow> unreceived (po_lines po)"
  shows "po_inv po"
  using assms by (simp add: po_inv_def)

lemma addLine_inv:
  assumes "addLine now p q u s po = Inr po'" "money_ok u" "po_inv po"
  shows "po_inv po'"
proof -
  have q: "is_integer q" "js_lt (N 0) q" and d: "po_status po = DRAFT"
    using assms(1) by (auto simp: addLine_def assertEditable_def res_simps)
  have ok: "lines_ok (po_lines po)" "unreceived (po_lines po)"
    using assms(3) d by (auto simp: po_inv_def)
  show ?thesis
  proof (cases "List.find (is_product p) (po_lines po)")
    case None
    then have "po_lines po' = po_lines po @ [new_line p q u (lineTotal u q) s]" "po_status po' = DRAFT"
      using assms(1) d by (auto simp: addLine_def res_simps)
    then show ?thesis
      using ok q assms(2) None
      by (intro po_invI) (auto simp: live_statuses_def unreceived_def intro!: lines_ok_append_new)
  next
    case (Some l)
    let ?q = "js_add (pol_quantity l) q"
    have "po_lines po' = map_where (is_product p) (line_withUpdatedQuantity ?q u (lineTotal u ?q)) (po_lines po)"
      "po_status po' = DRAFT"
      using assms(1) d Some by (auto simp: addLine_def res_simps Let_def)
    moreover have "js_lt (N 0) ?q"
      using ok(1) find_Some_iff2 [OF Some] q by (intro js_add_pos) (auto simp: lines_ok_def line_ok_def)
    ultimately show ?thesis
      using ok assms(2)
      by (intro po_invI)
        (auto simp: live_statuses_def intro!: lines_ok_map_where unreceived_map_where)
  qed
qed

lemma setLine_cases:
  assumes "setLine now p q u s po = Inr (changed, po')"
  obtains (same) l where "\<not> changed" "po' = po" "po_status po = DRAFT"
      "List.find (is_product p) (po_lines po) = Some l"
      "js_eq (pol_quantity l) q" "money_equals (pol_unitPrice l) u" "is_integer q" "js_lt (N 0) q"
  | (written) ls where "changed" "po_status po = DRAFT" "is_integer q" "js_lt (N 0) q"
      "po' = po_addEvent (PurchaseOrderLineAdded (po_id po) p) (po\<lparr>po_lines := ls, po_updatedAt := now\<rparr>)"
      "ls = (case List.find (is_product p) (po_lines po) of
               None \<Rightarrow> po_lines po @ [new_line p q u (money_multiply u q) s]
             | Some _ \<Rightarrow> update_first (is_product p)
                   (line_withUpdatedQuantity q u (money_multiply u q)) (po_lines po))"
proof (cases changed)
  case True
  then show ?thesis
    using assms written
    by (auto simp: setLine_def assertEditable_def res_simps Let_def split: option.splits if_splits)
next
  case False
  then show ?thesis
    using assms same
    by (auto simp: setLine_def assertEditable_def res_simps Let_def split: option.splits if_splits)
qed

lemma setLine_inv:
  assumes "setLine now p q u s po = Inr (changed, po')" "money_ok u" "po_inv po"
  shows "po_inv po'"
  using assms(1)
proof (cases rule: setLine_cases)
  case (same l)
  then show ?thesis using assms(3) by simp
next
  case (written ls)
  have ok: "lines_ok (po_lines po)" "unreceived (po_lines po)"
    using assms(3) written by (auto simp: po_inv_def)
  have "lines_ok ls \<and> unreceived ls"
  proof (cases "List.find (is_product p) (po_lines po)")
    case None
    then show ?thesis
      using ok written assms(2) by (auto simp: lineTotal_def unreceived_def intro!: lines_ok_append_new)
  next
    case (Some l)
    then show ?thesis
      using ok written assms(2)
      by (auto simp: lineTotal_def update_first_lines_ok intro!: lines_ok_map_where unreceived_map_where)
  qed
  then show ?thesis using written by (intro po_invI) (auto simp: live_statuses_def)
qed

lemma receive_inv:
  assumes "openPoForReceipt now es tol a po = Inr po'" "po_inv po"
  shows "po_inv po'"
  using assms
  by (auto simp: openPoForReceipt_Inr_iff po_inv_def receiving_eligible_def
      dest: receive_lines_ok receive_lines_length)

lemma amend_inv:
  assumes "amend now ch po = Inr (applied, po')" "po_inv po"
  shows "po_inv po'"
proof -
  obtain ls' priced where "po_status po = ISSUED" "po_status po' = ISSUED" "po_lines po' = ls'"
    and ls': "amend_prices (po_currency po) (po_lines po) (am_lineUnitPrices ch) = Inr (ls', priced)"
    using amend_InrD [OF assms(1)] amend_statusD [OF assms(1)] by force
  then show ?thesis
    using assms(2) amend_prices_lines_ok [OF ls'] amend_prices_length [OF ls']
    by (auto simp: po_inv_def)
qed

text \<open>The six status methods only set a status (and their own trail fields) under the guard.\<close>

lemma status_method_InrD:
  "submit now po = Inr po' \<Longrightarrow> inv_status_transition (po_status po) SUBMITTED = Inr () \<and>
     po_lines po \<noteq> [] \<and> po_status po' = SUBMITTED \<and> po_lines po' = po_lines po"
  "approve now a po = Inr po' \<Longrightarrow> inv_status_transition (po_status po) APPROVED = Inr () \<and>
     po_status po' = APPROVED \<and> po_lines po' = po_lines po"
  "reject now r a po = Inr po' \<Longrightarrow> inv_status_transition (po_status po) REJECTED = Inr () \<and>
     po_status po' = REJECTED \<and> po_lines po' = po_lines po"
  "cancel now a h po = Inr po' \<Longrightarrow> inv_status_transition (po_status po) CANCELLED = Inr () \<and>
     \<not> h \<and> po_status po' = CANCELLED \<and> po_lines po' = po_lines po"
  "issue now a po = Inr po' \<Longrightarrow> inv_status_transition (po_status po) ISSUED = Inr () \<and>
     po_lines po \<noteq> [] \<and> po_status po' = ISSUED \<and> po_lines po' = po_lines po"
  "complete now po = Inr po' \<Longrightarrow> inv_status_transition (po_status po) COMPLETED = Inr () \<and>
     po_status po' = COMPLETED \<and> po_lines po' = po_lines po"
  by (auto simp: po_method_defs and_then_Inr_iff)

lemma live_sources:
  assumes "inv_status_transition s t = Inr u" "s \<in> live_statuses"
  shows "t = SUBMITTED \<Longrightarrow> s \<in> {DRAFT, SUBMITTED}" "t = APPROVED \<Longrightarrow> s \<in> {SUBMITTED, APPROVED}"
    "t = REJECTED \<Longrightarrow> s \<in> {SUBMITTED, REJECTED}" "t = ISSUED \<Longrightarrow> s \<in> {APPROVED, ISSUED}"
    "t = COMPLETED \<Longrightarrow> s \<in> {ISSUED, COMPLETED}"
  using assms by (auto simp: live_statuses_def po_fsm.guard_ok_iff)

lemma status_method_inv:
  assumes "po_inv po"
  shows "submit now po = Inr po' \<Longrightarrow> po_inv po'"
    and "approve now a po = Inr po' \<Longrightarrow> po_inv po'"
    and "reject now r a po = Inr po' \<Longrightarrow> po_inv po'"
    and "cancel now a h po = Inr po' \<Longrightarrow> po_inv po'"
    and "issue now a po = Inr po' \<Longrightarrow> po_inv po'"
    and "complete now po = Inr po' \<Longrightarrow> po_inv po'"
proof -
  note d = status_method_InrD and i = assms [unfolded po_inv_def]
  have live: "po_status po \<in> live_statuses" using i by simp
  show "submit now po = Inr po' \<Longrightarrow> po_inv po'"
    using d(1) [of now po po'] live_sources(1) [OF _ live] i by (intro po_invI) (auto simp: live_statuses_def)
  show "approve now a po = Inr po' \<Longrightarrow> po_inv po'"
    using d(2) [of now a po po'] live_sources(2) [OF _ live] i by (intro po_invI) (auto simp: live_statuses_def)
  show "reject now r a po = Inr po' \<Longrightarrow> po_inv po'"
    using d(3) [of now r a po po'] live_sources(3) [OF _ live] i by (intro po_invI) (auto simp: live_statuses_def)
  show "cancel now a h po = Inr po' \<Longrightarrow> po_inv po'"
    using d(4) [of now a h po po'] i by (intro po_invI) (auto simp: live_statuses_def)
  show "issue now a po = Inr po' \<Longrightarrow> po_inv po'"
    using d(5) [of now a po po'] live_sources(4) [OF _ live] i by (intro po_invI) (auto simp: live_statuses_def)
  show "complete now po = Inr po' \<Longrightarrow> po_inv po'"
    using d(6) [of now po po'] live_sources(5) [OF _ live] i by (intro po_invI) (auto simp: live_statuses_def)
qed

lemma po_apply_inv:
  assumes "po_apply now op po = Inr po'" "op_ok op" "po_inv po"
  shows "po_inv po'"
proof (cases op)
  case (UpdateHeader d e x)
  then show ?thesis using assms by (auto simp: updateHeader_def res_simps po_inv_def)
next
  case (RemoveLine p)
  then show ?thesis using assms
    by (auto simp: removeLine_def assertEditable_def res_simps po_inv_def lines_ok_filter unreceived_def)
next
  case PullEvents
  then show ?thesis using assms by (auto simp: po_pullEvents_def po_inv_def)
next
  case (SetLine p q u s)
  then show ?thesis using assms by (auto simp: and_then_Inr_iff intro: setLine_inv)
next
  case (Amend ch)
  then show ?thesis using assms by (auto simp: and_then_Inr_iff intro: amend_inv)
qed (use assms in \<open>auto intro: addLine_inv receive_inv status_method_inv\<close>)

lemma po_create_fields:
  assumes "po_create now uuid input = Inr po"
  shows "po_status po = DRAFT" "po_lines po = []" "po_version po = 1" "po_id po = uuid"
    "po_currency po = coalesce (ci_currency input) ''USD''" "po_vendorId po = ci_vendorId input"
    "po_externalReference po = ci_externalReference input"
    "po_orderNumber po = to_upper (trim (ci_orderNumber input))"
    "po_events po = [PurchaseOrderCreated uuid (po_orderNumber po) (ci_vendorId input)]"
  using assms by (auto simp: po_create_def orderNumber_create_def res_simps)

text \<open>
  C1. Every order reachable from the factory through the methods of the aggregate has at most
  one line per product, a positive quantity and the right total on every line, at least
  one line once it has left \<open>DRAFT\<close> other than by cancellation, nothing received before
  it is approved, and one of seven statuses: the other seven of the enumeration are
  never reached.
\<close>
theorem po_reachable_inv: "po_reachable po \<Longrightarrow> po_inv po"
proof (induction rule: po_reachable.induct)
  case (created now uuid input po)
  then show ?case by (auto simp: po_inv_def po_create_fields live_statuses_def)
next
  case (step po op now po')
  then show ?case by (blast intro: po_apply_inv)
qed

section \<open>The receiving balance\<close>

definition within_limit :: "number \<Rightarrow> po_line list \<Rightarrow> bool" where
  "within_limit tol ls \<longleftrightarrow>
     (\<forall>l \<in> set ls. \<not> js_gt (pol_receivedQuantity l) (receipt_limit (pol_quantity l) tol))"

lemma receive_line_within_limit:
  assumes "receive_line tol ls e = Inr ls'" "within_limit tol ls"
  shows "within_limit tol ls'"
proof -
  obtain p l d where
    "\<not> js_gt (js_add (pol_receivedQuantity l) d) (receipt_limit (pol_quantity l) tol)"
    and ls': "ls' = update_first (is_product p)
            (\<lambda>_. l\<lparr>pol_receivedQuantity := js_add (pol_receivedQuantity l) d\<rparr>) ls"
    using receive_line_InrD [OF assms(1)] by blast
  then show ?thesis
    using assms(2) by (auto simp: within_limit_def dest!: set_update_first)
qed

text \<open>
  C3. However many receipt and reversal lines one request carries, and however often a product
  is repeated among them, no line ends above its limit \<open>ordered * (1 + tolerance)\<close> (computed
  on doubles as the code does) if none was above it before.
\<close>
theorem receipts_stay_within_limit:
  assumes "openPoForReceipt now es tol a po = Inr po'" "within_limit tol (po_lines po)"
  shows "within_limit tol (po_lines po')"
proof -
  obtain ls where "for_each (receive_line tol) (po_lines po) es = Inr ls" "po_lines po' = ls"
    using assms(1) by (auto simp: openPoForReceipt_Inr_iff)
  with assms(2) show ?thesis
    by (metis for_each_invariant [where P = "within_limit tol"] receive_line_within_limit)
qed

text \<open>The integer view of a request: product and delta per entry.\<close>

definition int_entries :: "(string \<times> int) list \<Rightarrow> receipt_line list" where
  "int_entries ds = map (\<lambda>(p, d). (Some p, N d)) ds"

fun delta_for :: "string \<Rightarrow> (string \<times> int) list \<Rightarrow> int" where
  "delta_for p [] = 0"
| "delta_for p ((q, d) # ds) = (if q = p then d else 0) + delta_for p ds"

definition abs_total :: "(string \<times> int) list \<Rightarrow> int" where
  "abs_total ds = sum_list (map (\<lambda>(p, d). \<bar>d\<bar>) ds)"

lemma abs_total_simps [simp]:
  "abs_total [] = 0" "abs_total ((p, d) # ds) = \<bar>d\<bar> + abs_total ds"
  by (simp_all add: abs_total_def)

lemma abs_total_nonneg [simp]: "0 \<le> abs_total ds"
  by (induction ds) auto

lemma find_update_first_same:
  "List.find p xs = Some x \<Longrightarrow> p y \<Longrightarrow> List.find p (update_first p (\<lambda>_. y) xs) = Some y"
  by (induction xs) (auto split: if_splits)

lemma find_update_first_other:
  "(\<And>x. p x \<Longrightarrow> \<not> q x) \<Longrightarrow> \<not> q y \<Longrightarrow>
   List.find q (update_first p (\<lambda>_. y) xs) = List.find q xs"
  by (induction xs) auto

lemma two_pow_53: "\<bar>i\<bar> + a \<le> 2 ^ 53 \<Longrightarrow> 0 \<le> a \<Longrightarrow> exact_int i"
  by simp

lemma receive_lines_balance:
  assumes "for_each (receive_line tol) ls (int_entries ds) = Inr ls'"
    and "List.find (is_product p) ls = Some l" "pol_receivedQuantity l = N r"
    and "\<bar>r\<bar> + abs_total ds \<le> 2 ^ 53"
  shows "List.find (is_product p) ls' =
    Some (l\<lparr>pol_receivedQuantity := N (r + delta_for p ds)\<rparr>)"
  using assms
proof (induction ds arbitrary: ls l r)
  case Nil
  then show ?case by (simp add: int_entries_def)
next
  case (Cons e ds)
  obtain q d where e: "e = (q, d)" by fastforce
  obtain ls1 where step: "receive_line tol ls (Some q, N d) = Inr ls1"
    and rest: "for_each (receive_line tol) ls1 (int_entries ds) = Inr ls'"
    using Cons.prems(1) by (auto simp: e int_entries_def and_then_Inr_iff)
  obtain k where k: "List.find (is_product q) ls = Some k"
    and ls1: "ls1 = update_first (is_product q)
            (\<lambda>_. k\<lparr>pol_receivedQuantity := js_add (pol_receivedQuantity k) (N d)\<rparr>) ls"
    using receive_line_InrD [OF step] by blast
  have kq: "pol_productId k = q" using find_Some_iff2 [OF k] by simp
  show ?case
  proof (cases "q = p")
    case True
    then have kl: "k = l" using k Cons.prems(2) by simp
    have "\<bar>r + d\<bar> + abs_total ds \<le> 2 ^ 53" using Cons.prems(4) by (simp add: e)
    moreover have "exact_int (r + d)"
      using calculation abs_total_nonneg [of ds] by (rule two_pow_53)
    then have eq: "js_add (N r) (N d) = N (r + d)" by (rule js_add_N)
    have "List.find (is_product p) ls1 = Some (l\<lparr>pol_receivedQuantity := N (r + d)\<rparr>)"
      unfolding ls1 True kl Cons.prems(3) eq
      using Cons.prems(2) find_Some_iff2 [OF Cons.prems(2)] by (intro find_update_first_same) simp_all
    ultimately show ?thesis
      using Cons.IH [OF rest, of "l\<lparr>pol_receivedQuantity := N (r + d)\<rparr>" "r + d"]
      by (simp add: e True add.assoc)
  next
    case False
    have "List.find (is_product p) ls1 = Some l"
      unfolding ls1 using Cons.prems(2) kq False by (subst find_update_first_other) auto
    then show ?thesis
      using Cons.IH [OF rest, of l r] Cons.prems(3,4) False by (simp add: e)
  qed
qed

text \<open>
  A successful registration changes exactly the received quantities: on every line the
  balance moves by the sum of the request's deltas for its product, and nothing else of
  the line changes; the status stays what it was.
\<close>
theorem receipt_balance:
  assumes "openPoForReceipt now (int_entries ds) tol a po = Inr po'"
    and "List.find (is_product p) (po_lines po) = Some l" "pol_receivedQuantity l = N r"
    and "\<bar>r\<bar> + abs_total ds \<le> 2 ^ 53"
  shows "List.find (is_product p) (po_lines po') =
      Some (l\<lparr>pol_receivedQuantity := N (r + delta_for p ds)\<rparr>)
    \<and> po_status po' = po_status po"
proof -
  obtain ls where ls: "for_each (receive_line tol) (po_lines po) (int_entries ds) = Inr ls"
    "po_lines po' = ls" "po_status po' = po_status po"
    using assms(1) by (auto simp: openPoForReceipt_Inr_iff)
  show ?thesis using receive_lines_balance [OF ls(1) assms(2-4)] ls(2,3) by simp
qed

section \<open>Writing a line, amending a price\<close>

text \<open>
  \<open>setLine\<close> is idempotent: once a line has been written, writing it again with the
  same quantity and price reports no change and returns the order untouched.
\<close>

theorem setLine_idempotent:
  assumes "setLine now p q u s po = Inr (changed, po')" "money_ok u"
  shows "setLine now' p q u s' po' = Inr (False, po')"
proof -
  have u: "money_equals u u" using assms(2)
    by (cases u) (auto simp: money_equals_def money_ok_def elim: is_integerE)
  show ?thesis
    using assms(1)
  proof (cases rule: setLine_cases)
    case (same l)
    then show ?thesis by (auto simp: setLine_def assertEditable_def inv_editable_def inv_line_quantity_def
        elim!: is_integerE)
  next
    case (written ls)
    have q: "js_eq q q" using written(3) by (auto elim: is_integerE)
    have "\<exists>l. List.find (is_product p) ls = Some l \<and> pol_quantity l = q \<and> pol_unitPrice l = u"
    proof (cases "List.find (is_product p) (po_lines po)")
      case None
      have "List.find P (xs @ [x]) = Some x" if "List.find P xs = None" "P x" for P and x :: po_line and xs
        using that by (induction xs) (auto split: if_splits)
      then show ?thesis using None written(6) by (fastforce simp: new_line_def)
    next
      case (Some k)
      have "List.find P (update_first P f xs) = Some (f x)"
        if "List.find P xs = Some x" "P (f x)" for P and x :: po_line and xs and f
        using that by (induction xs) (auto split: if_splits)
      then have "List.find (is_product p) ls = Some (line_withUpdatedQuantity q u (money_multiply u q) k)"
        using Some written(6) find_Some_iff2 [OF Some] by simp
      then show ?thesis by (simp add: line_withUpdatedQuantity_def)
    qed
    then obtain l where l: "List.find (is_product p) ls = Some l" "pol_quantity l = q"
      "pol_unitPrice l = u" by blast
    have "po_lines po' = ls" "po_status po' = DRAFT" using written by auto
    then show ?thesis
      using u q l written(3,4)
      by (simp add: setLine_def assertEditable_def inv_editable_def inv_line_quantity_ok Let_def)
  qed
qed

section \<open>Examples\<close>

text \<open>An order over one line of ten pieces at 5.00, in status \<open>s\<close> with \<open>r\<close> pieces received.\<close>

definition sample_line :: "int \<Rightarrow> po_line" where
  "sample_line r = \<lparr>pol_productId = ''A'', pol_quantity = N 10, pol_unitPrice = Money (N 500) ''USD'',
     pol_total = Money (N 5000) ''USD'', pol_receivedQuantity = N r, pol_descriptionSnapshot = None\<rparr>"

definition sample_order :: "po_status \<Rightarrow> int \<Rightarrow> purchase_order" where
  "sample_order s r = \<lparr>po_id = ''o1'', po_version = 1, po_events = [], po_orderNumber = ''PO-1'',
     po_vendorId = ''v1'', po_externalReference = None, po_status = s, po_currency = ''USD'',
     po_lines = [sample_line r], po_orderDate = None, po_expectedDeliveryDate = None,
     po_createdBy = None, po_approvedBy = None, po_approvedAt = None, po_rejectedBy = None,
     po_rejectedAt = None, po_rejectionReason = None, po_issuedBy = None, po_cancelledBy = None,
     po_amendedBy = None, po_amendedAt = None, po_amendmentReason = None, po_lastReceiptBy = None,
     po_lastReceiptAt = None, po_createdAt = 0, po_updatedAt = 0\<rparr>"

lemma sample_order_simps [simp]:
  "po_status (sample_order s r) = s" "po_lines (sample_order s r) = [sample_line r]"
  "po_currency (sample_order s r) = ''USD''" "po_id (sample_order s r) = ''o1''"
  "pol_productId (sample_line r) = ''A''" "pol_receivedQuantity (sample_line r) = N r"
  "pol_quantity (sample_line r) = N 10"
  by (simp_all add: sample_order_def sample_line_def)

lemma sample_receive:
  assumes "\<bar>r\<bar> \<le> 100" "\<bar>d\<bar> \<le> 100" "r + d \<le> 10"
  shows "for_each (receive_line (N 0)) [sample_line r] [(Some ''A'', N d)] = Inr [sample_line (r + d)]"
proof -
  have e: "exact_int (1 + 0)" "exact_int (10 * 1)" "exact_int (r + d)" using assms by simp_all
  have l: "receipt_limit (N 10) (N 0) = N 10"
    using js_add_N [OF e(1)] js_mul_N [OF e(2)] by (simp only: receipt_limit_def add.right_neutral mult.right_neutral)
  have a: "js_add (N r) (N d) = N (r + d)" using e(3) by (rule js_add_N)
  have p: "policy_over_receipt (N 10) (N r) (N d) (N 0) = Inr ()"
    unfolding policy_over_receipt_def l a Let_def js_lt_N using assms(3) by simp
  have "line_receive (N d) (sample_line r) = Inr (sample_line (r + d))"
    unfolding line_receive_def sample_order_simps a by (simp add: is_integer_N sample_line_def)
  then show ?thesis using p by (simp add: receive_line_def)
qed

lemma sample_receipt:
  assumes "\<bar>r\<bar> \<le> 100" "\<bar>d\<bar> \<le> 100" "r + d \<le> 10"
  shows "openPoForReceipt now [(Some ''A'', N d)] (N 0) a (sample_order ISSUED r)
    = Inr (recordReceipt now a (sample_order ISSUED (r + d)))"
  using sample_receive [OF assms]
  by (simp add: openPoForReceipt_def receiving_eligible_def) (simp add: sample_order_def)

theorem po_status_moves_along_table_witness:
  "\<exists>po'. po_apply 0 (Issue None) (sample_order APPROVED 0) = Inr po' \<and> po_status po' = ISSUED \<and>
     po_status po' \<in> set (po_allowed APPROVED)"
proof -
  obtain po' where r: "po_apply 0 (Issue None) (sample_order APPROVED 0) = Inr po'" "po_status po' = ISSUED"
    by (simp add: issue_def inv_has_lines_def inv_status_transition_def)
  from po_status_moves_along_table [OF r(1)] r show ?thesis by auto
qed

theorem po_final_states_witness:
  "\<exists>po'. po_apply 0 (Reject ''again'' None) (sample_order REJECTED 0) = Inr po' \<and> po_status po' = REJECTED"
proof -
  obtain po' where r: "po_apply 0 (Reject ''again'' None) (sample_order REJECTED 0) = Inr po'"
    by (simp add: reject_def inv_status_transition_def)
  have "po_status (sample_order REJECTED 0) \<in> {REJECTED, CANCELLED, COMPLETED}" by simp
  from po_final_states [OF this r] r show ?thesis by auto
qed

definition sample_input :: create_po_input where
  "sample_input = \<lparr>ci_orderNumber = ''po-7'', ci_vendorId = ''v1'', ci_currency = None,
     ci_externalReference = None, ci_orderDate = None, ci_expectedDeliveryDate = None, ci_createdBy = None\<rparr>"

theorem po_reachable_inv_witness: "\<exists>po. po_create 0 ''o1'' sample_input = Inr po \<and> po_inv po"
proof -
  obtain po where "po_create 0 ''o1'' sample_input = Inr po"
    by (simp add: po_create_def sample_input_def inv_create_def inv_order_number_def orderNumber_create_def
        trim_def is_space_def)
  then show ?thesis using po_reachable_inv [OF po_reachable.created] by blast
qed

theorem receipts_stay_within_limit_witness:
  "within_limit (N 0) (po_lines (recordReceipt 0 None (sample_order ISSUED 7)))"
proof -
  have "openPoForReceipt 0 [(Some ''A'', N 4)] (N 0) None (sample_order ISSUED 3)
      = Inr (recordReceipt 0 None (sample_order ISSUED 7))"
    using sample_receipt [of 3 4] by simp
  moreover have "receipt_limit (N 10) (N 0) = N 10"
    using js_add_N [of 1 0] js_mul_N [of 10 1] by (simp add: receipt_limit_def)
  then have "within_limit (N 0) (po_lines (sample_order ISSUED 3))"
    by (simp add: within_limit_def)
  ultimately show ?thesis by (rule receipts_stay_within_limit)
qed

theorem receipt_balance_witness:
  "List.find (is_product ''A'') (po_lines (recordReceipt 0 None (sample_order ISSUED 3))) =
     Some (sample_line 7\<lparr>pol_receivedQuantity := N (7 + delta_for ''A'' [(''A'', - 4)])\<rparr>)"
proof -
  have "openPoForReceipt 0 (int_entries [(''A'', - 4)]) (N 0) None (sample_order ISSUED 7)
      = Inr (recordReceipt 0 None (sample_order ISSUED 3))"
    using sample_receipt [of 7 "- 4"] by (simp add: int_entries_def)
  moreover have "List.find (is_product ''A'') (po_lines (sample_order ISSUED 7)) = Some (sample_line 7)"
    "pol_receivedQuantity (sample_line 7) = N 7" "\<bar>7\<bar> + abs_total [(''A'', - 4)] \<le> 2 ^ 53"
    by simp_all
  ultimately show ?thesis using receipt_balance by blast
qed

theorem setLine_idempotent_witness:
  "\<exists>po'. setLine 0 ''B'' (N 2) (Money (N 300) ''USD'') None (sample_order DRAFT 0) = Inr (True, po') \<and>
     setLine 1 ''B'' (N 2) (Money (N 300) ''USD'') None po' = Inr (False, po')"
proof -
  have q: "is_integer (N 2)" "js_lt (Fin 0) (N 2)" by (rule is_integer_N) simp
  obtain po' where r: "setLine 0 ''B'' (N 2) (Money (N 300) ''USD'') None (sample_order DRAFT 0) = Inr (True, po')"
    using inv_line_quantity_ok [OF q]
    by (simp add: setLine_def assertEditable_def inv_editable_def del: inv_line_quantity_Inr)
  moreover have "money_ok (Money (N 300) ''USD'')" unfolding money_ok_N by simp
  ultimately show ?thesis using setLine_idempotent by blast
qed

end
