(* ===== verification/Table.thy ===== *)
theory Table
  imports Context
begin

text \<open>
  The relational store behind the repositories. A table is the list of its rows in insertion
  order; the four statements the repositories issue are select-first, insert, update-where
  with the number of affected rows, and delete-where. An update whose \<open>where\<close> clause names a
  version or a claim token is a compare-and-set; the interface \<open>fenced_update\<close> states what
  such an update must do to its row, and what the owner of a token may conclude from that.
  Values that leave the process as JSON are of type \<open>json\<close>.
\<close>

section \<open>Statements\<close>

definition find_first :: "('r \<Rightarrow> bool) \<Rightarrow> 'r list \<Rightarrow> 'r option" where
  "find_first p rows = List.find p rows"

definition insert_row :: "'r \<Rightarrow> 'r list \<Rightarrow> 'r list" where
  "insert_row r rows = rows @ [r]"

definition update_many :: "('r \<Rightarrow> bool) \<Rightarrow> ('r \<Rightarrow> 'r) \<Rightarrow> 'r list \<Rightarrow> nat \<times> 'r list" where
  "update_many p f rows = (length (filter p rows), map_where p f rows)"

definition delete_many :: "('r \<Rightarrow> bool) \<Rightarrow> 'r list \<Rightarrow> nat \<times> 'r list" where
  "delete_many p rows = (length (filter p rows), filter (\<lambda>r. \<not> p r) rows)"

lemma update_many_count_0: "fst (update_many p f rows) = 0 \<longleftrightarrow> (\<forall>r \<in> set rows. \<not> p r)"
  by (simp add: update_many_def filter_empty_conv)

lemma update_many_miss: "(\<And>r. r \<in> set rows \<Longrightarrow> \<not> p r) \<Longrightarrow> update_many p f rows = (0, rows)"
  by (simp add: update_many_def map_where_none filter_empty_conv)

lemma set_update_many:
  "set (snd (update_many p f rows)) = f ` {r \<in> set rows. p r} \<union> {r \<in> set rows. \<not> p r}"
  by (simp add: update_many_def set_map_where)

section \<open>Compare-and-set on a token\<close>

definition cas_hit :: "('r \<Rightarrow> string) \<Rightarrow> ('r \<Rightarrow> 't option) \<Rightarrow> ('r \<Rightarrow> bool) \<Rightarrow> string \<Rightarrow> 't \<Rightarrow> 'r \<Rightarrow> bool" where
  "cas_hit ident token active i t r \<longleftrightarrow> ident r = i \<and> token r = Some t \<and> active r"

text \<open>
  The contract of a fenced update: it keeps the row's identity and gives the fence up, so the
  same token does not match the row any more.
\<close>

locale fenced_update =
  fixes ident :: "'r \<Rightarrow> string"
    and token :: "'r \<Rightarrow> 't option"
    and active :: "'r \<Rightarrow> bool"
    and upd :: "'t \<Rightarrow> 'r \<Rightarrow> 'r"
  assumes upd_ident: "ident (upd t r) = ident r"
    and upd_releases: "cas_hit ident token active i t r \<Longrightarrow> \<not> cas_hit ident token active i t (upd t r)"
begin

lemma stale_token:
  "(\<And>r. r \<in> set rows \<Longrightarrow> ident r = i \<Longrightarrow> token r \<noteq> Some t) \<Longrightarrow>
   update_many (cas_hit ident token active i t) (upd t) rows = (0, rows)"
  by (rule update_many_miss) (auto simp: cas_hit_def)

lemma at_most_once:
  "update_many (cas_hit ident token active i t) (upd t)
     (snd (update_many (cas_hit ident token active i t) (upd t) rows))
   = (0, snd (update_many (cas_hit ident token active i t) (upd t) rows))"
  by (rule update_many_miss) (auto simp: set_update_many dest: upd_releases)

lemma other_rows_untouched:
  "ident r \<noteq> i \<Longrightarrow> r \<in> set (snd (update_many (cas_hit ident token active i t) (upd t) rows))
     \<longleftrightarrow> r \<in> set rows"
  by (auto simp: set_update_many cas_hit_def upd_ident)

lemma inactive_rows_untouched:
  "\<not> active r \<Longrightarrow> r \<in> set rows \<Longrightarrow>
   r \<in> set (snd (update_many (cas_hit ident token active i t) (upd t) rows))"
  by (auto simp: set_update_many cas_hit_def)

lemma idents_kept:
  "map ident (snd (update_many (cas_hit ident token active i t) (upd t) rows)) = map ident rows"
  unfolding update_many_def snd_conv by (rule map_map_where) (rule upd_ident)

end

section \<open>JSON values\<close>

datatype json =
    JNull
  | JBool bool
  | JNum number
  | JStr string
  | JDate int
  | JArr "json list"
  | JObj "(string \<times> json) list"

definition json_field :: "string \<Rightarrow> (string \<times> json) list \<Rightarrow> json option" where
  "json_field k entries = map_of entries k"

text \<open>An optional value in an object literal: \<open>undefined\<close> fields do not appear.\<close>

definition opt_field :: "string \<Rightarrow> string option \<Rightarrow> (string \<times> string) list" where
  "opt_field k v = (case v of None \<Rightarrow> [] | Some x \<Rightarrow> if x = [] then [] else [(k, x)])"

definition json_opt :: "string option \<Rightarrow> json" where
  "json_opt v = (case v of None \<Rightarrow> JNull | Some x \<Rightarrow> JStr x)"

end
