(* ===== verification/Outbox.thy ===== *)
theory Outbox
  imports Table
begin

text \<open>
  The transactional outbox (\<open>src/infrastructure/outbox\<close>): appending an event, claiming due
  messages under a lease, publishing them and settling each row by compare-and-set on its
  claim token. The broker is the parameter \<open>publish\<close> (\<open>None\<close> when it accepts the envelope,
  \<open>Some\<close> of the error otherwise), the in-process listeners are a transformation \<open>emit\<close> of the
  rest of the world, \<open>locked\<close> are the rows another transaction holds (\<open>SKIP LOCKED\<close>). The
  database clock and the process clock are one.
\<close>

section \<open>Rows and envelopes\<close>

datatype outbox_status = PENDING | PUBLISHED | DEAD_LETTER

datatype broker = Rabbitmq | Kafka | Sqs

definition DEFAULT_BROKER_TARGET :: broker where
  "DEFAULT_BROKER_TARGET = Rabbitmq"

fun broker_name :: "broker \<Rightarrow> string" where
  "broker_name Rabbitmq = ''rabbitmq''"
| "broker_name Kafka = ''kafka''"
| "broker_name Sqs = ''sqs''"

record outbox_event =
  ev_eventId :: string
  ev_name :: string
  ev_fields :: "(string \<times> json) list"
  ev_occurredAt :: int
  ev_version :: int
  ev_correlationId :: "string option"
  ev_causationId :: "string option"
  ev_headers :: "(string \<times> string) list"

record outbox_row =
  ob_id :: string
  ob_eventId :: string
  ob_tenantId :: "string option"
  ob_companyId :: "string option"
  ob_eventType :: string
  ob_eventVersion :: int
  ob_aggregateType :: string
  ob_aggregateId :: string
  ob_payload :: "(string \<times> json) list"
  ob_headers :: "(string \<times> string) list"
  ob_occurredAt :: int
  ob_createdAt :: int
  ob_status :: outbox_status
  ob_nextRetryAt :: "int option"
  ob_attempts :: int
  ob_claimedAt :: "int option"
  ob_claimToken :: "string option"
  ob_publishedAt :: "int option"
  ob_lastError :: "string option"
  ob_correlationId :: "string option"
  ob_causationId :: "string option"
  ob_version :: int

record envelope =
  en_eventId :: string
  en_eventType :: string
  en_eventVersion :: int
  en_tenantId :: "string option"
  en_companyId :: "string option"
  en_aggregateType :: string
  en_aggregateId :: string
  en_payload :: "(string \<times> json) list"
  en_headers :: "(string \<times> string) list"
  en_occurredAt :: int
  en_correlationId :: "string option"
  en_causationId :: "string option"
  en_broker :: broker

section \<open>Appending\<close>

record append_request =
  ar_tenantId :: "string option"
  ar_companyId :: "string option"
  ar_eventId :: string
  ar_eventType :: string
  ar_eventVersion :: int
  ar_aggregateType :: string
  ar_aggregateId :: string
  ar_payload :: "(string \<times> json) list"
  ar_occurredAt :: "int option"
  ar_correlationId :: "string option"
  ar_causationId :: "string option"
  ar_headers :: "(string \<times> string) list"
  ar_nextRetryAt :: "int option"

definition outbox_append :: "int \<Rightarrow> string \<Rightarrow> append_request \<Rightarrow> outbox_row list \<Rightarrow> outbox_row list" where
  "outbox_append now uuid rq rows =
     (let occurredAt = coalesce (ar_occurredAt rq) now
      in insert_row
        \<lparr>ob_id = uuid, ob_eventId = ar_eventId rq, ob_tenantId = ar_tenantId rq,
         ob_companyId = ar_companyId rq, ob_eventType = ar_eventType rq,
         ob_eventVersion = ar_eventVersion rq, ob_aggregateType = ar_aggregateType rq,
         ob_aggregateId = ar_aggregateId rq, ob_payload = ar_payload rq,
         ob_headers = ar_headers rq, ob_occurredAt = occurredAt, ob_createdAt = now,
         ob_status = PENDING, ob_nextRetryAt = Some (coalesce (ar_nextRetryAt rq) occurredAt),
         ob_attempts = 0, ob_claimedAt = None, ob_claimToken = None, ob_publishedAt = None,
         ob_lastError = None, ob_correlationId = ar_correlationId rq,
         ob_causationId = ar_causationId rq, ob_version = 1\<rparr> rows)"

text \<open>Object spread over header lists: a later value for a key replaces the earlier one.\<close>

definition set_header :: "string \<times> string \<Rightarrow> (string \<times> string) list \<Rightarrow> (string \<times> string) list" where
  "set_header kv hs =
     (if fst kv \<in> fst ` set hs then map_where (\<lambda>h. fst h = fst kv) (\<lambda>_. kv) hs else hs @ [kv])"

definition spread_headers :: "(string \<times> string) list \<Rightarrow> (string \<times> string) list \<Rightarrow> (string \<times> string) list" where
  "spread_headers base new = foldl (\<lambda>hs kv. set_header kv hs) base new"

definition append_outbox_event ::
  "int \<Rightarrow> string \<Rightarrow> request_context option \<Rightarrow> outbox_event \<Rightarrow> string \<Rightarrow> string \<Rightarrow> broker option
   \<Rightarrow> outbox_row list \<Rightarrow> outbox_row list" where
  "append_outbox_event now uuid context event aggregateType aggregateId opt_broker rows =
     (let broker = coalesce opt_broker DEFAULT_BROKER_TARGET;
          correlation = (case context of Some c \<Rightarrow> Some (correlationId c) | None \<Rightarrow> ev_correlationId event);
          tenant = Option.bind context ctx_tenantId;
          company = Option.bind context ctx_companyId
      in outbox_append now uuid
        \<lparr>ar_tenantId = tenant, ar_companyId = company, ar_eventId = ev_eventId event,
         ar_eventType = ev_name event, ar_eventVersion = ev_version event,
         ar_aggregateType = aggregateType, ar_aggregateId = aggregateId,
         ar_payload = ev_fields event @ [(''occurredAt'', JDate (ev_occurredAt event))],
         ar_occurredAt = Some (ev_occurredAt event),
         ar_correlationId = correlation, ar_causationId = ev_causationId event,
         ar_headers = spread_headers (ev_headers event)
           ([(''event-id'', ev_eventId event)] @ opt_field ''correlation-id'' correlation @
            opt_field ''causation-id'' (ev_causationId event) @ opt_field ''tenant-id'' tenant @
            opt_field ''company-id'' company @ [(''broker'', broker_name broker)]),
         ar_nextRetryAt = Some (ev_occurredAt event)\<rparr> rows)"

section \<open>Claiming and settling\<close>

record outbox_config =
  oc_batchSize :: nat
  oc_maxAttempts :: int
  oc_claimLeaseMs :: int
  oc_retryBackoffBaseMs :: int
  oc_retryMaxDelayMs :: int

definition outbox_due :: "int \<Rightarrow> int \<Rightarrow> outbox_row \<Rightarrow> bool" where
  "outbox_due now leaseMs r \<longleftrightarrow> ob_status r = PENDING \<and>
     (case ob_nextRetryAt r of None \<Rightarrow> True | Some t \<Rightarrow> t \<le> now) \<and>
     (case ob_claimedAt r of None \<Rightarrow> True | Some t \<Rightarrow> t \<le> now - leaseMs)"

definition claim_selection :: "int \<Rightarrow> outbox_config \<Rightarrow> (string \<Rightarrow> bool) \<Rightarrow> outbox_row list \<Rightarrow> outbox_row list" where
  "claim_selection now cfg locked rows =
     take (oc_batchSize cfg) (sort_key ob_createdAt
       (filter (\<lambda>r. outbox_due now (oc_claimLeaseMs cfg) r \<and> \<not> locked (ob_id r)) rows))"

definition stamp_claim :: "int \<Rightarrow> string \<Rightarrow> outbox_row \<Rightarrow> outbox_row" where
  "stamp_claim now token r =
     r\<lparr>ob_claimToken := Some token, ob_claimedAt := Some now, ob_attempts := ob_attempts r + 1\<rparr>"

definition claimBatch ::
  "int \<Rightarrow> string \<Rightarrow> outbox_config \<Rightarrow> (string \<Rightarrow> bool) \<Rightarrow> outbox_row list \<Rightarrow> outbox_row list \<times> outbox_row list" where
  "claimBatch now token cfg locked rows =
     (let ids = map ob_id (claim_selection now cfg locked rows);
          hit = (\<lambda>r. ob_id r \<in> set ids)
      in (map (stamp_claim now token) (filter hit rows), map_where hit (stamp_claim now token) rows))"

abbreviation ob_owned :: "string \<Rightarrow> string \<Rightarrow> outbox_row \<Rightarrow> bool" where
  "ob_owned \<equiv> cas_hit ob_id ob_claimToken (\<lambda>r. ob_status r = PENDING)"

definition published_row :: "int \<Rightarrow> string \<Rightarrow> outbox_row \<Rightarrow> outbox_row" where
  "published_row now token r = r\<lparr>ob_status := PUBLISHED, ob_publishedAt := Some now,
     ob_claimedAt := None, ob_claimToken := None, ob_lastError := None\<rparr>"

definition markPublished :: "int \<Rightarrow> string \<Rightarrow> string \<Rightarrow> outbox_row list \<Rightarrow> outbox_row list" where
  "markPublished now i token rows = snd (update_many (ob_owned i token) (published_row now token) rows)"

definition failed_row :: "string \<Rightarrow> int \<Rightarrow> int \<Rightarrow> string \<Rightarrow> outbox_row \<Rightarrow> outbox_row" where
  "failed_row err nextRetryAt maxAttempts token r =
     (let isExhausted = ob_attempts r > maxAttempts
      in r\<lparr>ob_status := if isExhausted then DEAD_LETTER else PENDING, ob_lastError := Some err,
           ob_nextRetryAt := if isExhausted then ob_nextRetryAt r else Some nextRetryAt,
           ob_claimedAt := None, ob_claimToken := None\<rparr>)"

text \<open>The row is read first and then written under the same condition, in one transaction.\<close>

definition markFailed ::
  "string \<Rightarrow> string \<Rightarrow> string \<Rightarrow> int \<Rightarrow> int \<Rightarrow> outbox_row list \<Rightarrow> outbox_row list" where
  "markFailed i token err nextRetryAt maxAttempts rows =
     (case find_first (ob_owned i token) rows of
        None \<Rightarrow> rows
      | Some row \<Rightarrow>
          snd (update_many (ob_owned i token) (failed_row err nextRetryAt maxAttempts token) rows))"

definition deletePublishedOlderThan :: "int \<Rightarrow> int \<Rightarrow> outbox_row list \<Rightarrow> nat \<times> outbox_row list" where
  "deletePublishedOlderThan now hours rows =
     (let cutoff = now - hours * 60 * 60 * 1000
      in delete_many (\<lambda>r. ob_status r = PUBLISHED \<and>
           (case ob_publishedAt r of None \<Rightarrow> False | Some t \<Rightarrow> t < cutoff)) rows)"

section \<open>Publishing a batch\<close>

definition header_of :: "outbox_row \<Rightarrow> string \<Rightarrow> string option" where
  "header_of r k = map_of (ob_headers r) k"

definition resolveBroker :: "outbox_row \<Rightarrow> broker" where
  "resolveBroker r =
     (let h = header_of r ''broker''
      in if h = Some ''rabbitmq'' then Rabbitmq else if h = Some ''kafka'' then Kafka
         else if h = Some ''sqs'' then Sqs else DEFAULT_BROKER_TARGET)"

definition toEnvelope :: "outbox_row \<Rightarrow> envelope" where
  "toEnvelope r = \<lparr>en_eventId = ob_eventId r, en_eventType = ob_eventType r,
     en_eventVersion = ob_eventVersion r, en_tenantId = ob_tenantId r,
     en_companyId = ob_companyId r, en_aggregateType = ob_aggregateType r,
     en_aggregateId = ob_aggregateId r, en_payload = ob_payload r, en_headers = ob_headers r,
     en_occurredAt = ob_occurredAt r,
     en_correlationId = coalesce_opt (ob_correlationId r) (header_of r ''correlation-id''),
     en_causationId = coalesce_opt (ob_causationId r) (header_of r ''causation-id''),
     en_broker = resolveBroker r\<rparr>"

definition retry_delay :: "int \<Rightarrow> int \<Rightarrow> int \<Rightarrow> int" where
  "retry_delay base maxDelay attempts = min maxDelay (base * 2 ^ nat (max 0 (attempts - 1)))"

text \<open>
  State of a dispatch run: the table, the envelopes the broker has accepted so far (oldest
  first), and the world the in-process listeners act on.
\<close>

record 'w dispatch_state =
  ds_rows :: "outbox_row list"
  ds_sent :: "envelope list"
  ds_world :: 'w

definition dispatchOne ::
  "int \<Rightarrow> outbox_config \<Rightarrow> (envelope \<Rightarrow> string option) \<Rightarrow> (envelope \<Rightarrow> 'w \<Rightarrow> 'w)
   \<Rightarrow> outbox_row \<Rightarrow> 'w dispatch_state \<Rightarrow> 'w dispatch_state" where
  "dispatchOne now cfg publish emit record st =
     (let envelope = toEnvelope record; token = coalesce (ob_claimToken record) []
      in case publish envelope of
           Some err \<Rightarrow>
             st\<lparr>ds_rows := markFailed (ob_id record) token err
                 (now + retry_delay (oc_retryBackoffBaseMs cfg) (oc_retryMaxDelayMs cfg) (ob_attempts record))
                 (oc_maxAttempts cfg) (ds_rows st)\<rparr>
         | None \<Rightarrow>
             st\<lparr>ds_sent := ds_sent st @ [envelope],
                ds_world := emit envelope (ds_world st),
                ds_rows := markPublished now (ob_id record) token (ds_rows st)\<rparr>)"

definition publishPendingBatch ::
  "int \<Rightarrow> string \<Rightarrow> outbox_config \<Rightarrow> (string \<Rightarrow> bool) \<Rightarrow> (envelope \<Rightarrow> string option)
   \<Rightarrow> (envelope \<Rightarrow> 'w \<Rightarrow> 'w) \<Rightarrow> bool \<Rightarrow> 'w dispatch_state \<Rightarrow> nat \<times> 'w dispatch_state" where
  "publishPendingBatch now token cfg locked publish emit dispatching st =
     (if dispatching then (0, st)
      else let (messages, rows') = claimBatch now token cfg locked (ds_rows st)
           in (length messages,
               foldl (\<lambda>s m. dispatchOne now cfg publish emit m s) (st\<lparr>ds_rows := rows'\<rparr>) messages))"

section \<open>Fenced settlement\<close>

interpretation ob_publish: fenced_update ob_id ob_claimToken "\<lambda>r. ob_status r = PENDING" "published_row now" for now
  by unfold_locales (auto simp: published_row_def cas_hit_def)

interpretation ob_fail: fenced_update ob_id ob_claimToken "\<lambda>r. ob_status r = PENDING"
    "failed_row err nextRetryAt maxAttempts" for err nextRetryAt maxAttempts
  by unfold_locales (auto simp: failed_row_def cas_hit_def Let_def)

lemma markFailed_eq:
  "markFailed i t err nr mx rows = snd (update_many (ob_owned i t) (failed_row err nr mx t) rows)"
proof (cases "find_first (ob_owned i t) rows")
  case None
  then have "update_many (ob_owned i t) (failed_row err nr mx t) rows = (0, rows)"
    by (intro update_many_miss) (auto simp: find_first_def find_None_iff2)
  then show ?thesis using None by (simp add: markFailed_def)
next
  case (Some r)
  then show ?thesis by (simp add: markFailed_def)
qed

lemma settle_ids [simp]:
  "map ob_id (markPublished now i t rows) = map ob_id rows"
  "map ob_id (markFailed i t err nr mx rows) = map ob_id rows"
  by (simp_all add: markPublished_def markFailed_eq ob_publish.idents_kept ob_fail.idents_kept)

text \<open>
  A dispatcher that lost its claim changes nothing: if no row carries the pair of id and
  token it holds, both settlements leave the table exactly as it is. Once a message is
  settled with a token, settling again with that token is such a no-op.
\<close>
theorem outbox_settlement_fenced:
  assumes "\<forall>r \<in> set rows. ob_id r = i \<longrightarrow> ob_claimToken r \<noteq> Some t"
  shows "markPublished now i t rows = rows \<and> markFailed i t err nr mx rows = rows"
  using ob_publish.stale_token [of rows i t now] ob_fail.stale_token [of rows i t err nr mx] assms
  by (simp add: markPublished_def markFailed_eq)

lemma outbox_settled_once:
  "markPublished now' i t (markPublished now i t rows) = markPublished now i t rows"
  "markFailed i t err nr mx (markPublished now i t rows) = markPublished now i t rows"
proof -
  have "\<forall>r \<in> set (markPublished now i t rows). \<not> ob_owned i t r"
    by (auto simp: markPublished_def set_update_many dest: ob_publish.upd_releases)
  then show "markPublished now' i t (markPublished now i t rows) = markPublished now i t rows"
    "markFailed i t err nr mx (markPublished now i t rows) = markPublished now i t rows"
    using update_many_miss [of "markPublished now i t rows" "ob_owned i t"]
    by (auto simp: markPublished_def [of now' i t "markPublished now i t rows"] markFailed_eq)
qed

section \<open>Claims\<close>

lemma claim_selection_due:
  "r \<in> set (claim_selection now cfg locked rows) \<Longrightarrow>
   r \<in> set rows \<and> outbox_due now (oc_claimLeaseMs cfg) r \<and> \<not> locked (ob_id r)"
  by (auto simp: claim_selection_def dest!: in_set_takeD)

lemma length_claim_selection: "length (claim_selection now cfg locked rows) \<le> oc_batchSize cfg"
  by (simp add: claim_selection_def)

lemma claimBatch_ids [simp]:
  "map ob_id (snd (claimBatch now t cfg locked rows)) = map ob_id rows"
  by (simp add: claimBatch_def map_where_def stamp_claim_def o_def)

lemma claimed_rows:
  assumes "distinct (map ob_id rows)" "m \<in> set (fst (claimBatch now t cfg locked rows))"
  obtains r where "r \<in> set rows" "outbox_due now (oc_claimLeaseMs cfg) r" "\<not> locked (ob_id r)"
    "m = stamp_claim now t r" "r \<in> set (claim_selection now cfg locked rows)"
proof -
  obtain r where r: "r \<in> set rows" "m = stamp_claim now t r"
    "ob_id r \<in> ob_id ` set (claim_selection now cfg locked rows)"
    using assms(2) by (auto simp: claimBatch_def)
  then obtain s where s: "s \<in> set (claim_selection now cfg locked rows)" "ob_id s = ob_id r" by auto
  then have "s = r" using claim_selection_due [OF s(1)] r(1) assms(1) by (auto dest: distinct_key_unique)
  then show ?thesis using that [of r] r s claim_selection_due [OF s(1)] by simp
qed

lemma claimBatch_length:
  assumes "distinct (map ob_id rows)"
  shows "length (fst (claimBatch now t cfg locked rows)) \<le> oc_batchSize cfg"
proof -
  let ?sel = "claim_selection now cfg locked rows"
  let ?hit = "filter (\<lambda>r. ob_id r \<in> set (map ob_id ?sel)) rows"
  have "distinct (map ob_id ?hit)" using assms by (simp add: distinct_map_filter)
  then have "length ?hit = card (ob_id ` set ?hit)"
    by (metis distinct_card length_map list.set_map)
  also have "\<dots> \<le> card (ob_id ` set ?sel)" by (intro card_mono) auto
  also have "\<dots> \<le> length ?sel" by (metis card_image_le card_length finite_set le_trans)
  finally show ?thesis using length_claim_selection [of now cfg locked rows] by (simp add: claimBatch_def)
qed


section \<open>Retries\<close>

lemma retry_delay_bounds:
  "0 \<le> base \<Longrightarrow> 0 \<le> maxDelay \<Longrightarrow> 0 \<le> retry_delay base maxDelay n \<and> retry_delay base maxDelay n \<le> maxDelay"
  by (simp add: retry_delay_def)

lemma retry_delay_mono:
  assumes "0 \<le> base" "n \<le> k"
  shows "retry_delay base maxDelay n \<le> retry_delay base maxDelay k"
proof -
  have "(2::int) ^ nat (max 0 (n - 1)) \<le> 2 ^ nat (max 0 (k - 1))"
    using assms(2) by (intro power_increasing) (auto simp: nat_mono)
  then have "base * 2 ^ nat (max 0 (n - 1)) \<le> base * 2 ^ nat (max 0 (k - 1))"
    using assms(1) by (rule mult_left_mono)
  then show ?thesis by (simp add: retry_delay_def min_def)
qed

text \<open>
  One failed attempt: the owned row stays \<open>PENDING\<close> with its claim released and a retry time
  between now and the maximal delay, or is parked as \<open>DEAD_LETTER\<close> exactly when its attempts
  exceed the ceiling; the broker has received nothing.
\<close>

theorem outbox_failed_attempt:
  assumes "publish (toEnvelope m) = Some err"
    and "find_first (ob_owned (ob_id m) t) (ds_rows st) = Some r" "ob_claimToken m = Some t"
    and "0 \<le> oc_retryBackoffBaseMs cfg" "0 \<le> oc_retryMaxDelayMs cfg"
    and "st' = dispatchOne now cfg publish emit m st"
  shows "ds_sent st' = ds_sent st \<and> ds_world st' = ds_world st \<and>
    (\<exists>r' \<in> set (ds_rows st'). ob_id r' = ob_id m \<and> ob_claimToken r' = None \<and> ob_lastError r' = Some err \<and>
       (if ob_attempts r > oc_maxAttempts cfg then ob_status r' = DEAD_LETTER
        else ob_status r' = PENDING \<and>
          (\<exists>w. ob_nextRetryAt r' = Some w \<and> now \<le> w \<and> w \<le> now + oc_retryMaxDelayMs cfg)))"
proof -
  let ?w = "now + retry_delay (oc_retryBackoffBaseMs cfg) (oc_retryMaxDelayMs cfg) (ob_attempts m)"
  let ?r = "failed_row err ?w (oc_maxAttempts cfg) t r"
  have r: "r \<in> set (ds_rows st)" "ob_owned (ob_id m) t r"
    using find_Some_iff2 [of "ob_owned (ob_id m) t"] assms(2) by (auto simp: find_first_def)
  have st': "st' = st\<lparr>ds_rows := markFailed (ob_id m) t err ?w (oc_maxAttempts cfg) (ds_rows st)\<rparr>"
    using assms(1,3,6) by (simp add: dispatchOne_def)
  have "?r \<in> set (ds_rows st')" using r by (auto simp: st' markFailed_eq set_update_many)
  moreover have "ob_id ?r = ob_id m" using r(2) by (simp add: cas_hit_def failed_row_def Let_def)
  ultimately show ?thesis
    using retry_delay_bounds [OF assms(4,5), of "ob_attempts m"]
    by (intro conjI bexI [of _ ?r]) (auto simp: st' failed_row_def Let_def)
qed

section \<open>No event is lost\<close>

text \<open>
  The outbox with its dispatchers as a transition system. \<open>so_claimed\<close> are the messages some
  dispatcher holds from a claim, \<open>so_acked\<close> those of them the broker has accepted;
  \<open>so_appended\<close> records the ids of all events ever appended. A crash is a step that is not
  taken: a message may stay in either list for ever. Row ids are fresh UUIDs.
\<close>

record outbox_system =
  so_rows :: "outbox_row list"
  so_sent :: "envelope list"
  so_claimed :: "outbox_row list"
  so_acked :: "outbox_row list"
  so_appended :: "string list"

definition fresh_id :: "string \<Rightarrow> outbox_system \<Rightarrow> bool" where
  "fresh_id i s \<longleftrightarrow> i \<notin> ob_id ` (set (so_rows s) \<union> set (so_claimed s) \<union> set (so_acked s))"

inductive outbox_step :: "outbox_system \<Rightarrow> outbox_system \<Rightarrow> bool" where
  append: "fresh_id uuid s \<Longrightarrow>
     outbox_step s (s\<lparr>so_rows := append_outbox_event now uuid ctx ev aty ai b (so_rows s),
                      so_appended := so_appended s @ [ev_eventId ev]\<rparr>)"
| claim: "claimBatch now t cfg locked (so_rows s) = (ms, rows') \<Longrightarrow>
     outbox_step s (s\<lparr>so_rows := rows', so_claimed := so_claimed s @ ms\<rparr>)"
| send: "m \<in> set (so_claimed s) \<Longrightarrow>
     outbox_step s (s\<lparr>so_sent := so_sent s @ [toEnvelope m], so_acked := so_acked s @ [m]\<rparr>)"
| settle: "m \<in> set (so_acked s) \<Longrightarrow>
     outbox_step s (s\<lparr>so_rows := markPublished now (ob_id m) (coalesce (ob_claimToken m) []) (so_rows s)\<rparr>)"
| fail: "m \<in> set (so_claimed s) \<Longrightarrow>
     outbox_step s (s\<lparr>so_rows := markFailed (ob_id m) (coalesce (ob_claimToken m) []) err w mx (so_rows s)\<rparr>)"
| purge: "outbox_step s (s\<lparr>so_rows := snd (deletePublishedOlderThan now hours (so_rows s))\<rparr>)"

definition empty_outbox :: outbox_system where
  "empty_outbox = \<lparr>so_rows = [], so_sent = [], so_claimed = [], so_acked = [], so_appended = []\<rparr>"

inductive outbox_reachable :: "outbox_system \<Rightarrow> bool" where
  start: "outbox_reachable empty_outbox"
| step: "outbox_reachable s \<Longrightarrow> outbox_step s s' \<Longrightarrow> outbox_reachable s'"

definition sent_ids :: "outbox_system \<Rightarrow> string set" where
  "sent_ids s = en_eventId ` set (so_sent s)"

definition held :: "outbox_system \<Rightarrow> outbox_row set" where
  "held s = set (so_claimed s) \<union> set (so_acked s)"

definition outbox_safe :: "outbox_system \<Rightarrow> bool" where
  "outbox_safe s \<longleftrightarrow>
     (\<forall>m \<in> held s. \<forall>r \<in> set (so_rows s). ob_id r = ob_id m \<longrightarrow> ob_eventId r = ob_eventId m) \<and>
     (\<forall>m \<in> set (so_acked s). ob_eventId m \<in> sent_ids s) \<and>
     (\<forall>r \<in> set (so_rows s). ob_status r = PUBLISHED \<longrightarrow> ob_eventId r \<in> sent_ids s) \<and>
     (\<forall>e \<in> set (so_appended s). e \<in> ob_eventId ` set (so_rows s) \<or> e \<in> sent_ids s) \<and>
     distinct (map ob_id (so_rows s))"

lemma outbox_append_rows:
  "append_outbox_event now uuid ctx ev aty ai b rows =
     rows @ [last (append_outbox_event now uuid ctx ev aty ai b rows)]"
  "ob_id (last (append_outbox_event now uuid ctx ev aty ai b rows)) = uuid"
  "ob_eventId (last (append_outbox_event now uuid ctx ev aty ai b rows)) = ev_eventId ev"
  "ob_status (last (append_outbox_event now uuid ctx ev aty ai b rows)) = PENDING"
  by (simp_all add: append_outbox_event_def outbox_append_def insert_row_def Let_def)

text \<open>Every row after a claim or a settlement stems from one with the same id and event.\<close>

lemma claimBatch_origin:
  assumes "claimBatch now t cfg locked rows = (ms, rows')"
  shows "r' \<in> set rows' \<Longrightarrow> \<exists>r \<in> set rows. ob_id r' = ob_id r \<and> ob_eventId r' = ob_eventId r \<and> ob_status r' = ob_status r"
    and "m \<in> set ms \<Longrightarrow> \<exists>r \<in> set rows. ob_id m = ob_id r \<and> ob_eventId m = ob_eventId r"
    and "ob_eventId ` set rows' = ob_eventId ` set rows"
proof -
  have ms: "ms = fst (claimBatch now t cfg locked rows)" and rows': "rows' = snd (claimBatch now t cfg locked rows)"
    using assms by simp_all
  show "r' \<in> set rows' \<Longrightarrow> \<exists>r \<in> set rows. ob_id r' = ob_id r \<and> ob_eventId r' = ob_eventId r \<and> ob_status r' = ob_status r"
    by (auto simp: rows' claimBatch_def Let_def stamp_claim_def dest!: set_map_where_origin
        intro: bexI [rotated])
  show "m \<in> set ms \<Longrightarrow> \<exists>r \<in> set rows. ob_id m = ob_id r \<and> ob_eventId m = ob_eventId r"
    by (auto simp: ms claimBatch_def stamp_claim_def intro: bexI [rotated])
  have "map ob_eventId rows' = map ob_eventId rows"
    by (simp add: rows' claimBatch_def map_where_def stamp_claim_def o_def)
  then show "ob_eventId ` set rows' = ob_eventId ` set rows" by (metis list.set_map)
qed

lemma settle_eventIds:
  "map ob_eventId (markPublished now i t rows) = map ob_eventId rows"
  "map ob_eventId (markFailed i t err nr mx rows) = map ob_eventId rows"
  by (simp_all add: markPublished_def markFailed_eq update_many_def map_where_def published_row_def
      failed_row_def Let_def o_def)

lemma settle_origin:
  "r' \<in> set (markPublished now i t rows) \<Longrightarrow>
     r' \<in> set rows \<or> (\<exists>r \<in> set rows. ob_id r = i \<and> r' = published_row now t r)"
  by (auto simp: markPublished_def set_update_many cas_hit_def)

lemma failed_row_fields [simp]:
  "ob_id (failed_row err nr mx t r) = ob_id r" "ob_eventId (failed_row err nr mx t r) = ob_eventId r"
  "ob_status (failed_row err nr mx t r) \<noteq> PUBLISHED"
  by (simp_all add: failed_row_def Let_def)

lemma fail_origin:
  assumes "r' \<in> set (markFailed i t err nr mx rows)"
  shows "r' \<in> set rows \<or> (\<exists>r \<in> set rows. ob_id r = i \<and> r' = failed_row err nr mx t r)"
  using assms by (auto simp: markFailed_eq set_update_many cas_hit_def)

lemma outbox_safe_start: "outbox_safe empty_outbox"
  by (simp add: outbox_safe_def empty_outbox_def held_def)

lemma outbox_step_safe: "outbox_step s s' \<Longrightarrow> outbox_safe s \<Longrightarrow> outbox_safe s'"
proof (induction rule: outbox_step.induct)
  case (append uuid s ev now ctx aty ai b)
  let ?new = "last (append_outbox_event now uuid ctx ev aty ai b (so_rows s))"
  have rows: "append_outbox_event now uuid ctx ev aty ai b (so_rows s) = so_rows s @ [?new]"
    by (rule outbox_append_rows(1))
  show ?case
    using append
    by (subst rows)
      (auto simp: outbox_safe_def held_def sent_ids_def outbox_append_rows(2-4) fresh_id_def)
next
  case (claim now t cfg locked s ms rows')
  have ids: "map ob_id rows' = map ob_id (so_rows s)"
    using claimBatch_ids [of now t cfg locked "so_rows s"] claim(1) by simp
  note origin = claimBatch_origin [OF claim(1)]
  have dist: "distinct (map ob_id (so_rows s))" using claim(2) by (simp add: outbox_safe_def)
  have "ob_eventId r' = ob_eventId m"
    if m: "m \<in> held s \<union> set ms" and r': "r' \<in> set rows'" "ob_id r' = ob_id m" for m r'
  proof -
    obtain r where r: "r \<in> set (so_rows s)" "ob_id r' = ob_id r" "ob_eventId r' = ob_eventId r"
      using origin(1) [OF r'(1)] by blast
    show ?thesis
    proof (cases "m \<in> held s")
      case True
      then show ?thesis using claim(2) r r'(2) by (simp add: outbox_safe_def)
    next
      case False
      then obtain r0 where r0: "r0 \<in> set (so_rows s)" "ob_id m = ob_id r0" "ob_eventId m = ob_eventId r0"
        using origin(2) m by blast
      have "r = r0" using distinct_key_unique [OF dist r(1) r0(1)] r(2) r0(2) r'(2) by simp
      then show ?thesis using r(3) r0(3) by simp
    qed
  qed
  moreover have "ob_eventId r' \<in> sent_ids s" if "r' \<in> set rows'" "ob_status r' = PUBLISHED" for r'
    using origin(1) [OF that(1)] that(2) claim(2) by (auto simp: outbox_safe_def)
  moreover have "held (s\<lparr>so_rows := rows', so_claimed := so_claimed s @ ms\<rparr>) = held s \<union> set ms"
    by (auto simp: held_def)
  ultimately show ?case
    using claim(2) ids origin(3) by (simp add: outbox_safe_def sent_ids_def)
next
  case (send m s)
  then show ?case by (auto simp: outbox_safe_def held_def sent_ids_def toEnvelope_def)
next
  case (settle m s now)
  let ?t = "coalesce (ob_claimToken m) []"
  have ev: "ob_eventId ` set (markPublished now (ob_id m) ?t (so_rows s)) = ob_eventId ` set (so_rows s)"
    using settle_eventIds(1) [of now "ob_id m" ?t "so_rows s"] by (metis list.set_map)
  show ?case
    using settle
    by (auto simp: outbox_safe_def held_def sent_ids_def ev published_row_def ball_Un dest!: settle_origin)
next
  case (fail m s err w mx)
  let ?t = "coalesce (ob_claimToken m) []"
  have ev: "ob_eventId ` set (markFailed (ob_id m) ?t err w mx (so_rows s)) = ob_eventId ` set (so_rows s)"
    using settle_eventIds(2) [of "ob_id m" ?t err w mx "so_rows s"] by (metis list.set_map)
  show ?case
    using fail
    by (auto simp: outbox_safe_def held_def sent_ids_def ev dest!: fail_origin)
next
  case (purge s now hours)
  let ?rows = "snd (deletePublishedOlderThan now hours (so_rows s))"
  have sub: "set ?rows \<subseteq> set (so_rows s)" and gone: "\<And>r. r \<in> set (so_rows s) \<Longrightarrow> r \<notin> set ?rows \<Longrightarrow> ob_status r = PUBLISHED"
    and dist: "distinct (map ob_id (so_rows s)) \<Longrightarrow> distinct (map ob_id ?rows)"
    by (auto simp: deletePublishedOlderThan_def delete_many_def distinct_map_filter Let_def)
  have "e \<in> ob_eventId ` set ?rows \<or> e \<in> sent_ids s" if e: "e \<in> set (so_appended s)" for e
  proof (cases "e \<in> sent_ids s")
    case False
    then obtain r where r: "r \<in> set (so_rows s)" "e = ob_eventId r"
      using purge e by (auto simp: outbox_safe_def)
    then have "r \<in> set ?rows" using gone [OF r(1)] purge False by (auto simp: outbox_safe_def)
    then show ?thesis using r(2) by simp
  qed simp
  then show ?case
    using purge sub dist by (simp add: outbox_safe_def held_def sent_ids_def) blast
qed

text \<open>
  C5. No event is lost: however appends, claims, broker acceptances, settlements, failures,
  crashes and purges interleave, every event ever appended is still a row of the outbox
  that is not yet published, or the broker has accepted it at least once.
\<close>
theorem outbox_no_event_lost:
  assumes "outbox_reachable s" "e \<in> set (so_appended s)"
  shows "(\<exists>r \<in> set (so_rows s). ob_eventId r = e \<and> ob_status r \<noteq> PUBLISHED) \<or> e \<in> sent_ids s"
proof -
  have "outbox_safe s"
    using assms(1) by induction (auto intro: outbox_safe_start outbox_step_safe)
  then show ?thesis using assms(2) by (fastforce simp: outbox_safe_def)
qed

section \<open>Examples\<close>

definition sample_event :: "string \<Rightarrow> outbox_event" where
  "sample_event e = \<lparr>ev_eventId = e, ev_name = ''PurchaseOrderIssued'', ev_fields = [], ev_occurredAt = 0,
     ev_version = 1, ev_correlationId = None, ev_causationId = None, ev_headers = []\<rparr>"

definition sample_row :: "string \<Rightarrow> outbox_row" where
  "sample_row i = hd (append_outbox_event 0 i None (sample_event (CHR ''e'' # i)) ''PurchaseOrder'' ''o1'' None [])"

definition sample_config :: outbox_config where
  "sample_config = \<lparr>oc_batchSize = 1, oc_maxAttempts = 5, oc_claimLeaseMs = 1000,
     oc_retryBackoffBaseMs = 100, oc_retryMaxDelayMs = 5000\<rparr>"

lemma sample_row_simps [simp]:
  "ob_id (sample_row i) = i" "ob_status (sample_row i) = PENDING" "ob_claimToken (sample_row i) = None"
  "ob_claimedAt (sample_row i) = None" "ob_nextRetryAt (sample_row i) = Some 0"
  "ob_createdAt (sample_row i) = 0" "ob_attempts (sample_row i) = 0"
  by (simp_all add: sample_row_def append_outbox_event_def outbox_append_def insert_row_def Let_def
      sample_event_def)

lemma stamp_claim_simps [simp]:
  "ob_id (stamp_claim n t r) = ob_id r" "ob_status (stamp_claim n t r) = ob_status r"
  "ob_claimToken (stamp_claim n t r) = Some t" "ob_claimedAt (stamp_claim n t r) = Some n"
  "ob_attempts (stamp_claim n t r) = ob_attempts r + 1" "ob_nextRetryAt (stamp_claim n t r) = ob_nextRetryAt r"
  "ob_createdAt (stamp_claim n t r) = ob_createdAt r"
  by (simp_all add: stamp_claim_def)

theorem outbox_settlement_fenced_witness:
  "markPublished 5 ''1'' ''a'' [stamp_claim 3 ''b'' (sample_row ''1'')] = [stamp_claim 3 ''b'' (sample_row ''1'')]"
  using outbox_settlement_fenced [of "[stamp_claim 3 ''b'' (sample_row ''1'')]" "''1''" "''a''" 5] by simp


theorem outbox_failed_attempt_witness:
  "let m = stamp_claim 0 ''a'' (sample_row ''1'');
       st = \<lparr>ds_rows = [m], ds_sent = [], ds_world = ()\<rparr>
   in ds_sent (dispatchOne 0 sample_config (\<lambda>_. Some ''down'') (\<lambda>_ w. w) m st) = []"
proof -
  let ?m = "stamp_claim 0 ''a'' (sample_row ''1'')" and ?p = "\<lambda>_ :: envelope. Some ''down''"
  let ?st = "\<lparr>ds_rows = [?m], ds_sent = [], ds_world = ()\<rparr>"
  have f: "find_first (ob_owned (ob_id ?m) ''a'') (ds_rows ?st) = Some ?m"
    by (simp add: find_first_def cas_hit_def)
  show ?thesis
    using outbox_failed_attempt [of ?p ?m "''down''" "''a''" ?st ?m sample_config
        "dispatchOne 0 sample_config ?p (\<lambda>_ w. w) ?m ?st" 0 "\<lambda>_ w. w", OF refl f]
    by (simp add: sample_config_def Let_def)
qed

theorem outbox_no_event_lost_witness:
  "\<exists>s. outbox_reachable s \<and>
     ((\<exists>r \<in> set (so_rows s). ob_eventId r = ''e1'' \<and> ob_status r \<noteq> PUBLISHED) \<or> ''e1'' \<in> sent_ids s)"
proof -
  let ?s = "empty_outbox\<lparr>so_rows := append_outbox_event 0 ''1'' None (sample_event ''e1'') ''PurchaseOrder'' ''o1'' None
      (so_rows empty_outbox), so_appended := so_appended empty_outbox @ [ev_eventId (sample_event ''e1'')]\<rparr>"
  have "outbox_step empty_outbox ?s"
    by (rule outbox_step.append) (simp add: fresh_id_def empty_outbox_def)
  then have r: "outbox_reachable ?s" by (rule outbox_reachable.step [OF outbox_reachable.start])
  moreover have "''e1'' \<in> set (so_appended ?s)" by (simp add: sample_event_def)
  ultimately show ?thesis using outbox_no_event_lost by blast
qed

end
