(* ===== verification/Platform.thy ===== *)
theory Platform
  imports Outbox
begin

text \<open>
  What every use case runs on: a database transaction (\<open>@Transactional()\<close>) as a program over
  an explicit state, the environment of one call, and the platform services a use case
  writes through in that transaction: document numbers (\<open>numbering\<close>), the audit trail
  (\<open>audit\<close>) and the outbox writer. The locale \<open>tx_relation\<close> lifts a reflexive and transitive
  relation between database states from the single statements to whole use cases.
\<close>

section \<open>Transactions\<close>

text \<open>A program that reads and writes the state \<open>'d\<close> and may throw.\<close>

type_synonym ('x, 'd) tx = "'d \<Rightarrow> ('x \<times> 'd) result"

definition tx_return :: "'x \<Rightarrow> ('x, 'd) tx" where
  "tx_return x db = Inr (x, db)"

definition tx_then :: "('x, 'd) tx \<Rightarrow> ('x \<Rightarrow> ('y, 'd) tx) \<Rightarrow> ('y, 'd) tx" where
  "tx_then m f db = (case m db of Inl e \<Rightarrow> Inl e | Inr (x, db') \<Rightarrow> f x db')"

definition tx_lift :: "'x result \<Rightarrow> ('x, 'd) tx" where
  "tx_lift r db = (case r of Inl e \<Rightarrow> Inl e | Inr x \<Rightarrow> Inr (x, db))"

definition tx_read :: "('d \<Rightarrow> 'x) \<Rightarrow> ('x, 'd) tx" where
  "tx_read f db = Inr (f db, db)"

definition tx_write :: "('d \<Rightarrow> 'd) \<Rightarrow> (unit, 'd) tx" where
  "tx_write g db = Inr ((), g db)"

fun tx_for :: "('a \<Rightarrow> (unit, 'd) tx) \<Rightarrow> 'a list \<Rightarrow> (unit, 'd) tx" where
  "tx_for f [] = tx_return ()"
| "tx_for f (x # xs) = tx_then (f x) (\<lambda>_. tx_for f xs)"

text \<open>Commit on success, roll back when the program throws.\<close>

definition transactional :: "('x, 'd) tx \<Rightarrow> 'd \<Rightarrow> 'x result \<times> 'd" where
  "transactional m db = (case m db of Inl e \<Rightarrow> (Inl e, db) | Inr (x, db') \<Rightarrow> (Inr x, db'))"

lemma tx_return_Inr [simp, res_simps]: "tx_return x db = Inr (y, db') \<longleftrightarrow> y = x \<and> db' = db"
  by (auto simp: tx_return_def)

lemma tx_return_Inl [simp]: "tx_return x db \<noteq> Inl e"
  by (simp add: tx_return_def)

lemma tx_then_Inr [res_simps]:
  "tx_then m f db = Inr r \<longleftrightarrow> (\<exists>x db'. m db = Inr (x, db') \<and> f x db' = Inr r)"
  by (auto simp: tx_then_def split: sum.splits)

lemma tx_then_simps [simp]:
  "m db = Inr (x, db') \<Longrightarrow> tx_then m f db = f x db'"
  "m db = Inl e \<Longrightarrow> tx_then m f db = Inl e"
  by (simp_all add: tx_then_def)

lemma tx_then_run [simp]:
  "tx_then (tx_return x) f = f x"
  "tx_then (tx_lift (Inr x)) f = f x"
  "tx_then (tx_lift (Inl e)) f = tx_lift (Inl e)"
  "tx_then (tx_read g) f db = f (g db) db"
  "tx_then (tx_write h) f db = f () (h db)"
  by (auto simp: fun_eq_iff tx_then_def tx_return_def tx_lift_def tx_read_def tx_write_def)

lemma tx_lift_Inr [simp, res_simps]: "tx_lift r db = Inr (x, db') \<longleftrightarrow> r = Inr x \<and> db' = db"
  by (auto simp: tx_lift_def split: sum.splits)

lemma tx_lift_Inl [simp, res_simps]: "tx_lift r db = Inl e \<longleftrightarrow> r = Inl e"
  by (auto simp: tx_lift_def split: sum.splits)

lemma tx_read_Inr [simp, res_simps]: "tx_read f db = Inr (x, db') \<longleftrightarrow> x = f db \<and> db' = db"
  by (auto simp: tx_read_def)

lemma tx_write_Inr [simp, res_simps]: "tx_write g db = Inr (x, db') \<longleftrightarrow> db' = g db"
  by (auto simp: tx_write_def)

lemma transactional_Inl: "fst (transactional m db) = Inl e \<Longrightarrow> snd (transactional m db) = db"
  by (auto simp: transactional_def split: sum.splits)

lemma tx_then_assoc: "tx_then (tx_then m f) g = tx_then m (\<lambda>x. tx_then (f x) g)"
  by (auto simp: fun_eq_iff tx_then_def split: sum.splits)

text \<open>
  A relation between the states before and after every successful run of a program. It is
  closed under the program combinators whenever it is reflexive and transitive.
\<close>

definition tx_rel :: "('d \<Rightarrow> 'd \<Rightarrow> bool) \<Rightarrow> ('x, 'd) tx \<Rightarrow> bool" where
  "tx_rel R m \<longleftrightarrow> (\<forall>db x db'. m db = Inr (x, db') \<longrightarrow> R db db')"

lemma tx_relI: "(\<And>db x db'. m db = Inr (x, db') \<Longrightarrow> R db db') \<Longrightarrow> tx_rel R m"
  by (auto simp: tx_rel_def)

lemma tx_relD: "tx_rel R m \<Longrightarrow> m db = Inr (x, db') \<Longrightarrow> R db db'"
  by (auto simp: tx_rel_def)

named_theorems tx_intros \<open>relations kept by programs\<close>

locale tx_relation =
  fixes R :: "'d \<Rightarrow> 'd \<Rightarrow> bool"
  assumes R_refl: "R db db"
    and R_trans: "R db1 db2 \<Longrightarrow> R db2 db3 \<Longrightarrow> R db1 db3"
begin

lemma rel_return: "tx_rel R (tx_return x)"
  by (rule tx_relI) (simp add: R_refl)

lemma rel_lift: "tx_rel R (tx_lift r)"
  by (rule tx_relI) (simp add: R_refl)

lemma rel_read: "tx_rel R (tx_read f)"
  by (rule tx_relI) (simp add: R_refl)

lemma rel_write: "(\<And>db. R db (g db)) \<Longrightarrow> tx_rel R (tx_write g)"
  by (rule tx_relI) simp

lemma rel_then: "tx_rel R m \<Longrightarrow> (\<And>x. tx_rel R (f x)) \<Longrightarrow> tx_rel R (tx_then m f)"
  by (rule tx_relI) (auto simp: tx_then_Inr dest!: tx_relD intro: R_trans)

lemma rel_for: "(\<And>x. x \<in> set xs \<Longrightarrow> tx_rel R (f x)) \<Longrightarrow> tx_rel R (tx_for f xs)"
  by (induction xs) (auto intro!: rel_return rel_then)

lemma rel_case_option:
  "(v = None \<Longrightarrow> tx_rel R m) \<Longrightarrow> (\<And>x. v = Some x \<Longrightarrow> tx_rel R (f x)) \<Longrightarrow>
   tx_rel R (case v of None \<Rightarrow> m | Some x \<Rightarrow> f x)"
  by (cases v) simp_all

lemma rel_if: "(b \<Longrightarrow> tx_rel R m) \<Longrightarrow> (\<not> b \<Longrightarrow> tx_rel R m') \<Longrightarrow> tx_rel R (if b then m else m')"
  by simp

lemma rel_transactional: "tx_rel R m \<Longrightarrow> R db (snd (transactional m db))"
  by (cases "m db") (auto simp: transactional_def R_refl dest: tx_relD)

end

section \<open>The environment of a call\<close>

text \<open>
  The references other modules hand out, and what one call of a use case can see outside
  the database: the request context, the clock, the supply of random UUIDs (the \<open>k\<close>-th UUID
  drawn is \<open>e_uuid k\<close>), the access-control port, the ports of the vendor and product
  modules, \<open>JSON.stringify\<close>, and the database driver's conversion of a number into a decimal
  with two places (in hundredths, \<open>None\<close> when it is refused).
\<close>

record vendor_reference =
  vr_id :: string
  vr_code :: string
  vr_name :: string

record product_reference =
  pr_ref_id :: string
  pr_sku :: string
  pr_name :: string

record env =
  e_ctx :: request_context
  e_now :: int
  e_uuid :: "nat \<Rightarrow> string"
  e_abac :: abac
  e_vendor :: "string \<Rightarrow> vendor_reference option"
  e_product :: "string \<Rightarrow> product_reference option"
  e_stringify :: "json \<Rightarrow> string"
  e_to_numeric :: "number \<Rightarrow> int option"

record sequence_row =
  sq_key :: string
  sq_prefix :: string
  sq_padding :: nat
  sq_currentValue :: nat

record audit_row =
  au_action :: string
  au_entityType :: string
  au_entityId :: string
  au_changes :: "(string \<times> json) list"
  au_actorId :: "string option"
  au_actorType :: string
  au_tenantId :: "string option"
  au_companyId :: "string option"
  au_requestId :: string
  au_correlationId :: string

record platform_db =
  pf_outbox :: "outbox_row list"
  pf_audit :: "audit_row list"
  pf_sequences :: "sequence_row list"
  pf_drawn :: nat

definition draw_uuid :: "env \<Rightarrow> (string, 'a platform_db_scheme) tx" where
  "draw_uuid e db = Inr (e_uuid e (pf_drawn db), db\<lparr>pf_drawn := pf_drawn db + 1\<rparr>)"

text \<open>\<open>input.actorId ?? requestContext.getUserId()\<close>\<close>

definition actor_of :: "env \<Rightarrow> string option \<Rightarrow> string option" where
  "actor_of e actorId = coalesce_opt actorId (ctx_userId (e_ctx e))"

section \<open>Document numbers\<close>

definition scopedKey :: "env \<Rightarrow> string \<Rightarrow> string" where
  "scopedKey e sequenceKey = resolveCompanyId (e_ctx e) @ '':'' @ sequenceKey"

definition upsert_sequence :: "string \<Rightarrow> string \<Rightarrow> nat \<Rightarrow> sequence_row list \<Rightarrow> sequence_row \<times> sequence_row list" where
  "upsert_sequence key prefix padding rows =
     (case find_first (\<lambda>r. sq_key r = key) rows of
        None \<Rightarrow>
          let row = \<lparr>sq_key = key, sq_prefix = prefix, sq_padding = padding, sq_currentValue = 1\<rparr>
          in (row, insert_row row rows)
      | Some row \<Rightarrow>
          let row' = row\<lparr>sq_currentValue := sq_currentValue row + 1\<rparr>
          in (row', map_where (\<lambda>r. sq_key r = key) (\<lambda>_. row') rows))"

definition nextNumber ::
  "env \<Rightarrow> string \<Rightarrow> string option \<Rightarrow> nat option \<Rightarrow> (string, 'a platform_db_scheme) tx" where
  "nextNumber e callerSequenceKey opt_prefix opt_padding db =
     (let padding = coalesce opt_padding 0;
          (updated, rows) = upsert_sequence (scopedKey e callerSequenceKey) (coalesce opt_prefix []) padding
            (pf_sequences db);
          digits = nat_to_string (sq_currentValue updated);
          numberText = (if padding > 0 then pad_start padding (CHR ''0'') digits else digits)
      in Inr (sq_prefix updated @ numberText, db\<lparr>pf_sequences := rows\<rparr>))"

section \<open>The audit trail\<close>

fun contains :: "string \<Rightarrow> string \<Rightarrow> bool" where
  "contains w [] = (w = [])"
| "contains w (c # s) = (take (length w) (c # s) = w \<or> contains w s)"

definition SENSITIVE_KEYS :: "string \<Rightarrow> bool" where
  "SENSITIVE_KEYS key = list_ex (\<lambda>w. contains w (to_upper key))
     [''PASSWORD'', ''SECRET'', ''TOKEN'', ''AUTHORIZATION'', ''PIN'', ''OTP'']"

definition MAX_FIELD_JSON :: nat where
  "MAX_FIELD_JSON = 4000"

text \<open>The ellipsis character of the marker is written as three dots.\<close>

definition truncate_value :: "(json \<Rightarrow> string) \<Rightarrow> json \<Rightarrow> json" where
  "truncate_value stringify v =
     (let shorten = (\<lambda>text. if length text > MAX_FIELD_JSON
            then JStr (take MAX_FIELD_JSON text @ ''...[truncated]'') else v)
      in case v of JNull \<Rightarrow> v | JNum _ \<Rightarrow> v | JBool _ \<Rightarrow> v | JStr s \<Rightarrow> shorten s
         | _ \<Rightarrow> shorten (stringify v))"

definition audit_redact :: "(json \<Rightarrow> string) \<Rightarrow> (string \<times> json) list \<Rightarrow> (string \<times> json) list" where
  "audit_redact stringify changes =
     map (\<lambda>(k, v). (k, if SENSITIVE_KEYS k then JStr ''[redacted]'' else truncate_value stringify v)) changes"

definition audit_write ::
  "env \<Rightarrow> string option \<Rightarrow> string option \<Rightarrow> string \<Rightarrow> string \<Rightarrow> string \<Rightarrow> string option \<Rightarrow>
   (string \<times> json) list \<Rightarrow> (unit, 'a platform_db_scheme) tx"
where
  "audit_write e tenantId companyId action entityType entityId actorId changes =
     tx_write (\<lambda>db. db\<lparr>pf_audit := insert_row
       \<lparr>au_action = action, au_entityType = entityType, au_entityId = entityId,
        au_changes = audit_redact (e_stringify e) changes,
        au_actorId = coalesce_opt actorId (ctx_userId (e_ctx e)),
        au_actorType = (if truthy (ctx_userId (e_ctx e)) then ''user'' else ''system''),
        au_tenantId = coalesce_opt tenantId (ctx_tenantId (e_ctx e)),
        au_companyId = coalesce_opt companyId (ctx_companyId (e_ctx e)),
        au_requestId = requestId (e_ctx e), au_correlationId = correlationId (e_ctx e)\<rparr>
       (pf_audit db)\<rparr>)"

text \<open>Most use cases pass the tenant and company of the context, which is also the fallback.\<close>

definition audit_record ::
  "env \<Rightarrow> string \<Rightarrow> string \<Rightarrow> string \<Rightarrow> string option \<Rightarrow> (string \<times> json) list \<Rightarrow> (unit, 'a platform_db_scheme) tx"
where
  "audit_record e = audit_write e (ctx_tenantId (e_ctx e)) (ctx_companyId (e_ctx e))"

section \<open>Publishing through the outbox\<close>

text \<open>
  A domain event is raised with a fresh event id and appended to the outbox in the
  transaction of the aggregate. Both UUIDs are drawn here.
\<close>

definition send_event ::
  "env \<Rightarrow> string \<Rightarrow> string \<Rightarrow> string \<times> (string \<times> json) list \<Rightarrow> (unit, 'a platform_db_scheme) tx" where
  "send_event e aggregateType aggregateId event =
     tx_then (draw_uuid e) (\<lambda>eventId. tx_then (draw_uuid e) (\<lambda>rowId.
       tx_write (\<lambda>db. db\<lparr>pf_outbox := append_outbox_event (e_now e) rowId (Some (e_ctx e))
         \<lparr>ev_eventId = eventId, ev_name = fst event, ev_fields = snd event, ev_occurredAt = e_now e,
          ev_version = 1, ev_correlationId = None, ev_causationId = None, ev_headers = []\<rparr>
         aggregateType aggregateId None (pf_outbox db)\<rparr>)))"

definition send_events ::
  "env \<Rightarrow> string \<Rightarrow> string \<Rightarrow> (string \<times> (string \<times> json) list) list \<Rightarrow> (unit, 'a platform_db_scheme) tx" where
  "send_events e aggregateType aggregateId events =
     tx_for (send_event e aggregateType aggregateId) events"

text \<open>Columns: an \<open>Int\<close> column takes a 32-bit integer, a \<open>Decimal(18, 2)\<close> at most 16 digits before
  the point; anything else makes the statement fail.\<close>

definition db_int :: "number \<Rightarrow> int result" where
  "db_int x = (case x of Fin q \<Rightarrow>
       (if is_integer x \<and> - (2 ^ 31) \<le> \<lfloor>q\<rfloor> \<and> \<lfloor>q\<rfloor> < 2 ^ 31 then Inr \<lfloor>q\<rfloor>
        else throw_plain ''Value out of range for the type integer'')
     | _ \<Rightarrow> throw_plain ''Value out of range for the type integer'')"

definition db_decimal :: "int \<Rightarrow> int result" where
  "db_decimal h = (if \<bar>h\<bar> < 10 ^ 18 then Inr h else throw_plain ''numeric field overflow'')"

definition db_numeric :: "env \<Rightarrow> number \<Rightarrow> int result" where
  "db_numeric e x = (case e_to_numeric e x of
       None \<Rightarrow> throw_plain ''invalid input syntax for type numeric''
     | Some h \<Rightarrow> db_decimal h)"

lemma db_int_N [simp]: "db_int (N i) = (if - (2 ^ 31) \<le> i \<and> i < 2 ^ 31 then Inr i
    else throw_plain ''Value out of range for the type integer'')"
  by (simp add: db_int_def)

lemma db_int_Inr: "db_int x = Inr i \<longleftrightarrow> x = N i \<and> - (2 ^ 31) \<le> i \<and> i < 2 ^ 31"
proof (cases x)
  case (Fin q)
  then show ?thesis by (auto simp: db_int_def elim!: is_integerE)
qed (simp_all add: db_int_def)

lemma db_decimal_Inr: "db_decimal h = Inr i \<longleftrightarrow> i = h \<and> \<bar>h\<bar> < 10 ^ 18"
  by (auto simp: db_decimal_def)

end
