(* ===== verification/PO_Store.thy ===== *)
theory PO_Store
  imports PO_Lifecycle Platform "HOL-Library.List_Lexorder"
begin

text \<open>
  Persistence of purchase orders (\<open>purchase-order/infrastructure/persistence/prisma\<close>): the
  rows of \<open>purchase_orders\<close> with their lines, the mapper between rows and aggregates, the
  command repository with its compare-and-set on the version, and the query repository,
  which reads through a connection of its own (\<open>PrismaReadPort\<close>) and therefore sees
  \<open>pt_replica\<close>, the committed state that connection has caught up with.
\<close>

section \<open>Rows\<close>

record po_line_row =
  plr_productId :: string
  plr_quantity :: int
  plr_receivedQuantity :: int
  plr_descriptionSnapshot :: "string option"
  plr_unitPrice :: int
  plr_total :: int

text \<open>The columns \<open>toRow\<close> writes.\<close>

record po_data =
  pd_id :: string
  pd_orderNumber :: string
  pd_vendorId :: string
  pd_externalReference :: "string option"
  pd_status :: po_status
  pd_currency :: string
  pd_orderDate :: "time option"
  pd_expectedDeliveryDate :: "time option"
  pd_createdBy :: "string option"
  pd_approvedBy :: "string option"
  pd_approvedAt :: "time option"
  pd_rejectedBy :: "string option"
  pd_rejectedAt :: "time option"
  pd_rejectionReason :: "string option"
  pd_issuedBy :: "string option"
  pd_cancelledBy :: "string option"
  pd_amendedBy :: "string option"
  pd_amendedAt :: "time option"
  pd_amendmentReason :: "string option"
  pd_subtotal :: int
  pd_total :: int

record po_row =
  por_data :: po_data
  por_lines :: "po_line_row list"
  por_version :: int
  por_tenantId :: "string option"
  por_companyId :: string
  por_createdAt :: time
  por_updatedAt :: time

abbreviation por_id :: "po_row \<Rightarrow> string" where
  "por_id r \<equiv> pd_id (por_data r)"

record po_db = platform_db +
  pt_orders :: "po_row list"
  pt_replica :: "po_row list"

section \<open>The mapper\<close>

definition toDomain_line :: "string \<Rightarrow> po_line_row \<Rightarrow> po_line result" where
  "toDomain_line currency l =
     and_then (money_fromDecimal (number_of_decimal (plr_unitPrice l)) currency) (\<lambda>unitPrice.
     and_then (money_fromDecimal (number_of_decimal (plr_total l)) currency) (\<lambda>total.
       Inr \<lparr>pol_productId = plr_productId l, pol_quantity = N (plr_quantity l),
            pol_unitPrice = unitPrice, pol_total = total,
            pol_receivedQuantity = N (plr_receivedQuantity l),
            pol_descriptionSnapshot = plr_descriptionSnapshot l\<rparr>))"

definition toDomain :: "po_row \<Rightarrow> purchase_order result" where
  "toDomain row =
     (let d = por_data row
      in and_then (map_result (toDomain_line (pd_currency d)) (por_lines row)) (\<lambda>lines.
         and_then (orderNumber_create (pd_orderNumber d)) (\<lambda>num.
           Inr \<lparr>po_id = pd_id d, po_version = por_version row, po_events = [],
                po_orderNumber = num, po_vendorId = pd_vendorId d,
                po_externalReference = pd_externalReference d, po_status = pd_status d,
                po_currency = pd_currency d, po_lines = lines, po_orderDate = pd_orderDate d,
                po_expectedDeliveryDate = pd_expectedDeliveryDate d,
                po_createdBy = pd_createdBy d, po_approvedBy = pd_approvedBy d,
                po_approvedAt = pd_approvedAt d, po_rejectedBy = pd_rejectedBy d,
                po_rejectedAt = pd_rejectedAt d, po_rejectionReason = pd_rejectionReason d,
                po_issuedBy = pd_issuedBy d, po_cancelledBy = pd_cancelledBy d,
                po_amendedBy = pd_amendedBy d, po_amendedAt = pd_amendedAt d,
                po_amendmentReason = pd_amendmentReason d, po_lastReceiptBy = None,
                po_lastReceiptAt = None, po_createdAt = por_createdAt row,
                po_updatedAt = por_updatedAt row\<rparr>)))"

definition toRow :: "purchase_order \<Rightarrow> po_data result" where
  "toRow po =
     and_then (po_subtotal po) (\<lambda>subtotal.
     and_then (po_total po) (\<lambda>total.
     and_then (db_decimal (money_toDecimal subtotal)) (\<lambda>sub.
     and_then (db_decimal (money_toDecimal total)) (\<lambda>tot.
       Inr \<lparr>pd_id = po_id po, pd_orderNumber = po_orderNumber po, pd_vendorId = po_vendorId po,
            pd_externalReference = po_externalReference po, pd_status = po_status po,
            pd_currency = po_currency po, pd_orderDate = po_orderDate po,
            pd_expectedDeliveryDate = po_expectedDeliveryDate po, pd_createdBy = po_createdBy po,
            pd_approvedBy = po_approvedBy po, pd_approvedAt = po_approvedAt po,
            pd_rejectedBy = po_rejectedBy po, pd_rejectedAt = po_rejectedAt po,
            pd_rejectionReason = po_rejectionReason po, pd_issuedBy = po_issuedBy po,
            pd_cancelledBy = po_cancelledBy po, pd_amendedBy = po_amendedBy po,
            pd_amendedAt = po_amendedAt po, pd_amendmentReason = po_amendmentReason po,
            pd_subtotal = sub, pd_total = tot\<rparr>))))"

definition toLineRow :: "po_line \<Rightarrow> po_line_row result" where
  "toLineRow l =
     and_then (db_int (pol_quantity l)) (\<lambda>q.
     and_then (db_int (pol_receivedQuantity l)) (\<lambda>r.
     and_then (db_decimal (money_toDecimal (pol_unitPrice l))) (\<lambda>u.
     and_then (db_decimal (money_toDecimal (pol_total l))) (\<lambda>t.
       Inr \<lparr>plr_productId = pol_productId l, plr_quantity = q, plr_receivedQuantity = r,
            plr_descriptionSnapshot = pol_descriptionSnapshot l, plr_unitPrice = u, plr_total = t\<rparr>))))"

definition toLinesCreateInput :: "purchase_order \<Rightarrow> po_line_row list result" where
  "toLinesCreateInput po = map_result toLineRow (po_lines po)"

section \<open>The command repository\<close>

text \<open>The unique constraints of the two tables; the database checks them after each statement.\<close>

definition po_unique :: "po_row list \<Rightarrow> bool" where
  "po_unique rows \<longleftrightarrow> distinct (map por_id rows) \<and>
     distinct (map (\<lambda>r. (por_companyId r, pd_orderNumber (por_data r))) rows) \<and>
     distinct (map (\<lambda>r. (por_companyId r, pd_externalReference (por_data r)))
       (filter (\<lambda>r. pd_externalReference (por_data r) \<noteq> None) rows)) \<and>
     (\<forall>r \<in> set rows. distinct (map plr_productId (por_lines r)))"

definition po_constraints :: "po_row list \<Rightarrow> unit result" where
  "po_constraints rows = check (po_unique rows) (throw_plain ''Unique constraint failed'')"

definition po_save :: "env \<Rightarrow> purchase_order \<Rightarrow> (unit, 'a po_db_scheme) tx" where
  "po_save e po =
     tx_then (tx_lift (toRow po)) (\<lambda>data.
     tx_then (tx_lift (toLinesCreateInput po)) (\<lambda>lines.
     tx_then (tx_read pt_orders) (\<lambda>rows.
       let rows' = insert_row
             \<lparr>por_data = data, por_lines = lines, por_version = 1,
              por_tenantId = ctx_tenantId (e_ctx e), por_companyId = resolveCompanyId (e_ctx e),
              por_createdAt = e_now e, por_updatedAt = e_now e\<rparr> rows
       in tx_then (tx_lift (po_constraints rows')) (\<lambda>_.
            tx_write (\<lambda>db. db\<lparr>pt_orders := rows'\<rparr>)))))"

definition po_cas :: "env \<Rightarrow> purchase_order \<Rightarrow> po_row \<Rightarrow> bool" where
  "po_cas e po r \<longleftrightarrow> por_id r = po_id po \<and> por_version r = po_version po \<and>
     owned_scope (e_ctx e) (por_tenantId r)"

definition po_written :: "env \<Rightarrow> po_data \<Rightarrow> po_line_row list \<Rightarrow> po_row \<Rightarrow> po_row" where
  "po_written e data lines r =
     r\<lparr>por_data := data, por_lines := lines, por_version := por_version r + 1, por_updatedAt := e_now e\<rparr>"

definition po_update :: "env \<Rightarrow> purchase_order \<Rightarrow> (unit, 'a po_db_scheme) tx" where
  "po_update e po =
     tx_then (tx_lift (toRow po)) (\<lambda>data.
     tx_then (tx_read pt_orders) (\<lambda>rows.
       if fst (update_many (po_cas e po) (po_written e data []) rows) = 0
       then tx_lift (conflict ''Purchase order was modified concurrently (optimistic concurrency conflict)'')
       else
         tx_then (tx_lift (toLinesCreateInput po)) (\<lambda>lines.
           let rows' = snd (update_many (po_cas e po) (po_written e data lines) rows)
           in tx_then (tx_lift (po_constraints rows')) (\<lambda>_.
                tx_write (\<lambda>db. db\<lparr>pt_orders := rows'\<rparr>)))))"

definition po_find :: "env \<Rightarrow> (po_row \<Rightarrow> bool) \<Rightarrow> (purchase_order option, 'a po_db_scheme) tx" where
  "po_find e wanted =
     tx_then (tx_read pt_orders) (\<lambda>rows.
       case find_first (\<lambda>r. wanted r \<and> owned_scope (e_ctx e) (por_tenantId r)) rows of
         None \<Rightarrow> tx_return None
       | Some row \<Rightarrow> tx_then (tx_lift (toDomain row)) (\<lambda>po. tx_return (Some po)))"

definition po_findById :: "env \<Rightarrow> string \<Rightarrow> (purchase_order option, 'a po_db_scheme) tx" where
  "po_findById e i = po_find e (\<lambda>r. por_id r = i)"

definition po_findByOrderNumber :: "env \<Rightarrow> string \<Rightarrow> (purchase_order option, 'a po_db_scheme) tx" where
  "po_findByOrderNumber e n = po_find e (\<lambda>r. pd_orderNumber (por_data r) = n)"

definition po_findByExternalReference :: "env \<Rightarrow> string \<Rightarrow> (purchase_order option, 'a po_db_scheme) tx" where
  "po_findByExternalReference e x = po_find e (\<lambda>r. pd_externalReference (por_data r) = Some x)"

section \<open>The query repository\<close>

definition po_visible :: "env \<Rightarrow> string \<Rightarrow> po_row list \<Rightarrow> po_row option" where
  "po_visible e i rows = find_first (\<lambda>r. por_id r = i \<and> owned_scope (e_ctx e) (por_tenantId r)) rows"

record po_query_record =
  pq_id :: string
  pq_orderNumber :: string
  pq_vendorId :: string
  pq_externalReference :: "string option"
  pq_status :: po_status
  pq_currency :: string
  pq_subtotal :: number
  pq_total :: number
  pq_orderDate :: "time option"
  pq_expectedDeliveryDate :: "time option"
  pq_lines :: "po_line_row list"
  pq_createdAt :: time
  pq_updatedAt :: time

definition toRecord :: "po_row \<Rightarrow> po_query_record" where
  "toRecord row = (let d = por_data row in
     \<lparr>pq_id = pd_id d, pq_orderNumber = pd_orderNumber d, pq_vendorId = pd_vendorId d,
      pq_externalReference = pd_externalReference d, pq_status = pd_status d,
      pq_currency = pd_currency d, pq_subtotal = number_of_decimal (pd_subtotal d),
      pq_total = number_of_decimal (pd_total d), pq_orderDate = pd_orderDate d,
      pq_expectedDeliveryDate = pd_expectedDeliveryDate d, pq_lines = por_lines row,
      pq_createdAt = por_createdAt row, pq_updatedAt = por_updatedAt row\<rparr>)"

definition po_query_findById :: "env \<Rightarrow> string \<Rightarrow> (po_query_record option, 'a po_db_scheme) tx" where
  "po_query_findById e i = tx_read (\<lambda>db. map_option toRecord (po_visible e i (pt_replica db)))"

record receipt_projection =
  rp_productId :: string
  rp_orderedQuantity :: int
  rp_receivedQuantity :: int
  rp_remainingQuantity :: int

definition findReceipts :: "env \<Rightarrow> string \<Rightarrow> (receipt_projection list option, 'a po_db_scheme) tx" where
  "findReceipts e i = tx_read (\<lambda>db. map_option (\<lambda>row. map (\<lambda>l.
       \<lparr>rp_productId = plr_productId l, rp_orderedQuantity = plr_quantity l,
        rp_receivedQuantity = plr_receivedQuantity l,
        rp_remainingQuantity = max 0 (plr_quantity l - plr_receivedQuantity l)\<rparr>)
       (sort_key plr_productId (por_lines row))) (po_visible e i (pt_replica db)))"

definition hasReceipts :: "env \<Rightarrow> string \<Rightarrow> (bool, 'a po_db_scheme) tx" where
  "hasReceipts e i = tx_read (\<lambda>db.
     case po_visible e i (pt_replica db) of
       None \<Rightarrow> False
     | Some row \<Rightarrow> filter (\<lambda>l. plr_receivedQuantity l > 0) (por_lines row) \<noteq> [])"

text \<open>The read connection catches up with the committed state.\<close>

definition catch_up :: "'a po_db_scheme \<Rightarrow> 'a po_db_scheme" where
  "catch_up db = db\<lparr>pt_replica := pt_orders db\<rparr>"

end
