(* ===== verification/PO_UseCases.thy ===== *)
theory PO_UseCases
  imports PO_Store
begin

text \<open>
  The use cases of the purchase-order module (\<open>purchase-order/application/usecases\<close>), one
  definition per \<open>execute\<close>, in the order of the source: context and access control, ports,
  loading, the method of the aggregate, the write, the audit row, the events. A use case
  returns the id of the order, the receipt registration its result record.
\<close>

section \<open>Events as the outbox stores them\<close>

definition two_digits :: "nat \<Rightarrow> string" where
  "two_digits n = pad_start 2 (CHR ''0'') (nat_to_string n)"

definition decimal_text :: "int \<Rightarrow> string" where
  "decimal_text h = (if h < 0 then ''-'' else []) @ nat_to_string (nat \<bar>h\<bar> div 100) @ ''.'' @
     two_digits (nat \<bar>h\<bar> mod 100)"

fun amended_field :: "amended \<Rightarrow> string \<times> json" where
  "amended_field (AmendedDate d) = (''expectedDeliveryDate'', (case d of None \<Rightarrow> JNull | Some t \<Rightarrow> JDate t))"
| "amended_field (AmendedPrices ps) =
     (''lineUnitPrices'', JObj (map (\<lambda>(p, h). (p, JStr (decimal_text h))) ps))"

abbreviation id_object :: "string \<Rightarrow> json" where
  "id_object i \<equiv> JObj [(''value'', JStr i)]"

fun po_event_message :: "po_event \<Rightarrow> string \<times> (string \<times> json) list" where
  "po_event_message (PurchaseOrderCreated i n v) = (''PurchaseOrderCreated'',
     [(''purchaseOrderId'', id_object i), (''orderNumber'', JStr n), (''vendorId'', JStr v)])"
| "po_event_message (PurchaseOrderLineAdded i p) = (''PurchaseOrderLineAdded'',
     [(''purchaseOrderId'', id_object i), (''productId'', JStr p)])"
| "po_event_message (PurchaseOrderLineRemoved i p) = (''PurchaseOrderLineRemoved'',
     [(''purchaseOrderId'', id_object i), (''productId'', JStr p)])"
| "po_event_message (PurchaseOrderSubmitted i n v) = (''PurchaseOrderSubmitted'',
     [(''purchaseOrderId'', id_object i), (''orderNumber'', JStr n), (''vendorId'', JStr v)])"
| "po_event_message (PurchaseOrderApproved i) = (''PurchaseOrderApproved'', [(''purchaseOrderId'', id_object i)])"
| "po_event_message (PurchaseOrderRejected i r) = (''PurchaseOrderRejected'',
     [(''purchaseOrderId'', id_object i), (''reason'', JStr r)])"
| "po_event_message (PurchaseOrderCancelled i) = (''PurchaseOrderCancelled'', [(''purchaseOrderId'', id_object i)])"
| "po_event_message (PurchaseOrderIssued i) = (''PurchaseOrderIssued'', [(''purchaseOrderId'', id_object i)])"
| "po_event_message (PurchaseOrderCompleted i) = (''PurchaseOrderCompleted'', [(''purchaseOrderId'', id_object i)])"
| "po_event_message (PurchaseOrderAmended i ch r a) = (''PurchaseOrderAmended'',
     [(''purchaseOrderId'', JStr i), (''changes'', JObj (map amended_field ch)), (''reason'', JStr r)] @
     (case a of None \<Rightarrow> [] | Some x \<Rightarrow> [(''actorId'', JStr x)]))"

text \<open>\<open>for (const event of purchaseOrder.pullEvents()) await integrationEvent.send(event, id)\<close>\<close>

definition po_publish :: "env \<Rightarrow> purchase_order \<Rightarrow> (purchase_order, 'a po_db_scheme) tx" where
  "po_publish e po =
     (let (events, po') = po_pullEvents po
      in tx_then (send_events e ''PurchaseOrder'' (po_id po) (map po_event_message events)) (\<lambda>_. tx_return po'))"

definition po_load :: "env \<Rightarrow> string \<Rightarrow> (purchase_order, 'a po_db_scheme) tx" where
  "po_load e i = tx_then (po_findById e i) (\<lambda>found.
     case found of None \<Rightarrow> tx_lift (not_found ''Purchase order not found'') | Some po \<Rightarrow> tx_return po)"

definition po_guard :: "env \<Rightarrow> unit result \<Rightarrow> string \<Rightarrow> (unit, 'a po_db_scheme) tx" where
  "po_guard e no_company action =
     tx_lift (require_company_and_access (e_abac e) (e_ctx e) no_company ''PurchaseOrder'' action)"

abbreviation no_company_404 :: "unit result" where
  "no_company_404 \<equiv> not_found ''Company not found in request context''"

abbreviation no_company_plain :: "unit result" where
  "no_company_plain \<equiv> throw_plain ''Company not found in request context''"

definition currency_or_default :: "env \<Rightarrow> string option \<Rightarrow> string" where
  "currency_or_default e c = coalesce c (coalesce (defaultCurrency (e_ctx e)) ''USD'')"

definition status_change :: "po_status \<Rightarrow> (string \<times> json) list" where
  "status_change s = [(''status'', JStr (po_status_name s))]"

section \<open>Creating an order\<close>

record create_po_request =
  cr_vendorId :: string
  cr_currency :: "string option"
  cr_externalReference :: "string option"
  cr_orderDate :: "time option"
  cr_expectedDeliveryDate :: "time option"
  cr_actorId :: "string option"

definition create_purchase_order :: "env \<Rightarrow> create_po_request \<Rightarrow> (string, 'a po_db_scheme) tx" where
  "create_purchase_order e input =
     tx_then (po_guard e no_company_plain ''create'') (\<lambda>_.
     case e_vendor e (cr_vendorId input) of
       None \<Rightarrow> tx_lift (conflict ''Vendor is not orderable (blocked or inactive)'')
     | Some vendor \<Rightarrow>
         tx_then (nextNumber e ''purchase-order.number'' (Some ''PO-'') (Some 8)) (\<lambda>orderNumber.
         tx_then (draw_uuid e) (\<lambda>uuid.
         tx_then (tx_lift (po_create (e_now e) uuid
             \<lparr>ci_orderNumber = orderNumber, ci_vendorId = cr_vendorId input,
              ci_currency = Some (currency_or_default e (cr_currency input)),
              ci_externalReference = cr_externalReference input, ci_orderDate = cr_orderDate input,
              ci_expectedDeliveryDate = cr_expectedDeliveryDate input,
              ci_createdBy = actor_of e (cr_actorId input)\<rparr>)) (\<lambda>po.
         tx_then (po_save e po) (\<lambda>_.
         tx_then (po_publish e po) (\<lambda>_. tx_return (po_id po)))))))"

section \<open>Editing a draft\<close>

record line_request =
  lr_id :: string
  lr_productId :: string
  lr_quantity :: number
  lr_unitPrice :: number
  lr_currency :: "string option"

definition add_purchase_order_line :: "env \<Rightarrow> line_request \<Rightarrow> (string, 'a po_db_scheme) tx" where
  "add_purchase_order_line e input =
     tx_then (po_guard e no_company_404 ''update'') (\<lambda>_.
     case e_product e (lr_productId input) of
       None \<Rightarrow> tx_lift (conflict ''Product is not purchasable'')
     | Some product \<Rightarrow>
         tx_then (po_load e (lr_id input)) (\<lambda>po.
         tx_then (tx_lift (money_fromDecimal (lr_unitPrice input) (currency_or_default e (lr_currency input)))) (\<lambda>price.
         tx_then (tx_lift (addLine (e_now e) (lr_productId input) (lr_quantity input) price
                    (Some (pr_name product)) po)) (\<lambda>po'.
         tx_then (po_update e po') (\<lambda>_.
         tx_then (po_publish e po') (\<lambda>_. tx_return (po_id po')))))))"

text \<open>A line that is already in the requested state is left alone: nothing is written.\<close>

definition update_purchase_order_line :: "env \<Rightarrow> line_request \<Rightarrow> (string, 'a po_db_scheme) tx" where
  "update_purchase_order_line e input =
     tx_then (po_guard e no_company_404 ''update'') (\<lambda>_.
     case e_product e (lr_productId input) of
       None \<Rightarrow> tx_lift (conflict ''Product is not purchasable'')
     | Some product \<Rightarrow>
         tx_then (po_load e (lr_id input)) (\<lambda>po.
         tx_then (tx_lift (money_fromDecimal (lr_unitPrice input) (currency_or_default e (lr_currency input)))) (\<lambda>price.
         tx_then (tx_lift (setLine (e_now e) (lr_productId input) (lr_quantity input) price
                    (Some (pr_name product)) po)) (\<lambda>(changed, po').
           if \<not> changed then tx_return (po_id po')
           else tx_then (po_update e po') (\<lambda>_.
                tx_then (po_publish e po') (\<lambda>_. tx_return (po_id po')))))))"

definition remove_purchase_order_line :: "env \<Rightarrow> string \<Rightarrow> string \<Rightarrow> (string, 'a po_db_scheme) tx" where
  "remove_purchase_order_line e i productId =
     tx_then (po_guard e no_company_404 ''update'') (\<lambda>_.
     tx_then (po_load e i) (\<lambda>po.
     tx_then (tx_lift (removeLine (e_now e) productId po)) (\<lambda>po'.
     tx_then (po_update e po') (\<lambda>_.
     tx_then (po_publish e po') (\<lambda>_. tx_return (po_id po'))))))"

record header_request =
  hr_id :: string
  hr_orderDate :: "time option"
  hr_expectedDeliveryDate :: "time option"
  hr_externalReference :: "string option"

definition update_purchase_order :: "env \<Rightarrow> header_request \<Rightarrow> (string, 'a po_db_scheme) tx" where
  "update_purchase_order e input =
     tx_then (po_load e (hr_id input)) (\<lambda>po.
     tx_then
       (if hr_externalReference input \<noteq> None \<and> hr_externalReference input \<noteq> po_externalReference po
        then tx_then (po_findByExternalReference e (the (hr_externalReference input))) (\<lambda>existing.
               case existing of
                 None \<Rightarrow> tx_return ()
               | Some _ \<Rightarrow> tx_lift (conflict ''externalReference is already used by another purchase order''))
        else tx_return ()) (\<lambda>_.
     tx_then (tx_lift (updateHeader (e_now e) (hr_orderDate input) (hr_expectedDeliveryDate input)
                (hr_externalReference input) po)) (\<lambda>po'.
     tx_then (po_update e po') (\<lambda>_.
     tx_then (po_publish e po') (\<lambda>_. tx_return (po_id po'))))))"

section \<open>Amending, issuing, closing\<close>

definition toLineUnitPrices :: "(string \<times> number) list option \<Rightarrow> string \<Rightarrow> (string \<times> number) list option result" where
  "toLineUnitPrices prices currency =
     (case prices of
        None \<Rightarrow> Inr None
      | Some ps \<Rightarrow> and_then (map_result (\<lambda>(p, amount).
            and_then (money_fromDecimal amount currency) (\<lambda>m. Inr (p, minorUnits m))) ps) (\<lambda>qs. Inr (Some qs)))"

record amend_request =
  ar_id :: string
  ar_expectedDeliveryDate :: "time option"
  ar_lineUnitPrices :: "(string \<times> number) list option"
  ar_reason :: string
  ar_actorId :: "string option"

definition amend_purchase_order :: "env \<Rightarrow> amend_request \<Rightarrow> (string, 'a po_db_scheme) tx" where
  "amend_purchase_order e request =
     (let actorId = actor_of e (ar_actorId request)
      in tx_then (po_load e (ar_id request)) (\<lambda>po.
         tx_then (tx_lift (toLineUnitPrices (ar_lineUnitPrices request) (po_currency po))) (\<lambda>prices.
         tx_then (tx_lift (amend (e_now e)
             \<lparr>am_expectedDeliveryDate = map_option Some (ar_expectedDeliveryDate request),
              am_lineUnitPrices = prices, am_reason = ar_reason request, am_actorId = actorId\<rparr> po)) (\<lambda>(applied, po').
         tx_then (po_update e po') (\<lambda>_.
         tx_then (audit_record e ''purchase-order.amend'' ''PurchaseOrder'' (po_id po') actorId
             (map amended_field applied @ [(''reason'', JStr (ar_reason request))])) (\<lambda>_.
         tx_then (po_publish e po') (\<lambda>_. tx_return (po_id po'))))))))"

definition issue_purchase_order :: "env \<Rightarrow> string \<Rightarrow> string option \<Rightarrow> (string, 'a po_db_scheme) tx" where
  "issue_purchase_order e i actorId =
     (let actor = actor_of e actorId
      in tx_then (po_load e i) (\<lambda>po.
         tx_then (tx_lift (issue (e_now e) actor po)) (\<lambda>po'.
         tx_then (po_update e po') (\<lambda>_.
         tx_then (audit_record e ''purchase-order.issue'' ''PurchaseOrder'' (po_id po') actor
                    (status_change (po_status po'))) (\<lambda>_.
         tx_then (po_publish e po') (\<lambda>_. tx_return (po_id po')))))))"

definition close_purchase_order :: "env \<Rightarrow> string \<Rightarrow> string option \<Rightarrow> (string, 'a po_db_scheme) tx" where
  "close_purchase_order e i actorId =
     (let actor = actor_of e actorId
      in tx_then (po_load e i) (\<lambda>po.
         tx_then (tx_lift (close (e_now e) po)) (\<lambda>po'.
         tx_then (po_update e po') (\<lambda>_.
         tx_then (audit_record e ''purchase-order.close'' ''PurchaseOrder'' (po_id po') actor
                    (status_change (po_status po'))) (\<lambda>_.
         tx_then (po_publish e po') (\<lambda>_. tx_return (po_id po')))))))"

section \<open>Transitions\<close>

datatype po_transition = T_submit | T_approve | T_reject | T_cancel | T_complete

fun transition_name :: "po_transition \<Rightarrow> string" where
  "transition_name T_submit = ''submit''"
| "transition_name T_approve = ''approve''"
| "transition_name T_reject = ''reject''"
| "transition_name T_cancel = ''cancel''"
| "transition_name T_complete = ''complete''"

record transition_request =
  tr_id :: string
  tr_transition :: po_transition
  tr_reason :: "string option"
  tr_actorId :: "string option"

definition approve_transition :: "env \<Rightarrow> string option \<Rightarrow> purchase_order \<Rightarrow> purchase_order result" where
  "approve_transition e actorId po =
     and_then (po_total po) (\<lambda>total.
     and_then (policy_enforce ''purchase-order-can-approve''
         (policy_can_approve (po_status po) (money_amount total)
            (coalesce (autoApproveThreshold (e_ctx e)) (N 0)))) (\<lambda>_.
       approve (e_now e) actorId po))"

definition apply_transition ::
  "env \<Rightarrow> transition_request \<Rightarrow> string option \<Rightarrow> purchase_order \<Rightarrow> (purchase_order, 'a po_db_scheme) tx" where
  "apply_transition e input actorId po =
     (case tr_transition input of
        T_submit \<Rightarrow> tx_lift (submit (e_now e) po)
      | T_approve \<Rightarrow> tx_lift (approve_transition e actorId po)
      | T_reject \<Rightarrow> tx_lift (reject (e_now e) (coalesce (tr_reason input) ''Rejected'') actorId po)
      | T_cancel \<Rightarrow> tx_then (hasReceipts e (po_id po)) (\<lambda>hasPostedReceipts.
          tx_lift (cancel (e_now e) actorId hasPostedReceipts po))
      | T_complete \<Rightarrow> tx_lift (complete (e_now e) po))"

definition transition_purchase_order :: "env \<Rightarrow> transition_request \<Rightarrow> (string, 'a po_db_scheme) tx" where
  "transition_purchase_order e input =
     tx_then (po_guard e no_company_404 (transition_name (tr_transition input))) (\<lambda>_.
     let actorId = actor_of e (tr_actorId input)
     in tx_then (po_load e (tr_id input)) (\<lambda>po.
        tx_then (apply_transition e input actorId po) (\<lambda>po'.
        tx_then (po_update e po') (\<lambda>_.
        tx_then (audit_record e (''purchase-order.'' @ transition_name (tr_transition input)) ''PurchaseOrder''
            (po_id po') actorId (status_change (po_status po') @
              (case tr_reason input of None \<Rightarrow> [] | Some r \<Rightarrow> if r = [] then [] else [(''reason'', JStr r)]))) (\<lambda>_.
        tx_then (po_publish e po') (\<lambda>_. tx_return (po_id po')))))))"

section \<open>Receipts\<close>

datatype receipt_state = NOT_RECEIVED | PARTIALLY_RECEIVED | FULLY_RECEIVED

record receipt_result_line =
  rl_productId :: string
  rl_orderedQuantity :: number
  rl_receivedQuantity :: number
  rl_remainingQuantity :: number

record receipt_result =
  rr_purchaseOrderId :: string
  rr_receiptStatus :: receipt_state
  rr_lines :: "receipt_result_line list"

record receipt_request =
  rq_purchaseOrderId :: string
  rq_lines :: "receipt_line list"
  rq_actorId :: "string option"

definition register_purchase_order_receipt ::
  "env \<Rightarrow> receipt_request \<Rightarrow> (receipt_result, 'a po_db_scheme) tx" where
  "register_purchase_order_receipt e request =
     tx_then (po_guard e no_company_404 ''receive'') (\<lambda>_.
     tx_then (po_load e (rq_purchaseOrderId request)) (\<lambda>po.
     tx_then (tx_lift (openPoForReceipt (e_now e) (rq_lines request)
                (coalesce (overReceiptTolerance (e_ctx e)) (N 0)) (rq_actorId request) po)) (\<lambda>po'.
     tx_then (po_update e po') (\<lambda>_.
       tx_return
         \<lparr>rr_purchaseOrderId = rq_purchaseOrderId request,
          rr_receiptStatus =
            (case deriveReceiptStatus (map (\<lambda>l. (pol_quantity l, pol_receivedQuantity l)) (po_lines po')) of
               FULL \<Rightarrow> FULLY_RECEIVED | PARTIAL \<Rightarrow> PARTIALLY_RECEIVED | NONE \<Rightarrow> NOT_RECEIVED),
          rr_lines = map (\<lambda>l. \<lparr>rl_productId = pol_productId l, rl_orderedQuantity = pol_quantity l,
              rl_receivedQuantity = pol_receivedQuantity l,
              rl_remainingQuantity = openQuantity (pol_quantity l) (pol_receivedQuantity l)\<rparr>) (po_lines po')\<rparr>))))"

definition get_purchase_order :: "env \<Rightarrow> string \<Rightarrow> (po_query_record, 'a po_db_scheme) tx" where
  "get_purchase_order e i = tx_then (po_query_findById e i) (\<lambda>r.
     case r of None \<Rightarrow> tx_lift (not_found ''Purchase order not found'') | Some x \<Rightarrow> tx_return x)"

definition deriveStatus :: "receipt_projection list \<Rightarrow> receipt_state" where
  "deriveStatus ls =
     (if ls = [] then NOT_RECEIVED
      else if list_all (\<lambda>l. rp_receivedQuantity l \<ge> rp_orderedQuantity l) ls then FULLY_RECEIVED
      else if list_ex (\<lambda>l. rp_receivedQuantity l > 0) ls then PARTIALLY_RECEIVED
      else NOT_RECEIVED)"

definition get_purchase_order_receipts ::
  "env \<Rightarrow> string \<Rightarrow> (receipt_state \<times> receipt_projection list, 'a po_db_scheme) tx" where
  "get_purchase_order_receipts e i = tx_then (findReceipts e i) (\<lambda>r.
     case r of None \<Rightarrow> tx_lift (not_found ''Purchase order not found'')
     | Some ls \<Rightarrow> tx_return (deriveStatus ls, ls))"

definition get_remaining_quantities :: "env \<Rightarrow> string \<Rightarrow> (receipt_projection list, 'a po_db_scheme) tx" where
  "get_remaining_quantities e i = tx_then (findReceipts e i) (\<lambda>r.
     case r of None \<Rightarrow> tx_lift (not_found ''Purchase order not found'') | Some ls \<Rightarrow> tx_return ls)"

section \<open>Importing\<close>

abbreviation quoted :: "string \<Rightarrow> string" where
  "quoted s \<equiv> [CHR 0x27] @ s @ [CHR 0x27]"

record import_line =
  im_productId :: string
  im_quantity :: number
  im_unitPrice :: number

record import_request =
  ir_externalReference :: string
  ir_vendorId :: string
  ir_currency :: "string option"
  ir_lines :: "import_line list"

definition import_target :: "env \<Rightarrow> import_request \<Rightarrow> purchase_order option \<Rightarrow> (purchase_order, 'a po_db_scheme) tx" where
  "import_target e input existing =
     (case existing of
        Some po \<Rightarrow>
          if po_vendorId po \<noteq> ir_vendorId input
          then tx_lift (conflict (''Purchase order '' @ quoted (ir_externalReference input) @
            '' already exists for a different vendor''))
          else if truthy (ir_currency input) \<and> Some (po_currency po) \<noteq> ir_currency input
          then tx_lift (conflict (''Purchase order '' @ quoted (ir_externalReference input) @ '' already exists in '' @
            po_currency po @ '', not '' @ coalesce (ir_currency input) []))
          else tx_return po
      | None \<Rightarrow>
          (case e_vendor e (ir_vendorId input) of
             None \<Rightarrow> tx_lift (conflict ''Vendor is not orderable (blocked or inactive)'')
           | Some vendor \<Rightarrow>
               tx_then (nextNumber e ''purchase-order.number'' (Some ''PO-'') (Some 8)) (\<lambda>orderNumber.
               tx_then (draw_uuid e) (\<lambda>uuid.
               tx_then (tx_lift (po_create (e_now e) uuid
                   \<lparr>ci_orderNumber = orderNumber, ci_vendorId = ir_vendorId input,
                    ci_currency = Some (currency_or_default e (ir_currency input)),
                    ci_externalReference = Some (ir_externalReference input), ci_orderDate = None,
                    ci_expectedDeliveryDate = None, ci_createdBy = ctx_userId (e_ctx e)\<rparr>)) (\<lambda>po.
               tx_then (po_save e po) (\<lambda>_. po_publish e po))))))"

definition import_line_step ::
  "env \<Rightarrow> bool \<times> purchase_order \<Rightarrow> import_line \<Rightarrow> (bool \<times> purchase_order) result" where
  "import_line_step e st line =
     and_then (money_fromDecimal (im_unitPrice line) (po_currency (snd st))) (\<lambda>price.
     and_then (setLine (e_now e) (im_productId line) (im_quantity line) price None (snd st)) (\<lambda>(lineChanged, po').
       Inr (fst st \<or> lineChanged, po')))"

definition import_purchase_order :: "env \<Rightarrow> import_request \<Rightarrow> (string, 'a po_db_scheme) tx" where
  "import_purchase_order e input =
     tx_then (po_guard e no_company_plain ''import'') (\<lambda>_.
     tx_then (po_findByExternalReference e (ir_externalReference input)) (\<lambda>existing.
     tx_then (import_target e input existing) (\<lambda>po.
     tx_then (tx_lift (for_each (import_line_step e) (False, po) (ir_lines input))) (\<lambda>(changed, po').
     tx_then (if changed then po_update e po' else tx_return ()) (\<lambda>_.
     tx_then (po_publish e po') (\<lambda>_. tx_return (po_id po')))))))"

section \<open>All commands\<close>

datatype po_command =
    CreateOrder create_po_request
  | AddOrderLine line_request
  | UpdateOrderLine line_request
  | RemoveOrderLine string string
  | UpdateOrder header_request
  | AmendOrder amend_request
  | IssueOrder string "string option"
  | CloseOrder string "string option"
  | TransitionOrder transition_request
  | RegisterReceipt receipt_request
  | ImportOrder import_request

definition void :: "('x, 'd) tx \<Rightarrow> (unit, 'd) tx" where
  "void m = tx_then m (\<lambda>_. tx_return ())"

fun po_run :: "env \<Rightarrow> po_command \<Rightarrow> (unit, 'a po_db_scheme) tx" where
  "po_run e (CreateOrder r) = void (create_purchase_order e r)"
| "po_run e (AddOrderLine r) = void (add_purchase_order_line e r)"
| "po_run e (UpdateOrderLine r) = void (update_purchase_order_line e r)"
| "po_run e (RemoveOrderLine i p) = void (remove_purchase_order_line e i p)"
| "po_run e (UpdateOrder r) = void (update_purchase_order e r)"
| "po_run e (AmendOrder r) = void (amend_purchase_order e r)"
| "po_run e (IssueOrder i a) = void (issue_purchase_order e i a)"
| "po_run e (CloseOrder i a) = void (close_purchase_order e i a)"
| "po_run e (TransitionOrder r) = void (transition_purchase_order e r)"
| "po_run e (RegisterReceipt r) = void (register_purchase_order_receipt e r)"
| "po_run e (ImportOrder r) = void (import_purchase_order e r)"

end
