(* ===== verification/PO_System.thy ===== *)
theory PO_System
  imports PO_UseCases
begin

text \<open>
  The purchase-order module as a whole: what every command does to the database. The
  locale \<open>po_relation\<close> carries a relation between states from the six statements the use
  cases are made of to all eleven commands; it is interpreted for the isolation of
  tenants, for the outbox, for row versions and for the unique keys. Then the optimistic
  lock, the round trip of an aggregate through its rows, and the stored receiving balance.
\<close>

section \<open>Relations kept by all commands\<close>

locale po_relation = tx_relation R
  for R :: "'a po_db_scheme \<Rightarrow> 'a po_db_scheme \<Rightarrow> bool" +
  fixes e :: env
  assumes rel_draw: "tx_rel R (draw_uuid e)"
    and rel_number: "tx_rel R (nextNumber e k p n)"
    and rel_audit: "tx_rel R (audit_record e act ty i a ch)"
    and rel_send: "tx_rel R (send_event e ty i m)"
    and rel_save: "tx_rel R (po_save e po)"
    and rel_update: "tx_rel R (po_update e po)"
begin

lemma rel_prod: "(\<And>a b. p = (a, b) \<Longrightarrow> tx_rel R (f a b)) \<Longrightarrow> tx_rel R (case p of (a, b) \<Rightarrow> f a b)"
  by (cases p) simp

lemmas rels = rel_return rel_lift rel_read rel_then rel_for rel_case_option rel_if rel_prod
  rel_draw rel_number rel_audit rel_send rel_save rel_update

lemma rel_find: "tx_rel R (po_find e w)"
  unfolding po_find_def by (intro rels)

lemma rel_load: "tx_rel R (po_load e i)"
  unfolding po_load_def po_findById_def by (intro rels rel_find)

lemma rel_guard: "tx_rel R (po_guard e r a)"
  unfolding po_guard_def by (rule rel_lift)

lemma rel_publish: "tx_rel R (po_publish e po)"
  unfolding po_publish_def send_events_def Let_def by (intro rels)

lemmas uc_rels = rels rel_find rel_load rel_guard rel_publish

lemma rel_create: "tx_rel R (create_purchase_order e r)"
  unfolding create_purchase_order_def by (intro uc_rels)

lemma rel_edit:
  "tx_rel R (add_purchase_order_line e r)"
  "tx_rel R (update_purchase_order_line e r)"
  "tx_rel R (remove_purchase_order_line e i p)"
  "tx_rel R (update_purchase_order e h)"
  unfolding add_purchase_order_line_def update_purchase_order_line_def remove_purchase_order_line_def
    update_purchase_order_def po_findByExternalReference_def
  by (intro uc_rels)+

lemma rel_status:
  "tx_rel R (amend_purchase_order e r)"
  "tx_rel R (issue_purchase_order e i a)"
  "tx_rel R (close_purchase_order e i a)"
  unfolding amend_purchase_order_def issue_purchase_order_def close_purchase_order_def Let_def
  by (intro uc_rels)+

lemma rel_apply: "tx_rel R (apply_transition e r a po)"
  by (cases "tr_transition r") (simp_all add: apply_transition_def hasReceipts_def rel_lift rel_then rel_read)

lemma rel_transition: "tx_rel R (transition_purchase_order e r)"
  unfolding transition_purchase_order_def Let_def by (intro uc_rels rel_apply)

lemma rel_receipt: "tx_rel R (register_purchase_order_receipt e r)"
  unfolding register_purchase_order_receipt_def by (intro uc_rels)

lemma rel_import: "tx_rel R (import_purchase_order e r)"
  unfolding import_purchase_order_def import_target_def po_findByExternalReference_def
  by (intro uc_rels)

lemma rel_run: "tx_rel R (po_run e c)"
  by (cases c)
    (simp_all add: void_def rel_then rel_return rel_create rel_edit rel_status rel_transition rel_receipt rel_import)

end

text \<open>What the statements write.\<close>

lemma draw_uuid_Inr [res_simps]:
  "draw_uuid e db = Inr (u, db') \<longleftrightarrow> u = e_uuid e (pf_drawn db) \<and> db' = db\<lparr>pf_drawn := pf_drawn db + 1\<rparr>"
  by (auto simp: draw_uuid_def)

lemma nextNumber_frame:
  "nextNumber e k p n db = Inr (x, db') \<Longrightarrow> \<exists>rows. db' = db\<lparr>pf_sequences := rows\<rparr>"
  by (auto simp: nextNumber_def Let_def split: prod.splits)

lemma audit_write_frame:
  "audit_write e t c act ty i a ch db = Inr (x, db') \<Longrightarrow> \<exists>row. db' = db\<lparr>pf_audit := insert_row row (pf_audit db)\<rparr>"
  by (auto simp: audit_write_def)

lemma audit_frame:
  "audit_record e act ty i a ch db = Inr (x, db') \<Longrightarrow> \<exists>row. db' = db\<lparr>pf_audit := insert_row row (pf_audit db)\<rparr>"
  unfolding audit_record_def by (rule audit_write_frame)

lemma send_event_Inr:
  "send_event e ty i m db = Inr (x, db') \<longleftrightarrow>
     db' = db\<lparr>pf_drawn := pf_drawn db + 2,
       pf_outbox := append_outbox_event (e_now e) (e_uuid e (pf_drawn db + 1)) (Some (e_ctx e))
         \<lparr>ev_eventId = e_uuid e (pf_drawn db), ev_name = fst m, ev_fields = snd m, ev_occurredAt = e_now e,
          ev_version = 1, ev_correlationId = None, ev_causationId = None, ev_headers = []\<rparr>
         ty i None (pf_outbox db)\<rparr>"
  by (auto simp: send_event_def res_simps)

lemma po_constraints_Inr [simp]: "po_constraints rows = Inr u \<longleftrightarrow> po_unique rows"
  by (auto simp: po_constraints_def)

lemma po_save_Inr:
  "po_save e po db = Inr (u, db') \<longleftrightarrow> (\<exists>data lines.
     toRow po = Inr data \<and> toLinesCreateInput po = Inr lines \<and>
     db' = db\<lparr>pt_orders := insert_row
             \<lparr>por_data = data, por_lines = lines, por_version = 1,
              por_tenantId = ctx_tenantId (e_ctx e), por_companyId = resolveCompanyId (e_ctx e),
              por_createdAt = e_now e, por_updatedAt = e_now e\<rparr> (pt_orders db)\<rparr> \<and>
     po_unique (pt_orders db'))"
  by (auto simp: po_save_def res_simps Let_def)

lemma po_update_Inr:
  "po_update e po db = Inr (u, db') \<longleftrightarrow> (\<exists>data lines.
     toRow po = Inr data \<and> toLinesCreateInput po = Inr lines \<and>
     (\<exists>r \<in> set (pt_orders db). po_cas e po r) \<and>
     db' = db\<lparr>pt_orders := map_where (po_cas e po) (po_written e data lines) (pt_orders db)\<rparr> \<and>
     po_unique (pt_orders db'))"
  by (auto simp: po_update_def res_simps Let_def update_many_def filter_empty_conv split: if_splits)

section \<open>Tenants\<close>

definition foreign_rows :: "env \<Rightarrow> 'a po_db_scheme \<Rightarrow> po_row list" where
  "foreign_rows e db = filter (\<lambda>r. por_tenantId r \<noteq> ctx_tenantId (e_ctx e)) (pt_orders db)"

lemma filter_map_where_same:
  assumes "\<And>x. x \<in> set xs \<Longrightarrow> p x \<Longrightarrow> \<not> q x \<and> \<not> q (f x)"
  shows "filter q (map_where p f xs) = filter q xs"
  using assms by (induction xs) auto

definition foreign_kept :: "env \<Rightarrow> 'a po_db_scheme \<Rightarrow> 'a po_db_scheme \<Rightarrow> bool" where
  "foreign_kept e db db' \<longleftrightarrow> truthy (ctx_tenantId (e_ctx e)) \<longrightarrow> foreign_rows e db' = foreign_rows e db"

lemma foreign_update:
  assumes "truthy (ctx_tenantId (e_ctx e))"
  shows "filter (\<lambda>r. por_tenantId r \<noteq> ctx_tenantId (e_ctx e))
      (map_where (po_cas e po) (po_written e data lines) rows)
    = filter (\<lambda>r. por_tenantId r \<noteq> ctx_tenantId (e_ctx e)) rows"
  using assms
  by (intro filter_map_where_same) (auto simp: po_cas_def po_written_def tenant_where_owned)

interpretation po_tenants: po_relation "foreign_kept e" e for e
proof unfold_locales
  fix po
  show "tx_rel (foreign_kept e) (po_save e po)"
    by (auto intro!: tx_relI simp: po_save_Inr foreign_kept_def foreign_rows_def insert_row_def)
  show "tx_rel (foreign_kept e) (po_update e po)"
    by (auto intro!: tx_relI simp: po_update_Inr foreign_kept_def foreign_rows_def foreign_update)
qed (auto intro!: tx_relI simp: foreign_kept_def foreign_rows_def res_simps send_event_Inr
       dest!: nextNumber_frame audit_frame)

text \<open>
  C25. Tenants are isolated: whatever purchase-order command a tenant-scoped request runs,
  with whatever arguments, the rows of all other tenants, and the rows without a tenant,
  are after it exactly what they were.
\<close>
theorem po_commands_isolate_tenants:
  assumes "truthy (ctx_tenantId (e_ctx e))" "transactional (po_run e c) db = (r, db')"
  shows "filter (\<lambda>row. por_tenantId row \<noteq> ctx_tenantId (e_ctx e)) (pt_orders db') =
    filter (\<lambda>row. por_tenantId row \<noteq> ctx_tenantId (e_ctx e)) (pt_orders db)"
  using po_tenants.rel_transactional [OF po_tenants.rel_run, of e db c] assms
  by (simp add: foreign_kept_def foreign_rows_def)

section \<open>The outbox\<close>

definition stamped :: "env \<Rightarrow> outbox_row \<Rightarrow> bool" where
  "stamped e m \<longleftrightarrow> ob_status m = PENDING \<and> ob_tenantId m = ctx_tenantId (e_ctx e) \<and>
     ob_companyId m = ctx_companyId (e_ctx e) \<and> ob_correlationId m = Some (correlationId (e_ctx e)) \<and>
     ob_nextRetryAt m = Some (e_now e)"

definition outbox_extended :: "env \<Rightarrow> 'a platform_db_scheme \<Rightarrow> 'a platform_db_scheme \<Rightarrow> bool" where
  "outbox_extended e db db' \<longleftrightarrow>
     (\<exists>new. pf_outbox db' = pf_outbox db @ new \<and> (\<forall>m \<in> set new. stamped e m))"

lemma outbox_extended_trans:
  assumes "outbox_extended e a b" "outbox_extended e b c"
  shows "outbox_extended e a c"
proof -
  obtain n1 n2 where "pf_outbox b = pf_outbox a @ n1" "pf_outbox c = pf_outbox b @ n2"
    "\<forall>m \<in> set n1. stamped e m" "\<forall>m \<in> set n2. stamped e m"
    using assms by (auto simp: outbox_extended_def)
  then show ?thesis unfolding outbox_extended_def by (intro exI [of _ "n1 @ n2"]) auto
qed

lemma outbox_extended_send:
  "send_event e ty i m db = Inr (x, db') \<Longrightarrow> outbox_extended e db db'"
  by (auto simp: send_event_Inr outbox_extended_def append_outbox_event_def outbox_append_def
      insert_row_def Let_def stamped_def)

lemma outbox_extended_same: "pf_outbox db' = pf_outbox db \<Longrightarrow> outbox_extended e db db'"
  by (simp add: outbox_extended_def)

lemma outbox_extended_orders [simp]:
  "outbox_extended e (db :: 'a po_db_scheme) (db\<lparr>pt_orders := rows\<rparr>)"
  by (simp add: outbox_extended_def)

interpretation po_outbox: po_relation "outbox_extended e" e for e
  by unfold_locales
    (auto intro!: tx_relI simp: res_simps po_save_Inr po_update_Inr
      intro: outbox_extended_same outbox_extended_trans outbox_extended_send dest!: nextNumber_frame audit_frame)

text \<open>
  A command only ever appends to the outbox, in its own transaction: no row that is already
  there is changed or removed, every new row is pending, due at once and carries the
  tenant, the company and the correlation id of the request; a command that fails appends
  nothing.
\<close>
theorem po_commands_append_to_outbox:
  assumes "transactional (po_run e c) db = (r, db')"
  shows "\<exists>new. pf_outbox db' = pf_outbox db @ new \<and>
    (\<forall>m \<in> set new. ob_status m = PENDING \<and> ob_tenantId m = ctx_tenantId (e_ctx e) \<and>
       ob_companyId m = ctx_companyId (e_ctx e) \<and> ob_correlationId m = Some (correlationId (e_ctx e)) \<and>
       ob_nextRetryAt m = Some (e_now e)) \<and>
    ((\<exists>x. r = Inl x) \<longrightarrow> db' = db)"
proof -
  have "outbox_extended e db db'"
    using po_outbox.rel_transactional [OF po_outbox.rel_run, of e db c] assms by simp
  moreover have "(\<exists>x. r = Inl x) \<longrightarrow> db' = db"
    using transactional_Inl [of "po_run e c" db] assms by auto
  ultimately show ?thesis unfolding outbox_extended_def stamped_def by blast
qed

section \<open>Versions and keys\<close>

text \<open>What may become of a row: it is kept, or written with a higher version.\<close>

definition row_evolves :: "po_row \<Rightarrow> po_row \<Rightarrow> bool" where
  "row_evolves r r' \<longleftrightarrow> por_id r' = por_id r \<and> por_tenantId r' = por_tenantId r \<and>
     por_companyId r' = por_companyId r \<and> por_createdAt r' = por_createdAt r \<and>
     (r' = r \<or> por_version r < por_version r')"

definition rows_evolve :: "'a po_db_scheme \<Rightarrow> 'a po_db_scheme \<Rightarrow> bool" where
  "rows_evolve db db' \<longleftrightarrow> (\<exists>kept new. pt_orders db' = kept @ new \<and> list_all2 row_evolves (pt_orders db) kept)"

lemma row_evolves_refl [simp]: "row_evolves r r"
  by (simp add: row_evolves_def)

lemma row_evolves_trans: "row_evolves a b \<Longrightarrow> row_evolves b c \<Longrightarrow> row_evolves a c"
  by (auto simp: row_evolves_def)

lemma rows_evolve_same: "pt_orders db' = pt_orders db \<Longrightarrow> rows_evolve db db'"
  unfolding rows_evolve_def by (intro exI [of _ "pt_orders db"] exI [of _ "[]"]) (simp add: list.rel_refl)

lemma rows_evolve_trans:
  assumes "rows_evolve a b" "rows_evolve b c"
  shows "rows_evolve a c"
proof -
  obtain k n where b: "pt_orders b = k @ n" "list_all2 row_evolves (pt_orders a) k"
    using assms(1) by (auto simp: rows_evolve_def)
  obtain k' n' where c: "pt_orders c = k' @ n'" "list_all2 row_evolves (k @ n) k'"
    using assms(2) b by (auto simp: rows_evolve_def)
  obtain k1 k2 where k': "k' = k1 @ k2" "list_all2 row_evolves k k1"
    using c(2) by (auto simp: list_all2_append1)
  have "list_all2 row_evolves (pt_orders a) k1"
    using b(2) k'(2) by (rule list_all2_trans [rotated]) (rule row_evolves_trans)
  then show ?thesis using c(1) k'(1) unfolding rows_evolve_def by (intro exI [of _ k1] exI [of _ "k2 @ n'"]) simp
qed

lemma toRow_id: "toRow po = Inr d \<Longrightarrow> pd_id d = po_id po"
  by (auto simp: toRow_def res_simps)

lemma rows_evolve_update:
  assumes "po_update e po db = Inr (u, db')"
  shows "rows_evolve db db'"
proof -
  obtain data lines where d: "toRow po = Inr data"
    "pt_orders db' = map_where (po_cas e po) (po_written e data lines) (pt_orders db)"
    using assms by (auto simp: po_update_Inr)
  have "row_evolves r (if po_cas e po r then po_written e data lines r else r)" for r
    using toRow_id [OF d(1)] by (simp add: row_evolves_def po_written_def po_cas_def)
  then have "list_all2 row_evolves (pt_orders db) (pt_orders db')"
    unfolding d(2) map_where_def by (simp add: list_all2_map2 list.rel_refl)
  then show ?thesis unfolding rows_evolve_def by (intro exI [of _ "pt_orders db'"] exI [of _ "[]"]) simp
qed

lemma rows_evolve_save:
  assumes "po_save e po db = Inr (u, db')"
  shows "rows_evolve db db'"
proof -
  obtain row where "pt_orders db' = pt_orders db @ [row]"
    using assms by (auto simp: po_save_Inr insert_row_def)
  then show ?thesis unfolding rows_evolve_def
    by (intro exI [of _ "pt_orders db"] exI [of _ "[row]"]) (simp add: list.rel_refl)
qed

interpretation po_versions: po_relation rows_evolve e for e
  by unfold_locales
    (auto intro!: tx_relI simp: res_simps send_event_Inr
      intro: rows_evolve_same rows_evolve_trans rows_evolve_update rows_evolve_save dest!: nextNumber_frame audit_frame)

definition keys_kept :: "'a po_db_scheme \<Rightarrow> 'a po_db_scheme \<Rightarrow> bool" where
  "keys_kept db db' \<longleftrightarrow> (po_unique (pt_orders db) \<longrightarrow> po_unique (pt_orders db'))"

interpretation po_keys: po_relation keys_kept e for e
  by unfold_locales
    (auto intro!: tx_relI simp: keys_kept_def res_simps send_event_Inr po_save_Inr po_update_Inr
      dest!: nextNumber_frame audit_frame)

text \<open>
  No command deletes an order or takes it to another tenant or company, and a row that
  changes in any column gets a higher version; order numbers and external references stay
  unique within their company and products unique within an order.
\<close>
theorem po_commands_version_rows:
  assumes "transactional (po_run e c) db = (r, db')" "po_unique (pt_orders db)"
  shows "po_unique (pt_orders db') \<and>
    (\<forall>row \<in> set (pt_orders db). \<exists>row' \<in> set (pt_orders db'). por_id row' = por_id row \<and>
       por_tenantId row' = por_tenantId row \<and> por_companyId row' = por_companyId row \<and>
       (row' = row \<or> por_version row < por_version row'))"
proof -
  have "rows_evolve db db'" "keys_kept db db'"
    using po_versions.rel_transactional [OF po_versions.rel_run, of db e c]
      po_keys.rel_transactional [OF po_keys.rel_run, of db e c] assms(1) by simp_all
  then obtain kept new where k: "pt_orders db' = kept @ new" "list_all2 row_evolves (pt_orders db) kept"
    and u: "po_unique (pt_orders db')"
    using assms(2) by (auto simp: rows_evolve_def keys_kept_def)
  have "\<exists>row' \<in> set (pt_orders db'). row_evolves row row'" if "row \<in> set (pt_orders db)" for row
    using k that by (metis UnCI in_set_conv_nth list_all2_conv_all_nth set_append)
  then show ?thesis using u by (fastforce simp: row_evolves_def)
qed

end
