(* ===== verification/PO_Storage.thy ===== *)
theory PO_Storage
  imports PO_System
begin

text \<open>
  The optimistic lock of the order table, the round trip of an aggregate through its rows,
  and the receiving balance as it is stored.
\<close>

section \<open>The optimistic lock\<close>

text \<open>Any sequence of commands, each in its own transaction.\<close>

fun po_run_all :: "(env \<times> po_command) list \<Rightarrow> 'a po_db_scheme \<Rightarrow> 'a po_db_scheme" where
  "po_run_all [] db = db"
| "po_run_all ((e, c) # cs) db = po_run_all cs (snd (transactional (po_run e c) db))"

lemma po_run_all_evolves: "rows_evolve db (po_run_all cs db)"
proof (induction cs db rule: po_run_all.induct)
  case (1 db)
  then show ?case by (simp add: rows_evolve_same)
next
  case (2 e c cs db)
  then show ?case
    using po_versions.rel_transactional [OF po_versions.rel_run, of db e c]
    by (simp add: rows_evolve_trans)
qed

lemma po_run_all_unique: "po_unique (pt_orders db) \<Longrightarrow> po_unique (pt_orders (po_run_all cs db))"
proof (induction cs db rule: po_run_all.induct)
  case (2 e c cs db)
  then show ?case
    using po_keys.rel_transactional [OF po_keys.rel_run, of db e c] by (simp add: keys_kept_def)
qed simp

lemma unique_ids: "po_unique rows \<Longrightarrow> r \<in> set rows \<Longrightarrow> r' \<in> set rows \<Longrightarrow> por_id r = por_id r' \<Longrightarrow> r = r'"
  by (auto simp: po_unique_def dest: distinct_key_unique [where k = por_id])

lemma po_update_stale:
  assumes "toRow po = Inr d" "\<And>r. r \<in> set (pt_orders db) \<Longrightarrow> por_id r = po_id po \<Longrightarrow> po_version po < por_version r"
  shows "po_update e po db = conflict ''Purchase order was modified concurrently (optimistic concurrency conflict)''"
proof -
  have "\<not> po_cas e po r" if "r \<in> set (pt_orders db)" for r
    using assms(2) [OF that] by (auto simp: po_cas_def)
  then have "fst (update_many (po_cas e po) (po_written e d []) (pt_orders db)) = 0"
    by (simp add: update_many_count_0)
  then show ?thesis using assms(1) by (simp add: po_update_def)
qed

lemma po_update_bumps:
  assumes "po_update e po db = Inr (u, db')" "po_unique (pt_orders db)"
    and "r' \<in> set (pt_orders db')" "por_id r' = po_id po"
  shows "por_version r' = po_version po + 1"
proof -
  obtain data lines r where d: "toRow po = Inr data" and r: "r \<in> set (pt_orders db)" "po_cas e po r"
    and db': "pt_orders db' = map_where (po_cas e po) (po_written e data lines) (pt_orders db)"
    using assms(1) by (auto simp: po_update_Inr)
  obtain x where x: "x \<in> set (pt_orders db)"
    "po_cas e po x \<and> r' = po_written e data lines x \<or> \<not> po_cas e po x \<and> r' = x"
    using set_map_where_origin [of r'] assms(3) unfolding db' by blast
  then have "por_id x = por_id r"
    using r(2) assms(4) toRow_id [OF d] by (auto simp: po_cas_def po_written_def)
  then have "x = r" using unique_ids [OF assms(2) x(1) r(1)] by simp
  then show ?thesis using x(2) r(2) by (auto simp: po_written_def po_cas_def)
qed

text \<open>
  C4. No update is lost: once a copy of an order has been written back, every other copy that
  was loaded at the same version or before is refused with 409 and changes nothing, right
  after the write and after whatever commands follow it.
\<close>
theorem po_stale_copy_refused:
  assumes "po_update e po db = Inr (u, db')" "po_unique (pt_orders db)"
    and "po_id stale = po_id po" "po_version stale \<le> po_version po" "toRow stale = Inr d"
  shows "transactional (po_update e' stale) (po_run_all cs db') =
    (conflict ''Purchase order was modified concurrently (optimistic concurrency conflict)'', po_run_all cs db')"
proof -
  obtain data lines r where "r \<in> set (pt_orders db)" "po_cas e po r" and d: "toRow po = Inr data"
    and db': "pt_orders db' = map_where (po_cas e po) (po_written e data lines) (pt_orders db)"
    and u: "po_unique (pt_orders db')"
    using assms(1) by (auto simp: po_update_Inr)
  then have r1: "po_written e data lines r \<in> set (pt_orders db')" "por_id (po_written e data lines r) = po_id po"
    using toRow_id [OF d] by (auto simp: set_map_where po_written_def)
  obtain kept new where k: "pt_orders (po_run_all cs db') = kept @ new" "list_all2 row_evolves (pt_orders db') kept"
    using po_run_all_evolves [of db' cs] by (auto simp: rows_evolve_def)
  obtain r2 where r2: "r2 \<in> set kept" "row_evolves (po_written e data lines r) r2"
    using k(2) r1(1) by (metis in_set_conv_nth list_all2_conv_all_nth)
  have v2: "po_version po < por_version r2" "por_id r2 = po_id po"
    using r2(2) po_update_bumps [OF assms(1,2) r1] r1(2) by (auto simp: row_evolves_def)
  have "po_version stale < por_version r3"
    if "r3 \<in> set (pt_orders (po_run_all cs db'))" "por_id r3 = po_id stale" for r3
  proof -
    have "r3 = r2"
      using unique_ids [OF po_run_all_unique [OF u] that(1), of r2] r2(1) v2(2) that(2) k(1) assms(3) by simp
    then show ?thesis using v2(1) assms(4) by simp
  qed
  then have "po_update e' stale (po_run_all cs db') =
      conflict ''Purchase order was modified concurrently (optimistic concurrency conflict)''"
    by (rule po_update_stale [OF assms(5)])
  then show ?thesis by (simp add: transactional_def)
qed

section \<open>Reading back what was written\<close>

text \<open>Normal form of order numbers.\<close>

lemma of_char_upper: "(of_char (upper_char c) :: nat) =
    (if 97 \<le> (of_char c :: nat) \<and> (of_char c :: nat) \<le> 122 then of_char c - 32 else of_char c)"
  by (auto simp: upper_char_def less_eq_char_def)

lemma upper_char_idem [simp]: "upper_char (upper_char c) = upper_char c"
proof -
  have "(of_char (upper_char (upper_char c)) :: nat) = of_char (upper_char c)"
    by (auto simp: of_char_upper)
  then show ?thesis by (simp only: of_char_eq_iff)
qed

lemma is_space_upper [simp]: "is_space (upper_char c) \<longleftrightarrow> is_space c"
proof -
  have s: "is_space x \<longleftrightarrow> (of_char x :: nat) \<in> {32, 9, 10, 11, 12, 13}" for x
    unfolding is_space_def by (simp flip: of_char_eq_iff [where 'a = nat])
  show ?thesis unfolding s of_char_upper by auto
qed

lemma to_upper_idem [simp]: "to_upper (to_upper s) = to_upper s"
  by (simp add: to_upper_def)

lemma trim_to_upper: "trim (to_upper s) = to_upper (trim s)"
proof -
  have d: "dropWhile is_space (map upper_char xs) = map upper_char (dropWhile is_space xs)" for xs
    by (induction xs) auto
  show ?thesis by (simp add: trim_def to_upper_def d flip: rev_map) (simp add: d rev_map)
qed

lemma dropWhile_id: "xs = [] \<or> \<not> P (hd xs) \<Longrightarrow> dropWhile P xs = xs"
  by (cases xs) auto

lemma hd_dropWhile_or: "dropWhile P xs = [] \<or> \<not> P (hd (dropWhile P xs))"
  by (induction xs) auto

lemma trim_idem [simp]: "trim (trim s) = trim s"
proof -
  let ?u = "dropWhile is_space s" and ?t = "dropWhile is_space (rev (dropWhile is_space s))"
  have "rev ?t = [] \<or> \<not> is_space (hd (rev ?t))"
  proof (cases ?t)
    case (Cons x xs)
    obtain pre where "rev ?u = pre @ ?t" by (metis takeWhile_dropWhile_id)
    then have "?u = rev ?t @ rev pre" by (metis rev_append rev_rev_ident)
    moreover have "rev ?t \<noteq> []" using Cons by simp
    ultimately have "hd ?u = hd (rev ?t)" "?u \<noteq> []" by (metis hd_append2, metis append_is_Nil_conv)
    then show ?thesis using hd_dropWhile_or [of is_space s] by auto
  qed simp
  moreover have "?t = [] \<or> \<not> is_space (hd ?t)" by (rule hd_dropWhile_or)
  ultimately show ?thesis by (simp add: trim_def dropWhile_id)
qed

lemma orderNumber_create_idem: "orderNumber_create s = Inr n \<Longrightarrow> orderNumber_create n = Inr n"
  by (auto simp: orderNumber_create_def inv_order_number_def res_simps trim_to_upper split: if_splits)

text \<open>The amounts of a line are in the order's currency and small enough for their column.\<close>

definition storable_money :: "string \<Rightarrow> money \<Rightarrow> bool" where
  "storable_money c m \<longleftrightarrow> money_ok m \<and> js_le (minorUnits m) (N (2 ^ 50)) \<and> currencyCode m = c"

definition po_storable :: "purchase_order \<Rightarrow> bool" where
  "po_storable po \<longleftrightarrow> orderNumber_create (po_orderNumber po) = Inr (po_orderNumber po) \<and>
     (\<forall>l \<in> set (po_lines po). storable_money (po_currency po) (pol_unitPrice l) \<and>
        storable_money (po_currency po) (pol_total l))"

lemma storable_money_roundtrip:
  assumes "storable_money c m"
  shows "money_fromDecimal (number_of_decimal (money_toDecimal m)) c = Inr m"
proof -
  obtain n where n: "m = Money (N n) c" "0 \<le> n"
    using assms by (metis money_okE storable_money_def)
  then have "n \<le> 2 ^ 50" using assms unfolding storable_money_def by (metis js_le_N money.sel(1))
  then show ?thesis using n money_toDecimal_N [of n] money_fromDecimal_number [of n] by (metis abs_of_nonneg)
qed

lemma line_roundtrip:
  assumes "toLineRow l = Inr row" "storable_money c (pol_unitPrice l)" "storable_money c (pol_total l)"
  shows "toDomain_line c row = Inr l"
proof -
  obtain q r where "pol_quantity l = N q" "pol_receivedQuantity l = N r"
    "plr_quantity row = q" "plr_receivedQuantity row = r" "plr_productId row = pol_productId l"
    "plr_descriptionSnapshot row = pol_descriptionSnapshot l"
    "plr_unitPrice row = money_toDecimal (pol_unitPrice l)" "plr_total row = money_toDecimal (pol_total l)"
    using assms(1) by (auto simp: toLineRow_def res_simps db_int_Inr db_decimal_Inr)
  then show ?thesis
    using storable_money_roundtrip [OF assms(2)] storable_money_roundtrip [OF assms(3)]
    by (simp add: toDomain_line_def)
qed

lemma lines_roundtrip:
  assumes "map_result toLineRow ls = Inr rows"
    and "\<And>l. l \<in> set ls \<Longrightarrow> storable_money c (pol_unitPrice l) \<and> storable_money c (pol_total l)"
  shows "map_result (toDomain_line c) rows = Inr ls"
proof -
  have "list_all2 (\<lambda>l row. toLineRow l = Inr row) ls rows" using assms(1) by (simp add: map_result_Inr_iff)
  then have "list_all2 (\<lambda>row l. toDomain_line c row = Inr l) rows ls"
    using assms(2) line_roundtrip [of _ _ c] by (auto simp: list_all2_conv_all_nth)
  then show ?thesis by (simp add: map_result_Inr_iff)
qed

lemma toRow_fields:
  assumes "toRow po = Inr d"
  shows "pd_id d = po_id po" "pd_orderNumber d = po_orderNumber po" "pd_vendorId d = po_vendorId po"
    "pd_externalReference d = po_externalReference po" "pd_status d = po_status po"
    "pd_currency d = po_currency po" "pd_orderDate d = po_orderDate po"
    "pd_expectedDeliveryDate d = po_expectedDeliveryDate po" "pd_createdBy d = po_createdBy po"
    "pd_approvedBy d = po_approvedBy po" "pd_approvedAt d = po_approvedAt po"
    "pd_rejectedBy d = po_rejectedBy po" "pd_rejectedAt d = po_rejectedAt po"
    "pd_rejectionReason d = po_rejectionReason po" "pd_issuedBy d = po_issuedBy po"
    "pd_cancelledBy d = po_cancelledBy po" "pd_amendedBy d = po_amendedBy po"
    "pd_amendedAt d = po_amendedAt po" "pd_amendmentReason d = po_amendmentReason po"
  using assms by (auto simp: toRow_def res_simps)

lemma toRow_roundtrip:
  assumes "toRow po = Inr data" "toLinesCreateInput po = Inr lines" "po_storable po"
    and "por_data r = data" "por_lines r = lines"
  shows "toDomain r = Inr (po\<lparr>po_version := por_version r, po_events := [], po_lastReceiptBy := None,
    po_lastReceiptAt := None, po_createdAt := por_createdAt r, po_updatedAt := por_updatedAt r\<rparr>)"
proof -
  have "map_result (toDomain_line (po_currency po)) lines = Inr (po_lines po)"
    using assms(2,3) by (intro lines_roundtrip) (auto simp: toLinesCreateInput_def po_storable_def)
  moreover have "orderNumber_create (po_orderNumber po) = Inr (po_orderNumber po)"
    using assms(3) by (simp add: po_storable_def)
  ultimately show ?thesis by (simp add: toDomain_def assms(4,5) toRow_fields [OF assms(1)])
qed

lemma find_unique_id:
  assumes "po_unique rows" "r \<in> set rows" "owned_scope c (por_tenantId r)"
  shows "find_first (\<lambda>x. por_id x = por_id r \<and> owned_scope c (por_tenantId x)) rows = Some r"
proof -
  obtain y where y: "find_first (\<lambda>x. por_id x = por_id r \<and> owned_scope c (por_tenantId x)) rows = Some y"
    using assms(2,3) by (fastforce simp: find_first_def find_None_iff2 simp flip: not_None_eq)
  then have "y \<in> set rows \<and> por_id y = por_id r"
    using find_Some_iff2 [of _ rows y] by (auto simp: find_first_def)
  then show ?thesis using y unique_ids [OF assms(1), of y r] assms(2) by simp
qed

text \<open>
  C31. What is written is what is read: after a successful write, loading the order returns the
  written aggregate with the next version and no pending events; only the receipt trail
  (\<open>lastReceiptBy\<close>, \<open>lastReceiptAt\<close>), which has no column, is lost.
\<close>
theorem po_write_then_read:
  assumes "po_update e po db = Inr (u, db')" "po_unique (pt_orders db)" "po_storable po"
  shows "\<exists>created. po_findById e (po_id po) db' = Inr (Some (po\<lparr>po_version := po_version po + 1,
    po_events := [], po_lastReceiptBy := None, po_lastReceiptAt := None, po_createdAt := created,
    po_updatedAt := e_now e\<rparr>), db')"
proof -
  obtain data lines r where d: "toRow po = Inr data" "toLinesCreateInput po = Inr lines"
    and r: "r \<in> set (pt_orders db)" "po_cas e po r"
    and db': "pt_orders db' = map_where (po_cas e po) (po_written e data lines) (pt_orders db)"
    and u: "po_unique (pt_orders db')"
    using assms(1) by (auto simp: po_update_Inr)
  let ?w = "po_written e data lines r"
  have w: "?w \<in> set (pt_orders db')" "por_id ?w = po_id po" "owned_scope (e_ctx e) (por_tenantId ?w)"
    "por_version ?w = po_version po + 1" "por_updatedAt ?w = e_now e" "por_createdAt ?w = por_createdAt r"
    using r toRow_id [OF d(1)] by (auto simp: db' set_map_where po_written_def po_cas_def)
  have "find_first (\<lambda>x. por_id x = po_id po \<and> owned_scope (e_ctx e) (por_tenantId x)) (pt_orders db') = Some ?w"
    using find_unique_id [OF u w(1,3)] w(2) by simp
  moreover have "toDomain ?w = Inr (po\<lparr>po_version := por_version ?w, po_events := [], po_lastReceiptBy := None,
      po_lastReceiptAt := None, po_createdAt := por_createdAt ?w, po_updatedAt := por_updatedAt ?w\<rparr>)"
    by (rule toRow_roundtrip [OF d assms(3)]) (simp_all add: po_written_def)
  ultimately show ?thesis using w by (auto simp: po_findById_def po_find_def tx_lift_def tx_return_def)
qed

section \<open>The stored receiving balance\<close>

lemma toDomain_fields:
  assumes "toDomain r = Inr po"
  shows "po_id po = por_id r" "po_version po = por_version r" "po_status po = pd_status (por_data r)"
    "po_currency po = pd_currency (por_data r)" "po_vendorId po = pd_vendorId (por_data r)"
    "po_externalReference po = pd_externalReference (por_data r)" "po_events po = []"
  using assms by (auto simp: toDomain_def res_simps Let_def)

definition same_line :: "po_line_row \<Rightarrow> po_line \<Rightarrow> bool" where
  "same_line lr l \<longleftrightarrow> pol_productId l = plr_productId lr \<and> pol_quantity l = N (plr_quantity lr) \<and>
     pol_receivedQuantity l = N (plr_receivedQuantity lr)"

lemma toDomain_lines: "toDomain r = Inr po \<Longrightarrow> list_all2 same_line (por_lines r) (po_lines po)"
  by (auto simp: toDomain_def res_simps Let_def map_result_Inr_iff toDomain_line_def same_line_def
      elim!: list.rel_mono_strong)

lemma toLineRow_same: "toLineRow l = Inr lr \<Longrightarrow> same_line lr l"
  by (auto simp: toLineRow_def res_simps same_line_def db_int_Inr)

lemma toLinesCreateInput_lines:
  "toLinesCreateInput po = Inr lines \<Longrightarrow> list_all2 same_line lines (po_lines po)"
  by (auto simp: toLinesCreateInput_def map_result_Inr_iff list_all2_conv_all_nth intro: toLineRow_same)

lemma same_lines_products:
  "list_all2 same_line lrs ls \<Longrightarrow> map pol_productId ls = map plr_productId lrs"
  by (induction rule: list_all2_induct) (auto simp: same_line_def)

lemma same_lines_find:
  assumes "list_all2 same_line lrs ls" "distinct (map plr_productId lrs)" "lr \<in> set lrs"
  obtains l where "List.find (is_product (plr_productId lr)) ls = Some l" "same_line lr l"
proof -
  obtain l where l: "l \<in> set ls" "same_line lr l"
    using assms(1,3) by (metis in_set_conv_nth list_all2_conv_all_nth)
  have "List.find (\<lambda>y. pol_productId y = pol_productId l) ls = Some l"
    using l(1) same_lines_products [OF assms(1)] assms(2) by (intro find_distinct_key) simp_all
  then show ?thesis using that l(2) by (simp add: same_line_def)
qed

lemma same_lines_back:
  assumes "list_all2 same_line lrs ls" "l \<in> set ls"
  obtains lr where "lr \<in> set lrs" "same_line lr l"
  using assms by (metis in_set_conv_nth list_all2_conv_all_nth)

lemma po_load_Inr:
  "po_load e i db = Inr (po, db') \<longleftrightarrow> db' = db \<and> (\<exists>r.
     find_first (\<lambda>x. por_id x = i \<and> owned_scope (e_ctx e) (por_tenantId x)) (pt_orders db) = Some r \<and>
     toDomain r = Inr po)"
  by (auto simp: po_load_def po_findById_def po_find_def res_simps split: option.splits)

lemma find_first_Some: "find_first p rows = Some r \<Longrightarrow> r \<in> set rows \<and> p r"
  by (auto simp: find_first_def dest: find_Some_iff2)

lemma register_Inr:
  "register_purchase_order_receipt e rq db = Inr (res, db') \<Longrightarrow>
   \<exists>po po'. truthy (ctx_companyId (e_ctx e)) \<and> po_load e (rq_purchaseOrderId rq) db = Inr (po, db) \<and>
     openPoForReceipt (e_now e) (rq_lines rq) (coalesce (overReceiptTolerance (e_ctx e)) (N 0))
       (rq_actorId rq) po = Inr po' \<and>
     po_update e po' db = Inr ((), db')"
  by (auto simp: register_purchase_order_receipt_def po_guard_def res_simps require_company_and_access_def
      po_load_Inr split: if_splits)

text \<open>
  What a registration does to the row of its order, used below and by the modules that register.
\<close>

definition line_received :: "string \<Rightarrow> int \<Rightarrow> po_row \<Rightarrow> bool" where
  "line_received p n r \<longleftrightarrow> (\<exists>l \<in> set (por_lines r). plr_productId l = p \<and> plr_receivedQuantity l = n)"

lemma register_receipt_row:
  assumes reg: "register_purchase_order_receipt e rq db = Inr (res, db')"
    and ds: "rq_lines rq = int_entries ds" and u: "po_unique (pt_orders db)"
    and r: "r \<in> set (pt_orders db)" "por_id r = rq_purchaseOrderId rq" "owned_scope (e_ctx e) (por_tenantId r)"
    and l: "line_received p n r" and small: "\<bar>n\<bar> + abs_total ds \<le> 2 ^ 53"
  shows "\<exists>r' \<in> set (pt_orders db'). por_id r' = por_id r \<and> por_tenantId r' = por_tenantId r \<and>
    por_version r' = por_version r + 1 \<and> pd_status (por_data r') = pd_status (por_data r) \<and>
    receiving_eligible (pd_status (por_data r)) \<and> line_received p (n + delta_for p ds) r'"
proof -
  obtain po po' where load: "po_load e (rq_purchaseOrderId rq) db = Inr (po, db)"
    and rec: "openPoForReceipt (e_now e) (rq_lines rq) (coalesce (overReceiptTolerance (e_ctx e)) (N 0))
       (rq_actorId rq) po = Inr po'"
    and upd: "po_update e po' db = Inr ((), db')"
    using register_Inr [OF reg] by blast
  have dom: "toDomain r = Inr po"
    using load find_unique_id [OF u r(1,3)] r(2) by (auto simp: po_load_Inr)
  obtain lr where lr: "lr \<in> set (por_lines r)" "plr_productId lr = p" "plr_receivedQuantity lr = n"
    using l by (auto simp: line_received_def)
  have dist: "distinct (map plr_productId (por_lines r))" using u r(1) by (simp add: po_unique_def)
  obtain ln where ln: "List.find (is_product p) (po_lines po) = Some ln" "same_line lr ln"
    using same_lines_find [OF toDomain_lines [OF dom] dist lr(1)] lr(2) by blast
  obtain ls where ls: "for_each (receive_line (coalesce (overReceiptTolerance (e_ctx e)) (N 0)))
      (po_lines po) (int_entries ds) = Inr ls" "po_lines po' = ls" "po_status po' = po_status po"
      "po_id po' = po_id po" "po_version po' = po_version po" "receiving_eligible (po_status po)"
    using rec by (auto simp: openPoForReceipt_Inr_iff ds)
  have "List.find (is_product p) ls = Some (ln\<lparr>pol_receivedQuantity := N (n + delta_for p ds)\<rparr>)"
    using receive_lines_balance [OF ls(1) ln(1) _ small] ln(2) lr(3) by (simp add: same_line_def)
  then have new: "ln\<lparr>pol_receivedQuantity := N (n + delta_for p ds)\<rparr> \<in> set (po_lines po')"
    using find_Some_iff2 ls(2) by fastforce
  obtain data lines where d: "toRow po' = Inr data" "toLinesCreateInput po' = Inr lines"
    and db': "pt_orders db' = map_where (po_cas e po') (po_written e data lines) (pt_orders db)"
    using upd by (auto simp: po_update_Inr)
  obtain lr' where lr': "lr' \<in> set lines" "same_line lr' (ln\<lparr>pol_receivedQuantity := N (n + delta_for p ds)\<rparr>)"
    using same_lines_back [OF toLinesCreateInput_lines [OF d(2)] new] .
  have "plr_productId lr' = p" "plr_receivedQuantity lr' = n + delta_for p ds"
    using lr'(2) ln(2) lr(2) by (auto simp: same_line_def)
  then have "line_received p (n + delta_for p ds) (po_written e data lines r)"
    using lr'(1) by (auto simp: line_received_def po_written_def)
  moreover have "po_cas e po' r"
    using toDomain_fields [OF dom] ls(4,5) r(3) by (simp add: po_cas_def)
  then have "po_written e data lines r \<in> set (pt_orders db')" using r(1) by (auto simp: db' set_map_where)
  ultimately show ?thesis
    using toRow_fields [OF d(1)] toDomain_fields [OF dom] ls
    by (intro bexI [of _ "po_written e data lines r"]) (auto simp: po_written_def)
qed

text \<open>
  Registering a receipt moves the stored balance: on success the row of the order has, for
  every product, the received quantity it had plus the sum of the request's quantities for
  that product, the next version, and the status it had; only an approved or issued order
  of the caller's tenant can be hit.
\<close>
theorem registered_receipt_is_stored:
  assumes "register_purchase_order_receipt e rq db = Inr (res, db')" "rq_lines rq = int_entries ds"
    and "po_unique (pt_orders db)" "r \<in> set (pt_orders db)" "por_id r = rq_purchaseOrderId rq"
    and "owned_scope (e_ctx e) (por_tenantId r)" "line_received p n r" "\<bar>n\<bar> + abs_total ds \<le> 2 ^ 53"
  shows "\<exists>r' \<in> set (pt_orders db'). por_id r' = por_id r \<and> por_version r' = por_version r + 1 \<and>
    pd_status (por_data r') = pd_status (por_data r) \<and> pd_status (por_data r) \<in> {APPROVED, ISSUED} \<and>
    line_received p (n + delta_for p ds) r'"
  using register_receipt_row [OF assms] by (fastforce simp: receiving_eligible_def)

section \<open>Examples\<close>

definition sample_ctx :: request_context where
  "sample_ctx = emptyContext\<lparr>ctx_tenantId := Some ''T1'', ctx_companyId := Some ''C1''\<rparr>"

definition sample_env :: env where
  "sample_env = \<lparr>e_ctx = sample_ctx, e_now = 100, e_uuid = nat_to_string, e_abac = noop_abac,
     e_vendor = (\<lambda>i. Some \<lparr>vr_id = i, vr_code = i, vr_name = i\<rparr>),
     e_product = (\<lambda>i. Some \<lparr>pr_ref_id = i, pr_sku = i, pr_name = i\<rparr>), e_stringify = (\<lambda>_. []),
     e_to_numeric = (\<lambda>x. Some (toFixed2 x))\<rparr>"

definition sample_data :: "po_status \<Rightarrow> po_data" where
  "sample_data s = \<lparr>pd_id = ''o1'', pd_orderNumber = ''PO-1'', pd_vendorId = ''v1'',
     pd_externalReference = None, pd_status = s, pd_currency = ''USD'', pd_orderDate = None,
     pd_expectedDeliveryDate = None, pd_createdBy = None, pd_approvedBy = None, pd_approvedAt = None,
     pd_rejectedBy = None, pd_rejectedAt = None, pd_rejectionReason = None, pd_issuedBy = None,
     pd_cancelledBy = None, pd_amendedBy = None, pd_amendedAt = None, pd_amendmentReason = None,
     pd_subtotal = 5000, pd_total = 5000\<rparr>"

definition sample_line_row :: "int \<Rightarrow> po_line_row" where
  "sample_line_row r = \<lparr>plr_productId = ''A'', plr_quantity = 10, plr_receivedQuantity = r,
     plr_descriptionSnapshot = None, plr_unitPrice = 500, plr_total = 5000\<rparr>"

definition sample_po_row :: "po_status \<Rightarrow> int \<Rightarrow> int \<Rightarrow> po_row" where
  "sample_po_row s r v = \<lparr>por_data = sample_data s, por_lines = [sample_line_row r], por_version = v,
     por_tenantId = Some ''T1'', por_companyId = ''C1'', por_createdAt = 0, por_updatedAt = 0\<rparr>"

definition sample_db :: "po_row list \<Rightarrow> po_db" where
  "sample_db rows = \<lparr>pf_outbox = [], pf_audit = [], pf_sequences = [], pf_drawn = 0, pt_orders = rows,
     pt_replica = []\<rparr>"

lemma sample_env_simps [simp]:
  "e_ctx sample_env = sample_ctx" "e_now sample_env = 100" "e_abac sample_env = noop_abac"
  "ctx_tenantId sample_ctx = Some ''T1''" "ctx_companyId sample_ctx = Some ''C1''"
  "overReceiptTolerance sample_ctx = None"
  by (simp_all add: sample_env_def sample_ctx_def emptyContext_def)

lemma sample_row_fields [simp]:
  "por_data (sample_po_row s r v) = sample_data s" "por_lines (sample_po_row s r v) = [sample_line_row r]"
  "por_version (sample_po_row s r v) = v" "por_tenantId (sample_po_row s r v) = Some ''T1''"
  "pd_id (sample_data s) = ''o1''" "pd_externalReference (sample_data s) = None" "pd_status (sample_data s) = s"
  "plr_productId (sample_line_row r) = ''A''" "plr_receivedQuantity (sample_line_row r) = r"
  "pt_orders (sample_db rows) = rows"
  by (simp_all add: sample_po_row_def sample_data_def sample_line_row_def sample_db_def)

lemma sample_unique [simp]: "po_unique [sample_po_row s r v]"
  by (simp add: po_unique_def)

lemma sample_number: "orderNumber_create ''PO-1'' = Inr ''PO-1''"
  by (simp add: orderNumber_create_def inv_order_number_def trim_def is_space_def to_upper_def upper_char_def
      less_eq_char_def)

lemma sample_toDomain: "toDomain (sample_po_row s r v) = Inr (sample_order s r\<lparr>po_version := v\<rparr>)"
  using money_fromDecimal_number [of 500] money_fromDecimal_number [of 5000]
  by (simp add: toDomain_def toDomain_line_def sample_number sample_order_def sample_line_def
      sample_po_row_def sample_data_def sample_line_row_def)

lemma sample_toRow: "toRow (sample_order s r\<lparr>po_version := v\<rparr>) = Inr (sample_data s)"
proof -
  have "js_add (N 0) (N 5000) = N 5000" using js_add_N [of 0 5000] by simp
  then have "po_subtotal (sample_order s r\<lparr>po_version := v\<rparr>) = Inr (Money (N 5000) ''USD'')"
    by (simp add: po_subtotal_def money_add_def assertSameCurrency_def money_ZERO_def sample_order_def sample_line_def)
  moreover have "money_toDecimal (Money (N 5000) ''USD'') = 5000" by (rule money_toDecimal_N) simp
  ultimately show ?thesis
    by (simp add: toRow_def po_total_def db_decimal_def) (simp add: sample_order_def sample_data_def)
qed

lemma sample_toLines:
  assumes "\<bar>r\<bar> \<le> 100"
  shows "toLinesCreateInput (sample_order s r\<lparr>po_version := v\<rparr>) = Inr [sample_line_row r]"
proof -
  have "money_toDecimal (Money (N 5000) ''USD'') = 5000" "money_toDecimal (Money (N 500) ''USD'') = 500"
    by (rule money_toDecimal_N, simp)+
  moreover have "db_int (N 10) = Inr 10" "db_int (N r) = Inr r" unfolding db_int_N using assms by (simp, simp add: abs_le_iff)
  ultimately show ?thesis
    by (simp add: toLinesCreateInput_def toLineRow_def db_decimal_def sample_order_def sample_line_def
        sample_line_row_def del: db_int_N)
qed

lemma sample_update:
  assumes "\<bar>r\<bar> \<le> 100"
  shows "po_update sample_env (sample_order s r\<lparr>po_version := v\<rparr>) (sample_db [sample_po_row s' r' v])
    = Inr ((), sample_db [sample_po_row s r (v + 1)\<lparr>por_updatedAt := 100\<rparr>])"
proof -
  have "po_cas sample_env (sample_order s r\<lparr>po_version := v\<rparr>) (sample_po_row s' r' v)"
    by (simp add: po_cas_def tenant_where_def sample_order_def)
  moreover have "po_written sample_env (sample_data s) [sample_line_row r] (sample_po_row s' r' v)
      = sample_po_row s r (v + 1)\<lparr>por_updatedAt := 100\<rparr>"
    by (simp add: po_written_def sample_po_row_def)
  moreover have "po_unique [sample_po_row s r (v + 1)\<lparr>por_updatedAt := 100\<rparr>]"
    by (simp add: po_unique_def)
  ultimately show ?thesis
    unfolding po_update_Inr using sample_toRow sample_toLines [OF assms]
    by (simp add: sample_db_def)
qed

theorem po_stale_copy_refused_witness:
  "transactional (po_update sample_env (sample_order CANCELLED 0\<lparr>po_version := 1\<rparr>))
     (sample_db [sample_po_row ISSUED 3 2\<lparr>por_updatedAt := 100\<rparr>])
   = (conflict ''Purchase order was modified concurrently (optimistic concurrency conflict)'',
      sample_db [sample_po_row ISSUED 3 2\<lparr>por_updatedAt := 100\<rparr>])"
proof -
  have u: "po_update sample_env (sample_order ISSUED 3\<lparr>po_version := 1\<rparr>) (sample_db [sample_po_row ISSUED 0 1])
      = Inr ((), sample_db [sample_po_row ISSUED 3 2\<lparr>por_updatedAt := 100\<rparr>])"
    using sample_update [where r = 3 and s = ISSUED and v = 1] by simp
  show ?thesis
    using po_stale_copy_refused [OF u _ _ _ sample_toRow [where v = 1 and s = CANCELLED and r = 0], of sample_env "[]"]
    by (simp add: sample_order_def)
qed

theorem po_write_then_read_witness:
  "\<exists>po. po_findById sample_env ''o1'' (sample_db [sample_po_row ISSUED 3 2\<lparr>por_updatedAt := 100\<rparr>]) =
     Inr (Some po, sample_db [sample_po_row ISSUED 3 2\<lparr>por_updatedAt := 100\<rparr>]) \<and> po_version po = 2"
proof -
  have u: "po_update sample_env (sample_order ISSUED 3\<lparr>po_version := 1\<rparr>) (sample_db [sample_po_row ISSUED 0 1])
      = Inr ((), sample_db [sample_po_row ISSUED 3 2\<lparr>por_updatedAt := 100\<rparr>])"
    using sample_update [where r = 3 and s = ISSUED and v = 1] by simp
  have m: "storable_money ''USD'' (Money (N 500) ''USD'')" "storable_money ''USD'' (Money (N 5000) ''USD'')"
    unfolding storable_money_def money.sel money_ok_N js_le_N by simp_all
  have "po_storable (sample_order ISSUED 3\<lparr>po_version := 1\<rparr>)"
    using m by (simp add: po_storable_def sample_order_def sample_line_def sample_number)
  from po_write_then_read [OF u _ this] show ?thesis by (auto simp: sample_order_def)
qed

definition sample_receipt_request :: receipt_request where
  "sample_receipt_request = \<lparr>rq_purchaseOrderId = ''o1'', rq_lines = int_entries [(''A'', 4)], rq_actorId = None\<rparr>"

lemma sample_po_load:
  "po_load sample_env ''o1'' (sample_db [sample_po_row s r v])
   = Inr (sample_order s r\<lparr>po_version := v\<rparr>, sample_db [sample_po_row s r v])"
  by (simp add: po_load_Inr find_first_def tenant_where_def sample_toDomain)

lemma sample_register:
  assumes "\<bar>r\<bar> \<le> 100" "\<bar>d\<bar> \<le> 100" "r + d \<le> 10" "\<bar>r + d\<bar> \<le> 100"
  shows "\<exists>res. register_purchase_order_receipt sample_env
      \<lparr>rq_purchaseOrderId = ''o1'', rq_lines = int_entries [(''A'', d)], rq_actorId = a\<rparr>
      (sample_db [sample_po_row ISSUED r v])
    = Inr (res, sample_db [sample_po_row ISSUED (r + d) (v + 1)\<lparr>por_updatedAt := 100\<rparr>])"
proof -
  let ?po = "sample_order ISSUED r\<lparr>po_version := v\<rparr>" and ?po' = "sample_order ISSUED (r + d)\<lparr>po_version := v\<rparr>"
  have rec: "openPoForReceipt 100 (int_entries [(''A'', d)]) (N 0) a ?po = Inr (recordReceipt 100 a ?po')"
    using sample_receive [OF assms(1-3)]
    by (simp add: openPoForReceipt_def receiving_eligible_def int_entries_def) (simp add: sample_order_def)
  have same: "toRow (recordReceipt 100 a ?po') = toRow ?po'"
    "toLinesCreateInput (recordReceipt 100 a ?po') = toLinesCreateInput ?po'"
    "po_cas sample_env (recordReceipt 100 a ?po') = po_cas sample_env ?po'"
    by (simp_all add: toRow_def toLinesCreateInput_def po_total_def po_subtotal_def recordReceipt_def po_cas_def fun_eq_iff)
  then have "po_update sample_env (recordReceipt 100 a ?po') = (po_update sample_env ?po' :: (unit, po_db) tx)"
    unfolding po_update_def by (simp only:)
  then have "po_update sample_env (recordReceipt 100 a ?po') (sample_db [sample_po_row ISSUED r v])
      = Inr ((), sample_db [sample_po_row ISSUED (r + d) (v + 1)\<lparr>por_updatedAt := 100\<rparr>])"
    using sample_update [OF assms(4)] by simp
  then show ?thesis
    using rec sample_po_load [of ISSUED r v]
    by (simp add: register_purchase_order_receipt_def po_guard_def require_company_and_access_def noop_abac_def tx_return_def)
qed

theorem registered_receipt_is_stored_witness:
  "\<exists>res db'. register_purchase_order_receipt sample_env sample_receipt_request (sample_db [sample_po_row ISSUED 3 1])
     = Inr (res, db') \<and> (\<exists>r' \<in> set (pt_orders db'). line_received ''A'' (3 + delta_for ''A'' [(''A'', 4)]) r')"
proof -
  obtain res db' where reg: "register_purchase_order_receipt sample_env sample_receipt_request
      (sample_db [sample_po_row ISSUED 3 1]) = Inr (res, db')"
    using sample_register [of 3 4 None 1] by (auto simp: sample_receipt_request_def)
  have l: "line_received ''A'' 3 (sample_po_row ISSUED 3 1)" by (simp add: line_received_def)
  have "rq_lines sample_receipt_request = int_entries [(''A'', 4)]" by (simp add: sample_receipt_request_def)
  from registered_receipt_is_stored [OF reg this _ _ _ _ l] reg show ?thesis
    by (fastforce simp: sample_receipt_request_def tenant_where_def)
qed

end
