(* ===== verification/PO_Policies.thy ===== *)
theory PO_Policies
  imports PO_Storage
begin

text \<open>
  Approval and cancellation as the requests of the HTTP interface see them: the approval
  threshold comes from the request context, the receipt check of a cancellation from the
  read connection.
\<close>

section \<open>Approval\<close>

lemma http_context_config:
  assumes "http_context mode skip verify lookup uuid h = Inr c"
  shows "defaultCurrency c = None \<and> autoApproveThreshold c = None \<and> overReceiptTolerance c = None"
proof -
  obtain stored where "ctx_require (request_id_interceptor mode uuid stored h
      (company_config_middleware lookup h None)) = Inr c"
    using assms by (auto simp: http_context_def res_simps)
  then have "request_id_interceptor mode uuid stored h (company_config_middleware lookup h None) = Some c"
    by (auto simp: ctx_require_def split: option.splits)
  then show ?thesis by (rule interceptor_config)
qed

lemma transition_of_loaded:
  assumes "require_company_and_access (e_abac e) (e_ctx e) no_company_404 ''PurchaseOrder''
      (transition_name (tr_transition input)) = Inr ()"
    and "po_load e (tr_id input) db = Inr (po, db)"
    and "apply_transition e input (actor_of e (tr_actorId input)) po db = Inl x"
  shows "transactional (transition_purchase_order e input) db = (Inl x, db)"
  using assms by (simp add: transition_purchase_order_def po_guard_def transactional_def Let_def)

text \<open>
  C30. The company's approval threshold never reaches a request: whatever \<open>lookup\<close> the company
  configuration answers, a request of the HTTP interface that approves a submitted order
  with a positive total fails with 422, and nothing is written.
\<close>
theorem http_approval_always_refused:
  assumes "http_context mode skip verify lookup uuid h = Inr (e_ctx e)"
    and "tr_transition input = T_approve"
    and "require_company_and_access (e_abac e) (e_ctx e) no_company_404 ''PurchaseOrder'' ''approve'' = Inr ()"
    and "po_load e (tr_id input) db = Inr (po, db)" "po_status po = SUBMITTED"
    and "po_total po = Inr tot" "js_gt (money_amount tot) (N 0)"
  shows "transactional (transition_purchase_order e input) db =
    (throw 422 ''Policy purchase-order-can-approve failed'', db)"
proof (rule transition_of_loaded)
  have t: "autoApproveThreshold (e_ctx e) = None" using http_context_config [OF assms(1)] by simp
  have "\<not> js_le (money_amount tot) (N 0)"
    using assms(7) by (cases "money_amount tot") (auto simp: js_le_def js_eq_def)
  then have "approve_transition e a po = throw 422 ''Policy purchase-order-can-approve failed''" for a
    by (simp add: approve_transition_def assms(5,6) t policy_can_approve_def policy_enforce_def check_def)
  then show "apply_transition e input (actor_of e (tr_actorId input)) po db =
      throw 422 ''Policy purchase-order-can-approve failed''"
    by (simp add: apply_transition_def assms(2))
qed (use assms in simp_all)

text \<open>The threshold itself, for contexts that carry one.\<close>

lemma approve_transition_Inr:
  "approve_transition e a po = Inr po' \<longleftrightarrow> (\<exists>tot. po_total po = Inr tot \<and>
     policy_can_approve (po_status po) (money_amount tot) (coalesce (autoApproveThreshold (e_ctx e)) (N 0)) \<and>
     approve (e_now e) a po = Inr po')"
  by (auto simp: approve_transition_def policy_enforce_def res_simps)

section \<open>Cancellation\<close>

definition has_received :: "po_row \<Rightarrow> bool" where
  "has_received r \<longleftrightarrow> (\<exists>l \<in> set (por_lines r). plr_receivedQuantity l > 0)"

lemma hasReceipts_row:
  assumes "po_unique (pt_replica db)" "r \<in> set (pt_replica db)" "owned_scope (e_ctx e) (por_tenantId r)"
  shows "hasReceipts e (por_id r) db = Inr (has_received r, db)"
  using find_unique_id [OF assms]
  by (auto simp: hasReceipts_def po_visible_def has_received_def filter_empty_conv)

text \<open>
  An order with posted receipts is not cancelled, provided the read connection has caught up:
  the request fails with 422 and leaves the database as it is, in whatever status the order
  is and whoever asks.
\<close>

theorem received_order_not_cancelled:
  assumes "pt_replica db = pt_orders db" "po_unique (pt_orders db)" "r \<in> set (pt_orders db)"
    and "owned_scope (e_ctx e) (por_tenantId r)" "has_received r"
    and "tr_transition input = T_cancel" "tr_id input = por_id r"
  shows "\<exists>err. transactional (transition_purchase_order e input) db = (Inl err, db)"
proof -
  have "\<exists>err. transition_purchase_order e input db = Inl err"
  proof (cases "transition_purchase_order e input db")
    case (Inr res)
    obtain y db' where res: "res = (y, db')" by fastforce
    have ok: "transition_purchase_order e input db = Inr (y, db')" using Inr res by simp
    have g: "require_company_and_access (e_abac e) (e_ctx e) no_company_404 ''PurchaseOrder''
        (transition_name (tr_transition input)) = Inr ()"
      using ok by (auto simp: transition_purchase_order_def po_guard_def res_simps)
    have "\<exists>po. po_load e (tr_id input) db = Inr (po, db)"
      using ok by (auto simp: transition_purchase_order_def po_guard_def res_simps po_load_Inr Let_def)
    then obtain po where po: "po_load e (tr_id input) db = Inr (po, db)" by blast
    have "po_id po = por_id r"
      using po find_unique_id [OF assms(2-4)] assms(7) by (auto simp: po_load_Inr toDomain_fields)
    then have "hasReceipts e (po_id po) db = Inr (True, db)"
      using hasReceipts_row [of db r e] assms(1-5) by simp
    then have "apply_transition e input (actor_of e (tr_actorId input)) po db =
        tx_lift (cancel (e_now e) (actor_of e (tr_actorId input)) True po) db"
      by (simp add: apply_transition_def assms(6))
    moreover have "\<exists>err. cancel (e_now e) a True po = Inl err" for a
      by (cases "cancel (e_now e) a True po") (auto dest: status_method_InrD(4))
    ultimately obtain err where "apply_transition e input (actor_of e (tr_actorId input)) po db = Inl err"
      by (metis tx_lift_Inl)
    from transition_of_loaded [OF g po this] ok show ?thesis by (simp add: transactional_def)
  qed auto
  then show ?thesis by (auto simp: transactional_def)
qed

section \<open>Examples\<close>

text \<open>A request of tenant \<open>T1\<close> with a company whose configured threshold is a million.\<close>

definition sample_lookup :: "string \<Rightarrow> company_config option" where
  "sample_lookup c = Some \<lparr>cfg_defaultCurrency = ''EUR'', cfg_autoApproveThreshold = N 1000000,
     cfg_overReceiptTolerance = N 0\<rparr>"

definition sample_http_ctx :: request_context where
  "sample_http_ctx = emptyContext\<lparr>requestId := ''r1'', correlationId := ''r1'', ctx_tenantId := Some ''T1'',
     ctx_companyId := Some ''C1'', ctx_userId := Some ''u1'', roles := [''buyer'', ''approver'']\<rparr>"

lemma sample_http_context:
  "http_context Multi False sample_verify sample_lookup ''r1'' sample_headers = Inr sample_http_ctx"
  by (simp add: http_context_def tenancy_guard_def sample_headers_def sample_verify_def sample_claims_def
      request_id_interceptor_def resolve_identity_def ctx_set_def ctx_require_def Let_def
      company_config_middleware_def sample_lookup_def parse_roles_def trim_def is_space_def
      context_with_def toData_def spread_def empty_patch_def emptyContext_def sample_http_ctx_def)

theorem http_approval_always_refused_witness:
  "transactional (transition_purchase_order (sample_env\<lparr>e_ctx := sample_http_ctx\<rparr>)
      \<lparr>tr_id = ''o1'', tr_transition = T_approve, tr_reason = None, tr_actorId = None\<rparr>)
      (sample_db [sample_po_row SUBMITTED 0 1])
    = (throw 422 ''Policy purchase-order-can-approve failed'', sample_db [sample_po_row SUBMITTED 0 1])"
proof -
  let ?e = "sample_env\<lparr>e_ctx := sample_http_ctx\<rparr>"
  let ?in = "\<lparr>tr_id = ''o1'', tr_transition = T_approve, tr_reason = None, tr_actorId = None\<rparr>"
  have ctx: "ctx_tenantId sample_http_ctx = Some ''T1''" "ctx_companyId sample_http_ctx = Some ''C1''"
    by (simp_all add: sample_http_ctx_def)
  have load: "po_load ?e (tr_id ?in) (sample_db [sample_po_row SUBMITTED 0 1])
      = Inr (sample_order SUBMITTED 0\<lparr>po_version := 1\<rparr>, sample_db [sample_po_row SUBMITTED 0 1])"
    by (simp add: po_load_Inr find_first_def tenant_where_def sample_toDomain ctx)
  have guard: "require_company_and_access (e_abac ?e) (e_ctx ?e) no_company_404 ''PurchaseOrder'' ''approve'' = Inr ()"
    by (simp add: require_company_and_access_def noop_abac_def ctx)
  have "js_add (N 0) (N 5000) = N 5000" using js_add_N [of 0 5000] by simp
  then have total: "po_total (sample_order SUBMITTED 0\<lparr>po_version := 1\<rparr>) = Inr (Money (N 5000) ''USD'')"
    by (simp add: po_total_def po_subtotal_def money_add_def assertSameCurrency_def money_ZERO_def
        sample_order_def sample_line_def)
  have "js_div_lit (N 5000) 100 = N 50" using round_double_of_int [of 50] by simp
  then have pos: "js_gt (money_amount (Money (N 5000) ''USD'')) (N 0)" by (simp add: money_amount_def)
  have http: "http_context Multi False sample_verify sample_lookup ''r1'' sample_headers = Inr (e_ctx ?e)"
    using sample_http_context by simp
  show ?thesis by (rule http_approval_always_refused [OF http _ guard load _ total pos]) simp_all
qed

theorem received_order_not_cancelled_witness:
  "\<exists>err. transactional (transition_purchase_order sample_env
      \<lparr>tr_id = ''o1'', tr_transition = T_cancel, tr_reason = None, tr_actorId = None\<rparr>)
      (catch_up (sample_db [sample_po_row APPROVED 3 1]))
    = (Inl err, catch_up (sample_db [sample_po_row APPROVED 3 1]))"
proof -
  have "has_received (sample_po_row APPROVED 3 1)" by (simp add: has_received_def)
  then show ?thesis
    using received_order_not_cancelled [of "catch_up (sample_db [sample_po_row APPROVED 3 1])"
        "sample_po_row APPROVED 3 1" sample_env
        "\<lparr>tr_id = ''o1'', tr_transition = T_cancel, tr_reason = None, tr_actorId = None\<rparr>"]
    by (simp add: catch_up_def tenant_where_def)
qed

section \<open>A receipt on the sample order\<close>

text \<open>The properties of \<open>PO_System\<close> applied to a receipt registered on the sample order.\<close>

definition sample_command :: po_command where
  "sample_command = RegisterReceipt sample_receipt_request"

lemma sample_command_runs:
  "\<exists>r. transactional (po_run sample_env sample_command) (sample_db [sample_po_row ISSUED 3 1])
     = (r, sample_db [sample_po_row ISSUED 7 2\<lparr>por_updatedAt := 100\<rparr>]) \<and> is_ok r"
proof -
  obtain res where "register_purchase_order_receipt sample_env sample_receipt_request (sample_db [sample_po_row ISSUED 3 1])
      = Inr (res, sample_db [sample_po_row ISSUED 7 2\<lparr>por_updatedAt := 100\<rparr>])"
    using sample_register [of 3 4 None 1] by (auto simp: sample_receipt_request_def)
  then show ?thesis by (simp add: sample_command_def transactional_def void_def tx_then_def tx_return_def)
qed

definition foreign_row :: po_row where
  "foreign_row = sample_po_row ISSUED 0 1\<lparr>por_tenantId := Some ''T2'', por_data := sample_data ISSUED\<lparr>pd_id := ''o2''\<rparr>\<rparr>"

theorem po_commands_isolate_tenants_witness:
  "filter (\<lambda>row. por_tenantId row \<noteq> Some ''T1'')
     (pt_orders (snd (transactional (po_run sample_env sample_command) (sample_db [sample_po_row ISSUED 3 1, foreign_row]))))
   = [foreign_row]"
  using po_commands_isolate_tenants [OF _ prod.collapse [symmetric],
      of sample_env sample_command "sample_db [sample_po_row ISSUED 3 1, foreign_row]"]
  by (simp add: foreign_row_def)

theorem po_commands_append_to_outbox_witness:
  "\<exists>new. pf_outbox (snd (transactional (po_run sample_env sample_command) (sample_db [sample_po_row ISSUED 3 1])))
     = pf_outbox (sample_db [sample_po_row ISSUED 3 1]) @ new \<and> (\<forall>m \<in> set new. ob_tenantId m = Some ''T1'')"
proof -
  obtain r where r: "transactional (po_run sample_env sample_command) (sample_db [sample_po_row ISSUED 3 1])
     = (r, sample_db [sample_po_row ISSUED 7 2\<lparr>por_updatedAt := 100\<rparr>])" using sample_command_runs by blast
  from po_commands_append_to_outbox [OF r] r show ?thesis by auto
qed

theorem po_commands_version_rows_witness:
  "\<exists>row' \<in> set (pt_orders (snd (transactional (po_run sample_env sample_command) (sample_db [sample_po_row ISSUED 3 1])))).
     por_id row' = ''o1'' \<and> (row' = sample_po_row ISSUED 3 1 \<or> 1 < por_version row')"
proof -
  obtain r where r: "transactional (po_run sample_env sample_command) (sample_db [sample_po_row ISSUED 3 1])
     = (r, sample_db [sample_po_row ISSUED 7 2\<lparr>por_updatedAt := 100\<rparr>])" using sample_command_runs by blast
  from po_commands_version_rows [OF r] r show ?thesis by simp
qed

end
