(* ===== verification/Good_Receipt.thy ===== *)
theory Good_Receipt
  imports Context
begin

text \<open>
  The GoodReceiptNote aggregate (\<open>business/procurement/good-receipt-note/domain\<close>): statuses,
  lines, invariants, one definition per method, and the two factories, the second of which
  builds the compensating reversal document. The fields of \<open>GrnProps\<close> are prefixed \<open>gr_\<close>.
\<close>

section \<open>Types\<close>

datatype grn_status = G_DRAFT | G_RECEIVED | G_POSTED | G_INSPECTED | G_MATCHED | G_COMPLETED
  | G_CANCELLED | G_REVERSED

fun grn_status_name :: "grn_status \<Rightarrow> string" where
  "grn_status_name G_DRAFT = ''DRAFT''"
| "grn_status_name G_RECEIVED = ''RECEIVED''"
| "grn_status_name G_POSTED = ''POSTED''"
| "grn_status_name G_INSPECTED = ''INSPECTED''"
| "grn_status_name G_MATCHED = ''MATCHED''"
| "grn_status_name G_COMPLETED = ''COMPLETED''"
| "grn_status_name G_CANCELLED = ''CANCELLED''"
| "grn_status_name G_REVERSED = ''REVERSED''"

record tracking_entry =
  te_lotNo :: "string option"
  te_serialNo :: "string option"
  te_quantity :: number
  te_manufactureDate :: "int option"
  te_expiryDate :: "int option"

record grn_line =
  gl_productId :: string
  gl_orderedQuantity :: number
  gl_receivedQuantity :: number
  gl_acceptedQuantity :: number
  gl_rejectedQuantity :: number
  gl_unitPrice :: number
  gl_tracking :: "tracking_entry list"

record posted_line =
  ps_grnLineId :: string
  ps_productId :: string
  ps_acceptedQuantity :: number
  ps_unitPrice :: number

datatype grn_event =
    GrnCreated string string string
  | GrnLineAdded string string
  | GrnReceived string
  | GrnCompleted string
  | GrnCancelled string
  | GoodsReceiptPosted string string "posted_line list"
  | GoodsReceiptReversed string string string "posted_line list"

record good_receipt =
  gr_id :: string
  gr_version :: int
  gr_events :: "grn_event list"
  gr_grnNumber :: string
  gr_purchaseOrderId :: string
  gr_vendorId :: string
  gr_status :: grn_status
  gr_currency :: string
  gr_lines :: "grn_line list"
  gr_receivedAt :: "int option"
  gr_reversalOfId :: "string option"
  gr_createdBy :: "string option"
  gr_receivedBy :: "string option"
  gr_postedBy :: "string option"
  gr_cancelledBy :: "string option"
  gr_createdAt :: int
  gr_updatedAt :: int

definition grn_addEvent :: "grn_event \<Rightarrow> good_receipt \<Rightarrow> good_receipt" where
  "grn_addEvent e g = g\<lparr>gr_events := gr_events g @ [e]\<rparr>"

section \<open>Lines\<close>

definition grnLine_create ::
  "string \<Rightarrow> number \<Rightarrow> number \<Rightarrow> number \<Rightarrow> number option \<Rightarrow> number option \<Rightarrow> tracking_entry list option \<Rightarrow> grn_line"
where
  "grnLine_create productId ordered received unitPrice accepted rejected tracking =
     \<lparr>gl_productId = productId, gl_orderedQuantity = ordered, gl_receivedQuantity = received,
      gl_acceptedQuantity = coalesce accepted received, gl_rejectedQuantity = coalesce rejected (N 0),
      gl_unitPrice = unitPrice, gl_tracking = coalesce tracking []\<rparr>"

definition gl_total :: "grn_line \<Rightarrow> number" where
  "gl_total l = js_mul (gl_receivedQuantity l) (gl_unitPrice l)"

definition acceptedTotal :: "grn_line \<Rightarrow> number" where
  "acceptedTotal l = js_mul (gl_acceptedQuantity l) (gl_unitPrice l)"

definition valuationAmount :: "grn_line \<Rightarrow> number" where
  "valuationAmount l = js_mul (gl_acceptedQuantity l) (gl_unitPrice l)"

definition gl_withReceivedQuantity :: "number \<Rightarrow> grn_line \<Rightarrow> grn_line" where
  "gl_withReceivedQuantity q l = l\<lparr>gl_receivedQuantity := q\<rparr>"

definition gl_withTracking :: "tracking_entry list \<Rightarrow> grn_line \<Rightarrow> grn_line" where
  "gl_withTracking es l = l\<lparr>gl_tracking := es\<rparr>"

definition gl_withInspection :: "number \<Rightarrow> number \<Rightarrow> grn_line \<Rightarrow> grn_line" where
  "gl_withInspection a r l = l\<lparr>gl_acceptedQuantity := a, gl_rejectedQuantity := r\<rparr>"

definition grn_subtotal :: "grn_line list \<Rightarrow> number" where
  "grn_subtotal ls = foldl (\<lambda>acc l. js_add acc (gl_total l)) (N 0) ls"

section \<open>Invariants\<close>

definition ginv_create :: "string \<Rightarrow> unit result" where
  "ginv_create purchaseOrderId =
     (if purchaseOrderId = [] then throw 422 ''Purchase order ID is required to create a GRN'' else Inr ())"

definition ginv_has_lines :: "nat \<Rightarrow> unit result" where
  "ginv_has_lines n = (if n < 1 then throw 422 ''GRN must have at least one line'' else Inr ())"

definition ginv_reversal :: "string \<Rightarrow> unit result" where
  "ginv_reversal reversalOfId =
     (if reversalOfId = [] then throw 422 ''A reversal document must reference its original GRN'' else Inr ())"

definition ginv_reversal_balance :: "number \<Rightarrow> number \<Rightarrow> number \<Rightarrow> unit result" where
  "ginv_reversal_balance received accepted rejected =
     (if \<not> js_eq (js_add accepted rejected) received
      then throw 422 ''Reversal accepted + rejected must equal received quantity''
      else if js_ge received (N 0)
      then throw 422 ''Reversal quantities must be negative (compensating document)''
      else if js_gt accepted (N 0) \<or> js_gt rejected (N 0)
      then throw 422 ''Reversal accepted/rejected cannot be positive''
      else Inr ())"

definition ginv_editable :: "grn_status \<Rightarrow> unit result" where
  "ginv_editable s =
     (if s \<noteq> G_DRAFT then throw 422 ''GRN cannot be modified in its current status'' else Inr ())"

fun grn_allowed :: "grn_status \<Rightarrow> grn_status list" where
  "grn_allowed G_DRAFT = [G_RECEIVED, G_POSTED, G_CANCELLED]"
| "grn_allowed G_RECEIVED = [G_POSTED, G_INSPECTED, G_COMPLETED, G_CANCELLED]"
| "grn_allowed G_POSTED = [G_INSPECTED, G_MATCHED, G_REVERSED]"
| "grn_allowed G_INSPECTED = [G_POSTED, G_MATCHED, G_REVERSED]"
| "grn_allowed G_MATCHED = []"
| "grn_allowed G_COMPLETED = []"
| "grn_allowed G_CANCELLED = []"
| "grn_allowed G_REVERSED = []"

definition ginv_transition :: "grn_status \<Rightarrow> grn_status \<Rightarrow> unit result" where
  "ginv_transition status to =
     (if status = to then Inr ()
      else if to \<notin> set (grn_allowed status) then throw 422 ''Invalid status transition for GRN''
      else Inr ())"

definition ginv_reversible :: "grn_status \<Rightarrow> unit result" where
  "ginv_reversible s =
     (if s \<noteq> G_COMPLETED
      then throw 422 (''Only a posted GRN can be reversed (status: '' @ grn_status_name s @ '')'')
      else Inr ())"

definition ginv_line_quantity :: "number \<Rightarrow> unit result" where
  "ginv_line_quantity q =
     (if js_le q (N 0) then throw 422 ''Received quantity must be greater than zero'' else Inr ())"

definition ginv_inspection_balance :: "number \<Rightarrow> number \<Rightarrow> number \<Rightarrow> unit result" where
  "ginv_inspection_balance received accepted rejected =
     (if \<not> js_eq (js_add accepted rejected) received
      then throw 422 ''Accepted + rejected must equal received quantity''
      else if js_lt accepted (N 0) \<or> js_lt rejected (N 0)
      then throw 422 ''Accepted/rejected quantities cannot be negative''
      else Inr ())"

definition ginv_number :: "string \<Rightarrow> unit result" where
  "ginv_number s = (if trim s = [] then throw 422 ''GRN number cannot be empty'' else Inr ())"

definition grnNumber_create :: "string \<Rightarrow> string result" where
  "grnNumber_create s = and_then (ginv_number s) (\<lambda>_. Inr (to_upper (trim s)))"

definition receivedQuantity_create :: "number \<Rightarrow> number result" where
  "receivedQuantity_create v =
     (if js_le v (N 0) then throw 422 ''Received quantity must be greater than zero'' else Inr v)"

section \<open>The methods of the aggregate\<close>

abbreviation is_grn_product :: "string \<Rightarrow> grn_line \<Rightarrow> bool" where
  "is_grn_product p l \<equiv> gl_productId l = p"

definition grn_addLine ::
  "int \<Rightarrow> string \<Rightarrow> number \<Rightarrow> number \<Rightarrow> number \<Rightarrow> good_receipt \<Rightarrow> good_receipt result" where
  "grn_addLine now productId ordered received unitPrice g =
     and_then (ginv_editable (gr_status g)) (\<lambda>_.
     and_then (ginv_line_quantity received) (\<lambda>_.
       let lines' = (case List.find (is_grn_product productId) (gr_lines g) of
             Some existing \<Rightarrow>
               map_where (is_grn_product productId)
                 (gl_withReceivedQuantity (js_add (gl_receivedQuantity existing) received)) (gr_lines g)
           | None \<Rightarrow> gr_lines g @ [grnLine_create productId ordered received unitPrice None None None])
       in Inr (grn_addEvent (GrnLineAdded (gr_id g) productId)
                 (g\<lparr>gr_lines := lines', gr_updatedAt := now\<rparr>))))"

definition grn_receive :: "int \<Rightarrow> string option \<Rightarrow> good_receipt \<Rightarrow> good_receipt result" where
  "grn_receive now actorId g =
     and_then (ginv_has_lines (length (gr_lines g))) (\<lambda>_.
     and_then (ginv_transition (gr_status g) G_RECEIVED) (\<lambda>_.
       Inr (grn_addEvent (GrnReceived (gr_id g))
         (g\<lparr>gr_status := G_RECEIVED, gr_receivedAt := Some now, gr_receivedBy := actorId,
            gr_updatedAt := now\<rparr>))))"

text \<open>\<open>l.acceptedQuantity > 0 ? l.acceptedQuantity : l.receivedQuantity\<close>, written out three times in
  the source: in \<open>complete\<close>, in \<open>PostGrnUseCase\<close> and as \<open>postedQuantity\<close>.\<close>

definition postedQuantity :: "grn_line \<Rightarrow> number" where
  "postedQuantity l =
     (if js_gt (gl_acceptedQuantity l) (N 0) then gl_acceptedQuantity l else gl_receivedQuantity l)"

definition posted_line_of :: "string \<Rightarrow> number \<Rightarrow> grn_line \<Rightarrow> posted_line" where
  "posted_line_of i q l = \<lparr>ps_grnLineId = i @ '':'' @ gl_productId l, ps_productId = gl_productId l,
     ps_acceptedQuantity = q, ps_unitPrice = gl_unitPrice l\<rparr>"

definition grn_complete :: "int \<Rightarrow> string option \<Rightarrow> good_receipt \<Rightarrow> good_receipt result" where
  "grn_complete now actorId g =
     and_then (ginv_transition (gr_status g) G_COMPLETED) (\<lambda>_.
       Inr (grn_addEvent (GoodsReceiptPosted (gr_id g) (gr_purchaseOrderId g)
              (map (\<lambda>l. posted_line_of (gr_id g) (postedQuantity l) l) (gr_lines g)))
            (grn_addEvent (GrnCompleted (gr_id g))
              (g\<lparr>gr_status := G_COMPLETED, gr_postedBy := actorId, gr_updatedAt := now\<rparr>))))"

definition grn_cancel :: "int \<Rightarrow> string option \<Rightarrow> good_receipt \<Rightarrow> good_receipt result" where
  "grn_cancel now actorId g =
     and_then (ginv_transition (gr_status g) G_CANCELLED) (\<lambda>_.
       Inr (grn_addEvent (GrnCancelled (gr_id g))
         (g\<lparr>gr_status := G_CANCELLED, gr_cancelledBy := actorId, gr_updatedAt := now\<rparr>)))"

record inspection_line =
  in_productId :: string
  in_acceptedQuantity :: number
  in_rejectedQuantity :: number

definition inspect_line :: "grn_line list \<Rightarrow> inspection_line \<Rightarrow> grn_line list result" where
  "inspect_line lines res =
     (case List.find (is_grn_product (in_productId res)) lines of
        None \<Rightarrow> throw 422 (''Product '' @ in_productId res @ '' is not on this GRN'')
      | Some line \<Rightarrow>
          and_then (ginv_inspection_balance (gl_receivedQuantity line) (in_acceptedQuantity res)
                      (in_rejectedQuantity res)) (\<lambda>_.
            Inr (map_where (is_grn_product (in_productId res))
                   (gl_withInspection (in_acceptedQuantity res) (in_rejectedQuantity res)) lines)))"

definition recordInspectionResult :: "int \<Rightarrow> inspection_line list \<Rightarrow> good_receipt \<Rightarrow> good_receipt result" where
  "recordInspectionResult now input g =
     (if gr_status g \<noteq> G_RECEIVED
      then throw 422 (''Inspection can only be recorded on a RECEIVED GRN (status: '' @
             grn_status_name (gr_status g) @ '')'')
      else and_then (for_each inspect_line (gr_lines g) input) (\<lambda>lines.
             Inr (g\<lparr>gr_lines := lines, gr_updatedAt := now\<rparr>)))"

definition setLineTracking :: "int \<Rightarrow> string \<Rightarrow> tracking_entry list \<Rightarrow> good_receipt \<Rightarrow> good_receipt" where
  "setLineTracking now productId entries g =
     g\<lparr>gr_lines := map_where (is_grn_product productId) (gl_withTracking entries) (gr_lines g),
       gr_updatedAt := now\<rparr>"

section \<open>The factories\<close>

record create_grn_line =
  cl_productId :: string
  cl_orderedQuantity :: number
  cl_receivedQuantity :: number
  cl_unitPrice :: number

record create_grn_input =
  cg_grnNumber :: string
  cg_purchaseOrderId :: string
  cg_vendorId :: string
  cg_currency :: string
  cg_createdBy :: "string option"
  cg_lines :: "create_grn_line list"

definition grn_create :: "int \<Rightarrow> string \<Rightarrow> create_grn_input \<Rightarrow> good_receipt result" where
  "grn_create now uuid input =
     and_then (ginv_create (cg_purchaseOrderId input)) (\<lambda>_.
       Inr (grn_addEvent (GrnCreated uuid (cg_grnNumber input) (cg_purchaseOrderId input))
        \<lparr>gr_id = uuid, gr_version = 1, gr_events = [], gr_grnNumber = cg_grnNumber input,
         gr_purchaseOrderId = cg_purchaseOrderId input, gr_vendorId = cg_vendorId input,
         gr_status = G_DRAFT, gr_currency = cg_currency input,
         gr_lines = map (\<lambda>l. grnLine_create (cl_productId l) (cl_orderedQuantity l) (cl_receivedQuantity l)
           (cl_unitPrice l) None None None) (cg_lines input),
         gr_receivedAt = None, gr_reversalOfId = None, gr_createdBy = cg_createdBy input,
         gr_receivedBy = None, gr_postedBy = None, gr_cancelledBy = None, gr_createdAt = now,
         gr_updatedAt = now\<rparr>))"

record reversal_line =
  rv_productId :: string
  rv_orderedQuantity :: number
  rv_receivedQuantity :: number
  rv_acceptedQuantity :: number
  rv_rejectedQuantity :: number
  rv_unitPrice :: number

record create_reversal_input =
  cv_grnNumber :: string
  cv_reversalOfId :: string
  cv_purchaseOrderId :: string
  cv_vendorId :: string
  cv_currency :: string
  cv_actorId :: "string option"
  cv_lines :: "reversal_line list"

definition grn_createReversal :: "int \<Rightarrow> string \<Rightarrow> create_reversal_input \<Rightarrow> good_receipt result" where
  "grn_createReversal now uuid input =
     and_then (ginv_reversal (cv_reversalOfId input)) (\<lambda>_.
       let lines = map (\<lambda>l. grnLine_create (rv_productId l) (rv_orderedQuantity l) (rv_receivedQuantity l)
             (rv_unitPrice l) (Some (rv_acceptedQuantity l)) (Some (rv_rejectedQuantity l)) None) (cv_lines input);
           g = \<lparr>gr_id = uuid, gr_version = 1, gr_events = [], gr_grnNumber = cv_grnNumber input,
             gr_purchaseOrderId = cv_purchaseOrderId input, gr_vendorId = cv_vendorId input,
             gr_status = G_COMPLETED, gr_currency = cv_currency input, gr_lines = lines,
             gr_receivedAt = Some now, gr_reversalOfId = Some (cv_reversalOfId input),
             gr_createdBy = cv_actorId input, gr_receivedBy = cv_actorId input,
             gr_postedBy = cv_actorId input, gr_cancelledBy = None, gr_createdAt = now,
             gr_updatedAt = now\<rparr>
       in and_then (for_each (\<lambda>_ l. ginv_reversal_balance (gl_receivedQuantity l) (gl_acceptedQuantity l)
                      (gl_rejectedQuantity l)) () lines) (\<lambda>_.
            Inr (grn_addEvent (GoodsReceiptReversed uuid (cv_reversalOfId input) (cv_purchaseOrderId input)
              (map (\<lambda>l. posted_line_of uuid (gl_acceptedQuantity l) l) lines)) g)))"

text \<open>The mirror \<open>ReverseGrnUseCase\<close> builds of an original line.\<close>

definition mirror_line :: "grn_line \<Rightarrow> reversal_line" where
  "mirror_line l = (let eligible = postedQuantity l
     in \<lparr>rv_productId = gl_productId l, rv_orderedQuantity = gl_orderedQuantity l,
         rv_receivedQuantity = js_neg eligible, rv_acceptedQuantity = js_neg eligible,
         rv_rejectedQuantity = N 0, rv_unitPrice = gl_unitPrice l\<rparr>)"

section \<open>The status machine\<close>

interpretation grn_fsm: transition_guard grn_allowed ginv_transition
  by unfold_locales (auto simp: ginv_transition_def)

section \<open>Inspection\<close>

definition inspected_ok :: "grn_line \<Rightarrow> bool" where
  "inspected_ok l \<longleftrightarrow> js_eq (js_add (gl_acceptedQuantity l) (gl_rejectedQuantity l)) (gl_receivedQuantity l) \<and>
     js_le (N 0) (gl_acceptedQuantity l) \<and> js_le (N 0) (gl_rejectedQuantity l)"

end
