(* ===== verification/PO_Port.thy ===== *)
theory PO_Port
  imports PO_Policies
begin

text \<open>
  What the purchase-order module offers to goods receiving (\<open>purchase-order/public\<close>,
  \<open>PurchaseOrderForGrnFacade\<close>, \<open>PurchaseOrderAdapter\<close>): reading an order and registering a
  receipt. The interface \<open>receipt_port\<close> states what a client may rely on: a successful
  registration moves the balance of every product by what was registered for it.
\<close>

section \<open>The balance and the interface\<close>

definition po_balance :: "'a po_db_scheme \<Rightarrow> string \<Rightarrow> string \<Rightarrow> int option" where
  "po_balance db i p =
     Option.bind (find_first (\<lambda>r. por_id r = i) (pt_orders db)) (\<lambda>r.
       map_option plr_receivedQuantity (find_first (\<lambda>l. plr_productId l = p) (por_lines r)))"

locale receipt_port =
  fixes register :: "env \<Rightarrow> receipt_request \<Rightarrow> (receipt_result, 'd) tx"
    and balance :: "'d \<Rightarrow> string \<Rightarrow> string \<Rightarrow> int option"
    and ok :: "'d \<Rightarrow> bool"
  assumes register_ok: "register e rq db = Inr (res, db') \<Longrightarrow> ok db \<Longrightarrow> ok db'"
    and register_moves: "register e rq db = Inr (res, db') \<Longrightarrow> ok db \<Longrightarrow>
      rq_lines rq = int_entries ds \<Longrightarrow> balance db (rq_purchaseOrderId rq) p = Some n \<Longrightarrow>
      \<bar>n\<bar> + abs_total ds \<le> 2 ^ 53 \<Longrightarrow>
      balance db' (rq_purchaseOrderId rq) p = Some (n + delta_for p ds)"
begin

lemma register_twice:
  assumes "register e rq db = Inr (res, db1)" "register e' rq db1 = Inr (res', db2)" "ok db"
    and "rq_lines rq = int_entries ds" "balance db (rq_purchaseOrderId rq) p = Some n"
    and "\<bar>n\<bar> + abs_total ds \<le> 2 ^ 53" "\<bar>n + delta_for p ds\<bar> + abs_total ds \<le> 2 ^ 53"
  shows "balance db2 (rq_purchaseOrderId rq) p = Some (n + 2 * delta_for p ds)"
proof -
  have "balance db1 (rq_purchaseOrderId rq) p = Some (n + delta_for p ds)"
    using register_moves [OF assms(1,3,4,5,6)] .
  from register_moves [OF assms(2) register_ok [OF assms(1,3)] assms(4) this assms(7)]
  show ?thesis by (simp add: algebra_simps)
qed

end

section \<open>The provider\<close>

definition orders_ok :: "'a po_db_scheme \<Rightarrow> bool" where
  "orders_ok db \<longleftrightarrow> po_unique (pt_orders db)"

lemma find_first_unique_id:
  "po_unique rows \<Longrightarrow> r \<in> set rows \<Longrightarrow> find_first (\<lambda>x. por_id x = por_id r) rows = Some r"
  unfolding find_first_def po_unique_def by (intro find_distinct_key) simp_all

lemma po_balance_Some:
  assumes "po_unique (pt_orders db)"
  shows "po_balance db i p = Some n \<longleftrightarrow> (\<exists>r \<in> set (pt_orders db). por_id r = i \<and> line_received p n r)"
proof
  assume "po_balance db i p = Some n"
  then obtain r l where "find_first (\<lambda>r. por_id r = i) (pt_orders db) = Some r"
    "find_first (\<lambda>l. plr_productId l = p) (por_lines r) = Some l" and n: "plr_receivedQuantity l = n"
    by (auto simp: po_balance_def bind_eq_Some_conv)
  from this(1,2) [THEN find_first_Some]
  show "\<exists>r \<in> set (pt_orders db). por_id r = i \<and> line_received p n r"
    unfolding line_received_def using n by blast
next
  assume "\<exists>r \<in> set (pt_orders db). por_id r = i \<and> line_received p n r"
  then obtain r l where r: "r \<in> set (pt_orders db)" "por_id r = i"
    and l: "l \<in> set (por_lines r)" "plr_productId l = p" "plr_receivedQuantity l = n"
    by (auto simp: line_received_def)
  have "distinct (map plr_productId (por_lines r))" using assms r(1) by (simp add: po_unique_def)
  then have "find_first (\<lambda>y. plr_productId y = p) (por_lines r) = Some l"
    unfolding find_first_def using find_distinct_key [of plr_productId "por_lines r" l] l by simp
  then show "po_balance db i p = Some n"
    using find_first_unique_id [OF assms r(1)] r(2) l(3) by (simp add: po_balance_def)
qed

lemma register_balance:
  assumes "register_purchase_order_receipt e rq db = Inr (res, db')" "orders_ok db"
    and "rq_lines rq = int_entries ds" "po_balance db (rq_purchaseOrderId rq) p = Some n"
    and "\<bar>n\<bar> + abs_total ds \<le> 2 ^ 53"
  shows "po_balance db' (rq_purchaseOrderId rq) p = Some (n + delta_for p ds)"
proof -
  have u: "po_unique (pt_orders db)" using assms(2) by (simp add: orders_ok_def)
  have u': "po_unique (pt_orders db')"
    using po_keys.rel_receipt [of e rq] assms(1) u by (auto simp: keys_kept_def dest: tx_relD)
  obtain r where r: "r \<in> set (pt_orders db)" "por_id r = rq_purchaseOrderId rq" "line_received p n r"
    using assms(4) po_balance_Some [OF u] by blast
  obtain po where "po_load e (rq_purchaseOrderId rq) db = Inr (po, db)"
    using register_Inr [OF assms(1)] by blast
  then obtain r0 where "find_first (\<lambda>x. por_id x = rq_purchaseOrderId rq \<and> owned_scope (e_ctx e) (por_tenantId x))
      (pt_orders db) = Some r0" by (auto simp: po_load_Inr)
  then have "r0 \<in> set (pt_orders db)" "por_id r0 = rq_purchaseOrderId rq" "owned_scope (e_ctx e) (por_tenantId r0)"
    using find_first_Some by fastforce+
  then have "owned_scope (e_ctx e) (por_tenantId r)" using unique_ids [OF u, of r0 r] r by simp
  from register_receipt_row [OF assms(1,3) u r(1,2) this r(3) assms(5)]
  show ?thesis using r(2) unfolding po_balance_Some [OF u'] by metis
qed

interpretation po_port: receipt_port
    "register_purchase_order_receipt :: env \<Rightarrow> receipt_request \<Rightarrow> (receipt_result, 'a po_db_scheme) tx"
    po_balance orders_ok
proof unfold_locales
  fix e rq res and db db' :: "'a po_db_scheme"
  assume "register_purchase_order_receipt e rq db = Inr (res, db')" "orders_ok db"
  then show "orders_ok db'"
    using po_keys.rel_receipt [of e rq] by (auto simp: keys_kept_def orders_ok_def dest: tx_relD)
qed (rule register_balance)

section \<open>The facade\<close>

definition facade_getPurchaseOrder :: "env \<Rightarrow> string \<Rightarrow> (po_query_record, 'a po_db_scheme) tx" where
  "facade_getPurchaseOrder e i = get_purchase_order e i"

definition facade_registerReceipt :: "env \<Rightarrow> receipt_request \<Rightarrow> (receipt_result, 'a po_db_scheme) tx" where
  "facade_registerReceipt e rq = register_purchase_order_receipt e rq"

definition facade_hasReceipts :: "env \<Rightarrow> string \<Rightarrow> (bool, 'a po_db_scheme) tx" where
  "facade_hasReceipts e i = hasReceipts e i"

lemma delta_for_mirror: "delta_for p (map (\<lambda>(q, d). (q, - d)) ds) = - delta_for p ds"
  by (induction ds) auto

lemma abs_total_mirror: "abs_total (map (\<lambda>(q, d). (q, - d)) ds) = abs_total ds"
  by (induction ds) auto

lemma delta_for_distinct:
  "distinct (map f xs) \<Longrightarrow> x \<in> set xs \<Longrightarrow> delta_for (f x) (map (\<lambda>y. (f y, g y)) xs) = g x"
proof (induction xs)
  case (Cons y ys)
  have z: "delta_for p (map (\<lambda>y. (f y, g y)) zs) = 0" if "p \<notin> f ` set zs" for p zs
    using that by (induction zs) auto
  show ?case using Cons z [of "f x" ys] by (auto simp: image_iff)
qed simp

end
