(* ===== verification/GRN_UseCases.thy ===== *)
theory GRN_UseCases
  imports Good_Receipt PO_Port
begin

text \<open>
  Persistence and use cases of the goods-receipt module (\<open>good-receipt-note/infrastructure\<close>,
  \<open>good-receipt-note/application/usecases\<close>). Its database extends the one of the
  purchase-order module, whose public port posting and reversing call in the same
  transaction. \<open>reverse_check\<close> and \<open>reverse_apply\<close> are the two halves of
  \<open>ReverseGrnUseCase.execute\<close>, before and from the document number on, so that the
  interleaving of two reversals can be stated.
\<close>

section \<open>Rows\<close>

record grn_line_row =
  glr_productId :: string
  glr_orderedQuantity :: int
  glr_receivedQuantity :: int
  glr_acceptedQuantity :: int
  glr_rejectedQuantity :: int
  glr_unitPrice :: int
  glr_total :: int

record grn_data =
  gd_id :: string
  gd_grnNumber :: string
  gd_purchaseOrderId :: string
  gd_vendorId :: string
  gd_status :: grn_status
  gd_currency :: string
  gd_subtotal :: int
  gd_total :: int
  gd_receivedAt :: "int option"
  gd_reversalOfId :: "string option"
  gd_createdBy :: "string option"
  gd_receivedBy :: "string option"
  gd_postedBy :: "string option"
  gd_cancelledBy :: "string option"
  gd_createdAt :: int
  gd_updatedAt :: int

record grn_row =
  gor_data :: grn_data
  gor_lines :: "grn_line_row list"
  gor_version :: int
  gor_tenantId :: "string option"
  gor_companyId :: string

abbreviation gor_id :: "grn_row \<Rightarrow> string" where
  "gor_id r \<equiv> gd_id (gor_data r)"

record grn_db = po_db +
  gt_notes :: "grn_row list"
  gt_replica :: "grn_row list"

section \<open>The mapper\<close>

definition grn_toDomain_line :: "grn_line_row \<Rightarrow> grn_line" where
  "grn_toDomain_line l = grnLine_create (glr_productId l) (N (glr_orderedQuantity l))
     (N (glr_receivedQuantity l)) (number_of_decimal (glr_unitPrice l))
     (Some (N (glr_acceptedQuantity l))) (Some (N (glr_rejectedQuantity l))) None"

definition grn_toDomain :: "grn_row \<Rightarrow> good_receipt" where
  "grn_toDomain row = (let d = gor_data row in
     \<lparr>gr_id = gd_id d, gr_version = gor_version row, gr_events = [], gr_grnNumber = gd_grnNumber d,
      gr_purchaseOrderId = gd_purchaseOrderId d, gr_vendorId = gd_vendorId d, gr_status = gd_status d,
      gr_currency = gd_currency d, gr_lines = map grn_toDomain_line (gor_lines row),
      gr_receivedAt = gd_receivedAt d, gr_reversalOfId = gd_reversalOfId d,
      gr_createdBy = gd_createdBy d, gr_receivedBy = gd_receivedBy d, gr_postedBy = gd_postedBy d,
      gr_cancelledBy = gd_cancelledBy d, gr_createdAt = gd_createdAt d, gr_updatedAt = gd_updatedAt d\<rparr>)"

definition grn_toRow :: "env \<Rightarrow> good_receipt \<Rightarrow> grn_data result" where
  "grn_toRow e g =
     and_then (db_numeric e (grn_subtotal (gr_lines g))) (\<lambda>sub.
       Inr \<lparr>gd_id = gr_id g, gd_grnNumber = gr_grnNumber g, gd_purchaseOrderId = gr_purchaseOrderId g,
            gd_vendorId = gr_vendorId g, gd_status = gr_status g, gd_currency = gr_currency g,
            gd_subtotal = sub, gd_total = sub, gd_receivedAt = gr_receivedAt g,
            gd_reversalOfId = gr_reversalOfId g, gd_createdBy = gr_createdBy g,
            gd_receivedBy = gr_receivedBy g, gd_postedBy = gr_postedBy g,
            gd_cancelledBy = gr_cancelledBy g, gd_createdAt = gr_createdAt g,
            gd_updatedAt = gr_updatedAt g\<rparr>)"

text \<open>The tracking entries of a line are not among the columns written.\<close>

definition grn_toLineRow :: "env \<Rightarrow> grn_line \<Rightarrow> grn_line_row result" where
  "grn_toLineRow e l =
     and_then (db_int (gl_orderedQuantity l)) (\<lambda>ordered.
     and_then (db_int (gl_receivedQuantity l)) (\<lambda>received.
     and_then (db_int (gl_acceptedQuantity l)) (\<lambda>accepted.
     and_then (db_int (gl_rejectedQuantity l)) (\<lambda>rejected.
     and_then (db_numeric e (gl_unitPrice l)) (\<lambda>price.
     and_then (db_numeric e (gl_total l)) (\<lambda>tot.
       Inr \<lparr>glr_productId = gl_productId l, glr_orderedQuantity = ordered,
            glr_receivedQuantity = received, glr_acceptedQuantity = accepted,
            glr_rejectedQuantity = rejected, glr_unitPrice = price, glr_total = tot\<rparr>))))))"

definition grn_toLinesCreateInput :: "env \<Rightarrow> good_receipt \<Rightarrow> grn_line_row list result" where
  "grn_toLinesCreateInput e g = map_result (grn_toLineRow e) (gr_lines g)"

section \<open>The repositories\<close>

definition grn_unique :: "grn_row list \<Rightarrow> bool" where
  "grn_unique rows \<longleftrightarrow> distinct (map gor_id rows) \<and>
     distinct (map (\<lambda>r. (gor_companyId r, gd_grnNumber (gor_data r))) rows) \<and>
     (\<forall>r \<in> set rows. distinct (map glr_productId (gor_lines r)))"

definition grn_constraints :: "grn_row list \<Rightarrow> unit result" where
  "grn_constraints rows = check (grn_unique rows) (throw_plain ''Unique constraint failed'')"

definition grn_save :: "env \<Rightarrow> good_receipt \<Rightarrow> (unit, 'a grn_db_scheme) tx" where
  "grn_save e g =
     tx_then (tx_lift (grn_toRow e g)) (\<lambda>data.
     tx_then (tx_lift (grn_toLinesCreateInput e g)) (\<lambda>lines.
     tx_then (tx_read gt_notes) (\<lambda>rows.
       let rows' = insert_row
             \<lparr>gor_data = data, gor_lines = lines, gor_version = 1,
              gor_tenantId = ctx_tenantId (e_ctx e), gor_companyId = resolveCompanyId (e_ctx e)\<rparr> rows
       in tx_then (tx_lift (grn_constraints rows')) (\<lambda>_.
            tx_write (\<lambda>db. db\<lparr>gt_notes := rows'\<rparr>)))))"

definition grn_cas :: "env \<Rightarrow> good_receipt \<Rightarrow> grn_row \<Rightarrow> bool" where
  "grn_cas e g r \<longleftrightarrow> gor_id r = gr_id g \<and> gor_version r = gr_version g \<and>
     owned_scope (e_ctx e) (gor_tenantId r)"

definition grn_written :: "grn_data \<Rightarrow> grn_line_row list \<Rightarrow> grn_row \<Rightarrow> grn_row" where
  "grn_written data lines r =
     r\<lparr>gor_data := data, gor_lines := lines, gor_version := gor_version r + 1\<rparr>"

definition grn_update :: "env \<Rightarrow> good_receipt \<Rightarrow> (unit, 'a grn_db_scheme) tx" where
  "grn_update e g =
     tx_then (tx_lift (grn_toRow e g)) (\<lambda>data.
     tx_then (tx_read gt_notes) (\<lambda>rows.
       if fst (update_many (grn_cas e g) (grn_written data []) rows) = 0
       then tx_lift (conflict ''GRN was modified concurrently (optimistic concurrency conflict)'')
       else
         tx_then (tx_lift (grn_toLinesCreateInput e g)) (\<lambda>lines.
           let rows' = snd (update_many (grn_cas e g) (grn_written data lines) rows)
           in tx_then (tx_lift (grn_constraints rows')) (\<lambda>_.
                tx_write (\<lambda>db. db\<lparr>gt_notes := rows'\<rparr>)))))"

definition grn_find :: "env \<Rightarrow> (grn_row \<Rightarrow> bool) \<Rightarrow> (good_receipt option, 'a grn_db_scheme) tx" where
  "grn_find e wanted =
     tx_read (\<lambda>db. map_option grn_toDomain
       (find_first (\<lambda>r. wanted r \<and> owned_scope (e_ctx e) (gor_tenantId r)) (gt_notes db)))"

definition grn_findById :: "env \<Rightarrow> string \<Rightarrow> (good_receipt option, 'a grn_db_scheme) tx" where
  "grn_findById e i = grn_find e (\<lambda>r. gor_id r = i)"

definition grn_findByGrnNumber :: "env \<Rightarrow> string \<Rightarrow> (good_receipt option, 'a grn_db_scheme) tx" where
  "grn_findByGrnNumber e n = grn_find e (\<lambda>r. gd_grnNumber (gor_data r) = n)"

definition grn_findByReversalOfId :: "env \<Rightarrow> string \<Rightarrow> (good_receipt option, 'a grn_db_scheme) tx" where
  "grn_findByReversalOfId e i = grn_find e (\<lambda>r. gd_reversalOfId (gor_data r) = Some i)"

text \<open>The query repository selects without \<open>include: { lines: true }\<close>: the record has no lines.\<close>

record grn_query_record =
  gq_data :: grn_data
  gq_lines :: "grn_line_row list option"

definition grn_query_findById :: "env \<Rightarrow> string \<Rightarrow> (grn_query_record option, 'a grn_db_scheme) tx" where
  "grn_query_findById e i =
     tx_read (\<lambda>db. map_option (\<lambda>r. \<lparr>gq_data = gor_data r, gq_lines = None\<rparr>)
       (find_first (\<lambda>r. gor_id r = i \<and> owned_scope (e_ctx e) (gor_tenantId r)) (gt_replica db)))"

definition get_grn :: "env \<Rightarrow> string \<Rightarrow> (grn_query_record, 'a grn_db_scheme) tx" where
  "get_grn e i = tx_then (grn_query_findById e i) (\<lambda>r.
     case r of None \<Rightarrow> tx_lift (not_found ''GRN not found'') | Some x \<Rightarrow> tx_return x)"

section \<open>Events\<close>

definition posted_line_json :: "posted_line \<Rightarrow> json" where
  "posted_line_json l = JObj [(''grnLineId'', JStr (ps_grnLineId l)), (''productId'', JStr (ps_productId l)),
     (''acceptedQuantity'', JNum (ps_acceptedQuantity l)), (''unitPrice'', JNum (ps_unitPrice l))]"

fun grn_event_message :: "grn_event \<Rightarrow> string \<times> (string \<times> json) list" where
  "grn_event_message (GrnCreated i n p) = (''GrnCreated'',
     [(''grnId'', JObj [(''value'', JStr i)]), (''grnNumber'', JStr n), (''purchaseOrderId'', JStr p)])"
| "grn_event_message (GrnLineAdded i p) = (''GrnLineAdded'',
     [(''grnId'', JObj [(''value'', JStr i)]), (''productId'', JStr p)])"
| "grn_event_message (GrnReceived i) = (''GrnReceived'', [(''grnId'', JObj [(''value'', JStr i)])])"
| "grn_event_message (GrnCompleted i) = (''GrnCompleted'', [(''grnId'', JObj [(''value'', JStr i)])])"
| "grn_event_message (GrnCancelled i) = (''GrnCancelled'', [(''grnId'', JObj [(''value'', JStr i)])])"
| "grn_event_message (GoodsReceiptPosted i p ls) = (''GoodsReceiptPosted'',
     [(''grnId'', JStr i), (''purchaseOrderId'', JStr p), (''lines'', JArr (map posted_line_json ls))])"
| "grn_event_message (GoodsReceiptReversed i orig p ls) = (''GoodsReceiptReversed'',
     [(''grnId'', JStr i), (''reversalOfId'', JStr orig), (''purchaseOrderId'', JStr p),
      (''lines'', JArr (map posted_line_json ls))])"

definition grn_publish :: "env \<Rightarrow> good_receipt \<Rightarrow> (unit, 'a grn_db_scheme) tx" where
  "grn_publish e g = send_events e ''GoodReceiptNote'' (gr_id g) (map grn_event_message (gr_events g))"

definition grn_load :: "env \<Rightarrow> string \<Rightarrow> (good_receipt, 'a grn_db_scheme) tx" where
  "grn_load e i = tx_then (grn_findById e i) (\<lambda>found.
     case found of None \<Rightarrow> tx_lift (not_found ''GRN not found'') | Some g \<Rightarrow> tx_return g)"

definition grn_status_change :: "grn_status \<Rightarrow> (string \<times> json) list" where
  "grn_status_change s = [(''status'', JStr (grn_status_name s))]"

section \<open>Creating and editing a note\<close>

record create_grn_request =
  cq_purchaseOrderId :: string
  cq_vendorId :: "string option"
  cq_currency :: "string option"
  cq_lines :: "create_grn_line list"

definition snap_line :: "po_query_record \<Rightarrow> create_grn_line \<Rightarrow> create_grn_line result" where
  "snap_line po line =
     (case find_first (\<lambda>l. plr_productId l = cl_productId line) (rev (pq_lines po)) of
        None \<Rightarrow> conflict (''Product '' @ cl_productId line @ '' is not on the purchase order'')
      | Some poLine \<Rightarrow> Inr \<lparr>cl_productId = cl_productId line,
          cl_orderedQuantity = N (plr_quantity poLine), cl_receivedQuantity = cl_receivedQuantity line,
          cl_unitPrice = number_of_decimal (plr_unitPrice poLine)\<rparr>)"

definition create_grn :: "env \<Rightarrow> create_grn_request \<Rightarrow> string option \<Rightarrow> (string, 'a grn_db_scheme) tx" where
  "create_grn e input actorId =
     tx_then (tx_lift (require_company_and_access (e_abac e) (e_ctx e) no_company_404 ''Grn'' ''create'')) (\<lambda>_.
     tx_then (facade_getPurchaseOrder e (cq_purchaseOrderId input)) (\<lambda>po.
       if pq_status po \<noteq> ISSUED \<and> pq_status po \<noteq> APPROVED
       then tx_lift (conflict (''Purchase order is not eligible for receiving (status: '' @
              po_status_name (pq_status po) @ '')''))
       else
         let vendorId = coalesce (cq_vendorId input) (pq_vendorId po)
         in if vendorId \<noteq> pq_vendorId po
            then tx_lift (conflict ''GRN vendor does not match the purchase order vendor'')
            else
              tx_then (nextNumber e ''grn.number'' (Some ''GRN-'') (Some 8)) (\<lambda>grnNumber.
              tx_then (tx_lift (map_result (snap_line po) (cq_lines input))) (\<lambda>snapped.
              tx_then (draw_uuid e) (\<lambda>uuid.
              tx_then (tx_lift (grn_create (e_now e) uuid
                  \<lparr>cg_grnNumber = grnNumber, cg_purchaseOrderId = cq_purchaseOrderId input,
                   cg_vendorId = vendorId, cg_currency = currency_or_default e (cq_currency input),
                   cg_createdBy = actorId, cg_lines = snapped\<rparr>)) (\<lambda>g.
              tx_then (grn_save e g) (\<lambda>_.
              tx_then (grn_publish e g) (\<lambda>_. tx_return (gr_id g)))))))))"

record grn_line_request =
  gq_id :: string
  gq_productId :: string
  gq_orderedQuantity :: number
  gq_receivedQuantity :: number
  gq_unitPrice :: number

definition add_grn_line :: "env \<Rightarrow> grn_line_request \<Rightarrow> (string, 'a grn_db_scheme) tx" where
  "add_grn_line e input =
     tx_then (grn_load e (gq_id input)) (\<lambda>g.
     tx_then (tx_lift (grn_addLine (e_now e) (gq_productId input) (gq_orderedQuantity input)
                (gq_receivedQuantity input) (gq_unitPrice input) g)) (\<lambda>g'.
     tx_then (grn_update e g') (\<lambda>_.
     tx_then (grn_publish e g') (\<lambda>_. tx_return (gr_id g')))))"

definition set_grn_line_tracking ::
  "env \<Rightarrow> string \<Rightarrow> string \<Rightarrow> tracking_entry list \<Rightarrow> (string, 'a grn_db_scheme) tx" where
  "set_grn_line_tracking e i productId entries =
     tx_then (grn_load e i) (\<lambda>g.
       let g' = setLineTracking (e_now e) productId entries g
       in tx_then (grn_update e g') (\<lambda>_.
          tx_then (grn_publish e g') (\<lambda>_. tx_return (gr_id g'))))"

definition record_inspection_result ::
  "env \<Rightarrow> string \<Rightarrow> inspection_line list \<Rightarrow> (string, 'a grn_db_scheme) tx" where
  "record_inspection_result e i lines =
     tx_then (grn_load e i) (\<lambda>g.
     tx_then (tx_lift (recordInspectionResult (e_now e) lines g)) (\<lambda>g'.
     tx_then (grn_update e g') (\<lambda>_.
     tx_then (grn_publish e g') (\<lambda>_. tx_return (gr_id g')))))"

section \<open>Status changes\<close>

definition receive_grn :: "env \<Rightarrow> string \<Rightarrow> string option \<Rightarrow> (string, 'a grn_db_scheme) tx" where
  "receive_grn e i actor =
     (let actorId = actor_of e actor
      in tx_then (grn_load e i) (\<lambda>g.
         tx_then (tx_lift (grn_receive (e_now e) actorId g)) (\<lambda>g'.
         tx_then (grn_update e g') (\<lambda>_.
         tx_then (audit_record e ''grn.receive'' ''GoodReceiptNote'' (gr_id g') actorId
                    (grn_status_change (gr_status g'))) (\<lambda>_.
         tx_then (grn_publish e g') (\<lambda>_. tx_return (gr_id g')))))))"

definition cancel_grn :: "env \<Rightarrow> string \<Rightarrow> string option \<Rightarrow> (string, 'a grn_db_scheme) tx" where
  "cancel_grn e i actor =
     (let actorId = actor_of e actor
      in tx_then (grn_load e i) (\<lambda>g.
         tx_then (tx_lift (grn_cancel (e_now e) actorId g)) (\<lambda>g'.
         tx_then (grn_update e g') (\<lambda>_.
         tx_then (audit_record e ''grn.cancel'' ''GoodReceiptNote'' (gr_id g') actorId
                    (grn_status_change (gr_status g'))) (\<lambda>_.
         tx_then (grn_publish e g') (\<lambda>_. tx_return i))))))"

definition receipt_of_post :: "good_receipt \<Rightarrow> receipt_request" where
  "receipt_of_post g = \<lparr>rq_purchaseOrderId = gr_purchaseOrderId g,
     rq_lines = map (\<lambda>l. (Some (gl_productId l), postedQuantity l)) (gr_lines g), rq_actorId = None\<rparr>"

text \<open>The receipt is registered before the status of the note is looked at.\<close>

definition post_grn :: "env \<Rightarrow> string \<Rightarrow> string option \<Rightarrow> (string, 'a grn_db_scheme) tx" where
  "post_grn e i actor =
     (let actorId = actor_of e actor
      in tx_then (grn_load e i) (\<lambda>g.
         tx_then (facade_registerReceipt e (receipt_of_post g)) (\<lambda>_.
         tx_then (tx_lift (grn_complete (e_now e) actorId g)) (\<lambda>g'.
         tx_then (grn_update e g') (\<lambda>_.
         tx_then (audit_record e ''grn.post'' ''GoodReceiptNote'' (gr_id g') actorId
                    (grn_status_change (gr_status g'))) (\<lambda>_.
         tx_then (grn_publish e g') (\<lambda>_. tx_return (gr_id g'))))))))"

section \<open>Reversal\<close>

definition reverse_check :: "env \<Rightarrow> string \<Rightarrow> (good_receipt, 'a grn_db_scheme) tx" where
  "reverse_check e i =
     tx_then (grn_load e i) (\<lambda>original.
     tx_then (tx_lift (ginv_reversible (gr_status original))) (\<lambda>_.
     tx_then (grn_findByReversalOfId e (gr_id original)) (\<lambda>alreadyReversed.
       case alreadyReversed of
         Some _ \<Rightarrow> tx_lift (conflict ''GRN has already been reversed'')
       | None \<Rightarrow> tx_return original)))"

definition receipt_of_reversal :: "good_receipt \<Rightarrow> receipt_request" where
  "receipt_of_reversal original = \<lparr>rq_purchaseOrderId = gr_purchaseOrderId original,
     rq_lines = map (\<lambda>l. (Some (rv_productId l), rv_receivedQuantity l)) (map mirror_line (gr_lines original)),
     rq_actorId = None\<rparr>"

definition reverse_apply :: "env \<Rightarrow> string option \<Rightarrow> good_receipt \<Rightarrow> (string, 'a grn_db_scheme) tx" where
  "reverse_apply e actor original =
     (let actorId = actor_of e actor
      in tx_then (nextNumber e ''grn.number'' (Some ''GRN-'') (Some 8)) (\<lambda>grnNumber.
         tx_then (draw_uuid e) (\<lambda>uuid.
         tx_then (tx_lift (grn_createReversal (e_now e) uuid
             \<lparr>cv_grnNumber = grnNumber, cv_reversalOfId = gr_id original,
              cv_purchaseOrderId = gr_purchaseOrderId original, cv_vendorId = gr_vendorId original,
              cv_currency = gr_currency original, cv_actorId = actorId,
              cv_lines = map mirror_line (gr_lines original)\<rparr>)) (\<lambda>reversal.
         tx_then (facade_registerReceipt e (receipt_of_reversal original)) (\<lambda>_.
         tx_then (grn_save e reversal) (\<lambda>_.
         tx_then (audit_write e (Some (coalesce (ctx_tenantId (e_ctx e)) [])) (Some (coalesce (ctx_companyId (e_ctx e)) []))
             ''grn.reverse'' ''GoodReceiptNote'' (gr_id original) actorId
             ((''reversalId'', JStr (gr_id reversal)) # grn_status_change (gr_status original))) (\<lambda>_.
         tx_then (grn_publish e reversal) (\<lambda>_. tx_return (gr_id reversal)))))))))"

definition reverse_grn :: "env \<Rightarrow> string \<Rightarrow> string option \<Rightarrow> (string, 'a grn_db_scheme) tx" where
  "reverse_grn e i actor = tx_then (reverse_check e i) (reverse_apply e actor)"

end
