(* ===== verification/GRN_Properties.thy ===== *)
theory GRN_Properties
  imports GRN_UseCases
begin

text \<open>
  What inspection, posting and reversal of a goods receipt do to the note and to the
  receiving balance of its order. The balance facts come from the interface
  \<open>receipt_port\<close>, interpreted for the purchase-order module as \<open>po_port\<close>.
\<close>

section \<open>Inspection\<close>

lemma js_le_of_not_lt: "x \<noteq> NaN \<Longrightarrow> \<not> js_lt x (N 0) \<Longrightarrow> js_le (N 0) x"
  by (cases x) (auto simp: js_le_def js_eq_def)

lemma inspection_balance_ok:
  assumes "ginv_inspection_balance r a b = Inr u"
  shows "js_eq (js_add a b) r" "js_le (N 0) a" "js_le (N 0) b"
proof -
  have e: "js_eq (js_add a b) r" "\<not> js_lt a (N 0)" "\<not> js_lt b (N 0)"
    using assms by (auto simp: ginv_inspection_balance_def split: if_splits)
  then show "js_eq (js_add a b) r" by simp
  have "a \<noteq> NaN" using e(1) by (cases a) (simp_all add: js_eq_def)
  then show "js_le (N 0) a" using e(2) by (rule js_le_of_not_lt)
  have "b \<noteq> NaN" using e(1) by (cases a; cases b) (simp_all add: js_eq_def)
  then show "js_le (N 0) b" using e(3) by (rule js_le_of_not_lt)
qed

definition inspects :: "inspection_line list \<Rightarrow> string \<Rightarrow> bool" where
  "inspects input p \<longleftrightarrow> p \<in> in_productId ` set input"

definition line_inspected :: "grn_line list \<Rightarrow> string set \<Rightarrow> grn_line \<Rightarrow> bool" where
  "line_inspected old S l \<longleftrightarrow> (\<exists>k \<in> set old. gl_productId k = gl_productId l \<and>
     gl_receivedQuantity k = gl_receivedQuantity l \<and> gl_orderedQuantity k = gl_orderedQuantity l \<and>
     gl_unitPrice k = gl_unitPrice l \<and>
     (if gl_productId l \<in> S then inspected_ok l else l = k))"

lemma inspect_lines:
  assumes "for_each inspect_line ls input = Inr ls'"
    and "distinct (map gl_productId ls)" "\<forall>l \<in> set ls. line_inspected old S l"
  shows "distinct (map gl_productId ls') \<and> (\<forall>l \<in> set ls'. line_inspected old (S \<union> in_productId ` set input) l)"
  using assms
proof (induction input arbitrary: ls S)
  case Nil
  then show ?case by simp
next
  case (Cons i input)
  obtain ls1 where step: "inspect_line ls i = Inr ls1" and rest: "for_each inspect_line ls1 input = Inr ls'"
    using Cons.prems(1) by (auto simp: res_simps)
  obtain line where line: "List.find (is_grn_product (in_productId i)) ls = Some line"
    and bal: "ginv_inspection_balance (gl_receivedQuantity line) (in_acceptedQuantity i) (in_rejectedQuantity i) = Inr ()"
    and ls1: "ls1 = map_where (is_grn_product (in_productId i))
        (gl_withInspection (in_acceptedQuantity i) (in_rejectedQuantity i)) ls"
    using step by (auto simp: inspect_line_def res_simps split: option.splits)
  have lm: "line \<in> set ls" "gl_productId line = in_productId i" using find_Some_iff2 [OF line] by auto
  have d1: "distinct (map gl_productId ls1)"
    unfolding ls1 using Cons.prems(2) by (subst map_map_where) (simp_all add: gl_withInspection_def)
  have "line_inspected old (insert (in_productId i) S) l" if "l \<in> set ls1" for l
  proof -
    obtain x where x: "x \<in> set ls" "is_grn_product (in_productId i) x \<and>
        l = gl_withInspection (in_acceptedQuantity i) (in_rejectedQuantity i) x \<or>
        \<not> is_grn_product (in_productId i) x \<and> l = x"
      using \<open>l \<in> set ls1\<close> unfolding ls1 by (auto dest!: set_map_where_origin)
    have xo: "line_inspected old S x" using Cons.prems(3) x(1) by blast
    show ?thesis
    proof (cases "gl_productId x = in_productId i")
      case True
      then have "x = line" using distinct_key_unique [OF Cons.prems(2) x(1) lm(1)] lm(2) by simp
      then have "inspected_ok l"
        using inspection_balance_ok [OF bal] x(2) True by (auto simp: inspected_ok_def gl_withInspection_def)
      then show ?thesis using xo x(2) True by (auto simp: line_inspected_def gl_withInspection_def)
    next
      case False
      then show ?thesis using xo x(2) by (auto simp: line_inspected_def)
    qed
  qed
  then have "\<forall>l \<in> set ls1. line_inspected old (insert (in_productId i) S) l" by blast
  from Cons.IH [OF rest d1 this] show ?case by (simp add: insert_commute Un_commute)
qed

text \<open>
  Inspection balances: after a successful inspection every inspected line has non-negative
  accepted and rejected quantities whose sum is the received quantity; received and ordered
  quantities and prices of all lines, and the lines that were not inspected, are unchanged.
\<close>
theorem inspection_balances:
  assumes "recordInspectionResult now input g = Inr g'" "distinct (map gl_productId (gr_lines g))"
  shows "gr_status g = G_RECEIVED \<and> gr_status g' = G_RECEIVED \<and>
    (\<forall>l \<in> set (gr_lines g'). \<exists>k \<in> set (gr_lines g). gl_productId k = gl_productId l \<and>
       gl_receivedQuantity k = gl_receivedQuantity l \<and> gl_orderedQuantity k = gl_orderedQuantity l \<and>
       gl_unitPrice k = gl_unitPrice l \<and>
       (if inspects input (gl_productId l) then inspected_ok l else l = k))"
proof -
  obtain ls where ls: "for_each inspect_line (gr_lines g) input = Inr ls" "gr_lines g' = ls"
    "gr_status g = G_RECEIVED" "gr_status g' = G_RECEIVED"
    using assms(1) by (auto simp: recordInspectionResult_def res_simps split: if_splits)
  have "\<forall>l \<in> set (gr_lines g). line_inspected (gr_lines g) {} l" by (auto simp: line_inspected_def)
  from inspect_lines [OF ls(1) assms(2) this] ls(2-4) show ?thesis
    by (auto simp: line_inspected_def inspects_def)
qed

section \<open>Statements and frames\<close>

lemma grn_constraints_Inr [simp]: "grn_constraints rows = Inr u \<longleftrightarrow> grn_unique rows"
  by (auto simp: grn_constraints_def)

lemma grn_save_Inr:
  "grn_save e g db = Inr (u, db') \<longleftrightarrow> (\<exists>data lines.
     grn_toRow e g = Inr data \<and> grn_toLinesCreateInput e g = Inr lines \<and>
     db' = db\<lparr>gt_notes := insert_row
             \<lparr>gor_data = data, gor_lines = lines, gor_version = 1,
              gor_tenantId = ctx_tenantId (e_ctx e), gor_companyId = resolveCompanyId (e_ctx e)\<rparr> (gt_notes db)\<rparr> \<and>
     grn_unique (gt_notes db'))"
  by (auto simp: grn_save_def res_simps Let_def)

lemma grn_update_Inr:
  "grn_update e g db = Inr (u, db') \<longleftrightarrow> (\<exists>data lines.
     grn_toRow e g = Inr data \<and> grn_toLinesCreateInput e g = Inr lines \<and>
     (\<exists>r \<in> set (gt_notes db). grn_cas e g r) \<and>
     db' = db\<lparr>gt_notes := map_where (grn_cas e g) (grn_written data lines) (gt_notes db)\<rparr> \<and>
     grn_unique (gt_notes db'))"
  by (auto simp: grn_update_def res_simps Let_def update_many_def filter_empty_conv split: if_splits)

definition orders_same :: "'a po_db_scheme \<Rightarrow> 'a po_db_scheme \<Rightarrow> bool" where
  "orders_same db db' \<longleftrightarrow> pt_orders db' = pt_orders db"

interpretation same_orders: tx_relation orders_same
  by unfold_locales (auto simp: orders_same_def)

definition notes_same :: "'a grn_db_scheme \<Rightarrow> 'a grn_db_scheme \<Rightarrow> bool" where
  "notes_same db db' \<longleftrightarrow> gt_notes db' = gt_notes db"

interpretation same_notes: po_relation "notes_same :: 'a grn_db_scheme \<Rightarrow> 'a grn_db_scheme \<Rightarrow> bool" e for e
  by unfold_locales
    (auto intro!: tx_relI simp: notes_same_def res_simps send_event_Inr po_save_Inr po_update_Inr
      dest!: nextNumber_frame audit_frame)

lemma po_balance_orders: "pt_orders db' = pt_orders db \<Longrightarrow> po_balance db' i p = po_balance db i p"
  by (simp add: po_balance_def)

lemma orders_ok_same: "pt_orders db' = pt_orders db \<Longrightarrow> orders_ok db' = orders_ok db"
  by (simp add: orders_ok_def)

lemma grn_publish_orders: "tx_rel orders_same (grn_publish e g)"
  unfolding grn_publish_def send_events_def
  by (intro same_orders.rel_for) (auto intro!: tx_relI simp: send_event_Inr orders_same_def)

lemma grn_publish_notes: "tx_rel notes_same (grn_publish e g)"
  unfolding grn_publish_def send_events_def
  by (intro same_notes.rel_for) (auto intro!: tx_relI simp: send_event_Inr notes_same_def)

lemma register_notes: "register_purchase_order_receipt e rq db = Inr (res, db') \<Longrightarrow> gt_notes db' = gt_notes db"
  using same_notes.rel_receipt [of e rq] by (auto simp: notes_same_def dest: tx_relD)

lemma grn_unique_ids:
  "grn_unique rows \<Longrightarrow> r \<in> set rows \<Longrightarrow> r' \<in> set rows \<Longrightarrow> gor_id r = gor_id r' \<Longrightarrow> r = r'"
  by (auto simp: grn_unique_def dest: distinct_key_unique [where k = gor_id])

lemma grn_load_Inr:
  "grn_load e i db = Inr (g, db') \<longleftrightarrow> db' = db \<and> (\<exists>r.
     find_first (\<lambda>x. gor_id x = i \<and> owned_scope (e_ctx e) (gor_tenantId x)) (gt_notes db) = Some r \<and>
     g = grn_toDomain r)"
  by (auto simp: grn_load_def grn_findById_def grn_find_def res_simps split: option.splits)

lemma grn_load_row:
  assumes "grn_load e i db = Inr (g, db')" "grn_unique (gt_notes db)" "r \<in> set (gt_notes db)" "gor_id r = i"
  shows "g = grn_toDomain r \<and> owned_scope (e_ctx e) (gor_tenantId r)"
proof -
  obtain x where x: "find_first (\<lambda>x. gor_id x = i \<and> owned_scope (e_ctx e) (gor_tenantId x)) (gt_notes db) = Some x"
    "g = grn_toDomain x" using assms(1) by (auto simp: grn_load_Inr)
  then have "x = r" using find_first_Some [OF x(1)] grn_unique_ids [OF assms(2), of x r] assms(3,4) by simp
  then show ?thesis using x(2) find_first_Some [OF x(1)] by simp
qed

section \<open>Quantities of a stored note\<close>

definition posted_int :: "grn_line_row \<Rightarrow> int" where
  "posted_int l = (if glr_acceptedQuantity l > 0 then glr_acceptedQuantity l else glr_receivedQuantity l)"

definition posted_entries :: "grn_row \<Rightarrow> (string \<times> int) list" where
  "posted_entries r = map (\<lambda>l. (glr_productId l, posted_int l)) (gor_lines r)"

lemma postedQuantity_row: "postedQuantity (grn_toDomain_line l) = N (posted_int l)"
  by (simp add: postedQuantity_def grn_toDomain_line_def grnLine_create_def posted_int_def)

lemma grn_toDomain_fields [simp]:
  "gr_id (grn_toDomain r) = gor_id r" "gr_version (grn_toDomain r) = gor_version r"
  "gr_status (grn_toDomain r) = gd_status (gor_data r)" "gr_events (grn_toDomain r) = []"
  "gr_purchaseOrderId (grn_toDomain r) = gd_purchaseOrderId (gor_data r)"
  "gr_lines (grn_toDomain r) = map grn_toDomain_line (gor_lines r)"
  "gr_reversalOfId (grn_toDomain r) = gd_reversalOfId (gor_data r)"
  by (simp_all add: grn_toDomain_def Let_def)

lemma gl_productId_row [simp]: "gl_productId (grn_toDomain_line l) = glr_productId l"
  by (simp add: grn_toDomain_line_def grnLine_create_def)

lemma receipt_of_post_row:
  "rq_lines (receipt_of_post (grn_toDomain r)) = int_entries (posted_entries r)"
  "rq_purchaseOrderId (receipt_of_post (grn_toDomain r)) = gd_purchaseOrderId (gor_data r)"
  by (simp_all add: receipt_of_post_def int_entries_def posted_entries_def postedQuantity_row o_def)

lemma receipt_of_reversal_row:
  "rq_lines (receipt_of_reversal (grn_toDomain r)) = int_entries (map (\<lambda>(q, d). (q, - d)) (posted_entries r))"
  "rq_purchaseOrderId (receipt_of_reversal (grn_toDomain r)) = gd_purchaseOrderId (gor_data r)"
  by (simp_all add: receipt_of_reversal_def int_entries_def posted_entries_def mirror_line_def Let_def
      postedQuantity_row o_def)

text \<open>Columns that hold integers read back as they were.\<close>

definition same_quantities :: "grn_line_row \<Rightarrow> grn_line_row \<Rightarrow> bool" where
  "same_quantities a b \<longleftrightarrow> glr_productId a = glr_productId b \<and> glr_orderedQuantity a = glr_orderedQuantity b \<and>
     glr_receivedQuantity a = glr_receivedQuantity b \<and> glr_acceptedQuantity a = glr_acceptedQuantity b \<and>
     glr_rejectedQuantity a = glr_rejectedQuantity b"

lemma grn_toLineRow_same: "grn_toLineRow e (grn_toDomain_line l) = Inr l' \<Longrightarrow> same_quantities l' l"
  by (auto simp: grn_toLineRow_def grn_toDomain_line_def grnLine_create_def res_simps same_quantities_def db_int_Inr simp del: db_int_N)

lemma posted_entries_same:
  "list_all2 same_quantities (gor_lines a) (gor_lines b) \<Longrightarrow> posted_entries a = posted_entries b"
  unfolding posted_entries_def
  by (induction rule: list_all2_induct) (auto simp: same_quantities_def posted_int_def)

end
