(* ===== verification/GRN_Posting.thy ===== *)
theory GRN_Posting
  imports GRN_Properties
begin

text \<open>
  Posting and reversing a goods receipt against the stored balance of its order: what one
  run does, what a second run of each does, and what two overlapping reversals do.
\<close>

section \<open>One run of posting\<close>

lemma facade_register_Inr [simp]:
  "facade_registerReceipt e rq db = register_purchase_order_receipt e rq db"
  by (simp add: facade_registerReceipt_def)

lemma publish_same:
  assumes "grn_publish e g db = Inr (u, db')"
  shows "pt_orders db' = pt_orders db" "gt_notes db' = gt_notes db"
  using tx_relD [OF grn_publish_orders assms] tx_relD [OF grn_publish_notes assms]
  by (simp_all add: orders_same_def notes_same_def)

lemma post_grn_run:
  assumes "post_grn e i actor db = Inr (x, db')"
  obtains r g' db1 res data lines
  where "r \<in> set (gt_notes db)" "gor_id r = i" "owned_scope (e_ctx e) (gor_tenantId r)"
    "register_purchase_order_receipt e (receipt_of_post (grn_toDomain r)) db = Inr (res, db1)"
    "grn_complete (e_now e) (actor_of e actor) (grn_toDomain r) = Inr g'"
    "grn_toRow e g' = Inr data" "grn_toLinesCreateInput e g' = Inr lines"
    "pt_orders db' = pt_orders db1"
    "gt_notes db' = map_where (grn_cas e g') (grn_written data lines) (gt_notes db)"
    "grn_unique (gt_notes db')"
proof -
  obtain g db0 res db1 g' db2 v db3 w db4 where steps:
    "grn_load e i db = Inr (g, db0)"
    "register_purchase_order_receipt e (receipt_of_post g) db0 = Inr (res, db1)"
    "grn_complete (e_now e) (actor_of e actor) g = Inr g'"
    "grn_update e g' db1 = Inr (v, db2)"
    "audit_record e ''grn.post'' ''GoodReceiptNote'' (gr_id g') (actor_of e actor)
       (grn_status_change (gr_status g')) db2 = Inr (w, db3)"
    "grn_publish e g' db3 = Inr (v, db4)" "db' = db4"
    using assms unfolding post_grn_def Let_def by (auto simp: res_simps)
  obtain r where r: "find_first (\<lambda>x. gor_id x = i \<and> owned_scope (e_ctx e) (gor_tenantId x)) (gt_notes db) = Some r"
    and g: "g = grn_toDomain r" "db0 = db" using steps(1) by (auto simp: grn_load_Inr)
  obtain data lines where u: "grn_toRow e g' = Inr data" "grn_toLinesCreateInput e g' = Inr lines"
    "db2 = db1\<lparr>gt_notes := map_where (grn_cas e g') (grn_written data lines) (gt_notes db1)\<rparr>"
    "grn_unique (gt_notes db2)"
    using steps(4) by (auto simp: grn_update_Inr)
  have "gt_notes db1 = gt_notes db" using register_notes [OF steps(2)] g(2) by simp
  moreover have "pt_orders db3 = pt_orders db2" "gt_notes db3 = gt_notes db2"
    using audit_frame [OF steps(5)] by auto
  ultimately show thesis
    using that [OF _ _ _ steps(2)[unfolded g] steps(3)[unfolded g] u(1,2)] find_first_Some [OF r]
      publish_same [OF steps(6)] steps(7) u(3,4) by simp
qed

lemma grn_complete_Inr:
  "grn_complete now a g = Inr g' \<longleftrightarrow> gr_status g \<in> {G_RECEIVED, G_COMPLETED} \<and>
     g' = grn_addEvent (GoodsReceiptPosted (gr_id g) (gr_purchaseOrderId g)
              (map (\<lambda>l. posted_line_of (gr_id g) (postedQuantity l) l) (gr_lines g)))
            (grn_addEvent (GrnCompleted (gr_id g))
              (g\<lparr>gr_status := G_COMPLETED, gr_postedBy := a, gr_updatedAt := now\<rparr>))"
  by (cases "gr_status g") (auto simp: grn_complete_def ginv_transition_def)

lemma toLineRow_lines:
  assumes "grn_toLinesCreateInput e g = Inr lines" "gr_lines g = map grn_toDomain_line rows"
  shows "list_all2 same_quantities lines rows"
  using assms grn_toLineRow_same
  by (auto simp: grn_toLinesCreateInput_def map_result_Inr_iff list_all2_conv_all_nth)

lemma grn_toRow_fields:
  assumes "grn_toRow e g = Inr d"
  shows "gd_id d = gr_id g" "gd_status d = gr_status g" "gd_purchaseOrderId d = gr_purchaseOrderId g"
    "gd_reversalOfId d = gr_reversalOfId g"
  using assms by (auto simp: grn_toRow_def res_simps)

text \<open>What a successful posting does, to the note and to the balance of each product on it.\<close>

lemma post_grn_effect:
  assumes post: "post_grn e i actor db = Inr (x, db')" and ok: "orders_ok db" "grn_unique (gt_notes db)"
    and r: "r \<in> set (gt_notes db)" "gor_id r = i"
  shows "gd_status (gor_data r) \<in> {G_RECEIVED, G_COMPLETED}"
    "orders_ok db' \<and> grn_unique (gt_notes db')"
    "\<exists>r' \<in> set (gt_notes db'). gor_id r' = i \<and> gor_version r' = gor_version r + 1 \<and>
       gor_tenantId r' = gor_tenantId r \<and> gd_status (gor_data r') = G_COMPLETED \<and>
       gd_purchaseOrderId (gor_data r') = gd_purchaseOrderId (gor_data r) \<and>
       list_all2 same_quantities (gor_lines r') (gor_lines r)"
    "po_balance db (gd_purchaseOrderId (gor_data r)) p = Some n \<Longrightarrow>
       \<bar>n\<bar> + abs_total (posted_entries r) \<le> 2 ^ 53 \<Longrightarrow>
       po_balance db' (gd_purchaseOrderId (gor_data r)) p = Some (n + delta_for p (posted_entries r))"
proof -
  obtain r0 g' db1 res data lines where r0: "r0 \<in> set (gt_notes db)" "gor_id r0 = i"
      "owned_scope (e_ctx e) (gor_tenantId r0)"
    and reg: "register_purchase_order_receipt e (receipt_of_post (grn_toDomain r0)) db = Inr (res, db1)"
    and c: "grn_complete (e_now e) (actor_of e actor) (grn_toDomain r0) = Inr g'"
    and rows: "grn_toRow e g' = Inr data" "grn_toLinesCreateInput e g' = Inr lines"
    and db': "pt_orders db' = pt_orders db1"
      "gt_notes db' = map_where (grn_cas e g') (grn_written data lines) (gt_notes db)" "grn_unique (gt_notes db')"
    using post_grn_run [OF post] by metis
  have rr: "r0 = r" using grn_unique_ids [OF ok(2) r0(1) r(1)] r0(2) r(2) by simp
  show "gd_status (gor_data r) \<in> {G_RECEIVED, G_COMPLETED}" using c by (auto simp: grn_complete_Inr rr)
  show "orders_ok db' \<and> grn_unique (gt_notes db')"
    using po_port.register_ok [OF reg ok(1)] db' by (simp add: orders_ok_def)
  have g': "gr_id g' = i" "gr_version g' = gor_version r" "gr_status g' = G_COMPLETED"
    "gr_purchaseOrderId g' = gd_purchaseOrderId (gor_data r)" "gr_lines g' = map grn_toDomain_line (gor_lines r)"
    using c r(2) by (auto simp: grn_complete_Inr rr grn_addEvent_def)
  have "grn_cas e g' r" using g' r0(3) rr r(2) by (simp add: grn_cas_def)
  then have "grn_written data lines r \<in> set (gt_notes db')" using r(1) by (auto simp: db'(2) set_map_where)
  then show "\<exists>r' \<in> set (gt_notes db'). gor_id r' = i \<and> gor_version r' = gor_version r + 1 \<and>
       gor_tenantId r' = gor_tenantId r \<and> gd_status (gor_data r') = G_COMPLETED \<and>
       gd_purchaseOrderId (gor_data r') = gd_purchaseOrderId (gor_data r) \<and>
       list_all2 same_quantities (gor_lines r') (gor_lines r)"
    using grn_toRow_fields [OF rows(1)] g' toLineRow_lines [OF rows(2) g'(5)]
    by (intro bexI [of _ "grn_written data lines r"]) (simp_all add: grn_written_def)
  show "po_balance db (gd_purchaseOrderId (gor_data r)) p = Some n \<Longrightarrow>
       \<bar>n\<bar> + abs_total (posted_entries r) \<le> 2 ^ 53 \<Longrightarrow>
       po_balance db' (gd_purchaseOrderId (gor_data r)) p = Some (n + delta_for p (posted_entries r))"
    using po_port.register_moves [OF reg ok(1) receipt_of_post_row(1)] rr
    by (simp add: receipt_of_post_row po_balance_orders [OF db'(1)])
qed

lemma abs_total_member: "(p, d) \<in> set ds \<Longrightarrow> \<bar>d\<bar> \<le> abs_total ds"
proof (induction ds)
  case (Cons x xs)
  then show ?case using abs_total_nonneg [of xs] by (cases x) (fastforce simp del: abs_total_nonneg)
qed simp

lemma posted_entry:
  assumes "grn_unique rows" "r \<in> set rows" "l \<in> set (gor_lines r)"
  shows "delta_for (glr_productId l) (posted_entries r) = posted_int l"
  using assms delta_for_distinct [where f = glr_productId and g = posted_int]
  by (simp add: grn_unique_def posted_entries_def)

text \<open>
  C27. Posting registers the receipt: on success the note was RECEIVED or COMPLETED, is
  COMPLETED afterwards with the next version, and the received quantity of its order has
  grown, for every product on the note, by the accepted quantity, or by the received
  quantity where nothing was accepted.
\<close>
theorem posting_registers_receipt:
  assumes "post_grn e i actor db = Inr (x, db')" "orders_ok db" "grn_unique (gt_notes db)"
    and "r \<in> set (gt_notes db)" "gor_id r = i" "l \<in> set (gor_lines r)"
    and "po_balance db (gd_purchaseOrderId (gor_data r)) (glr_productId l) = Some n"
    and "\<bar>n\<bar> + abs_total (posted_entries r) \<le> 2 ^ 53"
  shows "gd_status (gor_data r) \<in> {G_RECEIVED, G_COMPLETED} \<and>
    po_balance db' (gd_purchaseOrderId (gor_data r)) (glr_productId l) =
      Some (n + (if glr_acceptedQuantity l > 0 then glr_acceptedQuantity l else glr_receivedQuantity l)) \<and>
    (\<exists>r' \<in> set (gt_notes db'). gor_id r' = i \<and> gor_version r' = gor_version r + 1 \<and>
       gd_status (gor_data r') = G_COMPLETED)"
  using post_grn_effect [OF assms(1-5)] assms(7,8) posted_entry [OF assms(3,4,6)]
  by (fastforce simp: posted_int_def)

text \<open>
  Posting is not idempotent: a COMPLETED note passes the status guard, so posting the same
  note a second time registers the same goods a second time.
\<close>
theorem posting_again_counts_again:
  assumes "post_grn e i actor db = Inr (x, db1)" "post_grn e' i actor' db1 = Inr (x', db2)"
    and "orders_ok db" "grn_unique (gt_notes db)" "r \<in> set (gt_notes db)" "gor_id r = i"
    and "l \<in> set (gor_lines r)" "po_balance db (gd_purchaseOrderId (gor_data r)) (glr_productId l) = Some n"
    and "\<bar>n\<bar> + 2 * abs_total (posted_entries r) \<le> 2 ^ 53"
  shows "po_balance db2 (gd_purchaseOrderId (gor_data r)) (glr_productId l) = Some (n + 2 * posted_int l)"
proof -
  let ?i = "gd_purchaseOrderId (gor_data r)" and ?p = "glr_productId l"
  note first = post_grn_effect [OF assms(1,3-6)]
  obtain r' where r': "r' \<in> set (gt_notes db1)" "gor_id r' = i" "gd_purchaseOrderId (gor_data r') = ?i"
    and same: "list_all2 same_quantities (gor_lines r') (gor_lines r)" using first(3) by blast
  have n1: "po_balance db1 ?i ?p = Some (n + posted_int l)"
    using first(4) [OF assms(8)] assms(9) posted_entry [OF assms(4,5,7)] abs_total_nonneg [of "posted_entries r"]
    by (simp del: abs_total_nonneg)
  have e: "posted_entries r' = posted_entries r" by (rule posted_entries_same [OF same])
  have "\<bar>posted_int l\<bar> \<le> abs_total (posted_entries r)"
    by (rule abs_total_member [where p = ?p]) (use assms(7) in \<open>auto simp: posted_entries_def\<close>)
  then have "\<bar>n + posted_int l\<bar> + abs_total (posted_entries r') \<le> 2 ^ 53" using assms(9) e by simp
  from post_grn_effect(4) [OF assms(2) _ _ r'(1,2), of ?p "n + posted_int l"] first(2) n1 this
  show ?thesis using posted_entry [OF assms(4,5,7)] e r'(3) by simp
qed

section \<open>Reversal\<close>

lemma reverse_check_Inr:
  "reverse_check e i db = Inr (g, db') \<longleftrightarrow> db' = db \<and> (\<exists>r.
     find_first (\<lambda>x. gor_id x = i \<and> owned_scope (e_ctx e) (gor_tenantId x)) (gt_notes db) = Some r \<and>
     g = grn_toDomain r \<and> gd_status (gor_data r) = G_COMPLETED \<and>
     find_first (\<lambda>x. gd_reversalOfId (gor_data x) = Some i \<and> owned_scope (e_ctx e) (gor_tenantId x))
       (gt_notes db) = None)"
proof (cases "find_first (\<lambda>x. gor_id x = i \<and> owned_scope (e_ctx e) (gor_tenantId x)) (gt_notes db)")
  case None
  then show ?thesis by (simp add: reverse_check_def tx_then_Inr grn_load_Inr)
next
  case (Some r)
  then have i: "gor_id r = i" using find_first_Some [OF Some] by simp
  show ?thesis
  proof (cases "find_first (\<lambda>x. gd_reversalOfId (gor_data x) = Some i \<and> owned_scope (e_ctx e) (gor_tenantId x))
       (gt_notes db)")
    case None
    then show ?thesis using Some i
      by (auto simp: reverse_check_def tx_then_Inr grn_load_Inr ginv_reversible_def grn_findByReversalOfId_def grn_find_def)
  next
    case (Some y)
    then show ?thesis using \<open>find_first _ _ = Some r\<close> i
      by (simp add: reverse_check_def tx_then_Inr grn_load_Inr grn_findByReversalOfId_def grn_find_def)
  qed
qed

lemma nextNumber_ok: "\<exists>num rows. nextNumber e k p n db = Inr (num, db\<lparr>pf_sequences := rows\<rparr>)"
  by (cases "nextNumber e k p n db") (auto simp: nextNumber_def Let_def split: prod.splits)

lemma reverse_apply_run:
  fixes db db' :: "'a grn_db_scheme"
  assumes "reverse_apply e actor (grn_toDomain r) db = Inr (x, db')"
  obtains db0 db1 :: "'a grn_db_scheme" and res row
  where "pt_orders db0 = pt_orders db" "gt_notes db0 = gt_notes db"
    "register_purchase_order_receipt e (receipt_of_reversal (grn_toDomain r)) db0 = Inr (res, db1)"
    "pt_orders db' = pt_orders db1" "gt_notes db' = gt_notes db @ [row]" "grn_unique (gt_notes db')"
    "gd_reversalOfId (gor_data row) = Some (gor_id r)" "gd_status (gor_data row) = G_COMPLETED"
    "gor_tenantId row = ctx_tenantId (e_ctx e)"
proof -
  let ?g = "grn_toDomain r"
  obtain num dba uuid dbb g' res db1 v db2 w db3 u db4 where steps:
    "nextNumber e ''grn.number'' (Some ''GRN-'') (Some 8) db = Inr (num, dba)"
    "draw_uuid e dba = Inr (uuid, dbb)"
    "grn_createReversal (e_now e) uuid
             \<lparr>cv_grnNumber = num, cv_reversalOfId = gr_id ?g,
              cv_purchaseOrderId = gr_purchaseOrderId ?g, cv_vendorId = gr_vendorId ?g,
              cv_currency = gr_currency ?g, cv_actorId = actor_of e actor,
              cv_lines = map mirror_line (gr_lines ?g)\<rparr> = Inr g'"
    "register_purchase_order_receipt e (receipt_of_reversal ?g) dbb = Inr (res, db1)"
    "grn_save e g' db1 = Inr (v, db2)"
    "audit_write e (Some (coalesce (ctx_tenantId (e_ctx e)) [])) (Some (coalesce (ctx_companyId (e_ctx e)) []))
       ''grn.reverse'' ''GoodReceiptNote'' (gr_id ?g) (actor_of e actor)
             ((''reversalId'', JStr (gr_id g')) # grn_status_change (gr_status ?g)) db2 = Inr (w, db3)"
    "grn_publish e g' db3 = Inr (u, db4)" "db' = db4"
    using assms unfolding reverse_apply_def Let_def by (auto simp: res_simps)
  have f0: "pt_orders dbb = pt_orders db" "gt_notes dbb = gt_notes db"
    using nextNumber_frame [OF steps(1)] steps(2) by (auto simp: draw_uuid_Inr)
  have f1: "gt_notes db1 = gt_notes db" using register_notes [OF steps(4)] f0(2) by simp
  obtain data lines where s: "grn_toRow e g' = Inr data"
    "gt_notes db2 = gt_notes db1 @ [\<lparr>gor_data = data, gor_lines = lines, gor_version = 1,
        gor_tenantId = ctx_tenantId (e_ctx e), gor_companyId = resolveCompanyId (e_ctx e)\<rparr>]"
    "pt_orders db2 = pt_orders db1" "grn_unique (gt_notes db2)"
    using steps(5) by (auto simp: grn_save_Inr insert_row_def)
  have f3: "pt_orders db3 = pt_orders db2" "gt_notes db3 = gt_notes db2" using audit_write_frame [OF steps(6)] by auto
  have g': "gr_reversalOfId g' = Some (gor_id r)" "gr_status g' = G_COMPLETED"
    using steps(3) by (auto simp: grn_createReversal_def grn_addEvent_def Let_def res_simps)
  define row where "row = \<lparr>gor_data = data, gor_lines = lines, gor_version = 1,
        gor_tenantId = ctx_tenantId (e_ctx e), gor_companyId = resolveCompanyId (e_ctx e)\<rparr>"
  have o: "pt_orders db' = pt_orders db1" "gt_notes db' = gt_notes db2"
    using publish_same [OF steps(7)] steps(8) f3 s(3) by simp_all
  have n: "gt_notes db' = gt_notes db @ [row]" using o(2) s(2) f1 by (simp add: row_def)
  have u: "grn_unique (gt_notes db')" using s(4) o(2) by simp
  have d: "gd_reversalOfId (gor_data row) = Some (gor_id r)" "gd_status (gor_data row) = G_COMPLETED"
    "gor_tenantId row = ctx_tenantId (e_ctx e)"
    using grn_toRow_fields [OF s(1)] g' by (simp_all add: row_def)
  show thesis by (rule that [OF f0 steps(4) o(1) n u d])
qed

lemma reverse_apply_effect:
  fixes db db' :: "'a grn_db_scheme"
  assumes "reverse_apply e actor (grn_toDomain r) db = Inr (x, db')" "orders_ok db"
    and "po_balance db (gd_purchaseOrderId (gor_data r)) p = Some n"
    and "\<bar>n\<bar> + abs_total (posted_entries r) \<le> 2 ^ 53"
  shows "orders_ok db'" "po_balance db' (gd_purchaseOrderId (gor_data r)) p = Some (n - delta_for p (posted_entries r))"
proof -
  obtain db0 db1 :: "'a grn_db_scheme" and res where f: "pt_orders db0 = pt_orders db"
    and reg: "register_purchase_order_receipt e (receipt_of_reversal (grn_toDomain r)) db0 = Inr (res, db1)"
    and o: "pt_orders db' = pt_orders db1"
    by (rule reverse_apply_run [OF assms(1)]) blast
  have ok0: "orders_ok db0" using assms(2) orders_ok_same [OF f] by simp
  have "po_balance db0 (gd_purchaseOrderId (gor_data r)) p = Some n" using assms(3) po_balance_orders [OF f] by simp
  from po_port.register_moves [OF reg ok0 receipt_of_reversal_row(1), of p n] this assms(4)
  show "po_balance db' (gd_purchaseOrderId (gor_data r)) p = Some (n - delta_for p (posted_entries r))"
    by (simp add: receipt_of_reversal_row delta_for_mirror abs_total_mirror po_balance_orders [OF o])
  show "orders_ok db'" using po_port.register_ok [OF reg ok0] orders_ok_same [OF o] by simp
qed

lemma reverse_grn_Inr:
  "reverse_grn e i actor db = Inr (x, db') \<longleftrightarrow>
     (\<exists>g. reverse_check e i db = Inr (g, db) \<and> reverse_apply e actor g db = Inr (x, db'))"
  by (auto simp: reverse_grn_def tx_then_Inr reverse_check_Inr)

lemma reverse_check_row:
  assumes "reverse_check e i db = Inr (g, db')" "grn_unique (gt_notes db)" "r \<in> set (gt_notes db)" "gor_id r = i"
  shows "g = grn_toDomain r \<and> db' = db \<and> gd_status (gor_data r) = G_COMPLETED"
proof -
  obtain x where x: "find_first (\<lambda>x. gor_id x = i \<and> owned_scope (e_ctx e) (gor_tenantId x)) (gt_notes db) = Some x"
    "g = grn_toDomain x" "gd_status (gor_data x) = G_COMPLETED" "db' = db"
    using assms(1) by (auto simp: reverse_check_Inr)
  then have "x = r" using find_first_Some [OF x(1)] grn_unique_ids [OF assms(2), of x r] assms(3,4) by simp
  then show ?thesis using x by simp
qed

text \<open>
  C28. Reversing what was posted restores the balance: after a note has been posted and then
  reversed, every product on it has the received quantity it had before the posting.
\<close>
theorem reversal_restores_balance:
  assumes "post_grn e i actor db = Inr (x, db1)" "reverse_grn e' i actor' db1 = Inr (x', db2)"
    and "orders_ok db" "grn_unique (gt_notes db)" "r \<in> set (gt_notes db)" "gor_id r = i"
    and "l \<in> set (gor_lines r)" "po_balance db (gd_purchaseOrderId (gor_data r)) (glr_productId l) = Some n"
    and "\<bar>n\<bar> + 2 * abs_total (posted_entries r) \<le> 2 ^ 53"
  shows "po_balance db2 (gd_purchaseOrderId (gor_data r)) (glr_productId l) = Some n"
proof -
  let ?i = "gd_purchaseOrderId (gor_data r)" and ?p = "glr_productId l"
  note first = post_grn_effect [OF assms(1,3-6)]
  obtain r' where r': "r' \<in> set (gt_notes db1)" "gor_id r' = i" "gd_purchaseOrderId (gor_data r') = ?i"
    and same: "list_all2 same_quantities (gor_lines r') (gor_lines r)" using first(3) by blast
  have e: "posted_entries r' = posted_entries r" by (rule posted_entries_same [OF same])
  have n1: "po_balance db1 ?i ?p = Some (n + posted_int l)"
    using first(4) [OF assms(8)] assms(9) posted_entry [OF assms(4,5,7)] abs_total_nonneg [of "posted_entries r"]
    by (simp del: abs_total_nonneg)
  have "\<bar>posted_int l\<bar> \<le> abs_total (posted_entries r)"
    by (rule abs_total_member [where p = ?p]) (use assms(7) in \<open>auto simp: posted_entries_def\<close>)
  then have b: "\<bar>n + posted_int l\<bar> + abs_total (posted_entries r') \<le> 2 ^ 53" using assms(9) e by simp
  obtain g where "reverse_check e' i db1 = Inr (g, db1)" and app: "reverse_apply e' actor' g db1 = Inr (x', db2)"
    using assms(2) by (auto simp: reverse_grn_Inr)
  then have "g = grn_toDomain r'" using reverse_check_row r' first(2) by blast
  from reverse_apply_effect(2) [OF app[unfolded this], of ?p "n + posted_int l"] first(2) n1 b r'(3) e
  show ?thesis using posted_entry [OF assms(4,5,7)] by simp
qed

lemma find_first_append_Some: "find_first p xs = Some x \<Longrightarrow> find_first p (xs @ ys) = Some x"
  unfolding find_first_def by (induction xs) (auto split: if_splits)

text \<open>
  C29. A note is reversed once: after a reversal has committed, every later attempt of the same
  tenant to reverse the same note is refused with 409 and changes nothing, however many notes
  have been added in between.
\<close>
theorem reversed_once:
  assumes "reverse_grn e i actor db = Inr (x, db1)" "ctx_tenantId (e_ctx e') = ctx_tenantId (e_ctx e)"
    and "gt_notes db2 = gt_notes db1 @ later"
  shows "transactional (reverse_grn e' i actor') db2 = (conflict ''GRN has already been reversed'', db2)"
proof -
  obtain g where c: "reverse_check e i db = Inr (g, db)" and app: "reverse_apply e actor g db = Inr (x, db1)"
    using assms(1) by (auto simp: reverse_grn_Inr)
  obtain r where r: "find_first (\<lambda>x. gor_id x = i \<and> owned_scope (e_ctx e) (gor_tenantId x)) (gt_notes db) = Some r"
    "g = grn_toDomain r" "gd_status (gor_data r) = G_COMPLETED" using c by (auto simp: reverse_check_Inr)
  have i: "gor_id r = i" using find_first_Some [OF r(1)] by simp
  obtain row where row: "gt_notes db1 = gt_notes db @ [row]" "gd_reversalOfId (gor_data row) = Some i"
    "gor_tenantId row = ctx_tenantId (e_ctx e)"
    by (rule reverse_apply_run [OF app[unfolded r(2)]]) (use i in blast)
  have l: "grn_load e' i db2 = Inr (g, db2)"
    using find_first_append_Some [OF r(1), of "row # later"] r(2) assms(2,3) row(1)
    by (simp add: grn_load_Inr)
  have "owned_scope (e_ctx e') (gor_tenantId row)" using row(3) assms(2) by (simp add: tenant_where_def)
  then obtain y where "find_first (\<lambda>x. gd_reversalOfId (gor_data x) = Some i \<and> owned_scope (e_ctx e') (gor_tenantId x))
      (gt_notes db2) = Some y"
    using row assms(3) by (fastforce simp: find_first_def find_None_iff2 simp flip: not_None_eq)
  then have "reverse_check e' i db2 = conflict ''GRN has already been reversed''"
    using l r(2,3) i by (simp add: reverse_check_def tx_then_def ginv_reversible_def grn_findByReversalOfId_def
        grn_find_def tx_read_def tx_lift_def)
  then show ?thesis by (simp add: transactional_def reverse_grn_def)
qed

text \<open>
  Two overlapping reversals: the check that a note has not been reversed is made before the
  document number is drawn, so when two requests have both made it, both go through and the
  received quantity is lowered twice.
\<close>
theorem overlapping_reversals_count_twice:
  assumes "reverse_check e i db = Inr (g, dba)" "reverse_check e' i db = Inr (g', dbb)"
    and "reverse_apply e actor g db = Inr (x, db1)" "reverse_apply e' actor' g' db1 = Inr (x', db2)"
    and "orders_ok db" "grn_unique (gt_notes db)" "r \<in> set (gt_notes db)" "gor_id r = i"
    and "l \<in> set (gor_lines r)" "po_balance db (gd_purchaseOrderId (gor_data r)) (glr_productId l) = Some n"
    and "\<bar>n\<bar> + 2 * abs_total (posted_entries r) \<le> 2 ^ 53"
  shows "po_balance db2 (gd_purchaseOrderId (gor_data r)) (glr_productId l) = Some (n - 2 * posted_int l)"
proof -
  let ?i = "gd_purchaseOrderId (gor_data r)" and ?p = "glr_productId l"
  have g: "g = grn_toDomain r" "g' = grn_toDomain r"
    using reverse_check_row [OF assms(1) assms(6-8)] reverse_check_row [OF assms(2) assms(6-8)] by simp_all
  have d: "delta_for ?p (posted_entries r) = posted_int l" by (rule posted_entry [OF assms(6,7,9)])
  have "\<bar>posted_int l\<bar> \<le> abs_total (posted_entries r)"
    by (rule abs_total_member [where p = ?p]) (use assms(9) in \<open>auto simp: posted_entries_def\<close>)
  then have b: "\<bar>n\<bar> + abs_total (posted_entries r) \<le> 2 ^ 53" "\<bar>n - posted_int l\<bar> + abs_total (posted_entries r) \<le> 2 ^ 53"
    using assms(11) by simp_all
  note one = reverse_apply_effect [OF assms(3)[unfolded g] assms(5,10) b(1)]
  from reverse_apply_effect(2) [OF assms(4)[unfolded g] one(1), of ?p "n - posted_int l"] one(2) b(2) d
  show ?thesis by simp
qed

lemma js_neg_neg_balance:
  assumes "ginv_reversal_balance r a b = Inr u"
  shows "js_lt r (N 0)" "\<not> js_lt (N 0) a"
proof -
  have e: "js_eq (js_add a b) r" "\<not> js_ge r (N 0)" "\<not> js_lt (N 0) a"
    using assms by (auto simp: ginv_reversal_balance_def split: if_splits)
  then show "js_lt r (N 0)" by (cases r) (auto simp: js_le_def js_eq_def)
  show "\<not> js_lt (N 0) a" by (rule e(3))
qed

text \<open>
  A reversal document cannot be reversed: its mirror has positive quantities, which the
  factory refuses, so the attempt fails and the database stays as it was.
\<close>
theorem reversal_cannot_be_reversed:
  assumes "grn_createReversal now uuid input = Inr g" "cv_lines input \<noteq> []"
  shows "\<exists>x. transactional (reverse_apply e actor g) db = (Inl x, db)"
proof -
  obtain l ls where l: "gr_lines g = l # ls"
    and bal: "ginv_reversal_balance (gl_receivedQuantity l) (gl_acceptedQuantity l) (gl_rejectedQuantity l) = Inr ()"
    using assms by (cases "cv_lines input") (auto simp: grn_createReversal_def grn_addEvent_def Let_def res_simps)
  have "postedQuantity l = gl_receivedQuantity l" using js_neg_neg_balance(2) [OF bal] by (simp add: postedQuantity_def)
  moreover have "js_lt (gl_receivedQuantity l) (N 0)" by (rule js_neg_neg_balance(1) [OF bal])
  then have "js_ge (js_neg (gl_receivedQuantity l)) (N 0)"
    by (cases "gl_receivedQuantity l") (auto simp: js_le_def js_eq_def)
  ultimately have "\<exists>x. ginv_reversal_balance (js_neg (postedQuantity l)) (js_neg (postedQuantity l)) (N 0) = Inl x"
    by (simp add: ginv_reversal_balance_def)
  then have m: "\<exists>x. grn_createReversal nw u (inp\<lparr>cv_lines := map mirror_line (gr_lines g)\<rparr>) = Inl x" for nw u inp
    by (auto simp: grn_createReversal_def ginv_reversal_def l mirror_line_def grnLine_create_def Let_def)
  obtain num rows where "nextNumber e ''grn.number'' (Some ''GRN-'') (Some 8) db = Inr (num, db\<lparr>pf_sequences := rows\<rparr>)"
    using nextNumber_ok by metis
  moreover obtain y where "grn_createReversal (e_now e) (e_uuid e (pf_drawn db)) \<lparr>cv_grnNumber = num,
      cv_reversalOfId = gr_id g, cv_purchaseOrderId = gr_purchaseOrderId g, cv_vendorId = gr_vendorId g,
      cv_currency = gr_currency g, cv_actorId = actor_of e actor, cv_lines = map mirror_line (gr_lines g)\<rparr> = Inl y"
    using m [of "e_now e" "e_uuid e (pf_drawn db)" "\<lparr>cv_grnNumber = num, cv_reversalOfId = gr_id g,
              cv_purchaseOrderId = gr_purchaseOrderId g, cv_vendorId = gr_vendorId g,
              cv_currency = gr_currency g, cv_actorId = actor_of e actor, cv_lines = []\<rparr>"] by auto
  ultimately have "\<exists>x. reverse_apply e actor g db = Inl x"
    by (simp add: reverse_apply_def Let_def draw_uuid_def tx_then_def tx_lift_def)
  then show ?thesis by (auto simp: transactional_def)
qed

end
