(* ===== verification/GRN_Examples.thy ===== *)
theory GRN_Examples
  imports GRN_Posting
begin

text \<open>
  A concrete database: one issued order over ten pieces and one note over four of them, all
  accepted. Posting, posting again, reversing and the two overlapping reversals all run on
  it, which the witnesses of the properties use.
\<close>

section \<open>The sample order and note\<close>

definition ex_order :: "int \<Rightarrow> int \<Rightarrow> po_row" where
  "ex_order q v = sample_po_row ISSUED q v\<lparr>por_updatedAt := 100\<rparr>"

definition ex_line :: grn_line_row where
  "ex_line = \<lparr>glr_productId = ''A'', glr_orderedQuantity = 10, glr_receivedQuantity = 4,
     glr_acceptedQuantity = 4, glr_rejectedQuantity = 0, glr_unitPrice = 500, glr_total = 2000\<rparr>"

definition ex_note :: "grn_status \<Rightarrow> int \<Rightarrow> grn_row" where
  "ex_note s v = \<lparr>gor_data = \<lparr>gd_id = ''g1'', gd_grnNumber = ''G-1'', gd_purchaseOrderId = ''o1'',
     gd_vendorId = ''v1'', gd_status = s, gd_currency = ''USD'', gd_subtotal = 2000, gd_total = 2000,
     gd_receivedAt = None, gd_reversalOfId = None, gd_createdBy = None, gd_receivedBy = None,
     gd_postedBy = None, gd_cancelledBy = None, gd_createdAt = 0, gd_updatedAt = 100\<rparr>,
     gor_lines = [ex_line], gor_version = v, gor_tenantId = Some ''T1'', gor_companyId = ''C1''\<rparr>"

definition ex_db :: "int \<Rightarrow> grn_row list \<Rightarrow> grn_db" where
  "ex_db q notes = \<lparr>pf_outbox = [], pf_audit = [], pf_sequences = [], pf_drawn = 0,
     pt_orders = [ex_order q 1], pt_replica = [], gt_notes = notes, gt_replica = []\<rparr>"

lemma ex_db_fields [simp]:
  "pt_orders (ex_db q notes) = [ex_order q 1]" "gt_notes (ex_db q notes) = notes"
  "pf_sequences (ex_db q notes) = []" "pf_drawn (ex_db q notes) = 0"
  by (simp_all add: ex_db_def)

lemma ex_note_fields [simp]:
  "gd_id (gor_data (ex_note s v)) = ''g1''" "gd_status (gor_data (ex_note s v)) = s"
  "gd_purchaseOrderId (gor_data (ex_note s v)) = ''o1''" "gd_reversalOfId (gor_data (ex_note s v)) = None"
  "gd_grnNumber (gor_data (ex_note s v)) = ''G-1''" "gor_companyId (ex_note s v) = ''C1''"
  "gor_lines (ex_note s v) = [ex_line]" "gor_version (ex_note s v) = v" "gor_tenantId (ex_note s v) = Some ''T1''"
  "glr_productId ex_line = ''A''" "posted_int ex_line = 4" "posted_entries (ex_note s v) = [(''A'', 4)]"
  by (simp_all add: ex_note_def ex_line_def posted_int_def posted_entries_def)

lemma ex_ok: "orders_ok (ex_db q notes)" "grn_unique [ex_note s v]"
  by (simp_all add: orders_ok_def po_unique_def ex_order_def grn_unique_def)

lemma ex_balance: "pt_orders db = [ex_order q v] \<Longrightarrow> po_balance db ''o1'' ''A'' = Some q"
  by (simp add: po_balance_def find_first_def ex_order_def)

section \<open>Registering against the sample order\<close>

lemma sample_ctx_user [simp]: "ctx_userId sample_ctx = None"
  by (simp add: sample_ctx_def emptyContext_def)

lemma ex_register:
  assumes o: "pt_orders db = [ex_order q v]" and b: "\<bar>q\<bar> \<le> 50" "\<bar>d\<bar> \<le> 50" "q + d \<le> 10"
    and rq: "rq_purchaseOrderId rq = ''o1''" "rq_lines rq = int_entries [(''A'', d)]"
  shows "\<exists>res. register_purchase_order_receipt sample_env rq db
    = Inr (res, db\<lparr>pt_orders := [ex_order (q + d) (v + 1)]\<rparr>)"
proof -
  let ?po = "sample_order ISSUED q\<lparr>po_version := v, po_updatedAt := 100\<rparr>"
    and ?to = "sample_order ISSUED (q + d)\<lparr>po_version := v\<rparr>"
  let ?po' = "recordReceipt 100 (rq_actorId rq) (sample_order ISSUED (q + d)\<lparr>po_version := v, po_updatedAt := 100\<rparr>)"
  have dom: "toDomain (ex_order q v) = Inr ?po"
    using money_fromDecimal_number [of 500] money_fromDecimal_number [of 5000]
    by (simp add: ex_order_def toDomain_def toDomain_line_def sample_number sample_order_def sample_line_def
        sample_po_row_def sample_data_def sample_line_row_def)
  have load: "po_load sample_env ''o1'' db = Inr (?po, db)"
    using dom by (simp add: po_load_Inr o find_first_def tenant_where_def ex_order_def)
  have rec: "openPoForReceipt 100 (int_entries [(''A'', d)]) (N 0) (rq_actorId rq) ?po = Inr ?po'"
    using sample_receive [of q d] b
    by (simp add: openPoForReceipt_def receiving_eligible_def int_entries_def) (simp add: sample_order_def)
  have same: "toRow ?po' = toRow ?to" "toLinesCreateInput ?po' = toLinesCreateInput ?to"
    by (simp_all add: toRow_def toLinesCreateInput_def po_total_def po_subtotal_def recordReceipt_def)
  have cas: "po_cas sample_env ?po' (ex_order q v)"
    by (simp add: po_cas_def tenant_where_def recordReceipt_def sample_order_def ex_order_def)
  have new: "po_written sample_env (sample_data ISSUED) [sample_line_row (q + d)] (ex_order q v) = ex_order (q + d) (v + 1)"
    by (simp add: po_written_def ex_order_def sample_po_row_def)
  have "po_update sample_env ?po' db = Inr ((), db\<lparr>pt_orders := [ex_order (q + d) (v + 1)]\<rparr>)"
    unfolding po_update_Inr
  proof (intro exI conjI)
    show "toRow ?po' = Inr (sample_data ISSUED)" using same(1) sample_toRow by simp
    show "toLinesCreateInput ?po' = Inr [sample_line_row (q + d)]" using same(2) sample_toLines [of "q + d"] b by simp
  qed (use cas new in \<open>simp_all add: o po_unique_def ex_order_def\<close>)
  then show ?thesis
    using rec load rq
    by (simp add: register_purchase_order_receipt_def po_guard_def require_company_and_access_def noop_abac_def tx_return_def)
qed

section \<open>Posting the sample note\<close>

lemma ex_round: "round_double 5 = Fin 5" "round_double 20 = Fin 20" "round_double (- 20) = Fin (- 20)"
  "round_double (- 4) = Fin (- 4)"
  using round_double_of_int [of 5] round_double_of_int [of 20] round_double_of_int [of "- 20"]
    round_double_of_int [of "- 4"] by simp_all

lemma ex_price: "number_of_decimal 500 = Fin 5" "toFixed2 (Fin 5) = 500" "toFixed2 (Fin 20) = 2000"
  "toFixed2 (Fin (- 20)) = - 2000"
  by (simp_all add: number_of_decimal_def floor_eq_iff ex_round)

definition ex_domain_line :: grn_line where
  "ex_domain_line = \<lparr>gl_productId = ''A'', gl_orderedQuantity = N 10, gl_receivedQuantity = N 4,
     gl_acceptedQuantity = N 4, gl_rejectedQuantity = N 0, gl_unitPrice = N 5, gl_tracking = []\<rparr>"

lemma ex_toDomain_line: "grn_toDomain_line ex_line = ex_domain_line"
  by (simp add: grn_toDomain_line_def ex_line_def ex_domain_line_def grnLine_create_def ex_price)

lemma ex_toLineRow: "grn_toLineRow sample_env ex_domain_line = Inr ex_line"
proof -
  have "db_int (N 10) = Inr 10" "db_int (N 4) = Inr 4" "db_int (N 0) = Inr 0" unfolding db_int_N by simp_all
  moreover have "db_numeric sample_env (N 5) = Inr 500" "db_numeric sample_env (N 20) = Inr 2000"
    unfolding db_numeric_def by (simp_all add: sample_env_def ex_price db_decimal_def del: toFixed2.simps)
  moreover have "gl_total ex_domain_line = N 20" by (simp add: gl_total_def ex_domain_line_def ex_round)
  ultimately show ?thesis
    by (simp add: grn_toLineRow_def del: db_int_N) (simp add: ex_domain_line_def ex_line_def del: db_int_N)
qed

lemma ex_subtotal: "db_numeric sample_env (grn_subtotal [ex_domain_line]) = Inr 2000"
proof -
  have "grn_subtotal [ex_domain_line] = N 20"
    unfolding grn_subtotal_def gl_total_def by (simp add: ex_domain_line_def ex_round)
  then show ?thesis
    unfolding db_numeric_def by (simp add: sample_env_def ex_price db_decimal_def del: toFixed2.simps)
qed

lemma ex_load:
  "gt_notes db = ex_note s v # ns \<Longrightarrow> grn_load sample_env ''g1'' db = Inr (grn_toDomain (ex_note s v), db)"
  by (simp add: grn_load_Inr find_first_def tenant_where_def)

lemma ex_audit: "\<exists>au. audit_record e act ty i who ch d = Inr ((), d\<lparr>pf_audit := au\<rparr>)"
  by (auto simp: audit_record_def audit_write_def tx_write_def)

lemma ex_audit_write: "\<exists>au. audit_write e t c act ty i who ch d = Inr ((), d\<lparr>pf_audit := au\<rparr>)"
  by (auto simp: audit_write_def tx_write_def)

lemma ex_send:
  "\<exists>d'. tx_for (send_event e t j) ms d = Inr ((), d') \<and> pf_drawn d' = pf_drawn d + 2 * length ms \<and>
     pf_sequences d' = pf_sequences d"
proof (induction ms arbitrary: d)
  case (Cons m ms)
  obtain d1 where d1: "send_event e t j m d = Inr ((), d1)" "pf_drawn d1 = pf_drawn d + 2"
    "pf_sequences d1 = pf_sequences d"
    by (simp add: send_event_def draw_uuid_def tx_then_def tx_write_def)
  obtain d' where "tx_for (send_event e t j) ms d1 = Inr ((), d')" "pf_drawn d' = pf_drawn d1 + 2 * length ms"
    "pf_sequences d' = pf_sequences d1" using Cons.IH [of d1] by blast
  then show ?case using d1 by (simp add: tx_then_def)
qed (simp add: tx_return_def)

lemma ex_publish:
  "\<exists>d'. grn_publish e g d = Inr ((), d') \<and> pt_orders d' = pt_orders d \<and> gt_notes d' = gt_notes d \<and>
     pf_drawn d' = pf_drawn d + 2 * length (gr_events g) \<and> pf_sequences d' = pf_sequences d"
proof -
  obtain d' where "grn_publish e g d = Inr ((), d')" "pf_drawn d' = pf_drawn d + 2 * length (gr_events g)"
    "pf_sequences d' = pf_sequences d"
    using ex_send [of e "''GoodReceiptNote''" "gr_id g" "map grn_event_message (gr_events g)" d]
    by (auto simp: grn_publish_def send_events_def)
  then show ?thesis using publish_same by blast
qed

lemma ex_post:
  assumes s: "s \<in> {G_RECEIVED, G_COMPLETED}"
    and o: "pt_orders db = [ex_order q w]" and n: "gt_notes db = [ex_note s v]" and q: "\<bar>q\<bar> \<le> 50" "q + 4 \<le> 10"
  shows "\<exists>db'. post_grn sample_env ''g1'' None db = Inr (''g1'', db') \<and>
     pt_orders db' = [ex_order (q + 4) (w + 1)] \<and> gt_notes db' = [ex_note G_COMPLETED (v + 1)] \<and>
     pf_drawn db' = pf_drawn db + 4 \<and> pf_sequences db' = pf_sequences db"
proof -
  let ?g = "grn_toDomain (ex_note s v)"
  obtain g' where c: "grn_complete 100 None ?g = Inr g'" using s by (auto simp: grn_complete_Inr)
  have g': "gr_id g' = ''g1''" "gr_version g' = v" "gr_lines g' = [ex_domain_line]"
    "grn_toRow sample_env g' = Inr (gor_data (ex_note G_COMPLETED 0))"
    using c ex_subtotal
    by (auto simp: grn_complete_Inr grn_addEvent_def ex_toDomain_line grn_toRow_def)
      (simp_all add: grn_toDomain_def ex_note_def)
  obtain res where reg: "register_purchase_order_receipt sample_env (receipt_of_post ?g) db
      = Inr (res, db\<lparr>pt_orders := [ex_order (q + 4) (w + 1)]\<rparr>)"
    using ex_register [OF o, of 4 "receipt_of_post ?g"] q by (auto simp: receipt_of_post_row)
  let ?db1 = "db\<lparr>pt_orders := [ex_order (q + 4) (w + 1)]\<rparr>"
  have u: "grn_update sample_env g' ?db1 = Inr ((), ?db1\<lparr>gt_notes := [ex_note G_COMPLETED (v + 1)]\<rparr>)"
    unfolding grn_update_Inr
  proof (intro exI conjI)
    show "grn_toRow sample_env g' = Inr (gor_data (ex_note G_COMPLETED 0))" by (rule g'(4))
    show "grn_toLinesCreateInput sample_env g' = Inr [ex_line]"
      by (simp add: grn_toLinesCreateInput_def g'(3) ex_toLineRow)
    show "\<exists>r \<in> set (gt_notes ?db1). grn_cas sample_env g' r"
      by (simp add: n grn_cas_def g' tenant_where_def)
    show "grn_unique (gt_notes (?db1\<lparr>gt_notes := [ex_note G_COMPLETED (v + 1)]\<rparr>))" by (simp add: ex_ok)
  qed (simp add: n grn_cas_def g' tenant_where_def, simp add: grn_written_def ex_note_def)
  let ?db2 = "?db1\<lparr>gt_notes := [ex_note G_COMPLETED (v + 1)]\<rparr>"
  obtain au where a: "audit_record sample_env ''grn.post'' ''GoodReceiptNote'' (gr_id g') None
      (grn_status_change (gr_status g')) ?db2 = Inr ((), ?db2\<lparr>pf_audit := au\<rparr>)"
    using ex_audit by blast
  have "length (gr_events g') = 2" using c by (auto simp: grn_complete_Inr grn_addEvent_def)
  then obtain d' where p: "grn_publish sample_env g' (?db2\<lparr>pf_audit := au\<rparr>) = Inr ((), d')"
    "pt_orders d' = [ex_order (q + 4) (w + 1)]" "gt_notes d' = [ex_note G_COMPLETED (v + 1)]"
    "pf_drawn d' = pf_drawn db + 4" "pf_sequences d' = pf_sequences db"
    using ex_publish [of sample_env g' "?db2\<lparr>pf_audit := au\<rparr>"] by auto
  have "post_grn sample_env ''g1'' None db = Inr (''g1'', d')"
    using ex_load [OF n] reg c u a p(1) g'(1) by (simp add: post_grn_def actor_of_def tx_return_def)
  then show ?thesis using p(2-) by blast
qed

section \<open>Reversing the sample note\<close>

definition ex_mirror_line :: grn_line where
  "ex_mirror_line = \<lparr>gl_productId = ''A'', gl_orderedQuantity = N 10, gl_receivedQuantity = N (- 4),
     gl_acceptedQuantity = N (- 4), gl_rejectedQuantity = N 0, gl_unitPrice = N 5, gl_tracking = []\<rparr>"

definition ex_mirror :: "string \<Rightarrow> string \<Rightarrow> grn_row" where
  "ex_mirror i n = \<lparr>gor_data = \<lparr>gd_id = i, gd_grnNumber = n, gd_purchaseOrderId = ''o1'',
     gd_vendorId = ''v1'', gd_status = G_COMPLETED, gd_currency = ''USD'', gd_subtotal = - 2000, gd_total = - 2000,
     gd_receivedAt = Some 100, gd_reversalOfId = Some ''g1'', gd_createdBy = None, gd_receivedBy = None,
     gd_postedBy = None, gd_cancelledBy = None, gd_createdAt = 100, gd_updatedAt = 100\<rparr>,
     gor_lines = [\<lparr>glr_productId = ''A'', glr_orderedQuantity = 10, glr_receivedQuantity = - 4,
       glr_acceptedQuantity = - 4, glr_rejectedQuantity = 0, glr_unitPrice = 500, glr_total = - 2000\<rparr>],
     gor_version = 1, gor_tenantId = Some ''T1'', gor_companyId = ''C1''\<rparr>"

definition ex_reversal :: "string \<Rightarrow> string \<Rightarrow> good_receipt" where
  "ex_reversal i n = \<lparr>gr_id = i, gr_version = 1,
     gr_events = [GoodsReceiptReversed i ''g1'' ''o1'' [posted_line_of i (N (- 4)) ex_mirror_line]],
     gr_grnNumber = n, gr_purchaseOrderId = ''o1'', gr_vendorId = ''v1'', gr_status = G_COMPLETED,
     gr_currency = ''USD'', gr_lines = [ex_mirror_line], gr_receivedAt = Some 100, gr_reversalOfId = Some ''g1'',
     gr_createdBy = None, gr_receivedBy = None, gr_postedBy = None, gr_cancelledBy = None,
     gr_createdAt = 100, gr_updatedAt = 100\<rparr>"

lemma ex_createReversal:
  "grn_createReversal 100 i \<lparr>cv_grnNumber = n, cv_reversalOfId = ''g1'', cv_purchaseOrderId = ''o1'',
     cv_vendorId = ''v1'', cv_currency = ''USD'', cv_actorId = None, cv_lines = [mirror_line ex_domain_line]\<rparr>
   = Inr (ex_reversal i n)"
proof -
  have "mirror_line ex_domain_line = \<lparr>rv_productId = ''A'', rv_orderedQuantity = N 10, rv_receivedQuantity = N (- 4),
     rv_acceptedQuantity = N (- 4), rv_rejectedQuantity = N 0, rv_unitPrice = N 5\<rparr>"
    by (simp add: mirror_line_def postedQuantity_def ex_domain_line_def)
  moreover have "ginv_reversal_balance (Fin (- 4)) (Fin (- 4)) (Fin 0) = Inr ()"
    by (simp add: ginv_reversal_balance_def ex_round js_eq_def js_le_def)
  ultimately show ?thesis
    by (simp add: grn_createReversal_def ginv_reversal_def grnLine_create_def ex_reversal_def ex_mirror_line_def
        grn_addEvent_def)
qed

lemma ex_mirror_toRow: "grn_toRow sample_env (ex_reversal i n) = Inr (gor_data (ex_mirror i n))"
proof -
  have "grn_subtotal [ex_mirror_line] = Fin (- 20)"
    unfolding grn_subtotal_def gl_total_def by (simp add: ex_mirror_line_def ex_round)
  then have "db_numeric sample_env (grn_subtotal [ex_mirror_line]) = Inr (- 2000)"
    unfolding db_numeric_def by (simp add: sample_env_def ex_price db_decimal_def del: toFixed2.simps)
  then show ?thesis by (simp add: grn_toRow_def ex_reversal_def) (simp add: ex_mirror_def)
qed

lemma ex_mirror_toLines: "grn_toLinesCreateInput sample_env (ex_reversal i n) = Inr (gor_lines (ex_mirror i n))"
proof -
  have "db_int (N 10) = Inr 10" "db_int (N (- 4)) = Inr (- 4)" "db_int (N 0) = Inr 0" unfolding db_int_N by simp_all
  moreover have "db_numeric sample_env (N 5) = Inr 500" "db_numeric sample_env (N (- 20)) = Inr (- 2000)"
    unfolding db_numeric_def by (simp_all add: sample_env_def ex_price db_decimal_def del: toFixed2.simps)
  moreover have "gl_total ex_mirror_line = N (- 20)" by (simp add: gl_total_def ex_mirror_line_def ex_round)
  ultimately have "grn_toLineRow sample_env ex_mirror_line = Inr (hd (gor_lines (ex_mirror i n)))"
    by (simp add: grn_toLineRow_def del: db_int_N) (simp add: ex_mirror_line_def ex_mirror_def del: db_int_N)
  then show ?thesis by (simp add: grn_toLinesCreateInput_def ex_reversal_def) (simp add: ex_mirror_def)
qed

lemma ex_reverse_apply:
  assumes num: "nextNumber sample_env ''grn.number'' (Some ''GRN-'') (Some 8) db = Inr (n, db\<lparr>pf_sequences := sq\<rparr>)"
    and o: "pt_orders db = [ex_order q w]" and q: "\<bar>q\<bar> \<le> 40" "q \<le> 10"
    and u: "grn_unique (gt_notes db @ [ex_mirror (nat_to_string (pf_drawn db)) n])"
  shows "\<exists>db'. reverse_apply sample_env None (grn_toDomain (ex_note G_COMPLETED v)) db
      = Inr (nat_to_string (pf_drawn db), db') \<and> pt_orders db' = [ex_order (q - 4) (w + 1)] \<and>
    gt_notes db' = gt_notes db @ [ex_mirror (nat_to_string (pf_drawn db)) n] \<and>
    pf_drawn db' = pf_drawn db + 3 \<and> pf_sequences db' = sq"
proof -
  let ?g = "grn_toDomain (ex_note G_COMPLETED v)" and ?i = "nat_to_string (pf_drawn db)"
  let ?r = "ex_reversal ?i n" and ?db0 = "db\<lparr>pf_sequences := sq, pf_drawn := pf_drawn db + 1\<rparr>"
  have cur: "gr_vendorId ?g = ''v1''" "gr_currency ?g = ''USD''" by (simp_all add: grn_toDomain_def ex_note_def)
  have rv: "grn_createReversal 100 ?i \<lparr>cv_grnNumber = n, cv_reversalOfId = gr_id ?g,
      cv_purchaseOrderId = gr_purchaseOrderId ?g, cv_vendorId = gr_vendorId ?g, cv_currency = gr_currency ?g,
      cv_actorId = None, cv_lines = map mirror_line (gr_lines ?g)\<rparr> = Inr ?r"
    using ex_createReversal [of ?i n] by (simp add: cur ex_toDomain_line)
  obtain res where reg: "register_purchase_order_receipt sample_env (receipt_of_reversal ?g) ?db0
      = Inr (res, ?db0\<lparr>pt_orders := [ex_order (q - 4) (w + 1)]\<rparr>)"
    using ex_register [of ?db0 q w "- 4" "receipt_of_reversal ?g"] o q by (auto simp: receipt_of_reversal_row)
  let ?db1 = "?db0\<lparr>pt_orders := [ex_order (q - 4) (w + 1)]\<rparr>"
  let ?db2 = "?db1\<lparr>gt_notes := gt_notes db @ [ex_mirror ?i n]\<rparr>"
  have new: "\<lparr>gor_data = gor_data (ex_mirror ?i n), gor_lines = gor_lines (ex_mirror ?i n), gor_version = 1,
      gor_tenantId = Some ''T1'', gor_companyId = ''C1''\<rparr> = ex_mirror ?i n" by (simp add: ex_mirror_def)
  have save: "grn_save sample_env ?r ?db1 = Inr ((), ?db2)"
    unfolding grn_save_Inr
  proof (intro exI conjI)
    show "grn_toRow sample_env ?r = Inr (gor_data (ex_mirror ?i n))" by (rule ex_mirror_toRow)
    show "grn_toLinesCreateInput sample_env ?r = Inr (gor_lines (ex_mirror ?i n))" by (rule ex_mirror_toLines)
  qed (use u new in \<open>simp_all add: insert_row_def resolveCompanyId_def\<close>)
  obtain au where a: "audit_write sample_env (Some ''T1'') (Some ''C1'') ''grn.reverse'' ''GoodReceiptNote'' (gr_id ?g) None
      ((''reversalId'', JStr (gr_id ?r)) # grn_status_change (gr_status ?g)) ?db2 = Inr ((), ?db2\<lparr>pf_audit := au\<rparr>)"
    using ex_audit_write by blast
  obtain d' where p: "grn_publish sample_env ?r (?db2\<lparr>pf_audit := au\<rparr>) = Inr ((), d')"
    "pt_orders d' = [ex_order (q - 4) (w + 1)]" "gt_notes d' = gt_notes db @ [ex_mirror ?i n]"
    "pf_drawn d' = pf_drawn db + 3" "pf_sequences d' = sq"
    using ex_publish [of sample_env ?r "?db2\<lparr>pf_audit := au\<rparr>"] by (auto simp: ex_reversal_def)
  have "e_uuid sample_env (pf_drawn db) = ?i" by (simp add: sample_env_def)
  then have "reverse_apply sample_env None ?g db = Inr (gr_id ?r, d')"
    using num rv reg save a p(1) by (simp add: reverse_apply_def actor_of_def draw_uuid_def tx_return_def)
  then show ?thesis using p(2-) by (simp add: ex_reversal_def)
qed

section \<open>The properties on the sample database\<close>

lemma ex_numbers: "nat_to_string 0 = ''0''" "nat_to_string 1 = ''1''" "nat_to_string 2 = ''2''" "nat_to_string 3 = ''3''"
  "nat_to_string 4 = ''4''"
  by (simp_all add: nat_to_string.simps char_of_def bit_Suc_0_iff)

definition ex_sequences :: "nat \<Rightarrow> sequence_row list" where
  "ex_sequences k = [\<lparr>sq_key = ''C1:grn.number'', sq_prefix = ''GRN-'', sq_padding = 8, sq_currentValue = k\<rparr>]"

lemma ex_next:
  "pf_sequences db = [] \<Longrightarrow> nextNumber sample_env ''grn.number'' (Some ''GRN-'') (Some 8) db
     = Inr (''GRN-'' @ pad_start 8 (CHR ''0'') ''1'', db\<lparr>pf_sequences := ex_sequences 1\<rparr>)"
  "pf_sequences db = ex_sequences 1 \<Longrightarrow> nextNumber sample_env ''grn.number'' (Some ''GRN-'') (Some 8) db
     = Inr (''GRN-'' @ pad_start 8 (CHR ''0'') ''2'', db\<lparr>pf_sequences := ex_sequences 2\<rparr>)"
  using ex_numbers
  by (simp_all add: nextNumber_def upsert_sequence_def scopedKey_def resolveCompanyId_def find_first_def
      ex_sequences_def insert_row_def numeral_2_eq_2 Let_def)

lemma ex_mirror_fields [simp]:
  "gd_id (gor_data (ex_mirror i n)) = i" "gd_grnNumber (gor_data (ex_mirror i n)) = n"
  "gor_companyId (ex_mirror i n) = ''C1''" "distinct (map glr_productId (gor_lines (ex_mirror i n)))"
  by (simp_all add: ex_mirror_def)

lemma ex_unique:
  "grn_unique [ex_note s v, ex_mirror ''0'' (''GRN-'' @ pad_start 8 (CHR ''0'') ''1'')]"
  "grn_unique [ex_note s v, ex_mirror ''0'' (''GRN-'' @ pad_start 8 (CHR ''0'') ''1''),
     ex_mirror ''3'' (''GRN-'' @ pad_start 8 (CHR ''0'') ''2'')]"
  "grn_unique [ex_note s v, ex_mirror ''4'' (''GRN-'' @ pad_start 8 (CHR ''0'') ''1'')]"
  by (simp_all add: grn_unique_def pad_start_def)

lemma ex_total: "abs_total (posted_entries (ex_note s v)) = 4"
  by simp

theorem inspection_balances_witness:
  "\<exists>g'. recordInspectionResult 100 [\<lparr>in_productId = ''A'', in_acceptedQuantity = N 3, in_rejectedQuantity = N 1\<rparr>]
      (grn_toDomain (ex_note G_RECEIVED 1)) = Inr g' \<and> (\<forall>l \<in> set (gr_lines g'). inspected_ok l)"
proof -
  let ?in = "[\<lparr>in_productId = ''A'', in_acceptedQuantity = N 3, in_rejectedQuantity = N 1\<rparr>]"
  let ?g = "grn_toDomain (ex_note G_RECEIVED 1)"
  have "js_add (N 3) (N 1) = N 4" using js_add_N [of 3 1] by simp
  then have "ginv_inspection_balance (N 4) (N 3) (N 1) = Inr ()"
    unfolding ginv_inspection_balance_def js_eq_N js_lt_N by simp
  then obtain g' where g': "recordInspectionResult 100 ?in ?g = Inr g'"
    by (auto simp: recordInspectionResult_def inspect_line_def ex_toDomain_line ex_domain_line_def)
  moreover have "\<forall>l \<in> set (gr_lines g'). inspected_ok l"
    using inspection_balances [OF g'] by (fastforce simp: inspects_def ex_toDomain_line ex_domain_line_def)
  ultimately show ?thesis by blast
qed

theorem posting_registers_receipt_witness:
  "\<exists>db'. post_grn sample_env ''g1'' None (ex_db 0 [ex_note G_RECEIVED 1]) = Inr (''g1'', db') \<and>
     po_balance db' ''o1'' ''A'' = Some 4"
proof -
  let ?db = "ex_db 0 [ex_note G_RECEIVED 1]"
  obtain db' where p: "post_grn sample_env ''g1'' None ?db = Inr (''g1'', db')"
    using ex_post [of G_RECEIVED ?db 0 1 1] by auto
  from posting_registers_receipt [OF p ex_ok(1), of "ex_note G_RECEIVED 1" ex_line 0] p
  show ?thesis using ex_ok ex_balance [of ?db 0 1] by (simp add: ex_line_def posted_int_def)
qed

theorem posting_again_counts_again_witness:
  "\<exists>db1 db2. post_grn sample_env ''g1'' None (ex_db 0 [ex_note G_RECEIVED 1]) = Inr (''g1'', db1) \<and>
     post_grn sample_env ''g1'' None db1 = Inr (''g1'', db2) \<and> po_balance db2 ''o1'' ''A'' = Some 8"
proof -
  let ?db = "ex_db 0 [ex_note G_RECEIVED 1]"
  obtain db1 where p: "post_grn sample_env ''g1'' None ?db = Inr (''g1'', db1)"
    "pt_orders db1 = [ex_order 4 2]" "gt_notes db1 = [ex_note G_COMPLETED 2]"
    using ex_post [of G_RECEIVED ?db 0 1 1] by auto
  obtain db2 where p2: "post_grn sample_env ''g1'' None db1 = Inr (''g1'', db2)"
    using ex_post [of G_COMPLETED db1 4 2 2] p by auto
  from posting_again_counts_again [OF p(1) p2 ex_ok(1), of "ex_note G_RECEIVED 1" ex_line 0] p(1) p2
  show ?thesis using ex_ok ex_balance [of ?db 0 1] by simp
qed

theorem reversal_restores_balance_witness:
  "\<exists>db1 db2 x. post_grn sample_env ''g1'' None (ex_db 0 [ex_note G_RECEIVED 1]) = Inr (''g1'', db1) \<and>
     reverse_grn sample_env ''g1'' None db1 = Inr (x, db2) \<and> po_balance db2 ''o1'' ''A'' = Some 0"
proof -
  let ?db = "ex_db 0 [ex_note G_RECEIVED 1]"
  obtain db1 where p: "post_grn sample_env ''g1'' None ?db = Inr (''g1'', db1)"
    "pt_orders db1 = [ex_order 4 2]" "gt_notes db1 = [ex_note G_COMPLETED 2]"
    "pf_drawn db1 = 4" "pf_sequences db1 = []"
    using ex_post [of G_RECEIVED ?db 0 1 1] by auto
  have c: "reverse_check sample_env ''g1'' db1 = Inr (grn_toDomain (ex_note G_COMPLETED 2), db1)"
    by (simp add: reverse_check_Inr p(3) find_first_def tenant_where_def)
  obtain x db2 where "reverse_apply sample_env None (grn_toDomain (ex_note G_COMPLETED 2)) db1 = Inr (x, db2)"
    using ex_reverse_apply [OF ex_next(1) [OF p(5)] p(2), of 2] p(3,4) ex_unique(3) ex_numbers(5) by auto
  then have r: "reverse_grn sample_env ''g1'' None db1 = Inr (x, db2)" using c by (auto simp: reverse_grn_Inr)
  from reversal_restores_balance [OF p(1) r ex_ok(1), of "ex_note G_RECEIVED 1" ex_line 0] r p(1)
  show ?thesis using ex_ok ex_balance [of ?db 0 1] by fastforce
qed

theorem reversed_once_witness:
  "\<exists>db1 x. reverse_grn sample_env ''g1'' None (ex_db 4 [ex_note G_COMPLETED 2]) = Inr (x, db1) \<and>
     transactional (reverse_grn sample_env ''g1'' None) db1 = (conflict ''GRN has already been reversed'', db1)"
proof -
  let ?db = "ex_db 4 [ex_note G_COMPLETED 2]"
  have c: "reverse_check sample_env ''g1'' ?db = Inr (grn_toDomain (ex_note G_COMPLETED 2), ?db)"
    by (simp add: reverse_check_Inr find_first_def tenant_where_def)
  obtain x db1 where "reverse_apply sample_env None (grn_toDomain (ex_note G_COMPLETED 2)) ?db = Inr (x, db1)"
    using ex_reverse_apply [OF ex_next(1), of ?db 4 1 2] ex_unique(1) ex_numbers(1) by auto
  then have r: "reverse_grn sample_env ''g1'' None ?db = Inr (x, db1)" using c by (auto simp: reverse_grn_Inr)
  from reversed_once [OF r, of sample_env db1 "[]"] r show ?thesis by auto
qed

theorem overlapping_reversals_count_twice_witness:
  "\<exists>g db1 db2 x y. reverse_check sample_env ''g1'' (ex_db 4 [ex_note G_COMPLETED 2])
       = Inr (g, ex_db 4 [ex_note G_COMPLETED 2]) \<and>
     reverse_apply sample_env None g (ex_db 4 [ex_note G_COMPLETED 2]) = Inr (x, db1) \<and>
     reverse_apply sample_env None g db1 = Inr (y, db2) \<and> po_balance db2 ''o1'' ''A'' = Some (- 4)"
proof -
  let ?db = "ex_db 4 [ex_note G_COMPLETED 2]" and ?g = "grn_toDomain (ex_note G_COMPLETED 2)"
  have c: "reverse_check sample_env ''g1'' ?db = Inr (?g, ?db)"
    by (simp add: reverse_check_Inr find_first_def tenant_where_def)
  obtain db1 where a1: "reverse_apply sample_env None ?g ?db = Inr (''0'', db1)" "pt_orders db1 = [ex_order 0 2]"
    "gt_notes db1 = [ex_note G_COMPLETED 2, ex_mirror ''0'' (''GRN-'' @ pad_start 8 (CHR ''0'') ''1'')]"
    "pf_drawn db1 = 3" "pf_sequences db1 = ex_sequences 1"
    using ex_reverse_apply [OF ex_next(1), of ?db 4 1 2] ex_unique(1) ex_numbers(1) by auto
  obtain y db2 where a2: "reverse_apply sample_env None ?g db1 = Inr (y, db2)"
    using ex_reverse_apply [OF ex_next(2) [OF a1(5)] a1(2), of 2] ex_unique(2) ex_numbers(4) a1(3,4) by auto
  from overlapping_reversals_count_twice [OF c c a1(1) a2 ex_ok(1), of "ex_note G_COMPLETED 2" ex_line 4] c a1(1) a2
  show ?thesis using ex_ok ex_balance [of ?db 4 1] by fastforce
qed

theorem reversal_cannot_be_reversed_witness:
  "\<exists>x. transactional (reverse_apply sample_env None (ex_reversal ''r1'' ''GRN-9'')) (ex_db 0 [])
     = (Inl x, ex_db 0 [])"
  by (rule reversal_cannot_be_reversed [OF ex_createReversal]) simp

end
