(* ===== verification/GRN_Lines.thy ===== *)
theory GRN_Lines
  imports GRN_Examples
begin

text \<open>
  What the lines of a note keep and lose: the round trip of a note through its rows, and the
  quantity a line posts after a full rejection and after a merge of two entries.
\<close>

section \<open>Round trip\<close>

text \<open>The price of every line is one the decimal column represents.\<close>

definition grn_storable :: "env \<Rightarrow> good_receipt \<Rightarrow> bool" where
  "grn_storable e g \<longleftrightarrow> (\<forall>l \<in> set (gr_lines g). \<exists>h. e_to_numeric e (gl_unitPrice l) = Some h \<and>
     number_of_decimal h = gl_unitPrice l)"

lemma grn_line_roundtrip:
  assumes "grn_toLineRow e l = Inr row" "e_to_numeric e (gl_unitPrice l) = Some h" "number_of_decimal h = gl_unitPrice l"
  shows "grn_toDomain_line row = l\<lparr>gl_tracking := []\<rparr>"
proof -
  obtain o' r a j where "gl_orderedQuantity l = N o'" "gl_receivedQuantity l = N r" "gl_acceptedQuantity l = N a"
    "gl_rejectedQuantity l = N j" "glr_productId row = gl_productId l" "glr_orderedQuantity row = o'"
    "glr_receivedQuantity row = r" "glr_acceptedQuantity row = a" "glr_rejectedQuantity row = j"
    "db_numeric e (gl_unitPrice l) = Inr (glr_unitPrice row)"
    using assms(1) by (auto simp: grn_toLineRow_def res_simps db_int_Inr simp del: db_int_N)
  moreover have "glr_unitPrice row = h"
    using calculation(10) assms(2) by (auto simp: db_numeric_def db_decimal_Inr)
  ultimately show ?thesis using assms(3) by (simp add: grn_toDomain_line_def grnLine_create_def)
qed

lemma grn_lines_roundtrip:
  assumes "grn_toLinesCreateInput e g = Inr rows" "grn_storable e g"
  shows "map grn_toDomain_line rows = map (\<lambda>l. l\<lparr>gl_tracking := []\<rparr>) (gr_lines g)"
proof -
  have len: "list_all2 (\<lambda>l row. grn_toLineRow e l = Inr row) (gr_lines g) rows"
    using assms(1) by (simp add: grn_toLinesCreateInput_def map_result_Inr_iff)
  show ?thesis
  proof (rule nth_equalityI)
    show "length (map grn_toDomain_line rows) = length (map (\<lambda>l. l\<lparr>gl_tracking := []\<rparr>) (gr_lines g))"
      using list_all2_lengthD [OF len] by simp
    fix k assume "k < length (map grn_toDomain_line rows)"
    then have k: "k < length (gr_lines g)" "k < length rows" using list_all2_lengthD [OF len] by simp_all
    then have "grn_toLineRow e (gr_lines g ! k) = Inr (rows ! k)" using list_all2_nthD [OF len] by simp
    moreover obtain h where "e_to_numeric e (gl_unitPrice (gr_lines g ! k)) = Some h"
      "number_of_decimal h = gl_unitPrice (gr_lines g ! k)"
      using assms(2) k(1) nth_mem by (force simp: grn_storable_def)
    ultimately show "map grn_toDomain_line rows ! k = map (\<lambda>l. l\<lparr>gl_tracking := []\<rparr>) (gr_lines g) ! k"
      using grn_line_roundtrip k by simp
  qed
qed

lemma grn_find_unique:
  assumes "grn_unique rows" "r \<in> set rows" "owned_scope c (gor_tenantId r)"
  shows "find_first (\<lambda>x. gor_id x = gor_id r \<and> owned_scope c (gor_tenantId x)) rows = Some r"
proof -
  obtain y where y: "find_first (\<lambda>x. gor_id x = gor_id r \<and> owned_scope c (gor_tenantId x)) rows = Some y"
    using assms(2,3) by (fastforce simp: find_first_def find_None_iff2 simp flip: not_None_eq)
  then show ?thesis using find_first_Some [OF y] grn_unique_ids [OF assms(1), of y r] assms(2) by simp
qed

lemma grn_toDomain_written:
  assumes "grn_toRow e g = Inr data" "gor_data r = data"
    "map grn_toDomain_line (gor_lines r) = map (\<lambda>l. l\<lparr>gl_tracking := []\<rparr>) (gr_lines g)"
  shows "grn_toDomain r = g\<lparr>gr_version := gor_version r, gr_events := [],
    gr_lines := map (\<lambda>l. l\<lparr>gl_tracking := []\<rparr>) (gr_lines g)\<rparr>"
proof -
  obtain x where x: "db_numeric e (grn_subtotal (gr_lines g)) = Inr x"
    using assms(1) by (auto simp: grn_toRow_def res_simps)
  note d = assms(1)[unfolded grn_toRow_def x and_then_simps(2), THEN Inr_inject]
  show ?thesis using assms(3) by (simp add: grn_toDomain_def assms(2) d [symmetric])
qed

text \<open>
  What is written is what is read, except for the tracking entries: after a successful write
  of a note, loading it returns the written note with the next version and no pending events,
  and with every lot and serial entry of its lines gone, because no column holds them.
\<close>
theorem grn_write_then_read:
  assumes "grn_update e g db = Inr (u, db')" "grn_storable e g"
  shows "grn_load e (gr_id g) db' = Inr (g\<lparr>gr_version := gr_version g + 1, gr_events := [],
    gr_lines := map (\<lambda>l. l\<lparr>gl_tracking := []\<rparr>) (gr_lines g)\<rparr>, db')"
proof -
  obtain data lines r where d: "grn_toRow e g = Inr data" "grn_toLinesCreateInput e g = Inr lines"
    and r: "r \<in> set (gt_notes db)" "grn_cas e g r"
    and db': "gt_notes db' = map_where (grn_cas e g) (grn_written data lines) (gt_notes db)"
    and u: "grn_unique (gt_notes db')"
    using assms(1) by (auto simp: grn_update_Inr)
  let ?w = "grn_written data lines r"
  have w: "?w \<in> set (gt_notes db')" using r by (auto simp: db' set_map_where)
  have f: "gor_id ?w = gr_id g" "gor_version ?w = gr_version g + 1" "owned_scope (e_ctx e) (gor_tenantId ?w)"
    "gor_data ?w = data" "gor_lines ?w = lines"
    using r(2) grn_toRow_fields [OF d(1)] by (simp_all add: grn_written_def grn_cas_def)
  have "grn_toDomain ?w = g\<lparr>gr_version := gr_version g + 1, gr_events := [],
      gr_lines := map (\<lambda>l. l\<lparr>gl_tracking := []\<rparr>) (gr_lines g)\<rparr>"
    using grn_toDomain_written [OF d(1), of ?w] grn_lines_roundtrip [OF d(2) assms(2)] f(2,4,5) by simp
  then show ?thesis using grn_find_unique [OF u w f(3)] f(1) by (auto simp: grn_load_Inr)
qed

section \<open>What a line posts\<close>

text \<open>
  A line that inspection rejects completely is posted in full: its accepted quantity is zero,
  and a zero counts as not inspected.
\<close>

theorem rejected_line_posts_received:
  assumes "recordInspectionResult now [\<lparr>in_productId = p, in_acceptedQuantity = N 0, in_rejectedQuantity = q\<rparr>] g = Inr g'"
    and "l \<in> set (gr_lines g')" "gl_productId l = p"
  shows "gl_acceptedQuantity l = N 0 \<and> (Some p, gl_receivedQuantity l) \<in> set (rq_lines (receipt_of_post g'))"
proof -
  have "gr_lines g' = map_where (is_grn_product p) (gl_withInspection (N 0) q) (gr_lines g)"
    using assms(1)
    by (auto simp: recordInspectionResult_def inspect_line_def res_simps split: if_splits option.splits)
  then have "\<forall>l \<in> set (gr_lines g'). gl_productId l = p \<longrightarrow> gl_acceptedQuantity l = N 0"
    by (simp add: set_map_where gl_withInspection_def ball_Un image_iff)
  then have a: "gl_acceptedQuantity l = N 0" using assms(2,3) by blast
  then have "postedQuantity l = gl_receivedQuantity l" by (simp add: postedQuantity_def)
  then show ?thesis using a assms(2,3) by (force simp: receipt_of_post_def)
qed

text \<open>
  Adding a product that is on the note already raises its received quantity but leaves the
  accepted one, so what the line posts stays the quantity of the first entry.
\<close>

theorem merged_line_posts_first_quantity:
  assumes "grn_addLine now p ordered received price g = Inr g'"
    and "List.find (\<lambda>l. gl_productId l = p) (gr_lines g) = Some l" "js_gt (gl_acceptedQuantity l) (N 0)"
  shows "\<exists>l'. List.find (\<lambda>l. gl_productId l = p) (gr_lines g') = Some l' \<and>
    gl_receivedQuantity l' = js_add (gl_receivedQuantity l) received \<and> postedQuantity l' = gl_acceptedQuantity l"
proof -
  have g': "gr_lines g' = map_where (is_grn_product p)
      (gl_withReceivedQuantity (js_add (gl_receivedQuantity l) received)) (gr_lines g)"
    using assms(1,2) by (auto simp: grn_addLine_def res_simps grn_addEvent_def Let_def)
  have "List.find (is_grn_product p) (gr_lines g') =
      Some (gl_withReceivedQuantity (js_add (gl_receivedQuantity l) received) l)"
    unfolding g' using assms(2) by (subst find_map_where) (simp_all add: gl_withReceivedQuantity_def)
  then show ?thesis using assms(3) by (simp add: gl_withReceivedQuantity_def postedQuantity_def)
qed

section \<open>On the sample note\<close>

theorem grn_write_then_read_witness:
  "\<exists>db' g. grn_update sample_env
       (grn_toDomain (ex_note G_DRAFT 1)\<lparr>gr_lines := [ex_domain_line\<lparr>gl_tracking := [\<lparr>te_lotNo = Some ''L'',
          te_serialNo = None, te_quantity = N 4, te_manufactureDate = None, te_expiryDate = None\<rparr>]\<rparr>]\<rparr>)
       (ex_db 0 [ex_note G_DRAFT 1]) = Inr ((), db') \<and>
     grn_load sample_env ''g1'' db' = Inr (g, db') \<and> gr_version g = 2 \<and> gr_lines g = [ex_domain_line]"
proof -
  let ?t = "ex_domain_line\<lparr>gl_tracking := [\<lparr>te_lotNo = Some ''L'', te_serialNo = None, te_quantity = N 4,
      te_manufactureDate = None, te_expiryDate = None\<rparr>]\<rparr>"
  let ?g = "grn_toDomain (ex_note G_DRAFT 1)\<lparr>gr_lines := [?t]\<rparr>"
  have "grn_subtotal [?t] = grn_subtotal [ex_domain_line]" "grn_toLineRow sample_env ?t = grn_toLineRow sample_env ex_domain_line"
    by (simp_all add: grn_subtotal_def gl_total_def grn_toLineRow_def)
  then have r: "grn_toRow sample_env ?g = Inr (gor_data (ex_note G_DRAFT 1))"
    "grn_toLinesCreateInput sample_env ?g = Inr [ex_line]"
    using ex_subtotal ex_toLineRow by (simp_all add: grn_toRow_def grn_toLinesCreateInput_def)
      (simp_all add: grn_toDomain_def ex_note_def)
  have c: "grn_cas sample_env ?g (ex_note G_DRAFT 1)" by (simp add: grn_cas_def tenant_where_def)
  then obtain db' where u: "grn_update sample_env ?g (ex_db 0 [ex_note G_DRAFT 1]) = Inr ((), db')"
    using r by (auto simp: grn_update_Inr grn_unique_def grn_written_def)
  have "grn_storable sample_env ?g"
    by (simp add: grn_storable_def ex_domain_line_def sample_env_def ex_price del: toFixed2.simps)
  from grn_write_then_read [OF u this] u show ?thesis by (auto simp: ex_domain_line_def)
qed

theorem rejected_line_posts_received_witness:
  "\<exists>g'. recordInspectionResult 100 [\<lparr>in_productId = ''A'', in_acceptedQuantity = N 0, in_rejectedQuantity = N 4\<rparr>]
      (grn_toDomain (ex_note G_RECEIVED 1)) = Inr g' \<and> (Some ''A'', N 4) \<in> set (rq_lines (receipt_of_post g'))"
proof -
  let ?in = "[\<lparr>in_productId = ''A'', in_acceptedQuantity = N 0, in_rejectedQuantity = N 4\<rparr>]"
  have "js_add (N 0) (N 4) = N 4" using js_add_N [of 0 4] by simp
  then have "ginv_inspection_balance (N 4) (N 0) (N 4) = Inr ()"
    unfolding ginv_inspection_balance_def js_eq_N js_lt_N by simp
  then have g': "recordInspectionResult 100 ?in (grn_toDomain (ex_note G_RECEIVED 1)) =
      Inr (grn_toDomain (ex_note G_RECEIVED 1)\<lparr>gr_lines := [gl_withInspection (N 0) (N 4) ex_domain_line],
        gr_updatedAt := 100\<rparr>)"
    by (simp add: recordInspectionResult_def inspect_line_def ex_toDomain_line ex_domain_line_def)
  from rejected_line_posts_received [OF g', of "gl_withInspection (N 0) (N 4) ex_domain_line"] g'
  show ?thesis by (simp add: gl_withInspection_def ex_domain_line_def)
qed

theorem merged_line_posts_first_quantity_witness:
  "\<exists>g' l'. grn_addLine 100 ''A'' (N 10) (N 3) (N 5) (grn_toDomain (ex_note G_DRAFT 1)) = Inr g' \<and>
     List.find (\<lambda>l. gl_productId l = ''A'') (gr_lines g') = Some l' \<and>
     gl_receivedQuantity l' = N 7 \<and> postedQuantity l' = N 4"
proof -
  obtain g' where g': "grn_addLine 100 ''A'' (N 10) (N 3) (N 5) (grn_toDomain (ex_note G_DRAFT 1)) = Inr g'"
    by (auto simp: grn_addLine_def ginv_editable_def ginv_line_quantity_def Let_def)
  have "js_add (N 4) (N 3) = N 7" using js_add_N [of 4 3] by simp
  with merged_line_posts_first_quantity [OF g', of ex_domain_line] g' show ?thesis
    by (simp add: ex_toDomain_line ex_domain_line_def)
qed

end
