(* ===== verification/Inbox.thy ===== *)
theory Inbox
  imports Table
begin

text \<open>
  The inbox (\<open>infrastructure/inbox\<close>): a consumer claims an incoming message by inserting a row
  for its identity, settles the claim with the token it got, and the reconciler frees or
  parks claims whose lease has run out. The statements of \<open>PrismaInboxRepository\<close> are
  separate, so \<open>inbox_receive\<close> is composed of a decision on the rows it reads and the
  compare-and-set that follows; \<open>inbox_op\<close> lists the statements that may interleave.
\<close>

section \<open>Rows and requests\<close>

datatype inbox_status = IN_PROGRESS | PROCESSED | SUSPENDED

record inbox_identity =
  ii_tenantId :: string
  ii_companyId :: string
  ii_consumer :: string
  ii_messageId :: string

record inbox_message =
  ib_id :: string
  ib_identity :: inbox_identity
  ib_messageType :: string
  ib_payload :: "(string \<times> json) list"
  ib_status :: inbox_status
  ib_attempts :: int
  ib_claimToken :: string
  ib_claimedAt :: "int option"
  ib_processedAt :: "int option"
  ib_nextAttemptAt :: "int option"
  ib_lastError :: "string option"
  ib_correlationId :: "string option"
  ib_causationId :: "string option"

record inbox_receive_request =
  ir_tenantId :: "string option"
  ir_companyId :: "string option"
  ir_consumer :: string
  ir_messageId :: string
  ir_messageType :: string
  ir_payload :: "(string \<times> json) list"
  ir_correlationId :: "string option"
  ir_causationId :: "string option"

record inbox_reservation =
  rs_id :: string
  rs_claimToken :: string

datatype inbox_receive_result = ACQUIRED inbox_reservation | DUPLICATE | BUSY

record inbox_config =
  ic_claimLeaseMs :: int
  ic_maxAttempts :: int
  ic_retryBaseDelayMs :: int
  ic_retryMaxDelayMs :: int
  ic_processedRetentionMs :: int

section \<open>The repository\<close>

definition insertIfAbsent ::
  "string \<Rightarrow> inbox_identity \<Rightarrow> inbox_receive_request \<Rightarrow> string \<Rightarrow> int \<Rightarrow> inbox_message list \<Rightarrow>
   string option \<times> inbox_message list" where
  "insertIfAbsent i identity rq claimToken claimedAt rows =
     (if \<exists>r \<in> set rows. ib_identity r = identity \<or> ib_id r = i then (None, rows)
      else (Some i, insert_row
        \<lparr>ib_id = i, ib_identity = identity, ib_messageType = ir_messageType rq, ib_payload = ir_payload rq,
         ib_status = IN_PROGRESS, ib_attempts = 1, ib_claimToken = claimToken, ib_claimedAt = Some claimedAt,
         ib_processedAt = None, ib_nextAttemptAt = None, ib_lastError = None,
         ib_correlationId = ir_correlationId rq, ib_causationId = ir_causationId rq\<rparr> rows))"

definition inbox_findUnique :: "inbox_identity \<Rightarrow> inbox_message list \<Rightarrow> inbox_message option" where
  "inbox_findUnique identity rows = find_first (\<lambda>r. ib_identity r = identity) rows"

abbreviation ib_owned :: "string \<Rightarrow> string \<Rightarrow> inbox_message \<Rightarrow> bool" where
  "ib_owned \<equiv> cas_hit ib_id (\<lambda>r. Some (ib_claimToken r)) (\<lambda>r. ib_status r = IN_PROGRESS)"

definition reclaim_row :: "string \<Rightarrow> int \<Rightarrow> inbox_message \<Rightarrow> inbox_message" where
  "reclaim_row claimToken now r = r\<lparr>ib_claimToken := claimToken, ib_claimedAt := Some now,
     ib_nextAttemptAt := None, ib_attempts := ib_attempts r + 1\<rparr>"

definition inbox_reclaim ::
  "string \<Rightarrow> string \<Rightarrow> string \<Rightarrow> int \<Rightarrow> inbox_message list \<Rightarrow> bool \<times> inbox_message list" where
  "inbox_reclaim i previous claimToken now rows =
     (let (n, rows') = update_many (ib_owned i previous) (reclaim_row claimToken now) rows in (n > 0, rows'))"

definition complete_row :: "int \<Rightarrow> string \<Rightarrow> inbox_message \<Rightarrow> inbox_message" where
  "complete_row now token r = r\<lparr>ib_status := PROCESSED, ib_processedAt := Some now, ib_claimedAt := None,
     ib_nextAttemptAt := None\<rparr>"

definition inbox_complete :: "string \<Rightarrow> string \<Rightarrow> int \<Rightarrow> inbox_message list \<Rightarrow> bool \<times> inbox_message list" where
  "inbox_complete i token now rows =
     (let (n, rows') = update_many (ib_owned i token) (complete_row now token) rows in (n > 0, rows'))"

text \<open>\<open>LEAST(base * POWER(2, GREATEST(attempts - 1, 0)), max)\<close> milliseconds from now.\<close>

definition backoff_delay :: "int \<Rightarrow> int \<Rightarrow> int \<Rightarrow> int" where
  "backoff_delay base mx attempts =
     (let b = max base 0; m = max mx b in min (b * 2 ^ nat (max (attempts - 1) 0)) m)"

definition inbox_fail ::
  "string \<Rightarrow> string \<Rightarrow> string option \<Rightarrow> int \<Rightarrow> int \<Rightarrow> int \<Rightarrow> inbox_message list \<Rightarrow> bool \<times> inbox_message list" where
  "inbox_fail i token err base mx now rows =
     (let (n, rows') = update_many (ib_owned i token)
            (\<lambda>r. r\<lparr>ib_claimedAt := None, ib_lastError := err,
               ib_nextAttemptAt := Some (now + backoff_delay base mx (ib_attempts r))\<rparr>) rows
      in (n > 0, rows'))"

definition claim_expired :: "int \<Rightarrow> int \<Rightarrow> inbox_message \<Rightarrow> bool" where
  "claim_expired now leaseMs r \<longleftrightarrow> ib_status r = IN_PROGRESS \<and>
     (case ib_claimedAt r of None \<Rightarrow> False | Some t \<Rightarrow> t < now - leaseMs)"

definition reconcileExpiredClaims ::
  "int \<Rightarrow> inbox_config \<Rightarrow> inbox_message list \<Rightarrow> nat \<times> inbox_message list" where
  "reconcileExpiredClaims now cfg rows =
     (let lease = ic_claimLeaseMs cfg;
          (suspended, rows1) = update_many (\<lambda>r. claim_expired now lease r \<and> ib_attempts r > ic_maxAttempts cfg)
            (\<lambda>r. r\<lparr>ib_status := SUSPENDED, ib_claimedAt := None, ib_lastError := Some ''max attempts exceeded''\<rparr>) rows;
          (backoffed, rows2) = update_many (\<lambda>r. claim_expired now lease r \<and> ib_attempts r \<le> ic_maxAttempts cfg)
            (\<lambda>r. r\<lparr>ib_claimedAt := None, ib_nextAttemptAt := Some (now +
               backoff_delay (ic_retryBaseDelayMs cfg) (ic_retryMaxDelayMs cfg) (ib_attempts r))\<rparr>) rows1
      in (suspended + backoffed, rows2))"

definition deleteProcessedOlderThan :: "int \<Rightarrow> int \<Rightarrow> inbox_message list \<Rightarrow> nat \<times> inbox_message list" where
  "deleteProcessedOlderThan now retentionMs rows =
     delete_many (\<lambda>r. ib_status r = PROCESSED \<and>
       (case ib_processedAt r of None \<Rightarrow> False | Some t \<Rightarrow> t < now - retentionMs)) rows"

section \<open>The use cases\<close>

definition inbox_identity_of :: "inbox_receive_request \<Rightarrow> inbox_identity" where
  "inbox_identity_of rq = \<lparr>ii_tenantId = coalesce (ir_tenantId rq) [], ii_companyId = coalesce (ir_companyId rq) [],
     ii_consumer = ir_consumer rq, ii_messageId = ir_messageId rq\<rparr>"

text \<open>What a receiver decides from the row it found: \<open>Inr\<close> a re-claim to try, \<open>Inl\<close> the result.\<close>

definition inbox_decide ::
  "inbox_config \<Rightarrow> int \<Rightarrow> inbox_message option \<Rightarrow> inbox_receive_result + inbox_message" where
  "inbox_decide cfg now found =
     (case found of
        None \<Rightarrow> Inl BUSY
      | Some existing \<Rightarrow>
          if ib_status existing = SUSPENDED then Inl BUSY
          else if ib_status existing = PROCESSED then Inl DUPLICATE
          else if (case ib_claimedAt existing of None \<Rightarrow> False | Some t \<Rightarrow> now - t < ic_claimLeaseMs cfg)
          then Inl BUSY
          else if (case ib_nextAttemptAt existing of None \<Rightarrow> False | Some t \<Rightarrow> t > now) then Inl BUSY
          else Inr existing)"

definition inbox_receive ::
  "inbox_config \<Rightarrow> int \<Rightarrow> string \<Rightarrow> string \<Rightarrow> inbox_receive_request \<Rightarrow> inbox_message list \<Rightarrow>
   inbox_receive_result \<times> inbox_message list" where
  "inbox_receive cfg now i claimToken rq rows =
     (let identity = inbox_identity_of rq
      in case insertIfAbsent i identity rq claimToken now rows of
           (Some inserted, rows') \<Rightarrow> (ACQUIRED \<lparr>rs_id = inserted, rs_claimToken = claimToken\<rparr>, rows')
         | (None, rows') \<Rightarrow>
             (case inbox_decide cfg now (inbox_findUnique identity rows') of
                Inl res \<Rightarrow> (res, rows')
              | Inr existing \<Rightarrow>
                  (case inbox_reclaim (ib_id existing) (ib_claimToken existing) claimToken now rows' of
                     (reclaimed, rows'') \<Rightarrow>
                       (if reclaimed then ACQUIRED \<lparr>rs_id = ib_id existing, rs_claimToken = claimToken\<rparr> else BUSY,
                        rows''))))"

definition complete_inbox_message :: "int \<Rightarrow> inbox_reservation \<Rightarrow> inbox_message list \<Rightarrow> inbox_message list" where
  "complete_inbox_message now res rows = snd (inbox_complete (rs_id res) (rs_claimToken res) now rows)"

definition fail_inbox_message ::
  "inbox_config \<Rightarrow> int \<Rightarrow> inbox_reservation \<Rightarrow> string option \<Rightarrow> inbox_message list \<Rightarrow> inbox_message list" where
  "fail_inbox_message cfg now res err rows =
     snd (inbox_fail (rs_id res) (rs_claimToken res) err (ic_retryBaseDelayMs cfg) (ic_retryMaxDelayMs cfg) now rows)"

definition inbox_reconcile :: "inbox_config \<Rightarrow> int \<Rightarrow> inbox_message list \<Rightarrow> inbox_message list" where
  "inbox_reconcile cfg now rows =
     snd (deleteProcessedOlderThan now (ic_processedRetentionMs cfg) (snd (reconcileExpiredClaims now cfg rows)))"

text \<open>The statements that different processes may interleave.\<close>

datatype inbox_op =
    Insert string inbox_receive_request string int
  | Reclaim string string string int
  | Complete string string int
  | Fail string string "string option" int
  | Sweep int
  | Purge int

fun inbox_apply :: "inbox_config \<Rightarrow> inbox_op \<Rightarrow> inbox_message list \<Rightarrow> inbox_message list" where
  "inbox_apply cfg (Insert i rq t now) rows = snd (insertIfAbsent i (inbox_identity_of rq) rq t now rows)"
| "inbox_apply cfg (Reclaim i prev t now) rows = snd (inbox_reclaim i prev t now rows)"
| "inbox_apply cfg (Complete i t now) rows = snd (inbox_complete i t now rows)"
| "inbox_apply cfg (Fail i t err now) rows =
     snd (inbox_fail i t err (ic_retryBaseDelayMs cfg) (ic_retryMaxDelayMs cfg) now rows)"
| "inbox_apply cfg (Sweep now) rows = snd (reconcileExpiredClaims now cfg rows)"
| "inbox_apply cfg (Purge now) rows = snd (deleteProcessedOlderThan now (ic_processedRetentionMs cfg) rows)"

definition inbox_run :: "inbox_config \<Rightarrow> inbox_op list \<Rightarrow> inbox_message list \<Rightarrow> inbox_message list" where
  "inbox_run cfg ops rows = fold (inbox_apply cfg) ops rows"

fun purges :: "inbox_op \<Rightarrow> bool" where
  "purges (Purge _) = True"
| "purges _ = False"

section \<open>A processed message\<close>

interpretation inbox_settle: fenced_update ib_id "\<lambda>r. Some (ib_claimToken r)"
    "\<lambda>r. ib_status r = IN_PROGRESS" "complete_row now" for now
  by unfold_locales (auto simp: complete_row_def cas_hit_def)

lemma inbox_statement_simps:
  "snd (inbox_reclaim i p t now rows) = map_where (ib_owned i p) (reclaim_row t now) rows"
  "snd (inbox_complete i t now rows) = map_where (ib_owned i t) (complete_row now t) rows"
  "snd (inbox_fail i t err b m now rows) = map_where (ib_owned i t)
     (\<lambda>r. r\<lparr>ib_claimedAt := None, ib_lastError := err, ib_nextAttemptAt := Some (now + backoff_delay b m (ib_attempts r))\<rparr>) rows"
  by (simp_all add: inbox_reclaim_def inbox_complete_def inbox_fail_def update_many_def)

text \<open>Every statement keeps identities and ids, and rows that are not in progress stay as they are.\<close>

definition inbox_unique :: "inbox_message list \<Rightarrow> bool" where
  "inbox_unique rows \<longleftrightarrow> distinct (map ib_id rows) \<and> distinct (map ib_identity rows)"

lemma reconcile_map:
  "snd (reconcileExpiredClaims now cfg rows) =
     map_where (\<lambda>r. claim_expired now (ic_claimLeaseMs cfg) r \<and> ib_attempts r \<le> ic_maxAttempts cfg)
       (\<lambda>r. r\<lparr>ib_claimedAt := None, ib_nextAttemptAt := Some (now +
          backoff_delay (ic_retryBaseDelayMs cfg) (ic_retryMaxDelayMs cfg) (ib_attempts r))\<rparr>)
     (map_where (\<lambda>r. claim_expired now (ic_claimLeaseMs cfg) r \<and> ib_attempts r > ic_maxAttempts cfg)
       (\<lambda>r. r\<lparr>ib_status := SUSPENDED, ib_claimedAt := None, ib_lastError := Some ''max attempts exceeded''\<rparr>) rows)"
  by (simp add: reconcileExpiredClaims_def update_many_def Let_def)

lemma ib_owned_active: "ib_owned i t r \<Longrightarrow> ib_status r = IN_PROGRESS"
  by (simp add: cas_hit_def)

lemma map_where_keeps: "r \<in> set rows \<Longrightarrow> \<not> p r \<Longrightarrow> r \<in> set (map_where p f rows)"
  by (simp add: set_map_where)

lemma settled_row_stays:
  assumes "r \<in> set rows" "ib_status r \<noteq> IN_PROGRESS" "\<not> purges oper"
  shows "r \<in> set (inbox_apply cfg oper rows)"
proof (cases oper)
  case (Insert i rq t now)
  then show ?thesis using assms(1) by (simp add: insertIfAbsent_def insert_row_def)
next
  case (Sweep now)
  have "\<not> claim_expired now l r" for l using assms(2) by (simp add: claim_expired_def)
  then show ?thesis using assms(1) Sweep by (simp add: reconcile_map map_where_keeps)
qed (use assms in \<open>auto simp: inbox_statement_simps intro!: map_where_keeps dest: ib_owned_active\<close>)

lemma settled_row_stays_run:
  assumes "r \<in> set rows" "ib_status r \<noteq> IN_PROGRESS" "list_all (\<lambda>x. \<not> purges x) ops"
  shows "r \<in> set (inbox_run cfg ops rows)"
  using assms unfolding inbox_run_def
  by (induction ops arbitrary: rows) (simp_all add: settled_row_stays)

lemma map_where_key:
  "(\<And>x. ib_id (f x) = ib_id x \<and> ib_identity (f x) = ib_identity x) \<Longrightarrow>
   inbox_unique (map_where p f rows) = inbox_unique rows"
  by (simp add: inbox_unique_def map_map_where)

lemma inbox_unique_step: "inbox_unique rows \<Longrightarrow> inbox_unique (inbox_apply cfg oper rows)"
proof (cases oper)
  case (Insert i rq t now)
  moreover assume "inbox_unique rows"
  ultimately show ?thesis by (auto simp: insertIfAbsent_def insert_row_def inbox_unique_def)
next
  case (Purge now)
  moreover assume "inbox_unique rows"
  ultimately show ?thesis
    by (simp add: inbox_unique_def deleteProcessedOlderThan_def delete_many_def distinct_map_filter)
qed (simp_all add: inbox_statement_simps reconcile_map map_where_key reclaim_row_def complete_row_def)

lemma inbox_unique_run: "inbox_unique rows \<Longrightarrow> inbox_unique (inbox_run cfg ops rows)"
  unfolding inbox_run_def by (induction ops arbitrary: rows) (simp_all add: inbox_unique_step)

lemma inbox_find:
  assumes "inbox_unique rows" "r \<in> set rows"
  shows "inbox_findUnique (ib_identity r) rows = Some r"
  using assms find_distinct_key [of ib_identity rows r]
  by (simp add: inbox_findUnique_def find_first_def inbox_unique_def)

text \<open>
  C7. A processed message stays processed: whatever claims, settlements, failures and sweeps of
  whatever processes follow, until the row is purged every delivery of the same message to
  the same consumer is answered DUPLICATE and changes nothing.
\<close>
theorem inbox_processed_once:
  assumes "inbox_unique rows" "r \<in> set rows" "ib_status r = PROCESSED"
    and "list_all (\<lambda>x. \<not> purges x) ops" "inbox_identity_of rq = ib_identity r"
  shows "inbox_receive cfg now i t rq (inbox_run cfg' ops rows) = (DUPLICATE, inbox_run cfg' ops rows)"
proof -
  let ?rows = "inbox_run cfg' ops rows"
  have r: "r \<in> set ?rows" using settled_row_stays_run [OF assms(2) _ assms(4)] assms(3) by simp
  have "inbox_findUnique (ib_identity r) ?rows = Some r" using inbox_find [OF inbox_unique_run [OF assms(1)] r] .
  moreover have "insertIfAbsent i (ib_identity r) rq t now ?rows = (None, ?rows)"
    using r by (auto simp: insertIfAbsent_def)
  ultimately show ?thesis using assms(3,5) by (simp add: inbox_receive_def inbox_decide_def)
qed

section \<open>The claim\<close>

text \<open>The token of a row changes only when it is re-claimed.\<close>

fun claims_with :: "string \<Rightarrow> inbox_op \<Rightarrow> bool" where
  "claims_with t (Insert _ _ t' _) = (t' = t)"
| "claims_with t (Reclaim _ _ t' _) = (t' = t)"
| "claims_with t _ = False"

definition token_retired :: "string \<Rightarrow> inbox_message list \<Rightarrow> bool" where
  "token_retired t rows \<longleftrightarrow> (\<forall>r \<in> set rows. ib_claimToken r \<noteq> t)"

lemma token_retiredI: "(\<And>r. r \<in> set rows \<Longrightarrow> ib_claimToken r \<noteq> t) \<Longrightarrow> token_retired t rows"
  by (simp add: token_retired_def)

lemma reclaimed_rows:
  assumes "y \<in> set (map_where (ib_owned i old) (reclaim_row new now) rows)" "new \<noteq> old"
  shows "\<exists>x \<in> set rows. ib_id y = ib_id x \<and> ib_status y = ib_status x \<and>
    (ib_claimToken y = old \<longrightarrow> ib_claimToken x = old \<and> \<not> ib_owned i old x)"
proof -
  obtain x where x: "x \<in> set rows" "ib_owned i old x \<and> y = reclaim_row new now x \<or> \<not> ib_owned i old x \<and> y = x"
    using set_map_where_origin [OF assms(1)] by blast
  then show ?thesis using assms(2) by (intro bexI [of _ x]) (auto simp: reclaim_row_def)
qed

lemma token_retired_map:
  "(\<And>x. ib_claimToken (f x) \<noteq> t \<or> ib_claimToken (f x) = ib_claimToken x) \<Longrightarrow> token_retired t rows \<Longrightarrow>
   token_retired t (map_where p f rows)"
  by (intro token_retiredI) (metis set_map_where_origin token_retired_def)

lemma token_retired_step:
  "token_retired t rows \<Longrightarrow> \<not> claims_with t oper \<Longrightarrow> token_retired t (inbox_apply cfg oper rows)"
proof (cases oper)
  case (Insert i rq t' now)
  moreover assume "token_retired t rows" "\<not> claims_with t oper"
  ultimately show ?thesis by (auto simp: insertIfAbsent_def insert_row_def token_retired_def)
next
  case (Purge now)
  moreover assume "token_retired t rows"
  ultimately show ?thesis by (auto simp: token_retired_def deleteProcessedOlderThan_def delete_many_def)
qed (simp_all add: inbox_statement_simps reconcile_map token_retired_map reclaim_row_def complete_row_def)

lemma token_retired_run:
  "token_retired t rows \<Longrightarrow> list_all (\<lambda>x. \<not> claims_with t x) ops \<Longrightarrow> token_retired t (inbox_run cfg ops rows)"
  unfolding inbox_run_def by (induction ops arbitrary: rows) (simp_all add: token_retired_step)

text \<open>
  A claim that was taken over cannot be settled any more: once a row has been re-claimed, and
  as long as nobody draws the old token again, completing or failing it with the old token
  changes nothing, whatever has run in between.
\<close>
theorem inbox_superseded_claim_is_void:
  assumes "inbox_reclaim i old new now rows = (True, rows')" "new \<noteq> old"
    and "\<forall>r \<in> set rows. ib_claimToken r = old \<longrightarrow> ib_id r = i \<and> ib_status r = IN_PROGRESS"
    and "list_all (\<lambda>x. \<not> claims_with old x) ops"
  shows "complete_inbox_message later \<lparr>rs_id = i, rs_claimToken = old\<rparr> (inbox_run cfg ops rows') = inbox_run cfg ops rows' \<and>
    fail_inbox_message cfg later \<lparr>rs_id = i, rs_claimToken = old\<rparr> err (inbox_run cfg ops rows') = inbox_run cfg ops rows'"
proof -
  have "rows' = map_where (ib_owned i old) (reclaim_row new now) rows"
    using assms(1) inbox_statement_simps(1) [of i old new now rows] by simp
  then have "token_retired old rows'"
    using assms(3) by (intro token_retiredI) (fastforce dest!: reclaimed_rows [OF _ assms(2)] simp: cas_hit_def)
  then have "token_retired old (inbox_run cfg ops rows')" by (rule token_retired_run [OF _ assms(4)])
  then have "map_where (ib_owned i old) f (inbox_run cfg ops rows') = inbox_run cfg ops rows'" for f
    by (intro map_where_none) (auto simp: token_retired_def cas_hit_def)
  then show ?thesis by (simp add: complete_inbox_message_def fail_inbox_message_def inbox_statement_simps)
qed

text \<open>
  Two deliveries that read the row before either re-claims it: the first compare-and-set wins.
\<close>

lemma inbox_one_reclaim_wins:
  assumes "inbox_reclaim i old t1 now rows = (b, rows')" "t1 \<noteq> old"
  shows "inbox_reclaim i old t2 now' rows' = (False, rows')"
proof -
  have "rows' = map_where (ib_owned i old) (reclaim_row t1 now) rows"
    using assms(1) inbox_statement_simps(1) [of i old t1 now rows] by simp
  then have "\<not> ib_owned i old r" if "r \<in> set rows'" for r
    using reclaimed_rows [of r i old t1 now rows] that assms(2) by (auto simp: cas_hit_def)
  then have "update_many (ib_owned i old) (reclaim_row t2 now') rows' = (0, rows')" by (rule update_many_miss)
  then show ?thesis by (simp add: inbox_reclaim_def)
qed

text \<open>
  A live claim is exclusive: while the lease of a claim runs, every delivery of its message is
  answered BUSY and changes nothing.
\<close>
theorem inbox_live_claim_exclusive:
  assumes "inbox_unique rows" "r \<in> set rows" "ib_status r = IN_PROGRESS" "ib_claimedAt r = Some t0"
    and "now < t0 + ic_claimLeaseMs cfg" "inbox_identity_of rq = ib_identity r"
  shows "inbox_receive cfg now i t rq rows = (BUSY, rows)"
proof -
  have "insertIfAbsent i (ib_identity r) rq t now rows = (None, rows)"
    using assms(2) by (auto simp: insertIfAbsent_def)
  then show ?thesis
    using inbox_find [OF assms(1,2)] assms(3-6) by (simp add: inbox_receive_def inbox_decide_def)
qed

section \<open>Failed deliveries\<close>

lemma backoff_bounds: "0 \<le> backoff_delay b m a" "backoff_delay b m a \<le> max m (max b 0)"
  by (simp_all add: backoff_delay_def Let_def)

lemma update_one:
  assumes "inbox_unique rows" "r \<in> set rows" "ib_status r = IN_PROGRESS"
  shows "f r \<in> set (map_where (ib_owned (ib_id r) (ib_claimToken r)) f rows)"
  using assms by (auto simp: set_map_where cas_hit_def)

text \<open>One delivery that the consumer fails: received when it is due, then failed by its owner.\<close>

definition failed_delivery ::
  "inbox_config \<Rightarrow> int \<Rightarrow> string \<Rightarrow> string \<Rightarrow> inbox_receive_request \<Rightarrow> string option \<Rightarrow> inbox_message list \<Rightarrow>
   inbox_message list" where
  "failed_delivery cfg now i t rq err rows =
     (case inbox_receive cfg now i t rq rows of
        (ACQUIRED res, rows') \<Rightarrow> fail_inbox_message cfg now res err rows'
      | (_, rows') \<Rightarrow> rows')"

lemma receive_due:
  assumes u: "inbox_unique rows" and r: "r \<in> set rows" "ib_status r = IN_PROGRESS" "ib_claimedAt r = None"
    and due: "case ib_nextAttemptAt r of None \<Rightarrow> True | Some d \<Rightarrow> d \<le> now"
    and id: "inbox_identity_of rq = ib_identity r"
  shows "inbox_receive cfg now i t rq rows =
    (ACQUIRED \<lparr>rs_id = ib_id r, rs_claimToken = t\<rparr>,
     map_where (ib_owned (ib_id r) (ib_claimToken r)) (reclaim_row t now) rows)"
proof -
  let ?p = "ib_owned (ib_id r) (ib_claimToken r)"
  have ins: "insertIfAbsent i (ib_identity r) rq t now rows = (None, rows)"
    using r(1) by (auto simp: insertIfAbsent_def)
  have dec: "inbox_decide cfg now (Some r) = Inr r"
    using r(2,3) due by (auto simp: inbox_decide_def split: option.splits)
  have "r \<in> set (filter ?p rows)" using r(1,2) by (simp add: cas_hit_def)
  then have "length (filter ?p rows) > 0" by (rule length_pos_if_in_set)
  then have "inbox_reclaim (ib_id r) (ib_claimToken r) t now rows = (True, map_where ?p (reclaim_row t now) rows)"
    by (simp add: inbox_reclaim_def update_many_def)
  then show ?thesis using ins dec inbox_find [OF u r(1)] id by (simp add: inbox_receive_def)
qed

fun failing ::
  "inbox_config \<Rightarrow> inbox_receive_request \<Rightarrow> (int \<times> string \<times> string option) list \<Rightarrow> inbox_message list \<Rightarrow>
   inbox_message list" where
  "failing cfg rq [] rows = rows"
| "failing cfg rq ((now, t, err) # ds) rows =
     failing cfg rq ds (snd (reconcileExpiredClaims now cfg (failed_delivery cfg now [] t rq err rows)))"

definition max_backoff :: "inbox_config \<Rightarrow> int" where
  "max_backoff cfg = max (ic_retryMaxDelayMs cfg) (max (ic_retryBaseDelayMs cfg) 0)"

text \<open>Deliveries that are at least the maximal backoff apart, the first not before \<open>d\<close>.\<close>

fun spaced :: "int \<Rightarrow> int \<Rightarrow> (int \<times> string \<times> string option) list \<Rightarrow> bool" where
  "spaced gap d [] = True"
| "spaced gap d ((now, t, err) # ds) = (d \<le> now \<and> spaced gap (now + gap) ds)"

lemma failed_delivery_row:
  assumes u: "inbox_unique rows" and r: "r \<in> set rows" "ib_status r = IN_PROGRESS" "ib_claimedAt r = None"
    and due: "case ib_nextAttemptAt r of None \<Rightarrow> True | Some d \<Rightarrow> d \<le> now"
    and id: "inbox_identity_of rq = ib_identity r"
    and rows'_def: "rows' = failed_delivery cfg now i t rq err rows"
  shows "inbox_unique rows' \<and> (\<exists>r' \<in> set rows'. ib_id r' = ib_id r \<and> ib_identity r' = ib_identity r \<and>
    ib_status r' = IN_PROGRESS \<and> ib_claimedAt r' = None \<and> ib_attempts r' = ib_attempts r + 1 \<and>
    (\<exists>d. ib_nextAttemptAt r' = Some d \<and> d \<le> now + max_backoff cfg))"
proof -
  let ?mid = "map_where (ib_owned (ib_id r) (ib_claimToken r)) (reclaim_row t now) rows"
  let ?r1 = "reclaim_row t now r"
  let ?f = "\<lambda>r. r\<lparr>ib_claimedAt := None, ib_lastError := err, ib_nextAttemptAt := Some (now +
      backoff_delay (ic_retryBaseDelayMs cfg) (ic_retryMaxDelayMs cfg) (ib_attempts r))\<rparr>"
  have rows': "rows' = map_where (ib_owned (ib_id r) t) ?f ?mid"
    unfolding rows'_def failed_delivery_def receive_due [OF u r due id]
    by (simp add: fail_inbox_message_def inbox_statement_simps)
  have mid: "?r1 \<in> set ?mid" by (rule update_one [OF u r(1,2)])
  have u1: "inbox_unique ?mid" using u by (subst map_where_key) (simp_all add: reclaim_row_def)
  have u2: "inbox_unique rows'" using u1 unfolding rows' by (subst map_where_key) simp_all
  have fields: "ib_id ?r1 = ib_id r" "ib_claimToken ?r1 = t" "ib_status ?r1 = IN_PROGRESS"
    "ib_identity ?r1 = ib_identity r" "ib_attempts ?r1 = ib_attempts r + 1"
    using r(2) by (simp_all add: reclaim_row_def)
  have "?f ?r1 \<in> set rows'" using update_one [OF u1 mid fields(3), of ?f] fields(1,2) rows' by simp
  then have "\<exists>r' \<in> set rows'. ib_id r' = ib_id r \<and> ib_identity r' = ib_identity r \<and>
    ib_status r' = IN_PROGRESS \<and> ib_claimedAt r' = None \<and> ib_attempts r' = ib_attempts r + 1 \<and>
    (\<exists>d. ib_nextAttemptAt r' = Some d \<and> d \<le> now + max_backoff cfg)"
    using fields backoff_bounds(2) by (intro bexI [of _ "?f ?r1"]) (simp_all add: max_backoff_def)
  then show ?thesis using u2 by blast
qed

lemma unclaimed_row_not_swept:
  "r \<in> set rows \<Longrightarrow> ib_claimedAt r = None \<Longrightarrow> r \<in> set (snd (reconcileExpiredClaims now cfg rows))"
  by (simp add: reconcile_map map_where_keeps claim_expired_def)

text \<open>
  A message that its consumer fails is never parked: after any number of deliveries that were
  received when due and failed by their owner, with a sweep of the reconciler after each, the
  message is still in progress, every attempt has been counted, and the next delivery is due
  within the maximal backoff. The limit on attempts plays no part: the sweep only parks claims
  that were neither completed nor failed.
\<close>
theorem inbox_failed_message_never_parked:
  assumes "inbox_unique rows" "r \<in> set rows" "ib_status r = IN_PROGRESS" "ib_claimedAt r = None"
    and "case ib_nextAttemptAt r of None \<Rightarrow> True | Some d \<Rightarrow> d \<le> d0"
    and "inbox_identity_of rq = ib_identity r" "spaced (max_backoff cfg) d0 ds"
  shows "\<exists>r' \<in> set (failing cfg rq ds rows). ib_id r' = ib_id r \<and> ib_status r' = IN_PROGRESS \<and>
    ib_claimedAt r' = None \<and> ib_attempts r' = ib_attempts r + int (length ds)"
  using assms
proof (induction ds arbitrary: rows r d0)
  case Nil
  then show ?case by auto
next
  case (Cons d ds)
  obtain now t err where d: "d = (now, t, err)" by (cases d)
  have due: "case ib_nextAttemptAt r of None \<Rightarrow> True | Some d \<Rightarrow> d \<le> now"
    using Cons.prems(5,7) by (auto simp: d split: option.splits)
  let ?rows = "failed_delivery cfg now [] t rq err rows"
  let ?next = "snd (reconcileExpiredClaims now cfg ?rows)"
  obtain r1 d1 where u1: "inbox_unique ?rows" and r1: "r1 \<in> set ?rows" "ib_id r1 = ib_id r"
    "ib_identity r1 = ib_identity r" "ib_status r1 = IN_PROGRESS" "ib_claimedAt r1 = None"
    "ib_attempts r1 = ib_attempts r + 1" "ib_nextAttemptAt r1 = Some d1" "d1 \<le> now + max_backoff cfg"
    using failed_delivery_row [OF Cons.prems(1-4) due Cons.prems(6) refl, of cfg "[]" t err] by blast
  have u2: "inbox_unique ?next" using inbox_unique_step [OF u1, of cfg "Sweep now"] by simp
  have "r1 \<in> set ?next" by (rule unclaimed_row_not_swept [OF r1(1,5)])
  then obtain r' where "r' \<in> set (failing cfg rq ds ?next)" "ib_id r' = ib_id r1" "ib_status r' = IN_PROGRESS"
    "ib_claimedAt r' = None" "ib_attempts r' = ib_attempts r1 + int (length ds)"
    using Cons.IH [OF u2 _ r1(4,5), of "now + max_backoff cfg"] Cons.prems(6,7) r1(3,7,8) by (auto simp: d)
  then show ?case using r1(2,6) by (intro bexI [of _ r']) (simp_all add: d)
qed

section \<open>Examples\<close>

definition ib_cfg :: inbox_config where
  "ib_cfg = \<lparr>ic_claimLeaseMs = 1000, ic_maxAttempts = 2, ic_retryBaseDelayMs = 10, ic_retryMaxDelayMs = 100,
     ic_processedRetentionMs = 5000\<rparr>"

definition ib_request :: inbox_receive_request where
  "ib_request = \<lparr>ir_tenantId = Some ''T1'', ir_companyId = Some ''C1'', ir_consumer = ''L'', ir_messageId = ''m1'',
     ir_messageType = ''E'', ir_payload = [], ir_correlationId = None, ir_causationId = None\<rparr>"

definition ib_sample :: "inbox_status \<Rightarrow> int option \<Rightarrow> inbox_message" where
  "ib_sample st claimed = \<lparr>ib_id = ''r1'', ib_identity = inbox_identity_of ib_request, ib_messageType = ''E'',
     ib_payload = [], ib_status = st, ib_attempts = 1, ib_claimToken = ''a'', ib_claimedAt = claimed,
     ib_processedAt = None, ib_nextAttemptAt = None, ib_lastError = None, ib_correlationId = None,
     ib_causationId = None\<rparr>"

lemma ib_sample_simps [simp]:
  "ib_id (ib_sample st c) = ''r1''" "ib_identity (ib_sample st c) = inbox_identity_of ib_request"
  "ib_status (ib_sample st c) = st" "ib_claimedAt (ib_sample st c) = c" "ib_claimToken (ib_sample st c) = ''a''"
  "ib_nextAttemptAt (ib_sample st c) = None" "ib_attempts (ib_sample st c) = 1" "inbox_unique [ib_sample st c]"
  by (simp_all add: ib_sample_def inbox_unique_def)

theorem inbox_processed_once_witness:
  "inbox_receive ib_cfg 900 ''r2'' ''b'' ib_request
     (inbox_run ib_cfg [Fail ''r1'' ''a'' None 500, Sweep 600] [ib_sample PROCESSED None])
   = (DUPLICATE, inbox_run ib_cfg [Fail ''r1'' ''a'' None 500, Sweep 600] [ib_sample PROCESSED None])"
  by (rule inbox_processed_once [of _ "ib_sample PROCESSED None"]) simp_all

theorem inbox_superseded_claim_is_void_witness:
  "complete_inbox_message 3000 \<lparr>rs_id = ''r1'', rs_claimToken = ''a''\<rparr>
     (inbox_run ib_cfg [Sweep 2500] [reclaim_row ''b'' 2000 (ib_sample IN_PROGRESS None)])
   = inbox_run ib_cfg [Sweep 2500] [reclaim_row ''b'' 2000 (ib_sample IN_PROGRESS None)]"
proof -
  have "inbox_reclaim ''r1'' ''a'' ''b'' 2000 [ib_sample IN_PROGRESS None]
      = (True, [reclaim_row ''b'' 2000 (ib_sample IN_PROGRESS None)])"
    by (simp add: inbox_reclaim_def update_many_def cas_hit_def)
  from inbox_superseded_claim_is_void [OF this, of "[Sweep 2500]" 3000 ib_cfg None] show ?thesis by simp
qed

theorem inbox_live_claim_exclusive_witness:
  "inbox_receive ib_cfg 900 ''r2'' ''b'' ib_request [ib_sample IN_PROGRESS (Some 0)]
   = (BUSY, [ib_sample IN_PROGRESS (Some 0)])"
  using inbox_live_claim_exclusive [of "[ib_sample IN_PROGRESS (Some 0)]" "ib_sample IN_PROGRESS (Some 0)" 0 900 ib_cfg ib_request]
  by (simp add: ib_cfg_def)

theorem inbox_failed_message_never_parked_witness:
  "\<exists>r' \<in> set (failing ib_cfg ib_request
       [(0, ''b'', None), (200, ''c'', None), (400, ''d'', None), (600, ''e'', None)] [ib_sample IN_PROGRESS None]).
     ib_status r' = IN_PROGRESS \<and> ib_attempts r' = 5"
  using inbox_failed_message_never_parked [of "[ib_sample IN_PROGRESS None]" "ib_sample IN_PROGRESS None" 0 ib_request
      ib_cfg "[(0, ''b'', None), (200, ''c'', None), (400, ''d'', None), (600, ''e'', None)]"]
  by (fastforce simp: max_backoff_def ib_cfg_def)

end
