(* ===== verification/Saga_Value.thy ===== *)
theory Saga_Value
  imports Table
begin

text \<open>
  The values a saga definition computes with (\<open>platform-organization/saga\<close>): what JSON can
  hold, \<open>undefined\<close>, and the built-in objects and functions a property access may reach
  through a prototype. The conversions of the language that the expression evaluator uses are
  written out: \<open>Number(v)\<close>, \<open>Number.prototype.toString\<close>, \<open>JSON.stringify\<close> and the round
  trip through a JSON column. Keys of an object are in insertion order; strings are sequences
  of characters in the ASCII range.
\<close>

section \<open>Values\<close>

datatype sval =
    VUndef
  | VNull
  | VBool bool
  | VNum number
  | VStr string
  | VArr "sval list"
  | VObj "(string \<times> sval) list"
  | VHost nat

text \<open>
  What the language environment decides: the inherited properties of a value, the number a
  built-in object converts to, its JSON form (\<open>None\<close> for a function) and whether two
  object operands are one object, which is not a matter of their contents.
\<close>

record host =
  h_inherited :: "sval \<Rightarrow> string \<Rightarrow> sval"
  h_number :: "sval \<Rightarrow> number"
  h_stored :: "nat \<Rightarrow> sval option"
  h_same :: "sval \<Rightarrow> sval \<Rightarrow> bool"

fun own_property :: "sval \<Rightarrow> string \<Rightarrow> sval option" where
  "own_property (VObj fs) k = map_of fs k"
| "own_property (VArr xs) k = (if k = ''length'' then Some (VNum (N (int (length xs)))) else None)"
| "own_property (VStr s) k = (if k = ''length'' then Some (VNum (N (int (length s)))) else None)"
| "own_property _ k = None"

definition get_property :: "host \<Rightarrow> sval \<Rightarrow> string \<Rightarrow> sval" where
  "get_property h v k = (case own_property v k of Some x \<Rightarrow> x | None \<Rightarrow> h_inherited h v k)"

text \<open>\<open>o[k] = v\<close> and the spread \<open>{ ...o, ...p }\<close>.\<close>

fun set_field :: "string \<Rightarrow> sval \<Rightarrow> (string \<times> sval) list \<Rightarrow> (string \<times> sval) list" where
  "set_field k v [] = [(k, v)]"
| "set_field k v ((k', v') # fs) = (if k' = k then (k, v) # fs else (k', v') # set_field k v fs)"

definition spread_fields :: "(string \<times> sval) list \<Rightarrow> (string \<times> sval) list \<Rightarrow> (string \<times> sval) list" where
  "spread_fields fs gs = fold (\<lambda>(k, v). set_field k v) gs fs"

lemma map_of_set_field: "map_of (set_field k v fs) = (map_of fs)(k \<mapsto> v)"
  by (induction fs) (auto simp: fun_eq_iff)

lemma map_of_set_field_apply [simp]:
  "map_of (set_field k v fs) k' = (if k' = k then Some v else map_of fs k')"
  by (simp add: map_of_set_field)

definition is_nullish :: "sval \<Rightarrow> bool" where
  "is_nullish v \<longleftrightarrow> v = VNull \<or> v = VUndef"

definition sval_truthy :: "sval \<Rightarrow> bool" where
  "sval_truthy v \<longleftrightarrow>
     \<not> (is_nullish v \<or> v = VBool False) \<and> \<not> (v = VNum (N 0) \<or> v = VStr [])"

lemma is_nullish_simps [simp]:
  "is_nullish VUndef" "is_nullish VNull" "\<not> is_nullish (VBool b)" "\<not> is_nullish (VNum x)"
  "\<not> is_nullish (VStr s)" "\<not> is_nullish (VArr xs)" "\<not> is_nullish (VObj fs)" "\<not> is_nullish (VHost n)"
  by (simp_all add: is_nullish_def)

lemma sval_truthy_simps [simp]:
  "\<not> sval_truthy VUndef" "\<not> sval_truthy VNull" "sval_truthy (VBool b) = b"
  "sval_truthy (VStr s) \<longleftrightarrow> s \<noteq> []" "sval_truthy (VArr xs)" "sval_truthy (VObj fs)" "sval_truthy (VHost n)"
  by (auto simp: sval_truthy_def)

text \<open>\<open>a === b\<close>\<close>

fun strict_eq :: "host \<Rightarrow> sval \<Rightarrow> sval \<Rightarrow> bool" where
  "strict_eq h VUndef VUndef = True"
| "strict_eq h VNull VNull = True"
| "strict_eq h (VBool a) (VBool b) = (a = b)"
| "strict_eq h (VNum a) (VNum b) = js_eq a b"
| "strict_eq h (VStr a) (VStr b) = (a = b)"
| "strict_eq h (VArr a) (VArr b) = h_same h (VArr a) (VArr b)"
| "strict_eq h (VObj a) (VObj b) = h_same h (VObj a) (VObj b)"
| "strict_eq h (VHost a) (VHost b) = (a = b)"
| "strict_eq h _ _ = False"

section \<open>Strings and numbers\<close>

definition is_digit :: "char \<Rightarrow> bool" where
  "is_digit c \<longleftrightarrow> CHR ''0'' \<le> c \<and> c \<le> CHR ''9''"

definition digit_value :: "char \<Rightarrow> nat" where
  "digit_value c = of_char c - 48"

definition digits_value :: "string \<Rightarrow> nat" where
  "digits_value s = foldl (\<lambda>n c. 10 * n + digit_value c) 0 s"

text \<open>The digit of a base up to sixteen, as a non-decimal literal has them.\<close>

definition base_digit :: "nat \<Rightarrow> char \<Rightarrow> nat option" where
  "base_digit b c =
     (let n = (if is_digit c then of_char c - 48
               else if CHR ''a'' \<le> c \<and> c \<le> CHR ''f'' then of_char c - 87
               else if CHR ''A'' \<le> c \<and> c \<le> CHR ''F'' then of_char c - 55 else b)
      in if n < b then Some n else None)"

fun base_value :: "nat \<Rightarrow> nat \<Rightarrow> string \<Rightarrow> nat option" where
  "base_value b n [] = Some n"
| "base_value b n (c # cs) =
     (case base_digit b c of None \<Rightarrow> None | Some d \<Rightarrow> base_value b (b * n + d) cs)"

definition span :: "(char \<Rightarrow> bool) \<Rightarrow> string \<Rightarrow> string \<times> string" where
  "span p s = (takeWhile p s, dropWhile p s)"

definition pow10 :: "int \<Rightarrow> rat" where
  "pow10 e = (if 0 \<le> e then 10 ^ nat e else 1 / 10 ^ nat (- e))"

text \<open>\<open>digits [. digits] [e [+-] digits]\<close>, with a digit before or after the point.\<close>

definition exponent_part :: "string \<Rightarrow> int option" where
  "exponent_part s =
     (case s of
        [] \<Rightarrow> Some 0
      | c # r \<Rightarrow>
          if c = CHR ''e'' \<or> c = CHR ''E'' then
            let neg = (r \<noteq> [] \<and> hd r = CHR ''-'');
                ds = (if r \<noteq> [] \<and> (hd r = CHR ''-'' \<or> hd r = CHR ''+'') then tl r else r)
            in if ds = [] \<or> \<not> list_all is_digit ds then None
               else Some (if neg then - int (digits_value ds) else int (digits_value ds))
          else None)"

definition decimal_literal :: "string \<Rightarrow> rat option" where
  "decimal_literal s =
     (let (whole, r) = span is_digit s;
          (frac, r') = (if r \<noteq> [] \<and> hd r = CHR ''.'' then span is_digit (tl r) else ([], r))
      in if whole = [] \<and> frac = [] then None
         else case exponent_part r' of
                None \<Rightarrow> None
              | Some e \<Rightarrow> Some (of_nat (digits_value (whole @ frac)) * pow10 (e - int (length frac))))"

definition unsigned_number :: "string \<Rightarrow> number" where
  "unsigned_number s =
     (if s = ''Infinity'' then PInf
      else case decimal_literal s of None \<Rightarrow> NaN | Some q \<Rightarrow> round_double q)"

definition string_to_number :: "string \<Rightarrow> number" where
  "string_to_number str =
     (let s = trim str; two = take 2 s; body = drop 2 s;
          based = (\<lambda>b. if body = [] then NaN
                       else case base_value b 0 body of None \<Rightarrow> NaN | Some n \<Rightarrow> round_double (of_nat n))
      in if s = [] then N 0
         else if two = ''0x'' \<or> two = ''0X'' then based 16
         else if two = ''0o'' \<or> two = ''0O'' then based 8
         else if two = ''0b'' \<or> two = ''0B'' then based 2
         else if hd s = CHR ''-'' then js_neg (unsigned_number (tl s))
         else if hd s = CHR ''+'' then unsigned_number (tl s)
         else unsigned_number s)"

text \<open>
  \<open>Number(v)\<close>. A plain object converts through the text \<open>[object Object]\<close>, an array through
  its items joined by commas, which is a numeral only when there is at most one item.
\<close>

fun to_number :: "host \<Rightarrow> sval \<Rightarrow> number" where
  "to_number h VUndef = NaN"
| "to_number h VNull = N 0"
| "to_number h (VBool b) = (if b then N 1 else N 0)"
| "to_number h (VNum x) = x"
| "to_number h (VStr s) = string_to_number s"
| "to_number h (VArr []) = N 0"
| "to_number h (VArr [x]) =
     (case x of
        VUndef \<Rightarrow> N 0 | VNull \<Rightarrow> N 0 | VBool _ \<Rightarrow> NaN | VHost n \<Rightarrow> h_number h (VArr [x])
      | _ \<Rightarrow> to_number h x)"
| "to_number h (VArr (x # y # zs)) = NaN"
| "to_number h (VObj _) = NaN"
| "to_number h (VHost n) = h_number h (VHost n)"

text \<open>
  \<open>Number.prototype.toString\<close>: the fewest significant digits that round back to the number,
  the nearest such numeral if there are two, and the exponent form outside \<open>1e-7 .. 1e21\<close>.
\<close>

fun decimal_exponent :: "nat \<Rightarrow> int \<Rightarrow> rat \<Rightarrow> int" where
  "decimal_exponent 0 e x = e"
| "decimal_exponent (Suc k) e x =
     (if x < pow10 (e - 1) then decimal_exponent k (e - 1) x
      else if pow10 e \<le> x then decimal_exponent k (e + 1) x else e)"

definition closest_numeral :: "rat \<Rightarrow> int \<Rightarrow> nat \<Rightarrow> int option" where
  "closest_numeral x n k =
     (let q = x / pow10 (n - int k); lo = \<lfloor>q\<rfloor>;
          ok = (\<lambda>s. round_double (of_int s * pow10 (n - int k)) = Fin x)
      in if ok lo \<and> (\<not> ok (lo + 1) \<or> q - of_int lo \<le> 1 / 2) then Some lo
         else if ok (lo + 1) then Some (lo + 1) else None)"

fun shortest_from :: "nat \<Rightarrow> nat \<Rightarrow> rat \<Rightarrow> int \<Rightarrow> int \<times> nat" where
  "shortest_from 0 k x n = (\<lfloor>x / pow10 (n - int k)\<rfloor>, k)"
| "shortest_from (Suc fuel) k x n =
     (case closest_numeral x n k of Some s \<Rightarrow> (s, k) | None \<Rightarrow> shortest_from fuel (Suc k) x n)"

definition positive_to_string :: "rat \<Rightarrow> string" where
  "positive_to_string x =
     (let n = decimal_exponent 700 1 x; (s, k) = shortest_from 17 1 x n;
          ds = nat_to_string (nat s); e = n - 1
      in if int k \<le> n \<and> n \<le> 21 then ds @ replicate (nat n - k) CHR ''0''
         else if 0 < n \<and> n \<le> 21 then take (nat n) ds @ ''.'' @ drop (nat n) ds
         else if - 6 < n \<and> n \<le> 0 then ''0.'' @ replicate (nat (- n)) CHR ''0'' @ ds
         else take 1 ds @ (if k = 1 then [] else ''.'' @ drop 1 ds) @ ''e'' @
              (if e < 0 then ''-'' else ''+'') @ nat_to_string (nat \<bar>e\<bar>))"

fun number_to_string :: "number \<Rightarrow> string" where
  "number_to_string NaN = ''NaN''"
| "number_to_string PInf = ''Infinity''"
| "number_to_string NInf = ''-Infinity''"
| "number_to_string (Fin x) =
     (if x = 0 then ''0'' else if x < 0 then ''-'' @ positive_to_string (- x) else positive_to_string x)"

definition in_quotes :: "string \<Rightarrow> string" where
  "in_quotes s = CHR 0x22 # s @ [CHR 0x22]"

section \<open>JSON\<close>

text \<open>
  \<open>JSON.parse(JSON.stringify(v))\<close>: \<open>undefined\<close> and functions vanish from objects and become
  \<open>null\<close> in arrays, numbers that are not finite become \<open>null\<close>.
\<close>

fun stored :: "host \<Rightarrow> sval \<Rightarrow> sval option"
  and stored_items :: "host \<Rightarrow> sval list \<Rightarrow> sval list"
  and stored_fields :: "host \<Rightarrow> (string \<times> sval) list \<Rightarrow> (string \<times> sval) list" where
  "stored h VUndef = None"
| "stored h VNull = Some VNull"
| "stored h (VBool b) = Some (VBool b)"
| "stored h (VNum x) = Some (if is_finite x then VNum x else VNull)"
| "stored h (VStr s) = Some (VStr s)"
| "stored h (VArr xs) = Some (VArr (stored_items h xs))"
| "stored h (VObj fs) = Some (VObj (stored_fields h fs))"
| "stored h (VHost n) = h_stored h n"
| "stored_items h [] = []"
| "stored_items h (x # xs) = coalesce (stored h x) VNull # stored_items h xs"
| "stored_fields h [] = []"
| "stored_fields h ((k, x) # fs) =
     (case stored h x of None \<Rightarrow> stored_fields h fs | Some y \<Rightarrow> (k, y) # stored_fields h fs)"

definition hex_digit :: "nat \<Rightarrow> char" where
  "hex_digit n = char_of (if n < 10 then 48 + n else 87 + n)"

definition escape_char :: "char \<Rightarrow> string" where
  "escape_char c =
     (if c = CHR 0x22 then [CHR 0x5C, CHR 0x22]
      else if c = CHR 0x5C then [CHR 0x5C, CHR 0x5C]
      else if c = CHR 0x08 then [CHR 0x5C, CHR ''b'']
      else if c = CHR 0x09 then [CHR 0x5C, CHR ''t'']
      else if c = CHR 0x0A then [CHR 0x5C, CHR ''n'']
      else if c = CHR 0x0C then [CHR 0x5C, CHR ''f'']
      else if c = CHR 0x0D then [CHR 0x5C, CHR ''r'']
      else if (of_char c :: nat) < 32 then
        [CHR 0x5C, CHR ''u'', CHR ''0'', CHR ''0'', hex_digit (of_char c div 16), hex_digit (of_char c mod 16)]
      else [c])"

definition quoted :: "string \<Rightarrow> string" where
  "quoted s = [CHR 0x22] @ concat (map escape_char s) @ [CHR 0x22]"

definition comma_separated :: "string list \<Rightarrow> string" where
  "comma_separated xs = concat (case xs of [] \<Rightarrow> [] | y # ys \<Rightarrow> y # map (\<lambda>z. '','' @ z) ys)"

text \<open>The text of a stored value.\<close>

fun json_text :: "sval \<Rightarrow> string"
  and json_texts :: "sval list \<Rightarrow> string list"
  and json_field_texts :: "(string \<times> sval) list \<Rightarrow> string list" where
  "json_text VNull = ''null''"
| "json_text (VBool b) = (if b then ''true'' else ''false'')"
| "json_text (VNum x) = number_to_string x"
| "json_text (VStr s) = quoted s"
| "json_text (VArr xs) = ''['' @ comma_separated (json_texts xs) @ '']''"
| "json_text (VObj fs) = ''{'' @ comma_separated (json_field_texts fs) @ ''}''"
| "json_text VUndef = []"
| "json_text (VHost n) = []"
| "json_texts [] = []"
| "json_texts (x # xs) = json_text x # json_texts xs"
| "json_field_texts [] = []"
| "json_field_texts ((k, x) # fs) = (quoted k @ '':'' @ json_text x) # json_field_texts fs"

text \<open>\<open>JSON.stringify(v)\<close>, which is \<open>undefined\<close> for a function and is then written as that word.\<close>

definition stringify :: "host \<Rightarrow> sval \<Rightarrow> string" where
  "stringify h v = (case stored h v of None \<Rightarrow> ''undefined'' | Some w \<Rightarrow> json_text w)"

text \<open>\<open>PrismaJson.toInput(v) ?? JsonNull\<close>: a value that has no JSON text makes \<open>JSON.parse\<close> throw.\<close>

definition json_input :: "host \<Rightarrow> sval \<Rightarrow> sval result" where
  "json_input h v = (if is_nullish v then Inr VNull
     else case stored h v of None \<Rightarrow> throw_plain ''undefined is not valid JSON'' | Some w \<Rightarrow> Inr w)"

end
