(* ===== verification/Saga_Expr.thy ===== *)
theory Saga_Expr
  imports Saga_Value
begin

text \<open>
  The expression language of saga definitions (\<open>saga/application/expression.ts\<close>): the scanner,
  the recursive-descent evaluator, conditions, templates and durations. The evaluator of the
  source computes values while it parses; the functions here do the same on the list of
  the tokens that are left. Their fuel bounds the depth of calls; Saga_Expr_Tree shows that the
  fuel \<open>evaluateExpression\<close> gives is always enough and what the result is.
\<close>

section \<open>Scanner\<close>

datatype token = TNum number | TStr string | TIdent string | TPunct string

definition PUNCT_2 :: "string list" where
  "PUNCT_2 = [''&&'', ''||'', ''=='', ''!='', ''>='', ''<='']"

definition PUNCT_1 :: "string list" where
  "PUNCT_1 = [''('', '')'', ''['', '']'', '','', ''.'', ''!'', ''>'', ''<'']"

definition is_blank :: "char \<Rightarrow> bool" where
  "is_blank c \<longleftrightarrow> c \<in> {CHR '' '', CHR 0x09, CHR 0x0A, CHR 0x0D}"

definition is_quote :: "char \<Rightarrow> bool" where
  "is_quote c \<longleftrightarrow> c = CHR 0x27 \<or> c = CHR 0x22"

definition is_number_char :: "char \<Rightarrow> bool" where
  "is_number_char c \<longleftrightarrow> is_digit c \<or> c = CHR ''.''"

definition is_ident_start :: "char \<Rightarrow> bool" where
  "is_ident_start c \<longleftrightarrow> CHR ''A'' \<le> c \<and> c \<le> CHR ''Z'' \<or> CHR ''a'' \<le> c \<and> c \<le> CHR ''z'' \<or>
     c = CHR ''_'' \<or> c = CHR ''$''"

definition is_ident_char :: "char \<Rightarrow> bool" where
  "is_ident_char c \<longleftrightarrow> is_ident_start c \<or> is_digit c"

text \<open>The characters of a string literal up to its closing quote, and what follows it.\<close>

fun string_body :: "char \<Rightarrow> string \<Rightarrow> (string \<times> string) option" where
  "string_body q [] = None"
| "string_body q [c] = (if c = q then Some ([], []) else None)"
| "string_body q (c # d # cs) =
     (if c = q then Some ([], d # cs)
      else if c = CHR 0x5C then map_option (\<lambda>(v, r). (d # v, r)) (string_body q cs)
      else map_option (\<lambda>(v, r). (c # v, r)) (string_body q (d # cs)))"

lemma string_body_shorter: "string_body q s = Some (v, r) \<Longrightarrow> length r < length s"
  by (induction q s arbitrary: v rule: string_body.induct) (fastforce split: if_splits)+

lemma string_body_le [termination_simp]: "string_body q s = Some (v, r) \<Longrightarrow> length r < Suc (length s)"
  using string_body_shorter [of q s v r] by simp

lemma length_dropWhile_Suc [termination_simp]: "length (dropWhile p xs) < Suc (length xs)"
  by (simp add: length_dropWhile_le less_Suc_eq_le)

fun tokenize :: "string \<Rightarrow> string \<Rightarrow> token list result" where
  "tokenize source [] = Inr []"
| "tokenize source (c # cs) =
     (if is_blank c then tokenize source cs
      else if is_quote c then
        (case string_body c cs of
           None \<Rightarrow> throw_plain (''Unterminated string literal in '' @ in_quotes source)
         | Some (v, r) \<Rightarrow> and_then (tokenize source r) (\<lambda>ts. Inr (TStr v # ts)))
      else if is_digit c then
        and_then (tokenize source (dropWhile is_number_char cs))
          (\<lambda>ts. Inr (TNum (string_to_number (c # takeWhile is_number_char cs)) # ts))
      else if is_ident_start c then
        and_then (tokenize source (dropWhile is_ident_char cs))
          (\<lambda>ts. Inr (TIdent (c # takeWhile is_ident_char cs) # ts))
      else if take 2 (c # cs) \<in> set PUNCT_2 then
        and_then (tokenize source (drop 1 cs)) (\<lambda>ts. Inr (TPunct (take 2 (c # cs)) # ts))
      else if [c] \<in> set PUNCT_1 then
        and_then (tokenize source cs) (\<lambda>ts. Inr (TPunct [c] # ts))
      else throw_plain (''Unexpected character '' @ in_quotes [c] @ '' in '' @ in_quotes source))"

section \<open>Evaluator\<close>

text \<open>What stays the same while one expression is evaluated.\<close>

record parse_env =
  pe_host :: host
  pe_scope :: "(string \<times> sval) list"
  pe_source :: string

text \<open>A value and the tokens left, an error, or \<open>None\<close> when the fuel is used up.\<close>

type_synonym 'a parsed = "('a \<times> token list) result option"

definition p_return :: "'a \<Rightarrow> token list \<Rightarrow> 'a parsed" where
  "p_return v ts = Some (Inr (v, ts))"

definition p_bind :: "'a parsed \<Rightarrow> ('a \<Rightarrow> token list \<Rightarrow> 'b parsed) \<Rightarrow> 'b parsed" where
  "p_bind m f = (case m of None \<Rightarrow> None | Some (Inl e) \<Rightarrow> Some (Inl e) | Some (Inr (v, ts)) \<Rightarrow> f v ts)"

definition invalid_expression :: "string \<Rightarrow> string \<Rightarrow> string" where
  "invalid_expression source msg = ''Invalid saga expression '' @ in_quotes source @ '': '' @ msg"

definition p_fail :: "parse_env \<Rightarrow> string \<Rightarrow> 'a parsed" where
  "p_fail e msg = Some (throw_plain (invalid_expression (pe_source e) msg))"

fun describe :: "token \<Rightarrow> string" where
  "describe (TPunct s) = s"
| "describe (TStr s) = s"
| "describe (TIdent s) = s"
| "describe (TNum x) = number_to_string x"

definition is_punct :: "string \<Rightarrow> token list \<Rightarrow> bool" where
  "is_punct v ts = (case ts of [] \<Rightarrow> False | t # _ \<Rightarrow> t = TPunct v)"

definition loose_eq :: "host \<Rightarrow> sval \<Rightarrow> sval \<Rightarrow> bool" where
  "loose_eq h a b =
     (if strict_eq h a b then True
      else if is_nullish a \<and> is_nullish b then True
      else case (a, b) of
             (VNum x, VNum y) \<Rightarrow> js_eq x y
           | (VStr x, VStr y) \<Rightarrow> x = y
           | (VBool x, VBool y) \<Rightarrow> x = y
           | _ \<Rightarrow> False)"

definition peek_operator :: "token list \<Rightarrow> string option" where
  "peek_operator ts =
     (case ts of
        TPunct p # _ \<Rightarrow> if p \<in> set [''=='', ''!='', ''>'', ''<'', ''>='', ''<=''] then Some p else None
      | TIdent i # _ \<Rightarrow> if i = ''in'' then Some ''in'' else None
      | _ \<Rightarrow> None)"

definition compare_values :: "host \<Rightarrow> string \<Rightarrow> sval \<Rightarrow> sval \<Rightarrow> bool" where
  "compare_values h oper a b =
     (if oper = ''=='' then loose_eq h a b
      else if oper = ''!='' then \<not> loose_eq h a b
      else if oper = ''>'' then js_gt (to_number h a) (to_number h b)
      else if oper = ''<'' then js_lt (to_number h a) (to_number h b)
      else if oper = ''>='' then js_ge (to_number h a) (to_number h b)
      else if oper = ''<='' then js_le (to_number h a) (to_number h b)
      else (case b of VArr items \<Rightarrow> list_ex (\<lambda>item. loose_eq h item a) items | _ \<Rightarrow> False))"

definition ident_value :: "parse_env \<Rightarrow> string \<Rightarrow> sval" where
  "ident_value e i =
     (if i = ''true'' then VBool True else if i = ''false'' then VBool False
      else if i = ''null'' then VNull else if i = ''undefined'' then VUndef
      else get_property (pe_host e) (VObj (pe_scope e)) i)"

text \<open>
  One function per method of the parser class. A method that is called by name takes the parser
  of the next level as an argument; \<open>parse_or\<close> ties the knot. The first argument of a loop is
  its fuel.
\<close>

type_synonym parser = "token list \<Rightarrow> sval parsed"

fun or_loop :: "nat \<Rightarrow> parser \<Rightarrow> sval \<Rightarrow> parser" where
  "or_loop 0 parse_and left ts = None"
| "or_loop (Suc n) parse_and left ts =
     (if is_punct ''||'' ts
      then p_bind (parse_and (tl ts))
             (\<lambda>right r. or_loop n parse_and (VBool (sval_truthy left \<or> sval_truthy right)) r)
      else p_return left ts)"

definition parse_or_with :: "nat \<Rightarrow> parser \<Rightarrow> parser" where
  "parse_or_with n parse_and ts = p_bind (parse_and ts) (\<lambda>left r. or_loop n parse_and left r)"

fun and_loop :: "nat \<Rightarrow> parser \<Rightarrow> sval \<Rightarrow> parser" where
  "and_loop 0 parse_comparison left ts = None"
| "and_loop (Suc n) parse_comparison left ts =
     (if is_punct ''&&'' ts
      then p_bind (parse_comparison (tl ts))
             (\<lambda>right r. and_loop n parse_comparison (VBool (sval_truthy left \<and> sval_truthy right)) r)
      else p_return left ts)"

definition parse_and_with :: "nat \<Rightarrow> parser \<Rightarrow> parser" where
  "parse_and_with n parse_comparison ts =
     p_bind (parse_comparison ts) (\<lambda>left r. and_loop n parse_comparison left r)"

definition parse_comparison_with :: "parse_env \<Rightarrow> parser \<Rightarrow> parser" where
  "parse_comparison_with e parse_unary ts =
     p_bind (parse_unary ts) (\<lambda>left r.
       case peek_operator r of
         None \<Rightarrow> p_return left r
       | Some oper \<Rightarrow> p_bind (parse_unary (tl r)) (\<lambda>right r'.
           p_return (VBool (compare_values (pe_host e) oper left right)) r'))"

fun parse_unary_with :: "nat \<Rightarrow> parser \<Rightarrow> parser" where
  "parse_unary_with 0 parse_postfix ts = None"
| "parse_unary_with (Suc n) parse_postfix ts =
     (if is_punct ''!'' ts
      then p_bind (parse_unary_with n parse_postfix (tl ts))
             (\<lambda>v r. p_return (VBool (\<not> sval_truthy v)) r)
      else parse_postfix ts)"

fun postfix_loop :: "nat \<Rightarrow> parse_env \<Rightarrow> sval \<Rightarrow> parser" where
  "postfix_loop 0 e v ts = None"
| "postfix_loop (Suc n) e v ts =
     (if is_punct ''.'' ts
      then (case tl ts of
              TIdent k # r \<Rightarrow>
                if is_nullish v then p_return VUndef r
                else postfix_loop n e (get_property (pe_host e) v k) r
            | _ \<Rightarrow> p_fail e (''expected a property name after '' @ in_quotes ''.''))
      else p_return v ts)"

definition parse_postfix_with :: "nat \<Rightarrow> parse_env \<Rightarrow> parser \<Rightarrow> parser" where
  "parse_postfix_with n e parse_primary ts =
     p_bind (parse_primary ts) (\<lambda>v r. postfix_loop n e v r)"

fun items_loop :: "nat \<Rightarrow> parser \<Rightarrow> sval list \<Rightarrow> token list \<Rightarrow> sval list parsed" where
  "items_loop 0 parse_or items ts = None"
| "items_loop (Suc n) parse_or items ts =
     (if is_punct '','' ts
      then p_bind (parse_or (tl ts)) (\<lambda>v r. items_loop n parse_or (items @ [v]) r)
      else p_return items ts)"

definition parse_group :: "parse_env \<Rightarrow> parser \<Rightarrow> parser" where
  "parse_group e parse_or ts =
     p_bind (parse_or ts) (\<lambda>v r.
       if is_punct '')'' r then p_return v (tl r) else p_fail e (''expected '' @ in_quotes '')''))"

definition parse_array :: "nat \<Rightarrow> parse_env \<Rightarrow> parser \<Rightarrow> parser" where
  "parse_array n e parse_or ts =
     p_bind (if is_punct '']'' ts then p_return [] ts
             else p_bind (parse_or ts) (\<lambda>v r. items_loop n parse_or [v] r))
       (\<lambda>items r. if is_punct '']'' r then p_return (VArr items) (tl r)
                   else p_fail e (''expected '' @ in_quotes '']''))"

definition parse_primary_with :: "nat \<Rightarrow> parse_env \<Rightarrow> parser \<Rightarrow> parser" where
  "parse_primary_with n e parse_or ts =
     (case ts of
        [] \<Rightarrow> p_fail e ''unexpected end of expression''
      | TNum x # r \<Rightarrow> p_return (VNum x) r
      | TStr s # r \<Rightarrow> p_return (VStr s) r
      | TIdent i # r \<Rightarrow> p_return (ident_value e i) r
      | TPunct p # r \<Rightarrow>
          if p = ''('' then parse_group e parse_or r
          else if p = ''['' then parse_array n e parse_or r
          else p_fail e (''unexpected token '' @ in_quotes (describe (TPunct p))))"

fun parse_or :: "nat \<Rightarrow> parse_env \<Rightarrow> parser" where
  "parse_or 0 e ts = None"
| "parse_or (Suc n) e ts =
     parse_or_with (Suc n)
       (parse_and_with (Suc n)
         (parse_comparison_with e
           (parse_unary_with (Suc n)
             (parse_postfix_with (Suc n) e (parse_primary_with (Suc n) e (parse_or n e)))))) ts"

text \<open>Enough fuel for any token list.\<close>

definition expr_fuel :: "token list \<Rightarrow> nat" where
  "expr_fuel ts = Suc (length ts)"

definition parse_all :: "parse_env \<Rightarrow> token list \<Rightarrow> sval result option" where
  "parse_all e ts =
     map_option (\<lambda>res. and_then res (\<lambda>(v, r).
       if r = [] then Inr v
       else throw_plain (invalid_expression (pe_source e) (''unexpected token '' @ in_quotes (describe (hd r))))))
     (parse_or (expr_fuel ts) e ts)"

text \<open>The \<open>catch\<close> gives every other message the same beginning.\<close>

definition rewrap :: "string \<Rightarrow> exn \<Rightarrow> exn" where
  "rewrap trimmed err =
     (if take 23 (message err) = ''Invalid saga expression'' then Exn None (message err)
      else Exn None (invalid_expression trimmed (message err)))"

text \<open>The fuel does not run out (\<open>parse_all_total\<close> in Saga_Expr_Tree), so its branch is dead.\<close>

definition evaluateExpression :: "host \<Rightarrow> string \<Rightarrow> (string \<times> sval) list \<Rightarrow> sval result" where
  "evaluateExpression h source scope =
     (let trimmed = trim source
      in if trimmed = [] then Inr VUndef
         else case and_then (tokenize trimmed trimmed) (\<lambda>ts.
                     coalesce (parse_all \<lparr>pe_host = h, pe_scope = scope, pe_source = trimmed\<rparr> ts)
                       (throw_plain [])) of
                Inl err \<Rightarrow> Inl (rewrap trimmed err)
              | Inr v \<Rightarrow> Inr v)"

section \<open>Conditions and templates\<close>

definition evaluateCondition :: "host \<Rightarrow> string option \<Rightarrow> (string \<times> sval) list \<Rightarrow> bool result" where
  "evaluateCondition h source scope =
     (case source of
        None \<Rightarrow> Inr True
      | Some s \<Rightarrow>
          if trim s = [] then Inr True
          else and_then (evaluateExpression h s scope) (\<lambda>v. Inr (sval_truthy v)))"

definition placeholder_text :: "host \<Rightarrow> sval \<Rightarrow> string" where
  "placeholder_text h v =
     (if is_nullish v then []
      else case v of
             VStr s \<Rightarrow> s
           | VNum x \<Rightarrow> number_to_string x
           | VBool b \<Rightarrow> if b then ''true'' else ''false''
           | _ \<Rightarrow> stringify h v)"

text \<open>The expression of a placeholder at the start of the text, and what follows the placeholder.\<close>

definition placeholder :: "string \<Rightarrow> (string \<times> string) option" where
  "placeholder s =
     (let (ex, r) = span (\<lambda>c. c \<noteq> CHR ''}'') (drop 2 s)
      in if take 2 s = ''{{'' \<and> take 2 r = ''}}'' then Some (ex, drop 2 r) else None)"

lemma placeholder_shorter:
  "placeholder s = Some (ex, r) \<Longrightarrow> length r < length s"
proof -
  assume "placeholder s = Some (ex, r)"
  then have r: "r = drop 2 (dropWhile (\<lambda>c. c \<noteq> CHR ''}'') (drop 2 s))" and s: "take 2 s = ''{{''"
    by (auto simp: placeholder_def span_def split: if_splits)
  have "2 \<le> length s" using arg_cong [OF s, of length] by simp
  moreover have "length r \<le> length s - 2"
    using length_dropWhile_le [of "\<lambda>c. c \<noteq> CHR ''}''" "drop 2 s"] by (simp add: r)
  ultimately show ?thesis by simp
qed

lemma placeholder_Cons [termination_simp]:
  "placeholder (c # cs) = Some (ex, r) \<Longrightarrow> length r < Suc (length cs)"
  using placeholder_shorter [of "c # cs"] by simp

fun renderTemplate :: "host \<Rightarrow> string \<Rightarrow> (string \<times> sval) list \<Rightarrow> string result" where
  "renderTemplate h [] scope = Inr []"
| "renderTemplate h (c # cs) scope =
     (case placeholder (c # cs) of
        Some (ex, r) \<Rightarrow>
          and_then (evaluateExpression h ex scope) (\<lambda>v.
          and_then (renderTemplate h r scope) (\<lambda>s. Inr (placeholder_text h v @ s)))
      | None \<Rightarrow> and_then (renderTemplate h cs scope) (\<lambda>s. Inr (c # s)))"

section \<open>Durations\<close>

text \<open>An optional group of the pattern: \<open>(?:(\d+)u)?\<close>, and the seconds with their fraction.\<close>

definition unit_part :: "char \<Rightarrow> string \<Rightarrow> string option \<times> string" where
  "unit_part u s =
     (let (ds, r) = span is_digit s
      in if ds \<noteq> [] \<and> r \<noteq> [] \<and> hd r = u then (Some ds, tl r) else (None, s))"

definition seconds_part :: "string \<Rightarrow> string option \<times> string" where
  "seconds_part s =
     (let (ds, r) = span is_digit s; (fs, r') = span is_digit (tl r)
      in if ds \<noteq> [] \<and> r \<noteq> [] \<and> hd r = CHR ''S'' then (Some ds, tl r)
         else if ds \<noteq> [] \<and> r \<noteq> [] \<and> hd r = CHR ''.'' \<and> fs \<noteq> [] \<and> r' \<noteq> [] \<and> hd r' = CHR ''S''
         then (Some (ds @ ''.'' @ fs), tl r')
         else (None, s))"

definition match_duration :: "string \<Rightarrow> string option list option" where
  "match_duration s =
     (if s = [] \<or> hd s \<noteq> CHR ''P'' then None
      else let (w, r1) = unit_part CHR ''W'' (tl s); (d, r2) = unit_part CHR ''D'' r1
           in if r2 = [] then Some [w, d, None, None, None]
              else if hd r2 \<noteq> CHR ''T'' then None
              else let (h, r3) = unit_part CHR ''H'' (tl r2); (m, r4) = unit_part CHR ''M'' r3;
                       (sec, r5) = seconds_part r4
                   in if r5 = [] then Some [w, d, h, m, sec] else None)"

definition unit_number :: "string option \<Rightarrow> number" where
  "unit_number v = (case v of None \<Rightarrow> N 0 | Some s \<Rightarrow> string_to_number s)"

definition times_all :: "number \<Rightarrow> int list \<Rightarrow> number" where
  "times_all x ks = foldl (\<lambda>a k. js_mul a (N k)) x ks"

definition parseDuration :: "string \<Rightarrow> number result" where
  "parseDuration duration =
     (case match_duration (trim duration) of
        Some [weeks, days, hours, minutes, seconds] \<Rightarrow>
          let ms = js_add (js_add (js_add (js_add
                     (times_all (unit_number weeks) [7, 24, 60, 60, 1000])
                     (times_all (unit_number days) [24, 60, 60, 1000]))
                     (times_all (unit_number hours) [60, 60, 1000]))
                     (times_all (unit_number minutes) [60, 1000]))
                     (times_all (unit_number seconds) [1000])
          in if js_le ms (N 0) then throw_plain (''Duration '' @ in_quotes duration @ '' must be positive'')
             else Inr ms
      | _ \<Rightarrow> throw_plain (''Invalid ISO-8601 duration '' @ in_quotes duration))"

end
