(* ===== verification/Saga_Expr_Tree.thy ===== *)
theory Saga_Expr_Tree
  imports Saga_Expr
begin

text \<open>
  What the expression evaluator computes. First, its fuel is always enough, so every source
  text has a value or an error. Second, syntax trees with a printer that sets the fewest
  parentheses and a compositional reference evaluation: the evaluator returns for a printed
  tree exactly what the reference evaluation gives, and fails where that fails, which is
  where a path goes on after a value that is missing.
\<close>

section \<open>The fuel is enough\<close>

definition settles :: "nat \<Rightarrow> 'a parsed \<Rightarrow> bool" where
  "settles k p \<longleftrightarrow> p \<noteq> None \<and> (\<forall>v ts. p = Some (Inr (v, ts)) \<longrightarrow> length ts \<le> k)"

lemma settles_return [simp]: "settles k (p_return v ts) \<longleftrightarrow> length ts \<le> k"
  by (simp add: settles_def p_return_def)

lemma settles_fail [simp]: "settles k (p_fail e m)"
  by (simp add: settles_def p_fail_def)

lemma settles_bind:
  assumes "settles j m" "\<And>v ts. length ts \<le> j \<Longrightarrow> settles k (f v ts)"
  shows "settles k (p_bind m f)"
  using assms by (auto simp: settles_def p_bind_def split: option.splits sum.splits)

lemma settles_mono: "settles j p \<Longrightarrow> j \<le> k \<Longrightarrow> settles k p"
  by (fastforce simp: settles_def)

lemma p_bind_simps [simp]:
  "p_bind (p_return v ts) f = f v ts" "p_bind (Some (Inr (v, ts))) f = f v ts"
  "p_bind (Some (Inl er)) f = Some (Inl er)"
  by (simp_all add: p_bind_def p_return_def)

lemma p_bind_fail [simp]: "p_bind (p_fail e m) f = p_fail e m"
  by (simp add: p_bind_def p_fail_def)

lemma is_punct_simps [simp]:
  "\<not> is_punct v []" "is_punct v (t # ts) \<longleftrightarrow> t = TPunct v"
  by (simp_all add: is_punct_def)

lemma is_punct_iff: "is_punct v ts \<longleftrightarrow> (\<exists>r. ts = TPunct v # r)"
  by (cases ts) auto

text \<open>A parser that consumes at least one token of every list shorter than \<open>n\<close>.\<close>

definition consumes :: "nat \<Rightarrow> parser \<Rightarrow> bool" where
  "consumes n p \<longleftrightarrow> (\<forall>ts. length ts < n \<longrightarrow> settles (length ts - 1) (p ts))"

lemma consumesD: "consumes n p \<Longrightarrow> length ts < n \<Longrightarrow> settles (length ts - 1) (p ts)"
  by (simp add: consumes_def)

lemma consumes_le: "consumes n p \<Longrightarrow> m \<le> n \<Longrightarrow> consumes m p"
  by (simp add: consumes_def)

lemma or_loop_settles:
  "consumes n p \<Longrightarrow> length ts < n \<Longrightarrow> settles (length ts) (or_loop n p left ts)"
proof (induction n arbitrary: left ts)
  case (Suc n)
  have p: "consumes n p" using Suc.prems(1) by (rule consumes_le) simp
  show ?case
  proof (cases "is_punct ''||'' ts")
    case True
    then obtain r where ts: "ts = TPunct ''||'' # r" by (auto simp: is_punct_iff)
    then have r: "length r < n" using Suc.prems(2) by simp
    have "settles (length ts) (or_loop n p l ts')" if "length ts' \<le> length r - 1" for l ts'
    proof -
      have "length ts' < n" using that r by simp
      then show ?thesis using Suc.IH [OF p] ts that by (fastforce intro: settles_mono)
    qed
    then show ?thesis using consumesD [OF p r] by (auto simp: ts intro!: settles_bind)
  qed simp
qed simp

lemma and_loop_settles:
  "consumes n p \<Longrightarrow> length ts < n \<Longrightarrow> settles (length ts) (and_loop n p left ts)"
proof (induction n arbitrary: left ts)
  case (Suc n)
  have p: "consumes n p" using Suc.prems(1) by (rule consumes_le) simp
  show ?case
  proof (cases "is_punct ''&&'' ts")
    case True
    then obtain r where ts: "ts = TPunct ''&&'' # r" by (auto simp: is_punct_iff)
    then have r: "length r < n" using Suc.prems(2) by simp
    have "settles (length ts) (and_loop n p l ts')" if "length ts' \<le> length r - 1" for l ts'
    proof -
      have "length ts' < n" using that r by simp
      then show ?thesis using Suc.IH [OF p] ts that by (fastforce intro: settles_mono)
    qed
    then show ?thesis using consumesD [OF p r] by (auto simp: ts intro!: settles_bind)
  qed simp
qed simp

lemma items_loop_settles:
  "consumes n p \<Longrightarrow> length ts < n \<Longrightarrow> settles (length ts) (items_loop n p items ts)"
proof (induction n arbitrary: items ts)
  case (Suc n)
  have p: "consumes n p" using Suc.prems(1) by (rule consumes_le) simp
  show ?case
  proof (cases "is_punct '','' ts")
    case True
    then obtain r where ts: "ts = TPunct '','' # r" by (auto simp: is_punct_iff)
    then have r: "length r < n" using Suc.prems(2) by simp
    have "settles (length ts) (items_loop n p l ts')" if "length ts' \<le> length r - 1" for l ts'
    proof -
      have "length ts' < n" using that r by simp
      then show ?thesis using Suc.IH [OF p] ts that by (fastforce intro: settles_mono)
    qed
    then show ?thesis using consumesD [OF p r] by (auto simp: ts intro!: settles_bind)
  qed simp
qed simp

lemma postfix_loop_settles: "length ts < n \<Longrightarrow> settles (length ts) (postfix_loop n e v ts)"
proof (induction n arbitrary: v ts)
  case (Suc n)
  show ?case
  proof (cases "is_punct ''.'' ts")
    case True
    then obtain r where ts: "ts = TPunct ''.'' # r" by (auto simp: is_punct_iff)
    show ?thesis
    proof (cases "\<exists>k r'. r = TIdent k # r'")
      case True
      then obtain k r' where r: "r = TIdent k # r'" by blast
      have "length r' < n" using Suc.prems by (simp add: ts r)
      from Suc.IH [OF this] have "settles (length ts) (postfix_loop n e w r')" for w
        by (rule settles_mono) (simp add: ts r)
      then show ?thesis by (simp add: ts r)
    qed (auto simp: ts split: list.splits token.splits)
  qed simp
qed simp

lemma consumes_with:
  "consumes n p \<Longrightarrow> consumes n (parse_or_with n p)"
  "consumes n p \<Longrightarrow> consumes n (parse_and_with n p)"
  "consumes n p \<Longrightarrow> consumes n (parse_postfix_with n e p)"
  unfolding consumes_def parse_or_with_def parse_and_with_def parse_postfix_with_def
  by (auto intro!: settles_bind intro: settles_mono [OF or_loop_settles] settles_mono [OF and_loop_settles]
      settles_mono [OF postfix_loop_settles] simp: consumes_def)

lemma consumes_comparison:
  assumes p: "consumes n p"
  shows "consumes n (parse_comparison_with e p)"
  unfolding consumes_def parse_comparison_with_def
proof (intro allI impI)
  fix ts :: "token list" assume len: "length ts < n"
  have sec: "settles (length ts - Suc 0) (p_bind (p (tl r)) (\<lambda>right. p_return (g right)))"
    if "length r \<le> length ts - 1" for g :: "sval \<Rightarrow> sval" and r
    using that len consumesD [OF p, of "tl r"]
    by (intro settles_bind [where j = "length (tl r) - 1"]) auto
  show "settles (length ts - 1) (p_bind (p ts) (\<lambda>left r.
      case peek_operator r of None \<Rightarrow> p_return left r
      | Some oper \<Rightarrow> p_bind (p (tl r)) (\<lambda>right r'.
          p_return (VBool (compare_values (pe_host e) oper left right)) r')))"
    using consumesD [OF p len] by (rule settles_bind) (auto split: option.splits intro: sec)
qed

lemma unary_settles:
  "consumes n p \<Longrightarrow> length ts < m \<Longrightarrow> m \<le> n \<Longrightarrow> settles (length ts - 1) (parse_unary_with m p ts)"
proof (induction m arbitrary: ts)
  case (Suc m)
  show ?case
  proof (cases "is_punct ''!'' ts")
    case True
    then obtain r where ts: "ts = TPunct ''!'' # r" by (auto simp: is_punct_iff)
    then show ?thesis
      using Suc.IH [OF Suc.prems(1), of r] Suc.prems by (auto intro!: settles_bind)
  next
    case False
    then show ?thesis using consumesD [OF Suc.prems(1), of ts] Suc.prems by simp
  qed
qed simp

lemma consumes_primary:
  assumes "consumes n p"
  shows "consumes (Suc n) (parse_primary_with (Suc n) e p)"
  unfolding consumes_def
proof (intro allI impI)
  fix ts :: "token list" assume len: "length ts < Suc n"
  have p: "settles (length r - 1) (p r)" if "length r < n" for r using assms that by (rule consumesD)
  have grp: "settles (length r) (parse_group e p r)" if "length r < n" for r
    unfolding parse_group_def using p [OF that] by (fastforce intro!: settles_bind)
  have lp: "settles (length ts') (items_loop (Suc n) p items ts')" if "length ts' < n" for items ts'
  proof (cases "is_punct '','' ts'")
    case True
    then obtain r where ts': "ts' = TPunct '','' # r" by (auto simp: is_punct_iff)
    have r: "length r < n" using that ts' by simp
    have "settles (length ts') (items_loop n p its t)" if "length t \<le> length r - 1" for its t
      using items_loop_settles [OF assms, of t its] that r ts' by (fastforce intro: settles_mono)
    then show ?thesis using p [OF r] by (auto simp: ts' intro!: settles_bind)
  qed simp
  have arr: "settles (length r) (parse_array (Suc n) e p r)" if r: "length r < n" for r
    unfolding parse_array_def
  proof (rule settles_bind [where j = "length r"])
    show "settles (length r) (if is_punct '']'' r then p_return [] r
        else p_bind (p r) (\<lambda>v. items_loop (Suc n) p [v]))"
    proof (cases "is_punct '']'' r")
      case False
      have "settles (length r) (items_loop (Suc n) p [v] t)" if "length t \<le> length r - 1" for v t
        using lp [of t "[v]"] that r by (fastforce intro: settles_mono)
      then show ?thesis using p [OF r] False by (auto intro!: settles_bind)
    qed simp
  qed fastforce
  show "settles (length ts - 1) (parse_primary_with (Suc n) e p ts)"
    using len grp arr by (auto simp: parse_primary_with_def split: list.splits token.splits)
qed

lemma parse_or_consumes: "consumes n (parse_or n e)"
proof (induction n)
  case 0
  show ?case by (simp add: consumes_def)
next
  case (Suc n)
  let ?post = "parse_postfix_with (Suc n) e (parse_primary_with (Suc n) e (parse_or n e))"
  have "consumes (Suc n) ?post" by (rule consumes_with(3) [OF consumes_primary [OF Suc.IH]])
  then have "consumes (Suc n) (parse_unary_with (Suc n) ?post)"
    using unary_settles [of "Suc n" ?post _ "Suc n"] by (simp add: consumes_def del: parse_unary_with.simps)
  from consumes_with(1) [OF consumes_with(2) [OF consumes_comparison [OF this]]]
  show ?case by (simp add: consumes_def del: parse_unary_with.simps)
qed

lemma parse_all_total: "parse_all e ts \<noteq> None"
  using parse_or_consumes [of "expr_fuel ts" e]
  by (auto simp: parse_all_def expr_fuel_def consumes_def settles_def simp del: parse_or.simps)

section \<open>Syntax trees\<close>

datatype tree_op = OpEq | OpNe | OpGt | OpLt | OpGe | OpLe | OpIn

fun op_text :: "tree_op \<Rightarrow> string" where
  "op_text OpEq = ''==''" | "op_text OpNe = ''!=''" | "op_text OpGt = ''>''" | "op_text OpLt = ''<''"
| "op_text OpGe = ''>=''" | "op_text OpLe = ''<=''" | "op_text OpIn = ''in''"

fun op_token :: "tree_op \<Rightarrow> token" where
  "op_token OpIn = TIdent ''in''"
| "op_token oper = TPunct (op_text oper)"

datatype tree =
    TrNum number
  | TrStr string
  | TrIdent string
  | TrProp tree string
  | TrNot tree
  | TrCmp tree_op tree tree
  | TrAnd tree tree
  | TrOr tree tree
  | TrArr "tree list"
  | TrParen tree

text \<open>The level of the grammar a tree belongs to: \<open>||\<close>, \<open>&&\<close>, comparison, \<open>!\<close>, the rest.\<close>

fun level_of :: "tree \<Rightarrow> nat" where
  "level_of (TrOr a b) = 0"
| "level_of (TrAnd a b) = 1"
| "level_of (TrCmp oper a b) = 2"
| "level_of (TrNot a) = 3"
| "level_of _ = 4"

definition enclose :: "token list \<Rightarrow> token list" where
  "enclose ts = TPunct ''('' # ts @ [TPunct '')'']"

definition at_level :: "nat \<Rightarrow> tree \<Rightarrow> token list \<Rightarrow> token list" where
  "at_level l x ts = (if level_of x < l then enclose ts else ts)"

fun print_tree :: "tree \<Rightarrow> token list"
  and print_items :: "tree list \<Rightarrow> token list" where
  "print_tree (TrNum x) = [TNum x]"
| "print_tree (TrStr s) = [TStr s]"
| "print_tree (TrIdent i) = [TIdent i]"
| "print_tree (TrProp a k) = at_level 4 a (print_tree a) @ [TPunct ''.'', TIdent k]"
| "print_tree (TrNot a) = TPunct ''!'' # at_level 3 a (print_tree a)"
| "print_tree (TrCmp oper a b) = at_level 3 a (print_tree a) @ op_token oper # at_level 3 b (print_tree b)"
| "print_tree (TrAnd a b) = at_level 1 a (print_tree a) @ TPunct ''&&'' # at_level 2 b (print_tree b)"
| "print_tree (TrOr a b) = print_tree a @ TPunct ''||'' # at_level 1 b (print_tree b)"
| "print_tree (TrArr []) = [TPunct ''['', TPunct '']'']"
| "print_tree (TrArr (x # xs)) = TPunct ''['' # print_tree x @ print_items xs @ [TPunct '']'']"
| "print_tree (TrParen a) = enclose (print_tree a)"
| "print_items [] = []"
| "print_items (x # xs) = TPunct '','' # print_tree x @ print_items xs"

text \<open>
  The reference evaluation. The flag of the result says that the tree is a path that has left
  the data: its last step read a property of a missing value.
\<close>

fun tree_result :: "parse_env \<Rightarrow> tree \<Rightarrow> (sval \<times> bool) option"
  and tree_results :: "parse_env \<Rightarrow> tree list \<Rightarrow> sval list option" where
  "tree_result e (TrNum x) = Some (VNum x, False)"
| "tree_result e (TrStr s) = Some (VStr s, False)"
| "tree_result e (TrIdent i) = Some (ident_value e i, False)"
| "tree_result e (TrProp a k) =
     (case tree_result e a of
        None \<Rightarrow> None
      | Some (v, left) \<Rightarrow>
          if left then None
          else if is_nullish v then Some (VUndef, True)
          else Some (get_property (pe_host e) v k, False))"
| "tree_result e (TrNot a) =
     (case tree_result e a of None \<Rightarrow> None | Some (v, _) \<Rightarrow> Some (VBool (\<not> sval_truthy v), False))"
| "tree_result e (TrCmp oper a b) =
     (case (tree_result e a, tree_result e b) of
        (Some (v, _), Some (w, _)) \<Rightarrow> Some (VBool (compare_values (pe_host e) (op_text oper) v w), False)
      | _ \<Rightarrow> None)"
| "tree_result e (TrAnd a b) =
     (case (tree_result e a, tree_result e b) of
        (Some (v, _), Some (w, _)) \<Rightarrow> Some (VBool (sval_truthy v \<and> sval_truthy w), False)
      | _ \<Rightarrow> None)"
| "tree_result e (TrOr a b) =
     (case (tree_result e a, tree_result e b) of
        (Some (v, _), Some (w, _)) \<Rightarrow> Some (VBool (sval_truthy v \<or> sval_truthy w), False)
      | _ \<Rightarrow> None)"
| "tree_result e (TrArr xs) = map_option (\<lambda>vs. (VArr vs, False)) (tree_results e xs)"
| "tree_result e (TrParen a) = (case tree_result e a of None \<Rightarrow> None | Some (v, _) \<Rightarrow> Some (v, False))"
| "tree_results e [] = Some []"
| "tree_results e (x # xs) =
     (case (tree_result e x, tree_results e xs) of
        (Some (v, _), Some vs) \<Rightarrow> Some (v # vs)
      | _ \<Rightarrow> None)"

definition tree_value :: "parse_env \<Rightarrow> tree \<Rightarrow> sval option" where
  "tree_value e x = map_option fst (tree_result e x)"

section \<open>Parsing a printed tree\<close>

text \<open>The parser of each level of the grammar, with the fuel \<open>parse_or\<close> gives it.\<close>

definition lv4 :: "nat \<Rightarrow> parse_env \<Rightarrow> parser" where
  "lv4 n e = parse_postfix_with n e (parse_primary_with n e (parse_or (n - 1) e))"

definition lv3 :: "nat \<Rightarrow> parse_env \<Rightarrow> parser" where "lv3 n e = parse_unary_with n (lv4 n e)"
definition lv2 :: "nat \<Rightarrow> parse_env \<Rightarrow> parser" where "lv2 n e = parse_comparison_with e (lv3 n e)"
definition lv1 :: "nat \<Rightarrow> parse_env \<Rightarrow> parser" where "lv1 n e = parse_and_with n (lv2 n e)"

lemma parse_or_levels: "0 < n \<Longrightarrow> parse_or n e = parse_or_with n (lv1 n e)"
  by (cases n) (auto simp: fun_eq_iff lv1_def lv2_def lv3_def lv4_def)

text \<open>A parser got stuck: it failed, or it stopped in front of a dot that nobody will take.\<close>

definition stuck :: "'a parsed \<Rightarrow> bool" where
  "stuck p \<longleftrightarrow> (\<exists>er. p = Some (Inl er)) \<or> (\<exists>v r. p = Some (Inr (v, TPunct ''.'' # r)))"

lemma stuck_cases [consumes 1]:
  assumes "stuck p"
  obtains (err) er where "p = Some (Inl er)" | (dot) v r where "p = Some (Inr (v, TPunct ''.'' # r))"
  using assms by (auto simp: stuck_def)

lemma stuck_simps [simp]:
  "stuck (Some (Inl er))" "stuck (p_fail e m)" "stuck (p_return v (TPunct ''.'' # r))"
  by (auto simp: stuck_def p_fail_def p_return_def)

definition outcome :: "sval option \<Rightarrow> token list \<Rightarrow> sval parsed \<Rightarrow> bool" where
  "outcome v rest p \<longleftrightarrow> (case v of None \<Rightarrow> stuck p | Some w \<Rightarrow> p = p_return w rest)"

text \<open>A token that would continue what a parser of level \<open>l\<close> has read.\<close>

definition continues :: "nat \<Rightarrow> token \<Rightarrow> bool" where
  "continues l t \<longleftrightarrow> t = TPunct ''.'' \<or> (l \<le> 2 \<and> peek_operator [t] \<noteq> None) \<or>
     (l \<le> 1 \<and> t = TPunct ''&&'') \<or> (l = 0 \<and> t = TPunct ''||'')"

definition stops :: "nat \<Rightarrow> token list \<Rightarrow> bool" where
  "stops l rest \<longleftrightarrow> (case rest of [] \<Rightarrow> True | t # _ \<Rightarrow> \<not> continues l t)"

text \<open>What a parser of each level does with tokens whose reference result is \<open>r\<close>.\<close>

definition reads4 :: "parse_env \<Rightarrow> (sval \<times> bool) option \<Rightarrow> token list \<Rightarrow> bool" where
  "reads4 e r ts \<longleftrightarrow> (ts \<noteq> [] \<and> hd ts \<noteq> TPunct ''!'' \<and> hd ts \<noteq> TPunct '']'') \<and>
     (\<forall>n rest. length (ts @ rest) < n \<longrightarrow>
       (case r of
          None \<Rightarrow> stuck (lv4 n e (ts @ rest))
        | Some (v, True) \<Rightarrow> lv4 n e (ts @ rest) = p_return v rest
        | Some (v, False) \<Rightarrow> \<exists>m > length rest. lv4 n e (ts @ rest) = postfix_loop m e v rest))"

definition reads3 :: "parse_env \<Rightarrow> sval option \<Rightarrow> token list \<Rightarrow> bool" where
  "reads3 e r ts \<longleftrightarrow> (ts \<noteq> [] \<and> hd ts \<noteq> TPunct '']'') \<and>
     (\<forall>n m rest. length (ts @ rest) < n \<longrightarrow> length (ts @ rest) < m \<longrightarrow> stops 4 rest \<longrightarrow>
        outcome r rest (parse_unary_with m (lv4 n e) (ts @ rest)))"

definition reads2 :: "parse_env \<Rightarrow> sval option \<Rightarrow> token list \<Rightarrow> bool" where
  "reads2 e r ts \<longleftrightarrow> (ts \<noteq> [] \<and> hd ts \<noteq> TPunct '']'') \<and>
     (\<forall>n rest. length (ts @ rest) < n \<longrightarrow> stops 2 rest \<longrightarrow> outcome r rest (lv2 n e (ts @ rest)))"

definition reads1 :: "parse_env \<Rightarrow> sval option \<Rightarrow> token list \<Rightarrow> bool" where
  "reads1 e r ts \<longleftrightarrow> (ts \<noteq> [] \<and> hd ts \<noteq> TPunct '']'') \<and>
     (\<forall>n rest. length (ts @ rest) < n \<longrightarrow> stops 2 rest \<longrightarrow>
       (case r of
          None \<Rightarrow> stuck (lv1 n e (ts @ rest))
        | Some v \<Rightarrow> \<exists>m > length rest. lv1 n e (ts @ rest) = and_loop m (lv2 n e) v rest))"

definition reads0 :: "parse_env \<Rightarrow> sval option \<Rightarrow> token list \<Rightarrow> bool" where
  "reads0 e r ts \<longleftrightarrow> (ts \<noteq> [] \<and> hd ts \<noteq> TPunct '']'') \<and>
     (\<forall>n rest. length (ts @ rest) < n \<longrightarrow> stops 1 rest \<longrightarrow>
       (case r of
          None \<Rightarrow> stuck (parse_or n e (ts @ rest))
        | Some v \<Rightarrow> \<exists>m > length rest. parse_or n e (ts @ rest) = or_loop m (lv1 n e) v rest))"

lemma reads4D:
  assumes "reads4 e r ts" "length (ts @ rest) < n"
  obtains (stuck) "r = None" "stuck (lv4 n e (ts @ rest))"
    | (left) v where "r = Some (v, True)" "lv4 n e (ts @ rest) = p_return v rest"
    | (path) v m where "r = Some (v, False)" "length rest < m" "lv4 n e (ts @ rest) = postfix_loop m e v rest"
proof -
  have "case r of None \<Rightarrow> stuck (lv4 n e (ts @ rest))
    | Some (v, True) \<Rightarrow> lv4 n e (ts @ rest) = p_return v rest
    | Some (v, False) \<Rightarrow> \<exists>m > length rest. lv4 n e (ts @ rest) = postfix_loop m e v rest"
    using assms(1) assms(2) unfolding reads4_def by blast
  then show thesis using that by (cases r) (auto split: prod.splits bool.splits)
qed

lemma reads3D:
  "reads3 e r ts \<Longrightarrow> length (ts @ rest) < n \<Longrightarrow> length (ts @ rest) < m \<Longrightarrow> stops 4 rest \<Longrightarrow>
   outcome r rest (parse_unary_with m (lv4 n e) (ts @ rest))"
  by (simp add: reads3_def)

lemma reads2D:
  "reads2 e r ts \<Longrightarrow> length (ts @ rest) < n \<Longrightarrow> stops 2 rest \<Longrightarrow> outcome r rest (lv2 n e (ts @ rest))"
  by (simp add: reads2_def)

lemma reads1D:
  assumes "reads1 e r ts" "length (ts @ rest) < n" "stops 2 rest"
  obtains (stuck) "r = None" "stuck (lv1 n e (ts @ rest))"
    | (read) v m where "r = Some v" "length rest < m" "lv1 n e (ts @ rest) = and_loop m (lv2 n e) v rest"
proof -
  have "case r of None \<Rightarrow> stuck (lv1 n e (ts @ rest))
    | Some v \<Rightarrow> \<exists>m > length rest. lv1 n e (ts @ rest) = and_loop m (lv2 n e) v rest"
    using assms unfolding reads1_def by blast
  then show thesis using that by (cases r) auto
qed

lemma reads0D:
  assumes "reads0 e r ts" "length (ts @ rest) < n" "stops 1 rest"
  obtains (stuck) "r = None" "stuck (parse_or n e (ts @ rest))"
    | (read) v m where "r = Some v" "length rest < m" "parse_or n e (ts @ rest) = or_loop m (lv1 n e) v rest"
proof -
  have "case r of None \<Rightarrow> stuck (parse_or n e (ts @ rest))
    | Some v \<Rightarrow> \<exists>m > length rest. parse_or n e (ts @ rest) = or_loop m (lv1 n e) v rest"
    using assms unfolding reads0_def by blast
  then show thesis using that by (cases r) auto
qed

text \<open>Loops in front of tokens that do not continue them.\<close>

lemma stops_mono: "stops l rest \<Longrightarrow> l \<le> k \<Longrightarrow> stops k rest"
  by (cases rest) (auto simp: stops_def continues_def)

lemma loops_stop:
  "length rest < m \<Longrightarrow> stops 4 rest \<Longrightarrow> postfix_loop m e v rest = p_return v rest"
  "length rest < m \<Longrightarrow> stops 1 rest \<Longrightarrow> and_loop m p v rest = p_return v rest"
  "length rest < m \<Longrightarrow> stops 0 rest \<Longrightarrow> or_loop m p v rest = p_return v rest"
  by (cases m; cases rest; simp add: stops_def continues_def)+

lemma loops_at_dot [simp]:
  "0 < m \<Longrightarrow> and_loop m p v (TPunct ''.'' # r) = p_return v (TPunct ''.'' # r)"
  "0 < m \<Longrightarrow> or_loop m p v (TPunct ''.'' # r) = p_return v (TPunct ''.'' # r)"
  "peek_operator (TPunct ''.'' # r) = None"
  by (cases m; simp add: peek_operator_def)+

lemma stops_no_operator: "stops 2 rest \<Longrightarrow> peek_operator rest = None"
  by (cases rest) (auto simp: stops_def continues_def peek_operator_def split: token.splits if_splits)

lemma reads4_reads3:
  assumes "reads4 e r ts"
  shows "reads3 e (map_option fst r) ts"
proof -
  { fix n m :: nat and rest
    assume len: "length (ts @ rest) < n" "length (ts @ rest) < m" and st: "stops 4 rest"
    obtain t us where ts: "ts = t # us" "t \<noteq> TPunct ''!''"
      using assms by (cases ts) (auto simp: reads4_def)
    have "parse_unary_with m (lv4 n e) (ts @ rest) = lv4 n e (ts @ rest)"
      using len(2) ts by (cases m) auto
    moreover have "outcome (map_option fst r) rest (lv4 n e (ts @ rest))"
      using assms len(1) by (rule reads4D) (simp_all add: outcome_def loops_stop(1) [OF _ st])
    ultimately have "outcome (map_option fst r) rest (parse_unary_with m (lv4 n e) (ts @ rest))"
      by simp }
  then show ?thesis using assms by (auto simp: reads3_def reads4_def)
qed

lemma reads3_reads2:
  assumes "reads3 e r ts"
  shows "reads2 e r ts"
proof -
  { fix n rest
    assume len: "length (ts @ rest) < n" and st: "stops 2 rest"
    have "stops 4 rest" using st by (rule stops_mono) simp
    then have "outcome r rest (lv3 n e (ts @ rest))"
      using assms len by (simp add: reads3_def lv3_def)
    then have "outcome r rest (lv2 n e (ts @ rest))"
      by (auto simp: outcome_def lv2_def parse_comparison_with_def stops_no_operator [OF st]
          split: option.splits elim!: stuck_cases) }
  then show ?thesis using assms by (simp add: reads2_def reads3_def)
qed

lemma reads2_reads1:
  assumes "reads2 e r ts"
  shows "reads1 e r ts"
proof -
  { fix n rest
    assume len: "length (ts @ rest) < n" and st: "stops 2 rest"
    then have "outcome r rest (lv2 n e (ts @ rest))" using assms by (simp add: reads2_def)
    moreover have "0 < n" "length rest < n" using len by auto
    ultimately have "case r of None \<Rightarrow> stuck (lv1 n e (ts @ rest))
        | Some v \<Rightarrow> \<exists>m > length rest. lv1 n e (ts @ rest) = and_loop m (lv2 n e) v rest"
      by (auto simp: outcome_def lv1_def parse_and_with_def split: option.splits elim!: stuck_cases) }
  then show ?thesis using assms by (simp add: reads1_def reads2_def)
qed

lemma reads1_reads0:
  assumes "reads1 e r ts"
  shows "reads0 e r ts"
proof -
  { fix n rest
    assume len: "length (ts @ rest) < n" and st: "stops 1 rest"
    have st2: "stops 2 rest" using st by (rule stops_mono) simp
    have n: "0 < n" "length rest < n" using len by auto
    have "outcome r rest (lv1 n e (ts @ rest))"
      using assms len st2 by (rule reads1D) (simp_all add: outcome_def loops_stop(2) [OF _ st])
    then have "case r of None \<Rightarrow> stuck (parse_or n e (ts @ rest))
        | Some v \<Rightarrow> \<exists>m > length rest. parse_or n e (ts @ rest) = or_loop m (lv1 n e) v rest"
      using n by (auto simp: outcome_def parse_or_levels parse_or_with_def split: option.splits elim!: stuck_cases) }
  then show ?thesis using assms by (simp add: reads1_def reads0_def)
qed

lemma reads0_or:
  assumes "reads0 e r ts" "length (ts @ rest) < n" "stops 0 rest"
  shows "outcome r rest (parse_or n e (ts @ rest))"
  using assms(1,2) stops_mono [OF assms(3) zero_le]
  by (rule reads0D) (simp_all add: outcome_def loops_stop(3) [OF _ assms(3)])

lemma stops_closing [simp]:
  "stops l (TPunct '')'' # rest)" "stops l (TPunct '']'' # rest)" "stops l (TPunct '','' # rest)"
  by (simp_all add: stops_def continues_def peek_operator_def)

section \<open>Parsing each form of tree\<close>

lemma reads4_atom:
  assumes "\<And>n rest. parse_primary_with n e (parse_or (n - 1) e) (t # rest) = p_return v rest"
    and "t \<noteq> TPunct ''!''" "t \<noteq> TPunct '']''"
  shows "reads4 e (Some (v, False)) [t]"
proof -
  have "\<exists>m > length rest. lv4 n e ([t] @ rest) = postfix_loop m e v rest" if "length ([t] @ rest) < n" for n rest
    using that assms(1) [of n rest] by (intro exI [of _ n]) (simp add: lv4_def parse_postfix_with_def)
  then show ?thesis using assms(2,3) by (simp add: reads4_def)
qed

lemma reads4_prop:
  assumes "reads4 e r ts"
  shows "reads4 e (case r of None \<Rightarrow> None | Some (v, left) \<Rightarrow>
      if left then None else if is_nullish v then Some (VUndef, True)
      else Some (get_property (pe_host e) v k, False)) (ts @ [TPunct ''.'', TIdent k])"
    (is "reads4 e ?r _")
proof -
  { fix n rest
    assume len: "length ((ts @ [TPunct ''.'', TIdent k]) @ rest) < n"
    let ?rest = "TPunct ''.'' # TIdent k # rest"
    have "length (ts @ ?rest) < n" using len by simp
    with assms have "case ?r of
          None \<Rightarrow> stuck (lv4 n e (ts @ ?rest))
        | Some (v, True) \<Rightarrow> lv4 n e (ts @ ?rest) = p_return v rest
        | Some (v, False) \<Rightarrow> \<exists>m > length rest. lv4 n e (ts @ ?rest) = postfix_loop m e v rest"
    proof (cases rule: reads4D)
      case (path v m)
      then obtain m' where "m = Suc m'" by (cases m) auto
      then show ?thesis using path by (cases "is_nullish v") (auto intro!: exI [of _ m'])
    qed simp_all }
  moreover have "ts @ [TPunct ''.'', TIdent k] \<noteq> []" "hd (ts @ [TPunct ''.'', TIdent k]) = hd ts"
    using assms by (auto simp: reads4_def)
  ultimately show ?thesis using assms unfolding reads4_def append_assoc append_Cons append_Nil by simp
qed

lemma reads4_enclose:
  assumes "reads0 e r ts"
  shows "reads4 e (case r of None \<Rightarrow> None | Some v \<Rightarrow> Some (v, False)) (enclose ts)"
proof -
  { fix n rest
    assume len: "length (enclose ts @ rest) < n"
    then have n: "length (ts @ TPunct '')'' # rest) < n - 1" "length rest < n" by (auto simp: enclose_def)
    have "outcome r (TPunct '')'' # rest) (parse_or (n - 1) e (ts @ TPunct '')'' # rest))"
      using assms n(1) by (rule reads0_or) simp
    then have "case r of None \<Rightarrow> stuck (lv4 n e (enclose ts @ rest))
        | Some v \<Rightarrow> lv4 n e (enclose ts @ rest) = postfix_loop n e v rest"
      by (auto simp: outcome_def lv4_def enclose_def parse_postfix_with_def parse_primary_with_def parse_group_def
          split: option.splits elim!: stuck_cases)
    then have "case (case r of None \<Rightarrow> None | Some v \<Rightarrow> Some (v, False)) of
          None \<Rightarrow> stuck (lv4 n e (enclose ts @ rest))
        | Some (v, True) \<Rightarrow> lv4 n e (enclose ts @ rest) = p_return v rest
        | Some (v, False) \<Rightarrow> \<exists>m > length rest. lv4 n e (enclose ts @ rest) = postfix_loop m e v rest"
      using n(2) by (cases r) auto }
  then show ?thesis unfolding reads4_def by (simp add: enclose_def)
qed

lemma reads3_not:
  assumes "reads3 e r ts"
  shows "reads3 e (map_option (\<lambda>v. VBool (\<not> sval_truthy v)) r) (TPunct ''!'' # ts)"
proof -
  { fix n m :: nat and rest
    assume len: "length ((TPunct ''!'' # ts) @ rest) < n" "length ((TPunct ''!'' # ts) @ rest) < m"
      and st: "stops 4 rest"
    obtain m' where m: "m = Suc m'" using len(2) by (cases m) auto
    have "outcome r rest (parse_unary_with m' (lv4 n e) (ts @ rest))"
      using assms _ _ st by (rule reads3D) (use len m in simp_all)
    then have "outcome (map_option (\<lambda>v. VBool (\<not> sval_truthy v)) r) rest
        (parse_unary_with m (lv4 n e) ((TPunct ''!'' # ts) @ rest))"
      by (auto simp: outcome_def m split: option.splits elim!: stuck_cases) }
  then show ?thesis unfolding reads3_def by simp
qed

lemma peek_op_token [simp]: "peek_operator (op_token oper # r) = Some (op_text oper)"
  by (cases oper) (simp_all add: peek_operator_def)

lemma stops4_op [simp]: "stops 4 (op_token oper # rest)"
  by (cases oper) (simp_all add: stops_def continues_def)

lemma reads2_cmp:
  assumes a: "reads3 e ra ta" and b: "reads3 e rb tb"
  shows "reads2 e (case (ra, rb) of (Some v, Some w) \<Rightarrow> Some (VBool (compare_values (pe_host e) (op_text oper) v w))
      | _ \<Rightarrow> None) (ta @ op_token oper # tb)" (is "reads2 e ?r _")
proof -
  { fix n rest
    assume len: "length ((ta @ op_token oper # tb) @ rest) < n" and st: "stops 2 rest"
    have A: "outcome ra (op_token oper # tb @ rest) (lv3 n e (ta @ op_token oper # tb @ rest))"
      unfolding lv3_def using a by (rule reads3D) (use len in simp_all)
    have B: "outcome rb rest (lv3 n e (tb @ rest))"
      unfolding lv3_def using b _ _ stops_mono [OF st] by (rule reads3D) (use len in simp_all)
    from A have "outcome ?r rest (lv2 n e (ta @ op_token oper # tb @ rest))"
    proof (cases ra)
      case None
      with A show ?thesis
        by (auto simp: outcome_def lv2_def parse_comparison_with_def elim!: stuck_cases)
    next
      case (Some v)
      with A B show ?thesis
        by (cases rb) (auto simp: outcome_def lv2_def parse_comparison_with_def elim!: stuck_cases)
    qed }
  then show ?thesis using a unfolding reads2_def reads3_def by simp
qed

lemma reads1_and:
  assumes a: "reads1 e ra ta" and b: "reads2 e rb tb"
  shows "reads1 e (case (ra, rb) of (Some v, Some w) \<Rightarrow> Some (VBool (sval_truthy v \<and> sval_truthy w))
      | _ \<Rightarrow> None) (ta @ TPunct ''&&'' # tb)" (is "reads1 e ?r _")
proof -
  { fix n rest
    assume len: "length ((ta @ TPunct ''&&'' # tb) @ rest) < n" and st: "stops 2 rest"
    let ?mid = "TPunct ''&&'' # tb @ rest"
    have "length (ta @ ?mid) < n" "stops 2 ?mid"
      using len by (simp_all add: stops_def continues_def peek_operator_def)
    with a have "case ?r of None \<Rightarrow> stuck (lv1 n e (ta @ ?mid))
        | Some v \<Rightarrow> \<exists>m > length rest. lv1 n e (ta @ ?mid) = and_loop m (lv2 n e) v rest"
    proof (cases rule: reads1D)
      case (read v m)
      then obtain m' where m: "m = Suc m'" by (cases m) auto
      have "outcome rb rest (lv2 n e (tb @ rest))" using b _ st by (rule reads2D) (use len in simp)
      moreover have "0 < m'" "length rest < m'" using read(2) m by auto
      ultimately show ?thesis using read m
        by (cases rb) (auto simp: outcome_def intro!: exI [of _ m'] elim!: stuck_cases)
    qed simp }
  then show ?thesis using a unfolding reads1_def append_assoc append_Cons by simp
qed

lemma reads0_or_node:
  assumes a: "reads0 e ra ta" and b: "reads1 e rb tb"
  shows "reads0 e (case (ra, rb) of (Some v, Some w) \<Rightarrow> Some (VBool (sval_truthy v \<or> sval_truthy w))
      | _ \<Rightarrow> None) (ta @ TPunct ''||'' # tb)" (is "reads0 e ?r _")
proof -
  { fix n rest
    assume len: "length ((ta @ TPunct ''||'' # tb) @ rest) < n" and st: "stops 1 rest"
    let ?mid = "TPunct ''||'' # tb @ rest"
    have "length (ta @ ?mid) < n" "stops 1 ?mid"
      using len by (simp_all add: stops_def continues_def peek_operator_def)
    with a have "case ?r of None \<Rightarrow> stuck (parse_or n e (ta @ ?mid))
        | Some v \<Rightarrow> \<exists>m > length rest. parse_or n e (ta @ ?mid) = or_loop m (lv1 n e) v rest"
    proof (cases rule: reads0D)
      case (read v m)
      then obtain m' where m: "m = Suc m'" by (cases m) auto
      have "length (tb @ rest) < n" "stops 2 rest" using len stops_mono [OF st] by auto
      with b have "outcome rb rest (lv1 n e (tb @ rest))"
        by (rule reads1D) (simp_all add: outcome_def loops_stop(2) [OF _ st])
      moreover have "0 < m'" "length rest < m'" using read(2) m by auto
      ultimately show ?thesis using read m
        by (cases rb) (auto simp: outcome_def intro!: exI [of _ m'] elim!: stuck_cases)
    qed simp }
  then show ?thesis using a unfolding reads0_def append_assoc append_Cons by simp
qed

definition items_outcome :: "sval list option \<Rightarrow> sval list \<Rightarrow> token list \<Rightarrow> sval list parsed \<Rightarrow> bool" where
  "items_outcome ws vs rest p \<longleftrightarrow>
     (case ws of None \<Rightarrow> stuck p | Some us \<Rightarrow> p = p_return (vs @ us) (TPunct '']'' # rest))"

lemma items_read:
  assumes "\<And>x. x \<in> set xs \<Longrightarrow> reads0 e (tree_value e x) (print_tree x)"
    and "length (print_items xs @ TPunct '']'' # rest) < n" "length (print_items xs @ TPunct '']'' # rest) < m"
  shows "items_outcome (tree_results e xs) vs rest
    (items_loop m (parse_or n e) vs (print_items xs @ TPunct '']'' # rest))"
  using assms
proof (induction xs arbitrary: vs m)
  case Nil
  then show ?case by (cases m) (auto simp: items_outcome_def)
next
  case (Cons x xs)
  obtain m' where m: "m = Suc m'" using Cons.prems(3) by (cases m) auto
  let ?tl = "print_items xs @ TPunct '']'' # rest"
  have "stops 0 ?tl" by (cases xs) simp_all
  moreover have "reads0 e (tree_value e x) (print_tree x)" by (rule Cons.prems(1)) simp
  moreover have "length (print_tree x @ ?tl) < n" using Cons.prems(2) by simp
  ultimately have X: "outcome (tree_value e x) ?tl (parse_or n e (print_tree x @ ?tl))"
    by (intro reads0_or)
  have IH: "items_outcome (tree_results e xs) ws rest (items_loop m' (parse_or n e) ws ?tl)" for ws
    using Cons.prems m by (intro Cons.IH) simp_all
  have "0 < m'" using Cons.prems(3) m by simp
  then have dot: "items_loop m' p ws (TPunct ''.'' # r) = p_return ws (TPunct ''.'' # r)" for p ws r
    by (cases m') simp_all
  show ?case
  proof (cases "tree_result e x")
    case None
    with X show ?thesis
      by (auto simp: items_outcome_def outcome_def tree_value_def m dot elim!: stuck_cases)
  next
    case (Some vb)
    with X IH [of "vs @ [fst vb]"] show ?thesis
      by (cases vb; cases "tree_results e xs")
        (auto simp: items_outcome_def outcome_def tree_value_def m)
  qed
qed

lemma reads4_array:
  assumes "\<And>x. x \<in> set xs \<Longrightarrow> reads0 e (tree_value e x) (print_tree x)"
  shows "reads4 e (tree_result e (TrArr xs)) (print_tree (TrArr xs))"
proof -
  { fix n rest
    assume len: "length (print_tree (TrArr xs) @ rest) < n"
    have "case tree_results e xs of None \<Rightarrow> stuck (lv4 n e (print_tree (TrArr xs) @ rest))
      | Some ws \<Rightarrow> lv4 n e (print_tree (TrArr xs) @ rest) = postfix_loop n e (VArr ws) rest"
    proof (cases xs)
      case Nil
      then show ?thesis
        by (simp add: lv4_def parse_postfix_with_def parse_primary_with_def parse_array_def)
    next
      case (Cons x ys)
      let ?tl = "print_items ys @ TPunct '']'' # rest"
      have rx: "reads0 e (tree_value e x) (print_tree x)" by (rule assms) (simp add: Cons)
      then have hd: "print_tree x \<noteq> []" "hd (print_tree x) \<noteq> TPunct '']''" by (simp_all add: reads0_def)
      have nb: "\<not> is_punct '']'' (print_tree x @ r)" for r using hd by (cases "print_tree x") auto
      have "stops 0 ?tl" by (cases ys) simp_all
      moreover have lt: "length (print_tree x @ ?tl) < n - 1" "0 < n" using len by (auto simp: Cons)
      ultimately have X: "outcome (tree_value e x) ?tl (parse_or (n - 1) e (print_tree x @ ?tl))"
        using rx by (intro reads0_or)
      have I: "items_outcome (tree_results e ys) [v] rest (items_loop n (parse_or (n - 1) e) [v] ?tl)" for v
        using assms lt by (intro items_read) (auto simp: Cons)
      have dot: "items_loop n p ws (TPunct ''.'' # r) = p_return ws (TPunct ''.'' # r)" for p ws r
        using lt(2) by (cases n) simp_all
      show ?thesis
      proof (cases "tree_result e x")
        case None
        with X show ?thesis
          by (auto simp: Cons outcome_def tree_value_def lv4_def parse_postfix_with_def parse_primary_with_def
              parse_array_def nb dot elim!: stuck_cases)
      next
        case (Some vb)
        with X I [of "fst vb"] show ?thesis
          by (cases vb; cases "tree_results e ys")
            (auto simp: Cons outcome_def items_outcome_def tree_value_def lv4_def parse_postfix_with_def
              parse_primary_with_def parse_array_def nb elim!: stuck_cases)
      qed
    qed
    then have "case tree_result e (TrArr xs) of
          None \<Rightarrow> stuck (lv4 n e (print_tree (TrArr xs) @ rest))
        | Some (v, True) \<Rightarrow> lv4 n e (print_tree (TrArr xs) @ rest) = p_return v rest
        | Some (v, False) \<Rightarrow> \<exists>m > length rest. lv4 n e (print_tree (TrArr xs) @ rest) = postfix_loop m e v rest"
      using len by (cases "tree_results e xs") (auto intro!: exI [of _ n]) }
  moreover have "print_tree (TrArr xs) \<noteq> [] \<and> hd (print_tree (TrArr xs)) = TPunct ''[''" by (cases xs) simp_all
  ultimately show ?thesis unfolding reads4_def by simp
qed

section \<open>Every tree\<close>

definition reads :: "parse_env \<Rightarrow> nat \<Rightarrow> (sval \<times> bool) option \<Rightarrow> token list \<Rightarrow> bool" where
  "reads e l r ts =
     (if l = 0 then reads0 e (map_option fst r) ts
      else if l = 1 then reads1 e (map_option fst r) ts
      else if l = 2 then reads2 e (map_option fst r) ts
      else if l = 3 then reads3 e (map_option fst r) ts
      else reads4 e r ts)"

lemma reads_down: "reads e k r ts \<Longrightarrow> l \<le> k \<Longrightarrow> k \<le> 4 \<Longrightarrow> reads e l r ts"
proof (induction "k - l" arbitrary: k)
  case (Suc d)
  then have k: "k = 1 \<or> k = 2 \<or> k = 3 \<or> k = 4" by linarith
  have "reads e (k - 1) r ts"
    using k Suc.prems(1)
    by (elim disjE) (simp_all add: reads_def reads4_reads3 reads3_reads2 reads2_reads1 reads1_reads0)
  moreover have "d = (k - 1) - l" "l \<le> k - 1" "k - 1 \<le> 4" using Suc.hyps(2) Suc.prems by auto
  ultimately show ?case using Suc.hyps(1) by blast
qed simp

lemma level_of_le: "level_of x \<le> 4"
  by (cases x) simp_all

lemma low_level_no_path: "level_of x < 4 \<Longrightarrow> tree_result e x = Some (v, left) \<Longrightarrow> \<not> left"
  by (cases x) (auto split: option.splits)

lemma reads_at_level:
  assumes "reads e (level_of x) (tree_result e x) (print_tree x)" "l \<le> 4"
  shows "reads e l (tree_result e x) (at_level l x (print_tree x))"
proof (cases "level_of x < l")
  case False
  then show ?thesis using reads_down [OF assms(1) _ level_of_le] by (simp add: at_level_def)
next
  case True
  have "reads0 e (map_option fst (tree_result e x)) (print_tree x)"
    using reads_down [OF assms(1) _ level_of_le, of 0] by (simp add: reads_def)
  from reads4_enclose [OF this]
  have "reads e 4 (tree_result e x) (enclose (print_tree x))"
    using low_level_no_path [of x e] True assms(2)
    by (cases "tree_result e x") (auto simp: reads_def)
  then show ?thesis using reads_down [of e 4] True assms(2) by (simp add: at_level_def)
qed

lemma tree_reads: "reads e (level_of x) (tree_result e x) (print_tree x)"
proof (induction x)
  case (TrNum x)
  show ?case by (simp add: reads_def parse_primary_with_def reads4_atom)
next
  case (TrStr s)
  show ?case by (simp add: reads_def parse_primary_with_def reads4_atom)
next
  case (TrIdent i)
  show ?case by (simp add: reads_def parse_primary_with_def reads4_atom)
next
  case (TrProp a k)
  from reads4_prop [of e "tree_result e a" "at_level 4 a (print_tree a)" k] reads_at_level [OF TrProp.IH, of 4]
  show ?case by (simp add: reads_def)
next
  case (TrNot a)
  have "map_option fst (case tree_result e a of None \<Rightarrow> None | Some (v, _) \<Rightarrow> Some (VBool (\<not> sval_truthy v), False))
    = map_option (\<lambda>v. VBool (\<not> sval_truthy v)) (map_option fst (tree_result e a))"
    by (cases "tree_result e a") auto
  with reads3_not [of e "map_option fst (tree_result e a)" "at_level 3 a (print_tree a)"]
    reads_at_level [OF TrNot.IH, of 3]
  show ?case by (simp add: reads_def)
next
  case (TrCmp oper a b)
  from reads2_cmp [of e "map_option fst (tree_result e a)" "at_level 3 a (print_tree a)"
      "map_option fst (tree_result e b)" "at_level 3 b (print_tree b)" oper]
    reads_at_level [OF TrCmp.IH(1), of 3] reads_at_level [OF TrCmp.IH(2), of 3]
  show ?case
    by (cases "tree_result e a"; cases "tree_result e b") (auto simp: reads_def)
next
  case (TrAnd a b)
  from reads1_and [of e "map_option fst (tree_result e a)" "at_level 1 a (print_tree a)"
      "map_option fst (tree_result e b)" "at_level 2 b (print_tree b)"]
    reads_at_level [OF TrAnd.IH(1), of 1] reads_at_level [OF TrAnd.IH(2), of 2]
  show ?case
    by (cases "tree_result e a"; cases "tree_result e b") (auto simp: reads_def)
next
  case (TrOr a b)
  have "reads0 e (map_option fst (tree_result e a)) (print_tree a)"
    using reads_down [OF TrOr.IH(1) _ level_of_le, of 0] by (simp add: reads_def)
  with reads0_or_node [of e "map_option fst (tree_result e a)" "print_tree a"
      "map_option fst (tree_result e b)" "at_level 1 b (print_tree b)"] reads_at_level [OF TrOr.IH(2), of 1]
  show ?case
    by (cases "tree_result e a"; cases "tree_result e b") (auto simp: reads_def)
next
  case (TrArr xs)
  have "reads0 e (tree_value e x) (print_tree x)" if "x \<in> set xs" for x
    using reads_down [OF TrArr.IH [OF that] _ level_of_le, of 0] by (simp add: reads_def tree_value_def)
  from reads4_array [OF this] show ?case by (simp add: reads_def)
next
  case (TrParen a)
  have "reads0 e (map_option fst (tree_result e a)) (print_tree a)"
    using reads_down [OF TrParen.IH _ level_of_le, of 0] by (simp add: reads_def)
  from reads4_enclose [OF this] show ?case
    by (cases "tree_result e a") (auto simp: reads_def)
qed

lemma printed_tree_parsed:
  "case tree_value e x of
     None \<Rightarrow> \<exists>er. parse_all e (print_tree x) = Some (Inl er)
   | Some v \<Rightarrow> parse_all e (print_tree x) = Some (Inr v)"
proof -
  have "reads0 e (tree_value e x) (print_tree x)"
    using reads_down [OF tree_reads _ level_of_le, of 0] by (simp add: reads_def tree_value_def)
  from reads0_or [OF this, of "[]" "expr_fuel (print_tree x)"]
  have "outcome (tree_value e x) [] (parse_or (expr_fuel (print_tree x)) e (print_tree x))"
    by (simp add: expr_fuel_def stops_def del: parse_or.simps)
  then show ?thesis
    by (auto simp: parse_all_def outcome_def p_return_def split: option.splits elim!: stuck_cases
        simp del: parse_or.simps)
qed

text \<open>
  C24. The evaluator of the source, which computes while it parses, gives for the tokens of any
  syntax tree, printed with the fewest parentheses, the value of the compositional reference
  evaluation (so \<open>||\<close>, \<open>&&\<close>, comparisons and \<open>!\<close> have the documented precedence and both
  operands are always evaluated), and an error exactly where the reference evaluation has no
  value. No tree runs out of fuel.
\<close>
theorem evaluator_agrees_with_trees:
  "case tree_value e x of
     None \<Rightarrow> \<exists>er. parse_all e (print_tree x) = Some (Inl er)
   | Some v \<Rightarrow> parse_all e (print_tree x) = Some (Inr v)"
  by (rule printed_tree_parsed)

end
