(* ===== verification/Saga_Plan.thy ===== *)
theory Saga_Plan
  imports Saga_Expr_Tree
begin

text \<open>
  Saga definitions, company overlays and the plan that is frozen on an instance
  (\<open>saga/saga.types.ts\<close>, \<open>saga/application/plan-builder.ts\<close>). The properties: which steps a plan
  has and what each of them is, and in how far an overlay can only narrow a condition. Conditions are
  combined as texts, so the latter rests on the scanner and on Saga_Expr_Tree.
\<close>

section \<open>Definitions, overlays, plans\<close>

datatype saga_kind = DO_KIND | WAIT_KIND | UNDO_KIND
datatype saga_policy = P_REQUIRED | P_STANDARD | P_OPTIONAL
datatype saga_on_timeout = T_SKIP | T_COMPENSATE

record saga_event_ref =
  er_name :: string
  er_version :: int

record saga_start_spec =
  ss_event :: saga_event_ref
  ss_when :: "string option"
  ss_key :: string
  ss_context :: "(string \<times> string) list option"

record saga_step_spec =
  st_id :: string
  st_policy :: saga_policy
  st_do :: "string option"
  st_undo :: "string option"
  st_input :: "(string \<times> string) list option"
  st_waitFor :: "saga_event_ref option"
  st_match :: "string option"
  st_when :: "string option"
  st_requires :: "string list option"
  st_if :: "string option"
  st_timeout :: "string option"
  st_onTimeout :: "saga_on_timeout option"
  st_retry :: "int option"
  st_pivot :: "bool option"

record saga_definition_body =
  sd_key :: string
  sd_version :: int
  sd_requires :: "string list option"
  sd_start :: saga_start_spec
  sd_cancelOn :: "saga_event_ref list option"
  sd_steps :: "saga_step_spec list"
  sd_onComplete :: "string option"

record saga_step_overlay =
  so_enabled :: "bool option"
  so_if :: "string option"
  so_when :: "string option"
  so_timeout :: "string option"
  so_retry :: "int option"

record saga_overlay =
  ov_enabled :: "bool option"
  ov_start_when :: "string option"
  ov_steps :: "(string \<times> saga_step_overlay) list option"

record saga_plan_step =
  pl_id :: string
  pl_kind :: saga_kind
  pl_action :: "string option"
  pl_undo :: "string option"
  pl_input :: "(string \<times> string) list option"
  pl_waitFor :: "saga_event_ref option"
  pl_match :: "string option"
  pl_when :: "string option"
  pl_if :: "string option"
  pl_timeout :: "string option"
  pl_onTimeout :: "saga_on_timeout option"
  pl_maxAttempts :: int
  pl_pivot :: bool

record saga_plan =
  sp_sagaKey :: string
  sp_version :: int
  sp_steps :: "saga_plan_step list"
  sp_cancelOn :: "saga_event_ref list"
  sp_onComplete :: "string option"

section \<open>The builder\<close>

definition present_condition :: "string option \<Rightarrow> bool" where
  "present_condition c = (case c of None \<Rightarrow> False | Some s \<Rightarrow> s \<noteq> [] \<and> trim s \<noteq> [])"

definition andConditions :: "string option \<Rightarrow> string option \<Rightarrow> string option" where
  "andConditions left right =
     (case filter present_condition [left, right] of
        [] \<Rightarrow> None
      | [c] \<Rightarrow> c
      | c # d # _ \<Rightarrow> Some (''('' @ the c @ '') && ('' @ the d @ '')''))"

definition hasAll :: "string list option \<Rightarrow> string list \<Rightarrow> bool" where
  "hasAll required features =
     (case required of None \<Rightarrow> True | Some keys \<Rightarrow> list_all (\<lambda>k. k \<in> set features) keys)"

definition step_overlay :: "saga_overlay option \<Rightarrow> string \<Rightarrow> saga_step_overlay option" where
  "step_overlay overlay i =
     Option.bind overlay (\<lambda>o'. Option.bind (ov_steps o') (\<lambda>m. map_of m i))"

definition isEnabled :: "saga_step_spec \<Rightarrow> saga_step_overlay option \<Rightarrow> bool" where
  "isEnabled spec overlay =
     (case st_policy spec of
        P_REQUIRED \<Rightarrow> True
      | P_OPTIONAL \<Rightarrow> coalesce (Option.bind overlay so_enabled) False
      | P_STANDARD \<Rightarrow> coalesce (Option.bind overlay so_enabled) True)"

definition toPlanStep :: "saga_step_spec \<Rightarrow> saga_step_overlay option \<Rightarrow> int \<Rightarrow> saga_plan_step option" where
  "toPlanStep spec overlay defaultMaxAttempts =
     (if \<not> truthy (st_do spec) \<and> st_waitFor spec = None then None
      else
        let isWait = (st_waitFor spec \<noteq> None)
        in Some \<lparr>pl_id = st_id spec,
             pl_kind = (if isWait then WAIT_KIND else DO_KIND),
             pl_action = st_do spec, pl_undo = st_undo spec, pl_input = st_input spec,
             pl_waitFor = st_waitFor spec, pl_match = st_match spec,
             pl_when = andConditions (st_when spec) (Option.bind overlay so_when),
             pl_if = andConditions (st_if spec) (Option.bind overlay so_if),
             pl_timeout = coalesce_opt (Option.bind overlay so_timeout) (st_timeout spec),
             pl_onTimeout = (if isWait then Some (coalesce (st_onTimeout spec) T_SKIP) else None),
             pl_maxAttempts = coalesce (coalesce_opt (Option.bind overlay so_retry) (st_retry spec)) defaultMaxAttempts,
             pl_pivot = coalesce (st_pivot spec) False\<rparr>)"

text \<open>The loop over the steps; \<open>None\<close> is its early \<open>return null\<close>.\<close>

fun build_steps ::
  "saga_overlay option \<Rightarrow> string list \<Rightarrow> int \<Rightarrow> saga_step_spec list \<Rightarrow> saga_plan_step list \<Rightarrow>
   saga_plan_step list option" where
  "build_steps overlay features mx [] steps = Some steps"
| "build_steps overlay features mx (spec # specs) steps =
     (let stepOverlay = step_overlay overlay (st_id spec)
      in if \<not> isEnabled spec stepOverlay then build_steps overlay features mx specs steps
         else if \<not> hasAll (st_requires spec) features then
           (if st_policy spec = P_REQUIRED then None else build_steps overlay features mx specs steps)
         else case toPlanStep spec stepOverlay mx of
                None \<Rightarrow> build_steps overlay features mx specs steps
              | Some p \<Rightarrow> build_steps overlay features mx specs (steps @ [p]))"

definition plan_build ::
  "saga_definition_body \<Rightarrow> saga_overlay option \<Rightarrow> string list \<Rightarrow> int \<Rightarrow> saga_plan option" where
  "plan_build d overlay features defaultMaxAttempts =
     (if Option.bind overlay ov_enabled = Some False then None
      else if \<not> hasAll (sd_requires d) features then None
      else case build_steps overlay features defaultMaxAttempts (sd_steps d) [] of
             None \<Rightarrow> None
           | Some steps \<Rightarrow>
               if steps = [] then None
               else Some \<lparr>sp_sagaKey = sd_key d, sp_version = sd_version d, sp_steps = steps,
                      sp_cancelOn = coalesce (sd_cancelOn d) [], sp_onComplete = sd_onComplete d\<rparr>)"

section \<open>Which steps a plan has\<close>

definition planned :: "saga_overlay option \<Rightarrow> string list \<Rightarrow> int \<Rightarrow> saga_step_spec \<Rightarrow> saga_plan_step option" where
  "planned overlay features mx spec =
     (let so = step_overlay overlay (st_id spec)
      in if isEnabled spec so \<and> hasAll (st_requires spec) features then toPlanStep spec so mx else None)"

lemma build_steps_filter:
  "build_steps overlay features mx specs acc =
     (if \<exists>spec \<in> set specs. st_policy spec = P_REQUIRED \<and> \<not> hasAll (st_requires spec) features then None
      else Some (acc @ List.map_filter (planned overlay features mx) specs))"
proof (induction specs arbitrary: acc)
  case (Cons spec specs)
  have req: "isEnabled spec so" if "st_policy spec = P_REQUIRED" for so using that by (simp add: isEnabled_def)
  show ?case
    by (cases "st_policy spec = P_REQUIRED"; cases "hasAll (st_requires spec) features";
        cases "isEnabled spec (step_overlay overlay (st_id spec))";
        cases "toPlanStep spec (step_overlay overlay (st_id spec)) mx")
      (simp_all add: Cons.IH planned_def [of overlay features mx spec] Let_def map_filter_simps req)
qed (simp add: map_filter_simps)

lemma planned_step:
  "planned overlay features mx spec = Some p \<Longrightarrow>
     pl_id p = st_id spec \<and> pl_action p = st_do spec \<and> pl_undo p = st_undo spec \<and>
     pl_waitFor p = st_waitFor spec \<and> pl_pivot p = coalesce (st_pivot spec) False \<and>
     (pl_kind p = WAIT_KIND \<longleftrightarrow> st_waitFor spec \<noteq> None) \<and>
     pl_if p = andConditions (st_if spec) (Option.bind (step_overlay overlay (st_id spec)) so_if) \<and>
     pl_when p = andConditions (st_when spec) (Option.bind (step_overlay overlay (st_id spec)) so_when)"
  by (auto simp: planned_def toPlanStep_def Let_def split: if_splits)

lemma required_step_planned:
  "st_policy spec = P_REQUIRED \<Longrightarrow> hasAll (st_requires spec) features \<Longrightarrow>
   truthy (st_do spec) \<or> st_waitFor spec \<noteq> None \<Longrightarrow> planned overlay features mx spec \<noteq> None"
  by (auto simp: planned_def toPlanStep_def isEnabled_def Let_def)

text \<open>
  A plan is the definition, narrowed: it exists exactly if the overlay does not disable the
  saga, the company has the features of the saga and of every required step, and some step is
  left; its steps are, in the order of the definition and with their own ids, actions, undo
  actions, awaited events and pivot marks, the steps that are switched on for the company and whose
  features it has. No step is added, and a required step that does something is always there.
\<close>
theorem plan_narrows_definition:
  "plan_build d overlay features mx =
     (let steps = List.map_filter (planned overlay features mx) (sd_steps d)
      in if Option.bind overlay ov_enabled \<noteq> Some False \<and> hasAll (sd_requires d) features \<and>
            (\<forall>spec \<in> set (sd_steps d). st_policy spec = P_REQUIRED \<longrightarrow> hasAll (st_requires spec) features) \<and>
            steps \<noteq> []
         then Some \<lparr>sp_sagaKey = sd_key d, sp_version = sd_version d, sp_steps = steps,
                sp_cancelOn = coalesce (sd_cancelOn d) [], sp_onComplete = sd_onComplete d\<rparr>
         else None) \<and>
   (\<forall>spec p. planned overlay features mx spec = Some p \<longrightarrow>
      pl_id p = st_id spec \<and> pl_action p = st_do spec \<and> pl_undo p = st_undo spec \<and>
      pl_waitFor p = st_waitFor spec \<and> pl_pivot p = coalesce (st_pivot spec) False \<and>
      (pl_kind p = WAIT_KIND \<longleftrightarrow> st_waitFor spec \<noteq> None) \<and>
      pl_if p = andConditions (st_if spec) (Option.bind (step_overlay overlay (st_id spec)) so_if) \<and>
      pl_when p = andConditions (st_when spec) (Option.bind (step_overlay overlay (st_id spec)) so_when)) \<and>
   (\<forall>spec. st_policy spec = P_REQUIRED \<and> hasAll (st_requires spec) features \<and>
      (truthy (st_do spec) \<or> st_waitFor spec \<noteq> None) \<longrightarrow> planned overlay features mx spec \<noteq> None)"
proof (intro conjI allI impI)
  show "plan_build d overlay features mx =
     (let steps = List.map_filter (planned overlay features mx) (sd_steps d)
      in if Option.bind overlay ov_enabled \<noteq> Some False \<and> hasAll (sd_requires d) features \<and>
            (\<forall>spec \<in> set (sd_steps d). st_policy spec = P_REQUIRED \<longrightarrow> hasAll (st_requires spec) features) \<and>
            steps \<noteq> []
         then Some \<lparr>sp_sagaKey = sd_key d, sp_version = sd_version d, sp_steps = steps,
                sp_cancelOn = coalesce (sd_cancelOn d) [], sp_onComplete = sd_onComplete d\<rparr>
         else None)"
    by (auto simp: plan_build_def build_steps_filter Let_def)
qed (use planned_step required_step_planned in blast)+

section \<open>Texts and tokens\<close>

lemma takeWhile_tail: "\<not> p y \<Longrightarrow> takeWhile p (xs @ y # ys) = takeWhile p xs"
  by (induction xs) auto

lemma dropWhile_tail: "\<not> p y \<Longrightarrow> dropWhile p (xs @ y # ys) = dropWhile p xs @ y # ys"
  by (induction xs) auto

lemma string_body_append: "string_body q s = Some (v, r) \<Longrightarrow> string_body q (s @ t) = Some (v, r @ t)"
proof (induction q s arbitrary: v r rule: string_body.induct)
  case (2 q c)
  then show ?case by (cases t) (auto split: if_splits)
qed (auto split: if_splits)

lemma and_then_Inr_cases:
  assumes "and_then m (\<lambda>ts. Inr (f ts)) = Inr x"
  obtains y where "m = Inr y" "x = f y"
  using assms by (cases m) auto

text \<open>A text that scans, followed by a closing parenthesis.\<close>

lemma tokenize_close:
  "tokenize s a = Inr ta \<Longrightarrow>
   tokenize s' (a @ CHR '')'' # rest) = and_then (tokenize s' rest) (\<lambda>ts. Inr (ta @ TPunct '')'' # ts))"
proof (induction s a arbitrary: ta rule: tokenize.induct)
  case (1 source)
  then show ?case
    by (simp add: is_blank_def is_quote_def is_digit_def is_ident_start_def PUNCT_1_def PUNCT_2_def less_eq_char_def)
next
  case (2 source c cs)
  show ?case
  proof (cases "is_blank c")
    case True
    then show ?thesis using 2 by simp
  next
    case nb: False
    show ?thesis
    proof (cases "is_quote c")
      case True
      then obtain v r tr where "string_body c cs = Some (v, r)" "tokenize source r = Inr tr" "ta = TStr v # tr"
        using "2.prems" nb by (auto split: option.splits elim!: and_then_Inr_cases)
      then show ?thesis using "2.IH"(2) nb True
        by (simp add: string_body_append and_then_assoc)
    next
      case nq: False
      show ?thesis
      proof (cases "is_digit c")
        case True
        then obtain tr where "tokenize source (dropWhile is_number_char cs) = Inr tr"
          "ta = TNum (string_to_number (c # takeWhile is_number_char cs)) # tr"
          using "2.prems" nb nq by (auto elim!: and_then_Inr_cases)
        moreover have "\<not> is_number_char CHR '')''" by (simp add: is_number_char_def is_digit_def less_eq_char_def)
        ultimately show ?thesis using "2.IH"(3) nb nq True
          by (simp add: takeWhile_tail dropWhile_tail and_then_assoc)
      next
        case nd: False
        show ?thesis
        proof (cases "is_ident_start c")
          case True
          then obtain tr where "tokenize source (dropWhile is_ident_char cs) = Inr tr"
            "ta = TIdent (c # takeWhile is_ident_char cs) # tr"
            using "2.prems" nb nq nd by (auto elim!: and_then_Inr_cases)
          moreover have "\<not> is_ident_char CHR '')''"
            by (simp add: is_ident_char_def is_ident_start_def is_digit_def less_eq_char_def)
          ultimately show ?thesis using "2.IH"(4) nb nq nd True
            by (simp add: takeWhile_tail dropWhile_tail and_then_assoc)
        next
          case ni: False
          have two: "take 2 (c # cs @ CHR '')'' # rest) \<in> set PUNCT_2 \<longleftrightarrow> take 2 (c # cs) \<in> set PUNCT_2"
            by (cases cs) (auto simp: PUNCT_2_def)
          have same: "cs \<noteq> [] \<Longrightarrow> take 2 (c # cs @ CHR '')'' # rest) = take 2 (c # cs)"
            by (cases cs) auto
          show ?thesis
          proof (cases "take 2 (c # cs) \<in> set PUNCT_2")
            case True
            then have cs: "cs \<noteq> []" by (cases cs) (auto simp: PUNCT_2_def)
            obtain tr where "tokenize source (drop 1 cs) = Inr tr" "ta = TPunct (take 2 (c # cs)) # tr"
              using "2.prems" nb nq nd ni True by (auto elim!: and_then_Inr_cases simp del: take_Suc_Cons)
            then show ?thesis using "2.IH"(5) nb nq nd ni True two same [OF cs] cs
              by (cases cs) (simp_all add: and_then_assoc del: take_Suc_Cons)
          next
            case False
            then obtain tr where "tokenize source cs = Inr tr" "ta = TPunct [c] # tr" "[c] \<in> set PUNCT_1"
              using "2.prems" nb nq nd ni by (auto split: if_splits elim!: and_then_Inr_cases simp del: take_Suc_Cons)
            then show ?thesis using "2.IH"(6) nb nq nd ni False two
              by (simp add: and_then_assoc del: take_Suc_Cons)
          qed
        qed
      qed
    qed
  qed
qed

end
