(* ===== verification/Saga_Conditions.thy ===== *)
theory Saga_Conditions
  imports Saga_Plan
begin

text \<open>
  What saga conditions and paths mean, as texts: the value of a path, the conjunction that the
  plan builder writes for a default condition and an overlay condition, and how far an overlay can
  reach with an unbalanced text.
\<close>

section \<open>Texts of conditions and paths\<close>

lemma trim_id:
  assumes "s \<noteq> []" "\<not> is_space (hd s)" "\<not> is_space (last s)"
  shows "trim s = s"
proof -
  have "dropWhile is_space s = s" using assms by (cases s) simp_all
  moreover have "dropWhile is_space (rev s) = rev s"
    using assms by (cases "rev s") (auto simp: hd_rev [symmetric])
  ultimately show ?thesis by (simp add: trim_def)
qed

lemmas char_class_simps = is_blank_def is_quote_def is_digit_def is_number_char_def is_ident_start_def
  is_ident_char_def is_space_def PUNCT_1_def PUNCT_2_def less_eq_char_def

lemmas tokenize_step = tokenize.simps(2)

declare tokenize.simps(2) [simp del]

lemma tokenize_open: "tokenize s (CHR ''('' # rest) = and_then (tokenize s rest) (\<lambda>ts. Inr (TPunct ''('' # ts))"
  by (cases rest) (simp_all add: tokenize_step char_class_simps)

lemma tokenize_blank: "tokenize s (CHR '' '' # rest) = tokenize s rest"
  by (simp add: tokenize_step char_class_simps)

lemma tokenize_and: "tokenize s (CHR ''&'' # CHR ''&'' # rest) = and_then (tokenize s rest) (\<lambda>ts. Inr (TPunct ''&&'' # ts))"
  by (simp add: tokenize_step char_class_simps)

lemma tokenize_or: "tokenize s (CHR ''|'' # CHR ''|'' # rest) = and_then (tokenize s rest) (\<lambda>ts. Inr (TPunct ''||'' # ts))"
  by (simp add: tokenize_step char_class_simps)

lemmas scan_simps = tokenize_open tokenize_blank tokenize_and tokenize_or

text \<open>A text that is the condition \<open>x\<close>.\<close>

definition reads_as :: "string \<Rightarrow> tree \<Rightarrow> bool" where
  "reads_as s x \<longleftrightarrow> trim s = s \<and> tokenize s s = Inr (print_tree x)"

definition saga_env :: "host \<Rightarrow> (string \<times> sval) list \<Rightarrow> string \<Rightarrow> parse_env" where
  "saga_env h scope source = \<lparr>pe_host = h, pe_scope = scope, pe_source = source\<rparr>"

lemma tree_result_source:
  assumes "pe_host e = pe_host e'" "pe_scope e = pe_scope e'"
  shows "tree_result e x = tree_result e' x"
proof (induction x)
  case (TrArr xs)
  then have "tree_results e xs = tree_results e' xs" by (induction xs) auto
  then show ?case by simp
qed (use assms in \<open>simp_all add: ident_value_def split: option.splits\<close>)

text \<open>The value of a condition in a scope.\<close>

definition value_in :: "host \<Rightarrow> (string \<times> sval) list \<Rightarrow> tree \<Rightarrow> sval option" where
  "value_in h scope x = tree_value (saga_env h scope []) x"

lemma value_in_eq: "tree_value \<lparr>pe_host = h, pe_scope = scope, pe_source = s\<rparr> x = value_in h scope x"
  unfolding value_in_def tree_value_def saga_env_def by (subst tree_result_source) simp_all

lemma parse_all_value:
  assumes "pe_host e = h" "pe_scope e = scope"
  shows "(\<exists>er. parse_all e (print_tree x) = Some (Inl er) \<and> value_in h scope x = None) \<or>
    (\<exists>v. parse_all e (print_tree x) = Some (Inr v) \<and> value_in h scope x = Some v)"
proof -
  have "tree_value e x = value_in h scope x"
    unfolding value_in_def tree_value_def using assms by (subst tree_result_source) (simp_all add: saga_env_def)
  then show ?thesis using printed_tree_parsed [of e x] by (auto split: option.splits)
qed

lemma print_tree_not_Nil [simp]: "print_tree x \<noteq> []"
  using reads_down [OF tree_reads zero_le level_of_le, of undefined x] by (auto simp: reads_def reads0_def)

lemma evaluate_reads:
  assumes "tokenize s s = Inr (print_tree x)" "trim s = s" "s \<noteq> []"
  shows "case value_in h scope x of
      None \<Rightarrow> \<exists>er. evaluateExpression h s scope = Inl er
    | Some v \<Rightarrow> evaluateExpression h s scope = Inr v"
  using parse_all_value [of "\<lparr>pe_host = h, pe_scope = scope, pe_source = s\<rparr>" h scope x] assms
  by (auto simp: evaluateExpression_def)

section \<open>Conjunctions\<close>

definition conjoin :: "string \<Rightarrow> string \<Rightarrow> string" where
  "conjoin a b = ''('' @ a @ '') && ('' @ b @ '')''"

lemma andConditions_both:
  "a \<noteq> [] \<Longrightarrow> trim a = a \<Longrightarrow> b \<noteq> [] \<Longrightarrow> trim b = b \<Longrightarrow> andConditions (Some a) (Some b) = Some (conjoin a b)"
  by (simp add: andConditions_def present_condition_def conjoin_def)

lemma conjoin_not_Nil [simp]: "conjoin a b \<noteq> []"
  by (simp add: conjoin_def)

lemma trim_conjoin [simp]: "trim (conjoin a b) = conjoin a b"
  by (rule trim_id) (simp_all add: conjoin_def char_class_simps)

lemma tokenize_conjoin:
  assumes "tokenize a a = Inr ta"
  shows "tokenize s (conjoin a b) =
    and_then (tokenize s (b @ '')'')) (\<lambda>ts. Inr (enclose ta @ TPunct ''&&'' # TPunct ''('' # ts))"
  using tokenize_close [OF assms, of s "'' && ('' @ b @ '')''"]
  by (simp add: conjoin_def scan_simps enclose_def and_then_assoc)

lemma conjoin_reads:
  assumes "reads_as a x" "reads_as b y"
  shows "tokenize (conjoin a b) (conjoin a b) = Inr (print_tree (TrAnd (TrParen x) (TrParen y)))"
proof -
  have "tokenize (conjoin a b) (b @ '')'') = Inr (print_tree y @ [TPunct '')''])"
    using tokenize_close [of b b "print_tree y" "conjoin a b" "[]"] assms(2) by (simp add: reads_as_def)
  then show ?thesis using assms(1)
    by (simp add: tokenize_conjoin reads_as_def at_level_def enclose_def)
qed

text \<open>
  Conjunction: if the default condition and the overlay condition are conditions on their own,
  the combined condition of the plan holds exactly when both hold, so such an overlay only narrows.
\<close>
theorem overlay_condition_narrows:
  assumes "reads_as a x" "reads_as b y" "a \<noteq> []" "b \<noteq> []"
    and "value_in h scope x = Some v" "value_in h scope y = Some w"
  shows "evaluateCondition h (Some a) scope = Inr (sval_truthy v) \<and>
    evaluateCondition h (andConditions (Some a) (Some b)) scope = Inr (sval_truthy v \<and> sval_truthy w)"
proof
  show "evaluateCondition h (Some a) scope = Inr (sval_truthy v)"
    using evaluate_reads [of a x h scope] assms by (simp add: evaluateCondition_def reads_as_def)
  have "value_in h scope (TrAnd (TrParen x) (TrParen y)) = Some (VBool (sval_truthy v \<and> sval_truthy w))"
    using assms(5,6) by (auto simp: value_in_def tree_value_def)
  then show "evaluateCondition h (andConditions (Some a) (Some b)) scope = Inr (sval_truthy v \<and> sval_truthy w)"
    using evaluate_reads [OF conjoin_reads [OF assms(1,2)] trim_conjoin, of h scope] assms(1-4)
    by (simp add: evaluateCondition_def andConditions_both reads_as_def)
qed

text \<open>
  Because conditions are combined as texts, an overlay condition that is not one condition
  but \<open>true) || (true\<close> makes the combined condition hold whatever the default condition says.
\<close>
theorem overlay_text_can_widen:
  assumes "reads_as a x" "a \<noteq> []" "value_in h scope x = Some v"
  shows "evaluateCondition h (andConditions (Some a) (Some ''true) || (true'')) scope = Inr True"
proof -
  let ?b = "''true) || (true''"
  let ?x = "TrOr (TrAnd (TrParen x) (TrParen (TrIdent ''true''))) (TrParen (TrIdent ''true''))"
  have b: "trim ?b = ?b" by (simp add: trim_def is_space_def)
  have "tokenize (conjoin a ?b) (?b @ '')'') =
    Inr [TIdent ''true'', TPunct '')'', TPunct ''||'', TPunct ''('', TIdent ''true'', TPunct '')'']"
    by (simp add: tokenize_step char_class_simps)
  then have "tokenize (conjoin a ?b) (conjoin a ?b) = Inr (print_tree ?x)"
    using assms(1) by (simp add: tokenize_conjoin reads_as_def at_level_def enclose_def)
  moreover have "value_in h scope ?x = Some (VBool True)"
    using assms(3) by (auto simp: value_in_def tree_value_def ident_value_def)
  ultimately show ?thesis
    using evaluate_reads [OF _ trim_conjoin conjoin_not_Nil, of a ?b ?x h scope]
      andConditions_both [OF assms(2) _ _ b] assms(1)
    by (simp add: evaluateCondition_def reads_as_def del: tokenize.simps)
qed

section \<open>Paths\<close>

definition word :: "string \<Rightarrow> bool" where
  "word w \<longleftrightarrow> w \<noteq> [] \<and> is_ident_start (hd w) \<and> list_all is_ident_char w"

definition path_text :: "string \<Rightarrow> string list \<Rightarrow> string" where
  "path_text i ks = i @ concat (map (\<lambda>k. CHR ''.'' # k) ks)"

definition path_tree :: "string \<Rightarrow> string list \<Rightarrow> tree" where
  "path_tree i ks = foldl TrProp (TrIdent i) ks"

text \<open>Following the properties of a path: one step may leave a missing value, a second one may not.\<close>

fun walk :: "host \<Rightarrow> sval \<Rightarrow> string list \<Rightarrow> sval option" where
  "walk h v [] = Some v"
| "walk h v [k] = Some (if is_nullish v then VUndef else get_property h v k)"
| "walk h v (k # k' # ks) = (if is_nullish v then None else walk h (get_property h v k) (k' # ks))"

lemma word_facts: "word w \<Longrightarrow> w \<noteq> [] \<and> is_ident_start (hd w) \<and> list_all is_ident_char (tl w) \<and>
    \<not> is_space (hd w) \<and> \<not> is_space (last w)"
proof -
  assume w: "word w"
  have "\<not> is_space c" if "is_ident_char c" for c using that by (auto simp: char_class_simps)
  moreover have "is_ident_char (hd w)" "is_ident_char (last w)"
    using w by (auto simp: word_def list_all_iff)
  ultimately show ?thesis using w by (cases w) (auto simp: word_def)
qed

lemma tokenize_word:
  assumes "word w" "rest = [] \<or> \<not> is_ident_char (hd rest)"
  shows "tokenize s (w @ rest) = and_then (tokenize s rest) (\<lambda>ts. Inr (TIdent w # ts))"
proof -
  obtain c cs where w: "w = c # cs" "is_ident_start c" "\<forall>x \<in> set cs. is_ident_char x"
    using word_facts [OF assms(1)] by (cases w) (auto simp: list_all_iff)
  have kind: "\<not> is_blank c" "\<not> is_quote c" "\<not> is_digit c"
    using w(2) by (auto simp: is_blank_def is_quote_def is_digit_def is_ident_start_def less_eq_char_def)
  have "takeWhile is_ident_char (cs @ rest) = cs" "dropWhile is_ident_char (cs @ rest) = rest"
    using w(3) assms(2) by (cases rest; simp add: takeWhile_append dropWhile_append)+
  then show ?thesis using kind w by (simp add: tokenize_step)
qed

lemma tokenize_dot: "tokenize s (CHR ''.'' # rest) = and_then (tokenize s rest) (\<lambda>ts. Inr (TPunct ''.'' # ts))"
  by (cases rest) (simp_all add: tokenize_step char_class_simps)

lemma tokenize_path:
  assumes "word i" "list_all word ks"
  shows "tokenize s (path_text i ks) = Inr (TIdent i # concat (map (\<lambda>k. [TPunct ''.'', TIdent k]) ks))"
  using assms
proof (induction ks arbitrary: i)
  case Nil
  then show ?case using tokenize_word [of i "[]"] by (simp add: path_text_def)
next
  case (Cons k ks)
  have "\<not> is_ident_char CHR ''.''" by (simp add: char_class_simps)
  then have "tokenize s (path_text i (k # ks)) =
      and_then (tokenize s (CHR ''.'' # path_text k ks)) (\<lambda>ts. Inr (TIdent i # ts))"
    using tokenize_word [of i "CHR ''.'' # path_text k ks"] Cons.prems(1) by (simp add: path_text_def)
  then show ?case using Cons by (simp add: tokenize_dot)
qed

lemma print_path: "level_of a = 4 \<Longrightarrow>
    print_tree (foldl TrProp a ks) = print_tree a @ concat (map (\<lambda>k. [TPunct ''.'', TIdent k]) ks)"
  by (induction ks arbitrary: a) (simp_all add: at_level_def)

lemma path_left: "tree_result e a = None \<Longrightarrow> tree_result e (foldl TrProp a ks) = None"
  by (induction ks arbitrary: a) simp_all

lemma path_result: "tree_result e a = Some (v, False) \<Longrightarrow>
    tree_value e (foldl TrProp a ks) = walk (pe_host e) v ks"
proof (induction "pe_host e" v ks arbitrary: a rule: walk.induct)
  case (3 v k k' ks)
  then show ?case
    by (cases "is_nullish v") (simp_all add: tree_value_def path_left)
qed (auto simp: tree_value_def)

lemma trim_path:
  assumes "word i" "list_all word ks"
  shows "trim (path_text i ks) = path_text i ks" "path_text i ks \<noteq> []"
proof -
  have "path_text i ks \<noteq> [] \<and> hd (path_text i ks) = hd i \<and> \<not> is_space (last (path_text i ks))"
    using assms
  proof (induction ks arbitrary: i)
    case Nil
    then show ?case using word_facts [of i] by (simp add: path_text_def)
  next
    case (Cons k ks)
    have "path_text i (k # ks) = i @ CHR ''.'' # path_text k ks" by (simp add: path_text_def)
    then show ?case using Cons word_facts [of i] by simp
  qed
  then show "trim (path_text i ks) = path_text i ks" "path_text i ks \<noteq> []"
    using word_facts [OF assms(1)] by (auto intro: trim_id)
qed

text \<open>
  A path such as \<open>steps.valuate.output.unitCosts\<close> has the value that following its properties
  from the scope gives. Reading one property of a missing value is \<open>undefined\<close>; when the path has
  two or more properties after a missing value, the expression is refused as malformed.
\<close>
theorem path_value:
  assumes "word i" "list_all word ks"
  shows "case walk h (ident_value (saga_env h scope []) i) ks of
      None \<Rightarrow> \<exists>er. evaluateExpression h (path_text i ks) scope = Inl er
    | Some v \<Rightarrow> evaluateExpression h (path_text i ks) scope = Inr v"
proof -
  have "value_in h scope (path_tree i ks) = walk h (ident_value (saga_env h scope []) i) ks"
    using path_result [of "saga_env h scope []" "TrIdent i" "ident_value (saga_env h scope []) i" ks]
    by (simp add: value_in_def path_tree_def saga_env_def)
  moreover have "tokenize (path_text i ks) (path_text i ks) = Inr (print_tree (path_tree i ks))"
    using assms by (simp add: tokenize_path path_tree_def print_path)
  ultimately show ?thesis
    using evaluate_reads [OF _ trim_path [OF assms], of "path_tree i ks" h scope] by simp
qed

section \<open>Examples\<close>

definition plain_host :: host where
  "plain_host = \<lparr>h_inherited = (\<lambda>v k. VUndef), h_number = (\<lambda>v. NaN), h_stored = (\<lambda>n. None), h_same = (\<lambda>v w. False)\<rparr>"

definition sample_scope :: "(string \<times> sval) list" where
  "sample_scope = [(''event'', VObj [(''grnId'', VStr ''G1''), (''total'', VNum (N 5))]), (''steps'', VObj [])]"

theorem path_value_witness:
  "\<exists>er. evaluateExpression plain_host ''steps.valuate.output.unitCosts'' sample_scope = Inl er"
  using path_value [of "''steps''" "[''valuate'', ''output'', ''unitCosts'']" plain_host sample_scope]
  by (simp add: word_def path_text_def ident_value_def saga_env_def get_property_def sample_scope_def
      plain_host_def is_ident_start_def is_ident_char_def is_digit_def less_eq_char_def)

lemma sample_conditions:
  "reads_as ''event.grnId'' (TrProp (TrIdent ''event'') ''grnId'')"
  "reads_as ''event.note'' (TrProp (TrIdent ''event'') ''note'')"
  "value_in plain_host sample_scope (TrProp (TrIdent ''event'') ''grnId'') = Some (VStr ''G1'')"
  "value_in plain_host sample_scope (TrProp (TrIdent ''event'') ''note'') = Some VUndef"
  by (simp_all add: reads_as_def trim_def is_space_def tokenize_step char_class_simps at_level_def value_in_def
      tree_value_def ident_value_def saga_env_def get_property_def sample_scope_def plain_host_def)

theorem overlay_condition_narrows_witness:
  "evaluateCondition plain_host (Some ''event.grnId'') sample_scope = Inr True \<and>
   evaluateCondition plain_host (andConditions (Some ''event.grnId'') (Some ''event.note'')) sample_scope = Inr False"
  using overlay_condition_narrows [OF sample_conditions(1,2) _ _ sample_conditions(3,4)] by simp

theorem overlay_text_can_widen_witness:
  "evaluateCondition plain_host (andConditions (Some ''event.note'') (Some ''true) || (true'')) sample_scope = Inr True"
  using overlay_text_can_widen [OF sample_conditions(2) _ sample_conditions(4)] by simp

definition sample_step :: "string \<Rightarrow> saga_policy \<Rightarrow> saga_step_spec" where
  "sample_step i p = \<lparr>st_id = i, st_policy = p, st_do = Some ''x'', st_undo = Some ''y'', st_input = None,
     st_waitFor = None, st_match = None, st_when = None, st_requires = None, st_if = None, st_timeout = None,
     st_onTimeout = None, st_retry = None, st_pivot = None\<rparr>"

theorem plan_narrows_definition_witness:
  "planned None [] 3 (sample_step ''a'' P_REQUIRED) \<noteq> None \<and> planned None [] 3 (sample_step ''b'' P_OPTIONAL) = None"
proof
  have "\<forall>spec. st_policy spec = P_REQUIRED \<and> hasAll (st_requires spec) [] \<and>
      (truthy (st_do spec) \<or> st_waitFor spec \<noteq> None) \<longrightarrow> planned None [] 3 spec \<noteq> None"
    using plan_narrows_definition [of undefined None "[]" 3] by (elim conjE) assumption
  from spec [OF this, of "sample_step ''a'' P_REQUIRED"]
  show "planned None [] 3 (sample_step ''a'' P_REQUIRED) \<noteq> None"
    by (simp add: sample_step_def hasAll_def)
  show "planned None [] 3 (sample_step ''b'' P_OPTIONAL) = None"
    by (simp add: planned_def sample_step_def step_overlay_def isEnabled_def)
qed

end
