(* ===== verification/Effects.thy ===== *)
theory Effects
  imports Prelude
begin

text \<open>
  Programs outside a transaction: each statement commits on its own, so a program that throws keeps
  what it wrote before. The interface \<open>io_relation\<close> lifts a reflexive and transitive relation of
  states from the statements to whole programs.
\<close>

section \<open>Programs that keep their effects\<close>

type_synonym ('x, 'd) io = "'d \<Rightarrow> 'x result \<times> 'd"

definition io_return :: "'x \<Rightarrow> ('x, 'd) io" where
  "io_return x db = (Inr x, db)"

definition io_lift :: "'x result \<Rightarrow> ('x, 'd) io" where
  "io_lift r db = (r, db)"

definition io_then :: "('x, 'd) io \<Rightarrow> ('x \<Rightarrow> ('y, 'd) io) \<Rightarrow> ('y, 'd) io" where
  "io_then m f db = (case m db of (Inl er, db') \<Rightarrow> (Inl er, db') | (Inr x, db') \<Rightarrow> f x db')"

definition io_read :: "('d \<Rightarrow> 'x) \<Rightarrow> ('x, 'd) io" where
  "io_read f db = (Inr (f db), db)"

definition io_write :: "('d \<Rightarrow> 'd) \<Rightarrow> (unit, 'd) io" where
  "io_write g db = (Inr (), g db)"

fun io_for :: "('a \<Rightarrow> (unit, 'd) io) \<Rightarrow> 'a list \<Rightarrow> (unit, 'd) io" where
  "io_for f [] = io_return ()"
| "io_for f (x # xs) = io_then (f x) (\<lambda>_. io_for f xs)"

named_theorems io_simps \<open>running programs that keep their effects\<close>

lemma io_run [simp, io_simps]:
  "io_return x db = (Inr x, db)" "io_lift r db = (r, db)" "io_read f db = (Inr (f db), db)"
  "io_write g db = (Inr (), g db)"
  "io_then (io_return x) k db = k x db" "io_then (io_read f) k db = k (f db) db"
  "io_then (io_write g) l db = l () (g db)" "io_then (io_lift (Inr x)) k db = k x db"
  "io_then (io_lift (Inl er)) k db = (Inl er, db)"
  by (simp_all add: io_return_def io_lift_def io_read_def io_write_def io_then_def)

lemma io_then_Inr [io_simps]: "m db = (Inr x, db') \<Longrightarrow> io_then m k db = k x db'"
  by (simp add: io_then_def)

lemma io_then_Inl [io_simps]: "m db = (Inl er, db') \<Longrightarrow> io_then m k db = (Inl er, db')"
  by (simp add: io_then_def)

lemma io_then_assoc: "io_then (io_then m k) l = io_then m (\<lambda>x. io_then (k x) l)"
  by (auto simp: fun_eq_iff io_then_def split: sum.splits prod.splits)

text \<open>\<open>try { m } catch (err) { h(err) }\<close>: what \<open>m\<close> wrote before it threw stays.\<close>

definition io_catch :: "('x, 'd) io \<Rightarrow> (exn \<Rightarrow> ('x, 'd) io) \<Rightarrow> ('x, 'd) io" where
  "io_catch m h db = (case m db of (Inl er, db') \<Rightarrow> h er db' | (Inr x, db') \<Rightarrow> (Inr x, db'))"

lemma io_catch_Inr [io_simps]: "m db = (Inr x, db') \<Longrightarrow> io_catch m h db = (Inr x, db')"
  by (simp add: io_catch_def)

lemma io_catch_Inl [io_simps]: "m db = (Inl er, db') \<Longrightarrow> io_catch m h db = h er db'"
  by (simp add: io_catch_def)

text \<open>A step that computes a result and a new state at once.\<close>

definition io_step :: "('d \<Rightarrow> 'x \<times> 'd) \<Rightarrow> ('x, 'd) io" where
  "io_step f db = (let (x, db') = f db in (Inr x, db'))"

lemma io_step_run [simp, io_simps]: "f db = (x, db') \<Longrightarrow> io_step f db = (Inr x, db')"
  by (simp add: io_step_def)

text \<open>A relation between the states before and after, whether the program throws or not.\<close>

definition io_rel :: "('d \<Rightarrow> 'd \<Rightarrow> bool) \<Rightarrow> ('x, 'd) io \<Rightarrow> bool" where
  "io_rel R m \<longleftrightarrow> (\<forall>db. R db (snd (m db)))"

lemma io_relD: "io_rel R m \<Longrightarrow> R db (snd (m db))"
  by (simp add: io_rel_def)

locale io_relation =
  fixes R :: "'d \<Rightarrow> 'd \<Rightarrow> bool"
  assumes R_refl: "R db db"
    and R_trans: "R db1 db2 \<Longrightarrow> R db2 db3 \<Longrightarrow> R db1 db3"
begin

lemma rel_return: "io_rel R (io_return x)"
  and rel_lift: "io_rel R (io_lift r)"
  and rel_read: "io_rel R (io_read f)"
  by (simp_all add: io_rel_def R_refl)

lemma rel_write: "(\<And>db. R db (g db)) \<Longrightarrow> io_rel R (io_write g)"
  by (simp add: io_rel_def)

lemma rel_then: "io_rel R m \<Longrightarrow> (\<And>x. io_rel R (k x)) \<Longrightarrow> io_rel R (io_then m k)"
  by (auto simp: io_rel_def io_then_def split: prod.splits sum.splits intro: R_trans) (metis R_trans snd_conv)+

text \<open>What the first program returns may be known.\<close>

lemma rel_then_on:
  assumes "io_rel R m" "\<And>db x db'. m db = (Inr x, db') \<Longrightarrow> P x" "\<And>x. P x \<Longrightarrow> io_rel R (k x)"
  shows "io_rel R (io_then m k)"
  unfolding io_rel_def
proof
  fix db
  obtain res db' where m: "m db = (res, db')" by (cases "m db")
  with assms(1) have r: "R db db'" by (metis io_rel_def snd_conv)
  show "R db (snd (io_then m k db))"
  proof (cases res)
    case (Inl er)
    with m r show ?thesis by (simp add: io_then_def)
  next
    case (Inr x)
    with m assms(2,3) have "R db' (snd (k x db'))" by (metis io_rel_def)
    with m r Inr show ?thesis by (simp add: io_then_def) (rule R_trans)
  qed
qed

lemma rel_for: "(\<And>x. x \<in> set xs \<Longrightarrow> io_rel R (f x)) \<Longrightarrow> io_rel R (io_for f xs)"
  by (induction xs) (auto intro: rel_return rel_then)

lemma rel_if: "(b \<Longrightarrow> io_rel R m) \<Longrightarrow> (\<not> b \<Longrightarrow> io_rel R m') \<Longrightarrow> io_rel R (if b then m else m')"
  by simp

lemma rel_option:
  "(v = None \<Longrightarrow> io_rel R m) \<Longrightarrow> (\<And>x. v = Some x \<Longrightarrow> io_rel R (f x)) \<Longrightarrow>
   io_rel R (case v of None \<Rightarrow> m | Some x \<Rightarrow> f x)"
  by (cases v) simp_all

lemma rel_catch: "io_rel R m \<Longrightarrow> (\<And>er. io_rel R (h er)) \<Longrightarrow> io_rel R (io_catch m h)"
  by (auto simp: io_rel_def io_catch_def split: prod.splits sum.splits intro: R_trans) (metis R_trans snd_conv)+

end

section \<open>A key-value store with expiry\<close>

text \<open>
  The key-value store behind the distributed lock, the idempotency cache and the notification
  counters. One keyspace: a value is a text or an integer counter and may carry an expiry; a key
  whose expiry has passed is gone. The scripts of the lock adapter are modelled as the atomic
  statements they are. The client is missing, ready, or rejects every command.
\<close>

section \<open>The store\<close>

datatype redis_value = Text string | Counter int

type_synonym redis = "string \<Rightarrow> (redis_value \<times> int option) option"

definition redis_live :: "int \<Rightarrow> redis \<Rightarrow> string \<Rightarrow> redis_value option" where
  "redis_live now rd k = (case rd k of
       None \<Rightarrow> None
     | Some (v, expiry) \<Rightarrow> (case expiry of None \<Rightarrow> Some v | Some t \<Rightarrow> if now < t then Some v else None))"

definition redis_text :: "redis_value \<Rightarrow> string" where
  "redis_text v = (case v of Text s \<Rightarrow> s
     | Counter i \<Rightarrow> if i < 0 then CHR ''-'' # nat_to_string (nat (- i)) else nat_to_string (nat i))"

definition redis_get :: "int \<Rightarrow> redis \<Rightarrow> string \<Rightarrow> string option" where
  "redis_get now rd k = map_option redis_text (redis_live now rd k)"

definition redis_set :: "string \<Rightarrow> string \<Rightarrow> int option \<Rightarrow> redis \<Rightarrow> redis" where
  "redis_set k v expiry rd = rd(k \<mapsto> (Text v, expiry))"

definition redis_del :: "string \<Rightarrow> redis \<Rightarrow> redis" where
  "redis_del k rd = rd(k := None)"

text \<open>\<open>INCR\<close>: a missing key counts from 0; a text that is not an integer makes the command fail.\<close>

definition redis_incr :: "int \<Rightarrow> string \<Rightarrow> redis \<Rightarrow> int result \<times> redis" where
  "redis_incr now k rd = (case redis_live now rd k of
       None \<Rightarrow> (Inr 1, rd(k \<mapsto> (Counter 1, None)))
     | Some (Counter i) \<Rightarrow> (Inr (i + 1), rd(k \<mapsto> (Counter (i + 1), snd (the (rd k)))))
     | Some (Text s) \<Rightarrow> (throw_plain ''ERR value is not an integer or out of range'', rd))"

datatype redis_client = R_MISSING | R_READY | R_BROKEN

lemma live_set [simp]: "redis_live now (redis_set k v (Some t) rd) k = (if now < t then Some (Text v) else None)"
  by (simp add: redis_live_def redis_set_def)

lemma live_other [simp]: "k' \<noteq> k \<Longrightarrow> redis_live now (rd(k := x)) k' = redis_live now rd k'"
  by (simp add: redis_live_def)

lemma redis_text_Text [simp]: "redis_text (Text s) = s"
  by (simp add: redis_text_def)

end
