(* ===== verification/Saga_Store.thy ===== *)
theory Saga_Store
  imports Saga_Conditions Platform Effects "HOL-Library.List_Lexorder"
begin

text \<open>
  The saga tables and the statements of their repositories
  (\<open>saga/repositories/prisma-saga.repository.ts\<close>). The saga runs outside any transaction: each
  statement commits on its own, so a program that throws keeps what it wrote before. Such
  programs are of type \<open>io\<close>. The properties: a versioned update is fenced, a step row exists once
  per instance, step and kind, and a claimed batch respects its size and the fairness cap.
\<close>

section \<open>Rows\<close>

datatype saga_instance_status =
  I_RUNNING | I_WAITING | I_COMPENSATING | I_COMPLETED | I_COMPENSATED | I_CANCELLED | I_FAILED_MANUAL
datatype saga_reason = STEP_FAILED | TIMEOUT | CANCELLED_BY_EVENT | CANCELLED_BY_USER
datatype saga_definition_status = D_DRAFT | D_ACTIVE | D_RETIRED
datatype saga_config_status = C_ACTIVE | C_INVALID | C_RETIRED
datatype saga_step_status = S_PENDING | S_RUNNING | S_DONE | S_SKIPPED | S_FAILED
datatype saga_inbox_status = X_RECEIVED | X_BUFFERED | X_CONSUMED | X_IGNORED

fun step_status_name :: "saga_step_status \<Rightarrow> string" where
  "step_status_name S_PENDING = ''PENDING''"
| "step_status_name S_RUNNING = ''RUNNING''"
| "step_status_name S_DONE = ''DONE''"
| "step_status_name S_SKIPPED = ''SKIPPED''"
| "step_status_name S_FAILED = ''FAILED''"

fun reason_name :: "saga_reason \<Rightarrow> string" where
  "reason_name STEP_FAILED = ''STEP_FAILED''"
| "reason_name TIMEOUT = ''TIMEOUT''"
| "reason_name CANCELLED_BY_EVENT = ''CANCELLED_BY_EVENT''"
| "reason_name CANCELLED_BY_USER = ''CANCELLED_BY_USER''"

type_synonym fields = "(string \<times> sval) list"

record saga_definition =
  df_id :: string
  df_sagaKey :: string
  df_version :: int
  df_eventName :: string
  df_eventVersion :: int
  df_status :: saga_definition_status
  df_definition :: saga_definition_body
  df_createdBy :: "string option"
  df_createdAt :: int

record saga_company_config =
  cf_id :: string
  cf_tenantId :: string
  cf_companyId :: string
  cf_definitionId :: string
  cf_sagaKey :: string
  cf_baseVersion :: int
  cf_overlay :: saga_overlay
  cf_status :: saga_config_status

record saga_instance =
  si_id :: string
  si_tenantId :: string
  si_companyId :: string
  si_sagaKey :: string
  si_definitionId :: string
  si_configId :: "string option"
  si_rootRefType :: "string option"
  si_rootRefId :: "string option"
  si_correlationKey :: string
  si_status :: saga_instance_status
  si_reason :: "saga_reason option"
  si_plan :: saga_plan
  si_context :: fields
  si_cursor :: nat
  si_waitingEvent :: "string option"
  si_cancelRequestedAt :: "int option"
  si_error :: "string option"
  si_deadlineAt :: "int option"
  si_version :: int
  si_createdAt :: int

record saga_step =
  sr_id :: string
  sr_tenantId :: string
  sr_companyId :: string
  sr_instanceId :: string
  sr_stepId :: string
  sr_kind :: saga_kind
  sr_action :: "string option"
  sr_status :: saga_step_status
  sr_attempt :: int
  sr_maxAttempts :: int
  sr_runAt :: int
  sr_lockedBy :: "string option"
  sr_lockUntil :: "int option"
  sr_input :: "fields option"
  sr_output :: "fields option"
  sr_error :: "string option"
  sr_createdAt :: int

record saga_inbox =
  sx_id :: string
  sx_tenantId :: string
  sx_companyId :: string
  sx_consumer :: string
  sx_eventId :: string
  sx_eventName :: string
  sx_eventVersion :: int
  sx_correlationKey :: "string option"
  sx_instanceId :: "string option"
  sx_payload :: fields
  sx_status :: saga_inbox_status
  sx_reason :: "string option"
  sx_receivedAt :: int
  sx_processedAt :: "int option"

record saga_db = platform_db +
  sg_definitions :: "saga_definition list"
  sg_configs :: "saga_company_config list"
  sg_instances :: "saga_instance list"
  sg_steps :: "saga_step list"
  sg_inbox :: "saga_inbox list"

record saga_config =
  sc_workerLeaseSeconds :: int
  sc_claimBatchSize :: nat
  sc_fairnessCap :: int
  sc_sweepIntervalMs :: int
  sc_retryBaseDelayMs :: int
  sc_retryMaxDelayMs :: int
  sc_defaultMaxAttempts :: int
  sc_inboxRetentionDays :: int

text \<open>
  What a call sees outside the tables: the request context, the clock, the supply of random
  UUIDs, the language environment, the configuration, and two decisions of the database: which
  instances the partial unique index of the migration (not part of the sources) takes for
  duplicates, and in which order an update returns its rows.
\<close>

record saga_call =
  sc_ctx :: "request_context option"
  sc_now :: int
  sc_uuid :: "nat \<Rightarrow> string"
  sc_host :: host
  sc_config :: saga_config
  sc_duplicate :: "saga_instance \<Rightarrow> saga_instance \<Rightarrow> bool"
  sc_returning :: "saga_step list \<Rightarrow> saga_step list"

definition saga_uuid :: "saga_call \<Rightarrow> (string, 'a saga_db_scheme) io" where
  "saga_uuid e db = (Inr (sc_uuid e (pf_drawn db)), db\<lparr>pf_drawn := pf_drawn db + 1\<rparr>)"

section \<open>Definitions and company configurations\<close>

definition findActiveByEvent :: "string \<Rightarrow> int \<Rightarrow> saga_definition list \<Rightarrow> saga_definition option" where
  "findActiveByEvent eventName eventVersion rows =
     find_first (\<lambda>_. True) (sort_key (\<lambda>d. - df_version d)
       (filter (\<lambda>d. df_eventName d = eventName \<and> df_eventVersion d = eventVersion \<and> df_status d = D_ACTIVE) rows))"

definition findActiveByKey :: "string \<Rightarrow> saga_definition list \<Rightarrow> saga_definition option" where
  "findActiveByKey sagaKey rows = find_first (\<lambda>d. df_sagaKey d = sagaKey \<and> df_status d = D_ACTIVE) rows"

definition listActive :: "saga_definition list \<Rightarrow> saga_definition list" where
  "listActive rows = sort_key df_sagaKey (filter (\<lambda>d. df_status d = D_ACTIVE) rows)"

definition definition_create ::
  "saga_call \<Rightarrow> string \<Rightarrow> saga_definition_status \<Rightarrow> saga_definition_body \<Rightarrow> string option \<Rightarrow>
   (saga_definition, 'a saga_db_scheme) io" where
  "definition_create e sagaKey status body createdBy =
     io_then (saga_uuid e) (\<lambda>i.
     let row = \<lparr>df_id = i, df_sagaKey = sagaKey, df_version = sd_version body,
           df_eventName = er_name (ss_event (sd_start body)), df_eventVersion = er_version (ss_event (sd_start body)),
           df_status = status, df_definition = body, df_createdBy = createdBy, df_createdAt = sc_now e\<rparr>
     in io_then (io_read (\<lambda>db. \<exists>d \<in> set (sg_definitions db). df_sagaKey d = sagaKey \<and> df_version d = sd_version body))
          (\<lambda>dup. if dup then io_lift (throw_plain ''Unique constraint failed on the fields: (saga_key,version)'')
             else io_then (io_write (\<lambda>db. db\<lparr>sg_definitions := insert_row row (sg_definitions db)\<rparr>))
               (\<lambda>_. io_return row)))"

definition findActiveConfig ::
  "string \<Rightarrow> string \<Rightarrow> string \<Rightarrow> saga_company_config list \<Rightarrow> saga_company_config option" where
  "findActiveConfig tenantId companyId sagaKey rows =
     find_first (\<lambda>c. cf_tenantId c = tenantId \<and> cf_companyId c = companyId \<and> cf_sagaKey c = sagaKey \<and>
       cf_status c = C_ACTIVE) rows"

definition markInvalid :: "string \<Rightarrow> saga_company_config list \<Rightarrow> saga_company_config list" where
  "markInvalid i rows =
     snd (update_many (\<lambda>c. cf_id c = i \<and> cf_status c = C_ACTIVE) (\<lambda>c. c\<lparr>cf_status := C_INVALID\<rparr>) rows)"

section \<open>Instances\<close>

record insert_instance =
  in_tenantId :: string
  in_companyId :: string
  in_sagaKey :: string
  in_definitionId :: string
  in_configId :: "string option"
  in_rootRefType :: "string option"
  in_rootRefId :: "string option"
  in_correlationKey :: string
  in_plan :: saga_plan
  in_context :: fields
  in_deadlineAt :: "int option"

definition instance_row :: "saga_call \<Rightarrow> string \<Rightarrow> insert_instance \<Rightarrow> saga_instance" where
  "instance_row e i input = \<lparr>si_id = i, si_tenantId = in_tenantId input, si_companyId = in_companyId input,
     si_sagaKey = in_sagaKey input, si_definitionId = in_definitionId input, si_configId = in_configId input,
     si_rootRefType = in_rootRefType input, si_rootRefId = in_rootRefId input,
     si_correlationKey = in_correlationKey input, si_status = I_RUNNING, si_reason = None,
     si_plan = in_plan input, si_context = stored_fields (sc_host e) (in_context input), si_cursor = 0,
     si_waitingEvent = None, si_cancelRequestedAt = None, si_error = None, si_deadlineAt = in_deadlineAt input,
     si_version = 1, si_createdAt = sc_now e\<rparr>"

definition tryInsertLive :: "saga_call \<Rightarrow> insert_instance \<Rightarrow> (saga_instance option, 'a saga_db_scheme) io" where
  "tryInsertLive e input =
     io_then (saga_uuid e) (\<lambda>i.
     let row = instance_row e i input
     in io_then (io_read (\<lambda>db. \<exists>r \<in> set (sg_instances db). si_id r = i \<or> sc_duplicate e row r)) (\<lambda>dup.
          if dup then io_return None
          else io_then (io_write (\<lambda>db. db\<lparr>sg_instances := insert_row row (sg_instances db)\<rparr>))
                 (\<lambda>_. io_return (Some row))))"

definition instance_findById :: "string \<Rightarrow> saga_instance list \<Rightarrow> saga_instance option" where
  "instance_findById i rows = find_first (\<lambda>r. si_id r = i) rows"

definition findByCorrelation :: "string \<Rightarrow> string \<Rightarrow> saga_instance list \<Rightarrow> saga_instance option" where
  "findByCorrelation sagaKey correlationKey rows =
     find_first (\<lambda>_. True) (sort_key (\<lambda>r. - si_createdAt r)
       (filter (\<lambda>r. si_sagaKey r = sagaKey \<and> si_correlationKey r = correlationKey \<and> si_status r = I_WAITING) rows))"

definition findLiveByKey :: "string \<Rightarrow> string \<Rightarrow> saga_instance list \<Rightarrow> saga_instance list" where
  "findLiveByKey sagaKey correlationKey rows =
     filter (\<lambda>r. si_sagaKey r = sagaKey \<and> si_correlationKey r = correlationKey \<and>
       si_status r \<in> {I_RUNNING, I_WAITING}) rows"

fun int_to_string :: "int \<Rightarrow> string" where
  "int_to_string i = (if i < 0 then CHR ''-'' # nat_to_string (nat (- i)) else nat_to_string (nat i))"

definition event_key :: "string \<Rightarrow> int \<Rightarrow> string" where
  "event_key eventName eventVersion = eventName @ ''@'' @ int_to_string eventVersion"

definition findWaitingByEvent :: "string \<Rightarrow> int \<Rightarrow> nat \<Rightarrow> saga_instance list \<Rightarrow> saga_instance list" where
  "findWaitingByEvent eventName eventVersion limit rows =
     take limit (filter (\<lambda>r. si_status r = I_WAITING \<and>
       si_waitingEvent r = Some (event_key eventName eventVersion)) rows)"

text \<open>A patch: the keys it has are \<open>Some\<close>.\<close>

record instance_patch =
  ip_status :: "saga_instance_status option"
  ip_reason :: "saga_reason option option"
  ip_cursor :: "nat option"
  ip_waitingEvent :: "string option option"
  ip_cancelRequestedAt :: "int option option"
  ip_error :: "string option option"
  ip_deadlineAt :: "int option option"
  ip_context :: "fields option"
  ip_plan :: "saga_plan option"

definition no_patch :: instance_patch where
  "no_patch = \<lparr>ip_status = None, ip_reason = None, ip_cursor = None, ip_waitingEvent = None,
     ip_cancelRequestedAt = None, ip_error = None, ip_deadlineAt = None, ip_context = None, ip_plan = None\<rparr>"

definition patched :: "saga_call \<Rightarrow> instance_patch \<Rightarrow> int \<Rightarrow> saga_instance \<Rightarrow> saga_instance" where
  "patched e p expected r = r\<lparr>si_status := coalesce (ip_status p) (si_status r),
     si_reason := coalesce (ip_reason p) (si_reason r), si_cursor := coalesce (ip_cursor p) (si_cursor r),
     si_waitingEvent := coalesce (ip_waitingEvent p) (si_waitingEvent r),
     si_cancelRequestedAt := coalesce (ip_cancelRequestedAt p) (si_cancelRequestedAt r),
     si_error := coalesce (ip_error p) (si_error r), si_deadlineAt := coalesce (ip_deadlineAt p) (si_deadlineAt r),
     si_context := coalesce (map_option (stored_fields (sc_host e)) (ip_context p)) (si_context r),
     si_plan := coalesce (ip_plan p) (si_plan r), si_version := si_version r + 1\<rparr>"

abbreviation si_current :: "string \<Rightarrow> int \<Rightarrow> saga_instance \<Rightarrow> bool" where
  "si_current \<equiv> cas_hit si_id (\<lambda>r. Some (si_version r)) (\<lambda>r. True)"

definition updateCas ::
  "saga_call \<Rightarrow> string \<Rightarrow> int \<Rightarrow> instance_patch \<Rightarrow> (saga_instance option, 'a saga_db_scheme) io" where
  "updateCas e i expected p =
     io_then (io_read (\<lambda>db. update_many (si_current i expected) (patched e p expected) (sg_instances db)))
       (\<lambda>(n, rows). io_then (io_write (\<lambda>db. db\<lparr>sg_instances := rows\<rparr>)) (\<lambda>_.
          if n = 0 then io_return None else io_read (\<lambda>db. instance_findById i (sg_instances db))))"

section \<open>Steps\<close>

record insert_step =
  is_tenantId :: string
  is_companyId :: string
  is_instanceId :: string
  is_stepId :: string
  is_kind :: saga_kind
  is_action :: "string option"
  is_status :: saga_step_status
  is_maxAttempts :: int
  is_runAt :: int
  is_input :: "fields option"
  is_output :: "fields option"

definition step_row :: "saga_call \<Rightarrow> string \<Rightarrow> insert_step \<Rightarrow> saga_step" where
  "step_row e i input = \<lparr>sr_id = i, sr_tenantId = is_tenantId input, sr_companyId = is_companyId input,
     sr_instanceId = is_instanceId input, sr_stepId = is_stepId input, sr_kind = is_kind input,
     sr_action = is_action input, sr_status = is_status input, sr_attempt = 0,
     sr_maxAttempts = is_maxAttempts input, sr_runAt = is_runAt input, sr_lockedBy = None, sr_lockUntil = None,
     sr_input = map_option (stored_fields (sc_host e)) (is_input input),
     sr_output = map_option (stored_fields (sc_host e)) (is_output input), sr_error = None,
     sr_createdAt = sc_now e\<rparr>"

definition findByInstanceStep :: "string \<Rightarrow> string \<Rightarrow> saga_kind \<Rightarrow> saga_step list \<Rightarrow> saga_step option" where
  "findByInstanceStep instanceId stepId kind rows =
     find_first (\<lambda>r. sr_instanceId r = instanceId \<and> sr_stepId r = stepId \<and> sr_kind r = kind) rows"

definition createIfAbsent :: "saga_call \<Rightarrow> insert_step \<Rightarrow> (saga_step, 'a saga_db_scheme) io" where
  "createIfAbsent e input =
     io_then (io_read (\<lambda>db. findByInstanceStep (is_instanceId input) (is_stepId input) (is_kind input) (sg_steps db)))
       (\<lambda>existing. case existing of
          Some r \<Rightarrow> io_return r
        | None \<Rightarrow> io_then (saga_uuid e) (\<lambda>i.
            io_then (io_write (\<lambda>db. db\<lparr>sg_steps := insert_row (step_row e i input) (sg_steps db)\<rparr>))
              (\<lambda>_. io_return (step_row e i input))))"

definition step_findById :: "string \<Rightarrow> saga_step list \<Rightarrow> saga_step option" where
  "step_findById i rows = find_first (\<lambda>r. sr_id r = i) rows"

definition findByInstance :: "string \<Rightarrow> saga_step list \<Rightarrow> saga_step list" where
  "findByInstance instanceId rows = sort_key sr_createdAt (filter (\<lambda>r. sr_instanceId r = instanceId) rows)"

definition step_due :: "int \<Rightarrow> saga_step \<Rightarrow> bool" where
  "step_due now r \<longleftrightarrow> sr_status r = S_PENDING \<and> sr_kind r \<in> {DO_KIND, UNDO_KIND} \<and> sr_runAt r \<le> now \<and>
     (case sr_lockUntil r of None \<Rightarrow> True | Some t \<Rightarrow> t < now)"

text \<open>The rows of the sub-select; \<open>locked\<close> are those another transaction has locked.\<close>

definition step_selection :: "int \<Rightarrow> nat \<Rightarrow> (string \<Rightarrow> bool) \<Rightarrow> saga_step list \<Rightarrow> saga_step list" where
  "step_selection now batchSize locked rows =
     take batchSize (sort_key sr_runAt (filter (\<lambda>r. step_due now r \<and> \<not> locked (sr_id r)) rows))"

definition stamp_lease :: "string \<Rightarrow> int \<Rightarrow> saga_step \<Rightarrow> saga_step" where
  "stamp_lease workerId leaseUntil r =
     r\<lparr>sr_status := S_RUNNING, sr_lockedBy := Some workerId, sr_lockUntil := Some leaseUntil\<rparr>"

text \<open>The loop of the fairness cap; the counts per company are a list of pairs.\<close>

fun fairness_loop ::
  "int \<Rightarrow> (string \<Rightarrow> int) \<Rightarrow> saga_step list \<Rightarrow> saga_step list \<Rightarrow> saga_step list \<Rightarrow> saga_step list \<times> saga_step list"
where
  "fairness_loop cap count claimed overflow [] = (claimed, overflow)"
| "fairness_loop cap count claimed overflow (r # rs) =
     (if cap \<le> count (sr_companyId r) then fairness_loop cap count claimed (overflow @ [r]) rs
      else fairness_loop cap (count(sr_companyId r := count (sr_companyId r) + 1)) (claimed @ [r]) overflow rs)"

definition applyFairnessCap :: "saga_step list \<Rightarrow> int \<Rightarrow> saga_step list \<times> saga_step list" where
  "applyFairnessCap rows cap = (if cap \<le> 0 then (rows, []) else fairness_loop cap (\<lambda>_. 0) [] [] rows)"

definition saga_claimBatch ::
  "saga_call \<Rightarrow> string \<Rightarrow> (string \<Rightarrow> bool) \<Rightarrow> saga_step list \<Rightarrow> saga_step list \<times> saga_step list" where
  "saga_claimBatch e workerId locked rows =
     (let cfg = sc_config e; now = sc_now e; leaseUntil = now + sc_workerLeaseSeconds cfg * 1000;
          ids = map sr_id (step_selection now (sc_claimBatchSize cfg) locked rows);
          hit = (\<lambda>r. sr_id r \<in> set ids);
          rows1 = map_where hit (stamp_lease workerId leaseUntil) rows;
          returned = sc_returning e (filter hit rows1);
          (claimed, overflow) = applyFairnessCap returned (sc_fairnessCap cfg);
          rows2 = (if overflow = [] then rows1
                   else snd (update_many (\<lambda>r. sr_id r \<in> set (map sr_id overflow))
                     (\<lambda>r. r\<lparr>sr_status := S_PENDING, sr_lockedBy := None, sr_lockUntil := None\<rparr>) rows1))
      in (claimed, rows2))"

definition step_markDone :: "saga_call \<Rightarrow> string \<Rightarrow> fields option \<Rightarrow> saga_step list \<Rightarrow> saga_step list" where
  "step_markDone e i output rows =
     snd (update_many (\<lambda>r. sr_id r = i \<and> sr_status r = S_RUNNING)
       (\<lambda>r. r\<lparr>sr_status := S_DONE,
          sr_output := coalesce_opt (map_option (stored_fields (sc_host e)) output) (sr_output r),
          sr_lockedBy := None, sr_lockUntil := None\<rparr>) rows)"

definition step_markSkipped :: "string \<Rightarrow> saga_step list \<Rightarrow> saga_step list" where
  "step_markSkipped i rows =
     snd (update_many (\<lambda>r. sr_id r = i \<and> sr_status r \<in> {S_PENDING, S_RUNNING})
       (\<lambda>r. r\<lparr>sr_status := S_SKIPPED, sr_lockedBy := None, sr_lockUntil := None\<rparr>) rows)"

definition step_markFailed :: "string \<Rightarrow> string \<Rightarrow> saga_step list \<Rightarrow> saga_step list" where
  "step_markFailed i err rows =
     snd (update_many (\<lambda>r. sr_id r = i \<and> sr_status r = S_RUNNING)
       (\<lambda>r. r\<lparr>sr_status := S_FAILED, sr_error := Some err, sr_lockedBy := None, sr_lockUntil := None\<rparr>) rows)"

definition step_reschedule :: "string \<Rightarrow> int \<Rightarrow> int \<Rightarrow> string option \<Rightarrow> saga_step list \<Rightarrow> saga_step list" where
  "step_reschedule i attempt runAt err rows =
     snd (update_many (\<lambda>r. sr_id r = i)
       (\<lambda>r. r\<lparr>sr_status := S_PENDING, sr_attempt := attempt, sr_runAt := runAt, sr_error := err,
          sr_lockedBy := None, sr_lockUntil := None\<rparr>) rows)"

definition findExpiredWaits :: "int \<Rightarrow> nat \<Rightarrow> saga_step list \<Rightarrow> saga_step list" where
  "findExpiredWaits now limit rows =
     take limit (sort_key sr_runAt
       (filter (\<lambda>r. sr_kind r = WAIT_KIND \<and> sr_status r = S_PENDING \<and> sr_runAt r \<le> now) rows))"

definition findStaleRunning :: "int \<Rightarrow> nat \<Rightarrow> saga_step list \<Rightarrow> saga_step list" where
  "findStaleRunning now limit rows =
     take limit (sort_key (\<lambda>r. the (sr_lockUntil r))
       (filter (\<lambda>r. sr_status r = S_RUNNING \<and> (case sr_lockUntil r of None \<Rightarrow> False | Some t \<Rightarrow> t < now)) rows))"

section \<open>The saga's inbox\<close>

record insert_inbox =
  ix_tenantId :: string
  ix_companyId :: string
  ix_consumer :: string
  ix_eventId :: string
  ix_eventName :: string
  ix_eventVersion :: int
  ix_correlationKey :: "string option"
  ix_instanceId :: "string option"
  ix_payload :: fields

definition inbox_row :: "saga_call \<Rightarrow> string \<Rightarrow> insert_inbox \<Rightarrow> saga_inbox" where
  "inbox_row e i input = \<lparr>sx_id = i, sx_tenantId = ix_tenantId input, sx_companyId = ix_companyId input,
     sx_consumer = ix_consumer input, sx_eventId = ix_eventId input, sx_eventName = ix_eventName input,
     sx_eventVersion = ix_eventVersion input, sx_correlationKey = ix_correlationKey input,
     sx_instanceId = ix_instanceId input, sx_payload = stored_fields (sc_host e) (ix_payload input),
     sx_status = X_RECEIVED, sx_reason = None, sx_receivedAt = sc_now e, sx_processedAt = None\<rparr>"

definition saga_tryInsert :: "saga_call \<Rightarrow> insert_inbox \<Rightarrow> (saga_inbox option, 'a saga_db_scheme) io" where
  "saga_tryInsert e input =
     io_then (saga_uuid e) (\<lambda>i.
     io_then (io_read (\<lambda>db. \<exists>r \<in> set (sg_inbox db). sx_tenantId r = ix_tenantId input \<and>
         sx_companyId r = ix_companyId input \<and> sx_consumer r = ix_consumer input \<and> sx_eventId r = ix_eventId input))
       (\<lambda>dup. if dup then io_return None
          else io_then (io_write (\<lambda>db. db\<lparr>sg_inbox := insert_row (inbox_row e i input) (sg_inbox db)\<rparr>))
                 (\<lambda>_. io_return (Some (inbox_row e i input)))))"

definition markBuffered :: "string \<Rightarrow> string option \<Rightarrow> string option \<Rightarrow> saga_inbox list \<Rightarrow> saga_inbox list" where
  "markBuffered i correlationKey instanceId rows =
     snd (update_many (\<lambda>r. sx_id r = i)
       (\<lambda>r. r\<lparr>sx_status := X_BUFFERED, sx_correlationKey := correlationKey, sx_instanceId := instanceId\<rparr>) rows)"

definition markConsumed :: "int \<Rightarrow> string \<Rightarrow> saga_inbox list \<Rightarrow> saga_inbox list" where
  "markConsumed now i rows =
     snd (update_many (\<lambda>r. sx_id r = i) (\<lambda>r. r\<lparr>sx_status := X_CONSUMED, sx_processedAt := Some now\<rparr>) rows)"

definition markIgnored :: "int \<Rightarrow> string \<Rightarrow> string \<Rightarrow> saga_inbox list \<Rightarrow> saga_inbox list" where
  "markIgnored now i reason rows =
     snd (update_many (\<lambda>r. sx_id r = i)
       (\<lambda>r. r\<lparr>sx_status := X_IGNORED, sx_reason := Some reason, sx_processedAt := Some now\<rparr>) rows)"

definition listBuffered :: "string \<Rightarrow> string \<Rightarrow> int \<Rightarrow> nat \<Rightarrow> saga_inbox list \<Rightarrow> saga_inbox list" where
  "listBuffered instanceId eventName eventVersion limit rows =
     take limit (sort_key sx_receivedAt
       (filter (\<lambda>r. sx_instanceId r = Some instanceId \<and> sx_eventName r = eventName \<and>
          sx_eventVersion r = eventVersion \<and> sx_status r = X_BUFFERED) rows))"

definition purgeOlderThan :: "int \<Rightarrow> int \<Rightarrow> saga_inbox list \<Rightarrow> nat \<times> saga_inbox list" where
  "purgeOlderThan now days rows = delete_many (\<lambda>r. sx_receivedAt r < now - days * 24 * 60 * 60 * 1000) rows"

end
