(* ===== verification/Saga_Engine.thy ===== *)
theory Saga_Engine
  imports Saga_Store
begin

text \<open>
  The state machine of a saga instance (\<open>saga/application/saga-engine.ts\<close>): walking the frozen plan,
  the worker's hooks, the timeout hook, cancellation, buffering of events and compensation. Each
  function is the method of the same name, with the statements in the order of the source. In
error texts a dash stands for the source's long dash.
\<close>

section \<open>Scopes and inputs\<close>

definition live_terminal :: "saga_instance_status \<Rightarrow> bool" where
  "live_terminal s \<longleftrightarrow> s \<in> {I_COMPLETED, I_COMPENSATED, I_CANCELLED, I_FAILED_MANUAL}"

definition step_entry :: "saga_step_status \<Rightarrow> fields \<Rightarrow> sval" where
  "step_entry status output = VObj [(''status'', VStr (step_status_name status)), (''output'', VObj output)]"

definition scope_steps :: "saga_step list \<Rightarrow> fields" where
  "scope_steps rows =
     fold (\<lambda>r fs. set_field (sr_stepId r) (step_entry (sr_status r) (coalesce (sr_output r) [])) fs) rows []"

text \<open>\<open>x ?? {}\<close> for a field of the context, and the entries of an object for a spread.\<close>

definition field_or_empty :: "string \<Rightarrow> fields \<Rightarrow> sval" where
  "field_or_empty k fs =
     (case map_of fs k of None \<Rightarrow> VObj [] | Some v \<Rightarrow> if is_nullish v then VObj [] else v)"

definition entries :: "sval \<Rightarrow> fields" where
  "entries v = (case v of VObj fs \<Rightarrow> fs | _ \<Rightarrow> [])"

definition saga_scope :: "saga_instance \<Rightarrow> fields \<Rightarrow> fields" where
  "saga_scope inst steps =
     (let key = VStr (si_correlationKey inst)
      in [(''event'', field_or_empty ''event'' (si_context inst)),
          (''saga'', VObj (spread_fields (entries (field_or_empty ''start'' (si_context inst)))
             [(''key'', key), (''correlationKey'', key)])),
          (''company'', VObj [(''settings'', field_or_empty ''settings'' (si_context inst))]),
          (''steps'', VObj steps)])"

fun resolve_fields :: "host \<Rightarrow> fields \<Rightarrow> (string \<times> string) list \<Rightarrow> fields \<Rightarrow> fields result" where
  "resolve_fields h scope [] acc = Inr acc"
| "resolve_fields h scope ((k, ex) # fs) acc =
     and_then (evaluateExpression h ex scope) (\<lambda>v. resolve_fields h scope fs (set_field k v acc))"

definition buildInput :: "host \<Rightarrow> saga_plan_step \<Rightarrow> fields \<Rightarrow> fields option result" where
  "buildInput h step scope =
     (case pl_input step of
        None \<Rightarrow> Inr None
      | Some mapping \<Rightarrow> and_then (resolve_fields h scope mapping []) (\<lambda>fs. Inr (Some fs)))"

text \<open>\<open>new Date(now + ms)\<close>; the database driver refuses an invalid date.\<close>

definition date_plus :: "int \<Rightarrow> number \<Rightarrow> int result" where
  "date_plus now ms =
     (case js_add (N now) ms of
        Fin t \<Rightarrow> if \<bar>t\<bar> \<le> 8640000000000000 then Inr (if 0 \<le> t then \<lfloor>t\<rfloor> else \<lceil>t\<rceil>)
                  else throw_plain ''Provided Date object is invalid''
      | _ \<Rightarrow> throw_plain ''Provided Date object is invalid'')"

definition wait_timeout :: "saga_call \<Rightarrow> saga_plan_step \<Rightarrow> int result" where
  "wait_timeout e step =
     (if truthy (pl_timeout step)
      then and_then (parseDuration (the (pl_timeout step))) (date_plus (sc_now e))
      else Inr (sc_now e + sc_workerLeaseSeconds (sc_config e) * 1000))"

definition waiting_key :: "saga_plan_step \<Rightarrow> string" where
  "waiting_key step =
     (case pl_waitFor step of None \<Rightarrow> ''undefined@undefined'' | Some r \<Rightarrow> event_key (er_name r) (er_version r))"

text \<open>The first two fields of an inserted step row, and what most of them share.\<close>

definition step_input :: "saga_instance \<Rightarrow> saga_plan_step \<Rightarrow> saga_kind \<Rightarrow> string option \<Rightarrow> saga_step_status \<Rightarrow>
    int \<Rightarrow> fields option \<Rightarrow> fields option \<Rightarrow> insert_step" where
  "step_input inst step kind action status runAt input output =
     \<lparr>is_tenantId = si_tenantId inst, is_companyId = si_companyId inst, is_instanceId = si_id inst,
      is_stepId = pl_id step, is_kind = kind, is_action = action, is_status = status,
      is_maxAttempts = pl_maxAttempts step, is_runAt = runAt, is_input = input, is_output = output\<rparr>"

section \<open>Internals\<close>

definition recordBypass :: "saga_call \<Rightarrow> saga_instance \<Rightarrow> saga_plan_step \<Rightarrow> (saga_step, 'a saga_db_scheme) io" where
  "recordBypass e inst step =
     createIfAbsent e (step_input inst step (if pl_kind step = WAIT_KIND then WAIT_KIND else DO_KIND)
       (pl_action step) S_SKIPPED (sc_now e) None None)"

text \<open>Does a buffered event answer the wait?\<close>

definition event_matches :: "host \<Rightarrow> saga_instance \<Rightarrow> saga_plan_step \<Rightarrow> fields \<Rightarrow> saga_inbox \<Rightarrow> bool result" where
  "event_matches h inst step scope row =
     (let eventScope = spread_fields scope [(''event'', VObj (sx_payload row))]
      in and_then (if truthy (pl_match step)
                   then and_then (renderTemplate h (the (pl_match step)) eventScope) (\<lambda>s. Inr (s = si_correlationKey inst))
                   else Inr True) (\<lambda>matches.
         if \<not> matches then Inr False
         else if truthy (pl_when step) then evaluateCondition h (pl_when step) eventScope
         else Inr True))"

fun consume_loop :: "saga_call \<Rightarrow> saga_instance \<Rightarrow> saga_plan_step \<Rightarrow> fields \<Rightarrow> saga_inbox list \<Rightarrow>
    (string option, 'a saga_db_scheme) io" where
  "consume_loop e inst step scope [] = io_return None"
| "consume_loop e inst step scope (row # rows) =
     io_then (io_lift (event_matches (sc_host e) inst step scope row)) (\<lambda>matches.
       if \<not> matches then consume_loop e inst step scope rows
       else io_then (createIfAbsent e (step_input inst step WAIT_KIND None S_DONE (sc_now e) None
                       (Some [(''eventId'', VStr (sx_eventId row))]))) (\<lambda>_.
            io_then (io_write (\<lambda>db. db\<lparr>sg_inbox := markConsumed (sc_now e) (sx_id row) (sg_inbox db)\<rparr>)) (\<lambda>_.
            io_return (Some (sx_eventId row)))))"

definition consumeWait :: "saga_call \<Rightarrow> saga_instance \<Rightarrow> saga_plan_step \<Rightarrow> fields \<Rightarrow>
    (string option, 'a saga_db_scheme) io" where
  "consumeWait e inst step scope =
     (case pl_waitFor step of
        None \<Rightarrow> io_return None
      | Some r \<Rightarrow>
          io_then (io_read (\<lambda>db. listBuffered (si_id inst) (er_name r) (er_version r) 50 (sg_inbox db)))
            (consume_loop e inst step scope))"

definition saga_emitted :: "saga_call \<Rightarrow> saga_instance \<Rightarrow> string \<Rightarrow> string \<Rightarrow> outbox_event" where
  "saga_emitted e inst eventId emit =
     \<lparr>ev_eventId = eventId, ev_name = ''SagaEmittedEvent'',
      ev_fields = [(''eventName'', JStr emit), (''detail'', JObj [(''sagaKey'', JStr (si_sagaKey inst)),
        (''instanceId'', JStr (si_id inst)), (''correlationKey'', JStr (si_correlationKey inst))])],
      ev_occurredAt = sc_now e, ev_version = 1, ev_correlationId = None, ev_causationId = None, ev_headers = []\<rparr>"

definition saga_complete :: "saga_call \<Rightarrow> saga_instance \<Rightarrow> nat \<Rightarrow> (saga_instance option, 'a saga_db_scheme) io" where
  "saga_complete e inst cursor =
     io_then (updateCas e (si_id inst) (si_version inst)
        (no_patch\<lparr>ip_status := Some I_COMPLETED, ip_cursor := Some cursor, ip_waitingEvent := Some None\<rparr>)) (\<lambda>updated.
     case (updated, sp_onComplete (si_plan inst)) of
       (Some _, Some emit) \<Rightarrow>
         io_then (saga_uuid e) (\<lambda>eventId. io_then (saga_uuid e) (\<lambda>rowId.
         io_then (io_write (\<lambda>db. db\<lparr>pf_outbox := append_outbox_event (sc_now e) rowId (sc_ctx e)
            (saga_emitted e inst eventId emit) ''Saga'' (si_id inst) None (pf_outbox db)\<rparr>)) (\<lambda>_.
         io_return updated)))
     | _ \<Rightarrow> io_return updated)"

section \<open>Advance\<close>

text \<open>
  The loop of \<open>advance\<close> over the steps from the cursor on. \<open>scopeSteps\<close> is \<open>scope.steps\<close>, the
  only part of the scope that the loop changes.
\<close>

fun advance_loop :: "saga_call \<Rightarrow> saga_instance \<Rightarrow> fields \<Rightarrow> nat \<Rightarrow> saga_plan_step list \<Rightarrow>
    (saga_instance option, 'a saga_db_scheme) io" where
  "advance_loop e inst scopeSteps cursor [] = saga_complete e inst cursor"
| "advance_loop e inst scopeSteps cursor (step # rest) =
     io_then (io_lift (if truthy (pl_if step)
                       then evaluateCondition (sc_host e) (pl_if step) (saga_scope inst scopeSteps)
                       else Inr True)) (\<lambda>relevant.
     if \<not> relevant then
       io_then (recordBypass e inst step) (\<lambda>_. advance_loop e inst scopeSteps (cursor + 1) rest)
     else if pl_kind step = WAIT_KIND then
       io_then (consumeWait e inst step (saga_scope inst scopeSteps)) (\<lambda>consumed.
       case consumed of
         Some eventId \<Rightarrow>
           advance_loop e inst
             (set_field (pl_id step) (step_entry S_DONE [(''eventId'', VStr eventId)]) scopeSteps) (cursor + 1) rest
       | None \<Rightarrow>
           io_then (io_lift (wait_timeout e step)) (\<lambda>runAt.
           io_then (createIfAbsent e (step_input inst step WAIT_KIND None S_PENDING runAt None None)) (\<lambda>_.
           updateCas e (si_id inst) (si_version inst)
             (no_patch\<lparr>ip_cursor := Some cursor, ip_status := Some I_WAITING,
                ip_waitingEvent := Some (Some (waiting_key step))\<rparr>))))
     else
       io_then (io_lift (buildInput (sc_host e) step (saga_scope inst scopeSteps))) (\<lambda>input.
       io_then (createIfAbsent e (step_input inst step DO_KIND (pl_action step) S_PENDING (sc_now e) input None))
         (\<lambda>created.
         if sr_status created = S_DONE then
           advance_loop e inst
             (set_field (pl_id step) (step_entry S_DONE (coalesce (sr_output created) [])) scopeSteps) (cursor + 1) rest
         else if sr_status created = S_SKIPPED then advance_loop e inst scopeSteps (cursor + 1) rest
         else updateCas e (si_id inst) (si_version inst)
             (no_patch\<lparr>ip_cursor := Some cursor, ip_status := Some I_RUNNING, ip_waitingEvent := Some None\<rparr>))))"

definition load_instance :: "string \<Rightarrow> (saga_instance option, 'a saga_db_scheme) io" where
  "load_instance i = io_read (\<lambda>db. instance_findById i (sg_instances db))"

definition load_steps :: "saga_instance \<Rightarrow> (saga_step list, 'a saga_db_scheme) io" where
  "load_steps inst = io_read (\<lambda>db. findByInstance (si_id inst) (sg_steps db))"

definition advance :: "saga_call \<Rightarrow> string \<Rightarrow> (saga_instance option, 'a saga_db_scheme) io" where
  "advance e instanceId =
     io_then (load_instance instanceId) (\<lambda>found.
     case found of
       None \<Rightarrow> io_return None
     | Some inst \<Rightarrow>
         if live_terminal (si_status inst) \<or> si_status inst = I_COMPENSATING then io_return (Some inst)
         else io_then (load_steps inst) (\<lambda>rows.
           advance_loop e inst (scope_steps rows) (si_cursor inst)
             (drop (si_cursor inst) (sp_steps (si_plan inst)))))"

definition createAndAdvance :: "saga_call \<Rightarrow> insert_instance \<Rightarrow> (saga_instance option, 'a saga_db_scheme) io" where
  "createAndAdvance e input =
     io_then (tryInsertLive e input) (\<lambda>inst.
     case inst of None \<Rightarrow> io_return None | Some r \<Rightarrow> advance e (si_id r))"

section \<open>Compensation\<close>

text \<open>\<open>findIndex\<close>, used for a step by its id and for the first pivot.\<close>

fun find_index :: "('a \<Rightarrow> bool) \<Rightarrow> 'a list \<Rightarrow> nat option" where
  "find_index p [] = None"
| "find_index p (x # xs) = (if p x then Some 0 else map_option Suc (find_index p xs))"

definition step_index :: "saga_instance \<Rightarrow> string \<Rightarrow> nat option" where
  "step_index inst stepId = find_index (\<lambda>s. pl_id s = stepId) (sp_steps (si_plan inst))"

definition completed_do :: "saga_step list \<Rightarrow> saga_plan_step \<Rightarrow> saga_step option" where
  "completed_do rows step =
     (if pl_kind step \<noteq> DO_KIND then None
      else case List.find (\<lambda>r. sr_stepId r = pl_id step \<and> sr_kind r = DO_KIND) rows of
             None \<Rightarrow> None
           | Some r \<Rightarrow> if sr_status r = S_DONE then Some r else None)"

fun compensate_loop :: "saga_call \<Rightarrow> saga_instance \<Rightarrow> saga_reason \<Rightarrow> string \<Rightarrow> saga_step list \<Rightarrow> fields \<Rightarrow>
    saga_plan_step list \<Rightarrow> (saga_instance option, 'a saga_db_scheme) io" where
  "compensate_loop e inst reason err rows scope [] =
     updateCas e (si_id inst) (si_version inst)
       (no_patch\<lparr>ip_status := Some I_COMPENSATING, ip_reason := Some (Some reason), ip_error := Some (Some err),
          ip_waitingEvent := Some None\<rparr>)"
| "compensate_loop e inst reason err rows scope (step # steps) =
     (case completed_do rows step of
        None \<Rightarrow> compensate_loop e inst reason err rows scope steps
      | Some row \<Rightarrow>
          if \<not> truthy (pl_undo step) then
            updateCas e (si_id inst) (si_version inst)
              (no_patch\<lparr>ip_status := Some I_FAILED_MANUAL, ip_reason := Some (Some reason),
                 ip_error := Some (Some (''Step '' @ in_quotes (pl_id step) @
                   '' completed with no undo (and is not a pivot) - manual reversal required''))\<rparr>)
          else
            io_then (io_lift (buildInput (sc_host e) step scope)) (\<lambda>input.
            io_then (createIfAbsent e (step_input inst step UNDO_KIND (pl_undo step) S_PENDING (sc_now e)
                (Some (spread_fields (coalesce (sr_output row) []) (coalesce input []))) None)) (\<lambda>_.
            compensate_loop e inst reason err rows scope steps)))"

definition past_pivot :: "saga_instance \<Rightarrow> nat \<Rightarrow> bool" where
  "past_pivot inst failedIndex \<longleftrightarrow>
     (case find_index pl_pivot (sp_steps (si_plan inst)) of None \<Rightarrow> False | Some p \<Rightarrow> p < failedIndex)"

definition startCompensation :: "saga_call \<Rightarrow> saga_instance \<Rightarrow> nat \<Rightarrow> saga_reason \<Rightarrow> string \<Rightarrow>
    (saga_instance option, 'a saga_db_scheme) io" where
  "startCompensation e inst failedIndex reason err =
     (if past_pivot inst failedIndex then
        updateCas e (si_id inst) (si_version inst)
          (no_patch\<lparr>ip_status := Some I_FAILED_MANUAL, ip_reason := Some (Some reason),
             ip_error := Some (Some (err @ '' - past the pivot step, no compensation possible''))\<rparr>)
      else io_then (load_steps inst) (\<lambda>rows.
        compensate_loop e inst reason err rows (saga_scope inst (scope_steps rows))
          (rev (take failedIndex (sp_steps (si_plan inst))))))"

section \<open>The hooks\<close>

text \<open>Load an instance; go on unless it is missing or in one of the excluded states.\<close>

definition with_instance :: "string \<Rightarrow> (saga_instance \<Rightarrow> bool) \<Rightarrow> (saga_instance \<Rightarrow> (unit, 'a saga_db_scheme) io) \<Rightarrow>
    (unit, 'a saga_db_scheme) io" where
  "with_instance i stop k =
     io_then (load_instance i) (\<lambda>found.
     case found of None \<Rightarrow> io_return () | Some inst \<Rightarrow> if stop inst then io_return () else k inst)"

definition io_void :: "('x, 'd) io \<Rightarrow> (unit, 'd) io" where
  "io_void m = io_then m (\<lambda>_. io_return ())"

definition onDoSucceeded :: "saga_call \<Rightarrow> string \<Rightarrow> string \<Rightarrow> (unit, 'a saga_db_scheme) io" where
  "onDoSucceeded e instanceId stepId =
     with_instance instanceId (\<lambda>i. live_terminal (si_status i)) (\<lambda>inst.
     case step_index inst stepId of
       None \<Rightarrow> io_return ()
     | Some index \<Rightarrow>
         io_then (updateCas e (si_id inst) (si_version inst) (no_patch\<lparr>ip_cursor := Some (index + 1)\<rparr>))
           (\<lambda>_. io_void (advance e (si_id inst))))"

definition onDoFailed :: "saga_call \<Rightarrow> string \<Rightarrow> string \<Rightarrow> string \<Rightarrow> (unit, 'a saga_db_scheme) io" where
  "onDoFailed e instanceId stepId err =
     with_instance instanceId (\<lambda>i. live_terminal (si_status i)) (\<lambda>inst.
     case step_index inst stepId of
       None \<Rightarrow> io_return ()
     | Some index \<Rightarrow> io_void (startCompensation e inst index STEP_FAILED err))"

definition failedUndoError :: "saga_step list \<Rightarrow> string option" where
  "failedUndoError rows =
     Option.bind (List.find (\<lambda>r. sr_kind r = UNDO_KIND \<and> sr_status r = S_FAILED) rows) sr_error"

definition onUndoSucceeded :: "saga_call \<Rightarrow> string \<Rightarrow> (unit, 'a saga_db_scheme) io" where
  "onUndoSucceeded e instanceId =
     with_instance instanceId (\<lambda>i. si_status i \<noteq> I_COMPENSATING) (\<lambda>inst.
     io_then (load_steps inst) (\<lambda>rows.
     if list_ex (\<lambda>r. sr_kind r = UNDO_KIND \<and> sr_status r \<in> {S_PENDING, S_RUNNING}) rows then io_return ()
     else io_void (updateCas e (si_id inst) (si_version inst)
       (no_patch\<lparr>ip_status := Some I_COMPENSATED,
          ip_error := Some (coalesce_opt (failedUndoError rows) (si_error inst))\<rparr>))))"

definition onUndoFailed :: "saga_call \<Rightarrow> string \<Rightarrow> string \<Rightarrow> (unit, 'a saga_db_scheme) io" where
  "onUndoFailed e instanceId err =
     with_instance instanceId (\<lambda>i. live_terminal (si_status i)) (\<lambda>inst.
     io_void (updateCas e (si_id inst) (si_version inst)
       (no_patch\<lparr>ip_status := Some I_FAILED_MANUAL, ip_error := Some (Some err)\<rparr>)))"

definition timed_out :: "saga_step \<Rightarrow> string" where
  "timed_out row = ''WAIT step '' @ in_quotes (sr_stepId row) @ '' timed out''"

definition onWaitTimeout :: "saga_call \<Rightarrow> saga_step \<Rightarrow> (unit, 'a saga_db_scheme) io" where
  "onWaitTimeout e row =
     with_instance (sr_instanceId row) (\<lambda>i. live_terminal (si_status i)) (\<lambda>inst.
     let index = step_index inst (sr_stepId row);
         planStep = List.find (\<lambda>s. pl_id s = sr_stepId row) (sp_steps (si_plan inst))
     in io_then (io_write (\<lambda>db. db\<lparr>sg_steps := step_markFailed (sr_id row) (timed_out row) (sg_steps db)\<rparr>)) (\<lambda>_.
        if Option.bind planStep pl_onTimeout = Some T_COMPENSATE then
          io_void (startCompensation e inst (coalesce index (si_cursor inst)) TIMEOUT (timed_out row))
        else
          io_then (updateCas e (si_id inst) (si_version inst)
             (no_patch\<lparr>ip_cursor := Some (case index of None \<Rightarrow> si_cursor inst | Some k \<Rightarrow> k + 1),
                ip_waitingEvent := Some None, ip_status := Some I_RUNNING\<rparr>))
            (\<lambda>_. io_void (advance e (si_id inst)))))"

definition cancel_saga :: "saga_call \<Rightarrow> string \<Rightarrow> saga_reason \<Rightarrow> (unit, 'a saga_db_scheme) io" where
  "cancel_saga e instanceId reason =
     with_instance instanceId (\<lambda>i. live_terminal (si_status i)) (\<lambda>inst.
     io_then (load_steps inst) (\<lambda>rows.
     if \<not> list_ex (\<lambda>r. sr_kind r = DO_KIND \<and> sr_status r = S_DONE) rows then
       io_void (updateCas e (si_id inst) (si_version inst)
         (no_patch\<lparr>ip_status := Some I_CANCELLED, ip_reason := Some (Some reason)\<rparr>))
     else io_void (startCompensation e inst (si_cursor inst) reason (''Cancelled: '' @ reason_name reason))))"

definition bufferForInstance :: "saga_call \<Rightarrow> saga_instance \<Rightarrow> string \<Rightarrow> string \<Rightarrow> int \<Rightarrow> fields \<Rightarrow>
    (bool, 'a saga_db_scheme) io" where
  "bufferForInstance e inst eventId eventName eventVersion payload =
     io_then (saga_tryInsert e \<lparr>ix_tenantId = si_tenantId inst, ix_companyId = si_companyId inst,
        ix_consumer = si_sagaKey inst @ '':'' @ si_id inst, ix_eventId = eventId, ix_eventName = eventName,
        ix_eventVersion = eventVersion, ix_correlationKey = Some (si_correlationKey inst),
        ix_instanceId = Some (si_id inst), ix_payload = payload\<rparr>) (\<lambda>inserted.
     case inserted of
       None \<Rightarrow> io_return False
     | Some row \<Rightarrow>
         io_then (io_write (\<lambda>db. db\<lparr>sg_inbox :=
             markBuffered (sx_id row) (Some (si_correlationKey inst)) (Some (si_id inst)) (sg_inbox db)\<rparr>)) (\<lambda>_.
         io_then (advance e (si_id inst)) (\<lambda>_. io_return True)))"

end
