(* ===== verification/Saga_Worker.thy ===== *)
theory Saga_Worker
  imports Saga_Engine
begin

text \<open>
  What drives a saga: the step worker (\<open>saga/workers/step-worker.ts\<close>), the router that turns
  incoming events into starts, cancellations and answered waits
  (\<open>saga/application/saga-router.ts\<close>) and the scheduler with its sweeps
  (\<open>saga/saga.scheduler.ts\<close>). The actions of the business modules, the feature gate and the company
  settings are parameters.
\<close>

section \<open>Actions\<close>

record saga_action_context =
  ac_tenantId :: string
  ac_companyId :: string
  ac_sagaKey :: string
  ac_instanceId :: string
  ac_stepId :: string
  ac_idempotencyKey :: string
  ac_correlationKey :: string
  ac_input :: fields

datatype saga_outcome = O_OK | O_RETRY | O_FAIL

record saga_action_result =
  ax_outcome :: saga_outcome
  ax_output :: "fields option"
  ax_error :: "string option"

text \<open>A call of an action returns a result or throws an error with a message.\<close>

type_synonym action_run = "string + saga_action_result"

record saga_action =
  sa_name :: string
  sa_do :: "saga_action_context \<Rightarrow> action_run"
  sa_undo :: "saga_action_context \<Rightarrow> fields \<Rightarrow> action_run"

definition registry_register :: "saga_action \<Rightarrow> saga_action list \<Rightarrow> saga_action list result" where
  "registry_register a actions =
     (if \<exists>b \<in> set actions. sa_name b = sa_name a
      then throw_plain (''Duplicate saga action '' @ in_quotes (sa_name a)) else Inr (actions @ [a]))"

definition registry_new :: "saga_action list option \<Rightarrow> saga_action list result" where
  "registry_new provided = for_each (\<lambda>as a. registry_register a as) [] (coalesce provided [])"

definition registry_resolve :: "string \<Rightarrow> saga_action list \<Rightarrow> saga_action option" where
  "registry_resolve n actions = List.find (\<lambda>a. sa_name a = n) actions"

section \<open>The worker\<close>

definition saga_backoff :: "saga_config \<Rightarrow> int \<Rightarrow> int" where
  "saga_backoff cfg attempt =
     min (sc_retryBaseDelayMs cfg * 2 ^ nat (attempt - 1)) (sc_retryMaxDelayMs cfg)"

definition settleFailure :: "saga_call \<Rightarrow> saga_step \<Rightarrow> saga_instance \<Rightarrow> string \<Rightarrow> (unit, 'a saga_db_scheme) io" where
  "settleFailure e step inst err =
     (if sr_kind step = UNDO_KIND then onUndoFailed e (si_id inst) err
      else onDoFailed e (si_id inst) (sr_stepId step) err)"

definition write_steps :: "(saga_step list \<Rightarrow> saga_step list) \<Rightarrow> (unit, 'a saga_db_scheme) io" where
  "write_steps f = io_write (\<lambda>db. db\<lparr>sg_steps := f (sg_steps db)\<rparr>)"

definition fail_step :: "saga_call \<Rightarrow> saga_step \<Rightarrow> saga_instance \<Rightarrow> string \<Rightarrow> (unit, 'a saga_db_scheme) io" where
  "fail_step e step inst err =
     io_then (write_steps (step_markFailed (sr_id step) err)) (\<lambda>_. settleFailure e step inst err)"

definition saga_settle :: "saga_call \<Rightarrow> saga_step \<Rightarrow> saga_instance \<Rightarrow> saga_action_result \<Rightarrow>
    (unit, 'a saga_db_scheme) io" where
  "saga_settle e step inst result =
     (let attempt = sr_attempt step + 1
      in if ax_outcome result = O_OK then
           io_then (write_steps (step_markDone e (sr_id step) (ax_output result))) (\<lambda>_.
           if sr_kind step = UNDO_KIND then onUndoSucceeded e (si_id inst)
           else onDoSucceeded e (si_id inst) (sr_stepId step))
         else if ax_outcome result = O_RETRY \<and> attempt < sr_maxAttempts step then
           write_steps (step_reschedule (sr_id step) attempt
             (sc_now e + saga_backoff (sc_config e) attempt) (ax_error result))
         else fail_step e step inst (coalesce (ax_error result) ''Saga action failed''))"

definition action_context :: "saga_step \<Rightarrow> saga_instance \<Rightarrow> saga_action_context" where
  "action_context step inst = \<lparr>ac_tenantId = si_tenantId inst, ac_companyId = si_companyId inst,
     ac_sagaKey = si_sagaKey inst, ac_instanceId = si_id inst, ac_stepId = sr_stepId step,
     ac_idempotencyKey = sr_id step, ac_correlationKey = si_correlationKey inst,
     ac_input = coalesce (sr_input step) []\<rparr>"

definition call_action :: "saga_action \<Rightarrow> saga_step \<Rightarrow> saga_instance \<Rightarrow> saga_action_result" where
  "call_action a step inst =
     (case (if sr_kind step = UNDO_KIND
            then sa_undo a (action_context step inst) (coalesce (sr_input step) [])
            else sa_do a (action_context step inst)) of
        Inl msg \<Rightarrow> \<lparr>ax_outcome = O_RETRY, ax_output = None, ax_error = Some msg\<rparr>
      | Inr r \<Rightarrow> r)"

definition worker_run :: "saga_call \<Rightarrow> saga_action list \<Rightarrow> saga_step \<Rightarrow> saga_instance \<Rightarrow>
    (unit, 'a saga_db_scheme) io" where
  "worker_run e actions step inst =
     (case (if truthy (sr_action step) then registry_resolve (the (sr_action step)) actions else None) of
        None \<Rightarrow> fail_step e step inst
                  (''Saga action '' @ in_quotes (coalesce (sr_action step) ''(none)'') @ '' is not registered'')
      | Some a \<Rightarrow> saga_settle e step inst (call_action a step inst))"

definition in_context :: "saga_call \<Rightarrow> string \<Rightarrow> string \<Rightarrow> string option \<Rightarrow> saga_call" where
  "in_context e tenantId companyId correlation =
     e\<lparr>sc_ctx := Some (ctx_run_context (sc_ctx e) (empty_patch\<lparr>p_tenantId := Some (Some tenantId),
         p_companyId := Some (Some companyId), p_correlationId := correlation\<rparr>))\<rparr>"

definition worker_execute :: "saga_call \<Rightarrow> saga_action list \<Rightarrow> saga_step \<Rightarrow> (unit, 'a saga_db_scheme) io" where
  "worker_execute e actions step =
     io_then (load_instance (sr_instanceId step)) (\<lambda>found.
     case found of
       None \<Rightarrow> write_steps (step_markFailed (sr_id step) ''instance missing'')
     | Some inst \<Rightarrow>
         if si_status inst \<notin> {I_RUNNING, I_WAITING, I_COMPENSATING}
         then write_steps (step_markSkipped (sr_id step))
         else worker_run (in_context e (si_tenantId inst) (si_companyId inst) (Some (si_id inst))) actions step inst)"

definition claim_steps :: "saga_call \<Rightarrow> string \<Rightarrow> (string \<Rightarrow> bool) \<Rightarrow> (saga_step list, 'a saga_db_scheme) io" where
  "claim_steps e workerId locked =
     io_then (io_read (\<lambda>db. saga_claimBatch e workerId locked (sg_steps db))) (\<lambda>(claimed, rows).
     io_then (io_write (\<lambda>db. db\<lparr>sg_steps := rows\<rparr>)) (\<lambda>_. io_return claimed))"

definition runBatch :: "saga_call \<Rightarrow> string \<Rightarrow> (string \<Rightarrow> bool) \<Rightarrow> saga_action list \<Rightarrow> (nat, 'a saga_db_scheme) io" where
  "runBatch e workerId locked actions =
     io_then (claim_steps e workerId locked) (\<lambda>claimed.
     io_then (io_for (worker_execute e actions) claimed) (\<lambda>_. io_return (length claimed)))"

section \<open>The scheduler\<close>

definition SWEEP_BATCH :: nat where "SWEEP_BATCH = 200"

definition STALE_LEASE_ERROR :: string where
  "STALE_LEASE_ERROR = ''lease expired before the step settled''"

definition expireWaitSteps :: "saga_call \<Rightarrow> (unit, 'a saga_db_scheme) io" where
  "expireWaitSteps e =
     io_then (io_read (\<lambda>db. findExpiredWaits (sc_now e) SWEEP_BATCH (sg_steps db))) (io_for (onWaitTimeout e))"

definition releaseStaleLeases :: "saga_call \<Rightarrow> (unit, 'a saga_db_scheme) io" where
  "releaseStaleLeases e =
     io_then (io_read (\<lambda>db. findStaleRunning (sc_now e) SWEEP_BATCH (sg_steps db)))
       (io_for (\<lambda>step. write_steps (step_reschedule (sr_id step) (sr_attempt step) (sc_now e) (Some STALE_LEASE_ERROR))))"

text \<open>A tick logs an error and ends; what it wrote before stays.\<close>

definition tick :: "saga_call \<Rightarrow> string \<Rightarrow> (string \<Rightarrow> bool) \<Rightarrow> saga_action list \<Rightarrow> 'a saga_db_scheme \<Rightarrow> 'a saga_db_scheme" where
  "tick e workerId locked actions db =
     snd (io_then (runBatch e workerId locked actions) (\<lambda>_.
          io_then (expireWaitSteps e) (\<lambda>_. releaseStaleLeases e)) db)"

definition cleanupInbox :: "saga_call \<Rightarrow> 'a saga_db_scheme \<Rightarrow> 'a saga_db_scheme" where
  "cleanupInbox e db =
     db\<lparr>sg_inbox := snd (purgeOlderThan (sc_now e) (sc_inboxRetentionDays (sc_config e)) (sg_inbox db))\<rparr>"

section \<open>The router\<close>

text \<open>The canonical envelope as a consumer receives it.\<close>

record saga_envelope =
  sv_eventId :: string
  sv_eventType :: string
  sv_eventVersion :: "int option"
  sv_tenantId :: "string option"
  sv_companyId :: "string option"
  sv_aggregateType :: string
  sv_payload :: fields
  sv_correlationId :: "string option"
  sv_causationId :: "string option"

record saga_trigger =
  tg_eventId :: string
  tg_eventName :: string
  tg_eventVersion :: int
  tg_tenantId :: string
  tg_companyId :: string
  tg_correlationId :: "string option"
  tg_causationId :: "string option"
  tg_payload :: fields

record saga_ports =
  gp_features :: "string \<Rightarrow> string list result"
  gp_settings :: "string \<Rightarrow> fields result"

text \<open>The defaults until other providers are wired.\<close>

definition empty_ports :: saga_ports where
  "empty_ports = \<lparr>gp_features = (\<lambda>_. Inr []), gp_settings = (\<lambda>_. Inr [])\<rparr>"

definition trigger_scope :: "saga_trigger \<Rightarrow> fields \<Rightarrow> fields" where
  "trigger_scope event settings = [(''event'', VObj (tg_payload event)), (''saga'', VObj []),
     (''company'', VObj [(''settings'', VObj settings)]), (''steps'', VObj [])]"

definition mapContext :: "host \<Rightarrow> (string \<times> string) list option \<Rightarrow> fields \<Rightarrow> fields result" where
  "mapContext h mapping scope = (case mapping of None \<Rightarrow> Inr [] | Some fs \<Rightarrow> resolve_fields h scope fs [])"

definition tryStart :: "saga_call \<Rightarrow> saga_ports \<Rightarrow> saga_definition \<Rightarrow> saga_trigger \<Rightarrow> (unit, 'a saga_db_scheme) io" where
  "tryStart e ports definition event =
     (let body = df_definition definition; spec = sd_start body; h = sc_host e
      in case (gp_features ports (tg_companyId event), gp_settings ports (tg_companyId event)) of
           (Inr features, Inr settings) \<Rightarrow>
             (let scope = trigger_scope event settings
              in io_then (io_lift (if truthy (ss_when spec) then evaluateCondition h (ss_when spec) scope else Inr True)) (\<lambda>wanted.
                 if \<not> wanted then io_return ()
                 else io_then (io_read (\<lambda>db. map_option cf_overlay
                        (findActiveConfig (tg_tenantId event) (tg_companyId event) (df_sagaKey definition) (sg_configs db)))) (\<lambda>overlay.
                 case plan_build body overlay features (sc_defaultMaxAttempts (sc_config e)) of
                   None \<Rightarrow> io_return ()
                 | Some plan \<Rightarrow>
                     io_then (io_lift (renderTemplate h (ss_key spec) scope)) (\<lambda>correlationKey.
                     io_then (io_lift (mapContext h (ss_context spec) scope)) (\<lambda>start.
                     io_void (createAndAdvance e
                       \<lparr>in_tenantId = tg_tenantId event, in_companyId = tg_companyId event,
                        in_sagaKey = df_sagaKey definition, in_definitionId = df_id definition, in_configId = None,
                        in_rootRefType = None, in_rootRefId = None, in_correlationKey = correlationKey, in_plan = plan,
                        in_context = [(''settings'', VObj settings), (''event'', VObj (tg_payload event)), (''start'', VObj start)],
                        in_deadlineAt = None\<rparr>))))))
         | _ \<Rightarrow> io_return ())"

definition findTarget :: "string \<Rightarrow> string \<Rightarrow> (saga_instance option, 'a saga_db_scheme) io" where
  "findTarget sagaKey correlationKey =
     io_read (\<lambda>db. case findLiveByKey sagaKey correlationKey (sg_instances db) of [] \<Rightarrow> None | r # _ \<Rightarrow> Some r)"

definition same_event :: "saga_event_ref \<Rightarrow> saga_trigger \<Rightarrow> bool" where
  "same_event ref event \<longleftrightarrow> er_name ref = tg_eventName event \<and> er_version ref = tg_eventVersion event"

definition isCancelEvent :: "saga_definition \<Rightarrow> saga_trigger \<Rightarrow> bool" where
  "isCancelEvent definition event =
     (case sd_cancelOn (df_definition definition) of None \<Rightarrow> False | Some refs \<Rightarrow> list_ex (\<lambda>r. same_event r event) refs)"

definition event_scope :: "saga_trigger \<Rightarrow> fields" where
  "event_scope event = [(''event'', VObj (tg_payload event))]"

definition routeCancel :: "saga_call \<Rightarrow> saga_definition \<Rightarrow> saga_trigger \<Rightarrow> (unit, 'a saga_db_scheme) io" where
  "routeCancel e definition event =
     io_then (io_lift (renderTemplate (sc_host e) (ss_key (sd_start (df_definition definition))) (event_scope event))) (\<lambda>key.
     io_then (findTarget (df_sagaKey definition) key) (\<lambda>target.
     case target of None \<Rightarrow> io_return () | Some inst \<Rightarrow> cancel_saga e (si_id inst) CANCELLED_BY_EVENT))"

text \<open>\<open>targets.set(id, instance)\<close> on a map that remembers the order of insertion.\<close>

definition add_target :: "saga_instance \<Rightarrow> saga_instance list \<Rightarrow> saga_instance list" where
  "add_target inst targets =
     (if \<exists>t \<in> set targets. si_id t = si_id inst then map_where (\<lambda>t. si_id t = si_id inst) (\<lambda>_. inst) targets
      else targets @ [inst])"

fun matched_targets :: "saga_call \<Rightarrow> saga_definition \<Rightarrow> saga_trigger \<Rightarrow> saga_step_spec list \<Rightarrow> saga_instance list \<Rightarrow>
    (saga_instance list, 'a saga_db_scheme) io" where
  "matched_targets e definition event [] targets = io_return targets"
| "matched_targets e definition event (step # steps) targets =
     (if truthy (st_match step) then
        io_then (io_lift (renderTemplate (sc_host e) (the (st_match step)) (event_scope event))) (\<lambda>key.
        io_then (findTarget (df_sagaKey definition) key) (\<lambda>target.
        matched_targets e definition event steps
          (case target of None \<Rightarrow> targets | Some inst \<Rightarrow> add_target inst targets)))
      else matched_targets e definition event steps targets)"

definition MAX_INSTANCES_PER_EVENT :: nat where "MAX_INSTANCES_PER_EVENT = 100"

definition routeWait :: "saga_call \<Rightarrow> saga_definition \<Rightarrow> saga_trigger \<Rightarrow> (unit, 'a saga_db_scheme) io" where
  "routeWait e definition event =
     (let waitSteps = filter (\<lambda>s. case st_waitFor s of None \<Rightarrow> False | Some r \<Rightarrow> same_event r event)
            (sd_steps (df_definition definition))
      in if waitSteps = [] then io_return ()
         else io_then (matched_targets e definition event waitSteps []) (\<lambda>matched.
              io_then (io_read (\<lambda>db. findWaitingByEvent (tg_eventName event) (tg_eventVersion event)
                  MAX_INSTANCES_PER_EVENT (sg_instances db))) (\<lambda>parked.
              let targets = fold (\<lambda>inst ts. if si_sagaKey inst = df_sagaKey definition then add_target inst ts else ts)
                     parked matched
              in io_for (\<lambda>inst. io_void (bufferForInstance e inst (tg_eventId event) (tg_eventName event)
                   (tg_eventVersion event) (tg_payload event))) targets)))"

definition route_definition :: "saga_call \<Rightarrow> saga_trigger \<Rightarrow> saga_definition \<Rightarrow> (unit, 'a saga_db_scheme) io" where
  "route_definition e event definition =
     io_then (if isCancelEvent definition event then routeCancel e definition event else io_return ())
       (\<lambda>_. routeWait e definition event)"

definition route_event :: "saga_call \<Rightarrow> saga_ports \<Rightarrow> saga_trigger \<Rightarrow> (unit, 'a saga_db_scheme) io" where
  "route_event e ports event =
     io_then (io_read (\<lambda>db. findActiveByEvent (tg_eventName event) (tg_eventVersion event) (sg_definitions db))) (\<lambda>start.
     case start of
       Some definition \<Rightarrow> tryStart e ports definition event
     | None \<Rightarrow> io_then (io_read (\<lambda>db. listActive (sg_definitions db))) (io_for (route_definition e event)))"

definition saga_accept :: "saga_call \<Rightarrow> saga_ports \<Rightarrow> saga_envelope \<Rightarrow> (unit, 'a saga_db_scheme) io" where
  "saga_accept e ports env =
     (if sv_aggregateType env = ''Saga'' then io_return ()
      else if \<not> truthy (sv_tenantId env) \<or> \<not> truthy (sv_companyId env) then io_return ()
      else let event = \<lparr>tg_eventId = sv_eventId env, tg_eventName = sv_eventType env,
                 tg_eventVersion = coalesce (sv_eventVersion env) 1, tg_tenantId = the (sv_tenantId env),
                 tg_companyId = the (sv_companyId env), tg_correlationId = sv_correlationId env,
                 tg_causationId = sv_causationId env, tg_payload = sv_payload env\<rparr>
           in route_event (in_context e (tg_tenantId event) (tg_companyId event) (tg_correlationId event)) ports event)"

end
