(* ===== verification/Saga_Claim.thy ===== *)
theory Saga_Claim
  imports Saga_Worker "HOL-Library.Multiset"
begin

text \<open>
  The worker's claim: the due rows that are not locked elsewhere, at most one batch, of which each
  company keeps at most its share; what is over the share is released again at once.
\<close>

section \<open>The fairness loop\<close>

definition of_company :: "string \<Rightarrow> saga_step list \<Rightarrow> int" where
  "of_company c rows = int (length (filter (\<lambda>r. sr_companyId r = c) rows))"

lemma of_company_snoc [simp]:
  "of_company c (rows @ [r]) = of_company c rows + (if sr_companyId r = c then 1 else 0)"
  by (simp add: of_company_def)

lemma fairness_mset:
  "fairness_loop cap n claimed over rows = (c', o') \<Longrightarrow> mset c' + mset o' = mset claimed + mset over + mset rows"
  by (induction cap n claimed over rows arbitrary: c' o' rule: fairness_loop.induct) (auto split: if_splits)

lemma fairness_share:
  assumes "fairness_loop cap n claimed over rows = (c', o')"
    and "\<And>c. n c = of_company c claimed" and "\<And>c. of_company c claimed \<le> cap"
    and "\<And>r. r \<in> set over \<Longrightarrow> of_company (sr_companyId r) claimed = cap"
  shows "(\<forall>c. of_company c c' \<le> cap) \<and> (\<forall>r \<in> set o'. of_company (sr_companyId r) c' = cap)"
  using assms
proof (induction cap n claimed over rows arbitrary: c' o' rule: fairness_loop.induct)
  case (2 cap n claimed over r rs)
  show ?case
  proof (cases "cap \<le> n (sr_companyId r)")
    case True
    have "of_company (sr_companyId q) claimed = cap" if "q \<in> set (over @ [r])" for q
      using that "2.prems"(4) True "2.prems"(2,3) by (auto intro: order.antisym)
    then show ?thesis
      using "2.IH"(1) [OF True] "2.prems"(1,2,3) True by simp
  next
    case False
    have "\<forall>q \<in> set over. sr_companyId q \<noteq> sr_companyId r"
      using "2.prems"(2,4) False by fastforce
    then have "of_company (sr_companyId q) (claimed @ [r]) = cap" if "q \<in> set over" for q
      using that "2.prems"(4) by auto
    moreover have "of_company c (claimed @ [r]) \<le> cap" for c
      using "2.prems"(2,3) [of c] False by auto
    moreover have "(n(sr_companyId r := n (sr_companyId r) + 1)) c = of_company c (claimed @ [r])" for c
      using "2.prems"(2) by simp
    moreover have "fairness_loop cap (n(sr_companyId r := n (sr_companyId r) + 1)) (claimed @ [r]) over rs = (c', o')"
      using "2.prems"(1) False by simp
    ultimately show ?thesis by (intro "2.IH"(2) [OF False])
  qed
qed simp

lemma cap_mset: "applyFairnessCap rows cap = (c', o') \<Longrightarrow> mset c' + mset o' = mset rows"
  by (auto simp: applyFairnessCap_def dest: fairness_mset split: if_splits)

lemma cap_share:
  "applyFairnessCap rows cap = (c', o') \<Longrightarrow> 0 < cap \<Longrightarrow>
   (\<forall>c. of_company c c' \<le> cap) \<and> (\<forall>r \<in> set o'. of_company (sr_companyId r) c' = cap)"
  using fairness_share [of cap "\<lambda>_. 0" "[]" "[]" rows c' o'] by (simp add: applyFairnessCap_def of_company_def)

section \<open>The claim\<close>

text \<open>An update returns the rows it wrote, in an order of its own.\<close>

definition returns_rows :: "saga_call \<Rightarrow> bool" where
  "returns_rows e \<longleftrightarrow> (\<forall>rows. mset (sc_returning e rows) = mset rows)"

abbreviation lease_of :: "saga_call \<Rightarrow> int" where
  "lease_of e \<equiv> sc_now e + sc_workerLeaseSeconds (sc_config e) * 1000"

abbreviation selection_of :: "saga_call \<Rightarrow> (string \<Rightarrow> bool) \<Rightarrow> saga_step list \<Rightarrow> saga_step list" where
  "selection_of e locked rows \<equiv> step_selection (sc_now e) (sc_claimBatchSize (sc_config e)) locked rows"

definition unleased :: "saga_step \<Rightarrow> saga_step" where
  "unleased r = r\<lparr>sr_status := S_PENDING, sr_lockedBy := None, sr_lockUntil := None\<rparr>"

lemma step_selection_due:
  "r \<in> set (step_selection now n locked rows) \<Longrightarrow> r \<in> set rows \<and> step_due now r \<and> \<not> locked (sr_id r)"
  by (auto simp: step_selection_def dest: in_set_takeD)

lemma step_selection_distinct:
  assumes "distinct (map sr_id rows)"
  shows "distinct (map sr_id (step_selection now n locked rows))"
proof -
  have "distinct (map sr_id (sort_key sr_runAt (filter p rows)))" for p
    using assms by (simp add: distinct_map inj_on_def)
  then show ?thesis unfolding step_selection_def take_map [symmetric] by (rule distinct_take)
qed

lemma stamp_keeps [simp]: "sr_id (stamp_lease w t r) = sr_id r" "sr_companyId (stamp_lease w t r) = sr_companyId r"
  by (simp_all add: stamp_lease_def)

lemma filter_map_where: "(\<And>x. p (f x) = p x) \<Longrightarrow> filter p (map_where p f xs) = map f (filter p xs)"
  by (induction xs) (auto simp: map_where_def)

lemma unleased_stamp [simp]: "unleased (stamp_lease w t r) = unleased r"
  by (simp add: unleased_def stamp_lease_def)

text \<open>How the rows that a claim selects divide into those it keeps and those it releases.\<close>

lemma claim_run:
  assumes "saga_claimBatch e w locked rows = (claimed, rows')"
  obtains over where
    "applyFairnessCap (sc_returning e (map (stamp_lease w (lease_of e))
       (filter (\<lambda>r. sr_id r \<in> sr_id ` set (selection_of e locked rows)) rows))) (sc_fairnessCap (sc_config e)) = (claimed, over)"
    and "rows' = map_where (\<lambda>r. sr_id r \<in> sr_id ` set over) unleased
       (map_where (\<lambda>r. sr_id r \<in> sr_id ` set (selection_of e locked rows)) (stamp_lease w (lease_of e)) rows)"
proof -
  let ?hit = "\<lambda>r. sr_id r \<in> sr_id ` set (selection_of e locked rows)"
  let ?rows1 = "map_where ?hit (stamp_lease w (lease_of e)) rows"
  obtain c' over where cap: "applyFairnessCap (sc_returning e (filter ?hit ?rows1)) (sc_fairnessCap (sc_config e)) = (c', over)"
    by (cases "applyFairnessCap (sc_returning e (filter ?hit ?rows1)) (sc_fairnessCap (sc_config e))")
  have "claimed = c'" and r': "rows' = (if over = [] then ?rows1
      else map_where (\<lambda>r. sr_id r \<in> sr_id ` set over) unleased ?rows1)"
    using assms cap by (auto simp: saga_claimBatch_def Let_def update_many_def unleased_def [abs_def])
  moreover have "rows' = map_where (\<lambda>r. sr_id r \<in> sr_id ` set over) unleased ?rows1"
    unfolding r' by (simp add: map_where_none)
  ultimately show thesis using that cap by (simp add: filter_map_where)
qed

lemma claim_parts:
  assumes e: "returns_rows e" and claim: "saga_claimBatch e w locked rows = (claimed, rows')"
  obtains over where
    "mset claimed + mset over = mset (map (stamp_lease w (lease_of e))
       (filter (\<lambda>r. sr_id r \<in> sr_id ` set (selection_of e locked rows)) rows))"
    and "rows' = map (\<lambda>r. if sr_id r \<in> sr_id ` set over then unleased r
       else if sr_id r \<in> sr_id ` set (selection_of e locked rows) then stamp_lease w (lease_of e) r else r) rows"
    and "0 < sc_fairnessCap (sc_config e) \<longrightarrow>
       (\<forall>c. of_company c claimed \<le> sc_fairnessCap (sc_config e)) \<and>
       (\<forall>r \<in> set over. of_company (sr_companyId r) claimed = sc_fairnessCap (sc_config e))"
proof -
  let ?hit = "\<lambda>r. sr_id r \<in> sr_id ` set (selection_of e locked rows)"
  obtain over where cap: "applyFairnessCap (sc_returning e (map (stamp_lease w (lease_of e)) (filter ?hit rows)))
      (sc_fairnessCap (sc_config e)) = (claimed, over)"
    and r': "rows' = map_where (\<lambda>r. sr_id r \<in> sr_id ` set over) unleased
       (map_where ?hit (stamp_lease w (lease_of e)) rows)"
    using claim by (rule claim_run)
  have m: "mset claimed + mset over = mset (map (stamp_lease w (lease_of e)) (filter ?hit rows))"
    using cap_mset [OF cap] e by (simp add: returns_rows_def)
  then have "set over \<subseteq> set (map (stamp_lease w (lease_of e)) (filter ?hit rows))"
    by (metis set_mset_mset set_mset_union Un_upper2)
  then have "sr_id ` set over \<subseteq> sr_id ` set (selection_of e locked rows)" by auto
  then have "rows' = map (\<lambda>r. if sr_id r \<in> sr_id ` set over then unleased r
       else if ?hit r then stamp_lease w (lease_of e) r else r) rows"
    unfolding r' by (auto simp: map_where_def)
  then show thesis using that m cap_share [OF cap] by blast
qed

text \<open>The claimed and the freed rows split the selection.\<close>

lemma selection_hits:
  fixes e locked rows
  defines "sel \<equiv> selection_of e locked rows"
  assumes "distinct (map sr_id rows)"
  shows "r \<in> set rows \<Longrightarrow> sr_id r \<in> sr_id ` set sel \<longleftrightarrow> r \<in> set sel"
    and "set (filter (\<lambda>r. sr_id r \<in> sr_id ` set sel) rows) = set sel"
    and "length (filter (\<lambda>r. sr_id r \<in> sr_id ` set sel) rows) \<le> sc_claimBatchSize (sc_config e)"
proof -
  have inj: "inj_on sr_id (set rows)" using assms(2) by (simp add: distinct_map)
  have sub: "set sel \<subseteq> set rows" unfolding sel_def using step_selection_due by blast
  show hit: "sr_id r \<in> sr_id ` set sel \<longleftrightarrow> r \<in> set sel" if "r \<in> set rows" for r
    by (rule inj_on_image_mem_iff [OF inj that sub])
  show hits: "set (filter (\<lambda>r. sr_id r \<in> sr_id ` set sel) rows) = set sel" using sub hit by auto
  have "length (filter (\<lambda>r. sr_id r \<in> sr_id ` set sel) rows) = card (set sel)"
  proof -
    have "distinct (filter (\<lambda>r. sr_id r \<in> sr_id ` set sel) rows)" using assms(2) by (simp add: distinct_map)
    from distinct_card [OF this] show ?thesis by (simp only: hits)
  qed
  also have "\<dots> \<le> length sel" by (rule card_length)
  also have "\<dots> \<le> sc_claimBatchSize (sc_config e)" by (simp add: step_selection_def sel_def)
  finally show "length (filter (\<lambda>r. sr_id r \<in> sr_id ` set sel) rows) \<le> sc_claimBatchSize (sc_config e)" .
qed

lemma claim_partition:
  assumes "mset claimed + mset over = mset (map (stamp_lease w u) (filter p rows))" "distinct (map sr_id rows)"
  shows "sr_id ` set claimed \<inter> sr_id ` set over = {}" "sr_id ` set claimed \<union> sr_id ` set over = sr_id ` set (filter p rows)"
proof -
  have ids: "mset (map sr_id claimed) + mset (map sr_id over) = mset (map sr_id (filter p rows))"
    using arg_cong [OF assms(1), of "image_mset sr_id"] by (simp add: multiset.map_comp o_def)
  have "distinct (map sr_id (filter p rows))" using assms(2) by (rule distinct_map_filter)
  then have "distinct (map sr_id claimed @ map sr_id over)"
    using ids by (metis mset_append mset_eq_imp_distinct_iff)
  then show "sr_id ` set claimed \<inter> sr_id ` set over = {}" by auto
  show "sr_id ` set claimed \<union> sr_id ` set over = sr_id ` set (filter p rows)"
    using arg_cong [OF ids, of set_mset] by simp
qed

text \<open>
  C21. One claim of the worker takes at most one batch of steps and at most the fairness cap of any
  company; every step it takes was due and not locked by another transaction, and is now leased
  to this worker; a due step of the batch that it does not take belongs to a company that has its
  full share, and is pending and free again; all other rows are as before.
\<close>
theorem saga_claim_is_fair:
  assumes "returns_rows e" and "distinct (map sr_id rows)" and "0 < sc_fairnessCap (sc_config e)"
    and "saga_claimBatch e w locked rows = (claimed, rows')"
  shows "length claimed \<le> sc_claimBatchSize (sc_config e) \<and>
    (\<forall>c. of_company c claimed \<le> sc_fairnessCap (sc_config e)) \<and>
    set claimed \<subseteq> stamp_lease w (lease_of e) ` {r \<in> set rows. step_due (sc_now e) r \<and> \<not> locked (sr_id r)} \<and>
    rows' = map (\<lambda>r. if sr_id r \<in> sr_id ` set claimed then stamp_lease w (lease_of e) r
      else if r \<in> set (selection_of e locked rows) then unleased r else r) rows \<and>
    (\<forall>r \<in> set (selection_of e locked rows). sr_id r \<notin> sr_id ` set claimed \<longrightarrow>
      of_company (sr_companyId r) claimed = sc_fairnessCap (sc_config e))"
proof -
  let ?sel = "selection_of e locked rows" and ?cap = "sc_fairnessCap (sc_config e)"
  let ?hit = "\<lambda>r. sr_id r \<in> sr_id ` set ?sel"
  obtain over where m: "mset claimed + mset over = mset (map (stamp_lease w (lease_of e)) (filter ?hit rows))"
    and r': "rows' = map (\<lambda>r. if sr_id r \<in> sr_id ` set over then unleased r
       else if ?hit r then stamp_lease w (lease_of e) r else r) rows"
    and "0 < ?cap \<longrightarrow> (\<forall>c. of_company c claimed \<le> ?cap) \<and>
       (\<forall>r \<in> set over. of_company (sr_companyId r) claimed = ?cap)"
    by (rule claim_parts [OF assms(1,4)])
  then have share: "(\<forall>c. of_company c claimed \<le> ?cap) \<and>
       (\<forall>r \<in> set over. of_company (sr_companyId r) claimed = ?cap)"
    using assms(3) by simp
  note hit = selection_hits(1) [OF assms(2), where e = e and locked = locked]
  note hits = selection_hits(2) [OF assms(2), where e = e and locked = locked]
  note split = claim_partition [OF m assms(2)]
  have un: "sr_id ` set claimed \<union> sr_id ` set over = sr_id ` set ?sel" using split(2) by (simp only: hits)
  have "length claimed \<le> length (filter ?hit rows)"
    using arg_cong [OF m, of size] by (simp del: mset_filter)
  also have "\<dots> \<le> sc_claimBatchSize (sc_config e)" by (rule selection_hits(3) [OF assms(2)])
  finally have "length claimed \<le> sc_claimBatchSize (sc_config e)" .
  moreover have "set claimed \<subseteq> stamp_lease w (lease_of e) ` {r \<in> set rows. step_due (sc_now e) r \<and> \<not> locked (sr_id r)}"
  proof -
    have "set claimed \<subseteq> set (map (stamp_lease w (lease_of e)) (filter ?hit rows))"
      using arg_cong [OF m, of set_mset] by auto
    also have "\<dots> = stamp_lease w (lease_of e) ` set ?sel" by (simp only: set_map hits)
    finally show ?thesis using step_selection_due by blast
  qed
  moreover have "rows' = map (\<lambda>r. if sr_id r \<in> sr_id ` set claimed then stamp_lease w (lease_of e) r
      else if r \<in> set ?sel then unleased r else r) rows"
    unfolding r'
  proof (rule map_cong [OF refl])
    fix r assume r: "r \<in> set rows"
    have "r \<in> set ?sel \<longleftrightarrow> sr_id r \<in> sr_id ` set claimed \<or> sr_id r \<in> sr_id ` set over"
      using un hit [OF r] by (metis Un_iff)
    then show "(if sr_id r \<in> sr_id ` set over then unleased r
       else if ?hit r then stamp_lease w (lease_of e) r else r) =
      (if sr_id r \<in> sr_id ` set claimed then stamp_lease w (lease_of e) r else if r \<in> set ?sel then unleased r else r)"
      using hit [OF r] split(1) by auto
  qed
  moreover have "of_company (sr_companyId r) claimed = ?cap" if "r \<in> set ?sel" "sr_id r \<notin> sr_id ` set claimed" for r
  proof -
    have "sr_id r \<in> sr_id ` set over" using that un by (metis Un_iff imageI)
    then obtain q where q: "q \<in> set over" "sr_id q = sr_id r" by auto
    then have "q \<in> set (map (stamp_lease w (lease_of e)) (filter ?hit rows))"
      using arg_cong [OF m, of set_mset] by auto
    then obtain q0 where q0: "q = stamp_lease w (lease_of e) q0" "q0 \<in> set rows" by auto
    then have "q0 = r" using q(2) that(1) assms(2) step_selection_due by (auto simp: distinct_map dest: inj_onD)
    then show ?thesis using share q(1) q0(1) by (metis stamp_keeps(2))
  qed
  ultimately show ?thesis using share by blast
qed

end
