(* ===== verification/Saga_Evolution.thy ===== *)
theory Saga_Evolution
  imports Saga_Claim
begin

text \<open>
  How saga instances evolve. The abstract specification is a status machine, \<open>saga_next\<close>; the
  result is that whatever worker, sweeps, router and cancellations do, and in whatever order, every
  instance follows it, keeps its plan, context and identity, and a final instance is never
  touched again. Programs are classified as quiet (they do not write instances), as acting on a
  loaded instance, and as evolving the table.
\<close>

section \<open>The statements of the repositories\<close>

lemma createIfAbsent_run:
  "createIfAbsent e x db =
     (case findByInstanceStep (is_instanceId x) (is_stepId x) (is_kind x) (sg_steps db) of
        Some r \<Rightarrow> (Inr r, db)
      | None \<Rightarrow> (Inr (step_row e (sc_uuid e (pf_drawn db)) x),
          db\<lparr>pf_drawn := pf_drawn db + 1, sg_steps := sg_steps db @ [step_row e (sc_uuid e (pf_drawn db)) x]\<rparr>))"
  by (auto simp: createIfAbsent_def saga_uuid_def io_then_def insert_row_def split: option.splits)

lemma updateCas_run:
  "updateCas e i v p db =
     (let rows = map_where (si_current i v) (patched e p v) (sg_instances db)
      in (Inr (if filter (si_current i v) (sg_instances db) = [] then None else instance_findById i rows),
          db\<lparr>sg_instances := rows\<rparr>))"
  by (auto simp: updateCas_def update_many_def io_then_def Let_def)

lemma load_run [io_simps]: "load_instance i db = (Inr (instance_findById i (sg_instances db)), db)"
  by (simp add: load_instance_def)

lemma findById_facts:
  "instance_findById i rows = Some r \<Longrightarrow> r \<in> set rows \<and> si_id r = i"
  by (auto simp: instance_findById_def find_first_def dest: find_Some_iff2)

lemma findById_unique:
  "distinct (map si_id rows) \<Longrightarrow> r \<in> set rows \<Longrightarrow> instance_findById (si_id r) rows = Some r"
  by (simp add: instance_findById_def find_first_def find_distinct_key)

section \<open>Programs that do not write instances\<close>

definition quiet :: "('x, 'a saga_db_scheme) io \<Rightarrow> bool" where
  "quiet m \<longleftrightarrow> (\<forall>db. sg_instances (snd (m db)) = sg_instances db)"

interpretation quiet_rel: io_relation "\<lambda>db db'. sg_instances db' = sg_instances (db :: 'a saga_db_scheme)"
  by unfold_locales auto

lemma quiet_iff: "quiet m \<longleftrightarrow> io_rel (\<lambda>db db'. sg_instances db' = sg_instances db) m"
  by (simp add: quiet_def io_rel_def)

lemma quiet_return: "quiet (io_return x)" by (simp add: quiet_def)
lemma quiet_lift: "quiet (io_lift r)" by (simp add: quiet_def)
lemma quiet_read: "quiet (io_read f)" by (simp add: quiet_def)
lemma quiet_load: "quiet (load_instance i)" by (simp add: quiet_def load_instance_def)
lemma quiet_load_steps: "quiet (load_steps inst)" by (simp add: quiet_def load_steps_def)
lemma quiet_uuid: "quiet (saga_uuid e)" by (simp add: quiet_def saga_uuid_def)
lemma quiet_createIfAbsent: "quiet (createIfAbsent e x)" by (simp add: quiet_def createIfAbsent_run split: option.splits)
lemma quiet_recordBypass: "quiet (recordBypass e inst step)"
  unfolding recordBypass_def by (rule quiet_createIfAbsent)
lemma quiet_write_steps: "quiet (write_steps g)" by (simp add: quiet_def write_steps_def)

lemmas quiet_basic = quiet_return quiet_lift quiet_read quiet_load quiet_load_steps quiet_uuid
  quiet_createIfAbsent quiet_recordBypass quiet_write_steps

lemma quiet_write: "(\<And>db. sg_instances (g db) = sg_instances db) \<Longrightarrow> quiet (io_write g)"
  by (simp add: quiet_def)

lemma quiet_then: "quiet m \<Longrightarrow> (\<And>x. quiet (k x)) \<Longrightarrow> quiet (io_then m k)"
  unfolding quiet_iff by (rule quiet_rel.rel_then)

lemma quiet_consume_loop: "quiet (consume_loop e inst step scope rows)"
  by (induction rows)
    (auto intro!: quiet_then quiet_basic quiet_write simp del: io_run)

lemma quiet_consumeWait: "quiet (consumeWait e inst step scope)"
  by (auto simp: consumeWait_def intro!: quiet_then quiet_basic quiet_consume_loop split: option.splits)

section \<open>The status machine\<close>

fun saga_next :: "saga_instance_status \<Rightarrow> saga_instance_status set" where
  "saga_next I_RUNNING = - {I_COMPENSATED}"
| "saga_next I_WAITING = - {I_COMPENSATED}"
| "saga_next I_COMPENSATING = {I_COMPENSATING, I_RUNNING, I_COMPENSATED, I_FAILED_MANUAL, I_CANCELLED}"
| "saga_next _ = {}"

text \<open>The statuses after exactly \<open>n\<close> changes.\<close>

primrec saga_after :: "nat \<Rightarrow> saga_instance_status \<Rightarrow> saga_instance_status set" where
  "saga_after 0 s = {s}"
| "saga_after (Suc n) s = (\<Union>t \<in> saga_after n s. saga_next t)"

lemma saga_after_add: "t \<in> saga_after m s \<Longrightarrow> u \<in> saga_after n t \<Longrightarrow> u \<in> saga_after (m + n) s"
  by (induction n arbitrary: u) auto

lemma terminal_next [simp]: "live_terminal s \<Longrightarrow> saga_next s = {}"
  by (cases s) (auto simp: live_terminal_def)

text \<open>What never changes of an instance.\<close>

definition frozen :: "saga_instance \<Rightarrow> string \<times> string \<times> string \<times> string \<times> string \<times> string \<times> saga_plan \<times> fields" where
  "frozen r = (si_id r, si_tenantId r, si_companyId r, si_sagaKey r, si_definitionId r, si_correlationKey r,
     si_plan r, si_context r)"

definition evolves :: "saga_instance \<Rightarrow> saga_instance \<Rightarrow> bool" where
  "evolves r r' \<longleftrightarrow> frozen r' = frozen r \<and> si_version r \<le> si_version r' \<and>
     si_status r' \<in> saga_after (nat (si_version r' - si_version r)) (si_status r) \<and>
     (live_terminal (si_status r) \<longrightarrow> r' = r)"

lemma evolves_refl [simp]: "evolves r r"
  by (simp add: evolves_def)

lemma evolves_trans:
  assumes "evolves a b" "evolves b c"
  shows "evolves a c"
proof -
  have "nat (si_version c - si_version a) = nat (si_version b - si_version a) + nat (si_version c - si_version b)"
    using assms by (simp add: evolves_def flip: nat_add_distrib)
  then have "si_status c \<in> saga_after (nat (si_version c - si_version a)) (si_status a)"
    using assms by (auto simp: evolves_def intro: saga_after_add)
  then show ?thesis using assms by (auto simp: evolves_def)
qed

definition table_evolves :: "saga_instance list \<Rightarrow> saga_instance list \<Rightarrow> bool" where
  "table_evolves T T' \<longleftrightarrow> (distinct (map si_id T) \<longrightarrow>
     distinct (map si_id T') \<and> (\<forall>r \<in> set T. \<exists>r' \<in> set T'. evolves r r'))"

lemma table_evolves_refl [simp]: "table_evolves T T"
  by (auto simp: table_evolves_def intro: evolves_refl)

lemma table_evolves_trans: "table_evolves A B \<Longrightarrow> table_evolves B C \<Longrightarrow> table_evolves A C"
  unfolding table_evolves_def by (meson evolves_trans)

definition evolving :: "('x, 'a saga_db_scheme) io \<Rightarrow> bool" where
  "evolving m \<longleftrightarrow> (\<forall>db. table_evolves (sg_instances db) (sg_instances (snd (m db))))"

interpretation evolving_rel: io_relation "\<lambda>db db'. table_evolves (sg_instances db) (sg_instances (db' :: 'a saga_db_scheme))"
  by unfold_locales (auto intro: table_evolves_trans)

lemma evolving_iff: "evolving m \<longleftrightarrow> io_rel (\<lambda>db db'. table_evolves (sg_instances db) (sg_instances db')) m"
  by (simp add: evolving_def io_rel_def)

lemma evolving_quiet: "quiet m \<Longrightarrow> evolving m"
  by (simp add: evolving_def quiet_def)

lemma evolving_then: "evolving m \<Longrightarrow> (\<And>x. evolving (k x)) \<Longrightarrow> evolving (io_then m k)"
  unfolding evolving_iff by (rule evolving_rel.rel_then)

lemma evolving_for: "(\<And>x. x \<in> set xs \<Longrightarrow> evolving (f x)) \<Longrightarrow> evolving (io_for f xs)"
  unfolding evolving_iff by (rule evolving_rel.rel_for)

lemma evolving_void: "evolving m \<Longrightarrow> evolving (io_void m)"
  unfolding io_void_def by (rule evolving_then) (simp_all add: evolving_quiet quiet_basic)

section \<open>Acting on a loaded instance\<close>

definition acts_on :: "saga_instance \<Rightarrow> ('x, 'a saga_db_scheme) io \<Rightarrow> bool" where
  "acts_on inst m \<longleftrightarrow> (\<forall>db. instance_findById (si_id inst) (sg_instances db) = Some inst \<longrightarrow>
     table_evolves (sg_instances db) (sg_instances (snd (m db))))"

lemma acts_on_evolving: "evolving m \<Longrightarrow> acts_on inst m"
  by (simp add: acts_on_def evolving_def)

lemma acts_on_quiet: "quiet m \<Longrightarrow> acts_on inst m"
  by (intro acts_on_evolving evolving_quiet)

lemma acts_on_quiet_then:
  assumes "quiet m" "\<And>x. acts_on inst (k x)"
  shows "acts_on inst (io_then m k)"
  unfolding acts_on_def
proof (intro allI impI)
  fix db :: "'a saga_db_scheme"
  assume f: "instance_findById (si_id inst) (sg_instances db) = Some inst"
  obtain r db' where m: "m db = (r, db')" by (cases "m db")
  with assms(1) have same: "sg_instances db' = sg_instances db" by (metis quiet_def snd_conv)
  then have "table_evolves (sg_instances db) (sg_instances (snd (k x db')))" for x
    using assms(2) [unfolded acts_on_def, rule_format, of db' x] f by simp
  then show "table_evolves (sg_instances db) (sg_instances (snd (io_then m k db)))"
    using same m by (cases r) (simp_all add: io_then_def)
qed

lemma acts_on_then:
  assumes "acts_on inst m" "\<And>x. evolving (k x)"
  shows "acts_on inst (io_then m k)"
  unfolding acts_on_def
proof (intro allI impI)
  fix db :: "'a saga_db_scheme"
  assume f: "instance_findById (si_id inst) (sg_instances db) = Some inst"
  obtain r db' where m: "m db = (r, db')" by (cases "m db")
  with assms(1) f have *: "table_evolves (sg_instances db) (sg_instances db')" by (metis acts_on_def snd_conv)
  then show "table_evolves (sg_instances db) (sg_instances (snd (io_then m k db)))"
  proof (cases r)
    case (Inr x)
    then have "table_evolves (sg_instances db') (sg_instances (snd (k x db')))" using assms(2) by (simp add: evolving_def)
    then show ?thesis using * Inr m by (simp add: io_then_def table_evolves_trans [OF *])
  qed (simp add: io_then_def m)
qed

lemma evolving_load:
  assumes "\<And>inst. acts_on inst (k (Some inst))" "evolving (k None)"
  shows "evolving (io_then (load_instance i) k)"
  unfolding evolving_def
proof
  fix db :: "'a saga_db_scheme"
  show "table_evolves (sg_instances db) (sg_instances (snd (io_then (load_instance i) k db)))"
  proof (cases "instance_findById i (sg_instances db)")
    case None
    then show ?thesis using assms(2) by (simp add: io_then_Inr [OF load_run] evolving_def)
  next
    case (Some inst)
    then have "si_id inst = i" by (auto dest: findById_facts)
    then show ?thesis using assms(1) [of inst] Some by (simp add: io_then_Inr [OF load_run] acts_on_def)
  qed
qed

definition permitted :: "saga_instance \<Rightarrow> instance_patch \<Rightarrow> bool" where
  "permitted inst p \<longleftrightarrow> ip_context p = None \<and> ip_plan p = None \<and> \<not> live_terminal (si_status inst) \<and>
     (case ip_status p of None \<Rightarrow> True | Some s \<Rightarrow> s \<in> saga_next (si_status inst))"

lemma permitted_evolves:
  assumes "permitted inst p"
  shows "evolves inst (patched e p v inst)"
proof -
  have "si_status (patched e p v inst) \<in> saga_next (si_status inst)"
    using assms by (cases "ip_status p"; cases "si_status inst") (simp_all add: permitted_def patched_def live_terminal_def)
  moreover have "frozen (patched e p v inst) = frozen inst"
    using assms by (simp add: permitted_def patched_def frozen_def)
  ultimately show ?thesis
    using assms by (simp add: evolves_def permitted_def patched_def)
qed

lemma acts_on_updateCas:
  assumes "permitted inst p"
  shows "acts_on inst (updateCas e (si_id inst) (si_version inst) p)"
  unfolding acts_on_def
proof (intro allI impI)
  fix db :: "'a saga_db_scheme"
  let ?T = "sg_instances db"
  let ?T' = "map_where (si_current (si_id inst) (si_version inst)) (patched e p (si_version inst)) ?T"
  assume f: "instance_findById (si_id inst) ?T = Some inst"
  have "table_evolves ?T ?T'"
    unfolding table_evolves_def
  proof (intro impI conjI ballI)
    assume d: "distinct (map si_id ?T)"
    have "map si_id ?T' = map si_id ?T" by (rule map_map_where) (simp add: patched_def)
    with d show "distinct (map si_id ?T')" by simp
    fix r assume r: "r \<in> set ?T"
    show "\<exists>r' \<in> set ?T'. evolves r r'"
    proof (cases "si_current (si_id inst) (si_version inst) r")
      case False
      then have "r \<in> set ?T'" using r by (simp add: set_map_where)
      then show ?thesis by (rule bexI [rotated]) simp
    next
      case True
      then have "si_id r = si_id inst" by (simp only: cas_hit_def)
      then have "r = inst" by (metis findById_unique [OF d r] f option.inject)
      moreover have "evolves inst (patched e p (si_version inst) inst)"
        using assms by (rule permitted_evolves)
      moreover have "patched e p (si_version inst) r \<in> set ?T'" using r True by (simp add: set_map_where)
      ultimately show ?thesis by blast
    qed
  qed
  then show "table_evolves ?T (sg_instances (snd (updateCas e (si_id inst) (si_version inst) p db)))"
    by (simp add: updateCas_run Let_def)
qed

lemma acts_on_option:
  "(v = None \<Longrightarrow> acts_on inst m) \<Longrightarrow> (\<And>x. v = Some x \<Longrightarrow> acts_on inst (f x)) \<Longrightarrow>
   acts_on inst (case v of None \<Rightarrow> m | Some x \<Rightarrow> f x)"
  by (cases v) simp_all

lemma acts_on_if:
  "(b \<Longrightarrow> acts_on inst m) \<Longrightarrow> (\<not> b \<Longrightarrow> acts_on inst m') \<Longrightarrow> acts_on inst (if b then m else m')"
  by simp

section \<open>The engine\<close>

lemmas quiet_intros = quiet_basic quiet_consumeWait

lemma live_cases: "\<not> live_terminal s \<longleftrightarrow> s = I_RUNNING \<or> s = I_WAITING \<or> s = I_COMPENSATING"
  by (cases s) (auto simp: live_terminal_def)

lemma acts_on_patch:
  "\<not> live_terminal (si_status inst) \<Longrightarrow> ip_context p = None \<Longrightarrow> ip_plan p = None \<Longrightarrow>
   (\<And>s. ip_status p = Some s \<Longrightarrow> s \<in> saga_next (si_status inst)) \<Longrightarrow>
   acts_on inst (updateCas e (si_id inst) (si_version inst) p)"
  by (rule acts_on_updateCas) (auto simp: permitted_def split: option.splits)

lemma complete_acts:
  assumes "si_status inst = I_RUNNING \<or> si_status inst = I_WAITING"
  shows "acts_on inst (saga_complete e inst cursor)"
  unfolding saga_complete_def
proof (rule acts_on_then)
  show "acts_on inst (updateCas e (si_id inst) (si_version inst)
      (no_patch\<lparr>ip_status := Some I_COMPLETED, ip_cursor := Some cursor, ip_waitingEvent := Some None\<rparr>))"
    by (rule acts_on_patch) (use assms in \<open>auto simp: no_patch_def live_terminal_def\<close>)
  fix updated :: "saga_instance option"
  show "evolving (case (updated, sp_onComplete (si_plan inst)) of
       (Some _, Some emit) \<Rightarrow>
         io_then (saga_uuid e) (\<lambda>eventId. io_then (saga_uuid e) (\<lambda>rowId.
         io_then (io_write (\<lambda>db. db\<lparr>pf_outbox := append_outbox_event (sc_now e) rowId (sc_ctx e)
            (saga_emitted e inst eventId emit) ''Saga'' (si_id inst) None (pf_outbox db)\<rparr>)) (\<lambda>_.
         io_return updated)))
     | _ \<Rightarrow> io_return updated)"
    by (cases updated; cases "sp_onComplete (si_plan inst)"; simp;
        intro evolving_quiet quiet_then quiet_basic quiet_write; simp)
qed

lemma advance_loop_acts:
  assumes "si_status inst = I_RUNNING \<or> si_status inst = I_WAITING"
  shows "acts_on inst (advance_loop e inst ss cursor steps)"
proof (induction steps arbitrary: ss cursor)
  case Nil
  then show ?case using assms by (simp add: complete_acts)
next
  case (Cons step steps)
  have cas: "acts_on inst (updateCas e (si_id inst) (si_version inst)
      (no_patch\<lparr>ip_cursor := c, ip_status := Some s, ip_waitingEvent := w\<rparr>))" if "s \<in> {I_WAITING, I_RUNNING}" for c s w
    by (rule acts_on_patch) (use assms that in \<open>auto simp: no_patch_def live_terminal_def\<close>)
  show ?case
    unfolding advance_loop.simps
    by (intro acts_on_quiet_then acts_on_if acts_on_option quiet_intros Cons.IH cas; simp)
qed

lemma advance_evolving: "evolving (advance e i)"
  unfolding advance_def
proof (rule evolving_load, unfold option.case)
  show "acts_on inst (if live_terminal (si_status inst) \<or> si_status inst = I_COMPENSATING then io_return (Some inst)
      else io_then (load_steps inst) (\<lambda>rows. advance_loop e inst (scope_steps rows) (si_cursor inst)
        (drop (si_cursor inst) (sp_steps (si_plan inst)))))" for inst
    by (intro acts_on_if acts_on_quiet acts_on_quiet_then quiet_basic advance_loop_acts) (auto simp: live_cases)
qed (simp add: evolving_quiet quiet_basic)

lemma compensate_loop_acts:
  assumes "\<not> live_terminal (si_status inst)"
  shows "acts_on inst (compensate_loop e inst reason err rows scope steps)"
proof (induction steps)
  case Nil
  show ?case unfolding compensate_loop.simps
    by (rule acts_on_patch) (use assms in \<open>auto simp: no_patch_def live_cases\<close>)
next
  case (Cons step steps)
  have "acts_on inst (updateCas e (si_id inst) (si_version inst)
      (no_patch\<lparr>ip_status := Some I_FAILED_MANUAL, ip_reason := x, ip_error := y\<rparr>))" for x y
    by (rule acts_on_patch) (use assms in \<open>auto simp: no_patch_def live_cases\<close>)
  then show ?case
    unfolding compensate_loop.simps
    by (intro acts_on_option acts_on_if acts_on_quiet_then quiet_basic Cons.IH)
qed

lemma startCompensation_acts:
  assumes "\<not> live_terminal (si_status inst)"
  shows "acts_on inst (startCompensation e inst k reason err)"
proof -
  have "acts_on inst (updateCas e (si_id inst) (si_version inst)
      (no_patch\<lparr>ip_status := Some I_FAILED_MANUAL, ip_reason := x, ip_error := y\<rparr>))" for x y
    by (rule acts_on_patch) (use assms in \<open>auto simp: no_patch_def live_cases\<close>)
  then show ?thesis
    unfolding startCompensation_def
    by (intro acts_on_if acts_on_quiet_then quiet_basic compensate_loop_acts assms)
qed

lemma acts_on_void: "acts_on inst m \<Longrightarrow> acts_on inst (io_void m)"
  unfolding io_void_def by (rule acts_on_then) (simp_all add: evolving_quiet quiet_basic)

lemma with_instance_evolving:
  assumes "\<And>inst. \<not> stop inst \<Longrightarrow> acts_on inst (k inst)"
  shows "evolving (with_instance i stop k)"
  unfolding with_instance_def
  by (rule evolving_load) (use assms in \<open>auto intro: acts_on_quiet evolving_quiet quiet_return\<close>)

lemma acts_on_patched_then:
  assumes "\<not> live_terminal (si_status inst)" "ip_context p = None" "ip_plan p = None"
    "\<And>s. ip_status p = Some s \<Longrightarrow> s \<in> saga_next (si_status inst)" "\<And>x. evolving (k x)"
  shows "acts_on inst (io_then (updateCas e (si_id inst) (si_version inst) p) k)"
  by (rule acts_on_then, rule acts_on_patch) (use assms in auto)

lemmas void_advance = evolving_void [OF advance_evolving]

lemma onDoSucceeded_evolving: "evolving (onDoSucceeded e i stepId)"
  unfolding onDoSucceeded_def
  by (intro with_instance_evolving acts_on_option acts_on_patched_then acts_on_quiet quiet_basic void_advance)
    (simp_all add: no_patch_def)

lemma onDoFailed_evolving: "evolving (onDoFailed e i stepId err)"
  unfolding onDoFailed_def
  by (intro with_instance_evolving acts_on_option acts_on_void startCompensation_acts acts_on_quiet quiet_basic)

lemma onUndoSucceeded_evolving: "evolving (onUndoSucceeded e i)"
  unfolding onUndoSucceeded_def
  by (intro with_instance_evolving acts_on_quiet_then acts_on_if acts_on_void acts_on_patch acts_on_quiet quiet_basic)
    (simp_all add: no_patch_def live_terminal_def)

lemma onUndoFailed_evolving: "evolving (onUndoFailed e i err)"
  unfolding onUndoFailed_def
  by (intro with_instance_evolving acts_on_void acts_on_patch) (auto simp: no_patch_def live_cases)

lemma onWaitTimeout_evolving: "evolving (onWaitTimeout e row)"
  unfolding onWaitTimeout_def Let_def
  by (intro with_instance_evolving acts_on_quiet_then acts_on_if acts_on_void startCompensation_acts
      acts_on_patched_then void_advance quiet_write)
    (auto simp: no_patch_def live_cases)

lemma cancel_evolving: "evolving (cancel_saga e i reason)"
  unfolding cancel_saga_def
  by (intro with_instance_evolving acts_on_quiet_then acts_on_if acts_on_void startCompensation_acts
      acts_on_patch quiet_basic)
    (auto simp: no_patch_def live_cases)

lemma tryInsert_quiet: "quiet (saga_tryInsert e x)"
  unfolding saga_tryInsert_def by (intro quiet_then quiet_basic) (simp add: quiet_def split: if_splits)

lemma bufferForInstance_evolving: "evolving (bufferForInstance e inst eventId en ev payload)"
  unfolding bufferForInstance_def
proof (rule evolving_then [OF evolving_quiet [OF tryInsert_quiet]])
  show "evolving (case inserted of None \<Rightarrow> io_return False
      | Some row \<Rightarrow> io_then (io_write (\<lambda>db. db\<lparr>sg_inbox :=
             markBuffered (sx_id row) (Some (si_correlationKey inst)) (Some (si_id inst)) (sg_inbox db)\<rparr>)) (\<lambda>_.
         io_then (advance e (si_id inst)) (\<lambda>_. io_return True)))" for inserted
    by (cases inserted; simp only: option.case; intro evolving_quiet [OF quiet_return] evolving_then
        evolving_quiet [OF quiet_write] advance_evolving; simp)
qed

lemma tryInsertLive_evolving: "evolving (tryInsertLive e input)"
proof -
  have "table_evolves T (insert_row r T)" if "\<forall>x \<in> set T. si_id x \<noteq> si_id r" for T :: "saga_instance list" and r
    using that by (auto simp: table_evolves_def insert_row_def intro: evolves_refl)
  then show ?thesis
    by (auto simp: evolving_def tryInsertLive_def saga_uuid_def io_then_def Let_def instance_row_def)
qed

lemma createAndAdvance_evolving: "evolving (createAndAdvance e input)"
  unfolding createAndAdvance_def
proof (rule evolving_then [OF tryInsertLive_evolving])
  show "evolving (case x of None \<Rightarrow> io_return None | Some r \<Rightarrow> advance e (si_id r))" for x
    by (cases x) (simp_all add: advance_evolving evolving_quiet quiet_basic)
qed

section \<open>Worker, scheduler and router\<close>

lemma evolving_option:
  "(v = None \<Longrightarrow> evolving m) \<Longrightarrow> (\<And>x. v = Some x \<Longrightarrow> evolving (f x)) \<Longrightarrow>
   evolving (case v of None \<Rightarrow> m | Some x \<Rightarrow> f x)"
  by (cases v) simp_all

lemma evolving_if: "(b \<Longrightarrow> evolving m) \<Longrightarrow> (\<not> b \<Longrightarrow> evolving m') \<Longrightarrow> evolving (if b then m else m')"
  by simp

lemmas hooks_evolving = onDoSucceeded_evolving onDoFailed_evolving onUndoSucceeded_evolving onUndoFailed_evolving
  onWaitTimeout_evolving cancel_evolving bufferForInstance_evolving createAndAdvance_evolving advance_evolving

lemmas quietly = quiet_basic [THEN evolving_quiet]

lemma fail_step_evolving: "evolving (fail_step e step inst err)"
  unfolding fail_step_def settleFailure_def by (intro evolving_then evolving_if hooks_evolving quietly)

lemma worker_run_evolving: "evolving (worker_run e actions step inst)"
  unfolding worker_run_def saga_settle_def Let_def
  by (intro evolving_option evolving_if evolving_then fail_step_evolving hooks_evolving quietly)

lemma worker_execute_evolving: "evolving (worker_execute e actions step)"
  unfolding worker_execute_def
  by (intro evolving_then evolving_option evolving_if worker_run_evolving quietly)

lemma claim_quiet: "quiet (claim_steps e w locked)"
  by (auto simp: quiet_def claim_steps_def io_then_def split: prod.splits)

lemma runBatch_evolving: "evolving (runBatch e w locked actions)"
  unfolding runBatch_def
  by (intro evolving_then evolving_for worker_execute_evolving evolving_quiet [OF claim_quiet] quietly)

lemma expireWaitSteps_evolving: "evolving (expireWaitSteps e)"
  unfolding expireWaitSteps_def by (intro evolving_then evolving_for hooks_evolving quietly)

lemma releaseStaleLeases_evolving: "evolving (releaseStaleLeases e)"
  unfolding releaseStaleLeases_def by (intro evolving_then evolving_for quietly)

lemma tryStart_evolving: "evolving (tryStart e ports definition event)"
proof (cases "gp_features ports (tg_companyId event)")
  case features: (Inr features)
  show ?thesis
  proof (cases "gp_settings ports (tg_companyId event)")
    case (Inr settings)
    show ?thesis
      unfolding tryStart_def Let_def features Inr prod.case sum.case
      by (intro evolving_then evolving_if evolving_option evolving_void hooks_evolving quietly)
  qed (simp add: tryStart_def Let_def features quietly)
qed (simp add: tryStart_def Let_def quietly)

lemma findTarget_evolving: "evolving (findTarget k c)"
  unfolding findTarget_def by (rule quietly)

lemma matched_targets_evolving: "evolving (matched_targets e definition event steps targets)"
  by (induction steps arbitrary: targets)
    (simp_all only: matched_targets.simps, intro quietly, intro evolving_if evolving_then findTarget_evolving quietly, simp_all)

lemma routeWait_evolving: "evolving (routeWait e definition event)"
  unfolding routeWait_def Let_def
  by (intro evolving_if evolving_then evolving_for evolving_void matched_targets_evolving hooks_evolving quietly)

lemma route_event_evolving: "evolving (route_event e ports event)"
  unfolding route_event_def route_definition_def routeCancel_def
  by (intro evolving_then evolving_option evolving_if evolving_for tryStart_evolving findTarget_evolving
      routeWait_evolving hooks_evolving quietly)

lemma accept_evolving: "evolving (saga_accept e ports env)"
  unfolding saga_accept_def Let_def by (intro evolving_if route_event_evolving quietly)

lemma evolvingD: "evolving m \<Longrightarrow> table_evolves (sg_instances db) (sg_instances (snd (m db)))"
  by (simp add: evolving_def)

lemma tick_evolves: "table_evolves (sg_instances db) (sg_instances (tick e w locked actions db))"
  unfolding tick_def
  by (rule evolvingD) (intro evolving_then runBatch_evolving expireWaitSteps_evolving releaseStaleLeases_evolving)

section \<open>The moves of the system\<close>

text \<open>
  Any number of replicas: scheduler ticks, workers that execute a step they claimed some time
  ago (the snapshot names a row of the table, its other fields may be out of date), sweeps over
  a row found earlier, events from the bus and the nightly cleanup, in any order, each with its
  own clock, context, configuration and actions.
\<close>

definition same_step :: "saga_step \<Rightarrow> saga_step \<Rightarrow> bool" where
  "same_step r s \<longleftrightarrow> sr_id s = sr_id r \<and> sr_instanceId s = sr_instanceId r \<and> sr_stepId s = sr_stepId r \<and> sr_kind s = sr_kind r"

inductive saga_move :: "'a saga_db_scheme \<Rightarrow> 'a saga_db_scheme \<Rightarrow> bool" where
  Move_tick: "returns_rows e \<Longrightarrow> saga_move db (tick e w locked actions db)"
| Move_claim: "saga_move db (snd (claim_steps e w locked db))"
| Move_execute: "r \<in> set (sg_steps db) \<Longrightarrow> same_step r s \<Longrightarrow> saga_move db (snd (worker_execute e actions s db))"
| Move_expire: "r \<in> set (sg_steps db) \<Longrightarrow> sr_kind r = WAIT_KIND \<Longrightarrow> same_step r s \<Longrightarrow> saga_move db (snd (onWaitTimeout e s db))"
| Move_release: "saga_move db (snd (releaseStaleLeases e db))"
| Move_accept: "saga_move db (snd (saga_accept e ports env db))"
| Move_cleanup: "saga_move db (cleanupInbox e db)"

inductive_cases saga_moveE: "saga_move db db'"

lemma move_evolves: "saga_move db db' \<Longrightarrow> table_evolves (sg_instances db) (sg_instances db')"
  by (erule saga_moveE)
    (simp_all add: tick_evolves cleanupInbox_def evolvingD evolving_quiet [OF claim_quiet] worker_execute_evolving
      onWaitTimeout_evolving releaseStaleLeases_evolving accept_evolving)

lemma moves_evolve: "saga_move\<^sup>*\<^sup>* db db' \<Longrightarrow> table_evolves (sg_instances db) (sg_instances db')"
  by (induction rule: rtranclp_induct) (auto intro: table_evolves_trans move_evolves)

text \<open>
  C20. Whatever the replicas, the sweeps and the event bus do, and however they interleave, a saga
  instance keeps its identity, company, correlation key, frozen plan and start context; its
  version grows by one for every change of status, each of which is a permitted one; and an
  instance in a final status is never written again.
\<close>
theorem saga_instance_evolves:
  assumes "saga_move\<^sup>*\<^sup>* db db'" and "distinct (map si_id (sg_instances db))" and "r \<in> set (sg_instances db)"
  shows "\<exists>r' \<in> set (sg_instances db'). frozen r' = frozen r \<and> si_version r \<le> si_version r' \<and>
    si_status r' \<in> saga_after (nat (si_version r' - si_version r)) (si_status r) \<and>
    (live_terminal (si_status r) \<longrightarrow> r' = r)"
  using moves_evolve [OF assms(1)] assms(2,3) by (auto simp: table_evolves_def evolves_def)

end
