(* ===== verification/Saga_Stuck.thy ===== *)
theory Saga_Stuck
  imports Saga_Evolution Saga_Claim
begin

text \<open>
  A saga whose first action fails is set COMPENSATING with nothing to undo. Only a settled UNDO
  step ends that status, and no UNDO step exists: the instance stays COMPENSATING under every move
  of the system.
\<close>

section \<open>The instances concerned\<close>

definition waits_forever :: "string \<Rightarrow> string \<Rightarrow> 'a saga_db_scheme \<Rightarrow> bool" where
  "waits_forever i s0 db \<longleftrightarrow>
     i \<in> set (map si_id (sg_instances db)) \<and>
     (\<forall>inst \<in> set (sg_instances db). si_id inst = i \<longrightarrow>
        si_status inst = I_COMPENSATING \<and> map pl_id (take 1 (sp_steps (si_plan inst))) = [s0]) \<and>
     (\<forall>r \<in> set (sg_steps db). sr_instanceId r = i \<longrightarrow> sr_kind r = DO_KIND \<and> sr_stepId r = s0)"

definition fits :: "string \<Rightarrow> string \<Rightarrow> saga_step \<Rightarrow> bool" where
  "fits i s0 s \<longleftrightarrow> (sr_instanceId s = i \<longrightarrow> sr_kind s = DO_KIND \<and> sr_stepId s = s0)"

definition stays :: "string \<Rightarrow> string \<Rightarrow> ('x, 'a saga_db_scheme) io \<Rightarrow> bool" where
  "stays i s0 m \<longleftrightarrow> (\<forall>db. waits_forever i s0 db \<longrightarrow> waits_forever i s0 (snd (m db)))"

interpretation stuck_rel: io_relation "\<lambda>db db' :: 'a saga_db_scheme. waits_forever i s0 db \<longrightarrow> waits_forever i s0 db'" for i s0
  by unfold_locales auto

lemma stays_iff: "stays i s0 m \<longleftrightarrow> io_rel (\<lambda>db db'. waits_forever i s0 db \<longrightarrow> waits_forever i s0 db') m"
  by (simp add: stays_def io_rel_def)

lemma stays_then: "stays i s0 m \<Longrightarrow> (\<And>x. stays i s0 (k x)) \<Longrightarrow> stays i s0 (io_then m k)"
  unfolding stays_iff by (rule stuck_rel.rel_then)

lemma stays_for: "(\<And>x. x \<in> set xs \<Longrightarrow> stays i s0 (f x)) \<Longrightarrow> stays i s0 (io_for f xs)"
  unfolding stays_iff by (rule stuck_rel.rel_for)

lemma stays_read:
  "(\<And>db. waits_forever i s0 db \<Longrightarrow> Q (f db)) \<Longrightarrow> (\<And>x. Q x \<Longrightarrow> stays i s0 (k x)) \<Longrightarrow> stays i s0 (io_then (io_read f) k)"
  by (simp add: stays_def)

lemma stays_return_then: "stays i s0 (k x) \<Longrightarrow> stays i s0 (io_then (io_return x) k)"
  by (simp add: stays_def)

lemma stays_option:
  "(v = None \<Longrightarrow> stays i s0 m) \<Longrightarrow> (\<And>x. v = Some x \<Longrightarrow> stays i s0 (f x)) \<Longrightarrow>
   stays i s0 (case v of None \<Rightarrow> m | Some x \<Rightarrow> f x)"
  by (cases v) simp_all

lemma stays_if: "(b \<Longrightarrow> stays i s0 m) \<Longrightarrow> (\<not> b \<Longrightarrow> stays i s0 m') \<Longrightarrow> stays i s0 (if b then m else m')"
  by simp

lemma stays_return: "stays i s0 (io_return x)" by (simp add: stays_def)
lemma stays_lift: "stays i s0 (io_lift r)" by (simp add: stays_def)
lemma stays_any_read: "stays i s0 (io_read f)" by (simp add: stays_def)
lemma stays_load_steps: "stays i s0 (load_steps inst)" by (simp add: stays_def load_steps_def)
lemma stays_uuid: "stays i s0 (saga_uuid e)" by (simp add: stays_def saga_uuid_def waits_forever_def)

lemma stays_write:
  "(\<And>db. sg_instances (g db) = sg_instances db) \<Longrightarrow> (\<And>db. sg_steps (g db) = sg_steps db) \<Longrightarrow> stays i s0 (io_write g)"
  by (simp add: stays_def waits_forever_def)

lemma stays_void: "stays i s0 m \<Longrightarrow> stays i s0 (io_void m)"
  unfolding io_void_def by (intro stays_then stays_return)

lemma stays_createIfAbsent:
  "(is_instanceId x = i \<Longrightarrow> is_kind x = DO_KIND \<and> is_stepId x = s0) \<Longrightarrow> stays i s0 (createIfAbsent e x)"
  by (auto simp: stays_def waits_forever_def createIfAbsent_run step_row_def split: option.splits)

lemma stays_updateCas:
  assumes "j = i \<Longrightarrow> ip_plan p = None \<and> (ip_status p = None \<or> ip_status p = Some I_COMPENSATING)"
  shows "stays i s0 (updateCas e j v p)"
proof -
  let ?upd = "\<lambda>db :: 'a saga_db_scheme.
    db\<lparr>sg_instances := map_where (si_current j v) (patched e p v) (sg_instances db)\<rparr>"
  have "waits_forever i s0 (?upd db)" if stuck: "waits_forever i s0 db" for db
  proof -
    have "map si_id (sg_instances (?upd db)) = map si_id (sg_instances db)"
      by simp (rule map_map_where, simp add: patched_def)
    then show "waits_forever i s0 (?upd db)"
      using stuck assms unfolding waits_forever_def by (auto simp: set_map_where cas_hit_def patched_def)
  qed
  then show ?thesis by (simp add: stays_def updateCas_run Let_def)
qed

definition from_steps :: "saga_step list \<Rightarrow> saga_step list \<Rightarrow> bool" where
  "from_steps rows rows' \<longleftrightarrow> (\<forall>r \<in> set rows'. \<exists>r0 \<in> set rows. same_step r0 r)"

definition same_steps :: "(saga_step list \<Rightarrow> saga_step list) \<Rightarrow> bool" where
  "same_steps f \<longleftrightarrow> (\<forall>rows. from_steps rows (f rows))"

lemma from_steps_map: "(\<And>r. same_step r (g r)) \<Longrightarrow> from_steps rows (map_where p g rows)"
  by (auto simp: from_steps_def set_map_where) (auto simp: same_step_def)

lemma from_steps_trans: "from_steps a b \<Longrightarrow> from_steps b c \<Longrightarrow> from_steps a c"
  by (fastforce simp: from_steps_def same_step_def)

lemma same_steps_map: "(\<And>r. same_step r (g r)) \<Longrightarrow> same_steps (map_where p g)"
  by (simp add: same_steps_def from_steps_map)

lemma same_steps_marks:
  "same_steps (step_markDone e k out)" "same_steps (step_markSkipped k)" "same_steps (step_markFailed k err)"
  "same_steps (step_reschedule k n t er)"
  unfolding step_markDone_def step_markSkipped_def step_markFailed_def step_reschedule_def update_many_def snd_conv
  by (rule same_steps_map, simp add: same_step_def)+

lemma stays_write_steps: "same_steps f \<Longrightarrow> stays i s0 (write_steps f)"
  by (fastforce simp: stays_def waits_forever_def write_steps_def same_steps_def from_steps_def same_step_def)

section \<open>The engine\<close>

definition is_stuck :: "string \<Rightarrow> saga_instance \<Rightarrow> bool" where
  "is_stuck s0 inst \<longleftrightarrow> si_status inst = I_COMPENSATING \<and> map pl_id (take 1 (sp_steps (si_plan inst))) = [s0]"

lemma stays_load:
  assumes "\<And>inst. si_id inst = j \<Longrightarrow> (j = i \<Longrightarrow> is_stuck s0 inst) \<Longrightarrow> stays i s0 (k (Some inst))"
    and "stays i s0 (k None)"
  shows "stays i s0 (io_then (load_instance j) k)"
  unfolding load_instance_def
proof (rule stays_read)
  show "\<forall>inst. found = Some inst \<longrightarrow> si_id inst = j \<and> (j = i \<longrightarrow> is_stuck s0 inst) \<Longrightarrow> stays i s0 (k found)" for found
    by (cases found) (use assms in auto)
qed (auto simp: waits_forever_def is_stuck_def dest!: findById_facts)

lemmas stays_basic = stays_return stays_lift stays_any_read stays_load_steps stays_uuid

lemma stays_consumeWait: "si_id inst \<noteq> i \<Longrightarrow> stays i s0 (consumeWait e inst step scope)"
proof -
  assume "si_id inst \<noteq> i"
  then have "stays i s0 (consume_loop e inst step scope rows)" for rows
    by (induction rows) (simp_all only: consume_loop.simps, intro stays_basic,
      intro stays_then stays_if stays_basic stays_createIfAbsent stays_write, simp_all add: step_input_def)
  then show ?thesis
    unfolding consumeWait_def by (intro stays_option stays_then stays_basic)
qed

lemma stays_advance_loop: "si_id inst \<noteq> i \<Longrightarrow> stays i s0 (advance_loop e inst ss cursor steps)"
proof (induction steps arbitrary: ss cursor)
  case Nil
  have "stays i s0 (case (x, sp_onComplete (si_plan inst)) of
       (Some _, Some emit) \<Rightarrow>
         io_then (saga_uuid e) (\<lambda>eventId. io_then (saga_uuid e) (\<lambda>rowId.
         io_then (io_write (\<lambda>db. db\<lparr>pf_outbox := append_outbox_event (sc_now e) rowId (sc_ctx e)
            (saga_emitted e inst eventId emit) ''Saga'' (si_id inst) None (pf_outbox db)\<rparr>)) (\<lambda>_. io_return x)))
     | _ \<Rightarrow> io_return x)" for x
    by (cases x; cases "sp_onComplete (si_plan inst)"; simp; intro stays_then stays_basic stays_write; simp)
  then show ?case
    using Nil unfolding advance_loop.simps saga_complete_def by (intro stays_then stays_updateCas) simp_all
next
  case (Cons step steps)
  show ?case
    unfolding advance_loop.simps recordBypass_def
    by (intro stays_then stays_if stays_option stays_basic stays_createIfAbsent stays_updateCas stays_consumeWait Cons.IH)
      (simp_all add: Cons.prems step_input_def)
qed

lemma stays_advance: "stays i s0 (advance e j)"
  unfolding advance_def
proof (rule stays_load, unfold option.case)
  show "stays i s0 (if live_terminal (si_status inst) \<or> si_status inst = I_COMPENSATING then io_return (Some inst)
      else io_then (load_steps inst) (\<lambda>rows. advance_loop e inst (scope_steps rows) (si_cursor inst)
        (drop (si_cursor inst) (sp_steps (si_plan inst)))))"
    if "si_id inst = j" "j = i \<Longrightarrow> is_stuck s0 inst" for inst
  proof (cases "j = i")
    case True
    then show ?thesis using that by (simp add: is_stuck_def stays_return)
  next
    case False
    then show ?thesis using that by (intro stays_if stays_then stays_basic stays_advance_loop) simp
  qed
qed (rule stays_return)

lemma stays_compensate_loop: "si_id inst \<noteq> i \<Longrightarrow> stays i s0 (compensate_loop e inst reason err rows scope steps)"
  by (induction steps) (simp_all only: compensate_loop.simps, intro stays_updateCas, simp,
    intro stays_option stays_if stays_then stays_basic stays_createIfAbsent stays_updateCas, simp_all add: step_input_def)

lemma stays_startCompensation:
  assumes "si_id inst = i \<Longrightarrow> k = 0"
  shows "stays i s0 (startCompensation e inst k reason err)"
proof (cases "si_id inst = i")
  case True
  then have "k = 0" by (rule assms)
  moreover have "\<not> past_pivot inst 0" by (simp add: past_pivot_def split: option.splits)
  ultimately show ?thesis
    unfolding startCompensation_def
    by simp (intro stays_then stays_basic stays_updateCas, simp add: no_patch_def)
next
  case False
  then show ?thesis
    unfolding startCompensation_def
    by (intro stays_if stays_updateCas stays_then stays_basic stays_compensate_loop) simp_all
qed

lemma stays_with_instance:
  assumes "\<And>inst. si_id inst = j \<Longrightarrow> (j = i \<Longrightarrow> is_stuck s0 inst) \<Longrightarrow> \<not> stop inst \<Longrightarrow> stays i s0 (k inst)"
  shows "stays i s0 (with_instance j stop k)"
  unfolding with_instance_def
proof (rule stays_load, unfold option.case)
  show "stays i s0 (if stop inst then io_return () else k inst)"
    if "si_id inst = j" "j = i \<Longrightarrow> is_stuck s0 inst" for inst
    using that assms [of inst] by (simp add: stays_return)
qed (rule stays_return)

lemma stuck_index: "is_stuck s0 inst \<Longrightarrow> step_index inst s0 = Some 0"
  by (cases "sp_steps (si_plan inst)") (auto simp: is_stuck_def step_index_def)

lemma stays_onDoSucceeded: "stays i s0 (onDoSucceeded e j stepId)"
  unfolding onDoSucceeded_def
  by (intro stays_with_instance stays_option stays_then stays_updateCas stays_void stays_advance stays_basic)
    (simp add: no_patch_def)

lemma stays_onDoFailed: "(j = i \<Longrightarrow> stepId = s0) \<Longrightarrow> stays i s0 (onDoFailed e j stepId err)"
  unfolding onDoFailed_def
  by (intro stays_with_instance stays_option stays_void stays_startCompensation stays_basic) (auto dest: stuck_index)

lemma stays_onUndoSucceeded: "j \<noteq> i \<Longrightarrow> stays i s0 (onUndoSucceeded e j)"
  unfolding onUndoSucceeded_def
  by (intro stays_with_instance stays_then stays_if stays_void stays_updateCas stays_basic) simp

lemma stays_onUndoFailed: "j \<noteq> i \<Longrightarrow> stays i s0 (onUndoFailed e j err)"
  unfolding onUndoFailed_def by (intro stays_with_instance stays_void stays_updateCas) simp

lemma stays_onWaitTimeout: "sr_instanceId row \<noteq> i \<Longrightarrow> stays i s0 (onWaitTimeout e row)"
  unfolding onWaitTimeout_def Let_def write_steps_def [symmetric]
  by (intro stays_with_instance stays_then stays_if stays_void stays_startCompensation stays_updateCas stays_advance
      stays_write_steps same_steps_marks) simp_all

lemma stays_cancel: "j \<noteq> i \<Longrightarrow> stays i s0 (cancel_saga e j reason)"
  unfolding cancel_saga_def
  by (intro stays_with_instance stays_then stays_if stays_void stays_startCompensation stays_updateCas stays_basic) simp_all

lemma stays_bufferForInstance: "stays i s0 (bufferForInstance e inst eventId en ev payload)"
proof -
  have "stays i s0 (saga_tryInsert e x)" for x
    unfolding saga_tryInsert_def by (intro stays_then stays_if stays_basic stays_write) simp_all
  then show ?thesis
    unfolding bufferForInstance_def by (intro stays_then stays_option stays_basic stays_write stays_advance) simp_all
qed

lemma stays_createAndAdvance: "stays i s0 (createAndAdvance e input)"
proof -
  have "stays i s0 (tryInsertLive e input)"
    by (auto simp: stays_def tryInsertLive_def saga_uuid_def io_then_def Let_def waits_forever_def instance_row_def insert_row_def)
  then show ?thesis unfolding createAndAdvance_def by (intro stays_then stays_option stays_basic stays_advance)
qed

section \<open>Worker, scheduler and router\<close>

lemma stays_fail_step:
  "fits i s0 step \<Longrightarrow> si_id inst = sr_instanceId step \<Longrightarrow> stays i s0 (fail_step e step inst err)"
  unfolding fail_step_def settleFailure_def
  by (intro stays_then stays_if stays_write_steps same_steps_marks stays_onUndoFailed stays_onDoFailed)
    (auto simp: fits_def)

lemma stays_worker_run:
  "fits i s0 step \<Longrightarrow> si_id inst = sr_instanceId step \<Longrightarrow> stays i s0 (worker_run e actions step inst)"
  unfolding worker_run_def saga_settle_def Let_def
  by (intro stays_option stays_if stays_then stays_fail_step stays_write_steps same_steps_marks stays_onUndoSucceeded
      stays_onDoSucceeded) (auto simp: fits_def)

lemma stays_worker_execute: "fits i s0 step \<Longrightarrow> stays i s0 (worker_execute e actions step)"
  unfolding worker_execute_def
proof (rule stays_load, unfold option.case)
  show "stays i s0 (if si_status inst \<notin> {I_RUNNING, I_WAITING, I_COMPENSATING}
      then write_steps (step_markSkipped (sr_id step))
      else worker_run (in_context e (si_tenantId inst) (si_companyId inst) (Some (si_id inst))) actions step inst)"
    if "fits i s0 step" "si_id inst = sr_instanceId step" for inst
    using that by (intro stays_if stays_write_steps same_steps_marks stays_worker_run)
qed (rule stays_write_steps, rule same_steps_marks)

lemma stamp_same [simp]: "same_step r (stamp_lease w t r)"
  by (simp add: same_step_def stamp_lease_def)

lemma claimed_same:
  assumes "returns_rows e" "saga_claimBatch e w locked rows = (claimed, rows')"
  shows "from_steps rows claimed"
proof -
  let ?hit = "\<lambda>r. sr_id r \<in> sr_id ` set (selection_of e locked rows)"
  obtain over where "mset claimed + mset over = mset (map (stamp_lease w (lease_of e)) (filter ?hit rows))"
    using assms by (rule claim_parts)
  then have "set claimed \<subseteq> set (map (stamp_lease w (lease_of e)) (filter ?hit rows))"
    by (metis set_mset_mset set_mset_union Un_upper1)
  then have "\<exists>r0 \<in> set rows. r = stamp_lease w (lease_of e) r0" if "r \<in> set claimed" for r
    using that by auto
  then show ?thesis unfolding from_steps_def by (metis stamp_same)
qed

lemma claimBatch_steps: "same_steps (\<lambda>rows. snd (saga_claimBatch e w locked rows))"
proof -
  have stamp: "from_steps rows (map_where p (stamp_lease w (lease_of e)) rows)" for p rows
    by (rule from_steps_map) simp
  have release: "from_steps rows (map_where p unleased rows)" for p rows
    by (rule from_steps_map) (simp add: same_step_def unleased_def)
  have "from_steps rows (snd (saga_claimBatch e w locked rows))" for rows
    using claim_run [of e w locked rows "fst (saga_claimBatch e w locked rows)" "snd (saga_claimBatch e w locked rows)"]
      from_steps_trans [OF stamp release] by (metis prod.collapse)
  then show ?thesis by (simp add: same_steps_def)
qed

lemma staysD: "stays i s0 m \<Longrightarrow> waits_forever i s0 db \<Longrightarrow> waits_forever i s0 (snd (m db))"
  by (simp add: stays_def)

lemma stays_claim: "stays i s0 (claim_steps e w locked)"
  unfolding stays_def
proof (intro allI impI)
  fix db :: "'a saga_db_scheme"
  assume "waits_forever i s0 db"
  from staysD [OF stays_write_steps [OF claimBatch_steps] this, of e w locked]
  show "waits_forever i s0 (snd (claim_steps e w locked db))"
    by (auto simp: write_steps_def claim_steps_def io_then_def split: prod.splits)
qed

lemma same_fits: "waits_forever i s0 db \<Longrightarrow> r \<in> set (sg_steps db) \<Longrightarrow> same_step r s \<Longrightarrow> fits i s0 s"
  by (simp add: waits_forever_def fits_def same_step_def)

lemma stays_runBatch:
  assumes "returns_rows e"
  shows "stays i s0 (runBatch e w locked actions)"
  unfolding runBatch_def claim_steps_def io_then_assoc
proof (rule stays_read)
  fix db :: "'a saga_db_scheme"
  assume "waits_forever i s0 db"
  then show "(\<forall>s \<in> set (fst (saga_claimBatch e w locked (sg_steps db))). fits i s0 s) \<and>
      (\<forall>r \<in> set (snd (saga_claimBatch e w locked (sg_steps db))). fits i s0 r)"
    using claimed_same [OF assms, of w locked "sg_steps db"] claimBatch_steps [of e w locked] same_fits
    unfolding same_steps_def from_steps_def by (metis prod.collapse)
next
  fix x
  assume *: "(\<forall>s \<in> set (fst x). fits i s0 s) \<and> (\<forall>r \<in> set (snd x). fits i s0 r)"
  obtain claimed rows where x: "x = (claimed, rows)" by (cases x)
  have "stays i s0 (io_write (\<lambda>db :: 'a saga_db_scheme. db\<lparr>sg_steps := rows\<rparr>))"
    using * by (auto simp: stays_def waits_forever_def x fits_def)
  then show "stays i s0 (io_then (case x of (claimed, rows) \<Rightarrow>
        io_then (io_write (\<lambda>db :: 'a saga_db_scheme. db\<lparr>sg_steps := rows\<rparr>)) (\<lambda>_. io_return claimed))
      (\<lambda>claimed. io_then (io_for (worker_execute e actions) claimed) (\<lambda>_. io_return (length claimed))))"
    using * unfolding x prod.case io_then_assoc
    by (intro stays_then stays_return_then stays_for stays_return stays_worker_execute) auto
qed

lemma stays_expireWaitSteps: "stays i s0 (expireWaitSteps e)"
  unfolding expireWaitSteps_def
proof (rule stays_read)
  show "\<forall>r \<in> set (findExpiredWaits (sc_now e) SWEEP_BATCH (sg_steps db)). sr_instanceId r \<noteq> i"
    if "waits_forever i s0 db" for db :: "'a saga_db_scheme"
    using that by (auto simp: waits_forever_def findExpiredWaits_def dest!: in_set_takeD)
qed (intro stays_for stays_onWaitTimeout, simp)

lemma stays_releaseStaleLeases: "stays i s0 (releaseStaleLeases e)"
  unfolding releaseStaleLeases_def
  by (intro stays_then stays_for stays_any_read stays_write_steps same_steps_marks)

lemma stays_tryStart: "stays i s0 (tryStart e ports definition event)"
proof (cases "gp_features ports (tg_companyId event)")
  case features: (Inr features)
  show ?thesis
  proof (cases "gp_settings ports (tg_companyId event)")
    case (Inr settings)
    show ?thesis
      unfolding tryStart_def Let_def features Inr prod.case sum.case
      by (intro stays_then stays_if stays_option stays_void stays_createAndAdvance stays_basic)
  qed (simp add: tryStart_def Let_def features stays_basic)
qed (simp add: tryStart_def Let_def stays_basic)

lemma stays_matched_targets: "stays i s0 (matched_targets e definition event steps targets)"
  unfolding findTarget_def
  by (induction steps arbitrary: targets)
    (simp_all only: matched_targets.simps findTarget_def, intro stays_basic, intro stays_if stays_then stays_basic, simp_all)

lemma stays_routeWait: "stays i s0 (routeWait e definition event)"
  unfolding routeWait_def Let_def
  by (intro stays_if stays_then stays_for stays_void stays_matched_targets stays_bufferForInstance stays_basic)

lemma stays_routeCancel: "stays i s0 (routeCancel e definition event)"
  unfolding routeCancel_def findTarget_def
proof (rule stays_then [OF stays_lift], rule stays_read)
  show "(\<forall>inst. found = Some inst \<longrightarrow> si_id inst \<noteq> i) \<Longrightarrow>
      stays i s0 (case found of None \<Rightarrow> io_return () | Some inst \<Rightarrow> cancel_saga e (si_id inst) CANCELLED_BY_EVENT)" for found
    by (cases found) (simp_all add: stays_return stays_cancel)
qed (auto simp: waits_forever_def findLiveByKey_def split: list.splits dest!: filter_eq_ConsD)

lemma stays_accept: "stays i s0 (saga_accept e ports env)"
  unfolding saga_accept_def route_event_def route_definition_def Let_def
  by (intro stays_if stays_then stays_option stays_for stays_tryStart stays_routeCancel stays_routeWait stays_basic)

lemma stays_tick: "returns_rows e \<Longrightarrow> waits_forever i s0 db \<Longrightarrow> waits_forever i s0 (tick e w locked actions db)"
  unfolding tick_def
  by (erule staysD [rotated]) (intro stays_then stays_runBatch stays_expireWaitSteps stays_releaseStaleLeases)

lemma move_stays: "saga_move db db' \<Longrightarrow> waits_forever i s0 db \<Longrightarrow> waits_forever i s0 db'"
proof (induction rule: saga_move.induct)
  case (Move_execute r db s e actions)
  then show ?case by (intro staysD [OF stays_worker_execute] same_fits)
next
  case (Move_expire r db s e)
  then have "sr_instanceId s \<noteq> i" by (auto simp: waits_forever_def same_step_def)
  then show ?case using Move_expire.prems by (intro staysD [OF stays_onWaitTimeout])
next
  case (Move_cleanup db e)
  then show ?case by (simp add: waits_forever_def cleanupInbox_def)
qed (simp_all add: stays_tick staysD stays_claim stays_releaseStaleLeases stays_accept)

lemma moves_stay: "saga_move\<^sup>*\<^sup>* db db' \<Longrightarrow> waits_forever i s0 db \<Longrightarrow> waits_forever i s0 db'"
  by (induction rule: rtranclp_induct) (auto intro: move_stays)

end
