(* ===== verification/Saga_Runs.thy ===== *)
theory Saga_Runs
  imports Saga_Hazards
begin

text \<open>
  What single runs of the engine establish: a saga is completed only with a row for every step,
  and how an expired wait is handled.
\<close>

section \<open>Results of the engine's programs\<close>

lemma io_thenE:
  assumes "io_then m k db = (Inr y, db')"
  obtains x db1 where "m db = (Inr x, db1)" "k x db1 = (Inr y, db')"
  using assms by (auto simp: io_then_def split: prod.splits sum.splits)

lemma findById_map_where:
  assumes "\<And>r. si_id (f r) = si_id r"
  shows "instance_findById i (map_where p f rows) = map_option (\<lambda>r. if p r then f r else r) (instance_findById i rows)"
  unfolding instance_findById_def find_first_def map_where_def
  by (induction rows) (use assms in \<open>auto split: if_splits\<close>)

lemma updateCas_hit:
  assumes "instance_findById (si_id inst) (sg_instances db) = Some inst"
  shows "updateCas e (si_id inst) (si_version inst) p db =
    (Inr (Some (patched e p (si_version inst) inst)),
     db\<lparr>sg_instances := map_where (si_current (si_id inst) (si_version inst)) (patched e p (si_version inst)) (sg_instances db)\<rparr>)"
proof -
  have "inst \<in> set (sg_instances db)" using findById_facts [OF assms] by simp
  then have "filter (si_current (si_id inst) (si_version inst)) (sg_instances db) \<noteq> []"
    by (auto simp: filter_empty_conv cas_hit_def)
  moreover have "instance_findById (si_id inst)
      (map_where (si_current (si_id inst) (si_version inst)) (patched e p (si_version inst)) (sg_instances db)) =
    Some (patched e p (si_version inst) inst)"
    using assms by (subst findById_map_where) (simp_all add: patched_def cas_hit_def)
  ultimately show ?thesis by (simp add: updateCas_run Let_def)
qed

lemma createIfAbsent_result:
  assumes "createIfAbsent e x db = (Inr r, db')"
  shows "r \<in> set (sg_steps db')" "sr_instanceId r = is_instanceId x" "sr_stepId r = is_stepId x" "sr_kind r = is_kind x"
    "set (sg_steps db) \<subseteq> set (sg_steps db')" "sg_instances db' = sg_instances db"
  using assms
  by (auto simp: createIfAbsent_run step_row_def findByInstanceStep_def find_first_def dest!: find_Some_iff2
      split: option.splits)

section \<open>Completion\<close>

definition settled :: "string \<Rightarrow> saga_step list \<Rightarrow> saga_plan_step \<Rightarrow> bool" where
  "settled i rows step \<longleftrightarrow> (\<exists>r \<in> set rows. sr_instanceId r = i \<and> sr_stepId r = pl_id step \<and>
     (truthy (pl_if step) \<or> pl_kind step = WAIT_KIND \<or> (sr_kind r = DO_KIND \<and> sr_status r \<in> {S_DONE, S_SKIPPED})))"

lemma settled_mono: "settled i rows step \<Longrightarrow> set rows \<subseteq> set rows' \<Longrightarrow> settled i rows' step"
  by (auto simp: settled_def)

lemma consume_loop_result:
  assumes "consume_loop e inst step scope rows db = (Inr (Some ev), db')"
  shows "(\<exists>r \<in> set (sg_steps db'). sr_instanceId r = si_id inst \<and> sr_stepId r = pl_id step) \<and>
    set (sg_steps db) \<subseteq> set (sg_steps db') \<and> sg_instances db' = sg_instances db"
  using assms
proof (induction rows)
  case (Cons row rows)
  obtain m where m: "event_matches (sc_host e) inst step scope row = Inr m"
    using Cons.prems by (cases "event_matches (sc_host e) inst step scope row") auto
  show ?case
  proof (cases m)
    case True
    with Cons.prems m obtain r db1 where "createIfAbsent e (step_input inst step WAIT_KIND None S_DONE (sc_now e) None
        (Some [(''eventId'', VStr (sx_eventId row))])) db = (Inr r, db1)"
      and "sg_steps db' = sg_steps db1" "sg_instances db' = sg_instances db1"
      by (auto elim!: io_thenE)
    then show ?thesis using createIfAbsent_result by (fastforce simp: step_input_def)
  qed (use Cons m in simp)
qed simp

lemma consume_loop_none:
  "consume_loop e inst step scope rows db = (Inr None, db') \<Longrightarrow> db' = db"
proof (induction rows)
  case (Cons row rows)
  obtain m where m: "event_matches (sc_host e) inst step scope row = Inr m"
    using Cons.prems by (cases "event_matches (sc_host e) inst step scope row") auto
  then show ?case using Cons by (cases m) (auto elim!: io_thenE)
qed simp

lemma consumeWait_result:
  assumes "consumeWait e inst step scope db = (Inr v, db')"
  shows "set (sg_steps db) \<subseteq> set (sg_steps db')" "sg_instances db' = sg_instances db"
    "v \<noteq> None \<Longrightarrow> (\<exists>r \<in> set (sg_steps db'). sr_instanceId r = si_id inst \<and> sr_stepId r = pl_id step)"
  using assms
  by (cases v; auto simp: consumeWait_def split: option.splits dest: consume_loop_none consume_loop_result)+

lemma no_final_patch:
  assumes "updateCas e (si_id inst) (si_version inst) p db = (Inr (Some x), db')" "ip_status p = Some s"
    and "instance_findById (si_id inst) (sg_instances db) = Some inst"
  shows "si_status x = s"
  using assms by (auto simp: updateCas_hit patched_def)

text \<open>How the loop goes on to the next step when it ends with the saga completed.\<close>

definition goes_on :: "saga_call \<Rightarrow> saga_instance \<Rightarrow> saga_plan_step \<Rightarrow> saga_plan_step list \<Rightarrow> saga_instance \<Rightarrow>
    'a saga_db_scheme \<Rightarrow> 'a saga_db_scheme \<Rightarrow> bool" where
  "goes_on e inst step steps x db db' \<longleftrightarrow> (\<exists>ss' cursor' db1.
     advance_loop e inst ss' cursor' steps db1 = (Inr (Some x), db') \<and> set (sg_steps db) \<subseteq> set (sg_steps db1) \<and>
     sg_instances db1 = sg_instances db \<and> settled (si_id inst) (sg_steps db1) step)"

lemma bypass_goes_on:
  assumes "io_then (recordBypass e inst step) (\<lambda>_. advance_loop e inst ss cursor steps) db = (Inr (Some x), db')"
    and "truthy (pl_if step)"
  shows "goes_on e inst step steps x db db'"
proof -
  obtain r db1 where c: "recordBypass e inst step db = (Inr r, db1)"
    and n: "advance_loop e inst ss cursor steps db1 = (Inr (Some x), db')"
    using assms(1) by (rule io_thenE)
  have "settled (si_id inst) (sg_steps db1) step"
    using createIfAbsent_result [OF c [unfolded recordBypass_def]] assms(2) by (auto simp: settled_def step_input_def)
  then show ?thesis
    using n createIfAbsent_result(5,6) [OF c [unfolded recordBypass_def]] unfolding goes_on_def by blast
qed

lemma wait_goes_on:
  assumes "io_then (consumeWait e inst step scope) (\<lambda>consumed.
       case consumed of
         Some eventId \<Rightarrow> advance_loop e inst (f eventId) cursor steps
       | None \<Rightarrow> io_then (io_lift t) (\<lambda>runAt. io_then (createIfAbsent e (g runAt)) (\<lambda>_.
           updateCas e (si_id inst) (si_version inst) p))) db = (Inr (Some x), db')"
    and "ip_status p = Some s" "si_status x \<noteq> s" "pl_kind step = WAIT_KIND"
    and found: "instance_findById (si_id inst) (sg_instances db) = Some inst"
  shows "goes_on e inst step steps x db db'"
proof -
  obtain consumed db1 where c: "consumeWait e inst step scope db = (Inr consumed, db1)"
    and n: "(case consumed of
         Some eventId \<Rightarrow> advance_loop e inst (f eventId) cursor steps
       | None \<Rightarrow> io_then (io_lift t) (\<lambda>runAt. io_then (createIfAbsent e (g runAt)) (\<lambda>_.
           updateCas e (si_id inst) (si_version inst) p))) db1 = (Inr (Some x), db')"
    using assms(1) by (rule io_thenE)
  note facts = consumeWait_result [OF c]
  show ?thesis
  proof (cases consumed)
    case None
    with n obtain runAt r db2 where i: "createIfAbsent e (g runAt) db1 = (Inr r, db2)"
      and u: "updateCas e (si_id inst) (si_version inst) p db2 = (Inr (Some x), db')"
      by (auto elim!: io_thenE simp: io_lift_def)
    have "instance_findById (si_id inst) (sg_instances db2) = Some inst"
      using createIfAbsent_result(6) [OF i] facts(2) found by metis
    from no_final_patch [OF u assms(2) this] show ?thesis using assms(3) by simp
  next
    case (Some ev)
    then show ?thesis using n facts assms(4) by (auto simp: goes_on_def settled_def)
  qed
qed

lemma action_goes_on:
  assumes "io_then (io_lift inp) (\<lambda>input. io_then (createIfAbsent e (step_input inst step DO_KIND a S_PENDING t input None))
         (\<lambda>created.
         if sr_status created = S_DONE then advance_loop e inst (f created) cursor steps
         else if sr_status created = S_SKIPPED then advance_loop e inst ss cursor steps
         else updateCas e (si_id inst) (si_version inst) p)) db = (Inr (Some x), db')"
    and "ip_status p = Some s" "si_status x \<noteq> s"
    and found: "instance_findById (si_id inst) (sg_instances db) = Some inst"
  shows "goes_on e inst step steps x db db'"
proof -
  obtain input r db1 where c: "createIfAbsent e (step_input inst step DO_KIND a S_PENDING t input None) db = (Inr r, db1)"
    and n: "(if sr_status r = S_DONE then advance_loop e inst (f r) cursor steps
         else if sr_status r = S_SKIPPED then advance_loop e inst ss cursor steps
         else updateCas e (si_id inst) (si_version inst) p) db1 = (Inr (Some x), db')"
    using assms(1) by (auto elim!: io_thenE simp: io_lift_def)
  note facts = createIfAbsent_result [OF c]
  show ?thesis
  proof (cases "sr_status r \<in> {S_DONE, S_SKIPPED}")
    case True
    then have "settled (si_id inst) (sg_steps db1) step"
      using facts(1-4) by (auto simp: settled_def step_input_def)
    then show ?thesis using True n facts(5,6) unfolding goes_on_def by (auto split: if_splits)
  next
    case False
    then have "updateCas e (si_id inst) (si_version inst) p db1 = (Inr (Some x), db')" using n by simp
    from no_final_patch [OF this assms(2)] show ?thesis using assms(3) found facts(6) by simp
  qed
qed

lemma advance_step_goes_on:
  assumes run: "advance_loop e inst ss cursor (step # steps) db = (Inr (Some x), db')" and "si_status x = I_COMPLETED"
    and "instance_findById (si_id inst) (sg_instances db) = Some inst"
  shows "goes_on e inst step steps x db db'"
proof (cases "if truthy (pl_if step) then evaluateCondition (sc_host e) (pl_if step) (saga_scope inst ss) else Inr True")
  case (Inl er)
  then show ?thesis using run by simp
next
  case rel: (Inr relevant)
  note run' = run [unfolded advance_loop.simps rel io_run(8)]
  consider (bypass) "\<not> relevant" | (wait) "relevant" "pl_kind step = WAIT_KIND" | (act) "relevant" "pl_kind step \<noteq> WAIT_KIND"
    by blast
  then show ?thesis
  proof cases
    case bypass
    then have "truthy (pl_if step)" using rel by (auto split: if_splits)
    moreover have "io_then (recordBypass e inst step) (\<lambda>_. advance_loop e inst ss (cursor + 1) steps) db = (Inr (Some x), db')"
      using run' bypass by (simp only: simp_thms if_True if_False)
    ultimately show ?thesis by (intro bypass_goes_on)
  next
    case wait
    show ?thesis
      using run' wait(1) assms(2) unfolding wait(2)
      by (intro wait_goes_on [OF _ _ _ wait(2) assms(3), where s = I_WAITING]) (simp_all only: simp_thms if_True if_False, simp_all)
  next
    case act
    show ?thesis
      using run' act assms(2)
      by (intro action_goes_on [OF _ _ _ assms(3), where s = I_RUNNING]) (simp_all only: simp_thms if_True if_False, simp_all)
  qed
qed

lemma advance_loop_completes:
  assumes "advance_loop e inst ss cursor steps db = (Inr (Some x), db')" and "si_status x = I_COMPLETED"
    and "instance_findById (si_id inst) (sg_instances db) = Some inst"
  shows "set (sg_steps db) \<subseteq> set (sg_steps db') \<and> (\<forall>step \<in> set steps. settled (si_id inst) (sg_steps db') step)"
  using assms
proof (induction steps arbitrary: ss cursor db)
  case Nil
  then show ?case
    by (auto simp: saga_complete_def saga_uuid_def updateCas_hit split: option.splits elim!: io_thenE)
next
  case (Cons step steps)
  obtain ss' cursor' db1 where run: "advance_loop e inst ss' cursor' steps db1 = (Inr (Some x), db')"
    and rows: "set (sg_steps db) \<subseteq> set (sg_steps db1)" and same: "sg_instances db1 = sg_instances db"
    and fin: "settled (si_id inst) (sg_steps db1) step"
    using advance_step_goes_on [OF Cons.prems] unfolding goes_on_def by blast
  have "set (sg_steps db1) \<subseteq> set (sg_steps db') \<and> (\<forall>step \<in> set steps. settled (si_id inst) (sg_steps db') step)"
    using Cons.IH [OF run] Cons.prems(2,3) same by simp
  then show ?case using rows settled_mono [OF fin] by auto
qed


end
