(* ===== verification/Saga_Timeouts.thy ===== *)
theory Saga_Timeouts
  imports Saga_Runs
begin

text \<open>
  Expired waits and events across tenants. Answering a wait does not settle its row, and the sweep
  cannot fail it either; so the wait times out although it was answered, and a timeout that skips
  sets a compensating saga running again. The search for the saga of an event does not look at
  its tenant.
\<close>

section \<open>Compensation\<close>

lemma compensate_loop_result:
  assumes "compensate_loop e inst reason err rows scope steps db = (Inr v, db')"
    and "instance_findById (si_id inst) (sg_instances db) = Some inst"
  shows "(\<exists>x. instance_findById (si_id inst) (sg_instances db') = Some x \<and>
      si_status x \<in> {I_COMPENSATING, I_FAILED_MANUAL} \<and> si_reason x = Some reason) \<and> set (sg_steps db) \<subseteq> set (sg_steps db')"
  using assms
proof (induction steps arbitrary: db)
  case Nil
  then show ?case
    by (auto simp: updateCas_hit findById_map_where patched_def cas_hit_def no_patch_def)
next
  case (Cons step steps)
  show ?case
  proof (cases "completed_do rows step")
    case None
    then show ?thesis using Cons by simp
  next
    case (Some row)
    show ?thesis
    proof (cases "truthy (pl_undo step)")
      case False
      then show ?thesis using Cons.prems Some
        by (auto simp: updateCas_hit findById_map_where patched_def cas_hit_def no_patch_def)
    next
      case True
      then obtain x r db1 where i: "createIfAbsent e x db = (Inr r, db1)"
        and n: "compensate_loop e inst reason err rows scope steps db1 = (Inr v, db')"
        using Cons.prems(1) Some by (auto elim!: io_thenE simp: io_lift_def)
      note facts = createIfAbsent_result [OF i]
      have "instance_findById (si_id inst) (sg_instances db1) = Some inst" using facts(6) Cons.prems(2) by simp
      from Cons.IH [OF n this] show ?thesis using facts(5) by blast
    qed
  qed
qed

lemma startCompensation_result:
  assumes "startCompensation e inst k reason err db = (Inr v, db')"
    and "instance_findById (si_id inst) (sg_instances db) = Some inst"
  shows "(\<exists>x. instance_findById (si_id inst) (sg_instances db') = Some x \<and>
      si_status x \<in> {I_COMPENSATING, I_FAILED_MANUAL} \<and> si_reason x = Some reason) \<and> set (sg_steps db) \<subseteq> set (sg_steps db')"
proof (cases "past_pivot inst k")
  case True
  then show ?thesis using assms
    by (auto simp: startCompensation_def updateCas_hit findById_map_where patched_def cas_hit_def no_patch_def)
next
  case False
  then have "compensate_loop e inst reason err (findByInstance (si_id inst) (sg_steps db))
      (saga_scope inst (scope_steps (findByInstance (si_id inst) (sg_steps db))))
      (rev (take k (sp_steps (si_plan inst)))) db = (Inr v, db')"
    using assms(1) by (simp add: startCompensation_def load_steps_def)
  then show ?thesis using assms(2) by (rule compensate_loop_result)
qed

section \<open>A wait that was answered\<close>

lemma markFailed_miss:
  "(\<And>q. q \<in> set rows \<Longrightarrow> sr_id q = i \<Longrightarrow> sr_status q \<noteq> S_RUNNING) \<Longrightarrow> step_markFailed i err rows = rows"
  unfolding step_markFailed_def by (subst update_many_miss) auto

lemma consume_existing:
  assumes "findByInstanceStep (si_id inst) (pl_id step) WAIT_KIND (sg_steps db) = Some row"
  shows "sg_steps (snd (consumeWait e inst step scope db)) = sg_steps db"
proof -
  have "sg_steps (snd (consume_loop e inst step scope rows db)) = sg_steps db" for rows
  proof (induction rows)
    case (Cons r rows)
    then show ?case
      using assms by (cases "event_matches (sc_host e) inst step scope r")
        (auto simp: io_then_def io_lift_def createIfAbsent_run step_input_def)
  qed simp
  then show ?thesis by (simp add: consumeWait_def split: option.splits)
qed

text \<open>
  A wait that was answered by an event keeps its pending row, and when the row's time is over
  the sweep compensates the saga with reason TIMEOUT, however far it has come meanwhile; the row is
  still pending after that, so every later sweep handles it again.
\<close>
theorem answered_wait_times_out:
  assumes "findByInstanceStep (si_id inst) (pl_id step) WAIT_KIND (sg_steps db) = Some row"
    and "consumeWait e inst step scope db = (Inr (Some eventId), db1)"
    and "sg_steps db2 = sg_steps db1" and "\<forall>q \<in> set (sg_steps db). sr_id q = sr_id row \<longrightarrow> sr_status q = S_PENDING"
    and "instance_findById (si_id inst) (sg_instances db2) = Some inst2" and "\<not> live_terminal (si_status inst2)"
    and "List.find (\<lambda>s. pl_id s = pl_id step) (sp_steps (si_plan inst2)) = Some step2"
    and "pl_onTimeout step2 = Some T_COMPENSATE"
    and "onWaitTimeout e2 row db2 = (Inr (), db3)"
  shows "(\<exists>x. instance_findById (si_id inst) (sg_instances db3) = Some x \<and>
      si_status x \<in> {I_COMPENSATING, I_FAILED_MANUAL} \<and> si_reason x = Some TIMEOUT) \<and> row \<in> set (sg_steps db3)"
proof -
  have steps: "sg_steps db2 = sg_steps db" using assms(2,3) consume_existing [OF assms(1), of e scope] by simp
  have row: "row \<in> set (sg_steps db)" "sr_instanceId row = si_id inst" "sr_stepId row = pl_id step"
    using assms(1) by (auto simp: findByInstanceStep_def find_first_def dest!: find_Some_iff2)
  have id2: "si_id inst2 = si_id inst" using findById_facts [OF assms(5)] by simp
  have "step_markFailed (sr_id row) (timed_out row) (sg_steps db2) = sg_steps db2"
    by (rule markFailed_miss) (use assms(4) steps in auto)
  then have same: "db2\<lparr>sg_steps := step_markFailed (sr_id row) (timed_out row) (sg_steps db2)\<rparr> = db2" by simp
  obtain v where "startCompensation e2 inst2 (coalesce (step_index inst2 (pl_id step)) (si_cursor inst2)) TIMEOUT
      (timed_out row) db2 = (Inr v, db3)"
    using assms(5-9) row same
    by (auto simp: onWaitTimeout_def with_instance_def io_simps Let_def io_void_def elim!: io_thenE)
  from startCompensation_result [OF this] show ?thesis
    using assms(5) id2 steps row(1) by auto
qed

section \<open>A timeout that skips\<close>

definition underway :: "string \<Rightarrow> 'a saga_db_scheme \<Rightarrow> bool" where
  "underway i db \<longleftrightarrow> (\<exists>x. instance_findById i (sg_instances db) = Some x \<and> si_status x \<in> {I_RUNNING, I_WAITING, I_COMPLETED})"

definition stays_underway :: "string \<Rightarrow> ('x, 'a saga_db_scheme) io \<Rightarrow> bool" where
  "stays_underway i m \<longleftrightarrow> (\<forall>db. underway i db \<longrightarrow> underway i (snd (m db)))"

interpretation underway_rel: io_relation "\<lambda>db db' :: 'a saga_db_scheme. underway i db \<longrightarrow> underway i db'" for i
  by unfold_locales auto

lemma underway_iff: "stays_underway i m \<longleftrightarrow> io_rel (\<lambda>db db'. underway i db \<longrightarrow> underway i db') m"
  by (simp add: stays_underway_def io_rel_def)

lemma underway_then: "stays_underway i m \<Longrightarrow> (\<And>x. stays_underway i (k x)) \<Longrightarrow> stays_underway i (io_then m k)"
  unfolding underway_iff by (rule underway_rel.rel_then)

lemma underway_if: "stays_underway i m \<Longrightarrow> stays_underway i m' \<Longrightarrow> stays_underway i (if b then m else m')"
  by simp

lemma underway_option:
  "stays_underway i m \<Longrightarrow> (\<And>x. stays_underway i (f x)) \<Longrightarrow> stays_underway i (case v of None \<Rightarrow> m | Some x \<Rightarrow> f x)"
  by (cases v) simp_all

lemma underway_quiet: "quiet m \<Longrightarrow> stays_underway i m"
  by (simp add: quiet_def stays_underway_def underway_def)

lemma underway_updateCas:
  assumes "ip_status p = Some s" "s \<in> {I_RUNNING, I_WAITING, I_COMPLETED}"
  shows "stays_underway i (updateCas e j v p)"
proof -
  have "underway i (db\<lparr>sg_instances := map_where (si_current j v) (patched e p v) (sg_instances db)\<rparr>)"
    if under: "underway i db" for db :: "'a saga_db_scheme"
  proof -
    from under obtain x where x: "instance_findById i (sg_instances db) = Some x"
      and st: "si_status x \<in> {I_RUNNING, I_WAITING, I_COMPLETED}" by (auto simp: underway_def)
    have "instance_findById i (map_where (si_current j v) (patched e p v) (sg_instances db)) =
        Some (if si_current j v x then patched e p v x else x)"
      using x by (subst findById_map_where) (simp_all add: patched_def)
    moreover have "si_status (patched e p v x) = s" using assms(1) by (simp add: patched_def)
    ultimately show ?thesis using st assms(2) by (simp add: underway_def)
  qed
  then show ?thesis by (simp add: stays_underway_def updateCas_run Let_def)
qed

lemma underway_advance_loop: "stays_underway i (advance_loop e inst ss cursor steps)"
proof (induction steps arbitrary: ss cursor)
  case Nil
  have "quiet (case (x, sp_onComplete (si_plan inst)) of
       (Some _, Some emit) \<Rightarrow>
         io_then (saga_uuid e) (\<lambda>eventId. io_then (saga_uuid e) (\<lambda>rowId.
         io_then (io_write (\<lambda>db. db\<lparr>pf_outbox := append_outbox_event (sc_now e) rowId (sc_ctx e)
            (saga_emitted e inst eventId emit) ''Saga'' (si_id inst) None (pf_outbox db)\<rparr>)) (\<lambda>_. io_return x)))
     | _ \<Rightarrow> io_return x)" for x
    by (cases x; cases "sp_onComplete (si_plan inst)"; simp; intro quiet_then quiet_basic quiet_write; simp)
  then show ?case
    unfolding advance_loop.simps saga_complete_def
    by (intro underway_then underway_updateCas [where s = I_COMPLETED] underway_quiet) simp_all
next
  case (Cons step steps)
  have "stays_underway i (updateCas e j v (no_patch\<lparr>ip_cursor := c, ip_status := Some I_WAITING, ip_waitingEvent := w\<rparr>))"
    and "stays_underway i (updateCas e j v (no_patch\<lparr>ip_cursor := c, ip_status := Some I_RUNNING, ip_waitingEvent := w\<rparr>))"
    for j v c w by (rule underway_updateCas, simp, simp)+
  then show ?case
    unfolding advance_loop.simps
    by (intro underway_then underway_if underway_option Cons.IH) (simp_all add: underway_quiet quiet_intros)
qed

lemma underway_advance: "stays_underway i (advance e j)"
  unfolding advance_def
  by (intro underway_then underway_if underway_option underway_advance_loop underway_quiet quiet_basic)

lemma underway_void_advance: "stays_underway i (io_void (advance e j))"
  unfolding io_void_def by (intro underway_then underway_advance underway_quiet quiet_return)

lemma underwayD: "stays_underway i m \<Longrightarrow> underway i db \<Longrightarrow> underway i (snd (m db))"
  by (simp add: stays_underway_def)

text \<open>
  A wait of a compensating saga whose timeout means to skip puts the saga back on its way:
  after the sweep it is RUNNING, WAITING or even COMPLETED, whatever has been undone already.
\<close>
theorem skipped_timeout_resumes_compensating_saga:
  assumes "instance_findById (sr_instanceId row) (sg_instances db) = Some inst" and "si_status inst = I_COMPENSATING"
    and "List.find (\<lambda>s. pl_id s = sr_stepId row) (sp_steps (si_plan inst)) = Some step"
    and "pl_onTimeout step \<noteq> Some T_COMPENSATE"
  shows "\<exists>x. instance_findById (sr_instanceId row) (sg_instances (snd (onWaitTimeout e row db))) = Some x \<and>
    si_status x \<in> {I_RUNNING, I_WAITING, I_COMPLETED}"
proof -
  let ?p = "no_patch\<lparr>ip_cursor := Some (case step_index inst (sr_stepId row) of None \<Rightarrow> si_cursor inst | Some k \<Rightarrow> k + 1),
      ip_waitingEvent := Some None, ip_status := Some I_RUNNING\<rparr>"
  let ?db = "db\<lparr>sg_steps := step_markFailed (sr_id row) (timed_out row) (sg_steps db)\<rparr>"
  let ?db1 = "?db\<lparr>sg_instances := map_where (si_current (si_id inst) (si_version inst))
      (patched e ?p (si_version inst)) (sg_instances db)\<rparr>"
  have i: "si_id inst = sr_instanceId row" using findById_facts [OF assms(1)] by simp
  have hit: "updateCas e (si_id inst) (si_version inst) ?p ?db = (Inr (Some (patched e ?p (si_version inst) inst)), ?db1)"
    using updateCas_hit [of inst ?db e ?p] assms(1) i by simp
  have run: "onWaitTimeout e row db = io_void (advance e (si_id inst)) ?db1"
    using assms i
    by (simp add: onWaitTimeout_def with_instance_def io_then_Inr [OF load_run] Let_def live_terminal_def
        io_then_Inr [of "updateCas e (sr_instanceId row) (si_version inst) ?p", OF hit [unfolded i]])
  have "underway (sr_instanceId row) ?db1"
    using assms(1) i by (simp add: underway_def findById_map_where patched_def cas_hit_def)
  then have "underway (sr_instanceId row) (snd (io_void (advance e (si_id inst)) ?db1))"
    by (rule underwayD [OF underway_void_advance])
  then show ?thesis unfolding run by (simp add: underway_def)
qed

section \<open>Events of another tenant\<close>

text \<open>
  The saga of a cancel event is looked up by its key alone: an event of one tenant cancels the
  live saga of another tenant that has the same correlation key.
\<close>
theorem cancel_event_crosses_tenants:
  assumes "findActiveByEvent (tg_eventName ev) (tg_eventVersion ev) (sg_definitions db) = None"
    and "listActive (sg_definitions db) = [d]" and "isCancelEvent d ev"
    and "renderTemplate (sc_host e) (ss_key (sd_start (df_definition d))) (event_scope ev) = Inr (si_correlationKey inst)"
    and "findLiveByKey (df_sagaKey d) (si_correlationKey inst) (sg_instances db) = inst # others"
    and "instance_findById (si_id inst) (sg_instances db) = Some inst"
    and "\<forall>r \<in> set (sg_steps db). sr_instanceId r = si_id inst \<longrightarrow> sr_status r \<noteq> S_DONE"
    and "\<forall>s \<in> set (sd_steps (df_definition d)). st_waitFor s = None"
    and "si_tenantId inst \<noteq> tg_tenantId ev"
  shows "\<exists>x. instance_findById (si_id inst) (sg_instances (snd (route_event e ports ev db))) = Some x \<and>
    si_tenantId x \<noteq> tg_tenantId ev \<and> si_status x = I_CANCELLED"
proof -
  let ?p = "no_patch\<lparr>ip_status := Some I_CANCELLED, ip_reason := Some (Some CANCELLED_BY_EVENT)\<rparr>"
  let ?db1 = "db\<lparr>sg_instances := map_where (si_current (si_id inst) (si_version inst))
      (patched e ?p (si_version inst)) (sg_instances db)\<rparr>"
  have live: "si_status inst \<in> {I_RUNNING, I_WAITING}"
    using assms(5) by (auto simp: findLiveByKey_def dest!: filter_eq_ConsD)
  have "\<not> list_ex (\<lambda>r. sr_kind r = DO_KIND \<and> sr_status r = S_DONE) (findByInstance (si_id inst) (sg_steps db))"
    using assms(7) by (auto simp: list_ex_iff findByInstance_def)
  then have cancel: "cancel_saga e (si_id inst) CANCELLED_BY_EVENT db = (Inr (), ?db1)"
    using live assms(6)
    by (auto simp: cancel_saga_def with_instance_def io_then_Inr [OF load_run] load_steps_def live_terminal_def
        io_void_def io_then_def updateCas_hit)
  have wait: "routeWait e d ev = io_return ()"
    using assms(8) by (auto simp: routeWait_def Let_def filter_empty_conv split: option.splits)
  have "route_definition e ev d db = (Inr (), ?db1)"
    using assms(3-5) cancel
    by (simp add: route_definition_def routeCancel_def findTarget_def wait io_then_assoc
        io_then_Inr [of "cancel_saga e (si_id inst) CANCELLED_BY_EVENT", OF cancel])
  then have "snd (route_event e ports ev db) = ?db1"
    using assms(1,2) by (simp add: route_event_def io_then_def)
  then show ?thesis
    using assms(6,9) by (simp add: findById_map_where patched_def cas_hit_def)
qed

end
