(* ===== verification/Saga_Examples.thy ===== *)
theory Saga_Examples
  imports Saga_Timeouts
begin

text \<open>Concrete runs for the theorems on single runs.\<close>

lemma demo_row_fields [simp]:
  "sr_id (demo_row i s k st c) = i" "sr_instanceId (demo_row i s k st c) = ''I''" "sr_stepId (demo_row i s k st c) = s"
  "sr_kind (demo_row i s k st c) = k" "sr_status (demo_row i s k st c) = st" "sr_output (demo_row i s k st c) = None"
  by (simp_all add: demo_row_def)

lemma demo_instance_fields [simp]:
  "si_id (demo_instance st n ss) = ''I''" "si_status (demo_instance st n ss) = st" "si_cursor (demo_instance st n ss) = n"
  "sp_steps (si_plan (demo_instance st n ss)) = ss" "si_tenantId (demo_instance st n ss) = ''T''"
  "si_sagaKey (demo_instance st n ss) = ''K''" "si_correlationKey (demo_instance st n ss) = ''G1''"
  by (simp_all add: demo_instance_def)

lemma demo_db_fields [simp]:
  "sg_instances (demo_db is ss) = is" "sg_steps (demo_db is ss) = ss" "sg_inbox (demo_db is ss) = []"
  "sg_definitions (demo_db is ss) = []"
  by (simp_all add: demo_db_def)

lemma demo_found [simp]: "instance_findById ''I'' (demo_instance st n ss # rows) = Some (demo_instance st n ss)"
  by (simp add: instance_findById_def find_first_def)

lemma demo_step_fields [simp]:
  "pl_kind (do_step i) = DO_KIND" "pl_pivot (do_step i) = False" "pl_id (wait_step i t) = i"
  "pl_kind (wait_step i t) = WAIT_KIND" "pl_pivot (wait_step i t) = False" "pl_onTimeout (wait_step i t) = t"
  by (simp_all add: do_step_def wait_step_def)


definition demo_event :: saga_inbox where
  "demo_event = \<lparr>sx_id = ''X'', sx_tenantId = ''T'', sx_companyId = ''C'', sx_consumer = ''K:I'', sx_eventId = ''E'',
     sx_eventName = ''Approved'', sx_eventVersion = 1, sx_correlationKey = Some ''G1'', sx_instanceId = Some ''I'',
     sx_payload = [], sx_status = X_BUFFERED, sx_reason = None, sx_receivedAt = 4000, sx_processedAt = None\<rparr>"

text \<open>The event answers the wait and the saga goes on; the sweep compensates it nevertheless.\<close>

theorem answered_wait_times_out_witness:
  "let inst = demo_instance I_WAITING 0 [wait_step ''a'' (Some T_COMPENSATE), do_step ''b''];
       db = (demo_db [inst] [demo_row ''1'' ''a'' WAIT_KIND S_PENDING ''C''])\<lparr>sg_inbox := [demo_event]\<rparr>;
       db1 = snd (consumeWait demo_call inst (wait_step ''a'' (Some T_COMPENSATE)) [] db);
       db3 = snd (onWaitTimeout demo_call (demo_row ''1'' ''a'' WAIT_KIND S_PENDING ''C'')
               (db1\<lparr>sg_instances := [demo_instance I_RUNNING 1 [wait_step ''a'' (Some T_COMPENSATE), do_step ''b'']]\<rparr>))
   in sx_status (hd (sg_inbox db1)) = X_CONSUMED \<and>
      (\<exists>x. instance_findById ''I'' (sg_instances db3) = Some x \<and> si_status x \<in> {I_COMPENSATING, I_FAILED_MANUAL} \<and>
        si_reason x = Some TIMEOUT)"
proof -
  let ?w = "wait_step ''a'' (Some T_COMPENSATE)" and ?row = "demo_row ''1'' ''a'' WAIT_KIND S_PENDING ''C''"
  let ?inst = "demo_instance I_WAITING 0 [?w, do_step ''b'']" and ?inst2 = "demo_instance I_RUNNING 1 [?w, do_step ''b'']"
  let ?db = "(demo_db [?inst] [?row])\<lparr>sg_inbox := [demo_event]\<rparr>"
  let ?db1 = "snd (consumeWait demo_call ?inst ?w [] ?db)"
  let ?db2 = "?db1\<lparr>sg_instances := [?inst2]\<rparr>"
  let ?db3 = "snd (onWaitTimeout demo_call ?row ?db2)"
  have exists: "findByInstanceStep ''I'' ''a'' WAIT_KIND [?row] = Some ?row"
    by (simp add: findByInstanceStep_def find_first_def)
  have consume: "consumeWait demo_call ?inst ?w [] ?db =
      (Inr (Some ''E''), ?db\<lparr>sg_inbox := [demo_event\<lparr>sx_status := X_CONSUMED, sx_processedAt := Some 5000\<rparr>]\<rparr>)"
    by (simp add: consumeWait_def wait_step_def do_step_def listBuffered_def demo_event_def event_matches_def
        io_then_def io_lift_def createIfAbsent_run step_input_def exists markConsumed_def update_many_def map_where_def
        demo_call_def)
  have timeout: "onWaitTimeout demo_call ?row ?db2 = (Inr (), ?db3)"
    by (simp add: onWaitTimeout_def with_instance_def io_simps Let_def live_terminal_def step_index_def
        startCompensation_def past_pivot_def load_steps_def io_void_def io_then_def consume step_markFailed_def
        update_many_def map_where_def updateCas_run)
  have "\<exists>x. instance_findById ''I'' (sg_instances ?db3) = Some x \<and> si_status x \<in> {I_COMPENSATING, I_FAILED_MANUAL} \<and>
        si_reason x = Some TIMEOUT"
    using answered_wait_times_out [of ?inst ?w ?db ?row demo_call "[]" "''E''" ?db1 ?db2 ?inst2 ?w demo_call ?db3]
      exists consume timeout by (simp add: live_terminal_def)
  then show ?thesis by (simp add: Let_def consume)
qed

theorem skipped_timeout_resumes_compensating_saga_witness:
  "\<exists>x. instance_findById ''I'' (sg_instances (snd (onWaitTimeout demo_call (demo_row ''1'' ''b'' WAIT_KIND S_PENDING ''C'')
       (demo_db [demo_instance I_COMPENSATING 1 [do_step ''a'', wait_step ''b'' (Some T_SKIP)]]
          [demo_row ''0'' ''a'' UNDO_KIND S_DONE ''C'', demo_row ''1'' ''b'' WAIT_KIND S_PENDING ''C''])))) = Some x \<and>
     si_status x \<in> {I_RUNNING, I_WAITING, I_COMPLETED}"
  using skipped_timeout_resumes_compensating_saga [of "demo_row ''1'' ''b'' WAIT_KIND S_PENDING ''C''"
      "demo_db [demo_instance I_COMPENSATING 1 [do_step ''a'', wait_step ''b'' (Some T_SKIP)]]
          [demo_row ''0'' ''a'' UNDO_KIND S_DONE ''C'', demo_row ''1'' ''b'' WAIT_KIND S_PENDING ''C'']"
      "demo_instance I_COMPENSATING 1 [do_step ''a'', wait_step ''b'' (Some T_SKIP)]" "wait_step ''b'' (Some T_SKIP)" demo_call]
  by simp

definition demo_definition :: saga_definition where
  "demo_definition = \<lparr>df_id = ''D'', df_sagaKey = ''K'', df_version = 1, df_eventName = ''Posted'', df_eventVersion = 1,
     df_status = D_ACTIVE, df_definition = \<lparr>sd_key = ''K'', sd_version = 1, sd_requires = None,
       sd_start = \<lparr>ss_event = \<lparr>er_name = ''Posted'', er_version = 1\<rparr>, ss_when = None,
         ss_key = ''{{event.grnId}}'', ss_context = None\<rparr>,
       sd_cancelOn = Some [\<lparr>er_name = ''Cancelled'', er_version = 1\<rparr>], sd_steps = [], sd_onComplete = None\<rparr>,
     df_createdBy = None, df_createdAt = 0\<rparr>"

definition demo_trigger :: saga_trigger where
  "demo_trigger = \<lparr>tg_eventId = ''E'', tg_eventName = ''Cancelled'', tg_eventVersion = 1, tg_tenantId = ''OTHER'',
     tg_companyId = ''C2'', tg_correlationId = None, tg_causationId = None, tg_payload = [(''grnId'', VStr ''G1'')]\<rparr>"

lemma demo_key: "renderTemplate plain_host ''{{event.grnId}}'' (event_scope demo_trigger) = Inr ''G1''"
proof -
  have "value_in plain_host (event_scope demo_trigger) (TrProp (TrIdent ''event'') ''grnId'') = Some (VStr ''G1'')"
    by (simp add: value_in_def tree_value_def ident_value_def saga_env_def get_property_def event_scope_def
        demo_trigger_def plain_host_def)
  then have "evaluateExpression plain_host ''event.grnId'' (event_scope demo_trigger) = Inr (VStr ''G1'')"
    using evaluate_reads [of "''event.grnId''" "TrProp (TrIdent ''event'') ''grnId''" plain_host "event_scope demo_trigger"]
      sample_conditions(1)
    by (simp add: reads_as_def del: tokenize.simps)
  then show ?thesis
    by (simp add: placeholder_def span_def placeholder_text_def is_nullish_def)
qed

theorem cancel_event_crosses_tenants_witness:
  "\<exists>x. instance_findById ''I'' (sg_instances (snd (route_event demo_call empty_ports demo_trigger
       ((demo_db [demo_instance I_RUNNING 0 [do_step ''a'']] [])\<lparr>sg_definitions := [demo_definition]\<rparr>)))) = Some x \<and>
     si_tenantId x \<noteq> tg_tenantId demo_trigger \<and> si_status x = I_CANCELLED"
proof -
  let ?db = "(demo_db [demo_instance I_RUNNING 0 [do_step ''a'']] [])\<lparr>sg_definitions := [demo_definition]\<rparr>"
  have "renderTemplate (sc_host demo_call) (ss_key (sd_start (df_definition demo_definition))) (event_scope demo_trigger)
      = Inr (si_correlationKey (demo_instance I_RUNNING 0 [do_step ''a'']))"
    using demo_key by (simp add: demo_call_def demo_definition_def)
  then show ?thesis
    using cancel_event_crosses_tenants [of demo_trigger ?db demo_definition demo_call
        "demo_instance I_RUNNING 0 [do_step ''a'']" "[]" empty_ports]
    by (simp add: findActiveByEvent_def find_first_def listActive_def isCancelEvent_def same_event_def findLiveByKey_def
        demo_definition_def demo_trigger_def)
qed

end
