(* ===== verification/Locking.thy ===== *)
theory Locking
  imports Effects
begin

text \<open>
  The distributed lock (\<open>platform/platform-common/locking\<close>): acquire, renew and release over the
  store, the fencing counter, and the key builder. Taking the lease and drawing the fencing token
  are two commands, and the ticket is stamped with the clock of the caller after both; so acquire is
  also given in its two parts.
\<close>

section \<open>Requests and tickets\<close>

record lock_identity =
  li_tenantId :: string
  li_companyId :: string
  li_scope :: string
  li_resource :: string

record lock_request =
  lr_identity :: lock_identity
  lr_leaseMs :: "int option"

record lock_ticket =
  lt_lockId :: string
  lt_lockKey :: string
  lt_ownerToken :: string
  lt_fencingToken :: int
  lt_acquiredAt :: int
  lt_expiresAt :: int

datatype acquire_result = LOCK_ACQUIRED lock_ticket | LOCK_BUSY int
datatype renew_result = LOCK_RENEWED lock_ticket | LOCK_LOST

record lock_config =
  lc_defaultLeaseMs :: int
  lc_minLeaseMs :: int
  lc_maxLeaseMs :: int

definition lock_key :: "lock_identity \<Rightarrow> string" where
  "lock_key i = li_tenantId i @ '':'' @ li_companyId i @ '':'' @ li_scope i @ '':'' @ li_resource i"

section \<open>The adapter\<close>

definition KEY_PREFIX :: string where "KEY_PREFIX = ''lock:''"
definition FENCE_PREFIX :: string where "FENCE_PREFIX = ''lock:fence:''"

definition redis_acquire :: "redis_client \<Rightarrow> int \<Rightarrow> string \<Rightarrow> string \<Rightarrow> int \<Rightarrow> (bool, redis) io" where
  "redis_acquire c now key value leaseMs rd =
     (case c of
        R_MISSING \<Rightarrow> (Inr False, rd)
      | R_BROKEN \<Rightarrow> (throw_plain ''Redis command failed'', rd)
      | R_READY \<Rightarrow>
          (case redis_live now rd (KEY_PREFIX @ key) of
             Some _ \<Rightarrow> (Inr False, rd)
           | None \<Rightarrow> (Inr True, redis_set (KEY_PREFIX @ key) value (Some (now + leaseMs)) rd)))"

definition redis_renew :: "redis_client \<Rightarrow> int \<Rightarrow> string \<Rightarrow> string \<Rightarrow> int \<Rightarrow> redis \<Rightarrow> bool \<times> redis" where
  "redis_renew c now key value leaseMs rd =
     (if c = R_READY \<and> redis_get now rd (KEY_PREFIX @ key) = Some value
      then (True, rd(KEY_PREFIX @ key \<mapsto> (fst (the (rd (KEY_PREFIX @ key))), Some (now + leaseMs))))
      else (False, rd))"

definition redis_release :: "redis_client \<Rightarrow> int \<Rightarrow> string \<Rightarrow> string \<Rightarrow> redis \<Rightarrow> bool \<times> redis" where
  "redis_release c now key value rd =
     (if c = R_READY \<and> redis_get now rd (KEY_PREFIX @ key) = Some value
      then (True, redis_del (KEY_PREFIX @ key) rd) else (False, rd))"

definition nextFencingToken :: "redis_client \<Rightarrow> int \<Rightarrow> string \<Rightarrow> (int, redis) io" where
  "nextFencingToken c now key rd =
     (case c of
        R_MISSING \<Rightarrow> (throw_plain ''Redis unavailable - cannot allocate fencing token (fail-closed)'', rd)
      | R_BROKEN \<Rightarrow> (throw_plain ''Redis command failed'', rd)
      | R_READY \<Rightarrow> redis_incr now (FENCE_PREFIX @ key) rd)"

definition isHeld :: "redis_client \<Rightarrow> int \<Rightarrow> string \<Rightarrow> redis \<Rightarrow> bool" where
  "isHeld c now key rd \<longleftrightarrow> c = R_READY \<and> redis_live now rd (KEY_PREFIX @ key) \<noteq> None"

section \<open>The use cases\<close>

definition lock_clamp :: "int \<Rightarrow> int \<Rightarrow> int \<Rightarrow> int" where
  "lock_clamp value mn mx = min (max value mn) mx"

definition lease_ms :: "lock_config \<Rightarrow> int option \<Rightarrow> int" where
  "lease_ms cfg requested = lock_clamp (coalesce requested (lc_defaultLeaseMs cfg)) (lc_minLeaseMs cfg) (lc_maxLeaseMs cfg)"

text \<open>The second part of acquire, at the later time \<open>now\<close>: fencing token and ticket.\<close>

definition lock_ticket_for ::
  "redis_client \<Rightarrow> int \<Rightarrow> lock_config \<Rightarrow> lock_request \<Rightarrow> string \<Rightarrow> string \<Rightarrow> (acquire_result, redis) io" where
  "lock_ticket_for c now cfg rq ownerToken lockId =
     io_then (nextFencingToken c now (lock_key (lr_identity rq))) (\<lambda>fencingToken.
     io_return (LOCK_ACQUIRED \<lparr>lt_lockId = lockId, lt_lockKey = lock_key (lr_identity rq), lt_ownerToken = ownerToken,
       lt_fencingToken = fencingToken, lt_acquiredAt = now, lt_expiresAt = now + lease_ms cfg (lr_leaseMs rq)\<rparr>))"

definition acquire_lock ::
  "redis_client \<Rightarrow> int \<Rightarrow> int \<Rightarrow> lock_config \<Rightarrow> lock_request \<Rightarrow> string \<Rightarrow> string \<Rightarrow> (acquire_result, redis) io" where
  "acquire_lock c now later cfg rq ownerToken lockId =
     io_then (redis_acquire c now (lock_key (lr_identity rq)) ownerToken (lease_ms cfg (lr_leaseMs rq))) (\<lambda>acquired.
     if \<not> acquired then io_return (LOCK_BUSY (lease_ms cfg (lr_leaseMs rq)))
     else lock_ticket_for c later cfg rq ownerToken lockId)"

definition renew_lock ::
  "redis_client \<Rightarrow> int \<Rightarrow> int \<Rightarrow> lock_config \<Rightarrow> lock_ticket \<Rightarrow> int option \<Rightarrow> redis \<Rightarrow> renew_result \<times> redis" where
  "renew_lock c now later cfg ticket leaseMs rd =
     (let (renewed, rd') = redis_renew c now (lt_lockKey ticket) (lt_ownerToken ticket) (lease_ms cfg leaseMs) rd
      in (if renewed then LOCK_RENEWED (ticket\<lparr>lt_expiresAt := later + lease_ms cfg leaseMs\<rparr>) else LOCK_LOST, rd'))"

definition release_lock :: "redis_client \<Rightarrow> int \<Rightarrow> lock_ticket \<Rightarrow> redis \<Rightarrow> redis" where
  "release_lock c now ticket rd = snd (redis_release c now (lt_lockKey ticket) (lt_ownerToken ticket) rd)"

section \<open>A lease is exclusive\<close>

text \<open>What other clients can do to the store, each at its own time.\<close>

inductive lock_move :: "string \<Rightarrow> string \<Rightarrow> int \<Rightarrow> redis \<Rightarrow> redis \<Rightarrow> bool" for key token until where
  Others_acquire: "t < until \<Longrightarrow> v \<noteq> token \<Longrightarrow> lock_move key token until rd (snd (redis_acquire c t k v l rd))"
| Others_renew: "t < until \<Longrightarrow> v \<noteq> token \<Longrightarrow> lock_move key token until rd (snd (redis_renew c t k v l rd))"
| Others_release: "t < until \<Longrightarrow> v \<noteq> token \<Longrightarrow> lock_move key token until rd (snd (redis_release c t k v rd))"
| Others_fence: "t < until \<Longrightarrow> lock_move key token until rd (snd (nextFencingToken c t k rd))"

definition holds :: "string \<Rightarrow> string \<Rightarrow> int \<Rightarrow> redis \<Rightarrow> bool" where
  "holds key token until rd \<longleftrightarrow> (\<exists>t \<ge> until. rd (KEY_PREFIX @ key) = Some (Text token, Some t))"

lemma holds_live: "holds key token until rd \<Longrightarrow> t < until \<Longrightarrow> redis_live t rd (KEY_PREFIX @ key) = Some (Text token)"
  by (auto simp: holds_def redis_live_def)

lemma redis_acquire_misses:
  "holds key token until rd \<Longrightarrow> t < until \<Longrightarrow> holds key token until (snd (redis_acquire c t k v l rd))"
  by (cases c; cases "k = key") (auto simp: redis_acquire_def holds_live redis_set_def holds_def
      redis_live_def split: option.splits)

lemma lock_move_holds:
  assumes "lock_move key token until rd rd'" "holds key token until rd"
  shows "holds key token until rd'"
  using assms
proof (induction rule: lock_move.induct)
  case (Others_acquire t v rd c k l)
  then show ?case by (intro redis_acquire_misses)
next
  case (Others_renew t v rd c k l)
  then show ?case using holds_live [OF Others_renew(3,1)]
    by (cases "k = key") (auto simp: redis_renew_def redis_get_def holds_def)
next
  case (Others_release t v rd c k)
  then show ?case using holds_live [OF Others_release(3,1)]
    by (cases "k = key") (auto simp: redis_release_def redis_get_def holds_def redis_del_def)
next
  case (Others_fence t rd c k)
  then show ?case
    using holds_live [OF Others_fence(2,1)]
    by (cases c; cases "FENCE_PREFIX @ k = KEY_PREFIX @ key")
      (auto simp: nextFencingToken_def redis_incr_def holds_def split: option.splits redis_value.splits)
qed

lemma lock_moves_hold:
  "(lock_move key token until)\<^sup>*\<^sup>* rd rd' \<Longrightarrow> holds key token until rd \<Longrightarrow> holds key token until rd'"
  by (induction rule: rtranclp_induct) (auto intro: lock_move_holds)

text \<open>
  C9. A lease is exclusive: once a client has taken a lock, no sequence of commands of other clients
  (who do not know its token) inside the lease lets another client take it, and the owner can still
  renew it.
\<close>
theorem lock_is_exclusive:
  assumes "redis_acquire c now key token leaseMs rd = (Inr True, rd1)"
    and "(lock_move key token (now + leaseMs))\<^sup>*\<^sup>* rd1 rd2" and "t < now + leaseMs"
  shows "redis_acquire c' t key token' leaseMs' rd2 \<noteq> (Inr True, rd3) \<and>
    fst (redis_renew R_READY t key token leaseMs' rd2)"
proof -
  have "holds key token (now + leaseMs) rd1"
    using assms(1) by (auto simp: redis_acquire_def holds_def redis_set_def split: redis_client.splits option.splits)
  with assms(2) have "holds key token (now + leaseMs) rd2" by (rule lock_moves_hold)
  then have "redis_live t rd2 (KEY_PREFIX @ key) = Some (Text token)" using assms(3) by (rule holds_live)
  then show ?thesis
    by (auto simp: redis_acquire_def redis_renew_def redis_get_def split: redis_client.splits)
qed

section \<open>Fencing\<close>

text \<open>
  The fencing token does not order the holders: a client whose lease runs out between taking
  the lock and drawing its token gets a higher token than the client that took the lock after it;
  and its ticket then claims a lease that ended before the ticket was issued.
\<close>
theorem fencing_tokens_can_invert:
  assumes "redis_live t rd (KEY_PREFIX @ lock_key (lr_identity rq)) = None"
    and "\<forall>s. redis_live t' rd (FENCE_PREFIX @ lock_key (lr_identity rq)) \<noteq> Some (Text s)"
    and "t + lease_ms cfg (lr_leaseMs rq) \<le> t'"
  shows "\<exists>rd1 rd2 rd3 ticketA ticketB.
    redis_acquire R_READY t (lock_key (lr_identity rq)) ownerA (lease_ms cfg (lr_leaseMs rq)) rd = (Inr True, rd1) \<and>
    acquire_lock R_READY t' t' cfg rq ownerB idB rd1 = (Inr (LOCK_ACQUIRED ticketB), rd2) \<and>
    lock_ticket_for R_READY t' cfg rq ownerA idA rd2 = (Inr (LOCK_ACQUIRED ticketA), rd3) \<and>
    lt_fencingToken ticketB < lt_fencingToken ticketA \<and>
    t + lease_ms cfg (lr_leaseMs rq) \<le> lt_acquiredAt ticketA"
proof -
  let ?k = "lock_key (lr_identity rq)" and ?l = "lease_ms cfg (lr_leaseMs rq)"
  let ?rd1 = "redis_set (KEY_PREFIX @ ?k) ownerA (Some (t + ?l)) rd"
  let ?rd1' = "redis_set (KEY_PREFIX @ ?k) ownerB (Some (t' + ?l)) ?rd1"
  have ne: "FENCE_PREFIX @ ?k \<noteq> KEY_PREFIX @ ?k" by (simp add: KEY_PREFIX_def FENCE_PREFIX_def)
  have A: "redis_acquire R_READY t ?k ownerA ?l rd = (Inr True, ?rd1)"
    using assms(1) by (simp add: redis_acquire_def)
  have B: "redis_acquire R_READY t' ?k ownerB ?l ?rd1 = (Inr True, ?rd1')"
    using assms(3) by (simp add: redis_acquire_def)
  have same: "redis_live t' ?rd1' (FENCE_PREFIX @ ?k) = redis_live t' rd (FENCE_PREFIX @ ?k)"
    using ne by (simp add: redis_set_def)
  obtain n rd2 where n: "redis_incr t' (FENCE_PREFIX @ ?k) ?rd1' = (Inr n, rd2)"
    and live: "redis_live t' rd2 (FENCE_PREFIX @ ?k) = Some (Counter n)"
    using assms(2) same
    by (cases "redis_live t' rd (FENCE_PREFIX @ ?k)"; cases "the (redis_live t' rd (FENCE_PREFIX @ ?k))")
      (auto simp: redis_incr_def redis_live_def split: option.splits prod.splits if_splits)
  then obtain rd3 where n': "redis_incr t' (FENCE_PREFIX @ ?k) rd2 = (Inr (n + 1), rd3)"
    by (simp add: redis_incr_def)
  let ?ticket = "\<lambda>lockId owner m. \<lparr>lt_lockId = lockId, lt_lockKey = ?k, lt_ownerToken = owner,
    lt_fencingToken = m, lt_acquiredAt = t', lt_expiresAt = t' + ?l\<rparr>"
  have C: "acquire_lock R_READY t' t' cfg rq ownerB idB ?rd1 = (Inr (LOCK_ACQUIRED (?ticket idB ownerB n)), rd2)"
    by (simp add: acquire_lock_def io_then_def B lock_ticket_for_def nextFencingToken_def n)
  have D: "lock_ticket_for R_READY t' cfg rq ownerA idA rd2 = (Inr (LOCK_ACQUIRED (?ticket idA ownerA (n + 1))), rd3)"
    by (simp add: io_then_def lock_ticket_for_def nextFencingToken_def n')
  show ?thesis
    by (intro exI conjI, rule A, rule C, rule D) (simp_all add: assms(3))
qed

section \<open>Examples\<close>

definition demo_lock_config :: lock_config where
  "demo_lock_config = \<lparr>lc_defaultLeaseMs = 30000, lc_minLeaseMs = 1000, lc_maxLeaseMs = 60000\<rparr>"

definition demo_lock_request :: lock_request where
  "demo_lock_request = \<lparr>lr_identity = \<lparr>li_tenantId = ''T'', li_companyId = ''C'', li_scope = ''stock'', li_resource = ''P1''\<rparr>,
     lr_leaseMs = None\<rparr>"

theorem lock_is_exclusive_witness:
  "let rd1 = snd (redis_acquire R_READY 0 ''T:C:stock:P1'' ''a'' 30000 (\<lambda>_. None));
       rd2 = snd (redis_release R_READY 20 ''T:C:stock:P1'' ''b'' (snd (redis_acquire R_READY 10 ''T:C:stock:P1'' ''b'' 30000 rd1)))
   in redis_acquire R_READY 29999 ''T:C:stock:P1'' ''b'' 30000 rd2 \<noteq> (Inr True, rd1) \<and>
      fst (redis_renew R_READY 29999 ''T:C:stock:P1'' ''a'' 30000 rd2)"
proof -
  let ?k = "''T:C:stock:P1''"
  let ?rd1 = "snd (redis_acquire R_READY 0 ?k ''a'' 30000 (\<lambda>_. None))"
  let ?rd1' = "snd (redis_acquire R_READY 10 ?k ''b'' 30000 ?rd1)"
  have take: "redis_acquire R_READY 0 ?k ''a'' 30000 (\<lambda>_. None) = (Inr True, ?rd1)"
    by (simp add: redis_acquire_def redis_live_def)
  have 1: "lock_move ?k ''a'' (0 + 30000) ?rd1 ?rd1'" by (rule Others_acquire) simp_all
  have 2: "lock_move ?k ''a'' (0 + 30000) ?rd1' (snd (redis_release R_READY 20 ?k ''b'' ?rd1'))" by (rule Others_release) simp_all
  have "(lock_move ?k ''a'' (0 + 30000))\<^sup>*\<^sup>* ?rd1 (snd (redis_release R_READY 20 ?k ''b'' ?rd1'))"
    using 1 2 by (meson rtranclp.rtrancl_into_rtrancl rtranclp.rtrancl_refl)
  from lock_is_exclusive [OF take this, of 29999 R_READY "''b''" 30000 ?rd1] show ?thesis by (simp add: Let_def)
qed

theorem fencing_tokens_can_invert_witness:
  "\<exists>rd1 rd2 rd3 ticketA ticketB.
    redis_acquire R_READY 0 ''T:C:stock:P1'' ''a'' 30000 (\<lambda>_. None) = (Inr True, rd1) \<and>
    acquire_lock R_READY 40000 40000 demo_lock_config demo_lock_request ''b'' ''2'' rd1 = (Inr (LOCK_ACQUIRED ticketB), rd2) \<and>
    lock_ticket_for R_READY 40000 demo_lock_config demo_lock_request ''a'' ''1'' rd2 = (Inr (LOCK_ACQUIRED ticketA), rd3) \<and>
    lt_fencingToken ticketB < lt_fencingToken ticketA"
  using fencing_tokens_can_invert [of 0 "\<lambda>_. None" demo_lock_request 40000 demo_lock_config "''a''" "''b''" "''2''" "''1''"]
  by (simp add: redis_live_def demo_lock_request_def demo_lock_config_def lock_key_def lease_ms_def lock_clamp_def) blast

end
