(* ===== verification/Idempotency.thy ===== *)
theory Idempotency
  imports Effects Saga_Value Table
begin

text \<open>
  Idempotency keys (\<open>platform/platform-common/idempotency\<close>): the ledger of claims, the result
  cache, the three use cases and the HTTP interceptor that runs a handler under a claim. Results
  are values of the language; both stores keep them as JSON.
\<close>

section \<open>Rows and requests\<close>

datatype idem_status = IDEM_IN_PROGRESS | IDEM_COMPLETED

record idem_identity =
  ii_tenant :: string
  ii_company :: string
  ii_scope :: string
  ii_key :: string

record idem_row =
  ik_id :: string
  ik_identity :: idem_identity
  ik_requestHash :: "string option"
  ik_status :: idem_status
  ik_claimToken :: string
  ik_version :: int
  ik_result :: sval
  ik_claimedAt :: "int option"
  ik_completedAt :: "int option"
  ik_expiresAt :: int

record idem_request =
  iq_identity :: idem_identity
  iq_requestHash :: "string option"
  iq_ttlMs :: "int option"

record idem_reservation =
  iv_identity :: idem_identity
  iv_id :: string
  iv_claimToken :: string
  iv_version :: int

datatype idem_result = IDEM_ACQUIRED idem_reservation | IDEM_REPLAY sval | IDEM_BUSY | IDEM_KEY_MISMATCH

record idem_config =
  ig_ttlMs :: int
  ig_claimLeaseMs :: int
  ig_redisPrefix :: string

text \<open>The cache holds the value a JSON text denotes, or \<open>None\<close> for a text that is not JSON.\<close>

record idem_db =
  id_rows :: "idem_row list"
  id_cache :: "string \<Rightarrow> (sval option \<times> int) option"

record idem_call =
  ic_now :: int
  ic_host :: host
  ic_redis :: redis_client
  ic_config :: idem_config
  ic_token :: string
  ic_rowId :: string

section \<open>The repository\<close>

definition idem_findByIdentity :: "idem_identity \<Rightarrow> idem_row list \<Rightarrow> idem_row option" where
  "idem_findByIdentity i rows = find_first (\<lambda>r. ik_identity r = i) rows"

definition insertClaim :: "idem_call \<Rightarrow> idem_identity \<Rightarrow> int \<Rightarrow> string option \<Rightarrow> (string \<times> int, 'a idem_db_scheme) io" where
  "insertClaim e i expiresAt requestHash db =
     (if \<exists>r \<in> set (id_rows db). ik_identity r = i \<or> ik_id r = ic_rowId e
      then (throw_plain ''Unique constraint failed'', db)
      else (Inr (ic_rowId e, 1), db\<lparr>id_rows := insert_row \<lparr>ik_id = ic_rowId e, ik_identity = i, ik_requestHash = requestHash,
         ik_status = IDEM_IN_PROGRESS, ik_claimToken = ic_token e, ik_version = 1, ik_result = VNull,
         ik_claimedAt = Some (ic_now e), ik_completedAt = None, ik_expiresAt = expiresAt\<rparr> (id_rows db)\<rparr>))"

definition takeover_hit :: "idem_identity \<Rightarrow> int \<Rightarrow> idem_row \<Rightarrow> bool" where
  "takeover_hit i cutoff r \<longleftrightarrow> ik_identity r = i \<and> ik_status r = IDEM_IN_PROGRESS \<and>
     (case ik_claimedAt r of None \<Rightarrow> False | Some t \<Rightarrow> t < cutoff)"

definition takeoverExpiredClaim ::
  "idem_call \<Rightarrow> idem_identity \<Rightarrow> int \<Rightarrow> int \<Rightarrow> idem_row list \<Rightarrow> (string \<times> int) option \<times> idem_row list" where
  "takeoverExpiredClaim e i cutoff expiresAt rows =
     (let (n, rows') = update_many (takeover_hit i cutoff)
            (\<lambda>r. r\<lparr>ik_claimToken := ic_token e, ik_result := VNull, ik_expiresAt := expiresAt,
               ik_claimedAt := Some (ic_now e), ik_version := ik_version r + 1\<rparr>) rows
      in if n = 0 then (None, rows')
         else (map_option (\<lambda>r. (ik_id r, ik_version r)) (idem_findByIdentity i rows'), rows'))"

abbreviation ik_owned :: "string \<Rightarrow> string \<times> int \<Rightarrow> idem_row \<Rightarrow> bool" where
  "ik_owned \<equiv> cas_hit ik_id (\<lambda>r. Some (ik_claimToken r, ik_version r)) (\<lambda>r. ik_status r = IDEM_IN_PROGRESS)"

definition completed_row :: "int \<Rightarrow> sval \<Rightarrow> string \<times> int \<Rightarrow> idem_row \<Rightarrow> idem_row" where
  "completed_row now v t r = r\<lparr>ik_status := IDEM_COMPLETED, ik_result := v, ik_completedAt := Some now,
     ik_version := ik_version r + 1\<rparr>"

definition completeCas :: "idem_call \<Rightarrow> idem_reservation \<Rightarrow> sval \<Rightarrow> (int option, 'a idem_db_scheme) io" where
  "completeCas e v result =
     io_then (io_lift (json_input (ic_host e) result)) (\<lambda>w.
     io_then (io_read (\<lambda>db. update_many (ik_owned (iv_id v) (iv_claimToken v, iv_version v))
         (completed_row (ic_now e) w (iv_claimToken v, iv_version v)) (id_rows db))) (\<lambda>(n, rows).
     io_then (io_write (\<lambda>db. db\<lparr>id_rows := rows\<rparr>)) (\<lambda>_.
     if n = 0 then io_return None
     else io_return (map_option ik_expiresAt (find_first (\<lambda>r. ik_id r = iv_id v) rows)))))"

definition failDeleteCas :: "idem_reservation \<Rightarrow> idem_row list \<Rightarrow> bool \<times> idem_row list" where
  "failDeleteCas v rows =
     (let (n, rows') = delete_many (ik_owned (iv_id v) (iv_claimToken v, iv_version v)) rows in (n > 0, rows'))"

definition idem_purgeExpired :: "int \<Rightarrow> idem_row list \<Rightarrow> nat \<times> idem_row list" where
  "idem_purgeExpired now rows = delete_many (\<lambda>r. ik_expiresAt r < now) rows"

section \<open>The cache\<close>

definition cache_key :: "idem_call \<Rightarrow> idem_identity \<Rightarrow> string" where
  "cache_key e i = ig_redisPrefix (ic_config e) @ '':'' @ ii_tenant i @ '':'' @ ii_company i @ '':'' @ ii_scope i @ '':'' @ ii_key i"

definition cache_get :: "idem_call \<Rightarrow> string \<Rightarrow> (string \<Rightarrow> (sval option \<times> int) option) \<Rightarrow> sval option" where
  "cache_get e k cache = (if ic_redis e \<noteq> R_READY then None
     else case cache k of Some (v, expiry) \<Rightarrow> if ic_now e < expiry then v else None | None \<Rightarrow> None)"

definition cache_set :: "idem_call \<Rightarrow> string \<Rightarrow> sval \<Rightarrow> int \<Rightarrow> (unit, 'a idem_db_scheme) io" where
  "cache_set e k v ttlMs =
     (if ttlMs \<le> 0 \<or> ic_redis e \<noteq> R_READY then io_return ()
      else io_write (\<lambda>db. db\<lparr>id_cache := (id_cache db)(k \<mapsto> (stored (ic_host e) v, ic_now e + ttlMs))\<rparr>))"

definition cache_delete :: "idem_call \<Rightarrow> string \<Rightarrow> (unit, 'a idem_db_scheme) io" where
  "cache_delete e k =
     (if ic_redis e \<noteq> R_READY then io_return () else io_write (\<lambda>db. db\<lparr>id_cache := (id_cache db)(k := None)\<rparr>))"

section \<open>The use cases\<close>

definition idem_acquired :: "idem_call \<Rightarrow> idem_identity \<Rightarrow> string \<times> int \<Rightarrow> idem_result" where
  "idem_acquired e i row = IDEM_ACQUIRED \<lparr>iv_identity = i, iv_id = fst row, iv_claimToken = ic_token e, iv_version = snd row\<rparr>"

definition idem_inspect :: "idem_call \<Rightarrow> idem_request \<Rightarrow> int \<Rightarrow> idem_row \<Rightarrow> (idem_result, 'a idem_db_scheme) io" where
  "idem_inspect e rq expiresAt existing =
     (if truthy (ik_requestHash existing) \<and> truthy (iq_requestHash rq) \<and> ik_requestHash existing \<noteq> iq_requestHash rq
      then io_return IDEM_KEY_MISMATCH
      else if ik_status existing = IDEM_COMPLETED then
        (let remaining = ik_expiresAt existing - ic_now e
         in io_then (if remaining > 0 then cache_set e (cache_key e (iq_identity rq)) (ik_result existing) remaining
                     else io_return ()) (\<lambda>_. io_return (IDEM_REPLAY (ik_result existing))))
      else io_then (io_read (\<lambda>db. takeoverExpiredClaim e (iq_identity rq)
               (ic_now e - ig_claimLeaseMs (ic_config e)) expiresAt (id_rows db))) (\<lambda>(taken, rows).
           io_then (io_write (\<lambda>db. db\<lparr>id_rows := rows\<rparr>)) (\<lambda>_.
           case taken of Some row \<Rightarrow> io_return (idem_acquired e (iq_identity rq) row) | None \<Rightarrow> io_return IDEM_BUSY)))"

definition idem_reserve :: "idem_call \<Rightarrow> idem_request \<Rightarrow> (idem_result, 'a idem_db_scheme) io" where
  "idem_reserve e rq =
     (let i = iq_identity rq; expiresAt = ic_now e + coalesce (iq_ttlMs rq) (ig_ttlMs (ic_config e));
          insert = io_then (insertClaim e i expiresAt (iq_requestHash rq)) (\<lambda>row. io_return (idem_acquired e i row))
      in io_then (io_read (\<lambda>db. cache_get e (cache_key e i) (id_cache db))) (\<lambda>cached.
         case cached of
           Some v \<Rightarrow> io_return (IDEM_REPLAY v)
         | None \<Rightarrow> io_catch insert (\<lambda>_.
             io_then (io_read (\<lambda>db. idem_findByIdentity i (id_rows db))) (\<lambda>existing.
             case existing of None \<Rightarrow> insert | Some r \<Rightarrow> idem_inspect e rq expiresAt r))))"

definition idem_complete :: "idem_call \<Rightarrow> idem_reservation \<Rightarrow> sval \<Rightarrow> (unit, 'a idem_db_scheme) io" where
  "idem_complete e v result =
     io_then (completeCas e v result) (\<lambda>completed.
     case completed of
       None \<Rightarrow> io_return ()
     | Some expiresAt \<Rightarrow>
         if expiresAt - ic_now e > 0 then cache_set e (cache_key e (iv_identity v)) result (expiresAt - ic_now e)
         else io_return ())"

definition idem_fail :: "idem_call \<Rightarrow> idem_reservation \<Rightarrow> (unit, 'a idem_db_scheme) io" where
  "idem_fail e v =
     io_then (io_read (\<lambda>db. failDeleteCas v (id_rows db))) (\<lambda>(deleted, rows).
     io_then (io_write (\<lambda>db. db\<lparr>id_rows := rows\<rparr>)) (\<lambda>_.
     if deleted then cache_delete e (cache_key e (iv_identity v)) else io_return ()))"

section \<open>The interceptor\<close>

record idem_http =
  ih_marked :: bool
  ih_header :: "string list option"
  ih_scope :: string
  ih_tenant :: "string option"
  ih_company :: "string option"

definition http_key :: "idem_http \<Rightarrow> string option" where
  "http_key rq = (case ih_header rq of None \<Rightarrow> None | Some [] \<Rightarrow> None | Some (k # _) \<Rightarrow> Some k)"

definition http_identity :: "idem_http \<Rightarrow> idem_identity" where
  "http_identity rq = \<lparr>ii_tenant = coalesce (ih_tenant rq) [], ii_company = coalesce (ih_company rq) [],
     ii_scope = ih_scope rq, ii_key = take 255 (trim (the (http_key rq)))\<rparr>"

definition idem_intercept ::
  "idem_call \<Rightarrow> idem_http \<Rightarrow> (sval, 'a idem_db_scheme) io \<Rightarrow> (sval, 'a idem_db_scheme) io" where
  "idem_intercept e rq handler =
     (if \<not> ih_marked rq then handler
      else if \<not> truthy (http_key rq) \<or> trim (the (http_key rq)) = []
      then io_lift (throw 400 ''Idempotency-Key header is required for this operation'')
      else io_then (idem_reserve e \<lparr>iq_identity = http_identity rq, iq_requestHash = None,
             iq_ttlMs = Some (ig_ttlMs (ic_config e))\<rparr>) (\<lambda>reservation.
           case reservation of
             IDEM_REPLAY v \<Rightarrow> io_return v
           | IDEM_BUSY \<Rightarrow> io_lift (conflict (''An operation with Idempotency-Key '' @ trim (the (http_key rq))
                 @ '' is still in progress; retry later''))
           | IDEM_KEY_MISMATCH \<Rightarrow> io_lift (throw 400 (''Idempotency-Key '' @ trim (the (http_key rq))
                 @ '' is associated with another request''))
           | IDEM_ACQUIRED v \<Rightarrow>
               io_catch (io_then handler (\<lambda>response.
                   io_then (io_catch (idem_complete e v response) (\<lambda>_. io_return ())) (\<lambda>_. io_return response)))
                 (\<lambda>er. io_then (io_catch (idem_fail e v) (\<lambda>_. io_return ())) (\<lambda>_. io_lift (Inl er)))))"

section \<open>A settled key\<close>

text \<open>
  The state of a key whose request completed with the stored result \<open>w\<close>: its row, and nothing else
  in the cache than that result or entries that had run out by the time \<open>t0\<close>.
\<close>

definition plain_identity :: "idem_identity \<Rightarrow> bool" where
  "plain_identity i \<longleftrightarrow> CHR '':'' \<notin> set (ii_tenant i) \<and> CHR '':'' \<notin> set (ii_company i) \<and> CHR '':'' \<notin> set (ii_scope i)"

definition idem_keys_unique :: "idem_row list \<Rightarrow> bool" where
  "idem_keys_unique rows \<longleftrightarrow> distinct (map ik_id rows) \<and> distinct (map ik_identity rows)"

definition settled_row :: "idem_identity \<Rightarrow> string \<Rightarrow> sval \<Rightarrow> int \<Rightarrow> idem_row \<Rightarrow> bool" where
  "settled_row i rid w until r \<longleftrightarrow> ik_identity r = i \<and> ik_id r = rid \<and> ik_status r = IDEM_COMPLETED \<and>
     ik_result r = w \<and> ik_expiresAt r = until"

definition settled_rows :: "idem_identity \<Rightarrow> string \<Rightarrow> sval \<Rightarrow> int \<Rightarrow> idem_row list \<Rightarrow> bool" where
  "settled_rows i rid w until rows \<longleftrightarrow> idem_keys_unique rows \<and> (\<exists>r \<in> set rows. settled_row i rid w until r)"

definition settled_cache :: "string \<Rightarrow> sval \<Rightarrow> int \<Rightarrow> (string \<Rightarrow> (sval option \<times> int) option) \<Rightarrow> bool" where
  "settled_cache k w t0 cache \<longleftrightarrow> (\<forall>v x. cache k = Some (v, x) \<longrightarrow> v = None \<or> v = Some w \<or> x \<le> t0)"

lemma append_colon_unique:
  "a @ CHR '':'' # b = a' @ CHR '':'' # b' \<Longrightarrow> CHR '':'' \<notin> set a \<Longrightarrow> CHR '':'' \<notin> set a' \<Longrightarrow> a = a' \<and> b = b'"
proof (induction a arbitrary: a')
  case Nil
  then show ?case by (cases a') simp_all
next
  case (Cons c a)
  then show ?case by (cases a') simp_all
qed

lemma cache_key_injective:
  assumes "cache_key e i = cache_key e' j" "plain_identity i" "plain_identity j"
    and "ig_redisPrefix (ic_config e) = ig_redisPrefix (ic_config e')"
  shows "i = j"
proof -
  have eq: "ii_tenant i @ CHR '':'' # (ii_company i @ CHR '':'' # (ii_scope i @ CHR '':'' # ii_key i)) =
      ii_tenant j @ CHR '':'' # (ii_company j @ CHR '':'' # (ii_scope j @ CHR '':'' # ii_key j))"
    using assms(1,4) by (simp add: cache_key_def)
  note pl = assms(2,3) [unfolded plain_identity_def]
  have 1: "ii_tenant i = ii_tenant j" and eq2: "ii_company i @ CHR '':'' # (ii_scope i @ CHR '':'' # ii_key i) =
      ii_company j @ CHR '':'' # (ii_scope j @ CHR '':'' # ii_key j)"
    using append_colon_unique [OF eq] pl by blast+
  have 2: "ii_company i = ii_company j" and eq3: "ii_scope i @ CHR '':'' # ii_key i = ii_scope j @ CHR '':'' # ii_key j"
    using append_colon_unique [OF eq2] pl by blast+
  have "ii_scope i = ii_scope j \<and> ii_key i = ii_key j"
    using append_colon_unique [OF eq3] pl by blast
  with 1 2 show ?thesis by (cases i; cases j) simp
qed

lemma settled_rows_update:
  assumes "settled_rows i rid w until rows" "\<And>r. settled_row i rid w until r \<Longrightarrow> \<not> p r"
    and "\<And>r. ik_id (f r) = ik_id r" "\<And>r. ik_identity (f r) = ik_identity r"
  shows "settled_rows i rid w until (snd (update_many p f rows))"
proof -
  have "map ik_id (snd (update_many p f rows)) = map ik_id rows"
    and "map ik_identity (snd (update_many p f rows)) = map ik_identity rows"
    by (simp_all add: update_many_def map_map_where assms(3,4))
  then show ?thesis
    using assms(1,2) by (auto simp: settled_rows_def idem_keys_unique_def set_update_many)
qed

lemma settled_rows_delete:
  assumes "settled_rows i rid w until rows" "\<And>r. settled_row i rid w until r \<Longrightarrow> \<not> p r"
  shows "settled_rows i rid w until (snd (delete_many p rows))"
  using assms by (auto simp: settled_rows_def idem_keys_unique_def delete_many_def distinct_map intro: inj_on_subset)

lemma settled_rows_insert:
  assumes "settled_rows i rid w until rows" "\<forall>r \<in> set rows. ik_identity r \<noteq> ik_identity q \<and> ik_id r \<noteq> ik_id q"
  shows "settled_rows i rid w until (insert_row q rows)"
  using assms by (auto simp: settled_rows_def idem_keys_unique_def insert_row_def)

lemma settled_find:
  assumes "settled_rows i rid w until rows"
  shows "\<exists>r. idem_findByIdentity i rows = Some r \<and> settled_row i rid w until r"
proof -
  from assms obtain r where r: "r \<in> set rows" "settled_row i rid w until r" and d: "distinct (map ik_identity rows)"
    by (auto simp: settled_rows_def idem_keys_unique_def)
  then have "ik_identity r = i" by (simp add: settled_row_def)
  with r(1) d have "find_first (\<lambda>q. ik_identity q = i) rows = Some r"
    unfolding find_first_def
    by (induction rows) (auto simp: image_iff)
  with r(2) show ?thesis by (auto simp: idem_findByIdentity_def)
qed

definition settled_key ::
  "string \<Rightarrow> idem_identity \<Rightarrow> string \<Rightarrow> sval \<Rightarrow> int \<Rightarrow> int \<Rightarrow> 'a idem_db_scheme \<Rightarrow> bool" where
  "settled_key k i rid w until t0 db \<longleftrightarrow> settled_rows i rid w until (id_rows db) \<and> settled_cache k w t0 (id_cache db)"

lemma settled_cache_other: "k' \<noteq> k \<Longrightarrow> settled_cache k w t0 (cache(k' := v)) = settled_cache k w t0 cache"
  by (simp add: settled_cache_def)

lemma settled_cache_removed: "settled_cache k w t0 cache \<Longrightarrow> settled_cache k w t0 (cache(k' := None))"
  by (simp add: settled_cache_def)

lemma settled_cache_set:
  assumes "settled_key k i rid w until t0 db" "k' = k \<Longrightarrow> stored (ic_host e) v = None \<or> stored (ic_host e) v = Some w"
  shows "settled_key k i rid w until t0 (snd (cache_set e k' v ttl db))"
  using assms by (auto simp: settled_key_def cache_set_def settled_cache_def)

lemma settled_cache_delete:
  assumes "settled_key k i rid w until t0 db" shows "settled_key k i rid w until t0 (snd (cache_delete e k' db))"
  using assms by (simp add: settled_key_def cache_delete_def settled_cache_removed)

lemma settled_rows_changed:
  "settled_key k i rid w until t0 db \<Longrightarrow> settled_rows i rid w until rows \<Longrightarrow>
   settled_key k i rid w until t0 (db\<lparr>id_rows := rows\<rparr>)"
  by (simp add: settled_key_def)

lemma idem_insert_clash:
  "r \<in> set (id_rows db) \<Longrightarrow> ik_identity r = i \<Longrightarrow>
   insertClaim e i expiresAt hash db = (throw_plain ''Unique constraint failed'', db)"
  by (auto simp: insertClaim_def)

text \<open>Reserving a settled key changes nothing of it and gives the stored result, unless the hashes differ.\<close>

lemma reserve_settled:
  assumes "settled_key k i rid w until t0 db" "iq_identity rq = i" "k = cache_key e i"
    and "stored (ic_host e) w = Some w"
  shows "settled_key k i rid w until t0 (snd (idem_reserve e rq db))"
    and "iq_requestHash rq = None \<Longrightarrow> t0 \<le> ic_now e \<Longrightarrow> fst (idem_reserve e rq db) = Inr (IDEM_REPLAY w)"
proof -
  from assms(1) obtain r where r: "idem_findByIdentity i (id_rows db) = Some r" "settled_row i rid w until r"
    using settled_find by (fastforce simp: settled_key_def)
  then have mem: "r \<in> set (id_rows db)" "ik_identity r = i"
    by (auto simp: idem_findByIdentity_def find_first_def find_Some_iff)
  define expiresAt where "expiresAt = ic_now e + coalesce (iq_ttlMs rq) (ig_ttlMs (ic_config e))"
  have run: "idem_reserve e rq db = (case cache_get e k (id_cache db) of Some v \<Rightarrow> (Inr (IDEM_REPLAY v), db)
      | None \<Rightarrow> idem_inspect e rq expiresAt r db)"
    by (simp add: idem_reserve_def assms(2,3) Let_def io_catch_def io_then_def [of "insertClaim _ _ _ _"]
        idem_insert_clash [OF mem] r(1) expiresAt_def split: option.splits)
  have inspect: "settled_key k i rid w until t0 (snd (idem_inspect e rq expiresAt r db))"
    using r(2) settled_cache_set [OF assms(1), of k e w] assms(1,2,3,4)
    by (auto simp: idem_inspect_def settled_row_def Let_def io_then_def split: prod.splits sum.splits)
      (metis snd_conv)+
  show "settled_key k i rid w until t0 (snd (idem_reserve e rq db))"
    using inspect assms(1) by (simp add: run split: option.splits)
  have hit: "v = w" if "cache_get e k (id_cache db) = Some v" "t0 \<le> ic_now e" for v
    using that assms(1) by (auto simp: cache_get_def settled_key_def settled_cache_def split: if_splits option.splits)
  have inspect': "fst (idem_inspect e rq expiresAt r db) = Inr (IDEM_REPLAY w)" if "iq_requestHash rq = None"
    using r(2) that by (auto simp: idem_inspect_def settled_row_def Let_def io_then_def cache_set_def truthy_def)
  show "fst (idem_reserve e rq db) = Inr (IDEM_REPLAY w)" if "iq_requestHash rq = None" "t0 \<le> ic_now e"
    using inspect' [OF that(1)] hit [OF _ that(2)] by (auto simp: run split: option.splits)
qed

text \<open>An operation on another key cannot reach the settled row.\<close>

lemma takeover_spares:
  assumes "settled_rows i rid w until rows" "(taken, rows') = takeoverExpiredClaim e j cutoff expiresAt rows"
  shows "settled_rows i rid w until rows'"
proof -
  have "rows' = snd (update_many (takeover_hit j cutoff)
      (\<lambda>r. r\<lparr>ik_claimToken := ic_token e, ik_result := VNull, ik_expiresAt := expiresAt,
        ik_claimedAt := Some (ic_now e), ik_version := ik_version r + 1\<rparr>) rows)"
    using assms(2) by (auto simp: takeoverExpiredClaim_def split: prod.splits if_splits)
  then show ?thesis
    using settled_rows_update [OF assms(1), of "takeover_hit j cutoff"]
    by (auto simp: takeover_hit_def settled_row_def)
qed

lemma reserve_other:
  assumes "settled_key k i rid w until t0 db" "iq_identity rq \<noteq> i" "cache_key e (iq_identity rq) \<noteq> k"
  shows "settled_key k i rid w until t0 (snd (idem_reserve e rq db))"
proof -
  define j where "j = iq_identity rq"
  define x where "x = ic_now e + coalesce (iq_ttlMs rq) (ig_ttlMs (ic_config e))"
  have insert: "settled_key k i rid w until t0 (snd (insertClaim e j x (iq_requestHash rq) db))"
    using assms(1) settled_rows_insert
    by (auto simp: insertClaim_def settled_key_def intro!: settled_rows_insert)
  have inserted: "fst (insertClaim e j x (iq_requestHash rq) db) = Inl er \<Longrightarrow>
      snd (insertClaim e j x (iq_requestHash rq) db) = db" for er
    by (auto simp: insertClaim_def split: if_splits)
  have inspect: "settled_key k i rid w until t0 (snd (idem_inspect e rq x r db))" for r
    using settled_cache_set [OF assms(1)] assms(1,3) takeover_spares [of i rid w until "id_rows db"]
    by (auto simp: idem_inspect_def Let_def io_then_def settled_key_def split: prod.splits sum.splits option.splits)
      (metis assms(3) settled_key_def settled_cache_set snd_conv)+
  show ?thesis
    using insert inserted inspect assms(1) unfolding j_def x_def
    by (auto simp: idem_reserve_def Let_def io_then_def io_catch_def split: prod.splits sum.splits option.splits)
qed

lemma complete_spares:
  assumes "settled_key k i rid w until t0 db" "iv_id v = rid \<longleftrightarrow> iv_identity v = i" 
    and "iv_identity v \<noteq> i \<Longrightarrow> cache_key e (iv_identity v) \<noteq> k"
  shows "settled_key k i rid w until t0 (snd (idem_complete e v result db))"
proof -
  let ?hit = "ik_owned (iv_id v) (iv_claimToken v, iv_version v)"
  let ?upd = "completed_row (ic_now e)"
  have spared: "settled_rows i rid w until (snd (update_many ?hit (?upd x (iv_claimToken v, iv_version v)) (id_rows db)))" for x
    using assms(1) by (intro settled_rows_update) (auto simp: settled_key_def settled_row_def cas_hit_def completed_row_def)
  have none: "\<forall>r \<in> set (id_rows db). \<not> ?hit r" if "iv_identity v = i"
  proof -
    from assms(1) obtain r where r: "r \<in> set (id_rows db)" "settled_row i rid w until r" "distinct (map ik_id (id_rows db))"
      by (auto simp: settled_key_def settled_rows_def idem_keys_unique_def)
    show ?thesis
    proof (intro ballI notI)
      fix q assume "q \<in> set (id_rows db)" "?hit q"
      then have "ik_id q = ik_id r" using that assms(2) r(2) by (simp add: cas_hit_def settled_row_def)
      with r \<open>q \<in> _\<close> have "q = r" by (auto simp: distinct_map dest: inj_onD)
      with \<open>?hit q\<close> r(2) show False by (simp add: cas_hit_def settled_row_def)
    qed
  qed
  show ?thesis
  proof (cases "iv_identity v = i")
    case True
    have "snd (idem_complete e v result db) = db"
      using update_many_miss [of "id_rows db" ?hit] none [OF True]
      by (cases "json_input (ic_host e) result") (simp_all add: idem_complete_def completeCas_def io_then_def)
    then show ?thesis using assms(1) by simp
  next
    case False
    show ?thesis
    proof (cases "json_input (ic_host e) result")
      case (Inl er)
      then show ?thesis using assms(1) by (simp add: idem_complete_def completeCas_def io_then_def)
    next
      case (Inr x)
      obtain n rows where um: "update_many ?hit (?upd x (iv_claimToken v, iv_version v)) (id_rows db) = (n, rows)"
        by (cases "update_many ?hit (?upd x (iv_claimToken v, iv_version v)) (id_rows db)")
      then have db': "settled_key k i rid w until t0 (db\<lparr>id_rows := rows\<rparr>)"
        using settled_rows_changed [OF assms(1) spared [of x]] by simp
      with settled_cache_set [OF db', of "cache_key e (iv_identity v)" e result] assms(3) [OF False] show ?thesis
        by (auto simp: idem_complete_def completeCas_def io_then_def Inr um split: prod.splits option.splits)
    qed
  qed
qed

lemma fail_spares:
  assumes "settled_key k i rid w until t0 db"
  shows "settled_key k i rid w until t0 (snd (idem_fail e v db))"
proof -
  let ?hit = "ik_owned (iv_id v) (iv_claimToken v, iv_version v)"
  have "settled_rows i rid w until (snd (delete_many ?hit (id_rows db)))"
    using assms by (intro settled_rows_delete) (auto simp: settled_key_def settled_row_def cas_hit_def)
  then have "settled_key k i rid w until t0 (db\<lparr>id_rows := snd (delete_many ?hit (id_rows db))\<rparr>)"
    by (rule settled_rows_changed [OF assms])
  then show ?thesis
    using settled_cache_delete by (auto simp: idem_fail_def failDeleteCas_def io_then_def Let_def split: prod.splits)
qed

section \<open>A completed request is replayed\<close>

text \<open>What other calls and the purge can do, for calls of one deployment (host and prefix).\<close>

inductive idem_move :: "host \<Rightarrow> string \<Rightarrow> idem_identity \<Rightarrow> string \<Rightarrow> int \<Rightarrow> 'a idem_db_scheme \<Rightarrow> 'a idem_db_scheme \<Rightarrow> bool"
  for h pre i rid until where
  Move_reserve: "ic_host e = h \<Longrightarrow> ig_redisPrefix (ic_config e) = pre \<Longrightarrow> plain_identity (iq_identity rq) \<Longrightarrow>
    idem_move h pre i rid until db (snd (idem_reserve e rq db))"
| Move_complete: "ic_host e = h \<Longrightarrow> ig_redisPrefix (ic_config e) = pre \<Longrightarrow> plain_identity (iv_identity v) \<Longrightarrow>
    iv_id v = rid \<longleftrightarrow> iv_identity v = i \<Longrightarrow> idem_move h pre i rid until db (snd (idem_complete e v result db))"
| Move_fail: "idem_move h pre i rid until db (snd (idem_fail e v db))"
| Move_purge: "now \<le> until \<Longrightarrow>
    idem_move h pre i rid until db (db\<lparr>id_rows := snd (idem_purgeExpired now (id_rows db))\<rparr>)"
| Move_evict: "idem_move h pre i rid until db (db\<lparr>id_cache := (id_cache db)(k := None)\<rparr>)"

lemma idem_move_settled:
  assumes "idem_move h pre i rid until db db'" "settled_key (cache_key e0 i) i rid w until t0 db"
    and "stored h w = Some w" "plain_identity i" "ig_redisPrefix (ic_config e0) = pre"
  shows "settled_key (cache_key e0 i) i rid w until t0 db'"
  using assms(1,2)
proof (induction rule: idem_move.induct)
  case (Move_reserve e rq db)
  have same: "cache_key e i = cache_key e0 i" using Move_reserve(2) assms(5) by (simp add: cache_key_def)
  show ?case
  proof (cases "iq_identity rq = i")
    case True
    then show ?thesis using reserve_settled(1) [OF Move_reserve(4) True same [symmetric]] Move_reserve(1) assms(3) by simp
  next
    case False
    then have "cache_key e (iq_identity rq) \<noteq> cache_key e0 i"
      using cache_key_injective [of e _ e0 i] Move_reserve(2,3) assms(4,5) by auto
    then show ?thesis using reserve_other [OF Move_reserve(4) False] by simp
  qed
next
  case (Move_complete e v db result)
  have "cache_key e (iv_identity v) \<noteq> cache_key e0 i" if "iv_identity v \<noteq> i"
    using that cache_key_injective [of e _ e0 i] Move_complete(2,3) assms(4,5) by auto
  then show ?case using complete_spares [OF Move_complete(5,4)] by blast
next
  case (Move_fail db e v)
  then show ?case by (rule fail_spares)
next
  case (Move_purge now db)
  then have "settled_rows i rid w until (snd (idem_purgeExpired now (id_rows db)))"
    unfolding idem_purgeExpired_def
    by (intro settled_rows_delete) (auto simp: settled_key_def settled_row_def)
  then show ?case by (rule settled_rows_changed [OF Move_purge(2)])
next
  case (Move_evict db k)
  then show ?case by (simp add: settled_key_def settled_cache_removed)
qed

lemma idem_moves_settled:
  assumes "(idem_move h pre i rid until)\<^sup>*\<^sup>* db db'" "settled_key (cache_key e0 i) i rid w until t0 db"
    and "stored h w = Some w" "plain_identity i" "ig_redisPrefix (ic_config e0) = pre"
  shows "settled_key (cache_key e0 i) i rid w until t0 db'"
  using assms by (induction rule: rtranclp_induct) (auto intro: idem_move_settled)

lemma json_input_stored: "json_input h v = Inr w \<Longrightarrow> stored h v = None \<or> stored h v = Some w"
  by (auto simp: json_input_def is_nullish_def split: if_splits option.splits)

text \<open>The owner's completion settles its key.\<close>

lemma complete_settles:
  assumes "r \<in> set (id_rows db)" "ik_owned (iv_id v) (iv_claimToken v, iv_version v) r" "ik_identity r = iv_identity v"
    and "idem_keys_unique (id_rows db)" "json_input (ic_host e) result = Inr w"
    and "\<And>val x. id_cache db (cache_key e (iv_identity v)) = Some (val, x) \<Longrightarrow> x \<le> ic_now e"
  shows "settled_key (cache_key e (iv_identity v)) (iv_identity v) (iv_id v) w (ik_expiresAt r) (ic_now e)
    (snd (idem_complete e v result db))"
proof -
  let ?hit = "ik_owned (iv_id v) (iv_claimToken v, iv_version v)"
  let ?upd = "completed_row (ic_now e) w (iv_claimToken v, iv_version v)"
  let ?S = "settled_key (cache_key e (iv_identity v)) (iv_identity v) (iv_id v) w (ik_expiresAt r) (ic_now e)"
  obtain n rows where um: "update_many ?hit ?upd (id_rows db) = (n, rows)"
    by (cases "update_many ?hit ?upd (id_rows db)")
  have rows: "rows = snd (update_many ?hit ?upd (id_rows db))" by (simp add: um)
  have "map ik_id rows = map ik_id (id_rows db)" "map ik_identity rows = map ik_identity (id_rows db)"
    by (simp_all add: rows update_many_def map_map_where completed_row_def)
  moreover have "?upd r \<in> set rows" using assms(1,2) by (auto simp: rows set_update_many)
  moreover have "settled_row (iv_identity v) (iv_id v) w (ik_expiresAt r) (?upd r)"
    using assms(2,3) by (simp add: settled_row_def completed_row_def cas_hit_def)
  ultimately have "settled_rows (iv_identity v) (iv_id v) w (ik_expiresAt r) rows"
    using assms(4) by (auto simp: settled_rows_def idem_keys_unique_def)
  then have db': "?S (db\<lparr>id_rows := rows\<rparr>)"
    using assms(6) by (auto simp: settled_key_def settled_cache_def)
  with settled_cache_set [OF db', of "cache_key e (iv_identity v)" e result] json_input_stored [OF assms(5)]
  show ?thesis
    by (auto simp: idem_complete_def completeCas_def io_then_def assms(5) um split: prod.splits option.splits)
qed

text \<open>
  C8. Once the owner of a claim has completed it, every later request with the same idempotency key
  gets the stored response and its handler is not run, whatever other calls, evictions and purges up
  to the expiry of the row happen in between.
\<close>
theorem completed_request_is_replayed:
  assumes "r \<in> set (id_rows db)" "ik_owned (iv_id v) (iv_claimToken v, iv_version v) r" "ik_identity r = iv_identity v"
    and "idem_keys_unique (id_rows db)"
    and "\<And>val x. id_cache db (cache_key e (iv_identity v)) = Some (val, x) \<Longrightarrow> x \<le> ic_now e"
    and "json_input (ic_host e) result = Inr w" "stored (ic_host e) w = Some w" "plain_identity (iv_identity v)"
    and "(idem_move (ic_host e) (ig_redisPrefix (ic_config e)) (iv_identity v) (iv_id v) (ik_expiresAt r))\<^sup>*\<^sup>*
      (snd (idem_complete e v result db)) db'"
    and "ic_host e' = ic_host e" "ig_redisPrefix (ic_config e') = ig_redisPrefix (ic_config e)" "ic_now e \<le> ic_now e'"
    and "ih_marked rq" "http_identity rq = iv_identity v" "truthy (http_key rq)" "trim (the (http_key rq)) \<noteq> []"
  shows "\<exists>db''. \<forall>handler. idem_intercept e' rq handler db' = (Inr w, db'')"
proof -
  let ?rq = "\<lparr>iq_identity = http_identity rq, iq_requestHash = None, iq_ttlMs = Some (ig_ttlMs (ic_config e'))\<rparr>"
  have "settled_key (cache_key e (iv_identity v)) (iv_identity v) (iv_id v) w (ik_expiresAt r) (ic_now e) db'"
    using idem_moves_settled [OF assms(9) complete_settles [OF assms(1,2,3,4,6,5)] assms(7,8) refl] by simp
  moreover have "cache_key e (iv_identity v) = cache_key e' (iv_identity v)"
    using assms(11) by (simp add: cache_key_def)
  ultimately have "fst (idem_reserve e' ?rq db') = Inr (IDEM_REPLAY w)"
    using reserve_settled(2) [of _ _ _ _ _ _ db' ?rq e'] assms(7,10,12,14) by simp
  then obtain db'' where "idem_reserve e' ?rq db' = (Inr (IDEM_REPLAY w), db'')"
    by (metis prod.collapse)
  then have "idem_intercept e' rq handler db' = (Inr w, db'')" for handler
    using assms(13,15,16) by (simp add: idem_intercept_def io_then_Inr)
  then show ?thesis by blast
qed

section \<open>A superseded owner\<close>

interpretation claim: fenced_update ik_id "\<lambda>r. Some (ik_claimToken r, ik_version r)"
  "\<lambda>r. ik_status r = IDEM_IN_PROGRESS" "completed_row now w"
  by unfold_locales (auto simp: completed_row_def cas_hit_def)

lemma acquired_rows:
  assumes "idem_reserve e rq db = (Inr (IDEM_ACQUIRED v), db')" "idem_keys_unique (id_rows db)"
    and "r \<in> set (id_rows db')" "ik_id r = iv_id v"
  shows "ik_claimToken r = ic_token e"
proof -
  define x where "x = ic_now e + coalesce (iq_ttlMs rq) (ig_ttlMs (ic_config e))"
  let ?i = "iq_identity rq"
  show ?thesis
  proof (cases "\<exists>q \<in> set (id_rows db). ik_identity q = ?i \<or> ik_id q = ic_rowId e")
    case False
    then have "insertClaim e ?i x (iq_requestHash rq) db = (Inr (ic_rowId e, 1), db') \<and> iv_id v = ic_rowId e"
      using assms(1) by (auto simp: idem_reserve_def Let_def io_then_def io_catch_def insertClaim_def x_def
          idem_acquired_def split: option.splits)
    with False assms(3,4) show ?thesis by (auto simp: insertClaim_def insert_row_def)
  next
    case True
    let ?upd = "\<lambda>r. r\<lparr>ik_claimToken := ic_token e, ik_result := VNull, ik_expiresAt := x,
      ik_claimedAt := Some (ic_now e), ik_version := ik_version r + 1\<rparr>"
    let ?rows = "snd (update_many (takeover_hit ?i (ic_now e - ig_claimLeaseMs (ic_config e))) ?upd (id_rows db))"
    have "\<exists>q. idem_findByIdentity ?i ?rows = Some q \<and> iv_id v = ik_id q \<and> id_rows db' = ?rows \<and>
        fst (update_many (takeover_hit ?i (ic_now e - ig_claimLeaseMs (ic_config e))) ?upd (id_rows db)) \<noteq> 0"
      using assms(1) True
      by (auto simp: idem_reserve_def Let_def io_then_def io_catch_def insertClaim_def idem_inspect_def x_def
          cache_set_def takeoverExpiredClaim_def idem_acquired_def
          split: option.splits if_splits prod.splits sum.splits)
    then obtain q where q: "idem_findByIdentity ?i ?rows = Some q" "iv_id v = ik_id q" "id_rows db' = ?rows"
      and hit: "fst (update_many (takeover_hit ?i (ic_now e - ig_claimLeaseMs (ic_config e))) ?upd (id_rows db)) \<noteq> 0"
      by (elim exE conjE)
    from hit [unfolded update_many_count_0] obtain p where p: "p \<in> set (id_rows db)" "takeover_hit ?i (ic_now e - ig_claimLeaseMs (ic_config e)) p" by blast
    have ids: "map ik_id ?rows = map ik_id (id_rows db)" "map ik_identity ?rows = map ik_identity (id_rows db)"
      by (simp_all add: update_many_def map_map_where)
    have "distinct (map ik_id ?rows)" "distinct (map ik_identity ?rows)"
      unfolding ids using assms(2) by (simp_all add: idem_keys_unique_def)
    then have uniq: "inj_on ik_id (set ?rows)" "inj_on ik_identity (set ?rows)"
      unfolding distinct_map by blast+
    have "?upd p \<in> set ?rows" using p by (auto simp: set_update_many)
    moreover have "q \<in> set ?rows" "ik_identity q = ?i"
      using q(1) by (auto simp: idem_findByIdentity_def find_first_def find_Some_iff)
    moreover have "ik_identity (?upd p) = ?i" using p(2) by (simp add: takeover_hit_def)
    ultimately have "q = ?upd p" by (intro inj_onD [OF uniq(2)]) simp_all
    have "r \<in> set ?rows" "ik_id r = ik_id q" using assms(3,4) q(2,3) by simp_all
    then have "r = q" by (intro inj_onD [OF uniq(1)]) (simp_all add: \<open>q \<in> set ?rows\<close>)
    with \<open>q = ?upd p\<close> show ?thesis by simp
  qed
qed

text \<open>
  An owner whose claim was taken over (same row, another claim token) is fenced out: completing
  or failing its reservation changes neither the ledger nor the cache.
\<close>
theorem superseded_owner_is_fenced_out:
  assumes "idem_reserve e rq db = (Inr (IDEM_ACQUIRED v), db')" "idem_keys_unique (id_rows db)"
    and "iv_id old = iv_id v" "iv_claimToken old \<noteq> ic_token e"
  shows "snd (idem_complete e' old result db') = db' \<and> idem_fail e'' old db' = (Inr (), db')"
proof -
  let ?t = "(iv_claimToken old, iv_version old)"
  have stale: "Some (ik_claimToken r, ik_version r) \<noteq> Some ?t" if "r \<in> set (id_rows db')" "ik_id r = iv_id old" for r
    using acquired_rows [OF assms(1,2) that(1)] that(2) assms(3,4) by auto
  have "update_many (ik_owned (iv_id old) ?t) (completed_row now w ?t) (id_rows db') = (0, id_rows db')" for now w
    by (rule claim.stale_token) (rule stale)
  moreover have "delete_many (ik_owned (iv_id old) ?t) (id_rows db') = (0, id_rows db')"
    using stale by (auto simp: delete_many_def cas_hit_def filter_empty_conv filter_id_conv)
  ultimately show ?thesis
    by (cases "json_input (ic_host e') result")
      (simp_all add: idem_complete_def completeCas_def io_then_def idem_fail_def failDeleteCas_def)
qed

section \<open>Examples\<close>

definition demo_idem_host :: host where
  "demo_idem_host = \<lparr>h_inherited = (\<lambda>v k. VUndef), h_number = (\<lambda>v. NaN), h_stored = (\<lambda>n. None), h_same = (\<lambda>v w. False)\<rparr>"

definition demo_idem_call :: "int \<Rightarrow> string \<Rightarrow> idem_call" where
  "demo_idem_call now token = \<lparr>ic_now = now, ic_host = demo_idem_host, ic_redis = R_READY,
     ic_config = \<lparr>ig_ttlMs = 1000, ig_claimLeaseMs = 100, ig_redisPrefix = ''idem''\<rparr>, ic_token = token, ic_rowId = token\<rparr>"

definition demo_idem_http :: idem_http where
  "demo_idem_http = \<lparr>ih_marked = True, ih_header = Some [''k1''], ih_scope = ''Po.create'', ih_tenant = Some ''T'', ih_company = None\<rparr>"

definition demo_idem_db :: "string \<Rightarrow> idem_db" where
  "demo_idem_db token = \<lparr>id_rows = [\<lparr>ik_id = ''a'', ik_identity = http_identity demo_idem_http, ik_requestHash = None,
     ik_status = IDEM_IN_PROGRESS, ik_claimToken = token, ik_version = 1, ik_result = VNull,
     ik_claimedAt = Some 0, ik_completedAt = None, ik_expiresAt = 1000\<rparr>], id_cache = (\<lambda>_. None)\<rparr>"

definition demo_reservation :: "string \<Rightarrow> int \<Rightarrow> idem_reservation" where
  "demo_reservation token n = \<lparr>iv_identity = http_identity demo_idem_http, iv_id = ''a'', iv_claimToken = token, iv_version = n\<rparr>"

definition demo_completed :: idem_db where
  "demo_completed = snd (idem_complete (demo_idem_call 10 ''a'') (demo_reservation ''a'' 1) (VStr ''po-1'') (demo_idem_db ''a''))"

lemmas demo_idem = demo_idem_call_def demo_idem_http_def demo_idem_db_def demo_reservation_def demo_idem_host_def
  http_identity_def http_key_def coalesce_def trim_def is_space_def

theorem completed_request_is_replayed_witness:
  "\<exists>db''. \<forall>handler. idem_intercept (demo_idem_call 2000 ''z'') demo_idem_http handler
     (demo_completed\<lparr>id_cache := (id_cache demo_completed)(''idem:T::Po.create:k1'' := None)\<rparr>) = (Inr (VStr ''po-1''), db'')"
proof -
  let ?e = "demo_idem_call 10 ''a''" and ?v = "demo_reservation ''a'' 1"
  let ?r = "hd (id_rows (demo_idem_db ''a''))"
  let ?db' = "demo_completed\<lparr>id_cache := (id_cache demo_completed)(''idem:T::Po.create:k1'' := None)\<rparr>"
  have moves: "(idem_move (ic_host ?e) (ig_redisPrefix (ic_config ?e)) (iv_identity ?v) (iv_id ?v) (ik_expiresAt ?r))\<^sup>*\<^sup>*
      (snd (idem_complete ?e ?v (VStr ''po-1'') (demo_idem_db ''a''))) ?db'"
    unfolding demo_completed_def by (intro r_into_rtranclp Move_evict)
  show ?thesis
  proof (rule completed_request_is_replayed [OF _ _ _ _ _ _ _ _ moves])
    show "?r \<in> set (id_rows (demo_idem_db ''a''))" "ik_owned (iv_id ?v) (iv_claimToken ?v, iv_version ?v) ?r"
      "ik_identity ?r = iv_identity ?v" "idem_keys_unique (id_rows (demo_idem_db ''a''))"
      by (simp_all add: demo_idem_db_def demo_reservation_def cas_hit_def idem_keys_unique_def)
  qed (simp_all add: demo_idem json_input_def is_nullish_def plain_identity_def)
qed

theorem superseded_owner_is_fenced_out_witness:
  "snd (idem_complete (demo_idem_call 210 ''a'') (demo_reservation ''a'' 1) (VStr ''late'')
      (snd (idem_reserve (demo_idem_call 200 ''b'') \<lparr>iq_identity = http_identity demo_idem_http, iq_requestHash = None,
         iq_ttlMs = None\<rparr> (demo_idem_db ''a''))))
    = snd (idem_reserve (demo_idem_call 200 ''b'') \<lparr>iq_identity = http_identity demo_idem_http, iq_requestHash = None,
         iq_ttlMs = None\<rparr> (demo_idem_db ''a''))"
proof -
  let ?rq = "\<lparr>iq_identity = http_identity demo_idem_http, iq_requestHash = None, iq_ttlMs = None\<rparr>"
  let ?run = "idem_reserve (demo_idem_call 200 ''b'') ?rq (demo_idem_db ''a'')"
  have "fst ?run = Inr (IDEM_ACQUIRED (demo_reservation ''b'' 2))"
    by (simp add: demo_idem_call_def demo_idem_db_def demo_reservation_def idem_reserve_def Let_def io_then_def io_catch_def
        cache_get_def insertClaim_def idem_findByIdentity_def find_first_def idem_inspect_def takeoverExpiredClaim_def
        update_many_def map_where_def takeover_hit_def idem_acquired_def)
  then have run: "?run = (Inr (IDEM_ACQUIRED (demo_reservation ''b'' 2)), snd ?run)" by (metis prod.collapse)
  show ?thesis
    using superseded_owner_is_fenced_out [OF run, of "demo_reservation ''a'' 1" "demo_idem_call 210 ''a''" "VStr ''late''"]
    by (simp add: demo_idem_db_def demo_reservation_def idem_keys_unique_def demo_idem_call_def)
qed

end
