(* ===== verification/Condition_Engine.thy ===== *)
theory Condition_Engine
  imports Saga_Value
begin

text \<open>
  The condition engine (\<open>platform/platform-common/condition-engine\<close>): the parser that turns the
  JSON of a generation condition into clauses, the registry of field resolvers, and the evaluator.
  A resolver belongs to the module that owns the field and is a parameter; what it throws is the
  result of the evaluation.
\<close>

section \<open>Keyed registries\<close>

text \<open>\<open>KeyedRegistryBase\<close>: a map from keys to entries that refuses a second registration.\<close>

type_synonym 'v registry = "(string \<times> 'v) list"

definition registerEntry :: "string \<Rightarrow> 'v \<Rightarrow> exn \<Rightarrow> 'v registry \<Rightarrow> 'v registry result" where
  "registerEntry key value onDuplicate entries =
     (if map_of entries key \<noteq> None then Inl onDuplicate else Inr (entries @ [(key, value)]))"

definition getEntry :: "string \<Rightarrow> 'v registry \<Rightarrow> 'v option" where
  "getEntry key entries = map_of entries key"

definition requireEntry :: "string \<Rightarrow> exn \<Rightarrow> 'v registry \<Rightarrow> 'v result" where
  "requireEntry key onMissing entries = (case map_of entries key of None \<Rightarrow> Inl onMissing | Some v \<Rightarrow> Inr v)"

definition has_entry :: "string \<Rightarrow> 'v registry \<Rightarrow> bool" where
  "has_entry key entries \<longleftrightarrow> map_of entries key \<noteq> None"

definition registeredKeys :: "'v registry \<Rightarrow> string list" where
  "registeredKeys entries = map fst entries"

section \<open>Conditions\<close>

datatype condition_operator = C_EQ | C_NEQ | C_GT | C_GTE | C_LT | C_LTE | C_IN | C_NOT_IN

datatype condition_logic = L_AND | L_OR

record condition_clause =
  cc_field :: string
  cc_operator :: condition_operator
  cc_value :: sval

record generation_condition =
  gc_logic :: condition_logic
  gc_clauses :: "condition_clause list"

record condition_result =
  cr_passed :: bool
  cr_evaluatedValues :: "(string \<times> sval) list"

definition CONDITION_OPERATORS :: "(string \<times> condition_operator) list" where
  "CONDITION_OPERATORS = [(''eq'', C_EQ), (''neq'', C_NEQ), (''gt'', C_GT), (''gte'', C_GTE), (''lt'', C_LT),
     (''lte'', C_LTE), (''in'', C_IN), (''notIn'', C_NOT_IN)]"

fun condition_scalar :: "sval \<Rightarrow> bool" where
  "condition_scalar VNull = True"
| "condition_scalar (VStr s) = True"
| "condition_scalar (VNum x) = True"
| "condition_scalar (VBool b) = True"
| "condition_scalar v = False"

fun condition_value :: "sval \<Rightarrow> bool" where
  "condition_value (VArr xs) = list_all condition_scalar xs"
| "condition_value v = condition_scalar v"

section \<open>The parser\<close>

definition clause_text :: "nat \<Rightarrow> string" where
  "clause_text i = ''generationCondition.clauses['' @ nat_to_string i @ '']''"

definition parseConditionValue :: "sval \<Rightarrow> nat \<Rightarrow> sval result" where
  "parseConditionValue v i =
     (if condition_value v then Inr v else throw 400 (clause_text i @ ''.value must be a scalar or scalar array''))"

definition parseClause :: "host \<Rightarrow> sval \<Rightarrow> nat \<Rightarrow> condition_clause result" where
  "parseClause h raw i = (case raw of
       VObj fs \<Rightarrow>
         (case get_property h raw ''field'' of
            VStr field \<Rightarrow>
              if field = [] then throw 400 (clause_text i @ ''.field is required'')
              else (case (case get_property h raw ''operator'' of VStr oper \<Rightarrow> map_of CONDITION_OPERATORS oper | _ \<Rightarrow> None) of
                  None \<Rightarrow> throw 400 (clause_text i @ ''.operator must be one of: eq, neq, gt, gte, lt, lte, in, notIn'')
                | Some oper \<Rightarrow> and_then (parseConditionValue (get_property h raw ''value'') i) (\<lambda>v.
                    Inr \<lparr>cc_field = field, cc_operator = oper, cc_value = v\<rparr>))
          | _ \<Rightarrow> throw 400 (clause_text i @ ''.field is required''))
     | _ \<Rightarrow> throw 400 (clause_text i @ '' must be an object''))"

fun parseClauses :: "host \<Rightarrow> nat \<Rightarrow> sval list \<Rightarrow> condition_clause list result" where
  "parseClauses h i [] = Inr []"
| "parseClauses h i (x # xs) =
     and_then (parseClause h x i) (\<lambda>c. and_then (parseClauses h (i + 1) xs) (\<lambda>cs. Inr (c # cs)))"

definition parseCondition :: "host \<Rightarrow> sval \<Rightarrow> generation_condition option result" where
  "parseCondition h json =
     (if is_nullish json then Inr None
      else (case (case get_property h json ''logic'' of
               VStr l \<Rightarrow> if l = ''AND'' then Some L_AND else if l = ''OR'' then Some L_OR else None | _ \<Rightarrow> None) of
          None \<Rightarrow> throw 400 ''generationCondition.logic must be AND or OR''
        | Some logic \<Rightarrow>
            (case get_property h json ''clauses'' of
               VArr clauses \<Rightarrow> and_then (parseClauses h 0 clauses) (\<lambda>cs. Inr (Some \<lparr>gc_logic = logic, gc_clauses = cs\<rparr>))
             | _ \<Rightarrow> throw 400 ''generationCondition.clauses must be an array'')))"

section \<open>The evaluator\<close>

type_synonym 'c resolver = "string \<Rightarrow> 'c \<Rightarrow> sval result"

definition register_resolver :: "string \<Rightarrow> 'c resolver \<Rightarrow> 'c resolver registry \<Rightarrow> 'c resolver registry result" where
  "register_resolver prefix r = registerEntry prefix r (Exn None (''FieldResolver for '' @ prefix @ '' already registered''))"

definition resolve_field :: "'c resolver registry \<Rightarrow> string \<Rightarrow> 'c \<Rightarrow> sval result" where
  "resolve_field reg field ctx =
     (case getEntry (hd (split_on CHR ''.'' field)) reg of
        None \<Rightarrow> throw_plain (''No FieldResolver registered for field '' @ field)
      | Some r \<Rightarrow> r field ctx)"

fun math_sign :: "number \<Rightarrow> number" where
  "math_sign NaN = NaN"
| "math_sign PInf = N 1"
| "math_sign NInf = N (- 1)"
| "math_sign (Fin q) = (if q > 0 then N 1 else if q < 0 then N (- 1) else N 0)"

fun text_less :: "string \<Rightarrow> string \<Rightarrow> bool" where
  "text_less _ [] = False"
| "text_less [] (_ # _) = True"
| "text_less (c # s) (d # t) = ((of_char c :: nat) < of_char d \<or> c = d \<and> text_less s t)"

fun condition_compare :: "sval \<Rightarrow> sval \<Rightarrow> number" where
  "condition_compare (VNum a) (VNum b) = math_sign (js_sub a b)"
| "condition_compare (VStr a) (VStr b) = (if text_less a b then N (- 1) else if text_less b a then N 1 else N 0)"
| "condition_compare _ _ = NaN"

definition array_includes :: "host \<Rightarrow> sval list \<Rightarrow> sval \<Rightarrow> bool" where
  "array_includes h xs v = list_ex (\<lambda>x. strict_eq h x v \<or> x = VNum NaN \<and> v = VNum NaN) xs"

definition clause_matches :: "host \<Rightarrow> sval \<Rightarrow> condition_clause \<Rightarrow> bool" where
  "clause_matches h resolved cl = (case cc_operator cl of
       C_EQ \<Rightarrow> strict_eq h resolved (cc_value cl)
     | C_NEQ \<Rightarrow> \<not> strict_eq h resolved (cc_value cl)
     | C_GT \<Rightarrow> condition_compare resolved (cc_value cl) = N 1
     | C_GTE \<Rightarrow> js_ge (condition_compare resolved (cc_value cl)) (N 0)
     | C_LT \<Rightarrow> condition_compare resolved (cc_value cl) = N (- 1)
     | C_LTE \<Rightarrow> js_le (condition_compare resolved (cc_value cl)) (N 0)
     | C_IN \<Rightarrow> (case cc_value cl of VArr xs \<Rightarrow> array_includes h xs resolved | _ \<Rightarrow> False)
     | C_NOT_IN \<Rightarrow> (case cc_value cl of VArr xs \<Rightarrow> \<not> array_includes h xs resolved | _ \<Rightarrow> False))"

fun evaluate_clauses ::
  "host \<Rightarrow> 'c resolver registry \<Rightarrow> 'c \<Rightarrow> condition_clause list \<Rightarrow> (string \<times> sval) list \<Rightarrow> ((string \<times> sval) list \<times> bool list) result"
where
  "evaluate_clauses h reg ctx [] vs = Inr (vs, [])"
| "evaluate_clauses h reg ctx (cl # cls) vs =
     and_then (resolve_field reg (cc_field cl) ctx) (\<lambda>v.
     and_then (evaluate_clauses h reg ctx cls (set_field (cc_field cl) v vs)) (\<lambda>(vs', bs).
     Inr (vs', clause_matches h v cl # bs)))"

definition condition_evaluate ::
  "host \<Rightarrow> 'c resolver registry \<Rightarrow> generation_condition \<Rightarrow> 'c \<Rightarrow> condition_result result" where
  "condition_evaluate h reg c ctx =
     and_then (evaluate_clauses h reg ctx (gc_clauses c) []) (\<lambda>(vs, bs).
     Inr \<lparr>cr_passed = (case gc_logic c of L_AND \<Rightarrow> list_all id bs | L_OR \<Rightarrow> list_ex id bs), cr_evaluatedValues = vs\<rparr>)"

section \<open>Parsed conditions\<close>

definition clause_typed :: "condition_clause \<Rightarrow> bool" where
  "clause_typed cl \<longleftrightarrow> cc_field cl \<noteq> [] \<and> condition_value (cc_value cl)"

definition condition_typed :: "generation_condition \<Rightarrow> bool" where
  "condition_typed c \<longleftrightarrow> list_all clause_typed (gc_clauses c)"

definition operator_text :: "condition_operator \<Rightarrow> string" where
  "operator_text oper = fst (the (find_first (\<lambda>p. snd p = oper) CONDITION_OPERATORS))"

definition clause_json :: "condition_clause \<Rightarrow> sval" where
  "clause_json cl = VObj [(''field'', VStr (cc_field cl)), (''operator'', VStr (operator_text (cc_operator cl))),
     (''value'', cc_value cl)]"

definition condition_json :: "generation_condition \<Rightarrow> sval" where
  "condition_json c = VObj [(''logic'', VStr (case gc_logic c of L_AND \<Rightarrow> ''AND'' | L_OR \<Rightarrow> ''OR'')),
     (''clauses'', VArr (map clause_json (gc_clauses c)))]"

lemma operator_text_parses: "map_of CONDITION_OPERATORS (operator_text oper) = Some oper"
  by (cases oper) (simp_all add: operator_text_def CONDITION_OPERATORS_def find_first_def)

lemma parseClause_json: "clause_typed cl \<Longrightarrow> parseClause h (clause_json cl) i = Inr cl"
  by (simp add: clause_typed_def parseClause_def clause_json_def get_property_def operator_text_parses parseConditionValue_def)

lemma parseClauses_json: "list_all clause_typed cls \<Longrightarrow> parseClauses h i (map clause_json cls) = Inr cls"
  by (induction cls arbitrary: i) (simp_all add: parseClause_json)

lemma parseClause_typed: "parseClause h raw i = Inr cl \<Longrightarrow> clause_typed cl"
  by (auto simp: parseClause_def parseConditionValue_def clause_typed_def and_then_Inr_iff
      split: sval.splits if_splits option.splits)

lemma parseClauses_typed: "parseClauses h i xs = Inr cls \<Longrightarrow> list_all clause_typed cls \<and> length cls = length xs"
  by (induction xs arbitrary: i cls) (auto simp: and_then_Inr_iff dest: parseClause_typed)

lemma parseCondition_typed: "parseCondition h json = Inr (Some c) \<Longrightarrow> condition_typed c"
  by (auto simp: parseCondition_def condition_typed_def and_then_Inr_iff dest: parseClauses_typed
      split: if_splits sval.splits option.splits)

lemma evaluate_clauses_values:
  "\<forall>cl \<in> set cls. resolve_field reg (cc_field cl) ctx = Inr (val cl) \<Longrightarrow>
   \<exists>vs'. evaluate_clauses h reg ctx cls vs = Inr (vs', map (\<lambda>cl. clause_matches h (val cl) cl) cls)"
proof (induction cls arbitrary: vs)
  case (Cons cl cls)
  then obtain vs' where "evaluate_clauses h reg ctx cls (set_field (cc_field cl) (val cl) vs)
      = Inr (vs', map (\<lambda>cl. clause_matches h (val cl) cl) cls)" by fastforce
  with Cons.prems show ?case by simp
qed simp

text \<open>
  The parser of generation conditions inverts the JSON form: a well-typed condition comes back as
  it was written, and what the parser accepts is well typed (a non-empty field, an operator of the
  list, a scalar or an array of scalars).
\<close>
theorem condition_roundtrip:
  "(condition_typed c \<longrightarrow> parseCondition h (condition_json c) = Inr (Some c)) \<and>
   (parseCondition h json = Inr (Some c) \<longrightarrow> condition_typed c)"
  using parseCondition_typed parseClauses_json [of "gc_clauses c"]
  by (cases "gc_logic c")
    (auto simp: parseCondition_def condition_json_def get_property_def condition_typed_def)

text \<open>
  A parsed condition is well typed, and evaluating a well-typed condition never gets stuck: when every field it names can be
  resolved the evaluation yields a result, which is the conjunction or disjunction of its clauses
  (an empty conjunction passes, an empty disjunction does not); and the only errors are those of a
  resolver.
\<close>
theorem parsed_condition_evaluates:
  assumes "parseCondition h json = Inr (Some c)"
  shows "condition_typed c \<and>
    (case condition_evaluate h reg c ctx of
       Inr r \<Rightarrow> \<exists>val. (\<forall>cl \<in> set (gc_clauses c). resolve_field reg (cc_field cl) ctx = Inr (val cl)) \<and>
         (cr_passed r \<longleftrightarrow> (case gc_logic c of
            L_AND \<Rightarrow> \<forall>cl \<in> set (gc_clauses c). clause_matches h (val cl) cl
          | L_OR \<Rightarrow> \<exists>cl \<in> set (gc_clauses c). clause_matches h (val cl) cl))
     | Inl er \<Rightarrow> \<exists>cl \<in> set (gc_clauses c). resolve_field reg (cc_field cl) ctx = Inl er)"
proof (intro conjI)
  show "condition_typed c" using assms by (rule parseCondition_typed)
  show "case condition_evaluate h reg c ctx of
       Inr r \<Rightarrow> \<exists>val. (\<forall>cl \<in> set (gc_clauses c). resolve_field reg (cc_field cl) ctx = Inr (val cl)) \<and>
         (cr_passed r \<longleftrightarrow> (case gc_logic c of
            L_AND \<Rightarrow> \<forall>cl \<in> set (gc_clauses c). clause_matches h (val cl) cl
          | L_OR \<Rightarrow> \<exists>cl \<in> set (gc_clauses c). clause_matches h (val cl) cl))
     | Inl er \<Rightarrow> \<exists>cl \<in> set (gc_clauses c). resolve_field reg (cc_field cl) ctx = Inl er"
  proof (cases "\<forall>cl \<in> set (gc_clauses c). \<exists>v. resolve_field reg (cc_field cl) ctx = Inr v")
    case True
    then obtain val where val: "\<forall>cl \<in> set (gc_clauses c). resolve_field reg (cc_field cl) ctx = Inr (val cl)" by metis
    from evaluate_clauses_values [OF val, of h "[]"] obtain vs where
      "evaluate_clauses h reg ctx (gc_clauses c) [] = Inr (vs, map (\<lambda>cl. clause_matches h (val cl) cl) (gc_clauses c))" by blast
    with val show ?thesis
      by (cases "gc_logic c") (auto simp: condition_evaluate_def list_all_iff list_ex_iff intro!: exI [of _ val])
  next
    case False
    have "(\<exists>cl \<in> set cls. \<forall>v. resolve_field reg (cc_field cl) ctx \<noteq> Inr v) \<Longrightarrow>
        \<exists>er. evaluate_clauses h reg ctx cls vs = Inl er \<and> (\<exists>cl \<in> set cls. resolve_field reg (cc_field cl) ctx = Inl er)" for cls vs
    proof (induction cls arbitrary: vs)
      case (Cons cl cls)
      show ?case
      proof (cases "resolve_field reg (cc_field cl) ctx")
        case (Inr v)
        with Cons.prems have "\<exists>cl \<in> set cls. \<forall>v. resolve_field reg (cc_field cl) ctx \<noteq> Inr v" by auto
        from Cons.IH [OF this, of "set_field (cc_field cl) v vs"] Inr show ?thesis by auto
      qed auto
    qed simp
    from this [of "gc_clauses c" "[]"] False show ?thesis by (auto simp: condition_evaluate_def)
  qed
qed

section \<open>Examples\<close>

definition demo_condition :: generation_condition where
  "demo_condition = \<lparr>gc_logic = L_AND, gc_clauses =
     [\<lparr>cc_field = ''stock.qty'', cc_operator = C_LT, cc_value = VNum (N 10)\<rparr>,
      \<lparr>cc_field = ''stock.unit'', cc_operator = C_IN, cc_value = VArr [VStr ''kg'', VStr ''t'']\<rparr>]\<rparr>"

theorem condition_roundtrip_witness:
  "\<forall>h. parseCondition h (condition_json demo_condition) = Inr (Some demo_condition)"
proof
  show "parseCondition h (condition_json demo_condition) = Inr (Some demo_condition)" for h
    using condition_roundtrip [of demo_condition h VNull]
    by (simp add: demo_condition_def condition_typed_def clause_typed_def)
qed

definition demo_resolvers :: "unit resolver registry" where
  "demo_resolvers = [(''stock'', \<lambda>field _. Inr (if field = ''stock.qty'' then VNum (N 3) else VStr ''kg''))]"

theorem parsed_condition_evaluates_witness:
  "condition_typed demo_condition \<and>
   (\<forall>h. \<exists>r. condition_evaluate h demo_resolvers demo_condition () = Inr r \<and> cr_passed r)"
proof -
  have "condition_typed demo_condition \<and> (\<exists>r. condition_evaluate h demo_resolvers demo_condition () = Inr r \<and> cr_passed r)" for h
  proof -
    have parses: "parseCondition h (condition_json demo_condition) = Inr (Some demo_condition)"
      by (simp add: parseCondition_def condition_json_def get_property_def demo_condition_def parseClauses_json clause_typed_def
          parseClause_json)
    have "js_sub (N 3) (N 10) = N (- 7)" using js_sub_N [of 3 10] by simp
    then have run: "condition_evaluate h demo_resolvers demo_condition () = Inr \<lparr>cr_passed = True, cr_evaluatedValues =
        [(''stock.qty'', VNum (N 3)), (''stock.unit'', VStr ''kg'')]\<rparr>"
      by (simp add: condition_evaluate_def demo_condition_def resolve_field_def demo_resolvers_def getEntry_def
          clause_matches_def array_includes_def)
    show ?thesis
      using parsed_condition_evaluates [OF parses, of demo_resolvers "()"] run by auto
  qed
  then show ?thesis by blast
qed

end
