(* ===== verification/Scheduler.thy ===== *)
theory Scheduler
  imports Platform Locking Condition_Engine
begin

text \<open>
  The job scheduler (\<open>platform/platform-common/scheduler\<close>): the tables of jobs, dispatch log and edit
  log, the use cases that register, change, claim, dispatch and reconcile jobs, and the worker that
  runs a queued job. The queue, the message broker, the calculator of cron expressions and SHA-256
  are parameters. The statements of the repository are functions on the list of rows, so that both a
  transaction and a plain call can issue them.
\<close>

section \<open>Rows\<close>

datatype schedule_mode = CRON | EXTERNAL
datatype job_scope = AGGREGATE | TENANT | PLATFORM
datatype dispatch_status = D_SUCCESS | D_FAILED | D_DEAD_LETTERED
datatype job_status = JOB_PENDING | JOB_CLAIMED | JOB_RUNNING | JOB_FAILED | JOB_SUSPENDED | JOB_CANCELLED

record scheduled_job =
  jb_id :: string
  jb_tenantId :: "string option"
  jb_jobType :: string
  jb_scope :: job_scope
  jb_scheduleMode :: schedule_mode
  jb_cronExpression :: "string option"
  jb_aggregateType :: "string option"
  jb_aggregateId :: "string option"
  jb_payload :: sval
  jb_nextRunAt :: int
  jb_lastRunAt :: "int option"
  jb_status :: job_status
  jb_retryCount :: int
  jb_version :: int
  jb_lockedUntil :: "int option"
  jb_lockedBy :: "string option"

record dispatch_log =
  dl_id :: string
  dl_tenantId :: "string option"
  dl_scheduledJobId :: string
  dl_jobType :: string
  dl_dispatchedAt :: int
  dl_completedAt :: "int option"
  dl_outcome :: dispatch_status
  dl_durationMs :: "int option"
  dl_errorMessage :: "string option"
  dl_idempotencyKey :: string

record edit_log =
  el_scheduledJobId :: string
  el_editedBy :: "string option"
  el_changedFields :: "(string \<times> json) list"

record queued_job =
  qj_jobId :: string
  qj_jobType :: string
  qj_tenantId :: "string option"
  qj_scope :: job_scope
  qj_aggregateType :: "string option"
  qj_aggregateId :: "string option"
  qj_payload :: sval
  qj_idempotencyKey :: string
  qj_scheduleMode :: schedule_mode
  qj_cronExpression :: "string option"

record register_input =
  ri_jobType :: string
  ri_scope :: job_scope
  ri_scheduleMode :: schedule_mode
  ri_cronExpression :: "string option"
  ri_nextRunAt :: "int option"
  ri_tenantId :: "string option"
  ri_aggregateType :: "string option"
  ri_aggregateId :: "string option"
  ri_payload :: sval

record update_input =
  ui_jobId :: string
  ui_expectedVersion :: int
  ui_cronExpression :: "string option"
  ui_nextRunAt :: "int option"
  ui_editedBy :: "string option"

record scheduler_db = platform_db +
  sd_jobs :: "scheduled_job list"
  sd_logs :: "dispatch_log list"
  sd_edits :: "edit_log list"
  sd_queue :: "queued_job list"
  sd_published :: "queued_job list"
  sd_redis :: redis
  sd_lastTick :: "int option"

record scheduler_config =
  sf_batchSize :: nat
  sf_lockTtlMs :: int
  sf_jobAttempts :: int
  sf_maxRetries :: int
  sf_retryBackoffBaseMs :: int

text \<open>
  What one call sees: the environment, the other transactions' row locks, the Redis client, the
  random tokens it draws (owner token and lock id for a job), and the external services: the next
  time of a cron expression, \<open>toISOString\<close>, the SHA-256 text, the answers of the queue and the broker.
\<close>

datatype queue_answer = Q_ACCEPTED | Q_DUPLICATE | Q_REJECTED exn

record scheduler_call =
  sv_env :: env
  sv_host :: host
  sv_config :: scheduler_config
  sv_redis :: redis_client
  sv_lock_config :: lock_config
  sv_rowLocked :: "string \<Rightarrow> bool"
  sv_lockedBy :: string
  sv_token :: "string \<Rightarrow> string \<times> string"
  sv_cron :: "string \<Rightarrow> int \<Rightarrow> int result"
  sv_iso :: "int \<Rightarrow> string"
  sv_sha256 :: "string \<Rightarrow> string"
  sv_queue :: "queued_job \<Rightarrow> queue_answer"
  sv_publish :: "queued_job \<Rightarrow> unit result"

abbreviation sv_now :: "scheduler_call \<Rightarrow> int" where
  "sv_now c \<equiv> e_now (sv_env c)"

section \<open>The job repository\<close>

definition jb_unlocked :: "scheduled_job \<Rightarrow> scheduled_job" where
  "jb_unlocked r = r\<lparr>jb_lockedUntil := None, jb_lockedBy := None, jb_version := jb_version r + 1\<rparr>"

definition job_create :: "host \<Rightarrow> string \<Rightarrow> register_input \<Rightarrow> int \<Rightarrow> scheduled_job list \<Rightarrow> scheduled_job list" where
  "job_create h i input nextRunAt rows = insert_row
     \<lparr>jb_id = i, jb_tenantId = ri_tenantId input, jb_jobType = ri_jobType input, jb_scope = ri_scope input,
      jb_scheduleMode = ri_scheduleMode input, jb_cronExpression = ri_cronExpression input,
      jb_aggregateType = ri_aggregateType input, jb_aggregateId = ri_aggregateId input,
      jb_payload = coalesce (stored h (ri_payload input)) VNull, jb_nextRunAt = nextRunAt, jb_lastRunAt = None,
      jb_status = JOB_PENDING, jb_retryCount = 0, jb_version = 0, jb_lockedUntil = None, jb_lockedBy = None\<rparr> rows"

definition job_findById :: "string \<Rightarrow> scheduled_job list \<Rightarrow> scheduled_job option" where
  "job_findById i rows = find_first (\<lambda>r. jb_id r = i) rows"

definition job_listWhere :: "string option \<Rightarrow> job_status option \<Rightarrow> string option \<Rightarrow> scheduled_job \<Rightarrow> bool" where
  "job_listWhere jobType status tenantId r \<longleftrightarrow>
     (case jobType of None \<Rightarrow> True | Some t \<Rightarrow> jb_jobType r = t) \<and>
     (case status of None \<Rightarrow> True | Some s \<Rightarrow> jb_status r = s) \<and>
     (case tenantId of None \<Rightarrow> True | Some t \<Rightarrow> jb_tenantId r = Some t)"

definition job_list ::
  "string option \<Rightarrow> job_status option \<Rightarrow> string option \<Rightarrow> nat option \<Rightarrow> nat option \<Rightarrow> scheduled_job list \<Rightarrow> scheduled_job list"
where
  "job_list jobType status tenantId limit offset rows =
     take (coalesce limit 50) (drop (coalesce offset 0)
       (sort_key jb_nextRunAt (filter (job_listWhere jobType status tenantId) rows)))"

definition job_count :: "string option \<Rightarrow> job_status option \<Rightarrow> string option \<Rightarrow> scheduled_job list \<Rightarrow> nat" where
  "job_count jobType status tenantId rows = length (filter (job_listWhere jobType status tenantId) rows)"

definition cancelled_row :: "scheduled_job \<Rightarrow> scheduled_job" where
  "cancelled_row r = (jb_unlocked r)\<lparr>jb_status := JOB_CANCELLED\<rparr>"

definition job_cancel :: "string \<Rightarrow> scheduled_job list \<Rightarrow> scheduled_job list" where
  "job_cancel i rows = snd (update_many (\<lambda>r. jb_id r = i \<and> jb_status r \<noteq> JOB_CANCELLED) cancelled_row rows)"

definition of_aggregate :: "string \<Rightarrow> string \<Rightarrow> scheduled_job \<Rightarrow> bool" where
  "of_aggregate aggregateType aggregateId r \<longleftrightarrow>
     jb_aggregateType r = Some aggregateType \<and> jb_aggregateId r = Some aggregateId"

definition job_cancelByAggregate :: "string \<Rightarrow> string \<Rightarrow> scheduled_job list \<Rightarrow> scheduled_job list" where
  "job_cancelByAggregate aggregateType aggregateId rows = snd (update_many
     (\<lambda>r. of_aggregate aggregateType aggregateId r \<and> jb_status r \<noteq> JOB_CANCELLED) cancelled_row rows)"

definition rescheduled_row :: "int \<Rightarrow> scheduled_job \<Rightarrow> scheduled_job" where
  "rescheduled_row nextRunAt r = (jb_unlocked r)\<lparr>jb_nextRunAt := nextRunAt, jb_status := JOB_PENDING\<rparr>"

definition job_reschedule :: "string \<Rightarrow> int \<Rightarrow> scheduled_job list \<Rightarrow> scheduled_job list" where
  "job_reschedule i nextRunAt rows = snd (update_many
     (\<lambda>r. jb_id r = i \<and> jb_status r \<noteq> JOB_CANCELLED) (rescheduled_row nextRunAt) rows)"

definition job_rescheduleByAggregate :: "string \<Rightarrow> string \<Rightarrow> int \<Rightarrow> scheduled_job list \<Rightarrow> scheduled_job list" where
  "job_rescheduleByAggregate aggregateType aggregateId nextRunAt rows = snd (update_many
     (\<lambda>r. of_aggregate aggregateType aggregateId r \<and> jb_status r \<noteq> JOB_CANCELLED) (rescheduled_row nextRunAt) rows)"

definition job_due :: "scheduler_call \<Rightarrow> scheduled_job \<Rightarrow> bool" where
  "job_due c r \<longleftrightarrow> jb_status r = JOB_PENDING \<and> jb_nextRunAt r \<le> sv_now c \<and> \<not> sv_rowLocked c (jb_id r)"

definition claimed_row :: "scheduler_call \<Rightarrow> scheduled_job \<Rightarrow> scheduled_job" where
  "claimed_row c r = r\<lparr>jb_status := JOB_CLAIMED,
     jb_lockedUntil := Some (sv_now c + sf_lockTtlMs (sv_config c)), jb_lockedBy := Some (sv_lockedBy c)\<rparr>"

text \<open>The claimed jobs are the rows as they were selected.\<close>

definition claimDue :: "scheduler_call \<Rightarrow> nat \<Rightarrow> scheduled_job list \<Rightarrow> scheduled_job list \<times> scheduled_job list" where
  "claimDue c batchSize rows =
     (let picked = take batchSize (sort_key jb_nextRunAt (filter (job_due c) rows)) in
      if picked = [] then ([], rows)
      else (picked, snd (update_many (\<lambda>r. jb_id r \<in> set (map jb_id picked)) (claimed_row c) rows)))"

definition findOverdue :: "int \<Rightarrow> int \<Rightarrow> scheduled_job list \<Rightarrow> nat" where
  "findOverdue now thresholdMs rows = length (filter
     (\<lambda>r. jb_status r \<in> {JOB_PENDING, JOB_CLAIMED} \<and> jb_nextRunAt r < now - thresholdMs) rows)"

definition markPendingWithNextRun :: "string \<Rightarrow> int \<Rightarrow> int option \<Rightarrow> scheduled_job list \<Rightarrow> scheduled_job list" where
  "markPendingWithNextRun i nextRunAt lastRunAt rows = snd (update_many
     (\<lambda>r. jb_id r = i \<and> jb_status r \<notin> {JOB_CANCELLED, JOB_SUSPENDED})
     (\<lambda>r. (rescheduled_row nextRunAt r)\<lparr>jb_lastRunAt := coalesce_opt lastRunAt (jb_lastRunAt r)\<rparr>) rows)"

definition touchLastRunAt :: "string \<Rightarrow> int \<Rightarrow> scheduled_job list \<Rightarrow> scheduled_job list" where
  "touchLastRunAt i now rows = snd (update_many
     (\<lambda>r. jb_id r = i \<and> jb_status r \<in> {JOB_CLAIMED, JOB_RUNNING}) (\<lambda>r. r\<lparr>jb_lastRunAt := Some now\<rparr>) rows)"

definition markRunningExternal :: "string \<Rightarrow> int \<Rightarrow> scheduled_job list \<Rightarrow> bool \<times> scheduled_job list" where
  "markRunningExternal i lockedUntil rows =
     (let (n, rows') = update_many (\<lambda>r. jb_id r = i \<and> jb_status r = JOB_CLAIMED)
            (\<lambda>r. r\<lparr>jb_status := JOB_RUNNING, jb_lockedUntil := Some lockedUntil\<rparr>) rows
      in (n = 1, rows'))"

datatype failure_outcome = RETRYING | SUSPENDED_NOW | IGNORED

definition failed_job :: "int \<Rightarrow> int \<Rightarrow> int \<Rightarrow> scheduled_job \<Rightarrow> scheduled_job" where
  "failed_job now maxRetries backoffBaseMs r =
     (let attempts = jb_retryCount r + 1; backoffAt = now + backoffBaseMs * 2 ^ nat (attempts - 1)
      in (jb_unlocked r)\<lparr>jb_status := (if attempts \<ge> maxRetries then JOB_SUSPENDED else JOB_PENDING),
           jb_retryCount := attempts,
           jb_nextRunAt := (if jb_nextRunAt r > backoffAt then jb_nextRunAt r else backoffAt)\<rparr>)"

definition recordFailure ::
  "int \<Rightarrow> string \<Rightarrow> int \<Rightarrow> int \<Rightarrow> scheduled_job list \<Rightarrow> failure_outcome \<times> scheduled_job list" where
  "recordFailure now i maxRetries backoffBaseMs rows = (case job_findById i rows of
       None \<Rightarrow> (IGNORED, rows)
     | Some row \<Rightarrow>
         if jb_status row = JOB_CANCELLED \<or> jb_status row = JOB_SUSPENDED then (IGNORED, rows)
         else (if jb_retryCount row + 1 \<ge> maxRetries then SUSPENDED_NOW else RETRYING,
               map_where (\<lambda>r. jb_id r = i) (\<lambda>_. failed_job now maxRetries backoffBaseMs row) rows))"

definition releaseStaleClaims :: "int \<Rightarrow> scheduled_job list \<Rightarrow> nat \<times> scheduled_job list" where
  "releaseStaleClaims now rows = update_many
     (\<lambda>r. jb_status r \<in> {JOB_CLAIMED, JOB_RUNNING} \<and> (case jb_lockedUntil r of None \<Rightarrow> False | Some t \<Rightarrow> t < now))
     (\<lambda>r. (jb_unlocked r)\<lparr>jb_status := JOB_PENDING\<rparr>) rows"

definition updateWithVersionCheck ::
  "string \<Rightarrow> int \<Rightarrow> string option \<Rightarrow> int \<Rightarrow> scheduled_job list \<Rightarrow> bool \<times> scheduled_job list" where
  "updateWithVersionCheck i expectedVersion cronExpression nextRunAt rows =
     (let (n, rows') = update_many (\<lambda>r. jb_id r = i \<and> jb_version r = expectedVersion)
            (\<lambda>r. r\<lparr>jb_cronExpression := cronExpression, jb_nextRunAt := nextRunAt, jb_version := jb_version r + 1\<rparr>) rows
      in (n = 1, rows'))"

end
