(* ===== verification/Scheduler_UseCases.thy ===== *)
theory Scheduler_UseCases
  imports Scheduler
begin

text \<open>
  The use cases of the scheduler over its repositories: registration and changes, the dispatch loop
  of a tick, the reconciler, and the queue worker. Registration, cancellation and rescheduling by
  aggregate also run inside transactions of other components and are given as programs of a
  transaction; the rest are plain calls whose statements commit one by one.
\<close>

section \<open>The dispatch log\<close>

text \<open>
  The id column of the log is a UUID: a text that has not 32 hexadecimal digits (hyphens apart)
  makes the statement fail.
\<close>

definition is_hex :: "char \<Rightarrow> bool" where
  "is_hex ch \<longleftrightarrow> (let n = of_char ch :: nat in (48 \<le> n \<and> n \<le> 57) \<or> (65 \<le> n \<and> n \<le> 70) \<or> (97 \<le> n \<and> n \<le> 102))"

definition uuid_text :: "string \<Rightarrow> bool" where
  "uuid_text s \<longleftrightarrow> (let d = filter (\<lambda>ch. ch \<noteq> CHR ''-'') s in length d = 32 \<and> list_all is_hex d)"

definition log_insert :: "dispatch_log \<Rightarrow> (unit, 'a scheduler_db_scheme) io" where
  "log_insert row db =
     (if \<not> uuid_text (dl_id row) then (throw_plain ''Inconsistent column data: Error creating UUID'', db)
      else if \<exists>r \<in> set (sd_logs db). dl_idempotencyKey r = dl_idempotencyKey row then (Inr (), db)
      else (Inr (), db\<lparr>sd_logs := insert_row row (sd_logs db)\<rparr>))"

text \<open>The id of a new row is the default of the column, \<open>newId\<close>.\<close>

definition log_recordOutcome :: "string \<Rightarrow> dispatch_log \<Rightarrow> dispatch_log list \<Rightarrow> dispatch_log list" where
  "log_recordOutcome newId row rows =
     (if \<exists>r \<in> set rows. dl_idempotencyKey r = dl_idempotencyKey row
      then map_where (\<lambda>r. dl_idempotencyKey r = dl_idempotencyKey row)
             (\<lambda>r. r\<lparr>dl_outcome := dl_outcome row, dl_completedAt := dl_completedAt row,
                dl_durationMs := dl_durationMs row, dl_errorMessage := dl_errorMessage row\<rparr>) rows
      else insert_row (row\<lparr>dl_id := newId\<rparr>) rows)"

definition log_listByJobId :: "string \<Rightarrow> nat option \<Rightarrow> nat option \<Rightarrow> dispatch_log list \<Rightarrow> dispatch_log list" where
  "log_listByJobId i limit offset rows =
     take (coalesce limit 50) (drop (coalesce offset 0)
       (sort_key (\<lambda>r. - dl_dispatchedAt r) (filter (\<lambda>r. dl_scheduledJobId r = i) rows)))"

definition countFailuresSince :: "int \<Rightarrow> dispatch_log list \<Rightarrow> nat" where
  "countFailuresSince since rows =
     length (filter (\<lambda>r. dl_outcome r \<in> {D_FAILED, D_DEAD_LETTERED} \<and> dl_dispatchedAt r \<ge> since) rows)"

section \<open>Registering\<close>

definition assertScopeTenant :: "register_input \<Rightarrow> unit result" where
  "assertScopeTenant input =
     (if ri_scope input = PLATFORM \<and> truthy (ri_tenantId input) then throw 400 ''PLATFORM scope forbids tenantId''
      else if ri_scope input = TENANT \<and> \<not> truthy (ri_tenantId input) then throw 400 ''TENANT scope requires tenantId''
      else Inr ())"

definition assertAggregatePairing :: "register_input \<Rightarrow> unit result" where
  "assertAggregatePairing input =
     (if ri_scope input = AGGREGATE then
        (if \<not> truthy (ri_aggregateType input) \<or> \<not> truthy (ri_aggregateId input)
         then throw 400 ''AGGREGATE scope requires aggregateType and aggregateId'' else Inr ())
      else if truthy (ri_aggregateType input) \<or> truthy (ri_aggregateId input)
      then throw 400 ''Non-AGGREGATE scope forbids aggregateType/aggregateId'' else Inr ())"

definition assertScheduleMode :: "register_input \<Rightarrow> unit result" where
  "assertScheduleMode input =
     (if ri_scheduleMode input = CRON \<and> \<not> truthy (ri_cronExpression input)
      then throw 400 ''Invalid cron expression: cronExpression is required in CRON schedule mode''
      else if ri_scheduleMode input = EXTERNAL \<and> truthy (ri_cronExpression input)
      then throw 400 ''EXTERNAL schedule mode forbids cronExpression'' else Inr ())"

definition cron_next :: "scheduler_call \<Rightarrow> string \<Rightarrow> int result" where
  "cron_next c expression = (case sv_cron c expression (sv_now c) of
       Inr t \<Rightarrow> Inr t
     | Inl er \<Rightarrow> throw 400 (''Invalid cron expression '' @ expression @ '': '' @ message er))"

definition first_run :: "scheduler_call \<Rightarrow> register_input \<Rightarrow> int result" where
  "first_run c input =
     and_then (if ri_scheduleMode input = CRON
               then (if \<not> truthy (ri_cronExpression input)
                     then throw 400 ''Invalid cron expression: cronExpression is required in CRON schedule mode''
                     else and_then (cron_next c (the (ri_cronExpression input))) (\<lambda>t. Inr (Some t)))
               else Inr (ri_nextRunAt input)) (\<lambda>next_at.
     case next_at of None \<Rightarrow> throw 400 ''nextRunAt is required for EXTERNAL schedule mode'' | Some t \<Rightarrow> Inr t)"

definition job_insert :: "scheduler_call \<Rightarrow> register_input \<Rightarrow> int \<Rightarrow> (string, 'a scheduler_db_scheme) tx" where
  "job_insert c input nextRunAt =
     tx_then (draw_uuid (sv_env c)) (\<lambda>i db.
     if \<exists>r \<in> set (sd_jobs db). jb_id r = i then throw_plain ''Unique constraint failed''
     else Inr (i, db\<lparr>sd_jobs := job_create (sv_host c) i input nextRunAt (sd_jobs db)\<rparr>))"

definition register_job :: "scheduler_call \<Rightarrow> register_input \<Rightarrow> (string, 'a scheduler_db_scheme) tx" where
  "register_job c input =
     tx_then (tx_lift (assertScopeTenant input)) (\<lambda>_.
     tx_then (tx_lift (assertAggregatePairing input)) (\<lambda>_.
     tx_then (tx_lift (assertScheduleMode input)) (\<lambda>_.
     tx_then (tx_lift (first_run c input)) (\<lambda>nextRunAt.
     job_insert c input nextRunAt))))"

text \<open>\<open>SchedulerAdapter.schedule\<close>\<close>

definition schedule_for_aggregate ::
  "scheduler_call \<Rightarrow> string \<Rightarrow> string \<Rightarrow> string \<Rightarrow> int \<Rightarrow> string option \<Rightarrow> (string, 'a scheduler_db_scheme) tx" where
  "schedule_for_aggregate c jobType aggregateType aggregateId nextRunAt tenantId =
     register_job c \<lparr>ri_jobType = jobType, ri_scope = AGGREGATE, ri_scheduleMode = EXTERNAL, ri_cronExpression = None,
       ri_nextRunAt = Some nextRunAt, ri_tenantId = tenantId, ri_aggregateType = Some aggregateType,
       ri_aggregateId = Some aggregateId, ri_payload = VUndef\<rparr>"

definition cancel_by_aggregate :: "string \<Rightarrow> string \<Rightarrow> (unit, 'a scheduler_db_scheme) tx" where
  "cancel_by_aggregate aggregateType aggregateId =
     tx_write (\<lambda>db. db\<lparr>sd_jobs := job_cancelByAggregate aggregateType aggregateId (sd_jobs db)\<rparr>)"

definition reschedule_by_aggregate :: "string \<Rightarrow> string \<Rightarrow> int \<Rightarrow> (unit, 'a scheduler_db_scheme) tx" where
  "reschedule_by_aggregate aggregateType aggregateId nextRunAt =
     tx_write (\<lambda>db. db\<lparr>sd_jobs := job_rescheduleByAggregate aggregateType aggregateId nextRunAt (sd_jobs db)\<rparr>)"

section \<open>Changing a job\<close>

definition write_jobs :: "(scheduled_job list \<Rightarrow> scheduled_job list) \<Rightarrow> (unit, 'a scheduler_db_scheme) io" where
  "write_jobs f = io_write (\<lambda>db. db\<lparr>sd_jobs := f (sd_jobs db)\<rparr>)"

definition visible_job :: "scheduler_call \<Rightarrow> string \<Rightarrow> string option \<Rightarrow> (scheduled_job, 'a scheduler_db_scheme) io" where
  "visible_job c jobId tenantId =
     io_then (io_read (\<lambda>db. job_findById jobId (sd_jobs db))) (\<lambda>found.
     case found of
       None \<Rightarrow> io_lift (not_found (''Scheduled job '' @ jobId @ '' not found''))
     | Some job \<Rightarrow> io_then (io_lift (assertVisible (jb_tenantId job) (coalesce_opt tenantId (ctx_tenantId (e_ctx (sv_env c))))))
         (\<lambda>_. io_return job))"

definition status_text :: "job_status \<Rightarrow> string" where
  "status_text s = (case s of JOB_PENDING \<Rightarrow> ''PENDING'' | JOB_CLAIMED \<Rightarrow> ''CLAIMED'' | JOB_RUNNING \<Rightarrow> ''RUNNING''
     | JOB_FAILED \<Rightarrow> ''FAILED'' | JOB_SUSPENDED \<Rightarrow> ''SUSPENDED'' | JOB_CANCELLED \<Rightarrow> ''CANCELLED'')"

definition cancel_job :: "scheduler_call \<Rightarrow> string \<Rightarrow> string option \<Rightarrow> (unit, 'a scheduler_db_scheme) io" where
  "cancel_job c jobId tenantId =
     io_then (visible_job c jobId tenantId) (\<lambda>job.
     io_then (write_jobs (job_cancel jobId)) (\<lambda>_.
     transactional (audit_record (sv_env c) ''scheduler.job.cancel'' ''ScheduledJob'' jobId None
       [(''jobType'', JStr (jb_jobType job)), (''status'', JStr (status_text (jb_status job)))])))"

definition dispatch_now :: "scheduler_call \<Rightarrow> string \<Rightarrow> string option \<Rightarrow> (scheduled_job, 'a scheduler_db_scheme) io" where
  "dispatch_now c jobId tenantId =
     io_then (visible_job c jobId tenantId) (\<lambda>job.
     if jb_status job = JOB_CANCELLED
     then io_lift (conflict (''Scheduled job '' @ jobId @ '' is cancelled and cannot be re-fired''))
     else if jb_status job = JOB_CLAIMED \<or> jb_status job = JOB_RUNNING
     then io_lift (conflict (''Scheduled job '' @ jobId @ '' is currently in flight; wait for it to settle before re-firing''))
     else io_then (write_jobs (job_reschedule jobId (sv_now c))) (\<lambda>_.
     io_then (io_read (\<lambda>db. job_findById jobId (sd_jobs db))) (\<lambda>updated.
     case updated of
       None \<Rightarrow> io_lift (not_found (''Scheduled job '' @ jobId @ '' not found''))
     | Some updated_job \<Rightarrow>
         io_then (transactional (audit_record (sv_env c) ''scheduler.job.dispatch-now'' ''ScheduledJob'' jobId None
           [(''jobType'', JStr (jb_jobType job)), (''previousStatus'', JStr (status_text (jb_status job)))]))
         (\<lambda>_. io_return updated_job))))"

definition new_cron :: "scheduler_call \<Rightarrow> scheduled_job \<Rightarrow> update_input \<Rightarrow> (string \<times> int) option result" where
  "new_cron c existing input = (case ui_cronExpression input of
       None \<Rightarrow> Inr None
     | Some expression \<Rightarrow>
         if jb_scheduleMode existing \<noteq> CRON
         then throw 400 ''Invalid cron expression: cronExpression only valid for CRON schedule mode''
         else and_then (cron_next c expression) (\<lambda>t. Inr (Some (expression, t))))"

definition changed_fields :: "scheduler_call \<Rightarrow> (string \<times> int) option \<Rightarrow> int option \<Rightarrow> (string \<times> json) list" where
  "changed_fields c cron next_at =
     (case (cron, next_at) of
        (None, None) \<Rightarrow> []
      | (Some (x, t), None) \<Rightarrow> [(''cronExpression'', JStr x), (''nextRunAt'', JStr (sv_iso c t))]
      | (None, Some n) \<Rightarrow> [(''nextRunAt'', JStr (sv_iso c n))]
      | (Some (x, t), Some n) \<Rightarrow> [(''cronExpression'', JStr x), (''nextRunAt'', JStr (sv_iso c n))])"

definition update_job :: "scheduler_call \<Rightarrow> update_input \<Rightarrow> string option \<Rightarrow> (unit, 'a scheduler_db_scheme) io" where
  "update_job c input tenantId =
     io_then (visible_job c (ui_jobId input) tenantId) (\<lambda>existing.
     io_then (io_lift (new_cron c existing input)) (\<lambda>cron.
     if cron = None \<and> ui_nextRunAt input = None then io_return ()
     else io_then (io_step (\<lambda>db. let (ok, rows) = updateWithVersionCheck (ui_jobId input) (ui_expectedVersion input)
              (coalesce_opt (map_option fst cron) (jb_cronExpression existing))
              (coalesce (ui_nextRunAt input) (coalesce (map_option snd cron) (jb_nextRunAt existing))) (sd_jobs db)
            in (ok, db\<lparr>sd_jobs := rows\<rparr>))) (\<lambda>ok.
     if \<not> ok then io_lift (conflict (''Scheduled job '' @ ui_jobId input @ '' was modified concurrently''))
     else io_write (\<lambda>db. db\<lparr>sd_edits := insert_row \<lparr>el_scheduledJobId = ui_jobId input, el_editedBy = ui_editedBy input,
            el_changedFields = changed_fields c cron (ui_nextRunAt input)\<rparr> (sd_edits db)\<rparr>))))"

section \<open>Dispatching\<close>

definition deriveIdempotencyKey :: "scheduler_call \<Rightarrow> string \<Rightarrow> int \<Rightarrow> string" where
  "deriveIdempotencyKey c jobId nextRunAt = sv_sha256 c (jobId @ '':'' @ sv_iso c nextRunAt)"

definition enqueue :: "scheduler_call \<Rightarrow> queued_job \<Rightarrow> (unit, 'a scheduler_db_scheme) io" where
  "enqueue c job = (case sv_queue c job of
       Q_ACCEPTED \<Rightarrow> io_write (\<lambda>db. db\<lparr>sd_queue := sd_queue db @ [job]\<rparr>)
     | Q_DUPLICATE \<Rightarrow> io_return ()
     | Q_REJECTED er \<Rightarrow> io_lift (Inl er))"

definition queued_of :: "scheduler_call \<Rightarrow> scheduled_job \<Rightarrow> queued_job" where
  "queued_of c job = \<lparr>qj_jobId = jb_id job, qj_jobType = jb_jobType job, qj_tenantId = jb_tenantId job, qj_scope = jb_scope job,
     qj_aggregateType = jb_aggregateType job, qj_aggregateId = jb_aggregateId job, qj_payload = jb_payload job,
     qj_idempotencyKey = deriveIdempotencyKey c (jb_id job) (jb_nextRunAt job), qj_scheduleMode = jb_scheduleMode job,
     qj_cronExpression = jb_cronExpression job\<rparr>"

definition dispatch_row :: "scheduler_call \<Rightarrow> scheduled_job \<Rightarrow> dispatch_log" where
  "dispatch_row c job = (let key = deriveIdempotencyKey c (jb_id job) (jb_nextRunAt job) in
     \<lparr>dl_id = key, dl_tenantId = jb_tenantId job, dl_scheduledJobId = jb_id job, dl_jobType = jb_jobType job,
      dl_dispatchedAt = sv_now c, dl_completedAt = Some (sv_now c), dl_outcome = D_SUCCESS, dl_durationMs = Some 0,
      dl_errorMessage = None, dl_idempotencyKey = key\<rparr>)"

text \<open>The body of the \<open>try\<close> block.\<close>

definition dispatch_try :: "scheduler_call \<Rightarrow> scheduled_job \<Rightarrow> (unit, 'a scheduler_db_scheme) io" where
  "dispatch_try c job =
     io_then (enqueue c (queued_of c job)) (\<lambda>_.
     io_then (log_insert (dispatch_row c job)) (\<lambda>_.
     if jb_scheduleMode job = CRON \<and> truthy (jb_cronExpression job)
     then io_then (io_lift (cron_next c (the (jb_cronExpression job)))) (\<lambda>next_at.
          write_jobs (markPendingWithNextRun (jb_id job) next_at (Some (sv_now c))))
     else write_jobs (touchLastRunAt (jb_id job) (sv_now c))))"

definition dispatch_failed :: "scheduler_call \<Rightarrow> scheduled_job \<Rightarrow> exn \<Rightarrow> (unit, 'a scheduler_db_scheme) io" where
  "dispatch_failed c job er =
     io_then (io_write (\<lambda>db. db\<lparr>sd_logs := log_recordOutcome (e_uuid (sv_env c) (pf_drawn db))
         ((dispatch_row c job)\<lparr>dl_outcome := D_FAILED, dl_errorMessage := Some (message er)\<rparr>) (sd_logs db),
         pf_drawn := pf_drawn db + 1\<rparr>)) (\<lambda>_.
     write_jobs (\<lambda>rows. snd (recordFailure (sv_now c) (jb_id job) (sf_maxRetries (sv_config c))
         (sf_retryBackoffBaseMs (sv_config c)) rows)))"

definition on_redis :: "('x, redis) io \<Rightarrow> ('x, 'a scheduler_db_scheme) io" where
  "on_redis m db = (let (r, rd) = m (sd_redis db) in (r, db\<lparr>sd_redis := rd\<rparr>))"

definition job_lock :: "scheduler_call \<Rightarrow> scheduled_job \<Rightarrow> lock_request" where
  "job_lock c job = \<lparr>lr_identity = \<lparr>li_tenantId = coalesce (jb_tenantId job) ''system'', li_companyId = ''scheduler'',
     li_scope = ''scheduled-job'', li_resource = jb_id job\<rparr>, lr_leaseMs = Some (sf_lockTtlMs (sv_config c))\<rparr>"

definition dispatchOne :: "scheduler_call \<Rightarrow> scheduled_job \<Rightarrow> (bool, 'a scheduler_db_scheme) io" where
  "dispatchOne c job =
     io_then (on_redis (acquire_lock (sv_redis c) (sv_now c) (sv_now c) (sv_lock_config c) (job_lock c job)
        (fst (sv_token c (jb_id job))) (snd (sv_token c (jb_id job))))) (\<lambda>result.
     case result of
       LOCK_BUSY _ \<Rightarrow> io_return False
     | LOCK_ACQUIRED ticket \<Rightarrow>
         io_then (io_catch (dispatch_try c job) (dispatch_failed c job)) (\<lambda>_.
         io_then (on_redis (io_write (release_lock (sv_redis c) (sv_now c) ticket))) (\<lambda>_.
         io_return True)))"

fun dispatch_all :: "scheduler_call \<Rightarrow> scheduled_job list \<Rightarrow> (unit, 'a scheduler_db_scheme) io" where
  "dispatch_all c [] = io_return ()"
| "dispatch_all c (job # jobs) = io_then (dispatchOne c job) (\<lambda>_. dispatch_all c jobs)"

text \<open>
  The loop of a tick. The time budget decides how many passes it may make; \<open>passes\<close> is that number,
  and the loop also ends with the first pass that claims less than a batch.
\<close>

fun dispatch_loop :: "scheduler_call \<Rightarrow> nat \<Rightarrow> nat \<Rightarrow> nat \<Rightarrow> (nat, 'a scheduler_db_scheme) io" where
  "dispatch_loop c 0 limit n = io_return n"
| "dispatch_loop c (Suc passes) limit n =
     io_then (io_step (\<lambda>db. let (claimed, rows) = claimDue c limit (sd_jobs db) in (claimed, db\<lparr>sd_jobs := rows\<rparr>))) (\<lambda>claimed.
     if claimed = [] then io_return n
     else io_then (dispatch_all c claimed) (\<lambda>_.
          if length claimed < limit then io_return (n + length claimed)
          else dispatch_loop c passes limit (n + length claimed)))"

definition dispatch_due_jobs :: "scheduler_call \<Rightarrow> nat \<Rightarrow> nat option \<Rightarrow> (nat, 'a scheduler_db_scheme) io" where
  "dispatch_due_jobs c passes batchSize =
     io_then (dispatch_loop c passes (coalesce batchSize (sf_batchSize (sv_config c))) 0) (\<lambda>n.
     io_then (io_write (\<lambda>db. db\<lparr>sd_lastTick := Some (sv_now c)\<rparr>)) (\<lambda>_.
     io_return n))"

section \<open>Reconciling\<close>

fun reconcile_overdue :: "scheduler_call \<Rightarrow> scheduled_job list \<Rightarrow> nat \<Rightarrow> (nat, 'a scheduler_db_scheme) io" where
  "reconcile_overdue c [] n = io_return n"
| "reconcile_overdue c (job # jobs) n =
     (if jb_nextRunAt job > sv_now c - 60000 then reconcile_overdue c jobs n
      else if jb_scheduleMode job = CRON \<and> truthy (jb_cronExpression job)
      then io_then (io_lift (cron_next c (the (jb_cronExpression job)))) (\<lambda>next_at.
           io_then (write_jobs (markPendingWithNextRun (jb_id job) next_at None)) (\<lambda>_.
           reconcile_overdue c jobs (n + 1)))
      else reconcile_overdue c jobs n)"

definition reconcile_missed_jobs :: "scheduler_call \<Rightarrow> (nat, 'a scheduler_db_scheme) io" where
  "reconcile_missed_jobs c =
     io_then (io_step (\<lambda>db. let (n, rows) = releaseStaleClaims (sv_now c) (sd_jobs db) in (n, db\<lparr>sd_jobs := rows\<rparr>))) (\<lambda>released.
     io_then (io_read (\<lambda>db. job_list None (Some JOB_PENDING) None (Some 100) None (sd_jobs db))) (\<lambda>overdue.
     io_then (reconcile_overdue c overdue 0) (\<lambda>adjusted. io_return (released + adjusted))))"

text \<open>\<open>SchedulerTicker\<close>: overlapping ticks are dropped, errors end the tick with 0.\<close>

definition ticker_tick :: "scheduler_call \<Rightarrow> bool \<Rightarrow> nat \<Rightarrow> (nat, 'a scheduler_db_scheme) io" where
  "ticker_tick c ticking passes =
     (if ticking then io_return 0 else io_catch (dispatch_due_jobs c passes None) (\<lambda>_. io_return 0))"

definition reconcileOnce :: "scheduler_call \<Rightarrow> (nat, 'a scheduler_db_scheme) io" where
  "reconcileOnce c = io_catch (reconcile_missed_jobs c) (\<lambda>_. io_return 0)"

section \<open>The worker\<close>

record fire_payload =
  fp_jobId :: "string option"
  fp_tenantId :: "string option"
  fp_jobType :: string
  fp_scope :: "job_scope option"
  fp_aggregateType :: "string option"
  fp_aggregateId :: "string option"
  fp_payload :: sval
  fp_attempt :: "int option"
  fp_sourceEventId :: "string option"
  fp_eventPayload :: "json option"
  fp_idempotencyKey :: "string option"

type_synonym 'd fire_handler = "fire_payload \<Rightarrow> (unit, 'd) io"

definition registerHandler :: "string \<Rightarrow> 'd fire_handler \<Rightarrow> 'd fire_handler registry \<Rightarrow> 'd fire_handler registry result" where
  "registerHandler jobType handler reg = registerEntry jobType handler
     (Exn None (''ScheduledJobFireHandler for jobType '' @ jobType @ '' already registered'')) reg"

definition resolveHandler :: "string \<Rightarrow> 'd fire_handler registry \<Rightarrow> 'd fire_handler result" where
  "resolveHandler jobType reg =
     requireEntry jobType (Exn None (''No ScheduledJobFireHandler registered for jobType '' @ jobType)) reg"

definition payload_of :: "queued_job \<Rightarrow> int \<Rightarrow> fire_payload" where
  "payload_of job attempt = \<lparr>fp_jobId = Some (qj_jobId job), fp_tenantId = qj_tenantId job, fp_jobType = qj_jobType job,
     fp_scope = Some (qj_scope job), fp_aggregateType = qj_aggregateType job, fp_aggregateId = qj_aggregateId job,
     fp_payload = qj_payload job, fp_attempt = Some attempt, fp_sourceEventId = None, fp_eventPayload = None,
     fp_idempotencyKey = Some (qj_idempotencyKey job)\<rparr>"

definition publishJobDue :: "scheduler_call \<Rightarrow> queued_job \<Rightarrow> (unit, 'a scheduler_db_scheme) io" where
  "publishJobDue c job = (case sv_publish c job of
       Inl er \<Rightarrow> io_lift (Inl er)
     | Inr _ \<Rightarrow> io_write (\<lambda>db. db\<lparr>sd_published := sd_published db @ [job]\<rparr>))"

definition process_job ::
  "scheduler_call \<Rightarrow> 'a scheduler_db_scheme fire_handler registry \<Rightarrow> queued_job \<Rightarrow> int \<Rightarrow> (unit, 'a scheduler_db_scheme) io"
where
  "process_job c reg job attempt =
     io_then (io_read (\<lambda>db. job_findById (qj_jobId job) (sd_jobs db))) (\<lambda>row.
     if (case row of None \<Rightarrow> False | Some r \<Rightarrow> jb_status r = JOB_CANCELLED \<or> jb_status r = JOB_SUSPENDED) then io_return ()
     else if has_entry (qj_jobType job) reg
     then io_then (io_lift (resolveHandler (qj_jobType job) reg)) (\<lambda>handler. handler (payload_of job attempt))
     else publishJobDue c job)"

text \<open>A worker has no request: the context of the handlers is the empty one with the job's tenant and key.
  The registry given is the one of the handlers in a context.\<close>

definition worker_process ::
  "scheduler_call \<Rightarrow> (request_context \<Rightarrow> 'a scheduler_db_scheme fire_handler registry) \<Rightarrow> queued_job \<Rightarrow> int \<Rightarrow>
   (unit, 'a scheduler_db_scheme) io"
where
  "worker_process c reg job attemptsMade =
     io_then (if qj_scheduleMode job = EXTERNAL
              then write_jobs (\<lambda>rows. snd (markRunningExternal (qj_jobId job) (sv_now c + sf_lockTtlMs (sv_config c)) rows))
              else io_return ()) (\<lambda>_.
     process_job c (reg (ctx_run_context None
         (empty_patch\<lparr>p_tenantId := Some (qj_tenantId job), p_correlationId := Some (qj_idempotencyKey job)\<rparr>)))
       job (attemptsMade + 1))"

definition recordFinalFailure :: "scheduler_call \<Rightarrow> queued_job \<Rightarrow> int option \<Rightarrow> exn \<Rightarrow> (unit, 'a scheduler_db_scheme) io" where
  "recordFinalFailure c job timestamp er =
     io_then (io_step (\<lambda>db. let (outcome, rows) = recordFailure (sv_now c) (qj_jobId job) (sf_maxRetries (sv_config c))
            (sf_retryBackoffBaseMs (sv_config c)) (sd_jobs db) in (outcome, db\<lparr>sd_jobs := rows\<rparr>))) (\<lambda>outcome.
     io_write (\<lambda>db. db\<lparr>sd_logs := log_recordOutcome (e_uuid (sv_env c) (pf_drawn db))
         \<lparr>dl_id = [], dl_tenantId = qj_tenantId job, dl_scheduledJobId = qj_jobId job, dl_jobType = qj_jobType job,
          dl_dispatchedAt = coalesce timestamp (sv_now c), dl_completedAt = Some (sv_now c),
          dl_outcome = (if outcome = SUSPENDED_NOW then D_DEAD_LETTERED else D_FAILED), dl_durationMs = None,
          dl_errorMessage = Some (message er), dl_idempotencyKey = qj_idempotencyKey job\<rparr> (sd_logs db),
         pf_drawn := pf_drawn db + 1\<rparr>))"

definition worker_onFailed ::
  "scheduler_call \<Rightarrow> queued_job \<Rightarrow> int option \<Rightarrow> int option \<Rightarrow> int \<Rightarrow> exn \<Rightarrow> (unit, 'a scheduler_db_scheme) io" where
  "worker_onFailed c job timestamp attempts attemptsMade er =
     (if attemptsMade \<ge> coalesce attempts (sf_jobAttempts (sv_config c)) then recordFinalFailure c job timestamp er
      else io_return ())"

section \<open>Reading\<close>

definition job_status_of :: "scheduler_call \<Rightarrow> string \<Rightarrow> string option \<Rightarrow> (scheduled_job, 'a scheduler_db_scheme) io" where
  "job_status_of c jobId tenantId = visible_job c jobId tenantId"

definition list_dispatch_log ::
  "scheduler_call \<Rightarrow> string \<Rightarrow> nat option \<Rightarrow> nat option \<Rightarrow> string option \<Rightarrow> (dispatch_log list, 'a scheduler_db_scheme) io" where
  "list_dispatch_log c jobId limit offset tenantId =
     io_then (visible_job c jobId tenantId) (\<lambda>_. io_read (\<lambda>db. log_listByJobId jobId limit offset (sd_logs db)))"

definition health_metrics :: "scheduler_call \<Rightarrow> int \<Rightarrow> 'a scheduler_db_scheme \<Rightarrow> nat \<times> nat \<times> int option" where
  "health_metrics c thresholdMs db = (findOverdue (sv_now c) thresholdMs (sd_jobs db),
     countFailuresSince (sv_now c - 15 * 60000) (sd_logs db), sd_lastTick db)"

end
