(* ===== verification/Recurring.thy ===== *)
theory Recurring
  imports Scheduler_UseCases
begin

text \<open>
  Recurring templates (\<open>platform/platform-common/recurring\<close>): templates and executions, the recurrence
  engine, the handler that turns a fired job or a domain event into a request for a document, the
  dispatcher of domain events, and the use cases. The calendar arithmetic of dayjs is a parameter; the
  scheduler is the one of \<open>Scheduler_UseCases\<close>.
\<close>

section \<open>Rows\<close>

datatype template_status = T_ACTIVE | T_PAUSED | T_CANCELLED | T_COMPLETED
datatype trigger_type = TIME | EVENT
datatype frequency = DAILY | WEEKLY | MONTHLY | YEARLY
datatype party_type = CUSTOMER | VENDOR | EMPLOYEE
datatype execution_status = E_IN_PROGRESS | E_SUCCESS | E_FAILED | E_SKIPPED

record recurring_template =
  rt_id :: string
  rt_tenantId :: "string option"
  rt_templateNo :: string
  rt_name :: string
  rt_status :: template_status
  rt_targetEntityType :: string
  rt_targetEntityId :: "string option"
  rt_originDocumentType :: "string option"
  rt_originDocumentId :: "string option"
  rt_partyId :: "string option"
  rt_partyType :: "party_type option"
  rt_currency :: string
  rt_triggerType :: trigger_type
  rt_eventName :: "string option"
  rt_frequency :: "frequency option"
  rt_interval :: "int option"
  rt_startDate :: "int option"
  rt_endDate :: "int option"
  rt_nextRunDate :: "int option"
  rt_lastRunDate :: "int option"
  rt_timeZone :: string
  rt_autoPost :: bool
  rt_autoEmail :: bool
  rt_autoApprove :: bool
  rt_headerOverrides :: "json option"
  rt_generationCondition :: sval
  rt_lines :: "json list"
  rt_isDeleted :: bool
  rt_createdBy :: "string option"
  rt_modifiedBy :: "string option"
  rt_modifiedAt :: "int option"

record template_input =
  ti_tenantId :: "string option"
  ti_templateNo :: string
  ti_name :: string
  ti_targetEntityType :: string
  ti_targetEntityId :: "string option"
  ti_originDocumentType :: "string option"
  ti_originDocumentId :: "string option"
  ti_partyId :: "string option"
  ti_partyType :: "party_type option"
  ti_currency :: string
  ti_triggerType :: trigger_type
  ti_eventName :: "string option"
  ti_frequency :: "frequency option"
  ti_interval :: "int option"
  ti_startDate :: "int option"
  ti_endDate :: "int option"
  ti_timeZone :: "string option"
  ti_autoPost :: "bool option"
  ti_autoEmail :: "bool option"
  ti_autoApprove :: "bool option"
  ti_headerOverrides :: "json option"
  ti_generationCondition :: sval
  ti_lines :: "json list"
  ti_createdBy :: "string option"

record recurring_execution =
  rx_id :: string
  rx_tenantId :: "string option"
  rx_recurringTemplateId :: string
  rx_scheduleJobId :: "string option"
  rx_runDate :: "int option"
  rx_sourceEventId :: "string option"
  rx_triggerKey :: string
  rx_generatedDocumentType :: string
  rx_generatedDocumentId :: "string option"
  rx_generatedSnapshot :: "json option"
  rx_conditionEvaluation :: "(string \<times> sval) list option"
  rx_status :: execution_status
  rx_skipReason :: "string option"
  rx_errorMessage :: "string option"
  rx_executionTimeMs :: "int option"
  rx_createdAt :: int

record claim_input =
  ci_tenantId :: "string option"
  ci_recurringTemplateId :: string
  ci_scheduleJobId :: "string option"
  ci_runDate :: "int option"
  ci_sourceEventId :: "string option"
  ci_triggerKey :: string
  ci_generatedDocumentType :: string

record complete_input =
  co_generatedDocumentId :: "string option"
  co_generatedSnapshot :: "json option"
  co_conditionEvaluation :: "(string \<times> sval) list option"
  co_executionTimeMs :: "int option"

record recurring_db = scheduler_db +
  rd_templates :: "recurring_template list"
  rd_executions :: "recurring_execution list"

text \<open>The context handed to the field resolvers.\<close>

record recurring_context =
  rc_tenantId :: "string option"
  rc_recurringTemplateId :: string
  rc_triggerKey :: string
  rc_traceId :: string
  rc_executionId :: "string option"
  rc_autoPost :: bool
  rc_eventPayload :: "json option"

text \<open>
  \<open>rv_add tz d n u\<close> is the UTC midnight of the calendar date that \<open>dayjs.tz(wall(d), tz).add(n, u)\<close>
  falls on; an unknown time zone makes it throw. \<open>rv_aborts\<close> tells whether the database refuses the
  statements of a transaction after one of them failed, as PostgreSQL does.
\<close>

datatype calendar_unit = U_DAY | U_WEEK | U_MONTH | U_YEAR

record recurring_call =
  rv_sched :: scheduler_call
  rv_resolvers :: "recurring_context resolver registry"
  rv_add :: "string \<Rightarrow> int \<Rightarrow> int \<Rightarrow> calendar_unit \<Rightarrow> int result"
  rv_aborts :: bool

abbreviation rv_env :: "recurring_call \<Rightarrow> env" where "rv_env c \<equiv> sv_env (rv_sched c)"
abbreviation rv_now :: "recurring_call \<Rightarrow> int" where "rv_now c \<equiv> sv_now (rv_sched c)"

section \<open>The recurrence engine\<close>

definition UNIT_BY_FREQUENCY :: "frequency \<Rightarrow> calendar_unit" where
  "UNIT_BY_FREQUENCY f = (case f of DAILY \<Rightarrow> U_DAY | WEEKLY \<Rightarrow> U_WEEK | MONTHLY \<Rightarrow> U_MONTH | YEARLY \<Rightarrow> U_YEAR)"

definition MAX_ANCHOR_STEPS :: nat where
  "MAX_ANCHOR_STEPS = 10000"

text \<open>
  The loop over the steps of the anchored walk: \<open>left\<close> is the number of steps still allowed, so the
  bound of the source is the recursion's own.
\<close>

fun anchor_walk :: "recurring_call \<Rightarrow> string \<Rightarrow> int \<Rightarrow> int \<Rightarrow> calendar_unit \<Rightarrow> int \<Rightarrow> nat \<Rightarrow> int \<Rightarrow> int result" where
  "anchor_walk c tz anchor interval u from_date 0 step =
     throw_plain ''Recurrence anchor walk exceeded 10000 steps (interval too small?)''"
| "anchor_walk c tz anchor interval u from_date (Suc left) step =
     and_then (rv_add c tz anchor (step * interval) u) (\<lambda>candidate.
     if candidate > from_date then Inr candidate
     else anchor_walk c tz anchor interval u from_date left (step + 1))"

definition nextRunDate ::
  "recurring_call \<Rightarrow> frequency \<Rightarrow> int \<Rightarrow> int \<Rightarrow> string \<Rightarrow> int option \<Rightarrow> int result" where
  "nextRunDate c freq interval from_date tz anchor =
     (if interval \<le> 0 then throw_plain ''interval must be a positive integer''
      else (case anchor of
         Some a \<Rightarrow> if freq = MONTHLY \<or> freq = YEARLY
                   then anchor_walk c tz a interval (UNIT_BY_FREQUENCY freq) from_date MAX_ANCHOR_STEPS 1
                   else rv_add c tz from_date interval (UNIT_BY_FREQUENCY freq)
       | None \<Rightarrow> rv_add c tz from_date interval (UNIT_BY_FREQUENCY freq)))"

section \<open>The template repository\<close>

definition template_create :: "recurring_call \<Rightarrow> template_input \<Rightarrow> (recurring_template, 'a recurring_db_scheme) tx" where
  "template_create c input =
     tx_then (draw_uuid (rv_env c)) (\<lambda>i db.
     if ti_tenantId input \<noteq> None \<and>
        (\<exists>r \<in> set (rd_templates db). rt_tenantId r = ti_tenantId input \<and> rt_templateNo r = ti_templateNo input)
     then conflict (''RecurringTemplate.templateNo '' @ ti_templateNo input @ '' already exists'')
     else let row = \<lparr>rt_id = i, rt_tenantId = ti_tenantId input, rt_templateNo = ti_templateNo input, rt_name = ti_name input,
            rt_status = T_ACTIVE, rt_targetEntityType = ti_targetEntityType input, rt_targetEntityId = ti_targetEntityId input,
            rt_originDocumentType = ti_originDocumentType input, rt_originDocumentId = ti_originDocumentId input,
            rt_partyId = ti_partyId input, rt_partyType = ti_partyType input, rt_currency = ti_currency input,
            rt_triggerType = ti_triggerType input, rt_eventName = ti_eventName input, rt_frequency = ti_frequency input,
            rt_interval = ti_interval input, rt_startDate = ti_startDate input, rt_endDate = ti_endDate input,
            rt_nextRunDate = ti_startDate input, rt_lastRunDate = None, rt_timeZone = coalesce (ti_timeZone input) ''UTC'',
            rt_autoPost = coalesce (ti_autoPost input) False, rt_autoEmail = coalesce (ti_autoEmail input) False,
            rt_autoApprove = coalesce (ti_autoApprove input) False, rt_headerOverrides = ti_headerOverrides input,
            rt_generationCondition = ti_generationCondition input, rt_lines = ti_lines input, rt_isDeleted = False,
            rt_createdBy = ti_createdBy input, rt_modifiedBy = None, rt_modifiedAt = None\<rparr>
          in Inr (row, db\<lparr>rd_templates := insert_row row (rd_templates db)\<rparr>))"

definition template_findById :: "string \<Rightarrow> recurring_template list \<Rightarrow> recurring_template option" where
  "template_findById i rows = find_first (\<lambda>r. rt_id r = i \<and> \<not> rt_isDeleted r) rows"

record template_update =
  tu_status :: "template_status option"
  tu_nextRunDate :: "int option"
  tu_lastRunDate :: "int option"
  tu_modifiedBy :: "string option"

definition updated_template :: "int \<Rightarrow> template_update \<Rightarrow> recurring_template \<Rightarrow> recurring_template" where
  "updated_template now p r = r\<lparr>rt_status := coalesce (tu_status p) (rt_status r),
     rt_nextRunDate := coalesce_opt (tu_nextRunDate p) (rt_nextRunDate r),
     rt_lastRunDate := coalesce_opt (tu_lastRunDate p) (rt_lastRunDate r),
     rt_modifiedBy := coalesce_opt (tu_modifiedBy p) (rt_modifiedBy r), rt_modifiedAt := Some now\<rparr>"

definition template_update_row :: "recurring_call \<Rightarrow> string \<Rightarrow> template_update \<Rightarrow> (recurring_template, 'a recurring_db_scheme) tx" where
  "template_update_row c i p db = (case find_first (\<lambda>r. rt_id r = i) (rd_templates db) of
       None \<Rightarrow> throw_plain ''No record was found for an update''
     | Some r \<Rightarrow> Inr (updated_template (rv_now c) p r,
         db\<lparr>rd_templates := map_where (\<lambda>q. rt_id q = i) (updated_template (rv_now c) p) (rd_templates db)\<rparr>))"

definition template_list ::
  "string option \<Rightarrow> template_status option \<Rightarrow> nat option \<Rightarrow> nat option \<Rightarrow> recurring_template list \<Rightarrow> recurring_template list" where
  "template_list tenantId status limit offset rows = take (coalesce limit 50) (drop (coalesce offset 0)
     (rev (filter (\<lambda>r. (case tenantId of None \<Rightarrow> True | Some t \<Rightarrow> rt_tenantId r = Some t) \<and>
        (case status of None \<Rightarrow> True | Some s \<Rightarrow> rt_status r = s) \<and> \<not> rt_isDeleted r) rows)))"

definition findActiveByEventName :: "string \<Rightarrow> string option \<Rightarrow> recurring_template list \<Rightarrow> recurring_template list" where
  "findActiveByEventName eventName tenantId rows =
     filter (\<lambda>r. rt_eventName r = Some eventName \<and> rt_status r = T_ACTIVE \<and> \<not> rt_isDeleted r \<and>
       (case tenantId of None \<Rightarrow> True | Some t \<Rightarrow> rt_tenantId r = Some t)) rows"

section \<open>The execution repository\<close>

definition execution_claim :: "recurring_call \<Rightarrow> claim_input \<Rightarrow> (recurring_execution option, 'a recurring_db_scheme) tx" where
  "execution_claim c input =
     tx_then (draw_uuid (rv_env c)) (\<lambda>i db.
     if \<exists>r \<in> set (rd_executions db). rx_recurringTemplateId r = ci_recurringTemplateId input \<and> rx_triggerKey r = ci_triggerKey input
     then Inr (None, db)
     else let row = \<lparr>rx_id = i, rx_tenantId = ci_tenantId input, rx_recurringTemplateId = ci_recurringTemplateId input,
            rx_scheduleJobId = ci_scheduleJobId input, rx_runDate = ci_runDate input, rx_sourceEventId = ci_sourceEventId input,
            rx_triggerKey = ci_triggerKey input, rx_generatedDocumentType = ci_generatedDocumentType input,
            rx_generatedDocumentId = None, rx_generatedSnapshot = None, rx_conditionEvaluation = None,
            rx_status = E_IN_PROGRESS, rx_skipReason = None, rx_errorMessage = None, rx_executionTimeMs = None,
            rx_createdAt = rv_now c\<rparr>
          in Inr (Some row, db\<lparr>rd_executions := insert_row row (rd_executions db)\<rparr>))"

definition execution_findById :: "string \<Rightarrow> recurring_execution list \<Rightarrow> recurring_execution option" where
  "execution_findById i rows = find_first (\<lambda>r. rx_id r = i) rows"

definition findByTemplateAndTrigger :: "string \<Rightarrow> string \<Rightarrow> recurring_execution list \<Rightarrow> recurring_execution option" where
  "findByTemplateAndTrigger templateId triggerKey rows =
     find_first (\<lambda>r. rx_recurringTemplateId r = templateId \<and> rx_triggerKey r = triggerKey) rows"

definition in_progress :: "string \<Rightarrow> recurring_execution \<Rightarrow> bool" where
  "in_progress i r \<longleftrightarrow> rx_id r = i \<and> rx_status r = E_IN_PROGRESS"

definition failStale :: "int \<Rightarrow> nat \<Rightarrow> recurring_execution list \<Rightarrow> nat \<times> recurring_execution list" where
  "failStale olderThan limit rows =
     (let stale = take limit (filter (\<lambda>r. rx_status r = E_IN_PROGRESS \<and> rx_createdAt r < olderThan) rows) in
      if stale = [] then (0, rows)
      else update_many (\<lambda>r. rx_id r \<in> set (map rx_id stale) \<and> rx_status r = E_IN_PROGRESS)
        (\<lambda>r. r\<lparr>rx_status := E_FAILED, rx_errorMessage := Some ''Consumer did not complete execution in time''\<rparr>) rows)"

definition execution_complete :: "string \<Rightarrow> complete_input \<Rightarrow> recurring_execution list \<Rightarrow> recurring_execution list" where
  "execution_complete i input rows = snd (update_many (in_progress i)
     (\<lambda>r. r\<lparr>rx_status := E_SUCCESS, rx_generatedDocumentId := coalesce_opt (co_generatedDocumentId input) (rx_generatedDocumentId r),
        rx_generatedSnapshot := coalesce_opt (co_generatedSnapshot input) (rx_generatedSnapshot r),
        rx_conditionEvaluation := coalesce_opt (co_conditionEvaluation input) (rx_conditionEvaluation r),
        rx_executionTimeMs := coalesce_opt (co_executionTimeMs input) (rx_executionTimeMs r)\<rparr>) rows)"

definition execution_fail :: "string \<Rightarrow> string \<Rightarrow> recurring_execution list \<Rightarrow> recurring_execution list" where
  "execution_fail i errorMessage rows = snd (update_many (in_progress i)
     (\<lambda>r. r\<lparr>rx_status := E_FAILED, rx_errorMessage := Some errorMessage\<rparr>) rows)"

definition execution_skip ::
  "host \<Rightarrow> string \<Rightarrow> string \<Rightarrow> (string \<times> sval) list option \<Rightarrow> recurring_execution list \<Rightarrow> recurring_execution list" where
  "execution_skip h i skipReason evaluation rows = snd (update_many (in_progress i)
     (\<lambda>r. r\<lparr>rx_status := E_SKIPPED, rx_skipReason := Some skipReason,
        rx_conditionEvaluation := coalesce_opt (map_option (stored_fields h) evaluation) (rx_conditionEvaluation r)\<rparr>) rows)"

definition write_executions :: "(recurring_execution list \<Rightarrow> recurring_execution list) \<Rightarrow> (unit, 'a recurring_db_scheme) tx" where
  "write_executions f = tx_write (\<lambda>db. db\<lparr>rd_executions := f (rd_executions db)\<rparr>)"

end
