(* ===== verification/Recurring_UseCases.thy ===== *)
theory Recurring_UseCases
  imports Recurring
begin

text \<open>
  The handler of a fired occurrence, the dispatcher of domain events and the use cases over recurring
  templates. Handler and use cases run in one transaction each.
\<close>

section \<open>The handler\<close>

definition formatDate :: "recurring_call \<Rightarrow> int \<Rightarrow> string" where
  "formatDate c d = take 10 (sv_iso (rv_sched c) d)"

abbreviation no_update :: template_update where
  "no_update \<equiv> \<lparr>tu_status = None, tu_nextRunDate = None, tu_lastRunDate = None, tu_modifiedBy = None\<rparr>"

definition handler_reschedule :: "recurring_call \<Rightarrow> recurring_template \<Rightarrow> (unit, 'a recurring_db_scheme) tx" where
  "handler_reschedule c t =
     (case (rt_triggerType t, rt_frequency t, rt_interval t) of
        (TIME, Some freq, Some interval) \<Rightarrow>
          if interval = 0 then tx_return ()
          else (let from_date = coalesce (rt_nextRunDate t) (coalesce (rt_startDate t) (rv_now c)) in
            tx_then (tx_lift (nextRunDate c freq interval from_date (rt_timeZone t) (rt_startDate t))) (\<lambda>next_date.
            if (case rt_endDate t of None \<Rightarrow> False | Some e \<Rightarrow> next_date > e)
            then tx_then (template_update_row c (rt_id t) (no_update\<lparr>tu_status := Some T_COMPLETED, tu_lastRunDate := Some from_date\<rparr>)) (\<lambda>_.
                 cancel_by_aggregate ''RecurringTemplate'' (rt_id t))
            else tx_then (template_update_row c (rt_id t) (no_update\<lparr>tu_nextRunDate := Some next_date, tu_lastRunDate := Some from_date\<rparr>)) (\<lambda>_.
                 reschedule_by_aggregate ''RecurringTemplate'' (rt_id t) next_date)))
      | _ \<Rightarrow> tx_return ())"

definition json_or_null :: "json option \<Rightarrow> json" where
  "json_or_null v = coalesce v JNull"

definition party_text :: "party_type \<Rightarrow> string" where
  "party_text p = (case p of CUSTOMER \<Rightarrow> ''CUSTOMER'' | VENDOR \<Rightarrow> ''VENDOR'' | EMPLOYEE \<Rightarrow> ''EMPLOYEE'')"

definition occurrence_requested ::
  "recurring_template \<Rightarrow> string \<Rightarrow> recurring_context \<Rightarrow> string \<times> (string \<times> json) list" where
  "occurrence_requested t executionId ctx = (''RecurringOccurrenceRequested'',
     [(''executionId'', JStr executionId), (''recurringTemplateId'', JStr (rt_id t)),
      (''targetEntityType'', JStr (rt_targetEntityType t)), (''partyId'', json_opt (rt_partyId t)),
      (''partyType'', json_opt (map_option party_text (rt_partyType t))), (''currency'', JStr (rt_currency t)),
      (''autoPost'', JBool (rt_autoPost t)), (''triggerKey'', JStr (rc_triggerKey ctx)), (''traceId'', JStr (rc_traceId ctx)),
      (''headerOverrides'', json_or_null (rt_headerOverrides t)), (''lines'', JArr (rt_lines t))] @
     (case rc_tenantId ctx of None \<Rightarrow> [] | Some tenant \<Rightarrow> [(''tenantId'', JStr tenant)]) @
     (case rc_eventPayload ctx of None \<Rightarrow> [] | Some p \<Rightarrow> [(''eventPayload'', p)]))"

text \<open>
  What the condition says: \<open>None\<close> to generate, \<open>Some vs\<close> to skip with the evaluated values. An
  error of the parser or of a resolver is caught and fails the execution.
\<close>

definition condition_decision :: "recurring_call \<Rightarrow> recurring_template \<Rightarrow> recurring_context \<Rightarrow> (string \<times> sval) list option result" where
  "condition_decision c t ctx =
     and_then (parseCondition (sv_host (rv_sched c)) (rt_generationCondition t)) (\<lambda>cond.
     case cond of
       None \<Rightarrow> Inr None
     | Some g \<Rightarrow> and_then (condition_evaluate (sv_host (rv_sched c)) (rv_resolvers c) g ctx) (\<lambda>r.
         Inr (if cr_passed r then None else Some (cr_evaluatedValues r))))"

text \<open>
  The part after the claim. In the branch of a condition that is not met the call of \<open>reschedule\<close> is
  inside the \<open>try\<close>: an error of it is caught, but marking the skipped execution failed changes nothing
  and the second call throws the same error, so the transaction fails with it either way.
\<close>

definition run_claimed ::
  "recurring_call \<Rightarrow> recurring_template \<Rightarrow> recurring_context \<Rightarrow> string \<Rightarrow> (unit, 'a recurring_db_scheme) tx" where
  "run_claimed c t ctx executionId =
     (if rt_status t \<noteq> T_ACTIVE
      then write_executions (execution_skip (sv_host (rv_sched c)) executionId ''TemplateNotActive'' None)
      else (case condition_decision c t ctx of
          Inl er \<Rightarrow> tx_then (write_executions (execution_fail executionId (message er))) (\<lambda>_. handler_reschedule c t)
        | Inr (Some values) \<Rightarrow>
            tx_then (write_executions (execution_skip (sv_host (rv_sched c)) executionId ''ConditionNotMet'' (Some values))) (\<lambda>_.
            handler_reschedule c t)
        | Inr None \<Rightarrow>
            tx_then (send_event (rv_env c) ''RecurringTemplate'' (rt_id t) (occurrence_requested t executionId ctx)) (\<lambda>_.
            handler_reschedule c t)))"

definition trigger_of :: "recurring_call \<Rightarrow> recurring_template \<Rightarrow> fire_payload \<Rightarrow> (int option \<times> string) result" where
  "trigger_of c t p =
     (if fp_jobId p \<noteq> None
      then (case rt_nextRunDate t of
              None \<Rightarrow> throw_plain ''Cannot read properties of null (reading toISOString)''
            | Some d \<Rightarrow> Inr (Some d, formatDate c d))
      else (case fp_sourceEventId p of
              None \<Rightarrow> throw_plain ''Argument triggerKey is missing''
            | Some i \<Rightarrow> Inr (None, i)))"

definition tenant_mismatch :: "recurring_template \<Rightarrow> fire_payload \<Rightarrow> bool" where
  "tenant_mismatch t p \<longleftrightarrow> truthy (fp_tenantId p) \<and> truthy (rt_tenantId t) \<and> fp_tenantId p \<noteq> rt_tenantId t"

definition handle_occurrence ::
  "recurring_call \<Rightarrow> recurring_template \<Rightarrow> fire_payload \<Rightarrow> int option \<times> string \<Rightarrow> (unit, 'a recurring_db_scheme) tx" where
  "handle_occurrence c t p trigger =
     (let tenantId = coalesce_opt (rt_tenantId t) (fp_tenantId p); timed = (fp_jobId p \<noteq> None); (runDate, triggerKey) = trigger in
      tx_then (draw_uuid (rv_env c)) (\<lambda>traceId.
      tx_then (execution_claim c \<lparr>ci_tenantId = tenantId, ci_recurringTemplateId = rt_id t, ci_scheduleJobId = fp_jobId p,
          ci_runDate = runDate, ci_sourceEventId = (if timed then None else fp_sourceEventId p), ci_triggerKey = triggerKey,
          ci_generatedDocumentType = rt_targetEntityType t\<rparr>) (\<lambda>execution.
      case execution of
        None \<Rightarrow> if rv_aborts c then tx_lift (throw_plain ''current transaction is aborted'')
                else tx_return ()
      | Some x \<Rightarrow> run_claimed c t \<lparr>rc_tenantId = tenantId, rc_recurringTemplateId = rt_id t, rc_triggerKey = triggerKey,
            rc_traceId = traceId, rc_executionId = Some (rx_id x), rc_autoPost = rt_autoPost t,
            rc_eventPayload = (if timed then None else fp_eventPayload p)\<rparr> (rx_id x))))"

definition recurring_handle :: "recurring_call \<Rightarrow> fire_payload \<Rightarrow> (unit, 'a recurring_db_scheme) tx" where
  "recurring_handle c p =
     (if \<not> truthy (fp_aggregateId p)
      then tx_lift (throw_plain ''ScheduledJobPayload.aggregateId is required for RecurringGenerationHandler'')
      else tx_then (tx_read (\<lambda>db. template_findById (the (fp_aggregateId p)) (rd_templates db))) (\<lambda>found.
        case found of
          None \<Rightarrow> tx_lift (throw_plain (''RecurringTemplate '' @ the (fp_aggregateId p) @ '' not found''))
        | Some t \<Rightarrow>
            if tenant_mismatch t p
            then tx_lift (throw_plain (''Tenant mismatch on recurring generation: template '' @ rt_id t @ '' belongs to ''
                   @ the (rt_tenantId t) @ '' but payload claimed '' @ the (fp_tenantId p)))
            else tx_then (tx_lift (trigger_of c t p)) (handle_occurrence c t p)))"

section \<open>Domain events\<close>

record bus_message =
  bm_eventId :: "string option"
  bm_payload :: json

fun fire_templates ::
  "'a recurring_db_scheme fire_handler \<Rightarrow> string \<Rightarrow> json \<Rightarrow> recurring_template list \<Rightarrow> (unit, 'a recurring_db_scheme) io" where
  "fire_templates handler sourceEventId eventPayload [] = io_return ()"
| "fire_templates handler sourceEventId eventPayload (t # ts) =
     io_then (io_catch (handler \<lparr>fp_jobId = None, fp_tenantId = rt_tenantId t, fp_jobType = ''Recurring'', fp_scope = None,
         fp_aggregateType = Some ''RecurringTemplate'', fp_aggregateId = Some (rt_id t), fp_payload = VUndef, fp_attempt = None,
         fp_sourceEventId = Some sourceEventId, fp_eventPayload = Some eventPayload, fp_idempotencyKey = None\<rparr>)
         (\<lambda>_. io_return ())) (\<lambda>_. fire_templates handler sourceEventId eventPayload ts)"

definition onEvent ::
  "env \<Rightarrow> 'a recurring_db_scheme fire_handler registry \<Rightarrow> string \<Rightarrow> bus_message option \<Rightarrow> (unit, 'a recurring_db_scheme) io" where
  "onEvent e reg eventName msg =
     io_catch (io_then (io_read (\<lambda>db. findActiveByEventName eventName None (rd_templates db))) (\<lambda>templates.
       if templates = [] then io_return ()
       else io_then (io_lift (resolveHandler ''Recurring'' reg)) (\<lambda>handler.
            io_then (case Option.bind msg bm_eventId of Some i \<Rightarrow> io_return i | None \<Rightarrow> transactional (draw_uuid e)) (\<lambda>sourceEventId.
            fire_templates handler sourceEventId (case msg of None \<Rightarrow> JObj [] | Some m \<Rightarrow> bm_payload m) templates))))
     (\<lambda>_. io_return ())"

section \<open>The use cases\<close>

definition PARTY_TYPE_BY_TARGET_ENTITY :: "string \<Rightarrow> party_type option" where
  "PARTY_TYPE_BY_TARGET_ENTITY entity =
     map_of [(''PurchaseOrder'', VENDOR), (''Bill'', VENDOR), (''Invoice'', CUSTOMER)] entity"

definition template_validate :: "template_input \<Rightarrow> unit result" where
  "template_validate input =
     and_then (case (ti_partyType input, PARTY_TYPE_BY_TARGET_ENTITY (ti_targetEntityType input)) of
         (Some p, Some expected) \<Rightarrow> if p \<noteq> expected
            then throw 400 (''partyType '' @ party_text p @ '' does not correlate with targetEntityType '' @ ti_targetEntityType input)
            else Inr ()
       | _ \<Rightarrow> Inr ()) (\<lambda>_.
     and_then (case ti_triggerType input of
         TIME \<Rightarrow> if ti_frequency input = None \<or> ti_interval input = None \<or> ti_interval input = Some 0 \<or> ti_startDate input = None
                then throw 400 ''triggerType TIME requires its matching fields to be set'' else Inr ()
       | EVENT \<Rightarrow> if \<not> truthy (ti_eventName input)
                then throw 400 ''triggerType EVENT requires its matching fields to be set'' else Inr ()) (\<lambda>_.
     if ti_lines input = [] then conflict ''RecurringTemplate.lines must be a non-empty array'' else Inr ()))"

definition create_recurring_template :: "recurring_call \<Rightarrow> template_input \<Rightarrow> (recurring_template, 'a recurring_db_scheme) tx" where
  "create_recurring_template c input =
     (let scoped = input\<lparr>ti_tenantId := coalesce_opt (ti_tenantId input) (ctx_tenantId (e_ctx (rv_env c))),
            ti_createdBy := coalesce_opt (ti_createdBy input) (ctx_userId (e_ctx (rv_env c)))\<rparr> in
      tx_then (tx_lift (template_validate scoped)) (\<lambda>_.
      tx_then (template_create c scoped) (\<lambda>t.
      if rt_triggerType t = TIME
      then tx_then (schedule_for_aggregate (rv_sched c) ''Recurring'' ''RecurringTemplate'' (rt_id t)
             (coalesce (rt_nextRunDate t) (the (rt_startDate t))) (rt_tenantId t)) (\<lambda>_. tx_return t)
      else tx_return t)))"

definition visible_template :: "recurring_call \<Rightarrow> string \<Rightarrow> string option \<Rightarrow> (recurring_template, 'a recurring_db_scheme) tx" where
  "visible_template c i tenantId =
     tx_then (tx_read (\<lambda>db. template_findById i (rd_templates db))) (\<lambda>found.
     case found of
       None \<Rightarrow> tx_lift (not_found ''RecurringTemplate not found'')
     | Some t \<Rightarrow> tx_then (tx_lift (assertVisible (rt_tenantId t) (coalesce_opt tenantId (ctx_tenantId (e_ctx (rv_env c))))))
         (\<lambda>_. tx_return t))"

definition template_audit :: "recurring_call \<Rightarrow> string \<Rightarrow> string \<Rightarrow> (string \<times> json) list \<Rightarrow> (unit, 'a recurring_db_scheme) tx" where
  "template_audit c action i changes = audit_record (rv_env c) action ''RecurringTemplate'' i None changes"

definition cancel_recurring_template ::
  "recurring_call \<Rightarrow> string \<Rightarrow> string option \<Rightarrow> string option \<Rightarrow> (recurring_template, 'a recurring_db_scheme) tx" where
  "cancel_recurring_template c i modifiedBy tenantId =
     tx_then (visible_template c i tenantId) (\<lambda>t.
     tx_then (if rt_triggerType t = TIME then cancel_by_aggregate ''RecurringTemplate'' (rt_id t) else tx_return ()) (\<lambda>_.
     tx_then (template_audit c ''recurring.template.cancel'' i [(''status'', JStr ''CANCELLED'')]) (\<lambda>_.
     template_update_row c i (no_update\<lparr>tu_status := Some T_CANCELLED, tu_modifiedBy := actor_of (rv_env c) modifiedBy\<rparr>))))"

definition pause_recurring_template ::
  "recurring_call \<Rightarrow> string \<Rightarrow> string option \<Rightarrow> string option \<Rightarrow> (recurring_template, 'a recurring_db_scheme) tx" where
  "pause_recurring_template c i modifiedBy tenantId =
     tx_then (visible_template c i tenantId) (\<lambda>t.
     tx_then (if rt_triggerType t = TIME then cancel_by_aggregate ''RecurringTemplate'' (rt_id t) else tx_return ()) (\<lambda>_.
     tx_then (template_audit c ''recurring.template.pause'' i [(''status'', JStr ''PAUSED'')]) (\<lambda>_.
     template_update_row c i (no_update\<lparr>tu_status := Some T_PAUSED, tu_modifiedBy := actor_of (rv_env c) modifiedBy\<rparr>))))"

definition resume_recurring_template ::
  "recurring_call \<Rightarrow> string \<Rightarrow> string option \<Rightarrow> string option \<Rightarrow> (recurring_template, 'a recurring_db_scheme) tx" where
  "resume_recurring_template c i modifiedBy tenantId =
     tx_then (visible_template c i tenantId) (\<lambda>t.
     if rt_triggerType t \<noteq> TIME
     then tx_then (template_audit c ''recurring.template.resume'' i [(''status'', JStr ''ACTIVE'')]) (\<lambda>_.
          template_update_row c i (no_update\<lparr>tu_status := Some T_ACTIVE, tu_modifiedBy := actor_of (rv_env c) modifiedBy\<rparr>))
     else (case (rt_frequency t, rt_interval t) of
        (Some freq, Some interval) \<Rightarrow>
          if interval = 0 then tx_lift (conflict ''RecurringTemplate is missing TIME trigger fields'')
          else tx_then (tx_lift (nextRunDate c freq interval (rv_now c) (rt_timeZone t) None)) (\<lambda>next_date.
            tx_then (template_update_row c i (no_update\<lparr>tu_status := Some T_ACTIVE, tu_nextRunDate := Some next_date,
              tu_modifiedBy := actor_of (rv_env c) modifiedBy\<rparr>)) (\<lambda>updated.
            tx_then (reschedule_by_aggregate ''RecurringTemplate'' (rt_id t) next_date) (\<lambda>_.
            tx_then (template_audit c ''recurring.template.resume'' i
              [(''status'', JStr ''ACTIVE''), (''nextRunDate'', JStr (sv_iso (rv_sched c) next_date))]) (\<lambda>_.
            tx_return updated))))
      | _ \<Rightarrow> tx_lift (conflict ''RecurringTemplate is missing TIME trigger fields'')))"

definition list_recurring_templates ::
  "recurring_call \<Rightarrow> string option \<Rightarrow> template_status option \<Rightarrow> nat option \<Rightarrow> nat option \<Rightarrow> 'a recurring_db_scheme \<Rightarrow> recurring_template list" where
  "list_recurring_templates c tenantId status limit offset db =
     template_list (coalesce_opt tenantId (ctx_tenantId (e_ctx (rv_env c)))) status limit offset (rd_templates db)"

definition STALE_EXECUTION_MS :: int where "STALE_EXECUTION_MS = 60 * 60000"
definition EXECUTION_SWEEP_BATCH :: nat where "EXECUTION_SWEEP_BATCH = 500"

definition sweep_stale_executions :: "recurring_call \<Rightarrow> (nat, 'a recurring_db_scheme) io" where
  "sweep_stale_executions c = io_step (\<lambda>db.
     let (n, rows) = failStale (rv_now c - STALE_EXECUTION_MS) EXECUTION_SWEEP_BATCH (rd_executions db)
     in (n, db\<lparr>rd_executions := rows\<rparr>))"

text \<open>The port through which the document's module reports back.\<close>

definition complete_occurrence :: "string \<Rightarrow> complete_input \<Rightarrow> (unit, 'a recurring_db_scheme) tx" where
  "complete_occurrence i input = write_executions (execution_complete i input)"

definition fail_occurrence :: "string \<Rightarrow> string \<Rightarrow> (unit, 'a recurring_db_scheme) tx" where
  "fail_occurrence i errorMessage = write_executions (execution_fail i errorMessage)"

end
