(* ===== verification/Scheduler_Properties.thy ===== *)
theory Scheduler_Properties
  imports Scheduler_UseCases
begin

text \<open>
  What every operation of the scheduler does to the table of jobs: a row keeps its identity, its retry
  count and version only grow, a cancelled job stays cancelled, and the pairing rules of registration
  hold of every row. The relation \<open>jobs_evolve\<close> is proved of each statement and lifted to the
  programs by the interfaces of \<open>Effects\<close> and \<open>Platform\<close>.
\<close>

section \<open>How rows change\<close>

definition job_step :: "scheduled_job \<Rightarrow> scheduled_job \<Rightarrow> bool" where
  "job_step r r' \<longleftrightarrow> jb_id r' = jb_id r \<and> jb_tenantId r' = jb_tenantId r \<and> jb_jobType r' = jb_jobType r \<and>
     jb_scope r' = jb_scope r \<and> jb_scheduleMode r' = jb_scheduleMode r \<and> jb_aggregateType r' = jb_aggregateType r \<and>
     jb_aggregateId r' = jb_aggregateId r \<and> jb_payload r' = jb_payload r \<and>
     (jb_status r = JOB_CANCELLED \<longrightarrow> jb_status r' = JOB_CANCELLED) \<and>
     jb_retryCount r \<le> jb_retryCount r' \<and> jb_version r \<le> jb_version r'"

definition job_wf :: "scheduled_job \<Rightarrow> bool" where
  "job_wf r \<longleftrightarrow> (jb_scope r = PLATFORM \<longrightarrow> \<not> truthy (jb_tenantId r)) \<and> (jb_scope r = TENANT \<longrightarrow> truthy (jb_tenantId r)) \<and>
     (if jb_scope r = AGGREGATE then truthy (jb_aggregateType r) \<and> truthy (jb_aggregateId r)
      else \<not> truthy (jb_aggregateType r) \<and> \<not> truthy (jb_aggregateId r)) \<and>
     (if jb_scheduleMode r = CRON then jb_cronExpression r \<noteq> None else \<not> truthy (jb_cronExpression r))"

definition jobs_ok :: "scheduled_job list \<Rightarrow> bool" where
  "jobs_ok rows \<longleftrightarrow> distinct (map jb_id rows) \<and> (\<forall>r \<in> set rows. job_wf r)"

definition jobs_evolve :: "scheduled_job list \<Rightarrow> scheduled_job list \<Rightarrow> bool" where
  "jobs_evolve rows rows' \<longleftrightarrow> (jobs_ok rows \<longrightarrow> jobs_ok rows' \<and> (\<forall>r \<in> set rows. \<exists>r' \<in> set rows'. job_step r r'))"

lemma job_step_refl [simp]: "job_step r r"
  by (simp add: job_step_def)

lemma job_step_trans: "job_step r r' \<Longrightarrow> job_step r' r'' \<Longrightarrow> job_step r r''"
  by (auto simp: job_step_def)

lemma job_step_wf: "job_step r r' \<Longrightarrow> jb_cronExpression r' = jb_cronExpression r \<Longrightarrow> job_wf r \<Longrightarrow> job_wf r'"
  by (simp add: job_step_def job_wf_def)

lemma jobs_evolve_refl [simp]: "jobs_evolve rows rows"
  unfolding jobs_evolve_def using job_step_refl by blast

lemma jobs_evolve_trans: "jobs_evolve rows rows' \<Longrightarrow> jobs_evolve rows' rows'' \<Longrightarrow> jobs_evolve rows rows''"
  unfolding jobs_evolve_def by (meson job_step_trans)

lemma unique_job: "jobs_ok rows \<Longrightarrow> r \<in> set rows \<Longrightarrow> q \<in> set rows \<Longrightarrow> jb_id r = jb_id q \<Longrightarrow> r = q"
  by (auto simp: jobs_ok_def distinct_map dest: inj_onD)

lemma job_findById_Some: "job_findById i rows = Some r \<Longrightarrow> r \<in> set rows \<and> jb_id r = i"
  by (auto simp: job_findById_def find_first_def find_Some_iff)

lemma job_findById_unique:
  assumes "jobs_ok rows" "r \<in> set rows" shows "job_findById (jb_id r) rows = Some r"
proof (cases "job_findById (jb_id r) rows")
  case None
  then show ?thesis using assms(2) by (auto simp: job_findById_def find_first_def find_None_iff)
next
  case (Some q)
  with job_findById_Some [OF Some] unique_job [OF assms] show ?thesis by metis
qed

lemma evolve_map_where:
  assumes "\<And>r. r \<in> set rows \<Longrightarrow> jobs_ok rows \<Longrightarrow> p r \<Longrightarrow> job_step r (f r) \<and> job_wf (f r)"
  shows "jobs_evolve rows (map_where p f rows)"
proof -
  have "map jb_id (map_where p f rows) = map jb_id rows" if "jobs_ok rows"
    unfolding map_where_def using assms [OF _ that] by (auto simp: job_step_def)
  moreover have "job_wf r'" if "jobs_ok rows" "r' \<in> set (map_where p f rows)" for r'
    using that assms by (auto simp: set_map_where jobs_ok_def)
  moreover have "\<exists>r' \<in> set (map_where p f rows). job_step r r'" if "jobs_ok rows" "r \<in> set rows" for r
    using assms [OF that(2,1)] that(2) job_step_refl [of r] unfolding set_map_where by (cases "p r") blast+
  ultimately show ?thesis by (auto simp: jobs_evolve_def jobs_ok_def)
qed

lemma evolve_update:
  assumes "\<And>r. r \<in> set rows \<Longrightarrow> p r \<Longrightarrow> job_step r (f r) \<and> jb_cronExpression (f r) = jb_cronExpression r"
  shows "jobs_evolve rows (snd (update_many p f rows))"
  unfolding update_many_def snd_conv
  using assms by (intro evolve_map_where) (auto simp: jobs_ok_def intro: job_step_wf)

lemmas row_defs = job_step_def cancelled_row_def rescheduled_row_def jb_unlocked_def claimed_row_def failed_job_def Let_def

named_theorems evolves \<open>statements and programs under which the table of jobs evolves\<close>

lemma evolve_cancel [evolves]: "jobs_evolve rows (job_cancel i rows)"
  unfolding job_cancel_def by (rule evolve_update) (auto simp: row_defs)

lemma evolve_cancelByAggregate [evolves]: "jobs_evolve rows (job_cancelByAggregate t a rows)"
  unfolding job_cancelByAggregate_def by (rule evolve_update) (auto simp: row_defs)

lemma evolve_reschedule [evolves]: "jobs_evolve rows (job_reschedule i n rows)"
  unfolding job_reschedule_def by (rule evolve_update) (auto simp: row_defs)

lemma evolve_rescheduleByAggregate [evolves]: "jobs_evolve rows (job_rescheduleByAggregate t a n rows)"
  unfolding job_rescheduleByAggregate_def by (rule evolve_update) (auto simp: row_defs)

lemma evolve_markPending [evolves]: "jobs_evolve rows (markPendingWithNextRun i n l rows)"
  unfolding markPendingWithNextRun_def by (rule evolve_update) (auto simp: row_defs)

lemma evolve_touch [evolves]: "jobs_evolve rows (touchLastRunAt i now rows)"
  unfolding touchLastRunAt_def by (rule evolve_update) (auto simp: row_defs)

lemma evolve_markRunning [evolves]: "jobs_evolve rows (snd (markRunningExternal i until rows))"
proof -
  have "jobs_evolve rows (snd (update_many (\<lambda>r. jb_id r = i \<and> jb_status r = JOB_CLAIMED)
      (\<lambda>r. r\<lparr>jb_status := JOB_RUNNING, jb_lockedUntil := Some until\<rparr>) rows))"
    by (rule evolve_update) (auto simp: row_defs)
  then show ?thesis by (simp add: markRunningExternal_def Let_def split: prod.split) (metis snd_conv)
qed

lemma evolve_release [evolves]: "jobs_evolve rows (snd (releaseStaleClaims now rows))"
  unfolding releaseStaleClaims_def by (rule evolve_update) (auto simp: row_defs)

lemma claimDue_pending: "r \<in> set (fst (claimDue c n rows)) \<Longrightarrow> r \<in> set rows \<and> job_due c r"
  by (auto simp: claimDue_def Let_def dest: in_set_takeD split: if_splits)

lemma evolve_claimDue [evolves]: "jobs_evolve rows (snd (claimDue c n rows))"
proof -
  let ?picked = "take n (sort_key jb_nextRunAt (filter (job_due c) rows))"
  have "jobs_evolve rows (map_where (\<lambda>r. jb_id r \<in> set (map jb_id ?picked)) (claimed_row c) rows)"
  proof (rule evolve_map_where)
    fix r assume r: "r \<in> set rows" "jobs_ok rows" "jb_id r \<in> set (map jb_id ?picked)"
    then obtain q where "q \<in> set ?picked" "jb_id r = jb_id q" by auto
    then have "q \<in> set rows" "job_due c q" by (auto dest: in_set_takeD)
    with unique_job [OF r(2,1)] \<open>jb_id r = jb_id q\<close> have "job_due c r" by auto
    then have "job_step r (claimed_row c r)" by (simp add: row_defs job_due_def)
    moreover have "job_wf r" using r(1,2) by (simp add: jobs_ok_def)
    ultimately show "job_step r (claimed_row c r) \<and> job_wf (claimed_row c r)"
      using job_step_wf [of r "claimed_row c r"] by (simp add: claimed_row_def)
  qed
  then show ?thesis by (simp add: claimDue_def Let_def update_many_def)
qed

lemma evolve_recordFailure [evolves]: "jobs_evolve rows (snd (recordFailure now i m b rows))"
proof (cases "job_findById i rows")
  case (Some row)
  have "jobs_evolve rows (map_where (\<lambda>r. jb_id r = i) (\<lambda>_. failed_job now m b row) rows)"
    if "jb_status row \<noteq> JOB_CANCELLED"
  proof (rule evolve_map_where)
    fix r assume r: "r \<in> set rows" "jobs_ok rows" "jb_id r = i"
    with job_findById_Some [OF Some] unique_job have "r = row" by metis
    moreover have "job_step row (failed_job now m b row)" using that by (simp add: row_defs)
    ultimately show "job_step r (failed_job now m b row) \<and> job_wf (failed_job now m b row)"
      using r(1,2) job_step_wf [of row "failed_job now m b row"] by (simp add: jobs_ok_def failed_job_def Let_def jb_unlocked_def)
  qed
  then show ?thesis using Some by (simp add: recordFailure_def)
qed (simp add: recordFailure_def)

section \<open>Programs\<close>

definition db_evolves :: "'a scheduler_db_scheme \<Rightarrow> 'b scheduler_db_scheme \<Rightarrow> bool" where
  "db_evolves db db' \<longleftrightarrow> jobs_evolve (sd_jobs db) (sd_jobs db')"

interpretation plain: io_relation "db_evolves :: 'a scheduler_db_scheme \<Rightarrow> 'a scheduler_db_scheme \<Rightarrow> bool"
  by unfold_locales (auto simp: db_evolves_def intro: jobs_evolve_trans)

interpretation atomic: tx_relation "db_evolves :: 'a scheduler_db_scheme \<Rightarrow> 'a scheduler_db_scheme \<Rightarrow> bool"
  by unfold_locales (auto simp: db_evolves_def intro: jobs_evolve_trans)

lemmas program_rules = plain.rel_return plain.rel_lift plain.rel_read plain.rel_then plain.rel_if plain.rel_option plain.rel_catch
  plain.rel_for atomic.rel_return atomic.rel_lift atomic.rel_read atomic.rel_then

lemma evolves_elsewhere: "(\<And>db. sd_jobs (g db) = sd_jobs db) \<Longrightarrow> io_rel db_evolves (io_write g)"
  by (rule plain.rel_write) (simp add: db_evolves_def)

lemma evolves_write_jobs: "(\<And>rows. jobs_evolve rows (f rows)) \<Longrightarrow> io_rel db_evolves (write_jobs f)"
  unfolding write_jobs_def by (rule plain.rel_write) (simp add: db_evolves_def)

lemma evolves_step: "(\<And>rows. jobs_evolve rows (snd (f rows))) \<Longrightarrow>
   io_rel db_evolves (io_step (\<lambda>db. let (x, rows) = f (sd_jobs db) in (x, db\<lparr>sd_jobs := rows\<rparr>)))"
  by (auto simp: io_rel_def io_step_def db_evolves_def split: prod.splits) (metis snd_conv)

lemma evolves_on_redis: "io_rel db_evolves (on_redis m)"
  by (simp add: io_rel_def on_redis_def db_evolves_def Let_def split: prod.split)

lemma evolves_transactional: "tx_rel db_evolves m \<Longrightarrow> io_rel db_evolves (transactional m)"
  by (simp add: io_rel_def atomic.rel_transactional)

lemma evolves_audit: "io_rel db_evolves (transactional (audit_record e a b i x ch))"
  by (intro evolves_transactional tx_relI) (auto simp: audit_record_def audit_write_def db_evolves_def)

lemma evolves_cancel_by_aggregate: "tx_rel db_evolves (cancel_by_aggregate t a)"
  unfolding cancel_by_aggregate_def by (rule atomic.rel_write) (simp add: db_evolves_def evolves)

lemma evolves_reschedule_by_aggregate: "tx_rel db_evolves (reschedule_by_aggregate t a n)"
  unfolding reschedule_by_aggregate_def by (rule atomic.rel_write) (simp add: db_evolves_def evolves)

text \<open>Registering appends one well-formed row with a fresh id.\<close>

lemma evolve_insert: "job_wf q \<Longrightarrow> \<forall>r \<in> set rows. jb_id r \<noteq> jb_id q \<Longrightarrow> jobs_evolve rows (insert_row q rows)"
  unfolding jobs_evolve_def jobs_ok_def insert_row_def using job_step_refl by fastforce

lemma registered_wf:
  assumes "assertScopeTenant input = Inr ()" "assertAggregatePairing input = Inr ()" "assertScheduleMode input = Inr ()"
    and "\<forall>r \<in> set rows. jb_id r \<noteq> i"
  shows "jobs_evolve rows (job_create h i input n rows)"
  unfolding job_create_def
proof (rule evolve_insert)
  have "ri_scope input = PLATFORM \<longrightarrow> \<not> truthy (ri_tenantId input)" "ri_scope input = TENANT \<longrightarrow> truthy (ri_tenantId input)"
    using assms(1) by (auto simp: assertScopeTenant_def split: if_splits)
  moreover have "if ri_scope input = AGGREGATE then truthy (ri_aggregateType input) \<and> truthy (ri_aggregateId input)
      else \<not> truthy (ri_aggregateType input) \<and> \<not> truthy (ri_aggregateId input)"
    using assms(2) by (auto simp: assertAggregatePairing_def split: if_splits)
  moreover have "if ri_scheduleMode input = CRON then ri_cronExpression input \<noteq> None else \<not> truthy (ri_cronExpression input)"
    using assms(3) by (cases "ri_scheduleMode input"; cases "ri_cronExpression input") (auto simp: assertScheduleMode_def split: if_splits)
  ultimately show "job_wf \<lparr>jb_id = i, jb_tenantId = ri_tenantId input, jb_jobType = ri_jobType input, jb_scope = ri_scope input,
      jb_scheduleMode = ri_scheduleMode input, jb_cronExpression = ri_cronExpression input,
      jb_aggregateType = ri_aggregateType input, jb_aggregateId = ri_aggregateId input,
      jb_payload = coalesce (stored h (ri_payload input)) VNull, jb_nextRunAt = n, jb_lastRunAt = None,
      jb_status = JOB_PENDING, jb_retryCount = 0, jb_version = 0, jb_lockedUntil = None, jb_lockedBy = None\<rparr>"
    by (simp add: job_wf_def)
qed (simp add: assms(4))

lemma evolves_register: "tx_rel db_evolves (register_job c input)"
proof (rule tx_relI)
  fix db x db' assume run: "register_job c input db = Inr (x, db')"
  then obtain n where ok: "assertScopeTenant input = Inr ()" "assertAggregatePairing input = Inr ()" "assertScheduleMode input = Inr ()"
    and ins: "job_insert c input n db = Inr (x, db')"
    by (auto simp: register_job_def tx_then_Inr)
  from ins have "sd_jobs db' = job_create (sv_host c) x input n (sd_jobs db)" "\<forall>r \<in> set (sd_jobs db). jb_id r \<noteq> x"
    by (auto simp: job_insert_def draw_uuid_def tx_then_def split: if_splits)
  with registered_wf [OF ok] show "db_evolves db db'"
    by (simp add: db_evolves_def)
qed

lemma evolves_schedule: "tx_rel db_evolves (schedule_for_aggregate c j t a n ten)"
  unfolding schedule_for_aggregate_def by (rule evolves_register)

lemma evolves_visible: "io_rel db_evolves (visible_job c i t)"
  unfolding visible_job_def by (intro program_rules)

lemma evolves_cancel_job: "io_rel db_evolves (cancel_job c i t)"
  unfolding cancel_job_def by (intro program_rules evolves_visible evolves_write_jobs evolves_audit evolves)

lemma evolves_dispatch_now: "io_rel db_evolves (dispatch_now c i t)"
  unfolding dispatch_now_def by (intro program_rules evolves_visible evolves_write_jobs evolves_audit evolves)

lemma evolves_log_insert: "io_rel db_evolves (log_insert row)"
  by (simp add: io_rel_def log_insert_def db_evolves_def)

lemma evolves_enqueue: "io_rel db_evolves (enqueue c job)"
  unfolding enqueue_def by (cases "sv_queue c job") (simp_all add: program_rules evolves_elsewhere)

lemma evolves_dispatch_try: "io_rel db_evolves (dispatch_try c job)"
  unfolding dispatch_try_def
  by (intro program_rules evolves_enqueue evolves_log_insert evolves_write_jobs evolves)

lemma evolves_dispatch_failed: "io_rel db_evolves (dispatch_failed c job er)"
  unfolding dispatch_failed_def by (intro program_rules evolves_elsewhere evolves_write_jobs evolves) simp

lemma evolves_dispatchOne: "io_rel db_evolves (dispatchOne c job)"
proof -
  have "io_rel db_evolves (case res of LOCK_BUSY w \<Rightarrow> io_return False
     | LOCK_ACQUIRED ticket \<Rightarrow> io_then (io_catch (dispatch_try c job) (dispatch_failed c job)) (\<lambda>_.
         io_then (on_redis (io_write (release_lock (sv_redis c) (sv_now c) ticket))) (\<lambda>_. io_return True)))" for res
    by (cases res) (auto intro!: program_rules evolves_dispatch_try evolves_dispatch_failed evolves_on_redis)
  then show ?thesis unfolding dispatchOne_def by (intro plain.rel_then evolves_on_redis)
qed

lemma evolves_dispatch_all: "io_rel db_evolves (dispatch_all c jobs)"
proof (induction jobs)
  case (Cons job jobs)
  then show ?case unfolding dispatch_all.simps by (intro plain.rel_then evolves_dispatchOne)
qed (simp only: dispatch_all.simps plain.rel_return)

lemma evolves_claim: "io_rel db_evolves (io_step (\<lambda>db. let (claimed, rows) = claimDue c n (sd_jobs db) in (claimed, db\<lparr>sd_jobs := rows\<rparr>)))"
  by (intro evolves_step evolves)

lemma evolves_dispatch_loop: "io_rel db_evolves (dispatch_loop c passes limit n)"
proof (induction passes arbitrary: n)
  case (Suc passes)
  then show ?case unfolding dispatch_loop.simps
    by (intro plain.rel_then [OF evolves_claim] plain.rel_if plain.rel_return plain.rel_then [OF evolves_dispatch_all])
qed (simp only: dispatch_loop.simps plain.rel_return)

lemma evolves_tick: "io_rel db_evolves (ticker_tick c ticking passes)"
  unfolding ticker_tick_def dispatch_due_jobs_def by (intro program_rules evolves_dispatch_loop evolves_elsewhere) simp

lemma evolves_reconcile_overdue: "io_rel db_evolves (reconcile_overdue c jobs n)"
proof (induction jobs arbitrary: n)
  case (Cons job jobs)
  then show ?case unfolding reconcile_overdue.simps by (intro program_rules evolves_write_jobs evolves)
qed (simp only: reconcile_overdue.simps plain.rel_return)

lemma evolves_reconcile: "io_rel db_evolves (reconcileOnce c)"
  unfolding reconcileOnce_def reconcile_missed_jobs_def
  by (intro program_rules evolves_step evolves_reconcile_overdue evolves)

lemma evolves_onFailed: "io_rel db_evolves (worker_onFailed c job ts ats am er)"
  unfolding worker_onFailed_def recordFinalFailure_def
  by (intro program_rules evolves_step evolves_elsewhere evolves) simp

lemma evolves_publish: "io_rel db_evolves (publishJobDue c job)"
  unfolding publishJobDue_def by (cases "sv_publish c job") (simp_all add: program_rules evolves_elsewhere)

lemma evolves_process:
  assumes "\<And>handler p. handler \<in> snd ` set reg \<Longrightarrow> io_rel db_evolves (handler p)"
  shows "io_rel db_evolves (process_job c reg job n)"
proof -
  have "io_rel db_evolves (io_then (io_lift (resolveHandler (qj_jobType job) reg)) (\<lambda>handler. handler (payload_of job n)))"
  proof (cases "map_of reg (qj_jobType job)")
    case None
    then show ?thesis by (simp add: resolveHandler_def requireEntry_def io_rel_def db_evolves_def)
  next
    case (Some handler)
    then have "handler \<in> snd ` set reg" by (force dest: map_of_SomeD)
    with assms Some show ?thesis by (simp add: resolveHandler_def requireEntry_def io_rel_def)
  qed
  then show ?thesis unfolding process_job_def
    by (intro plain.rel_then [OF plain.rel_read] plain.rel_if plain.rel_return evolves_publish)
qed

lemma evolves_worker:
  assumes "\<And>ctx handler p. handler \<in> snd ` set (reg ctx) \<Longrightarrow> io_rel db_evolves (handler p)"
  shows "io_rel db_evolves (worker_process c reg job n)"
  unfolding worker_process_def
  by (intro program_rules evolves_write_jobs evolves evolves_process) (rule assms)

lemma evolves_update_job: "io_rel db_evolves (update_job c input tenantId)"
  unfolding io_rel_def
proof
  fix db :: "'a scheduler_db_scheme"
  show "db_evolves db (snd (update_job c input tenantId db))"
  proof (cases "visible_job c (ui_jobId input) tenantId db")
    case (Pair res db1)
    then have db1: "db1 = db" and found: "\<And>job. res = Inr job \<Longrightarrow> job_findById (ui_jobId input) (sd_jobs db) = Some job"
      by (auto simp: visible_job_def io_then_def split: option.splits sum.splits prod.splits)
    show ?thesis
    proof (cases res)
      case (Inl er)
      with Pair db1 show ?thesis by (simp add: update_job_def io_then_def db_evolves_def)
    next
      case (Inr job)
      with Pair db1 have vis: "visible_job c (ui_jobId input) tenantId db = (Inr job, db)" by simp
      show ?thesis
      proof (cases "new_cron c job input")
        case (Inl er)
        with vis show ?thesis by (simp add: update_job_def io_then_Inr db_evolves_def)
      next
        case (Inr cron)
        let ?x = "coalesce_opt (map_option fst cron) (jb_cronExpression job)"
        let ?f = "\<lambda>n r. r\<lparr>jb_cronExpression := ?x, jb_nextRunAt := n, jb_version := jb_version r + 1\<rparr>"
        have cron: "cron \<noteq> None \<Longrightarrow> jb_scheduleMode job = CRON"
          using Inr by (auto simp: new_cron_def and_then_Inr_iff split: option.splits if_splits)
        have evolve: "jobs_evolve (sd_jobs db) (map_where (\<lambda>r. jb_id r = ui_jobId input \<and> jb_version r = v) (?f n) (sd_jobs db))" for n v
        proof (rule evolve_map_where)
          fix r assume r: "r \<in> set (sd_jobs db)" "jobs_ok (sd_jobs db)" "jb_id r = ui_jobId input \<and> jb_version r = v"
          then have "r = job" using job_findById_Some [OF found [OF \<open>res = Inr job\<close>]] unique_job by metis
          with r cron show "job_step r (?f n r) \<and> job_wf (?f n r)"
            by (cases cron) (auto simp: job_step_def job_wf_def jobs_ok_def coalesce_opt_def)
        qed
        then show ?thesis
          using vis Inr
          by (auto simp: update_job_def io_then_Inr io_then_def io_step_def updateWithVersionCheck_def update_many_def db_evolves_def
              Let_def)
      qed
    qed
  qed
qed

section \<open>All moves of the scheduler\<close>

text \<open>
  One step of the system: a registration or an operation by aggregate (in a transaction of its own), a
  request, a tick, a reconciliation, or a run of the worker with handlers that themselves only use the
  scheduler's operations.
\<close>

inductive scheduler_move :: "'a scheduler_db_scheme \<Rightarrow> 'a scheduler_db_scheme \<Rightarrow> bool" where
  Sched_register: "scheduler_move db (snd (transactional (register_job c input) db))"
| Sched_cancel_aggregate: "scheduler_move db (snd (transactional (cancel_by_aggregate t a) db))"
| Sched_reschedule_aggregate: "scheduler_move db (snd (transactional (reschedule_by_aggregate t a n) db))"
| Sched_cancel: "scheduler_move db (snd (cancel_job c i ten db))"
| Sched_dispatch_now: "scheduler_move db (snd (dispatch_now c i ten db))"
| Sched_update: "scheduler_move db (snd (update_job c input ten db))"
| Sched_tick: "scheduler_move db (snd (ticker_tick c ticking passes db))"
| Sched_reconcile: "scheduler_move db (snd (reconcileOnce c db))"
| Sched_worker: "(\<And>ctx handler p. handler \<in> snd ` set (reg ctx) \<Longrightarrow> io_rel db_evolves (handler p)) \<Longrightarrow>
    scheduler_move db (snd (worker_process c reg job n db))"
| Sched_failed: "scheduler_move db (snd (worker_onFailed c job ts ats am er db))"

lemma scheduler_move_evolves: "scheduler_move db db' \<Longrightarrow> db_evolves db db'"
proof (induction rule: scheduler_move.induct)
  case (Sched_register db c input)
  then show ?case by (rule io_relD [OF evolves_transactional [OF evolves_register]])
next
  case (Sched_cancel_aggregate db t a)
  then show ?case by (rule io_relD [OF evolves_transactional [OF evolves_cancel_by_aggregate]])
next
  case (Sched_reschedule_aggregate db t a n)
  then show ?case by (rule io_relD [OF evolves_transactional [OF evolves_reschedule_by_aggregate]])
next
  case (Sched_cancel db c i ten)
  then show ?case by (rule io_relD [OF evolves_cancel_job])
next
  case (Sched_dispatch_now db c i ten)
  then show ?case by (rule io_relD [OF evolves_dispatch_now])
next
  case (Sched_update db c input ten)
  then show ?case by (rule io_relD [OF evolves_update_job])
next
  case (Sched_tick db c ticking passes)
  then show ?case by (rule io_relD [OF evolves_tick])
next
  case (Sched_reconcile db c)
  then show ?case by (rule io_relD [OF evolves_reconcile])
next
  case (Sched_worker reg db c job n)
  then show ?case by (intro io_relD [OF evolves_worker]) blast
next
  case (Sched_failed db c job ts ats am er)
  then show ?case by (rule io_relD [OF evolves_onFailed])
qed

lemma scheduler_moves_evolve: "scheduler_move\<^sup>*\<^sup>* db db' \<Longrightarrow> db_evolves db db'"
proof (induction rule: rtranclp_induct)
  case (step y z)
  then show ?case using scheduler_move_evolves [of y z] by (auto simp: db_evolves_def intro: jobs_evolve_trans)
qed (simp add: db_evolves_def)

lemma job_after:
  assumes "db_evolves db db'" "jobs_ok (sd_jobs db)" "r \<in> set (sd_jobs db)"
  obtains r' where "jobs_ok (sd_jobs db')" "r' \<in> set (sd_jobs db')" "job_step r r'" "job_findById (jb_id r) (sd_jobs db') = Some r'"
proof -
  from assms obtain r' where "jobs_ok (sd_jobs db')" "r' \<in> set (sd_jobs db')" "job_step r r'"
    by (auto simp: db_evolves_def jobs_evolve_def)
  moreover then have "jb_id r' = jb_id r" by (simp add: job_step_def)
  ultimately show ?thesis using that job_findById_unique [of "sd_jobs db'" r'] by simp
qed

text \<open>
  The table of jobs keeps its invariant under every move of the scheduler: ids are unique, scope and
  tenant, scope and aggregate, and mode and cron expression agree in every row; and no job disappears
  or changes its tenant, type, scope, mode, aggregate or payload.
\<close>
theorem scheduled_jobs_stay_well_formed:
  assumes "scheduler_move\<^sup>*\<^sup>* db db'" "jobs_ok (sd_jobs db)"
  shows "jobs_ok (sd_jobs db') \<and> (\<forall>r \<in> set (sd_jobs db). \<exists>r' \<in> set (sd_jobs db'). job_step r r')"
  using scheduler_moves_evolve [OF assms(1)] assms(2) by (simp add: db_evolves_def jobs_evolve_def)


text \<open>
  The retry count is a lifetime count: no operation ever lowers it, so a job that failed
  \<open>maxRetries - 1\<close> times at any time before is suspended (or already inert) at its next failure, however
  many successful runs lie in between.
\<close>
theorem failures_count_for_ever:
  assumes "scheduler_move\<^sup>*\<^sup>* db db'" "jobs_ok (sd_jobs db)" "r \<in> set (sd_jobs db)" "maxRetries \<le> jb_retryCount r + 1"
  shows "fst (recordFailure now (jb_id r) maxRetries backoff (sd_jobs db')) \<noteq> RETRYING"
proof -
  obtain r' where "job_step r r'" "job_findById (jb_id r) (sd_jobs db') = Some r'"
    using job_after [OF scheduler_moves_evolve [OF assms(1)] assms(2,3)] .
  with assms(4) show ?thesis by (auto simp: recordFailure_def job_step_def)
qed

end
