(* ===== verification/Recurring_Properties.thy ===== *)
theory Recurring_Properties
  imports Recurring_UseCases Scheduler_Properties
begin

text \<open>
  What the recurring component guarantees: an occurrence is requested once, the anchored walk finds the
  next date of the series, and what pausing and resuming does to the schedule of a template.
\<close>

section \<open>Effects on the jobs\<close>

lemma evolves_send_event: "tx_rel db_evolves (send_event e t i ev)"
  by (rule tx_relI) (auto simp: send_event_def tx_then_Inr draw_uuid_def db_evolves_def)

lemma evolves_draw: "tx_rel db_evolves (draw_uuid e)"
  by (rule tx_relI) (auto simp: draw_uuid_def db_evolves_def)

lemma evolves_write_executions: "tx_rel db_evolves (write_executions f)"
  unfolding write_executions_def by (rule atomic.rel_write) (simp add: db_evolves_def)

lemma evolves_claim_execution: "tx_rel db_evolves (execution_claim c input)"
  by (rule tx_relI) (auto simp: execution_claim_def tx_then_Inr draw_uuid_def db_evolves_def Let_def split: if_splits)

lemma evolves_template_update: "tx_rel db_evolves (template_update_row c i p)"
  by (rule tx_relI) (auto simp: template_update_row_def db_evolves_def split: option.splits)

lemma evolves_template_audit: "tx_rel db_evolves (template_audit c a i ch)"
  by (rule tx_relI) (auto simp: template_audit_def audit_record_def audit_write_def db_evolves_def)

lemma evolves_visible_template: "tx_rel db_evolves (visible_template c i ten)"
  unfolding visible_template_def
  by (intro atomic.rel_then atomic.rel_read atomic.rel_case_option atomic.rel_lift atomic.rel_return)

lemmas recurring_rules = atomic.rel_then atomic.rel_return atomic.rel_lift atomic.rel_read atomic.rel_if atomic.rel_case_option
  evolves_visible_template evolves_template_update evolves_template_audit evolves_cancel_by_aggregate
  evolves_reschedule_by_aggregate evolves_write_executions evolves_send_event evolves_draw evolves_claim_execution

lemma evolves_handler_reschedule: "tx_rel db_evolves (handler_reschedule c t)"
  unfolding handler_reschedule_def Let_def prod.case
  by (cases "rt_triggerType t"; cases "rt_frequency t"; cases "rt_interval t") (simp_all add: recurring_rules)

lemma evolves_run_claimed: "tx_rel db_evolves (run_claimed c t ctx x)"
proof (cases "condition_decision c t ctx")
  case (Inl er)
  then show ?thesis unfolding run_claimed_def by (simp add: recurring_rules evolves_handler_reschedule)
next
  case (Inr v)
  then show ?thesis unfolding run_claimed_def
    by (cases v) (simp_all add: recurring_rules evolves_handler_reschedule)
qed

lemma evolves_occurrence: "tx_rel db_evolves (handle_occurrence c t p trigger)"
  unfolding handle_occurrence_def Let_def
  by (cases trigger) (auto intro!: recurring_rules evolves_run_claimed)

lemma evolves_recurring_handle: "tx_rel db_evolves (recurring_handle c p)"
  unfolding recurring_handle_def by (intro recurring_rules evolves_occurrence)

lemma evolves_resume: "tx_rel db_evolves (resume_recurring_template c i m ten)"
proof -
  have "tx_rel db_evolves (case (rt_frequency t, rt_interval t) of
        (Some freq, Some interval) \<Rightarrow>
          if interval = 0 then tx_lift (conflict ''RecurringTemplate is missing TIME trigger fields'')
          else tx_then (tx_lift (nextRunDate c freq interval (rv_now c) (rt_timeZone t) None)) (\<lambda>next_date.
            tx_then (template_update_row c i (no_update\<lparr>tu_status := Some T_ACTIVE, tu_nextRunDate := Some next_date,
              tu_modifiedBy := actor_of (rv_env c) m\<rparr>)) (\<lambda>updated.
            tx_then (reschedule_by_aggregate ''RecurringTemplate'' (rt_id t) next_date) (\<lambda>_.
            tx_then (template_audit c ''recurring.template.resume'' i
              [(''status'', JStr ''ACTIVE''), (''nextRunDate'', JStr (sv_iso (rv_sched c) next_date))]) (\<lambda>_.
            tx_return updated))))
      | _ \<Rightarrow> tx_lift (conflict ''RecurringTemplate is missing TIME trigger fields''))" for t
    by (cases "rt_frequency t"; cases "rt_interval t") (simp_all add: recurring_rules)
  then show ?thesis unfolding resume_recurring_template_def by (intro recurring_rules)
qed

section \<open>Pausing and resuming\<close>

lemma cancelled_by_aggregate:
  assumes "r \<in> set rows" "of_aggregate t a r"
  shows "\<exists>r' \<in> set (job_cancelByAggregate t a rows). jb_id r' = jb_id r \<and> jb_status r' = JOB_CANCELLED"
proof (cases "jb_status r = JOB_CANCELLED")
  case True
  with assms have "r \<in> set (job_cancelByAggregate t a rows)" by (auto simp: job_cancelByAggregate_def set_update_many)
  with True show ?thesis by blast
next
  case False
  with assms have "cancelled_row r \<in> set (job_cancelByAggregate t a rows)"
    unfolding job_cancelByAggregate_def set_update_many by blast
  then show ?thesis by (rule bexI [rotated]) (simp add: cancelled_row_def jb_unlocked_def)
qed

lemma pause_cancels_jobs:
  assumes "pause_recurring_template c i m ten db = Inr (t', db1)"
    and "template_findById i (rd_templates db) = Some t" "rt_triggerType t = TIME"
  shows "sd_jobs db1 = job_cancelByAggregate ''RecurringTemplate'' i (sd_jobs db)"
proof -
  have "rt_id t = i" using assms(2) by (auto simp: template_findById_def find_first_def find_Some_iff)
  with assms show ?thesis
    by (auto simp: pause_recurring_template_def visible_template_def tx_then_Inr cancel_by_aggregate_def template_audit_def
        audit_record_def audit_write_def template_update_row_def split: option.splits)
qed

lemma pause_keeps_trigger:
  assumes "pause_recurring_template c i m ten db = Inr (t', db1)"
    and "template_findById i (rd_templates db) = Some t" "rt_triggerType t = TIME"
    and "template_findById i (rd_templates db1) = Some t1"
  shows "rt_triggerType t1 = TIME"
proof -
  obtain ch where rows: "rd_templates db1 = map_where (\<lambda>q. rt_id q = i) (updated_template (rv_now c) ch) (rd_templates db)"
    using assms(1)
    by (auto simp: pause_recurring_template_def visible_template_def tx_then_Inr cancel_by_aggregate_def template_audit_def
        audit_record_def audit_write_def template_update_row_def split: option.splits if_splits)
  have "template_findById i (map_where (\<lambda>q. rt_id q = i) (updated_template n ch) rows) =
      map_option (updated_template n ch) (template_findById i rows)" for n rows
    unfolding template_findById_def find_first_def
    by (induction rows) (auto simp: map_where_def updated_template_def)
  with rows assms(2-4) show ?thesis by (auto simp: updated_template_def)
qed

lemma resume_time:
  assumes "resume_recurring_template c i m ten db = Inr (t', db')"
    and "template_findById i (rd_templates db) = Some t" "rt_triggerType t = TIME"
  shows "rt_status t' = T_ACTIVE \<and> rt_nextRunDate t' \<noteq> None"
proof -
  from assms obtain freq interval where fields: "rt_frequency t = Some freq" "rt_interval t = Some interval" "interval \<noteq> 0"
    by (cases "rt_frequency t"; cases "rt_interval t")
      (auto simp: resume_recurring_template_def visible_template_def tx_then_Inr split: if_splits)
  with assms obtain next_date ch db1 where "template_update_row c i ch db1 = Inr (t', db')
      \<or> (\<exists>db2. template_update_row c i ch db1 = Inr (t', db2))" "tu_status ch = Some T_ACTIVE" "tu_nextRunDate ch = Some next_date"
    by (force simp: resume_recurring_template_def visible_template_def tx_then_Inr)
  then show ?thesis by (auto simp: template_update_row_def updated_template_def split: option.splits)
qed

text \<open>
  A resumed template never fires again: pausing cancels its job, and resuming sets the template ACTIVE
  with a next run date but reschedules only jobs that are not cancelled; no tick, reconciliation or
  request of the scheduler afterwards claims the job.
\<close>
theorem resumed_template_never_fires:
  assumes "transactional (pause_recurring_template c1 i m1 ten1) db = (Inr t1, db1)"
    and "transactional (resume_recurring_template c2 i m2 ten2) db1 = (Inr t2, db2)"
    and "template_findById i (rd_templates db) = Some t" "rt_triggerType t = TIME"
    and "jobs_ok (sd_jobs db)" "scheduler_move\<^sup>*\<^sup>* db2 db3"
    and "r \<in> set (sd_jobs db)" "of_aggregate ''RecurringTemplate'' i r"
  shows "rt_status t2 = T_ACTIVE \<and> rt_nextRunDate t2 \<noteq> None \<and>
    (\<exists>r' \<in> set (sd_jobs db3). jb_id r' = jb_id r \<and> jb_status r' = JOB_CANCELLED) \<and>
    jb_id r \<notin> jb_id ` set (fst (claimDue c n (sd_jobs db3)))"
proof -
  have pause: "pause_recurring_template c1 i m1 ten1 db = Inr (t1, db1)"
    and resume: "resume_recurring_template c2 i m2 ten2 db1 = Inr (t2, db2)"
    using assms(1,2) by (auto simp: transactional_def split: sum.splits)
  have "sd_jobs db1 = job_cancelByAggregate ''RecurringTemplate'' i (sd_jobs db)"
    by (rule pause_cancels_jobs [OF pause assms(3,4)])
  moreover have "jobs_ok (job_cancelByAggregate ''RecurringTemplate'' i (sd_jobs db))"
    using evolve_cancelByAggregate [of "sd_jobs db"] assms(5) by (simp add: jobs_evolve_def)
  ultimately obtain r1 where r1: "jobs_ok (sd_jobs db1)" "r1 \<in> set (sd_jobs db1)" "jb_id r1 = jb_id r" "jb_status r1 = JOB_CANCELLED"
    using cancelled_by_aggregate [OF assms(7,8)] by metis
  have "db_evolves db1 db2" using tx_relD [OF evolves_resume resume] .
  moreover have "db_evolves db2 db3" by (rule scheduler_moves_evolve [OF assms(6)])
  ultimately have "db_evolves db1 db3" by (auto simp: db_evolves_def intro: jobs_evolve_trans)
  then obtain r3 where r3: "jobs_ok (sd_jobs db3)" "r3 \<in> set (sd_jobs db3)" "job_step r1 r3"
    using job_after [OF _ r1(1,2)] by metis
  then have st: "jb_id r3 = jb_id r" "jb_status r3 = JOB_CANCELLED" using r1(3,4) by (auto simp: job_step_def)
  have fresh: "jb_id q \<noteq> jb_id r" if "q \<in> set (fst (claimDue c n (sd_jobs db3)))" for q
    using claimDue_pending [OF that] unique_job [OF r3(1,2), of q] st by (auto simp: job_due_def)
  have active: "rt_status t2 = T_ACTIVE \<and> rt_nextRunDate t2 \<noteq> None"
  proof -
    obtain t1' where t1': "template_findById i (rd_templates db1) = Some t1'"
      using resume by (auto simp: resume_recurring_template_def visible_template_def tx_then_Inr split: option.splits)
    show ?thesis by (rule resume_time [OF resume t1' pause_keeps_trigger [OF pause assms(3,4) t1']])
  qed
  have "\<exists>r' \<in> set (sd_jobs db3). jb_id r' = jb_id r \<and> jb_status r' = JOB_CANCELLED"
    by (rule bexI [OF _ r3(2)]) (simp add: st)
  moreover have "jb_id r \<notin> jb_id ` set (fst (claimDue c n (sd_jobs db3)))"
  proof
    assume "jb_id r \<in> jb_id ` set (fst (claimDue c n (sd_jobs db3)))"
    then obtain q where "jb_id r = jb_id q" "q \<in> set (fst (claimDue c n (sd_jobs db3)))" by (rule imageE)
    with fresh show False by metis
  qed
  ultimately show ?thesis using active by simp
qed

section \<open>An occurrence is requested once\<close>

definition executions_kept :: "'a recurring_db_scheme \<Rightarrow> 'a recurring_db_scheme \<Rightarrow> bool" where
  "executions_kept db db' \<longleftrightarrow> (\<forall>r \<in> set (rd_executions db). \<exists>r' \<in> set (rd_executions db').
     rx_recurringTemplateId r' = rx_recurringTemplateId r \<and> rx_triggerKey r' = rx_triggerKey r)"

interpretation kept: tx_relation "executions_kept :: 'a recurring_db_scheme \<Rightarrow> 'a recurring_db_scheme \<Rightarrow> bool"
  by (unfold_locales; unfold executions_kept_def; metis)

lemma kept_same: "rd_executions db' = rd_executions db \<Longrightarrow> executions_kept db db'"
  by (auto simp: executions_kept_def)

lemma kept_elsewhere: "(\<And>db x db'. m db = Inr (x, db') \<Longrightarrow> rd_executions db' = rd_executions db) \<Longrightarrow> tx_rel executions_kept m"
  by (rule tx_relI) (blast intro: kept_same)

lemma kept_update:
  assumes "\<And>r. rx_recurringTemplateId (f r) = rx_recurringTemplateId r" "\<And>r. rx_triggerKey (f r) = rx_triggerKey r"
  shows "executions_kept db (db\<lparr>rd_executions := snd (update_many p f (rd_executions db))\<rparr>)"
  unfolding executions_kept_def
proof
  fix r assume "r \<in> set (rd_executions db)"
  then have "(if p r then f r else r) \<in> set (snd (update_many p f (rd_executions db)))" by (simp add: set_update_many)
  then show "\<exists>r' \<in> set (rd_executions (db\<lparr>rd_executions := snd (update_many p f (rd_executions db))\<rparr>)).
      rx_recurringTemplateId r' = rx_recurringTemplateId r \<and> rx_triggerKey r' = rx_triggerKey r"
    using assms by (intro bexI [where x = "if p r then f r else r"]) simp_all
qed

lemma kept_skip: "tx_rel executions_kept (write_executions (execution_skip h i w v))"
  unfolding write_executions_def execution_skip_def by (intro kept.rel_write kept_update) simp_all

lemma kept_fail: "tx_rel executions_kept (write_executions (execution_fail i w))"
  unfolding write_executions_def execution_fail_def by (intro kept.rel_write kept_update) simp_all

lemma kept_complete: "tx_rel executions_kept (write_executions (execution_complete i w))"
  unfolding write_executions_def execution_complete_def by (intro kept.rel_write kept_update) simp_all

lemma kept_claim: "tx_rel executions_kept (execution_claim c input)"
  by (rule tx_relI)
    (auto simp: execution_claim_def tx_then_Inr draw_uuid_def executions_kept_def insert_row_def Let_def split: if_splits)

lemma kept_send: "tx_rel executions_kept (send_event e t i ev)"
  by (rule kept_elsewhere) (auto simp: send_event_def tx_then_Inr draw_uuid_def)

lemma kept_draw: "tx_rel executions_kept (draw_uuid e)"
  by (rule kept_elsewhere) (auto simp: draw_uuid_def)

lemma kept_template_update: "tx_rel executions_kept (template_update_row c i p)"
  by (rule kept_elsewhere) (auto simp: template_update_row_def split: option.splits)

lemma kept_by_aggregate:
  "tx_rel executions_kept (cancel_by_aggregate t a)" "tx_rel executions_kept (reschedule_by_aggregate t a n)"
  by (auto intro!: kept_elsewhere simp: cancel_by_aggregate_def reschedule_by_aggregate_def)

lemmas kept_rules = kept.rel_then kept.rel_return kept.rel_lift kept.rel_read kept.rel_if kept.rel_case_option
  kept_template_update kept_by_aggregate kept_skip kept_fail kept_complete kept_send kept_draw kept_claim

lemma kept_handler_reschedule: "tx_rel executions_kept (handler_reschedule c t)"
  unfolding handler_reschedule_def Let_def prod.case
  by (cases "rt_triggerType t"; cases "rt_frequency t"; cases "rt_interval t") (simp_all add: kept_rules)

lemma kept_run_claimed: "tx_rel executions_kept (run_claimed c t ctx x)"
proof (cases "condition_decision c t ctx")
  case (Inl er)
  then show ?thesis unfolding run_claimed_def by (simp add: kept_rules kept_handler_reschedule)
next
  case (Inr v)
  then show ?thesis unfolding run_claimed_def by (cases v) (simp_all add: kept_rules kept_handler_reschedule)
qed

text \<open>The two halves of \<open>handle_occurrence\<close>: the claim and what follows it.\<close>

definition occurrence_claim :: "recurring_template \<Rightarrow> fire_payload \<Rightarrow> int option \<times> string \<Rightarrow> claim_input" where
  "occurrence_claim t p trigger = \<lparr>ci_tenantId = coalesce_opt (rt_tenantId t) (fp_tenantId p), ci_recurringTemplateId = rt_id t,
     ci_scheduleJobId = fp_jobId p, ci_runDate = fst trigger,
     ci_sourceEventId = (if fp_jobId p \<noteq> None then None else fp_sourceEventId p), ci_triggerKey = snd trigger,
     ci_generatedDocumentType = rt_targetEntityType t\<rparr>"

definition after_claim ::
  "recurring_call \<Rightarrow> recurring_template \<Rightarrow> fire_payload \<Rightarrow> string \<Rightarrow> string \<Rightarrow> recurring_execution option \<Rightarrow>
   (unit, 'a recurring_db_scheme) tx" where
  "after_claim c t p key traceId x = (case x of
       None \<Rightarrow> if rv_aborts c then tx_lift (throw_plain ''current transaction is aborted'') else tx_return ()
     | Some x \<Rightarrow> run_claimed c t \<lparr>rc_tenantId = coalesce_opt (rt_tenantId t) (fp_tenantId p), rc_recurringTemplateId = rt_id t,
         rc_triggerKey = key, rc_traceId = traceId, rc_executionId = Some (rx_id x), rc_autoPost = rt_autoPost t,
         rc_eventPayload = (if fp_jobId p \<noteq> None then None else fp_eventPayload p)\<rparr> (rx_id x))"

lemma handle_occurrence_split: "handle_occurrence c t p trigger = tx_then (draw_uuid (rv_env c)) (\<lambda>traceId.
     tx_then (execution_claim c (occurrence_claim t p trigger)) (after_claim c t p (snd trigger) traceId))"
  by (cases trigger) (simp add: handle_occurrence_def occurrence_claim_def after_claim_def [abs_def] Let_def)

lemma kept_after_claim: "tx_rel executions_kept (after_claim c t p key traceId x)"
  unfolding after_claim_def by (intro kept_rules kept_run_claimed)

lemma kept_handle: "tx_rel executions_kept (recurring_handle c p)"
  unfolding recurring_handle_def handle_occurrence_split by (intro kept_rules kept_after_claim)

text \<open>Runs of the handler, reports of the consumers, the sweep, and any step that does not touch the executions.\<close>

inductive recurring_move :: "'a recurring_db_scheme \<Rightarrow> 'a recurring_db_scheme \<Rightarrow> bool" where
  Rec_handle: "recurring_move db (snd (transactional (recurring_handle c p) db))"
| Rec_complete: "recurring_move db (snd (transactional (complete_occurrence i input) db))"
| Rec_fail: "recurring_move db (snd (transactional (fail_occurrence i w) db))"
| Rec_sweep: "recurring_move db (snd (sweep_stale_executions c db))"
| Rec_other: "rd_executions db' = rd_executions db \<Longrightarrow> recurring_move db db'"

lemma recurring_move_kept: "recurring_move db db' \<Longrightarrow> executions_kept db db'"
proof (induction rule: recurring_move.induct)
  case (Rec_handle db c p)
  then show ?case by (rule kept.rel_transactional [OF kept_handle])
next
  case (Rec_complete db i input)
  then show ?case unfolding complete_occurrence_def by (rule kept.rel_transactional [OF kept_complete])
next
  case (Rec_fail db i w)
  then show ?case unfolding fail_occurrence_def by (rule kept.rel_transactional [OF kept_fail])
next
  case (Rec_sweep db c)
  have "executions_kept db (db\<lparr>rd_executions := snd (update_many p
      (\<lambda>r. r\<lparr>rx_status := E_FAILED, rx_errorMessage := Some ''Consumer did not complete execution in time''\<rparr>) (rd_executions db))\<rparr>)" for p
    by (rule kept_update) simp_all
  then have "executions_kept db (db\<lparr>rd_executions := snd (failStale n l (rd_executions db))\<rparr>)" for n l
    by (simp add: failStale_def Let_def kept_same)
  then show ?case by (simp add: sweep_stale_executions_def io_step_def Let_def split_beta)
next
  case (Rec_other db' db)
  then show ?case by (rule kept_same)
qed

lemma recurring_moves_kept: "recurring_move\<^sup>*\<^sup>* db db' \<Longrightarrow> executions_kept db db'"
  by (induction rule: rtranclp_induct) (auto intro: kept_same kept.R_trans recurring_move_kept)

text \<open>After a run that went through, the occurrence has its execution.\<close>

lemma handled_occurrence_has_execution:
  assumes "recurring_handle c p db = Inr (u, db1)" "template_findById (the (fp_aggregateId p)) (rd_templates db) = Some t"
    and "trigger_of c t p = Inr (d, key)"
  shows "\<exists>r \<in> set (rd_executions db1). rx_recurringTemplateId r = rt_id t \<and> rx_triggerKey r = key"
proof -
  from assms obtain db0 where run: "handle_occurrence c t p (d, key) db0 = Inr (u, db1)"
    by (auto simp: recurring_handle_def tx_then_Inr split: if_splits)
  then obtain traceId db2 where "tx_then (execution_claim c (occurrence_claim t p (d, key))) (after_claim c t p key traceId) db2 = Inr (u, db1)"
    unfolding handle_occurrence_split tx_then_Inr snd_conv by blast
  then obtain x db3 where claim: "execution_claim c (occurrence_claim t p (d, key)) db2 = Inr (x, db3)"
    and rest: "after_claim c t p key traceId x db3 = Inr (u, db1)"
    unfolding tx_then_Inr by blast
  have "\<exists>r \<in> set (rd_executions db3). rx_recurringTemplateId r = rt_id t \<and> rx_triggerKey r = key"
    using claim by (auto simp: execution_claim_def occurrence_claim_def tx_then_Inr draw_uuid_def insert_row_def Let_def split: if_splits)
  with tx_relD [OF kept_after_claim rest] show ?thesis unfolding executions_kept_def by metis
qed

lemma claimed_occurrence_is_inert:
  assumes "template_findById (the (fp_aggregateId p)) (rd_templates db) = Some t" "trigger_of c t p = Inr (d, key)"
    and "\<exists>r \<in> set (rd_executions db). rx_recurringTemplateId r = rt_id t \<and> rx_triggerKey r = key"
  shows "let db' = snd (transactional (recurring_handle c p) db)
    in pf_outbox db' = pf_outbox db \<and> rd_executions db' = rd_executions db \<and> rd_templates db' = rd_templates db \<and> sd_jobs db' = sd_jobs db"
proof (cases "recurring_handle c p db")
  case (Inr r)
  then obtain u db1 where run: "recurring_handle c p db = Inr (u, db1)" by (cases r) auto
  with assms(1,2) have "handle_occurrence c t p (d, key) db = Inr (u, db1)"
    by (auto simp: recurring_handle_def tx_then_Inr split: if_splits)
  then obtain traceId db2 where draw: "draw_uuid (rv_env c) db = Inr (traceId, db2)"
    and rest: "tx_then (execution_claim c (occurrence_claim t p (d, key))) (after_claim c t p key traceId) db2 = Inr (u, db1)"
    unfolding handle_occurrence_split tx_then_Inr snd_conv by blast
  from draw have db2: "db2 = db\<lparr>pf_drawn := pf_drawn db + 1\<rparr>" by (simp add: draw_uuid_def)
  have "execution_claim c (occurrence_claim t p (d, key)) db2 = Inr (None, db2\<lparr>pf_drawn := pf_drawn db2 + 1\<rparr>)"
    using assms(3) by (auto simp: execution_claim_def occurrence_claim_def draw_uuid_def db2 tx_then_def)
  with rest have "db1 = db2\<lparr>pf_drawn := pf_drawn db2 + 1\<rparr>"
    by (auto simp: tx_then_Inr after_claim_def split: if_splits)
  with run show ?thesis by (simp add: transactional_def db2)
qed (simp add: transactional_def)

text \<open>
  C10. An occurrence is requested at most once: after the handler has run for a template and a trigger key
  (a run date or an event), no later run for the same key, whatever happened in between, appends to the
  outbox or changes templates, executions or jobs.
\<close>
theorem occurrence_requested_once:
  assumes "transactional (recurring_handle c p) db = (Inr (), db1)"
    and "template_findById (the (fp_aggregateId p)) (rd_templates db) = Some t" "trigger_of c t p = Inr (d, key)"
    and "recurring_move\<^sup>*\<^sup>* db1 db2"
    and "template_findById (the (fp_aggregateId q)) (rd_templates db2) = Some t2" "rt_id t2 = rt_id t"
    and "trigger_of c' t2 q = Inr (d', key)"
  shows "let db3 = snd (transactional (recurring_handle c' q) db2)
    in pf_outbox db3 = pf_outbox db2 \<and> rd_executions db3 = rd_executions db2 \<and> rd_templates db3 = rd_templates db2 \<and>
       sd_jobs db3 = sd_jobs db2"
proof (rule claimed_occurrence_is_inert [OF assms(5,7)])
  have "recurring_handle c p db = Inr ((), db1)" using assms(1) by (auto simp: transactional_def split: sum.splits)
  from handled_occurrence_has_execution [OF this assms(2,3)] recurring_moves_kept [OF assms(4)]
  show "\<exists>r \<in> set (rd_executions db2). rx_recurringTemplateId r = rt_id t2 \<and> rx_triggerKey r = key"
    unfolding executions_kept_def assms(6) by metis
qed

section \<open>The anchored walk\<close>

lemma anchor_walk_finds:
  assumes "\<And>k. 1 \<le> k \<Longrightarrow> \<exists>d. rv_add c tz a (k * interval) u = Inr d \<and> a + k * 86400000 \<le> d"
    and "1 \<le> step" "from_date < a + (step + int left) * 86400000"
  shows "\<exists>k d. step \<le> k \<and> k \<le> step + int left \<and> anchor_walk c tz a interval u from_date (Suc left) step = Inr d \<and>
    rv_add c tz a (k * interval) u = Inr d \<and> from_date < d \<and>
    (\<forall>j d'. step \<le> j \<and> j < k \<and> rv_add c tz a (j * interval) u = Inr d' \<longrightarrow> d' \<le> from_date)"
  using assms(2,3)
proof (induction left arbitrary: step)
  case 0
  obtain d where d: "rv_add c tz a (step * interval) u = Inr d" "a + step * 86400000 \<le> d" using assms(1) [OF 0(1)] by blast
  with 0 have "anchor_walk c tz a interval u from_date (Suc 0) step = Inr d" by simp
  with d 0 show ?case by (intro exI [of _ step] exI [of _ d]) auto
next
  case (Suc left)
  obtain d where d: "rv_add c tz a (step * interval) u = Inr d" "a + step * 86400000 \<le> d" using assms(1) [OF Suc(2)] by blast
  show ?case
  proof (cases "from_date < d")
    case True
    with d have "anchor_walk c tz a interval u from_date (Suc (Suc left)) step = Inr d" by simp
    with d True show ?thesis by (intro exI [of _ step] exI [of _ d]) auto
  next
    case False
    have walk: "anchor_walk c tz a interval u from_date (Suc (Suc left)) step = anchor_walk c tz a interval u from_date (Suc left) (step + 1)"
      using d(1) False by simp
    have "from_date < a + (step + 1 + int left) * 86400000" using Suc(3) by (simp add: algebra_simps)
    with Suc.IH [of "step + 1"] Suc(2) obtain k e where k: "step + 1 \<le> k" "k \<le> step + 1 + int left"
      "anchor_walk c tz a interval u from_date (Suc left) (step + 1) = Inr e" "rv_add c tz a (k * interval) u = Inr e" "from_date < e"
      "\<And>j d'. step + 1 \<le> j \<Longrightarrow> j < k \<Longrightarrow> rv_add c tz a (j * interval) u = Inr d' \<Longrightarrow> d' \<le> from_date" by force
    have "d' \<le> from_date" if "step \<le> j" "j < k" "rv_add c tz a (j * interval) u = Inr d'" for j d'
      using that k(6) [of j d'] d(1) False by (cases "j = step") auto
    with k walk show ?thesis by (intro exI [of _ k] exI [of _ e]) auto
  qed
qed

text \<open>
  C13. The anchored walk of a monthly or yearly series ends: when \<open>k\<close> intervals of the calendar last at
  least \<open>k\<close> days and the date walked from is less than 10000 days after the anchor, the 10000 steps are
  enough, and the result is the first date of the series after that date.
\<close>
theorem anchored_walk_ends:
  assumes "\<And>k. 1 \<le> k \<Longrightarrow> \<exists>d. rv_add c tz a (k * interval) (UNIT_BY_FREQUENCY freq) = Inr d \<and> a + k * 86400000 \<le> d"
    and "freq = MONTHLY \<or> freq = YEARLY" "0 < interval" "from_date < a + 10000 * 86400000"
  shows "\<exists>k d. 1 \<le> k \<and> k \<le> 10000 \<and> nextRunDate c freq interval from_date tz (Some a) = Inr d \<and>
    rv_add c tz a (k * interval) (UNIT_BY_FREQUENCY freq) = Inr d \<and> from_date < d \<and>
    (\<forall>j d'. 1 \<le> j \<and> j < k \<and> rv_add c tz a (j * interval) (UNIT_BY_FREQUENCY freq) = Inr d' \<longrightarrow> d' \<le> from_date)"
proof -
  have "nextRunDate c freq interval from_date tz (Some a) =
      anchor_walk c tz a interval (UNIT_BY_FREQUENCY freq) from_date (Suc 9999) 1"
    using assms(2,3) unfolding nextRunDate_def MAX_ANCHOR_STEPS_def by (simp del: anchor_walk.simps)
  with anchor_walk_finds [OF assms(1), of 1 from_date 9999] assms(4) show ?thesis by simp
qed

end
