(* ===== verification/Scheduler_Examples.thy ===== *)
theory Scheduler_Examples
  imports Scheduler_Properties
begin

text \<open>
  The dispatch of a due job on today's schema, and runs of the scheduler on a concrete table.
\<close>

section \<open>Dispatching a due job\<close>

lemma long_digest_is_no_uuid: "length s = 64 \<Longrightarrow> CHR ''-'' \<notin> set s \<Longrightarrow> \<not> uuid_text s"
proof -
  assume s: "length s = 64" "CHR ''-'' \<notin> set s"
  then have "filter (\<lambda>ch. ch \<noteq> CHR ''-'') s = s" by (intro filter_True) auto
  with s(1) show ?thesis by (simp add: uuid_text_def Let_def)
qed

lemma acquire_free_lock:
  assumes "redis_live now rd (KEY_PREFIX @ lock_key (lr_identity rq)) = None"
    and "\<forall>s. redis_live now rd (FENCE_PREFIX @ lock_key (lr_identity rq)) \<noteq> Some (Text s)"
  shows "\<exists>ticket rd'. acquire_lock R_READY now now cfg rq owner i rd = (Inr (LOCK_ACQUIRED ticket), rd')"
proof -
  let ?k = "lock_key (lr_identity rq)" and ?l = "lease_ms cfg (lr_leaseMs rq)"
  let ?rd1 = "redis_set (KEY_PREFIX @ ?k) owner (Some (now + ?l)) rd"
  have take: "redis_acquire R_READY now ?k owner ?l rd = (Inr True, ?rd1)"
    using assms(1) by (simp add: redis_acquire_def)
  have "FENCE_PREFIX @ ?k \<noteq> KEY_PREFIX @ ?k" by (simp add: KEY_PREFIX_def FENCE_PREFIX_def)
  then have "redis_live now ?rd1 (FENCE_PREFIX @ ?k) = redis_live now rd (FENCE_PREFIX @ ?k)"
    by (simp add: redis_set_def)
  with assms(2) obtain n rd2 where "redis_incr now (FENCE_PREFIX @ ?k) ?rd1 = (Inr n, rd2)"
    by (cases "redis_live now rd (FENCE_PREFIX @ ?k)"; cases "the (redis_live now rd (FENCE_PREFIX @ ?k))")
      (auto simp: redis_incr_def)
  then show ?thesis
    by (simp add: acquire_lock_def io_then_def take lock_ticket_for_def nextFencingToken_def)
qed

text \<open>
  C12. Every dispatch counts as a failure: the log is written with the SHA-256 text as id, which the UUID
  column refuses, so after the job was handed to the queue the catch block raises its retry count and
  backs it off (or suspends it), although nothing failed.
\<close>
theorem every_dispatch_counts_as_failure:
  assumes "\<And>s. length (sv_sha256 c s) = 64" "\<And>s. CHR ''-'' \<notin> set (sv_sha256 c s)"
    and "sv_queue c (queued_of c job) = Q_ACCEPTED" "sv_redis c = R_READY"
    and "redis_live (sv_now c) (sd_redis db) (KEY_PREFIX @ lock_key (lr_identity (job_lock c job))) = None"
    and "\<forall>s. redis_live (sv_now c) (sd_redis db) (FENCE_PREFIX @ lock_key (lr_identity (job_lock c job))) \<noteq> Some (Text s)"
    and "jobs_ok (sd_jobs db)" "r \<in> set (sd_jobs db)" "jb_id r = jb_id job" "jb_status r = JOB_CLAIMED"
  shows "\<exists>db'. dispatchOne c job db = (Inr True, db') \<and> queued_of c job \<in> set (sd_queue db') \<and>
    (\<exists>r' \<in> set (sd_jobs db'). jb_id r' = jb_id job \<and> jb_retryCount r' = jb_retryCount r + 1 \<and>
       jb_status r' = (if jb_retryCount r + 1 \<ge> sf_maxRetries (sv_config c) then JOB_SUSPENDED else JOB_PENDING))"
proof -
  obtain ticket rd' where lock: "acquire_lock (sv_redis c) (sv_now c) (sv_now c) (sv_lock_config c) (job_lock c job)
      (fst (sv_token c (jb_id job))) (snd (sv_token c (jb_id job))) (sd_redis db) = (Inr (LOCK_ACQUIRED ticket), rd')"
    using acquire_free_lock [OF assms(5,6)] assms(4) by metis
  have no_uuid: "\<not> uuid_text (dl_id (dispatch_row c job))"
    by (simp add: dispatch_row_def Let_def deriveIdempotencyKey_def long_digest_is_no_uuid assms(1,2))
  let ?db1 = "db\<lparr>sd_redis := rd', sd_queue := sd_queue db @ [queued_of c job]\<rparr>"
  obtain er where tried: "dispatch_try c job (db\<lparr>sd_redis := rd'\<rparr>) = (Inl er, ?db1)"
    by (simp add: dispatch_try_def enqueue_def assms(3) io_then_def log_insert_def no_uuid)
  define db2 where "db2 = snd (dispatch_failed c job er ?db1)"
  have failed: "dispatch_failed c job er ?db1 = (Inr (), db2)"
    by (simp add: db2_def dispatch_failed_def write_jobs_def)
  have "job_findById (jb_id job) (sd_jobs db) = Some r"
    using job_findById_unique [OF assms(7,8)] assms(9) by simp
  then have jobs: "sd_jobs db2 = map_where (\<lambda>q. jb_id q = jb_id job)
      (\<lambda>_. failed_job (sv_now c) (sf_maxRetries (sv_config c)) (sf_retryBackoffBaseMs (sv_config c)) r) (sd_jobs db)"
    and queue: "sd_queue db2 = sd_queue db @ [queued_of c job]"
    using assms(10) by (simp_all add: db2_def dispatch_failed_def write_jobs_def recordFailure_def)
  let ?db' = "db2\<lparr>sd_redis := release_lock (sv_redis c) (sv_now c) ticket (sd_redis db2)\<rparr>"
  have "dispatchOne c job db = (Inr True, ?db')"
    by (simp add: dispatchOne_def io_then_def on_redis_def lock io_catch_def tried failed)
  moreover have "failed_job (sv_now c) (sf_maxRetries (sv_config c)) (sf_retryBackoffBaseMs (sv_config c)) r \<in> set (sd_jobs ?db')"
    using assms(8,9) by (auto simp: jobs set_map_where image_iff)
  moreover have "jb_id (failed_job n m b r) = jb_id job" for n m b
    using assms(9) by (simp add: failed_job_def Let_def jb_unlocked_def)
  ultimately show ?thesis
    by (intro exI [of _ ?db'] conjI bexI [of _ "failed_job (sv_now c) (sf_maxRetries (sv_config c)) (sf_retryBackoffBaseMs (sv_config c)) r"])
      (simp_all add: queue failed_job_def Let_def)
qed

section \<open>Examples\<close>

definition demo_env :: "int \<Rightarrow> env" where
  "demo_env now = \<lparr>e_ctx = emptyContext, e_now = now, e_uuid = nat_to_string, e_abac = noop_abac, e_vendor = (\<lambda>_. None),
     e_product = (\<lambda>_. None), e_stringify = (\<lambda>_. []), e_to_numeric = (\<lambda>_. None)\<rparr>"

definition demo_sched_call :: "int \<Rightarrow> scheduler_call" where
  "demo_sched_call now = \<lparr>sv_env = demo_env now,
     sv_host = \<lparr>h_inherited = (\<lambda>v k. VUndef), h_number = (\<lambda>v. NaN), h_stored = (\<lambda>n. None), h_same = (\<lambda>v w. False)\<rparr>,
     sv_config = \<lparr>sf_batchSize = 20, sf_lockTtlMs = 300000, sf_jobAttempts = 3, sf_maxRetries = 5, sf_retryBackoffBaseMs = 60000\<rparr>,
     sv_redis = R_READY, sv_lock_config = \<lparr>lc_defaultLeaseMs = 30000, lc_minLeaseMs = 1000, lc_maxLeaseMs = 600000\<rparr>,
     sv_rowLocked = (\<lambda>_. False), sv_lockedBy = ''w1'', sv_token = (\<lambda>i. (i, i)), sv_cron = (\<lambda>_ t. Inr (t + 60000)),
     sv_iso = (\<lambda>t. nat_to_string (nat t)), sv_sha256 = (\<lambda>s. replicate 64 (CHR ''a'')), sv_queue = (\<lambda>_. Q_ACCEPTED),
     sv_publish = (\<lambda>_. Inr ())\<rparr>"

definition demo_job :: "job_status \<Rightarrow> int \<Rightarrow> scheduled_job" where
  "demo_job st n = \<lparr>jb_id = ''j1'', jb_tenantId = Some ''T'', jb_jobType = ''Recurring'', jb_scope = AGGREGATE,
     jb_scheduleMode = EXTERNAL, jb_cronExpression = None, jb_aggregateType = Some ''RecurringTemplate'',
     jb_aggregateId = Some ''t1'', jb_payload = VNull, jb_nextRunAt = 0, jb_lastRunAt = None, jb_status = st,
     jb_retryCount = n, jb_version = 0, jb_lockedUntil = None, jb_lockedBy = None\<rparr>"

definition demo_sched_db :: "job_status \<Rightarrow> int \<Rightarrow> scheduler_db" where
  "demo_sched_db st n = \<lparr>pf_outbox = [], pf_audit = [], pf_sequences = [], pf_drawn = 0, sd_jobs = [demo_job st n], sd_logs = [],
     sd_edits = [], sd_queue = [], sd_published = [], sd_redis = (\<lambda>_. None), sd_lastTick = None\<rparr>"

lemma demo_sched_simps [simp]:
  "sd_jobs (demo_sched_db st n) = [demo_job st n]" "sd_redis (demo_sched_db st n) = (\<lambda>_. None)"
  "jb_id (demo_job st n) = ''j1''" "jb_status (demo_job st n) = st" "jb_retryCount (demo_job st n) = n"
  "jobs_ok [demo_job st n]"
  by (simp_all add: demo_sched_db_def demo_job_def jobs_ok_def job_wf_def)

theorem every_dispatch_counts_as_failure_witness:
  "\<exists>db'. dispatchOne (demo_sched_call 10) (demo_job JOB_PENDING 4) (demo_sched_db JOB_CLAIMED 4) = (Inr True, db') \<and>
     (\<exists>r' \<in> set (sd_jobs db'). jb_id r' = ''j1'' \<and> jb_status r' = JOB_SUSPENDED)"
proof -
  have "\<exists>db'. dispatchOne (demo_sched_call 10) (demo_job JOB_PENDING 4) (demo_sched_db JOB_CLAIMED 4) = (Inr True, db') \<and>
      queued_of (demo_sched_call 10) (demo_job JOB_PENDING 4) \<in> set (sd_queue db') \<and>
      (\<exists>r' \<in> set (sd_jobs db'). jb_id r' = jb_id (demo_job JOB_PENDING 4) \<and>
        jb_retryCount r' = jb_retryCount (demo_job JOB_CLAIMED 4) + 1 \<and>
        jb_status r' = (if jb_retryCount (demo_job JOB_CLAIMED 4) + 1 \<ge> sf_maxRetries (sv_config (demo_sched_call 10))
          then JOB_SUSPENDED else JOB_PENDING))"
    by (rule every_dispatch_counts_as_failure) (simp_all add: demo_sched_call_def redis_live_def)
  then show ?thesis by (auto simp: demo_sched_call_def)
qed


theorem failures_count_for_ever_witness:
  "fst (recordFailure 99 ''j1'' 5 60000 (sd_jobs (snd (reconcileOnce (demo_sched_call 10) (demo_sched_db JOB_PENDING 4))))) \<noteq> RETRYING"
proof -
  let ?db0 = "demo_sched_db JOB_PENDING 4"
  have "scheduler_move\<^sup>*\<^sup>* ?db0 (snd (reconcileOnce (demo_sched_call 10) ?db0))" by (intro r_into_rtranclp Sched_reconcile)
  from failures_count_for_ever [OF this, of "demo_job JOB_PENDING 4" 5] show ?thesis by simp
qed

theorem scheduled_jobs_stay_well_formed_witness:
  "jobs_ok (sd_jobs (snd (ticker_tick (demo_sched_call 10) False 3 (demo_sched_db JOB_PENDING 0))))"
proof -
  let ?db0 = "demo_sched_db JOB_PENDING 0"
  have "scheduler_move\<^sup>*\<^sup>* ?db0 (snd (ticker_tick (demo_sched_call 10) False 3 ?db0))" by (intro r_into_rtranclp Sched_tick)
  from scheduled_jobs_stay_well_formed [OF this] show ?thesis by simp
qed

end
