(* ===== verification/Recurring_Examples.thy ===== *)
theory Recurring_Examples
  imports Recurring_Properties Scheduler_Examples
begin

text \<open>
  Runs of the recurring component on a concrete monthly template: pausing and resuming it, generating an
  occurrence twice, and the anchored walk over months of thirty days.
\<close>

definition demo_add :: "string \<Rightarrow> int \<Rightarrow> int \<Rightarrow> calendar_unit \<Rightarrow> int result" where
  "demo_add tz d n u = Inr (d + n * 86400000 * (case u of U_DAY \<Rightarrow> 1 | U_WEEK \<Rightarrow> 7 | U_MONTH \<Rightarrow> 30 | U_YEAR \<Rightarrow> 365))"

definition demo_rec_call :: "int \<Rightarrow> recurring_call" where
  "demo_rec_call now = \<lparr>rv_sched = demo_sched_call now, rv_resolvers = [], rv_add = demo_add, rv_aborts = False\<rparr>"

definition demo_template :: recurring_template where
  "demo_template = \<lparr>rt_id = ''t1'', rt_tenantId = Some ''T'', rt_templateNo = ''R-1'', rt_name = ''rent'', rt_status = T_ACTIVE,
     rt_targetEntityType = ''Bill'', rt_targetEntityId = None, rt_originDocumentType = None, rt_originDocumentId = None,
     rt_partyId = None, rt_partyType = None, rt_currency = ''EUR'', rt_triggerType = TIME, rt_eventName = None,
     rt_frequency = Some MONTHLY, rt_interval = Some 1, rt_startDate = Some 0, rt_endDate = None, rt_nextRunDate = Some 0,
     rt_lastRunDate = None, rt_timeZone = ''UTC'', rt_autoPost = False, rt_autoEmail = False, rt_autoApprove = False,
     rt_headerOverrides = None, rt_generationCondition = VNull, rt_lines = [JNull], rt_isDeleted = False,
     rt_createdBy = None, rt_modifiedBy = None, rt_modifiedAt = None\<rparr>"

definition demo_rec_db :: recurring_db where
  "demo_rec_db = \<lparr>pf_outbox = [], pf_audit = [], pf_sequences = [], pf_drawn = 0, sd_jobs = [demo_job JOB_PENDING 0], sd_logs = [],
     sd_edits = [], sd_queue = [], sd_published = [], sd_redis = (\<lambda>_. None), sd_lastTick = None,
     rd_templates = [demo_template], rd_executions = []\<rparr>"

definition demo_fire :: fire_payload where
  "demo_fire = \<lparr>fp_jobId = Some ''j1'', fp_tenantId = Some ''T'', fp_jobType = ''Recurring'', fp_scope = Some AGGREGATE,
     fp_aggregateType = Some ''RecurringTemplate'', fp_aggregateId = Some ''t1'', fp_payload = VNull, fp_attempt = Some 1,
     fp_sourceEventId = None, fp_eventPayload = None, fp_idempotencyKey = Some ''k''\<rparr>"

lemma demo_rec_simps [simp]:
  "sd_jobs demo_rec_db = [demo_job JOB_PENDING 0]" "rd_templates demo_rec_db = [demo_template]" "rd_executions demo_rec_db = []"
  "rt_id demo_template = ''t1''" "rt_triggerType demo_template = TIME" "rt_isDeleted demo_template = False"
  "rt_frequency demo_template = Some MONTHLY" "rt_interval demo_template = Some 1" "rt_status demo_template = T_ACTIVE"
  "rt_tenantId demo_template = Some ''T''" "rt_nextRunDate demo_template = Some 0" "rt_startDate demo_template = Some 0"
  "rt_endDate demo_template = None" "rt_generationCondition demo_template = VNull" "rt_timeZone demo_template = ''UTC''"
  "template_findById ''t1'' [demo_template] = Some demo_template"
  by (simp_all add: demo_rec_db_def demo_template_def template_findById_def find_first_def)

theorem anchored_walk_ends_witness:
  "\<exists>d. nextRunDate (demo_rec_call 0) MONTHLY 1 (9000 * 86400000) ''UTC'' (Some 0) = Inr d \<and> 9000 * 86400000 < d"
proof -
  have "\<exists>k d. 1 \<le> k \<and> k \<le> 10000 \<and> nextRunDate (demo_rec_call 0) MONTHLY 1 (9000 * 86400000) ''UTC'' (Some 0) = Inr d \<and>
      rv_add (demo_rec_call 0) ''UTC'' 0 (k * 1) (UNIT_BY_FREQUENCY MONTHLY) = Inr d \<and> 9000 * 86400000 < d \<and>
      (\<forall>j d'. 1 \<le> j \<and> j < k \<and> rv_add (demo_rec_call 0) ''UTC'' 0 (j * 1) (UNIT_BY_FREQUENCY MONTHLY) = Inr d' \<longrightarrow>
        d' \<le> 9000 * 86400000)"
    by (rule anchored_walk_ends) (simp_all add: demo_rec_call_def demo_add_def UNIT_BY_FREQUENCY_def)
  then show ?thesis by blast
qed

text \<open>Pausing and resuming the template.\<close>

lemma demo_call_simps [simp]:
  "rv_sched (demo_rec_call n) = demo_sched_call n" "e_now (sv_env (demo_sched_call n)) = n" "rv_add (demo_rec_call n) = demo_add"
  "rv_aborts (demo_rec_call n) = False" "e_ctx (sv_env (demo_sched_call n)) = emptyContext"
  "ctx_tenantId emptyContext = None" "ctx_userId emptyContext = None"
  by (simp_all add: demo_rec_call_def demo_sched_call_def demo_env_def emptyContext_def)

lemmas tx_run = transactional_def tx_then_def tx_read_def tx_lift_def tx_write_def tx_return_def

lemma demo_visible: "template_findById ''t1'' (rd_templates db) = Some t \<Longrightarrow> rt_tenantId t = Some ''T'' \<Longrightarrow>
   visible_template (demo_rec_call n) ''t1'' (Some ''T'') db = Inr (t, db)"
  by (simp add: visible_template_def assertVisible_def check_def coalesce_opt_def tx_then_def tx_read_def tx_lift_def tx_return_def)

lemma demo_pause_resume:
  "\<exists>t1 db1 t2 db2. transactional (pause_recurring_template (demo_rec_call 5) ''t1'' None (Some ''T'')) demo_rec_db = (Inr t1, db1) \<and>
     transactional (resume_recurring_template (demo_rec_call 9) ''t1'' None (Some ''T'')) db1 = (Inr t2, db2)"
proof -
  let ?p = "no_update\<lparr>tu_status := Some T_PAUSED, tu_modifiedBy := actor_of (rv_env (demo_rec_call 5)) None\<rparr>"
  let ?t = "updated_template 5 ?p demo_template"
  obtain db1 where p: "pause_recurring_template (demo_rec_call 5) ''t1'' None (Some ''T'') demo_rec_db = Inr (?t, db1)"
    and db1: "rd_templates db1 = [?t]"
    by (simp add: pause_recurring_template_def demo_visible tx_then_def tx_write_def cancel_by_aggregate_def template_audit_def
        audit_record_def audit_write_def template_update_row_def find_first_def map_where_def)
  have found: "template_findById ''t1'' (rd_templates db1) = Some ?t"
    by (simp add: db1 template_findById_def find_first_def updated_template_def)
  have "\<exists>t2 db2. resume_recurring_template (demo_rec_call 9) ''t1'' None (Some ''T'') db1 = Inr (t2, db2)"
    by (simp add: resume_recurring_template_def demo_visible [OF found] updated_template_def tx_then_def tx_lift_def tx_write_def tx_return_def
        reschedule_by_aggregate_def template_audit_def audit_record_def audit_write_def template_update_row_def db1 find_first_def
        nextRunDate_def demo_add_def)
  with p show ?thesis by (auto simp: transactional_def)
qed

theorem resumed_template_never_fires_witness:
  "\<exists>t2 db2. rt_status t2 = T_ACTIVE \<and> transactional (resume_recurring_template (demo_rec_call 9) ''t1'' None (Some ''T''))
      (snd (transactional (pause_recurring_template (demo_rec_call 5) ''t1'' None (Some ''T'')) demo_rec_db)) = (Inr t2, db2) \<and>
     ''j1'' \<notin> jb_id ` set (fst (claimDue (demo_sched_call 99999999999) 5 (sd_jobs db2)))"
proof -
  obtain t1 db1 t2 db2 where
    p: "transactional (pause_recurring_template (demo_rec_call 5) ''t1'' None (Some ''T'')) demo_rec_db = (Inr t1, db1)" and
    q: "transactional (resume_recurring_template (demo_rec_call 9) ''t1'' None (Some ''T'')) db1 = (Inr t2, db2)"
    using demo_pause_resume by blast
  have "rt_status t2 = T_ACTIVE \<and> rt_nextRunDate t2 \<noteq> None \<and>
      (\<exists>r' \<in> set (sd_jobs db2). jb_id r' = jb_id (demo_job JOB_PENDING 0) \<and> jb_status r' = JOB_CANCELLED) \<and>
      jb_id (demo_job JOB_PENDING 0) \<notin> jb_id ` set (fst (claimDue (demo_sched_call 99999999999) 5 (sd_jobs db2)))"
    by (rule resumed_template_never_fires [OF p q])
      (simp_all add: of_aggregate_def, simp_all add: demo_job_def)
  then show ?thesis using q by (auto simp: p)
qed

text \<open>An event fires the same template twice.\<close>

definition demo_event_db :: recurring_db where
  "demo_event_db = demo_rec_db\<lparr>rd_templates := [demo_template\<lparr>rt_triggerType := EVENT\<rparr>]\<rparr>"

definition demo_event_fire :: fire_payload where
  "demo_event_fire = demo_fire\<lparr>fp_jobId := None, fp_sourceEventId := Some ''e1'', fp_eventPayload := Some (JObj [])\<rparr>"

lemma demo_handle:
  "\<exists>db1. transactional (recurring_handle (demo_rec_call 5) demo_event_fire) demo_event_db = (Inr (), db1) \<and>
     rd_templates db1 = rd_templates demo_event_db \<and> length (pf_outbox db1) = 1"
  by (simp add: tx_run recurring_handle_def demo_event_fire_def demo_fire_def demo_event_db_def template_findById_def find_first_def
      tenant_mismatch_def truthy_def trigger_of_def handle_occurrence_def Let_def draw_uuid_def execution_claim_def
      run_claimed_def condition_decision_def parseCondition_def is_nullish_def send_event_def handler_reschedule_def
      insert_row_def demo_rec_db_def append_outbox_event_def outbox_append_def Let_def)

theorem occurrence_requested_once_witness:
  "let db1 = snd (transactional (recurring_handle (demo_rec_call 5) demo_event_fire) demo_event_db);
       db2 = snd (sweep_stale_executions (demo_rec_call 9999999) db1)
   in length (pf_outbox db1) = 1 \<and>
      pf_outbox (snd (transactional (recurring_handle (demo_rec_call 10000000) demo_event_fire) db2)) = pf_outbox db2"
proof -
  let ?t = "demo_template\<lparr>rt_triggerType := EVENT\<rparr>"
  obtain db1 where h: "transactional (recurring_handle (demo_rec_call 5) demo_event_fire) demo_event_db = (Inr (), db1)"
    and db1: "rd_templates db1 = [?t]" "length (pf_outbox db1) = 1"
    using demo_handle by (auto simp: demo_event_db_def)
  let ?db2 = "snd (sweep_stale_executions (demo_rec_call 9999999) db1)"
  have db2: "rd_templates ?db2 = [?t]"
    by (simp add: sweep_stale_executions_def io_step_def Let_def split_beta db1)
  have found: "template_findById (the (fp_aggregateId demo_event_fire)) [?t] = Some ?t"
    by (simp add: demo_event_fire_def demo_fire_def template_findById_def find_first_def)
  have key: "trigger_of (demo_rec_call n) ?t demo_event_fire = Inr (None, ''e1'')" for n
    by (simp add: trigger_of_def demo_event_fire_def)
  have "let db3 = snd (transactional (recurring_handle (demo_rec_call 10000000) demo_event_fire) ?db2)
    in pf_outbox db3 = pf_outbox ?db2 \<and> rd_executions db3 = rd_executions ?db2 \<and> rd_templates db3 = rd_templates ?db2 \<and>
       sd_jobs db3 = sd_jobs ?db2"
  proof (rule occurrence_requested_once [OF h])
    show "template_findById (the (fp_aggregateId demo_event_fire)) (rd_templates demo_event_db) = Some ?t"
      using found by (simp add: demo_event_db_def)
    show "trigger_of (demo_rec_call 5) ?t demo_event_fire = Inr (None, ''e1'')" by (rule key)
    show "recurring_move\<^sup>*\<^sup>* db1 ?db2" by (intro r_into_rtranclp Rec_sweep)
    show "template_findById (the (fp_aggregateId demo_event_fire)) (rd_templates ?db2) = Some ?t" using found by (simp add: db2)
    show "trigger_of (demo_rec_call 10000000) ?t demo_event_fire = Inr (None, ''e1'')" by (rule key)
  qed simp
  then show ?thesis using h db1(2) by (simp add: Let_def)
qed

end
