(* ===== verification/Batch_Operation.thy ===== *)
theory Batch_Operation
  imports Condition_Engine Platform Effects
begin

text \<open>
  Batch operations (\<open>platform/platform-common/batch-operation\<close>): the tables of jobs and rows, the
  statements of their repository and the registry of handlers. One operation runs over many selected
  records; each record is a row that a worker claims with a token and settles with its outcome.
\<close>

section \<open>Rows\<close>

datatype batch_mode = SYNC | ASYNC
datatype batch_status = BJ_PENDING | BJ_RUNNING | BJ_COMPLETED | BJ_COMPLETED_WITH_ERRORS | BJ_FAILED | BJ_CANCELLED
datatype batch_row_status = BR_PENDING | BR_PROCESSING | BR_SUCCESS | BR_FAILED | BR_SKIPPED
datatype batch_outcome = O_SUCCESS | O_FAILED | O_SKIPPED

record batch_context =
  bc_tenantId :: "string option"
  bc_jobId :: string
  bc_requestedBy :: "string option"
  bc_traceId :: "string option"

record batch_verdict =
  bv_canProceed :: bool
  bv_reason :: "string option"

record batch_submit =
  bs_aggregateType :: string
  bs_operationCode :: string
  bs_entityIds :: "string list"
  bs_params :: sval
  bs_tenantId :: "string option"
  bs_companyId :: "string option"
  bs_branchId :: "string option"
  bs_requestedBy :: "string option"
  bs_traceId :: "string option"

record batch_preview_item =
  pi_entityId :: string
  pi_canProceed :: bool
  pi_reason :: "string option"

record batch_preview =
  pv_canProceed :: bool
  pv_total :: nat
  pv_wouldProceed :: nat
  pv_wouldFail :: nat
  pv_items :: "batch_preview_item list"

record batch_row =
  br_id :: string
  br_tenantId :: "string option"
  br_jobId :: string
  br_entityId :: string
  br_status :: batch_row_status
  br_claimToken :: int
  br_skipReason :: "string option"
  br_errorMessage :: "string option"
  br_resultSnapshot :: sval
  br_processingTimeMs :: "int option"
  br_createdAt :: int
  br_updatedAt :: int
  br_processedAt :: "int option"

record batch_job =
  bj_id :: string
  bj_tenantId :: "string option"
  bj_companyId :: "string option"
  bj_branchId :: "string option"
  bj_jobNo :: string
  bj_aggregateType :: string
  bj_operationCode :: string
  bj_operationParams :: sval
  bj_mode :: batch_mode
  bj_status :: batch_status
  bj_totalRecords :: nat
  bj_processedRecords :: nat
  bj_successRecords :: nat
  bj_failedRecords :: nat
  bj_skippedRecords :: nat
  bj_cancelRequested :: bool
  bj_requestedBy :: "string option"
  bj_startedAt :: "int option"
  bj_completedAt :: "int option"
  bj_createdAt :: int

record new_batch_job =
  nj_jobNo :: string
  nj_aggregateType :: string
  nj_operationCode :: string
  nj_operationParams :: sval
  nj_mode :: batch_mode
  nj_status :: batch_status
  nj_tenantId :: "string option"
  nj_companyId :: "string option"
  nj_branchId :: "string option"
  nj_requestedBy :: "string option"

record claimed_row =
  cl_id :: string
  cl_entityId :: string
  cl_jobId :: string
  cl_claimToken :: int

record batch_settlement =
  se_outcome :: batch_outcome
  se_resultSnapshot :: sval
  se_errorMessage :: "string option"
  se_skipReason :: "string option"
  se_processingTimeMs :: int

record batch_dispatch =
  bp_jobId :: string
  bp_aggregateType :: string
  bp_operationCode :: string
  bp_params :: sval
  bp_tenantId :: "string option"
  bp_companyId :: "string option"
  bp_requestedBy :: "string option"
  bp_traceId :: "string option"
  bp_rowIds :: "string list"

record batch_db = platform_db +
  bd_jobs :: "batch_job list"
  bd_rows :: "batch_row list"
  bd_queue :: "batch_dispatch list"

record batch_config =
  bf_maxRecordsPerJob :: nat
  bf_syncThreshold :: nat
  bf_chunkSize :: nat
  bf_reconciliationWindowMs :: int
  bf_resultSnapshotMaxBytes :: nat

text \<open>
  What a call sees: the environment, the tenancy mode, what the host knows of foreign objects,
  the milliseconds a row takes, and the answer of the queue to each chunk.
\<close>

record batch_call =
  bo_env :: env
  bo_multi :: bool
  bo_config :: batch_config
  bo_host :: host
  bo_elapsed :: "string \<Rightarrow> int"
  bo_queue :: "batch_dispatch \<Rightarrow> unit result"

abbreviation bo_now :: "batch_call \<Rightarrow> int" where "bo_now c \<equiv> e_now (bo_env c)"

definition batch_terminal :: "batch_status \<Rightarrow> bool" where
  "batch_terminal s \<longleftrightarrow> s = BJ_COMPLETED \<or> s = BJ_COMPLETED_WITH_ERRORS \<or> s = BJ_FAILED \<or> s = BJ_CANCELLED"

abbreviation batch_live :: "batch_status \<Rightarrow> bool" where
  "batch_live s \<equiv> s = BJ_PENDING \<or> s = BJ_RUNNING"

section \<open>The repository of jobs\<close>

definition new_batch_row :: "batch_call \<Rightarrow> string \<Rightarrow> string option \<Rightarrow> string \<Rightarrow> string \<Rightarrow> batch_row" where
  "new_batch_row c jobId tenantId i entityId = \<lparr>br_id = i, br_tenantId = tenantId, br_jobId = jobId, br_entityId = entityId,
     br_status = BR_PENDING, br_claimToken = 0, br_skipReason = None, br_errorMessage = None, br_resultSnapshot = VNull,
     br_processingTimeMs = None, br_createdAt = bo_now c, br_updatedAt = bo_now c, br_processedAt = None\<rparr>"

definition insert_batch_row :: "batch_call \<Rightarrow> string \<Rightarrow> string option \<Rightarrow> string \<Rightarrow> (unit, 'a batch_db_scheme) tx" where
  "insert_batch_row c jobId tenantId entityId =
     tx_then (draw_uuid (bo_env c)) (\<lambda>i db.
     if \<exists>r \<in> set (bd_rows db). br_id r = i \<or> (br_jobId r = jobId \<and> br_entityId r = entityId)
     then throw_plain ''Unique constraint failed''
     else Inr ((), db\<lparr>bd_rows := insert_row (new_batch_row c jobId tenantId i entityId) (bd_rows db)\<rparr>))"

definition insert_batch_job :: "batch_call \<Rightarrow> new_batch_job \<Rightarrow> nat \<Rightarrow> (batch_job, 'a batch_db_scheme) tx" where
  "insert_batch_job c j n =
     tx_then (draw_uuid (bo_env c)) (\<lambda>i.
     tx_then (tx_lift (json_input (bo_host c) (nj_operationParams j))) (\<lambda>params db.
     if \<exists>q \<in> set (bd_jobs db). bj_id q = i \<or> (nj_tenantId j \<noteq> None \<and> bj_tenantId q = nj_tenantId j \<and> bj_jobNo q = nj_jobNo j)
     then throw_plain ''Unique constraint failed''
     else let job = \<lparr>bj_id = i, bj_tenantId = nj_tenantId j, bj_companyId = nj_companyId j, bj_branchId = nj_branchId j,
            bj_jobNo = nj_jobNo j, bj_aggregateType = nj_aggregateType j, bj_operationCode = nj_operationCode j,
            bj_operationParams = params, bj_mode = nj_mode j, bj_status = nj_status j, bj_totalRecords = n,
            bj_processedRecords = 0, bj_successRecords = 0, bj_failedRecords = 0, bj_skippedRecords = 0,
            bj_cancelRequested = False, bj_requestedBy = nj_requestedBy j,
            bj_startedAt = (if nj_status j = BJ_RUNNING then Some (bo_now c) else None), bj_completedAt = None,
            bj_createdAt = bo_now c\<rparr>
          in Inr (job, db\<lparr>bd_jobs := insert_row job (bd_jobs db)\<rparr>)))"

definition rows_of :: "string \<Rightarrow> batch_row list \<Rightarrow> batch_row list" where
  "rows_of jobId rows = sort_key br_createdAt (filter (\<lambda>r. br_jobId r = jobId) rows)"

definition createJobWithRows ::
  "batch_call \<Rightarrow> new_batch_job \<Rightarrow> string list \<Rightarrow> (batch_job \<times> batch_row list, 'a batch_db_scheme) io" where
  "createJobWithRows c j entityIds = transactional (
     tx_then (insert_batch_job c j (length entityIds)) (\<lambda>created.
     tx_then (tx_for (insert_batch_row c (bj_id created) (nj_tenantId j)) entityIds) (\<lambda>_.
     tx_read (\<lambda>db. (created, rows_of (bj_id created) (bd_rows db))))))"

definition findJob :: "string \<Rightarrow> batch_job list \<Rightarrow> batch_job option" where
  "findJob jobId jobs = find_first (\<lambda>q. bj_id q = jobId) jobs"

definition findJobWithRows :: "string \<Rightarrow> 'a batch_db_scheme \<Rightarrow> (batch_job \<times> batch_row list) option" where
  "findJobWithRows jobId db = map_option (\<lambda>q. (q, rows_of jobId (bd_rows db))) (findJob jobId (bd_jobs db))"

definition listJobs ::
  "string option \<Rightarrow> batch_status option \<Rightarrow> string option \<Rightarrow> nat \<Rightarrow> nat \<Rightarrow> batch_job list \<Rightarrow> batch_job list \<times> nat" where
  "listJobs tenantId status aggregateType page pageSize jobs =
     (let hits = filter (\<lambda>q. (truthy tenantId \<longrightarrow> bj_tenantId q = tenantId) \<and>
            (case status of None \<Rightarrow> True | Some s \<Rightarrow> bj_status q = s) \<and>
            (truthy aggregateType \<longrightarrow> Some (bj_aggregateType q) = aggregateType)) jobs
      in (take pageSize (drop ((page - 1) * pageSize) (sort_key (\<lambda>q. - bj_createdAt q) hits)), length hits))"

definition write_batch_jobs :: "(batch_job list \<Rightarrow> batch_job list) \<Rightarrow> (unit, 'a batch_db_scheme) io" where
  "write_batch_jobs f = io_write (\<lambda>db. db\<lparr>bd_jobs := f (bd_jobs db)\<rparr>)"

definition markJobRunning :: "int \<Rightarrow> string \<Rightarrow> batch_job list \<Rightarrow> batch_job list" where
  "markJobRunning now jobId jobs = snd (update_many
     (\<lambda>q. bj_id q = jobId \<and> bj_status q = BJ_PENDING \<and> \<not> bj_cancelRequested q)
     (\<lambda>q. q\<lparr>bj_status := BJ_RUNNING, bj_startedAt := Some now\<rparr>) jobs)"

definition set_batch_status :: "int \<Rightarrow> string \<Rightarrow> batch_status \<Rightarrow> batch_job list \<Rightarrow> nat \<times> batch_job list" where
  "set_batch_status now jobId s jobs = update_many (\<lambda>q. bj_id q = jobId \<and> batch_live (bj_status q))
     (\<lambda>q. q\<lparr>bj_status := s, bj_completedAt := Some now\<rparr>) jobs"

definition final_status :: "batch_job \<Rightarrow> batch_status" where
  "final_status job = (if bj_failedRecords job = 0 then BJ_COMPLETED
     else if bj_successRecords job > 0 then BJ_COMPLETED_WITH_ERRORS else BJ_FAILED)"

definition finaliseJob :: "int \<Rightarrow> string \<Rightarrow> (batch_job option, 'a batch_db_scheme) io" where
  "finaliseJob now jobId =
     io_then (io_read (\<lambda>db. findJob jobId (bd_jobs db))) (\<lambda>found.
     case found of
       None \<Rightarrow> io_return None
     | Some job \<Rightarrow>
         io_then (io_step (\<lambda>db. let (n, jobs) = set_batch_status now jobId (final_status job) (bd_jobs db)
                  in (n, db\<lparr>bd_jobs := jobs\<rparr>))) (\<lambda>n.
         io_return (if n \<noteq> 1 then None else Some (job\<lparr>bj_status := final_status job, bj_completedAt := Some now\<rparr>))))"

definition finaliseCancelled :: "int \<Rightarrow> string \<Rightarrow> (batch_job option, 'a batch_db_scheme) io" where
  "finaliseCancelled now jobId =
     io_then (io_step (\<lambda>db. let (n, jobs) = set_batch_status now jobId BJ_CANCELLED (bd_jobs db)
              in (n, db\<lparr>bd_jobs := jobs\<rparr>))) (\<lambda>n.
     if n \<noteq> 1 then io_return None
     else io_read (\<lambda>db. map_option (\<lambda>q. q\<lparr>bj_status := BJ_CANCELLED\<rparr>) (findJob jobId (bd_jobs db))))"

definition markJobFailed :: "int \<Rightarrow> string \<Rightarrow> batch_job list \<Rightarrow> batch_job list" where
  "markJobFailed now jobId jobs = snd (set_batch_status now jobId BJ_FAILED jobs)"

text \<open>\<open>recountJobCounters\<close>: the counters of live jobs are set to what their rows say; jobs without rows have
  no group to join with.\<close>

definition count_rows :: "string \<Rightarrow> batch_row_status set \<Rightarrow> batch_row list \<Rightarrow> nat" where
  "count_rows jobId ss rows = length (filter (\<lambda>r. br_jobId r = jobId \<and> br_status r \<in> ss) rows)"

definition counters_agree :: "batch_row list \<Rightarrow> batch_job \<Rightarrow> bool" where
  "counters_agree rows q \<longleftrightarrow> bj_processedRecords q = count_rows (bj_id q) {BR_SUCCESS, BR_FAILED, BR_SKIPPED} rows \<and>
     bj_successRecords q = count_rows (bj_id q) {BR_SUCCESS} rows \<and> bj_failedRecords q = count_rows (bj_id q) {BR_FAILED} rows \<and>
     bj_skippedRecords q = count_rows (bj_id q) {BR_SKIPPED} rows"

definition recountJobCounters :: "batch_row list \<Rightarrow> batch_job list \<Rightarrow> nat \<times> batch_job list" where
  "recountJobCounters rows jobs = update_many
     (\<lambda>q. (\<exists>r \<in> set rows. br_jobId r = bj_id q) \<and> batch_live (bj_status q) \<and> \<not> counters_agree rows q)
     (\<lambda>q. q\<lparr>bj_processedRecords := count_rows (bj_id q) {BR_SUCCESS, BR_FAILED, BR_SKIPPED} rows,
        bj_successRecords := count_rows (bj_id q) {BR_SUCCESS} rows, bj_failedRecords := count_rows (bj_id q) {BR_FAILED} rows,
        bj_skippedRecords := count_rows (bj_id q) {BR_SKIPPED} rows\<rparr>) jobs"

definition findCompletableJobs :: "batch_row list \<Rightarrow> batch_job list \<Rightarrow> batch_job list" where
  "findCompletableJobs rows jobs = take 100 (filter (\<lambda>q. batch_live (bj_status q) \<and> bj_mode q = ASYNC \<and>
     (\<forall>r \<in> set rows. br_jobId r = bj_id q \<longrightarrow> br_status r \<noteq> BR_PENDING \<and> br_status r \<noteq> BR_PROCESSING)) jobs)"

definition setCancelRequested :: "string \<Rightarrow> (unit, 'a batch_db_scheme) io" where
  "setCancelRequested jobId db =
     (if findJob jobId (bd_jobs db) = None then (throw_plain ''No record was found for an update'', db)
      else (Inr (), db\<lparr>bd_jobs := map_where (\<lambda>q. bj_id q = jobId) (\<lambda>q. q\<lparr>bj_cancelRequested := True\<rparr>) (bd_jobs db)\<rparr>))"

definition isCancelRequested :: "string \<Rightarrow> batch_job list \<Rightarrow> bool" where
  "isCancelRequested jobId jobs = (case findJob jobId jobs of None \<Rightarrow> False | Some q \<Rightarrow> bj_cancelRequested q)"

definition findResumableJobs :: "batch_row list \<Rightarrow> batch_job list \<Rightarrow> batch_job list" where
  "findResumableJobs rows jobs = take 100 (filter (\<lambda>q. batch_live (bj_status q) \<and> bj_mode q = ASYNC \<and> \<not> bj_cancelRequested q \<and>
     (\<exists>r \<in> set rows. br_jobId r = bj_id q \<and> br_status r = BR_PENDING)) jobs)"

section \<open>The repository of rows\<close>

definition pending_rowIds :: "string \<Rightarrow> batch_row list \<Rightarrow> string list" where
  "pending_rowIds jobId rows = map br_id (filter (\<lambda>r. br_status r = BR_PENDING) (rows_of jobId rows))"

definition taken_row :: "int \<Rightarrow> batch_row \<Rightarrow> batch_row" where
  "taken_row now r = r\<lparr>br_status := BR_PROCESSING, br_claimToken := br_claimToken r + 1, br_updatedAt := now\<rparr>"

definition claimRow :: "int \<Rightarrow> string \<Rightarrow> batch_row list \<Rightarrow> claimed_row option \<times> batch_row list" where
  "claimRow now rowId rows =
     (let hit = (\<lambda>r. br_id r = rowId \<and> br_status r = BR_PENDING)
      in (map_option (\<lambda>r. \<lparr>cl_id = br_id r, cl_entityId = br_entityId r, cl_jobId = br_jobId r, cl_claimToken = br_claimToken r + 1\<rparr>)
            (find_first hit rows), snd (update_many hit (taken_row now) rows)))"

abbreviation br_owned :: "string \<Rightarrow> int \<Rightarrow> batch_row \<Rightarrow> bool" where
  "br_owned \<equiv> cas_hit br_id (\<lambda>r. Some (br_claimToken r)) (\<lambda>r. br_status r = BR_PROCESSING)"

definition outcome_status :: "batch_outcome \<Rightarrow> batch_row_status" where
  "outcome_status o1 = (case o1 of O_SUCCESS \<Rightarrow> BR_SUCCESS | O_FAILED \<Rightarrow> BR_FAILED | O_SKIPPED \<Rightarrow> BR_SKIPPED)"

definition settled_batch_row :: "int \<Rightarrow> sval \<Rightarrow> batch_settlement \<Rightarrow> int \<Rightarrow> batch_row \<Rightarrow> batch_row" where
  "settled_batch_row now snapshot s token r = r\<lparr>br_status := outcome_status (se_outcome s),
     br_resultSnapshot := (if se_outcome s = O_SUCCESS then snapshot else br_resultSnapshot r),
     br_errorMessage := (if se_outcome s = O_FAILED then Some (take 4000 (coalesce (se_errorMessage s) [])) else br_errorMessage r),
     br_skipReason := (if se_outcome s = O_SKIPPED then Some (take 200 (coalesce (se_skipReason s) [])) else br_skipReason r),
     br_processingTimeMs := Some (se_processingTimeMs s), br_processedAt := Some now, br_updatedAt := now\<rparr>"

definition counted_job :: "batch_outcome \<Rightarrow> batch_job \<Rightarrow> batch_job" where
  "counted_job o1 q = (let q' = q\<lparr>bj_processedRecords := bj_processedRecords q + 1\<rparr> in
     case o1 of O_SUCCESS \<Rightarrow> q'\<lparr>bj_successRecords := bj_successRecords q + 1\<rparr>
     | O_FAILED \<Rightarrow> q'\<lparr>bj_failedRecords := bj_failedRecords q + 1\<rparr>
     | O_SKIPPED \<Rightarrow> q'\<lparr>bj_skippedRecords := bj_skippedRecords q + 1\<rparr>)"

definition settle_tx :: "batch_call \<Rightarrow> string \<Rightarrow> string \<Rightarrow> int \<Rightarrow> batch_settlement \<Rightarrow> (bool, 'a batch_db_scheme) tx" where
  "settle_tx c rowId jobId claimToken s =
     tx_then (tx_lift (if se_outcome s = O_SUCCESS then json_input (bo_host c) (se_resultSnapshot s) else Inr VNull)) (\<lambda>snapshot db.
     let (n, rows) = update_many (br_owned rowId claimToken) (settled_batch_row (bo_now c) snapshot s claimToken) (bd_rows db)
     in if n \<noteq> 1 then Inr (False, db\<lparr>bd_rows := rows\<rparr>)
        else if findJob jobId (bd_jobs db) = None then throw_plain ''No record was found for an update''
        else Inr (True, db\<lparr>bd_rows := rows,
               bd_jobs := map_where (\<lambda>q. bj_id q = jobId) (counted_job (se_outcome s)) (bd_jobs db)\<rparr>))"

definition settleRow :: "batch_call \<Rightarrow> string \<Rightarrow> string \<Rightarrow> int \<Rightarrow> batch_settlement \<Rightarrow> (bool, 'a batch_db_scheme) io" where
  "settleRow c rowId jobId claimToken s = transactional (settle_tx c rowId jobId claimToken s)"

definition job_is_live :: "batch_job list \<Rightarrow> batch_row \<Rightarrow> bool" where
  "job_is_live jobs r \<longleftrightarrow> (\<exists>q \<in> set jobs. bj_id q = br_jobId r \<and> batch_live (bj_status q))"

definition job_has_ended :: "batch_job list \<Rightarrow> batch_row \<Rightarrow> bool" where
  "job_has_ended jobs r \<longleftrightarrow> (\<exists>q \<in> set jobs. bj_id q = br_jobId r \<and> \<not> batch_live (bj_status q))"

definition release_stuck :: "int \<Rightarrow> int \<Rightarrow> batch_job list \<Rightarrow> batch_row list \<Rightarrow> nat \<times> batch_row list" where
  "release_stuck now olderThanMs jobs rows = update_many
     (\<lambda>r. job_is_live jobs r \<and> br_status r = BR_PROCESSING \<and> br_updatedAt r < now - olderThanMs)
     (\<lambda>r. r\<lparr>br_status := BR_PENDING, br_claimToken := br_claimToken r + 1, br_updatedAt := now\<rparr>) rows"

definition abandon_stuck :: "int \<Rightarrow> batch_job list \<Rightarrow> batch_row list \<Rightarrow> batch_row list" where
  "abandon_stuck now jobs rows = snd (update_many (\<lambda>r. job_has_ended jobs r \<and> br_status r = BR_PROCESSING)
     (\<lambda>r. r\<lparr>br_status := BR_SKIPPED, br_skipReason := Some ''ABANDONED_ON_TERMINAL_JOB'', br_updatedAt := now\<rparr>) rows)"

definition resetStuckRows :: "int \<Rightarrow> int \<Rightarrow> (nat, 'a batch_db_scheme) io" where
  "resetStuckRows now olderThanMs =
     io_then (io_step (\<lambda>db. let (n, rows) = release_stuck now olderThanMs (bd_jobs db) (bd_rows db) in (n, db\<lparr>bd_rows := rows\<rparr>))) (\<lambda>n.
     io_then (io_write (\<lambda>db. db\<lparr>bd_rows := abandon_stuck now (bd_jobs db) (bd_rows db)\<rparr>)) (\<lambda>_. io_return n))"

section \<open>The registry of handlers\<close>

record 'd batch_handler =
  bh_aggregateType :: string
  bh_supportedOperations :: "string list"
  bh_validate :: "request_context \<Rightarrow> string \<Rightarrow> string \<Rightarrow> sval \<Rightarrow> batch_context \<Rightarrow> (batch_verdict, 'd) io"
  bh_execute :: "request_context \<Rightarrow> string \<Rightarrow> string \<Rightarrow> sval \<Rightarrow> batch_context \<Rightarrow> (sval, 'd) io"

definition register_batch_handler :: "'d batch_handler \<Rightarrow> 'd batch_handler registry \<Rightarrow> 'd batch_handler registry result" where
  "register_batch_handler h reg = registerEntry (bh_aggregateType h) h
     (Exn None (''BatchOperationHandler for aggregateType '' @ bh_aggregateType h @ '' already registered'')) reg"

definition no_batch_handler :: "string \<Rightarrow> exn" where
  "no_batch_handler aggregateType = Exn None (''No BatchOperationHandler registered for aggregateType '' @ aggregateType)"

definition resolve_batch_handler :: "string \<Rightarrow> 'd batch_handler registry \<Rightarrow> 'd batch_handler result" where
  "resolve_batch_handler aggregateType reg = requireEntry aggregateType (no_batch_handler aggregateType) reg"

definition assertOperationSupported :: "string \<Rightarrow> string \<Rightarrow> 'd batch_handler registry \<Rightarrow> unit result" where
  "assertOperationSupported aggregateType operationCode reg =
     and_then (requireEntry aggregateType (no_batch_handler aggregateType) reg) (\<lambda>h.
     if operationCode \<notin> set (bh_supportedOperations h)
     then throw 400 (''aggregateType '' @ aggregateType @ '' does not support operationCode '' @ operationCode)
     else Inr ())"

definition batch_health :: "'d batch_handler registry \<Rightarrow> (string \<times> string list) list" where
  "batch_health reg = map (\<lambda>(k, h). (bh_aggregateType h, bh_supportedOperations h)) reg"

end
