(* ===== verification/Batch_UseCases.thy ===== *)
theory Batch_UseCases
  imports Batch_Operation
begin

text \<open>
  The use cases of batch operations: processing one row, the worker's loop over a chunk, submitting,
  previewing and cancelling a job, and the reconciliation cycle. They run outside any transaction, so
  every statement commits on its own; a handler is any program over the database.
\<close>

section \<open>One row\<close>

definition KNOWN_SKIP_REASONS :: "string list" where
  "KNOWN_SKIP_REASONS = [''ALREADY_IN_TARGET_STATE'', ''VALIDATION_FAILED'', ''PERMISSION_DENIED'']"

definition normaliseSkipReason :: "string option \<Rightarrow> string" where
  "normaliseSkipReason reason =
     (if truthy reason \<and> the reason \<in> set KNOWN_SKIP_REASONS then the reason
      else if truthy reason then take 200 (''VALIDATION_FAILED: '' @ the reason) else ''VALIDATION_FAILED'')"

definition capSnapshot :: "batch_call \<Rightarrow> sval \<Rightarrow> sval" where
  "capSnapshot c snapshot =
     (if is_nullish snapshot then VNull
      else if length (stringify (bo_host c) snapshot) \<le> bf_resultSnapshotMaxBytes (bo_config c) then snapshot
      else VObj [(''_truncated'', VBool True), (''_originalBytes'', VNum (N (int (length (stringify (bo_host c) snapshot)))))])"

abbreviation settlement :: "batch_outcome \<Rightarrow> sval \<Rightarrow> string option \<Rightarrow> string option \<Rightarrow> int \<Rightarrow> batch_settlement" where
  "settlement o1 snapshot er skip ms \<equiv> \<lparr>se_outcome = o1, se_resultSnapshot = snapshot, se_errorMessage = er,
     se_skipReason = skip, se_processingTimeMs = ms\<rparr>"

datatype row_result = R_PROCESSED | R_SKIPPED_CLAIM | R_CANCELLED

definition fail_row :: "batch_call \<Rightarrow> batch_dispatch \<Rightarrow> claimed_row \<Rightarrow> exn \<Rightarrow> (row_result, 'a batch_db_scheme) io" where
  "fail_row c d cl er =
     io_then (settleRow c (cl_id cl) (bp_jobId d) (cl_claimToken cl)
       (settlement O_FAILED VUndef (Some (message er)) None (bo_elapsed c (cl_id cl)))) (\<lambda>_. io_return R_PROCESSED)"

definition runHandler ::
  "batch_call \<Rightarrow> 'a batch_db_scheme batch_handler \<Rightarrow> request_context \<Rightarrow> claimed_row \<Rightarrow> batch_dispatch \<Rightarrow> batch_context \<Rightarrow>
   (row_result, 'a batch_db_scheme) io"
where
  "runHandler c h ctx cl d context =
     io_catch
       (io_then (bh_validate h ctx (cl_entityId cl) (bp_operationCode d) (bp_params d) context) (\<lambda>verdict.
        if \<not> bv_canProceed verdict
        then io_then (settleRow c (cl_id cl) (bp_jobId d) (cl_claimToken cl)
               (settlement O_SKIPPED VUndef None (Some (normaliseSkipReason (bv_reason verdict))) (bo_elapsed c (cl_id cl))))
               (\<lambda>_. io_return R_PROCESSED)
        else io_then (bh_execute h ctx (cl_entityId cl) (bp_operationCode d) (bp_params d) context) (\<lambda>result.
             io_then (settleRow c (cl_id cl) (bp_jobId d) (cl_claimToken cl)
               (settlement O_SUCCESS (capSnapshot c result) None None (bo_elapsed c (cl_id cl))))
               (\<lambda>_. io_return R_PROCESSED))))
       (fail_row c d cl)"

definition row_context :: "batch_call \<Rightarrow> batch_dispatch \<Rightarrow> request_context" where
  "row_context c d = ctx_run_context (Some (e_ctx (bo_env c)))
     (empty_patch\<lparr>p_tenantId := Some (bp_tenantId d), p_companyId := Some (bp_companyId d)\<rparr>)"

definition process_claimed ::
  "batch_call \<Rightarrow> 'a batch_db_scheme batch_handler registry \<Rightarrow> batch_dispatch \<Rightarrow> claimed_row \<Rightarrow> (row_result, 'a batch_db_scheme) io"
where
  "process_claimed c reg d cl =
     io_then (io_lift (resolve_batch_handler (bp_aggregateType d) reg)) (\<lambda>h.
     io_catch (runHandler c h (row_context c d) cl d \<lparr>bc_tenantId = bp_tenantId d, bc_jobId = bp_jobId d,
       bc_requestedBy = bp_requestedBy d, bc_traceId = bp_traceId d\<rparr>) (fail_row c d cl))"

definition processRow ::
  "batch_call \<Rightarrow> 'a batch_db_scheme batch_handler registry \<Rightarrow> batch_dispatch \<Rightarrow> string \<Rightarrow> (row_result, 'a batch_db_scheme) io"
where
  "processRow c reg d rowId =
     io_then (io_read (\<lambda>db. isCancelRequested (bp_jobId d) (bd_jobs db))) (\<lambda>cancelled.
     if cancelled then io_return R_CANCELLED
     else io_then (io_step (\<lambda>db. let (claimed, rows) = claimRow (bo_now c) rowId (bd_rows db) in (claimed, db\<lparr>bd_rows := rows\<rparr>))) (\<lambda>claimed.
       case claimed of
         None \<Rightarrow> io_return R_SKIPPED_CLAIM
       | Some cl \<Rightarrow>
           io_then (io_read (\<lambda>db. isCancelRequested (bp_jobId d) (bd_jobs db))) (\<lambda>cancelled.
           if cancelled
           then io_then (settleRow c (cl_id cl) (bp_jobId d) (cl_claimToken cl)
                  (settlement O_SKIPPED VUndef None (Some ''CANCELLED_BY_REQUEST'') 0)) (\<lambda>_. io_return R_CANCELLED)
           else process_claimed c reg d cl)))"

section \<open>A chunk\<close>

definition batch_status_text :: "batch_status \<Rightarrow> string" where
  "batch_status_text s = (case s of BJ_PENDING \<Rightarrow> ''PENDING'' | BJ_RUNNING \<Rightarrow> ''RUNNING'' | BJ_COMPLETED \<Rightarrow> ''COMPLETED''
     | BJ_COMPLETED_WITH_ERRORS \<Rightarrow> ''COMPLETED_WITH_ERRORS'' | BJ_FAILED \<Rightarrow> ''FAILED'' | BJ_CANCELLED \<Rightarrow> ''CANCELLED'')"

definition job_completed_event :: "batch_job \<Rightarrow> string \<times> (string \<times> json) list" where
  "job_completed_event job = (''BatchOperationJobCompletedEvent'',
     [(''jobId'', JStr (bj_id job)), (''jobNo'', JStr (bj_jobNo job)), (''aggregateType'', JStr (bj_aggregateType job)),
      (''operationCode'', JStr (bj_operationCode job)),
      (''status'', JStr (batch_status_text (bj_status job))),
      (''totalRecords'', JNum (N (int (bj_totalRecords job)))), (''successRecords'', JNum (N (int (bj_successRecords job)))),
      (''failedRecords'', JNum (N (int (bj_failedRecords job)))), (''skippedRecords'', JNum (N (int (bj_skippedRecords job)))),
      (''tenantId'', json_opt (bj_tenantId job))])"

definition writeJobCompletedEvent :: "batch_call \<Rightarrow> batch_job \<Rightarrow> (unit, 'a batch_db_scheme) io" where
  "writeJobCompletedEvent c job = transactional (send_event (bo_env c) ''BatchOperationJob'' (bj_id job) (job_completed_event job))"

definition finalise_decision :: "batch_call \<Rightarrow> batch_job \<Rightarrow> (batch_job option, 'a batch_db_scheme) io" where
  "finalise_decision c job =
     (if bj_processedRecords job \<ge> bj_totalRecords job then finaliseJob (bo_now c) (bj_id job)
      else if bj_cancelRequested job
      then io_then (io_read (\<lambda>db. pending_rowIds (bj_id job) (bd_rows db))) (\<lambda>pending.
           if bj_processedRecords job + length pending \<ge> bj_totalRecords job then finaliseCancelled (bo_now c) (bj_id job)
           else io_return None)
      else io_return None)"

definition finaliseIfComplete :: "batch_call \<Rightarrow> string \<Rightarrow> (unit, 'a batch_db_scheme) io" where
  "finaliseIfComplete c jobId =
     io_then (io_read (\<lambda>db. findJob jobId (bd_jobs db))) (\<lambda>found.
     case found of
       None \<Rightarrow> io_return ()
     | Some job \<Rightarrow>
         if batch_terminal (bj_status job) then io_return ()
         else io_then (finalise_decision c job) (\<lambda>finalised.
              case finalised of
                None \<Rightarrow> io_return ()
              | Some job' \<Rightarrow> io_catch (writeJobCompletedEvent c job') (\<lambda>_. io_return ())))"

fun process_rows ::
  "batch_call \<Rightarrow> 'a batch_db_scheme batch_handler registry \<Rightarrow> batch_dispatch \<Rightarrow> string list \<Rightarrow> (unit, 'a batch_db_scheme) io" where
  "process_rows c reg d [] = io_return ()"
| "process_rows c reg d (rowId # rest) =
     io_then (processRow c reg d rowId) (\<lambda>outcome.
     if outcome = R_CANCELLED then io_return () else process_rows c reg d rest)"

definition processChunk ::
  "batch_call \<Rightarrow> 'a batch_db_scheme batch_handler registry \<Rightarrow> batch_dispatch \<Rightarrow> (unit, 'a batch_db_scheme) io" where
  "processChunk c reg d =
     io_then (write_batch_jobs (markJobRunning (bo_now c) (bp_jobId d))) (\<lambda>_.
     io_then (process_rows c reg d (bp_rowIds d)) (\<lambda>_. finaliseIfComplete c (bp_jobId d)))"

section \<open>Submitting\<close>

text \<open>\<open>Chunker.split\<close>; a size of zero makes the source loop for ever, so the configured size is positive.\<close>

function split_chunks :: "'x list \<Rightarrow> nat \<Rightarrow> 'x list list" where
  "split_chunks items n = (if items = [] \<or> n = 0 then [] else take n items # split_chunks (drop n items) n)"
  by pat_completeness auto

termination by (relation "measure (\<lambda>(items, n). length items)") auto

declare split_chunks.simps [simp del]

fun enqueue_chunks :: "batch_call \<Rightarrow> batch_dispatch \<Rightarrow> string list list \<Rightarrow> (unit, 'a batch_db_scheme) io" where
  "enqueue_chunks c d [] = io_return ()"
| "enqueue_chunks c d (rowIds # chunks) =
     (case bo_queue c (d\<lparr>bp_rowIds := rowIds\<rparr>) of
        Inl er \<Rightarrow> io_lift (Inl er)
      | Inr _ \<Rightarrow> io_then (io_write (\<lambda>db. db\<lparr>bd_queue := bd_queue db @ [d\<lparr>bp_rowIds := rowIds\<rparr>]\<rparr>)) (\<lambda>_. enqueue_chunks c d chunks))"

definition dispatchChunks :: "batch_call \<Rightarrow> batch_dispatch \<Rightarrow> (unit, 'a batch_db_scheme) io" where
  "dispatchChunks c d = enqueue_chunks c d (split_chunks (bp_rowIds d) (bf_chunkSize (bo_config c)))"

definition JOB_NUMBER_SEQUENCE :: string where "JOB_NUMBER_SEQUENCE = ''batch-operation-job''"

text \<open>\<open>new Set\<close> keeps the first occurrence of each id.\<close>

definition selected_ids :: "string list \<Rightarrow> string list" where
  "selected_ids ids = rev (remdups (rev (filter (\<lambda>i. trim i \<noteq> []) ids)))"

definition dispatch_of :: "batch_job \<Rightarrow> string option \<Rightarrow> string list \<Rightarrow> batch_dispatch" where
  "dispatch_of job traceId rowIds = \<lparr>bp_jobId = bj_id job, bp_aggregateType = bj_aggregateType job,
     bp_operationCode = bj_operationCode job,
     bp_params = (if is_nullish (bj_operationParams job) then VUndef else bj_operationParams job),
     bp_tenantId = bj_tenantId job, bp_companyId = bj_companyId job, bp_requestedBy = bj_requestedBy job,
     bp_traceId = traceId, bp_rowIds = rowIds\<rparr>"

definition check_submit :: "batch_call \<Rightarrow> 'd batch_handler registry \<Rightarrow> batch_submit \<Rightarrow> string option \<Rightarrow> string list result" where
  "check_submit c reg input tenantId =
     and_then (if bo_multi c \<and> \<not> truthy tenantId
               then throw 400 ''Batch operations require a tenant context in multi-tenant mode'' else Inr ()) (\<lambda>_.
     and_then (resolve_batch_handler (bs_aggregateType input) reg) (\<lambda>_.
     and_then (assertOperationSupported (bs_aggregateType input) (bs_operationCode input) reg) (\<lambda>_.
     let entityIds = selected_ids (bs_entityIds input) in
     if entityIds = [] then throw 400 ''A batch operation must target at least one record''
     else if length entityIds > bf_maxRecordsPerJob (bo_config c)
     then throw 400 (''Selection of '' @ nat_to_string (length entityIds) @ '' records exceeds the maximum of ''
            @ nat_to_string (bf_maxRecordsPerJob (bo_config c)) @ '' per batch operation'')
     else Inr entityIds)))"

definition create_batch_operation_job ::
  "batch_call \<Rightarrow> 'a batch_db_scheme batch_handler registry \<Rightarrow> batch_submit \<Rightarrow> (batch_job \<times> batch_row list, 'a batch_db_scheme) io"
where
  "create_batch_operation_job c reg input =
     (let ctx = e_ctx (bo_env c);
          tenantId = coalesce_opt (bs_tenantId input) (ctx_tenantId ctx);
          requestedBy = coalesce_opt (bs_requestedBy input) (ctx_userId ctx);
          traceId = coalesce_opt (bs_traceId input) (Some (correlationId ctx)) in
      io_then (io_lift (check_submit c reg input tenantId)) (\<lambda>entityIds.
      io_then (transactional (nextNumber (bo_env c) JOB_NUMBER_SEQUENCE (Some ''BATCH-'') (Some 6))) (\<lambda>jobNo.
      let mode = (if length entityIds \<le> bf_syncThreshold (bo_config c) then SYNC else ASYNC) in
      io_then (createJobWithRows c \<lparr>nj_jobNo = jobNo, nj_aggregateType = bs_aggregateType input,
          nj_operationCode = bs_operationCode input, nj_operationParams = bs_params input, nj_mode = mode,
          nj_status = (if mode = SYNC then BJ_RUNNING else BJ_PENDING), nj_tenantId = tenantId,
          nj_companyId = bs_companyId input, nj_branchId = bs_branchId input, nj_requestedBy = requestedBy\<rparr> entityIds) (\<lambda>(job, rows).
      let d = dispatch_of job traceId (map br_id rows) in
      if mode = SYNC
      then io_then (processChunk c reg d) (\<lambda>_. io_read (\<lambda>db. coalesce (findJobWithRows (bj_id job) db) (job, rows)))
      else io_then (io_catch (dispatchChunks c d) (\<lambda>er.
             io_then (write_batch_jobs (markJobFailed (bo_now c) (bj_id job))) (\<lambda>_. io_lift (Inl er)))) (\<lambda>_.
           io_return (job, rows))))))"

section \<open>Previewing, cancelling, reading\<close>

fun preview_items ::
  "'d batch_handler \<Rightarrow> request_context \<Rightarrow> string \<Rightarrow> sval \<Rightarrow> batch_context \<Rightarrow> string list \<Rightarrow> (batch_preview_item list, 'd) io" where
  "preview_items h ctx operationCode params context [] = io_return []"
| "preview_items h ctx operationCode params context (i # ids) =
     io_then (io_catch (io_then (bh_validate h ctx i operationCode params context) (\<lambda>v.
        io_return \<lparr>pi_entityId = i, pi_canProceed = bv_canProceed v, pi_reason = bv_reason v\<rparr>))
       (\<lambda>er. io_return \<lparr>pi_entityId = i, pi_canProceed = False, pi_reason = Some (message er)\<rparr>)) (\<lambda>item.
     io_then (preview_items h ctx operationCode params context ids) (\<lambda>items. io_return (item # items)))"

definition preview_of :: "batch_preview_item list \<Rightarrow> batch_preview" where
  "preview_of items = (let wouldProceed = length (filter pi_canProceed items) in
     \<lparr>pv_canProceed = (items \<noteq> [] \<and> wouldProceed = length items), pv_total = length items, pv_wouldProceed = wouldProceed,
      pv_wouldFail = length items - wouldProceed, pv_items = items\<rparr>)"

definition validate_batch_operation ::
  "batch_call \<Rightarrow> 'a batch_db_scheme batch_handler registry \<Rightarrow> string \<Rightarrow> string \<Rightarrow> string list \<Rightarrow> sval \<Rightarrow> string option \<Rightarrow>
   (batch_preview, 'a batch_db_scheme) io"
where
  "validate_batch_operation c reg aggregateType operationCode ids params tenantId =
     io_then (io_lift (resolve_batch_handler aggregateType reg)) (\<lambda>h.
     io_then (io_lift (assertOperationSupported aggregateType operationCode reg)) (\<lambda>_.
     io_then (transactional (draw_uuid (bo_env c))) (\<lambda>i.
     io_then (preview_items h (e_ctx (bo_env c)) operationCode params
         \<lparr>bc_tenantId = coalesce_opt tenantId (ctx_tenantId (e_ctx (bo_env c))), bc_jobId = ''preview-'' @ i,
          bc_requestedBy = None, bc_traceId = None\<rparr> (selected_ids ids)) (\<lambda>items.
     io_return (preview_of items)))))"

definition batch_job_status :: "batch_call \<Rightarrow> string \<Rightarrow> string option \<Rightarrow> (batch_job, 'a batch_db_scheme) io" where
  "batch_job_status c jobId tenantId =
     io_then (io_read (\<lambda>db. findJob jobId (bd_jobs db))) (\<lambda>found.
     case found of
       None \<Rightarrow> io_lift (not_found (''BatchOperationJob '' @ jobId @ '' not found''))
     | Some job \<Rightarrow> io_then (io_lift (assertVisible (bj_tenantId job) (coalesce_opt tenantId (ctx_tenantId (e_ctx (bo_env c))))))
         (\<lambda>_. io_return job))"

definition list_batch_job_rows :: "batch_call \<Rightarrow> string \<Rightarrow> string option \<Rightarrow> (batch_row list, 'a batch_db_scheme) io" where
  "list_batch_job_rows c jobId tenantId =
     io_then (batch_job_status c jobId tenantId) (\<lambda>_. io_read (\<lambda>db. rows_of jobId (bd_rows db)))"

definition cancel_batch_job :: "batch_call \<Rightarrow> string \<Rightarrow> string option \<Rightarrow> (batch_job, 'a batch_db_scheme) io" where
  "cancel_batch_job c jobId tenantId =
     io_then (batch_job_status c jobId tenantId) (\<lambda>job.
     if batch_terminal (bj_status job)
     then io_lift (conflict (''BatchOperationJob '' @ jobId @ '' is '' @ batch_status_text (bj_status job) @ '' and can no longer be cancelled''))
     else io_then (setCancelRequested jobId) (\<lambda>_.
       io_then (transactional (audit_record (bo_env c) ''batch.cancel-requested'' ''BatchOperationJob'' jobId None
         [(''status'', JStr (batch_status_text (bj_status job))), (''aggregateType'', JStr (bj_aggregateType job))])) (\<lambda>_.
       io_then (io_read (\<lambda>db. pending_rowIds jobId (bd_rows db))) (\<lambda>pending.
       io_then (if pending = [] then finaliseCancelled (bo_now c) jobId else io_return None) (\<lambda>cancelled.
       case cancelled of
         Some q \<Rightarrow> io_return q
       | None \<Rightarrow> io_read (\<lambda>db. coalesce (findJob jobId (bd_jobs db)) job))))))"

section \<open>The reconciliation cycle\<close>

definition finalise_completed :: "batch_call \<Rightarrow> batch_job \<Rightarrow> (unit, 'a batch_db_scheme) io" where
  "finalise_completed c candidate =
     io_catch (io_then (finaliseJob (bo_now c) (bj_id candidate)) (\<lambda>finalised.
       case finalised of None \<Rightarrow> io_return () | Some job \<Rightarrow> writeJobCompletedEvent c job)) (\<lambda>_. io_return ())"

definition redispatch_orphaned :: "batch_call \<Rightarrow> batch_job \<Rightarrow> (unit, 'a batch_db_scheme) io" where
  "redispatch_orphaned c job =
     io_catch (io_then (io_read (\<lambda>db. pending_rowIds (bj_id job) (bd_rows db))) (\<lambda>rowIds.
       if rowIds = [] then io_return () else dispatchChunks c (dispatch_of job None rowIds))) (\<lambda>_. io_return ())"

definition reconcile_batches :: "batch_call \<Rightarrow> bool \<Rightarrow> (unit, 'a batch_db_scheme) io" where
  "reconcile_batches c running =
     (if running then io_return ()
      else io_catch
        (io_then (resetStuckRows (bo_now c) (bf_reconciliationWindowMs (bo_config c))) (\<lambda>_.
         io_then (io_step (\<lambda>db. let (n, jobs) = recountJobCounters (bd_rows db) (bd_jobs db) in (n, db\<lparr>bd_jobs := jobs\<rparr>))) (\<lambda>_.
         io_then (io_then (io_read (\<lambda>db. findCompletableJobs (bd_rows db) (bd_jobs db))) (io_for (finalise_completed c))) (\<lambda>_.
         io_then (io_read (\<lambda>db. findResumableJobs (bd_rows db) (bd_jobs db))) (io_for (redispatch_orphaned c))))))
        (\<lambda>_. io_return ()))"

end
