(* ===== verification/Batch_Properties.thy ===== *)
theory Batch_Properties
  imports Batch_UseCases
begin

text \<open>
  What batch operations guarantee. The statements of the pipeline are the moves of a step relation, so
  their results hold for every interleaving of workers, requests and reconciliations; the programs are
  shown to be sequences of such moves.
\<close>

section \<open>The invariant\<close>

abbreviation row_settled :: "batch_row \<Rightarrow> bool" where
  "row_settled r \<equiv> br_status r \<in> {BR_SUCCESS, BR_FAILED, BR_SKIPPED}"

definition batch_ok :: "'a batch_db_scheme \<Rightarrow> bool" where
  "batch_ok db \<longleftrightarrow> distinct (map bj_id (bd_jobs db)) \<and> distinct (map br_id (bd_rows db)) \<and>
     (\<forall>r \<in> set (bd_rows db). \<exists>q \<in> set (bd_jobs db). bj_id q = br_jobId r) \<and>
     (\<forall>q \<in> set (bd_jobs db). batch_live (bj_status q) \<longrightarrow> counters_agree (bd_rows db) q)"

definition row_step :: "batch_row \<Rightarrow> batch_row \<Rightarrow> bool" where
  "row_step r r' \<longleftrightarrow> br_id r' = br_id r \<and> br_jobId r' = br_jobId r \<and> br_entityId r' = br_entityId r \<and>
     br_tenantId r' = br_tenantId r \<and> br_claimToken r \<le> br_claimToken r' \<and> (row_settled r \<longrightarrow> r' = r)"

definition batch_job_step :: "batch_job \<Rightarrow> batch_job \<Rightarrow> bool" where
  "batch_job_step q q' \<longleftrightarrow> bj_id q' = bj_id q \<and> bj_tenantId q' = bj_tenantId q \<and> bj_totalRecords q' = bj_totalRecords q \<and>
     (batch_live (bj_status q) \<or> bj_status q' = bj_status q) \<and> (bj_cancelRequested q \<longrightarrow> bj_cancelRequested q')"

definition batch_evolves :: "'a batch_db_scheme \<Rightarrow> 'a batch_db_scheme \<Rightarrow> bool" where
  "batch_evolves db db' \<longleftrightarrow> (batch_ok db \<longrightarrow> batch_ok db' \<and>
     (\<forall>r \<in> set (bd_rows db). \<exists>r' \<in> set (bd_rows db'). row_step r r') \<and>
     (\<forall>q \<in> set (bd_jobs db). \<exists>q' \<in> set (bd_jobs db'). batch_job_step q q'))"

lemma row_step_refl [simp]: "row_step r r"
  by (simp add: row_step_def)

lemma batch_job_step_refl [simp]: "batch_job_step q q"
  by (simp add: batch_job_step_def)

lemma row_step_trans: "row_step r r' \<Longrightarrow> row_step r' r'' \<Longrightarrow> row_step r r''"
  by (auto simp: row_step_def)

lemma batch_job_step_trans: "batch_job_step q q' \<Longrightarrow> batch_job_step q' q'' \<Longrightarrow> batch_job_step q q''"
  by (auto simp: batch_job_step_def)

lemma batch_evolves_refl [simp]: "batch_evolves db db"
  by (auto simp: batch_evolves_def intro: row_step_refl batch_job_step_refl)

lemma batch_evolves_trans: "batch_evolves db1 db2 \<Longrightarrow> batch_evolves db2 db3 \<Longrightarrow> batch_evolves db1 db3"
  unfolding batch_evolves_def by (meson row_step_trans batch_job_step_trans)

lemma unique_batch_row: "batch_ok db \<Longrightarrow> r \<in> set (bd_rows db) \<Longrightarrow> r' \<in> set (bd_rows db) \<Longrightarrow> br_id r = br_id r' \<Longrightarrow> r = r'"
  unfolding batch_ok_def distinct_map by (blast dest: inj_onD)

lemma unique_batch_job: "batch_ok db \<Longrightarrow> q \<in> set (bd_jobs db) \<Longrightarrow> q' \<in> set (bd_jobs db) \<Longrightarrow> bj_id q = bj_id q' \<Longrightarrow> q = q'"
  unfolding batch_ok_def distinct_map by (blast dest: inj_onD)

lemma ok_agree: "batch_ok db \<Longrightarrow> q \<in> set (bd_jobs db) \<Longrightarrow> batch_live (bj_status q) \<Longrightarrow> counters_agree (bd_rows db) q"
  unfolding batch_ok_def by blast

lemma findJob_Some: "findJob j jobs = Some q \<Longrightarrow> q \<in> set jobs \<and> bj_id q = j"
  by (auto simp: findJob_def find_first_def find_Some_iff)

lemma findJob_None: "findJob j jobs = None \<longleftrightarrow> (\<forall>q \<in> set jobs. bj_id q \<noteq> j)"
  by (auto simp: findJob_def find_first_def find_None_iff)

section \<open>Counting\<close>

lemma count_rows_map:
  assumes "\<And>r. br_jobId (f r) = br_jobId r"
    and "\<And>r. r \<in> set rows \<Longrightarrow> p r \<Longrightarrow> br_jobId r = j \<Longrightarrow> br_status (f r) \<in> ss \<longleftrightarrow> br_status r \<in> ss"
  shows "count_rows j ss (map_where p f rows) = count_rows j ss rows"
  using assms(2) unfolding count_rows_def map_where_def
proof (induction rows)
  case (Cons r rows)
  then show ?case using assms(1) [of r] by (cases "p r") auto
qed simp

lemma count_rows_one:
  assumes "distinct (map br_id rows)" "r \<in> set rows" "p r" "\<And>q. q \<in> set rows \<Longrightarrow> p q \<Longrightarrow> br_id q = br_id r"
    and "br_jobId (f r) = br_jobId r" "br_status r \<notin> ss"
  shows "count_rows j ss (map_where p f rows) =
    count_rows j ss rows + (if br_jobId r = j \<and> br_status (f r) \<in> ss then 1 else 0)"
proof -
  from assms(2) obtain xs ys where rows: "rows = xs @ r # ys" by (meson split_list)
  with assms(1) have "\<forall>q \<in> set xs \<union> set ys. br_id q \<noteq> br_id r" by (auto simp: image_iff)
  with assms(4) rows have "\<forall>q \<in> set xs \<union> set ys. \<not> p q" by auto
  then have "map_where p f rows = xs @ f r # ys"
    using assms(3) by (simp add: rows map_where_def map_idI)
  then show ?thesis using assms(5,6) by (simp add: count_rows_def rows)
qed

lemma agree_map:
  assumes "\<And>r. r \<in> set rows \<Longrightarrow> p r \<Longrightarrow> br_jobId r = bj_id q \<Longrightarrow> \<not> row_settled r \<and> \<not> row_settled (f r)"
    and "\<And>r. br_jobId (f r) = br_jobId r"
  shows "counters_agree (map_where p f rows) q \<longleftrightarrow> counters_agree rows q"
proof -
  have "count_rows (bj_id q) ss (map_where p f rows) = count_rows (bj_id q) ss rows"
    if "ss \<subseteq> {BR_SUCCESS, BR_FAILED, BR_SKIPPED}" for ss
    using assms that by (intro count_rows_map) blast+
  then show ?thesis by (simp add: counters_agree_def)
qed

lemma agree_jobs: "bj_id q' = bj_id q \<Longrightarrow> bj_processedRecords q' = bj_processedRecords q \<Longrightarrow> bj_successRecords q' = bj_successRecords q \<Longrightarrow>
   bj_failedRecords q' = bj_failedRecords q \<Longrightarrow> bj_skippedRecords q' = bj_skippedRecords q \<Longrightarrow>
   counters_agree rows q' \<longleftrightarrow> counters_agree rows q"
  by (simp add: counters_agree_def)

section \<open>Statements\<close>

text \<open>A statement that changes rows in place and settles none of a live job.\<close>

lemma batch_evolve_rows:
  assumes "\<And>r. r \<in> set (bd_rows db) \<Longrightarrow> p r \<Longrightarrow> row_step r (f r)"
    and "\<And>r. br_jobId (f r) = br_jobId r"
    and "\<And>r. r \<in> set (bd_rows db) \<Longrightarrow> p r \<Longrightarrow> \<not> row_settled r \<and> (row_settled (f r) \<longrightarrow> job_has_ended (bd_jobs db) r)"
  shows "batch_evolves db (db\<lparr>bd_rows := map_where p f (bd_rows db)\<rparr>)"
  unfolding batch_evolves_def
proof (intro impI conjI)
  assume ok: "batch_ok db"
  have ids: "map br_id (map_where p f (bd_rows db)) = map br_id (bd_rows db)"
    unfolding map_where_def using assms(1) by (auto simp: row_step_def)
  have "counters_agree (map_where p f (bd_rows db)) q" if q: "q \<in> set (bd_jobs db)" "batch_live (bj_status q)" for q
  proof -
    have "\<not> job_has_ended (bd_jobs db) r" if "br_jobId r = bj_id q" for r
      using unique_batch_job [OF ok _ q(1)] that q(2) by (auto simp: job_has_ended_def)
    then have "counters_agree (map_where p f (bd_rows db)) q \<longleftrightarrow> counters_agree (bd_rows db) q"
      using assms(2,3) by (intro agree_map) blast+
    with ok_agree [OF ok q] show ?thesis by simp
  qed
  then show "batch_ok (db\<lparr>bd_rows := map_where p f (bd_rows db)\<rparr>)"
    using ok assms(2) ids by (auto simp: batch_ok_def set_map_where)
  show "\<forall>r \<in> set (bd_rows db). \<exists>r' \<in> set (bd_rows (db\<lparr>bd_rows := map_where p f (bd_rows db)\<rparr>)). row_step r r'"
  proof
    fix r assume r: "r \<in> set (bd_rows db)"
    then have "(if p r then f r else r) \<in> set (map_where p f (bd_rows db))" by (auto simp: set_map_where)
    moreover have "row_step r (if p r then f r else r)" using assms(1) r by simp
    ultimately show "\<exists>r' \<in> set (bd_rows (db\<lparr>bd_rows := map_where p f (bd_rows db)\<rparr>)). row_step r r'" by auto
  qed
qed (auto intro: batch_job_step_refl)

text \<open>A statement that changes jobs in place and leaves the counters of those that stay live.\<close>

lemma evolve_batch_jobs:
  assumes "\<And>q. q \<in> set (bd_jobs db) \<Longrightarrow> p q \<Longrightarrow> batch_job_step q (f q)"
    and "\<And>q. q \<in> set (bd_jobs db) \<Longrightarrow> p q \<Longrightarrow> batch_live (bj_status (f q)) \<Longrightarrow> counters_agree (bd_rows db) q \<Longrightarrow> counters_agree (bd_rows db) (f q)"
  shows "batch_evolves db (db\<lparr>bd_jobs := map_where p f (bd_jobs db)\<rparr>)"
  unfolding batch_evolves_def
proof (intro impI conjI)
  assume ok: "batch_ok db"
  have ids: "map bj_id (map_where p f (bd_jobs db)) = map bj_id (bd_jobs db)"
    unfolding map_where_def using assms(1) by (auto simp: batch_job_step_def)
  then have job_ids: "bj_id ` set (map_where p f (bd_jobs db)) = bj_id ` set (bd_jobs db)"
    by (metis list.set_map)
  have step: "\<exists>q' \<in> set (map_where p f (bd_jobs db)). batch_job_step q q'" if q: "q \<in> set (bd_jobs db)" for q
  proof -
    have "(if p q then f q else q) \<in> set (map_where p f (bd_jobs db))" using q by (auto simp: set_map_where)
    moreover have "batch_job_step q (if p q then f q else q)" using assms(1) q by simp
    ultimately show ?thesis by blast
  qed
  then show "\<forall>q \<in> set (bd_jobs db). \<exists>q' \<in> set (bd_jobs (db\<lparr>bd_jobs := map_where p f (bd_jobs db)\<rparr>)). batch_job_step q q'" by simp
  have "counters_agree (bd_rows db) q'" if q': "q' \<in> set (map_where p f (bd_jobs db))" "batch_live (bj_status q')" for q'
  proof -
    from q'(1) consider q where "q \<in> set (bd_jobs db)" "p q" "q' = f q" | "q' \<in> set (bd_jobs db)"
      by (auto simp: set_map_where)
    then show ?thesis
    proof cases
      case 1
      then have "batch_live (bj_status q)" using assms(1) [of q] q'(2) by (auto simp: batch_job_step_def)
      with 1 ok_agree [OF ok 1(1)] q'(2) show ?thesis using assms(2) by blast
    next
      case 2
      with ok_agree [OF ok] q'(2) show ?thesis by blast
    qed
  qed
  moreover have "\<exists>q \<in> set (map_where p f (bd_jobs db)). bj_id q = br_jobId r" if "r \<in> set (bd_rows db)" for r
  proof -
    from ok that obtain q where "q \<in> set (bd_jobs db)" "bj_id q = br_jobId r" by (auto simp: batch_ok_def)
    with step [of q] show ?thesis by (auto simp: batch_job_step_def)
  qed
  ultimately show "batch_ok (db\<lparr>bd_jobs := map_where p f (bd_jobs db)\<rparr>)"
    using ok ids by (simp add: batch_ok_def)
qed (auto intro: row_step_refl)

section \<open>The moves\<close>

lemma job_is_not_ended: "batch_ok db \<Longrightarrow> r \<in> set (bd_rows db) \<Longrightarrow> job_is_live (bd_jobs db) r \<longleftrightarrow> \<not> job_has_ended (bd_jobs db) r"
  unfolding job_is_live_def job_has_ended_def batch_ok_def distinct_map by (metis inj_onD)

lemma claim_rows: "snd (claimRow now i rows) = map_where (\<lambda>r. br_id r = i \<and> br_status r = BR_PENDING) (taken_row now) rows"
  by (simp add: claimRow_def Let_def update_many_def)

lemma batch_evolve_claim: "batch_evolves db (db\<lparr>bd_rows := snd (claimRow now i (bd_rows db))\<rparr>)"
  unfolding claim_rows by (rule batch_evolve_rows) (auto simp: row_step_def taken_row_def)

lemma batch_evolve_release: "batch_evolves db (db\<lparr>bd_rows := snd (release_stuck now ms (bd_jobs db) (bd_rows db))\<rparr>)"
  unfolding release_stuck_def update_many_def snd_conv by (rule batch_evolve_rows) (auto simp: row_step_def)

lemma batch_evolve_abandon: "batch_evolves db (db\<lparr>bd_rows := abandon_stuck now (bd_jobs db) (bd_rows db)\<rparr>)"
  unfolding abandon_stuck_def update_many_def snd_conv by (rule batch_evolve_rows) (auto simp: row_step_def)

lemma batch_evolve_running: "batch_evolves db (db\<lparr>bd_jobs := markJobRunning now j (bd_jobs db)\<rparr>)"
  unfolding markJobRunning_def update_many_def snd_conv
  by (rule evolve_batch_jobs) (auto simp: batch_job_step_def counters_agree_def)

lemma batch_evolve_end:
  assumes "batch_terminal s"
  shows "batch_evolves db (db\<lparr>bd_jobs := snd (set_batch_status now j s (bd_jobs db))\<rparr>)"
  unfolding set_batch_status_def update_many_def snd_conv
  using assms by (intro evolve_batch_jobs) (auto simp: batch_job_step_def batch_terminal_def)

lemma batch_evolve_recount: "batch_evolves db (db\<lparr>bd_jobs := snd (recountJobCounters (bd_rows db) (bd_jobs db))\<rparr>)"
  unfolding recountJobCounters_def update_many_def snd_conv
  by (rule evolve_batch_jobs) (auto simp: batch_job_step_def counters_agree_def)

lemma batch_evolve_cancel_request: "batch_evolves db (snd (setCancelRequested j db))"
proof (cases "findJob j (bd_jobs db)")
  case None
  then show ?thesis by (simp add: setCancelRequested_def)
next
  case (Some q)
  have "batch_evolves db (db\<lparr>bd_jobs := map_where (\<lambda>q. bj_id q = j) (\<lambda>q. q\<lparr>bj_cancelRequested := True\<rparr>) (bd_jobs db)\<rparr>)"
    by (rule evolve_batch_jobs) (auto simp: batch_job_step_def counters_agree_def)
  with Some show ?thesis by (simp add: setCancelRequested_def)
qed

text \<open>Settling: the row belongs to the job whose counters are raised.\<close>

lemma settle_cases:
  assumes "batch_ok db" "settle_tx c i j token s db = Inr (b, db')"
  obtains (miss) "db' = db" "\<not> b"
  | (hit) r w q where "b" "r \<in> set (bd_rows db)" "br_owned i token r" "findJob j (bd_jobs db) = Some q"
    "db' = db\<lparr>bd_rows := map_where (br_owned i token) (settled_batch_row (bo_now c) w s token) (bd_rows db),
       bd_jobs := map_where (\<lambda>q. bj_id q = j) (counted_job (se_outcome s)) (bd_jobs db)\<rparr>"
proof -
  from assms(2) obtain w where run:
    "(let (n, rows) = update_many (br_owned i token) (settled_batch_row (bo_now c) w s token) (bd_rows db)
      in if n \<noteq> 1 then Inr (False, db\<lparr>bd_rows := rows\<rparr>)
         else if findJob j (bd_jobs db) = None then throw_plain ''No record was found for an update''
         else Inr (True, db\<lparr>bd_rows := rows, bd_jobs := map_where (\<lambda>q. bj_id q = j) (counted_job (se_outcome s)) (bd_jobs db)\<rparr>))
     = Inr (b, db')"
    by (auto simp: settle_tx_def tx_then_Inr)
  show thesis
  proof (cases "\<exists>r \<in> set (bd_rows db). br_owned i token r")
    case False
    then have "update_many (br_owned i token) (settled_batch_row (bo_now c) w s token) (bd_rows db) = (0, bd_rows db)"
      by (intro update_many_miss) blast
    with run have "db' = db \<and> \<not> b" by auto
    then show thesis using miss by blast
  next
    case True
    then obtain r where r: "r \<in> set (bd_rows db)" "br_owned i token r" by blast
    then obtain xs ys where rows: "bd_rows db = xs @ r # ys" by (meson split_list)
    have "\<forall>q \<in> set xs \<union> set ys. br_id q \<noteq> br_id r"
      using assms(1) by (auto simp: batch_ok_def rows image_iff)
    then have "\<forall>q \<in> set xs \<union> set ys. \<not> br_owned i token q" using r(2) by (auto simp: cas_hit_def)
    then have "length (filter (br_owned i token) (bd_rows db)) = 1" using r(2) by (simp add: rows filter_False)
    with run obtain q where "findJob j (bd_jobs db) = Some q" "b"
      "db' = db\<lparr>bd_rows := map_where (br_owned i token) (settled_batch_row (bo_now c) w s token) (bd_rows db),
         bd_jobs := map_where (\<lambda>q. bj_id q = j) (counted_job (se_outcome s)) (bd_jobs db)\<rparr>"
      by (auto simp: update_many_def split: if_splits)
    then show thesis using hit r by blast
  qed
qed

lemma settle_counts:
  assumes "batch_ok db" "r \<in> set (bd_rows db)" "br_owned i token r" "br_jobId r = j" "q \<in> set (bd_jobs db)"
    "counters_agree (bd_rows db) q"
  shows "counters_agree (map_where (br_owned i token) (settled_batch_row now w s token) (bd_rows db))
    (if bj_id q = j then counted_job (se_outcome s) q else q)"
proof -
  have one: "count_rows k ss (map_where (br_owned i token) (settled_batch_row now w s token) (bd_rows db)) =
      count_rows k ss (bd_rows db) + (if j = k \<and> outcome_status (se_outcome s) \<in> ss then 1 else 0)" if "BR_PROCESSING \<notin> ss" for k ss
  proof -
    have "count_rows k ss (map_where (br_owned i token) (settled_batch_row now w s token) (bd_rows db)) =
      count_rows k ss (bd_rows db) + (if br_jobId r = k \<and> br_status (settled_batch_row now w s token r) \<in> ss then 1 else 0)"
      using assms(1-3) that by (intro count_rows_one) (auto simp: batch_ok_def cas_hit_def settled_batch_row_def)
    with assms(4) show ?thesis by (simp add: settled_batch_row_def)
  qed
  show ?thesis
    using assms(6) by (cases "se_outcome s")
      (auto simp: counters_agree_def one counted_job_def outcome_status_def Let_def)
qed

lemma batch_evolve_settle_tx:
  assumes own: "\<And>r. r \<in> set (bd_rows db) \<Longrightarrow> br_id r = i \<Longrightarrow> br_jobId r = j"
    and run: "settle_tx c i j token s db = Inr (b, db')"
  shows "batch_evolves db db'"
proof (cases "batch_ok db")
  case ok: True
  from ok run show ?thesis
  proof (cases rule: settle_cases)
    case miss
    then show ?thesis by (auto simp: batch_evolves_def intro: row_step_refl batch_job_step_refl)
  next
    case (hit r w q)
    then have j: "br_jobId r = j" using own by (simp add: cas_hit_def)
    let ?f = "settled_batch_row (bo_now c) w s token" and ?g = "counted_job (se_outcome s)"
    let ?rows = "map_where (br_owned i token) ?f (bd_rows db)" and ?jobs = "map_where (\<lambda>q. bj_id q = j) ?g (bd_jobs db)"
    have g: "bj_id (?g q) = bj_id q" "bj_status (?g q) = bj_status q" "batch_job_step q (?g q)" for q
      by (cases "se_outcome s"; simp add: counted_job_def Let_def batch_job_step_def)+
    have ids: "map br_id ?rows = map br_id (bd_rows db)" "map bj_id ?jobs = map bj_id (bd_jobs db)"
      using g by (simp_all add: map_where_def settled_batch_row_def)
    have agree: "counters_agree ?rows q'" if "q' \<in> set ?jobs" "batch_live (bj_status q')" for q'
    proof -
      from that(1) obtain q where q: "q \<in> set (bd_jobs db)" "q' = (if bj_id q = j then ?g q else q)"
        by (auto simp: set_map_where)
      with that(2) g have "counters_agree (bd_rows db) q" by (intro ok_agree [OF ok]) (auto split: if_splits)
      then show ?thesis unfolding q(2) by (rule settle_counts [OF ok hit(2,3) j q(1)])
    qed
    have homes: "\<exists>q \<in> set ?jobs. bj_id q = br_jobId r'" if "r' \<in> set ?rows" for r'
    proof -
      from that obtain r0 where "r0 \<in> set (bd_rows db)" "br_jobId r' = br_jobId r0"
        by (auto simp: set_map_where settled_batch_row_def)
      then have "br_jobId r' \<in> bj_id ` set (bd_jobs db)" using ok unfolding batch_ok_def by (metis image_eqI)
      also have "bj_id ` set (bd_jobs db) = bj_id ` set ?jobs" using ids(2) by (metis list.set_map)
      finally show ?thesis by auto
    qed
    have "batch_ok db'" unfolding batch_ok_def hit(5) using ok ids agree homes by (simp add: batch_ok_def)
    moreover have "\<exists>r' \<in> set (bd_rows db'). row_step r0 r'" if "r0 \<in> set (bd_rows db)" for r0
    proof -
      have "(if br_owned i token r0 then ?f r0 else r0) \<in> set (bd_rows db')" using that by (auto simp: hit(5) set_map_where)
      moreover have "row_step r0 (if br_owned i token r0 then ?f r0 else r0)"
        by (simp add: row_step_def settled_batch_row_def cas_hit_def)
      ultimately show ?thesis by blast
    qed
    moreover have "\<exists>q' \<in> set (bd_jobs db'). batch_job_step q0 q'" if "q0 \<in> set (bd_jobs db)" for q0
    proof -
      have "(if bj_id q0 = j then ?g q0 else q0) \<in> set (bd_jobs db')" using that by (auto simp: hit(5) set_map_where)
      moreover have "batch_job_step q0 (if bj_id q0 = j then ?g q0 else q0)" using g by simp
      ultimately show ?thesis by blast
    qed
    ultimately show ?thesis unfolding batch_evolves_def by blast
  qed
qed (simp add: batch_evolves_def)

lemma batch_evolve_settle:
  assumes "\<And>r. r \<in> set (bd_rows db) \<Longrightarrow> br_id r = i \<Longrightarrow> br_jobId r = j"
  shows "batch_evolves db (snd (settleRow c i j token s db))"
proof -
  have step: "batch_evolves db db'" if "settle_tx c i j token s db = Inr (b, db')" for b db'
    using assms that by (rule batch_evolve_settle_tx)
  show ?thesis by (cases "settle_tx c i j token s db") (auto simp: settleRow_def transactional_def dest: step)
qed

text \<open>Creating a job with its rows.\<close>

definition grows :: "string \<Rightarrow> 'a batch_db_scheme \<Rightarrow> 'a batch_db_scheme \<Rightarrow> bool" where
  "grows j db db' \<longleftrightarrow> (batch_ok db \<and> (\<exists>q \<in> set (bd_jobs db). bj_id q = j) \<longrightarrow> batch_ok db' \<and> bd_jobs db' = bd_jobs db \<and>
     set (bd_rows db) \<subseteq> set (bd_rows db') \<and> bd_queue db' = bd_queue db)"

interpretation growing: tx_relation "grows j :: 'a batch_db_scheme \<Rightarrow> 'a batch_db_scheme \<Rightarrow> bool" for j
  by unfold_locales (auto simp: grows_def)

lemma count_rows_insert: "br_status r \<notin> ss \<Longrightarrow> count_rows j ss (insert_row r rows) = count_rows j ss rows"
  by (simp add: count_rows_def insert_row_def)

lemma grows_row: "tx_rel (grows j) (insert_batch_row c j t i)"
proof (rule tx_relI)
  fix db x db' assume "insert_batch_row c j t i db = Inr (x, db')"
  then obtain n where db': "db' = db\<lparr>pf_drawn := pf_drawn db + 1, bd_rows := insert_row (new_batch_row c j t n i) (bd_rows db)\<rparr>"
    and fresh: "\<forall>r \<in> set (bd_rows db). br_id r \<noteq> n"
    by (auto simp: insert_batch_row_def tx_then_Inr draw_uuid_def split: if_splits)
  have agree: "counters_agree (insert_row (new_batch_row c j t n i) (bd_rows db)) q \<longleftrightarrow> counters_agree (bd_rows db) q" for q
    by (simp add: counters_agree_def count_rows_insert new_batch_row_def)
  show "grows j db db'"
    unfolding grows_def
  proof (intro impI conjI)
    assume ok: "batch_ok db \<and> (\<exists>q \<in> set (bd_jobs db). bj_id q = j)"
    have ids: "distinct (map br_id (bd_rows db'))" "\<forall>r \<in> set (bd_rows db'). \<exists>q \<in> set (bd_jobs db'). bj_id q = br_jobId r"
      using ok fresh by (auto simp: batch_ok_def db' insert_row_def new_batch_row_def)
    then show "batch_ok db'" using ok unfolding batch_ok_def by (simp add: db' agree)
  qed (auto simp: db' insert_row_def)
qed

lemma create_result:
  assumes "createJobWithRows c n ids db = (Inr (job, rs), db')" and ok: "batch_ok db"
  shows "batch_ok db' \<and> bd_jobs db' = insert_row job (bd_jobs db) \<and> set (bd_rows db) \<subseteq> set (bd_rows db') \<and>
    bd_queue db' = bd_queue db \<and> (\<forall>q \<in> set (bd_jobs db). bj_id q \<noteq> bj_id job)"
proof -
  from assms(1) obtain db1 u where ins: "insert_batch_job c n (length ids) db = Inr (job, db1)"
    and rows: "tx_for (insert_batch_row c (bj_id job) (nj_tenantId n)) ids db1 = Inr (u, db')"
    by (auto simp: createJobWithRows_def transactional_def tx_then_Inr split: sum.splits)
  from ins have db1: "bd_rows db1 = bd_rows db" "bd_jobs db1 = insert_row job (bd_jobs db)" "bd_queue db1 = bd_queue db"
    and fresh: "\<forall>q \<in> set (bd_jobs db). bj_id q \<noteq> bj_id job" and zero: "bj_processedRecords job = 0" "bj_successRecords job = 0"
      "bj_failedRecords job = 0" "bj_skippedRecords job = 0"
    by (auto simp: insert_batch_job_def tx_then_Inr draw_uuid_def Let_def split: if_splits)
  have "\<forall>r \<in> set (bd_rows db). br_jobId r \<noteq> bj_id job" using ok fresh by (force simp: batch_ok_def)
  then have none: "count_rows (bj_id job) ss (bd_rows db) = 0" for ss
    by (simp add: count_rows_def filter_empty_conv)
  then have "counters_agree (bd_rows db) job" by (simp add: counters_agree_def zero)
  then have "\<forall>q \<in> set (bd_jobs db1). batch_live (bj_status q) \<longrightarrow> counters_agree (bd_rows db1) q"
    using ok_agree [OF ok] by (auto simp: db1 insert_row_def)
  moreover have "\<forall>r \<in> set (bd_rows db1). \<exists>q \<in> set (bd_jobs db1). bj_id q = br_jobId r"
    using ok by (auto simp: batch_ok_def db1 insert_row_def)
  moreover have "distinct (map bj_id (bd_jobs db1))" using ok fresh by (auto simp: batch_ok_def db1 insert_row_def)
  ultimately have "batch_ok db1" using ok unfolding batch_ok_def by (simp add: db1)
  moreover have "grows (bj_id job) db1 db'"
    by (rule tx_relD [OF growing.rel_for rows]) (rule grows_row)
  ultimately show ?thesis using fresh by (auto simp: grows_def db1 insert_row_def)
qed

lemma create_evolves: "batch_evolves db (snd (createJobWithRows c n ids db))"
proof (cases "createJobWithRows c n ids db")
  case (Pair res db')
  show ?thesis
  proof (cases res)
    case (Inl er)
    with Pair have "db' = db" by (auto simp: createJobWithRows_def transactional_def split: sum.splits)
    with Pair show ?thesis by simp
  next
    case (Inr x)
    obtain job rs where "x = (job, rs)" by (cases x)
    with Pair Inr create_result have "batch_ok db \<longrightarrow> batch_ok db' \<and> bd_jobs db' = insert_row job (bd_jobs db) \<and>
        set (bd_rows db) \<subseteq> set (bd_rows db')" by blast
    then have "batch_evolves db db'"
      unfolding batch_evolves_def insert_row_def using row_step_refl batch_job_step_refl by fastforce
    then show ?thesis using Pair by simp
  qed
qed

text \<open>
  One statement of a worker, a request or the reconciliation, in any interleaving; \<open>Batch_other\<close> is
  everything that leaves the two tables alone.
\<close>

inductive batch_move :: "'a batch_db_scheme \<Rightarrow> 'a batch_db_scheme \<Rightarrow> bool" where
  Batch_create: "batch_move db (snd (createJobWithRows c n ids db))"
| Batch_running: "batch_move db (db\<lparr>bd_jobs := markJobRunning now j (bd_jobs db)\<rparr>)"
| Batch_end: "batch_terminal s \<Longrightarrow> batch_move db (db\<lparr>bd_jobs := snd (set_batch_status now j s (bd_jobs db))\<rparr>)"
| Batch_recount: "batch_move db (db\<lparr>bd_jobs := snd (recountJobCounters (bd_rows db) (bd_jobs db))\<rparr>)"
| Batch_cancel: "batch_move db (snd (setCancelRequested j db))"
| Batch_claim: "batch_move db (db\<lparr>bd_rows := snd (claimRow now i (bd_rows db))\<rparr>)"
| Batch_settle: "(\<And>r. r \<in> set (bd_rows db) \<Longrightarrow> br_id r = i \<Longrightarrow> br_jobId r = j) \<Longrightarrow> batch_move db (snd (settleRow c i j token s db))"
| Batch_release: "batch_move db (db\<lparr>bd_rows := snd (release_stuck now ms (bd_jobs db) (bd_rows db))\<rparr>)"
| Batch_abandon: "batch_move db (db\<lparr>bd_rows := abandon_stuck now (bd_jobs db) (bd_rows db)\<rparr>)"
| Batch_other: "bd_jobs db' = bd_jobs db \<Longrightarrow> bd_rows db' = bd_rows db \<Longrightarrow> batch_move db db'"

lemma batch_move_evolves: "batch_move db db' \<Longrightarrow> batch_evolves db db'"
proof (induction rule: batch_move.induct)
  case (Batch_other db' db)
  then show ?case by (auto simp: batch_evolves_def batch_ok_def intro: row_step_refl batch_job_step_refl)
qed (simp_all add: create_evolves batch_evolve_running batch_evolve_end batch_evolve_recount batch_evolve_cancel_request batch_evolve_claim batch_evolve_settle
  batch_evolve_release batch_evolve_abandon)

lemma batch_moves_evolve: "batch_move\<^sup>*\<^sup>* db db' \<Longrightarrow> batch_evolves db db'"
  by (induction rule: rtranclp_induct) (auto intro: batch_evolves_trans batch_move_evolves)

text \<open>
  C14. The counters of a job that has not ended are the numbers of its settled, successful, failed and
  skipped rows, under every interleaving of workers, requests and reconciliations; so the recount of
  the reconciliation never finds anything to repair.
\<close>
theorem batch_counters_are_row_truth:
  assumes "batch_move\<^sup>*\<^sup>* db db'" "batch_ok db"
  shows "(\<forall>q \<in> set (bd_jobs db'). \<not> batch_terminal (bj_status q) \<longrightarrow>
      bj_processedRecords q = count_rows (bj_id q) {BR_SUCCESS, BR_FAILED, BR_SKIPPED} (bd_rows db') \<and>
      bj_successRecords q = count_rows (bj_id q) {BR_SUCCESS} (bd_rows db') \<and>
      bj_failedRecords q = count_rows (bj_id q) {BR_FAILED} (bd_rows db') \<and>
      bj_skippedRecords q = count_rows (bj_id q) {BR_SKIPPED} (bd_rows db')) \<and>
    recountJobCounters (bd_rows db') (bd_jobs db') = (0, bd_jobs db')"
proof -
  have ok: "batch_ok db'" using batch_moves_evolve [OF assms(1)] assms(2) by (simp add: batch_evolves_def)
  have "batch_live s \<longleftrightarrow> \<not> batch_terminal s" for s by (cases s) (simp_all add: batch_terminal_def)
  moreover have "recountJobCounters (bd_rows db') (bd_jobs db') = (0, bd_jobs db')"
    unfolding recountJobCounters_def by (rule update_many_miss) (use ok_agree [OF ok] in blast)
  ultimately show ?thesis using ok_agree [OF ok] by (simp add: counters_agree_def)
qed

text \<open>
  C15. The outcome of a row is final: once a row is settled no worker, request or reconciliation changes
  anything of it, and a settlement with any claim token is refused.
\<close>
theorem settled_row_is_final:
  assumes "batch_move\<^sup>*\<^sup>* db db'" "batch_ok db" "r \<in> set (bd_rows db)" "br_status r \<in> {BR_SUCCESS, BR_FAILED, BR_SKIPPED}"
  shows "r \<in> set (bd_rows db') \<and> fst (claimRow now (br_id r) (bd_rows db')) = None \<and>
    (\<forall>db''. settleRow c (br_id r) j token s db' \<noteq> (Inr True, db''))"
proof -
  have ok: "batch_ok db'" and "\<exists>r' \<in> set (bd_rows db'). row_step r r'"
    using batch_moves_evolve [OF assms(1)] assms(2,3) by (auto simp: batch_evolves_def)
  with assms(4) have r: "r \<in> set (bd_rows db')" by (auto simp: row_step_def)
  have only: "q = r" if "q \<in> set (bd_rows db')" "br_id q = br_id r" for q
    using unique_batch_row [OF ok that(1) r that(2)] .
  have "\<not> (br_id q = br_id r \<and> br_status q = BR_PENDING)" if "q \<in> set (bd_rows db')" for q
    using only [OF that] assms(4) by auto
  then have "find_first (\<lambda>q. br_id q = br_id r \<and> br_status q = BR_PENDING) (bd_rows db') = None"
    by (auto simp: find_first_def find_None_iff)
  then have "fst (claimRow now (br_id r) (bd_rows db')) = None" by (simp add: claimRow_def Let_def)
  moreover have "settleRow c (br_id r) j token s db' \<noteq> (Inr True, db'')" for db''
  proof
    assume "settleRow c (br_id r) j token s db' = (Inr True, db'')"
    then have "settle_tx c (br_id r) j token s db' = Inr (True, db'')"
      by (auto simp: settleRow_def transactional_def split: sum.splits)
    with ok show False
    proof (cases rule: settle_cases)
      case (hit q w k)
      then have "q = r" using only by (simp add: cas_hit_def)
      with hit assms(4) show ?thesis by (auto simp: cas_hit_def)
    qed simp
  qed
  ultimately show ?thesis using r by blast
qed

section \<open>The worker, over the laws of its statements\<close>

text \<open>Handlers work on business tables: they leave the tables and the queue of the pipeline alone.\<close>

definition same_batches :: "'a batch_db_scheme \<Rightarrow> 'a batch_db_scheme \<Rightarrow> bool" where
  "same_batches db db' \<longleftrightarrow> bd_jobs db' = bd_jobs db \<and> bd_rows db' = bd_rows db \<and> bd_queue db' = bd_queue db"

definition business_handler :: "'a batch_db_scheme batch_handler \<Rightarrow> bool" where
  "business_handler h \<longleftrightarrow> (\<forall>ctx e op ps context. io_rel same_batches (bh_validate h ctx e op ps context) \<and>
     io_rel same_batches (bh_execute h ctx e op ps context))"

text \<open>
  What a relation of states needs of the statements a worker issues for one dispatch; it then holds of
  the whole worker.
\<close>

locale batch_relation = io_relation R for R :: "'a batch_db_scheme \<Rightarrow> 'a batch_db_scheme \<Rightarrow> bool" +
  fixes d :: batch_dispatch
  assumes R_other: "same_batches db db' \<Longrightarrow> R db db'"
    and R_running: "R db (db\<lparr>bd_jobs := markJobRunning now (bp_jobId d) (bd_jobs db)\<rparr>)"
    and R_end: "batch_terminal st \<Longrightarrow> R db (db\<lparr>bd_jobs := snd (set_batch_status now (bp_jobId d) st (bd_jobs db))\<rparr>)"
    and R_claim: "i \<in> set (bp_rowIds d) \<Longrightarrow> R db (db\<lparr>bd_rows := snd (claimRow now i (bd_rows db))\<rparr>)"
    and R_settle: "i \<in> set (bp_rowIds d) \<Longrightarrow> R db (snd (settleRow c i (bp_jobId d) token s db))"
begin

lemma rel_settle: "i \<in> set (bp_rowIds d) \<Longrightarrow> io_rel R (settleRow c i (bp_jobId d) token s)"
  by (simp add: io_rel_def R_settle)

lemma rel_same: "io_rel same_batches m \<Longrightarrow> io_rel R m"
  by (simp add: io_rel_def R_other)

lemma rel_event: "io_rel R (writeJobCompletedEvent c job)"
  by (rule rel_same) (simp add: io_rel_def same_batches_def writeJobCompletedEvent_def transactional_def send_event_def
      tx_then_def draw_uuid_def tx_write_def)

lemma rel_fail_row: "cl_id cl \<in> set (bp_rowIds d) \<Longrightarrow> io_rel R (fail_row c d cl er)"
  unfolding fail_row_def by (intro rel_then rel_return rel_settle)

lemma rel_handler:
  assumes "business_handler h" "cl_id cl \<in> set (bp_rowIds d)"
  shows "io_rel R (runHandler c h ctx cl d context)"
  using assms unfolding runHandler_def
  by (intro rel_catch rel_then rel_if rel_return rel_settle rel_fail_row rel_same) (auto simp: business_handler_def)

lemma rel_claimed:
  assumes "\<And>h. h \<in> snd ` set reg \<Longrightarrow> business_handler h" "cl_id cl \<in> set (bp_rowIds d)"
  shows "io_rel R (process_claimed c reg d cl)"
proof (cases "map_of reg (bp_aggregateType d)")
  case None
  then show ?thesis by (simp add: process_claimed_def resolve_batch_handler_def requireEntry_def io_rel_def R_refl)
next
  case (Some h)
  then have "h \<in> snd ` set reg" by (force dest: map_of_SomeD)
  then have "io_rel R (io_catch (runHandler c h (row_context c d) cl d \<lparr>bc_tenantId = bp_tenantId d, bc_jobId = bp_jobId d,
       bc_requestedBy = bp_requestedBy d, bc_traceId = bp_traceId d\<rparr>) (fail_row c d cl))"
    by (intro rel_catch rel_handler rel_fail_row assms)
  with Some show ?thesis by (simp add: process_claimed_def resolve_batch_handler_def requireEntry_def io_rel_def)
qed

lemma rel_row:
  assumes "\<And>h. h \<in> snd ` set reg \<Longrightarrow> business_handler h" "i \<in> set (bp_rowIds d)"
  shows "io_rel R (processRow c reg d i)"
proof -
  let ?claim = "io_step (\<lambda>db. let (claimed, rows) = claimRow (bo_now c) i (bd_rows db) in (claimed, db\<lparr>bd_rows := rows\<rparr>))"
  have claim: "io_rel R ?claim"
    using R_claim [OF assms(2)] by (simp add: io_rel_def io_step_def Let_def split_beta)
  have same: "\<forall>cl. x = Some cl \<longrightarrow> cl_id cl = i" if "?claim db = (Inr x, db')" for x and db db' :: "'a batch_db_scheme"
    using that by (auto simp: io_step_def Let_def split_beta claimRow_def find_first_def find_Some_iff)
  show ?thesis unfolding processRow_def
    by (intro rel_then [OF rel_read] rel_if rel_return rel_then_on [OF claim same] rel_option rel_then [OF rel_settle]
        rel_claimed assms(1)) (use assms(2) in auto)
qed

lemma rel_rows:
  assumes "\<And>h. h \<in> snd ` set reg \<Longrightarrow> business_handler h" "set ids \<subseteq> set (bp_rowIds d)"
  shows "io_rel R (process_rows c reg d ids)"
  using assms(2)
proof (induction ids)
  case (Cons i ids)
  then show ?case unfolding process_rows.simps
    by (intro rel_then rel_if rel_return rel_row assms(1)) auto
qed (simp only: process_rows.simps rel_return)

lemma rel_finaliseJob:
  assumes "\<And>st db. batch_terminal st \<Longrightarrow> R db (db\<lparr>bd_jobs := snd (set_batch_status now j st (bd_jobs db))\<rparr>)"
  shows "io_rel R (finaliseJob now j)"
proof -
  have "batch_terminal (final_status job)" for job by (simp add: final_status_def batch_terminal_def)
  then have "io_rel R (io_step (\<lambda>db. let (n, jobs) = set_batch_status now j (final_status job) (bd_jobs db)
      in (n, db\<lparr>bd_jobs := jobs\<rparr>)))" for job
    using assms by (simp add: io_rel_def io_step_def Let_def split_beta)
  then show ?thesis unfolding finaliseJob_def by (intro rel_then rel_read rel_option rel_return)
qed

lemma rel_finaliseCancelled:
  assumes "\<And>st db. batch_terminal st \<Longrightarrow> R db (db\<lparr>bd_jobs := snd (set_batch_status now j st (bd_jobs db))\<rparr>)"
  shows "io_rel R (finaliseCancelled now j)"
proof -
  have "io_rel R (io_step (\<lambda>db. let (n, jobs) = set_batch_status now j BJ_CANCELLED (bd_jobs db) in (n, db\<lparr>bd_jobs := jobs\<rparr>)))"
    using assms [of BJ_CANCELLED] by (simp add: io_rel_def io_step_def Let_def split_beta batch_terminal_def)
  then show ?thesis unfolding finaliseCancelled_def by (intro rel_then rel_if rel_read rel_return)
qed

lemma rel_finaliseIfComplete: "io_rel R (finaliseIfComplete c (bp_jobId d))"
proof -
  have found: "\<forall>job. x = Some job \<longrightarrow> bj_id job = bp_jobId d"
    if "io_read (\<lambda>db. findJob (bp_jobId d) (bd_jobs db)) db = (Inr x, db')" for x and db db' :: "'a batch_db_scheme"
    using that findJob_Some by auto
  have decide: "io_rel R (finalise_decision c job)" if "bj_id job = bp_jobId d" for job
    unfolding finalise_decision_def that
    by (intro rel_if rel_then rel_read rel_return rel_finaliseJob rel_finaliseCancelled R_end)
  show ?thesis unfolding finaliseIfComplete_def
  proof (rule rel_then_on [OF rel_read found])
    fix x :: "batch_job option" assume x: "\<forall>job. x = Some job \<longrightarrow> bj_id job = bp_jobId d"
    show "io_rel R (case x of None \<Rightarrow> io_return () | Some job \<Rightarrow> if batch_terminal (bj_status job) then io_return ()
       else io_then (finalise_decision c job) (\<lambda>finalised. case finalised of None \<Rightarrow> io_return ()
          | Some job' \<Rightarrow> io_catch (writeJobCompletedEvent c job') (\<lambda>_. io_return ())))"
    proof (cases x)
      case (Some job)
      with x have "bj_id job = bp_jobId d" by simp
      from decide [OF this] show ?thesis unfolding Some option.case
        by (intro rel_if rel_return rel_then rel_option rel_catch rel_event)
    qed (simp only: option.case rel_return)
  qed
qed

lemma rel_chunk:
  assumes "\<And>h. h \<in> snd ` set reg \<Longrightarrow> business_handler h"
  shows "io_rel R (processChunk c reg d)"
proof -
  have "io_rel R (write_batch_jobs (markJobRunning (bo_now c) (bp_jobId d)))"
    using R_running by (simp add: write_batch_jobs_def io_rel_def)
  then show ?thesis unfolding processChunk_def
    by (intro rel_then rel_rows assms rel_finaliseIfComplete) auto
qed

end

section \<open>The programs are sequences of moves\<close>

definition fits :: "batch_dispatch \<Rightarrow> 'a batch_db_scheme \<Rightarrow> bool" where
  "fits d db \<longleftrightarrow> (\<forall>i \<in> set (bp_rowIds d). \<exists>r \<in> set (bd_rows db). br_id r = i \<and> br_jobId r = bp_jobId d)"

definition moves_for :: "batch_dispatch \<Rightarrow> 'a batch_db_scheme \<Rightarrow> 'a batch_db_scheme \<Rightarrow> bool" where
  "moves_for d db db' \<longleftrightarrow> (batch_ok db \<and> fits d db \<longrightarrow> batch_move\<^sup>*\<^sup>* db db')"

lemma fits_stable:
  assumes "batch_ok db" "fits d db" "batch_move\<^sup>*\<^sup>* db db'"
  shows "batch_ok db' \<and> fits d db'"
proof -
  have steps: "batch_ok db'" "\<forall>r \<in> set (bd_rows db). \<exists>r' \<in> set (bd_rows db'). row_step r r'"
    using batch_moves_evolve [OF assms(3)] assms(1) by (auto simp: batch_evolves_def)
  have "\<exists>r \<in> set (bd_rows db'). br_id r = i \<and> br_jobId r = bp_jobId d" if "i \<in> set (bp_rowIds d)" for i
  proof -
    from assms(2) that obtain r where "r \<in> set (bd_rows db)" "br_id r = i" "br_jobId r = bp_jobId d" by (auto simp: fits_def)
    with steps(2) show ?thesis by (metis row_step_def)
  qed
  with steps(1) show ?thesis by (simp add: fits_def)
qed

lemma fitting_row:
  assumes "batch_ok db" "fits d db" "i \<in> set (bp_rowIds d)" "r \<in> set (bd_rows db)" "br_id r = i"
  shows "br_jobId r = bp_jobId d"
proof -
  from assms(2,3) obtain r' where "r' \<in> set (bd_rows db)" "br_id r' = i" "br_jobId r' = bp_jobId d" by (auto simp: fits_def)
  with unique_batch_row [OF assms(1,4)] assms(5) show ?thesis by auto
qed

lemma moves_forI: "(batch_ok db \<Longrightarrow> fits d db \<Longrightarrow> batch_move db db') \<Longrightarrow> moves_for d db db'"
  by (auto simp: moves_for_def)

interpretation chunk: batch_relation "moves_for d :: 'a batch_db_scheme \<Rightarrow> 'a batch_db_scheme \<Rightarrow> bool" d for d
proof
  fix db1 db2 db3 :: "'a batch_db_scheme"
  show "moves_for d db1 db1" by (simp add: moves_for_def)
  show "moves_for d db1 db3" if "moves_for d db1 db2" "moves_for d db2 db3"
    using that unfolding moves_for_def by (meson fits_stable rtranclp_trans)
  show "moves_for d db1 db2" if "same_batches db1 db2"
    using that by (intro moves_forI Batch_other) (simp_all add: same_batches_def)
  show "moves_for d db1 (snd (settleRow c i (bp_jobId d) token s db1))" if "i \<in> set (bp_rowIds d)" for c i token s
    using that by (intro moves_forI Batch_settle) (rule fitting_row)
qed (auto intro!: moves_forI intro: batch_move.intros)

lemma one_move: "(\<And>db. batch_move db (snd (m db))) \<Longrightarrow> io_rel (moves_for d) m"
  by (simp add: io_rel_def moves_for_def r_into_rtranclp)

lemmas chunk_rules = chunk.rel_return chunk.rel_lift chunk.rel_read chunk.rel_then chunk.rel_if chunk.rel_option chunk.rel_catch
  chunk.rel_for chunk.rel_event

lemma ending_moves: "batch_terminal st \<Longrightarrow> moves_for d db (db\<lparr>bd_jobs := snd (set_batch_status now j st (bd_jobs db))\<rparr>)"
  by (intro moves_forI Batch_end)

lemma enqueue_moves: "io_rel (moves_for d) (enqueue_chunks c d' chunks)"
proof (induction chunks)
  case (Cons x chunks)
  have "io_rel (moves_for d) (io_write (\<lambda>db :: 'a batch_db_scheme. db\<lparr>bd_queue := bd_queue db @ [d'\<lparr>bp_rowIds := x\<rparr>]\<rparr>))"
    by (rule one_move) (simp add: Batch_other)
  with Cons show ?case unfolding enqueue_chunks.simps
    by (cases "bo_queue c (d'\<lparr>bp_rowIds := x\<rparr>)") (simp_all only: sum.case chunk.rel_lift chunk.rel_then)
qed (simp only: enqueue_chunks.simps chunk.rel_return)

lemma reconcile_moves: "io_rel (moves_for d) (reconcile_batches c running)"
proof -
  have "io_rel (moves_for d) (io_step (\<lambda>db. let (n, rows) = release_stuck now ms (bd_jobs db) (bd_rows db) in (n, db\<lparr>bd_rows := rows\<rparr>)))" for now ms
    by (rule one_move) (simp add: io_step_def Let_def split_beta Batch_release)
  moreover have "io_rel (moves_for d) (io_write (\<lambda>db. db\<lparr>bd_rows := abandon_stuck now (bd_jobs db) (bd_rows db)\<rparr>))" for now
    by (rule one_move) (simp add: Batch_abandon)
  ultimately have reset: "io_rel (moves_for d) (resetStuckRows now ms)" for now ms
    unfolding resetStuckRows_def by (intro chunk_rules)
  have "io_rel (moves_for d) (io_step (\<lambda>db. let (n, jobs) = recountJobCounters (bd_rows db) (bd_jobs db) in (n, db\<lparr>bd_jobs := jobs\<rparr>)))"
    by (rule one_move) (simp add: io_step_def Let_def split_beta Batch_recount)
  moreover have "io_rel (moves_for d) (finalise_completed c job)" for job
    unfolding finalise_completed_def by (intro chunk_rules chunk.rel_finaliseJob ending_moves)
  moreover have "io_rel (moves_for d) (redispatch_orphaned c job)" for job
    unfolding redispatch_orphaned_def dispatchChunks_def by (intro chunk_rules enqueue_moves)
  ultimately show ?thesis unfolding reconcile_batches_def
    by (intro chunk_rules reset)
qed

lemma audit_same: "io_rel same_batches (transactional (audit_record e a b i x ch))"
  by (simp add: io_rel_def same_batches_def transactional_def audit_record_def audit_write_def tx_write_def)

lemma cancel_moves: "io_rel (moves_for d) (cancel_batch_job c j t)"
proof -
  have "io_rel (moves_for d) (setCancelRequested j)" by (rule one_move) (rule Batch_cancel)
  then show ?thesis unfolding cancel_batch_job_def batch_job_status_def
    by (intro chunk_rules chunk.rel_same [OF audit_same] chunk.rel_finaliseCancelled ending_moves)
qed

lemma moves_of: "io_rel (moves_for d) m \<Longrightarrow> batch_ok db \<Longrightarrow> fits d db \<Longrightarrow> batch_move\<^sup>*\<^sup>* db (snd (m db))"
  by (auto simp: moves_for_def dest: io_relD)

text \<open>Submitting: what follows the creation of the rows, and how a run can go.\<close>

definition after_create ::
  "batch_call \<Rightarrow> 'a batch_db_scheme batch_handler registry \<Rightarrow> batch_mode \<Rightarrow> batch_job \<Rightarrow> batch_row list \<Rightarrow> batch_dispatch \<Rightarrow>
   (batch_job \<times> batch_row list, 'a batch_db_scheme) io" where
  "after_create c reg mode job rows d =
     (if mode = SYNC
      then io_then (processChunk c reg d) (\<lambda>_. io_read (\<lambda>db. coalesce (findJobWithRows (bj_id job) db) (job, rows)))
      else io_then (io_catch (dispatchChunks c d) (\<lambda>er.
             io_then (write_batch_jobs (markJobFailed (bo_now c) (bj_id job))) (\<lambda>_. io_lift (Inl er)))) (\<lambda>_.
           io_return (job, rows)))"

lemma create_job_cases:
  obtains (refused) er where "create_batch_operation_job c reg input db = (Inl er, db)"
  | (failed) db1 er where "same_batches db db1" "create_batch_operation_job c reg input db = (Inl er, db1)"
  | (created) db1 n ids job rows db2 mode t where "same_batches db db1" "createJobWithRows c n ids db1 = (Inr (job, rows), db2)"
    "create_batch_operation_job c reg input db = after_create c reg mode job rows (dispatch_of job t (map br_id rows)) db2"
proof (cases "check_submit c reg input (coalesce_opt (bs_tenantId input) (ctx_tenantId (e_ctx (bo_env c))))")
  case (Inl er)
  then show ?thesis by (intro refused) (simp add: create_batch_operation_job_def Let_def io_then_def)
next
  case (Inr entityIds)
  obtain no db1 where no: "transactional (nextNumber (bo_env c) JOB_NUMBER_SEQUENCE (Some ''BATCH-'') (Some 6)) db = (Inr no, db1)"
    and db1: "same_batches db db1"
    by (auto simp: transactional_def nextNumber_def Let_def same_batches_def split_beta)
  let ?mode = "if length entityIds \<le> bf_syncThreshold (bo_config c) then SYNC else ASYNC"
  define n where "n = \<lparr>nj_jobNo = no, nj_aggregateType = bs_aggregateType input,
        nj_operationCode = bs_operationCode input, nj_operationParams = bs_params input, nj_mode = ?mode,
        nj_status = (if ?mode = SYNC then BJ_RUNNING else BJ_PENDING),
        nj_tenantId = coalesce_opt (bs_tenantId input) (ctx_tenantId (e_ctx (bo_env c))),
        nj_companyId = bs_companyId input, nj_branchId = bs_branchId input,
        nj_requestedBy = coalesce_opt (bs_requestedBy input) (ctx_userId (e_ctx (bo_env c)))\<rparr>"
  obtain res db2 where cr: "createJobWithRows c n entityIds db1 = (res, db2)" by (cases "createJobWithRows c n entityIds db1")
  show ?thesis
  proof (cases res)
    case (Inl er)
    with cr have "db2 = db1" by (auto simp: createJobWithRows_def transactional_def split: sum.splits)
    then show ?thesis using Inr no cr Inl db1
      by (intro failed [of db1 er]) (simp_all add: create_batch_operation_job_def Let_def io_then_def n_def)
  next
    case res: (Inr jr)
    obtain job rows where jr: "jr = (job, rows)" by (cases jr)
    show ?thesis
    proof (rule created [OF db1])
      show "createJobWithRows c n entityIds db1 = (Inr (job, rows), db2)" using cr res jr by simp
      show "create_batch_operation_job c reg input db = after_create c reg ?mode job rows
          (dispatch_of job (coalesce_opt (bs_traceId input) (Some (correlationId (e_ctx (bo_env c))))) (map br_id rows)) db2"
        using Inr no cr res jr by (simp add: create_batch_operation_job_def after_create_def Let_def io_then_def n_def)
    qed
  qed
qed

lemma created_fit:
  assumes "createJobWithRows c n ids db = (Inr (job, rows), db')"
  shows "fits (dispatch_of job t (map br_id rows)) db'"
proof -
  from assms have "rows = rows_of (bj_id job) (bd_rows db')"
    by (auto simp: createJobWithRows_def transactional_def tx_then_Inr split: sum.splits)
  then show ?thesis by (auto simp: fits_def dispatch_of_def rows_of_def)
qed

lemma create_job_moves:
  assumes handlers: "\<And>h. h \<in> snd ` set reg \<Longrightarrow> business_handler h" and ok: "batch_ok db"
  shows "batch_move\<^sup>*\<^sup>* db (snd (create_batch_operation_job c reg input db))"
proof (cases rule: create_job_cases [of c reg input db])
  case (failed db1 er)
  then show ?thesis by (auto simp: same_batches_def intro: Batch_other)
next
  case (created db1 n ids job rows db2 mode t)
  let ?d = "dispatch_of job t (map br_id rows)"
  have moves: "batch_move\<^sup>*\<^sup>* db db2"
    using created(1) Batch_create [of db1 c n ids] created(2)
    by (auto simp: same_batches_def intro: Batch_other rtranclp.rtrancl_into_rtrancl)
  then have ok2: "batch_ok db2" using batch_moves_evolve ok by (auto simp: batch_evolves_def)
  have "io_rel (moves_for ?d) (write_batch_jobs (markJobFailed (bo_now c) (bj_id job)))"
    by (rule one_move) (simp add: write_batch_jobs_def markJobFailed_def Batch_end batch_terminal_def)
  then have "io_rel (moves_for ?d) (after_create c reg mode job rows ?d)"
    unfolding after_create_def dispatchChunks_def by (intro chunk_rules chunk.rel_chunk handlers enqueue_moves)
  from moves_of [OF this ok2 created_fit [OF created(2)]] moves show ?thesis unfolding created(3) by simp
qed simp

text \<open>
  The programs of the pipeline refine the step relation: submitting a job, processing a chunk whose
  rows belong to its job, cancelling and reconciling are sequences of its moves, whatever the
  handlers do to business tables.
\<close>
theorem batch_programs_are_moves:
  assumes "\<And>h. h \<in> snd ` set reg \<Longrightarrow> business_handler h" "batch_ok db"
  shows "batch_move\<^sup>*\<^sup>* db (snd (create_batch_operation_job c reg input db)) \<and>
    (fits d db \<longrightarrow> batch_move\<^sup>*\<^sup>* db (snd (processChunk c reg d db))) \<and>
    batch_move\<^sup>*\<^sup>* db (snd (cancel_batch_job c j t db)) \<and> batch_move\<^sup>*\<^sup>* db (snd (reconcile_batches c running db))"
proof -
  let ?d0 = "d\<lparr>bp_rowIds := []\<rparr>"
  have "fits ?d0 db" by (simp add: fits_def)
  then show ?thesis
    using create_job_moves [OF assms] moves_of [OF chunk.rel_chunk [OF assms(1)] assms(2)]
      moves_of [OF cancel_moves assms(2)] moves_of [OF reconcile_moves assms(2)] by blast
qed

end
