(* ===== verification/Batch_Waiting.thy ===== *)
theory Batch_Waiting
  imports Batch_Properties
begin

text \<open>
  A cancelled job whose chunk is lost. Only a worker that runs a chunk of the job can end it, and the
  reconciliation sends no chunk of a job that is to be cancelled: the job waits for ever. And what a
  worker does with the rows of a job that has failed.
\<close>

section \<open>Waiting for a chunk that does not come\<close>

definition cancel_waits :: "string \<Rightarrow> 'a batch_db_scheme \<Rightarrow> bool" where
  "cancel_waits j db \<longleftrightarrow> (\<exists>q \<in> set (bd_jobs db). bj_id q = j \<and> \<not> batch_terminal (bj_status q) \<and> bj_cancelRequested q) \<and>
     (\<exists>r \<in> set (bd_rows db). br_jobId r = j \<and> br_status r = BR_PENDING) \<and> (\<forall>d \<in> set (bd_queue db). bp_jobId d \<noteq> j)"

definition waiting :: "string \<Rightarrow> batch_dispatch \<Rightarrow> 'a batch_db_scheme \<Rightarrow> 'a batch_db_scheme \<Rightarrow> bool" where
  "waiting j d db db' \<longleftrightarrow> (bp_jobId d \<noteq> j \<and> batch_ok db \<and> fits d db \<and> cancel_waits j db \<longrightarrow>
     batch_ok db' \<and> fits d db' \<and> cancel_waits j db')"

lemma waits_keep:
  assumes "cancel_waits j db"
    and "\<And>q. q \<in> set (bd_jobs db) \<Longrightarrow> bj_id q = j \<Longrightarrow> \<not> batch_terminal (bj_status q) \<Longrightarrow> bj_cancelRequested q \<Longrightarrow>
      \<exists>q' \<in> set (bd_jobs db'). bj_id q' = j \<and> \<not> batch_terminal (bj_status q') \<and> bj_cancelRequested q'"
    and "\<And>r. r \<in> set (bd_rows db) \<Longrightarrow> br_jobId r = j \<Longrightarrow> br_status r = BR_PENDING \<Longrightarrow> r \<in> set (bd_rows db')"
    and "\<And>d. d \<in> set (bd_queue db') \<Longrightarrow> d \<in> set (bd_queue db) \<or> bp_jobId d \<noteq> j"
  shows "cancel_waits j db'"
  using assms unfolding cancel_waits_def by blast

lemma waitingI:
  assumes "bp_jobId d \<noteq> j \<Longrightarrow> batch_ok db \<Longrightarrow> fits d db \<Longrightarrow> batch_move db db'"
    and "bp_jobId d \<noteq> j \<Longrightarrow> batch_ok db \<Longrightarrow> fits d db \<Longrightarrow> cancel_waits j db \<Longrightarrow> cancel_waits j db'"
  shows "waiting j d db db'"
  unfolding waiting_def using assms fits_stable by (blast intro: r_into_rtranclp)

text \<open>A statement on the jobs spares \<open>j\<close> when it keeps what \<open>j\<close> waits for.\<close>

lemma waiting_jobs:
  assumes "batch_move db (db\<lparr>bd_jobs := map_where p f (bd_jobs db)\<rparr>)"
    and "\<And>q. p q \<Longrightarrow> bj_id q = j \<Longrightarrow> \<not> batch_terminal (bj_status q) \<Longrightarrow> bj_cancelRequested q \<Longrightarrow>
      bj_id (f q) = j \<and> bj_status (f q) = bj_status q \<and> bj_cancelRequested (f q)"
  shows "waiting j d db (db\<lparr>bd_jobs := map_where p f (bd_jobs db)\<rparr>)"
proof (rule waitingI)
  assume w: "cancel_waits j db"
  show "cancel_waits j (db\<lparr>bd_jobs := map_where p f (bd_jobs db)\<rparr>)"
  proof (rule waits_keep [OF w])
    fix q assume q: "q \<in> set (bd_jobs db)" "bj_id q = j" "\<not> batch_terminal (bj_status q)" "bj_cancelRequested q"
    then have "(if p q then f q else q) \<in> set (bd_jobs (db\<lparr>bd_jobs := map_where p f (bd_jobs db)\<rparr>))" by (auto simp: set_map_where)
    with q assms(2) [of q] show "\<exists>q' \<in> set (bd_jobs (db\<lparr>bd_jobs := map_where p f (bd_jobs db)\<rparr>)).
        bj_id q' = j \<and> \<not> batch_terminal (bj_status q') \<and> bj_cancelRequested q'"
      by (intro bexI [where x = "if p q then f q else q"]) simp_all
  qed simp_all
qed (rule assms(1))

lemma waiting_rows:
  assumes "batch_move db (db\<lparr>bd_rows := map_where p f (bd_rows db)\<rparr>)"
    and "\<And>r. bp_jobId d \<noteq> j \<Longrightarrow> batch_ok db \<Longrightarrow> fits d db \<Longrightarrow> r \<in> set (bd_rows db) \<Longrightarrow> p r \<Longrightarrow>
      br_jobId r = j \<Longrightarrow> br_status r \<noteq> BR_PENDING"
  shows "waiting j d db (db\<lparr>bd_rows := map_where p f (bd_rows db)\<rparr>)"
proof (rule waitingI)
  assume guard: "bp_jobId d \<noteq> j" "batch_ok db" "fits d db" and w: "cancel_waits j db"
  show "cancel_waits j (db\<lparr>bd_rows := map_where p f (bd_rows db)\<rparr>)"
    by (rule waits_keep [OF w]) (use assms(2) [OF guard] in \<open>auto simp: set_map_where\<close>)
qed (rule assms(1))

lemma waiting_end:
  assumes "batch_terminal st" "i \<noteq> j"
  shows "waiting j d db (db\<lparr>bd_jobs := snd (set_batch_status now i st (bd_jobs db))\<rparr>)"
  using Batch_end [OF assms(1), of db now i] assms(2) unfolding set_batch_status_def update_many_def snd_conv
  by (intro waiting_jobs) auto

interpretation waits: batch_relation "waiting j d :: 'a batch_db_scheme \<Rightarrow> 'a batch_db_scheme \<Rightarrow> bool" d for j d
proof
  fix db1 db2 db3 :: "'a batch_db_scheme"
  show "waiting j d db1 db1" by (simp add: waiting_def)
  show "waiting j d db1 db3" if "waiting j d db1 db2" "waiting j d db2 db3" using that by (simp add: waiting_def)
  show "waiting j d db1 db2" if "same_batches db1 db2"
    using that by (intro waitingI Batch_other) (auto simp: same_batches_def cancel_waits_def)
  show "waiting j d db1 (db1\<lparr>bd_jobs := markJobRunning now (bp_jobId d) (bd_jobs db1)\<rparr>)" for now
    using Batch_running [of db1 now "bp_jobId d"] unfolding markJobRunning_def update_many_def snd_conv by (intro waiting_jobs) auto
  show "waiting j d db1 (db1\<lparr>bd_rows := snd (claimRow now i (bd_rows db1))\<rparr>)" if "i \<in> set (bp_rowIds d)" for now i
    unfolding claim_rows
  proof (rule waiting_rows)
    show "batch_move db1 (db1\<lparr>bd_rows := map_where (\<lambda>r. br_id r = i \<and> br_status r = BR_PENDING) (taken_row now) (bd_rows db1)\<rparr>)"
      using Batch_claim [of db1 now i] by (simp add: claim_rows)
    fix r assume guard: "bp_jobId d \<noteq> j" "batch_ok db1" "fits d db1" "r \<in> set (bd_rows db1)"
      "br_id r = i \<and> br_status r = BR_PENDING" "br_jobId r = j"
    then have "br_jobId r = bp_jobId d" using fitting_row [OF guard(2,3) that guard(4)] by simp
    with guard show "br_status r \<noteq> BR_PENDING" by simp
  qed
  show "waiting j d db1 (db1\<lparr>bd_jobs := snd (set_batch_status now (bp_jobId d) st (bd_jobs db1))\<rparr>)" if "batch_terminal st" for now st
  proof (cases "bp_jobId d = j")
    case False
    then show ?thesis by (rule waiting_end [OF that])
  qed (simp add: waiting_def)
  show "waiting j d db1 (snd (settleRow c i (bp_jobId d) token s db1))" if i: "i \<in> set (bp_rowIds d)" for c i token s
  proof (rule waitingI)
    assume guard: "bp_jobId d \<noteq> j" "batch_ok db1" "fits d db1"
    show "batch_move db1 (snd (settleRow c i (bp_jobId d) token s db1))"
      by (intro Batch_settle fitting_row [OF guard(2,3) i])
    assume w: "cancel_waits j db1"
    show "cancel_waits j (snd (settleRow c i (bp_jobId d) token s db1))"
    proof (cases "settle_tx c i (bp_jobId d) token s db1")
      case (Inr x)
      obtain b db' where x: "x = (b, db')" by (cases x)
      from guard(2) Inr [unfolded x] have "cancel_waits j db'"
      proof (cases rule: settle_cases)
        case (hit r v q)
        have other: "bj_id (counted_job o1 q) = bj_id q" "bj_status (counted_job o1 q) = bj_status q"
          "bj_cancelRequested (counted_job o1 q) = bj_cancelRequested q" for o1 q
          by (cases o1; simp add: counted_job_def Let_def)+
        show ?thesis unfolding hit(5)
        proof (rule waits_keep [OF w])
          fix q assume q: "q \<in> set (bd_jobs db1)" "bj_id q = j" "\<not> batch_terminal (bj_status q)" "bj_cancelRequested q"
          then show "\<exists>q' \<in> set (bd_jobs (db1\<lparr>bd_rows := map_where (br_owned i token) (settled_batch_row (bo_now c) v s token) (bd_rows db1),
             bd_jobs := map_where (\<lambda>q. bj_id q = bp_jobId d) (counted_job (se_outcome s)) (bd_jobs db1)\<rparr>)).
             bj_id q' = j \<and> \<not> batch_terminal (bj_status q') \<and> bj_cancelRequested q'"
            using guard(1) by (intro bexI [where x = q]) (auto simp: set_map_where)
        qed (auto simp: set_map_where cas_hit_def)
      qed (simp add: w)
      then show ?thesis using Inr x by (simp add: settleRow_def transactional_def)
    qed (simp add: settleRow_def transactional_def w)
  qed
qed

section \<open>Requests and the reconciliation\<close>

lemmas wait_rules = waits.rel_return waits.rel_lift waits.rel_read waits.rel_then waits.rel_if waits.rel_option waits.rel_catch

lemma waiting_write:
  assumes "\<And>db. waiting j d db (snd (m db))"
  shows "io_rel (waiting j d) m"
  using assms by (simp add: io_rel_def)

text \<open>What a program reads while \<open>j\<close> waits.\<close>

lemma waiting_read:
  assumes "\<And>db. bp_jobId d \<noteq> j \<Longrightarrow> batch_ok db \<Longrightarrow> cancel_waits j db \<Longrightarrow> P (f db)"
    and "\<And>x. P x \<Longrightarrow> io_rel (waiting j d) (k x)"
  shows "io_rel (waiting j d) (io_then (io_read f) k)"
  unfolding io_rel_def
proof
  fix db
  show "waiting j d db (snd (io_then (io_read f) k db))"
  proof (cases "bp_jobId d \<noteq> j \<and> batch_ok db \<and> cancel_waits j db")
    case True
    then have "P (f db)" by (intro assms(1)) simp_all
    from io_relD [OF assms(2) [OF this], of db] show ?thesis by simp
  qed (auto simp: waiting_def)
qed

lemma waiting_queue:
  assumes "bp_jobId q \<noteq> j"
  shows "io_rel (waiting j d) (io_write (\<lambda>db. db\<lparr>bd_queue := bd_queue db @ [q]\<rparr>))"
proof (rule waiting_write)
  fix db :: "'a batch_db_scheme"
  show "waiting j d db (snd (io_write (\<lambda>db. db\<lparr>bd_queue := bd_queue db @ [q]\<rparr>) db))"
    unfolding io_run snd_conv
  proof (rule waitingI)
    show "batch_move db (db\<lparr>bd_queue := bd_queue db @ [q]\<rparr>)" by (rule Batch_other) simp_all
    show "cancel_waits j (db\<lparr>bd_queue := bd_queue db @ [q]\<rparr>)" if "cancel_waits j db"
      by (rule waits_keep [OF that]) (use assms in auto)
  qed
qed

lemma waiting_enqueue:
  assumes "bp_jobId q \<noteq> j"
  shows "io_rel (waiting j d) (enqueue_chunks c q chunks :: (unit, 'a batch_db_scheme) io)"
proof (induction chunks)
  case (Cons ids chunks)
  have "io_rel (waiting j d) (io_write (\<lambda>db :: 'a batch_db_scheme. db\<lparr>bd_queue := bd_queue db @ [q\<lparr>bp_rowIds := ids\<rparr>]\<rparr>))"
    by (rule waiting_queue) (simp add: assms)
  then have "io_rel (waiting j d) (io_then (io_write (\<lambda>db :: 'a batch_db_scheme. db\<lparr>bd_queue := bd_queue db @ [q\<lparr>bp_rowIds := ids\<rparr>]\<rparr>))
      (\<lambda>_. enqueue_chunks c q chunks))" by (rule waits.rel_then) (rule Cons)
  then show ?case
    by (cases "bo_queue c (q\<lparr>bp_rowIds := ids\<rparr>)") (simp_all only: enqueue_chunks.simps sum.case waits.rel_lift)
qed (simp only: enqueue_chunks.simps waits.rel_return)

lemma waiting_reset: "io_rel (waiting j d) (resetStuckRows now ms :: (nat, 'a batch_db_scheme) io)"
proof -
  have "io_rel (waiting j d) (io_step (\<lambda>db :: 'a batch_db_scheme. let (n, rows) = release_stuck now ms (bd_jobs db) (bd_rows db) in (n, db\<lparr>bd_rows := rows\<rparr>)))"
  proof (rule waiting_write)
    fix db :: "'a batch_db_scheme"
    show "waiting j d db (snd (io_step (\<lambda>db. let (n, rows) = release_stuck now ms (bd_jobs db) (bd_rows db) in (n, db\<lparr>bd_rows := rows\<rparr>)) db))"
      using Batch_release [of db now ms] unfolding io_step_def Let_def split_beta snd_conv release_stuck_def update_many_def
      by (intro waiting_rows) auto
  qed
  moreover have "io_rel (waiting j d) (io_write (\<lambda>db :: 'a batch_db_scheme. db\<lparr>bd_rows := abandon_stuck now (bd_jobs db) (bd_rows db)\<rparr>))"
  proof (rule waiting_write)
    fix db :: "'a batch_db_scheme"
    show "waiting j d db (snd (io_write (\<lambda>db. db\<lparr>bd_rows := abandon_stuck now (bd_jobs db) (bd_rows db)\<rparr>) db))"
      using Batch_abandon [of db now] unfolding io_run snd_conv abandon_stuck_def update_many_def
      by (intro waiting_rows) auto
  qed
  ultimately show ?thesis unfolding resetStuckRows_def by (intro wait_rules)
qed

lemma waiting_recount:
  "io_rel (waiting j d) (io_step (\<lambda>db :: 'a batch_db_scheme. let (n, jobs) = recountJobCounters (bd_rows db) (bd_jobs db) in (n, db\<lparr>bd_jobs := jobs\<rparr>)))"
proof (rule waiting_write)
  fix db :: "'a batch_db_scheme"
  show "waiting j d db (snd (io_step (\<lambda>db. let (n, jobs) = recountJobCounters (bd_rows db) (bd_jobs db) in (n, db\<lparr>bd_jobs := jobs\<rparr>)) db))"
    using Batch_recount [of db] unfolding io_step_def Let_def split_beta snd_conv recountJobCounters_def update_many_def
    by (intro waiting_jobs) auto
qed

text \<open>The waiting job is neither complete nor resumable.\<close>

lemma waits_not_completable:
  assumes "cancel_waits j db" "q \<in> set (findCompletableJobs (bd_rows db) (bd_jobs db))"
  shows "bj_id q \<noteq> j"
  using assms set_take_subset [of 100] unfolding findCompletableJobs_def cancel_waits_def by fastforce

lemma waits_not_resumable:
  assumes "batch_ok db" "cancel_waits j db" "q \<in> set (findResumableJobs (bd_rows db) (bd_jobs db))"
  shows "bj_id q \<noteq> j"
proof
  assume j: "bj_id q = j"
  from assms(3) have q: "q \<in> set (bd_jobs db)" "\<not> bj_cancelRequested q"
    unfolding findResumableJobs_def by (auto dest: in_set_takeD)
  from assms(2) obtain q' where "q' \<in> set (bd_jobs db)" "bj_id q' = j" "bj_cancelRequested q'" by (auto simp: cancel_waits_def)
  with unique_batch_job [OF assms(1) q(1)] j q(2) show False by auto
qed

lemma waiting_finalise: "bj_id q \<noteq> j \<Longrightarrow> io_rel (waiting j d) (finalise_completed c q)"
  unfolding finalise_completed_def
  by (intro wait_rules waits.rel_finaliseJob waiting_end waits.rel_event)

lemma waiting_redispatch: "bj_id q \<noteq> j \<Longrightarrow> io_rel (waiting j d) (redispatch_orphaned c q)"
  unfolding redispatch_orphaned_def dispatchChunks_def
  by (intro wait_rules waiting_enqueue) (simp add: dispatch_of_def)

lemma waiting_reconcile: "io_rel (waiting j d) (reconcile_batches c running :: (unit, 'a batch_db_scheme) io)"
proof -
  have completed: "io_rel (waiting j d) (io_then (io_read (\<lambda>db :: 'a batch_db_scheme. findCompletableJobs (bd_rows db) (bd_jobs db))) (io_for (finalise_completed c)))"
    by (rule waiting_read [where P = "\<lambda>xs. \<forall>q \<in> set xs. bj_id q \<noteq> j"])
      (use waits_not_completable in \<open>blast intro: waits.rel_for waiting_finalise\<close>)+
  have resumed: "io_rel (waiting j d) (io_then (io_read (\<lambda>db :: 'a batch_db_scheme. findResumableJobs (bd_rows db) (bd_jobs db))) (io_for (redispatch_orphaned c)))"
    by (rule waiting_read [where P = "\<lambda>xs. \<forall>q \<in> set xs. bj_id q \<noteq> j"])
      (use waits_not_resumable in \<open>blast intro: waits.rel_for waiting_redispatch\<close>)+
  show ?thesis unfolding reconcile_batches_def
    by (intro waits.rel_if waits.rel_catch waits.rel_then [OF waiting_reset] waits.rel_then [OF waiting_recount]
        waits.rel_then [OF completed] resumed waits.rel_return)
qed

lemma waiting_cancel: "io_rel (waiting j d) (cancel_batch_job c k t :: (batch_job, 'a batch_db_scheme) io)"
proof -
  have request: "io_rel (waiting j d) (setCancelRequested k :: (unit, 'a batch_db_scheme) io)"
  proof (rule waiting_write)
    fix db :: "'a batch_db_scheme"
    have "waiting j d db db" by (simp add: waiting_def)
    moreover have "waiting j d db (db\<lparr>bd_jobs := map_where (\<lambda>q. bj_id q = k) (\<lambda>q. q\<lparr>bj_cancelRequested := True\<rparr>) (bd_jobs db)\<rparr>)"
      if "findJob k (bd_jobs db) \<noteq> None"
      using Batch_cancel [of db k] that by (intro waiting_jobs) (simp_all add: setCancelRequested_def)
    ultimately show "waiting j d db (snd (setCancelRequested k db))" by (simp add: setCancelRequested_def)
  qed
  have finish: "io_rel (waiting j d) (io_then (if pending = [] then finaliseCancelled (bo_now c) k else io_return None)
      (\<lambda>cancelled. case cancelled of Some q \<Rightarrow> io_return q | None \<Rightarrow> io_read (\<lambda>db :: 'a batch_db_scheme. coalesce (findJob k (bd_jobs db)) job)))"
    if "k = j \<longrightarrow> pending \<noteq> []" for pending job
    using that by (intro wait_rules waits.rel_finaliseCancelled waiting_end) auto
  have nonempty: "pending_rowIds j (bd_rows db) \<noteq> []" if "cancel_waits j db" for db :: "'a batch_db_scheme"
    using that by (auto simp: cancel_waits_def pending_rowIds_def rows_of_def filter_empty_conv)
  have pending: "io_rel (waiting j d) (io_then (io_read (\<lambda>db :: 'a batch_db_scheme. pending_rowIds k (bd_rows db))) (\<lambda>pending.
      io_then (if pending = [] then finaliseCancelled (bo_now c) k else io_return None)
      (\<lambda>cancelled. case cancelled of Some q \<Rightarrow> io_return q | None \<Rightarrow> io_read (\<lambda>db. coalesce (findJob k (bd_jobs db)) job))))" for job
    by (rule waiting_read [where P = "\<lambda>pending. k = j \<longrightarrow> pending \<noteq> []", OF _ finish]) (use nonempty in auto)
  show ?thesis unfolding cancel_batch_job_def batch_job_status_def
    by (intro waits.rel_then [OF request] waits.rel_then [OF waits.rel_same [OF audit_same]] pending wait_rules)
qed

lemma waiting_create:
  assumes handlers: "\<And>h. h \<in> snd ` set reg \<Longrightarrow> business_handler h" and ok: "batch_ok db" and w: "cancel_waits j db"
  shows "cancel_waits j (snd (create_batch_operation_job c reg input db))"
proof (cases rule: create_job_cases [of c reg input db])
  case (failed db1 er)
  with w show ?thesis by (auto simp: same_batches_def cancel_waits_def)
next
  case (created db1 n ids job rows db2 mode t)
  let ?d = "dispatch_of job t (map br_id rows)"
  have ok1: "batch_ok db1" and w1: "cancel_waits j db1"
    using created(1) ok w by (auto simp: same_batches_def batch_ok_def cancel_waits_def)
  note new = create_result [OF created(2) ok1]
  have other: "bp_jobId ?d \<noteq> j" using new w1 by (auto simp: dispatch_of_def cancel_waits_def)
  have w2: "cancel_waits j db2"
    by (rule waits_keep [OF w1]) (use new in \<open>auto simp: insert_row_def\<close>)
  have "bj_id job \<noteq> j" using other by (simp add: dispatch_of_def)
  then have "io_rel (waiting j ?d) (write_batch_jobs (markJobFailed (bo_now c) (bj_id job)) :: (unit, 'a batch_db_scheme) io)"
    by (intro waiting_write) (simp add: write_batch_jobs_def markJobFailed_def waiting_end batch_terminal_def)
  then have "io_rel (waiting j ?d) (after_create c reg mode job rows ?d)"
    unfolding after_create_def dispatchChunks_def
    by (intro wait_rules waits.rel_chunk handlers waiting_enqueue other)
  from io_relD [OF this, of db2] show ?thesis
    using other new created_fit [OF created(2)] w2 unfolding created(3) waiting_def by blast
qed (simp add: w)

section \<open>The whole system\<close>

text \<open>
  The requests, the workers on the chunks of the queue, lost chunks and the reconciliation cycles, in
  any order; each of them is one step here, and the step relation of single statements is
  \<open>batch_move\<close>.
\<close>

inductive batch_system :: "'a batch_db_scheme batch_handler registry \<Rightarrow> 'a batch_db_scheme \<Rightarrow> 'a batch_db_scheme \<Rightarrow> bool"
  for reg :: "'a batch_db_scheme batch_handler registry" where
  System_submit: "batch_system reg db (snd (create_batch_operation_job c reg input db))"
| System_work: "d \<in> set (bd_queue db) \<Longrightarrow> fits d db \<Longrightarrow> batch_system reg db (snd (processChunk c reg d db))"
| System_cancel: "batch_system reg db (snd (cancel_batch_job c k t db))"
| System_reconcile: "batch_system reg db (snd (reconcile_batches c running db))"
| System_other: "bd_jobs db' = bd_jobs db \<Longrightarrow> bd_rows db' = bd_rows db \<Longrightarrow> set (bd_queue db') \<subseteq> set (bd_queue db) \<Longrightarrow>
    batch_system reg db db'"

lemma system_waits:
  assumes "batch_system reg db db'" "\<And>h. h \<in> snd ` set reg \<Longrightarrow> business_handler h" "batch_ok db" "cancel_waits j db"
  shows "batch_ok db' \<and> cancel_waits j db'"
  using assms
proof (induction rule: batch_system.induct)
  case (System_submit db c input)
  then show ?case using waiting_create [of reg db j] create_job_moves [of reg db c input] batch_moves_evolve
    unfolding batch_evolves_def by blast
next
  case (System_work d db c)
  then have "bp_jobId d \<noteq> j" by (auto simp: cancel_waits_def)
  with System_work show ?case using io_relD [OF waits.rel_chunk [where j = j and d = d and c = c and reg = reg], of db]
    by (auto simp: waiting_def)
next
  case (System_cancel db c k t)
  obtain d :: batch_dispatch where "bp_jobId d \<noteq> j" "bp_rowIds d = []"
    by (metis batch_dispatch.select_convs(1,9) list.distinct(1))
  with System_cancel show ?case using io_relD [OF waiting_cancel [where j = j and d = d and c = c and k = k and t = t], of db] by (simp add: waiting_def fits_def)
next
  case (System_reconcile db c running)
  obtain d :: batch_dispatch where "bp_jobId d \<noteq> j" "bp_rowIds d = []"
    by (metis batch_dispatch.select_convs(1,9) list.distinct(1))
  with System_reconcile show ?case using io_relD [OF waiting_reconcile [where j = j and d = d and c = c and running = running], of db] by (simp add: waiting_def fits_def)
next
  case (System_other db' db)
  then show ?case by (auto simp: batch_ok_def cancel_waits_def)
qed

text \<open>
  A cancelled job whose chunks are lost never ends. Once its cancellation is requested while a row
  is pending and no chunk of it is queued (the worker died, or the queue dropped it), no submission,
  worker, further cancellation or reconciliation ever makes it terminal or touches its pending rows:
  the reconciliation redispatches only jobs without a cancel request, and completes only jobs without
  pending rows.
\<close>
theorem cancelled_batch_never_ends:
  assumes "(batch_system reg)\<^sup>*\<^sup>* db db'" "\<And>h. h \<in> snd ` set reg \<Longrightarrow> business_handler h" "batch_ok db"
    and "q \<in> set (bd_jobs db)" "bj_id q = j" "\<not> batch_terminal (bj_status q)" "bj_cancelRequested q"
    and "r \<in> set (bd_rows db)" "br_jobId r = j" "br_status r = BR_PENDING"
    and "\<forall>d \<in> set (bd_queue db). bp_jobId d \<noteq> j"
  shows "(\<exists>q' \<in> set (bd_jobs db'). bj_id q' = j \<and> \<not> batch_terminal (bj_status q') \<and> bj_cancelRequested q') \<and>
    (\<exists>r' \<in> set (bd_rows db'). br_jobId r' = j \<and> br_status r' = BR_PENDING)"
proof -
  have w: "cancel_waits j db" using assms(4-) by (auto simp: cancel_waits_def)
  from assms(1) have "batch_ok db' \<and> cancel_waits j db'"
  proof (induction rule: rtranclp_induct)
    case (step db1 db2)
    then show ?case using system_waits [OF step(2) assms(2)] by blast
  qed (simp add: assms(3) w)
  then show ?thesis by (simp add: cancel_waits_def)
qed

end
