(* ===== verification/Batch_Examples.thy ===== *)
theory Batch_Examples
  imports Batch_Waiting Scheduler_Examples
begin

text \<open>
  Runs of batch operations on a job of two rows, one of them settled: a worker's skip, a late settlement
  that is refused, and a cancelled job whose chunk is lost.
\<close>

definition demo_batch_call :: "int \<Rightarrow> batch_call" where
  "demo_batch_call now = \<lparr>bo_env = demo_env now, bo_multi = False,
     bo_config = \<lparr>bf_maxRecordsPerJob = 1000, bf_syncThreshold = 10, bf_chunkSize = 50, bf_reconciliationWindowMs = 60000,
       bf_resultSnapshotMaxBytes = 2000\<rparr>,
     bo_host = \<lparr>h_inherited = (\<lambda>v k. VUndef), h_number = (\<lambda>v. NaN), h_stored = (\<lambda>n. None), h_same = (\<lambda>v w. False)\<rparr>,
     bo_elapsed = (\<lambda>_. 7), bo_queue = (\<lambda>_. Inr ())\<rparr>"

definition demo_batch_row :: "string \<Rightarrow> batch_row_status \<Rightarrow> int \<Rightarrow> batch_row" where
  "demo_batch_row i st token = \<lparr>br_id = i, br_tenantId = Some ''T'', br_jobId = ''b1'', br_entityId = ''po-'' @ i, br_status = st,
     br_claimToken = token, br_skipReason = None, br_errorMessage = None, br_resultSnapshot = VNull, br_processingTimeMs = None,
     br_createdAt = 0, br_updatedAt = 0, br_processedAt = None\<rparr>"

definition demo_batch_job :: "bool \<Rightarrow> batch_job" where
  "demo_batch_job cancel = \<lparr>bj_id = ''b1'', bj_tenantId = Some ''T'', bj_companyId = None, bj_branchId = None, bj_jobNo = ''BATCH-000001'',
     bj_aggregateType = ''PurchaseOrder'', bj_operationCode = ''approve'', bj_operationParams = VNull, bj_mode = ASYNC,
     bj_status = BJ_RUNNING, bj_totalRecords = 2, bj_processedRecords = 1, bj_successRecords = 1, bj_failedRecords = 0,
     bj_skippedRecords = 0, bj_cancelRequested = cancel, bj_requestedBy = None, bj_startedAt = Some 0, bj_completedAt = None,
     bj_createdAt = 0\<rparr>"

definition demo_batch_db :: "bool \<Rightarrow> batch_row_status \<Rightarrow> int \<Rightarrow> batch_db" where
  "demo_batch_db cancel st token = \<lparr>pf_outbox = [], pf_audit = [], pf_sequences = [], pf_drawn = 0,
     bd_jobs = [demo_batch_job cancel], bd_rows = [demo_batch_row ''r1'' BR_SUCCESS 1, demo_batch_row ''r2'' st token], bd_queue = []\<rparr>"

definition demo_batch_dispatch :: batch_dispatch where
  "demo_batch_dispatch = dispatch_of (demo_batch_job False) None [''r2'']"

text \<open>A handler that finds every record in order and has nothing to do.\<close>

definition demo_batch_handler :: "batch_db batch_handler" where
  "demo_batch_handler = \<lparr>bh_aggregateType = ''PurchaseOrder'', bh_supportedOperations = [''approve''],
     bh_validate = (\<lambda>ctx e op ps context. io_return \<lparr>bv_canProceed = True, bv_reason = None\<rparr>),
     bh_execute = (\<lambda>ctx e op ps context. io_return VNull)\<rparr>"

lemma demo_batch_simps [simp]:
  "bd_jobs (demo_batch_db x st token) = [demo_batch_job x]" "bd_queue (demo_batch_db x st token) = []"
  "bd_rows (demo_batch_db x st token) = [demo_batch_row ''r1'' BR_SUCCESS 1, demo_batch_row ''r2'' st token]"
  "bj_id (demo_batch_job x) = ''b1''" "bj_status (demo_batch_job x) = BJ_RUNNING" "bj_cancelRequested (demo_batch_job x) = x"
  "br_id (demo_batch_row i st token) = i" "br_status (demo_batch_row i st token) = st" "br_jobId (demo_batch_row i st token) = ''b1''"
  "br_claimToken (demo_batch_row i st token) = token"
  by (simp_all add: demo_batch_db_def demo_batch_job_def demo_batch_row_def)

lemma demo_batch_ok: "batch_ok (demo_batch_db x BR_PENDING n)" "batch_ok (demo_batch_db x BR_PROCESSING n)"
  by (simp_all add: batch_ok_def counters_agree_def count_rows_def demo_batch_job_def)

lemma demo_batch_business: "h \<in> snd ` set [(''PurchaseOrder'', demo_batch_handler)] \<Longrightarrow> business_handler h"
  by (simp add: business_handler_def demo_batch_handler_def io_rel_def same_batches_def)

definition demo_skip :: batch_settlement where
  "demo_skip = settlement O_SKIPPED VUndef None (Some ''VALIDATION_FAILED'') 7"

lemma demo_batch_settled:
  "batch_move\<^sup>*\<^sup>* (demo_batch_db False BR_PROCESSING 3) (snd (settleRow (demo_batch_call 9) ''r2'' ''b1'' 3 demo_skip (demo_batch_db False BR_PROCESSING 3)))"
  by (rule r_into_rtranclp, rule Batch_settle) auto

theorem batch_counters_are_row_truth_witness:
  "\<exists>q \<in> set (bd_jobs (snd (settleRow (demo_batch_call 9) ''r2'' ''b1'' 3 demo_skip (demo_batch_db False BR_PROCESSING 3)))).
     bj_processedRecords q = 2 \<and> count_rows ''b1'' {BR_SKIPPED}
       (bd_rows (snd (settleRow (demo_batch_call 9) ''r2'' ''b1'' 3 demo_skip (demo_batch_db False BR_PROCESSING 3)))) = 1"
proof -
  define db' where "db' = snd (settleRow (demo_batch_call 9) ''r2'' ''b1'' 3 demo_skip (demo_batch_db False BR_PROCESSING 3))"
  have jobs: "bd_jobs db' = [counted_job O_SKIPPED (demo_batch_job False)]"
    by (simp add: db'_def settleRow_def transactional_def settle_tx_def demo_skip_def tx_then_def tx_lift_def update_many_def
        cas_hit_def findJob_def find_first_def map_where_def)
  note facts = batch_counters_are_row_truth [OF demo_batch_settled demo_batch_ok(2), folded db'_def]
  show ?thesis unfolding db'_def [symmetric] using conjunct1 [OF facts]
    by (simp add: jobs counted_job_def Let_def demo_batch_job_def batch_terminal_def)
qed

definition demo_batch_claimed :: batch_db where
  "demo_batch_claimed = (demo_batch_db False BR_PENDING 2)\<lparr>bd_rows := snd (claimRow 5 ''r2'' (bd_rows (demo_batch_db False BR_PENDING 2)))\<rparr>"

lemma demo_claim_move: "batch_move\<^sup>*\<^sup>* (demo_batch_db False BR_PENDING 2) demo_batch_claimed"
  unfolding demo_batch_claimed_def by (rule r_into_rtranclp, rule Batch_claim)

theorem settled_row_is_final_witness:
  "demo_batch_row ''r1'' BR_SUCCESS 1 \<in> set (bd_rows demo_batch_claimed) \<and>
   (\<forall>db''. settleRow (demo_batch_call 9) ''r1'' ''b1'' 1 demo_skip demo_batch_claimed \<noteq> (Inr True, db''))"
  using settled_row_is_final [OF demo_claim_move demo_batch_ok(1), where r = "demo_batch_row ''r1'' BR_SUCCESS 1"
      and j = "''b1''" and token = 1 and s = demo_skip and c = "demo_batch_call 9"]
  by simp

lemma demo_fits: "fits demo_batch_dispatch (demo_batch_db False BR_PENDING 2)"
  by (simp add: fits_def demo_batch_dispatch_def dispatch_of_def)

theorem batch_programs_are_moves_witness:
  "batch_move\<^sup>*\<^sup>* (demo_batch_db False BR_PENDING 2)
     (snd (processChunk (demo_batch_call 9) [(''PurchaseOrder'', demo_batch_handler)] demo_batch_dispatch (demo_batch_db False BR_PENDING 2)))"
  using batch_programs_are_moves [OF demo_batch_business demo_batch_ok(1)] demo_fits by blast

lemma demo_reconciled:
  "(batch_system [(''PurchaseOrder'', demo_batch_handler)])\<^sup>*\<^sup>* (demo_batch_db True BR_PENDING 2)
     (snd (reconcile_batches (demo_batch_call 1000000) False (demo_batch_db True BR_PENDING 2)))"
  by (rule r_into_rtranclp, rule System_reconcile)

theorem cancelled_batch_never_ends_witness:
  "\<exists>q \<in> set (bd_jobs (snd (reconcile_batches (demo_batch_call 1000000) False (demo_batch_db True BR_PENDING 2)))).
     bj_id q = ''b1'' \<and> \<not> batch_terminal (bj_status q) \<and> bj_cancelRequested q"
  using cancelled_batch_never_ends [OF demo_reconciled demo_batch_business demo_batch_ok(1),
      where q = "demo_batch_job True" and j = "''b1''" and r = "demo_batch_row ''r2'' BR_PENDING 2"]
  by (simp add: batch_terminal_def)

end
