(* ===== verification/Import_File.thy ===== *)
theory Import_File
  imports Condition_Engine Platform Effects "HOL-Library.Sublist"
begin

text \<open>
  Reading an import file (\<open>platform/platform-common/import/import-file.parser.ts\<close>) and the registry of
  import handlers. The bytes of a CSV file are its text; what the spreadsheet library makes of a
  workbook is a parameter. An object with string keys is the list of its entries, in insertion order.
\<close>

section \<open>Descriptors\<close>

record field_descriptor =
  fd_targetField :: string
  fd_dataType :: string
  fd_required :: bool
  fd_aliases :: "string list"
  fd_i18nKey :: string
  fd_maxLength :: "nat option"
  fd_enumValues :: "string list option"

record import_descriptor =
  de_entityKey :: string
  de_version :: int
  de_fields :: "field_descriptor list"
  de_upsertKeys :: "string list list"
  de_maxRows :: int
  de_maxFileSizeBytes :: int
  de_executionChunkSize :: int
  de_templateStorageKey :: "string option"

type_synonym text_fields = "(string \<times> string) list"

record parsed_row =
  pr_rowNumber :: nat
  pr_values :: text_fields

record parsed_spreadsheet =
  ps_sheets :: "string list"
  ps_activeSheet :: string
  ps_headerRowIndex :: nat
  ps_headers :: "string list"
  ps_rows :: "parsed_row list"

text \<open>What \<open>XLSX.read\<close> and \<open>sheet_to_json\<close> give: the sheet names, the last row and column of the declared
  range of the first sheet, and its cells.\<close>

record workbook =
  wb_sheets :: "string list"
  wb_range :: "(nat \<times> nat) option"
  wb_matrix :: "sval list list"

text \<open>\<open>o[k] = v\<close> on an object of strings.\<close>

fun put_field :: "string \<Rightarrow> string \<Rightarrow> text_fields \<Rightarrow> text_fields" where
  "put_field k v [] = [(k, v)]"
| "put_field k v ((k', v') # fs) = (if k' = k then (k, v) # fs else (k', v') # put_field k v fs)"

section \<open>The text of a CSV file\<close>

fun split_csv :: "string \<Rightarrow> bool \<Rightarrow> string \<Rightarrow> string list" where
  "split_csv cur inQuotes [] = [cur]"
| "split_csv cur inQuotes (ch # rest) =
     (if ch = CHR 0x22
      then (if inQuotes \<and> rest \<noteq> [] \<and> hd rest = CHR 0x22 then split_csv (cur @ [CHR 0x22]) inQuotes (tl rest)
            else split_csv cur (\<not> inQuotes) rest)
      else if ch = CHR '','' \<and> \<not> inQuotes then cur # split_csv [] inQuotes rest
      else split_csv (cur @ [ch]) inQuotes rest)"

definition splitCsvLine :: "string \<Rightarrow> string list" where
  "splitCsvLine line = split_csv [] False line"

text \<open>\<open>text.split(/\r?\n/)\<close>\<close>

fun split_lines :: "string \<Rightarrow> string \<Rightarrow> string list" where
  "split_lines cur [] = [cur]"
| "split_lines cur (ch # rest) =
     (if ch = CHR 0x0A then cur # split_lines [] rest
      else if ch = CHR 0x0D \<and> rest \<noteq> [] \<and> hd rest = CHR 0x0A then cur # split_lines [] (tl rest)
      else split_lines (cur @ [ch]) rest)"

section \<open>Headers\<close>

text \<open>\<open>/^-?\d+(\.\d+)?$/\<close>\<close>

definition numeric_cell :: "string \<Rightarrow> bool" where
  "numeric_cell s = (let body = (if s \<noteq> [] \<and> hd s = CHR ''-'' then tl s else s); (whole, rest) = span is_digit body in
     whole \<noteq> [] \<and> (rest = [] \<or> (hd rest = CHR ''.'' \<and> tl rest \<noteq> [] \<and> list_all is_digit (tl rest))))"

definition filled_cells :: "string list \<Rightarrow> string list" where
  "filled_cells line = filter (\<lambda>c. c \<noteq> []) (map trim line)"

definition header_like :: "string list \<Rightarrow> bool" where
  "header_like line = (let cells = filled_cells line in
     2 \<le> length cells \<and> 2 * length (filter numeric_cell cells) < length cells)"

fun header_from :: "nat \<Rightarrow> string list list \<Rightarrow> nat" where
  "header_from i [] = 0"
| "header_from i (line # lines) = (if header_like line then i else header_from (i + 1) lines)"

definition detectHeaderRow :: "string list list \<Rightarrow> nat" where
  "detectHeaderRow matrix = header_from 0 (take 30 matrix)"

fun fill_values :: "string list \<Rightarrow> string list \<Rightarrow> text_fields \<Rightarrow> text_fields" where
  "fill_values [] line values = values"
| "fill_values (key # keys) line values =
     fill_values keys (tl line) (if key = [] then values else put_field key (trim (if line = [] then [] else hd line)) values)"

fun nonempty_cells :: "string list \<Rightarrow> string list \<Rightarrow> nat" where
  "nonempty_cells [] line = 0"
| "nonempty_cells (key # keys) line =
     (if key \<noteq> [] \<and> line \<noteq> [] \<and> trim (hd line) \<noteq> [] then 1 else 0) + nonempty_cells keys (tl line)"

text \<open>The loop over the lines below the header; \<open>budget\<close> is what is left of \<open>maxRows\<close>.\<close>

fun data_rows :: "string list \<Rightarrow> nat \<Rightarrow> nat \<Rightarrow> string list list \<Rightarrow> parsed_row list" where
  "data_rows headerCells budget i [] = []"
| "data_rows headerCells budget i (line # lines) =
     (if budget = 0 then []
      else if nonempty_cells headerCells line = 0 then data_rows headerCells budget (i + 1) lines
      else \<lparr>pr_rowNumber = i + 1, pr_values = fill_values headerCells line []\<rparr> # data_rows headerCells (budget - 1) (i + 1) lines)"

definition materialize :: "string list \<Rightarrow> string \<Rightarrow> string list list \<Rightarrow> nat \<Rightarrow> parsed_spreadsheet" where
  "materialize sheets activeSheet matrix maxRows =
     (let headerRowIndex = detectHeaderRow matrix;
          headerCells = map trim (if headerRowIndex < length matrix then matrix ! headerRowIndex else []) in
      \<lparr>ps_sheets = sheets, ps_activeSheet = activeSheet, ps_headerRowIndex = headerRowIndex,
       ps_headers = filter (\<lambda>c. c \<noteq> []) headerCells,
       ps_rows = data_rows headerCells maxRows (headerRowIndex + 1) (drop (headerRowIndex + 1) matrix)\<rparr>)"

section \<open>Files\<close>

definition parseCsv :: "string \<Rightarrow> nat \<Rightarrow> parsed_spreadsheet" where
  "parseCsv text maxRows = materialize [''Sheet1''] ''Sheet1''
     (map splitCsvLine (filter (\<lambda>l. l \<noteq> []) (split_lines [] text))) maxRows"

fun asText :: "host \<Rightarrow> sval \<Rightarrow> string" where
  "asText h VUndef = []"
| "asText h VNull = []"
| "asText h (VStr s) = s"
| "asText h (VNum n) = number_to_string n"
| "asText h (VBool b) = (if b then ''true'' else ''false'')"
| "asText h v = stringify h v"

definition parseSpreadsheet :: "host \<Rightarrow> workbook \<Rightarrow> nat \<Rightarrow> parsed_spreadsheet result" where
  "parseSpreadsheet h wb maxRows =
     and_then (case wb_range wb of None \<Rightarrow> Inr ()
       | Some (lastRow, lastCol) \<Rightarrow>
           if lastRow + 1 > maxRows + 2 \<or> lastCol + 1 > 256
           then throw 400 (''Spreadsheet declares a '' @ nat_to_string (lastRow + 1) @ ''x'' @ nat_to_string (lastCol + 1)
             @ '' cell range, above the '' @ nat_to_string (maxRows + 2) @ ''x256 processing budget for this import'')
           else Inr ()) (\<lambda>_.
     Inr (materialize (wb_sheets wb) (if wb_sheets wb = [] then ''Sheet1'' else hd (wb_sheets wb))
       (map (map (asText h)) (wb_matrix wb)) maxRows))"

definition lower_char :: "char \<Rightarrow> char" where
  "lower_char c = (if 65 \<le> (of_char c :: nat) \<and> (of_char c :: nat) \<le> 90 then char_of ((of_char c :: nat) + 32) else c)"

definition parseFile ::
  "host \<Rightarrow> (string \<Rightarrow> workbook result) \<Rightarrow> string \<Rightarrow> string option \<Rightarrow> string \<Rightarrow> nat \<Rightarrow> parsed_spreadsheet result" where
  "parseFile h xlsx body contentType fileNameHint maxRows =
     (let lower = map lower_char (coalesce contentType [] @ '' '' @ fileNameHint) in
      if sublist ''csv'' lower \<or> suffix ''.csv'' lower then Inr (parseCsv body maxRows)
      else and_then (xlsx body) (\<lambda>wb. parseSpreadsheet h wb maxRows))"

section \<open>Mapping\<close>

definition normalizeHeader :: "string \<Rightarrow> string" where
  "normalizeHeader s = filter (\<lambda>c. \<not> is_space c \<and> c \<noteq> CHR ''_'' \<and> c \<noteq> CHR ''-'') (map lower_char (trim s))"

definition matching_header :: "string list \<Rightarrow> field_descriptor \<Rightarrow> string option" where
  "matching_header headers f = find_first (\<lambda>h. normalizeHeader h \<in>
     set (map normalizeHeader (fd_targetField f # fd_i18nKey f # fd_aliases f))) headers"

definition suggestMapping :: "string list \<Rightarrow> import_descriptor \<Rightarrow> text_fields" where
  "suggestMapping headers d = fold (\<lambda>f mapping. case matching_header headers f of
       None \<Rightarrow> mapping
     | Some h \<Rightarrow> if h = [] then mapping else put_field h (fd_targetField f) mapping) (de_fields d) []"

definition applyMapping :: "text_fields \<Rightarrow> text_fields \<Rightarrow> text_fields" where
  "applyMapping raw mapping = fold (\<lambda>(source, target) out. case map_of raw source of
       None \<Rightarrow> out | Some v \<Rightarrow> put_field target v out) mapping []"

definition comma_list :: "string list \<Rightarrow> string" where
  "comma_list xs = concat (case xs of [] \<Rightarrow> [] | x # rest \<Rightarrow> x # map (\<lambda>y. '', '' @ y) rest)"

definition field_errors :: "text_fields \<Rightarrow> field_descriptor \<Rightarrow> string list" where
  "field_errors mapped f =
     (let value = coalesce (map_of mapped (fd_targetField f)) [] in
      if trim value = [] then (if fd_required f then [fd_targetField f @ '' is required''] else [])
      else (case fd_maxLength f of None \<Rightarrow> [] | Some n \<Rightarrow>
              if n \<noteq> 0 \<and> length value > n then [fd_targetField f @ '' exceeds maxLength '' @ nat_to_string n] else []) @
           (case fd_enumValues f of None \<Rightarrow> [] | Some vs \<Rightarrow>
              if vs \<noteq> [] \<and> value \<notin> set vs then [fd_targetField f @ '' must be one of: '' @ comma_list vs] else []))"

definition structuralValidateRow :: "text_fields \<Rightarrow> import_descriptor \<Rightarrow> string list" where
  "structuralValidateRow mapped d = concat (map (field_errors mapped) (de_fields d))"

section \<open>The registry of import handlers\<close>

definition duplicates :: "string list \<Rightarrow> string list" where
  "duplicates xs = rev (remdups (rev (map (\<lambda>i. xs ! i) (filter (\<lambda>i. xs ! i \<in> set (take i xs)) [0..<length xs]))))"

definition descriptor_reasons :: "string \<Rightarrow> import_descriptor \<Rightarrow> string list" where
  "descriptor_reasons entityKey d =
     (let targets = map fd_targetField (de_fields d);
          unknown = rev (remdups (rev (filter (\<lambda>f. f \<notin> set targets) (concat (de_upsertKeys d))))) in
      (if de_entityKey d \<noteq> entityKey
       then [''descriptor.entityKey '' @ de_entityKey d @ '' does not match registration key '' @ entityKey] else []) @
      (if de_fields d = [] then [''declares no fields''] else []) @
      (if duplicates targets \<noteq> [] then [''declares duplicate targetFields: '' @ comma_list (duplicates targets)] else []) @
      (if unknown \<noteq> [] then [''upsertKeys reference undeclared fields: '' @ comma_list unknown] else []) @
      (if de_maxRows d \<le> 0 then [''maxRows must be greater than 0''] else []) @
      (if de_maxFileSizeBytes d \<le> 0 then [''maxFileSizeBytes must be greater than 0''] else []) @
      (if de_executionChunkSize d \<le> 0 then [''executionChunkSize must be greater than 0''] else []))"

definition assertDescriptorValid :: "string \<Rightarrow> import_descriptor \<Rightarrow> unit result" where
  "assertDescriptorValid entityKey d =
     (if descriptor_reasons entityKey d \<noteq> []
      then throw 400 (''Invalid import descriptor for '' @ entityKey @ '': '' @ comma_list (descriptor_reasons entityKey d))
      else Inr ())"

type_synonym 'h import_registry = "(import_descriptor \<times> 'h) registry"

definition register_import_handler ::
  "string \<Rightarrow> import_descriptor \<Rightarrow> 'h \<Rightarrow> 'h import_registry \<Rightarrow> 'h import_registry result" where
  "register_import_handler entityKey d h reg =
     (if has_entry entityKey reg then throw_plain (''ImportHandler for entityKey '' @ entityKey @ '' already registered'')
      else and_then (assertDescriptorValid entityKey d) (\<lambda>_.
        registerEntry entityKey (d, h) (Exn None []) reg))"

definition import_entry :: "string \<Rightarrow> 'h import_registry \<Rightarrow> (import_descriptor \<times> 'h) result" where
  "import_entry entityKey reg = requireEntry entityKey (Exn None (''No ImportHandler registered for entityKey '' @ entityKey)) reg"

definition resolveImportHandler :: "string \<Rightarrow> 'h import_registry \<Rightarrow> 'h result" where
  "resolveImportHandler entityKey reg = and_then (import_entry entityKey reg) (\<lambda>e. Inr (snd e))"

definition resolveDescriptor :: "string \<Rightarrow> 'h import_registry \<Rightarrow> import_descriptor result" where
  "resolveDescriptor entityKey reg = and_then (import_entry entityKey reg) (\<lambda>e. Inr (fst e))"

definition import_health :: "'h import_registry \<Rightarrow> (string \<times> int \<times> nat \<times> string list) list" where
  "import_health reg = map (\<lambda>(k, d, h). (k, de_version d, length (de_fields d), map fd_targetField (filter fd_required (de_fields d)))) reg"

end
