(* ===== verification/Import_Files.thy ===== *)
theory Import_Files
  imports Import_File
begin

text \<open>
  What reading a CSV file gives: printing a table with quoted fields and reading it gives the table back,
  and the suggested mapping only pairs headers of the file with fields of the descriptor.
\<close>

section \<open>Printing\<close>

definition csv_quote :: "string \<Rightarrow> string" where
  "csv_quote f = CHR 0x22 # concat (map (\<lambda>c. if c = CHR 0x22 then [c, c] else [c]) f) @ [CHR 0x22]"

fun csv_line :: "string list \<Rightarrow> string" where
  "csv_line [] = []"
| "csv_line [f] = csv_quote f"
| "csv_line (f # fs) = csv_quote f @ CHR '','' # csv_line fs"

definition csv_file :: "string list list \<Rightarrow> string" where
  "csv_file table = concat (map (\<lambda>fs. csv_line fs @ [CHR 0x0A]) table)"

section \<open>Lines and fields\<close>

lemma split_quoted:
  assumes "rest = [] \<or> hd rest \<noteq> CHR 0x22"
  shows "split_csv cur True (concat (map (\<lambda>c. if c = CHR 0x22 then [c, c] else [c]) f) @ CHR 0x22 # rest) = split_csv (cur @ f) False rest"
proof (induction f arbitrary: cur)
  case Nil
  show ?case using assms by auto
next
  case (Cons c f)
  show ?case using Cons [of "cur @ [c]"] by (cases "c = CHR 0x22") simp_all
qed

lemma split_quote:
  assumes "rest = [] \<or> hd rest \<noteq> CHR 0x22"
  shows "split_csv [] False (csv_quote f @ rest) = split_csv f False rest"
  using split_quoted [OF assms, of "[]" f] by (simp add: csv_quote_def)

lemma splitCsvLine_csv_line: "fs \<noteq> [] \<Longrightarrow> splitCsvLine (csv_line fs) = fs"
proof (induction fs rule: csv_line.induct)
  case (2 f)
  then show ?case using split_quote [of "[]" f] by (simp add: splitCsvLine_def)
next
  case (3 f g fs)
  then show ?case using split_quote [of "CHR '','' # csv_line (g # fs)" f] by (simp add: splitCsvLine_def)
qed simp

definition plain_text :: "string \<Rightarrow> bool" where
  "plain_text s \<longleftrightarrow> CHR 0x0A \<notin> set s \<and> CHR 0x0D \<notin> set s"

lemma plain_quote: "plain_text f \<Longrightarrow> plain_text (csv_quote f)"
  by (auto simp: plain_text_def csv_quote_def split: if_splits)

lemma plain_line: "\<forall>f \<in> set fs. plain_text f \<Longrightarrow> plain_text (csv_line fs)"
proof (induction fs rule: csv_line.induct)
  case (3 f g fs)
  then have "plain_text (csv_quote f)" "plain_text (csv_line (g # fs))" by (simp_all add: plain_quote)
  then show ?case by (simp add: plain_text_def)
next
  case (2 f)
  then show ?case by (simp add: plain_quote)
qed (simp add: plain_text_def)

lemma split_plain: "plain_text l \<Longrightarrow> split_lines cur (l @ CHR 0x0A # rest) = (cur @ l) # split_lines [] rest"
  by (induction l arbitrary: cur) (auto simp: plain_text_def)

lemma split_csv_file:
  "\<forall>fs \<in> set table. \<forall>f \<in> set fs. plain_text f \<Longrightarrow> split_lines [] (csv_file table) = map csv_line table @ [[]]"
proof (induction table)
  case (Cons fs table)
  then have "plain_text (csv_line fs)" by (simp add: plain_line)
  with Cons show ?case by (simp add: csv_file_def split_plain)
qed (simp add: csv_file_def)

lemma csv_line_nonempty: "fs \<noteq> [] \<Longrightarrow> csv_line fs \<noteq> []"
  by (induction fs rule: csv_line.induct) (simp_all add: csv_quote_def)

lemma parse_csv_file:
  assumes "\<forall>fs \<in> set table. fs \<noteq> [] \<and> (\<forall>f \<in> set fs. plain_text f)"
  shows "parseCsv (csv_file table) maxRows = materialize [''Sheet1''] ''Sheet1'' table maxRows"
proof -
  have "filter (\<lambda>l. l \<noteq> []) (map csv_line table @ [[]]) = map csv_line table"
    using assms by (auto simp: csv_line_nonempty)
  moreover have "map splitCsvLine (map csv_line table) = table"
    using assms by (simp add: map_idI splitCsvLine_csv_line)
  moreover have "split_lines [] (csv_file table) = map csv_line table @ [[]]"
    using assms by (intro split_csv_file) blast
  ultimately show ?thesis by (simp only: parseCsv_def)
qed

section \<open>Rows\<close>

lemma put_fresh: "k \<notin> fst ` set fs \<Longrightarrow> put_field k v fs = fs @ [(k, v)]"
  by (induction fs) auto

lemma fill_zip:
  assumes "length keys = length line" "distinct keys" "[] \<notin> set keys" "set keys \<inter> fst ` set vals = {}"
  shows "fill_values keys line vals = vals @ zip keys (map trim line)"
  using assms
proof (induction keys arbitrary: line vals)
  case (Cons k keys)
  then obtain x line' where line: "line = x # line'" by (cases line) auto
  have "fill_values keys line' (vals @ [(k, trim x)]) = (vals @ [(k, trim x)]) @ zip keys (map trim line')"
    by (rule Cons.IH) (insert Cons.prems line, auto)
  moreover have "put_field k (trim x) vals = vals @ [(k, trim x)]" by (rule put_fresh) (use Cons.prems in auto)
  ultimately show ?case using Cons.prems by (auto simp: line)
qed simp

lemma nonempty_iff:
  assumes "length keys = length line" "[] \<notin> set keys"
  shows "nonempty_cells keys line = 0 \<longleftrightarrow> (\<forall>x \<in> set line. trim x = [])"
  using assms
proof (induction keys arbitrary: line)
  case (Cons k keys)
  then show ?case by (cases line) auto
qed simp

lemma data_rows_table:
  assumes "\<forall>line \<in> set lines. length line = length keys \<and> (\<exists>x \<in> set line. trim x \<noteq> [])"
    and "distinct keys" "[] \<notin> set keys" "length lines \<le> budget"
  shows "data_rows keys budget i lines =
    map (\<lambda>(n, line). \<lparr>pr_rowNumber = n, pr_values = zip keys (map trim line)\<rparr>) (zip [i + 1..<i + 1 + length lines] lines)"
  using assms(1,4)
proof (induction lines arbitrary: budget i)
  case (Cons line lines)
  have "nonempty_cells keys line \<noteq> 0" using Cons.prems nonempty_iff [of keys line] assms(3) by auto
  moreover have "fill_values keys line [] = zip keys (map trim line)"
    using fill_zip [of keys line "[]"] Cons.prems assms(2,3) by simp
  moreover have "data_rows keys (budget - 1) (i + 1) lines =
      map (\<lambda>(n, line). \<lparr>pr_rowNumber = n, pr_values = zip keys (map trim line)\<rparr>) (zip [i + 1 + 1..<i + 1 + 1 + length lines] lines)"
    by (rule Cons.IH) (use Cons.prems in auto)
  moreover have "[i + 1..<i + 1 + length (line # lines)] = (i + 1) # [i + 1 + 1..<i + 1 + 1 + length lines]"
    by (subst upt_conv_Cons) simp_all
  ultimately show ?case using Cons.prems by simp
qed simp

lemma header_first: "header_like hs \<Longrightarrow> detectHeaderRow (hs # lines) = 0"
  by (simp add: detectHeaderRow_def)

text \<open>
  C19. Reading a printed table gives the table back: headers, row numbers (the header is row 1) and, for
  every row, the value under each header, with quotes and commas inside the fields kept.
\<close>
theorem csv_table_roundtrip:
  assumes "header_like hs" "distinct hs" "[] \<notin> set hs"
    and "\<forall>f \<in> set hs \<union> \<Union> (set ` set lines). trim f = f \<and> plain_text f"
    and "\<forall>line \<in> set lines. length line = length hs \<and> (\<exists>x \<in> set line. x \<noteq> [])"
    and "length lines \<le> maxRows"
  shows "ps_headers (parseCsv (csv_file (hs # lines)) maxRows) = hs \<and>
    map pr_rowNumber (ps_rows (parseCsv (csv_file (hs # lines)) maxRows)) = [2..<length lines + 2] \<and>
    map pr_values (ps_rows (parseCsv (csv_file (hs # lines)) maxRows)) = map (zip hs) lines"
proof -
  have hs: "map trim hs = hs" "filter (\<lambda>c. c \<noteq> []) hs = hs" "hs \<noteq> []"
    using assms(1,3,4) by (auto simp: map_idI filter_id_conv header_like_def filled_cells_def)
  have lines: "map trim line = line" if "line \<in> set lines" for line
    using assms(4) that by (intro map_idI) auto
  have "parseCsv (csv_file (hs # lines)) maxRows = materialize [''Sheet1''] ''Sheet1'' (hs # lines) maxRows"
    by (rule parse_csv_file) (use assms(4,5) hs(3) in auto)
  moreover have "data_rows hs maxRows 1 lines =
      map (\<lambda>(n, line). \<lparr>pr_rowNumber = n, pr_values = zip hs (map trim line)\<rparr>) (zip [2..<2 + length lines] lines)"
    unfolding one_add_one [symmetric]
  proof (rule data_rows_table [OF _ assms(2,3,6)])
    have "\<exists>x \<in> set line. trim x \<noteq> []" if line: "line \<in> set lines" for line
    proof -
      from assms(5) line obtain x where "x \<in> set line" "x \<noteq> []" by auto
      moreover from assms(4) line this have "trim x = x" by auto
      ultimately show ?thesis by (intro bexI [of _ x]) simp_all
    qed
    then show "\<forall>line \<in> set lines. length line = length hs \<and> (\<exists>x \<in> set line. trim x \<noteq> [])"
      using assms(5) by blast
  qed
  ultimately have rows: "ps_rows (parseCsv (csv_file (hs # lines)) maxRows) =
      map (\<lambda>(n, line). \<lparr>pr_rowNumber = n, pr_values = zip hs (map trim line)\<rparr>) (zip [2..<2 + length lines] lines)"
    and headers: "ps_headers (parseCsv (csv_file (hs # lines)) maxRows) = hs"
    using hs header_first [OF assms(1), of lines] by (simp_all add: materialize_def Let_def del: upt_Suc)
  have "map (\<lambda>p. zip hs (map trim (snd p))) (zip ns lines) = map (zip hs) lines" if "length ns = length lines" for ns :: "nat list"
  proof -
    have "map (\<lambda>p. zip hs (map trim (snd p))) (zip ns lines) = map (\<lambda>line. zip hs (map trim line)) (map snd (zip ns lines))" by simp
    also have "\<dots> = map (zip hs) lines" using that lines by simp
    finally show ?thesis .
  qed
  from this [of "[2..<2 + length lines]"] have "map pr_values (ps_rows (parseCsv (csv_file (hs # lines)) maxRows)) = map (zip hs) lines"
    by (simp add: rows o_def split_beta del: upt_Suc)
  moreover have "map pr_rowNumber (ps_rows (parseCsv (csv_file (hs # lines)) maxRows)) = map fst (zip [2..<2 + length lines] lines)"
    by (simp add: rows o_def split_beta del: upt_Suc)
  ultimately show ?thesis using headers by (simp add: add.commute del: upt_Suc)
qed

end
