(* ===== verification/Import_Store.thy ===== *)
theory Import_Store
  imports Import_File
begin

text \<open>
  The tables of the import pipeline (\<open>platform/platform-common/import\<close>): jobs, their rows and the storage
  objects of uploaded files, with the statements of the three repositories.
\<close>

section \<open>Rows\<close>

datatype import_status = IM_PENDING_UPLOAD | IM_UPLOADED | IM_PARSING | IM_MAPPED | IM_VALIDATING | IM_VALIDATED
  | IM_EXECUTING | IM_COMPLETED | IM_COMPLETED_WITH_ERRORS | IM_FAILED | IM_CANCELLED
datatype row_validation = V_PENDING | V_VALID | V_INVALID | V_DUPLICATE
datatype row_execution = X_PENDING | X_PROCESSING | X_APPLIED | X_FAILED | X_SKIPPED
datatype storage_purpose = IMPORT_SOURCE | IMPORT_ERROR_REPORT | EXPORT_RESULT | OTHER_PURPOSE
datatype scan_status = SCAN_PENDING | SCAN_CLEAN | SCAN_INFECTED | SCAN_SKIPPED
datatype import_stage = PARSE_STAGE | VALIDATE_STAGE | EXECUTE_STAGE

definition status_name :: "import_status \<Rightarrow> string" where
  "status_name s = (case s of IM_PENDING_UPLOAD \<Rightarrow> ''PENDING_UPLOAD'' | IM_UPLOADED \<Rightarrow> ''UPLOADED'' | IM_PARSING \<Rightarrow> ''PARSING''
     | IM_MAPPED \<Rightarrow> ''MAPPED'' | IM_VALIDATING \<Rightarrow> ''VALIDATING'' | IM_VALIDATED \<Rightarrow> ''VALIDATED'' | IM_EXECUTING \<Rightarrow> ''EXECUTING''
     | IM_COMPLETED \<Rightarrow> ''COMPLETED'' | IM_COMPLETED_WITH_ERRORS \<Rightarrow> ''COMPLETED_WITH_ERRORS'' | IM_FAILED \<Rightarrow> ''FAILED''
     | IM_CANCELLED \<Rightarrow> ''CANCELLED'')"

record history_entry =
  he_from :: string
  he_to :: string
  he_at :: int
  he_actor :: "string option"
  he_detail :: "string option"

record import_job =
  ij_id :: string
  ij_tenantId :: "string option"
  ij_jobNo :: string
  ij_entityKey :: string
  ij_status :: import_status
  ij_descriptorVersion :: int
  ij_descriptorSnapshot :: import_descriptor
  ij_columnMapping :: "text_fields option"
  ij_statusHistory :: "history_entry list"
  ij_totalRows :: nat
  ij_validRows :: nat
  ij_invalidRows :: nat
  ij_appliedRows :: nat
  ij_failedRows :: nat
  ij_cancelRequested :: bool
  ij_sourceStorageObjectId :: "string option"
  ij_errorReportStorageObjectId :: "string option"
  ij_options :: sval
  ij_requestedBy :: "string option"
  ij_traceId :: "string option"
  ij_buildSha :: "string option"
  ij_heartbeatAt :: "int option"
  ij_lockedUntil :: "int option"
  ij_lockedBy :: "string option"
  ij_version :: nat
  ij_createdAt :: int
  ij_completedAt :: "int option"

record import_row =
  iw_id :: string
  iw_tenantId :: "string option"
  iw_jobId :: string
  iw_rowNumber :: nat
  iw_rawPayload :: text_fields
  iw_mappedPayload :: text_fields
  iw_validation :: row_validation
  iw_execution :: row_execution
  iw_claimToken :: int
  iw_validationErrors :: "string list option"
  iw_errorMessage :: "string option"
  iw_entityId :: "string option"
  iw_secondaryEntityIds :: "string list option"
  iw_createdAt :: int
  iw_updatedAt :: int
  iw_processedAt :: "int option"

record storage_object =
  sg_id :: string
  sg_tenantId :: "string option"
  sg_storageKey :: string
  sg_purpose :: storage_purpose
  sg_contentType :: "string option"
  sg_sizeBytes :: "nat option"
  sg_checksum :: "string option"
  sg_scanStatus :: scan_status
  sg_expiresAt :: "int option"
  sg_createdAt :: int

record new_import_job =
  ni_tenantId :: "string option"
  ni_jobNo :: string
  ni_entityKey :: string
  ni_descriptorVersion :: int
  ni_descriptorSnapshot :: import_descriptor
  ni_sourceStorageObjectId :: string
  ni_options :: sval
  ni_requestedBy :: "string option"
  ni_traceId :: "string option"
  ni_buildSha :: "string option"

record new_import_row =
  nw_tenantId :: "string option"
  nw_jobId :: string
  nw_rowNumber :: nat
  nw_rawPayload :: text_fields
  nw_mappedPayload :: text_fields

record row_verdict =
  vd_rowNumber :: nat
  vd_status :: row_validation
  vd_errors :: "string list option"

record row_settlement =
  rs_rowNumber :: nat
  rs_status :: row_execution
  rs_entityId :: "string option"
  rs_secondaryEntityIds :: "string list option"
  rs_errorMessage :: "string option"
  rs_claimToken :: int

record import_config =
  im_maxFileSizeBytes :: int
  im_maxRows :: nat
  im_validationChunkSize :: nat
  im_executionChunkSize :: nat
  im_lockTtlMs :: int
  im_reconciliationWindowMs :: int
  im_presignedUploadTtlSeconds :: int
  im_previewRows :: nat
  im_sourceRetentionDays :: int
  im_skipAvScan :: bool
  im_buildSha :: string

text \<open>
  The database, the queue of stages, and the heartbeat timers of the stages that run: the job and the
  owner each of them renews.
\<close>

record import_db = platform_db +
  im_jobs :: "import_job list"
  im_rows :: "import_row list"
  im_objects :: "storage_object list"
  im_queue :: "(import_stage \<times> string) list"
  im_timers :: "(string \<times> string) list"

record file_meta =
  fm_size :: nat
  fm_contentType :: "string option"

text \<open>
  What a call sees: the environment, the configuration, the file storage, the spreadsheet library, the
  answers of the queue, rows that other transactions hold, and the order of returned rows.
\<close>

record import_call =
  ip_env :: env
  ip_config :: import_config
  ip_host :: host
  ip_metadata :: "string \<Rightarrow> file_meta option result"
  ip_download :: "string \<Rightarrow> (string \<times> string option) result"
  ip_delete :: "string \<Rightarrow> unit result"
  ip_presign :: "string \<Rightarrow> int \<Rightarrow> int \<Rightarrow> string result"
  ip_xlsx :: "string \<Rightarrow> workbook result"
  ip_queue :: "import_stage \<Rightarrow> string \<Rightarrow> unit result"
  ip_rowLocked :: "string \<Rightarrow> bool"
  ip_returned :: "import_row list \<Rightarrow> import_row list"

abbreviation ip_now :: "import_call \<Rightarrow> int" where "ip_now c \<equiv> e_now (ip_env c)"

section \<open>The repository of jobs\<close>

definition import_terminal :: "import_status set" where
  "import_terminal = {IM_COMPLETED, IM_COMPLETED_WITH_ERRORS, IM_FAILED, IM_CANCELLED}"

definition NON_TERMINAL :: "import_status set" where
  "NON_TERMINAL = {IM_PENDING_UPLOAD, IM_UPLOADED, IM_PARSING, IM_MAPPED, IM_VALIDATING, IM_VALIDATED, IM_EXECUTING}"

definition findImport :: "string \<Rightarrow> import_job list \<Rightarrow> import_job option" where
  "findImport jobId jobs = find_first (\<lambda>j. ij_id j = jobId) jobs"

definition create_import_job :: "import_call \<Rightarrow> new_import_job \<Rightarrow> (import_job, 'a import_db_scheme) tx" where
  "create_import_job c n =
     tx_then (draw_uuid (ip_env c)) (\<lambda>i.
     tx_then (tx_lift (json_input (ip_host c) (if is_nullish (ni_options n) then VObj [] else ni_options n))) (\<lambda>options db.
     if \<exists>j \<in> set (im_jobs db). ij_id j = i \<or> (ni_tenantId n \<noteq> None \<and> ij_tenantId j = ni_tenantId n \<and> ij_jobNo j = ni_jobNo n)
     then throw_plain ''Unique constraint failed''
     else if \<forall>o1 \<in> set (im_objects db). sg_id o1 \<noteq> ni_sourceStorageObjectId n
     then throw_plain ''Foreign key constraint violated''
     else let job = \<lparr>ij_id = i, ij_tenantId = ni_tenantId n, ij_jobNo = ni_jobNo n, ij_entityKey = ni_entityKey n,
            ij_status = IM_UPLOADED, ij_descriptorVersion = ni_descriptorVersion n,
            ij_descriptorSnapshot = ni_descriptorSnapshot n, ij_columnMapping = None,
            ij_statusHistory = [\<lparr>he_from = ''PENDING_UPLOAD'', he_to = ''UPLOADED'', he_at = ip_now c,
              he_actor = ni_requestedBy n, he_detail = Some ''job created after upload verification''\<rparr>],
            ij_totalRows = 0, ij_validRows = 0, ij_invalidRows = 0, ij_appliedRows = 0, ij_failedRows = 0,
            ij_cancelRequested = False, ij_sourceStorageObjectId = Some (ni_sourceStorageObjectId n),
            ij_errorReportStorageObjectId = None, ij_options = options, ij_requestedBy = ni_requestedBy n,
            ij_traceId = ni_traceId n, ij_buildSha = ni_buildSha n, ij_heartbeatAt = None, ij_lockedUntil = None,
            ij_lockedBy = None, ij_version = 0, ij_createdAt = ip_now c, ij_completedAt = None\<rparr>
          in Inr (job, db\<lparr>im_jobs := insert_row job (im_jobs db)\<rparr>)))"

definition list_imports ::
  "string option \<Rightarrow> import_status option \<Rightarrow> string option \<Rightarrow> nat \<Rightarrow> nat \<Rightarrow> import_job list \<Rightarrow> import_job list \<times> nat" where
  "list_imports tenantId status entityKey page pageSize jobs =
     (let hits = filter (\<lambda>j. (truthy tenantId \<longrightarrow> ij_tenantId j = tenantId) \<and>
            (case status of None \<Rightarrow> True | Some s \<Rightarrow> ij_status j = s) \<and>
            (truthy entityKey \<longrightarrow> Some (ij_entityKey j) = entityKey)) jobs
      in (take pageSize (drop ((page - 1) * pageSize) (sort_key (\<lambda>j. - ij_createdAt j) hits)), length hits))"

definition history :: "int \<Rightarrow> import_status \<Rightarrow> import_status \<Rightarrow> string option \<Rightarrow> string option \<Rightarrow> history_entry" where
  "history now from to actor detail = \<lparr>he_from = status_name from, he_to = status_name to, he_at = now, he_actor = actor,
     he_detail = detail\<rparr>"

definition add_history :: "history_entry \<Rightarrow> import_job \<Rightarrow> import_job" where
  "add_history h j = j\<lparr>ij_statusHistory := ij_statusHistory j @ [h]\<rparr>"

definition flipped :: "int \<Rightarrow> import_status \<Rightarrow> import_job \<Rightarrow> import_job" where
  "flipped now to j = j\<lparr>ij_status := to, ij_version := ij_version j + 1,
     ij_heartbeatAt := (if to \<in> {IM_PARSING, IM_VALIDATING, IM_EXECUTING} then Some now else ij_heartbeatAt j)\<rparr>"

text \<open>The two statements of a transition are one transaction; \<open>update\<close> throws when the row is gone.\<close>

definition with_history ::
  "string \<Rightarrow> history_entry \<Rightarrow> import_job list \<Rightarrow> 'a import_db_scheme \<Rightarrow> (import_job \<times> 'a import_db_scheme) result" where
  "with_history jobId h jobs db =
     (let jobs' = map_where (\<lambda>j. ij_id j = jobId) (add_history h) jobs in
      case findImport jobId jobs' of
        None \<Rightarrow> throw_plain ''No ImportJob found''
      | Some j \<Rightarrow> Inr (j, db\<lparr>im_jobs := jobs'\<rparr>))"

definition transition_tx ::
  "int \<Rightarrow> string \<Rightarrow> import_status list \<Rightarrow> import_status \<Rightarrow> history_entry \<Rightarrow> (import_job, 'a import_db_scheme) tx" where
  "transition_tx now jobId from to h db =
     (let (n, jobs) = update_many (\<lambda>j. ij_id j = jobId \<and> ij_status j \<in> set from) (flipped now to) (im_jobs db) in
      if n = 0
      then throw_plain (''Failed to transition import job '' @ jobId @ '' to '' @ status_name to @ '' (current='' @
        (case findImport jobId (im_jobs db) of None \<Rightarrow> ''undefined'' | Some j \<Rightarrow> status_name (ij_status j)) @ '')'')
      else with_history jobId h jobs db)"

definition transitionStatus ::
  "int \<Rightarrow> string \<Rightarrow> import_status list \<Rightarrow> import_status \<Rightarrow> history_entry \<Rightarrow> (import_job, 'a import_db_scheme) io" where
  "transitionStatus now jobId from to h = transactional (transition_tx now jobId from to h)"

definition update_import :: "string \<Rightarrow> (import_job \<Rightarrow> import_job) \<Rightarrow> (import_job, 'a import_db_scheme) io" where
  "update_import jobId f db = (let jobs = map_where (\<lambda>j. ij_id j = jobId) f (im_jobs db) in
     case findImport jobId (im_jobs db) of
       None \<Rightarrow> (throw_plain ''No record was found for an update'', db)
     | Some j \<Rightarrow> (Inr (f j), db\<lparr>im_jobs := jobs\<rparr>))"

definition setColumnMapping :: "string \<Rightarrow> text_fields \<Rightarrow> (import_job, 'a import_db_scheme) io" where
  "setColumnMapping jobId mapping = update_import jobId (\<lambda>j. j\<lparr>ij_columnMapping := Some mapping, ij_version := ij_version j + 1\<rparr>)"

record counters_patch =
  cp_totalRows :: "nat option"
  cp_validRows :: "nat option"
  cp_invalidRows :: "nat option"
  cp_appliedRows :: "nat option"
  cp_failedRows :: "nat option"

definition updateCounters :: "int \<Rightarrow> string \<Rightarrow> counters_patch \<Rightarrow> (import_job, 'a import_db_scheme) io" where
  "updateCounters now jobId p = update_import jobId (\<lambda>j. j\<lparr>ij_totalRows := coalesce (cp_totalRows p) (ij_totalRows j),
     ij_validRows := coalesce (cp_validRows p) (ij_validRows j), ij_invalidRows := coalesce (cp_invalidRows p) (ij_invalidRows j),
     ij_appliedRows := coalesce (cp_appliedRows p) (ij_appliedRows j), ij_failedRows := coalesce (cp_failedRows p) (ij_failedRows j),
     ij_heartbeatAt := Some now\<rparr>)"

definition import_setCancelRequested :: "string \<Rightarrow> (import_job, 'a import_db_scheme) io" where
  "import_setCancelRequested jobId = update_import jobId (\<lambda>j. j\<lparr>ij_cancelRequested := True\<rparr>)"

definition import_cancelRequested :: "string \<Rightarrow> import_job list \<Rightarrow> bool" where
  "import_cancelRequested jobId jobs = (case findImport jobId jobs of None \<Rightarrow> False | Some j \<Rightarrow> ij_cancelRequested j)"

definition ended :: "int \<Rightarrow> import_status \<Rightarrow> import_job \<Rightarrow> import_job" where
  "ended now status j = j\<lparr>ij_status := status, ij_completedAt := Some now, ij_lockedUntil := None, ij_lockedBy := None,
     ij_version := ij_version j + 1\<rparr>"

definition terminal_tx ::
  "int \<Rightarrow> string \<Rightarrow> import_status \<Rightarrow> history_entry \<Rightarrow> (import_job option, 'a import_db_scheme) tx" where
  "terminal_tx now jobId status h db =
     (let (n, jobs) = update_many (\<lambda>j. ij_id j = jobId \<and> ij_status j \<notin> import_terminal) (ended now status) (im_jobs db) in
      if n = 0 then Inr (None, db\<lparr>im_jobs := jobs\<rparr>)
      else and_then (with_history jobId h jobs db) (\<lambda>(j, db'). Inr (Some j, db')))"

definition markTerminal ::
  "int \<Rightarrow> string \<Rightarrow> import_status \<Rightarrow> history_entry \<Rightarrow> (import_job option, 'a import_db_scheme) io" where
  "markTerminal now jobId status h = transactional (terminal_tx now jobId status h)"

definition findStaleJobs :: "int \<Rightarrow> import_job list \<Rightarrow> import_job list" where
  "findStaleJobs olderThan jobs = filter (\<lambda>j. ij_status j \<in> {IM_PARSING, IM_VALIDATING, IM_EXECUTING} \<and>
     (case ij_heartbeatAt j of None \<Rightarrow> True | Some t \<Rightarrow> t < olderThan)) jobs"

definition attachErrorReport :: "string \<Rightarrow> string \<Rightarrow> (import_job, 'a import_db_scheme) io" where
  "attachErrorReport jobId objectId = update_import jobId (\<lambda>j. j\<lparr>ij_errorReportStorageObjectId := Some objectId\<rparr>)"

definition lock_free :: "int \<Rightarrow> string \<Rightarrow> import_job \<Rightarrow> bool" where
  "lock_free now owner j \<longleftrightarrow>
     (case ij_lockedUntil j of None \<Rightarrow> True | Some t \<Rightarrow> t < now) \<or> ij_lockedBy j = Some owner"

definition tryAcquireLock :: "int \<Rightarrow> string \<Rightarrow> string \<Rightarrow> int \<Rightarrow> import_job list \<Rightarrow> bool \<times> import_job list" where
  "tryAcquireLock now jobId owner until jobs =
     (let (n, jobs') = update_many (\<lambda>j. ij_id j = jobId \<and> ij_status j \<in> NON_TERMINAL \<and> lock_free now owner j)
        (\<lambda>j. j\<lparr>ij_lockedBy := Some owner, ij_lockedUntil := Some until, ij_heartbeatAt := Some now\<rparr>) jobs
      in (n = 1, jobs'))"

definition heartbeat :: "int \<Rightarrow> string \<Rightarrow> string \<Rightarrow> int \<Rightarrow> import_job list \<Rightarrow> bool \<times> import_job list" where
  "heartbeat now jobId owner until jobs =
     (let (n, jobs') = update_many (\<lambda>j. ij_id j = jobId \<and> ij_lockedBy j = Some owner \<and> ij_status j \<in> NON_TERMINAL)
        (\<lambda>j. j\<lparr>ij_lockedUntil := Some until, ij_heartbeatAt := Some now\<rparr>) jobs
      in (n = 1, jobs'))"

definition releaseLock :: "string \<Rightarrow> string \<Rightarrow> import_job list \<Rightarrow> import_job list" where
  "releaseLock jobId owner jobs = snd (update_many (\<lambda>j. ij_id j = jobId \<and> ij_lockedBy j = Some owner)
     (\<lambda>j. j\<lparr>ij_lockedBy := None, ij_lockedUntil := None\<rparr>) jobs)"

definition count_import :: "string \<Rightarrow> (import_row \<Rightarrow> bool) \<Rightarrow> import_row list \<Rightarrow> nat" where
  "count_import jobId p rows = length (filter (\<lambda>r. iw_jobId r = jobId \<and> p r) rows)"

definition recounted :: "int \<Rightarrow> import_row list \<Rightarrow> import_job \<Rightarrow> import_job" where
  "recounted now rows j = j\<lparr>ij_totalRows := count_import (ij_id j) (\<lambda>_. True) rows,
     ij_validRows := count_import (ij_id j) (\<lambda>r. iw_validation r = V_VALID) rows,
     ij_invalidRows := count_import (ij_id j) (\<lambda>r. iw_validation r \<in> {V_INVALID, V_DUPLICATE}) rows,
     ij_appliedRows := count_import (ij_id j) (\<lambda>r. iw_execution r = X_APPLIED) rows,
     ij_failedRows := count_import (ij_id j) (\<lambda>r. iw_execution r \<in> {X_FAILED, X_SKIPPED}) rows,
     ij_heartbeatAt := Some now\<rparr>"

text \<open>A job without rows has no group to join with and keeps its counters.\<close>

definition recountCounters :: "int \<Rightarrow> string \<Rightarrow> (import_job option, 'a import_db_scheme) io" where
  "recountCounters now jobId = io_step (\<lambda>db.
     let jobs = map_where (\<lambda>j. ij_id j = jobId \<and> (\<exists>r \<in> set (im_rows db). iw_jobId r = jobId)) (recounted now (im_rows db)) (im_jobs db)
     in (findImport jobId jobs, db\<lparr>im_jobs := jobs\<rparr>))"

section \<open>The repository of rows\<close>

definition insert_import_row :: "import_call \<Rightarrow> new_import_row \<Rightarrow> (unit, 'a import_db_scheme) tx" where
  "insert_import_row c n = tx_then (draw_uuid (ip_env c)) (\<lambda>i db. Inr ((),
     if \<exists>r \<in> set (im_rows db). iw_id r = i \<or> (iw_jobId r = nw_jobId n \<and> iw_rowNumber r = nw_rowNumber n) then db
     else db\<lparr>im_rows := insert_row \<lparr>iw_id = i, iw_tenantId = nw_tenantId n, iw_jobId = nw_jobId n, iw_rowNumber = nw_rowNumber n,
       iw_rawPayload = nw_rawPayload n, iw_mappedPayload = nw_mappedPayload n, iw_validation = V_PENDING,
       iw_execution = X_PENDING, iw_claimToken = 0, iw_validationErrors = None, iw_errorMessage = None, iw_entityId = None,
       iw_secondaryEntityIds = None, iw_createdAt = ip_now c, iw_updatedAt = ip_now c, iw_processedAt = None\<rparr> (im_rows db)\<rparr>))"

definition bulkInsert :: "import_call \<Rightarrow> new_import_row list \<Rightarrow> (unit, 'a import_db_scheme) io" where
  "bulkInsert c rows = transactional (tx_for (insert_import_row c) rows)"

definition rows_in_order :: "string \<Rightarrow> (import_row \<Rightarrow> bool) \<Rightarrow> import_row list \<Rightarrow> import_row list" where
  "rows_in_order jobId p rows = sort_key iw_rowNumber (filter (\<lambda>r. iw_jobId r = jobId \<and> p r) rows)"

definition listByJob :: "string \<Rightarrow> nat \<Rightarrow> nat \<Rightarrow> row_validation option \<Rightarrow> import_row list \<Rightarrow> import_row list \<times> nat" where
  "listByJob jobId page pageSize v rows =
     (let hits = rows_in_order jobId (\<lambda>r. case v of None \<Rightarrow> True | Some s \<Rightarrow> iw_validation r = s) rows
      in (take pageSize (drop ((page - 1) * pageSize) hits), length hits))"

definition listPendingValidation :: "string \<Rightarrow> nat \<Rightarrow> import_row list \<Rightarrow> import_row list" where
  "listPendingValidation jobId limit rows = take limit (rows_in_order jobId (\<lambda>r. iw_validation r = V_PENDING) rows)"

definition executable_row :: "import_row \<Rightarrow> bool" where
  "executable_row r \<longleftrightarrow> iw_validation r = V_VALID \<and> iw_execution r = X_PENDING"

definition listPendingExecution :: "string \<Rightarrow> nat \<Rightarrow> import_row list \<Rightarrow> import_row list" where
  "listPendingExecution jobId limit rows = take limit (rows_in_order jobId executable_row rows)"

definition claimed_import_row :: "int \<Rightarrow> import_row \<Rightarrow> import_row" where
  "claimed_import_row now r = r\<lparr>iw_execution := X_PROCESSING, iw_claimToken := iw_claimToken r + 1, iw_updatedAt := now\<rparr>"

definition claimForExecution :: "import_call \<Rightarrow> string \<Rightarrow> nat \<Rightarrow> import_row list \<Rightarrow> import_row list \<times> import_row list" where
  "claimForExecution c jobId limit rows =
     (let ids = map iw_id (take limit (rows_in_order jobId (\<lambda>r. executable_row r \<and> \<not> ip_rowLocked c (iw_id r)) rows));
          hit = (\<lambda>r. iw_id r \<in> set ids)
      in (ip_returned c (map (claimed_import_row (ip_now c)) (filter hit rows)), map_where hit (claimed_import_row (ip_now c)) rows))"

definition judged :: "int \<Rightarrow> row_verdict \<Rightarrow> import_row \<Rightarrow> import_row" where
  "judged now v r = r\<lparr>iw_validation := vd_status v, iw_validationErrors := Some (coalesce (vd_errors v) []), iw_updatedAt := now\<rparr>"

fun applyValidationVerdicts :: "int \<Rightarrow> string \<Rightarrow> row_verdict list \<Rightarrow> import_row list \<Rightarrow> import_row list" where
  "applyValidationVerdicts now jobId [] rows = rows"
| "applyValidationVerdicts now jobId (v # vs) rows = applyValidationVerdicts now jobId vs
     (map_where (\<lambda>r. iw_jobId r = jobId \<and> iw_rowNumber r = vd_rowNumber v) (judged now v) rows)"

definition settlement_hit :: "string \<Rightarrow> row_settlement \<Rightarrow> import_row \<Rightarrow> bool" where
  "settlement_hit jobId s r \<longleftrightarrow> iw_jobId r = jobId \<and> iw_rowNumber r = rs_rowNumber s \<and> iw_execution r = X_PROCESSING \<and>
     iw_claimToken r = rs_claimToken s"

definition settled_import_row :: "int \<Rightarrow> row_settlement \<Rightarrow> import_row \<Rightarrow> import_row" where
  "settled_import_row now s r = r\<lparr>iw_execution := rs_status s, iw_entityId := rs_entityId s,
     iw_secondaryEntityIds := Some (coalesce (rs_secondaryEntityIds s) []), iw_errorMessage := rs_errorMessage s,
     iw_processedAt := Some now, iw_updatedAt := now\<rparr>"

fun applyExecutionResults :: "int \<Rightarrow> string \<Rightarrow> row_settlement list \<Rightarrow> import_row list \<Rightarrow> nat \<times> import_row list" where
  "applyExecutionResults now jobId [] rows = (0, rows)"
| "applyExecutionResults now jobId (s # ss) rows =
     (let (n, rows') = update_many (settlement_hit jobId s) (settled_import_row now s) rows;
          (m, rows'') = applyExecutionResults now jobId ss rows' in (n + m, rows''))"

definition countByValidationStatus :: "string \<Rightarrow> import_row list \<Rightarrow> row_validation \<Rightarrow> nat" where
  "countByValidationStatus jobId rows s = count_import jobId (\<lambda>r. iw_validation r = s) rows"

definition countByExecutionStatus :: "string \<Rightarrow> import_row list \<Rightarrow> row_execution \<Rightarrow> nat" where
  "countByExecutionStatus jobId rows s = count_import jobId (\<lambda>r. iw_execution r = s) rows"

definition deleteByJob :: "string \<Rightarrow> import_row list \<Rightarrow> import_row list" where
  "deleteByJob jobId rows = snd (delete_many (\<lambda>r. iw_jobId r = jobId) rows)"

definition job_in :: "import_status set \<Rightarrow> import_job list \<Rightarrow> import_row \<Rightarrow> bool" where
  "job_in ss jobs r \<longleftrightarrow> (\<exists>j \<in> set jobs. ij_id j = iw_jobId r \<and> ij_status j \<in> ss)"

definition reset_stale_rows :: "int \<Rightarrow> int \<Rightarrow> import_job list \<Rightarrow> import_row list \<Rightarrow> nat \<times> import_row list" where
  "reset_stale_rows now olderThan jobs rows = update_many
     (\<lambda>r. job_in {IM_VALIDATED, IM_EXECUTING} jobs r \<and> iw_execution r = X_PROCESSING \<and> iw_updatedAt r < olderThan)
     (\<lambda>r. r\<lparr>iw_execution := X_PENDING, iw_claimToken := iw_claimToken r + 1, iw_updatedAt := now\<rparr>) rows"

definition abandon_rows :: "int \<Rightarrow> import_job list \<Rightarrow> import_row list \<Rightarrow> import_row list" where
  "abandon_rows now jobs rows = snd (update_many (\<lambda>r. job_in import_terminal jobs r \<and> iw_execution r = X_PROCESSING)
     (\<lambda>r. r\<lparr>iw_execution := X_SKIPPED, iw_errorMessage := Some ''ABANDONED_ON_TERMINAL_JOB'', iw_updatedAt := now\<rparr>) rows)"

definition resetStaleProcessing :: "int \<Rightarrow> int \<Rightarrow> (nat, 'a import_db_scheme) io" where
  "resetStaleProcessing now olderThan =
     io_then (io_step (\<lambda>db. let (n, rows) = reset_stale_rows now olderThan (im_jobs db) (im_rows db) in (n, db\<lparr>im_rows := rows\<rparr>))) (\<lambda>n.
     io_then (io_write (\<lambda>db. db\<lparr>im_rows := abandon_rows now (im_jobs db) (im_rows db)\<rparr>)) (\<lambda>_. io_return n))"

section \<open>The repository of storage objects\<close>

definition findObject :: "string \<Rightarrow> storage_object list \<Rightarrow> storage_object option" where
  "findObject i objects = find_first (\<lambda>o1. sg_id o1 = i) objects"

text \<open>A key that is taken gives the object that is there; the insert that failed has drawn its id.\<close>

definition createPending ::
  "import_call \<Rightarrow> string option \<Rightarrow> string \<Rightarrow> storage_purpose \<Rightarrow> string option \<Rightarrow> int option \<Rightarrow> scan_status \<Rightarrow>
   (storage_object, 'a import_db_scheme) io" where
  "createPending c tenantId key purpose contentType expiresAt scan = transactional (
     tx_then (draw_uuid (ip_env c)) (\<lambda>i db.
     case find_first (\<lambda>o1. sg_storageKey o1 = key) (im_objects db) of
       Some o1 \<Rightarrow> Inr (o1, db)
     | None \<Rightarrow>
         if \<exists>o1 \<in> set (im_objects db). sg_id o1 = i then throw_plain ''Unique constraint failed''
         else let o1 = \<lparr>sg_id = i, sg_tenantId = tenantId, sg_storageKey = key, sg_purpose = purpose,
                sg_contentType = contentType, sg_sizeBytes = None, sg_checksum = None, sg_scanStatus = scan,
                sg_expiresAt = expiresAt, sg_createdAt = ip_now c\<rparr>
              in Inr (o1, db\<lparr>im_objects := insert_row o1 (im_objects db)\<rparr>)))"

definition markVerified ::
  "string \<Rightarrow> nat \<Rightarrow> string option \<Rightarrow> string option \<Rightarrow> scan_status \<Rightarrow> (unit, 'a import_db_scheme) io" where
  "markVerified i bytes contentType checksum scan db =
     (if findObject i (im_objects db) = None then (throw_plain ''No record was found for an update'', db)
      else if bytes \<ge> 2 ^ 31 then (throw_plain ''Value out of range for the type integer'', db)
      else (Inr (), db\<lparr>im_objects := map_where (\<lambda>o1. sg_id o1 = i) (\<lambda>o1. o1\<lparr>sg_sizeBytes := Some bytes,
        sg_contentType := coalesce_opt contentType (sg_contentType o1), sg_checksum := coalesce_opt checksum (sg_checksum o1),
        sg_scanStatus := scan\<rparr>) (im_objects db)\<rparr>))"

definition markConsumed :: "string \<Rightarrow> int \<Rightarrow> storage_object list \<Rightarrow> storage_object list" where
  "markConsumed i expiresAt objects = snd (update_many (\<lambda>o1. sg_id o1 = i) (\<lambda>o1. o1\<lparr>sg_expiresAt := Some expiresAt\<rparr>) objects)"

definition referenced :: "import_job list \<Rightarrow> string \<Rightarrow> bool" where
  "referenced jobs i \<longleftrightarrow> (\<exists>j \<in> set jobs. ij_sourceStorageObjectId j = Some i \<or> ij_errorReportStorageObjectId j = Some i)"

definition findExpired :: "int \<Rightarrow> nat \<Rightarrow> import_job list \<Rightarrow> storage_object list \<Rightarrow> storage_object list" where
  "findExpired cutoff limit jobs objects = take limit (sort_key (\<lambda>o1. coalesce (sg_expiresAt o1) 0)
     (filter (\<lambda>o1. (case sg_expiresAt o1 of None \<Rightarrow> False | Some t \<Rightarrow> t < cutoff) \<and> \<not> referenced jobs (sg_id o1)) objects))"

text \<open>The foreign key of a source restricts the delete; the one of a report is set to null.\<close>

definition deleteObject :: "string \<Rightarrow> (unit, 'a import_db_scheme) io" where
  "deleteObject i db =
     (if \<exists>j \<in> set (im_jobs db). ij_sourceStorageObjectId j = Some i then (throw_plain ''Foreign key constraint violated'', db)
      else (Inr (), db\<lparr>im_objects := snd (delete_many (\<lambda>o1. sg_id o1 = i) (im_objects db)),
        im_jobs := map_where (\<lambda>j. ij_errorReportStorageObjectId j = Some i) (\<lambda>j. j\<lparr>ij_errorReportStorageObjectId := None\<rparr>) (im_jobs db)\<rparr>))"

end
