(* ===== verification/Import_UseCases.thy ===== *)
theory Import_UseCases
  imports Import_Store
begin

text \<open>
  The use cases of the import pipeline: upload, job creation, the three stages of the worker (parse,
  validate, execute) under their renewing lock, the requests on a job, and the reconciliation. They run
  outside transactions, so every statement commits on its own.
\<close>

section \<open>Handlers and contexts\<close>

record import_context =
  ix_tenantId :: "string option"
  ix_userId :: "string option"
  ix_jobId :: string
  ix_traceId :: "string option"
  ix_options :: sval

record row_outcome =
  ro_rowNumber :: nat
  ro_status :: row_execution
  ro_entityId :: "string option"
  ro_secondaryEntityIds :: "string list option"
  ro_errorMessage :: "string option"

type_synonym row_payload = "(string \<times> sval) list"

record 'd import_handler =
  ih_preloadReferences :: "request_context \<Rightarrow> row_payload list \<Rightarrow> import_context \<Rightarrow> (sval, 'd) io"
  ih_validateBatch :: "request_context \<Rightarrow> row_payload list \<Rightarrow> sval \<Rightarrow> import_context \<Rightarrow> (row_verdict list, 'd) io"
  ih_executeBatch :: "request_context \<Rightarrow> row_payload list \<Rightarrow> import_context \<Rightarrow> (row_outcome list, 'd) io"

text \<open>\<open>{ rowNumber, ...mappedPayload }\<close>\<close>

definition payload_of_row :: "import_row \<Rightarrow> row_payload" where
  "payload_of_row r = spread_fields [(''rowNumber'', VNum (N (int (iw_rowNumber r))))]
     (map (\<lambda>(k, v). (k, VStr v)) (iw_mappedPayload r))"

definition context_of_job :: "import_job \<Rightarrow> import_context" where
  "context_of_job j = \<lparr>ix_tenantId = ij_tenantId j, ix_userId = ij_requestedBy j, ix_jobId = ij_id j, ix_traceId = ij_traceId j,
     ix_options = (if is_nullish (ij_options j) then VObj [] else ij_options j)\<rparr>"

text \<open>\<open>requestContext.run({ tenantId, correlationId: traceId }, ...)\<close>; a job without a trace id runs with an
  empty correlation id.\<close>

definition in_job_context :: "import_call \<Rightarrow> import_job \<Rightarrow> import_call" where
  "in_job_context c j = c\<lparr>ip_env := (ip_env c)\<lparr>e_ctx := ctx_run_context (Some (e_ctx (ip_env c)))
     (empty_patch\<lparr>p_tenantId := Some (ij_tenantId j), p_correlationId := Some (coalesce (ij_traceId j) [])\<rparr>)\<rparr>\<rparr>"

text \<open>\<open>try { m } finally { r }\<close>\<close>

definition io_finally :: "('x, 'd) io \<Rightarrow> (unit, 'd) io \<Rightarrow> ('x, 'd) io" where
  "io_finally m r db = (case m db of (res, db') \<Rightarrow>
     (case r db' of (Inl er, db'') \<Rightarrow> (Inl er, db'') | (Inr _, db'') \<Rightarrow> (res, db'')))"

section \<open>Events\<close>

definition import_event :: "string \<Rightarrow> string \<Rightarrow> import_job \<Rightarrow> string \<times> (string \<times> json) list" where
  "import_event name status j = (name,
     [(''jobId'', JStr (ij_id j)), (''jobNo'', JStr (ij_jobNo j)), (''entityKey'', JStr (ij_entityKey j)),
      (''status'', JStr status), (''totalRows'', JNum (N (int (ij_totalRows j)))),
      (''appliedRows'', JNum (N (int (ij_appliedRows j)))), (''failedRows'', JNum (N (int (ij_failedRows j)))),
      (''invalidRows'', JNum (N (int (ij_invalidRows j)))), (''tenantId'', json_opt (ij_tenantId j)),
      (''traceId'', json_opt (ij_traceId j))])"

definition write_import_event :: "import_call \<Rightarrow> import_job \<Rightarrow> string \<times> (string \<times> json) list \<Rightarrow> (unit, 'a import_db_scheme) io" where
  "write_import_event c j ev = transactional (send_event (ip_env c) ''ImportJob'' (ij_id j) ev)"

definition writeCompletedEvent :: "import_call \<Rightarrow> import_job \<Rightarrow> (unit, 'a import_db_scheme) io" where
  "writeCompletedEvent c j = write_import_event c j (import_event ''ImportJobCompletedEvent''
     (if ij_status j = IM_COMPLETED_WITH_ERRORS then ''COMPLETED_WITH_ERRORS'' else ''COMPLETED'') j)"

definition writeFailedEvent :: "import_call \<Rightarrow> import_job \<Rightarrow> (unit, 'a import_db_scheme) io" where
  "writeFailedEvent c j = write_import_event c j (import_event ''ImportJobFailedEvent'' ''FAILED'' j)"

definition writeCancelledEvent :: "import_call \<Rightarrow> import_job \<Rightarrow> (unit, 'a import_db_scheme) io" where
  "writeCancelledEvent c j = write_import_event c j (import_event ''ImportJobCancelledEvent'' ''CANCELLED'' j)"

section \<open>The stage lock and the build guard\<close>

definition assert_build :: "import_job \<Rightarrow> string \<Rightarrow> unit result" where
  "assert_build j currentBuildSha =
     (if truthy (ij_buildSha j) \<and> ij_buildSha j \<noteq> Some currentBuildSha
      then conflict (''ImportJob '' @ ij_id j @ '' was parsed by build '' @ coalesce (ij_buildSha j) [] @
        '' but this instance runs '' @ currentBuildSha)
      else Inr ())"

definition assertDescriptorCurrent :: "import_job \<Rightarrow> int \<Rightarrow> unit result" where
  "assertDescriptorCurrent j currentVersion =
     (if ij_descriptorVersion j \<noteq> currentVersion
      then conflict (''Import handler '' @ ij_entityKey j @ '' is at another descriptor version than ImportJob '' @ ij_id j @
        ''; create a new job'')
      else Inr ())"

definition stage_name :: "import_stage \<Rightarrow> string" where
  "stage_name s = (case s of PARSE_STAGE \<Rightarrow> ''parse'' | VALIDATE_STAGE \<Rightarrow> ''validate'' | EXECUTE_STAGE \<Rightarrow> ''execute'')"

text \<open>The lock is taken for the reconciliation window, and a timer renews it from then on.\<close>

definition acquire_stage :: "import_call \<Rightarrow> string \<Rightarrow> import_stage \<Rightarrow> (string option, 'a import_db_scheme) io" where
  "acquire_stage c jobId stage =
     io_then (transactional (draw_uuid (ip_env c))) (\<lambda>i.
     let owner = stage_name stage @ '':'' @ i in
     io_then (io_step (\<lambda>db. let (got, jobs) = tryAcquireLock (ip_now c) jobId owner
         (ip_now c + im_reconciliationWindowMs (ip_config c)) (im_jobs db) in (got, db\<lparr>im_jobs := jobs\<rparr>))) (\<lambda>got.
     if \<not> got then io_return None
     else io_then (io_write (\<lambda>db. db\<lparr>im_timers := im_timers db @ [(jobId, owner)]\<rparr>)) (\<lambda>_. io_return (Some owner))))"

definition release_stage :: "string \<Rightarrow> string \<Rightarrow> (unit, 'a import_db_scheme) io" where
  "release_stage jobId owner =
     io_then (io_write (\<lambda>db. db\<lparr>im_timers := filter (\<lambda>t. t \<noteq> (jobId, owner)) (im_timers db)\<rparr>)) (\<lambda>_.
     io_write (\<lambda>db. db\<lparr>im_jobs := releaseLock jobId owner (im_jobs db)\<rparr>))"

text \<open>What a timer does when it fires.\<close>

definition timer_fires :: "import_call \<Rightarrow> string \<times> string \<Rightarrow> 'a import_db_scheme \<Rightarrow> 'a import_db_scheme" where
  "timer_fires c t db = (if t \<in> set (im_timers db)
     then db\<lparr>im_jobs := snd (heartbeat (ip_now c) (fst t) (snd t) (ip_now c + im_reconciliationWindowMs (ip_config c)) (im_jobs db))\<rparr>
     else db)"

definition enqueue_stage :: "import_call \<Rightarrow> import_stage \<Rightarrow> string \<Rightarrow> (unit, 'a import_db_scheme) io" where
  "enqueue_stage c stage jobId = io_then (io_lift (ip_queue c stage jobId)) (\<lambda>_.
     io_write (\<lambda>db. db\<lparr>im_queue := im_queue db @ [(stage, jobId)]\<rparr>))"

definition read_import :: "string \<Rightarrow> (import_job, 'a import_db_scheme) io" where
  "read_import jobId = io_then (io_read (\<lambda>db. findImport jobId (im_jobs db))) (\<lambda>found.
     case found of None \<Rightarrow> io_lift (not_found (''ImportJob '' @ jobId @ '' not found'')) | Some j \<Rightarrow> io_return j)"

definition requireVisibleJob :: "import_call \<Rightarrow> string \<Rightarrow> string option \<Rightarrow> (import_job, 'a import_db_scheme) io" where
  "requireVisibleJob c jobId tenantId = io_then (read_import jobId) (\<lambda>j.
     io_then (io_lift (assertVisible (ij_tenantId j) (coalesce_opt tenantId (ctx_tenantId (e_ctx (ip_env c))))))
     (\<lambda>_. io_return j))"

definition fail_stage :: "import_call \<Rightarrow> string \<Rightarrow> import_status \<Rightarrow> exn \<Rightarrow> ('x, 'a import_db_scheme) io" where
  "fail_stage c jobId from er =
     io_then (markTerminal (ip_now c) jobId IM_FAILED (history (ip_now c) from IM_FAILED None (Some (message er)))) (\<lambda>failed.
     io_then (case failed of None \<Rightarrow> io_return () | Some j \<Rightarrow> writeFailedEvent c j) (\<lambda>_. io_lift (Inl er)))"

definition cancel_stage :: "import_call \<Rightarrow> string \<Rightarrow> import_status \<Rightarrow> (unit, 'a import_db_scheme) io" where
  "cancel_stage c jobId from =
     io_then (markTerminal (ip_now c) jobId IM_CANCELLED (history (ip_now c) from IM_CANCELLED None None)) (\<lambda>cancelled.
     case cancelled of None \<Rightarrow> io_return () | Some j \<Rightarrow> writeCancelledEvent c j)"

definition wrong_status :: "import_job \<Rightarrow> string \<Rightarrow> 'x result" where
  "wrong_status j expected = conflict (''ImportJob '' @ ij_id j @ '' is '' @ status_name (ij_status j) @ ''; expected one of: '' @ expected)"

section \<open>Parsing\<close>

definition new_rows :: "import_job \<Rightarrow> text_fields \<Rightarrow> parsed_row list \<Rightarrow> new_import_row list" where
  "new_rows j mapping rows = map (\<lambda>r. \<lparr>nw_tenantId = ij_tenantId j, nw_jobId = ij_id j, nw_rowNumber = pr_rowNumber r,
     nw_rawPayload = pr_values r, nw_mappedPayload = applyMapping (pr_values r) mapping\<rparr>) rows"

text \<open>Rows are written in chunks of 500, the last one if it is not empty.\<close>

function insert_chunks :: "import_call \<Rightarrow> new_import_row list \<Rightarrow> (unit, 'a import_db_scheme) io" where
  "insert_chunks c rows = (if rows = [] then io_return ()
     else io_then (bulkInsert c (take 500 rows)) (\<lambda>_. insert_chunks c (drop 500 rows)))"
  by pat_completeness auto

termination by (relation "measure (\<lambda>(c, rows). length rows)") auto

declare insert_chunks.simps [simp del]

definition parsed_file :: "import_call \<Rightarrow> import_job \<Rightarrow> storage_object \<Rightarrow> parsed_spreadsheet result" where
  "parsed_file c j obj =
     and_then (ip_download c (sg_storageKey obj)) (\<lambda>(body, contentType).
     let maxRows = nat (min (de_maxRows (ij_descriptorSnapshot j)) (int (im_maxRows (ip_config c)))) in
     and_then (parseFile (ip_host c) (ip_xlsx c) body (coalesce_opt (sg_contentType obj) contentType) (sg_storageKey obj) (maxRows + 1)) (\<lambda>parsed.
     if length (ps_rows parsed) > maxRows
     then throw 400 (''Import file for '' @ ij_entityKey j @ '' has '' @ nat_to_string (length (ps_rows parsed)) @
       '' rows, above the '' @ nat_to_string maxRows @ ''-row limit'')
     else Inr parsed))"

definition store_parsed :: "import_call \<Rightarrow> import_job \<Rightarrow> parsed_spreadsheet \<Rightarrow> (unit, 'a import_db_scheme) io" where
  "store_parsed c j parsed =
     (let mapping = suggestMapping (ps_headers parsed) (ij_descriptorSnapshot j) in
      io_then (io_write (\<lambda>db. db\<lparr>im_rows := deleteByJob (ij_id j) (im_rows db)\<rparr>)) (\<lambda>_.
      io_then (insert_chunks c (new_rows j mapping (ps_rows parsed))) (\<lambda>_.
      io_then (setColumnMapping (ij_id j) mapping) (\<lambda>_.
      io_then (updateCounters (ip_now c) (ij_id j) \<lparr>cp_totalRows = Some (length (ps_rows parsed)), cp_validRows = None,
        cp_invalidRows = None, cp_appliedRows = None, cp_failedRows = None\<rparr>) (\<lambda>_.
      io_then (transitionStatus (ip_now c) (ij_id j) [IM_PARSING] IM_MAPPED (history (ip_now c) IM_PARSING IM_MAPPED None
        (Some (''parsed '' @ nat_to_string (length (ps_rows parsed)) @ '' rows'')))) (\<lambda>_. io_return ()))))))"

definition parse_body :: "import_call \<Rightarrow> import_job \<Rightarrow> (unit, 'a import_db_scheme) io" where
  "parse_body c j =
     io_then (io_read (\<lambda>db. Option.bind (ij_sourceStorageObjectId j) (\<lambda>i. findObject i (im_objects db)))) (\<lambda>found.
     case found of
       None \<Rightarrow> io_lift (not_found (''Import source file is missing for '' @ ij_id j))
     | Some obj \<Rightarrow> io_then (io_lift (parsed_file c j obj)) (store_parsed c j))"

definition parse_stage :: "import_call \<Rightarrow> string \<Rightarrow> string \<Rightarrow> (unit, 'a import_db_scheme) io" where
  "parse_stage c jobId owner =
     io_then (read_import jobId) (\<lambda>j.
     io_then (io_lift (assert_build j (im_buildSha (ip_config c)))) (\<lambda>_.
     if ij_status j \<in> {IM_MAPPED, IM_VALIDATING, IM_VALIDATED} then io_return ()
     else if ij_status j \<notin> {IM_UPLOADED, IM_PARSING} then io_lift (wrong_status j ''UPLOADED, PARSING'')
     else io_then (transitionStatus (ip_now c) (ij_id j) [IM_UPLOADED, IM_PARSING] IM_PARSING
            (history (ip_now c) (ij_status j) IM_PARSING None None)) (\<lambda>_.
          io_finally (io_catch (parse_body c j) (fail_stage c (ij_id j) IM_PARSING)) (release_stage jobId owner))))"

text \<open>\<open>run_stage\<close>: what the three stages share. The lock is released by the stage, in its \<open>finally\<close>.\<close>

definition run_stage ::
  "import_call \<Rightarrow> string \<Rightarrow> import_stage \<Rightarrow> 'x \<Rightarrow> (import_call \<Rightarrow> string \<Rightarrow> ('x, 'a import_db_scheme) io) \<Rightarrow> ('x, 'a import_db_scheme) io" where
  "run_stage c jobId stage skipped body =
     io_then (io_read (\<lambda>db. findImport jobId (im_jobs db))) (\<lambda>found.
     case found of
       None \<Rightarrow> io_return skipped
     | Some j \<Rightarrow> io_then (acquire_stage (in_job_context c j) jobId stage) (\<lambda>lock.
         case lock of None \<Rightarrow> io_return skipped | Some owner \<Rightarrow> body (in_job_context c j) owner))"

definition parse_import :: "import_call \<Rightarrow> string \<Rightarrow> (unit, 'a import_db_scheme) io" where
  "parse_import c jobId = run_stage c jobId PARSE_STAGE () (\<lambda>c owner. parse_stage c jobId owner)"

section \<open>Validating\<close>

text \<open>
  The loops of the two later stages run until no row is left. They take the number of passes as an
  argument and return \<open>None\<close> when it is used up.
\<close>

datatype loop_end = LOOP_FINISHED | LOOP_CANCELLED

definition structural_verdicts :: "import_job \<Rightarrow> import_row list \<Rightarrow> row_verdict list" where
  "structural_verdicts j pending = map (\<lambda>r. \<lparr>vd_rowNumber = iw_rowNumber r, vd_status = V_INVALID,
       vd_errors = Some (structuralValidateRow (iw_mappedPayload r) (ij_descriptorSnapshot j))\<rparr>)
     (filter (\<lambda>r. structuralValidateRow (iw_mappedPayload r) (ij_descriptorSnapshot j) \<noteq> []) pending)"

definition domain_candidates :: "import_job \<Rightarrow> import_row list \<Rightarrow> import_row list" where
  "domain_candidates j pending =
     filter (\<lambda>r. structuralValidateRow (iw_mappedPayload r) (ij_descriptorSnapshot j) = []) pending"

definition missing_verdicts :: "import_row list \<Rightarrow> row_verdict list \<Rightarrow> row_verdict list" where
  "missing_verdicts candidates verdicts = map (\<lambda>r. \<lparr>vd_rowNumber = iw_rowNumber r, vd_status = V_INVALID,
       vd_errors = Some [''handler returned no validation verdict'']\<rparr>)
     (filter (\<lambda>r. iw_rowNumber r \<notin> vd_rowNumber ` set verdicts) candidates)"

definition write_verdicts :: "import_call \<Rightarrow> string \<Rightarrow> row_verdict list \<Rightarrow> (unit, 'a import_db_scheme) io" where
  "write_verdicts c jobId vs = io_write (\<lambda>db. db\<lparr>im_rows := applyValidationVerdicts (ip_now c) jobId vs (im_rows db)\<rparr>)"

definition validate_chunk ::
  "import_call \<Rightarrow> 'a import_db_scheme import_handler \<Rightarrow> import_job \<Rightarrow> import_row list \<Rightarrow> (unit, 'a import_db_scheme) io" where
  "validate_chunk c h j pending =
     (let structural = structural_verdicts j pending; candidates = domain_candidates j pending;
          ctx = e_ctx (ip_env c); payloads = map payload_of_row candidates in
      io_then (if structural = [] then io_return () else write_verdicts c (ij_id j) structural) (\<lambda>_.
      io_then (if candidates = [] then io_return ()
        else io_then (ih_preloadReferences h ctx payloads (context_of_job j)) (\<lambda>refs.
             io_then (ih_validateBatch h ctx payloads refs (context_of_job j)) (\<lambda>verdicts.
             write_verdicts c (ij_id j) (verdicts @ missing_verdicts candidates verdicts)))) (\<lambda>_.
      io_then (recountCounters (ip_now c) (ij_id j)) (\<lambda>_. io_return ()))))"

fun validate_loop ::
  "nat \<Rightarrow> import_call \<Rightarrow> 'a import_db_scheme import_handler \<Rightarrow> import_job \<Rightarrow> (loop_end option, 'a import_db_scheme) io" where
  "validate_loop 0 c h j = io_return None"
| "validate_loop (Suc n) c h j =
     io_then (io_read (\<lambda>db. import_cancelRequested (ij_id j) (im_jobs db))) (\<lambda>cancelled.
     if cancelled then io_then (cancel_stage c (ij_id j) IM_VALIDATING) (\<lambda>_. io_return (Some LOOP_CANCELLED))
     else io_then (io_read (\<lambda>db. listPendingValidation (ij_id j) (im_validationChunkSize (ip_config c)) (im_rows db))) (\<lambda>pending.
       if pending = [] then io_return (Some LOOP_FINISHED)
       else io_then (validate_chunk c h j pending) (\<lambda>_. validate_loop n c h j)))"

definition validated :: "import_call \<Rightarrow> import_job \<Rightarrow> loop_end option \<Rightarrow> (unit option, 'a import_db_scheme) io" where
  "validated c j e = (case e of
       None \<Rightarrow> io_return None
     | Some LOOP_CANCELLED \<Rightarrow> io_return (Some ())
     | Some LOOP_FINISHED \<Rightarrow>
         io_then (transitionStatus (ip_now c) (ij_id j) [IM_VALIDATING] IM_VALIDATED
           (history (ip_now c) IM_VALIDATING IM_VALIDATED None None)) (\<lambda>_. io_return (Some ())))"

text \<open>The job, its handler and the checks on build and descriptor.\<close>

definition stage_job ::
  "import_call \<Rightarrow> 'h import_registry \<Rightarrow> string \<Rightarrow> (import_job \<times> 'h, 'a import_db_scheme) io" where
  "stage_job c reg jobId =
     io_then (read_import jobId) (\<lambda>j.
     io_then (io_lift (assert_build j (im_buildSha (ip_config c)))) (\<lambda>_.
     io_then (io_lift (resolveImportHandler (ij_entityKey j) reg)) (\<lambda>h.
     io_then (io_lift (resolveDescriptor (ij_entityKey j) reg)) (\<lambda>d.
     io_then (io_lift (assertDescriptorCurrent j (de_version d))) (\<lambda>_. io_return (j, h))))))"

definition validate_stage ::
  "nat \<Rightarrow> import_call \<Rightarrow> 'a import_db_scheme import_handler import_registry \<Rightarrow> string \<Rightarrow> string \<Rightarrow> (unit option, 'a import_db_scheme) io" where
  "validate_stage n c reg jobId owner =
     io_then (stage_job c reg jobId) (\<lambda>(j, h).
     if ij_status j \<in> {IM_VALIDATED, IM_EXECUTING} then io_return (Some ())
     else if ij_status j \<notin> {IM_VALIDATING, IM_MAPPED} then io_lift (wrong_status j ''MAPPED, VALIDATING'')
     else io_then (if ij_status j = IM_MAPPED
          then io_then (transitionStatus (ip_now c) (ij_id j) [IM_MAPPED] IM_VALIDATING
            (history (ip_now c) IM_MAPPED IM_VALIDATING None None)) (\<lambda>_. io_return ())
          else io_return ()) (\<lambda>_.
        io_finally (io_catch (io_then (validate_loop n c h j) (validated c j)) (fail_stage c (ij_id j) IM_VALIDATING))
          (release_stage jobId owner)))"

definition validate_import ::
  "nat \<Rightarrow> import_call \<Rightarrow> 'a import_db_scheme import_handler import_registry \<Rightarrow> string \<Rightarrow> (unit option, 'a import_db_scheme) io" where
  "validate_import n c reg jobId = run_stage c jobId VALIDATE_STAGE (Some ()) (\<lambda>c owner. validate_stage n c reg jobId owner)"

section \<open>Executing\<close>

definition settlement_of :: "import_row list \<Rightarrow> row_outcome \<Rightarrow> row_settlement" where
  "settlement_of claimed r = \<lparr>rs_rowNumber = ro_rowNumber r, rs_status = ro_status r, rs_entityId = ro_entityId r,
     rs_secondaryEntityIds = ro_secondaryEntityIds r, rs_errorMessage = ro_errorMessage r,
     rs_claimToken = coalesce (map_of (rev (map (\<lambda>q. (iw_rowNumber q, iw_claimToken q)) claimed)) (ro_rowNumber r)) (-1)\<rparr>"

definition outcome_without_entity :: "row_execution \<Rightarrow> string \<Rightarrow> nat \<Rightarrow> row_outcome" where
  "outcome_without_entity st msg i = \<lparr>ro_rowNumber = i, ro_status = st, ro_entityId = None, ro_secondaryEntityIds = None,
     ro_errorMessage = Some msg\<rparr>"

definition semicolon_list :: "string list \<Rightarrow> string" where
  "semicolon_list xs = concat (case xs of [] \<Rightarrow> [] | x # rest \<Rightarrow> x # map (\<lambda>y. ''; '' @ y) rest)"

definition skipped_outcomes :: "row_verdict list \<Rightarrow> row_outcome list" where
  "skipped_outcomes verdicts = map (\<lambda>v. outcome_without_entity X_SKIPPED
       (semicolon_list (coalesce (vd_errors v) [''re-validation failed''])) (vd_rowNumber v))
     (filter (\<lambda>v. vd_status v \<noteq> V_VALID) verdicts)"

definition still_valid :: "row_verdict list \<Rightarrow> nat set" where
  "still_valid verdicts = vd_rowNumber ` {v \<in> set verdicts. vd_status v = V_VALID}"

definition write_results :: "import_call \<Rightarrow> string \<Rightarrow> import_row list \<Rightarrow> row_outcome list \<Rightarrow> (unit, 'a import_db_scheme) io" where
  "write_results c jobId claimed rs = io_write (\<lambda>db. db\<lparr>im_rows :=
     snd (applyExecutionResults (ip_now c) jobId (map (settlement_of claimed) rs) (im_rows db))\<rparr>)"

definition execute_rows ::
  "import_call \<Rightarrow> 'a import_db_scheme import_handler \<Rightarrow> import_job \<Rightarrow> import_row list \<Rightarrow> row_payload list \<Rightarrow> nat list \<Rightarrow>
   (unit, 'a import_db_scheme) io" where
  "execute_rows c h j claimed toExecute executingRows =
     io_catch
       (io_then (ih_executeBatch h (e_ctx (ip_env c)) toExecute (context_of_job j)) (\<lambda>results.
        io_then (write_results c (ij_id j) claimed results) (\<lambda>_.
        let unanswered = filter (\<lambda>i. i \<notin> ro_rowNumber ` set results) executingRows in
        if unanswered = [] then io_return ()
        else write_results c (ij_id j) claimed
          (map (outcome_without_entity X_FAILED ''handler returned no execution result'') unanswered))))
       (\<lambda>er. write_results c (ij_id j) claimed (map (outcome_without_entity X_FAILED (message er)) executingRows))"

definition execute_chunk ::
  "import_call \<Rightarrow> 'a import_db_scheme import_handler \<Rightarrow> import_job \<Rightarrow> import_row list \<Rightarrow> (unit, 'a import_db_scheme) io" where
  "execute_chunk c h j claimed =
     (let ctx = e_ctx (ip_env c); payloads = map payload_of_row claimed in
      io_then (ih_preloadReferences h ctx payloads (context_of_job j)) (\<lambda>refs.
      io_then (ih_validateBatch h ctx payloads refs (context_of_job j)) (\<lambda>verdicts.
      io_then (if skipped_outcomes verdicts = [] then io_return ()
        else write_results c (ij_id j) claimed (skipped_outcomes verdicts)) (\<lambda>_.
      let toExecute = filter (\<lambda>p. map_of p ''rowNumber'' \<in> (\<lambda>i. Some (VNum (N (int i)))) ` still_valid verdicts) payloads;
          executingRows = map iw_rowNumber (filter (\<lambda>r. iw_rowNumber r \<in> still_valid verdicts) claimed) in
      io_then (if toExecute = [] then io_return () else execute_rows c h j claimed toExecute executingRows) (\<lambda>_.
      io_then (recountCounters (ip_now c) (ij_id j)) (\<lambda>_. io_return ()))))))"

fun execute_loop ::
  "nat \<Rightarrow> import_call \<Rightarrow> 'a import_db_scheme import_handler \<Rightarrow> import_job \<Rightarrow> nat \<Rightarrow> (loop_end option, 'a import_db_scheme) io" where
  "execute_loop 0 c h j chunkSize = io_return None"
| "execute_loop (Suc n) c h j chunkSize =
     io_then (io_read (\<lambda>db. import_cancelRequested (ij_id j) (im_jobs db))) (\<lambda>cancelled.
     if cancelled then io_then (cancel_stage c (ij_id j) IM_EXECUTING) (\<lambda>_. io_return (Some LOOP_CANCELLED))
     else io_then (io_step (\<lambda>db. let (claimed, rows) = claimForExecution c (ij_id j) chunkSize (im_rows db)
            in (claimed, db\<lparr>im_rows := rows\<rparr>))) (\<lambda>claimed.
       if claimed = [] then io_return (Some LOOP_FINISHED)
       else io_then (execute_chunk c h j claimed) (\<lambda>_. execute_loop n c h j chunkSize)))"

definition completion_status :: "import_job option \<Rightarrow> import_status" where
  "completion_status fresh = (case fresh of
       None \<Rightarrow> IM_COMPLETED
     | Some j \<Rightarrow> if ij_failedRows j > 0 \<or> ij_invalidRows j > 0 then IM_COMPLETED_WITH_ERRORS else IM_COMPLETED)"

definition executed :: "import_call \<Rightarrow> import_job \<Rightarrow> loop_end option \<Rightarrow> (unit option, 'a import_db_scheme) io" where
  "executed c j e = (case e of
       None \<Rightarrow> io_return None
     | Some LOOP_CANCELLED \<Rightarrow> io_return (Some ())
     | Some LOOP_FINISHED \<Rightarrow>
         io_then (recountCounters (ip_now c) (ij_id j)) (\<lambda>fresh.
         io_then (markTerminal (ip_now c) (ij_id j) (completion_status fresh)
           (history (ip_now c) IM_EXECUTING (completion_status fresh) None None)) (\<lambda>completed.
         io_then (case completed of None \<Rightarrow> io_return () | Some q \<Rightarrow> writeCompletedEvent c q) (\<lambda>_. io_return (Some ())))))"

definition execute_stage ::
  "nat \<Rightarrow> import_call \<Rightarrow> 'a import_db_scheme import_handler import_registry \<Rightarrow> string \<Rightarrow> string \<Rightarrow> (unit option, 'a import_db_scheme) io" where
  "execute_stage n c reg jobId owner =
     io_then (stage_job c reg jobId) (\<lambda>(j, h).
     if ij_status j \<in> import_terminal then io_return (Some ())
     else if ij_status j \<noteq> IM_EXECUTING then io_lift (wrong_status j ''EXECUTING'')
     else let own = nat (de_executionChunkSize (ij_descriptorSnapshot j));
              chunkSize = (if own = 0 then im_executionChunkSize (ip_config c) else own) in
        io_finally (io_catch (io_then (execute_loop n c h j chunkSize) (executed c j)) (fail_stage c (ij_id j) IM_EXECUTING))
          (release_stage jobId owner))"

definition execute_import ::
  "nat \<Rightarrow> import_call \<Rightarrow> 'a import_db_scheme import_handler import_registry \<Rightarrow> string \<Rightarrow> (unit option, 'a import_db_scheme) io" where
  "execute_import n c reg jobId = run_stage c jobId EXECUTE_STAGE (Some ()) (\<lambda>c owner. execute_stage n c reg jobId owner)"

section \<open>Requests\<close>

definition initImport :: "import_call \<Rightarrow> 'h import_registry \<Rightarrow> string \<Rightarrow> string option \<Rightarrow>
   (import_descriptor \<times> import_job list, 'a import_db_scheme) io" where
  "initImport c reg entityKey tenantId =
     io_then (io_lift (resolveDescriptor entityKey reg)) (\<lambda>d.
     io_read (\<lambda>db. (d, fst (list_imports (coalesce_opt tenantId (ctx_tenantId (e_ctx (ip_env c)))) None (Some entityKey) 1 5 (im_jobs db)))))"

definition upload_key :: "string option \<Rightarrow> string \<Rightarrow> string \<Rightarrow> string" where
  "upload_key tenantId entityKey i = ''imports/'' @ coalesce tenantId ''global'' @ ''/'' @ entityKey @ ''/'' @ i"

definition create_import_upload ::
  "import_call \<Rightarrow> 'h import_registry \<Rightarrow> string \<Rightarrow> string option \<Rightarrow> string option \<Rightarrow> string option \<Rightarrow>
   (string \<times> string, 'a import_db_scheme) io" where
  "create_import_upload c reg entityKey tenantId contentType idempotencyKey =
     (let tenant = coalesce_opt tenantId (ctx_tenantId (e_ctx (ip_env c))); cfg = ip_config c in
      io_then (io_lift (resolveDescriptor entityKey reg)) (\<lambda>d.
      io_then (case idempotencyKey of Some k \<Rightarrow> io_return k | None \<Rightarrow> transactional (draw_uuid (ip_env c))) (\<lambda>i.
      let key = upload_key tenant entityKey i in
      io_then (createPending c tenant key IMPORT_SOURCE contentType (Some (ip_now c + im_presignedUploadTtlSeconds cfg * 1000))
        (if im_skipAvScan cfg then SCAN_SKIPPED else SCAN_PENDING)) (\<lambda>obj.
      io_then (io_lift (ip_presign c key (im_presignedUploadTtlSeconds cfg) (min (de_maxFileSizeBytes d) (im_maxFileSizeBytes cfg)))) (\<lambda>upload.
      io_return (sg_id obj, upload))))))"

definition scan_outcome :: "import_config \<Rightarrow> storage_object \<Rightarrow> scan_status" where
  "scan_outcome cfg obj = (if im_skipAvScan cfg then SCAN_CLEAN else if sg_scanStatus obj = SCAN_SKIPPED then SCAN_CLEAN else sg_scanStatus obj)"

definition usable_source :: "storage_object option \<Rightarrow> string option \<Rightarrow> bool" where
  "usable_source found tenantId = (case found of
       None \<Rightarrow> False
     | Some obj \<Rightarrow> sg_purpose obj = IMPORT_SOURCE \<and>
         \<not> (truthy tenantId \<and> truthy (sg_tenantId obj) \<and> sg_tenantId obj \<noteq> tenantId))"

definition check_source ::
  "import_call \<Rightarrow> import_descriptor \<Rightarrow> string \<Rightarrow> string option \<Rightarrow> storage_object option \<Rightarrow> (storage_object \<times> file_meta) result" where
  "check_source c d objectId tenantId found =
     (case found of
        None \<Rightarrow> not_found (''StorageObject '' @ objectId @ '' not found'')
      | Some obj \<Rightarrow>
          if \<not> usable_source found tenantId then not_found (''StorageObject '' @ objectId @ '' not found'')
          else and_then (ip_metadata c (sg_storageKey obj)) (\<lambda>meta. case meta of
            None \<Rightarrow> not_found (''Import source file is missing for '' @ objectId)
          | Some m \<Rightarrow>
              if int (fm_size m) > min (de_maxFileSizeBytes d) (im_maxFileSizeBytes (ip_config c))
              then throw 400 (''Import file is '' @ nat_to_string (fm_size m) @ '' bytes, above the limit'')
              else if scan_outcome (ip_config c) obj \<noteq> SCAN_CLEAN
              then throw 400 (''Storage object '' @ sg_id obj @ '' did not pass AV scanning'')
              else Inr (obj, m)))"

definition create_import ::
  "import_call \<Rightarrow> 'h import_registry \<Rightarrow> string \<Rightarrow> string \<Rightarrow> string option \<Rightarrow> string option \<Rightarrow> string option \<Rightarrow> sval \<Rightarrow>
   (import_job, 'a import_db_scheme) io" where
  "create_import c reg entityKey objectId tenantId requestedBy traceId options =
     (let ctx = e_ctx (ip_env c); tenant = coalesce_opt tenantId (ctx_tenantId ctx); cfg = ip_config c in
      io_then (io_lift (resolveDescriptor entityKey reg)) (\<lambda>d.
      io_then (io_read (\<lambda>db. findObject objectId (im_objects db))) (\<lambda>found.
      io_then (io_lift (check_source c d objectId tenant found)) (\<lambda>(obj, m).
      io_then (markVerified (sg_id obj) (fm_size m) (coalesce_opt (fm_contentType m) (sg_contentType obj)) None SCAN_CLEAN) (\<lambda>_.
      io_then (io_write (\<lambda>db. db\<lparr>im_objects := markConsumed (sg_id obj)
        (ip_now c + im_sourceRetentionDays cfg * 24 * 60 * 60 * 1000) (im_objects db)\<rparr>)) (\<lambda>_.
      io_then (transactional (nextNumber (ip_env c) ''import-job'' (Some ''IMP-'') (Some 6))) (\<lambda>jobNo.
      io_then (transactional (create_import_job c \<lparr>ni_tenantId = tenant, ni_jobNo = jobNo, ni_entityKey = entityKey,
        ni_descriptorVersion = de_version d, ni_descriptorSnapshot = d, ni_sourceStorageObjectId = sg_id obj,
        ni_options = options, ni_requestedBy = coalesce_opt requestedBy (ctx_userId ctx),
        ni_traceId = coalesce_opt traceId (Some (correlationId ctx)), ni_buildSha = Some (im_buildSha cfg)\<rparr>)) (\<lambda>j.
      io_then (enqueue_stage c PARSE_STAGE (ij_id j)) (\<lambda>_. io_return j)))))))))"

definition import_status_of :: "import_call \<Rightarrow> string \<Rightarrow> string option \<Rightarrow> (import_job, 'a import_db_scheme) io" where
  "import_status_of c jobId tenantId = requireVisibleJob c jobId tenantId"

definition import_preview ::
  "import_call \<Rightarrow> string \<Rightarrow> string option \<Rightarrow> (import_job \<times> string list \<times> text_fields \<times> text_fields list, 'a import_db_scheme) io" where
  "import_preview c jobId tenantId =
     io_then (requireVisibleJob c jobId tenantId) (\<lambda>j.
     io_then (io_read (\<lambda>db. fst (listByJob (ij_id j) 1 (im_previewRows (ip_config c)) None (im_rows db)))) (\<lambda>rows.
     let sourceColumns = (case rows of [] \<Rightarrow> [] | r # _ \<Rightarrow> map fst (iw_rawPayload r)) in
     io_return (j, sourceColumns,
       (case ij_columnMapping j of Some m \<Rightarrow> m | None \<Rightarrow> suggestMapping sourceColumns (ij_descriptorSnapshot j)),
       map iw_rawPayload rows)))"

definition import_report ::
  "import_call \<Rightarrow> string \<Rightarrow> string option \<Rightarrow> nat \<Rightarrow> nat \<Rightarrow> (import_job \<times> import_row list \<times> nat, 'a import_db_scheme) io" where
  "import_report c jobId tenantId page pageSize =
     io_then (requireVisibleJob c jobId tenantId) (\<lambda>j.
     io_read (\<lambda>db. (j, listByJob (ij_id j) page pageSize (Some V_INVALID) (im_rows db))))"

definition missing_targets :: "import_descriptor \<Rightarrow> text_fields \<Rightarrow> string list" where
  "missing_targets d mapping = filter (\<lambda>f. f \<notin> snd ` set mapping) (map fd_targetField (filter fd_required (de_fields d)))"

definition update_import_mapping ::
  "import_call \<Rightarrow> string \<Rightarrow> text_fields \<Rightarrow> string option \<Rightarrow> string option \<Rightarrow> (import_job, 'a import_db_scheme) io" where
  "update_import_mapping c jobId mapping tenantId actor =
     io_then (requireVisibleJob c jobId tenantId) (\<lambda>j.
     if ij_status j \<noteq> IM_MAPPED then io_lift (wrong_status j ''MAPPED'')
     else if missing_targets (ij_descriptorSnapshot j) mapping \<noteq> []
     then io_lift (throw 400 (''Mapping for '' @ ij_entityKey j @ '' is incomplete; missing required fields: '' @
       comma_list (missing_targets (ij_descriptorSnapshot j) mapping)))
     else io_then (setColumnMapping (ij_id j) mapping) (\<lambda>_.
       io_then (transitionStatus (ip_now c) (ij_id j) [IM_MAPPED] IM_VALIDATING
         (history (ip_now c) IM_MAPPED IM_VALIDATING (actor_of (ip_env c) actor) (Some ''mapping confirmed''))) (\<lambda>updated.
       io_then (enqueue_stage c VALIDATE_STAGE (ij_id j)) (\<lambda>_. io_return updated))))"

definition request_execution ::
  "import_call \<Rightarrow> string \<Rightarrow> string option \<Rightarrow> string option \<Rightarrow> (import_job, 'a import_db_scheme) io" where
  "request_execution c jobId tenantId actor =
     io_then (requireVisibleJob c jobId tenantId) (\<lambda>j.
     if ij_status j \<noteq> IM_VALIDATED then io_lift (wrong_status j ''VALIDATED'')
     else io_then (transitionStatus (ip_now c) (ij_id j) [IM_VALIDATED] IM_EXECUTING
         (history (ip_now c) IM_VALIDATED IM_EXECUTING (actor_of (ip_env c) actor) None)) (\<lambda>updated.
       io_then (enqueue_stage c EXECUTE_STAGE (ij_id j)) (\<lambda>_.
       io_then (transactional (audit_record (ip_env c) ''import.execute-requested'' ''ImportJob'' (ij_id j) None
         [(''status'', JStr ''EXECUTING''), (''entityKey'', JStr (ij_entityKey j))])) (\<lambda>_. io_return updated))))"

definition cancel_import ::
  "import_call \<Rightarrow> string \<Rightarrow> string option \<Rightarrow> string option \<Rightarrow> (import_job, 'a import_db_scheme) io" where
  "cancel_import c jobId tenantId actor =
     io_then (requireVisibleJob c jobId tenantId) (\<lambda>j.
     if ij_status j \<in> import_terminal then io_return j
     else io_then (import_setCancelRequested (ij_id j)) (\<lambda>_.
       io_then (if ij_status j \<in> {IM_PENDING_UPLOAD, IM_UPLOADED, IM_MAPPED, IM_VALIDATED}
         then markTerminal (ip_now c) (ij_id j) IM_CANCELLED
           (history (ip_now c) (ij_status j) IM_CANCELLED (actor_of (ip_env c) actor) None)
         else io_return None) (\<lambda>cancelled.
       case cancelled of
         Some q \<Rightarrow> io_then (writeCancelledEvent c q) (\<lambda>_.
           io_then (transactional (audit_record (ip_env c) ''import.cancelled'' ''ImportJob'' (ij_id j) None
             [(''status'', JStr ''CANCELLED''), (''entityKey'', JStr (ij_entityKey j))])) (\<lambda>_. io_return q))
       | None \<Rightarrow> io_read (\<lambda>db. coalesce (findImport (ij_id j) (im_jobs db)) j))))"

section \<open>The worker and the reconciliation\<close>

definition import_worker ::
  "nat \<Rightarrow> import_call \<Rightarrow> 'a import_db_scheme import_handler import_registry \<Rightarrow> import_stage \<times> string \<Rightarrow> (unit option, 'a import_db_scheme) io" where
  "import_worker n c reg msg = (case fst msg of
       PARSE_STAGE \<Rightarrow> io_then (parse_import c (snd msg)) (\<lambda>_. io_return (Some ()))
     | VALIDATE_STAGE \<Rightarrow> validate_import n c reg (snd msg)
     | EXECUTE_STAGE \<Rightarrow> execute_import n c reg (snd msg))"

definition stageFor :: "import_status \<Rightarrow> import_stage option" where
  "stageFor s = (case s of IM_PARSING \<Rightarrow> Some PARSE_STAGE | IM_VALIDATING \<Rightarrow> Some VALIDATE_STAGE
     | IM_EXECUTING \<Rightarrow> Some EXECUTE_STAGE | _ \<Rightarrow> None)"

definition resume_stage :: "import_call \<Rightarrow> import_job \<Rightarrow> (unit, 'a import_db_scheme) io" where
  "resume_stage c j = (case stageFor (ij_status j) of
       Some stage \<Rightarrow> enqueue_stage c stage (ij_id j)
     | None \<Rightarrow> io_then (markTerminal (ip_now c) (ij_id j) IM_FAILED (history (ip_now c) (ij_status j) IM_FAILED None
         (Some ''reconciliation: stale stage not resumable''))) (\<lambda>_. io_return ()))"

definition resume_orphan :: "import_call \<Rightarrow> import_job \<Rightarrow> (unit, 'a import_db_scheme) io" where
  "resume_orphan c j = io_catch
     (let takeoverId = ''reconcile:'' @ nat_to_string (nat (ip_now c)) in
      io_then (io_step (\<lambda>db. let (got, jobs) = tryAcquireLock (ip_now c) (ij_id j) takeoverId
          (ip_now c + im_lockTtlMs (ip_config c)) (im_jobs db) in (got, db\<lparr>im_jobs := jobs\<rparr>))) (\<lambda>acquired.
      if \<not> acquired then io_return ()
      else io_finally (resume_stage c j) (io_write (\<lambda>db. db\<lparr>im_jobs := releaseLock (ij_id j) takeoverId (im_jobs db)\<rparr>))))
     (\<lambda>_. io_return ())"

definition purge_object :: "import_call \<Rightarrow> storage_object \<Rightarrow> (unit, 'a import_db_scheme) io" where
  "purge_object c obj = io_catch
     (io_then (io_catch (io_lift (ip_delete c (sg_storageKey obj))) (\<lambda>_. io_return ())) (\<lambda>_. deleteObject (sg_id obj)))
     (\<lambda>_. io_return ())"

definition reconcile_imports :: "import_call \<Rightarrow> bool \<Rightarrow> (unit, 'a import_db_scheme) io" where
  "reconcile_imports c running =
     (if running then io_return ()
      else io_catch
        (let olderThan = ip_now c - im_reconciliationWindowMs (ip_config c) in
         io_then (resetStaleProcessing (ip_now c) olderThan) (\<lambda>_.
         io_then (io_then (io_read (\<lambda>db. findStaleJobs olderThan (im_jobs db))) (io_for (resume_orphan c))) (\<lambda>_.
         io_then (io_read (\<lambda>db. findExpired (ip_now c) 200 (im_jobs db) (im_objects db))) (io_for (purge_object c)))))
        (\<lambda>_. io_return ()))"

end
