(* ===== verification/Import_Properties.thy ===== *)
theory Import_Properties
  imports Import_UseCases
begin

text \<open>
  What the import pipeline guarantees. The statements are the moves of a step relation, so what holds of
  its runs holds for every interleaving of requests, workers, timers and reconciliations; the programs are
  shown to be sequences of such moves. The loop over the rows to validate ends.
\<close>

section \<open>The statements as moves\<close>

text \<open>The order of the stages; a job can end from any status it can still leave.\<close>

fun stage_rank :: "import_status \<Rightarrow> nat" where
  "stage_rank IM_PENDING_UPLOAD = 0"
| "stage_rank IM_UPLOADED = 1"
| "stage_rank IM_PARSING = 2"
| "stage_rank IM_MAPPED = 3"
| "stage_rank IM_VALIDATING = 4"
| "stage_rank IM_VALIDATED = 5"
| "stage_rank IM_EXECUTING = 6"
| "stage_rank s = 7"

inductive import_move :: "'a import_db_scheme \<Rightarrow> 'a import_db_scheme \<Rightarrow> bool" where
  Import_create: "import_move db (snd (transactional (create_import_job c n) db))"
| Import_transition: "(\<And>s. s \<in> set from \<Longrightarrow> stage_rank s \<le> stage_rank to \<and> s \<notin> import_terminal) \<Longrightarrow> to \<notin> import_terminal \<Longrightarrow>
    import_move db (snd (transitionStatus now i from to h db))"
| Import_end: "st \<in> import_terminal \<Longrightarrow> import_move db (snd (markTerminal now i st h db))"
| Import_mapping: "import_move db (snd (setColumnMapping i m db))"
| Import_counters: "import_move db (snd (updateCounters now i p db))"
| Import_recount: "import_move db (snd (recountCounters now i db))"
| Import_cancel: "import_move db (snd (import_setCancelRequested i db))"
| Import_lock: "import_move db (db\<lparr>im_jobs := snd (tryAcquireLock now i owner until (im_jobs db))\<rparr>)"
| Import_beat: "import_move db (db\<lparr>im_jobs := snd (heartbeat now i owner until (im_jobs db))\<rparr>)"
| Import_release: "import_move db (db\<lparr>im_jobs := releaseLock i owner (im_jobs db)\<rparr>)"
| Import_insert: "import_move db (snd (bulkInsert c rows db))"
| Import_clear: "import_move db (db\<lparr>im_rows := deleteByJob i (im_rows db)\<rparr>)"
| Import_claim: "import_move db (db\<lparr>im_rows := snd (claimForExecution c i n (im_rows db))\<rparr>)"
| Import_verdicts: "import_move db (db\<lparr>im_rows := applyValidationVerdicts now i vs (im_rows db)\<rparr>)"
| Import_results: "import_move db (db\<lparr>im_rows := snd (applyExecutionResults now i ss (im_rows db))\<rparr>)"
| Import_reset: "import_move db (db\<lparr>im_rows := snd (reset_stale_rows now t (im_jobs db) (im_rows db))\<rparr>)"
| Import_abandon: "import_move db (db\<lparr>im_rows := abandon_rows now (im_jobs db) (im_rows db)\<rparr>)"
| Import_drop: "import_move db (snd (deleteObject i db))"
| Import_other: "im_jobs db' = im_jobs db \<Longrightarrow> im_rows db' = im_rows db \<Longrightarrow> import_move db db'"

text \<open>Handlers work on business tables: they leave the tables, the queue and the timers of the pipeline alone.\<close>

definition same_imports :: "'a import_db_scheme \<Rightarrow> 'a import_db_scheme \<Rightarrow> bool" where
  "same_imports db db' \<longleftrightarrow> im_jobs db' = im_jobs db \<and> im_rows db' = im_rows db \<and> im_queue db' = im_queue db \<and>
     im_timers db' = im_timers db"

definition domain_handler :: "'a import_db_scheme import_handler \<Rightarrow> bool" where
  "domain_handler h \<longleftrightarrow> (\<forall>ctx ps refs ix. io_rel same_imports (ih_preloadReferences h ctx ps ix) \<and>
     io_rel same_imports (ih_validateBatch h ctx ps refs ix) \<and> io_rel same_imports (ih_executeBatch h ctx ps ix))"

abbreviation domain_handlers :: "'a import_db_scheme import_handler import_registry \<Rightarrow> bool" where
  "domain_handlers reg \<equiv> \<forall>(d, h) \<in> snd ` set reg. domain_handler h"

section \<open>The programs are sequences of moves\<close>

abbreviation import_moves :: "'a import_db_scheme \<Rightarrow> 'a import_db_scheme \<Rightarrow> bool" where
  "import_moves \<equiv> import_move\<^sup>*\<^sup>*"

interpretation importing: io_relation "import_moves :: 'a import_db_scheme \<Rightarrow> 'a import_db_scheme \<Rightarrow> bool"
  by unfold_locales auto

lemmas import_rules = importing.rel_return importing.rel_lift importing.rel_read importing.rel_then importing.rel_if importing.rel_option
  importing.rel_catch importing.rel_for

lemma one_import: "(\<And>db. import_move db (snd (m db))) \<Longrightarrow> io_rel import_moves m"
  by (simp add: io_rel_def r_into_rtranclp)

lemma other_import: "(\<And>db. im_jobs (snd (m db)) = im_jobs db \<and> im_rows (snd (m db)) = im_rows db) \<Longrightarrow> io_rel import_moves m"
  by (rule one_import) (simp add: Import_other)

lemma import_finally: "io_rel import_moves m \<Longrightarrow> io_rel import_moves r \<Longrightarrow> io_rel import_moves (io_finally m r)"
  by (auto simp: io_rel_def io_finally_def split: prod.splits sum.splits) (metis rtranclp_trans snd_conv)+

lemma import_uuid: "io_rel import_moves (transactional (draw_uuid e))"
  by (rule other_import) (simp add: transactional_def draw_uuid_def)

lemma import_event_moves: "io_rel import_moves (transactional (send_event e a i ev))"
  by (rule other_import) (simp add: transactional_def send_event_def tx_then_def draw_uuid_def tx_write_def)

lemma import_audit_moves: "io_rel import_moves (transactional (audit_record e a b i x ch))"
  by (rule other_import) (simp add: transactional_def audit_record_def audit_write_def tx_write_def)

lemma import_handler_moves: "io_rel same_imports m \<Longrightarrow> io_rel import_moves m"
  by (rule other_import) (simp add: io_rel_def same_imports_def)

lemma import_step_moves:
  "io_rel import_moves (io_step (\<lambda>db. let (got, jobs) = tryAcquireLock now i owner until (im_jobs db) in (got, db\<lparr>im_jobs := jobs\<rparr>)))"
  "io_rel import_moves (io_step (\<lambda>db. let (claimed, rows) = claimForExecution c i n (im_rows db) in (claimed, db\<lparr>im_rows := rows\<rparr>)))"
  "io_rel import_moves (io_write (\<lambda>db. db\<lparr>im_rows := deleteByJob i (im_rows db)\<rparr>))"
  "io_rel import_moves (io_write (\<lambda>db. db\<lparr>im_jobs := releaseLock i owner (im_jobs db)\<rparr>))"
  by (rule one_import; simp add: io_step_def split_beta Import_lock Import_claim Import_clear Import_release)+

lemma import_statement_moves:
  "st \<in> import_terminal \<Longrightarrow> io_rel import_moves (markTerminal now i st h)"
  "(\<And>s. s \<in> set from \<Longrightarrow> stage_rank s \<le> stage_rank to \<and> s \<notin> import_terminal) \<Longrightarrow> to \<notin> import_terminal \<Longrightarrow>
    io_rel import_moves (transitionStatus now i from to h)"
  "io_rel import_moves (setColumnMapping i m)" "io_rel import_moves (updateCounters now i p)"
  "io_rel import_moves (recountCounters now i)" "io_rel import_moves (import_setCancelRequested i)"
  "io_rel import_moves (bulkInsert c rows)" "io_rel import_moves (deleteObject i)"
  "io_rel import_moves (write_verdicts c i vs)" "io_rel import_moves (write_results c i claimed rs)"
  "io_rel import_moves (transactional (create_import_job c n))"
  by (rule one_import; simp add: import_move.intros write_verdicts_def write_results_def)+

lemma acquire_moves: "io_rel import_moves (acquire_stage c i stage)"
proof -
  have "io_rel import_moves (io_write (\<lambda>db. db\<lparr>im_timers := im_timers db @ [t]\<rparr>))" for t
    by (rule other_import) simp
  then show ?thesis unfolding acquire_stage_def Let_def
    by (intro import_rules import_uuid import_step_moves(1) [unfolded Let_def])
qed

lemma release_moves: "io_rel import_moves (release_stage i owner)"
proof -
  have "io_rel import_moves (io_write (\<lambda>db. db\<lparr>im_timers := filter (\<lambda>t. t \<noteq> (i, owner)) (im_timers db)\<rparr>))"
    by (rule other_import) simp
  then show ?thesis unfolding release_stage_def by (intro import_rules import_step_moves(4))
qed

lemma enqueue_stage_moves: "io_rel import_moves (enqueue_stage c stage i)"
proof -
  have "io_rel import_moves (io_write (\<lambda>db. db\<lparr>im_queue := im_queue db @ [x]\<rparr>))" for x
    by (rule other_import) simp
  then show ?thesis unfolding enqueue_stage_def by (intro import_rules)
qed

lemma read_import_moves: "io_rel import_moves (read_import i)" "io_rel import_moves (requireVisibleJob c i t)"
  unfolding requireVisibleJob_def read_import_def by (intro import_rules)+

lemma ending_stage_moves: "io_rel import_moves (fail_stage c i from er)" "io_rel import_moves (cancel_stage c i from)"
  unfolding fail_stage_def cancel_stage_def writeFailedEvent_def writeCancelledEvent_def write_import_event_def
  by (intro import_rules import_statement_moves(1) import_event_moves; simp add: import_terminal_def)+

lemma run_stage_moves:
  assumes "\<And>c owner. io_rel import_moves (body c owner)"
  shows "io_rel import_moves (run_stage c i stage skipped body)"
  unfolding run_stage_def by (intro import_rules acquire_moves assms)

lemma insert_chunks_moves: "io_rel import_moves (insert_chunks c rows)"
proof (induction c rows rule: insert_chunks.induct)
  case (1 c rows)
  then show ?case
    by (subst insert_chunks.simps) (intro importing.rel_if importing.rel_return importing.rel_then import_statement_moves; blast)
qed

lemma parse_moves: "io_rel import_moves (parse_import c i)"
proof -
  have body: "io_rel import_moves (parse_body c j)" for c j
    unfolding parse_body_def store_parsed_def Let_def
    by (intro import_rules import_statement_moves insert_chunks_moves import_step_moves) (auto simp: import_terminal_def)
  show ?thesis unfolding parse_import_def
  proof (rule run_stage_moves)
    show "io_rel import_moves (parse_stage c i owner)" for c owner
      unfolding parse_stage_def
      by (intro import_rules import_finally read_import_moves ending_stage_moves release_moves body import_statement_moves)
        (auto simp: import_terminal_def)
  qed
qed

lemma stage_job_moves: "io_rel import_moves (stage_job c reg i)"
  unfolding stage_job_def by (intro import_rules read_import_moves)

text \<open>What \<open>stage_job\<close> returns is a registered handler.\<close>

lemma stage_job_handler: "stage_job c reg i db = (Inr (j, h), db') \<Longrightarrow> h \<in> snd ` snd ` set reg"
  by (auto simp: stage_job_def io_then_def read_import_def resolveImportHandler_def import_entry_def requireEntry_def
      split: prod.splits sum.splits option.splits dest!: map_of_SomeD intro!: rev_image_eqI)

lemma validate_chunk_moves:
  assumes "domain_handler h"
  shows "io_rel import_moves (validate_chunk c h j pending)"
  using assms unfolding validate_chunk_def Let_def domain_handler_def
  by (intro import_rules import_statement_moves import_handler_moves) auto

lemma validate_loop_moves:
  assumes "domain_handler h"
  shows "io_rel import_moves (validate_loop n c h j)"
proof (induction n)
  case (Suc n)
  show ?case unfolding validate_loop.simps
    by (intro import_rules ending_stage_moves validate_chunk_moves assms Suc)
qed (simp only: validate_loop.simps importing.rel_return)

lemma validated_moves: "io_rel import_moves (validated c j e)"
proof (cases e)
  case (Some x)
  have "io_rel import_moves (io_then (transitionStatus (ip_now c) (ij_id j) [IM_VALIDATING] IM_VALIDATED
      (history (ip_now c) IM_VALIDATING IM_VALIDATED None None)) (\<lambda>_. io_return (Some ())))"
    by (intro import_rules import_statement_moves) (auto simp: import_terminal_def)
  with Some show ?thesis by (cases x) (simp_all only: validated_def option.case loop_end.case importing.rel_return)
qed (simp only: validated_def option.case importing.rel_return)

lemma validate_moves:
  assumes "domain_handlers reg"
  shows "io_rel import_moves (validate_import n c reg i)"
  unfolding validate_import_def
proof (rule run_stage_moves)
  fix c owner
  have known: "domain_handler (snd x)" if "stage_job c reg i db = (Inr x, db')" for x and db db' :: "'a import_db_scheme"
    using stage_job_handler [of c reg i db "fst x" "snd x" db'] assms that by auto
  show "io_rel import_moves (validate_stage n c reg i owner)" unfolding validate_stage_def
  proof (rule importing.rel_then_on [OF stage_job_moves known])
    fix x :: "import_job \<times> 'a import_db_scheme import_handler" assume h: "domain_handler (snd x)"
    obtain j h where x: "x = (j, h)" by (cases x)
    show "io_rel import_moves (case x of (j, h) \<Rightarrow>
       if ij_status j \<in> {IM_VALIDATED, IM_EXECUTING} then io_return (Some ())
       else if ij_status j \<notin> {IM_VALIDATING, IM_MAPPED} then io_lift (wrong_status j ''MAPPED, VALIDATING'')
       else io_then (if ij_status j = IM_MAPPED
          then io_then (transitionStatus (ip_now c) (ij_id j) [IM_MAPPED] IM_VALIDATING
            (history (ip_now c) IM_MAPPED IM_VALIDATING None None)) (\<lambda>_. io_return ())
          else io_return ()) (\<lambda>_.
        io_finally (io_catch (io_then (validate_loop n c h j) (validated c j)) (fail_stage c (ij_id j) IM_VALIDATING))
          (release_stage i owner)))"
      using h unfolding x prod.case
      by (intro import_rules import_finally ending_stage_moves release_moves validate_loop_moves validated_moves import_statement_moves)
        (auto simp: import_terminal_def)
  qed
qed

lemma execute_chunk_moves:
  assumes "domain_handler h"
  shows "io_rel import_moves (execute_chunk c h j claimed)"
proof -
  have rows: "io_rel import_moves (execute_rows c h j claimed ps ids)" for ps ids
    using assms unfolding execute_rows_def Let_def domain_handler_def
    by (intro import_rules import_statement_moves import_handler_moves) auto
  have calls: "io_rel import_moves (ih_preloadReferences h ctx ps ix)" "io_rel import_moves (ih_validateBatch h ctx ps refs ix)"
    for ctx ps refs ix using assms by (simp_all add: domain_handler_def import_handler_moves)
  show ?thesis unfolding execute_chunk_def Let_def
    by (intro import_rules import_statement_moves calls rows)
qed

lemma execute_loop_moves:
  assumes "domain_handler h"
  shows "io_rel import_moves (execute_loop n c h j k)"
proof (induction n)
  case (Suc n)
  show ?case unfolding execute_loop.simps
    by (intro import_rules ending_stage_moves execute_chunk_moves assms Suc import_step_moves(2))
qed (simp only: execute_loop.simps importing.rel_return)

lemma executed_moves: "io_rel import_moves (executed c j e)"
proof (cases e)
  case (Some x)
  have "completion_status q \<in> import_terminal" for q
    by (simp add: completion_status_def import_terminal_def split: option.split)
  then have "io_rel import_moves (io_then (recountCounters (ip_now c) (ij_id j)) (\<lambda>fresh.
         io_then (markTerminal (ip_now c) (ij_id j) (completion_status fresh)
           (history (ip_now c) IM_EXECUTING (completion_status fresh) None None)) (\<lambda>completed.
         io_then (case completed of None \<Rightarrow> io_return () | Some q \<Rightarrow> writeCompletedEvent c q) (\<lambda>_. io_return (Some ())))))"
    unfolding writeCompletedEvent_def write_import_event_def
    by (intro import_rules import_statement_moves import_event_moves)
  with Some show ?thesis by (cases x) (simp_all only: executed_def option.case loop_end.case importing.rel_return)
qed (simp only: executed_def option.case importing.rel_return)

lemma execute_moves:
  assumes "domain_handlers reg"
  shows "io_rel import_moves (execute_import n c reg i)"
  unfolding execute_import_def
proof (rule run_stage_moves)
  fix c owner
  have known: "domain_handler (snd x)" if "stage_job c reg i db = (Inr x, db')" for x and db db' :: "'a import_db_scheme"
    using stage_job_handler [of c reg i db "fst x" "snd x" db'] assms that by auto
  show "io_rel import_moves (execute_stage n c reg i owner)" unfolding execute_stage_def
  proof (rule importing.rel_then_on [OF stage_job_moves known])
    fix x :: "import_job \<times> 'a import_db_scheme import_handler" assume h: "domain_handler (snd x)"
    obtain j h where x: "x = (j, h)" by (cases x)
    show "io_rel import_moves (case x of (j, h) \<Rightarrow>
       if ij_status j \<in> import_terminal then io_return (Some ())
       else if ij_status j \<noteq> IM_EXECUTING then io_lift (wrong_status j ''EXECUTING'')
       else let own = nat (de_executionChunkSize (ij_descriptorSnapshot j));
                chunkSize = (if own = 0 then im_executionChunkSize (ip_config c) else own) in
          io_finally (io_catch (io_then (execute_loop n c h j chunkSize) (executed c j)) (fail_stage c (ij_id j) IM_EXECUTING))
            (release_stage i owner))"
      using h unfolding x prod.case Let_def snd_conv
      by (intro import_rules import_finally ending_stage_moves release_moves execute_loop_moves executed_moves)
  qed
qed

lemma worker_moves:
  assumes "domain_handlers reg"
  shows "io_rel import_moves (import_worker n c reg msg)"
proof (cases "fst msg")
  case PARSE_STAGE
  then show ?thesis unfolding import_worker_def
    by (simp only: import_stage.case) (intro import_rules parse_moves)
next
  case VALIDATE_STAGE
  then show ?thesis unfolding import_worker_def by (simp only: import_stage.case) (rule validate_moves [OF assms])
next
  case EXECUTE_STAGE
  then show ?thesis unfolding import_worker_def by (simp only: import_stage.case) (rule execute_moves [OF assms])
qed

lemma number_moves: "io_rel import_moves (transactional (nextNumber e k p d))"
  by (rule other_import) (auto simp: transactional_def nextNumber_def Let_def split_beta)

lemma create_moves: "io_rel import_moves (create_import c reg k i t r tr opts)"
proof -
  have "io_rel import_moves (markVerified o1 b ct ch sc)" for o1 b ct ch sc
    by (rule other_import) (simp add: markVerified_def)
  moreover have "io_rel import_moves (io_write (\<lambda>db. db\<lparr>im_objects := markConsumed o1 e (im_objects db)\<rparr>))" for o1 e
    by (rule other_import) simp
  ultimately show ?thesis unfolding create_import_def Let_def split_beta
    by (intro import_rules number_moves import_statement_moves(11) enqueue_stage_moves)
qed

lemma upload_moves: "io_rel import_moves (create_import_upload c reg k t ct key)"
proof -
  have "io_rel import_moves (createPending c t key p ct e s)" for t key p ct e s
    by (rule other_import)
      (auto simp: createPending_def transactional_def tx_then_def draw_uuid_def Let_def split: option.split sum.split if_splits)
  then show ?thesis unfolding create_import_upload_def Let_def
    by (intro import_rules import_uuid)
qed

lemma request_moves:
  "io_rel import_moves (update_import_mapping c i m t a)" "io_rel import_moves (request_execution c i t a)"
  unfolding update_import_mapping_def request_execution_def
  by (intro import_rules read_import_moves import_statement_moves enqueue_stage_moves import_audit_moves; simp add: import_terminal_def)+

lemma cancel_import_moves: "io_rel import_moves (cancel_import c i t a)"
  unfolding cancel_import_def writeCancelledEvent_def write_import_event_def
  by (intro import_rules read_import_moves import_statement_moves import_event_moves import_audit_moves; simp add: import_terminal_def)

lemma reconcile_imports_moves: "io_rel import_moves (reconcile_imports c running)"
proof -
  have reset: "io_rel import_moves (resetStaleProcessing now t)" for now t
  proof -
    have "io_rel import_moves (io_step (\<lambda>db. let (n, rows) = reset_stale_rows now t (im_jobs db) (im_rows db) in (n, db\<lparr>im_rows := rows\<rparr>)))"
      by (rule one_import) (simp add: io_step_def split_beta Import_reset)
    moreover have "io_rel import_moves (io_write (\<lambda>db. db\<lparr>im_rows := abandon_rows now (im_jobs db) (im_rows db)\<rparr>))"
      by (rule one_import) (simp add: Import_abandon)
    ultimately show ?thesis unfolding resetStaleProcessing_def by (intro import_rules)
  qed
  have stage: "io_rel import_moves (resume_stage c j)" for j
    unfolding resume_stage_def
    by (intro import_rules enqueue_stage_moves import_statement_moves; simp add: import_terminal_def)
  have resume: "io_rel import_moves (resume_orphan c j)" for j
    unfolding resume_orphan_def Let_def
    by (intro import_rules import_finally stage import_step_moves(4) import_step_moves(1) [unfolded Let_def])
  have purge: "io_rel import_moves (purge_object c o1)" for o1
    unfolding purge_object_def by (intro import_rules import_statement_moves)
  show ?thesis unfolding reconcile_imports_def Let_def by (intro import_rules reset resume purge)
qed

section \<open>Jobs only advance\<close>

definition import_job_step :: "import_job \<Rightarrow> import_job \<Rightarrow> bool" where
  "import_job_step j j' \<longleftrightarrow> ij_id j' = ij_id j \<and> ij_tenantId j' = ij_tenantId j \<and> ij_entityKey j' = ij_entityKey j \<and>
     ij_sourceStorageObjectId j' = ij_sourceStorageObjectId j \<and> stage_rank (ij_status j) \<le> stage_rank (ij_status j') \<and>
     (ij_status j \<in> import_terminal \<longrightarrow> ij_status j' = ij_status j \<and> ij_completedAt j' = ij_completedAt j) \<and>
     (ij_cancelRequested j \<longrightarrow> ij_cancelRequested j') \<and> ij_version j \<le> ij_version j' \<and>
     prefix (ij_statusHistory j) (ij_statusHistory j')"

definition jobs_advance :: "import_job list \<Rightarrow> import_job list \<Rightarrow> bool" where
  "jobs_advance js js' \<longleftrightarrow> (\<forall>j \<in> set js. \<exists>j' \<in> set js'. import_job_step j j')"

lemma import_job_step_refl [simp]: "import_job_step j j"
  by (simp add: import_job_step_def)

lemma import_job_step_trans: "import_job_step j j' \<Longrightarrow> import_job_step j' j'' \<Longrightarrow> import_job_step j j''"
  unfolding import_job_step_def by (auto dest: order_trans prefix_order.order_trans)

lemma jobs_advance_refl [simp]: "jobs_advance js js"
  unfolding jobs_advance_def by (blast intro: import_job_step_refl)

lemma jobs_advance_trans: "jobs_advance js js' \<Longrightarrow> jobs_advance js' js'' \<Longrightarrow> jobs_advance js js''"
  unfolding jobs_advance_def by (meson import_job_step_trans)

lemma advance_map:
  assumes "\<And>j. p j \<Longrightarrow> import_job_step j (f j)"
  shows "jobs_advance js (map_where p f js)"
  unfolding jobs_advance_def
proof
  fix j assume "j \<in> set js"
  then have "(if p j then f j else j) \<in> set (map_where p f js)" unfolding map_where_def set_map by (rule imageI)
  moreover have "import_job_step j (if p j then f j else j)" using assms by simp
  ultimately show "\<exists>j' \<in> set (map_where p f js). import_job_step j j'" by blast
qed

lemma advance_insert: "jobs_advance js (insert_row j js)"
  unfolding jobs_advance_def insert_row_def by (auto intro: import_job_step_refl)

lemma rank_terminal: "s \<in> import_terminal \<Longrightarrow> stage_rank s = 7" "stage_rank s \<le> 7"
  by (auto simp: import_terminal_def) (cases s; simp)

lemma advance_history:
  assumes "with_history i h jobs db = Inr (j, db')"
  shows "jobs_advance jobs (im_jobs db')"
proof -
  from assms have "im_jobs db' = map_where (\<lambda>j. ij_id j = i) (add_history h) jobs"
    by (auto simp: with_history_def Let_def split: option.splits)
  moreover have "jobs_advance jobs (map_where (\<lambda>j. ij_id j = i) (add_history h) jobs)"
    by (rule advance_map) (simp add: import_job_step_def add_history_def)
  ultimately show ?thesis by simp
qed

lemma advance_transition:
  assumes "\<And>s. s \<in> set from \<Longrightarrow> stage_rank s \<le> stage_rank to \<and> s \<notin> import_terminal"
  shows "jobs_advance (im_jobs db) (im_jobs (snd (transitionStatus now i from to h db)))"
proof (cases "transition_tx now i from to h db")
  case (Inr x)
  obtain j db' where x: "x = (j, db')" by (cases x)
  have "jobs_advance (im_jobs db) (map_where (\<lambda>j. ij_id j = i \<and> ij_status j \<in> set from) (flipped now to) (im_jobs db))"
    by (rule advance_map) (use assms in \<open>auto simp: import_job_step_def flipped_def\<close>)
  moreover from Inr x have "with_history i h (map_where (\<lambda>j. ij_id j = i \<and> ij_status j \<in> set from) (flipped now to) (im_jobs db)) db = Inr (j, db')"
    by (auto simp: transition_tx_def update_many_def Let_def split: if_splits)
  ultimately have "jobs_advance (im_jobs db) (im_jobs db')" by (blast intro: jobs_advance_trans advance_history)
  with Inr x show ?thesis by (simp add: transitionStatus_def transactional_def)
qed (simp add: transitionStatus_def transactional_def)

lemma advance_terminal:
  assumes "st \<in> import_terminal"
  shows "jobs_advance (im_jobs db) (im_jobs (snd (markTerminal now i st h db)))"
proof (cases "terminal_tx now i st h db")
  case (Inr x)
  obtain r db' where x: "x = (r, db')" by (cases x)
  let ?jobs = "map_where (\<lambda>j. ij_id j = i \<and> ij_status j \<notin> import_terminal) (ended now st) (im_jobs db)"
  have start: "jobs_advance (im_jobs db) ?jobs"
    by (rule advance_map) (use assms rank_terminal in \<open>auto simp: import_job_step_def ended_def\<close>)
  from Inr x consider "db' = db\<lparr>im_jobs := ?jobs\<rparr>" | j where "with_history i h ?jobs db = Inr (j, db')"
    by (auto simp: terminal_tx_def update_many_def Let_def and_then_def split: if_splits sum.splits)
  then have "jobs_advance (im_jobs db) (im_jobs db')"
    by cases (use start in \<open>auto intro: jobs_advance_trans advance_history\<close>)
  with Inr x show ?thesis by (simp add: markTerminal_def transactional_def)
qed (simp add: markTerminal_def transactional_def)

lemma advance_update:
  assumes "\<And>j. import_job_step j (f j)"
  shows "jobs_advance (im_jobs db) (im_jobs (snd (update_import i f db)))"
  using advance_map [of _ f "im_jobs db", OF assms] by (simp add: update_import_def Let_def split: option.split)

lemma bulk_jobs: "im_jobs (snd (bulkInsert c rows db)) = im_jobs db"
proof -
  have "im_jobs db' = im_jobs db" if "tx_for (insert_import_row c) rows db = Inr (u, db')" for u db'
    using that
  proof (induction rows arbitrary: db)
    case (Cons r rows)
    then obtain db1 where "insert_import_row c r db = Inr ((), db1)" "tx_for (insert_import_row c) rows db1 = Inr (u, db')"
      by (auto simp: tx_then_Inr)
    moreover from this(1) have "im_jobs db1 = im_jobs db"
      by (auto simp: insert_import_row_def tx_then_Inr draw_uuid_def)
    ultimately show ?case using Cons.IH by simp
  qed (simp add: tx_return_def)
  then show ?thesis by (auto simp: bulkInsert_def transactional_def split: sum.split)
qed

lemma import_move_advances: "import_move db db' \<Longrightarrow> jobs_advance (im_jobs db) (im_jobs db')"
proof (induction rule: import_move.induct)
  case (Import_create db c n)
  show ?case
    by (auto simp: transactional_def create_import_job_def tx_then_def draw_uuid_def tx_lift_def Let_def advance_insert
        split: sum.split if_splits)
next
  case (Import_transition fr to db now i h)
  then show ?case by (intro advance_transition)
next
  case (Import_recount db now i)
  show ?case unfolding recountCounters_def io_step_def Let_def snd_conv
    by (simp, rule advance_map) (simp add: import_job_step_def recounted_def)
next
  case (Import_drop db i)
  have "jobs_advance (im_jobs db) (map_where (\<lambda>j. ij_errorReportStorageObjectId j = Some i)
      (\<lambda>j. j\<lparr>ij_errorReportStorageObjectId := None\<rparr>) (im_jobs db))"
    by (rule advance_map) (simp add: import_job_step_def)
  then show ?case by (simp add: deleteObject_def)
next
  case (Import_lock db now i owner u)
  show ?case by (simp add: tryAcquireLock_def update_many_def) (rule advance_map, simp add: import_job_step_def)
next
  case (Import_beat db now i owner u)
  show ?case by (simp add: heartbeat_def update_many_def) (rule advance_map, simp add: import_job_step_def)
next
  case (Import_release db i owner)
  show ?case by (simp add: releaseLock_def update_many_def) (rule advance_map, simp add: import_job_step_def)
qed (simp_all add: advance_terminal setColumnMapping_def updateCounters_def import_setCancelRequested_def advance_update
    import_job_step_def bulk_jobs)

text \<open>
  C16. Import jobs only advance. Under every interleaving of requests, workers, timers and
  reconciliations a job keeps its identity, its status moves forward along the stages, a terminal
  status and its time of completion are final, a cancel request stays, versions do not go back and the
  status history only grows.
\<close>
theorem import_jobs_only_advance:
  assumes "import_move\<^sup>*\<^sup>* db db'" "j \<in> set (im_jobs db)"
  shows "\<exists>j' \<in> set (im_jobs db'). ij_id j' = ij_id j \<and> ij_tenantId j' = ij_tenantId j \<and>
    ij_sourceStorageObjectId j' = ij_sourceStorageObjectId j \<and> stage_rank (ij_status j) \<le> stage_rank (ij_status j') \<and>
    (ij_status j \<in> import_terminal \<longrightarrow> ij_status j' = ij_status j \<and> ij_completedAt j' = ij_completedAt j) \<and>
    (ij_cancelRequested j \<longrightarrow> ij_cancelRequested j') \<and> ij_version j \<le> ij_version j' \<and>
    prefix (ij_statusHistory j) (ij_statusHistory j')"
proof -
  from assms(1) have "jobs_advance (im_jobs db) (im_jobs db')"
    by (induction rule: rtranclp_induct) (auto intro: jobs_advance_trans import_move_advances)
  with assms(2) show ?thesis unfolding jobs_advance_def import_job_step_def by blast
qed

text \<open>
  The programs of the pipeline refine the step relation: uploads, submissions, the mapping and
  execution requests, cancellations, the three stages of the worker for any number of passes, and the
  reconciliation are sequences of its moves, whatever the handlers do to business tables.
\<close>
theorem import_programs_are_moves:
  assumes "domain_handlers reg"
  shows "import_move\<^sup>*\<^sup>* db (snd (create_import_upload c reg k t ct key db)) \<and>
    import_move\<^sup>*\<^sup>* db (snd (create_import c reg k i t r tr opts db)) \<and>
    import_move\<^sup>*\<^sup>* db (snd (import_worker n c reg msg db)) \<and>
    import_move\<^sup>*\<^sup>* db (snd (update_import_mapping c i m t a db)) \<and>
    import_move\<^sup>*\<^sup>* db (snd (request_execution c i t a db)) \<and>
    import_move\<^sup>*\<^sup>* db (snd (cancel_import c i t a db)) \<and>
    import_move\<^sup>*\<^sup>* db (snd (reconcile_imports c running db))"
  by (intro conjI io_relD [OF upload_moves] io_relD [OF create_moves] io_relD [OF worker_moves [OF assms]]
    io_relD [OF request_moves(1)] io_relD [OF request_moves(2)] io_relD [OF cancel_import_moves] io_relD [OF reconcile_imports_moves])

end
