(* ===== verification/Import_Stages.thy ===== *)
theory Import_Stages
  imports Import_Properties "HOL-Library.Multiset"
begin

text \<open>
  The loops of the two later stages end, with a result that does not depend on the number of passes once
  there are more passes than rows left.
\<close>

section \<open>Programs that leave the rows alone\<close>

abbreviation same_rows :: "'a import_db_scheme \<Rightarrow> 'a import_db_scheme \<Rightarrow> bool" where
  "same_rows db db' \<equiv> im_rows db' = im_rows db"

interpretation rowless: io_relation "same_rows :: 'a import_db_scheme \<Rightarrow> 'a import_db_scheme \<Rightarrow> bool"
  by unfold_locales auto

lemmas rowless_rules = rowless.rel_return rowless.rel_lift rowless.rel_read rowless.rel_then rowless.rel_if rowless.rel_option
  rowless.rel_catch rowless.rel_write

lemma with_history_rows: "with_history i h jobs db = Inr (j, db') \<Longrightarrow> im_rows db' = im_rows db"
  by (auto simp: with_history_def Let_def split: option.splits)

lemma rowless_statements:
  "io_rel same_rows (transitionStatus now i fr to h)" "io_rel same_rows (recountCounters now i)"
  "io_rel same_rows (transactional (draw_uuid e))"
  "io_rel same_rows (io_step (\<lambda>db. let (got, jobs) = tryAcquireLock now i owner u (im_jobs db) in (got, db\<lparr>im_jobs := jobs\<rparr>)))"
  by (auto simp: io_rel_def transitionStatus_def transition_tx_def transactional_def Let_def split_beta recountCounters_def
      io_step_def draw_uuid_def split: sum.split dest: with_history_rows)

lemma rowless_acquire: "io_rel same_rows (acquire_stage c i stage)"
proof -
  have "io_rel same_rows (io_write (\<lambda>db. db\<lparr>im_timers := im_timers db @ [t]\<rparr>))" for t
    by (simp add: io_rel_def)
  then show ?thesis unfolding acquire_stage_def Let_def
    by (intro rowless_rules rowless_statements(3) rowless_statements(4) [unfolded Let_def]) simp_all
qed

lemma rowless_stage_job: "io_rel same_rows (stage_job c reg i)"
  unfolding stage_job_def read_import_def by (intro rowless_rules)

lemma rowless_handler:
  assumes "domain_handler h"
  shows "io_rel same_rows (ih_preloadReferences h ctx ps ix)" "io_rel same_rows (ih_validateBatch h ctx ps refs ix)"
    "io_rel same_rows (ih_executeBatch h ctx ps ix)"
  using assms by (auto simp: domain_handler_def io_rel_def same_imports_def)

lemma rows_after: "io_rel same_rows m \<Longrightarrow> m db = (r, db') \<Longrightarrow> im_rows db' = im_rows db"
  by (drule io_relD [where db = db]) simp

section \<open>Verdicts settle the validation of their rows\<close>

definition unjudged :: "string \<Rightarrow> import_row list \<Rightarrow> import_row list" where
  "unjudged i rows = filter (\<lambda>r. iw_jobId r = i \<and> iw_validation r = V_PENDING) rows"

lemma unjudged_verdicts:
  assumes "\<forall>v \<in> set vs. vd_status v \<noteq> V_PENDING"
  shows "unjudged i (applyValidationVerdicts now i vs rows) = filter (\<lambda>r. iw_rowNumber r \<notin> vd_rowNumber ` set vs) (unjudged i rows)"
  using assms
proof (induction vs arbitrary: rows)
  case (Cons v vs)
  have "unjudged i (map_where (\<lambda>r. iw_jobId r = i \<and> iw_rowNumber r = vd_rowNumber v) (judged now v) rows) =
      filter (\<lambda>r. iw_rowNumber r \<noteq> vd_rowNumber v) (unjudged i rows)"
    using Cons.prems by (induction rows) (auto simp: unjudged_def map_where_def judged_def)
  with Cons show ?case by (simp add: conj_commute)
qed simp

definition decides :: "'a import_db_scheme import_handler \<Rightarrow> bool" where
  "decides h \<longleftrightarrow> (\<forall>ctx ps refs ix db.
     (case fst (ih_validateBatch h ctx ps refs ix db) of Inl _ \<Rightarrow> True | Inr vs \<Rightarrow> \<forall>v \<in> set vs. vd_status v \<noteq> V_PENDING) \<and>
     (case fst (ih_executeBatch h ctx ps ix db) of Inl _ \<Rightarrow> True | Inr rs \<Rightarrow> \<forall>r \<in> set rs. ro_status r \<noteq> X_PENDING))"

lemma decides_verdicts: "decides h \<Longrightarrow> ih_validateBatch h ctx ps refs ix db = (Inr vs, db') \<Longrightarrow> v \<in> set vs \<Longrightarrow> vd_status v \<noteq> V_PENDING"
  unfolding decides_def by (drule spec [of _ ctx], drule spec [of _ ps], drule spec [of _ refs], drule spec [of _ ix], drule spec [of _ db]) simp

lemma decides_results: "decides h \<Longrightarrow> ih_executeBatch h ctx ps ix db = (Inr rs, db') \<Longrightarrow> r \<in> set rs \<Longrightarrow> ro_status r \<noteq> X_PENDING"
  unfolding decides_def by (drule spec [of _ ctx], drule spec [of _ ps], drule spec [of _ VNull], drule spec [of _ ix], drule spec [of _ db]) simp

lemma write_verdicts_unjudged:
  assumes "\<forall>v \<in> set vs. vd_status v \<noteq> V_PENDING" "write_verdicts c i vs db = (Inr u, db')"
  shows "unjudged i (im_rows db') = filter (\<lambda>r. iw_rowNumber r \<notin> vd_rowNumber ` set vs) (unjudged i (im_rows db))"
  using assms by (auto simp: write_verdicts_def unjudged_verdicts)

lemma missing_numbers: "vd_rowNumber ` set (missing_verdicts rs vs) = iw_rowNumber ` {r \<in> set rs. iw_rowNumber r \<notin> vd_rowNumber ` set vs}"
  by (simp add: missing_verdicts_def image_image)

text \<open>A pass takes every row it looked at out of the rows that are left.\<close>

lemma validate_chunk_judges:
  assumes h: "domain_handler h" "decides h" and run: "validate_chunk c h j pending db = (Inr u, db')"
  shows "\<exists>ns. iw_rowNumber ` set pending \<subseteq> ns \<and>
    unjudged (ij_id j) (im_rows db') = filter (\<lambda>r. iw_rowNumber r \<notin> ns) (unjudged (ij_id j) (im_rows db))"
proof -
  let ?i = "ij_id j" and ?S = "structural_verdicts j pending" and ?C = "domain_candidates j pending"
  let ?ps = "map payload_of_row ?C" and ?ctx = "e_ctx (ip_env c)" and ?ix = "context_of_job j"
  have S: "\<forall>v \<in> set ?S. vd_status v \<noteq> V_PENDING" by (auto simp: structural_verdicts_def)
  have M: "\<forall>v \<in> set (missing_verdicts ?C vs). vd_status v \<noteq> V_PENDING" for vs by (auto simp: missing_verdicts_def)
  from run obtain db1 db2 where
    a: "(if ?S = [] then io_return () else write_verdicts c ?i ?S) db = (Inr (), db1)"
    and b: "(if ?C = [] then io_return ()
        else io_then (ih_preloadReferences h ?ctx ?ps ?ix) (\<lambda>refs.
             io_then (ih_validateBatch h ?ctx ?ps refs ?ix) (\<lambda>verdicts.
             write_verdicts c ?i (verdicts @ missing_verdicts ?C verdicts)))) db1 = (Inr (), db2)"
    and d: "im_rows db' = im_rows db2"
    by (auto simp: validate_chunk_def Let_def io_then_def recountCounters_def io_step_def split: prod.splits sum.splits)
  from a have 1: "unjudged ?i (im_rows db1) = filter (\<lambda>r. iw_rowNumber r \<notin> vd_rowNumber ` set ?S) (unjudged ?i (im_rows db))"
    by (auto split: if_splits dest: write_verdicts_unjudged [OF S])
  obtain ns where 2: "unjudged ?i (im_rows db2) = filter (\<lambda>r. iw_rowNumber r \<notin> ns) (unjudged ?i (im_rows db1))"
    "iw_rowNumber ` set ?C \<subseteq> ns"
  proof (cases "?C = []")
    case True
    with b show thesis by (intro that [of "{}"]) simp_all
  next
    case False
    with b obtain refs db3 vs db4 where p: "ih_preloadReferences h ?ctx ?ps ?ix db1 = (Inr refs, db3)"
      and v: "ih_validateBatch h ?ctx ?ps refs ?ix db3 = (Inr vs, db4)"
      and w: "write_verdicts c ?i (vs @ missing_verdicts ?C vs) db4 = (Inr (), db2)"
      by (auto simp: io_then_def split: prod.splits sum.splits)
    have "im_rows db4 = im_rows db1"
      using rows_after [OF rowless_handler(1) [OF h(1)] p] rows_after [OF rowless_handler(2) [OF h(1)] v] by simp
    moreover have "\<forall>x \<in> set (vs @ missing_verdicts ?C vs). vd_status x \<noteq> V_PENDING"
      using M decides_verdicts [OF h(2) v] by auto
    ultimately have "unjudged ?i (im_rows db2) =
        filter (\<lambda>r. iw_rowNumber r \<notin> vd_rowNumber ` set (vs @ missing_verdicts ?C vs)) (unjudged ?i (im_rows db1))"
      using write_verdicts_unjudged [OF _ w] by simp
    moreover have "iw_rowNumber r \<in> vd_rowNumber ` set (vs @ missing_verdicts ?C vs)" if "r \<in> set ?C" for r
      using that missing_numbers [of ?C vs] by (auto simp: image_Un)
    ultimately show thesis by (intro that [of "vd_rowNumber ` set (vs @ missing_verdicts ?C vs)"]) blast+
  qed
  have "iw_rowNumber ` set pending \<subseteq> vd_rowNumber ` set ?S \<union> ns"
  proof
    fix n assume "n \<in> iw_rowNumber ` set pending"
    then obtain r where r: "r \<in> set pending" "n = iw_rowNumber r" by auto
    have "r \<in> set ?C \<or> n \<in> vd_rowNumber ` set ?S"
      using r by (auto simp: structural_verdicts_def domain_candidates_def image_image)
    with 2(2) r(2) show "n \<in> vd_rowNumber ` set ?S \<union> ns" by auto
  qed
  moreover have "unjudged ?i (im_rows db') = filter (\<lambda>r. iw_rowNumber r \<notin> vd_rowNumber ` set ?S \<union> ns) (unjudged ?i (im_rows db))"
    unfolding d 1 2 by (simp add: conj_commute)
  ultimately show ?thesis by blast
qed

lemma pending_unjudged:
  assumes "listPendingValidation i k rows \<noteq> []"
  shows "\<exists>r \<in> set (listPendingValidation i k rows). r \<in> set (unjudged i rows)"
proof -
  obtain r where r: "r \<in> set (listPendingValidation i k rows)" using assms by (meson list.set_sel(1))
  then have "r \<in> set (rows_in_order i (\<lambda>r. iw_validation r = V_PENDING) rows)"
    unfolding listPendingValidation_def by (rule in_set_takeD)
  with r show ?thesis by (auto simp: rows_in_order_def unjudged_def)
qed

lemma length_filter_one: "x \<in> set xs \<Longrightarrow> \<not> p x \<Longrightarrow> length (filter p xs) < length xs"
  by (induction xs) (auto simp: le_imp_less_Suc)

text \<open>More passes than rows left: the loop does not run out, and one more pass changes nothing.\<close>

lemma validate_loop_ends:
  assumes "domain_handler h" "decides h" "length (unjudged (ij_id j) (im_rows db)) < n"
  shows "fst (validate_loop n c h j db) \<noteq> Inr None \<and> validate_loop (Suc n) c h j db = validate_loop n c h j db"
  using assms(3)
proof (induction n arbitrary: db)
  case (Suc n)
  let ?pending = "listPendingValidation (ij_id j) (im_validationChunkSize (ip_config c)) (im_rows db)"
  have rest: "fst (validate_loop n c h j db') \<noteq> Inr None \<and> validate_loop (Suc n) c h j db' = validate_loop n c h j db'"
    if some: "?pending \<noteq> []" and chunk: "validate_chunk c h j ?pending db = (Inr u, db')" for u db'
  proof -
    obtain ns where ns: "iw_rowNumber ` set ?pending \<subseteq> ns"
      "unjudged (ij_id j) (im_rows db') = filter (\<lambda>r. iw_rowNumber r \<notin> ns) (unjudged (ij_id j) (im_rows db))"
      using validate_chunk_judges [OF assms(1,2) chunk] by blast
    obtain r where "r \<in> set ?pending" "r \<in> set (unjudged (ij_id j) (im_rows db))" using pending_unjudged [OF some] by blast
    with ns have "length (unjudged (ij_id j) (im_rows db')) < length (unjudged (ij_id j) (im_rows db))"
      by (simp only:) (rule length_filter_one [of r], auto)
    with Suc.prems show ?thesis by (intro Suc.IH) simp
  qed
  show ?case
  proof (cases "import_cancelRequested (ij_id j) (im_jobs db)")
    case True
    then show ?thesis by (auto simp: io_then_def split: prod.split sum.split)
  next
    case False
    show ?thesis
    proof (cases "?pending = []")
      case True
      with False show ?thesis by simp
    next
      case pending: False
      obtain res db' where run: "validate_chunk c h j ?pending db = (res, db')" by (cases "validate_chunk c h j ?pending db")
      show ?thesis
      proof (cases res)
        case (Inl er)
        with run False pending show ?thesis by (simp add: io_then_def)
      next
        case (Inr u)
        have "validate_loop (Suc m) c h j db = validate_loop m c h j db'" for m
          using run Inr False pending by (simp add: io_then_def)
        with rest [OF pending run [unfolded Inr]] show ?thesis by simp
      qed
    qed
  qed
qed simp

section \<open>Claimed rows leave the queue of executable rows\<close>

definition claimable :: "string \<Rightarrow> import_row list \<Rightarrow> import_row list" where
  "claimable i rows = filter (\<lambda>r. iw_jobId r = i \<and> executable_row r) rows"

lemma claimable_map:
  assumes "\<And>r. r \<in> set rows \<Longrightarrow> p r \<Longrightarrow> iw_jobId (f r) = iw_jobId r \<and> \<not> executable_row (f r)"
  shows "claimable i (map_where p f rows) = filter (\<lambda>r. \<not> p r) (claimable i rows)"
  using assms by (induction rows) (auto simp: claimable_def map_where_def)

lemma claimable_results:
  assumes "\<forall>s \<in> set ss. rs_status s \<noteq> X_PENDING"
  shows "claimable i (snd (applyExecutionResults now k ss rows)) = claimable i rows"
  using assms
proof (induction ss arbitrary: rows)
  case (Cons s ss)
  have "claimable i (map_where (settlement_hit k s) (settled_import_row now s) rows) = filter (\<lambda>r. \<not> settlement_hit k s r) (claimable i rows)"
    by (rule claimable_map) (use Cons.prems in \<open>auto simp: settled_import_row_def executable_row_def\<close>)
  also have "\<dots> = claimable i rows"
    by (auto simp: filter_id_conv claimable_def settlement_hit_def executable_row_def simp del: filter_filter)
  finally show ?case using Cons by (simp add: update_many_def split_beta)
qed simp

lemma write_results_claimable:
  assumes "\<forall>r \<in> set rs. ro_status r \<noteq> X_PENDING" "write_results c k claimed rs db = (u, db')"
  shows "claimable i (im_rows db') = claimable i (im_rows db)"
  using assms by (auto simp: write_results_def claimable_results settlement_of_def)

abbreviation same_claimable :: "string \<Rightarrow> 'a import_db_scheme \<Rightarrow> 'a import_db_scheme \<Rightarrow> bool" where
  "same_claimable i db db' \<equiv> claimable i (im_rows db') = claimable i (im_rows db)"

interpretation claimless: io_relation "same_claimable i :: 'a import_db_scheme \<Rightarrow> 'a import_db_scheme \<Rightarrow> bool" for i
  by unfold_locales auto

lemmas claimless_rules = claimless.rel_return claimless.rel_lift claimless.rel_then claimless.rel_if

lemma claimless_rows: "io_rel same_rows m \<Longrightarrow> io_rel (same_claimable i) m"
  by (simp add: io_rel_def)

lemma claimless_results: "\<forall>r \<in> set rs. ro_status r \<noteq> X_PENDING \<Longrightarrow> io_rel (same_claimable i) (write_results c k claimed rs)"
  unfolding io_rel_def by (metis prod.collapse write_results_claimable)

lemma execute_chunk_claimless:
  assumes h: "domain_handler h" "decides h"
  shows "io_rel (same_claimable i) (execute_chunk c h j claimed)"
proof -
  have failed: "\<forall>r \<in> set (map (outcome_without_entity X_FAILED msg) ns). ro_status r \<noteq> X_PENDING" for msg ns
    by (auto simp: outcome_without_entity_def)
  have skipped: "\<forall>r \<in> set (skipped_outcomes vs). ro_status r \<noteq> X_PENDING" for vs
    by (auto simp: skipped_outcomes_def outcome_without_entity_def)
  have known: "\<forall>r \<in> set rs. ro_status r \<noteq> X_PENDING" if "ih_executeBatch h ctx ps ix db = (Inr rs, db')" for ctx ps ix rs db db'
    using decides_results [OF h(2) that] by blast
  have rows: "io_rel (same_claimable i) (execute_rows c h j claimed ps ns)" for ps ns
    unfolding execute_rows_def Let_def
    by (intro claimless.rel_catch claimless.rel_then_on [OF claimless_rows [OF rowless_handler(3) [OF h(1)]] known]
        claimless_rules claimless_results failed)
  show ?thesis unfolding execute_chunk_def Let_def
    by (intro claimless_rules claimless_results skipped rows claimless_rows [OF rowless_handler(1) [OF h(1)]]
        claimless_rows [OF rowless_handler(2) [OF h(1)]] claimless_rows [OF rowless_statements(2)])
qed

text \<open>What the call returns of a claim is what was claimed, in some order.\<close>

definition returns_claims :: "import_call \<Rightarrow> bool" where
  "returns_claims c \<longleftrightarrow> (\<forall>rs. mset (ip_returned c rs) = mset rs)"

lemma claim_takes:
  assumes "returns_claims c" "claimForExecution c i k rows = (claimed, rows')" "claimed \<noteq> []"
  shows "length (claimable i rows') < length (claimable i rows)"
proof -
  let ?ids = "map iw_id (take k (rows_in_order i (\<lambda>r. executable_row r \<and> \<not> ip_rowLocked c (iw_id r)) rows))"
  have rows': "rows' = map_where (\<lambda>r. iw_id r \<in> set ?ids) (claimed_import_row (ip_now c)) rows"
    and claimed: "claimed = ip_returned c (map (claimed_import_row (ip_now c)) (filter (\<lambda>r. iw_id r \<in> set ?ids) rows))"
    using assms(2) by (simp_all add: claimForExecution_def Let_def)
  have "?ids \<noteq> []"
  proof
    assume "?ids = []"
    have "mset claimed = mset (map (claimed_import_row (ip_now c)) (filter (\<lambda>r. iw_id r \<in> set ?ids) rows))"
      using assms(1) by (simp only: claimed returns_claims_def)
    also have "\<dots> = {#}" unfolding \<open>?ids = []\<close> by simp
    finally have "mset claimed = {#}" .
    with assms(3) show False by simp
  qed
  then obtain r where "r \<in> set (take k (rows_in_order i (\<lambda>r. executable_row r \<and> \<not> ip_rowLocked c (iw_id r)) rows))"
    by (cases "take k (rows_in_order i (\<lambda>r. executable_row r \<and> \<not> ip_rowLocked c (iw_id r)) rows)") (auto simp del: take_eq_Nil)
  moreover from this have "r \<in> set (claimable i rows)"
    by (auto simp: claimable_def rows_in_order_def dest: in_set_takeD)
  moreover have "claimable i rows' = filter (\<lambda>r. \<not> iw_id r \<in> set ?ids) (claimable i rows)"
    unfolding rows' by (rule claimable_map) (simp add: claimed_import_row_def executable_row_def)
  ultimately show ?thesis by (simp only:) (rule length_filter_one, auto)
qed

lemma execute_loop_ends:
  assumes "domain_handler h" "decides h" "returns_claims c" "length (claimable (ij_id j) (im_rows db)) < n"
  shows "fst (execute_loop n c h j k db) \<noteq> Inr None \<and> execute_loop (Suc n) c h j k db = execute_loop n c h j k db"
  using assms(4)
proof (induction n arbitrary: db)
  case (Suc n)
  obtain claimed rows where claim: "claimForExecution c (ij_id j) k (im_rows db) = (claimed, rows)"
    by (cases "claimForExecution c (ij_id j) k (im_rows db)")
  let ?db = "db\<lparr>im_rows := rows\<rparr>"
  show ?case
  proof (cases "import_cancelRequested (ij_id j) (im_jobs db)")
    case True
    then show ?thesis by (auto simp: io_then_def split: prod.split sum.split)
  next
    case live: False
    have step: "execute_loop (Suc m) c h j k db = (if claimed = [] then (Inr (Some LOOP_FINISHED), ?db)
        else io_then (execute_chunk c h j claimed) (\<lambda>_. execute_loop m c h j k) ?db)" for m
      using live claim by (simp add: io_then_def io_step_def)
    show ?thesis
    proof (cases "claimed = []")
      case True
      with step [of n] step [of "Suc n"] show ?thesis by simp
    next
      case some: False
      obtain res db' where run: "execute_chunk c h j claimed ?db = (res, db')" by (cases "execute_chunk c h j claimed ?db")
      show ?thesis
      proof (cases res)
        case (Inl er)
        with run some step [of n] step [of "Suc n"] show ?thesis by (simp add: io_then_def)
      next
        case (Inr u)
        have "claimable (ij_id j) (im_rows db') = claimable (ij_id j) rows"
          using io_relD [OF execute_chunk_claimless [OF assms(1,2)], of "ij_id j" c j claimed ?db] run by simp
        then have "length (claimable (ij_id j) (im_rows db')) < n"
          using claim_takes [OF assms(3) claim some] Suc.prems by simp
        from Suc.IH [OF this] run Inr some step [of n] step [of "Suc n"] show ?thesis by (simp add: io_then_def)
      qed
    qed
  qed
qed simp

section \<open>The stages\<close>

abbreviation deciding_handlers :: "'a import_db_scheme import_handler import_registry \<Rightarrow> bool" where
  "deciding_handlers reg \<equiv> \<forall>(d, h) \<in> snd ` set reg. domain_handler h \<and> decides h"

lemma finally_caught:
  assumes "fst (m db) \<noteq> Inr None" "\<And>er db. fst (f er db) \<noteq> Inr None"
  shows "fst (io_finally (io_catch m f) r db) \<noteq> Inr None"
proof -
  have "fst (io_catch m f db) \<noteq> Inr None"
    using assms by (cases "m db") (auto simp: io_catch_def split: sum.split)
  then show ?thesis by (cases "io_catch m f db") (auto simp: io_finally_def split: prod.split sum.split)
qed

lemma fail_stage_ends: "fst (fail_stage c i fr er db) \<noteq> Inr x"
  by (auto simp: fail_stage_def io_then_def split: prod.split sum.split)

lemma ended_ends: "fst (validated c j (Some e) db) \<noteq> Inr None" "fst (executed c j (Some e) db) \<noteq> Inr None"
  by (cases e; auto simp: validated_def executed_def io_then_def split: prod.split sum.split)+

lemma wrong_status_fails: "wrong_status j s \<noteq> Inr x"
  by (simp add: wrong_status_def)

text \<open>A stage ends when its body does, at every database with the rows of the start.\<close>

lemma run_stage_ends:
  assumes "\<And>c' owner db'. im_rows db' = im_rows db \<Longrightarrow> ip_returned c' = ip_returned c \<Longrightarrow> fst (body c' owner db') \<noteq> Inr None"
  shows "fst (run_stage c i stage (Some ()) body db) \<noteq> Inr None"
proof (cases "findImport i (im_jobs db)")
  case (Some j)
  let ?c = "in_job_context c j"
  obtain r db' where a: "acquire_stage ?c i stage db = (r, db')" by (cases "acquire_stage ?c i stage db")
  have "im_rows db' = im_rows db" by (rule rows_after [OF rowless_acquire a])
  moreover have "ip_returned ?c = ip_returned c" by (simp add: in_job_context_def)
  ultimately show ?thesis using Some a assms
    by (auto simp: run_stage_def io_then_def split: sum.split option.split)
qed (simp add: run_stage_def)

lemma stage_job_id:
  assumes "stage_job c reg i db = (Inr (j, h), db')"
  shows "ij_id j = i" "im_rows db' = im_rows db" "h \<in> snd ` snd ` set reg"
proof -
  show "ij_id j = i" using assms
    by (auto simp: stage_job_def io_then_def read_import_def findImport_def find_first_def find_Some_iff
        split: prod.splits sum.splits option.splits)
  show "im_rows db' = im_rows db" by (rule rows_after [OF rowless_stage_job assms])
  show "h \<in> snd ` snd ` set reg" by (rule stage_job_handler [OF assms])
qed

lemma validate_stage_ends:
  assumes "deciding_handlers reg" "length (unjudged i (im_rows db)) < n"
  shows "fst (validate_stage n c reg i owner db) \<noteq> Inr None"
proof (cases "stage_job c reg i db")
  case (Pair res db1)
  show ?thesis
  proof (cases res)
    case (Inl er)
    with Pair show ?thesis by (simp add: validate_stage_def io_then_def)
  next
    case (Inr x)
    obtain j h where "x = (j, h)" by (cases x)
    with Pair Inr have sj: "stage_job c reg i db = (Inr (j, h), db1)" by simp
    have first: "io_then (stage_job c reg i) k db = k (j, h) db1" for k :: "_ \<Rightarrow> (unit option, 'a import_db_scheme) io"
      by (simp only: io_then_def sj prod.case sum.case)
    note ids = stage_job_id [OF sj]
    have h: "domain_handler h" "decides h" using assms(1) ids(3) by auto
    have loop: "fst (io_finally (io_catch (io_then (validate_loop n c h j) (validated c j)) (fail_stage c (ij_id j) IM_VALIDATING))
        (release_stage i owner) db2) \<noteq> Inr None" if "im_rows db2 = im_rows db" for db2
    proof (rule finally_caught [OF _ fail_stage_ends])
      have "fst (validate_loop n c h j db2) \<noteq> Inr None"
        using validate_loop_ends [OF h, of j db2 n c] assms(2) ids(1) that by simp
      then show "fst (io_then (validate_loop n c h j) (validated c j) db2) \<noteq> Inr None"
        by (auto simp: io_then_def ended_ends split: prod.split sum.split)
    qed
    let ?enter = "if ij_status j = IM_MAPPED
        then io_then (transitionStatus (ip_now c) (ij_id j) [IM_MAPPED] IM_VALIDATING
          (history (ip_now c) IM_MAPPED IM_VALIDATING None None)) (\<lambda>_. io_return ())
        else io_return ()"
    obtain r db2 where enter: "?enter db1 = (r, db2)" by (cases "?enter db1")
    have "io_rel same_rows ?enter" by (intro rowless_rules rowless_statements)
    from io_relD [OF this, of db1] have "im_rows db2 = im_rows db" by (simp only: enter snd_conv ids(2))
    note loop = loop [OF this]
    have "fst (io_then ?enter (\<lambda>_. io_finally (io_catch (io_then (validate_loop n c h j) (validated c j))
        (fail_stage c (ij_id j) IM_VALIDATING)) (release_stage i owner)) db1) \<noteq> Inr None"
      using enter loop by (simp only: io_then_def prod.case) (simp split: sum.split)
    then show ?thesis unfolding validate_stage_def first prod.case by (simp add: wrong_status_fails)
  qed
qed

lemma execute_stage_ends:
  assumes "deciding_handlers reg" "returns_claims c" "length (claimable i (im_rows db)) < n"
  shows "fst (execute_stage n c reg i owner db) \<noteq> Inr None"
proof (cases "stage_job c reg i db")
  case (Pair res db1)
  show ?thesis
  proof (cases res)
    case (Inl er)
    with Pair show ?thesis by (simp add: execute_stage_def io_then_def)
  next
    case (Inr x)
    obtain j h where "x = (j, h)" by (cases x)
    with Pair Inr have sj: "stage_job c reg i db = (Inr (j, h), db1)" by simp
    have first: "io_then (stage_job c reg i) k db = k (j, h) db1" for k :: "_ \<Rightarrow> (unit option, 'a import_db_scheme) io"
      by (simp only: io_then_def sj prod.case sum.case)
    note ids = stage_job_id [OF sj]
    have h: "domain_handler h" "decides h" using assms(1) ids(3) by auto
    have "fst (io_finally (io_catch (io_then (execute_loop n c h j k) (executed c j)) (fail_stage c (ij_id j) IM_EXECUTING))
        (release_stage i owner) db1) \<noteq> Inr None" for k
    proof (rule finally_caught [OF _ fail_stage_ends])
      have "fst (execute_loop n c h j k db1) \<noteq> Inr None"
        using execute_loop_ends [OF h assms(2), of j db1 n k] assms(3) ids by simp
      then show "fst (io_then (execute_loop n c h j k) (executed c j) db1) \<noteq> Inr None"
        by (auto simp: io_then_def ended_ends split: prod.split sum.split)
    qed
    then show ?thesis unfolding execute_stage_def first prod.case Let_def by (simp add: wrong_status_fails)
  qed
qed


section \<open>The lock of a stage\<close>

text \<open>
  The stage lock: what a stage that returns early leaves behind. The release stands in the \<open>finally\<close> of a
  block the early returns never enter, and the timer keeps renewing the lock.
\<close>

section \<open>The rows of one job\<close>

abbreviation jobs_with :: "string \<Rightarrow> import_job list \<Rightarrow> import_job list" where
  "jobs_with i \<equiv> filter (\<lambda>q. ij_id q = i)"

lemma find_jobs_with: "findImport i jobs = (case jobs_with i jobs of [] \<Rightarrow> None | j # _ \<Rightarrow> Some j)"
  unfolding findImport_def find_first_def by (induction jobs) auto

lemma jobs_with_map_where:
  assumes "\<And>q. ij_id (f q) = ij_id q"
  shows "jobs_with i (map_where p f jobs) = map_where p f (jobs_with i jobs)"
  using assms by (induction jobs) (auto simp: map_where_def)

lemma jobs_with_id: "jobs_with i jobs = [j] \<Longrightarrow> ij_id j = i"
  by (auto simp: filter_eq_Cons_iff)

definition held :: "string \<Rightarrow> int \<Rightarrow> int \<Rightarrow> import_job \<Rightarrow> import_job" where
  "held owner until now j = j\<lparr>ij_lockedBy := Some owner, ij_lockedUntil := Some until, ij_heartbeatAt := Some now\<rparr>"

lemma held_simps [simp]:
  "ij_id (held owner t now j) = ij_id j" "ij_status (held owner t now j) = ij_status j" "ij_buildSha (held owner t now j) = ij_buildSha j"
  "ij_lockedBy (held owner t now j) = Some owner" "ij_lockedUntil (held owner t now j) = Some t"
  "ij_heartbeatAt (held owner t now j) = Some now" "held owner t now (held owner t' now' j) = held owner t now j"
  by (simp_all add: held_def)

section \<open>Taking, renewing and missing the lock\<close>

lemma take_free_lock:
  assumes "jobs_with i jobs = [j]" "ij_status j \<in> NON_TERMINAL" "ij_lockedUntil j = None"
  obtains jobs' where "tryAcquireLock now i owner until jobs = (True, jobs')" "jobs_with i jobs' = [held owner until now j]"
proof -
  let ?p = "\<lambda>q. ij_id q = i \<and> ij_status q \<in> NON_TERMINAL \<and> lock_free now owner q"
  have "filter ?p jobs = filter (\<lambda>q. ij_status q \<in> NON_TERMINAL \<and> lock_free now owner q) (jobs_with i jobs)"
    by (simp add: conj_commute)
  also have "\<dots> = [j]" using assms by (simp add: lock_free_def)
  finally have hit: "filter ?p jobs = [j]" .
  have "ij_id j = i" by (rule jobs_with_id [OF assms(1)])
  then have "jobs_with i (map_where ?p (held owner until now) jobs) = [held owner until now j]"
    using assms by (subst jobs_with_map_where) (simp_all add: map_where_def lock_free_def)
  then show thesis using hit by (intro that) (simp_all add: tryAcquireLock_def update_many_def held_def [abs_def])
qed

lemma miss_held_lock:
  assumes "jobs_with i jobs = [held owner until now j]" "now' \<le> until" "owner' \<noteq> owner"
  shows "tryAcquireLock now' i owner' until' jobs = (False, jobs)"
proof -
  have "\<not> (ij_id q = i \<and> ij_status q \<in> NON_TERMINAL \<and> lock_free now' owner' q)" if "q \<in> set jobs" for q
  proof (cases "ij_id q = i")
    case True
    with that have "q \<in> set (jobs_with i jobs)" by simp
    with assms show ?thesis by (simp add: lock_free_def)
  qed simp
  then show ?thesis by (simp add: tryAcquireLock_def update_many_miss)
qed

lemma renew_held_lock:
  assumes "jobs_with i jobs = [held owner until now j]" "ij_status j \<in> NON_TERMINAL"
  shows "jobs_with i (snd (heartbeat now' i owner until' jobs)) = [held owner until' now' j]"
proof -
  have "ij_id j = i" using jobs_with_id [OF assms(1)] by simp
  with assms show ?thesis
    by (simp add: heartbeat_def update_many_def jobs_with_map_where) (simp add: map_where_def held_def)
qed

section \<open>An early return keeps the lock\<close>


end
