(* ===== verification/Import_Examples.thy ===== *)
theory Import_Examples
  imports Import_Files Import_Stages Scheduler_Examples
begin

text \<open>
  Runs of the import pipeline: a file of two products, a job with one row to validate and to execute, and
  a handler that accepts every row.
\<close>

definition demo_descriptor :: import_descriptor where
  "demo_descriptor = \<lparr>de_entityKey = ''Product'', de_version = 1,
     de_fields = [\<lparr>fd_targetField = ''sku'', fd_dataType = ''string'', fd_required = True, fd_aliases = [], fd_i18nKey = ''Code'',
       fd_maxLength = None, fd_enumValues = None\<rparr>],
     de_upsertKeys = [[''sku'']], de_maxRows = 100, de_maxFileSizeBytes = 1000, de_executionChunkSize = 10,
     de_templateStorageKey = None\<rparr>"

definition demo_import_call :: "int \<Rightarrow> import_call" where
  "demo_import_call now = \<lparr>ip_env = demo_env now,
     ip_config = \<lparr>im_maxFileSizeBytes = 1000, im_maxRows = 100, im_validationChunkSize = 10, im_executionChunkSize = 10,
       im_lockTtlMs = 1000, im_reconciliationWindowMs = 60000, im_presignedUploadTtlSeconds = 60, im_previewRows = 5,
       im_sourceRetentionDays = 30, im_skipAvScan = True, im_buildSha = ''b7''\<rparr>,
     ip_host = \<lparr>h_inherited = (\<lambda>v k. VUndef), h_number = (\<lambda>v. NaN), h_stored = (\<lambda>n. None), h_same = (\<lambda>v w. False)\<rparr>,
     ip_metadata = (\<lambda>_. Inr None), ip_download = (\<lambda>_. throw_plain ''no such object''), ip_delete = (\<lambda>_. Inr ()),
     ip_presign = (\<lambda>_ _ _. Inr ''url''), ip_xlsx = (\<lambda>_. throw_plain ''not a workbook''), ip_queue = (\<lambda>_ _. Inr ()),
     ip_rowLocked = (\<lambda>_. False), ip_returned = (\<lambda>rows. rows)\<rparr>"

definition demo_import_job :: "import_status \<Rightarrow> import_job" where
  "demo_import_job st = \<lparr>ij_id = ''i1'', ij_tenantId = None, ij_jobNo = ''IMP-000001'', ij_entityKey = ''Product'', ij_status = st,
     ij_descriptorVersion = 1, ij_descriptorSnapshot = demo_descriptor, ij_columnMapping = None, ij_statusHistory = [],
     ij_totalRows = 1, ij_validRows = 0, ij_invalidRows = 0, ij_appliedRows = 0, ij_failedRows = 0, ij_cancelRequested = False,
     ij_sourceStorageObjectId = None, ij_errorReportStorageObjectId = None, ij_options = VNull, ij_requestedBy = None,
     ij_traceId = None, ij_buildSha = Some ''b7'', ij_heartbeatAt = None, ij_lockedUntil = None, ij_lockedBy = None,
     ij_version = 0, ij_createdAt = 0, ij_completedAt = None\<rparr>"

definition demo_import_row :: import_row where
  "demo_import_row = \<lparr>iw_id = ''r1'', iw_tenantId = None, iw_jobId = ''i1'', iw_rowNumber = 2, iw_rawPayload = [(''Code'', ''A1'')],
     iw_mappedPayload = [(''sku'', ''A1'')], iw_validation = V_PENDING, iw_execution = X_PENDING, iw_claimToken = 0,
     iw_validationErrors = None, iw_errorMessage = None, iw_entityId = None, iw_secondaryEntityIds = None, iw_createdAt = 0,
     iw_updatedAt = 0, iw_processedAt = None\<rparr>"

definition demo_import_db :: "import_status \<Rightarrow> import_db" where
  "demo_import_db st = \<lparr>pf_outbox = [], pf_audit = [], pf_sequences = [], pf_drawn = 0, im_jobs = [demo_import_job st],
     im_rows = [demo_import_row], im_objects = [], im_queue = [], im_timers = []\<rparr>"

text \<open>A handler that answers for no row at all: every row is marked for it.\<close>

definition demo_import_handler :: "import_db import_handler" where
  "demo_import_handler = \<lparr>ih_preloadReferences = (\<lambda>ctx ps ix. io_return VNull),
     ih_validateBatch = (\<lambda>ctx ps refs ix. io_return []), ih_executeBatch = (\<lambda>ctx ps ix. io_return [])\<rparr>"

abbreviation demo_imports :: "import_db import_handler import_registry" where
  "demo_imports \<equiv> [(''Product'', demo_descriptor, demo_import_handler)]"

lemma demo_import_simps [simp]:
  "im_jobs (demo_import_db st) = [demo_import_job st]" "im_rows (demo_import_db st) = [demo_import_row]"
  "ij_id (demo_import_job st) = ''i1''" "ij_status (demo_import_job st) = st" "ij_lockedUntil (demo_import_job st) = None"
  "ij_buildSha (demo_import_job st) = Some ''b7''" "ip_now (demo_import_call now) = now"
  "im_buildSha (ip_config (demo_import_call now)) = ''b7''" "im_reconciliationWindowMs (ip_config (demo_import_call now)) = 60000"
  by (simp_all add: demo_import_db_def demo_import_job_def demo_import_call_def demo_env_def)

lemma demo_domain: "domain_handler demo_import_handler"
  by (simp add: domain_handler_def demo_import_handler_def io_rel_def same_imports_def)

lemma demo_decides: "decides demo_import_handler"
  by (simp add: decides_def demo_import_handler_def)

lemma demo_returns: "returns_claims (demo_import_call now)"
  by (simp add: returns_claims_def demo_import_call_def)

theorem csv_table_roundtrip_witness:
  "map pr_values (ps_rows (parseCsv (csv_file [[''sku'', ''name''], [''A1'', ''bolt, 5\"''], [''A2'', ''nut'']]) 10)) =
     [[(''sku'', ''A1''), (''name'', ''bolt, 5\"'')], [(''sku'', ''A2''), (''name'', ''nut'')]]"
  using csv_table_roundtrip [of "[''sku'', ''name'']" "[[''A1'', ''bolt, 5\"''], [''A2'', ''nut'']]" 10]
  by (simp add: header_like_def filled_cells_def numeric_cell_def plain_text_def trim_def is_space_def is_digit_def span_def Let_def)

theorem import_jobs_only_advance_witness:
  "\<exists>j' \<in> set (im_jobs (snd (markTerminal 9 ''i1'' IM_FAILED (history 9 IM_PARSING IM_FAILED None None) (demo_import_db IM_PARSING)))).
     ij_id j' = ''i1'' \<and> stage_rank (ij_status j') \<ge> 2"
proof -
  let ?db' = "snd (markTerminal 9 ''i1'' IM_FAILED (history 9 IM_PARSING IM_FAILED None None) (demo_import_db IM_PARSING))"
  have "import_move\<^sup>*\<^sup>* (demo_import_db IM_PARSING) ?db'"
    by (rule r_into_rtranclp, rule Import_end) (simp add: import_terminal_def)
  from import_jobs_only_advance [OF this, of "demo_import_job IM_PARSING"] show ?thesis by auto
qed

theorem import_programs_are_moves_witness:
  "import_move\<^sup>*\<^sup>* (demo_import_db IM_EXECUTING)
     (snd (import_worker 5 (demo_import_call 9) demo_imports (EXECUTE_STAGE, ''i1'') (demo_import_db IM_EXECUTING)))"
  using import_programs_are_moves [of demo_imports] demo_domain by simp



end
