(* ===== verification/Notification.thy ===== *)
theory Notification
  imports Batch_UseCases
begin

text \<open>
  The notification service (\<open>platform/platform-common/notification\<close>): its data, the statements of the
  repository over requests, messages, templates, preferences and suppressions, the registries and the
  template renderer. Handlers of business modules and channel providers are programs over the database;
  what reaches a provider is written to a log with the message it was for.
\<close>

section \<open>Data\<close>

datatype notif_priority = PR_HIGH | PR_NORMAL | PR_LOW
datatype notif_mode = NM_SYNC | NM_ASYNC
datatype notif_status = NR_PENDING | NR_RUNNING | NR_COMPLETED | NR_COMPLETED_WITH_ERRORS | NR_FAILED | NR_NO_RECIPIENTS
datatype message_status = MS_PENDING | MS_RENDERING | MS_SENT | MS_DELIVERED | MS_BOUNCED | MS_FAILED | MS_SUPPRESSED
datatype suppress_reason = SR_PREFERENCE | SR_HARD_BOUNCE | SR_UNSUBSCRIBE | SR_SMS_STOP | SR_COMPLAINT | SR_MANUAL_BLOCK
datatype delivery_status = DS_DELIVERED | DS_BOUNCED | DS_FAILED | DS_COMPLAINT | DS_UNSUBSCRIBED

record notif_context =
  nx_tenantId :: "string option"
  nx_requestId :: string
  nx_notificationType :: string
  nx_traceId :: "string option"
  nx_defaultLocale :: "string option"

record recipient =
  rp_recipientRef :: string
  rp_address :: "string option"
  rp_locale :: "string option"
  rp_channelHints :: "string list option"

record channel_capabilities =
  ca_channel :: string
  ca_providerName :: string
  ca_supportsSubject :: bool
  ca_maxBodyBytes :: nat
  ca_ratePerSecond :: nat

record rendered_message =
  rm_address :: string
  rm_subject :: "string option"
  rm_body :: string
  rm_metadata :: sval

record send_receipt =
  sr_providerMessageId :: string
  sr_acceptedAt :: int

record delivery_event =
  de_providerMessageId :: string
  de_status :: delivery_status
  de_reason :: "string option"
  de_at :: int

record notify_input =
  nn_notificationType :: string
  nn_dedupKey :: string
  nn_payload :: sval
  nn_sourceEvent :: "string option"
  nn_priority :: "notif_priority option"
  nn_tenantId :: "string option"
  nn_requestedBy :: "string option"
  nn_traceId :: "string option"

record new_message =
  nm_recipientRef :: string
  nm_channel :: string
  nm_address :: "string option"
  nm_locale :: "string option"
  nm_status :: message_status
  nm_suppressReason :: "suppress_reason option"

record notif_request =
  nq_id :: string
  nq_tenantId :: "string option"
  nq_notificationType :: string
  nq_dedupKey :: string
  nq_sourceEvent :: "string option"
  nq_payload :: sval
  nq_priority :: notif_priority
  nq_mode :: notif_mode
  nq_status :: notif_status
  nq_totalMessages :: nat
  nq_sentMessages :: nat
  nq_failedMessages :: nat
  nq_suppressedMessages :: nat
  nq_requestedBy :: "string option"
  nq_startedAt :: "int option"
  nq_completedAt :: "int option"
  nq_createdAt :: int

record notif_message =
  ms_id :: string
  ms_tenantId :: "string option"
  ms_requestId :: string
  ms_recipientRef :: string
  ms_channel :: string
  ms_address :: "string option"
  ms_locale :: "string option"
  ms_templateId :: "string option"
  ms_status :: message_status
  ms_suppressReason :: "suppress_reason option"
  ms_provider :: "string option"
  ms_providerMessageId :: "string option"
  ms_renderedSnapshot :: sval
  ms_errorMessage :: "string option"
  ms_attemptCount :: nat
  ms_sentAt :: "int option"
  ms_deliveredAt :: "int option"
  ms_createdAt :: int
  ms_updatedAt :: int

record notif_dispatch =
  ng_requestId :: string
  ng_notificationType :: string
  ng_tenantId :: "string option"
  ng_traceId :: "string option"
  ng_defaultLocale :: "string option"
  ng_messageIds :: "string list"

record notif_template =
  tv_id :: string
  tv_tenantId :: "string option"
  tv_notificationType :: string
  tv_channel :: string
  tv_locale :: string
  tv_version :: int
  tv_subject :: "string option"
  tv_body :: string
  tv_isActive :: bool

record notif_preference =
  pw_id :: string
  pw_tenantId :: "string option"
  pw_recipientRef :: string
  pw_category :: string
  pw_channel :: string
  pw_optedIn :: bool
  pw_quietHoursStart :: "string option"
  pw_quietHoursEnd :: "string option"
  pw_timezone :: "string option"

record preference_input =
  pi_tenantId :: "string option"
  pi_recipientRef :: string
  pi_category :: string
  pi_channel :: string
  pi_optedIn :: bool
  pi_quietHoursStart :: "string option"
  pi_quietHoursEnd :: "string option"
  pi_timezone :: "string option"

record notif_suppression =
  su_id :: string
  su_tenantId :: "string option"
  su_address :: string
  su_channel :: string
  su_reason :: suppress_reason
  su_source :: "string option"
  su_suppressedAt :: int
  su_expiresAt :: "int option"

record notif_config =
  nf_maxRecipientsPerRequest :: nat
  nf_syncMessageThreshold :: nat
  nf_chunkSize :: nat
  nf_renderingStuckWindowMs :: int
  nf_sentNoReceiptWindowMs :: int
  nf_payloadMaxBytes :: nat
  nf_renderedSnapshotMaxBytes :: nat

text \<open>The tables, the queue of dispatched chunks, and the hand-overs to providers.\<close>

record notif_db = platform_db +
  nd_requests :: "notif_request list"
  nd_messages :: "notif_message list"
  nd_templates :: "notif_template list"
  nd_preferences :: "notif_preference list"
  nd_suppressions :: "notif_suppression list"
  nd_queue :: "notif_dispatch list"
  nd_handed :: "(string \<times> string \<times> rendered_message) list"

text \<open>What a call sees: environment, configuration, the text of a date object, the answers of the queue.\<close>

record notif_call =
  no_env :: env
  no_config :: notif_config
  no_host :: host
  no_date :: "nat \<Rightarrow> string option"
  no_queue :: "notif_dispatch \<Rightarrow> unit result"

abbreviation no_now :: "notif_call \<Rightarrow> int" where "no_now c \<equiv> e_now (no_env c)"

definition request_terminal :: "notif_status \<Rightarrow> bool" where
  "request_terminal s \<longleftrightarrow> s \<in> {NR_COMPLETED, NR_COMPLETED_WITH_ERRORS, NR_FAILED, NR_NO_RECIPIENTS}"

definition message_terminal :: "message_status \<Rightarrow> bool" where
  "message_terminal s \<longleftrightarrow> s \<in> {MS_DELIVERED, MS_BOUNCED, MS_FAILED, MS_SUPPRESSED}"

fun MESSAGE_STATUS_RANK :: "message_status \<Rightarrow> nat" where
  "MESSAGE_STATUS_RANK MS_PENDING = 0"
| "MESSAGE_STATUS_RANK MS_RENDERING = 1"
| "MESSAGE_STATUS_RANK MS_SENT = 2"
| "MESSAGE_STATUS_RANK _ = 3"

definition advances_status :: "message_status \<Rightarrow> message_status \<Rightarrow> bool" where
  "advances_status current next_status \<longleftrightarrow> MESSAGE_STATUS_RANK next_status > MESSAGE_STATUS_RANK current"

section \<open>Requests\<close>

definition findByDedupKey :: "string option \<Rightarrow> string \<Rightarrow> notif_request list \<Rightarrow> notif_request option" where
  "findByDedupKey tenantId key rows = find_first (\<lambda>q. nq_tenantId q = tenantId \<and> nq_dedupKey q = key) rows"

definition findRequest :: "string \<Rightarrow> notif_request list \<Rightarrow> notif_request option" where
  "findRequest i rows = find_first (\<lambda>q. nq_id q = i) rows"

text \<open>The unique index on tenant and key does not hold back rows without a tenant.\<close>

definition createRequest :: "notif_call \<Rightarrow> notify_input \<Rightarrow> sval \<Rightarrow> notif_priority \<Rightarrow> (notif_request, 'a notif_db_scheme) io" where
  "createRequest c n payload priority = transactional (
     tx_then (tx_lift (json_input (no_host c) payload)) (\<lambda>body.
     tx_then (draw_uuid (no_env c)) (\<lambda>i db.
     if \<exists>q \<in> set (nd_requests db). nq_id q = i \<or> (nn_tenantId n \<noteq> None \<and> nq_tenantId q = nn_tenantId n \<and> nq_dedupKey q = nn_dedupKey n)
     then (case findByDedupKey (nn_tenantId n) (nn_dedupKey n) (nd_requests db) of
         Some q \<Rightarrow> Inr (q, db)
       | None \<Rightarrow> throw_plain ''Unique constraint failed'')
     else let q = \<lparr>nq_id = i, nq_tenantId = nn_tenantId n, nq_notificationType = nn_notificationType n, nq_dedupKey = nn_dedupKey n,
            nq_sourceEvent = nn_sourceEvent n, nq_payload = body, nq_priority = priority, nq_mode = NM_ASYNC, nq_status = NR_PENDING,
            nq_totalMessages = 0, nq_sentMessages = 0, nq_failedMessages = 0, nq_suppressedMessages = 0,
            nq_requestedBy = nn_requestedBy n, nq_startedAt = None, nq_completedAt = None, nq_createdAt = no_now c\<rparr>
          in Inr (q, db\<lparr>nd_requests := insert_row q (nd_requests db)\<rparr>))))"

definition messages_of :: "string \<Rightarrow> notif_message list \<Rightarrow> notif_message list" where
  "messages_of reqId rows = sort_key ms_createdAt (filter (\<lambda>m. ms_requestId m = reqId) rows)"

definition fresh_message :: "notif_call \<Rightarrow> notif_request \<Rightarrow> string \<Rightarrow> new_message \<Rightarrow> notif_message" where
  "fresh_message c q i m = \<lparr>ms_id = i, ms_tenantId = nq_tenantId q, ms_requestId = nq_id q, ms_recipientRef = nm_recipientRef m,
     ms_channel = nm_channel m, ms_address = nm_address m, ms_locale = nm_locale m, ms_templateId = None,
     ms_status = nm_status m, ms_suppressReason = nm_suppressReason m, ms_provider = None, ms_providerMessageId = None,
     ms_renderedSnapshot = VNull, ms_errorMessage = None, ms_attemptCount = 0, ms_sentAt = None, ms_deliveredAt = None,
     ms_createdAt = no_now c, ms_updatedAt = no_now c\<rparr>"

definition insert_message :: "notif_call \<Rightarrow> notif_request \<Rightarrow> new_message \<Rightarrow> (unit, 'a notif_db_scheme) tx" where
  "insert_message c q m = tx_then (draw_uuid (no_env c)) (\<lambda>i db.
     if \<exists>r \<in> set (nd_messages db). ms_id r = i \<or>
       (ms_requestId r = nq_id q \<and> ms_recipientRef r = nm_recipientRef m \<and> ms_channel r = nm_channel m)
     then throw_plain ''Unique constraint failed''
     else Inr ((), db\<lparr>nd_messages := insert_row (fresh_message c q i m) (nd_messages db)\<rparr>))"

definition attached :: "int \<Rightarrow> notif_mode \<Rightarrow> new_message list \<Rightarrow> notif_request \<Rightarrow> notif_request" where
  "attached now mode ms q = q\<lparr>nq_mode := mode, nq_totalMessages := length ms,
     nq_suppressedMessages := length (filter (\<lambda>m. nm_status m = MS_SUPPRESSED) ms),
     nq_status := (if mode = NM_SYNC then NR_RUNNING else NR_PENDING),
     nq_startedAt := (if mode = NM_SYNC then Some now else nq_startedAt q)\<rparr>"

definition attachMessages ::
  "notif_call \<Rightarrow> string \<Rightarrow> notif_mode \<Rightarrow> new_message list \<Rightarrow> (notif_request \<times> notif_message list, 'a notif_db_scheme) io" where
  "attachMessages c reqId mode ms = transactional (\<lambda>db.
     case findRequest reqId (nd_requests db) of
       None \<Rightarrow> throw_plain ''No NotificationRequest found''
     | Some q \<Rightarrow> tx_then (tx_for (insert_message c q) ms) (\<lambda>_ db'.
         Inr ((attached (no_now c) mode ms q, messages_of reqId (nd_messages db')),
           db'\<lparr>nd_requests := map_where (\<lambda>r. nq_id r = reqId) (attached (no_now c) mode ms) (nd_requests db')\<rparr>)) db)"

definition list_requests ::
  "string option \<Rightarrow> notif_status option \<Rightarrow> string option \<Rightarrow> nat \<Rightarrow> nat \<Rightarrow> notif_request list \<Rightarrow> notif_request list \<times> nat" where
  "list_requests tenantId status notificationType page pageSize rows =
     (let hits = filter (\<lambda>q. (truthy tenantId \<longrightarrow> nq_tenantId q = tenantId) \<and>
            (case status of None \<Rightarrow> True | Some s \<Rightarrow> nq_status q = s) \<and>
            (truthy notificationType \<longrightarrow> Some (nq_notificationType q) = notificationType)) rows
      in (take pageSize (drop ((page - 1) * pageSize) (sort_key (\<lambda>q. - nq_createdAt q) hits)), length hits))"

definition notif_markRunning :: "int \<Rightarrow> string \<Rightarrow> notif_request list \<Rightarrow> notif_request list" where
  "notif_markRunning now i rows = snd (update_many (\<lambda>q. nq_id q = i \<and> nq_status q = NR_PENDING)
     (\<lambda>q. q\<lparr>nq_status := NR_RUNNING, nq_startedAt := Some now\<rparr>) rows)"

text \<open>\<open>update\<close> of one row by its id throws when the row is gone.\<close>

definition update_request :: "string \<Rightarrow> (notif_request \<Rightarrow> notif_request) \<Rightarrow> (notif_request, 'a notif_db_scheme) io" where
  "update_request i f db = (case findRequest i (nd_requests db) of
       None \<Rightarrow> (throw_plain ''No record was found for an update'', db)
     | Some q \<Rightarrow> (Inr (f q), db\<lparr>nd_requests := map_where (\<lambda>r. nq_id r = i) f (nd_requests db)\<rparr>))"

datatype message_outcome = OUT_SENT | OUT_FAILED | OUT_SUPPRESSED

definition counted :: "message_outcome \<Rightarrow> notif_request \<Rightarrow> notif_request" where
  "counted o1 q = (case o1 of
       OUT_SENT \<Rightarrow> q\<lparr>nq_sentMessages := nq_sentMessages q + 1\<rparr>
     | OUT_FAILED \<Rightarrow> q\<lparr>nq_failedMessages := nq_failedMessages q + 1\<rparr>
     | OUT_SUPPRESSED \<Rightarrow> q\<lparr>nq_suppressedMessages := nq_suppressedMessages q + 1\<rparr>)"

definition incrementProgress :: "string \<Rightarrow> message_outcome \<Rightarrow> (notif_request, 'a notif_db_scheme) io" where
  "incrementProgress i o1 = update_request i (counted o1)"

definition derived_status :: "notif_request \<Rightarrow> notif_status" where
  "derived_status q = (if nq_failedMessages q = 0 then NR_COMPLETED
     else if nq_sentMessages q > 0 then NR_COMPLETED_WITH_ERRORS else NR_FAILED)"

definition notif_finalise :: "int \<Rightarrow> string \<Rightarrow> (notif_request, 'a notif_db_scheme) io" where
  "notif_finalise now i = update_request i (\<lambda>q. q\<lparr>nq_status := derived_status q, nq_completedAt := Some now\<rparr>)"

definition finaliseNoRecipients :: "int \<Rightarrow> string \<Rightarrow> (notif_request, 'a notif_db_scheme) io" where
  "finaliseNoRecipients now i = update_request i (\<lambda>q. q\<lparr>nq_status := NR_NO_RECIPIENTS, nq_completedAt := Some now\<rparr>)"

definition findResumableRequests :: "notif_message list \<Rightarrow> notif_request list \<Rightarrow> notif_request list" where
  "findResumableRequests ms rows = take 100 (filter (\<lambda>q. nq_mode q = NM_ASYNC \<and> nq_status q \<in> {NR_PENDING, NR_RUNNING} \<and>
     (\<exists>m \<in> set ms. ms_requestId m = nq_id q \<and> ms_status m = MS_PENDING)) rows)"

section \<open>Messages\<close>

definition message_ids :: "string \<Rightarrow> message_status option \<Rightarrow> notif_message list \<Rightarrow> string list" where
  "message_ids reqId status rows = map ms_id (filter (\<lambda>m. case status of None \<Rightarrow> True | Some s \<Rightarrow> ms_status m = s)
     (messages_of reqId rows))"

definition hasInFlightMessages :: "string \<Rightarrow> notif_message list \<Rightarrow> bool" where
  "hasInFlightMessages reqId rows \<longleftrightarrow> (\<exists>m \<in> set rows. ms_requestId m = reqId \<and> ms_status m \<in> {MS_PENDING, MS_RENDERING})"

definition findMessage :: "string \<Rightarrow> notif_message list \<Rightarrow> notif_message option" where
  "findMessage i rows = find_first (\<lambda>m. ms_id m = i) rows"

definition claimed_message :: "int \<Rightarrow> notif_message \<Rightarrow> notif_message" where
  "claimed_message now m = m\<lparr>ms_status := MS_RENDERING, ms_updatedAt := now, ms_attemptCount := ms_attemptCount m + 1\<rparr>"

definition notif_claim :: "int \<Rightarrow> string \<Rightarrow> notif_message list \<Rightarrow> notif_message option \<times> notif_message list" where
  "notif_claim now i rows = (let hit = (\<lambda>m. ms_id m = i \<and> ms_status m = MS_PENDING) in
     (map_option (claimed_message now) (find_first hit rows), snd (update_many hit (claimed_message now) rows)))"

definition update_message :: "string \<Rightarrow> (notif_message \<Rightarrow> notif_message) \<Rightarrow> (unit, 'a notif_db_scheme) io" where
  "update_message i f db = (if findMessage i (nd_messages db) = None then (throw_plain ''No record was found for an update'', db)
     else (Inr (), db\<lparr>nd_messages := map_where (\<lambda>m. ms_id m = i) f (nd_messages db)\<rparr>))"

definition sent_message :: "int \<Rightarrow> string \<Rightarrow> string \<Rightarrow> string \<Rightarrow> sval \<Rightarrow> notif_message \<Rightarrow> notif_message" where
  "sent_message now templateId provider providerMessageId snapshot m = m\<lparr>ms_status := MS_SENT, ms_templateId := Some templateId,
     ms_provider := Some provider, ms_providerMessageId := Some providerMessageId, ms_renderedSnapshot := snapshot,
     ms_sentAt := Some now, ms_updatedAt := now\<rparr>"

definition notif_markSent :: "int \<Rightarrow> string \<Rightarrow> string \<Rightarrow> string \<Rightarrow> string \<Rightarrow> sval \<Rightarrow> (unit, 'a notif_db_scheme) io" where
  "notif_markSent now i templateId provider providerMessageId snapshot =
     update_message i (sent_message now templateId provider providerMessageId snapshot)"

definition notif_markFailed :: "int \<Rightarrow> string \<Rightarrow> string \<Rightarrow> (unit, 'a notif_db_scheme) io" where
  "notif_markFailed now i msg = update_message i (\<lambda>m. m\<lparr>ms_status := MS_FAILED, ms_errorMessage := Some (take 4000 msg),
     ms_updatedAt := now\<rparr>)"

text \<open>The order of the statuses is compared in the statement itself; the first updated row is returned.\<close>

definition receipt_hit :: "string \<Rightarrow> message_status \<Rightarrow> notif_message \<Rightarrow> bool" where
  "receipt_hit providerMessageId st m \<longleftrightarrow> ms_providerMessageId m = Some providerMessageId \<and>
     MESSAGE_STATUS_RANK (ms_status m) < MESSAGE_STATUS_RANK st"

definition received :: "int \<Rightarrow> message_status \<Rightarrow> string option \<Rightarrow> int \<Rightarrow> notif_message \<Rightarrow> notif_message" where
  "received now st reason at1 m = m\<lparr>ms_status := st,
     ms_errorMessage := (if st \<in> {MS_BOUNCED, MS_FAILED} then reason else ms_errorMessage m),
     ms_deliveredAt := (if st = MS_DELIVERED then Some at1 else ms_deliveredAt m), ms_updatedAt := now\<rparr>"

definition applyDeliveryStatus ::
  "int \<Rightarrow> string \<Rightarrow> message_status \<Rightarrow> string option \<Rightarrow> int \<Rightarrow> notif_message list \<Rightarrow> notif_message option \<times> notif_message list" where
  "applyDeliveryStatus now providerMessageId st reason at1 rows =
     (map_option (received now st reason at1) (find_first (receipt_hit providerMessageId st) rows),
      snd (update_many (receipt_hit providerMessageId st) (received now st reason at1) rows))"

definition findByProviderMessageId :: "string \<Rightarrow> notif_message list \<Rightarrow> notif_message option" where
  "findByProviderMessageId i rows = find_first (\<lambda>m. ms_providerMessageId m = Some i) rows"

definition resetStuckRendering :: "int \<Rightarrow> int \<Rightarrow> notif_message list \<Rightarrow> nat \<times> notif_message list" where
  "resetStuckRendering now olderThanMs rows = update_many (\<lambda>m. ms_status m = MS_RENDERING \<and> ms_updatedAt m < now - olderThanMs)
     (\<lambda>m. m\<lparr>ms_status := MS_PENDING, ms_updatedAt := now\<rparr>) rows"

definition findSentWithNoReceipt :: "int \<Rightarrow> int \<Rightarrow> notif_message list \<Rightarrow> string list" where
  "findSentWithNoReceipt now olderThanMs rows = map ms_id (take 500 (filter (\<lambda>m. ms_status m = MS_SENT \<and>
     (case ms_sentAt m of None \<Rightarrow> False | Some t \<Rightarrow> t < now - olderThanMs)) rows))"

section \<open>Templates, preferences, suppressions\<close>

text \<open>\<open>findFirst\<close> ordered by version, the highest first; the order of equal versions is that of the table.\<close>

definition newest_template :: "(notif_template \<Rightarrow> bool) \<Rightarrow> notif_template list \<Rightarrow> notif_template option" where
  "newest_template p rows = find_first p (sort_key (\<lambda>t. - tv_version t) rows)"

definition template_for :: "string option \<Rightarrow> string \<Rightarrow> string \<Rightarrow> string \<Rightarrow> notif_template \<Rightarrow> bool" where
  "template_for tenantId nt channel locale t \<longleftrightarrow> tv_tenantId t = tenantId \<and> tv_notificationType t = nt \<and> tv_channel t = channel \<and>
     tv_locale t = locale \<and> tv_isActive t"

definition resolveActive :: "string option \<Rightarrow> string \<Rightarrow> string \<Rightarrow> string \<Rightarrow> notif_template list \<Rightarrow> notif_template option" where
  "resolveActive tenantId nt channel locale rows =
     (case (if truthy tenantId then newest_template (template_for tenantId nt channel locale) rows else None) of
        Some t \<Rightarrow> Some t
      | None \<Rightarrow> newest_template (template_for None nt channel locale) rows)"

definition existsActive :: "string \<Rightarrow> string \<Rightarrow> notif_template list \<Rightarrow> bool" where
  "existsActive nt channel rows \<longleftrightarrow> (\<exists>t \<in> set rows. tv_notificationType t = nt \<and> tv_channel t = channel \<and> tv_isActive t)"

definition findForRecipient :: "string option \<Rightarrow> string \<Rightarrow> notif_preference list \<Rightarrow> notif_preference list" where
  "findForRecipient tenantId ref rows = filter (\<lambda>p. pw_tenantId p = tenantId \<and> pw_recipientRef p = ref) rows"

text \<open>A time of day is kept as its text; an empty text is stored as null.\<close>

definition toTimeOrNull :: "string option \<Rightarrow> string option" where
  "toTimeOrNull v = (if truthy v then v else None)"

definition with_preference :: "preference_input \<Rightarrow> notif_preference \<Rightarrow> notif_preference" where
  "with_preference n p = p\<lparr>pw_optedIn := pi_optedIn n, pw_quietHoursStart := toTimeOrNull (pi_quietHoursStart n),
     pw_quietHoursEnd := toTimeOrNull (pi_quietHoursEnd n), pw_timezone := coalesce_opt (pi_timezone n) (pw_timezone p)\<rparr>"

definition upsert_preference :: "notif_call \<Rightarrow> preference_input \<Rightarrow> (notif_preference, 'a notif_db_scheme) io" where
  "upsert_preference c n =
     io_then (io_read (\<lambda>db. find_first (\<lambda>p. pw_tenantId p = pi_tenantId n \<and> pw_recipientRef p = pi_recipientRef n \<and>
       pw_category p = pi_category n \<and> pw_channel p = pi_channel n) (nd_preferences db))) (\<lambda>existing.
     case existing of
       Some p \<Rightarrow> io_step (\<lambda>db. (with_preference n p,
         db\<lparr>nd_preferences := map_where (\<lambda>r. pw_id r = pw_id p) (with_preference n) (nd_preferences db)\<rparr>))
     | None \<Rightarrow> io_then (transactional (draw_uuid (no_env c))) (\<lambda>i. io_step (\<lambda>db.
         let p = with_preference n \<lparr>pw_id = i, pw_tenantId = pi_tenantId n, pw_recipientRef = pi_recipientRef n,
           pw_category = pi_category n, pw_channel = pi_channel n, pw_optedIn = True, pw_quietHoursStart = None,
           pw_quietHoursEnd = None, pw_timezone = None\<rparr>
         in (p, db\<lparr>nd_preferences := insert_row p (nd_preferences db)\<rparr>))))"

definition isSuppressed :: "int \<Rightarrow> string option \<Rightarrow> string \<Rightarrow> string \<Rightarrow> notif_suppression list \<Rightarrow> bool" where
  "isSuppressed now tenantId address channel rows \<longleftrightarrow> (\<exists>s \<in> set rows. su_tenantId s = tenantId \<and> su_address s = address \<and>
     su_channel s = channel \<and> (case su_expiresAt s of None \<Rightarrow> True | Some t \<Rightarrow> t > now))"

definition suppress ::
  "notif_call \<Rightarrow> string option \<Rightarrow> string \<Rightarrow> string \<Rightarrow> suppress_reason \<Rightarrow> string option \<Rightarrow> (unit, 'a notif_db_scheme) io" where
  "suppress c tenantId address channel reason source =
     io_then (io_read (\<lambda>db. find_first (\<lambda>s. su_tenantId s = tenantId \<and> su_address s = address \<and> su_channel s = channel)
       (nd_suppressions db))) (\<lambda>existing.
     case existing of
       Some s \<Rightarrow> io_write (\<lambda>db. db\<lparr>nd_suppressions := map_where (\<lambda>r. su_id r = su_id s)
         (\<lambda>r. r\<lparr>su_reason := reason, su_source := source, su_suppressedAt := no_now c\<rparr>) (nd_suppressions db)\<rparr>)
     | None \<Rightarrow> io_then (transactional (draw_uuid (no_env c))) (\<lambda>i. io_write (\<lambda>db. db\<lparr>nd_suppressions := insert_row
         \<lparr>su_id = i, su_tenantId = tenantId, su_address = address, su_channel = channel, su_reason = reason, su_source = source,
          su_suppressedAt = no_now c, su_expiresAt = None\<rparr> (nd_suppressions db)\<rparr>)))"

section \<open>Registries\<close>

record 'd channel_provider =
  cp_send :: "rendered_message \<Rightarrow> (send_receipt, 'd) io"
  cp_parseDeliveryReceipt :: "sval \<Rightarrow> string option \<Rightarrow> delivery_event list result"
  cp_capabilities :: channel_capabilities

record 'd notif_handler =
  nh_resolveRecipients :: "sval \<Rightarrow> notif_context \<Rightarrow> (recipient list, 'd) io"
  nh_resolveModel :: "sval \<Rightarrow> notif_context \<Rightarrow> (sval, 'd) io"

record 'd notif_entry =
  ne_channels :: "string list"
  ne_priority :: notif_priority
  ne_eventName :: "string option"
  ne_handler :: "'d notif_handler"

definition register_channel :: "string \<Rightarrow> 'd channel_provider \<Rightarrow> 'd channel_provider registry \<Rightarrow> 'd channel_provider registry result" where
  "register_channel channel p reg = registerEntry channel p (Exn None (''ChannelProvider for channel '' @ channel @ '' already registered'')) reg"

definition resolve_channel :: "string \<Rightarrow> 'd channel_provider registry \<Rightarrow> 'd channel_provider result" where
  "resolve_channel channel reg = requireEntry channel (Exn None (''No ChannelProvider registered for channel '' @ channel)) reg"

definition channel_health :: "'d channel_provider registry \<Rightarrow> (string \<times> channel_capabilities) list" where
  "channel_health reg = map (\<lambda>(channel, p). (channel, cp_capabilities p)) reg"

definition register_notification ::
  "string \<Rightarrow> 'd notif_entry \<Rightarrow> 'd channel_provider registry \<Rightarrow> 'd notif_entry registry \<Rightarrow> 'd notif_entry registry result" where
  "register_notification nt e channels reg =
     (case find_first (\<lambda>ch. \<not> has_entry ch channels) (ne_channels e) of
        Some ch \<Rightarrow> throw_plain (''notificationType '' @ nt @ '' declares channel '' @ ch @ '' but no ChannelProvider is registered for it'')
      | None \<Rightarrow> registerEntry nt e (Exn None (''NotificationHandler for notificationType '' @ nt @ '' already registered'')) reg)"

definition notif_entry_of :: "string \<Rightarrow> 'd notif_entry registry \<Rightarrow> 'd notif_entry result" where
  "notif_entry_of nt reg = requireEntry nt (Exn None (''No NotificationHandler registered for notificationType '' @ nt)) reg"

definition findByEventName :: "string \<Rightarrow> 'd notif_entry registry \<Rightarrow> string list" where
  "findByEventName eventName reg = map fst (filter (\<lambda>(nt, e). ne_eventName e = Some eventName) reg)"

definition notif_health :: "'d notif_entry registry \<Rightarrow> (string \<times> string list \<times> string option) list" where
  "notif_health reg = map (\<lambda>(nt, e). (nt, ne_channels e, ne_eventName e)) reg"

section \<open>The template renderer\<close>

text \<open>\<open>[\w.]\<close>\<close>

definition path_char :: "char \<Rightarrow> bool" where
  "path_char c \<longleftrightarrow> is_digit c \<or> (65 \<le> (of_char c :: nat) \<and> (of_char c :: nat) \<le> 90) \<or>
     (97 \<le> (of_char c :: nat) \<and> (of_char c :: nat) \<le> 122) \<or> c = CHR ''_'' \<or> c = CHR ''.''"

text \<open>\<open>\s*([\w.]+)\s*\}\}\<close> at the start of a text: the path and what follows the match.\<close>

definition template_slot :: "string \<Rightarrow> (string \<times> string) option" where
  "template_slot s = (let (path, rest) = span path_char (dropWhile is_space s); tail = dropWhile is_space rest in
     if path \<noteq> [] \<and> take 2 tail = ''}}'' then Some (path, drop 2 tail) else None)"

lemma template_slot_shorter:
  assumes "template_slot s = Some (path, rest)"
  shows "length rest < length s"
proof -
  let ?s = "dropWhile is_space s"
  let ?t = "dropWhile is_space (dropWhile path_char ?s)"
  from assms have t: "take 2 ?t = ''}}''" "rest = drop 2 ?t"
    by (simp_all add: template_slot_def Let_def span_def split: if_splits)
  have "length ?t \<le> length s"
    using length_dropWhile_le [of is_space "dropWhile path_char ?s"] length_dropWhile_le [of path_char ?s]
      length_dropWhile_le [of is_space s] by linarith
  moreover from t(1) have "?t \<noteq> []" by (metis list.distinct(1) take_Nil)
  ultimately show ?thesis using t(2) by (cases ?t) auto
qed

fun split_path :: "string \<Rightarrow> string \<Rightarrow> string list" where
  "split_path cur [] = [cur]"
| "split_path cur (c # cs) = (if c = CHR ''.'' then cur # split_path [] cs else split_path (cur @ [c]) cs)"

text \<open>\<open>key in acc\<close> also finds inherited properties.\<close>

definition path_step :: "host \<Rightarrow> sval \<Rightarrow> string \<Rightarrow> sval" where
  "path_step h acc key = (case acc of
       VObj fs \<Rightarrow> get_property h acc key
     | VArr xs \<Rightarrow> get_property h acc key
     | VHost n \<Rightarrow> if h_stored h n = None then VUndef else get_property h acc key
     | _ \<Rightarrow> VUndef)"

definition resolvePath :: "host \<Rightarrow> sval \<Rightarrow> string \<Rightarrow> sval" where
  "resolvePath h model path = foldl (path_step h) model (split_path [] path)"

definition formatValue :: "notif_call \<Rightarrow> sval \<Rightarrow> string" where
  "formatValue c v = (case v of
       VUndef \<Rightarrow> []
     | VNull \<Rightarrow> []
     | VStr s \<Rightarrow> s
     | VNum n \<Rightarrow> number_to_string n
     | VBool b \<Rightarrow> (if b then ''true'' else ''false'')
     | VHost n \<Rightarrow> (case no_date c n of Some t \<Rightarrow> t | None \<Rightarrow> stringify (no_host c) v)
     | _ \<Rightarrow> stringify (no_host c) v)"

text \<open>\<open>source.replace(VARIABLE_PATTERN, ...)\<close>: the matches from left to right.\<close>

lemma template_slot_decreases: "template_slot (drop 2 s) = Some (path, rest) \<Longrightarrow> length rest < length s"
  by (drule template_slot_shorter) simp

function interpolate :: "notif_call \<Rightarrow> sval \<Rightarrow> string \<Rightarrow> string" where
  "interpolate c model s =
     (case (if take 2 s = ''{{'' then template_slot (drop 2 s) else None) of
        Some (path, rest) \<Rightarrow> formatValue c (resolvePath (no_host c) model path) @ interpolate c model rest
      | None \<Rightarrow> (case s of [] \<Rightarrow> [] | ch # rest \<Rightarrow> ch # interpolate c model rest))"
  by pat_completeness auto

termination
  by (relation "measure (\<lambda>(c, model, s). length s)")
    (auto split: if_splits dest!: template_slot_decreases)

declare interpolate.simps [simp del]

definition render :: "notif_call \<Rightarrow> notif_template \<Rightarrow> sval \<Rightarrow> string option \<times> string" where
  "render c t model = ((if truthy (tv_subject t) then Some (interpolate c model (the (tv_subject t))) else None),
     interpolate c model (tv_body t))"

end
