(* ===== verification/Notification_UseCases.thy ===== *)
theory Notification_UseCases
  imports Notification
begin

text \<open>
  The use cases of notifications: sending (dedup, recipients, the gate, fan-out), rendering and handing a
  message to its provider, finalising a request, delivery receipts, events and the reconciliation. Every
  statement commits on its own.
\<close>

section \<open>One message\<close>

definition notif_capSnapshot :: "notif_call \<Rightarrow> nat \<Rightarrow> sval \<Rightarrow> sval" where
  "notif_capSnapshot c maxBytes v = (if length (stringify (no_host c) v) \<le> maxBytes then v
     else VObj [(''_truncated'', VBool True), (''_originalBytes'', VNum (N (int (length (stringify (no_host c) v)))))])"

datatype send_result = SEND_PROCESSED | SEND_SKIPPED_CLAIM

definition handed :: "string \<Rightarrow> string \<Rightarrow> rendered_message \<Rightarrow> (unit, 'a notif_db_scheme) io" where
  "handed i channel r = io_write (\<lambda>db. db\<lparr>nd_handed := nd_handed db @ [(i, channel, r)]\<rparr>)"

definition snapshot_of :: "string option \<times> string \<Rightarrow> sval" where
  "snapshot_of r = VObj [(''subject'', (case fst r of None \<Rightarrow> VUndef | Some s \<Rightarrow> VStr s)), (''body'', VStr (snd r))]"

text \<open>\<open>send_claimed\<close>: the block of the \<open>try\<close>.\<close>

definition send_claimed ::
  "notif_call \<Rightarrow> 'a notif_db_scheme channel_provider registry \<Rightarrow> notif_dispatch \<Rightarrow> sval \<Rightarrow> notif_message \<Rightarrow>
   (send_result, 'a notif_db_scheme) io" where
  "send_claimed c channels d model m =
     (if \<not> truthy (ms_address m)
      then io_lift (throw_plain (''Message '' @ ms_id m @ '' has no resolved address to send to''))
      else let locale = coalesce (coalesce_opt (ms_locale m) (ng_defaultLocale d)) ''en-US'' in
        io_then (io_read (\<lambda>db. resolveActive (ms_tenantId m) (ng_notificationType d) (ms_channel m) locale (nd_templates db))) (\<lambda>found.
        case found of
          None \<Rightarrow> io_lift (throw_plain (''No active NotificationTemplate for ('' @ ng_notificationType d @ '', '' @ ms_channel m @ '', '' @
            locale @ '')''))
        | Some t \<Rightarrow>
            let r = render c t model; out = \<lparr>rm_address = the (ms_address m), rm_subject = fst r, rm_body = snd r, rm_metadata = VUndef\<rparr> in
            io_then (io_lift (resolve_channel (ms_channel m) channels)) (\<lambda>p.
            io_then (handed (ms_id m) (ms_channel m) out) (\<lambda>_.
            io_then (cp_send p out) (\<lambda>receipt.
            io_then (notif_markSent (no_now c) (ms_id m) (tv_id t) (ca_providerName (cp_capabilities p)) (sr_providerMessageId receipt)
              (notif_capSnapshot c (nf_renderedSnapshotMaxBytes (no_config c)) (snapshot_of r))) (\<lambda>_.
            io_then (incrementProgress (ng_requestId d) OUT_SENT) (\<lambda>_. io_return SEND_PROCESSED)))))))"

definition send_failed :: "notif_call \<Rightarrow> notif_dispatch \<Rightarrow> string \<Rightarrow> exn \<Rightarrow> (send_result, 'a notif_db_scheme) io" where
  "send_failed c d i er =
     io_then (notif_markFailed (no_now c) i (message er)) (\<lambda>_.
     io_then (incrementProgress (ng_requestId d) OUT_FAILED) (\<lambda>_. io_return SEND_PROCESSED))"

definition render_and_send ::
  "notif_call \<Rightarrow> 'a notif_db_scheme channel_provider registry \<Rightarrow> notif_dispatch \<Rightarrow> sval \<Rightarrow> string \<Rightarrow> (send_result, 'a notif_db_scheme) io" where
  "render_and_send c channels d model i =
     io_then (io_step (\<lambda>db. let (claimed, ms) = notif_claim (no_now c) i (nd_messages db) in (claimed, db\<lparr>nd_messages := ms\<rparr>))) (\<lambda>claimed.
     case claimed of
       None \<Rightarrow> io_return SEND_SKIPPED_CLAIM
     | Some m \<Rightarrow> io_catch (send_claimed c channels d model m) (send_failed c d i))"

section \<open>A chunk\<close>

definition notif_status_text :: "notif_status \<Rightarrow> string" where
  "notif_status_text s = (case s of NR_PENDING \<Rightarrow> ''PENDING'' | NR_RUNNING \<Rightarrow> ''RUNNING'' | NR_COMPLETED \<Rightarrow> ''COMPLETED''
     | NR_COMPLETED_WITH_ERRORS \<Rightarrow> ''COMPLETED_WITH_ERRORS'' | NR_FAILED \<Rightarrow> ''FAILED'' | NR_NO_RECIPIENTS \<Rightarrow> ''NO_RECIPIENTS'')"

definition request_completed_event :: "notif_request \<Rightarrow> string \<times> (string \<times> json) list" where
  "request_completed_event q = (''NotificationRequestCompletedEvent'',
     [(''requestId'', JStr (nq_id q)), (''notificationType'', JStr (nq_notificationType q)),
      (''status'', JStr (notif_status_text (nq_status q))), (''totalMessages'', JNum (N (int (nq_totalMessages q)))),
      (''sentMessages'', JNum (N (int (nq_sentMessages q)))), (''failedMessages'', JNum (N (int (nq_failedMessages q)))),
      (''suppressedMessages'', JNum (N (int (nq_suppressedMessages q)))),
      (''tenantId'', (case nq_tenantId q of None \<Rightarrow> JNull | Some t \<Rightarrow> JStr t))])"

definition writeRequestCompletedEvent :: "notif_call \<Rightarrow> notif_request \<Rightarrow> (unit, 'a notif_db_scheme) io" where
  "writeRequestCompletedEvent c q = transactional (send_event (no_env c) ''NotificationRequest'' (nq_id q) (request_completed_event q))"

definition finalise_request :: "notif_call \<Rightarrow> string \<Rightarrow> (unit, 'a notif_db_scheme) io" where
  "finalise_request c i =
     io_then (io_read (\<lambda>db. findRequest i (nd_requests db))) (\<lambda>found.
     case found of
       None \<Rightarrow> io_return ()
     | Some q \<Rightarrow>
         if request_terminal (nq_status q) then io_return ()
         else io_then (io_read (\<lambda>db. hasInFlightMessages i (nd_messages db))) (\<lambda>open1.
           if open1 then io_return ()
           else io_then (notif_finalise (no_now c) i) (\<lambda>f.
             io_catch (writeRequestCompletedEvent c f) (\<lambda>_. io_return ()))))"

definition process_notifications ::
  "notif_call \<Rightarrow> 'a notif_db_scheme channel_provider registry \<Rightarrow> 'a notif_db_scheme notif_entry registry \<Rightarrow> notif_dispatch \<Rightarrow>
   (unit, 'a notif_db_scheme) io" where
  "process_notifications c channels reg d =
     io_then (io_write (\<lambda>db. db\<lparr>nd_requests := notif_markRunning (no_now c) (ng_requestId d) (nd_requests db)\<rparr>)) (\<lambda>_.
     io_then (io_read (\<lambda>db. findRequest (ng_requestId d) (nd_requests db))) (\<lambda>found.
     case found of
       None \<Rightarrow> io_return ()
     | Some q \<Rightarrow>
         io_then (io_lift (notif_entry_of (ng_notificationType d) reg)) (\<lambda>e.
         io_then (nh_resolveModel (ne_handler e) (if is_nullish (nq_payload q) then VUndef else nq_payload q)
           \<lparr>nx_tenantId = ng_tenantId d, nx_requestId = ng_requestId d, nx_notificationType = ng_notificationType d,
            nx_traceId = ng_traceId d, nx_defaultLocale = None\<rparr>) (\<lambda>model.
         io_then (io_for (\<lambda>i. io_then (render_and_send c channels d model i) (\<lambda>_. io_return ())) (ng_messageIds d)) (\<lambda>_.
         finalise_request c (ng_requestId d))))))"

fun dispatch_parts :: "notif_call \<Rightarrow> notif_dispatch \<Rightarrow> string list list \<Rightarrow> (unit, 'a notif_db_scheme) io" where
  "dispatch_parts c d [] = io_return ()"
| "dispatch_parts c d (ids # parts) =
     io_then (io_lift (no_queue c (d\<lparr>ng_messageIds := ids\<rparr>))) (\<lambda>_.
     io_then (io_write (\<lambda>db. db\<lparr>nd_queue := nd_queue db @ [d\<lparr>ng_messageIds := ids\<rparr>]\<rparr>)) (\<lambda>_. dispatch_parts c d parts))"

definition notif_dispatchChunks :: "notif_call \<Rightarrow> notif_dispatch \<Rightarrow> (unit, 'a notif_db_scheme) io" where
  "notif_dispatchChunks c d = dispatch_parts c d (split_chunks (ng_messageIds d) (nf_chunkSize (no_config c)))"

section \<open>Sending\<close>

definition expandPairs :: "recipient list \<Rightarrow> string list \<Rightarrow> (recipient \<times> string) list" where
  "expandPairs recipients declared = concat (map (\<lambda>r. map (\<lambda>ch. (r, ch))
     (case rp_channelHints r of Some (h # hs) \<Rightarrow> h # hs | _ \<Rightarrow> declared)) recipients)"

definition opted_out :: "string \<Rightarrow> string \<Rightarrow> notif_preference list \<Rightarrow> bool" where
  "opted_out nt channel prefs \<longleftrightarrow> (\<exists>p \<in> set prefs. pw_category p = nt \<and> (pw_channel p = channel \<or> pw_channel p = ''ALL'') \<and> \<not> pw_optedIn p)"

definition gate :: "int \<Rightarrow> string option \<Rightarrow> string \<Rightarrow> 'a notif_db_scheme \<Rightarrow> recipient \<times> string \<Rightarrow> new_message" where
  "gate now tenantId nt db rc = (case rc of (r, channel) \<Rightarrow>
     let base = \<lparr>nm_recipientRef = rp_recipientRef r, nm_channel = channel, nm_address = rp_address r, nm_locale = rp_locale r,
           nm_status = MS_SUPPRESSED, nm_suppressReason = Some SR_PREFERENCE\<rparr> in
     if opted_out nt channel (findForRecipient tenantId (rp_recipientRef r) (nd_preferences db)) then base
     else if truthy (rp_address r) \<and> isSuppressed now tenantId (the (rp_address r)) channel (nd_suppressions db)
     then base\<lparr>nm_suppressReason := Some SR_HARD_BOUNCE\<rparr>
     else base\<lparr>nm_status := MS_PENDING, nm_suppressReason := None\<rparr>)"

definition notif_mode_of :: "notif_call \<Rightarrow> notif_priority \<Rightarrow> new_message list \<Rightarrow> notif_mode" where
  "notif_mode_of c priority ms = (if length (filter (\<lambda>m. nm_status m = MS_PENDING) ms) \<le> nf_syncMessageThreshold (no_config c) \<and>
     priority = PR_HIGH then NM_SYNC else NM_ASYNC)"

definition capPayload :: "notif_call \<Rightarrow> sval \<Rightarrow> sval" where
  "capPayload c v = (if is_nullish v then VNull else notif_capSnapshot c (nf_payloadMaxBytes (no_config c)) v)"

definition dispatch_of_request :: "notify_input \<Rightarrow> notif_request \<Rightarrow> string list \<Rightarrow> notif_dispatch" where
  "dispatch_of_request n q ids = \<lparr>ng_requestId = nq_id q, ng_notificationType = nq_notificationType q, ng_tenantId = nq_tenantId q,
     ng_traceId = nn_traceId n, ng_defaultLocale = None, ng_messageIds = ids\<rparr>"

definition pending_of :: "notif_message list \<Rightarrow> string list" where
  "pending_of ms = map ms_id (filter (\<lambda>m. ms_status m = MS_PENDING) ms)"

text \<open>The last part: the messages are there and are sent in this process or queued.\<close>

definition send_attached ::
  "notif_call \<Rightarrow> 'a notif_db_scheme channel_provider registry \<Rightarrow> 'a notif_db_scheme notif_entry registry \<Rightarrow> notify_input \<Rightarrow>
   notif_mode \<Rightarrow> notif_request \<times> notif_message list \<Rightarrow> (notif_request, 'a notif_db_scheme) io" where
  "send_attached c channels reg n mode qm = (case qm of (q, ms) \<Rightarrow>
     if pending_of ms = [] then notif_finalise (no_now c) (nq_id q)
     else let d = dispatch_of_request n q (pending_of ms) in
       (if mode = NM_SYNC
        then io_then (process_notifications c channels reg d) (\<lambda>_.
             io_read (\<lambda>db. coalesce (findRequest (nq_id q) (nd_requests db)) q))
        else io_then (io_catch (notif_dispatchChunks c d) (\<lambda>er. io_then (notif_finalise (no_now c) (nq_id q)) (\<lambda>_. io_lift (Inl er))))
             (\<lambda>_. io_return q)))"

definition fan_out ::
  "notif_call \<Rightarrow> 'a notif_db_scheme channel_provider registry \<Rightarrow> 'a notif_db_scheme notif_entry registry \<Rightarrow> notify_input \<Rightarrow>
   'a notif_db_scheme notif_entry \<Rightarrow> notif_priority \<Rightarrow> notif_request \<Rightarrow> (notif_request, 'a notif_db_scheme) io" where
  "fan_out c channels reg n e priority q =
     (let ctx = \<lparr>nx_tenantId = nn_tenantId n, nx_requestId = nq_id q, nx_notificationType = nn_notificationType n,
            nx_traceId = nn_traceId n, nx_defaultLocale = None\<rparr> in
      io_then (nh_resolveRecipients (ne_handler e) (nn_payload n) ctx) (\<lambda>recipients.
      if recipients = [] then finaliseNoRecipients (no_now c) (nq_id q)
      else io_then (nh_resolveModel (ne_handler e) (nn_payload n) ctx) (\<lambda>_.
        let pairs = expandPairs recipients (ne_channels e) in
        if length pairs > nf_maxRecipientsPerRequest (no_config c)
        then io_lift (throw_plain (''Fan-out of '' @ nat_to_string (length pairs) @ '' messages exceeds the maximum of '' @
          nat_to_string (nf_maxRecipientsPerRequest (no_config c)) @ '' per notification request''))
        else io_then (io_read (\<lambda>db. map (gate (no_now c) (nn_tenantId n) (nn_notificationType n) db) pairs)) (\<lambda>ms.
          io_then (attachMessages c (nq_id q) (notif_mode_of c priority ms) ms)
            (send_attached c channels reg n (notif_mode_of c priority ms))))))"

definition send_notification ::
  "notif_call \<Rightarrow> 'a notif_db_scheme channel_provider registry \<Rightarrow> 'a notif_db_scheme notif_entry registry \<Rightarrow> notify_input \<Rightarrow>
   (notif_request, 'a notif_db_scheme) io" where
  "send_notification c channels reg n =
     io_then (io_read (\<lambda>db. findByDedupKey (nn_tenantId n) (nn_dedupKey n) (nd_requests db))) (\<lambda>existing.
     case existing of
       Some q \<Rightarrow> io_return q
     | None \<Rightarrow>
         io_then (io_lift (notif_entry_of (nn_notificationType n) reg)) (\<lambda>e.
         let priority = coalesce (nn_priority n) (ne_priority e) in
         io_then (createRequest c n (capPayload c (nn_payload n)) priority) (fan_out c channels reg n e priority)))"

section \<open>Receipts\<close>

definition mapDeliveryEvent :: "delivery_status \<Rightarrow> string \<Rightarrow> message_status \<times> suppress_reason option" where
  "mapDeliveryEvent st channel = (case st of
       DS_DELIVERED \<Rightarrow> (MS_DELIVERED, None)
     | DS_BOUNCED \<Rightarrow> (MS_BOUNCED, Some SR_HARD_BOUNCE)
     | DS_COMPLAINT \<Rightarrow> (MS_BOUNCED, Some SR_COMPLAINT)
     | DS_UNSUBSCRIBED \<Rightarrow> (MS_BOUNCED, Some (if channel = ''SMS'' then SR_SMS_STOP else SR_UNSUBSCRIBE))
     | DS_FAILED \<Rightarrow> (MS_FAILED, None))"

definition apply_one :: "notif_call \<Rightarrow> delivery_event \<Rightarrow> (unit, 'a notif_db_scheme) io" where
  "apply_one c ev =
     io_then (io_read (\<lambda>db. findByProviderMessageId (de_providerMessageId ev) (nd_messages db))) (\<lambda>found.
     case found of
       None \<Rightarrow> io_return ()
     | Some m \<Rightarrow>
         let (st, reason) = mapDeliveryEvent (de_status ev) (ms_channel m) in
         io_then (io_step (\<lambda>db. let (updated, ms) = applyDeliveryStatus (no_now c) (de_providerMessageId ev) st (de_reason ev) (de_at ev) (nd_messages db)
           in (updated, db\<lparr>nd_messages := ms\<rparr>))) (\<lambda>updated.
         if updated \<noteq> None \<and> reason \<noteq> None \<and> truthy (ms_address m)
         then suppress c (ms_tenantId m) (the (ms_address m)) (ms_channel m) (the reason) (ms_provider m)
         else io_return ()))"

definition apply_delivery_event ::
  "notif_call \<Rightarrow> 'a notif_db_scheme channel_provider registry \<Rightarrow> string \<Rightarrow> sval \<Rightarrow> string option \<Rightarrow> (unit, 'a notif_db_scheme) io" where
  "apply_delivery_event c channels channel payload signature =
     io_then (io_lift (resolve_channel channel channels)) (\<lambda>p.
     io_then (io_lift (cp_parseDeliveryReceipt p payload signature)) (io_for (apply_one c)))"

section \<open>Events and reconciliation\<close>

record event_envelope =
  ee_eventId :: "string option"
  ee_tenantId :: "string option"
  ee_payload :: sval

definition envelope_payload :: "notif_call \<Rightarrow> event_envelope option \<Rightarrow> sval result" where
  "envelope_payload c m = (case m of
       None \<Rightarrow> Inr (VObj [])
     | Some ee \<Rightarrow> (case ee_payload ee of
         VObj fs \<Rightarrow> json_input (no_host c) (ee_payload ee)
       | VArr xs \<Rightarrow> json_input (no_host c) (ee_payload ee)
       | VHost k \<Rightarrow> if h_stored (no_host c) k = None then Inr (VObj []) else json_input (no_host c) (ee_payload ee)
       | _ \<Rightarrow> Inr (VObj [])))"

definition notification_event ::
  "notif_call \<Rightarrow> 'a notif_db_scheme channel_provider registry \<Rightarrow> 'a notif_db_scheme notif_entry registry \<Rightarrow> string \<Rightarrow>
   event_envelope option \<Rightarrow> (unit, 'a notif_db_scheme) io" where
  "notification_event c channels reg eventName m =
     (if findByEventName eventName reg = [] then io_return ()
      else io_then (case Option.bind m ee_eventId of Some i \<Rightarrow> io_return i | None \<Rightarrow> transactional (draw_uuid (no_env c))) (\<lambda>eventId.
        io_then (io_lift (envelope_payload c m)) (\<lambda>payload.
        io_for (\<lambda>nt. io_catch (io_then (send_notification c channels reg \<lparr>nn_notificationType = nt, nn_dedupKey = nt @ '':'' @ eventId,
            nn_payload = payload, nn_sourceEvent = Some eventName, nn_priority = None, nn_tenantId = Option.bind m ee_tenantId,
            nn_requestedBy = None, nn_traceId = None\<rparr>) (\<lambda>_. io_return ())) (\<lambda>_. io_return ()))
          (findByEventName eventName reg))))"

definition redispatch :: "notif_call \<Rightarrow> notif_request \<Rightarrow> (unit, 'a notif_db_scheme) io" where
  "redispatch c q =
     io_then (io_read (\<lambda>db. message_ids (nq_id q) (Some MS_PENDING) (nd_messages db))) (\<lambda>ids.
     if ids = [] then io_return ()
     else notif_dispatchChunks c \<lparr>ng_requestId = nq_id q, ng_notificationType = nq_notificationType q, ng_tenantId = nq_tenantId q,
       ng_traceId = None, ng_defaultLocale = None, ng_messageIds = ids\<rparr>)"

definition reconcile_notifications :: "notif_call \<Rightarrow> bool \<Rightarrow> (unit, 'a notif_db_scheme) io" where
  "reconcile_notifications c running =
     (if running then io_return ()
      else io_then (io_write (\<lambda>db. db\<lparr>nd_messages := snd (resetStuckRendering (no_now c) (nf_renderingStuckWindowMs (no_config c)) (nd_messages db))\<rparr>)) (\<lambda>_.
        io_then (io_read (\<lambda>db. findResumableRequests (nd_messages db) (nd_requests db))) (io_for (redispatch c))))"

section \<open>Requests of users\<close>

definition notification_status :: "string \<Rightarrow> (notif_request \<times> notif_message list, 'a notif_db_scheme) io" where
  "notification_status i = io_then (io_read (\<lambda>db. (findRequest i (nd_requests db), messages_of i (nd_messages db)))) (\<lambda>(found, ms).
     case found of None \<Rightarrow> io_lift (throw_plain (''NotificationRequest '' @ i @ '' not found'')) | Some q \<Rightarrow> io_return (q, ms))"

end
