(* ===== verification/Notification_Properties.thy ===== *)
theory Notification_Properties
  imports Notification_UseCases
begin

text \<open>
  What the notification service guarantees: its programs are sequences of the moves of a step relation,
  and no move hands a suppressed message to a provider.
\<close>

section \<open>Moves\<close>

definition claimed_before :: "string \<Rightarrow> 'a notif_db_scheme \<Rightarrow> bool" where
  "claimed_before i db \<longleftrightarrow> (\<exists>m \<in> set (nd_messages db). ms_id m = i \<and> 0 < ms_attemptCount m)"

inductive notif_move :: "'a notif_db_scheme \<Rightarrow> 'a notif_db_scheme \<Rightarrow> bool" where
  Notif_create: "notif_move db (snd (createRequest c n p pr db))"
| Notif_attach: "notif_move db (snd (attachMessages c i mode ms db))"
| Notif_request: "(\<And>q. nq_id (f q) = nq_id q) \<Longrightarrow> notif_move db (db\<lparr>nd_requests := map_where p f (nd_requests db)\<rparr>)"
| Notif_claim: "notif_move db (db\<lparr>nd_messages := snd (notif_claim now i (nd_messages db))\<rparr>)"
| Notif_hand: "claimed_before i db \<Longrightarrow> notif_move db (db\<lparr>nd_handed := nd_handed db @ [(i, ch, r)]\<rparr>)"
| Notif_sent: "claimed_before i db \<Longrightarrow> notif_move db (snd (notif_markSent now i t p pid v db))"
| Notif_failed: "claimed_before i db \<Longrightarrow> notif_move db (snd (notif_markFailed now i msg db))"
| Notif_receipt: "st \<in> {MS_DELIVERED, MS_BOUNCED, MS_FAILED} \<Longrightarrow>
    notif_move db (db\<lparr>nd_messages := snd (applyDeliveryStatus now pid st reason at1 (nd_messages db))\<rparr>)"
| Notif_reset: "notif_move db (db\<lparr>nd_messages := snd (resetStuckRendering now ms (nd_messages db))\<rparr>)"
| Notif_queue: "notif_move db (db\<lparr>nd_queue := nd_queue db @ [d]\<rparr>)"
| Notif_other: "nd_requests db' = nd_requests db \<Longrightarrow> nd_messages db' = nd_messages db \<Longrightarrow> nd_handed db' = nd_handed db \<Longrightarrow>
    nd_queue db' = nd_queue db \<Longrightarrow> notif_move db db'"

abbreviation notif_moves :: "'a notif_db_scheme \<Rightarrow> 'a notif_db_scheme \<Rightarrow> bool" where
  "notif_moves \<equiv> notif_move\<^sup>*\<^sup>*"

section \<open>The table of messages\<close>

definition messages_ok :: "notif_message list \<Rightarrow> bool" where
  "messages_ok ms \<longleftrightarrow> distinct (map ms_id ms) \<and> (\<forall>m \<in> set ms. ms_status m = MS_SUPPRESSED \<longrightarrow> ms_attemptCount m = 0)"

text \<open>
  What every move keeps of a row: its id, request, channel and address, that it is suppressed, and its
  number of attempts from going down.
\<close>

definition message_step :: "notif_message \<Rightarrow> notif_message \<Rightarrow> bool" where
  "message_step m m' \<longleftrightarrow> ms_id m' = ms_id m \<and> ms_requestId m' = ms_requestId m \<and> ms_channel m' = ms_channel m \<and>
     ms_address m' = ms_address m \<and> ms_attemptCount m \<le> ms_attemptCount m' \<and>
     (ms_status m' = MS_SUPPRESSED \<longleftrightarrow> ms_status m = MS_SUPPRESSED) \<and>
     (ms_status m = MS_SUPPRESSED \<longrightarrow> ms_attemptCount m' = ms_attemptCount m)"

lemma message_step_refl [simp]: "message_step m m"
  by (simp add: message_step_def)

lemma message_step_trans: "message_step m m' \<Longrightarrow> message_step m' m'' \<Longrightarrow> message_step m m''"
  by (auto simp: message_step_def)

definition rows_step :: "notif_message list \<Rightarrow> notif_message list \<Rightarrow> bool" where
  "rows_step ms ms' \<longleftrightarrow> messages_ok ms' \<and> (\<forall>m \<in> set ms. \<exists>m' \<in> set ms'. message_step m m')"

lemma rows_step_refl: "messages_ok ms \<Longrightarrow> rows_step ms ms"
  by (auto simp: rows_step_def intro: message_step_refl)

lemma rows_step_trans: "rows_step ms ms' \<Longrightarrow> rows_step ms' ms'' \<Longrightarrow> rows_step ms ms''"
  unfolding rows_step_def by (meson message_step_trans)

lemma rows_step_map:
  assumes "messages_ok ms" "\<And>m. m \<in> set ms \<Longrightarrow> p m \<Longrightarrow> message_step m (f m)"
  shows "rows_step ms (map_where p f ms)"
proof -
  have step: "message_step m (if p m then f m else m)" if "m \<in> set ms" for m using assms(2) that by simp
  have "map ms_id (map_where p f ms) = map ms_id ms"
    using step by (auto simp: map_where_def message_step_def)
  moreover have "ms_attemptCount m' = 0" if "m' \<in> set (map_where p f ms)" "ms_status m' = MS_SUPPRESSED" for m'
  proof -
    from that(1) obtain m where "m \<in> set ms" "m' = (if p m then f m else m)" by (auto simp: map_where_def)
    with step [of m] assms(1) that(2) show ?thesis by (auto simp: message_step_def messages_ok_def)
  qed
  moreover have "\<forall>m \<in> set ms. \<exists>m' \<in> set (map_where p f ms). message_step m m'"
  proof
    fix m assume m: "m \<in> set ms"
    then have "(if p m then f m else m) \<in> set (map_where p f ms)" unfolding map_where_def set_map by (rule imageI)
    with step [OF m] show "\<exists>m' \<in> set (map_where p f ms). message_step m m'" by blast
  qed
  ultimately show ?thesis using assms(1) by (simp add: rows_step_def messages_ok_def)
qed

lemma rows_step_insert:
  "messages_ok ms \<Longrightarrow> ms_id m \<notin> ms_id ` set ms \<Longrightarrow> ms_attemptCount m = 0 \<Longrightarrow> rows_step ms (insert_row m ms)"
  by (auto simp: rows_step_def insert_row_def messages_ok_def intro: message_step_refl)

section \<open>Every move keeps suppressed messages away from providers\<close>

definition handed_for :: "string \<Rightarrow> 'a notif_db_scheme \<Rightarrow> (string \<times> string \<times> rendered_message) list" where
  "handed_for i db = filter (\<lambda>x. fst x = i) (nd_handed db)"

definition safe_step :: "'a notif_db_scheme \<Rightarrow> 'a notif_db_scheme \<Rightarrow> bool" where
  "safe_step db db' \<longleftrightarrow> rows_step (nd_messages db) (nd_messages db') \<and>
     (\<forall>m \<in> set (nd_messages db). ms_status m = MS_SUPPRESSED \<longrightarrow> handed_for (ms_id m) db' = handed_for (ms_id m) db)"

lemma safe_rows: "rows_step (nd_messages db) (nd_messages db') \<Longrightarrow> nd_handed db' = nd_handed db \<Longrightarrow> safe_step db db'"
  by (simp add: safe_step_def handed_for_def)

lemma safe_ok: "safe_step db db' \<Longrightarrow> messages_ok (nd_messages db')"
  by (simp add: safe_step_def rows_step_def)

lemma safe_trans:
  assumes "safe_step db db'" "safe_step db' db''"
  shows "safe_step db db''"
proof -
  have "handed_for (ms_id m) db'' = handed_for (ms_id m) db" if "m \<in> set (nd_messages db)" "ms_status m = MS_SUPPRESSED" for m
  proof -
    from assms(1) that(1) obtain m' where m': "m' \<in> set (nd_messages db')" "message_step m m'"
      by (auto simp: safe_step_def rows_step_def)
    then have "ms_id m' = ms_id m" "ms_status m' = MS_SUPPRESSED" using that(2) by (simp_all add: message_step_def)
    with assms m'(1) that show ?thesis unfolding safe_step_def by metis
  qed
  moreover have "rows_step (nd_messages db) (nd_messages db'')"
    using assms unfolding safe_step_def by (blast intro: rows_step_trans)
  ultimately show ?thesis by (simp add: safe_step_def)
qed

lemma unclaimed:
  assumes "messages_ok (nd_messages db)" "claimed_before i db" "m \<in> set (nd_messages db)" "ms_id m = i"
  shows "ms_status m \<noteq> MS_SUPPRESSED"
proof -
  from assms(2) obtain q where q: "q \<in> set (nd_messages db)" "ms_id q = i" "0 < ms_attemptCount q" by (auto simp: claimed_before_def)
  with assms(1,3,4) have "q = m" by (metis eq_key_imp_eq_value messages_ok_def distinct_map inj_onD)
  with q(3) assms(1,3) show ?thesis by (auto simp: messages_ok_def)
qed

lemma insert_messages_safe:
  "tx_for (insert_message c q) ms db = Inr (u, db') \<Longrightarrow> messages_ok (nd_messages db) \<Longrightarrow>
   safe_step db db' \<and> nd_requests db' = nd_requests db"
proof (induction ms arbitrary: db)
  case Nil
  then show ?case by (auto simp: tx_return_def intro: safe_rows rows_step_refl)
next
  case (Cons m ms)
  from Cons.prems(1) obtain u1 db1 where one: "insert_message c q m db = Inr (u1, db1)" and rest: "tx_for (insert_message c q) ms db1 = Inr (u, db')"
    by (auto simp: tx_then_def split: sum.splits prod.splits)
  let ?m = "fresh_message c q (e_uuid (no_env c) (pf_drawn db)) m"
  from one have "ms_id ?m \<notin> ms_id ` set (nd_messages db)"
    and db1: "db1 = db\<lparr>pf_drawn := pf_drawn db + 1, nd_messages := insert_row ?m (nd_messages db)\<rparr>"
    by (auto simp: insert_message_def draw_uuid_def tx_then_def fresh_message_def split: if_splits)
  then have "safe_step db db1" "nd_requests db1 = nd_requests db"
    using Cons.prems(2) by (simp_all add: safe_rows rows_step_insert fresh_message_def)
  with Cons.IH [OF rest safe_ok] show ?case by (auto intro: safe_trans)
qed

lemma update_claimed_safe:
  assumes "messages_ok (nd_messages db)" "claimed_before i db"
    and "\<And>m. ms_status m \<noteq> MS_SUPPRESSED \<Longrightarrow> message_step m (f m)"
  shows "safe_step db (snd (update_message i f db))"
proof (cases "findMessage i (nd_messages db) = None")
  case False
  have "rows_step (nd_messages db) (map_where (\<lambda>m. ms_id m = i) f (nd_messages db))"
    by (rule rows_step_map [OF assms(1)]) (auto intro: assms(3) dest: unclaimed [OF assms(1,2)])
  with False show ?thesis by (auto simp: update_message_def safe_rows)
qed (simp add: update_message_def safe_rows rows_step_refl assms(1))

lemma notif_move_safe: "notif_move db db' \<Longrightarrow> messages_ok (nd_messages db) \<Longrightarrow> safe_step db db'"
proof (induction rule: notif_move.induct)
  case (Notif_create db c n p pr)
  have "nd_messages (snd (createRequest c n p pr db)) = nd_messages db \<and> nd_handed (snd (createRequest c n p pr db)) = nd_handed db"
    by (auto simp: createRequest_def transactional_def tx_then_def tx_lift_def draw_uuid_def Let_def split: sum.splits prod.splits option.splits)
  with Notif_create show ?case by (simp add: safe_rows rows_step_refl)
next
  case (Notif_attach db c i mode ms)
  show ?case
  proof (cases "attachMessages c i mode ms db")
    case (Pair res db')
    show ?thesis
    proof (cases res)
      case (Inl er)
      with Pair have "db' = db"
        by (auto simp: attachMessages_def transactional_def split: sum.splits prod.splits option.splits)
      with Pair Notif_attach show ?thesis by (simp add: safe_rows rows_step_refl)
    next
      case (Inr x)
      with Pair obtain q u db1 where "tx_for (insert_message c q) ms db = Inr (u, db1)"
        and db': "db' = db1\<lparr>nd_requests := map_where (\<lambda>r. nq_id r = i) (attached (no_now c) mode ms) (nd_requests db1)\<rparr>"
        by (auto simp: attachMessages_def transactional_def tx_then_def split: sum.splits prod.splits option.splits)
      with insert_messages_safe Notif_attach have "safe_step db db1" by blast
      then show ?thesis using Pair by (simp add: db' safe_step_def handed_for_def)
    qed
  qed
next
  case (Notif_claim db now i)
  have "rows_step (nd_messages db) (map_where (\<lambda>m. ms_id m = i \<and> ms_status m = MS_PENDING) (claimed_message now) (nd_messages db))"
    by (rule rows_step_map [OF Notif_claim]) (auto simp: message_step_def claimed_message_def)
  then show ?case by (simp add: safe_rows notif_claim_def update_many_def Let_def)
next
  case (Notif_hand i db ch r)
  then show ?case by (auto simp: safe_step_def rows_step_refl handed_for_def dest: unclaimed)
next
  case (Notif_sent i db now t p pid v)
  then show ?case unfolding notif_markSent_def
    by (intro update_claimed_safe) (auto simp: message_step_def sent_message_def)
next
  case (Notif_failed i db now msg)
  then show ?case unfolding notif_markFailed_def
    by (intro update_claimed_safe) (auto simp: message_step_def)
next
  case (Notif_receipt st db now pid reason at1)
  have "rows_step (nd_messages db) (map_where (receipt_hit pid st) (received now st reason at1) (nd_messages db))"
  proof (rule rows_step_map [OF Notif_receipt(2)])
    fix m assume "receipt_hit pid st m"
    with Notif_receipt(1) show "message_step m (received now st reason at1 m)"
      by (cases "ms_status m") (auto simp: message_step_def received_def receipt_hit_def)
  qed
  then show ?case by (simp add: safe_rows applyDeliveryStatus_def update_many_def)
next
  case (Notif_reset db now ms)
  have "rows_step (nd_messages db) (snd (resetStuckRendering now ms (nd_messages db)))"
    unfolding resetStuckRendering_def update_many_def snd_conv
    by (rule rows_step_map [OF Notif_reset]) (auto simp: message_step_def)
  then show ?case by (simp add: safe_rows)
qed (simp_all add: safe_rows rows_step_refl)

lemma notif_moves_safe: "notif_moves db db' \<Longrightarrow> messages_ok (nd_messages db) \<Longrightarrow> safe_step db db'"
proof (induction rule: rtranclp_induct)
  case (step db1 db2)
  then have "safe_step db db1" by simp
  then show ?case using notif_move_safe [OF step.hyps(2) safe_ok] by (blast intro: safe_trans)
qed (simp add: safe_rows rows_step_refl)

text \<open>
  C32. A suppressed message is never handed to a provider. When the gate has dropped a message, whatever
  workers, receipts, resets and further requests do, interleaved in any way, the row stays SUPPRESSED and
  no provider gets it.
\<close>
theorem suppressed_message_is_never_handed:
  assumes "notif_move\<^sup>*\<^sup>* db db'" "messages_ok (nd_messages db)" "m \<in> set (nd_messages db)" "ms_status m = MS_SUPPRESSED"
  shows "filter (\<lambda>x. fst x = ms_id m) (nd_handed db') = filter (\<lambda>x. fst x = ms_id m) (nd_handed db) \<and>
    (\<exists>m' \<in> set (nd_messages db'). ms_id m' = ms_id m \<and> ms_status m' = MS_SUPPRESSED \<and> ms_attemptCount m' = 0)"
proof -
  from notif_moves_safe [OF assms(1,2)] have safe: "safe_step db db'" .
  then obtain m' where "m' \<in> set (nd_messages db')" "message_step m m'" using assms(3) by (auto simp: safe_step_def rows_step_def)
  with assms(2-4) have "ms_id m' = ms_id m \<and> ms_status m' = MS_SUPPRESSED \<and> ms_attemptCount m' = 0"
    by (auto simp: message_step_def messages_ok_def)
  with \<open>m' \<in> _\<close> safe assms(3,4) show ?thesis unfolding safe_step_def handed_for_def by blast
qed

section \<open>The programs are sequences of moves\<close>

text \<open>Handlers and providers work elsewhere: they leave requests, messages, hand-overs and the queue alone.\<close>

definition same_notifs :: "'a notif_db_scheme \<Rightarrow> 'a notif_db_scheme \<Rightarrow> bool" where
  "same_notifs db db' \<longleftrightarrow> nd_requests db' = nd_requests db \<and> nd_messages db' = nd_messages db \<and>
     nd_handed db' = nd_handed db \<and> nd_queue db' = nd_queue db"

abbreviation outside_entries :: "'a notif_db_scheme notif_entry registry \<Rightarrow> bool" where
  "outside_entries reg \<equiv> \<forall>e \<in> snd ` set reg. \<forall>p x. io_rel same_notifs (nh_resolveRecipients (ne_handler e) p x) \<and>
     io_rel same_notifs (nh_resolveModel (ne_handler e) p x)"

abbreviation outside_providers :: "'a notif_db_scheme channel_provider registry \<Rightarrow> bool" where
  "outside_providers channels \<equiv> \<forall>p \<in> snd ` set channels. \<forall>r. io_rel same_notifs (cp_send p r)"

definition notif_rel :: "'a notif_db_scheme \<Rightarrow> 'a notif_db_scheme \<Rightarrow> bool" where
  "notif_rel db db' \<longleftrightarrow> (messages_ok (nd_messages db) \<longrightarrow> notif_moves db db')"

definition claimed_rel :: "string \<Rightarrow> 'a notif_db_scheme \<Rightarrow> 'a notif_db_scheme \<Rightarrow> bool" where
  "claimed_rel i db db' \<longleftrightarrow> (messages_ok (nd_messages db) \<and> claimed_before i db \<longrightarrow> notif_moves db db')"

lemma moves_ok: "notif_moves db db' \<Longrightarrow> messages_ok (nd_messages db) \<Longrightarrow> messages_ok (nd_messages db')"
  by (rule safe_ok [OF notif_moves_safe])

lemma moves_claimed:
  assumes "notif_moves db db'" "messages_ok (nd_messages db)" "claimed_before i db"
  shows "claimed_before i db'"
proof -
  from assms(3) obtain m where m: "m \<in> set (nd_messages db)" "ms_id m = i" "0 < ms_attemptCount m" by (auto simp: claimed_before_def)
  with notif_moves_safe [OF assms(1,2)] obtain m' where "m' \<in> set (nd_messages db')" "message_step m m'"
    by (auto simp: safe_step_def rows_step_def)
  with m show ?thesis by (auto simp: claimed_before_def message_step_def)
qed

interpretation notifying: io_relation "notif_rel :: 'a notif_db_scheme \<Rightarrow> 'a notif_db_scheme \<Rightarrow> bool"
  by unfold_locales (auto simp: notif_rel_def dest: moves_ok)

interpretation claiming: io_relation "claimed_rel i :: 'a notif_db_scheme \<Rightarrow> 'a notif_db_scheme \<Rightarrow> bool" for i
  by unfold_locales (auto simp: claimed_rel_def dest: moves_ok moves_claimed)

lemmas notif_rules = notifying.rel_return notifying.rel_lift notifying.rel_read notifying.rel_then notifying.rel_if notifying.rel_option
  notifying.rel_catch notifying.rel_for
lemmas claimed_rules = claiming.rel_return claiming.rel_lift claiming.rel_read claiming.rel_then claiming.rel_if claiming.rel_option
  claiming.rel_catch

lemma one_notif: "(\<And>db. notif_move db (snd (m db))) \<Longrightarrow> io_rel notif_rel m"
  by (auto simp: io_rel_def notif_rel_def)

lemma one_claimed: "(\<And>db. claimed_before i db \<Longrightarrow> notif_move db (snd (m db))) \<Longrightarrow> io_rel (claimed_rel i) m"
  by (auto simp: io_rel_def claimed_rel_def)

lemma write_notif: "(\<And>db. notif_move db (g db)) \<Longrightarrow> io_rel notif_rel (io_write g)"
  "(\<And>db. claimed_before i db \<Longrightarrow> notif_move db (g db)) \<Longrightarrow> io_rel (claimed_rel i) (io_write g)"
  by (auto intro: one_notif one_claimed)

lemma outside_notif: "io_rel same_notifs m \<Longrightarrow> io_rel notif_rel m"
  by (rule one_notif) (auto simp: io_rel_def same_notifs_def intro: Notif_other)

lemma outside_claimed: "io_rel same_notifs m \<Longrightarrow> io_rel (claimed_rel i) m"
  by (rule one_claimed) (auto simp: io_rel_def same_notifs_def intro: Notif_other)

lemma aside_notifs: "io_rel same_notifs (transactional (draw_uuid e))" "io_rel same_notifs (transactional (send_event e a i ev))"
  by (auto simp: io_rel_def same_notifs_def transactional_def draw_uuid_def send_event_def tx_then_def tx_write_def
      split: sum.splits prod.splits)

lemma update_request_move:
  assumes "\<And>q. nq_id (f q) = nq_id q"
  shows "notif_move db (snd (update_request i f db))"
proof (cases "findRequest i (nd_requests db)")
  case None
  then show ?thesis by (simp add: update_request_def) (rule Notif_other; simp)
next
  case (Some q)
  then show ?thesis using Notif_request [of f db "\<lambda>r. nq_id r = i"] assms by (simp add: update_request_def)
qed

lemma update_request_moves:
  assumes "\<And>q. nq_id (f q) = nq_id q"
  shows "io_rel notif_rel (update_request i f)" "io_rel (claimed_rel k) (update_request i f)"
  by (rule one_notif one_claimed, rule update_request_move, rule assms)+

lemma running_moves: "io_rel notif_rel (io_write (\<lambda>db. db\<lparr>nd_requests := notif_markRunning now i (nd_requests db)\<rparr>))"
  unfolding notif_markRunning_def update_many_def snd_conv
  by (rule write_notif(1), rule Notif_request) simp

lemma request_statement_moves:
  "io_rel notif_rel (notif_finalise now i)" "io_rel notif_rel (finaliseNoRecipients now i)"
  "io_rel notif_rel (createRequest c n p pr)" "io_rel notif_rel (attachMessages c i mode ms)"
  "io_rel notif_rel (io_write (\<lambda>db. db\<lparr>nd_queue := nd_queue db @ [d]\<rparr>))"
  by (auto simp: notif_finalise_def finaliseNoRecipients_def
      intro: update_request_moves write_notif one_notif Notif_create Notif_attach Notif_queue)

lemma send_claimed_moves:
  assumes "outside_providers channels"
  shows "io_rel (claimed_rel (ms_id m)) (send_claimed c channels d model m)"
proof -
  let ?R = "claimed_rel (ms_id m) :: 'a notif_db_scheme \<Rightarrow> _"
  have 1: "p \<in> snd ` set channels" if "resolve_channel ch channels = Inr p" for ch p
    using that by (auto simp: resolve_channel_def requireEntry_def split: option.splits dest!: map_of_SomeD) force
  have 2: "io_rel ?R (handed (ms_id m) ch r)" for ch r
    unfolding handed_def by (rule write_notif(2), rule Notif_hand)
  have 3: "io_rel ?R (notif_markSent now (ms_id m) t p pid v)" for now t p pid v
    by (rule one_claimed, rule Notif_sent)
  have 4: "io_rel ?R (incrementProgress i o1)" for i o1
    unfolding incrementProgress_def by (rule update_request_moves(2)) (simp add: counted_def split: message_outcome.split)
  have 5: "io_rel ?R (cp_send p r)" if "p \<in> snd ` set channels" for p r
    using assms that by (intro outside_claimed) blast
  show ?thesis unfolding send_claimed_def Let_def
    by (intro claimed_rules claiming.rel_then_on [where P = "\<lambda>p. p \<in> snd ` set channels"] 2 3 4 5) (auto intro: 1)
qed

lemma send_failed_moves: "io_rel (claimed_rel i) (send_failed c d i er)"
proof -
  have "io_rel (claimed_rel i) (notif_markFailed now i msg)" for now msg
    by (rule one_claimed, rule Notif_failed)
  moreover have "io_rel (claimed_rel i) (incrementProgress k o1)" for k o1
    unfolding incrementProgress_def by (rule update_request_moves(2)) (simp add: counted_def split: message_outcome.split)
  ultimately show ?thesis unfolding send_failed_def by (intro claimed_rules)
qed

lemma claim_result:
  assumes "notif_claim now i ms = (Some m, ms')"
  shows "ms_id m = i" "m \<in> set ms'" "0 < ms_attemptCount m"
proof -
  from assms obtain q where "find_first (\<lambda>m. ms_id m = i \<and> ms_status m = MS_PENDING) ms = Some q" and m: "m = claimed_message now q"
    by (auto simp: notif_claim_def Let_def)
  then have q: "q \<in> set ms" "ms_id q = i" "ms_status q = MS_PENDING"
    by (metis (mono_tags, lifting) find_first_def find_Some_iff nth_mem)+
  show "ms_id m = i" "0 < ms_attemptCount m" using q m by (simp_all add: claimed_message_def)
  show "m \<in> set ms'" using assms q m by (auto simp: notif_claim_def Let_def update_many_def set_map_where)
qed

lemma render_moves:
  assumes "outside_providers channels"
  shows "io_rel notif_rel (render_and_send c channels d model i)"
  unfolding io_rel_def notif_rel_def
proof (intro allI impI)
  fix db :: "'a notif_db_scheme" assume ok: "messages_ok (nd_messages db)"
  obtain claimed ms where cl: "notif_claim (no_now c) i (nd_messages db) = (claimed, ms)" by (cases "notif_claim (no_now c) i (nd_messages db)")
  let ?db = "db\<lparr>nd_messages := ms\<rparr>"
  have move: "notif_moves db ?db" using Notif_claim [of db "no_now c" i] cl by simp
  show "notif_moves db (snd (render_and_send c channels d model i db))"
  proof (cases claimed)
    case None
    then show ?thesis using cl move by (simp add: render_and_send_def io_then_def io_step_def)
  next
    case (Some m)
    with cl have m: "ms_id m = i" "claimed_before i ?db" by (auto simp: claimed_before_def dest: claim_result)
    have "io_rel (claimed_rel i) (io_catch (send_claimed c channels d model m) (send_failed c d i))"
      using send_claimed_moves [OF assms, of m] m(1) by (intro claiming.rel_catch send_failed_moves) simp
    then have "notif_moves ?db (snd (io_catch (send_claimed c channels d model m) (send_failed c d i) ?db))"
      using m(2) moves_ok [OF move ok] by (auto simp: io_rel_def claimed_rel_def)
    with move show ?thesis using cl Some by (simp add: render_and_send_def io_then_def io_step_def)
  qed
qed

lemma finalise_request_moves: "io_rel notif_rel (finalise_request c i)"
  unfolding finalise_request_def writeRequestCompletedEvent_def
  by (intro notif_rules request_statement_moves outside_notif aside_notifs)

lemma entry_in: "notif_entry_of nt reg = Inr e \<Longrightarrow> e \<in> snd ` set reg"
  by (auto simp: notif_entry_of_def requireEntry_def split: option.splits dest!: map_of_SomeD) force

lemma process_moves:
  assumes "outside_providers channels" "outside_entries reg"
  shows "io_rel notif_rel (process_notifications c channels reg d)"
proof -
  have "io_rel notif_rel (nh_resolveModel (ne_handler e) p x)" if "e \<in> snd ` set reg" for e p x
    using assms(2) that by (intro outside_notif) blast
  then show ?thesis unfolding process_notifications_def
    by (intro notif_rules notifying.rel_then_on [where P = "\<lambda>e. e \<in> snd ` set reg"] running_moves render_moves [OF assms(1)]
      finalise_request_moves) (auto dest: entry_in)
qed

lemma dispatch_moves: "io_rel notif_rel (notif_dispatchChunks c d)"
proof -
  have "io_rel notif_rel (dispatch_parts c d parts)" for parts
    by (induction parts) (simp_all only: dispatch_parts.simps, intro notif_rules, intro notif_rules request_statement_moves)
  then show ?thesis by (simp add: notif_dispatchChunks_def)
qed

lemma send_notification_moves:
  assumes "outside_providers channels" "outside_entries reg"
  shows "io_rel notif_rel (send_notification c channels reg n)"
proof -
  have attached: "io_rel notif_rel (send_attached c channels reg n mode qm)" for mode qm
    unfolding send_attached_def Let_def
    by (cases qm, simp) (intro conjI impI notif_rules request_statement_moves process_moves [OF assms] dispatch_moves)
  have "io_rel notif_rel (fan_out c channels reg n e pr q)" if "e \<in> snd ` set reg" for e pr q
  proof -
    have "io_rel notif_rel (nh_resolveModel (ne_handler e) p x)" "io_rel notif_rel (nh_resolveRecipients (ne_handler e) p x)" for p x
      using assms(2) that by (intro outside_notif; blast)+
    then show ?thesis unfolding fan_out_def Let_def by (intro notif_rules request_statement_moves attached)
  qed
  then show ?thesis unfolding send_notification_def Let_def
    by (intro notif_rules notifying.rel_then_on [where P = "\<lambda>e. e \<in> snd ` set reg"] request_statement_moves) (auto dest: entry_in)
qed

lemma suppress_moves: "io_rel notif_rel (suppress c t a ch r s)"
proof -
  have "io_rel notif_rel (io_write (\<lambda>db. db\<lparr>nd_suppressions := f db\<rparr>))" for f :: "'a notif_db_scheme \<Rightarrow> _"
    by (rule write_notif(1), rule Notif_other) simp_all
  then show ?thesis unfolding suppress_def by (intro notif_rules outside_notif [OF aside_notifs(1)])
qed

lemma receipt_moves: "io_rel notif_rel (apply_delivery_event c channels ch v sg)"
proof -
  have status: "fst (mapDeliveryEvent st ch) \<in> {MS_DELIVERED, MS_BOUNCED, MS_FAILED}" for st ch
    by (simp add: mapDeliveryEvent_def split: delivery_status.split)
  have "io_rel notif_rel (io_step (\<lambda>db. let (updated, ms) = applyDeliveryStatus now pid (fst (mapDeliveryEvent st ch)) re at1 (nd_messages db)
      in (updated, db\<lparr>nd_messages := ms\<rparr>)))" for now pid st ch re at1
    by (rule one_notif) (simp add: io_step_def split_beta Notif_receipt [OF status])
  from this [unfolded split_beta Let_def] have "io_rel notif_rel (apply_one c ev)" for ev
    unfolding apply_one_def split_beta Let_def by (intro notif_rules suppress_moves)
  then show ?thesis unfolding apply_delivery_event_def by (intro notif_rules)
qed

lemma event_moves:
  assumes "outside_providers channels" "outside_entries reg"
  shows "io_rel notif_rel (notification_event c channels reg name msg)"
  unfolding notification_event_def
  by (intro notif_rules outside_notif aside_notifs send_notification_moves [OF assms])

lemma reconcile_notifications_moves: "io_rel notif_rel (reconcile_notifications c running)"
proof -
  have "io_rel notif_rel (io_write (\<lambda>db. db\<lparr>nd_messages := snd (resetStuckRendering now t (nd_messages db))\<rparr>))" for now t
    by (rule write_notif(1), rule Notif_reset)
  then show ?thesis unfolding reconcile_notifications_def redispatch_def
    by (intro notif_rules dispatch_moves)
qed

text \<open>
  The programs of the notification service refine the step relation: sending, processing a chunk,
  events, delivery receipts and the reconciliation are sequences of its moves, whatever handlers and
  providers do elsewhere. In particular a message is handed to a provider only after it was claimed.
\<close>
theorem notification_programs_are_moves:
  assumes "outside_providers channels" "outside_entries reg" "messages_ok (nd_messages db)"
  shows "notif_move\<^sup>*\<^sup>* db (snd (send_notification c channels reg n db)) \<and>
    notif_move\<^sup>*\<^sup>* db (snd (process_notifications c channels reg d db)) \<and>
    notif_move\<^sup>*\<^sup>* db (snd (notification_event c channels reg name msg db)) \<and>
    notif_move\<^sup>*\<^sup>* db (snd (apply_delivery_event c channels ch v sg db)) \<and>
    notif_move\<^sup>*\<^sup>* db (snd (reconcile_notifications c running db))"
  using io_relD [OF send_notification_moves [OF assms(1,2)], of db] io_relD [OF process_moves [OF assms(1,2)], of db]
    io_relD [OF event_moves [OF assms(1,2)], of db] io_relD [OF receipt_moves, of db] io_relD [OF reconcile_notifications_moves, of db]
  unfolding notif_rel_def using assms(3) by blast

end
