(* ===== verification/Notification_Lost.thy ===== *)
theory Notification_Lost
  imports Notification_Properties
begin

text \<open>
  A request whose fan-out failed: the row with its dedup key is there, no message is. What the system can
  do afterwards, and what it cannot.
\<close>

section \<open>Runs of the system\<close>

inductive notif_system :: "'a notif_db_scheme \<Rightarrow> 'a notif_db_scheme \<Rightarrow> bool" where
  Sys_send: "outside_providers channels \<Longrightarrow> outside_entries reg \<Longrightarrow> notif_system db (snd (send_notification c channels reg n db))"
| Sys_work: "outside_providers channels \<Longrightarrow> outside_entries reg \<Longrightarrow> d \<in> set (nd_queue db) \<Longrightarrow>
    notif_system db (snd (process_notifications c channels reg d db))"
| Sys_event: "outside_providers channels \<Longrightarrow> outside_entries reg \<Longrightarrow>
    notif_system db (snd (notification_event c channels reg name msg db))"
| Sys_receipt: "notif_system db (snd (apply_delivery_event c channels ch v sg db))"
| Sys_reconcile: "notif_system db (snd (reconcile_notifications c running db))"

section \<open>Requests without messages\<close>

definition abandoned :: "notif_request \<Rightarrow> 'a notif_db_scheme \<Rightarrow> bool" where
  "abandoned q db \<longleftrightarrow> findByDedupKey (nq_tenantId q) (nq_dedupKey q) (nd_requests db) = Some q \<and>
     (\<forall>m \<in> set (nd_messages db). ms_requestId m \<noteq> nq_id q) \<and> (\<forall>d \<in> set (nd_queue db). ng_requestId d \<noteq> nq_id q)"

definition keeps :: "notif_request \<Rightarrow> 'a notif_db_scheme \<Rightarrow> 'a notif_db_scheme \<Rightarrow> bool" where
  "keeps q db db' \<longleftrightarrow> (abandoned q db \<longrightarrow> abandoned q db')"

interpretation keeping: io_relation "keeps q :: 'a notif_db_scheme \<Rightarrow> 'a notif_db_scheme \<Rightarrow> bool" for q
  by unfold_locales (auto simp: keeps_def)

lemmas keep_rules = keeping.rel_return keeping.rel_lift keeping.rel_read keeping.rel_then keeping.rel_if keeping.rel_option
  keeping.rel_catch

lemma keep_same: "io_rel same_notifs m \<Longrightarrow> io_rel (keeps q) m"
  by (simp add: io_rel_def keeps_def same_notifs_def abandoned_def)

lemma keep_rows:
  fixes m :: "('x, 'a notif_db_scheme) io"
  assumes "\<And>db. nd_requests (snd (m db)) = nd_requests db \<and> nd_queue (snd (m db)) = nd_queue db \<and>
    ms_requestId ` set (nd_messages (snd (m db))) = ms_requestId ` set (nd_messages db)"
  shows "io_rel (keeps q) m"
  unfolding io_rel_def keeps_def
proof (intro allI impI)
  fix db :: "'a notif_db_scheme" assume "abandoned q db"
  with assms [of db] show "abandoned q (snd (m db))" unfolding abandoned_def by (metis (mono_tags, lifting) image_iff)
qed

lemma find_other:
  assumes "find_first p rows = Some q" "\<And>r. p (f r) = p r" "\<not> b q"
  shows "find_first p (map_where b f rows) = Some q"
  using assms unfolding find_first_def map_where_def by (induction rows) (auto split: if_splits)

text \<open>Updates of another request.\<close>

definition key_kept :: "(notif_request \<Rightarrow> notif_request) \<Rightarrow> bool" where
  "key_kept f \<longleftrightarrow> (\<forall>r. nq_tenantId (f r) = nq_tenantId r \<and> nq_dedupKey (f r) = nq_dedupKey r)"

lemma abandoned_map:
  assumes "abandoned q db" "key_kept f" "\<not> b q"
  shows "abandoned q (db\<lparr>nd_requests := map_where b f (nd_requests db)\<rparr>)"
  using assms unfolding abandoned_def findByDedupKey_def key_kept_def by (simp add: find_other)

lemma keep_update:
  assumes "i \<noteq> nq_id q" "key_kept f"
  shows "io_rel (keeps q) (update_request i f)"
  using assms abandoned_map [OF _ assms(2), of q _ "\<lambda>r. nq_id r = i"]
  by (auto simp: io_rel_def keeps_def update_request_def split: option.split)

lemma keep_requests:
  assumes "i \<noteq> nq_id q"
  shows "io_rel (keeps q) (notif_finalise now i)" "io_rel (keeps q) (finaliseNoRecipients now i)" "io_rel (keeps q) (incrementProgress i o1)"
    "io_rel (keeps q) (io_write (\<lambda>db. db\<lparr>nd_requests := notif_markRunning now i (nd_requests db)\<rparr>))"
proof -
  show "io_rel (keeps q) (notif_finalise now i)"
    unfolding notif_finalise_def by (rule keep_update [OF assms]) (simp add: key_kept_def)
  show "io_rel (keeps q) (finaliseNoRecipients now i)"
    unfolding finaliseNoRecipients_def by (rule keep_update [OF assms]) (simp add: key_kept_def)
  show "io_rel (keeps q) (incrementProgress i o1)"
    unfolding incrementProgress_def by (rule keep_update [OF assms], cases o1) (simp_all add: key_kept_def counted_def)
  show "io_rel (keeps q) (io_write (\<lambda>db. db\<lparr>nd_requests := notif_markRunning now i (nd_requests db)\<rparr>))"
    unfolding notif_markRunning_def update_many_def snd_conv
    by (rule keeping.rel_write) (use assms in \<open>auto simp: keeps_def key_kept_def intro!: abandoned_map\<close>)
qed

lemma insert_messages_rows:
  "tx_for (insert_message c q') ms db = Inr (u, db') \<Longrightarrow> nd_requests db' = nd_requests db \<and> nd_queue db' = nd_queue db \<and>
   ms_requestId ` set (nd_messages db') \<subseteq> insert (nq_id q') (ms_requestId ` set (nd_messages db))"
proof (induction ms arbitrary: db)
  case (Cons m ms)
  from Cons.prems obtain u1 db1 where one: "insert_message c q' m db = Inr (u1, db1)" and rest: "tx_for (insert_message c q') ms db1 = Inr (u, db')"
    by (auto simp: tx_then_def split: sum.splits prod.splits)
  from one have db1: "nd_requests db1 = nd_requests db \<and> nd_queue db1 = nd_queue db \<and>
      ms_requestId ` set (nd_messages db1) = insert (nq_id q') (ms_requestId ` set (nd_messages db))"
    by (auto simp: insert_message_def draw_uuid_def tx_then_def fresh_message_def insert_row_def split: if_splits)
  from Cons.IH [OF rest] show ?case unfolding db1 [THEN conjunct1] db1 [THEN conjunct2, THEN conjunct1] db1 [THEN conjunct2, THEN conjunct2]
    by simp
qed auto

lemma attach_result:
  assumes "attachMessages c i mode ms db = (Inr (q', ms'), db')"
  shows "nq_id q' = i"
  using assms by (auto simp: attachMessages_def transactional_def tx_then_def findRequest_def find_first_def find_Some_iff attached_def
      split: sum.splits prod.splits option.splits)

lemma keep_attach:
  assumes "i \<noteq> nq_id q"
  shows "io_rel (keeps q) (attachMessages c i mode ms)"
  unfolding io_rel_def keeps_def
proof (intro allI impI)
  fix db :: "'a notif_db_scheme" assume ab: "abandoned q db"
  show "abandoned q (snd (attachMessages c i mode ms db))"
  proof (cases "findRequest i (nd_requests db)")
    case None
    with ab show ?thesis by (simp add: attachMessages_def transactional_def)
  next
    case (Some q')
    then have q': "nq_id q' = i" by (simp add: findRequest_def find_first_def find_Some_iff) auto
    show ?thesis
    proof (cases "tx_for (insert_message c q') ms db")
      case (Inl er)
      with ab Some show ?thesis by (simp add: attachMessages_def transactional_def tx_then_def)
    next
      case (Inr x)
      obtain u db1 where "x = (u, db1)" by (cases x)
      with Inr have ins: "tx_for (insert_message c q') ms db = Inr (u, db1)" by simp
      have "abandoned q db1" using insert_messages_rows [OF ins] ab q' assms unfolding abandoned_def by auto
      then have "abandoned q (db1\<lparr>nd_requests := map_where (\<lambda>r. nq_id r = i) (attached (no_now c) mode ms) (nd_requests db1)\<rparr>)"
        using assms by (intro abandoned_map) (auto simp: key_kept_def attached_def)
      with ins Some show ?thesis by (simp add: attachMessages_def transactional_def tx_then_def)
    qed
  qed
qed

section \<open>Programs for other requests\<close>

lemma image_map_where:
  assumes "\<And>m. g (f m) = g m"
  shows "g ` set (map_where p f ms) = g ` set ms"
proof -
  have "map g (map_where p f ms) = map g ms" using assms by (simp add: map_where_def)
  then show ?thesis by (metis list.set_map)
qed

lemma keep_messages:
  assumes "\<And>m. ms_requestId (f m) = ms_requestId m"
  shows "io_rel (keeps q) (update_message i f)"
  by (rule keep_rows) (simp add: update_message_def image_map_where [of ms_requestId, OF assms])

lemma keep_send:
  assumes "outside_providers channels" "ng_requestId d \<noteq> nq_id q"
  shows "io_rel (keeps q) (render_and_send c channels d model i)"
proof -
  have 1: "p \<in> snd ` set channels" if "resolve_channel ch channels = Inr p" for ch p
    using that by (auto simp: resolve_channel_def requireEntry_def split: option.splits dest!: map_of_SomeD) force
  have 2: "io_rel (keeps q) (handed j ch r)" for j ch r
    by (rule keep_rows) (simp add: handed_def)
  have 3: "io_rel (keeps q) (notif_markSent now j t p pid v)" "io_rel (keeps q) (notif_markFailed now j msg)" for now j t p pid v msg
    unfolding notif_markSent_def notif_markFailed_def by (rule keep_messages, simp add: sent_message_def)+
  have 5: "io_rel (keeps q) (cp_send p r)" if "p \<in> snd ` set channels" for p r
    using assms(1) that by (intro keep_same) blast
  have 6: "io_rel (keeps q) (io_step (\<lambda>db. let (claimed, ms) = notif_claim now i (nd_messages db) in (claimed, db\<lparr>nd_messages := ms\<rparr>)))" for now
    by (rule keep_rows) (simp add: io_step_def split_beta notif_claim_def Let_def update_many_def image_map_where claimed_message_def)
  have "io_rel (keeps q) (send_claimed c channels d model m)" for m
    unfolding send_claimed_def Let_def
    by (intro keep_rules keeping.rel_then_on [where P = "\<lambda>p. p \<in> snd ` set channels"] 2 3 5 keep_requests assms(2)) (auto intro: 1)
  then show ?thesis unfolding render_and_send_def send_failed_def
    by (intro keep_rules 3 6 keep_requests assms(2))
qed

lemma keep_for: "(\<And>x. x \<in> set xs \<Longrightarrow> io_rel (keeps q) (f x)) \<Longrightarrow> io_rel (keeps q) (io_for f xs)"
  by (rule keeping.rel_for)

lemma keep_process:
  assumes "outside_providers channels" "outside_entries reg" "ng_requestId d \<noteq> nq_id q"
  shows "io_rel (keeps q) (process_notifications c channels reg d)"
proof -
  have "io_rel (keeps q) (nh_resolveModel (ne_handler e) p x)" if "e \<in> snd ` set reg" for e p x
    using assms(2) that by (intro keep_same) blast
  then show ?thesis unfolding process_notifications_def finalise_request_def writeRequestCompletedEvent_def
    by (intro keep_rules keep_for keeping.rel_then_on [where P = "\<lambda>e. e \<in> snd ` set reg"] keep_send [OF assms(1,3)] keep_requests assms(3)
      keep_same [OF aside_notifs(2)]) (simp_all add: entry_in)
qed

lemma keep_queue: "ng_requestId d \<noteq> nq_id q \<Longrightarrow> io_rel (keeps q) (io_write (\<lambda>db. db\<lparr>nd_queue := nd_queue db @ [d]\<rparr>))"
  by (auto simp: io_rel_def keeps_def abandoned_def)

lemma keep_dispatch:
  assumes "ng_requestId d \<noteq> nq_id q"
  shows "io_rel (keeps q) (notif_dispatchChunks c d)"
proof -
  have "io_rel (keeps q) (dispatch_parts c d parts)" for parts
    using assms by (induction parts) (simp_all only: dispatch_parts.simps, intro keep_rules, intro keep_rules keep_queue, simp_all)
  then show ?thesis by (simp add: notif_dispatchChunks_def)
qed

lemma keep_fan_out:
  assumes "outside_providers channels" "outside_entries reg" "e \<in> snd ` set reg" "nq_id q' \<noteq> nq_id q"
  shows "io_rel (keeps q) (fan_out c channels reg n e pr q')"
proof -
  have attached: "io_rel (keeps q) (send_attached c channels reg n mode qm)" if "nq_id (fst qm) \<noteq> nq_id q" for mode qm
    using that unfolding send_attached_def Let_def
    by (cases qm, simp) (intro conjI impI keep_rules keep_requests keep_process [OF assms(1,2)] keep_dispatch;
      simp add: dispatch_of_request_def)
  have handler: "io_rel (keeps q) (nh_resolveModel (ne_handler e) p x)" "io_rel (keeps q) (nh_resolveRecipients (ne_handler e) p x)" for p x
    using assms(2,3) by (intro keep_same; blast)+
  show ?thesis unfolding fan_out_def Let_def
    by (intro keep_rules handler keep_requests keeping.rel_then_on [where P = "\<lambda>qm. nq_id (fst qm) \<noteq> nq_id q"] keep_attach assms(4) attached)
      (use assms(4) in \<open>auto dest: attach_result\<close>)
qed

text \<open>Right after the lookup has failed, a created request is another one than any that is there.\<close>

lemma create_other:
  assumes "findByDedupKey (nn_tenantId n) (nn_dedupKey n) (nd_requests db) = None" "createRequest c n p pr db = (Inr q', db1)"
  shows "nd_requests db1 = nd_requests db @ [q']" "\<forall>q \<in> set (nd_requests db). nq_id q \<noteq> nq_id q'"
    "nd_messages db1 = nd_messages db" "nd_queue db1 = nd_queue db" "nd_handed db1 = nd_handed db"
  using assms by (auto simp: createRequest_def transactional_def tx_then_def tx_lift_def draw_uuid_def insert_row_def Let_def
      split: sum.splits if_splits)

lemma find_append: "find_first p xs = Some x \<Longrightarrow> find_first p (xs @ ys) = Some x"
  unfolding find_first_def by (induction xs) (auto split: if_splits)

lemma abandoned_in: "abandoned q db \<Longrightarrow> q \<in> set (nd_requests db)"
  by (auto simp: abandoned_def findByDedupKey_def find_first_def find_Some_iff)

lemma keep_send_notification:
  assumes "outside_providers channels" "outside_entries reg"
  shows "io_rel (keeps q) (send_notification c channels reg n)"
  unfolding io_rel_def keeps_def
proof (intro allI impI)
  fix db :: "'a notif_db_scheme" assume ab: "abandoned q db"
  show "abandoned q (snd (send_notification c channels reg n db))"
  proof (cases "findByDedupKey (nn_tenantId n) (nn_dedupKey n) (nd_requests db)")
    case (Some q1)
    with ab show ?thesis by (simp add: send_notification_def)
  next
    case None
    show ?thesis
    proof (cases "notif_entry_of (nn_notificationType n) reg")
      case (Inl er)
      with ab None show ?thesis by (simp add: send_notification_def)
    next
      case (Inr e)
      let ?pr = "coalesce (nn_priority n) (ne_priority e)"
      obtain res db1 where cr: "createRequest c n (capPayload c (nn_payload n)) ?pr db = (res, db1)"
        by (cases "createRequest c n (capPayload c (nn_payload n)) ?pr db")
      show ?thesis
      proof (cases res)
        case (Inl er)
        with cr have "db1 = db" by (auto simp: createRequest_def transactional_def split: sum.splits prod.splits)
        with cr Inl None \<open>notif_entry_of _ _ = _\<close> ab show ?thesis by (simp add: send_notification_def Let_def io_then_def)
      next
        case Inr': (Inr q')
        with cr have cr': "createRequest c n (capPayload c (nn_payload n)) ?pr db = (Inr q', db1)" by simp
        note facts = create_other [OF None cr']
        have "abandoned q db1" using ab unfolding abandoned_def findByDedupKey_def facts by (simp add: find_append)
        moreover have "nq_id q' \<noteq> nq_id q" using facts(2) abandoned_in [OF ab] by auto
        ultimately have "abandoned q (snd (fan_out c channels reg n e ?pr q' db1))"
          using io_relD [OF keep_fan_out [OF assms entry_in [OF Inr]]] by (auto simp: keeps_def)
        with cr' None Inr show ?thesis by (simp add: send_notification_def Let_def io_then_def)
      qed
    qed
  qed
qed

section \<open>What the system does to an abandoned request\<close>

lemma keep_receipt: "io_rel (keeps q) (apply_delivery_event c (channels :: 'a notif_db_scheme channel_provider registry) ch v sg)"
proof -
  have supp: "io_rel (keeps q) (suppress c t a k r s :: (unit, 'a notif_db_scheme) io)" for t a k r s
  proof -
    have "io_rel (keeps q) (io_write (\<lambda>db. db\<lparr>nd_suppressions := f db\<rparr>))" for f :: "'a notif_db_scheme \<Rightarrow> _"
      by (rule keep_rows) simp
    then show ?thesis unfolding suppress_def by (intro keep_rules keep_same [OF aside_notifs(1)])
  qed
  have "io_rel (keeps q) (io_step (\<lambda>db. let (updated, ms) = applyDeliveryStatus now pid st re at1 (nd_messages db)
      in (updated, db\<lparr>nd_messages := ms\<rparr>)))" for now pid st re at1
    by (rule keep_rows) (simp add: io_step_def split_beta applyDeliveryStatus_def update_many_def image_map_where received_def)
  from this [unfolded split_beta Let_def] have "io_rel (keeps q) (apply_one c ev :: (unit, 'a notif_db_scheme) io)" for ev
    unfolding apply_one_def split_beta Let_def by (intro keep_rules supp)
  then show ?thesis unfolding apply_delivery_event_def by (intro keep_rules keep_for)
qed

lemma keep_reconcile: "io_rel (keeps q) (reconcile_notifications c running :: (unit, 'a notif_db_scheme) io)"
proof -
  have "io_rel (keeps q) (redispatch c r :: (unit, 'a notif_db_scheme) io)" if "nq_id r \<noteq> nq_id q" for r
    unfolding redispatch_def by (intro keep_rules keep_dispatch) (simp add: that)
  then have run: "io_rel (keeps q) (io_for (redispatch c) rs :: (unit, 'a notif_db_scheme) io)" if "\<forall>r \<in> set rs. nq_id r \<noteq> nq_id q" for rs
    using that by (intro keep_for) blast
  have read: "io_rel (keeps q) (io_then (io_read (\<lambda>db. findResumableRequests (nd_messages db) (nd_requests db))) (io_for (redispatch c)) :: (unit, 'a notif_db_scheme) io)"
    unfolding io_rel_def keeps_def
  proof (intro allI impI)
    fix db :: "'a notif_db_scheme" assume ab: "abandoned q db"
    have "\<forall>r \<in> set (findResumableRequests (nd_messages db) (nd_requests db)). nq_id r \<noteq> nq_id q"
      using ab by (auto simp: findResumableRequests_def abandoned_def dest!: in_set_takeD)
    from io_relD [OF run [OF this], of db] ab
    show "abandoned q (snd (io_then (io_read (\<lambda>db. findResumableRequests (nd_messages db) (nd_requests db))) (io_for (redispatch c)) db))"
      by (simp add: keeps_def)
  qed
  have reset: "io_rel (keeps q) (io_write (\<lambda>db :: 'a notif_db_scheme. db\<lparr>nd_messages := snd (resetStuckRendering now t (nd_messages db))\<rparr>))" for now t
    by (rule keep_rows) (simp add: resetStuckRendering_def update_many_def image_map_where)
  show ?thesis unfolding reconcile_notifications_def
    by (rule keeping.rel_if, rule keeping.rel_return, rule keeping.rel_then [OF reset read])
qed

lemma system_keeps: "notif_system db db' \<Longrightarrow> abandoned q db \<Longrightarrow> abandoned q db'"
proof (induction rule: notif_system.induct)
  case (Sys_send channels reg db c n)
  then show ?case using io_relD [OF keep_send_notification [OF Sys_send(1,2)], of q db] by (simp add: keeps_def)
next
  case (Sys_work channels reg d db c)
  then have "ng_requestId d \<noteq> nq_id q" by (simp add: abandoned_def)
  then show ?case using io_relD [OF keep_process [OF Sys_work(1,2)], of d q db] Sys_work by (simp add: keeps_def)
next
  case (Sys_event channels reg db c name msg)
  have "io_rel (keeps q) (notification_event c channels reg name msg)"
    unfolding notification_event_def
    by (intro keep_rules keep_for keep_same [OF aside_notifs(1)] keep_send_notification [OF Sys_event(1,2)])
  from io_relD [OF this, of db] Sys_event(3) show ?case by (simp add: keeps_def)
next
  case (Sys_receipt db c channels ch v sg)
  then show ?case using io_relD [OF keep_receipt, of q db] by (simp add: keeps_def)
next
  case (Sys_reconcile db c running)
  then show ?case using io_relD [OF keep_reconcile, of q db] by (simp add: keeps_def)
qed

text \<open>
  A notification whose fan-out fails once is never sent. When the handler throws while it looks for
  the recipients, the request row with its dedup key is already committed. From then on, whatever the
  system does and even if the handler has recovered, a retry with the same key finds the row and returns
  it as if it were accepted; no message for it is ever created, and no reconciliation looks at it.
\<close>
theorem failed_fan_out_is_never_sent:
  assumes "findByDedupKey (nn_tenantId n) (nn_dedupKey n) (nd_requests db) = None"
    and "notif_entry_of (nn_notificationType n) reg = Inr e" "\<And>x db'. nh_resolveRecipients (ne_handler e) (nn_payload n) x db' = (Inl er, db')"
    and "json_input (no_host c) (capPayload c (nn_payload n)) = Inr body"
    and "i = e_uuid (no_env c) (pf_drawn db)" "\<forall>r \<in> set (nd_requests db). nq_id r \<noteq> i"
    and "\<forall>m \<in> set (nd_messages db). ms_requestId m \<noteq> i" "\<forall>d \<in> set (nd_queue db). ng_requestId d \<noteq> i"
  shows "\<exists>db1. send_notification c channels reg n db = (Inl er, db1) \<and>
    (\<forall>db2. notif_system\<^sup>*\<^sup>* db1 db2 \<longrightarrow> (\<forall>m \<in> set (nd_messages db2). ms_requestId m \<noteq> i) \<and>
       (\<forall>c' channels' reg' n'. nn_tenantId n' = nn_tenantId n \<and> nn_dedupKey n' = nn_dedupKey n \<longrightarrow>
          (\<exists>q. nq_id q = i \<and> nq_status q = NR_PENDING \<and> send_notification c' channels' reg' n' db2 = (Inr q, db2))))"
proof -
  let ?pr = "coalesce (nn_priority n) (ne_priority e)" and ?p = "capPayload c (nn_payload n)"
  obtain q db1 where cr: "createRequest c n ?p ?pr db = (Inr q, db1)"
    and q: "nq_id q = i" "nq_status q = NR_PENDING" "nq_tenantId q = nn_tenantId n" "nq_dedupKey q = nn_dedupKey n"
    using assms(1,4-6) by (fastforce simp: createRequest_def transactional_def tx_then_def tx_lift_def draw_uuid_def Let_def
      findByDedupKey_def find_first_def find_None_iff)
  have "send_notification c channels reg n db = (Inl er, db1)"
    using assms(1-3) cr by (simp add: send_notification_def Let_def io_then_def fan_out_def)
  moreover have start: "abandoned q db1"
    using create_other [OF assms(1) cr] assms(1,7,8) q
    by (auto simp: abandoned_def findByDedupKey_def find_first_def find_None_iff find_Some_iff nth_append)
  moreover have "abandoned q db2" if "notif_system\<^sup>*\<^sup>* db1 db2" for db2
    using that start by (induction rule: rtranclp_induct) (auto intro: system_keeps)
  ultimately show ?thesis using q
    by (intro exI [of _ db1] conjI allI impI) (auto simp: abandoned_def send_notification_def)
qed

end
