(* ===== verification/Notification_Channels.thy ===== *)
theory Notification_Channels
  imports Notification_UseCases
begin

text \<open>
  The built-in channel providers: e-mail over SES, text messages and push over SNS. The AWS clients,
  HMAC-SHA256 and \<open>JSON.parse\<close> are parameters; a client that is not configured is absent.
\<close>

section \<open>Signatures\<close>

definition verifyWebhookSignature :: "(string \<Rightarrow> string \<Rightarrow> string) \<Rightarrow> host \<Rightarrow> string \<Rightarrow> sval \<Rightarrow> string option \<Rightarrow> bool" where
  "verifyWebhookSignature hmac h secret payload signature \<longleftrightarrow>
     truthy signature \<and> hmac secret (stringify h payload) = the signature"

text \<open>\<open>if (secret && !verify(...)) throw\<close>\<close>

definition signed_by :: "(string \<Rightarrow> string \<Rightarrow> string) \<Rightarrow> host \<Rightarrow> string option \<Rightarrow> string \<Rightarrow> sval \<Rightarrow> string option \<Rightarrow> unit result" where
  "signed_by hmac h secret provider payload signature =
     (if truthy secret \<and> \<not> verifyWebhookSignature hmac h (the secret) payload signature
      then throw_plain (''Webhook signature verification failed for provider '' @ provider) else Inr ())"

definition js_string :: "sval \<Rightarrow> string option" where
  "js_string v = (case v of VStr s \<Rightarrow> Some s | _ \<Rightarrow> None)"

definition js_object :: "host \<Rightarrow> sval \<Rightarrow> bool" where
  "js_object h v \<longleftrightarrow> (case v of VObj fs \<Rightarrow> True | VArr xs \<Rightarrow> True | VHost n \<Rightarrow> h_stored h n \<noteq> None | _ \<Rightarrow> False)"

text \<open>\<open>v?.k\<close>\<close>

definition optional_property :: "host \<Rightarrow> sval \<Rightarrow> string \<Rightarrow> sval" where
  "optional_property h v k = (if is_nullish v then VUndef else get_property h v k)"

section \<open>E-mail\<close>

definition unwrapSnsEnvelope :: "(string \<Rightarrow> sval result) \<Rightarrow> host \<Rightarrow> sval \<Rightarrow> sval" where
  "unwrapSnsEnvelope parse h payload =
     (case (if js_object h payload then js_string (get_property h payload ''Message'') else None) of
        Some text1 \<Rightarrow> (case parse text1 of Inl _ \<Rightarrow> VNull | Inr v \<Rightarrow> v)
      | None \<Rightarrow> payload)"

definition parseSesEvent :: "(string \<Rightarrow> sval result) \<Rightarrow> host \<Rightarrow> int \<Rightarrow> sval \<Rightarrow> delivery_event list" where
  "parseSesEvent parse h now payload =
     (let ev = unwrapSnsEnvelope parse h payload in
      if \<not> js_object h ev then []
      else case js_string (optional_property h (get_property h ev ''mail'') ''messageId'') of
        None \<Rightarrow> []
      | Some i \<Rightarrow>
          if i = [] then []
          else let kind = get_property h ev ''notificationType'' in
            if kind = VStr ''Delivery''
            then [\<lparr>de_providerMessageId = i, de_status = DS_DELIVERED, de_reason = None, de_at = now\<rparr>]
            else if kind = VStr ''Bounce''
            then [\<lparr>de_providerMessageId = i, de_status = DS_BOUNCED, de_reason = Some (coalesce (js_string
              (optional_property h (get_property h ev ''bounce'') ''bounceType'')) ''Bounce''), de_at = now\<rparr>]
            else if kind = VStr ''Complaint''
            then [\<lparr>de_providerMessageId = i, de_status = DS_COMPLAINT, de_reason = Some ''Complaint'', de_at = now\<rparr>]
            else [])"

text \<open>What the clients and the configuration give a provider.\<close>

record 'd channel_setup =
  cs_env :: env
  cs_host :: host
  cs_hmac :: "string \<Rightarrow> string \<Rightarrow> string"
  cs_parse :: "string \<Rightarrow> sval result"
  cs_webhookSecret :: "string option"
  cs_sendEmail :: "(string \<Rightarrow> string \<Rightarrow> string \<Rightarrow> string \<Rightarrow> (string option, 'd) io) option"
  cs_fromAddress :: "string option"
  cs_publish :: "(string \<Rightarrow> string \<Rightarrow> string \<Rightarrow> (string option, 'd) io) option"
  cs_topic :: "string option"

definition receipt_for ::
  "'a platform_db_scheme channel_setup \<Rightarrow> string option \<Rightarrow> (send_receipt, 'a platform_db_scheme) io" where
  "receipt_for cs messageId =
     io_then (case messageId of Some i \<Rightarrow> io_return i | None \<Rightarrow> transactional (draw_uuid (cs_env cs))) (\<lambda>i.
     io_return \<lparr>sr_providerMessageId = i, sr_acceptedAt = e_now (cs_env cs)\<rparr>)"

definition disabled_receipt :: "'a platform_db_scheme channel_setup \<Rightarrow> (send_receipt, 'a platform_db_scheme) io" where
  "disabled_receipt cs = io_then (transactional (draw_uuid (cs_env cs))) (\<lambda>i.
     io_return \<lparr>sr_providerMessageId = ''disabled-'' @ i, sr_acceptedAt = e_now (cs_env cs)\<rparr>)"

definition ses_send :: "'a platform_db_scheme channel_setup \<Rightarrow> rendered_message \<Rightarrow> (send_receipt, 'a platform_db_scheme) io" where
  "ses_send cs r = (case cs_sendEmail cs of
       Some client \<Rightarrow> if truthy (cs_fromAddress cs)
         then io_then (client (the (cs_fromAddress cs)) (rm_address r) (coalesce (rm_subject r) []) (rm_body r)) (receipt_for cs)
         else disabled_receipt cs
     | None \<Rightarrow> disabled_receipt cs)"

definition ses_channel :: "'a platform_db_scheme channel_setup \<Rightarrow> 'a platform_db_scheme channel_provider" where
  "ses_channel cs = \<lparr>cp_send = ses_send cs,
     cp_parseDeliveryReceipt = (\<lambda>payload signature. and_then (signed_by (cs_hmac cs) (cs_host cs) (cs_webhookSecret cs) ''ses'' payload signature)
       (\<lambda>_. Inr (parseSesEvent (cs_parse cs) (cs_host cs) (e_now (cs_env cs)) payload))),
     cp_capabilities = \<lparr>ca_channel = ''EMAIL'', ca_providerName = ''ses'', ca_supportsSubject = True, ca_maxBodyBytes = 10 * 1024 * 1024,
       ca_ratePerSecond = 14\<rparr>\<rparr>"

section \<open>Text messages and push\<close>

definition delivery_statuses :: "(string \<times> delivery_status) list" where
  "delivery_statuses = [(''DELIVERED'', DS_DELIVERED), (''BOUNCED'', DS_BOUNCED), (''FAILED'', DS_FAILED), (''COMPLAINT'', DS_COMPLAINT),
     (''UNSUBSCRIBED'', DS_UNSUBSCRIBED)]"

definition parseNormalisedDeliveryEvent :: "host \<Rightarrow> int \<Rightarrow> sval \<Rightarrow> delivery_event list" where
  "parseNormalisedDeliveryEvent h now payload =
     (if \<not> js_object h payload then []
      else case (js_string (get_property h payload ''providerMessageId''), js_string (get_property h payload ''status'')) of
        (Some i, Some s) \<Rightarrow> (case map_of delivery_statuses s of
            None \<Rightarrow> []
          | Some st \<Rightarrow> [\<lparr>de_providerMessageId = i, de_status = st, de_reason = js_string (get_property h payload ''reason''), de_at = now\<rparr>])
      | _ \<Rightarrow> [])"

definition sns_send :: "string \<Rightarrow> 'a platform_db_scheme channel_setup \<Rightarrow> rendered_message \<Rightarrow> (send_receipt, 'a platform_db_scheme) io" where
  "sns_send channel cs r = (case cs_publish cs of
       Some client \<Rightarrow> if truthy (cs_topic cs)
         then io_then (client (the (cs_topic cs)) channel (stringify (cs_host cs) (VObj [(''channel'', VStr channel),
             (''address'', VStr (rm_address r)), (''body'', VStr (rm_body r)),
             (''metadata'', (if is_nullish (rm_metadata r) then VObj [] else rm_metadata r))]))) (receipt_for cs)
         else disabled_receipt cs
     | None \<Rightarrow> disabled_receipt cs)"

definition sns_channel :: "string \<Rightarrow> channel_capabilities \<Rightarrow> 'a platform_db_scheme channel_setup \<Rightarrow> 'a platform_db_scheme channel_provider" where
  "sns_channel channel caps cs = \<lparr>cp_send = sns_send channel cs,
     cp_parseDeliveryReceipt = (\<lambda>payload signature. and_then (signed_by (cs_hmac cs) (cs_host cs) (cs_webhookSecret cs) ''sns'' payload signature)
       (\<lambda>_. Inr (parseNormalisedDeliveryEvent (cs_host cs) (e_now (cs_env cs)) payload))),
     cp_capabilities = caps\<rparr>"

definition sms_channel :: "'a platform_db_scheme channel_setup \<Rightarrow> 'a platform_db_scheme channel_provider" where
  "sms_channel = sns_channel ''SMS'' \<lparr>ca_channel = ''SMS'', ca_providerName = ''sns'', ca_supportsSubject = False,
     ca_maxBodyBytes = 1600, ca_ratePerSecond = 1\<rparr>"

definition push_channel :: "'a platform_db_scheme channel_setup \<Rightarrow> 'a platform_db_scheme channel_provider" where
  "push_channel = sns_channel ''PUSH'' \<lparr>ca_channel = ''PUSH'', ca_providerName = ''sns'', ca_supportsSubject = False,
     ca_maxBodyBytes = 4096, ca_ratePerSecond = 500\<rparr>"

definition built_in_channels ::
  "'a platform_db_scheme channel_setup \<Rightarrow> 'a platform_db_scheme channel_setup \<Rightarrow> 'a platform_db_scheme channel_provider registry result" where
  "built_in_channels ses sns =
     and_then (register_channel ''EMAIL'' (ses_channel ses) []) (\<lambda>r1.
     and_then (register_channel ''SMS'' (sms_channel sns) r1) (\<lambda>r2. register_channel ''PUSH'' (push_channel sns) r2))"

end
