(* ===== verification/Notification_Examples.thy ===== *)
theory Notification_Examples
  imports Notification_Lost Notification_Channels Scheduler_Examples
begin

text \<open>
  The template renderer against its templates as lists of parts, two behaviours of receipts and of a
  refusing queue, and runs on concrete tables.
\<close>

section \<open>The renderer\<close>

datatype template_part = Literal string | Slot string

fun part_text :: "template_part \<Rightarrow> string" where
  "part_text (Literal t) = t"
| "part_text (Slot path) = ''{{'' @ path @ ''}}''"

fun part_ok :: "template_part \<Rightarrow> bool" where
  "part_ok (Literal t) \<longleftrightarrow> CHR ''{'' \<notin> set t"
| "part_ok (Slot path) \<longleftrightarrow> path \<noteq> [] \<and> list_all path_char path"

fun part_value :: "notif_call \<Rightarrow> sval \<Rightarrow> template_part \<Rightarrow> string" where
  "part_value c model (Literal t) = t"
| "part_value c model (Slot path) = formatValue c (resolvePath (no_host c) model path)"

lemma path_char_no_space: "path_char ch \<Longrightarrow> \<not> is_space ch"
  by (auto simp: path_char_def is_space_def is_digit_def)

lemma interpolate_literal: "CHR ''{'' \<notin> set t \<Longrightarrow> interpolate c model (t @ rest) = t @ interpolate c model rest"
proof (induction t)
  case (Cons ch t)
  then have "take 2 (ch # t @ rest) \<noteq> ''{{''" by auto
  then have "interpolate c model (ch # t @ rest) = ch # interpolate c model (t @ rest)"
    by (subst interpolate.simps) (simp only: if_False option.case list.case)
  with Cons show ?case by simp
qed simp

lemma template_slot_path:
  assumes "path \<noteq> []" "list_all path_char path"
  shows "template_slot (path @ ''}}'' @ rest) = Some (path, rest)"
proof -
  have all: "\<forall>ch \<in> set path. path_char ch" using assms(2) by (simp add: list_all_iff)
  have brace: "\<not> path_char (CHR ''}'')" "\<not> is_space (CHR ''}'')" by (simp_all add: path_char_def is_space_def is_digit_def)
  obtain ch path' where path: "path = ch # path'" using assms(1) by (cases path) auto
  with all have "\<not> is_space ch" by (simp add: path_char_no_space)
  then have "dropWhile is_space (path @ ''}}'' @ rest) = path @ ''}}'' @ rest" using path by simp
  moreover have "takeWhile path_char (path @ ''}}'' @ rest) = path" "dropWhile path_char (path @ ''}}'' @ rest) = ''}}'' @ rest"
    using all brace by (simp_all add: takeWhile_append2 dropWhile_append2)
  ultimately show ?thesis using assms(1) brace by (simp add: template_slot_def Let_def span_def)
qed

lemma interpolate_slot:
  assumes "path \<noteq> []" "list_all path_char path"
  shows "interpolate c model (''{{'' @ path @ ''}}'' @ rest) = formatValue c (resolvePath (no_host c) model path) @ interpolate c model rest"
  using template_slot_path [OF assms, of rest] by (subst interpolate.simps) simp

text \<open>
  C33. The renderer computes the meaning of a template. A template is a list of literal parts without an
  opening brace and of slots; the one-pass replacement of its text gives the literal parts and, for each
  slot, the formatted value that its path has in the model, in order.
\<close>
theorem renderer_agrees_with_parts:
  assumes "list_all part_ok parts"
  shows "interpolate c model (concat (map part_text parts)) = concat (map (part_value c model) parts)"
  using assms
proof (induction parts)
  case Nil
  show ?case by (subst interpolate.simps) simp
next
  case (Cons p parts)
  then show ?case by (cases p) (simp_all add: interpolate_literal interpolate_slot [simplified])
qed

section \<open>Late complaints and a refusing queue\<close>

text \<open>A complaint about a message that was delivered changes nothing: the address is not suppressed.\<close>

lemma complaint_after_delivery_is_dropped:
  assumes "\<forall>m \<in> set (nd_messages db). ms_providerMessageId m = Some (de_providerMessageId ev) \<longrightarrow> ms_status m = MS_DELIVERED"
    and "de_status ev \<in> {DS_COMPLAINT, DS_UNSUBSCRIBED, DS_BOUNCED}"
  shows "apply_one c ev db = (Inr (), db)"
proof (cases "findByProviderMessageId (de_providerMessageId ev) (nd_messages db)")
  case (Some m)
  have "\<not> receipt_hit (de_providerMessageId ev) st q" if "q \<in> set (nd_messages db)" "st \<in> {MS_BOUNCED}" for q st
    using assms(1) that by (auto simp: receipt_hit_def)
  then have "applyDeliveryStatus now (de_providerMessageId ev) MS_BOUNCED re at1 (nd_messages db) = (None, nd_messages db)" for now re at1
    by (simp add: applyDeliveryStatus_def find_first_def find_None_iff update_many_miss)
  moreover have "fst (mapDeliveryEvent (de_status ev) ch) = MS_BOUNCED" for ch
    using assms(2) by (auto simp: mapDeliveryEvent_def)
  ultimately show ?thesis using Some by (simp add: apply_one_def split_beta Let_def io_then_def io_step_def)
qed (simp add: apply_one_def)

text \<open>
  A request whose chunks the queue refuses is finalised as COMPLETED, since nothing has failed yet, and
  is not resumed although its messages are pending.
\<close>

lemma refused_request_is_completed:
  assumes "pending_of ms \<noteq> []" "nf_chunkSize (no_config c) > 0" "\<And>d. no_queue c d = Inl er"
    and "findRequest (nq_id q) (nd_requests db) = Some q" "nq_failedMessages q = 0" "distinct (map nq_id (nd_requests db))"
  shows "\<exists>db1. send_attached c channels reg n NM_ASYNC (q, ms) db = (Inl er, db1) \<and> nd_messages db1 = nd_messages db \<and>
    (\<exists>q1 \<in> set (nd_requests db1). nq_id q1 = nq_id q \<and> nq_status q1 = NR_COMPLETED) \<and>
    nq_id q \<notin> nq_id ` set (findResumableRequests (nd_messages db1) (nd_requests db1))"
proof -
  let ?f = "\<lambda>q. q\<lparr>nq_status := derived_status q, nq_completedAt := Some (no_now c)\<rparr>"
  let ?db1 = "db\<lparr>nd_requests := map_where (\<lambda>r. nq_id r = nq_id q) ?f (nd_requests db)\<rparr>"
  let ?d = "dispatch_of_request n q (pending_of ms)"
  have refused: "notif_dispatchChunks c ?d db = (Inl er, db)"
    using assms(1-3) by (simp add: notif_dispatchChunks_def split_chunks.simps [of "pending_of ms"] dispatch_of_request_def)
  have "notif_finalise (no_now c) (nq_id q) db = (Inr (?f q), ?db1)"
    using assms(4) by (simp add: notif_finalise_def update_request_def)
  with refused have run: "send_attached c channels reg n NM_ASYNC (q, ms) db = (Inl er, ?db1)"
    using assms(1) by (simp add: send_attached_def Let_def io_then_def io_catch_def)
  have q: "q \<in> set (nd_requests db)" using assms(4) by (auto simp: findRequest_def find_first_def find_Some_iff)
  then have only: "r = q" if "r \<in> set (nd_requests db)" "nq_id r = nq_id q" for r
    using assms(6) that by (auto simp: distinct_map dest: inj_onD)
  have ended: "nq_status r' = NR_COMPLETED" if "r' \<in> set (nd_requests ?db1)" "nq_id r' = nq_id q" for r'
  proof -
    from that obtain r where "r \<in> set (nd_requests db)" "nq_id r = nq_id q" "r' = ?f r" by (auto simp: set_map_where)
    moreover from this(1,2) have "r = q" by (rule only)
    ultimately show ?thesis using assms(5) by (simp add: derived_status_def)
  qed
  have "?f q \<in> set (nd_requests ?db1)" using q by (auto simp: set_map_where)
  moreover have "nq_id q \<notin> nq_id ` set (findResumableRequests (nd_messages ?db1) (nd_requests ?db1))"
    using ended by (force simp: findResumableRequests_def dest: in_set_takeD)
  ultimately show ?thesis using run assms(5)
    by (intro exI [of _ ?db1] conjI bexI [of _ "?f q"]) (simp_all add: derived_status_def)
qed

section \<open>Concrete runs\<close>

definition demo_notif_call :: "int \<Rightarrow> notif_call" where
  "demo_notif_call now = \<lparr>no_env = demo_env now,
     no_config = \<lparr>nf_maxRecipientsPerRequest = 10, nf_syncMessageThreshold = 5, nf_chunkSize = 2, nf_renderingStuckWindowMs = 600,
       nf_sentNoReceiptWindowMs = 900, nf_payloadMaxBytes = 100, nf_renderedSnapshotMaxBytes = 100\<rparr>,
     no_host = \<lparr>h_inherited = (\<lambda>v k. VUndef), h_number = (\<lambda>v. NaN), h_stored = (\<lambda>n. None), h_same = (\<lambda>v w. False)\<rparr>,
     no_date = (\<lambda>_. None), no_queue = (\<lambda>_. Inr ())\<rparr>"

definition demo_notify :: notify_input where
  "demo_notify = \<lparr>nn_notificationType = ''OrderApproved'', nn_dedupKey = ''k1'', nn_payload = VObj [], nn_sourceEvent = None,
     nn_priority = None, nn_tenantId = Some ''T'', nn_requestedBy = None, nn_traceId = None\<rparr>"

definition demo_suppressed :: notif_message where
  "demo_suppressed = \<lparr>ms_id = ''m1'', ms_tenantId = Some ''T'', ms_requestId = ''q1'', ms_recipientRef = ''u1'', ms_channel = ''EMAIL'',
     ms_address = Some ''a@b'', ms_locale = None, ms_templateId = None, ms_status = MS_SUPPRESSED, ms_suppressReason = Some SR_PREFERENCE,
     ms_provider = None, ms_providerMessageId = None, ms_renderedSnapshot = VNull, ms_errorMessage = None, ms_attemptCount = 0,
     ms_sentAt = None, ms_deliveredAt = None, ms_createdAt = 0, ms_updatedAt = 0\<rparr>"

definition demo_notif_db :: "notif_message list \<Rightarrow> notif_db" where
  "demo_notif_db ms = \<lparr>pf_outbox = [], pf_audit = [], pf_sequences = [], pf_drawn = 0, nd_requests = [], nd_messages = ms,
     nd_templates = [], nd_preferences = [], nd_suppressions = [], nd_queue = [], nd_handed = []\<rparr>"

text \<open>A handler that cannot find its recipients.\<close>

definition demo_down :: "notif_db notif_entry" where
  "demo_down = \<lparr>ne_channels = [''EMAIL''], ne_priority = PR_NORMAL, ne_eventName = None,
     ne_handler = \<lparr>nh_resolveRecipients = (\<lambda>p x. io_lift (throw_plain ''directory unavailable'')), nh_resolveModel = (\<lambda>p x. io_return (VObj []))\<rparr>\<rparr>"

lemma demo_notif_simps [simp]:
  "nd_requests (demo_notif_db ms) = []" "nd_messages (demo_notif_db ms) = ms" "nd_queue (demo_notif_db ms) = []"
  "nd_handed (demo_notif_db ms) = []" "ms_id demo_suppressed = ''m1''" "ms_status demo_suppressed = MS_SUPPRESSED"
  "ms_attemptCount demo_suppressed = 0" "nn_tenantId demo_notify = Some ''T''" "nn_dedupKey demo_notify = ''k1''"
  "nn_notificationType demo_notify = ''OrderApproved''" "nn_payload demo_notify = VObj []"
  by (simp_all add: demo_notif_db_def demo_suppressed_def demo_notify_def)

lemma demo_messages_ok: "messages_ok [demo_suppressed]"
  by (simp add: messages_ok_def)

theorem suppressed_message_is_never_handed_witness:
  "\<exists>m' \<in> set (nd_messages ((demo_notif_db [demo_suppressed])\<lparr>nd_messages := snd (notif_claim 9 ''m1'' [demo_suppressed])\<rparr>)).
     ms_id m' = ''m1'' \<and> ms_status m' = MS_SUPPRESSED"
proof -
  have "notif_move\<^sup>*\<^sup>* (demo_notif_db [demo_suppressed]) ((demo_notif_db [demo_suppressed])\<lparr>nd_messages := snd (notif_claim 9 ''m1'' [demo_suppressed])\<rparr>)"
    using Notif_claim [of "demo_notif_db [demo_suppressed]" 9 "''m1''"] by (intro r_into_rtranclp) simp
  from suppressed_message_is_never_handed [OF this, of demo_suppressed] demo_messages_ok show ?thesis by fastforce
qed

theorem notification_programs_are_moves_witness:
  "notif_move\<^sup>*\<^sup>* (demo_notif_db [demo_suppressed])
     (snd (send_notification (demo_notif_call 9) [] [(''OrderApproved'', demo_down)] demo_notify (demo_notif_db [demo_suppressed])))"
proof -
  have "outside_entries [(''OrderApproved'', demo_down)]" by (simp add: demo_down_def io_rel_def same_notifs_def)
  from notification_programs_are_moves [OF _ this, of "[]" "demo_notif_db [demo_suppressed]"] demo_messages_ok show ?thesis by simp
qed

theorem failed_fan_out_is_never_sent_witness:
  "\<exists>db1. send_notification (demo_notif_call 9) [] [(''OrderApproved'', demo_down)] demo_notify (demo_notif_db []) =
       (throw_plain ''directory unavailable'', db1) \<and>
     (\<exists>q. nq_status q = NR_PENDING \<and> send_notification (demo_notif_call 12) [] [] demo_notify db1 = (Inr q, db1))"
proof -
  have prems: "findByDedupKey (nn_tenantId demo_notify) (nn_dedupKey demo_notify) (nd_requests (demo_notif_db [])) = None"
    "notif_entry_of (nn_notificationType demo_notify) [(''OrderApproved'', demo_down)] = Inr demo_down"
    "\<And>x db'. nh_resolveRecipients (ne_handler demo_down) (nn_payload demo_notify) x db' = (throw_plain ''directory unavailable'', db')"
    "json_input (no_host (demo_notif_call 9)) (capPayload (demo_notif_call 9) (nn_payload demo_notify)) = Inr (VObj [])"
    by (simp_all add: findByDedupKey_def find_first_def notif_entry_of_def requireEntry_def demo_down_def demo_notif_call_def json_input_def
        capPayload_def notif_capSnapshot_def stringify_def is_nullish_def comma_separated_def)
  have rest: "\<forall>r \<in> set (nd_requests (demo_notif_db [])). nq_id r \<noteq> e_uuid (no_env (demo_notif_call 9)) (pf_drawn (demo_notif_db []))"
    "\<forall>m \<in> set (nd_messages (demo_notif_db [])). ms_requestId m \<noteq> e_uuid (no_env (demo_notif_call 9)) (pf_drawn (demo_notif_db []))"
    "\<forall>d \<in> set (nd_queue (demo_notif_db [])). ng_requestId d \<noteq> e_uuid (no_env (demo_notif_call 9)) (pf_drawn (demo_notif_db []))"
    by simp_all
  obtain db1 where first: "send_notification (demo_notif_call 9) [] [(''OrderApproved'', demo_down)] demo_notify (demo_notif_db []) =
      (throw_plain ''directory unavailable'', db1)"
    and later: "\<forall>db2. notif_system\<^sup>*\<^sup>* db1 db2 \<longrightarrow>
      (\<forall>c' channels' reg' n'. nn_tenantId n' = nn_tenantId demo_notify \<and> nn_dedupKey n' = nn_dedupKey demo_notify \<longrightarrow>
        (\<exists>q. nq_status q = NR_PENDING \<and> send_notification c' channels' reg' n' db2 = (Inr q, db2)))"
    using failed_fan_out_is_never_sent [OF prems refl rest, of "[]"] by blast
  then show ?thesis by blast
qed

theorem renderer_agrees_with_parts_witness:
  "interpolate (demo_notif_call 9) (VObj [(''no'', VStr ''PO-7'')]) ''Order {{no}} approved{{by}}.'' = ''Order PO-7 approved.''"
  using renderer_agrees_with_parts [of "[Literal ''Order '', Slot ''no'', Literal '' approved'', Slot ''by'', Literal ''.'']"
      "demo_notif_call 9" "VObj [(''no'', VStr ''PO-7'')]"]
  by (simp add: path_char_def is_digit_def formatValue_def resolvePath_def path_step_def get_property_def demo_notif_call_def)

end
