(* ===== verification/Webhook.thy ===== *)
theory Webhook
  imports Notification_UseCases Idempotency
begin

text \<open>
  Webhooks (\<open>platform/platform-common/webhook\<close>): subscriptions, the deliveries of events to them, the
  statements of both repositories, the registries and the signature. A delivery is one row per
  subscription and event; what is posted to subscribers and asked of the queue is written to a log.
\<close>

section \<open>Data\<close>

datatype subscription_status = SB_ACTIVE | SB_PAUSED | SB_DISABLED
datatype webhook_status = WH_PENDING | WH_DELIVERING | WH_DELIVERED | WH_DEAD_LETTER

record webhook_subscription =
  ws_id :: string
  ws_tenantId :: "string option"
  ws_url :: string
  ws_secret :: string
  ws_eventTypes :: "string list"
  ws_status :: subscription_status
  ws_description :: "string option"
  ws_consecutiveFailures :: nat
  ws_lastSuccessAt :: "int option"
  ws_lastFailureAt :: "int option"
  ws_createdAt :: int
  ws_updatedAt :: int

record new_subscription =
  wn_tenantId :: "string option"
  wn_url :: string
  wn_secret :: string
  wn_eventTypes :: "string list"
  wn_description :: "string option"

text \<open>A field that is \<open>None\<close> is \<open>undefined\<close> and left as it is; a description can be set to null.\<close>

record subscription_patch =
  wp_url :: "string option"
  wp_secret :: "string option"
  wp_eventTypes :: "string list option"
  wp_status :: "subscription_status option"
  wp_description :: "string option option"

record webhook_delivery =
  wl_id :: string
  wl_tenantId :: "string option"
  wl_subscriptionId :: string
  wl_eventId :: string
  wl_eventType :: string
  wl_payload :: sval
  wl_status :: webhook_status
  wl_attemptCount :: nat
  wl_nextAttemptAt :: int
  wl_claimedAt :: "int option"
  wl_lastResponseCode :: "int option"
  wl_lastError :: "string option"
  wl_deliveredAt :: "int option"
  wl_createdAt :: int
  wl_updatedAt :: int

record new_delivery =
  we_tenantId :: "string option"
  we_subscriptionId :: string
  we_eventId :: string
  we_eventType :: string
  we_payload :: sval

record webhook_config =
  wc_deliveryTimeoutMs :: int
  wc_backoffBaseMs :: int
  wc_circuitBreakerThreshold :: nat
  wc_reconciliationWindowMs :: int

record webhook_post =
  wt_deliveryId :: string
  wt_url :: string
  wt_payload :: sval
  wt_headers :: "(string \<times> string) list"

record webhook_db = platform_db +
  wb_subscriptions :: "webhook_subscription list"
  wb_deliveries :: "webhook_delivery list"
  wb_queue :: "string list"
  wb_posted :: "webhook_post list"

text \<open>
  What a call sees: environment, configuration, \<open>fetch\<close> (url, headers, body, timeout) with the status of
  the response or a network error, the HMAC, and the answers of the queue.
\<close>

record webhook_call =
  wk_env :: env
  wk_config :: webhook_config
  wk_host :: host
  wk_fetch :: "string \<Rightarrow> (string \<times> string) list \<Rightarrow> string \<Rightarrow> int \<Rightarrow> nat result"
  wk_hmac :: "string \<Rightarrow> string \<Rightarrow> string"
  wk_queue :: "string \<Rightarrow> unit result"

abbreviation wk_now :: "webhook_call \<Rightarrow> int" where "wk_now c \<equiv> e_now (wk_env c)"

section \<open>Subscriptions\<close>

definition create_subscription :: "webhook_call \<Rightarrow> new_subscription \<Rightarrow> (webhook_subscription, 'a webhook_db_scheme) io" where
  "create_subscription c n = transactional (tx_then (draw_uuid (wk_env c)) (\<lambda>i db.
     if \<exists>s \<in> set (wb_subscriptions db). ws_id s = i then throw_plain ''Unique constraint failed''
     else let s = \<lparr>ws_id = i, ws_tenantId = wn_tenantId n, ws_url = wn_url n, ws_secret = wn_secret n,
            ws_eventTypes = wn_eventTypes n, ws_status = SB_ACTIVE, ws_description = wn_description n,
            ws_consecutiveFailures = 0, ws_lastSuccessAt = None, ws_lastFailureAt = None,
            ws_createdAt = wk_now c, ws_updatedAt = wk_now c\<rparr>
          in Inr (s, db\<lparr>wb_subscriptions := insert_row s (wb_subscriptions db)\<rparr>)))"

definition findSubscription :: "string \<Rightarrow> webhook_subscription list \<Rightarrow> webhook_subscription option" where
  "findSubscription i rows = find_first (\<lambda>s. ws_id s = i) rows"

definition findActiveByEventType :: "string \<Rightarrow> webhook_subscription list \<Rightarrow> webhook_subscription list" where
  "findActiveByEventType eventType rows = filter (\<lambda>s. ws_status s = SB_ACTIVE \<and> eventType \<in> set (ws_eventTypes s)) rows"

definition list_subscriptions ::
  "string option \<Rightarrow> subscription_status option \<Rightarrow> nat \<Rightarrow> nat \<Rightarrow> webhook_subscription list \<Rightarrow> webhook_subscription list \<times> nat" where
  "list_subscriptions tenantId status page pageSize rows =
     (let hits = filter (\<lambda>s. (truthy tenantId \<longrightarrow> ws_tenantId s = tenantId) \<and>
            (case status of None \<Rightarrow> True | Some st \<Rightarrow> ws_status s = st)) rows
      in (take pageSize (drop ((page - 1) * pageSize) (sort_key (\<lambda>s. - ws_createdAt s) hits)), length hits))"

definition patched_subscription :: "int \<Rightarrow> subscription_patch \<Rightarrow> webhook_subscription \<Rightarrow> webhook_subscription" where
  "patched_subscription now p s = s\<lparr>ws_url := coalesce (wp_url p) (ws_url s), ws_secret := coalesce (wp_secret p) (ws_secret s),
     ws_eventTypes := coalesce (wp_eventTypes p) (ws_eventTypes s), ws_status := coalesce (wp_status p) (ws_status s),
     ws_description := coalesce (wp_description p) (ws_description s), ws_updatedAt := now\<rparr>"

definition update_subscription ::
  "webhook_call \<Rightarrow> string \<Rightarrow> subscription_patch \<Rightarrow> (webhook_subscription, 'a webhook_db_scheme) io" where
  "update_subscription c i p =
     io_then (io_step (\<lambda>db. let (n, rows) = update_many (\<lambda>s. ws_id s = i) (patched_subscription (wk_now c) p) (wb_subscriptions db)
       in (n, db\<lparr>wb_subscriptions := rows\<rparr>))) (\<lambda>n.
     if n = 0 then io_lift (throw_plain (''WebhookSubscription '' @ i @ '' not found''))
     else io_then (io_read (\<lambda>db. findSubscription i (wb_subscriptions db))) (\<lambda>row.
       case row of None \<Rightarrow> io_lift (throw_plain ''No WebhookSubscription found'') | Some s \<Rightarrow> io_return s))"

text \<open>The deliveries of a subscription go with it (\<open>onDelete: Cascade\<close>).\<close>

definition delete_subscription :: "string \<Rightarrow> (unit, 'a webhook_db_scheme) io" where
  "delete_subscription i = io_write (\<lambda>db. db\<lparr>wb_subscriptions := filter (\<lambda>s. ws_id s \<noteq> i) (wb_subscriptions db),
     wb_deliveries := filter (\<lambda>d. wl_subscriptionId d \<noteq> i) (wb_deliveries db)\<rparr>)"

definition outcome_recorded :: "int \<Rightarrow> bool \<Rightarrow> webhook_subscription \<Rightarrow> webhook_subscription" where
  "outcome_recorded now success s = (if success
     then s\<lparr>ws_consecutiveFailures := 0, ws_lastSuccessAt := Some now, ws_updatedAt := now\<rparr>
     else s\<lparr>ws_consecutiveFailures := ws_consecutiveFailures s + 1, ws_lastFailureAt := Some now, ws_updatedAt := now\<rparr>)"

definition recordDeliveryOutcome ::
  "webhook_call \<Rightarrow> string \<Rightarrow> bool \<Rightarrow> (webhook_subscription, 'a webhook_db_scheme) io" where
  "recordDeliveryOutcome c i success db = (case findSubscription i (wb_subscriptions db) of
       None \<Rightarrow> (throw_plain ''No record was found for an update'', db)
     | Some s \<Rightarrow> (Inr (outcome_recorded (wk_now c) success s),
         db\<lparr>wb_subscriptions := map_where (\<lambda>r. ws_id r = i) (outcome_recorded (wk_now c) success) (wb_subscriptions db)\<rparr>))"

section \<open>Deliveries\<close>

text \<open>A required JSON column takes neither a value without JSON text nor null.\<close>

definition json_required :: "host \<Rightarrow> sval \<Rightarrow> sval result" where
  "json_required h v = (case stored h v of
       None \<Rightarrow> throw_plain ''undefined is not valid JSON''
     | Some VNull \<Rightarrow> throw_plain ''Argument payload must not be null''
     | Some w \<Rightarrow> Inr w)"

definition fresh_delivery :: "webhook_call \<Rightarrow> string \<Rightarrow> sval \<Rightarrow> new_delivery \<Rightarrow> webhook_delivery" where
  "fresh_delivery c i body n = \<lparr>wl_id = i, wl_tenantId = we_tenantId n, wl_subscriptionId = we_subscriptionId n,
     wl_eventId = we_eventId n, wl_eventType = we_eventType n, wl_payload = body, wl_status = WH_PENDING,
     wl_attemptCount = 0, wl_nextAttemptAt = wk_now c, wl_claimedAt = None, wl_lastResponseCode = None,
     wl_lastError = None, wl_deliveredAt = None, wl_createdAt = wk_now c, wl_updatedAt = wk_now c\<rparr>"

text \<open>One row; \<open>None\<close> when a unique index refuses it. The subscription must still be there.\<close>

definition create_delivery :: "webhook_call \<Rightarrow> new_delivery \<Rightarrow> (webhook_delivery option, 'a webhook_db_scheme) io" where
  "create_delivery c n = transactional (
     tx_then (tx_lift (json_required (wk_host c) (we_payload n))) (\<lambda>body.
     tx_then (draw_uuid (wk_env c)) (\<lambda>i db.
     if \<exists>d \<in> set (wb_deliveries db). wl_id d = i \<or> (wl_subscriptionId d = we_subscriptionId n \<and> wl_eventId d = we_eventId n)
     then Inr (None, db)
     else if findSubscription (we_subscriptionId n) (wb_subscriptions db) = None
     then throw_plain ''Foreign key constraint violated''
     else Inr (Some (fresh_delivery c i body n), db\<lparr>wb_deliveries := insert_row (fresh_delivery c i body n) (wb_deliveries db)\<rparr>))))"

fun create_deliveries :: "webhook_call \<Rightarrow> new_delivery list \<Rightarrow> (webhook_delivery list, 'a webhook_db_scheme) io" where
  "create_deliveries c [] = io_return []"
| "create_deliveries c (n # ns) =
     io_then (create_delivery c n) (\<lambda>row.
     io_then (create_deliveries c ns) (\<lambda>rows.
     io_return (case row of None \<Rightarrow> rows | Some d \<Rightarrow> d # rows)))"

definition findDelivery :: "string \<Rightarrow> webhook_delivery list \<Rightarrow> webhook_delivery option" where
  "findDelivery i rows = find_first (\<lambda>d. wl_id d = i) rows"

definition list_deliveries ::
  "string option \<Rightarrow> webhook_status option \<Rightarrow> nat \<Rightarrow> nat \<Rightarrow> webhook_delivery list \<Rightarrow> webhook_delivery list \<times> nat" where
  "list_deliveries subscriptionId status page pageSize rows =
     (let hits = filter (\<lambda>d. (truthy subscriptionId \<longrightarrow> Some (wl_subscriptionId d) = subscriptionId) \<and>
            (case status of None \<Rightarrow> True | Some st \<Rightarrow> wl_status d = st)) rows
      in (take pageSize (drop ((page - 1) * pageSize) (sort_key (\<lambda>d. - wl_createdAt d) hits)), length hits))"

text \<open>\<open>updateMany\<close> on the deliveries, with the number of rows.\<close>

definition update_deliveries ::
  "(webhook_delivery \<Rightarrow> bool) \<Rightarrow> (webhook_delivery \<Rightarrow> webhook_delivery) \<Rightarrow> (nat, 'a webhook_db_scheme) io" where
  "update_deliveries p f = io_step (\<lambda>db. let (n, rows) = update_many p f (wb_deliveries db) in (n, db\<lparr>wb_deliveries := rows\<rparr>))"

definition claimed_delivery :: "int \<Rightarrow> webhook_delivery \<Rightarrow> webhook_delivery" where
  "claimed_delivery now d = d\<lparr>wl_status := WH_DELIVERING, wl_claimedAt := Some now, wl_updatedAt := now\<rparr>"

definition claim_delivery :: "webhook_call \<Rightarrow> string \<Rightarrow> (webhook_delivery option, 'a webhook_db_scheme) io" where
  "claim_delivery c i =
     io_then (update_deliveries (\<lambda>d. wl_id d = i \<and> wl_status d = WH_PENDING) (claimed_delivery (wk_now c))) (\<lambda>n.
     if n = 0 then io_return None else io_read (\<lambda>db. findDelivery i (wb_deliveries db)))"

definition delivered :: "int \<Rightarrow> int \<Rightarrow> webhook_delivery \<Rightarrow> webhook_delivery" where
  "delivered now code d = d\<lparr>wl_status := WH_DELIVERED, wl_deliveredAt := Some now, wl_lastResponseCode := Some code,
     wl_lastError := None, wl_updatedAt := now\<rparr>"

definition markDelivered :: "webhook_call \<Rightarrow> string \<Rightarrow> int \<Rightarrow> (nat, 'a webhook_db_scheme) io" where
  "markDelivered c i code = update_deliveries (\<lambda>d. wl_id d = i \<and> wl_status d = WH_DELIVERING) (delivered (wk_now c) code)"

text \<open>\<open>new Date(t)\<close> is invalid beyond 8.64e15 milliseconds, and the client refuses an invalid date;
  the column of the response code is a 32-bit integer.\<close>

definition valid_date :: "int \<Rightarrow> bool" where
  "valid_date t \<longleftrightarrow> \<bar>t\<bar> \<le> 8640000000000000"

definition response_code :: "nat option \<Rightarrow> int option result" where
  "response_code code = (case code of None \<Rightarrow> Inr None | Some n \<Rightarrow> and_then (db_int (N (int n))) (\<lambda>i. Inr (Some i)))"

definition retried :: "int \<Rightarrow> int \<Rightarrow> int option \<Rightarrow> string \<Rightarrow> webhook_delivery \<Rightarrow> webhook_delivery" where
  "retried now nextAttemptAt code msg d = d\<lparr>wl_status := WH_PENDING, wl_attemptCount := wl_attemptCount d + 1,
     wl_nextAttemptAt := nextAttemptAt, wl_claimedAt := None, wl_lastResponseCode := code, wl_lastError := Some msg,
     wl_updatedAt := now\<rparr>"

definition markFailedForRetry ::
  "webhook_call \<Rightarrow> string \<Rightarrow> int \<Rightarrow> nat option \<Rightarrow> string \<Rightarrow> (nat, 'a webhook_db_scheme) io" where
  "markFailedForRetry c i nextAttemptAt code msg =
     (if \<not> valid_date nextAttemptAt then io_lift (throw_plain ''Provided Date object is invalid'')
      else io_then (io_lift (response_code code)) (\<lambda>k.
        update_deliveries (\<lambda>d. wl_id d = i \<and> wl_status d = WH_DELIVERING) (retried (wk_now c) nextAttemptAt k msg)))"

definition dead_lettered :: "int \<Rightarrow> int option \<Rightarrow> string \<Rightarrow> webhook_delivery \<Rightarrow> webhook_delivery" where
  "dead_lettered now code msg d = d\<lparr>wl_status := WH_DEAD_LETTER, wl_lastResponseCode := code, wl_lastError := Some msg, wl_updatedAt := now\<rparr>"

definition markDeadLettered :: "webhook_call \<Rightarrow> string \<Rightarrow> int option \<Rightarrow> string \<Rightarrow> (nat, 'a webhook_db_scheme) io" where
  "markDeadLettered c i code msg =
     update_deliveries (\<lambda>d. wl_id d = i \<and> wl_status d \<in> {WH_PENDING, WH_DELIVERING}) (dead_lettered (wk_now c) code msg)"

text \<open>The sweep of stuck rows is two statements: the rows are selected first and then updated by id.\<close>

definition stuck_deliveries :: "int \<Rightarrow> int \<Rightarrow> webhook_delivery list \<Rightarrow> string list" where
  "stuck_deliveries now windowMs rows = map wl_id (filter (\<lambda>d. wl_status d = WH_DELIVERING \<and>
     (case wl_claimedAt d of None \<Rightarrow> False | Some t \<Rightarrow> t < now - windowMs)) rows)"

definition released_delivery :: "int \<Rightarrow> webhook_delivery \<Rightarrow> webhook_delivery" where
  "released_delivery now d = d\<lparr>wl_status := WH_PENDING, wl_claimedAt := None, wl_updatedAt := now\<rparr>"

definition release_deliveries :: "webhook_call \<Rightarrow> string list \<Rightarrow> (nat, 'a webhook_db_scheme) io" where
  "release_deliveries c ids = update_deliveries (\<lambda>d. wl_id d \<in> set ids) (released_delivery (wk_now c))"

definition resetStuck :: "webhook_call \<Rightarrow> int \<Rightarrow> (string list, 'a webhook_db_scheme) io" where
  "resetStuck c windowMs =
     io_then (io_read (\<lambda>db. stuck_deliveries (wk_now c) windowMs (wb_deliveries db))) (\<lambda>ids.
     if ids = [] then io_return [] else io_then (release_deliveries c ids) (\<lambda>_. io_return ids))"

definition findStalePending :: "int \<Rightarrow> int \<Rightarrow> webhook_delivery list \<Rightarrow> string list" where
  "findStalePending now windowMs rows = map wl_id (filter (\<lambda>d. wl_status d = WH_PENDING \<and> wl_claimedAt d = None \<and>
     wl_createdAt d < now - windowMs) rows)"

definition reopened_delivery :: "int \<Rightarrow> webhook_delivery \<Rightarrow> webhook_delivery" where
  "reopened_delivery now d = d\<lparr>wl_status := WH_PENDING, wl_nextAttemptAt := now, wl_claimedAt := None, wl_updatedAt := now\<rparr>"

definition resetForRedelivery :: "webhook_call \<Rightarrow> string \<Rightarrow> (webhook_delivery, 'a webhook_db_scheme) io" where
  "resetForRedelivery c i =
     io_then (update_deliveries (\<lambda>d. wl_id d = i \<and> wl_status d = WH_DEAD_LETTER) (reopened_delivery (wk_now c))) (\<lambda>n.
     if n = 0 then io_lift (throw_plain (''WebhookDelivery '' @ i @ '' not found''))
     else io_then (io_read (\<lambda>db. findDelivery i (wb_deliveries db))) (\<lambda>row.
       case row of None \<Rightarrow> io_lift (throw_plain ''No WebhookDelivery found'') | Some d \<Rightarrow> io_return d))"

section \<open>Registries, signature and transport\<close>

definition register_event_type :: "string \<Rightarrow> unit registry \<Rightarrow> unit registry result" where
  "register_event_type eventType reg = registerEntry eventType ()
     (Exn None (''eventType '' @ eventType @ '' already registered in WebhookEventTypeRegistry'')) reg"

text \<open>An inbound source: the check of its signature and the handler, a program over the idempotency tables.\<close>

record 'd inbound_source =
  wi_verify :: "sval \<Rightarrow> string option \<Rightarrow> bool"
  wi_handle :: "sval \<Rightarrow> string \<Rightarrow> int \<Rightarrow> (unit, 'd) io"

definition register_source :: "string \<Rightarrow> 'd inbound_source \<Rightarrow> 'd inbound_source registry \<Rightarrow> 'd inbound_source registry result" where
  "register_source source entry reg = registerEntry source entry
     (Exn None (''WebhookInboundHandler for source '' @ source @ '' already registered'')) reg"

definition resolve_source :: "string \<Rightarrow> 'd inbound_source registry \<Rightarrow> 'd inbound_source result" where
  "resolve_source source reg = requireEntry source (Exn None (''No WebhookInboundHandler registered for source '' @ source)) reg"

definition webhook_registry :: "unit registry \<Rightarrow> 'd inbound_source registry \<Rightarrow> string list \<times> string list" where
  "webhook_registry types sources = (registeredKeys types, registeredKeys sources)"

definition signWebhookPayload :: "(string \<Rightarrow> string \<Rightarrow> string) \<Rightarrow> host \<Rightarrow> string \<Rightarrow> sval \<Rightarrow> string" where
  "signWebhookPayload hmac h secret payload = hmac secret (stringify h payload)"

definition verify_webhook :: "(string \<Rightarrow> string \<Rightarrow> string) \<Rightarrow> host \<Rightarrow> string \<Rightarrow> sval \<Rightarrow> string option \<Rightarrow> bool" where
  "verify_webhook hmac h secret rawBody signature \<longleftrightarrow>
     truthy signature \<and> signWebhookPayload hmac h secret rawBody = the signature"

definition http_post :: "webhook_call \<Rightarrow> string \<Rightarrow> sval \<Rightarrow> (string \<times> string) list \<Rightarrow> int \<Rightarrow> nat result" where
  "http_post c url body headers timeoutMs =
     wk_fetch c url ((''content-type'', ''application/json'') # headers) (stringify (wk_host c) body) timeoutMs"

definition enqueueDelivery :: "webhook_call \<Rightarrow> string \<Rightarrow> (unit, 'a webhook_db_scheme) io" where
  "enqueueDelivery c i =
     io_then (io_lift (wk_queue c i)) (\<lambda>_. io_write (\<lambda>db. db\<lparr>wb_queue := wb_queue db @ [i]\<rparr>))"

end
