(* ===== verification/Webhook_UseCases.thy ===== *)
theory Webhook_UseCases
  imports Webhook
begin

text \<open>
  The use cases of \<open>platform/platform-common/webhook\<close>: administration of subscriptions, the dispatch of an
  event, one attempt of a delivery, exhaustion, redelivery, the reconciliation and the worker, and
  the receipt of inbound webhooks under an idempotency key.
\<close>

section \<open>Administration\<close>

definition check_event_types :: "unit registry \<Rightarrow> string list \<Rightarrow> unit result" where
  "check_event_types reg eventTypes = for_each (\<lambda>_ t. if has_entry t reg then Inr ()
     else throw_plain (''eventType '' @ t @ '' is not registered in WEBHOOK_EVENT_TYPES'')) () eventTypes"

definition create_webhook_subscription ::
  "webhook_call \<Rightarrow> unit registry \<Rightarrow> new_subscription \<Rightarrow> (webhook_subscription, 'a webhook_db_scheme) io" where
  "create_webhook_subscription c reg n =
     io_then (io_lift (check_event_types reg (wn_eventTypes n))) (\<lambda>_.
     create_subscription c (n\<lparr>wn_tenantId := coalesce_opt (wn_tenantId n) (ctx_tenantId (e_ctx (wk_env c)))\<rparr>))"

definition visible_subscription ::
  "string \<Rightarrow> string option \<Rightarrow> (webhook_subscription, 'a webhook_db_scheme) io" where
  "visible_subscription i tenantId =
     io_then (io_read (\<lambda>db. findSubscription i (wb_subscriptions db))) (\<lambda>existing.
     case existing of
       None \<Rightarrow> io_lift (not_found (''WebhookSubscription '' @ i @ '' not found''))
     | Some s \<Rightarrow> io_then (io_lift (assertVisible (ws_tenantId s) tenantId)) (\<lambda>_. io_return s))"

definition update_webhook_subscription ::
  "webhook_call \<Rightarrow> unit registry \<Rightarrow> string \<Rightarrow> subscription_patch \<Rightarrow> string option \<Rightarrow>
   (webhook_subscription, 'a webhook_db_scheme) io" where
  "update_webhook_subscription c reg i p tenantId =
     io_then (visible_subscription i tenantId) (\<lambda>_.
     io_then (io_lift (check_event_types reg (coalesce (wp_eventTypes p) []))) (\<lambda>_.
     update_subscription c i p))"

definition delete_webhook_subscription :: "string \<Rightarrow> string option \<Rightarrow> (unit, 'a webhook_db_scheme) io" where
  "delete_webhook_subscription i tenantId = io_then (visible_subscription i tenantId) (\<lambda>_. delete_subscription i)"

section \<open>Dispatching an event\<close>

definition delivery_for :: "string \<Rightarrow> string \<Rightarrow> sval \<Rightarrow> webhook_subscription \<Rightarrow> new_delivery" where
  "delivery_for eventType eventId payload s = \<lparr>we_tenantId = ws_tenantId s, we_subscriptionId = ws_id s,
     we_eventId = eventId, we_eventType = eventType, we_payload = payload\<rparr>"

definition dispatch_webhook_event ::
  "webhook_call \<Rightarrow> string \<Rightarrow> string \<Rightarrow> sval \<Rightarrow> (unit, 'a webhook_db_scheme) io" where
  "dispatch_webhook_event c eventType eventId payload =
     io_then (io_read (\<lambda>db. findActiveByEventType eventType (wb_subscriptions db))) (\<lambda>matches.
     if matches = [] then io_return ()
     else io_then (create_deliveries c (map (delivery_for eventType eventId payload) matches)) (\<lambda>created.
       io_for (\<lambda>d. io_catch (enqueueDelivery c (wl_id d)) (\<lambda>_. io_return ())) created))"

text \<open>The listener: only event types of the registry go on; the tenant of the envelope is not read.\<close>

definition webhook_event ::
  "webhook_call \<Rightarrow> unit registry \<Rightarrow> string \<Rightarrow> event_envelope option \<Rightarrow> (unit, 'a webhook_db_scheme) io" where
  "webhook_event c reg eventName m =
     (if \<not> has_entry eventName reg then io_return ()
      else io_then (case Option.bind m ee_eventId of Some i \<Rightarrow> io_return i | None \<Rightarrow> transactional (draw_uuid (wk_env c))) (\<lambda>eventId.
        io_then (io_lift (case m of None \<Rightarrow> Inr (VObj []) | Some ee \<Rightarrow>
          (case stored (wk_host c) (ee_payload ee) of None \<Rightarrow> throw_plain ''undefined is not valid JSON'' | Some w \<Rightarrow> Inr w))) (\<lambda>payload.
        io_catch (dispatch_webhook_event c eventName eventId payload) (\<lambda>_. io_return ()))))"

section \<open>One attempt\<close>

text \<open>\<open>/status (\d+)/\<close>: the first occurrence that is followed by a digit.\<close>

definition status_digits :: "string \<Rightarrow> nat" where
  "status_digits ds = foldl (\<lambda>v d. 10 * v + ((of_char d :: nat) - 48)) 0 ds"

fun extractStatusCode :: "string \<Rightarrow> nat option" where
  "extractStatusCode [] = None"
| "extractStatusCode (ch # s) =
     (if take 7 (ch # s) = ''status '' \<and> takeWhile is_digit (drop 7 (ch # s)) \<noteq> []
      then Some (status_digits (takeWhile is_digit (drop 7 (ch # s)))) else extractStatusCode s)"

definition posted :: "webhook_post \<Rightarrow> (unit, 'a webhook_db_scheme) io" where
  "posted p = io_write (\<lambda>db. db\<lparr>wb_posted := wb_posted db @ [p]\<rparr>)"

definition post_of :: "webhook_call \<Rightarrow> webhook_subscription \<Rightarrow> webhook_delivery \<Rightarrow> webhook_post" where
  "post_of c s d = \<lparr>wt_deliveryId = wl_id d, wt_url = ws_url s, wt_payload = wl_payload d,
     wt_headers = [(''x-webhook-signature'', signWebhookPayload (wk_hmac c) (wk_host c) (ws_secret s) (wl_payload d)),
       (''x-webhook-event-type'', wl_eventType d), (''x-webhook-delivery-id'', wl_id d)]\<rparr>"

text \<open>The block of the \<open>try\<close>.\<close>

definition attempt_delivery ::
  "webhook_call \<Rightarrow> webhook_subscription \<Rightarrow> webhook_delivery \<Rightarrow> (unit, 'a webhook_db_scheme) io" where
  "attempt_delivery c s d = (let p = post_of c s d in
     io_then (posted p) (\<lambda>_.
     io_then (io_lift (http_post c (wt_url p) (wt_payload p) (wt_headers p) (wc_deliveryTimeoutMs (wk_config c)))) (\<lambda>code.
     if 200 \<le> code \<and> code < 300
     then io_then (markDelivered c (wl_id d) (int code)) (\<lambda>_.
          io_then (recordDeliveryOutcome c (ws_id s) True) (\<lambda>_. io_return ()))
     else io_lift (throw_plain (''Subscriber responded with status '' @ nat_to_string code)))))"

definition auto_paused_event :: "webhook_subscription \<Rightarrow> nat \<Rightarrow> string \<times> (string \<times> json) list" where
  "auto_paused_event s failures = (''WebhookSubscriptionAutoPausedEvent'',
     [(''subscriptionId'', JStr (ws_id s)), (''tenantId'', json_opt (ws_tenantId s)),
      (''reason'', JStr (nat_to_string failures @ '' consecutive delivery failures''))])"

text \<open>The circuit breaker.\<close>

definition trip_breaker ::
  "webhook_call \<Rightarrow> webhook_subscription \<Rightarrow> webhook_subscription \<Rightarrow> (unit, 'a webhook_db_scheme) io" where
  "trip_breaker c s updated =
     (if ws_status updated = SB_ACTIVE \<and> ws_consecutiveFailures updated \<ge> wc_circuitBreakerThreshold (wk_config c)
      then io_then (update_subscription c (ws_id s) \<lparr>wp_url = None, wp_secret = None, wp_eventTypes = None,
             wp_status = Some SB_PAUSED, wp_description = None\<rparr>) (\<lambda>_.
           transactional (send_event (wk_env c) ''WebhookSubscription'' (ws_id s)
             (auto_paused_event s (ws_consecutiveFailures updated))))
      else io_return ())"

definition attempt_failed ::
  "webhook_call \<Rightarrow> webhook_subscription \<Rightarrow> webhook_delivery \<Rightarrow> exn \<Rightarrow> (unit, 'a webhook_db_scheme) io" where
  "attempt_failed c s d er =
     io_then (markFailedForRetry c (wl_id d) (wk_now c + wc_backoffBaseMs (wk_config c) * 2 ^ wl_attemptCount d)
       (extractStatusCode (message er)) (message er)) (\<lambda>_.
     io_then (recordDeliveryOutcome c (ws_id s) False) (\<lambda>updated.
     io_then (trip_breaker c s updated) (\<lambda>_. io_lift (Inl er))))"

definition deliver_webhook :: "webhook_call \<Rightarrow> string \<Rightarrow> (unit, 'a webhook_db_scheme) io" where
  "deliver_webhook c i =
     io_then (claim_delivery c i) (\<lambda>claimed.
     case claimed of
       None \<Rightarrow> io_return ()
     | Some d \<Rightarrow>
         io_then (io_read (\<lambda>db. findSubscription (wl_subscriptionId d) (wb_subscriptions db))) (\<lambda>subscription.
         case (case subscription of Some s \<Rightarrow> if ws_status s = SB_ACTIVE then Some s else None | None \<Rightarrow> None) of
           None \<Rightarrow> io_then (markDeadLettered c i None (''WebhookSubscription '' @ wl_subscriptionId d @ '' is not ACTIVE'')) (\<lambda>_. io_return ())
         | Some s \<Rightarrow> io_catch (attempt_delivery c s d) (attempt_failed c s d)))"

section \<open>Giving up, trying again, reconciling\<close>

definition exhausted_event :: "webhook_delivery \<Rightarrow> string \<times> (string \<times> json) list" where
  "exhausted_event d = (''WebhookDeliveryExhaustedEvent'',
     [(''deliveryId'', JStr (wl_id d)), (''subscriptionId'', JStr (wl_subscriptionId d)),
      (''eventType'', JStr (wl_eventType d)), (''tenantId'', json_opt (wl_tenantId d))])"

definition mark_exhausted :: "webhook_call \<Rightarrow> string \<Rightarrow> string \<Rightarrow> (unit, 'a webhook_db_scheme) io" where
  "mark_exhausted c i lastError =
     io_then (io_read (\<lambda>db. findDelivery i (wb_deliveries db))) (\<lambda>found.
     case found of
       None \<Rightarrow> io_return ()
     | Some d \<Rightarrow>
         if wl_status d \<in> {WH_DELIVERED, WH_DEAD_LETTER} then io_return ()
         else io_then (markDeadLettered c i (wl_lastResponseCode d) lastError) (\<lambda>_.
           transactional (send_event (wk_env c) ''WebhookDelivery'' (wl_id d) (exhausted_event d))))"

text \<open>The worker: a failed job is exhausted after its last attempt.\<close>

definition webhook_failed :: "webhook_call \<Rightarrow> string \<Rightarrow> nat \<Rightarrow> nat option \<Rightarrow> string \<Rightarrow> (unit, 'a webhook_db_scheme) io" where
  "webhook_failed c i attemptsMade maxAttempts msg =
     (if attemptsMade \<ge> coalesce maxAttempts 1 then mark_exhausted c i msg else io_return ())"

definition redeliver_webhook :: "webhook_call \<Rightarrow> string \<Rightarrow> (webhook_delivery, 'a webhook_db_scheme) io" where
  "redeliver_webhook c i =
     io_then (resetForRedelivery c i) (\<lambda>reset.
     io_then (enqueueDelivery c (wl_id reset)) (\<lambda>_. io_return reset))"

definition reconcile_webhooks :: "webhook_call \<Rightarrow> bool \<Rightarrow> (unit, 'a webhook_db_scheme) io" where
  "reconcile_webhooks c running =
     (if running then io_return ()
      else io_then (resetStuck c (wc_reconciliationWindowMs (wk_config c))) (\<lambda>resetIds.
        io_then (io_read (\<lambda>db. findStalePending (wk_now c) (wc_reconciliationWindowMs (wk_config c)) (wb_deliveries db))) (\<lambda>staleIds.
        io_for (enqueueDelivery c) (rev (remdups (rev (resetIds @ staleIds)))))))"

section \<open>Inbound webhooks\<close>

text \<open>\<open>hashBody\<close>: the SHA-256 of \<open>JSON.stringify(rawBody ?? null)\<close>, with the digest as an argument.\<close>

definition hashBody :: "(string \<Rightarrow> string) \<Rightarrow> host \<Rightarrow> sval \<Rightarrow> string" where
  "hashBody sha256 h rawBody = sha256 (stringify h (if is_nullish rawBody then VNull else rawBody))"

definition inbound_identity :: "string \<Rightarrow> string \<Rightarrow> idem_identity" where
  "inbound_identity source key = \<lparr>ii_tenant = [], ii_company = [], ii_scope = ''webhook.inbound.'' @ source, ii_key = key\<rparr>"

definition inbound_key :: "(string \<Rightarrow> string) \<Rightarrow> host \<Rightarrow> sval \<Rightarrow> string option \<Rightarrow> string" where
  "inbound_key sha256 h rawBody idempotencyKey = coalesce idempotencyKey (hashBody sha256 h rawBody)"

text \<open>A completion that throws is inside the \<open>try\<close>, so it gives the claim up like a failing handler.\<close>

definition handle_inbound ::
  "idem_call \<Rightarrow> 'a idem_db_scheme inbound_source \<Rightarrow> string \<Rightarrow> sval \<Rightarrow> idem_reservation \<Rightarrow> (unit, 'a idem_db_scheme) io" where
  "handle_inbound e s source rawBody v =
     io_catch (io_then (wi_handle s rawBody source (ic_now e)) (\<lambda>_.
         idem_complete e v (VObj [(''success'', VBool True)])))
       (\<lambda>er. io_then (idem_fail e v) (\<lambda>_. io_lift (Inl er)))"

definition receive_inbound_webhook ::
  "idem_call \<Rightarrow> (string \<Rightarrow> string) \<Rightarrow> 'a idem_db_scheme inbound_source registry \<Rightarrow> string \<Rightarrow> sval \<Rightarrow> string option \<Rightarrow>
   string option \<Rightarrow> (unit, 'a idem_db_scheme) io" where
  "receive_inbound_webhook e sha256 sources source rawBody signature idempotencyKey =
     io_then (io_lift (resolve_source source sources)) (\<lambda>s.
     if \<not> wi_verify s rawBody signature
     then io_lift (throw_plain (''Webhook signature verification failed for source '' @ source))
     else io_then (idem_reserve e \<lparr>iq_identity = inbound_identity source (inbound_key sha256 (ic_host e) rawBody idempotencyKey),
            iq_requestHash = None, iq_ttlMs = None\<rparr>) (\<lambda>result.
       case result of
         IDEM_ACQUIRED v \<Rightarrow> handle_inbound e s source rawBody v
       | _ \<Rightarrow> io_return ()))"

end
