(* ===== verification/Webhook_Properties.thy ===== *)
theory Webhook_Properties
  imports Webhook_UseCases
begin

text \<open>
  What the webhook service guarantees: its programs are sequences of the moves of a step relation, every
  subscription has one delivery per event, and a delivered delivery is final unless a sweep had
  selected it before.
\<close>

section \<open>Moves\<close>

definition hook_table :: "(webhook_status \<times> webhook_status) set" where
  "hook_table = {(WH_PENDING, WH_DELIVERING), (WH_DELIVERING, WH_DELIVERED), (WH_DELIVERING, WH_PENDING),
     (WH_PENDING, WH_DEAD_LETTER), (WH_DELIVERING, WH_DEAD_LETTER), (WH_DEAD_LETTER, WH_PENDING)}"

definition same_delivery :: "webhook_delivery \<Rightarrow> webhook_delivery \<Rightarrow> bool" where
  "same_delivery d d' \<longleftrightarrow> wl_id d' = wl_id d \<and> wl_subscriptionId d' = wl_subscriptionId d \<and> wl_eventId d' = wl_eventId d \<and>
     wl_eventType d' = wl_eventType d \<and> wl_payload d' = wl_payload d \<and> wl_tenantId d' = wl_tenantId d \<and>
     wl_attemptCount d \<le> wl_attemptCount d'"

text \<open>
  \<open>S\<close> are subscriptions that are not deleted, \<open>R\<close> deliveries that no sweep releases. A sweep may release
  whatever it selected before.
\<close>

inductive hook_move :: "string set \<Rightarrow> string set \<Rightarrow> 'a webhook_db_scheme \<Rightarrow> 'a webhook_db_scheme \<Rightarrow> bool"
  for S R where
  Hook_subscribe: "hook_move S R db (snd (create_subscription c n db))"
| Hook_subscription: "(\<And>s. ws_id (f s) = ws_id s) \<Longrightarrow>
    hook_move S R db (db\<lparr>wb_subscriptions := map_where p f (wb_subscriptions db)\<rparr>)"
| Hook_unsubscribe: "i \<notin> S \<Longrightarrow> hook_move S R db (snd (delete_subscription i db))"
| Hook_create: "hook_move S R db (snd (create_delivery c n db))"
| Hook_delivery: "(\<And>d. p d \<Longrightarrow> same_delivery d (f d) \<and> (wl_status d, wl_status (f d)) \<in> hook_table) \<Longrightarrow>
    hook_move S R db (db\<lparr>wb_deliveries := map_where p f (wb_deliveries db)\<rparr>)"
| Hook_release: "set ids \<inter> R = {} \<Longrightarrow> hook_move S R db (snd (release_deliveries c ids db))"
| Hook_post: "\<forall>d \<in> set (wb_deliveries db). wl_id d = wt_deliveryId p \<longrightarrow> wl_payload d = wt_payload p \<Longrightarrow>
    hook_move S R db (db\<lparr>wb_posted := wb_posted db @ [p]\<rparr>)"
| Hook_queue: "hook_move S R db (db\<lparr>wb_queue := wb_queue db @ [i]\<rparr>)"
| Hook_other: "wb_subscriptions db' = wb_subscriptions db \<Longrightarrow> wb_deliveries db' = wb_deliveries db \<Longrightarrow>
    wb_queue db' = wb_queue db \<Longrightarrow> wb_posted db' = wb_posted db \<Longrightarrow> hook_move S R db db'"

abbreviation hook_moves :: "'a webhook_db_scheme \<Rightarrow> 'a webhook_db_scheme \<Rightarrow> bool" where
  "hook_moves \<equiv> (hook_move {} {})\<^sup>*\<^sup>*"

section \<open>The tables\<close>

definition hooks_ok :: "'a webhook_db_scheme \<Rightarrow> bool" where
  "hooks_ok db \<longleftrightarrow> distinct (map wl_id (wb_deliveries db)) \<and>
     distinct (map (\<lambda>d. (wl_subscriptionId d, wl_eventId d)) (wb_deliveries db)) \<and>
     (\<forall>d \<in> set (wb_deliveries db). wl_subscriptionId d \<in> ws_id ` set (wb_subscriptions db))"

definition hooks_kept :: "string set \<Rightarrow> string set \<Rightarrow> 'a webhook_db_scheme \<Rightarrow> 'a webhook_db_scheme \<Rightarrow> bool" where
  "hooks_kept S R db db' \<longleftrightarrow> hooks_ok db' \<and> (\<forall>d \<in> set (wb_deliveries db). wl_subscriptionId d \<in> S \<longrightarrow>
     (\<exists>d' \<in> set (wb_deliveries db'). same_delivery d d' \<and> (wl_id d \<in> R \<and> wl_status d = WH_DELIVERED \<longrightarrow> d' = d)))"

lemma same_delivery_refl [simp]: "same_delivery d d"
  by (simp add: same_delivery_def)

lemma same_delivery_trans: "same_delivery d d' \<Longrightarrow> same_delivery d' d'' \<Longrightarrow> same_delivery d d''"
  by (auto simp: same_delivery_def)

lemma hooks_kept_refl: "hooks_ok db \<Longrightarrow> hooks_kept S R db db"
  by (auto simp: hooks_kept_def intro: same_delivery_refl)

lemma hooks_kept_trans:
  assumes "hooks_kept S R db db'" "hooks_kept S R db' db''"
  shows "hooks_kept S R db db''"
  unfolding hooks_kept_def
proof (intro conjI ballI impI)
  show "hooks_ok db''" using assms(2) by (simp add: hooks_kept_def)
  fix d assume d: "d \<in> set (wb_deliveries db)" "wl_subscriptionId d \<in> S"
  then obtain d' where d': "d' \<in> set (wb_deliveries db')" "same_delivery d d'" "wl_id d \<in> R \<and> wl_status d = WH_DELIVERED \<longrightarrow> d' = d"
    using assms(1) by (auto simp: hooks_kept_def)
  then have "wl_subscriptionId d' \<in> S" "wl_id d' = wl_id d" using d(2) by (simp_all add: same_delivery_def)
  then obtain d'' where "d'' \<in> set (wb_deliveries db'')" "same_delivery d' d''" "wl_id d' \<in> R \<and> wl_status d' = WH_DELIVERED \<longrightarrow> d'' = d'"
    using assms(2) d'(1) unfolding hooks_kept_def by blast
  with d' show "\<exists>d'' \<in> set (wb_deliveries db''). same_delivery d d'' \<and> (wl_id d \<in> R \<and> wl_status d = WH_DELIVERED \<longrightarrow> d'' = d)"
    by (metis same_delivery_trans)
qed

lemma hooks_kept_deliveries:
  assumes "hooks_ok db" "wb_subscriptions db' = wb_subscriptions db" "wb_deliveries db' = map_where p f (wb_deliveries db)"
    and "\<And>d. p d \<Longrightarrow> same_delivery d (f d) \<and> \<not> (wl_id d \<in> R \<and> wl_status d = WH_DELIVERED)"
  shows "hooks_kept S R db db'"
proof -
  have step: "same_delivery d (if p d then f d else d)" for d using assms(4) by simp
  have "map wl_id (wb_deliveries db') = map wl_id (wb_deliveries db)"
    and "map (\<lambda>d. (wl_subscriptionId d, wl_eventId d)) (wb_deliveries db') = map (\<lambda>d. (wl_subscriptionId d, wl_eventId d)) (wb_deliveries db)"
    unfolding assms(3) by (rule map_map_where, simp add: assms(4) [unfolded same_delivery_def])+
  moreover have "wl_subscriptionId d' \<in> ws_id ` set (wb_subscriptions db')" if "d' \<in> set (wb_deliveries db')" for d'
  proof -
    from that obtain d where "d \<in> set (wb_deliveries db)" "wl_subscriptionId d' = wl_subscriptionId d"
      using step unfolding assms(3) same_delivery_def by (auto dest!: set_map_where_origin simp: assms(4) [unfolded same_delivery_def])
    with assms(1,2) show ?thesis by (simp add: hooks_ok_def)
  qed
  ultimately have "hooks_ok db'" using assms(1) by (simp add: hooks_ok_def)
  moreover have "(if p d then f d else d) \<in> set (wb_deliveries db')" if "d \<in> set (wb_deliveries db)" for d
    using that unfolding assms(3) map_where_def set_map by (rule imageI)
  ultimately show ?thesis unfolding hooks_kept_def using step assms(4) by metis
qed

lemma findSubscription_None: "findSubscription i rows = None \<longleftrightarrow> i \<notin> ws_id ` set rows"
  by (auto simp: findSubscription_def find_first_def find_None_iff)

lemma create_delivery_cases:
  assumes "create_delivery c n db = (res, db')"
  shows "(\<forall>x. res \<noteq> Inr (Some x)) \<and> wb_deliveries db' = wb_deliveries db \<and> wb_subscriptions db' = wb_subscriptions db \<and>
      wb_queue db' = wb_queue db \<and> wb_posted db' = wb_posted db \<or>
    (\<exists>i body. res = Inr (Some (fresh_delivery c i body n)) \<and>
      wb_deliveries db' = insert_row (fresh_delivery c i body n) (wb_deliveries db) \<and>
      wb_subscriptions db' = wb_subscriptions db \<and> wb_queue db' = wb_queue db \<and> wb_posted db' = wb_posted db \<and>
      (\<forall>d \<in> set (wb_deliveries db). wl_id d \<noteq> i \<and> (wl_subscriptionId d, wl_eventId d) \<noteq> (we_subscriptionId n, we_eventId n)) \<and>
      we_subscriptionId n \<in> ws_id ` set (wb_subscriptions db) \<and> json_required (wk_host c) (we_payload n) = Inr body)"
  using assms
  unfolding create_delivery_def findSubscription_None transactional_def tx_then_def tx_lift_def draw_uuid_def
  by (auto split: sum.splits prod.splits if_splits)

lemma hook_move_kept: "hook_move S R db db' \<Longrightarrow> hooks_ok db \<Longrightarrow> hooks_kept S R db db'"
proof (induction rule: hook_move.induct)
  case (Hook_subscribe db c n)
  have "wb_deliveries (snd (create_subscription c n db)) = wb_deliveries db"
    "set (wb_subscriptions db) \<subseteq> set (wb_subscriptions (snd (create_subscription c n db)))"
    by (auto simp: create_subscription_def transactional_def tx_then_def draw_uuid_def insert_row_def Let_def split: sum.splits prod.splits if_splits)
  with Hook_subscribe show ?case unfolding hooks_kept_def hooks_ok_def by (metis image_mono same_delivery_refl subsetD)
next
  case (Hook_subscription f db p)
  have "ws_id ` set (map_where p f (wb_subscriptions db)) = ws_id ` set (wb_subscriptions db)"
    using Hook_subscription(1) unfolding set_map [symmetric] by (subst map_map_where) auto
  with Hook_subscription(2) show ?case by (auto simp: hooks_kept_def hooks_ok_def intro: same_delivery_refl)
next
  case (Hook_unsubscribe i db)
  then show ?case
    by (auto simp: hooks_kept_def hooks_ok_def delete_subscription_def distinct_map intro: inj_on_subset same_delivery_refl)
next
  case (Hook_create db c n)
  obtain res db' where run: "create_delivery c n db = (res, db')" by (cases "create_delivery c n db")
  from create_delivery_cases [OF run] Hook_create show ?case
    by (auto simp: run hooks_kept_def hooks_ok_def insert_row_def fresh_delivery_def intro: same_delivery_refl) blast
next
  case (Hook_delivery p f db)
  have "same_delivery d (f d) \<and> \<not> (wl_id d \<in> R \<and> wl_status d = WH_DELIVERED)" if "p d" for d
    using Hook_delivery(1) [OF that] by (auto simp: hook_table_def)
  then show ?case by (intro hooks_kept_deliveries [OF Hook_delivery(2), where p = p and f = f]) simp_all
next
  case (Hook_release ids db c)
  then show ?case
    by (intro hooks_kept_deliveries [where p = "\<lambda>d. wl_id d \<in> set ids" and f = "released_delivery (wk_now c)"])
      (auto simp: release_deliveries_def update_deliveries_def io_step_def update_many_def released_delivery_def same_delivery_def)
qed (auto simp: hooks_kept_def hooks_ok_def intro: same_delivery_refl)

lemma hook_moves_kept: "(hook_move S R)\<^sup>*\<^sup>* db db' \<Longrightarrow> hooks_ok db \<Longrightarrow> hooks_kept S R db db'"
proof (induction rule: rtranclp_induct)
  case (step db1 db2)
  then have k: "hooks_kept S R db db1" by simp
  then have "hooks_kept S R db1 db2" using hook_move_kept [OF step.hyps(2)] by (simp add: hooks_kept_def)
  with k show ?case by (rule hooks_kept_trans)
qed (simp add: hooks_kept_refl)

section \<open>The programs are sequences of moves\<close>

definition hook_rel :: "'a webhook_db_scheme \<Rightarrow> 'a webhook_db_scheme \<Rightarrow> bool" where
  "hook_rel db db' \<longleftrightarrow> (hooks_ok db \<longrightarrow> hook_moves db db')"

lemma hook_moves_ok: "hook_moves db db' \<Longrightarrow> hooks_ok db \<Longrightarrow> hooks_ok db'"
  using hook_moves_kept by (auto simp: hooks_kept_def)

interpretation hooking: io_relation "hook_rel :: 'a webhook_db_scheme \<Rightarrow> 'a webhook_db_scheme \<Rightarrow> bool"
  by unfold_locales (auto simp: hook_rel_def dest: hook_moves_ok)

lemmas hook_rules = hooking.rel_return hooking.rel_lift hooking.rel_read hooking.rel_then hooking.rel_if hooking.rel_option
  hooking.rel_catch hooking.rel_for

lemma one_hook: "(\<And>db. hook_move {} {} db (snd (m db))) \<Longrightarrow> io_rel hook_rel m"
  by (auto simp: io_rel_def hook_rel_def)

lemma aside_hook: "io_rel hook_rel (transactional (draw_uuid e))" "io_rel hook_rel (transactional (send_event e a i ev))"
  by (rule one_hook, rule Hook_other; simp add: transactional_def draw_uuid_def send_event_def tx_then_def tx_write_def
      split: sum.splits prod.splits)+

lemma update_deliveries_move:
  assumes "\<And>d. p d \<Longrightarrow> same_delivery d (f d) \<and> (wl_status d, wl_status (f d)) \<in> hook_table"
  shows "io_rel hook_rel (update_deliveries p f)"
  by (rule one_hook) (simp add: update_deliveries_def io_step_def update_many_def Hook_delivery [OF assms])

lemma delivery_updates:
  "io_rel hook_rel (update_deliveries (\<lambda>d. wl_id d = i \<and> wl_status d = WH_PENDING) (claimed_delivery now))"
  "io_rel hook_rel (update_deliveries (\<lambda>d. wl_id d = i \<and> wl_status d = WH_DELIVERING) (delivered now code))"
  "io_rel hook_rel (update_deliveries (\<lambda>d. wl_id d = i \<and> wl_status d = WH_DELIVERING) (retried now t k msg))"
  "io_rel hook_rel (update_deliveries (\<lambda>d. wl_id d = i \<and> wl_status d \<in> {WH_PENDING, WH_DELIVERING}) (dead_lettered now k msg))"
  "io_rel hook_rel (update_deliveries (\<lambda>d. wl_id d = i \<and> wl_status d = WH_DEAD_LETTER) (reopened_delivery now))"
  by (rule update_deliveries_move, auto simp: same_delivery_def hook_table_def claimed_delivery_def delivered_def retried_def
      dead_lettered_def reopened_delivery_def)+

lemma delivery_statements:
  "io_rel hook_rel (claim_delivery c i)" "io_rel hook_rel (markDelivered c i code)"
  "io_rel hook_rel (markFailedForRetry c i t rc msg)" "io_rel hook_rel (markDeadLettered c i k msg)"
  "io_rel hook_rel (resetForRedelivery c i)"
  unfolding claim_delivery_def markDelivered_def markFailedForRetry_def markDeadLettered_def resetForRedelivery_def
  by (intro hook_rules delivery_updates)+

lemma subscription_statements:
  "io_rel hook_rel (create_subscription c n)" "io_rel hook_rel (update_subscription c i p)"
  "io_rel hook_rel (recordDeliveryOutcome c i success)" "io_rel hook_rel (delete_subscription i)"
proof -
  show "io_rel hook_rel (create_subscription c n)" by (rule one_hook) (rule Hook_subscribe)
  have "io_rel hook_rel (io_step (\<lambda>db. let (n, rows) = update_many (\<lambda>s. ws_id s = i) (patched_subscription (wk_now c) p) (wb_subscriptions db)
       in (n, db\<lparr>wb_subscriptions := rows\<rparr>)))"
    by (rule one_hook) (simp add: io_step_def update_many_def Hook_subscription patched_subscription_def)
  then show "io_rel hook_rel (update_subscription c i p)" unfolding update_subscription_def by (intro hook_rules)
  show "io_rel hook_rel (recordDeliveryOutcome c i success)"
    by (rule one_hook) (auto simp: recordDeliveryOutcome_def outcome_recorded_def split: option.split intro: Hook_subscription Hook_other)
  show "io_rel hook_rel (delete_subscription i)" by (rule one_hook) (simp add: Hook_unsubscribe)
qed

lemma enqueue_hook: "io_rel hook_rel (enqueueDelivery c i)"
proof -
  have "io_rel hook_rel (io_write (\<lambda>db. db\<lparr>wb_queue := wb_queue db @ [i]\<rparr>))"
    by (rule one_hook) (simp add: Hook_queue)
  then show ?thesis unfolding enqueueDelivery_def by (intro hook_rules)
qed

lemma dispatch_webhook_moves: "io_rel hook_rel (dispatch_webhook_event c t i payload)"
proof -
  have "io_rel hook_rel (create_delivery c n)" for n by (rule one_hook) (rule Hook_create)
  then have "io_rel hook_rel (create_deliveries c ns)" for ns
    by (induction ns) (auto intro: hook_rules)
  then show ?thesis unfolding dispatch_webhook_event_def by (intro hook_rules enqueue_hook)
qed

lemma webhook_event_moves: "io_rel hook_rel (webhook_event c reg name m)"
  unfolding webhook_event_def by (intro hook_rules aside_hook dispatch_webhook_moves)

lemma claim_delivery_result:
  assumes "claim_delivery c i db = (Inr (Some d), db')"
  shows "d \<in> set (wb_deliveries db')" "wl_id d = i"
  using assms
  by (auto simp: claim_delivery_def io_then_def update_deliveries_def io_step_def Let_def findDelivery_def find_first_def find_Some_iff
      split: prod.splits if_splits)

lemma attempt_moves:
  fixes db :: "'a webhook_db_scheme"
  assumes "hooks_ok db" "d \<in> set (wb_deliveries db)"
  shows "hook_moves db (snd (attempt_delivery c s d db))"
proof -
  let ?db = "db\<lparr>wb_posted := wb_posted db @ [post_of c s d]\<rparr>"
  have "\<forall>d' \<in> set (wb_deliveries db). wl_id d' = wl_id d \<longrightarrow> wl_payload d' = wl_payload d"
    using assms by (metis hooks_ok_def distinct_key_unique)
  then have "hook_move {} {} db ?db" by (intro Hook_post) (simp add: post_of_def)
  then have moves: "hook_moves db ?db" by blast
  have "io_rel hook_rel (io_then (io_lift (http_post c (wt_url p) (wt_payload p) (wt_headers p) (wc_deliveryTimeoutMs (wk_config c))))
      (\<lambda>code. if 200 \<le> code \<and> code < 300
        then io_then (markDelivered c (wl_id d) (int code)) (\<lambda>_. io_then (recordDeliveryOutcome c (ws_id s) True) (\<lambda>_. io_return ()))
        else io_lift (throw_plain (''Subscriber responded with status '' @ nat_to_string code))) :: (unit, 'a webhook_db_scheme) io)" for p
    by (intro hook_rules delivery_statements subscription_statements)
  from io_relD [OF this, of ?db "post_of c s d"] have "hook_moves ?db (snd (attempt_delivery c s d db))"
    using hook_moves_ok [OF moves assms(1)] unfolding hook_rel_def attempt_delivery_def posted_def Let_def io_run by blast
  with moves show ?thesis by (rule rtranclp_trans)
qed

lemma attempt_failed_moves: "io_rel hook_rel (attempt_failed c s d er)"
  unfolding attempt_failed_def trip_breaker_def
  by (intro hook_rules delivery_statements subscription_statements aside_hook)

lemma deliver_moves: "io_rel hook_rel (deliver_webhook c i)"
  unfolding io_rel_def hook_rel_def
proof (intro allI impI)
  fix db :: "'a webhook_db_scheme" assume ok: "hooks_ok db"
  obtain res db1 where cl: "claim_delivery c i db = (res, db1)" by (cases "claim_delivery c i db")
  have m1: "hook_moves db db1" using io_relD [OF delivery_statements(1), of db c i] cl ok by (simp add: hook_rel_def)
  note ok1 = hook_moves_ok [OF m1 ok]
  show "hook_moves db (snd (deliver_webhook c i db))"
  proof (cases "\<exists>d. res = Inr (Some d)")
    case False
    then show ?thesis using cl m1 by (cases res) (auto simp: deliver_webhook_def io_then_def split: option.splits)
  next
    case True
    then obtain d where d: "res = Inr (Some d)" by blast
    note in1 = claim_delivery_result [OF cl [unfolded d]]
    have dead: "hook_moves db1 (snd (markDeadLettered c i None msg db1))" for msg
      using io_relD [OF delivery_statements(4), of db1 c i None msg] ok1 by (simp add: hook_rel_def)
    have att: "hook_moves db1 (snd (io_catch (attempt_delivery c s d) (attempt_failed c s d) db1))" for s
    proof -
      obtain r db2 where at1: "attempt_delivery c s d db1 = (r, db2)" by (cases "attempt_delivery c s d db1")
      then have m2: "hook_moves db1 db2" using attempt_moves [OF ok1 in1(1), of c s] by simp
      have "hook_moves db2 (snd (attempt_failed c s d er db2))" for er
        using io_relD [OF attempt_failed_moves, of db2 c s d er] hook_moves_ok [OF m2 ok1] by (simp add: hook_rel_def)
      with m2 show ?thesis using at1 by (cases r) (auto simp: io_catch_def intro: rtranclp_trans)
    qed
    have "hook_moves db1 (snd (deliver_webhook c i db))"
      using dead att cl by (auto simp: deliver_webhook_def io_then_def d split: option.splits prod.splits sum.splits) (metis snd_conv)+
    with m1 show ?thesis by (rule rtranclp_trans)
  qed
qed

lemma exhausted_moves: "io_rel hook_rel (mark_exhausted c i msg)"
  unfolding mark_exhausted_def by (intro hook_rules delivery_statements aside_hook)

lemma redeliver_moves: "io_rel hook_rel (redeliver_webhook c i)"
  unfolding redeliver_webhook_def by (intro hook_rules delivery_statements enqueue_hook)

lemma reconcile_webhook_moves: "io_rel hook_rel (reconcile_webhooks c running)"
proof -
  have "io_rel hook_rel (release_deliveries c ids)" for ids by (rule one_hook) (rule Hook_release, simp)
  then have "io_rel hook_rel (resetStuck c t)" for t unfolding resetStuck_def by (intro hook_rules)
  then show ?thesis unfolding reconcile_webhooks_def by (intro hook_rules enqueue_hook)
qed

lemma hook_program: "io_rel hook_rel m \<Longrightarrow> hooks_ok db \<Longrightarrow> hook_moves db (snd (m db))"
  by (simp add: io_rel_def hook_rel_def)

lemma administration_moves:
  "io_rel hook_rel (create_webhook_subscription c reg n)" "io_rel hook_rel (update_webhook_subscription c reg i p t)"
  "io_rel hook_rel (delete_webhook_subscription i t)"
  unfolding create_webhook_subscription_def update_webhook_subscription_def delete_webhook_subscription_def visible_subscription_def
  by (intro hook_rules subscription_statements)+

section \<open>One attempt posts once\<close>

definition same_posts :: "'a webhook_db_scheme \<Rightarrow> 'a webhook_db_scheme \<Rightarrow> bool" where
  "same_posts db db' \<longleftrightarrow> wb_posted db' = wb_posted db"

interpretation posting: io_relation "same_posts :: 'a webhook_db_scheme \<Rightarrow> 'a webhook_db_scheme \<Rightarrow> bool"
  by unfold_locales (auto simp: same_posts_def)

lemmas post_rules = posting.rel_return posting.rel_lift posting.rel_read posting.rel_then posting.rel_if posting.rel_option

lemma silent_statements:
  "io_rel same_posts (update_deliveries p f)" "io_rel same_posts (recordDeliveryOutcome c i success)"
  "io_rel same_posts (transactional (send_event e a k ev))"
  "io_rel same_posts (io_step (\<lambda>db. let (n, rows) = update_many q g (wb_subscriptions db) in (n, db\<lparr>wb_subscriptions := rows\<rparr>)))"
  by (auto simp: io_rel_def same_posts_def update_deliveries_def io_step_def recordDeliveryOutcome_def transactional_def send_event_def
      tx_then_def draw_uuid_def tx_write_def split: option.splits sum.splits prod.splits)

lemma silent_updates:
  "io_rel same_posts (markDelivered c i code)" "io_rel same_posts (markFailedForRetry c i t rc msg)"
  "io_rel same_posts (update_subscription c i p)"
  unfolding markDelivered_def markFailedForRetry_def update_subscription_def
  by (intro post_rules silent_statements)+

lemma silent_failure: "io_rel same_posts (attempt_failed c s d er)"
  unfolding attempt_failed_def trip_breaker_def by (intro post_rules silent_updates silent_statements)

lemma attempt_posts_once:
  fixes db :: "'a webhook_db_scheme"
  shows "wb_posted (snd (io_catch (attempt_delivery c s d) (attempt_failed c s d) db)) = wb_posted db @ [post_of c s d]"
proof -
  let ?db = "db\<lparr>wb_posted := wb_posted db @ [post_of c s d]\<rparr>"
  have "io_rel same_posts (io_then (io_lift (http_post c (wt_url p) (wt_payload p) (wt_headers p) (wc_deliveryTimeoutMs (wk_config c))))
      (\<lambda>code. if 200 \<le> code \<and> code < 300
        then io_then (markDelivered c (wl_id d) (int code)) (\<lambda>_. io_then (recordDeliveryOutcome c (ws_id s) True) (\<lambda>_. io_return ()))
        else io_lift (throw_plain (''Subscriber responded with status '' @ nat_to_string code))) :: (unit, 'a webhook_db_scheme) io)" for p
    by (intro post_rules silent_updates silent_statements)
  from io_relD [OF this, of ?db "post_of c s d"] have "wb_posted (snd (attempt_delivery c s d db)) = wb_posted db @ [post_of c s d]"
    unfolding same_posts_def attempt_delivery_def posted_def Let_def io_run by simp
  moreover have "wb_posted (snd (attempt_failed c s d er db')) = wb_posted db'" for er and db' :: "'a webhook_db_scheme"
    using io_relD [OF silent_failure] by (simp add: same_posts_def)
  ultimately show ?thesis by (auto simp: io_catch_def split: prod.splits sum.splits)
qed

text \<open>
  The programs of the webhook service refine the step relation: administration, dispatch, attempts,
  exhaustion, redelivery and the reconciliation are sequences of its moves. What is posted is the stored
  payload, and the status of a delivery moves along its table or is set back by a sweep.
\<close>
theorem webhook_programs_are_moves:
  assumes "hooks_ok db"
  shows "(hook_move {} {})\<^sup>*\<^sup>* db (snd (webhook_event c types name m db)) \<and>
    (hook_move {} {})\<^sup>*\<^sup>* db (snd (deliver_webhook c i db)) \<and>
    (hook_move {} {})\<^sup>*\<^sup>* db (snd (mark_exhausted c i msg db)) \<and>
    (hook_move {} {})\<^sup>*\<^sup>* db (snd (redeliver_webhook c i db)) \<and>
    (hook_move {} {})\<^sup>*\<^sup>* db (snd (reconcile_webhooks c running db)) \<and>
    (hook_move {} {})\<^sup>*\<^sup>* db (snd (create_webhook_subscription c types n db)) \<and>
    (hook_move {} {})\<^sup>*\<^sup>* db (snd (update_webhook_subscription c types j p t db)) \<and>
    (hook_move {} {})\<^sup>*\<^sup>* db (snd (delete_webhook_subscription j t db))"
  by (intro conjI hook_program [OF _ assms] webhook_event_moves deliver_moves exhausted_moves redeliver_moves
    reconcile_webhook_moves administration_moves)

section \<open>Delivered once\<close>

lemma update_deliveries_none:
  "\<forall>d \<in> set (wb_deliveries db). \<not> p d \<Longrightarrow> update_deliveries p f db = (Inr 0, db)"
  by (simp add: update_deliveries_def io_step_def update_many_miss)


text \<open>
  A sweep may set a delivered webhook back. The rows of stuck attempts are selected first and updated by id
  in a second statement that does not look at their status: an attempt that succeeds in between is
  recorded as DELIVERED, becomes PENDING again, and the next job posts it to the subscriber a second time.
\<close>
theorem swept_delivery_is_posted_again:
  assumes "hooks_ok db" "d \<in> set (wb_deliveries db)" "wl_status d = WH_DELIVERING"
    and "wl_id d \<in> set (stuck_deliveries now windowMs (wb_deliveries db))"
    and "findSubscription (wl_subscriptionId d) (wb_subscriptions db) = Some s" "ws_status s = SB_ACTIVE"
  shows "\<exists>d1 d3. (let db1 = snd (markDelivered c (wl_id d) code db);
         db2 = snd (release_deliveries c' (stuck_deliveries now windowMs (wb_deliveries db)) db1) in
       findDelivery (wl_id d) (wb_deliveries db1) = Some d1 \<and> wl_status d1 = WH_DELIVERED \<and>
       wl_id d3 = wl_id d \<and> wl_payload d3 = wl_payload d \<and>
       wb_posted (snd (deliver_webhook c'' (wl_id d) db2)) = wb_posted db @ [post_of c'' s d3])"
proof -
  let ?i = "wl_id d" and ?ids = "stuck_deliveries now windowMs (wb_deliveries db)"
  let ?hit = "\<lambda>x. wl_id x = ?i \<and> wl_status x = WH_DELIVERING"
  let ?rows1 = "map_where ?hit (delivered (wk_now c) code) (wb_deliveries db)"
  let ?rows2 = "map_where (\<lambda>x. wl_id x \<in> set ?ids) (released_delivery (wk_now c')) ?rows1"
  let ?rows3 = "map_where (\<lambda>x. wl_id x = ?i \<and> wl_status x = WH_PENDING) (claimed_delivery (wk_now c'')) ?rows2"
  let ?d1 = "delivered (wk_now c) code d"
  let ?d2 = "released_delivery (wk_now c') ?d1"
  let ?d3 = "claimed_delivery (wk_now c'') ?d2"
  have dist: "distinct (map wl_id (wb_deliveries db))" using assms(1) by (simp add: hooks_ok_def)
  have ids: "map wl_id ?rows1 = map wl_id (wb_deliveries db)" "map wl_id ?rows2 = map wl_id ?rows1" "map wl_id ?rows3 = map wl_id ?rows2"
    by (simp_all add: map_map_where delivered_def released_delivery_def claimed_delivery_def)
  have in1: "?d1 \<in> set ?rows1" using assms(2,3) by (auto simp: set_map_where)
  have in2: "?d2 \<in> set ?rows2" using in1 assms(4) by (auto simp: set_map_where delivered_def)
  have in3: "?d3 \<in> set ?rows3" using in2 by (auto simp: set_map_where delivered_def released_delivery_def)
  have found: "findDelivery ?i ?rows1 = Some ?d1" "findDelivery ?i ?rows3 = Some ?d3"
    using find_distinct_key [of wl_id ?rows1 ?d1] find_distinct_key [of wl_id ?rows3 ?d3] dist in1 in3
    by (simp_all add: ids findDelivery_def find_first_def delivered_def released_delivery_def claimed_delivery_def)
  let ?db2 = "db\<lparr>wb_deliveries := ?rows2\<rparr>" and ?db3 = "db\<lparr>wb_deliveries := ?rows3\<rparr>"
  have "?d2 \<in> set (filter (\<lambda>x. wl_id x = ?i \<and> wl_status x = WH_PENDING) ?rows2)"
    unfolding set_filter using in2 by (simp add: delivered_def released_delivery_def)
  then have "filter (\<lambda>x. wl_id x = ?i \<and> wl_status x = WH_PENDING) ?rows2 \<noteq> []" by (metis empty_iff list.set(1))
  then have claim: "claim_delivery c'' ?i ?db2 = (Inr (Some ?d3), ?db3)"
    by (simp add: claim_delivery_def io_then_def update_deliveries_def io_step_def update_many_def found)
  have run: "snd (markDelivered c ?i code db) = db\<lparr>wb_deliveries := ?rows1\<rparr>"
    "snd (release_deliveries c' ?ids (db\<lparr>wb_deliveries := ?rows1\<rparr>)) = ?db2"
    by (simp_all add: markDelivered_def release_deliveries_def update_deliveries_def io_step_def update_many_def)
  have posted: "wb_posted (snd (io_catch (attempt_delivery c'' s ?d3) (attempt_failed c'' s ?d3) ?db3)) = wb_posted db @ [post_of c'' s ?d3]"
    by (simp add: attempt_posts_once)
  have "wl_subscriptionId ?d3 = wl_subscriptionId d" by (simp add: delivered_def released_delivery_def claimed_delivery_def)
  then have "snd (deliver_webhook c'' ?i ?db2) = snd (io_catch (attempt_delivery c'' s ?d3) (attempt_failed c'' s ?d3) ?db3)"
    using claim assms(5,6) by (simp add: deliver_webhook_def io_then_Inr)
  with posted run found(1) show ?thesis
    by (intro exI [of _ ?d1] exI [of _ ?d3]) (simp add: Let_def, simp add: delivered_def released_delivery_def claimed_delivery_def)
qed

end
