(* ===== verification/Webhook_Fanout.thy ===== *)
theory Webhook_Fanout
  imports Webhook_Properties
begin

text \<open>
  Fan-out of an event: every active subscription that declared its type gets one delivery, and the tenant
  of the event plays no part.
\<close>

definition fanned_out :: "webhook_call \<Rightarrow> nat \<Rightarrow> sval \<Rightarrow> new_delivery list \<Rightarrow> webhook_delivery list" where
  "fanned_out c k body ns = map2 (\<lambda>j n. fresh_delivery c (e_uuid (wk_env c) j) body n) [k..<k + length ns] ns"

lemma fanned_out_Cons: "fanned_out c k body (n # ns) = fresh_delivery c (e_uuid (wk_env c) k) body n # fanned_out c (Suc k) body ns"
  by (simp add: fanned_out_def upt_rec)

lemma create_deliveries_all:
  assumes "inj (e_uuid (wk_env c))" "\<And>d j. d \<in> set (wb_deliveries db) \<Longrightarrow> pf_drawn db \<le> j \<Longrightarrow> wl_id d \<noteq> e_uuid (wk_env c) j"
    and "\<And>n. n \<in> set ns \<Longrightarrow> json_required (wk_host c) (we_payload n) = Inr body \<and> we_eventId n = i \<and>
      we_subscriptionId n \<in> ws_id ` set (wb_subscriptions db)"
    and "distinct (map we_subscriptionId ns)"
    and "\<And>n d. n \<in> set ns \<Longrightarrow> d \<in> set (wb_deliveries db) \<Longrightarrow> wl_eventId d = i \<Longrightarrow> wl_subscriptionId d \<noteq> we_subscriptionId n"
  shows "create_deliveries c ns db = (Inr (fanned_out c (pf_drawn db) body ns),
    db\<lparr>pf_drawn := pf_drawn db + length ns, wb_deliveries := wb_deliveries db @ fanned_out c (pf_drawn db) body ns\<rparr>)"
  using assms(2-)
proof (induction ns arbitrary: db)
  case Nil
  then show ?case by (simp add: fanned_out_def)
next
  case (Cons n ns)
  let ?d = "fresh_delivery c (e_uuid (wk_env c) (pf_drawn db)) body n"
  let ?db = "db\<lparr>pf_drawn := Suc (pf_drawn db), wb_deliveries := wb_deliveries db @ [?d]\<rparr>"
  have "\<not> (\<exists>d \<in> set (wb_deliveries db). wl_id d = e_uuid (wk_env c) (pf_drawn db) \<or>
      (wl_subscriptionId d = we_subscriptionId n \<and> wl_eventId d = we_eventId n))"
    using Cons.prems(1,4) Cons.prems(2) [of n] by force
  moreover have "findSubscription (we_subscriptionId n) (wb_subscriptions db) \<noteq> None"
    using Cons.prems(2) [of n] by (simp add: findSubscription_None)
  ultimately have one: "create_delivery c n db = (Inr (Some ?d), ?db)"
    using Cons.prems(2) [of n]
    by (simp add: create_delivery_def transactional_def tx_then_def tx_lift_def draw_uuid_def insert_row_def)
  have "wl_id d \<noteq> e_uuid (wk_env c) j" if "d \<in> set (wb_deliveries ?db)" "pf_drawn ?db \<le> j" for d j
    using that Cons.prems(1) by (auto simp: fresh_delivery_def inj_eq [OF assms(1)])
  moreover have "wl_subscriptionId d \<noteq> we_subscriptionId m" if "m \<in> set ns" "d \<in> set (wb_deliveries ?db)" "wl_eventId d = i" for m d
    using that Cons.prems(3,4) by (auto simp: fresh_delivery_def)
  ultimately have "create_deliveries c ns ?db = (Inr (fanned_out c (pf_drawn ?db) body ns),
      ?db\<lparr>pf_drawn := pf_drawn ?db + length ns, wb_deliveries := wb_deliveries ?db @ fanned_out c (pf_drawn ?db) body ns\<rparr>)"
    using Cons.prems(2,3) by (intro Cons.IH) auto
  with one show ?case by (simp add: io_then_def fanned_out_Cons)
qed

lemma enqueue_all:
  "io_for (\<lambda>d. io_catch (enqueueDelivery c (wl_id d)) (\<lambda>_. io_return ())) ds db =
     (Inr (), db\<lparr>wb_queue := wb_queue db @ filter (\<lambda>i. wk_queue c i = Inr ()) (map wl_id ds)\<rparr>)"
proof (induction ds arbitrary: db)
  case (Cons d ds)
  then show ?case by (cases "wk_queue c (wl_id d)") (simp_all add: enqueueDelivery_def io_then_def io_catch_def)
qed simp

text \<open>
  C35. An event reaches every active subscription that declared its type. With a new event id, the listener
  adds exactly one pending delivery with the payload of the event for each of them, in order, and queues
  those the queue accepts. This holds whatever the tenant of the event is: the subscriptions of all
  tenants get it.
\<close>
theorem event_reaches_every_subscription:
  assumes "has_entry name types" "ee_eventId ee = Some i" "stored (wk_host c) (ee_payload ee) = Some w"
    and "json_required (wk_host c) w = Inr body"
    and "\<forall>d \<in> set (wb_deliveries db). wl_eventId d \<noteq> i" "distinct (map ws_id (wb_subscriptions db))"
    and "inj (e_uuid (wk_env c))" "\<forall>d \<in> set (wb_deliveries db). \<forall>j \<ge> pf_drawn db. wl_id d \<noteq> e_uuid (wk_env c) j"
  defines "matches \<equiv> filter (\<lambda>s. ws_status s = SB_ACTIVE \<and> name \<in> set (ws_eventTypes s)) (wb_subscriptions db)"
  shows "let db' = snd (webhook_event c types name (Some ee) db);
      added = drop (length (wb_deliveries db)) (wb_deliveries db') in
    take (length (wb_deliveries db)) (wb_deliveries db') = wb_deliveries db \<and>
    map (\<lambda>d. (wl_subscriptionId d, wl_tenantId d, wl_eventId d, wl_eventType d, wl_payload d, wl_status d)) added =
      map (\<lambda>s. (ws_id s, ws_tenantId s, i, name, body, WH_PENDING)) matches \<and>
    wb_queue db' = wb_queue db @ filter (\<lambda>k. wk_queue c k = Inr ()) (map wl_id added)"
proof -
  let ?ns = "map (delivery_for name i w) matches"
  let ?new = "fanned_out c (pf_drawn db) body ?ns"
  have "distinct (map we_subscriptionId ?ns)"
    using assms(6) by (simp add: delivery_for_def comp_def distinct_map matches_def inj_on_def)
  then have "create_deliveries c ?ns db = (Inr ?new, db\<lparr>pf_drawn := pf_drawn db + length ?ns, wb_deliveries := wb_deliveries db @ ?new\<rparr>)"
    using assms(4,5,7,8) by (intro create_deliveries_all) (auto simp: delivery_for_def matches_def)
  then have run: "webhook_event c types name (Some ee) db = (Inr (),
      db\<lparr>pf_drawn := pf_drawn db + length ?ns, wb_deliveries := wb_deliveries db @ ?new,
        wb_queue := wb_queue db @ filter (\<lambda>k. wk_queue c k = Inr ()) (map wl_id ?new)\<rparr>)"
    using assms(1-3)
    by (auto simp: webhook_event_def dispatch_webhook_event_def findActiveByEventType_def matches_def [symmetric] enqueue_all
        io_catch_def io_then_Inr fanned_out_def)
  have "map (\<lambda>d. (wl_subscriptionId d, wl_tenantId d, wl_eventId d, wl_eventType d, wl_payload d, wl_status d)) (fanned_out c k body (map (delivery_for name i w) ss)) =
      map (\<lambda>s. (ws_id s, ws_tenantId s, i, name, body, WH_PENDING)) ss" for k ss
    by (induction ss arbitrary: k) (simp_all add: fanned_out_Cons, simp_all add: fanned_out_def fresh_delivery_def delivery_for_def)
  then show ?thesis by (simp add: run Let_def)
qed

section \<open>Inbound webhooks\<close>

text \<open>
  Inbound webhooks on top of the idempotency ledger: a webhook whose handler has run and whose claim was
  completed is not handled again.
\<close>

lemma keys_unique_update:
  assumes "idem_keys_unique rows" "\<And>r. ik_id (f r) = ik_id r" "\<And>r. ik_identity (f r) = ik_identity r"
  shows "idem_keys_unique (snd (update_many p f rows))"
  using assms by (simp add: idem_keys_unique_def update_many_def map_map_where)

lemma reserve_acquired:
  assumes "idem_reserve e rq db = (Inr (IDEM_ACQUIRED v), db')" "idem_keys_unique (id_rows db)"
  shows "iv_identity v = iq_identity rq \<and> idem_keys_unique (id_rows db') \<and> id_cache db' = id_cache db \<and>
    (\<exists>r \<in> set (id_rows db'). ik_owned (iv_id v) (iv_claimToken v, iv_version v) r \<and> ik_identity r = iv_identity v)"
proof -
  define x where "x = ic_now e + coalesce (iq_ttlMs rq) (ig_ttlMs (ic_config e))"
  let ?i = "iq_identity rq"
  show ?thesis
  proof (cases "\<exists>q \<in> set (id_rows db). ik_identity q = ?i \<or> ik_id q = ic_rowId e")
    case False
    then have "insertClaim e ?i x (iq_requestHash rq) db = (Inr (ic_rowId e, 1), db') \<and> v = \<lparr>iv_identity = ?i, iv_id = ic_rowId e,
        iv_claimToken = ic_token e, iv_version = 1\<rparr>"
      using assms(1) by (auto simp: idem_reserve_def Let_def io_then_def io_catch_def insertClaim_def x_def
          idem_acquired_def split: option.splits)
    with False assms(2) show ?thesis
      by (auto simp: insertClaim_def insert_row_def cas_hit_def idem_keys_unique_def) blast+
  next
    case True
    let ?upd = "\<lambda>r. r\<lparr>ik_claimToken := ic_token e, ik_result := VNull, ik_expiresAt := x,
      ik_claimedAt := Some (ic_now e), ik_version := ik_version r + 1\<rparr>"
    let ?hit = "takeover_hit ?i (ic_now e - ig_claimLeaseMs (ic_config e))"
    let ?rows = "snd (update_many ?hit ?upd (id_rows db))"
    have "\<exists>q. idem_findByIdentity ?i ?rows = Some q \<and> v = \<lparr>iv_identity = ?i, iv_id = ik_id q, iv_claimToken = ic_token e,
        iv_version = ik_version q\<rparr> \<and> id_rows db' = ?rows \<and> id_cache db' = id_cache db \<and> fst (update_many ?hit ?upd (id_rows db)) \<noteq> 0"
      using assms(1) True
      by (auto simp: idem_reserve_def Let_def io_then_def io_catch_def insertClaim_def idem_inspect_def x_def
          cache_set_def takeoverExpiredClaim_def idem_acquired_def
          split: option.splits if_splits prod.splits sum.splits)
    then obtain q where q: "idem_findByIdentity ?i ?rows = Some q" "id_rows db' = ?rows" "id_cache db' = id_cache db"
      and v: "v = \<lparr>iv_identity = ?i, iv_id = ik_id q, iv_claimToken = ic_token e, iv_version = ik_version q\<rparr>"
      and hit: "fst (update_many ?hit ?upd (id_rows db)) \<noteq> 0"
      by (elim exE conjE)
    from hit [unfolded update_many_count_0] obtain p where p: "p \<in> set (id_rows db)" "?hit p" by blast
    have uniq: "idem_keys_unique ?rows" by (rule keys_unique_update [OF assms(2)]) simp_all
    have "?upd p \<in> set ?rows" using p by (auto simp: set_update_many)
    moreover have mem: "q \<in> set ?rows" "ik_identity q = ?i"
      using q(1) by (auto simp: idem_findByIdentity_def find_first_def find_Some_iff)
    moreover have "ik_identity (?upd p) = ?i" using p(2) by (simp add: takeover_hit_def)
    moreover have "inj_on ik_identity (set ?rows)" using uniq unfolding idem_keys_unique_def distinct_map by blast
    ultimately have "q = ?upd p" by (intro inj_onD [of ik_identity "set ?rows"]) simp_all
    then have "ik_owned (iv_id v) (iv_claimToken v, iv_version v) q"
      using p(2) by (simp add: v cas_hit_def takeover_hit_def)
    with mem uniq q(2,3) show ?thesis by (auto simp: v)
  qed
qed

lemma inbound_result: "json_input h (VObj [(''success'', VBool True)]) = Inr (VObj [(''success'', VBool True)]) \<and>
    stored h (VObj [(''success'', VBool True)]) = Some (VObj [(''success'', VBool True)])"
  by (simp add: json_input_def is_nullish_def)


end
