(* ===== verification/Webhook_Examples.thy ===== *)
theory Webhook_Examples
  imports Webhook_Fanout Scheduler_Examples
begin

text \<open>
  The circuit breaker after a manual resume, and concrete runs of the webhook service.
\<close>

section \<open>Resuming a paused subscription\<close>

text \<open>
  Resuming does not reset the count of consecutive failures: the first failed attempt after a resume pauses
  the subscription again.
\<close>

lemma resumed_subscription_trips_at_once:
  assumes "distinct (map ws_id (wb_subscriptions db))" "s \<in> set (wb_subscriptions db)"
    and "wc_circuitBreakerThreshold (wk_config c') \<le> ws_consecutiveFailures s"
    and "db1 = snd (update_subscription c (ws_id s) \<lparr>wp_url = None, wp_secret = None, wp_eventTypes = None,
        wp_status = Some SB_ACTIVE, wp_description = None\<rparr> db)"
    and "recordDeliveryOutcome c' (ws_id s) False db1 = (Inr u, db2)" "ws_id s0 = ws_id s"
  shows "\<exists>s'. findSubscription (ws_id s) (wb_subscriptions (snd (trip_breaker c' s0 u db2))) = Some s' \<and> ws_status s' = SB_PAUSED"
proof -
  let ?i = "ws_id s"
  let ?patch = "\<lambda>st. \<lparr>wp_url = None, wp_secret = None, wp_eventTypes = None, wp_status = Some st, wp_description = None\<rparr>"
  let ?f = "patched_subscription (wk_now c) (?patch SB_ACTIVE)" and ?g = "outcome_recorded (wk_now c') False"
  let ?h = "patched_subscription (wk_now c') (?patch SB_PAUSED)"
  have find: "findSubscription ?i (map_where (\<lambda>x. ws_id x = ?i) f rows) = map_option f (findSubscription ?i rows)"
    if "\<And>x. ws_id (f x) = ws_id x" for f rows
    unfolding findSubscription_def find_first_def by (rule find_map_where) (simp add: that)
  have s: "findSubscription ?i (wb_subscriptions db) = Some s"
    using find_distinct_key [OF assms(1,2)] by (simp add: findSubscription_def find_first_def)
  have hit: "filter (\<lambda>x. ws_id x = ?i) rows \<noteq> []" if "findSubscription ?i rows = Some y" for rows y
    using that by (auto simp: findSubscription_def find_first_def find_Some_iff filter_empty_conv)
  have db1: "wb_subscriptions db1 = map_where (\<lambda>x. ws_id x = ?i) ?f (wb_subscriptions db)"
    using hit [OF s] by (simp add: assms(4) update_subscription_def io_then_def io_step_def update_many_def split: option.split)
  have s1: "findSubscription ?i (wb_subscriptions db1) = Some (?f s)"
    unfolding db1 by (subst find) (simp_all add: s patched_subscription_def)
  with assms(5) have u: "u = ?g (?f s)" and db2: "wb_subscriptions db2 = map_where (\<lambda>x. ws_id x = ?i) ?g (wb_subscriptions db1)"
    by (auto simp: recordDeliveryOutcome_def)
  have s2: "findSubscription ?i (wb_subscriptions db2) = Some u"
    unfolding db2 by (subst find) (simp_all add: s1 u outcome_recorded_def)
  have trip: "ws_status u = SB_ACTIVE" "wc_circuitBreakerThreshold (wk_config c') \<le> ws_consecutiveFailures u"
    using assms(3) by (simp_all add: u outcome_recorded_def patched_subscription_def)
  have s3: "findSubscription ?i (map_where (\<lambda>x. ws_id x = ?i) ?h (wb_subscriptions db2)) = Some (?h u)"
    by (subst find) (simp_all add: s2 patched_subscription_def)
  have "wb_subscriptions (snd (trip_breaker c' s0 u db2)) = map_where (\<lambda>x. ws_id x = ?i) ?h (wb_subscriptions db2)"
    using trip hit [OF s2] s3
    by (simp add: trip_breaker_def update_subscription_def io_then_def io_step_def update_many_def assms(6) transactional_def
        send_event_def tx_then_def draw_uuid_def tx_write_def)
  with s3 show ?thesis by (simp add: patched_subscription_def)
qed

section \<open>Concrete runs\<close>

definition demo_hook_host :: host where
  "demo_hook_host = \<lparr>h_inherited = (\<lambda>v k. VUndef), h_number = (\<lambda>v. NaN), h_stored = (\<lambda>n. None), h_same = (\<lambda>v w. False)\<rparr>"

definition demo_hook_call :: "int \<Rightarrow> webhook_call" where
  "demo_hook_call now = \<lparr>wk_env = (demo_env now)\<lparr>e_uuid := (\<lambda>k. replicate k CHR ''u'')\<rparr>,
     wk_config = \<lparr>wc_deliveryTimeoutMs = 10000, wc_backoffBaseMs = 30000, wc_circuitBreakerThreshold = 10, wc_reconciliationWindowMs = 600\<rparr>,
     wk_host = demo_hook_host, wk_fetch = (\<lambda>url headers body t. Inr 200), wk_hmac = (\<lambda>secret text. secret), wk_queue = (\<lambda>i. Inr ())\<rparr>"

definition demo_subscription :: webhook_subscription where
  "demo_subscription = \<lparr>ws_id = ''s1'', ws_tenantId = Some ''B'', ws_url = ''https://b'', ws_secret = ''x'', ws_eventTypes = [''OrderApproved''],
     ws_status = SB_ACTIVE, ws_description = None, ws_consecutiveFailures = 0, ws_lastSuccessAt = None, ws_lastFailureAt = None,
     ws_createdAt = 0, ws_updatedAt = 0\<rparr>"

definition demo_delivery :: "webhook_status \<Rightarrow> webhook_delivery" where
  "demo_delivery st = \<lparr>wl_id = ''d1'', wl_tenantId = Some ''B'', wl_subscriptionId = ''s1'', wl_eventId = ''e1'',
     wl_eventType = ''OrderApproved'', wl_payload = VObj [], wl_status = st, wl_attemptCount = 0, wl_nextAttemptAt = 0,
     wl_claimedAt = Some 0, wl_lastResponseCode = None, wl_lastError = None, wl_deliveredAt = None, wl_createdAt = 0, wl_updatedAt = 0\<rparr>"

definition demo_hook_db :: "webhook_delivery list \<Rightarrow> webhook_db" where
  "demo_hook_db ds = \<lparr>pf_outbox = [], pf_audit = [], pf_sequences = [], pf_drawn = 0, wb_subscriptions = [demo_subscription],
     wb_deliveries = ds, wb_queue = [], wb_posted = []\<rparr>"

lemma demo_hook_simps [simp]:
  "wb_subscriptions (demo_hook_db ds) = [demo_subscription]" "wb_deliveries (demo_hook_db ds) = ds" "wb_posted (demo_hook_db ds) = []"
  "pf_drawn (demo_hook_db ds) = 0" "wl_id (demo_delivery st) = ''d1''" "wl_status (demo_delivery st) = st"
  "wl_subscriptionId (demo_delivery st) = ''s1''" "wl_eventId (demo_delivery st) = ''e1''" "wl_claimedAt (demo_delivery st) = Some 0"
  "ws_id demo_subscription = ''s1''" "ws_status demo_subscription = SB_ACTIVE" "ws_eventTypes demo_subscription = [''OrderApproved'']"
  "ws_tenantId demo_subscription = Some ''B''" "wk_host (demo_hook_call now) = demo_hook_host"
  "e_uuid (wk_env (demo_hook_call now)) = (\<lambda>k. replicate k CHR ''u'')" "wk_queue (demo_hook_call now) = (\<lambda>i. Inr ())"
  by (simp_all add: demo_hook_db_def demo_delivery_def demo_subscription_def demo_hook_call_def)

lemma demo_hooks_ok: "hooks_ok (demo_hook_db [])" "hooks_ok (demo_hook_db [demo_delivery st])"
  by (simp_all add: hooks_ok_def)

theorem webhook_programs_are_moves_witness:
  "(hook_move {} {})\<^sup>*\<^sup>* (demo_hook_db [demo_delivery WH_PENDING])
     (snd (deliver_webhook (demo_hook_call 9) ''d1'' (demo_hook_db [demo_delivery WH_PENDING])))"
  using webhook_programs_are_moves [OF demo_hooks_ok(2)] by blast


theorem swept_delivery_is_posted_again_witness:
  "\<exists>d3. wl_id d3 = ''d1'' \<and>
     wb_posted (snd (deliver_webhook (demo_hook_call 999) ''d1'' (snd (release_deliveries (demo_hook_call 900) [''d1'']
       (snd (markDelivered (demo_hook_call 900) ''d1'' 200 (demo_hook_db [demo_delivery WH_DELIVERING]))))))) =
     [post_of (demo_hook_call 999) demo_subscription d3]"
proof -
  let ?d = "demo_delivery WH_DELIVERING" and ?db = "demo_hook_db [demo_delivery WH_DELIVERING]"
  have stuck: "stuck_deliveries 900 600 [?d] = [''d1'']" by (simp add: stuck_deliveries_def)
  have "?d \<in> set (wb_deliveries ?db)" "wl_status ?d = WH_DELIVERING" "wl_id ?d \<in> set (stuck_deliveries 900 600 (wb_deliveries ?db))"
    "findSubscription (wl_subscriptionId ?d) (wb_subscriptions ?db) = Some demo_subscription" "ws_status demo_subscription = SB_ACTIVE"
    using stuck by (simp_all add: findSubscription_def find_first_def)
  from swept_delivery_is_posted_again [OF demo_hooks_ok(2) this, of "demo_hook_call 900" 200 "demo_hook_call 900" "demo_hook_call 999"]
  show ?thesis by (auto simp: stuck Let_def)
qed

theorem event_reaches_every_subscription_witness:
  "map wl_tenantId (wb_deliveries (snd (webhook_event (demo_hook_call 9) [(''OrderApproved'', ())] ''OrderApproved''
     (Some \<lparr>ee_eventId = Some ''e1'', ee_tenantId = Some ''A'', ee_payload = VObj []\<rparr>) (demo_hook_db [])))) = [Some ''B'']"
proof -
  let ?ee = "\<lparr>ee_eventId = Some ''e1'', ee_tenantId = Some ''A'', ee_payload = VObj []\<rparr>"
  have "inj (e_uuid (wk_env (demo_hook_call 9)))" by (simp add: inj_def)
  moreover have "has_entry ''OrderApproved'' [(''OrderApproved'', ())]" "ee_eventId ?ee = Some ''e1''"
    "stored (wk_host (demo_hook_call 9)) (ee_payload ?ee) = Some (VObj [])"
    "json_required (wk_host (demo_hook_call 9)) (VObj []) = Inr (VObj [])"
    by (simp_all add: has_entry_def json_required_def)
  ultimately have "map (\<lambda>d. (wl_subscriptionId d, wl_tenantId d, wl_eventId d, wl_eventType d, wl_payload d, wl_status d))
      (wb_deliveries (snd (webhook_event (demo_hook_call 9) [(''OrderApproved'', ())] ''OrderApproved'' (Some ?ee) (demo_hook_db [])))) =
      [(''s1'', Some ''B'', ''e1'', ''OrderApproved'', VObj [], WH_PENDING)]"
    using event_reaches_every_subscription [of "''OrderApproved''" "[(''OrderApproved'', ())]" ?ee "''e1''" "demo_hook_call 9" "VObj []"
        "VObj []" "demo_hook_db []"] by (simp add: Let_def)
  then show ?thesis by (auto simp: map_eq_Cons_conv)
qed

definition demo_source :: "idem_db inbound_source" where
  "demo_source = \<lparr>wi_verify = (\<lambda>body signature. True), wi_handle = (\<lambda>body source t. io_return ())\<rparr>"

definition demo_inbound_db :: idem_db where
  "demo_inbound_db = \<lparr>id_rows = [], id_cache = (\<lambda>_. None)\<rparr>"


end
