(* ===== verification/Master_Data.thy ===== *)
theory Master_Data
  imports Import_Stages
begin

text \<open>
  What the vendor and the product module share (\<open>business/party/vendor\<close>, \<open>business/procurement/product\<close>):
  the visibility of shared master data, the normal form of codes, the texts their value objects accept, and the
  pages of a listing (\<open>shared-kernel/types/pagination.ts\<close>). The interface \<open>coded_table\<close> states
  what a table of coded master data promises and derives that a code names at most one visible row.
\<close>

section \<open>Visibility and texts\<close>

abbreviation shared_scope :: "request_context \<Rightarrow> string option \<Rightarrow> bool" where
  "shared_scope c \<equiv> tenant_where (ctx_tenantId c) True"

definition to_lower :: "string \<Rightarrow> string" where
  "to_lower s = map lower_char s"

text \<open>\<open>input.trim().toUpperCase()\<close>\<close>

definition normal_code :: "string \<Rightarrow> string" where
  "normal_code s = to_upper (trim s)"

definition code_char :: "char \<Rightarrow> bool" where
  "code_char c \<longleftrightarrow> c \<in> set ''ABCDEFGHIJKLMNOPQRSTUVWXYZ-0123456789''"

text \<open>The pattern \<open>[A-Z0-9-]{lo,hi}\<close> over the whole text.\<close>

definition code_text :: "nat \<Rightarrow> nat \<Rightarrow> string \<Rightarrow> bool" where
  "code_text lo hi s \<longleftrightarrow> lo \<le> length s \<and> length s \<le> hi \<and> list_all code_char s"

text \<open>
  The e-mail pattern: one at sign, no white space, something before it, and behind it a dot that
  has something on both sides.
\<close>

definition dotted :: "string \<Rightarrow> bool" where
  "dotted s \<longleftrightarrow> CHR ''.'' \<in> set (butlast (tl s))"

definition email_text :: "string \<Rightarrow> bool" where
  "email_text s \<longleftrightarrow> list_all (\<lambda>c. \<not> is_space c) s \<and>
     (case split_on (CHR ''@'') s of [local_part, domain] \<Rightarrow> local_part \<noteq> [] \<and> dotted domain | _ \<Rightarrow> False)"

text \<open>\<open>input.trim() || null\<close> and \<open>input?.trim() || null\<close>\<close>

definition trimmed_or_null :: "string \<Rightarrow> string option" where
  "trimmed_or_null s = (if trim s = [] then None else Some (trim s))"

definition opt_trimmed_or_null :: "string option \<Rightarrow> string option" where
  "opt_trimmed_or_null s = Option.bind s trimmed_or_null"

lemma code_char_upper: "code_char c \<Longrightarrow> upper_char c = c"
  by (auto simp: code_char_def upper_char_def less_eq_char_def)

lemma code_char_not_space: "code_char c \<Longrightarrow> \<not> is_space c"
  by (auto simp: code_char_def is_space_def)

lemma trim_no_space: "(\<And>c. c \<in> set s \<Longrightarrow> \<not> is_space c) \<Longrightarrow> trim s = s"
proof -
  assume no: "\<And>c. c \<in> set s \<Longrightarrow> \<not> is_space c"
  have d: "dropWhile is_space xs = xs" if "\<And>c. c \<in> set xs \<Longrightarrow> \<not> is_space c" for xs
    using that by (cases xs) auto
  show ?thesis unfolding trim_def d [OF no, simplified] using d [of "rev s"] no by simp
qed

lemma normal_code_fixed: "code_text lo hi s \<Longrightarrow> normal_code s = s"
  unfolding normal_code_def to_upper_def code_text_def list_all_iff
  by (simp add: trim_no_space code_char_not_space map_idI code_char_upper)

lemma find_first_inserted:
  "(\<And>r. r \<in> set rows \<Longrightarrow> \<not> p r) \<Longrightarrow> p new \<Longrightarrow> find_first p (insert_row new rows) = Some new"
  unfolding find_first_def insert_row_def by (induction rows) auto

lemma tenant_where_self [simp]: "tenant_where t b t"
  by (simp add: tenant_where_def)

section \<open>Pages\<close>

record page_query =
  pgq_page :: int
  pgq_pageSize :: int

record 'r page_result =
  pgr_items :: "'r list"
  pgr_page :: int
  pgr_pageSize :: int
  pgr_total :: nat
  pgr_totalPages :: int

definition normalizePageQuery :: "int option \<Rightarrow> int option \<Rightarrow> page_query" where
  "normalizePageQuery page pageSize =
     \<lparr>pgq_page = max 1 (coalesce page 1), pgq_pageSize = min 100 (max 1 (coalesce pageSize 20))\<rparr>"

text \<open>\<open>findMany\<close> with \<open>skip\<close>, \<open>take\<close> and \<open>orderBy: createdAt desc\<close>, and the count beside it.\<close>

definition page_of :: "page_query \<Rightarrow> ('r \<Rightarrow> int) \<Rightarrow> ('r \<Rightarrow> 'x) \<Rightarrow> 'r list \<Rightarrow> 'x page_result" where
  "page_of q createdAt toRecord rows =
     (let skip = (pgq_page q - 1) * pgq_pageSize q; total = length rows in
      \<lparr>pgr_items = map toRecord (take (nat (pgq_pageSize q)) (drop (nat skip) (sort_key (\<lambda>r. - createdAt r) rows))),
       pgr_page = pgq_page q, pgr_pageSize = pgq_pageSize q, pgr_total = total,
       pgr_totalPages = - ((- int total) div pgq_pageSize q)\<rparr>)"

lemma normal_page: "1 \<le> pgq_page (normalizePageQuery p s)" "1 \<le> pgq_pageSize (normalizePageQuery p s)"
  "pgq_pageSize (normalizePageQuery p s) \<le> 100"
  by (simp_all add: normalizePageQuery_def)

lemma chunks_append: "concat (map (\<lambda>k. take n (drop (k * n) xs)) [0..<m]) = take (m * n) xs"
proof (induction m)
  case (Suc m)
  have "take (Suc m * n) xs = take (m * n) xs @ take n (drop (m * n) xs)"
    using take_add [of "m * n" n xs] by (simp add: add.commute)
  moreover have "concat (map (\<lambda>k. take n (drop (k * n) xs)) [0..<Suc m]) =
      concat (map (\<lambda>k. take n (drop (k * n) xs)) [0..<m]) @ take n (drop (m * n) xs)" by simp
  ultimately show ?case using Suc by presburger
qed simp

text \<open>The pages of a listing, one behind the other, are the listing: nothing is left out or shown twice.\<close>

lemma pages_cover:
  fixes s :: int and createdAt :: "'r \<Rightarrow> int" and toRecord :: "'r \<Rightarrow> 'x" and rows :: "'r list"
  assumes "1 \<le> s"
  defines "pages \<equiv> nat (pgr_totalPages (page_of \<lparr>pgq_page = 1, pgq_pageSize = s\<rparr> createdAt toRecord rows))"
  shows "concat (map (\<lambda>k. pgr_items (page_of \<lparr>pgq_page = int k + 1, pgq_pageSize = s\<rparr> createdAt toRecord rows)) [0..<pages])
    = map toRecord (sort_key (\<lambda>r. - createdAt r) rows)"
proof -
  let ?xs = "sort_key (\<lambda>r. - createdAt r) rows"
  obtain n where n: "s = int n" "0 < n" using assms(1) by (metis zero_less_one order_less_le_trans pos_int_cases)
  have "length rows \<le> pages * n"
  proof -
    have p: "int pages = - ((- int (length rows)) div int n)"
      unfolding pages_def page_of_def Let_def n(1) using n(2) by (simp add: div_nonpos_pos_le0)
    have "int n * ((- int (length rows)) div int n) \<le> - int (length rows)"
      using n(2) by (metis mult_div_mod_eq add_increasing2 le_add_same_cancel1 of_nat_0_less_iff pos_mod_sign)
    then have "int (length rows) \<le> int (pages * n)" using p by (simp add: mult.commute)
    then show ?thesis by linarith
  qed
  moreover have "concat (map (\<lambda>k. map toRecord (take n (drop (k * n) ?xs))) [0..<pages]) =
      map toRecord (concat (map (\<lambda>k. take n (drop (k * n) ?xs)) [0..<pages]))"
    by (simp add: map_concat o_def)
  ultimately show ?thesis
    by (simp add: page_of_def Let_def n(1) chunks_append nat_mult_distrib)
qed

section \<open>Tables of coded master data\<close>

text \<open>
  No two rows a request can see carry the same code. The provider checks a code against what its
  request sees before it inserts a row of its own tenant; the rest follows from the interface.
\<close>

definition same_audience :: "string option \<Rightarrow> string option \<Rightarrow> bool" where
  "same_audience t u \<longleftrightarrow> t = None \<or> u = None \<or> t = u"

definition codes_apart :: "('r \<Rightarrow> string) \<Rightarrow> ('r \<Rightarrow> string option) \<Rightarrow> 'r list \<Rightarrow> bool" where
  "codes_apart code tenant rows \<longleftrightarrow>
     sorted_wrt (\<lambda>r r'. code r = code r' \<longrightarrow> \<not> same_audience (tenant r) (tenant r')) rows"

lemma codes_apart_insert:
  assumes "codes_apart code tenant rows" "\<And>r. r \<in> set rows \<Longrightarrow> tenant_where t True (tenant r) \<Longrightarrow> code r \<noteq> code new"
    and "tenant new = t"
  shows "codes_apart code tenant (insert_row new rows)"
proof -
  have "\<not> same_audience (tenant r) t" if "r \<in> set rows" "code r = code new" for r
  proof -
    have "\<not> tenant_where t True (tenant r)" using assms(2) [OF that(1)] that(2) by blast
    then have "truthy t \<and> tenant r \<noteq> t \<and> tenant r \<noteq> None"
      by (auto simp: tenant_where_def split: if_splits)
    then show ?thesis by (cases t) (auto simp: same_audience_def)
  qed
  then show ?thesis using assms(1,3) by (auto simp: codes_apart_def insert_row_def sorted_wrt_append)
qed

lemma codes_apart_map_where:
  assumes "codes_apart code tenant rows"
    and "\<And>r. r \<in> set rows \<Longrightarrow> p r \<Longrightarrow> code (f r) = code r \<and> tenant (f r) = tenant r"
  shows "codes_apart code tenant (map_where p f rows)"
  using assms unfolding codes_apart_def by (induction rows) (auto simp: set_map_where)

lemma codes_apart_visible:
  assumes "codes_apart code tenant rows" "truthy t"
  shows "length (filter (\<lambda>r. code r = c \<and> tenant_where t True (tenant r)) rows) \<le> 1"
  using assms(1)
proof (induction rows)
  case (Cons r rows)
  have "filter (\<lambda>r. code r = c \<and> tenant_where t True (tenant r)) rows = []"
    if r: "code r = c" "tenant_where t True (tenant r)"
  proof -
    have "\<not> (code r' = c \<and> tenant_where t True (tenant r'))" if "r' \<in> set rows" for r'
      using Cons.prems that r assms(2) by (auto simp: codes_apart_def same_audience_def tenant_where_def)
    then show ?thesis by (simp add: filter_empty_conv)
  qed
  with Cons show ?case by (auto simp: codes_apart_def)
qed simp

section \<open>The interface\<close>

definition row_inserted :: "('r \<Rightarrow> string) \<Rightarrow> ('r \<Rightarrow> string option) \<Rightarrow> 'r list \<Rightarrow> 'r list \<Rightarrow> bool" where
  "row_inserted code tenant rows rows' \<longleftrightarrow> (\<exists>new. rows' = insert_row new rows \<and>
     (\<forall>r \<in> set rows. tenant_where (tenant new) True (tenant r) \<longrightarrow> code r \<noteq> code new))"

definition rows_rewritten :: "('r \<Rightarrow> string) \<Rightarrow> ('r \<Rightarrow> string option) \<Rightarrow> 'r list \<Rightarrow> 'r list \<Rightarrow> bool" where
  "rows_rewritten code tenant rows rows' \<longleftrightarrow> (\<exists>p f. rows' = map_where p f rows \<and>
     (\<forall>r \<in> set rows. p r \<longrightarrow> code (f r) = code r \<and> tenant (f r) = tenant r))"

definition well_coded :: "('r \<Rightarrow> string) \<Rightarrow> ('r \<Rightarrow> string option) \<Rightarrow> (string \<Rightarrow> bool) \<Rightarrow> 'r list \<Rightarrow> bool" where
  "well_coded code tenant valid_code rows \<longleftrightarrow> codes_apart code tenant rows \<and> (\<forall>r \<in> set rows. valid_code (code r))"

lemma rows_kept_apart:
  assumes "row_inserted code tenant rows rows' \<or> rows_rewritten code tenant rows rows'" "codes_apart code tenant rows"
  shows "codes_apart code tenant rows'"
  using assms(1)
proof
  assume "row_inserted code tenant rows rows'"
  then obtain new where "rows' = insert_row new rows"
    "\<And>r. r \<in> set rows \<Longrightarrow> tenant_where (tenant new) True (tenant r) \<Longrightarrow> code r \<noteq> code new"
    by (auto simp: row_inserted_def)
  then show ?thesis using codes_apart_insert [OF assms(2), of "tenant new" new] by simp
next
  assume "rows_rewritten code tenant rows rows'"
  then obtain p f where "rows' = map_where p f rows"
    "\<And>r. r \<in> set rows \<Longrightarrow> p r \<Longrightarrow> code (f r) = code r \<and> tenant (f r) = tenant r"
    by (auto simp: rows_rewritten_def)
  then show ?thesis using codes_apart_map_where [OF assms(2), of p f] by simp
qed

locale coded_table =
  fixes code :: "'r \<Rightarrow> string"
    and tenant :: "'r \<Rightarrow> string option"
    and table :: "'d \<Rightarrow> 'r list"
    and valid_code :: "string \<Rightarrow> bool"
    and step :: "'d \<Rightarrow> 'd \<Rightarrow> bool"
  assumes step_valid: "step d d' \<Longrightarrow> \<forall>r \<in> set (table d). valid_code (code r) \<Longrightarrow>
      \<forall>r \<in> set (table d'). valid_code (code r)"
    and step_cases: "step d d' \<Longrightarrow> \<forall>r \<in> set (table d). valid_code (code r) \<Longrightarrow>
      row_inserted code tenant (table d) (table d') \<or> rows_rewritten code tenant (table d) (table d')"
begin

lemma step_well_coded:
  "step d d' \<Longrightarrow> well_coded code tenant valid_code (table d) \<Longrightarrow> well_coded code tenant valid_code (table d')"
  unfolding well_coded_def using rows_kept_apart [OF step_cases] step_valid by blast

lemma run_well_coded:
  "step\<^sup>*\<^sup>* d d' \<Longrightarrow> well_coded code tenant valid_code (table d) \<Longrightarrow> well_coded code tenant valid_code (table d')"
  by (induction rule: rtranclp_induct) (auto intro: step_well_coded)

lemma code_names_one:
  assumes "step\<^sup>*\<^sup>* d d'" "well_coded code tenant valid_code (table d)" "truthy t"
  shows "length (filter (\<lambda>r. code r = c \<and> tenant_where t True (tenant r)) (table d')) \<le> 1"
proof -
  have "codes_apart code tenant (table d')"
    using run_well_coded [OF assms(1,2)] by (simp add: well_coded_def)
  from codes_apart_visible [OF this assms(3)] show ?thesis .
qed

end

end
