(* ===== verification/Vendor.thy ===== *)
theory Vendor
  imports Master_Data
begin

text \<open>
  The vendor module (\<open>business/party/vendor\<close>): the aggregate with its status table and factory, the rows and
  repositories, the use cases, the port it offers to purchasing and its handler of vendor imports. The database
  also carries the tables of the import pipeline, whose worker calls that handler.
\<close>

section \<open>The aggregate\<close>

datatype vendor_status = V_ACTIVE | V_INACTIVE | V_BLOCKED

fun vendor_status_name :: "vendor_status \<Rightarrow> string" where
  "vendor_status_name V_ACTIVE = ''ACTIVE''"
| "vendor_status_name V_INACTIVE = ''INACTIVE''"
| "vendor_status_name V_BLOCKED = ''BLOCKED''"

datatype vendor_event =
    VendorCreated string string string
  | VendorUpdated string
  | VendorActivated string
  | VendorDeactivated string
  | VendorBlocked string

record vendor =
  vn_id :: string
  vn_version :: int
  vn_events :: "vendor_event list"
  vn_code :: string
  vn_name :: string
  vn_email :: "string option"
  vn_phone :: "string option"
  vn_address :: "string option"
  vn_status :: vendor_status
  vn_createdAt :: int
  vn_updatedAt :: int

record create_vendor_input =
  cv_code :: string
  cv_name :: string
  cv_email :: "string option"
  cv_phone :: "string option"
  cv_address :: "string option"

record update_vendor_input =
  uv_name :: "string option"
  uv_email :: "string option"
  uv_phone :: "string option"
  uv_address :: "string option"

definition inv_vendor_create :: "string \<Rightarrow> string \<Rightarrow> string option \<Rightarrow> unit result" where
  "inv_vendor_create code name email =
     (if trim code = [] then throw 422 ''Vendor code is required''
      else if trim name = [] then throw 422 ''Vendor name is required''
      else if email \<noteq> None \<and> trim (the email) = [] then throw 422 ''Vendor email cannot be blank''
      else Inr ())"

definition vendor_allowed :: "vendor_status \<Rightarrow> vendor_status list" where
  "vendor_allowed s = (case s of V_ACTIVE \<Rightarrow> [V_INACTIVE, V_BLOCKED] | V_INACTIVE \<Rightarrow> [V_ACTIVE, V_BLOCKED] | V_BLOCKED \<Rightarrow> [V_ACTIVE])"

definition inv_vendor_transition :: "vendor_status \<Rightarrow> vendor_status \<Rightarrow> unit result" where
  "inv_vendor_transition status to =
     (if status = to then Inr ()
      else if to \<notin> set (vendor_allowed status)
      then throw 422 (''Invalid vendor status transition: '' @ vendor_status_name status @ '' -> '' @ vendor_status_name to)
      else Inr ())"

definition inv_vendor_code :: "string \<Rightarrow> unit result" where
  "inv_vendor_code code =
     (if normal_code code = [] then throw 422 ''Vendor code cannot be empty''
      else if \<not> code_text 2 32 (normal_code code) then throw 422 ''Vendor code must be 2-32 chars of letters, digits or dashes''
      else Inr ())"

definition inv_vendor_name :: "string \<Rightarrow> unit result" where
  "inv_vendor_name name =
     (if trim name = [] then throw 422 ''Vendor name cannot be empty''
      else if length (trim name) > 200 then throw 422 ''Vendor name cannot exceed 200 characters''
      else Inr ())"

definition inv_vendor_email :: "string \<Rightarrow> unit result" where
  "inv_vendor_email email =
     (if email = [] then Inr ()
      else if \<not> email_text (to_lower (trim email)) then throw 422 ''Invalid vendor email''
      else Inr ())"

definition vendorName_create :: "string \<Rightarrow> string" where "vendorName_create input = trim input"
definition vendorCode_create :: "string \<Rightarrow> string" where "vendorCode_create input = normal_code input"
definition vendorEmail_create :: "string \<Rightarrow> string" where "vendorEmail_create input = to_lower (trim input)"

text \<open>\<open>email ? VendorEmail.create(email) : null\<close>\<close>

definition email_or_null :: "string option \<Rightarrow> string option" where
  "email_or_null email = (if truthy email then Some (vendorEmail_create (the email)) else None)"

definition vendor_addEvent :: "vendor_event \<Rightarrow> vendor \<Rightarrow> vendor" where
  "vendor_addEvent ev v = v\<lparr>vn_events := vn_events v @ [ev]\<rparr>"

definition vendor_pullEvents :: "vendor \<Rightarrow> vendor_event list \<times> vendor" where
  "vendor_pullEvents v = (vn_events v, v\<lparr>vn_events := []\<rparr>)"

definition vendor_create :: "int \<Rightarrow> string \<Rightarrow> create_vendor_input \<Rightarrow> vendor result" where
  "vendor_create now uuid input =
     and_then (inv_vendor_create (cv_code input) (cv_name input) (cv_email input)) (\<lambda>_.
     and_then (inv_vendor_code (cv_code input)) (\<lambda>_.
     and_then (inv_vendor_name (cv_name input)) (\<lambda>_.
     and_then (if truthy (cv_email input) then inv_vendor_email (the (cv_email input)) else Inr ()) (\<lambda>_.
       let vendor = \<lparr>vn_id = uuid, vn_version = 1, vn_events = [], vn_code = vendorCode_create (cv_code input),
             vn_name = vendorName_create (cv_name input), vn_email = email_or_null (cv_email input),
             vn_phone = opt_trimmed_or_null (cv_phone input), vn_address = opt_trimmed_or_null (cv_address input),
             vn_status = V_ACTIVE, vn_createdAt = now, vn_updatedAt = now\<rparr>
       in Inr (vendor_addEvent (VendorCreated (vn_id vendor) (vn_code vendor) (vn_name vendor)) vendor)))))"

definition isOrderable :: "vendor \<Rightarrow> bool" where
  "isOrderable v \<longleftrightarrow> vn_status v = V_ACTIVE"

text \<open>\<open>policyRegistry\<close>'s \<open>vendor-orderable\<close>\<close>

definition policy_orderable :: "vendor_status \<Rightarrow> bool" where
  "policy_orderable status = (if status = V_BLOCKED then False else if status = V_INACTIVE then False else True)"

definition vendor_update :: "int \<Rightarrow> update_vendor_input \<Rightarrow> vendor \<Rightarrow> vendor" where
  "vendor_update now input v =
     (let v = (case uv_name input of None \<Rightarrow> v | Some x \<Rightarrow> v\<lparr>vn_name := vendorName_create x\<rparr>);
          v = (case uv_email input of None \<Rightarrow> v | Some x \<Rightarrow> v\<lparr>vn_email := email_or_null (Some x)\<rparr>);
          v = (case uv_phone input of None \<Rightarrow> v | Some x \<Rightarrow> v\<lparr>vn_phone := trimmed_or_null x\<rparr>);
          v = (case uv_address input of None \<Rightarrow> v | Some x \<Rightarrow> v\<lparr>vn_address := trimmed_or_null x\<rparr>)
      in vendor_addEvent (VendorUpdated (vn_id v)) (v\<lparr>vn_updatedAt := now\<rparr>))"

definition vendor_activate :: "int \<Rightarrow> vendor \<Rightarrow> vendor result" where
  "vendor_activate now v = and_then (inv_vendor_transition (vn_status v) V_ACTIVE) (\<lambda>_.
     Inr (vendor_addEvent (VendorActivated (vn_id v)) (v\<lparr>vn_status := V_ACTIVE, vn_updatedAt := now\<rparr>)))"

definition vendor_deactivate :: "int \<Rightarrow> vendor \<Rightarrow> vendor result" where
  "vendor_deactivate now v = and_then (inv_vendor_transition (vn_status v) V_INACTIVE) (\<lambda>_.
     Inr (vendor_addEvent (VendorDeactivated (vn_id v)) (v\<lparr>vn_status := V_INACTIVE, vn_updatedAt := now\<rparr>)))"

definition vendor_block :: "int \<Rightarrow> vendor \<Rightarrow> vendor result" where
  "vendor_block now v = and_then (inv_vendor_transition (vn_status v) V_BLOCKED) (\<lambda>_.
     Inr (vendor_addEvent (VendorBlocked (vn_id v)) (v\<lparr>vn_status := V_BLOCKED, vn_updatedAt := now\<rparr>)))"

section \<open>Rows and the mapper\<close>

text \<open>The columns \<open>toRow\<close> writes, less the version.\<close>

record vendor_data =
  vw_id :: string
  vw_code :: string
  vw_name :: string
  vw_email :: "string option"
  vw_phone :: "string option"
  vw_address :: "string option"
  vw_status :: vendor_status

record vendor_row =
  vw_data :: vendor_data
  vw_version :: int
  vw_tenantId :: "string option"
  vw_companyId :: string
  vw_createdAt :: int
  vw_updatedAt :: int

record vendor_db = import_db +
  vn_rows :: "vendor_row list"
  vn_replica :: "vendor_row list"

abbreviation vw_rowId :: "vendor_row \<Rightarrow> string" where "vw_rowId r \<equiv> vw_id (vw_data r)"
abbreviation vw_rowCode :: "vendor_row \<Rightarrow> string" where "vw_rowCode r \<equiv> vw_code (vw_data r)"
abbreviation vw_rowStatus :: "vendor_row \<Rightarrow> vendor_status" where "vw_rowStatus r \<equiv> vw_status (vw_data r)"

definition vendor_toDomain :: "vendor_row \<Rightarrow> vendor" where
  "vendor_toDomain row = (let d = vw_data row in
     \<lparr>vn_id = vw_id d, vn_version = vw_version row, vn_events = [], vn_code = vendorCode_create (vw_code d),
      vn_name = vendorName_create (vw_name d), vn_email = email_or_null (vw_email d), vn_phone = vw_phone d,
      vn_address = vw_address d, vn_status = vw_status d, vn_createdAt = vw_createdAt row, vn_updatedAt = vw_updatedAt row\<rparr>)"

definition vendor_toRow :: "vendor \<Rightarrow> vendor_data" where
  "vendor_toRow v = \<lparr>vw_id = vn_id v, vw_code = vn_code v, vw_name = vn_name v, vw_email = vn_email v,
     vw_phone = vn_phone v, vw_address = vn_address v, vw_status = vn_status v\<rparr>"

section \<open>The command repository\<close>

definition vendor_unique :: "vendor_row list \<Rightarrow> bool" where
  "vendor_unique rows \<longleftrightarrow> distinct (map vw_rowId rows) \<and> distinct (map (\<lambda>r. (vw_companyId r, vw_rowCode r)) rows)"

definition vendor_constraints :: "vendor_row list \<Rightarrow> unit result" where
  "vendor_constraints rows = check (vendor_unique rows) (throw_plain ''Unique constraint failed'')"

definition write_vendors :: "vendor_row list \<Rightarrow> (unit, 'a vendor_db_scheme) tx" where
  "write_vendors rows' = tx_then (tx_lift (vendor_constraints rows')) (\<lambda>_. tx_write (\<lambda>db. db\<lparr>vn_rows := rows'\<rparr>))"

definition vendor_save :: "env \<Rightarrow> vendor \<Rightarrow> (unit, 'a vendor_db_scheme) tx" where
  "vendor_save e v = tx_then (tx_read vn_rows) (\<lambda>rows. write_vendors (insert_row
     \<lparr>vw_data = vendor_toRow v, vw_version = vn_version v, vw_tenantId = ctx_tenantId (e_ctx e),
      vw_companyId = resolveCompanyId (e_ctx e), vw_createdAt = e_now e, vw_updatedAt = e_now e\<rparr> rows))"

definition vendor_cas :: "env \<Rightarrow> vendor \<Rightarrow> vendor_row \<Rightarrow> bool" where
  "vendor_cas e v r \<longleftrightarrow> vw_rowId r = vn_id v \<and> vw_version r = vn_version v \<and> shared_scope (e_ctx e) (vw_tenantId r)"

definition vendor_written :: "env \<Rightarrow> vendor \<Rightarrow> vendor_row \<Rightarrow> vendor_row" where
  "vendor_written e v r = r\<lparr>vw_data := vendor_toRow v, vw_version := vw_version r + 1, vw_updatedAt := e_now e\<rparr>"

definition vendor_update_row :: "env \<Rightarrow> vendor \<Rightarrow> (unit, 'a vendor_db_scheme) tx" where
  "vendor_update_row e v = tx_then (tx_read vn_rows) (\<lambda>rows.
     let (count, rows') = update_many (vendor_cas e v) (vendor_written e v) rows in
     if count = 0 then tx_lift (conflict ''Vendor was modified concurrently (not found in scope)'')
     else write_vendors rows')"

definition vendor_find :: "env \<Rightarrow> (vendor_row \<Rightarrow> bool) \<Rightarrow> (vendor option, 'a vendor_db_scheme) tx" where
  "vendor_find e wanted = tx_read (\<lambda>db. map_option vendor_toDomain
     (find_first (\<lambda>r. wanted r \<and> shared_scope (e_ctx e) (vw_tenantId r)) (vn_rows db)))"

definition vendor_findById :: "env \<Rightarrow> string \<Rightarrow> (vendor option, 'a vendor_db_scheme) tx" where
  "vendor_findById e i = vendor_find e (\<lambda>r. vw_rowId r = i)"

definition vendor_findByCode :: "env \<Rightarrow> string \<Rightarrow> (vendor option, 'a vendor_db_scheme) tx" where
  "vendor_findByCode e c = vendor_find e (\<lambda>r. vw_rowCode r = c)"

section \<open>The query repository\<close>

record vendor_query_record =
  vq_id :: string
  vq_code :: string
  vq_name :: string
  vq_email :: "string option"
  vq_phone :: "string option"
  vq_address :: "string option"
  vq_status :: vendor_status
  vq_createdAt :: int
  vq_updatedAt :: int

definition vendor_toRecord :: "vendor_row \<Rightarrow> vendor_query_record" where
  "vendor_toRecord row = (let d = vw_data row in
     \<lparr>vq_id = vw_id d, vq_code = vw_code d, vq_name = vw_name d, vq_email = vw_email d, vq_phone = vw_phone d,
      vq_address = vw_address d, vq_status = vw_status d, vq_createdAt = vw_createdAt row, vq_updatedAt = vw_updatedAt row\<rparr>)"

definition vendor_query_findById :: "env \<Rightarrow> string \<Rightarrow> 'a vendor_db_scheme \<Rightarrow> vendor_query_record option" where
  "vendor_query_findById e i db = map_option vendor_toRecord
     (find_first (\<lambda>r. vw_rowId r = i \<and> shared_scope (e_ctx e) (vw_tenantId r)) (vn_replica db))"

definition findOrderableById :: "env \<Rightarrow> string \<Rightarrow> 'a vendor_db_scheme \<Rightarrow> vendor_query_record option" where
  "findOrderableById e i db = map_option vendor_toRecord
     (find_first (\<lambda>r. vw_rowId r = i \<and> vw_rowStatus r = V_ACTIVE \<and> shared_scope (e_ctx e) (vw_tenantId r)) (vn_replica db))"

definition findOrderableByCodes :: "env \<Rightarrow> string list \<Rightarrow> 'a vendor_db_scheme \<Rightarrow> vendor_query_record list" where
  "findOrderableByCodes e codes db = (if codes = [] then [] else map vendor_toRecord
     (filter (\<lambda>r. vw_rowCode r \<in> set codes \<and> vw_rowStatus r = V_ACTIVE \<and> shared_scope (e_ctx e) (vw_tenantId r)) (vn_replica db)))"

definition vendor_findAll :: "env \<Rightarrow> page_query \<Rightarrow> 'a vendor_db_scheme \<Rightarrow> vendor_query_record page_result" where
  "vendor_findAll e q db = page_of q vw_createdAt vendor_toRecord
     (filter (\<lambda>r. shared_scope (e_ctx e) (vw_tenantId r)) (vn_replica db))"

text \<open>The read connection catches up with the committed state.\<close>

definition vendors_catch_up :: "'a vendor_db_scheme \<Rightarrow> 'a vendor_db_scheme" where
  "vendors_catch_up db = db\<lparr>vn_replica := vn_rows db\<rparr>"

section \<open>Use cases\<close>

fun vendor_event_message :: "vendor_event \<Rightarrow> string \<times> (string \<times> json) list" where
  "vendor_event_message (VendorCreated i c n) = (''VendorCreated'',
     [(''vendorId'', JObj [(''value'', JStr i)]), (''code'', JStr c), (''name'', JStr n)])"
| "vendor_event_message (VendorUpdated i) = (''VendorUpdated'', [(''vendorId'', JObj [(''value'', JStr i)])])"
| "vendor_event_message (VendorActivated i) = (''VendorActivated'', [(''vendorId'', JObj [(''value'', JStr i)])])"
| "vendor_event_message (VendorDeactivated i) = (''VendorDeactivated'', [(''vendorId'', JObj [(''value'', JStr i)])])"
| "vendor_event_message (VendorBlocked i) = (''VendorBlocked'', [(''vendorId'', JObj [(''value'', JStr i)])])"

definition vendor_publish :: "env \<Rightarrow> vendor \<Rightarrow> (unit, 'a vendor_db_scheme) tx" where
  "vendor_publish e v = send_events e ''Vendor'' (vn_id v) (map vendor_event_message (fst (vendor_pullEvents v)))"

definition vendor_guard :: "env \<Rightarrow> string \<Rightarrow> (unit, 'a vendor_db_scheme) tx" where
  "vendor_guard e action = tx_lift (require_company_and_access (e_abac e) (e_ctx e)
     (not_found ''Company not found in request context'') ''Vendor'' action)"

definition create_vendor :: "env \<Rightarrow> create_vendor_input \<Rightarrow> (string, 'a vendor_db_scheme) tx" where
  "create_vendor e input =
     tx_then (vendor_guard e ''create'') (\<lambda>_.
     tx_then (draw_uuid e) (\<lambda>uuid.
     tx_then (tx_lift (vendor_create (e_now e) uuid input)) (\<lambda>vendor.
     tx_then (vendor_findByCode e (vn_code vendor)) (\<lambda>existing.
     if existing \<noteq> None then tx_lift (conflict (''Vendor with code \"'' @ vn_code vendor @ ''\" already exists''))
     else tx_then (vendor_save e vendor) (\<lambda>_.
          tx_then (vendor_publish e vendor) (\<lambda>_. tx_return (vn_id vendor)))))))"

text \<open>The common part of the two use cases on an existing vendor.\<close>

definition with_vendor :: "env \<Rightarrow> string \<Rightarrow> (vendor \<Rightarrow> vendor result) \<Rightarrow> (string, 'a vendor_db_scheme) tx" where
  "with_vendor e i change =
     tx_then (vendor_guard e ''update'') (\<lambda>_.
     tx_then (vendor_findById e i) (\<lambda>found.
     case found of None \<Rightarrow> tx_lift (not_found ''Vendor not found'')
     | Some vendor \<Rightarrow>
         tx_then (tx_lift (change vendor)) (\<lambda>vendor.
         tx_then (vendor_update_row e vendor) (\<lambda>_.
         tx_then (vendor_publish e vendor) (\<lambda>_. tx_return (vn_id vendor))))))"

definition update_vendor :: "env \<Rightarrow> string \<Rightarrow> update_vendor_input \<Rightarrow> (string, 'a vendor_db_scheme) tx" where
  "update_vendor e i input = with_vendor e i (\<lambda>v. Inr (vendor_update (e_now e) input v))"

datatype vendor_action = DO_ACTIVATE | DO_DEACTIVATE | DO_BLOCK

fun vendor_act :: "int \<Rightarrow> vendor_action \<Rightarrow> vendor \<Rightarrow> vendor result" where
  "vendor_act now DO_ACTIVATE = vendor_activate now"
| "vendor_act now DO_DEACTIVATE = vendor_deactivate now"
| "vendor_act now DO_BLOCK = vendor_block now"

definition change_vendor_status :: "env \<Rightarrow> string \<Rightarrow> vendor_action \<Rightarrow> (string, 'a vendor_db_scheme) tx" where
  "change_vendor_status e i action = with_vendor e i (vendor_act (e_now e) action)"

definition get_vendor :: "env \<Rightarrow> string \<Rightarrow> (vendor_query_record, 'a vendor_db_scheme) tx" where
  "get_vendor e i = tx_then (tx_read (vendor_query_findById e i)) (\<lambda>r.
     case r of None \<Rightarrow> tx_lift (not_found ''Vendor not found'') | Some x \<Rightarrow> tx_return x)"

definition list_vendors :: "env \<Rightarrow> page_query \<Rightarrow> (vendor_query_record page_result, 'a vendor_db_scheme) tx" where
  "list_vendors e q = tx_read (vendor_findAll e q)"

section \<open>The port for purchasing\<close>

definition vendor_reference_of :: "vendor_query_record \<Rightarrow> vendor_reference" where
  "vendor_reference_of r = \<lparr>vr_id = vq_id r, vr_code = vq_code r, vr_name = vq_name r\<rparr>"

definition getOrderableVendor :: "env \<Rightarrow> 'a vendor_db_scheme \<Rightarrow> string \<Rightarrow> vendor_reference option" where
  "getOrderableVendor e db i = map_option vendor_reference_of (findOrderableById e i db)"

definition findOrderableVendorsByCodes :: "env \<Rightarrow> 'a vendor_db_scheme \<Rightarrow> string list \<Rightarrow> vendor_reference list" where
  "findOrderableVendorsByCodes e db codes = map vendor_reference_of (findOrderableByCodes e codes db)"

section \<open>Importing vendors\<close>

definition vendor_field :: "string \<Rightarrow> bool \<Rightarrow> string list \<Rightarrow> nat \<Rightarrow> field_descriptor" where
  "vendor_field target required aliases len = \<lparr>fd_targetField = target, fd_dataType = ''string'', fd_required = required,
     fd_aliases = aliases, fd_i18nKey = ''vendor.'' @ target, fd_maxLength = Some len, fd_enumValues = None\<rparr>"

definition VENDOR_IMPORT_DESCRIPTOR :: import_descriptor where
  "VENDOR_IMPORT_DESCRIPTOR = \<lparr>de_entityKey = ''vendor'', de_version = 1,
     de_fields = [vendor_field ''code'' True [''Vendor Code'', ''vendor_code'', ''Code''] 64,
       vendor_field ''name'' True [''Vendor Name'', ''vendor_name'', ''Name''] 255,
       vendor_field ''email'' False [''Email'', ''e-mail''] 255,
       vendor_field ''phone'' False [''Phone'', ''Tel''] 64,
       vendor_field ''address'' False [''Address''] 512],
     de_upsertKeys = [[''code'']], de_maxRows = 10000, de_maxFileSizeBytes = 10 * 1024 * 1024, de_executionChunkSize = 100,
     de_templateStorageKey = None\<rparr>"

text \<open>A row of the pipeline: its number, a number, and the mapped columns, texts.\<close>

definition payload_text :: "string \<Rightarrow> row_payload \<Rightarrow> string option" where
  "payload_text k p = (case map_of p k of Some (VStr s) \<Rightarrow> Some s | _ \<Rightarrow> None)"

definition payload_rowNumber :: "row_payload \<Rightarrow> nat" where
  "payload_rowNumber p = (case map_of p ''rowNumber'' of Some (VNum (Fin q)) \<Rightarrow> nat \<lfloor>q\<rfloor> | _ \<Rightarrow> 0)"

definition vendor_row_errors :: "row_payload \<Rightarrow> string list" where
  "vendor_row_errors p =
     (if trim (coalesce (payload_text ''code'' p) []) = [] then [''code is required''] else []) @
     (if trim (coalesce (payload_text ''name'' p) []) = [] then [''name is required''] else []) @
     (if truthy (payload_text ''email'' p) \<and> CHR ''@'' \<notin> set (the (payload_text ''email'' p)) then [''email is invalid''] else [])"

definition vendor_verdict :: "row_payload \<Rightarrow> row_verdict" where
  "vendor_verdict p = \<lparr>vd_rowNumber = payload_rowNumber p,
     vd_status = (if vendor_row_errors p \<noteq> [] then V_INVALID else V_VALID),
     vd_errors = (if vendor_row_errors p \<noteq> [] then Some (vendor_row_errors p) else None)\<rparr>"

text \<open>\<open>String(undefined)\<close> is the text \<open>undefined\<close>.\<close>

definition vendor_of_payload :: "row_payload \<Rightarrow> create_vendor_input" where
  "vendor_of_payload p =
     \<lparr>cv_code = trim (coalesce (payload_text ''code'' p) ''undefined''),
      cv_name = trim (coalesce (payload_text ''name'' p) ''undefined''),
      cv_email = opt_trimmed_or_null (payload_text ''email'' p), cv_phone = opt_trimmed_or_null (payload_text ''phone'' p),
      cv_address = opt_trimmed_or_null (payload_text ''address'' p)\<rparr>"

definition import_vendor_row :: "env \<Rightarrow> row_payload \<Rightarrow> (row_outcome, 'a vendor_db_scheme) io" where
  "import_vendor_row e p = io_catch
     (io_then (transactional (create_vendor e (vendor_of_payload p))) (\<lambda>i. io_return
        \<lparr>ro_rowNumber = payload_rowNumber p, ro_status = X_APPLIED, ro_entityId = Some i, ro_secondaryEntityIds = None,
         ro_errorMessage = None\<rparr>))
     (\<lambda>er. io_return (outcome_without_entity X_FAILED (message er) (payload_rowNumber p)))"

fun import_vendor_rows :: "env \<Rightarrow> row_payload list \<Rightarrow> (row_outcome list, 'a vendor_db_scheme) io" where
  "import_vendor_rows e [] = io_return []"
| "import_vendor_rows e (p # ps) = io_then (import_vendor_row e p) (\<lambda>r.
     io_then (import_vendor_rows e ps) (\<lambda>rs. io_return (r # rs)))"

definition vendor_import_handler :: "env \<Rightarrow> 'a vendor_db_scheme import_handler" where
  "vendor_import_handler e =
     \<lparr>ih_preloadReferences = (\<lambda>ctx rows ix. io_return (VObj [])),
      ih_validateBatch = (\<lambda>ctx rows refs ix. io_return (map vendor_verdict rows)),
      ih_executeBatch = (\<lambda>ctx rows ix. import_vendor_rows (e\<lparr>e_ctx := ctx\<rparr>) rows)\<rparr>"

end
