(* ===== verification/Vendor_Properties.thy ===== *)
theory Vendor_Properties
  imports Vendor PO_UseCases
begin

text \<open>
  Vendors: the commands as steps of the table, codes that name one vendor per tenant, and what the port tells
  purchasing.
\<close>

section \<open>The status table\<close>

interpretation vendor_fsm: transition_guard vendor_allowed inv_vendor_transition
  by unfold_locales (auto simp: inv_vendor_transition_def)

lemma blocked_only_activates:
  "inv_vendor_transition V_BLOCKED t = Inr u \<Longrightarrow> t = V_BLOCKED \<or> t = V_ACTIVE"
  by (erule vendor_fsm.guard_cases) (auto simp: vendor_allowed_def)

section \<open>Commands\<close>

datatype vendor_command =
    CreateVendor create_vendor_input
  | UpdateVendor string update_vendor_input
  | ChangeVendorStatus string vendor_action

fun vendor_run :: "env \<Rightarrow> vendor_command \<Rightarrow> (string, 'a vendor_db_scheme) tx" where
  "vendor_run e (CreateVendor input) = create_vendor e input"
| "vendor_run e (UpdateVendor i input) = update_vendor e i input"
| "vendor_run e (ChangeVendorStatus i action) = change_vendor_status e i action"

text \<open>What an existing vendor is changed by.\<close>

fun command_change :: "int \<Rightarrow> vendor_command \<Rightarrow> (string \<times> (vendor \<Rightarrow> vendor result)) option" where
  "command_change now (CreateVendor input) = None"
| "command_change now (UpdateVendor i input) = Some (i, \<lambda>v. Inr (vendor_update now input v))"
| "command_change now (ChangeVendorStatus i action) = Some (i, vendor_act now action)"

lemma vendor_run_change: "command_change (e_now e) c = Some (i, g) \<Longrightarrow> vendor_run e c = with_vendor e i g"
  by (cases c) (auto simp: update_vendor_def change_vendor_status_def)

lemma vendor_act_Inr:
  "vendor_act now a v = Inr v' \<longleftrightarrow> (\<exists>s ev. inv_vendor_transition (vn_status v) s = Inr () \<and>
     (s, ev) = (case a of DO_ACTIVATE \<Rightarrow> (V_ACTIVE, VendorActivated (vn_id v))
        | DO_DEACTIVATE \<Rightarrow> (V_INACTIVE, VendorDeactivated (vn_id v)) | DO_BLOCK \<Rightarrow> (V_BLOCKED, VendorBlocked (vn_id v))) \<and>
     v' = vendor_addEvent ev (v\<lparr>vn_status := s, vn_updatedAt := now\<rparr>))"
  by (cases a) (auto simp: vendor_activate_def vendor_deactivate_def vendor_block_def res_simps)

lemma change_keeps:
  assumes "command_change now c = Some (i, g)" "g v = Inr v'"
  shows "vn_id v' = vn_id v \<and> vn_version v' = vn_version v \<and> vn_code v' = vn_code v \<and>
    (vn_status v' = vn_status v \<or>
     (\<exists>a. c = ChangeVendorStatus i a \<and> inv_vendor_transition (vn_status v) (vn_status v') = Inr ()))"
proof (cases c)
  case (UpdateVendor j input)
  then show ?thesis using assms by (auto simp: vendor_update_def vendor_addEvent_def Let_def split: option.splits)
next
  case (ChangeVendorStatus j a)
  then show ?thesis using assms by (auto simp: vendor_act_Inr vendor_addEvent_def)
qed (use assms in auto)

section \<open>What the commands write\<close>

abbreviation same_vendors :: "'a vendor_db_scheme \<Rightarrow> 'a vendor_db_scheme \<Rightarrow> bool" where
  "same_vendors db db' \<equiv> vn_rows db' = vn_rows db \<and> vn_replica db' = vn_replica db"

interpretation vendorless: tx_relation "same_vendors :: 'a vendor_db_scheme \<Rightarrow> 'a vendor_db_scheme \<Rightarrow> bool"
  by unfold_locales auto

lemma vendorless_publish: "tx_rel same_vendors (vendor_publish e v)"
proof -
  have d: "tx_rel same_vendors (draw_uuid e)" by (auto simp: tx_rel_def draw_uuid_def)
  have "tx_rel same_vendors (send_event e t i ev)" for t i ev
    unfolding send_event_def by (intro vendorless.rel_then d vendorless.rel_write) simp
  then show ?thesis unfolding vendor_publish_def send_events_def by (intro vendorless.rel_for)
qed

lemma write_vendors_Inr:
  "write_vendors rows' db = Inr (u, db') \<longleftrightarrow> vendor_unique rows' \<and> db' = db\<lparr>vn_rows := rows'\<rparr>"
  by (auto simp: write_vendors_def vendor_constraints_def res_simps)

lemma create_vendor_Inr:
  assumes "create_vendor e input db = Inr (i, db')"
  obtains v where "vendor_create (e_now e) i input = Inr v" "vn_id v = i"
    "\<forall>r \<in> set (vn_rows db). shared_scope (e_ctx e) (vw_tenantId r) \<longrightarrow> vw_rowCode r \<noteq> vn_code v"
    "vn_rows db' = insert_row \<lparr>vw_data = vendor_toRow v, vw_version = vn_version v, vw_tenantId = ctx_tenantId (e_ctx e),
      vw_companyId = resolveCompanyId (e_ctx e), vw_createdAt = e_now e, vw_updatedAt = e_now e\<rparr> (vn_rows db)"
    "vendor_unique (vn_rows db')" "vn_replica db' = vn_replica db"
proof -
  obtain uuid v db2 where v: "vendor_create (e_now e) uuid input = Inr v"
    and free: "find_first (\<lambda>r. vw_rowCode r = vn_code v \<and> shared_scope (e_ctx e) (vw_tenantId r)) (vn_rows db) = None"
    and save: "vendor_save e v (db\<lparr>pf_drawn := pf_drawn db + 1\<rparr>) = Inr ((), db2)"
    and pub: "vendor_publish e v db2 = Inr ((), db')" and i: "i = vn_id v"
    using assms by (auto simp: create_vendor_def vendor_guard_def res_simps draw_uuid_def vendor_findByCode_def vendor_find_def
        split: if_splits)
  have id: "vn_id v = uuid" using v by (auto simp: vendor_create_def res_simps vendor_addEvent_def Let_def split: if_splits)
  have s: "vn_rows db' = vn_rows db2" "vn_replica db' = vn_replica db2"
    using tx_relD [OF vendorless_publish pub] by simp_all
  show thesis
    by (rule that [of v]) (use v id i s save free in \<open>auto simp: vendor_save_def res_simps write_vendors_Inr find_first_def find_None_iff2\<close>)
qed

lemma with_vendor_Inr:
  assumes "with_vendor e i g db = Inr (x, db')"
  obtains r v where "r \<in> set (vn_rows db)" "vw_rowId r = i" "shared_scope (e_ctx e) (vw_tenantId r)"
    "g (vendor_toDomain r) = Inr v" "vn_rows db' = map_where (vendor_cas e v) (vendor_written e v) (vn_rows db)"
    "vendor_unique (vn_rows db')" "vn_replica db' = vn_replica db" "x = vn_id v"
proof -
  obtain r v db2 where r: "find_first (\<lambda>r. vw_rowId r = i \<and> shared_scope (e_ctx e) (vw_tenantId r)) (vn_rows db) = Some r"
    and g: "g (vendor_toDomain r) = Inr v" and upd: "vendor_update_row e v db = Inr ((), db2)"
    and pub: "vendor_publish e v db2 = Inr ((), db')" and x: "x = vn_id v"
    using assms by (auto simp: with_vendor_def vendor_guard_def res_simps vendor_findById_def vendor_find_def split: option.splits)
  have s: "vn_rows db' = vn_rows db2" "vn_replica db' = vn_replica db2"
    using tx_relD [OF vendorless_publish pub] by simp_all
  have "r \<in> set (vn_rows db) \<and> vw_rowId r = i \<and> shared_scope (e_ctx e) (vw_tenantId r)"
    using r by (auto simp: find_first_def dest: find_Some_iff2)
  then show thesis
    by (intro that [of r v]) (use g s upd x in \<open>auto simp: vendor_update_row_def update_many_def res_simps write_vendors_Inr split: if_splits\<close>)
qed

lemma changed_row:
  assumes "command_change (e_now e) c = Some (i, g)" "with_vendor e i g db = Inr (x, db')"
  obtains r v where "r \<in> set (vn_rows db)" "vw_rowId r = i" "g (vendor_toDomain r) = Inr v"
    "vn_rows db' = map_where (\<lambda>q. q = r) (vendor_written e v) (vn_rows db)"
    "vn_id v = i" "vn_code v = normal_code (vw_rowCode r)" "vendor_unique (vn_rows db')" "vn_replica db' = vn_replica db"
proof -
  obtain r v where r: "r \<in> set (vn_rows db)" "vw_rowId r = i" "shared_scope (e_ctx e) (vw_tenantId r)"
    and g: "g (vendor_toDomain r) = Inr v" and rows: "vn_rows db' = map_where (vendor_cas e v) (vendor_written e v) (vn_rows db)"
    and u: "vendor_unique (vn_rows db')" and rep: "vn_replica db' = vn_replica db"
    using with_vendor_Inr [OF assms(2)] by blast
  have v: "vn_id v = i" "vn_version v = vw_version r" "vn_code v = normal_code (vw_rowCode r)"
    using change_keeps [OF assms(1) g] r(2) by (simp_all add: vendor_toDomain_def vendorCode_create_def Let_def)
  have "map vw_rowId (vn_rows db') = map vw_rowId (vn_rows db)"
    unfolding rows by (rule map_map_where) (simp add: vendor_cas_def vendor_written_def vendor_toRow_def)
  then have d: "distinct (map vw_rowId (vn_rows db))" using u by (simp add: vendor_unique_def)
  have "vendor_cas e v q \<longleftrightarrow> q = r" if "q \<in> set (vn_rows db)" for q
    using distinct_key_unique [OF d that r(1)] r v by (auto simp: vendor_cas_def)
  then have "vn_rows db' = map_where (\<lambda>q. q = r) (vendor_written e v) (vn_rows db)"
    unfolding rows map_where_def by simp
  then show thesis using that [of r v] r g v u rep by blast
qed

section \<open>Histories of commands\<close>

text \<open>Each command is a transaction of its own; one that throws leaves the table as it is.\<close>

fun vendor_history :: "(env \<times> vendor_command) list \<Rightarrow> 'a vendor_db_scheme \<Rightarrow> 'a vendor_db_scheme" where
  "vendor_history [] db = db"
| "vendor_history ((e, c) # cs) db = vendor_history cs (snd (transactional (vendor_run e c) db))"

definition vendor_step :: "'a vendor_db_scheme \<Rightarrow> 'a vendor_db_scheme \<Rightarrow> bool" where
  "vendor_step db db' \<longleftrightarrow> (\<exists>e c x. vendor_run e c db = Inr (x, db'))"

lemma transactional_cases:
  obtains x db' where "m db = Inr (x, db')" "snd (transactional m db) = db'" | "snd (transactional m db) = db"
  by (cases "m db") (auto simp: transactional_def)

lemma history_steps: "vendor_step\<^sup>*\<^sup>* db (vendor_history cs db)"
proof (induction cs arbitrary: db)
  case (Cons ec cs)
  obtain e c where ec: "ec = (e, c)" by fastforce
  have "vendor_step\<^sup>*\<^sup>* db (snd (transactional (vendor_run e c) db))"
    by (rule transactional_cases [of "vendor_run e c" db]) (metis vendor_step_def r_into_rtranclp, simp)
  then show ?case using Cons.IH by (simp add: ec) (meson rtranclp_trans)
qed simp

lemma step_row_inserted:
  assumes "create_vendor e input db = Inr (x, db')"
  shows "row_inserted vw_rowCode vw_tenantId (vn_rows db) (vn_rows db')"
    "\<forall>r \<in> set (vn_rows db). code_text 2 32 (vw_rowCode r) \<Longrightarrow> \<forall>r \<in> set (vn_rows db'). code_text 2 32 (vw_rowCode r)"
proof -
  obtain v where v: "vendor_create (e_now e) x input = Inr v"
    and free: "\<forall>r \<in> set (vn_rows db). shared_scope (e_ctx e) (vw_tenantId r) \<longrightarrow> vw_rowCode r \<noteq> vn_code v"
    and rows: "vn_rows db' = insert_row \<lparr>vw_data = vendor_toRow v, vw_version = vn_version v, vw_tenantId = ctx_tenantId (e_ctx e),
      vw_companyId = resolveCompanyId (e_ctx e), vw_createdAt = e_now e, vw_updatedAt = e_now e\<rparr> (vn_rows db)"
    using create_vendor_Inr [OF assms] by blast
  show "row_inserted vw_rowCode vw_tenantId (vn_rows db) (vn_rows db')"
    unfolding row_inserted_def using rows free by (auto simp: vendor_toRow_def)
  have "code_text 2 32 (vn_code v)"
    using v by (auto simp: vendor_create_def res_simps inv_vendor_code_def vendor_addEvent_def vendorCode_create_def Let_def split: if_splits)
  then show "\<forall>r \<in> set (vn_rows db). code_text 2 32 (vw_rowCode r) \<Longrightarrow> \<forall>r \<in> set (vn_rows db'). code_text 2 32 (vw_rowCode r)"
    using rows by (auto simp: insert_row_def vendor_toRow_def)
qed

lemma step_rows_rewritten:
  assumes "command_change (e_now e) c = Some (i, g)" "with_vendor e i g db = Inr (x, db')"
    and valid: "\<forall>r \<in> set (vn_rows db). code_text 2 32 (vw_rowCode r)"
  shows "rows_rewritten vw_rowCode vw_tenantId (vn_rows db) (vn_rows db') \<and> (\<forall>r \<in> set (vn_rows db'). code_text 2 32 (vw_rowCode r))"
proof -
  obtain r v where r: "r \<in> set (vn_rows db)" and code: "vn_code v = normal_code (vw_rowCode r)"
    and rows: "vn_rows db' = map_where (\<lambda>q. q = r) (vendor_written e v) (vn_rows db)"
    using changed_row [OF assms(1,2)] by metis
  have k: "vw_rowCode (vendor_written e v r) = vw_rowCode r" "vw_tenantId (vendor_written e v r) = vw_tenantId r"
    using normal_code_fixed valid r by (auto simp: vendor_written_def vendor_toRow_def code)
  have "rows_rewritten vw_rowCode vw_tenantId (vn_rows db) (vn_rows db')"
    unfolding rows_rewritten_def rows using k by (intro exI [of _ "\<lambda>q. q = r"] exI [of _ "vendor_written e v"]) simp
  moreover have "\<forall>q \<in> set (vn_rows db'). code_text 2 32 (vw_rowCode q)"
    using valid k(1) unfolding rows set_map_where by auto
  ultimately show ?thesis by blast
qed

interpretation vendor_codes: coded_table vw_rowCode vw_tenantId
    "vn_rows :: 'a vendor_db_scheme \<Rightarrow> vendor_row list" "code_text 2 32" vendor_step
proof unfold_locales
  fix d d' :: "'a vendor_db_scheme"
  assume "vendor_step d d'" and valid: "\<forall>r \<in> set (vn_rows d). code_text 2 32 (vw_rowCode r)"
  then obtain e c x where run: "vendor_run e c d = Inr (x, d')" by (auto simp: vendor_step_def)
  have "(row_inserted vw_rowCode vw_tenantId (vn_rows d) (vn_rows d') \<or>
      rows_rewritten vw_rowCode vw_tenantId (vn_rows d) (vn_rows d')) \<and> (\<forall>r \<in> set (vn_rows d'). code_text 2 32 (vw_rowCode r))"
  proof (cases "command_change (e_now e) c")
    case None
    then obtain input where "c = CreateVendor input" by (cases c) auto
    then show ?thesis using step_row_inserted [of e input d x d'] run valid by simp
  next
    case (Some ig)
    obtain i g where ig: "ig = (i, g)" by fastforce
    have "with_vendor e i g d = Inr (x, d')" using run vendor_run_change Some ig by metis
    then show ?thesis using step_rows_rewritten [of e c i g d x d'] Some ig valid by simp
  qed
  then show "\<forall>r \<in> set (vn_rows d'). code_text 2 32 (vw_rowCode r)"
    "row_inserted vw_rowCode vw_tenantId (vn_rows d) (vn_rows d') \<or> rows_rewritten vw_rowCode vw_tenantId (vn_rows d) (vn_rows d')"
    by blast+
qed

lemma filter_length_mono: "(\<And>x. p x \<Longrightarrow> q x) \<Longrightarrow> length (filter p xs) \<le> length (filter q xs)"
  by (induction xs) (auto intro: le_SucI)


section \<open>Blocked vendors\<close>

definition vendor_blocked :: "string \<Rightarrow> vendor_row list \<Rightarrow> bool" where
  "vendor_blocked i rows \<longleftrightarrow> i \<in> vw_rowId ` set rows \<and> (\<forall>r \<in> set rows. vw_rowId r = i \<longrightarrow> vw_rowStatus r = V_BLOCKED)"

lemma blocked_rewritten:
  assumes "vendor_blocked i rows" "vw_rowId r = i \<Longrightarrow> vn_status v = V_BLOCKED" "vn_id v = vw_rowId r"
  shows "vendor_blocked i (map_where (\<lambda>q. q = r) (vendor_written e v) rows)"
proof -
  have w: "vw_rowId (vendor_written e v r) = vw_rowId r" "vw_rowStatus (vendor_written e v r) = vn_status v"
    using assms(3) by (simp_all add: vendor_written_def vendor_toRow_def)
  have "vw_rowId ` set (map_where (\<lambda>q. q = r) (vendor_written e v) rows) = vw_rowId ` set rows"
    using map_map_where [of "\<lambda>q. q = r" vw_rowId "vendor_written e v" rows] w(1) by (metis list.set_map)
  moreover have "vw_rowStatus q = V_BLOCKED"
    if "q \<in> set (map_where (\<lambda>q. q = r) (vendor_written e v) rows)" "vw_rowId q = i" for q
    using set_map_where_origin [OF that(1)] that(2) assms(1,2) w by (auto simp: vendor_blocked_def)
  ultimately show ?thesis using assms(1) by (simp add: vendor_blocked_def)
qed

text \<open>Only its own activation ends the block.\<close>

lemma blocked_command:
  assumes "vendor_run e c db = Inr (x, db')" "vendor_blocked i (vn_rows db)" "c \<noteq> ChangeVendorStatus i DO_ACTIVATE"
  shows "vendor_blocked i (vn_rows db')"
proof (cases "command_change (e_now e) c")
  case None
  then obtain input where "create_vendor e input db = Inr (x, db')" using assms(1) by (cases c) auto
  then obtain v where v: "vn_id v = x" and u: "vendor_unique (vn_rows db')"
    and rows: "vn_rows db' = insert_row \<lparr>vw_data = vendor_toRow v, vw_version = vn_version v, vw_tenantId = ctx_tenantId (e_ctx e),
      vw_companyId = resolveCompanyId (e_ctx e), vw_createdAt = e_now e, vw_updatedAt = e_now e\<rparr> (vn_rows db)"
    by (rule create_vendor_Inr) blast
  have "x \<noteq> i" using u assms(2) v by (auto simp: rows insert_row_def vendor_unique_def vendor_blocked_def vendor_toRow_def)
  then show ?thesis using assms(2) v by (auto simp: rows insert_row_def vendor_blocked_def vendor_toRow_def)
next
  case (Some jg)
  obtain j g where jg: "jg = (j, g)" by fastforce
  have "with_vendor e j g db = Inr (x, db')" using assms(1) vendor_run_change Some jg by metis
  from changed_row [OF Some [unfolded jg] this]
  obtain r v where r: "r \<in> set (vn_rows db)" "vw_rowId r = j" "g (vendor_toDomain r) = Inr v" "vn_id v = j"
    and rows: "vn_rows db' = map_where (\<lambda>q. q = r) (vendor_written e v) (vn_rows db)" by metis
  have "vn_status v = V_BLOCKED" if "vw_rowId r = i"
  proof -
    have s: "vn_status (vendor_toDomain r) = V_BLOCKED"
      using that r(1) assms(2) by (auto simp: vendor_blocked_def vendor_toDomain_def Let_def)
    have "j = i" using that r(2) by simp
    have "vn_status v \<noteq> V_ACTIVE"
    proof
      assume a: "vn_status v = V_ACTIVE"
      with s change_keeps [OF Some [unfolded jg] r(3)] obtain a where c: "c = ChangeVendorStatus j a" by auto
      then have "vendor_act (e_now e) a (vendor_toDomain r) = Inr v" using Some jg r(3) by simp
      then have "a = DO_ACTIVATE" using \<open>vn_status v = V_ACTIVE\<close> by (cases a) (auto simp: vendor_deactivate_def vendor_block_def res_simps vendor_addEvent_def)
      then show False using c assms(3) \<open>j = i\<close> by simp
    qed
    then show ?thesis using s change_keeps [OF Some [unfolded jg] r(3)] by (auto dest: blocked_only_activates)
  qed
  then show ?thesis unfolding rows by (intro blocked_rewritten assms(2)) (use r in auto)
qed

lemma blocked_history:
  assumes "vendor_blocked i (vn_rows db)" "\<forall>(e, c) \<in> set cs. c \<noteq> ChangeVendorStatus i DO_ACTIVATE"
  shows "vendor_blocked i (vn_rows (vendor_history cs db))"
  using assms
proof (induction cs arbitrary: db)
  case (Cons ec cs)
  obtain e c where ec: "ec = (e, c)" by fastforce
  have "vendor_blocked i (vn_rows (snd (transactional (vendor_run e c) db)))"
    by (rule transactional_cases [of "vendor_run e c" db])
      (use Cons.prems ec blocked_command [of e c db] in \<open>auto\<close>)
  then show ?case using Cons by (simp add: ec)
qed simp

lemma block_blocks:
  assumes "change_vendor_status e i DO_BLOCK db = Inr (x, db')"
  shows "vendor_blocked i (vn_rows db')"
proof -
  have c: "command_change (e_now e) (ChangeVendorStatus i DO_BLOCK) = Some (i, vendor_act (e_now e) DO_BLOCK)" by simp
  from changed_row [OF c assms [unfolded change_vendor_status_def]]
  obtain r v where r: "r \<in> set (vn_rows db)" "vw_rowId r = i" "vendor_act (e_now e) DO_BLOCK (vendor_toDomain r) = Inr v" "vn_id v = i"
    and rows: "vn_rows db' = map_where (\<lambda>q. q = r) (vendor_written e v) (vn_rows db)"
    and u: "vendor_unique (vn_rows db')" by metis
  have s: "vn_status v = V_BLOCKED" using r(3) by (auto simp: vendor_block_def vendor_addEvent_def res_simps)
  have w: "vendor_written e v r \<in> set (vn_rows db')" using r(1) unfolding rows set_map_where by blast
  have "vw_rowStatus q = V_BLOCKED" if "q \<in> set (vn_rows db')" "vw_rowId q = i" for q
    using distinct_key_unique [of vw_rowId "vn_rows db'" q "vendor_written e v r"] that u w s r(4)
    by (simp add: vendor_unique_def vendor_written_def vendor_toRow_def)
  then show ?thesis using w r(4) unfolding vendor_blocked_def by (force simp: vendor_written_def vendor_toRow_def)
qed

lemma blocked_not_orderable:
  "vendor_blocked i (vn_rows db) \<Longrightarrow> getOrderableVendor e (vendors_catch_up db) i = None"
  by (auto simp: getOrderableVendor_def findOrderableById_def vendors_catch_up_def vendor_blocked_def find_first_def find_None_iff2)

text \<open>
  C38. A blocked vendor gets no purchase order. Once a vendor is blocked, and whatever commands follow other than
  its own activation, the port of the vendor module hides it as soon as the read connection has caught up, and
  a request to create a purchase order for it fails without a trace in any tenant.
\<close>
theorem blocked_vendor_gets_no_order:
  assumes "change_vendor_status e i DO_BLOCK db = Inr (x, db1)"
    and "\<forall>(e, c) \<in> set cs. c \<noteq> ChangeVendorStatus i DO_ACTIVATE"
    and "e_vendor eo = getOrderableVendor ev (vendors_catch_up (vendor_history cs db1))" "cr_vendorId request = i"
  shows "\<exists>err. transactional (create_purchase_order eo request) orders = (Inl err, orders)"
proof -
  have "e_vendor eo i = None"
    unfolding assms(3) by (intro blocked_not_orderable blocked_history block_blocks [OF assms(1)] assms(2))
  then have "\<exists>err. create_purchase_order eo request orders = Inl err"
    unfolding create_purchase_order_def po_guard_def assms(4)
    by (cases "require_company_and_access (e_abac eo) (e_ctx eo) no_company_plain ''PurchaseOrder'' ''create''") simp_all
  then show ?thesis by (auto simp: transactional_def)
qed

section \<open>New vendors\<close>

text \<open>
  A new vendor can be ordered from. A successful creation is what the port returns for the new id, to every
  request of that tenant whose read connection has caught up, with the code in upper case and the name trimmed; the
  code has 2 to 32 letters, digits or dashes and the name 1 to 200 characters.
\<close>
theorem created_vendor_is_orderable:
  assumes "create_vendor e input db = Inr (i, db')" "ctx_tenantId (e_ctx e') = ctx_tenantId (e_ctx e)"
  shows "getOrderableVendor e' (vendors_catch_up db') i =
      Some \<lparr>vr_id = i, vr_code = to_upper (trim (cv_code input)), vr_name = trim (cv_name input)\<rparr> \<and>
    code_text 2 32 (to_upper (trim (cv_code input))) \<and> length (trim (cv_name input)) \<in> {1..200}"
proof -
  obtain v where v: "vendor_create (e_now e) i input = Inr v" and id: "vn_id v = i" and u: "vendor_unique (vn_rows db')"
    and rows: "vn_rows db' = insert_row \<lparr>vw_data = vendor_toRow v, vw_version = vn_version v, vw_tenantId = ctx_tenantId (e_ctx e),
      vw_companyId = resolveCompanyId (e_ctx e), vw_createdAt = e_now e, vw_updatedAt = e_now e\<rparr> (vn_rows db)"
    by (rule create_vendor_Inr [OF assms(1)])
  let ?new = "\<lparr>vw_data = vendor_toRow v, vw_version = vn_version v, vw_tenantId = ctx_tenantId (e_ctx e),
      vw_companyId = resolveCompanyId (e_ctx e), vw_createdAt = e_now e, vw_updatedAt = e_now e\<rparr>"
  have f: "vn_code v = to_upper (trim (cv_code input))" "vn_name v = trim (cv_name input)" "vn_status v = V_ACTIVE"
    "code_text 2 32 (to_upper (trim (cv_code input)))" "length (trim (cv_name input)) \<in> {1..200}"
    using v by (auto simp: vendor_create_def res_simps inv_vendor_code_def inv_vendor_name_def vendor_addEvent_def
        vendorCode_create_def vendorName_create_def normal_code_def Let_def Suc_le_eq split: if_splits)
  have "\<forall>r \<in> set (vn_rows db). vw_rowId r \<noteq> i"
    using u id by (force simp: rows insert_row_def vendor_unique_def vendor_toRow_def)
  then have "find_first (\<lambda>r. vw_rowId r = i \<and> vw_rowStatus r = V_ACTIVE \<and> shared_scope (e_ctx e') (vw_tenantId r)) (vn_rows db') =
      Some ?new"
    using id f(3) assms(2) unfolding rows by (intro find_first_inserted) (auto simp: vendor_toRow_def)
  then show ?thesis
    using f id by (simp add: getOrderableVendor_def findOrderableById_def vendors_catch_up_def vendor_reference_of_def
        vendor_toRecord_def vendor_toRow_def Let_def)
qed

end
