(* ===== verification/Vendor_Imports.thy ===== *)
theory Vendor_Imports
  imports Vendor_Properties
begin

text \<open>
  Vendor imports: the handler keeps the contract of the pipeline, and what the pipeline's worker does with it.
\<close>

section \<open>The handler keeps the contract\<close>

lemma vendor_imports_elsewhere:
  assumes "create_vendor e input db = Inr (i, db')"
  shows "same_imports db db'"
proof -
  have r: "tx_relation (same_imports :: 'b import_db_scheme \<Rightarrow> 'b import_db_scheme \<Rightarrow> bool)"
    by unfold_locales (auto simp: same_imports_def)
  note rules = tx_relation.rel_then [OF r] tx_relation.rel_lift [OF r] tx_relation.rel_read [OF r] tx_relation.rel_return [OF r]
    tx_relation.rel_for [OF r] tx_relation.rel_if [OF r] tx_relation.rel_write [OF r]
  have d: "tx_rel same_imports (draw_uuid e)" by (auto simp: tx_rel_def draw_uuid_def same_imports_def)
  have s: "tx_rel same_imports (send_event e t k ev)" for t k ev
    unfolding send_event_def by (intro rules d) (simp add: same_imports_def)
  have "tx_rel same_imports (create_vendor e input)"
    unfolding create_vendor_def vendor_guard_def vendor_findByCode_def vendor_find_def vendor_save_def write_vendors_def
      vendor_publish_def send_events_def by (intro rules d s) (simp add: same_imports_def)
  then show ?thesis using assms by (rule tx_relD)
qed

lemma vendor_rows_elsewhere: "io_rel same_imports (import_vendor_rows e ps :: (row_outcome list, 'a vendor_db_scheme) io)"
proof (induction ps)
  case (Cons p ps)
  have r: "io_relation (same_imports :: 'a vendor_db_scheme \<Rightarrow> 'a vendor_db_scheme \<Rightarrow> bool)"
    by unfold_locales (auto simp: same_imports_def)
  have "io_rel same_imports (transactional (create_vendor e input) :: (string, 'a vendor_db_scheme) io)" for input
    unfolding io_rel_def
  proof
    fix db :: "'a vendor_db_scheme"
    show "same_imports db (snd (transactional (create_vendor e input) db))"
      by (rule transactional_cases [of "create_vendor e input" db]) (auto simp: same_imports_def dest: vendor_imports_elsewhere)
  qed
  then have "io_rel same_imports (import_vendor_row e p :: (row_outcome, 'a vendor_db_scheme) io)"
    unfolding import_vendor_row_def
    by (intro io_relation.rel_catch [OF r] io_relation.rel_then [OF r] io_relation.rel_return [OF r])
  then show ?case using Cons by (simp add: io_relation.rel_then [OF r] io_relation.rel_return [OF r])
qed (simp add: io_rel_def same_imports_def)

lemma import_vendor_row_decided:
  "import_vendor_row e p db = (res, db') \<Longrightarrow> \<exists>r. res = Inr r \<and> ro_status r \<noteq> X_PENDING \<and> ro_rowNumber r = payload_rowNumber p"
  by (auto simp: import_vendor_row_def io_catch_def io_then_def outcome_without_entity_def split: prod.splits sum.splits)

lemma import_vendor_rows_decided:
  "\<exists>rs. fst (import_vendor_rows e ps db) = Inr rs \<and> list_all2 (\<lambda>p r. ro_status r \<noteq> X_PENDING \<and> ro_rowNumber r = payload_rowNumber p) ps rs"
proof (induction ps arbitrary: db)
  case (Cons p ps)
  obtain res db1 where row: "import_vendor_row e p db = (res, db1)" by fastforce
  obtain r where r: "res = Inr r" "ro_status r \<noteq> X_PENDING \<and> ro_rowNumber r = payload_rowNumber p"
    using import_vendor_row_decided [OF row] by blast
  obtain rs where f: "fst (import_vendor_rows e ps db1) = Inr rs"
    and rs: "list_all2 (\<lambda>p r. ro_status r \<noteq> X_PENDING \<and> ro_rowNumber r = payload_rowNumber p) ps rs"
    using Cons.IH [of db1] by blast
  obtain db2 where rest: "import_vendor_rows e ps db1 = (Inr rs, db2)" using f by (cases "import_vendor_rows e ps db1") simp
  have "import_vendor_row e p db = (Inr r, db1)" using row unfolding r(1) .
  with rest have "import_vendor_rows e (p # ps) db = (Inr (r # rs), db2)"
    unfolding import_vendor_rows.simps io_then_def by simp
  then show ?case using r(2) rs by (intro exI [of _ "r # rs"]) simp
qed simp

lemma vendor_handler_lawful:
  "domain_handler (vendor_import_handler e :: 'a vendor_db_scheme import_handler)"
  "decides (vendor_import_handler e :: 'a vendor_db_scheme import_handler)"
proof -
  show "domain_handler (vendor_import_handler e :: 'a vendor_db_scheme import_handler)"
    using vendor_rows_elsewhere by (auto simp: domain_handler_def vendor_import_handler_def io_rel_def same_imports_def)
  have "ro_status r \<noteq> X_PENDING" if "fst (import_vendor_rows e' ps db) = Inr rs" "r \<in> set rs"
    for e' ps and db :: "'a vendor_db_scheme" and rs r
    using import_vendor_rows_decided [of e' ps db] that by (auto simp: list_all2_conv_all_nth in_set_conv_nth)
  then show "decides (vendor_import_handler e :: 'a vendor_db_scheme import_handler)"
    by (auto simp: decides_def vendor_import_handler_def vendor_verdict_def split: sum.split)
qed

section \<open>The worker\<close>

interpretation novendor: io_relation "same_vendors :: 'a vendor_db_scheme \<Rightarrow> 'a vendor_db_scheme \<Rightarrow> bool"
  by unfold_locales auto

lemmas novendor_rules = novendor.rel_return novendor.rel_lift novendor.rel_read novendor.rel_then novendor.rel_if novendor.rel_option
  novendor.rel_catch novendor.rel_write

lemma no_company_creates_nothing:
  "\<not> truthy (ctx_companyId (e_ctx e)) \<Longrightarrow> create_vendor e input db = Inl (Exn (Some 404) ''Company not found in request context'')"
  by (simp add: create_vendor_def vendor_guard_def require_company_and_access_def)

lemma no_company_rows_fail:
  "\<not> truthy (ctx_companyId (e_ctx e)) \<Longrightarrow> import_vendor_rows e ps db =
     (Inr (map (\<lambda>p. outcome_without_entity X_FAILED ''Company not found in request context'' (payload_rowNumber p)) ps), db)"
  by (induction ps) (simp_all add: io_then_def import_vendor_row_def io_catch_def transactional_def no_company_creates_nothing)

lemma job_context_company: "ctx_companyId (e_ctx (ip_env (in_job_context c j))) = ctx_companyId (e_ctx (ip_env c))"
  by (simp add: in_job_context_def ctx_run_context_def context_with_tenant empty_patch_def)

lemma with_history_vendors: "with_history i h jobs db = Inr (j, db') \<Longrightarrow> same_vendors db db'"
  by (auto simp: with_history_def Let_def split: option.splits)

lemma novendor_statements:
  "io_rel same_vendors (transitionStatus now i fr to h)" "io_rel same_vendors (recountCounters now i)"
  "io_rel same_vendors (markTerminal now i st h)" "io_rel same_vendors (transactional (draw_uuid e))"
  "io_rel same_vendors (io_step (\<lambda>db. let (got, jobs) = tryAcquireLock now i owner u (im_jobs db) in (got, db\<lparr>im_jobs := jobs\<rparr>)))"
  "io_rel same_vendors (io_step (\<lambda>db. let (claimed, rows) = claimForExecution c i k (im_rows db) in (claimed, db\<lparr>im_rows := rows\<rparr>)))"
  by (auto simp: io_rel_def transitionStatus_def transition_tx_def markTerminal_def terminal_tx_def transactional_def Let_def split_beta
      recountCounters_def io_step_def draw_uuid_def and_then_Inr_iff split: sum.split dest: with_history_vendors)

lemma novendor_event: "io_rel same_vendors (write_import_event c j ev)"
  by (auto simp: io_rel_def write_import_event_def transactional_def send_event_def draw_uuid_def tx_then_def tx_write_def split: sum.split)

lemma novendor_ends:
  "io_rel same_vendors (cancel_stage c i st)" "io_rel same_vendors (fail_stage c i st er)" "io_rel same_vendors (executed c j e)"
  "io_rel same_vendors (release_stage i owner)" "io_rel same_vendors (write_results c i claimed rs)"
proof -
  show "io_rel same_vendors (cancel_stage c i st)" unfolding cancel_stage_def writeCancelledEvent_def
    by (intro novendor_rules novendor_statements novendor_event)
  show "io_rel same_vendors (fail_stage c i st er)" unfolding fail_stage_def writeFailedEvent_def
    by (intro novendor_rules novendor_statements novendor_event)
  show "io_rel same_vendors (executed c j e)"
  proof (cases e)
    case (Some x)
    then show ?thesis unfolding executed_def writeCompletedEvent_def
      by (cases x) (auto intro!: novendor_rules novendor_statements novendor_event split: option.split)
  qed (simp add: executed_def novendor.rel_return)
  show "io_rel same_vendors (release_stage i owner)" unfolding release_stage_def by (intro novendor_rules) simp_all
  show "io_rel same_vendors (write_results c i claimed rs)" unfolding write_results_def by (intro novendor_rules) simp
qed

lemma novendor_chunk:
  assumes "\<not> truthy (ctx_companyId (e_ctx (ip_env c)))"
  shows "io_rel same_vendors (execute_chunk c (vendor_import_handler e :: 'a vendor_db_scheme import_handler) j claimed)"
proof -
  let ?h = "vendor_import_handler e :: 'a vendor_db_scheme import_handler"
  have h: "io_rel same_vendors (ih_preloadReferences ?h ctx ps ix)" "io_rel same_vendors (ih_validateBatch ?h ctx ps refs ix)"
    "io_rel same_vendors (ih_executeBatch ?h (e_ctx (ip_env c)) ps ix)" for ctx ps refs ix
    using assms by (simp_all add: vendor_import_handler_def io_rel_def no_company_rows_fail)
  have "io_rel same_vendors (execute_rows c ?h j claimed ps ns)" for ps ns
    unfolding execute_rows_def Let_def by (intro novendor_rules novendor_ends h)
  then show ?thesis unfolding execute_chunk_def Let_def
    by (intro novendor_rules novendor_ends novendor_statements h)
qed

lemma novendor_loop:
  "\<not> truthy (ctx_companyId (e_ctx (ip_env c))) \<Longrightarrow> io_rel same_vendors (execute_loop n c (vendor_import_handler e) j k)"
proof (induction n)
  case (Suc n)
  have "io_rel same_vendors (execute_chunk c (vendor_import_handler e) j claimed)" for claimed by (rule novendor_chunk [OF Suc.prems])
  with Suc show ?case unfolding execute_loop.simps
    by (intro novendor_rules novendor_ends novendor_statements) auto
qed (simp add: novendor.rel_return)

abbreviation vendor_imports :: "env \<Rightarrow> 'a vendor_db_scheme import_handler import_registry" where
  "vendor_imports e \<equiv> [(''vendor'', VENDOR_IMPORT_DESCRIPTOR, vendor_import_handler e)]"

lemma novendor_finally: "io_rel same_vendors m \<Longrightarrow> io_rel same_vendors r \<Longrightarrow> io_rel same_vendors (io_finally m r)"
  by (auto simp: io_rel_def io_finally_def split: prod.split sum.split) (metis snd_conv)+

lemma novendor_stage:
  assumes "\<not> truthy (ctx_companyId (e_ctx (ip_env c)))"
  shows "io_rel same_vendors (execute_stage n c (vendor_imports e) i owner)"
  unfolding execute_stage_def
proof (rule novendor.rel_then_on [where P = "\<lambda>(j, h). h = vendor_import_handler e"])
  show "io_rel same_vendors (stage_job c (vendor_imports e) i)"
    unfolding stage_job_def read_import_def by (intro novendor_rules)
  fix db jh db'
  assume "stage_job c (vendor_imports e) i db = (Inr jh, db')"
  then show "case jh of (j, h) \<Rightarrow> h = vendor_import_handler e"
    by (auto simp: stage_job_def io_then_def io_lift_def resolveImportHandler_def import_entry_def requireEntry_def res_simps
        split: prod.splits sum.splits option.splits if_splits)
next
  fix jh :: "import_job \<times> 'a vendor_db_scheme import_handler"
  assume "case jh of (j, h) \<Rightarrow> h = vendor_import_handler e"
  then obtain j where jh: "jh = (j, vendor_import_handler e)" by (cases jh) simp
  show "io_rel same_vendors (case jh of (j, h) \<Rightarrow>
     if ij_status j \<in> import_terminal then io_return (Some ())
     else if ij_status j \<noteq> IM_EXECUTING then io_lift (wrong_status j ''EXECUTING'')
     else let own = nat (de_executionChunkSize (ij_descriptorSnapshot j));
              chunkSize = (if own = 0 then im_executionChunkSize (ip_config c) else own) in
        io_finally (io_catch (io_then (execute_loop n c h j chunkSize) (executed c j)) (fail_stage c (ij_id j) IM_EXECUTING))
          (release_stage i owner))"
    unfolding jh prod.case Let_def by (intro novendor_rules novendor_finally novendor_ends novendor_loop [OF assms])
qed

text \<open>
  No vendor is ever imported. The worker of the import queue has no request to inherit a company from and
  the pipeline only restores the tenant of the job, so the handler's use case refuses every row: the execution of an
  import creates no vendor, whatever is in the file, and every row a batch executes is answered FAILED for the missing
  company.
\<close>
theorem worker_imports_no_vendor:
  fixes db :: "'a vendor_db_scheme"
  assumes "\<not> truthy (ctx_companyId (e_ctx (ip_env c)))"
  shows "vn_rows (snd (execute_import n c (vendor_imports e) i db)) = vn_rows db \<and>
    ih_executeBatch (vendor_import_handler e) (e_ctx (ip_env (in_job_context c j))) ps ix db =
      (Inr (map (\<lambda>p. outcome_without_entity X_FAILED ''Company not found in request context'' (payload_rowNumber p)) ps), db)"
proof
  have "io_rel same_vendors (acquire_stage (in_job_context c j) i stage :: (string option, 'a vendor_db_scheme) io)" for j stage
    unfolding acquire_stage_def Let_def
    by (intro novendor_rules novendor_statements(4) novendor_statements(5) [unfolded Let_def]) simp_all
  then have "io_rel same_vendors (execute_import n c (vendor_imports e) i :: (unit option, 'a vendor_db_scheme) io)"
    unfolding execute_import_def run_stage_def
    by (intro novendor_rules novendor_stage) (simp_all add: job_context_company assms)
  then show "vn_rows (snd (execute_import n c (vendor_imports e) i db)) = vn_rows db" by (simp add: io_rel_def)
  show "ih_executeBatch (vendor_import_handler e) (e_ctx (ip_env (in_job_context c j))) ps ix db =
      (Inr (map (\<lambda>p. outcome_without_entity X_FAILED ''Company not found in request context'' (payload_rowNumber p)) ps), db)"
    using assms by (simp add: vendor_import_handler_def job_context_company no_company_rows_fail)
qed

end
