(* ===== verification/Vendor_Examples.thy ===== *)
theory Vendor_Examples
  imports Vendor_Imports Import_Examples PO_Policies
begin

text \<open>Runs of the vendor module: one vendor of the shared catalogue, a new one, and an import of the worker.\<close>

definition demo_vendor_row :: vendor_row where
  "demo_vendor_row = \<lparr>vw_data = \<lparr>vw_id = ''v1'', vw_code = ''ACME'', vw_name = ''Acme'', vw_email = None, vw_phone = None,
       vw_address = None, vw_status = V_ACTIVE\<rparr>,
     vw_version = 1, vw_tenantId = None, vw_companyId = ''C0'', vw_createdAt = 0, vw_updatedAt = 0\<rparr>"

definition demo_vendor_db :: "vendor_row list \<Rightarrow> vendor_db" where
  "demo_vendor_db rows = \<lparr>pf_outbox = [], pf_audit = [], pf_sequences = [], pf_drawn = 0, im_jobs = [demo_import_job IM_EXECUTING],
     im_rows = [demo_import_row], im_objects = [], im_queue = [], im_timers = [], vn_rows = rows, vn_replica = rows\<rparr>"

lemma publish_succeeds: "\<exists>db'. vendor_publish e v db = Inr ((), db')"
proof -
  have "\<exists>db'. tx_for (send_event e t i) evs db = Inr ((), db')" for t i evs db
    by (induction evs arbitrary: db) (auto simp: tx_return_def tx_then_def send_event_def draw_uuid_def tx_write_def)
  then show ?thesis by (simp add: vendor_publish_def send_events_def)
qed

lemma demo_guard: "vendor_guard sample_env a db = Inr ((), db)"
  by (simp add: vendor_guard_def require_company_and_access_def noop_abac_def tx_lift_def)

lemma demo_vendor_found: "vendor_findById sample_env ''v1'' (demo_vendor_db [demo_vendor_row]) =
    Inr (Some (vendor_toDomain demo_vendor_row), demo_vendor_db [demo_vendor_row])"
  by (simp add: vendor_findById_def vendor_find_def tx_read_def find_first_def demo_vendor_db_def demo_vendor_row_def tenant_where_def)

lemma demo_blocked: "\<exists>db'. change_vendor_status sample_env ''v1'' DO_BLOCK (demo_vendor_db [demo_vendor_row]) = Inr (''v1'', db')"
proof -
  obtain v where v: "vendor_act 100 DO_BLOCK (vendor_toDomain demo_vendor_row) = Inr v" "vn_id v = ''v1''" "vn_version v = 1"
    by (simp add: vendor_block_def vendor_toDomain_def demo_vendor_row_def inv_vendor_transition_def vendor_allowed_def
        vendor_addEvent_def Let_def)
  obtain db1 where w: "vendor_update_row sample_env v (demo_vendor_db [demo_vendor_row]) = Inr ((), db1)"
    by (simp add: vendor_update_row_def update_many_def vendor_cas_def demo_vendor_db_def demo_vendor_row_def v(2,3)
        tenant_where_def write_vendors_def vendor_constraints_def vendor_unique_def Let_def tx_write_def)
  obtain db' where "vendor_publish sample_env v db1 = Inr ((), db')" using publish_succeeds by blast
  then show ?thesis unfolding change_vendor_status_def with_vendor_def sample_env_simps
    by (simp add: tx_then_def tx_lift_def demo_guard demo_vendor_found v w tx_return_def del: vendor_act.simps)
qed

definition demo_order_request :: create_po_request where
  "demo_order_request = \<lparr>cr_vendorId = ''v1'', cr_currency = None, cr_externalReference = None, cr_orderDate = None,
     cr_expectedDeliveryDate = None, cr_actorId = None\<rparr>"

definition demo_rename :: update_vendor_input where
  "demo_rename = \<lparr>uv_name = Some ''Acme Ltd'', uv_email = None, uv_phone = None, uv_address = None\<rparr>"

theorem blocked_vendor_gets_no_order_witness:
  "\<exists>db1. change_vendor_status sample_env ''v1'' DO_BLOCK (demo_vendor_db [demo_vendor_row]) = Inr (''v1'', db1) \<and>
    (\<exists>err. transactional (create_purchase_order (sample_env\<lparr>e_vendor := getOrderableVendor sample_env
        (vendors_catch_up (vendor_history [(sample_env, UpdateVendor ''v1'' demo_rename)] db1))\<rparr>) demo_order_request) (sample_db [])
      = (Inl err, sample_db []))"
proof -
  obtain db1 where b: "change_vendor_status sample_env ''v1'' DO_BLOCK (demo_vendor_db [demo_vendor_row]) = Inr (''v1'', db1)"
    using demo_blocked by blast
  have "\<exists>err. transactional (create_purchase_order (sample_env\<lparr>e_vendor := getOrderableVendor sample_env
        (vendors_catch_up (vendor_history [(sample_env, UpdateVendor ''v1'' demo_rename)] db1))\<rparr>) demo_order_request) (sample_db [])
      = (Inl err, sample_db [])"
    by (rule blocked_vendor_gets_no_order [OF b, where cs = "[(sample_env, UpdateVendor ''v1'' demo_rename)]" and ev = sample_env])
      (simp_all add: demo_order_request_def)
  with b show ?thesis by blast
qed


definition demo_new_vendor :: create_vendor_input where
  "demo_new_vendor = \<lparr>cv_code = '' beta-1 '', cv_name = ''Beta '', cv_email = Some ''a@b.co'', cv_phone = None, cv_address = Some '' ''\<rparr>"

lemma demo_created: "\<exists>db'. create_vendor sample_env demo_new_vendor (demo_vendor_db []) = Inr (''0'', db')"
proof -
  have u: "draw_uuid sample_env (demo_vendor_db []) = Inr (''0'', (demo_vendor_db [])\<lparr>pf_drawn := 1\<rparr>)"
    by (simp add: draw_uuid_def sample_env_def demo_vendor_db_def) code_simp
  have "is_ok (vendor_create 100 ''0'' demo_new_vendor)" by code_simp
  then obtain v where v: "vendor_create 100 ''0'' demo_new_vendor = Inr v" by (auto simp: is_ok_iff)
  have id: "vn_id v = ''0''" using v by (auto simp: vendor_create_def res_simps vendor_addEvent_def Let_def split: if_splits)
  obtain db1 where w: "vendor_save sample_env v ((demo_vendor_db [])\<lparr>pf_drawn := 1\<rparr>) = Inr ((), db1)"
    by (simp add: vendor_save_def write_vendors_def vendor_constraints_def vendor_unique_def insert_row_def demo_vendor_db_def tx_write_def)
  obtain db2 where "vendor_publish sample_env v db1 = Inr ((), db2)" using publish_succeeds by blast
  moreover have "vendor_findByCode sample_env c ((demo_vendor_db [])\<lparr>pf_drawn := 1\<rparr>) = Inr (None, (demo_vendor_db [])\<lparr>pf_drawn := 1\<rparr>)" for c
    by (simp add: vendor_findByCode_def vendor_find_def tx_read_def find_first_def demo_vendor_db_def)
  ultimately show ?thesis
    by (simp add: create_vendor_def tx_then_def tx_lift_def demo_guard u v id w [simplified] tx_return_def)
qed

theorem created_vendor_is_orderable_witness:
  "\<exists>db'. create_vendor sample_env demo_new_vendor (demo_vendor_db []) = Inr (''0'', db') \<and>
    getOrderableVendor sample_env (vendors_catch_up db') ''0'' = Some \<lparr>vr_id = ''0'', vr_code = ''BETA-1'', vr_name = ''Beta''\<rparr>"
proof -
  obtain db' where c: "create_vendor sample_env demo_new_vendor (demo_vendor_db []) = Inr (''0'', db')" using demo_created by blast
  have "to_upper (trim (cv_code demo_new_vendor)) = ''BETA-1''" "trim (cv_name demo_new_vendor) = ''Beta''"
    by code_simp+
  with created_vendor_is_orderable [OF c, of sample_env] c show ?thesis by auto
qed

theorem worker_imports_no_vendor_witness:
  "vn_rows (snd (execute_import 5 (demo_import_call 10) (vendor_imports sample_env) ''i1'' (demo_vendor_db []))) = []"
  using worker_imports_no_vendor [of "demo_import_call 10" 5 sample_env "''i1''" "demo_vendor_db []"]
  by (simp add: demo_import_call_def demo_env_def emptyContext_def demo_vendor_db_def)

text \<open>A change of name can leave a vendor without one, although no vendor is created without.\<close>

lemma update_blanks_name:
  "vn_name (vendor_update now \<lparr>uv_name = Some '' '', uv_email = Some ''nobody'', uv_phone = None, uv_address = None\<rparr> v) = []"
  "\<not> is_ok (vendor_create now i \<lparr>cv_code = ''AB'', cv_name = '' '', cv_email = None, cv_phone = None, cv_address = None\<rparr>)"
  by (simp_all add: vendor_update_def vendor_addEvent_def vendorName_create_def Let_def vendor_create_def inv_vendor_create_def
      trim_def is_space_def)

end
