(* ===== verification/Invoice.thy ===== *)
theory Invoice
  imports Master_Data Recurring_UseCases Inbox Money
begin

text \<open>
  The invoice module (\<open>business/sales/invoice\<close>): aggregate, factory and status table, the mapper and the
  repositories, the use cases, and the consumer of recurring occurrences, which creates an invoice, reads it
  back through the read connection, reports to the recurring module and may post it.
\<close>

section \<open>The aggregate\<close>

datatype invoice_status = IV_DRAFT | IV_POSTED | IV_CANCELLED

fun invoice_status_name :: "invoice_status \<Rightarrow> string" where
  "invoice_status_name IV_DRAFT = ''DRAFT''"
| "invoice_status_name IV_POSTED = ''POSTED''"
| "invoice_status_name IV_CANCELLED = ''CANCELLED''"

datatype invoice_event =
    InvoiceCreated string string string number string
  | InvoicePosted string string int

record invoice_line =
  il_description :: string
  il_quantity :: number
  il_unitPrice :: money

record invoice =
  iv_id :: string
  iv_version :: int
  iv_events :: "invoice_event list"
  iv_invoiceNo :: string
  iv_customerId :: string
  iv_status :: invoice_status
  iv_currency :: string
  iv_lines :: "invoice_line list"
  iv_postedAt :: "int option"
  iv_createdAt :: int
  iv_updatedAt :: int

record invoice_line_input =
  li_description :: string
  li_quantity :: number
  li_unitPrice :: number

record create_invoice_input =
  cn_invoiceNo :: string
  cn_customerId :: string
  cn_currency :: string
  cn_lines :: "invoice_line_input list"

definition inv_invoice_create :: "nat \<Rightarrow> unit result" where
  "inv_invoice_create lineCount = (if lineCount < 1 then throw 422 ''Invoice must have at least one line'' else Inr ())"

definition inv_invoice_line :: "number \<Rightarrow> number \<Rightarrow> unit result" where
  "inv_invoice_line quantity unitPriceMinor =
     (if \<not> is_finite quantity \<or> js_le quantity (N 0) then throw 422 ''Invoice line quantity must be positive''
      else if js_lt unitPriceMinor (N 0) then throw 422 ''Invoice line price cannot be negative''
      else Inr ())"

definition invoice_allowed :: "invoice_status \<Rightarrow> invoice_status list" where
  "invoice_allowed s = (case s of IV_DRAFT \<Rightarrow> [IV_POSTED, IV_CANCELLED] | IV_POSTED \<Rightarrow> [IV_CANCELLED] | IV_CANCELLED \<Rightarrow> [])"

definition inv_invoice_transition :: "invoice_status \<Rightarrow> invoice_status \<Rightarrow> unit result" where
  "inv_invoice_transition status to =
     (if status = to then Inr ()
      else if to \<notin> set (invoice_allowed status)
      then throw 422 (''Cannot transition invoice from '' @ invoice_status_name status @ '' to '' @ invoice_status_name to)
      else Inr ())"

definition inv_invoice_number :: "string \<Rightarrow> unit result" where
  "inv_invoice_number invoiceNo =
     (if \<not> (take 4 invoiceNo = ''INV-'' \<and> code_text 1 32 (drop 4 invoiceNo))
      then throw 422 ''Invoice number must match INV-<identifier>'' else Inr ())"

definition invoiceNumber_create :: "string \<Rightarrow> string result" where
  "invoiceNumber_create v = (let normalized = normal_code v in
     and_then (inv_invoice_number normalized) (\<lambda>_. Inr normalized))"

definition invoiceLine_create :: "string \<Rightarrow> number \<Rightarrow> money \<Rightarrow> invoice_line" where
  "invoiceLine_create description quantity unitPrice =
     \<lparr>il_description = trim description, il_quantity = quantity, il_unitPrice = unitPrice\<rparr>"

definition invoiceLine_total :: "invoice_line \<Rightarrow> money" where
  "invoiceLine_total l = money_multiply (il_unitPrice l) (il_quantity l)"

text \<open>\<open>lines.reduce((sum, line) => sum.add(line.total()), Money.ZERO(currency))\<close>\<close>

definition totalAmount :: "invoice \<Rightarrow> money result" where
  "totalAmount v = for_each (\<lambda>total line. money_add total (invoiceLine_total line)) (money_ZERO (iv_currency v)) (iv_lines v)"

definition invoice_addEvent :: "invoice_event \<Rightarrow> invoice \<Rightarrow> invoice" where
  "invoice_addEvent ev v = v\<lparr>iv_events := iv_events v @ [ev]\<rparr>"

definition factory_line :: "string \<Rightarrow> invoice_line_input \<Rightarrow> invoice_line result" where
  "factory_line currency line =
     and_then (money_fromDecimal (li_unitPrice line) currency) (\<lambda>unitPrice.
     and_then (inv_invoice_line (li_quantity line) (minorUnits unitPrice)) (\<lambda>_.
       Inr (invoiceLine_create (li_description line) (li_quantity line) unitPrice)))"

definition invoice_create :: "int \<Rightarrow> string \<Rightarrow> create_invoice_input \<Rightarrow> invoice result" where
  "invoice_create now uuid input =
     and_then (inv_invoice_create (length (cn_lines input))) (\<lambda>_.
     and_then (map_result (factory_line (cn_currency input)) (cn_lines input)) (\<lambda>lines.
     and_then (invoiceNumber_create (cn_invoiceNo input)) (\<lambda>number.
       let invoice = \<lparr>iv_id = uuid, iv_version = 1, iv_events = [], iv_invoiceNo = number, iv_customerId = cn_customerId input,
             iv_status = IV_DRAFT, iv_currency = cn_currency input, iv_lines = lines, iv_postedAt = None,
             iv_createdAt = now, iv_updatedAt = now\<rparr>
       in and_then (totalAmount invoice) (\<lambda>total.
            Inr (invoice_addEvent (InvoiceCreated (iv_id invoice) (iv_invoiceNo invoice) (iv_customerId invoice)
              (money_amount total) (iv_currency invoice)) invoice)))))"

definition invoice_post :: "int \<Rightarrow> invoice \<Rightarrow> invoice result" where
  "invoice_post now v =
     and_then (inv_invoice_transition (iv_status v) IV_POSTED) (\<lambda>_.
       if iv_status v = IV_POSTED then Inr v
       else Inr (invoice_addEvent (InvoicePosted (iv_id v) (iv_invoiceNo v) now)
         (v\<lparr>iv_status := IV_POSTED, iv_postedAt := Some now, iv_updatedAt := now\<rparr>)))"

section \<open>Rows and the mapper\<close>

record stored_line =
  sl_description :: string
  sl_quantity :: number
  sl_unitPrice :: number

record invoice_data =
  ix_id :: string
  ix_invoiceNo :: string
  ix_customerId :: string
  ix_status :: invoice_status
  ix_currency :: string
  ix_totalAmount :: int
  ix_lines :: "stored_line list"
  ix_postedAt :: "int option"

record invoice_row =
  ix_data :: invoice_data
  ix_version :: int
  ix_tenant :: "string option"
  ix_company :: string
  ix_createdAt :: int
  ix_updatedAt :: int

record invoice_db = recurring_db +
  iv_rows :: "invoice_row list"
  iv_replica :: "invoice_row list"
  iv_inbox :: "inbox_message list"

definition stored_to_line :: "string \<Rightarrow> stored_line \<Rightarrow> invoice_line result" where
  "stored_to_line currency l = and_then (money_fromDecimal (sl_unitPrice l) currency) (\<lambda>unitPrice.
     Inr (invoiceLine_create (sl_description l) (sl_quantity l) unitPrice))"

definition invoice_toDomain :: "invoice_row \<Rightarrow> invoice result" where
  "invoice_toDomain row = (let d = ix_data row in
     and_then (map_result (stored_to_line (ix_currency d)) (ix_lines d)) (\<lambda>lines.
     and_then (invoiceNumber_create (ix_invoiceNo d)) (\<lambda>number.
       Inr \<lparr>iv_id = ix_id d, iv_version = ix_version row, iv_events = [], iv_invoiceNo = number,
            iv_customerId = ix_customerId d, iv_status = ix_status d, iv_currency = ix_currency d, iv_lines = lines,
            iv_postedAt = ix_postedAt d, iv_createdAt = ix_createdAt row, iv_updatedAt = ix_updatedAt row\<rparr>)))"

definition line_to_stored :: "invoice_line \<Rightarrow> stored_line" where
  "line_to_stored l = \<lparr>sl_description = il_description l, sl_quantity = il_quantity l, sl_unitPrice = money_amount (il_unitPrice l)\<rparr>"

definition invoice_toRow :: "env \<Rightarrow> invoice \<Rightarrow> invoice_data result" where
  "invoice_toRow e v =
     and_then (totalAmount v) (\<lambda>total.
     and_then (db_numeric e (money_amount total)) (\<lambda>amount.
       Inr \<lparr>ix_id = iv_id v, ix_invoiceNo = iv_invoiceNo v, ix_customerId = iv_customerId v, ix_status = iv_status v,
            ix_currency = iv_currency v, ix_totalAmount = amount, ix_lines = map line_to_stored (iv_lines v),
            ix_postedAt = iv_postedAt v\<rparr>))"

section \<open>The repositories\<close>

definition invoice_unique :: "invoice_row list \<Rightarrow> bool" where
  "invoice_unique rows \<longleftrightarrow> distinct (map (\<lambda>r. ix_id (ix_data r)) rows) \<and>
     distinct (map (\<lambda>r. (ix_company r, ix_invoiceNo (ix_data r))) rows)"

definition write_invoices :: "invoice_row list \<Rightarrow> (unit, 'a invoice_db_scheme) tx" where
  "write_invoices rows' = tx_then (tx_lift (check (invoice_unique rows') (throw_plain ''Unique constraint failed''))) (\<lambda>_.
     tx_write (\<lambda>db. db\<lparr>iv_rows := rows'\<rparr>))"

definition invoice_save :: "env \<Rightarrow> invoice \<Rightarrow> (unit, 'a invoice_db_scheme) tx" where
  "invoice_save e v = tx_then (tx_lift (invoice_toRow e v)) (\<lambda>data. tx_then (tx_read iv_rows) (\<lambda>rows.
     write_invoices (insert_row
       \<lparr>ix_data = data, ix_version = iv_version v, ix_tenant = ctx_tenantId (e_ctx e), ix_company = resolveCompanyId (e_ctx e),
        ix_createdAt = e_now e, ix_updatedAt = e_now e\<rparr> rows)))"

definition invoice_cas :: "env \<Rightarrow> invoice \<Rightarrow> invoice_row \<Rightarrow> bool" where
  "invoice_cas e v r \<longleftrightarrow> ix_id (ix_data r) = iv_id v \<and> ix_version r = iv_version v \<and> owned_scope (e_ctx e) (ix_tenant r)"

definition invoice_written :: "env \<Rightarrow> invoice_data \<Rightarrow> invoice_row \<Rightarrow> invoice_row" where
  "invoice_written e data r = r\<lparr>ix_data := data, ix_version := ix_version r + 1, ix_updatedAt := e_now e\<rparr>"

definition invoice_update_row :: "env \<Rightarrow> invoice \<Rightarrow> (unit, 'a invoice_db_scheme) tx" where
  "invoice_update_row e v = tx_then (tx_lift (invoice_toRow e v)) (\<lambda>data. tx_then (tx_read iv_rows) (\<lambda>rows.
     let (count, rows') = update_many (invoice_cas e v) (invoice_written e data) rows in
     if count = 0 then tx_lift (conflict ''Invoice was modified concurrently (not found in scope)'')
     else write_invoices rows'))"

definition invoice_findById :: "env \<Rightarrow> string \<Rightarrow> (invoice option, 'a invoice_db_scheme) tx" where
  "invoice_findById e i = tx_then (tx_read iv_rows) (\<lambda>rows.
     case find_first (\<lambda>r. ix_id (ix_data r) = i \<and> owned_scope (e_ctx e) (ix_tenant r)) rows of
       None \<Rightarrow> tx_return None
     | Some row \<Rightarrow> tx_then (tx_lift (invoice_toDomain row)) (\<lambda>v. tx_return (Some v)))"

record invoice_query_record =
  qv_id :: string
  qv_invoiceNo :: string
  qv_customerId :: string
  qv_status :: invoice_status
  qv_currency :: string
  qv_totalAmount :: number
  qv_lines :: "stored_line list"
  qv_postedAt :: "int option"
  qv_createdAt :: int
  qv_updatedAt :: int

definition invoice_toRecord :: "invoice_row \<Rightarrow> invoice_query_record" where
  "invoice_toRecord row = (let d = ix_data row in
     \<lparr>qv_id = ix_id d, qv_invoiceNo = ix_invoiceNo d, qv_customerId = ix_customerId d, qv_status = ix_status d,
      qv_currency = ix_currency d, qv_totalAmount = number_of_decimal (ix_totalAmount d), qv_lines = ix_lines d,
      qv_postedAt = ix_postedAt d, qv_createdAt = ix_createdAt row, qv_updatedAt = ix_updatedAt row\<rparr>)"

definition invoice_query_findById :: "env \<Rightarrow> string \<Rightarrow> 'a invoice_db_scheme \<Rightarrow> invoice_query_record option" where
  "invoice_query_findById e i db = map_option invoice_toRecord
     (find_first (\<lambda>r. ix_id (ix_data r) = i \<and> owned_scope (e_ctx e) (ix_tenant r)) (iv_replica db))"

definition invoice_findAll :: "env \<Rightarrow> page_query \<Rightarrow> 'a invoice_db_scheme \<Rightarrow> invoice_query_record page_result" where
  "invoice_findAll e q db = page_of q ix_createdAt invoice_toRecord
     (filter (\<lambda>r. owned_scope (e_ctx e) (ix_tenant r)) (iv_replica db))"

definition invoices_catch_up :: "'a invoice_db_scheme \<Rightarrow> 'a invoice_db_scheme" where
  "invoices_catch_up db = db\<lparr>iv_replica := iv_rows db\<rparr>"

section \<open>Use cases\<close>

fun invoice_event_message :: "invoice_event \<Rightarrow> string \<times> (string \<times> json) list" where
  "invoice_event_message (InvoiceCreated i n c t cur) = (''InvoiceCreated'',
     [(''invoiceId'', JObj [(''value'', JStr i)]), (''invoiceNo'', JStr n), (''customerId'', JStr c), (''totalAmount'', JNum t),
      (''currency'', JStr cur)])"
| "invoice_event_message (InvoicePosted i n t) = (''InvoicePosted'',
     [(''invoiceId'', JObj [(''value'', JStr i)]), (''invoiceNo'', JStr n), (''postedAt'', JDate t)])"

definition invoice_publish :: "env \<Rightarrow> invoice \<Rightarrow> (unit, 'a invoice_db_scheme) tx" where
  "invoice_publish e v = send_events e ''Invoice'' (iv_id v) (map invoice_event_message (iv_events v))"

record create_invoice_request =
  cq_customerId :: string
  cq_currency :: "string option"
  cq_lines :: "invoice_line_input list"

definition create_invoice :: "env \<Rightarrow> create_invoice_request \<Rightarrow> (string, 'a invoice_db_scheme) tx" where
  "create_invoice e input =
     tx_then (tx_lift (require_company_and_access (e_abac e) (e_ctx e)
       (throw_plain ''Company not found in request context'') ''Invoice'' ''create'')) (\<lambda>_.
     if cq_customerId input = [] then tx_lift (conflict ''customerId is required'')
     else if cq_lines input = [] then tx_lift (conflict ''Invoice lines must be a non-empty array'')
     else let currency = coalesce (cq_currency input) (coalesce (defaultCurrency (e_ctx e)) ''USD'') in
       tx_then (nextNumber e ''invoice'' (Some ''INV-'') (Some 8)) (\<lambda>invoiceNo.
       tx_then (draw_uuid e) (\<lambda>uuid.
       tx_then (tx_lift (invoice_create (e_now e) uuid
         \<lparr>cn_invoiceNo = invoiceNo, cn_customerId = cq_customerId input, cn_currency = currency, cn_lines = cq_lines input\<rparr>)) (\<lambda>invoice.
       tx_then (invoice_save e invoice) (\<lambda>_.
       tx_then (invoice_publish e invoice) (\<lambda>_. tx_return (iv_id invoice)))))))"

definition post_invoice :: "env \<Rightarrow> string \<Rightarrow> (string, 'a invoice_db_scheme) tx" where
  "post_invoice e i =
     tx_then (invoice_findById e i) (\<lambda>found.
     case found of None \<Rightarrow> tx_lift (not_found ''Invoice not found'')
     | Some invoice \<Rightarrow>
         tx_then (tx_lift (invoice_post (e_now e) invoice)) (\<lambda>invoice.
         tx_then (invoice_update_row e invoice) (\<lambda>_.
         tx_then (invoice_publish e invoice) (\<lambda>_. tx_return (iv_id invoice)))))"

definition get_invoice :: "env \<Rightarrow> string \<Rightarrow> (invoice_query_record, 'a invoice_db_scheme) io" where
  "get_invoice e i = io_then (io_read (invoice_query_findById e i)) (\<lambda>r.
     case r of None \<Rightarrow> io_lift (not_found ''Invoice not found'') | Some x \<Rightarrow> io_return x)"

definition list_invoices :: "env \<Rightarrow> page_query \<Rightarrow> (invoice_query_record page_result, 'a invoice_db_scheme) io" where
  "list_invoices e q = io_read (invoice_findAll e q)"

record invoice_reference =
  vf_id :: string
  vf_invoiceNo :: string
  vf_customerId :: string
  vf_status :: invoice_status
  vf_currency :: string
  vf_totalAmount :: number
  vf_postedAt :: "int option"

definition facade_getInvoice :: "env \<Rightarrow> string \<Rightarrow> (invoice_reference option, 'a invoice_db_scheme) io" where
  "facade_getInvoice e i = io_then (get_invoice e i) (\<lambda>v. io_return (Some
     \<lparr>vf_id = qv_id v, vf_invoiceNo = qv_invoiceNo v, vf_customerId = qv_customerId v, vf_status = qv_status v,
      vf_currency = qv_currency v, vf_totalAmount = qv_totalAmount v, vf_postedAt = qv_postedAt v\<rparr>))"

section \<open>Recurring invoices\<close>

text \<open>
  \<open>iq_number\<close> is \<open>Number(v)\<close> of a JSON value that is not a number (\<open>None\<close> is \<open>undefined\<close>),
  \<open>iq_fresh\<close> tells whether the read connection has caught up with the commits when the new invoice is read back,
  \<open>iq_elapsed\<close> the measured milliseconds.
\<close>

record invoice_call =
  iq_env :: env
  iq_number :: "json option \<Rightarrow> number"
  iq_inbox :: inbox_config
  iq_fresh :: bool
  iq_elapsed :: int

record occurrence_payload =
  op_executionId :: string
  op_targetEntityType :: string
  op_partyId :: "string option"
  op_currency :: "string option"
  op_autoPost :: bool
  op_tenantId :: "string option"
  op_lines :: "json list"

definition payload_string :: "string \<Rightarrow> (string \<times> json) list \<Rightarrow> string option" where
  "payload_string k p = (case json_field k p of Some (JStr s) \<Rightarrow> Some s | _ \<Rightarrow> None)"

text \<open>The payload of the envelope read with the type of the consumer's contract.\<close>

definition occurrence_of :: "(string \<times> json) list \<Rightarrow> occurrence_payload" where
  "occurrence_of p =
     \<lparr>op_executionId = coalesce (payload_string ''executionId'' p) [],
      op_targetEntityType = coalesce (payload_string ''targetEntityType'' p) [], op_partyId = payload_string ''partyId'' p,
      op_currency = payload_string ''currency'' p, op_autoPost = (json_field ''autoPost'' p = Some (JBool True)),
      op_tenantId = payload_string ''tenantId'' p,
      op_lines = (case json_field ''lines'' p of Some (JArr ls) \<Rightarrow> ls | _ \<Rightarrow> [])\<rparr>"

definition line_property :: "string \<Rightarrow> json \<Rightarrow> json option" where
  "line_property k l = (case l of JObj fs \<Rightarrow> json_field k fs | _ \<Rightarrow> None)"

definition line_number :: "invoice_call \<Rightarrow> json option \<Rightarrow> number" where
  "line_number c v = (case v of Some (JNum n) \<Rightarrow> n | _ \<Rightarrow> iq_number c v)"

definition recurring_line :: "invoice_call \<Rightarrow> nat \<times> json \<Rightarrow> invoice_line_input result" where
  "recurring_line c il = (case il of (index, line) \<Rightarrow>
     let at_index = ''Recurring Invoice lines['' @ nat_to_string index @ ''].'';
         description = line_property ''description'' line;
         quantity = line_number c (line_property ''quantity'' line);
         unitPrice = line_number c (line_property ''unitPrice'' line) in
     case description of
       Some (JStr d) \<Rightarrow>
         if trim d = [] then throw 422 (at_index @ ''description is required'')
         else if \<not> is_finite quantity then throw 422 (at_index @ ''quantity must be a number'')
         else if \<not> is_finite unitPrice then throw 422 (at_index @ ''unitPrice must be a number'')
         else Inr \<lparr>li_description = d, li_quantity = quantity, li_unitPrice = unitPrice\<rparr>
     | _ \<Rightarrow> throw 422 (at_index @ ''description is required''))"

definition validateAndMap :: "invoice_call \<Rightarrow> json list \<Rightarrow> invoice_line_input list result" where
  "validateAndMap c lines =
     (if length lines < 1 then throw 422 ''Recurring Invoice template must have at least one line''
      else map_result (recurring_line c) (zip [0..<length lines] lines))"

definition invoice_snapshot :: "invoice_query_record \<Rightarrow> json" where
  "invoice_snapshot r = JObj [(''id'', JStr (qv_id r)), (''invoiceNo'', JStr (qv_invoiceNo r)),
     (''customerId'', JStr (qv_customerId r)), (''status'', JStr (invoice_status_name (qv_status r))),
     (''currency'', JStr (qv_currency r)), (''totalAmount'', JNum (qv_totalAmount r)),
     (''lines'', JArr (map (\<lambda>l. JObj [(''description'', JStr (sl_description l)), (''quantity'', JNum (sl_quantity l)),
        (''unitPrice'', JNum (sl_unitPrice l))]) (qv_lines r))),
     (''postedAt'', (case qv_postedAt r of None \<Rightarrow> JNull | Some t \<Rightarrow> JDate t)), (''createdAt'', JDate (qv_createdAt r)),
     (''updatedAt'', JDate (qv_updatedAt r))]"

text \<open>\<open>requestContext.run({ tenantId: command.tenantId }, ...)\<close>\<close>

definition in_tenant :: "env \<Rightarrow> string option \<Rightarrow> env" where
  "in_tenant e tenantId = e\<lparr>e_ctx := ctx_run_context (Some (e_ctx e)) (empty_patch\<lparr>p_tenantId := Some tenantId\<rparr>)\<rparr>"

definition read_back :: "invoice_call \<Rightarrow> env \<Rightarrow> string \<Rightarrow> (invoice_query_record, 'a invoice_db_scheme) io" where
  "read_back c e i = io_then (io_write (\<lambda>db. if iq_fresh c then invoices_catch_up db else db)) (\<lambda>_. get_invoice e i)"

definition auto_post :: "env \<Rightarrow> bool \<Rightarrow> string \<Rightarrow> (unit, 'a invoice_db_scheme) io" where
  "auto_post e autoPost i =
     (if autoPost then io_catch (io_then (transactional (post_invoice e i)) (\<lambda>_. io_return ())) (\<lambda>_. io_return ())
      else io_return ())"

definition generate_document :: "invoice_call \<Rightarrow> env \<Rightarrow> occurrence_payload \<Rightarrow> (unit, 'a invoice_db_scheme) io" where
  "generate_document c e p =
     io_then (io_lift (validateAndMap c (op_lines p))) (\<lambda>lines.
     io_then (transactional (create_invoice e
       \<lparr>cq_customerId = coalesce (op_partyId p) [], cq_currency = op_currency p, cq_lines = lines\<rparr>)) (\<lambda>i.
     io_then (read_back c e i) (\<lambda>snapshot.
     io_then (transactional (complete_occurrence (op_executionId p)
       \<lparr>co_generatedDocumentId = Some i, co_generatedSnapshot = Some (invoice_snapshot snapshot), co_conditionEvaluation = None,
        co_executionTimeMs = Some (iq_elapsed c)\<rparr>)) (\<lambda>_.
     auto_post e (op_autoPost p) i))))"

definition generate_recurring_invoice :: "invoice_call \<Rightarrow> occurrence_payload \<Rightarrow> (unit, 'a invoice_db_scheme) io" where
  "generate_recurring_invoice c p =
     (let e = in_tenant (iq_env c) (op_tenantId p) in
      if op_targetEntityType p \<noteq> [] \<and> op_targetEntityType p \<noteq> ''Invoice'' then io_return ()
      else if op_executionId p = [] then io_lift (conflict ''RecurringOccurrenceRequested.executionId is required'')
      else if \<not> truthy (op_partyId p) then io_lift (conflict ''Recurring Invoice occurrence requires a customer partyId'')
      else io_then (io_read (\<lambda>db. execution_findById (op_executionId p) (rd_executions db))) (\<lambda>execution.
        case execution of None \<Rightarrow> io_return ()
        | Some x \<Rightarrow>
            if rx_status x \<noteq> E_IN_PROGRESS then io_return ()
            else io_catch (generate_document c e p)
              (\<lambda>er. transactional (fail_occurrence (op_executionId p) (message er)))))"

definition occurrence_inbox_request :: "envelope \<Rightarrow> inbox_receive_request" where
  "occurrence_inbox_request m = \<lparr>ir_tenantId = Some (coalesce (en_tenantId m) []), ir_companyId = Some (coalesce (en_companyId m) []),
     ir_consumer = ''RecurringOccurrenceRequestedRabbitMQListener'', ir_messageId = en_eventId m,
     ir_messageType = ''RecurringOccurrenceRequested'', ir_payload = en_payload m,
     ir_correlationId = en_correlationId m, ir_causationId = en_causationId m\<rparr>"

definition listener_call :: "invoice_call \<Rightarrow> envelope \<Rightarrow> invoice_call" where
  "listener_call c m = c\<lparr>iq_env := (iq_env c)\<lparr>e_ctx := ctx_run_context (Some (e_ctx (iq_env c)))
     (empty_patch\<lparr>p_tenantId := Some (Some (coalesce (en_tenantId m) [])),
        p_companyId := Some (Some (coalesce (en_companyId m) []))\<rparr>)\<rparr>\<rparr>"

definition receive_occurrence :: "invoice_call \<Rightarrow> envelope \<Rightarrow> (inbox_receive_result, 'a invoice_db_scheme) io" where
  "receive_occurrence c m =
     io_then (transactional (draw_uuid (iq_env c))) (\<lambda>i. io_then (transactional (draw_uuid (iq_env c))) (\<lambda>token.
     io_step (\<lambda>db. let (res, rows) = inbox_receive (iq_inbox c) (e_now (iq_env c)) i token (occurrence_inbox_request m) (iv_inbox db)
       in (res, db\<lparr>iv_inbox := rows\<rparr>))))"

definition onRecurringOccurrenceRequested :: "invoice_call \<Rightarrow> envelope \<Rightarrow> (unit, 'a invoice_db_scheme) io" where
  "onRecurringOccurrenceRequested c m =
     (if en_eventType m \<noteq> ''RecurringOccurrenceRequested'' then io_return ()
      else if op_targetEntityType (occurrence_of (en_payload m)) \<noteq> ''Invoice'' then io_return ()
      else let c' = listener_call c m; now = e_now (iq_env c) in
        io_then (receive_occurrence c' m) (\<lambda>delivery.
        case delivery of
          ACQUIRED res \<Rightarrow> io_catch
            (io_then (generate_recurring_invoice c' (occurrence_of (en_payload m))) (\<lambda>_.
             io_write (\<lambda>db. db\<lparr>iv_inbox := complete_inbox_message now res (iv_inbox db)\<rparr>)))
            (\<lambda>er. io_then (io_write (\<lambda>db. db\<lparr>iv_inbox := fail_inbox_message (iq_inbox c) now res (Some (message er)) (iv_inbox db)\<rparr>))
               (\<lambda>_. io_lift (Inl er)))
        | _ \<Rightarrow> io_return ()))"

end
