(* ===== verification/Invoice_Recurring.thy ===== *)
theory Invoice_Recurring
  imports Invoice Recurring_Examples PO_Storage
begin

text \<open>
  Invoices from recurring templates: what the consumer makes of an occurrence, once and twice, and of the occurrences
  the scheduler requests.
\<close>

section \<open>Single use cases\<close>

interpretation invoice_fsm: transition_guard invoice_allowed inv_invoice_transition
  by unfold_locales (auto simp: inv_invoice_transition_def)

text \<open>Creating and posting leave executions and the read connection alone.\<close>

abbreviation same_reports :: "'a invoice_db_scheme \<Rightarrow> 'a invoice_db_scheme \<Rightarrow> bool" where
  "same_reports db db' \<equiv> rd_executions db' = rd_executions db \<and> iv_replica db' = iv_replica db \<and> iv_inbox db' = iv_inbox db"

interpretation reportless: tx_relation "same_reports :: 'a invoice_db_scheme \<Rightarrow> 'a invoice_db_scheme \<Rightarrow> bool"
  by unfold_locales auto

lemmas reportless_rules = reportless.rel_then reportless.rel_lift reportless.rel_read reportless.rel_return reportless.rel_for
  reportless.rel_if reportless.rel_write reportless.rel_case_option

lemma invoice_publish_elsewhere:
  "invoice_publish e v db = Inr (u, db') \<Longrightarrow> same_reports db db' \<and> iv_rows db' = iv_rows db"
proof -
  have r: "tx_relation (\<lambda>db db'. same_reports db db' \<and> iv_rows db' = iv_rows db :: bool)" by unfold_locales auto
  have "tx_rel (\<lambda>db db'. same_reports db db' \<and> iv_rows db' = iv_rows db) (send_event e t k ev)" for t k ev
    by (auto simp: tx_rel_def send_event_def draw_uuid_def res_simps)
  then have "tx_rel (\<lambda>db db'. same_reports db db' \<and> iv_rows db' = iv_rows db) (invoice_publish e v)"
    unfolding invoice_publish_def send_events_def by (intro tx_relation.rel_for [OF r])
  then show "invoice_publish e v db = Inr (u, db') \<Longrightarrow> same_reports db db' \<and> iv_rows db' = iv_rows db"
    by (drule_tac tx_relD) auto
qed

lemma write_invoices_Inr: "write_invoices rows' db = Inr (u, db') \<longleftrightarrow> invoice_unique rows' \<and> db' = db\<lparr>iv_rows := rows'\<rparr>"
  by (auto simp: write_invoices_def res_simps)

lemma create_invoice_Inr:
  assumes "create_invoice e input db = Inr (i, db')"
  obtains row where "iv_rows db' = insert_row row (iv_rows db)" "ix_id (ix_data row) = i" "ix_tenant row = ctx_tenantId (e_ctx e)"
    "ix_status (ix_data row) = IV_DRAFT" "invoice_unique (iv_rows db')" "same_reports db db'"
proof -
  let ?in = "\<lambda>n. \<lparr>cn_invoiceNo = n, cn_customerId = cq_customerId input,
      cn_currency = coalesce (cq_currency input) (coalesce (defaultCurrency (e_ctx e)) ''USD''), cn_lines = cq_lines input\<rparr>"
  obtain n db1 u v db2 where n: "nextNumber e ''invoice'' (Some ''INV-'') (Some 8) db = Inr (n, db1)"
    and v: "invoice_create (e_now e) u (?in n) = Inr v"
    and save: "invoice_save e v (db1\<lparr>pf_drawn := pf_drawn db1 + 1\<rparr>) = Inr ((), db2)"
    and pub: "invoice_publish e v db2 = Inr ((), db')" and i: "i = iv_id v"
    using assms by (auto simp: create_invoice_def res_simps draw_uuid_def Let_def split: if_splits)
  have s1: "same_reports db db1 \<and> iv_rows db1 = iv_rows db"
    using n by (auto simp: nextNumber_def Let_def split: prod.splits)
  have st: "iv_status v = IV_DRAFT" "iv_id v = u"
    using v by (auto simp: invoice_create_def res_simps invoice_addEvent_def Let_def)
  obtain data where data: "invoice_toRow e v = Inr data"
    and uq: "invoice_unique (insert_row \<lparr>ix_data = data, ix_version = iv_version v, ix_tenant = ctx_tenantId (e_ctx e),
       ix_company = resolveCompanyId (e_ctx e), ix_createdAt = e_now e, ix_updatedAt = e_now e\<rparr> (iv_rows db))"
    and db2: "db2 = db1\<lparr>pf_drawn := pf_drawn db1 + 1, iv_rows := insert_row \<lparr>ix_data = data, ix_version = iv_version v,
       ix_tenant = ctx_tenantId (e_ctx e), ix_company = resolveCompanyId (e_ctx e), ix_createdAt = e_now e, ix_updatedAt = e_now e\<rparr> (iv_rows db)\<rparr>"
    using save s1 by (auto simp: invoice_save_def res_simps write_invoices_Inr)
  have d: "ix_id data = i" "ix_status data = IV_DRAFT"
    using data i st by (auto simp: invoice_toRow_def res_simps)
  have s2: "same_reports db2 db' \<and> iv_rows db' = iv_rows db2" by (rule invoice_publish_elsewhere [OF pub])
  show thesis
    by (rule that [of "\<lparr>ix_data = data, ix_version = iv_version v, ix_tenant = ctx_tenantId (e_ctx e),
       ix_company = resolveCompanyId (e_ctx e), ix_createdAt = e_now e, ix_updatedAt = e_now e\<rparr>"])
      (use d s1 s2 uq db2 in simp_all)
qed

lemma post_invoice_Inr:
  assumes "post_invoice e i db = Inr (x, db')"
  shows "same_reports db db' \<and> map (\<lambda>r. ix_id (ix_data r)) (iv_rows db') = map (\<lambda>r. ix_id (ix_data r)) (iv_rows db)"
proof -
  obtain v db1 data where row: "invoice_toRow e v = Inr data"
    and w: "db1 = db\<lparr>iv_rows := map_where (invoice_cas e v) (invoice_written e data) (iv_rows db)\<rparr>"
    and pub: "invoice_publish e v db1 = Inr ((), db')"
    using assms by (auto simp: post_invoice_def res_simps invoice_findById_def invoice_update_row_def update_many_def write_invoices_Inr
        split: option.splits if_splits)
  have "ix_id data = iv_id v" using row by (auto simp: invoice_toRow_def res_simps)
  then have "map (\<lambda>r. ix_id (ix_data r)) (map_where (invoice_cas e v) (invoice_written e data) (iv_rows db)) =
      map (\<lambda>r. ix_id (ix_data r)) (iv_rows db)"
    by (intro map_map_where) (simp add: invoice_cas_def invoice_written_def)
  then show ?thesis using invoice_publish_elsewhere [OF pub] w by simp
qed

lemma no_company_no_invoice:
  "\<not> truthy (ctx_companyId (e_ctx e)) \<Longrightarrow> create_invoice e input db = Inl (Exn None ''Company not found in request context'')"
  by (simp add: create_invoice_def require_company_and_access_def)

section \<open>Executions\<close>

lemma execution_after:
  assumes "execution_findById i rows = Some r" "rx_status r = E_IN_PROGRESS"
  shows "execution_findById i (execution_fail i msg rows) = Some (r\<lparr>rx_status := E_FAILED, rx_errorMessage := Some msg\<rparr>)"
    "\<exists>r'. execution_findById i (execution_complete i inp rows) = Some r' \<and> rx_status r' = E_SUCCESS \<and>
       rx_generatedDocumentId r' = coalesce_opt (co_generatedDocumentId inp) (rx_generatedDocumentId r)"
proof -
  have keep: "find_first (\<lambda>q. rx_id q = i) (map_where (in_progress i) f rows) = Some (f r)" if "\<And>q. rx_id (f q) = rx_id q" for f
    using assms unfolding execution_findById_def find_first_def
    by (induction rows) (auto simp: in_progress_def that split: if_splits)
  show "execution_findById i (execution_fail i msg rows) = Some (r\<lparr>rx_status := E_FAILED, rx_errorMessage := Some msg\<rparr>)"
    unfolding execution_findById_def execution_fail_def update_many_def snd_conv by (subst keep) simp_all
  show "\<exists>r'. execution_findById i (execution_complete i inp rows) = Some r' \<and> rx_status r' = E_SUCCESS \<and>
       rx_generatedDocumentId r' = coalesce_opt (co_generatedDocumentId inp) (rx_generatedDocumentId r)"
    unfolding execution_findById_def execution_complete_def update_many_def snd_conv by (subst keep) simp_all
qed

lemma fail_occurrence_run:
  "transactional (fail_occurrence i msg) db = (Inr (), db\<lparr>rd_executions := execution_fail i msg (rd_executions db)\<rparr>)"
  by (simp add: transactional_def fail_occurrence_def write_executions_def tx_write_def)

lemma complete_occurrence_run:
  "transactional (complete_occurrence i inp) db = (Inr (), db\<lparr>rd_executions := execution_complete i inp (rd_executions db)\<rparr>)"
  by (simp add: transactional_def complete_occurrence_def write_executions_def tx_write_def)

lemma auto_post_run:
  "\<exists>db'. auto_post e b i db = (Inr (), db') \<and> same_reports db db' \<and>
     map (\<lambda>r. ix_id (ix_data r)) (iv_rows db') = map (\<lambda>r. ix_id (ix_data r)) (iv_rows db)"
proof (cases "post_invoice e i db")
  case (Inr xdb)
  obtain x db' where "xdb = (x, db')" by fastforce
  with Inr show ?thesis using post_invoice_Inr [of e i db x db'] by (cases b) (simp_all add: auto_post_def io_catch_def io_then_def transactional_def)
qed (cases b, simp_all add: auto_post_def io_catch_def io_then_def transactional_def)

section \<open>One occurrence\<close>

lemma generate_in_progress:
  assumes "execution_findById (op_executionId p) (rd_executions db) = Some r" "rx_status r = E_IN_PROGRESS"
    and "op_targetEntityType p = [] \<or> op_targetEntityType p = ''Invoice''" "op_executionId p \<noteq> []" "truthy (op_partyId p)"
  shows "generate_recurring_invoice c p db =
    io_catch (generate_document c (in_tenant (iq_env c) (op_tenantId p)) p)
      (\<lambda>er. transactional (fail_occurrence (op_executionId p) (message er))) db"
  using assms by (auto simp: generate_recurring_invoice_def Let_def)

text \<open>
  C40. What becomes of an occurrence whose invoice is created. The invoice is stored in every case. When the read
  connection has caught up by the time it is read back, the execution succeeds and names the invoice,
  whether or not the automatic posting works; when it has not, the execution is recorded as failed although the invoice exists.
\<close>
theorem created_invoice_is_reported_when_fresh:
  fixes db :: "'a invoice_db_scheme"
  assumes "execution_findById (op_executionId p) (rd_executions db) = Some r" "rx_status r = E_IN_PROGRESS"
    and "op_targetEntityType p = ''Invoice''" "op_executionId p \<noteq> []" "truthy (op_partyId p)"
    and "validateAndMap c (op_lines p) = Inr lines"
    and "create_invoice (in_tenant (iq_env c) (op_tenantId p))
       \<lparr>cq_customerId = the (op_partyId p), cq_currency = op_currency p, cq_lines = lines\<rparr> db = Inr (i, db1)"
    and "i \<notin> (\<lambda>q. ix_id (ix_data q)) ` set (iv_replica db)"
  shows "\<exists>db' r'. generate_recurring_invoice c p db = (Inr (), db') \<and> i \<in> (\<lambda>q. ix_id (ix_data q)) ` set (iv_rows db') \<and>
    execution_findById (op_executionId p) (rd_executions db') = Some r' \<and>
    (if iq_fresh c then rx_status r' = E_SUCCESS \<and> rx_generatedDocumentId r' = Some i
     else rx_status r' = E_FAILED \<and> rx_errorMessage r' = Some ''Invoice not found'')"
proof -
  let ?e = "in_tenant (iq_env c) (op_tenantId p)" and ?ids = "\<lambda>db. (\<lambda>q. ix_id (ix_data q)) ` set (iv_rows db)"
  obtain row where rows: "iv_rows db1 = insert_row row (iv_rows db)" and row: "ix_id (ix_data row) = i" "ix_tenant row = ctx_tenantId (e_ctx ?e)"
    and u: "invoice_unique (iv_rows db1)" and s: "same_reports db db1"
    using create_invoice_Inr [OF assms(7)] by blast
  have made: "transactional (create_invoice ?e
      \<lparr>cq_customerId = coalesce (op_partyId p) [], cq_currency = op_currency p, cq_lines = lines\<rparr>) db = (Inr i, db1)"
    using assms(5,7) by (cases "op_partyId p") (simp_all add: transactional_def)
  have i: "i \<in> ?ids db1" using rows row(1) by (auto simp: insert_row_def)
  note gen = generate_in_progress [OF assms(1,2) disjI2 [OF assms(3)] assms(4,5), of c]
  show ?thesis
  proof (cases "iq_fresh c")
    case False
    have "read_back c ?e i db1 = (Inl (Exn (Some 404) ''Invoice not found''), db1)"
      using False assms(8) s
      by (auto simp: read_back_def get_invoice_def invoice_query_findById_def io_then_def find_first_def find_None_iff2 split: option.split
          dest!: find_Some_iff2)
    then have "generate_document c ?e p db = (Inl (Exn (Some 404) ''Invoice not found''), db1)"
      using made assms(6) by (simp add: generate_document_def io_then_def)
    then have "generate_recurring_invoice c p db =
        (Inr (), db1\<lparr>rd_executions := execution_fail (op_executionId p) ''Invoice not found'' (rd_executions db1)\<rparr>)"
      by (simp add: gen io_catch_def fail_occurrence_run)
    then show ?thesis using False i s execution_after(1) [OF assms(1,2)] by simp
  next
    case True
    have "\<forall>q \<in> set (iv_rows db). ix_id (ix_data q) \<noteq> i"
      using u row(1) by (auto simp: rows invoice_unique_def insert_row_def image_iff)
    then have "find_first (\<lambda>q. ix_id (ix_data q) = i \<and> owned_scope (e_ctx ?e) (ix_tenant q)) (iv_rows db1) = Some row"
      unfolding rows using row by (intro find_first_inserted) auto
    then have seen: "read_back c ?e i db1 = (Inr (invoice_toRecord row), invoices_catch_up db1)"
      using True by (simp add: read_back_def get_invoice_def invoice_query_findById_def io_then_def invoices_catch_up_def)
    define inp where "inp = \<lparr>co_generatedDocumentId = Some i, co_generatedSnapshot = Some (invoice_snapshot (invoice_toRecord row)),
        co_conditionEvaluation = (None :: (string \<times> sval) list option), co_executionTimeMs = Some (iq_elapsed c)\<rparr>"
    define db2 where "db2 = (invoices_catch_up db1)\<lparr>rd_executions := execution_complete (op_executionId p) inp (rd_executions db1)\<rparr>"
    obtain db' where post: "auto_post ?e (op_autoPost p) i db2 = (Inr (), db')" and s2: "same_reports db2 db'"
      and ids: "map (\<lambda>r. ix_id (ix_data r)) (iv_rows db') = map (\<lambda>r. ix_id (ix_data r)) (iv_rows db2)"
      using auto_post_run [of ?e "op_autoPost p" i db2] by blast
    have "generate_document c ?e p db = (Inr (), db')"
      using made assms(6) seen post
      by (simp add: generate_document_def io_then_def complete_occurrence_run db2_def inp_def invoices_catch_up_def)
    then have "generate_recurring_invoice c p db = (Inr (), db')" by (simp add: gen io_catch_def)
    moreover have "iv_rows db2 = iv_rows db1" by (simp add: db2_def invoices_catch_up_def)
    then have "i \<in> ?ids db'" using i arg_cong [OF ids, of set] by simp
    ultimately show ?thesis
      using True s s2 execution_after(2) [OF assms(1,2), of inp] by (auto simp: db2_def inp_def)
  qed
qed

section \<open>The same occurrence again\<close>

lemma read_back_reports: "read_back c e i db = (res, db') \<Longrightarrow> rd_executions db' = rd_executions db"
  by (auto simp: read_back_def get_invoice_def io_then_def invoices_catch_up_def split: option.splits if_splits sum.splits)

lemma create_invoice_executions:
  "transactional (create_invoice e input) db = (res, db') \<Longrightarrow> rd_executions db' = rd_executions db"
  by (cases "create_invoice e input db") (auto simp: transactional_def dest: create_invoice_Inr)

lemma generate_document_outcome:
  assumes "generate_document c e p db = (res, db')"
  shows "(res = Inr () \<and> (\<exists>inp. rd_executions db' = execution_complete (op_executionId p) inp (rd_executions db))) \<or>
    (\<exists>er. res = Inl er \<and> rd_executions db' = rd_executions db)"
proof (cases "validateAndMap c (op_lines p)")
  case (Inr lines)
  obtain made db1 where m: "transactional (create_invoice e
      \<lparr>cq_customerId = coalesce (op_partyId p) [], cq_currency = op_currency p, cq_lines = lines\<rparr>) db = (made, db1)" by fastforce
  note x1 = create_invoice_executions [OF m]
  show ?thesis
  proof (cases made)
    case (Inl er)
    then show ?thesis using assms m x1 \<open>validateAndMap c (op_lines p) = Inr lines\<close>
      by (auto simp: generate_document_def io_then_def)
  next
    case made: (Inr i)
    obtain snap db2 where r: "read_back c e i db1 = (snap, db2)" by fastforce
    note x2 = read_back_reports [OF r]
    show ?thesis
    proof (cases snap)
      case (Inl er)
      then show ?thesis using assms m x1 x2 r made \<open>validateAndMap c (op_lines p) = Inr lines\<close>
        by (auto simp: generate_document_def io_then_def)
    next
      case (Inr s)
      define inp where "inp = \<lparr>co_generatedDocumentId = Some i, co_generatedSnapshot = Some (invoice_snapshot s),
        co_conditionEvaluation = (None :: (string \<times> sval) list option), co_executionTimeMs = Some (iq_elapsed c)\<rparr>"
      obtain db3 where "auto_post e (op_autoPost p) i (db2\<lparr>rd_executions := execution_complete (op_executionId p) inp (rd_executions db2)\<rparr>)
          = (Inr (), db3)" "rd_executions db3 = execution_complete (op_executionId p) inp (rd_executions db2)"
        using auto_post_run [of e "op_autoPost p" i "db2\<lparr>rd_executions := execution_complete (op_executionId p) inp (rd_executions db2)\<rparr>"]
        by auto
      moreover have "generate_document c e p db =
          auto_post e (op_autoPost p) i (db2\<lparr>rd_executions := execution_complete (op_executionId p) inp (rd_executions db2)\<rparr>)"
        using m r made Inr \<open>validateAndMap c (op_lines p) = Inr lines\<close>
        by (simp add: generate_document_def io_then_def complete_occurrence_run inp_def)
      ultimately show ?thesis using assms x1 x2 by auto
    qed
  qed
qed (use assms in \<open>auto simp: generate_document_def io_then_def\<close>)

text \<open>
  C39. An occurrence makes at most one invoice. When the generation for an execution has returned, repeating it with the
  same payload, in whatever context and at whatever time, changes nothing: neither a second invoice nor a second report.
\<close>
theorem occurrence_generates_once:
  assumes "generate_recurring_invoice c p db = (Inr (), db1)"
  shows "generate_recurring_invoice c' p db1 = (Inr (), db1)"
proof -
  let ?e = "in_tenant (iq_env c) (op_tenantId p)" and ?x = "op_executionId p"
  consider (other) "op_targetEntityType p \<noteq> [] \<and> op_targetEntityType p \<noteq> ''Invoice''"
    | (idle) "op_targetEntityType p = [] \<or> op_targetEntityType p = ''Invoice''" "?x \<noteq> []" "truthy (op_partyId p)"
      "\<forall>r. execution_findById ?x (rd_executions db) = Some r \<longrightarrow> rx_status r \<noteq> E_IN_PROGRESS"
    | (busy) r where "op_targetEntityType p = [] \<or> op_targetEntityType p = ''Invoice''" "?x \<noteq> []" "truthy (op_partyId p)"
      "execution_findById ?x (rd_executions db) = Some r" "rx_status r = E_IN_PROGRESS"
    using assms by (auto simp: generate_recurring_invoice_def Let_def split: if_splits)
  then show ?thesis
  proof cases
    case other
    then show ?thesis using assms by (simp add: generate_recurring_invoice_def)
  next
    case idle
    then have "generate_recurring_invoice k p db = (Inr (), db)" for k
      by (cases "execution_findById ?x (rd_executions db)") (auto simp: generate_recurring_invoice_def Let_def)
    then show ?thesis using assms by simp
  next
    case (busy r)
    obtain res db2 where g: "generate_document c ?e p db = (res, db2)" by fastforce
    have run: "generate_recurring_invoice c p db =
        io_catch (generate_document c ?e p) (\<lambda>er. transactional (fail_occurrence ?x (message er))) db"
      by (rule generate_in_progress) (use busy in auto)
    have "\<exists>r'. execution_findById ?x (rd_executions db1) = Some r' \<and> rx_status r' \<noteq> E_IN_PROGRESS"
    proof (cases res)
      case (Inl er)
      then have "rd_executions db1 = execution_fail ?x (message er) (rd_executions db)"
        using assms g generate_document_outcome [OF g] by (auto simp: run io_catch_def fail_occurrence_run)
      then show ?thesis using execution_after(1) [OF busy(4,5)] by simp
    next
      case (Inr u)
      then obtain inp where "rd_executions db1 = execution_complete ?x inp (rd_executions db)"
        using assms g generate_document_outcome [OF g] by (auto simp: run io_catch_def)
      then show ?thesis using execution_after(2) [OF busy(4,5), of inp] by auto
    qed
    then show ?thesis using busy(1-3) by (auto simp: generate_recurring_invoice_def Let_def)
  qed
qed

section \<open>Occurrences of the scheduler\<close>

lemma receive_new_occurrence:
  assumes "\<forall>q \<in> set (iv_inbox db). ib_identity q \<noteq> inbox_identity_of (occurrence_inbox_request m) \<and> ib_id q \<noteq> e_uuid (iq_env c) (pf_drawn db)"
  shows "\<exists>res db'. receive_occurrence c m db = (Inr (ACQUIRED res), db') \<and> rd_executions db' = rd_executions db \<and> iv_rows db' = iv_rows db"
  using assms
  by (auto simp: receive_occurrence_def io_then_def transactional_def draw_uuid_def io_step_def inbox_receive_def insertIfAbsent_def Let_def)

text \<open>
  The scheduler generates no invoice. The job worker restores tenant and correlation but no company, so the event
  of an occurrence it requests carries none; the consumer then runs without a company and the creation of the invoice refuses
  to start: every such occurrence, delivered for the first time, ends as a failed execution and no invoice is written.
\<close>
theorem scheduled_occurrence_makes_no_invoice:
  fixes db :: "'a invoice_db_scheme"
  assumes "send_event e0 ''RecurringTemplate'' (rt_id t) (occurrence_requested t x rctx) db0 = Inr ((), db1)"
    and "e_ctx e0 = ctx_run_context None (empty_patch\<lparr>p_tenantId := Some tenant, p_correlationId := Some key\<rparr>)"
    and "m = toEnvelope (last (pf_outbox db1))"
    and "rt_targetEntityType t = ''Invoice''" "truthy (rt_partyId t)" "x \<noteq> []"
    and "execution_findById x (rd_executions db) = Some r" "rx_status r = E_IN_PROGRESS"
    and "\<forall>q \<in> set (iv_inbox db). ib_identity q \<noteq> inbox_identity_of (occurrence_inbox_request m) \<and>
      ib_id q \<noteq> e_uuid (iq_env c) (pf_drawn db)"
  shows "\<exists>db' r'. onRecurringOccurrenceRequested c m db = (Inr (), db') \<and> iv_rows db' = iv_rows db \<and>
    execution_findById x (rd_executions db') = Some r' \<and> rx_status r' = E_FAILED"
proof -
  let ?p = "occurrence_of (en_payload m)" and ?c = "listener_call c m"
  let ?e = "in_tenant (iq_env ?c) (op_tenantId ?p)"
  have "ctx_companyId (e_ctx e0) = None" by (simp add: assms(2) ctx_run_context_def context_with_tenant empty_patch_def emptyContext_def)
  then have m: "en_eventType m = ''RecurringOccurrenceRequested''" "en_companyId m = None"
    "en_payload m = snd (occurrence_requested t x rctx) @ [(''occurredAt'', JDate (e_now e0))]"
    using assms(1,3) by (auto simp: send_event_def draw_uuid_def res_simps append_outbox_event_def outbox_append_def toEnvelope_def
        insert_row_def occurrence_requested_def Let_def)
  have p: "op_targetEntityType ?p = ''Invoice''" "op_executionId ?p = x" "op_partyId ?p = rt_partyId t"
    using assms(4,5) by (cases "rt_partyId t";
        simp add: m(3) occurrence_requested_def occurrence_of_def payload_string_def json_field_def json_opt_def)+
  have company: "\<not> truthy (ctx_companyId (e_ctx ?e))"
    by (simp add: in_tenant_def listener_call_def ctx_run_context_def context_with_tenant empty_patch_def m(2))
  obtain res db2 where rcv: "receive_occurrence ?c m db = (Inr (ACQUIRED res), db2)"
    and same: "rd_executions db2 = rd_executions db" "iv_rows db2 = iv_rows db"
    using receive_new_occurrence [of db m ?c] assms(9) by (auto simp: listener_call_def)
  have "\<exists>er. generate_document ?c ?e ?p db2 = (Inl er, db2)"
    by (cases "validateAndMap ?c (op_lines ?p)")
      (simp_all add: generate_document_def io_then_def transactional_def no_company_no_invoice [OF company])
  then obtain er where "generate_document ?c ?e ?p db2 = (Inl er, db2)" by blast
  then have gen: "generate_recurring_invoice ?c ?p db2 =
      (Inr (), db2\<lparr>rd_executions := execution_fail x (message er) (rd_executions db)\<rparr>)"
    using generate_in_progress [of ?p db2 r ?c] assms(5-8) p same by (simp add: io_catch_def fail_occurrence_run)
  let ?db3 = "db2\<lparr>rd_executions := execution_fail x (message er) (rd_executions db)\<rparr>"
  have "onRecurringOccurrenceRequested c m db =
      (Inr (), ?db3\<lparr>iv_inbox := complete_inbox_message (e_now (iq_env c)) res (iv_inbox ?db3)\<rparr>)"
    using m(1) p(1) rcv gen by (simp add: onRecurringOccurrenceRequested_def Let_def io_then_def io_catch_def)
  then show ?thesis using same execution_after(1) [OF assms(7,8)] by simp
qed

section \<open>Examples\<close>

definition demo_invoice_call :: "env \<Rightarrow> bool \<Rightarrow> invoice_call" where
  "demo_invoice_call e fresh = \<lparr>iq_env = e, iq_number = (\<lambda>_. NaN),
     iq_inbox = \<lparr>ic_claimLeaseMs = 1000, ic_maxAttempts = 3, ic_retryBaseDelayMs = 10, ic_retryMaxDelayMs = 100,
       ic_processedRetentionMs = 100000\<rparr>, iq_fresh = fresh, iq_elapsed = 7\<rparr>"

definition demo_execution :: recurring_execution where
  "demo_execution = \<lparr>rx_id = ''x1'', rx_tenantId = Some ''T1'', rx_recurringTemplateId = ''t1'', rx_scheduleJobId = None,
     rx_runDate = None, rx_sourceEventId = None, rx_triggerKey = ''k'', rx_generatedDocumentType = ''Invoice'',
     rx_generatedDocumentId = None, rx_generatedSnapshot = None, rx_conditionEvaluation = None, rx_status = E_IN_PROGRESS,
     rx_skipReason = None, rx_errorMessage = None, rx_executionTimeMs = None, rx_createdAt = 0\<rparr>"

definition demo_invoice_db :: invoice_db where
  "demo_invoice_db = \<lparr>pf_outbox = [], pf_audit = [], pf_sequences = [], pf_drawn = 0, sd_jobs = [], sd_logs = [],
     sd_edits = [], sd_queue = [], sd_published = [], sd_redis = (\<lambda>_. None), sd_lastTick = None,
     rd_templates = [], rd_executions = [demo_execution], iv_rows = [], iv_replica = [], iv_inbox = []\<rparr>"

definition demo_occurrence :: occurrence_payload where
  "demo_occurrence = \<lparr>op_executionId = ''x1'', op_targetEntityType = ''Invoice'', op_partyId = Some ''c1'', op_currency = Some ''USD'',
     op_autoPost = True, op_tenantId = Some ''T1'',
     op_lines = [JObj [(''description'', JStr ''rent''), (''quantity'', JNum (N 2)), (''unitPrice'', JNum (N 3))]]\<rparr>"

definition demo_invoice_lines :: "invoice_line_input list" where
  "demo_invoice_lines = [\<lparr>li_description = ''rent'', li_quantity = N 2, li_unitPrice = N 3\<rparr>]"

lemma demo_invoice_simps [simp]:
  "iq_env (demo_invoice_call e b) = e" "iq_fresh (demo_invoice_call e b) = b" "rd_executions demo_invoice_db = [demo_execution]"
  "iv_rows demo_invoice_db = []" "iv_replica demo_invoice_db = []" "iv_inbox demo_invoice_db = []" "pf_drawn demo_invoice_db = 0"
  "rx_id demo_execution = ''x1''" "rx_status demo_execution = E_IN_PROGRESS" "pf_sequences demo_invoice_db = []"
  "op_executionId demo_occurrence = ''x1''" "op_targetEntityType demo_occurrence = ''Invoice''"
  "op_partyId demo_occurrence = Some ''c1''" "op_currency demo_occurrence = Some ''USD''" "op_tenantId demo_occurrence = Some ''T1''"
  "execution_findById ''x1'' [demo_execution] = Some demo_execution"
  by (simp_all add: demo_invoice_call_def demo_invoice_db_def demo_execution_def demo_occurrence_def execution_findById_def find_first_def)

lemma demo_lines: "validateAndMap (demo_invoice_call e b) (op_lines demo_occurrence) = Inr demo_invoice_lines"
  by (simp add: validateAndMap_def demo_occurrence_def recurring_line_def line_property_def line_number_def json_field_def
      demo_invoice_lines_def trim_def is_space_def Let_def)

lemma demo_invoice_env [simp]:
  "ctx_companyId (e_ctx (in_tenant sample_env (Some ''T1''))) = Some ''C1''"
  "ctx_tenantId (e_ctx (in_tenant sample_env (Some ''T1''))) = Some ''T1''"
  "e_abac (in_tenant sample_env t) = noop_abac" "e_uuid (in_tenant sample_env t) = nat_to_string" "e_now (in_tenant sample_env t) = 100"
  "e_to_numeric (in_tenant sample_env t) = (\<lambda>x. Some (toFixed2 x))"
  by (simp_all add: in_tenant_def ctx_run_context_def context_with_def empty_patch_def sample_env_def sample_ctx_def emptyContext_def
      toData_def spread_def Let_def)

definition demo_invoice :: invoice where
  "demo_invoice = \<lparr>iv_id = ''0'', iv_version = 1, iv_events = [InvoiceCreated ''0'' ''INV-00000001'' ''c1'' (N 6) ''USD''],
     iv_invoiceNo = ''INV-00000001'', iv_customerId = ''c1'', iv_status = IV_DRAFT, iv_currency = ''USD'',
     iv_lines = [\<lparr>il_description = ''rent'', il_quantity = N 2, il_unitPrice = Money (N 300) ''USD''\<rparr>],
     iv_postedAt = None, iv_createdAt = 100, iv_updatedAt = 100\<rparr>"

lemma demo_amounts [simp]:
  "round_double 300 = N 300" "round_double 600 = N 600" "round_double 6 = N 6" "round_double 3 = N 3"
  using round_double_of_int [of 300] round_double_of_int [of 600] round_double_of_int [of 6] round_double_of_int [of 3] by simp_all

lemma demo_rounded [simp]: "\<lfloor>601 / 2 :: rat\<rfloor> = 300" "\<lfloor>1201 / 2 :: rat\<rfloor> = 600"
  by (simp_all add: floor_eq_iff)

lemma demo_total: "totalAmount (demo_invoice\<lparr>iv_events := evs\<rparr>) = Inr (Money (N 600) ''USD'')"
  by (simp add: totalAmount_def demo_invoice_def invoiceLine_total_def money_multiply_def money_add_def assertSameCurrency_def
      money_ZERO_def)

lemma demo_invoice_made:
  "invoice_create 100 ''0'' \<lparr>cn_invoiceNo = ''INV-00000001'', cn_customerId = ''c1'', cn_currency = ''USD'', cn_lines = demo_invoice_lines\<rparr> =
     Inr demo_invoice"
proof -
  have n: "invoiceNumber_create ''INV-00000001'' = Inr ''INV-00000001''" by code_simp
  have p: "money_fromDecimal (N 3) ''USD'' = Inr (Money (N 300) ''USD'')"
    by (simp add: money_fromDecimal_def money_fromMinorUnits_def)
  have t: "trim ''rent'' = ''rent''" by code_simp
  show ?thesis using demo_total [of "[]"]
    by (simp add: invoice_create_def inv_invoice_create_def demo_invoice_lines_def factory_line_def p [simplified] n inv_invoice_line_def
        invoiceLine_create_def t Let_def invoice_addEvent_def demo_invoice_def money_amount_def)
qed

lemma demo_invoice_number:
  "\<exists>seqs. nextNumber (in_tenant sample_env (Some ''T1'')) ''invoice'' (Some ''INV-'') (Some 8) demo_invoice_db =
     Inr (''INV-00000001'', demo_invoice_db\<lparr>pf_sequences := seqs\<rparr>)"
proof -
  have "pad_start 8 (CHR ''0'') (nat_to_string 1) = ''00000001''" by code_simp
  then show ?thesis by (simp add: nextNumber_def upsert_sequence_def find_first_def Let_def) (rule exI, rule refl)
qed

lemma demo_invoice_created:
  "\<exists>db1. create_invoice (in_tenant sample_env (Some ''T1''))
     \<lparr>cq_customerId = ''c1'', cq_currency = Some ''USD'', cq_lines = demo_invoice_lines\<rparr> demo_invoice_db = Inr (''0'', db1)"
proof -
  let ?e = "in_tenant sample_env (Some ''T1'')"
  obtain seqs where n: "nextNumber ?e ''invoice'' (Some ''INV-'') (Some 8) demo_invoice_db =
     Inr (''INV-00000001'', demo_invoice_db\<lparr>pf_sequences := seqs\<rparr>)" using demo_invoice_number by blast
  have u: "nat_to_string 0 = ''0''" by code_simp
  have r: "is_ok (invoice_toRow ?e demo_invoice)"
    using demo_total [of "iv_events demo_invoice"]
    by (simp add: invoice_toRow_def money_amount_def db_numeric_def db_decimal_def)
  then obtain data where data: "invoice_toRow ?e demo_invoice = Inr data" by (cases "invoice_toRow ?e demo_invoice") simp_all
  have lines: "demo_invoice_lines \<noteq> []" "iv_id demo_invoice = ''0''"
    "iv_events demo_invoice = [InvoiceCreated ''0'' ''INV-00000001'' ''c1'' (N 6) ''USD'']" by (simp_all add: demo_invoice_lines_def demo_invoice_def)
  show ?thesis
    by (simp add: create_invoice_def require_company_and_access_def noop_abac_def n tx_run draw_uuid_def u demo_invoice_made lines
      invoice_save_def data write_invoices_def invoice_unique_def insert_row_def check_def invoice_publish_def send_events_def
      send_event_def)
qed

definition demo_run :: "bool \<Rightarrow> unit result \<times> invoice_db" where
  "demo_run fresh = generate_recurring_invoice (demo_invoice_call sample_env fresh) demo_occurrence demo_invoice_db"

theorem created_invoice_is_reported_when_fresh_witness:
  "\<forall>fresh. fst (demo_run fresh) = Inr () \<and> iv_rows (snd (demo_run fresh)) \<noteq> [] \<and>
     map_option rx_status (execution_findById ''x1'' (rd_executions (snd (demo_run fresh)))) = Some (if fresh then E_SUCCESS else E_FAILED)"
proof
  fix fresh
  obtain db1 where c: "create_invoice (in_tenant sample_env (Some ''T1''))
     \<lparr>cq_customerId = ''c1'', cq_currency = Some ''USD'', cq_lines = demo_invoice_lines\<rparr> demo_invoice_db = Inr (''0'', db1)"
    using demo_invoice_created by blast
  have "\<exists>db' r'. generate_recurring_invoice (demo_invoice_call sample_env fresh) demo_occurrence demo_invoice_db = (Inr (), db') \<and>
    ''0'' \<in> (\<lambda>q. ix_id (ix_data q)) ` set (iv_rows db') \<and>
    execution_findById (op_executionId demo_occurrence) (rd_executions db') = Some r' \<and>
    (if iq_fresh (demo_invoice_call sample_env fresh) then rx_status r' = E_SUCCESS \<and> rx_generatedDocumentId r' = Some ''0''
     else rx_status r' = E_FAILED \<and> rx_errorMessage r' = Some ''Invoice not found'')"
    by (rule created_invoice_is_reported_when_fresh [of _ _ demo_execution _ demo_invoice_lines _ db1])
      (simp_all add: demo_lines c truthy_def)
  then show "fst (demo_run fresh) = Inr () \<and> iv_rows (snd (demo_run fresh)) \<noteq> [] \<and>
     map_option rx_status (execution_findById ''x1'' (rd_executions (snd (demo_run fresh)))) = Some (if fresh then E_SUCCESS else E_FAILED)"
    by (auto simp: demo_run_def split: if_splits)
qed

lemma generate_returns:
  assumes "execution_findById (op_executionId p) (rd_executions db) = Some r" "rx_status r = E_IN_PROGRESS"
    and "op_targetEntityType p = [] \<or> op_targetEntityType p = ''Invoice''" "op_executionId p \<noteq> []" "truthy (op_partyId p)"
  obtains db1 where "generate_recurring_invoice c p db = (Inr (), db1)"
proof (cases "generate_document c (in_tenant (iq_env c) (op_tenantId p)) p db")
  case (Pair res db2)
  then show thesis using that generate_document_outcome [OF Pair]
    by (auto simp: generate_in_progress [OF assms] io_catch_def fail_occurrence_run)
qed

theorem occurrence_generates_once_witness:
  "\<exists>db1. generate_recurring_invoice (demo_invoice_call sample_env False) demo_occurrence demo_invoice_db = (Inr (), db1) \<and>
     generate_recurring_invoice (demo_invoice_call sample_env True) demo_occurrence db1 = (Inr (), db1)"
proof -
  obtain db1 where g: "generate_recurring_invoice (demo_invoice_call sample_env False) demo_occurrence demo_invoice_db = (Inr (), db1)"
    by (rule generate_returns [of demo_occurrence demo_invoice_db demo_execution]) (simp_all add: truthy_def)
  then show ?thesis using occurrence_generates_once [OF g] by blast
qed

definition demo_worker_env :: env where
  "demo_worker_env = sample_env\<lparr>e_ctx := ctx_run_context None
     (empty_patch\<lparr>p_tenantId := Some (Some ''T1''), p_correlationId := Some ''k''\<rparr>)\<rparr>"

definition demo_rent :: recurring_template where
  "demo_rent = demo_template\<lparr>rt_targetEntityType := ''Invoice'', rt_partyId := Some ''c1''\<rparr>"

definition demo_rent_context :: recurring_context where
  "demo_rent_context = \<lparr>rc_tenantId = Some ''T1'', rc_recurringTemplateId = ''t1'', rc_triggerKey = ''k'', rc_traceId = ''x'',
     rc_executionId = Some ''x1'', rc_autoPost = False, rc_eventPayload = None\<rparr>"

theorem scheduled_occurrence_makes_no_invoice_witness:
  "let m = toEnvelope (last (pf_outbox (snd (projr
       (send_event demo_worker_env ''RecurringTemplate'' ''t1'' (occurrence_requested demo_rent ''x1'' demo_rent_context) demo_rec_db)))))
   in \<exists>db' r'. onRecurringOccurrenceRequested (demo_invoice_call sample_env True) m demo_invoice_db = (Inr (), db') \<and>
        iv_rows db' = [] \<and> execution_findById ''x1'' (rd_executions db') = Some r' \<and> rx_status r' = E_FAILED"
proof -
  have "rt_id demo_rent = ''t1''" by (simp add: demo_rent_def)
  moreover obtain db1 where s: "send_event demo_worker_env ''RecurringTemplate'' ''t1''
      (occurrence_requested demo_rent ''x1'' demo_rent_context) demo_rec_db = Inr ((), db1)"
    by (auto simp: send_event_def draw_uuid_def tx_run)
  ultimately have "\<exists>db' r'. onRecurringOccurrenceRequested (demo_invoice_call sample_env True) (toEnvelope (last (pf_outbox db1)))
        demo_invoice_db = (Inr (), db') \<and> iv_rows db' = iv_rows demo_invoice_db \<and>
      execution_findById ''x1'' (rd_executions db') = Some r' \<and> rx_status r' = E_FAILED"
    by (intro scheduled_occurrence_makes_no_invoice [where ?e0.0 = demo_worker_env and t = demo_rent and rctx = demo_rent_context
          and ?db0.0 = demo_rec_db and tenant = "Some ''T1''" and key = "''k''" and r = demo_execution])
      (simp_all add: demo_worker_env_def demo_rent_def truthy_def)
  with s show ?thesis by simp
qed

end
